(* ===== verification/SP_Prelude.thy ===== *)
theory SP_Prelude
  imports Main "HOL-Library.Signed_Division"
begin

text \<open>
  Shared vocabulary of the development.  Go's fixed-width integers are modelled as \<^typ>\<open>int\<close>
  with the wrap-around written out: \<open>i64\<close>, \<open>i32\<close>, \<open>u64\<close>, \<open>u32\<close> and \<open>u8\<close> are the conversions to
  \<open>int64\<close>, \<open>int32\<close>, \<open>uint64\<close>, \<open>uint32\<close> and \<open>uint8\<close>, and the predicates \<open>is_i64\<close> and so on say that a
  value is in the range of the type.  Go's \<open>int\<close> is 64 bits wide.  Integer division of Go truncates
  towards zero; it is \<open>sdiv\<close> and \<open>smod\<close> of the library.  The collection \<open>range_defs\<close> unfolds the
  range predicates, \<open>wrap_simps\<close> removes a wrap-around whose argument is in range.
\<close>

named_theorems range_defs "definitions of the ranges of the fixed-width integers"
named_theorems wrap_simps "wrap-around is the identity on values in range"

definition i64 :: "int \<Rightarrow> int" where
  "i64 x = (x + 2 ^ 63) mod 2 ^ 64 - 2 ^ 63"

definition i32 :: "int \<Rightarrow> int" where
  "i32 x = (x + 2 ^ 31) mod 2 ^ 32 - 2 ^ 31"

definition u64 :: "int \<Rightarrow> int" where
  "u64 x = x mod 2 ^ 64"

definition u32 :: "int \<Rightarrow> int" where
  "u32 x = x mod 2 ^ 32"

definition u8 :: "int \<Rightarrow> int" where
  "u8 x = x mod 2 ^ 8"

definition is_i64 :: "int \<Rightarrow> bool" where
  [range_defs]: "is_i64 x \<longleftrightarrow> - (2 ^ 63) \<le> x \<and> x < 2 ^ 63"

definition is_i32 :: "int \<Rightarrow> bool" where
  [range_defs]: "is_i32 x \<longleftrightarrow> - (2 ^ 31) \<le> x \<and> x < 2 ^ 31"

definition is_u64 :: "int \<Rightarrow> bool" where
  [range_defs]: "is_u64 x \<longleftrightarrow> 0 \<le> x \<and> x < 2 ^ 64"

definition is_u32 :: "int \<Rightarrow> bool" where
  [range_defs]: "is_u32 x \<longleftrightarrow> 0 \<le> x \<and> x < 2 ^ 32"

definition is_u8 :: "int \<Rightarrow> bool" where
  [range_defs]: "is_u8 x \<longleftrightarrow> 0 \<le> x \<and> x < 2 ^ 8"

text \<open>The constants \<open>math.MaxInt64\<close>, \<open>math.MinInt64\<close>, \<open>math.MaxUint32\<close> and so on of the library.\<close>

abbreviation MaxInt64 :: int where "MaxInt64 \<equiv> 9223372036854775807"
abbreviation MinInt64 :: int where "MinInt64 \<equiv> - 9223372036854775808"
abbreviation MaxUint64 :: int where "MaxUint64 \<equiv> 18446744073709551615"
abbreviation MaxUint32 :: int where "MaxUint32 \<equiv> 4294967295"
abbreviation MaxInt32 :: int where "MaxInt32 \<equiv> 2147483647"

subsection \<open>Conversions stay in range and fix the values in range\<close>

lemma is_i64_i64 [simp]: "is_i64 (i64 x)"
  unfolding is_i64_def i64_def
  using pos_mod_bound [of "2 ^ 64" "x + 2 ^ 63"] pos_mod_sign [of "2 ^ 64" "x + 2 ^ 63"] by simp

lemma is_i32_i32 [simp]: "is_i32 (i32 x)"
  unfolding is_i32_def i32_def
  using pos_mod_bound [of "2 ^ 32" "x + 2 ^ 31"] pos_mod_sign [of "2 ^ 32" "x + 2 ^ 31"] by simp

lemma is_u64_u64 [simp]: "is_u64 (u64 x)"
  by (simp add: is_u64_def u64_def)

lemma is_u32_u32 [simp]: "is_u32 (u32 x)"
  by (simp add: is_u32_def u32_def)

lemma i64_id [wrap_simps]: "- 9223372036854775808 \<le> x \<Longrightarrow> x < 9223372036854775808 \<Longrightarrow> i64 x = x"
  by (simp add: i64_def)

lemma i32_id [wrap_simps]: "- 2147483648 \<le> x \<Longrightarrow> x < 2147483648 \<Longrightarrow> i32 x = x"
  by (simp add: i32_def)

lemma u64_id [wrap_simps]: "0 \<le> x \<Longrightarrow> x < 18446744073709551616 \<Longrightarrow> u64 x = x"
  by (simp add: u64_def)

lemma u32_id [wrap_simps]: "0 \<le> x \<Longrightarrow> x < 4294967296 \<Longrightarrow> u32 x = x"
  by (simp add: u32_def)

lemma i64_fix [simp]: "is_i64 x \<Longrightarrow> i64 x = x"
  by (simp add: is_i64_def i64_id)

lemma i32_fix [simp]: "is_i32 x \<Longrightarrow> i32 x = x"
  by (simp add: is_i32_def i32_id)

lemma u64_fix [simp]: "is_u64 x \<Longrightarrow> u64 x = x"
  by (simp add: is_u64_def u64_id)

lemma u32_fix [simp]: "is_u32 x \<Longrightarrow> u32 x = x"
  by (simp add: is_u32_def u32_id)

text \<open>Wrapping once at the end of a sum is wrapping at every step.\<close>

lemma i64_cong: "i64 x mod 2 ^ 64 = x mod 2 ^ 64"
  unfolding i64_def by (simp add: mod_diff_left_eq)

lemma i64_add_left [simp]: "i64 (i64 a + b) = i64 (a + b)"
proof -
  have "(i64 a + b + 2 ^ 63) mod 2 ^ 64 = (a + b + 2 ^ 63) mod 2 ^ 64"
    by (metis (no_types, lifting) add.assoc i64_cong mod_add_left_eq)
  then show ?thesis by (simp add: i64_def [of "i64 a + b"] i64_def [of "a + b"])
qed

lemma i64_diff_left [simp]: "i64 (i64 a - b) = i64 (a - b)"
  using i64_add_left [of a "- b"] by simp

lemma i64_add_sub_cancel: "is_i64 a \<Longrightarrow> i64 (i64 (a + b) - b) = a"
  by simp

subsection \<open>Truncating division on non-negative numbers\<close>

lemma sdiv_nonneg: "0 \<le> a \<Longrightarrow> 0 < b \<Longrightarrow> a sdiv b = a div (b :: int)"
  by (cases "a = 0") (simp_all add: signed_divide_int_def)

lemma smod_nonneg: "0 \<le> a \<Longrightarrow> 0 < b \<Longrightarrow> a smod b = a mod (b :: int)"
  by (cases "a = 0") (simp_all add: signed_modulo_int_def)

subsection \<open>Results\<close>

text \<open>
  A Go function that returns \<open>(value, error)\<close> is a function into \<open>'e + 'a\<close>: \<open>Inl\<close> is a non-nil error.
\<close>

fun is_ok :: "'e + 'a \<Rightarrow> bool" where
  "is_ok (Inl _) = False"
| "is_ok (Inr _) = True"

lemma is_ok_iff: "is_ok r \<longleftrightarrow> (\<exists>x. r = Inr x)"
  by (cases r) auto

subsection \<open>Lists and conversions\<close>

lemma find_append: "find p (xs @ ys) = (case find p xs of None \<Rightarrow> find p ys | Some x \<Rightarrow> Some x)"
  by (induction xs) auto

lemma append_sep: "c \<notin> set xs \<Longrightarrow> c \<notin> set ys \<Longrightarrow> xs @ c # xs' = ys @ c # ys' \<longleftrightarrow> xs = ys \<and> xs' = ys'"
proof (induction xs arbitrary: ys)
  case (Cons x xs)
  then show ?case by (cases ys) auto
qed (auto simp: Cons_eq_append_conv)

lemma u64_add_left: "u64 (u64 a + b) = u64 (a + b)"
  by (simp add: u64_def mod_simps)

lemma u64_i64: "u64 (i64 x) = u64 x"
proof -
  have "(i64 x) mod 18446744073709551616 = (x + 9223372036854775808 - 9223372036854775808) mod 18446744073709551616"
    unfolding i64_def by (simp add: mod_simps del: add_diff_cancel_right')
  then show ?thesis by (simp add: u64_def)
qed

end
