(* ===== verification/SP_Limit.thy ===== *)
theory SP_Limit
  imports SP_Prelude
begin

text \<open>
  Resource limits: \<^verbatim>\<open>src/base/types/gfsplimit/limit.go\<close> over the message \<open>GfSpLimit\<close>, and the
  enumerations of \<^verbatim>\<open>src/core/rcmgr/rcmgr.go\<close>.  A limit has one \<open>int64\<close> field and eight \<open>int32\<close> fields;
  the getters widen to \<open>int\<close>.  The operations \<open>NotLess\<close>, \<open>Add\<close>, \<open>Sub\<close> and \<open>Equal\<close> work on all nine
  fields.  \<open>NotLess\<close> is a partial order (an interpretation of the library's \<open>ordering\<close>), \<open>Sub\<close>
  succeeds exactly where \<open>NotLess\<close> holds, and \<open>Sub\<close> and \<open>Add\<close> are inverse to each other.
\<close>

subsection \<open>Enumerations and records\<close>

datatype Direction = DirUnknown | DirInbound | DirOutbound

datatype ReserveTaskPriority =
    ReserveTaskPriorityUnknown | ReserveTaskPriorityHigh
  | ReserveTaskPriorityMedium | ReserveTaskPriorityLow

record ScopeStat =
  stMemory :: int
  stNumTasksHigh :: int
  stNumTasksMedium :: int
  stNumTasksLow :: int
  stNumConnsInbound :: int
  stNumConnsOutbound :: int
  stNumFD :: int

record GfSpLimit =
  limMemory :: int
  limTasks :: int
  limTasksHighPriority :: int
  limTasksMediumPriority :: int
  limTasksLowPriority :: int
  limFd :: int
  limConns :: int
  limConnsInbound :: int
  limConnsOutbound :: int

text \<open>The zero value \<open>&GfSpLimit{}\<close>.\<close>

definition zero_limit :: GfSpLimit where
  "zero_limit = \<lparr>limMemory = 0, limTasks = 0, limTasksHighPriority = 0, limTasksMediumPriority = 0,
     limTasksLowPriority = 0, limFd = 0, limConns = 0, limConnsInbound = 0, limConnsOutbound = 0\<rparr>"

text \<open>The ranges the fields of a Go value always have.\<close>

definition limit_typed :: "GfSpLimit \<Rightarrow> bool" where
  "limit_typed m \<longleftrightarrow> is_i64 (limMemory m) \<and> is_i32 (limTasks m) \<and> is_i32 (limTasksHighPriority m)
     \<and> is_i32 (limTasksMediumPriority m) \<and> is_i32 (limTasksLowPriority m) \<and> is_i32 (limFd m)
     \<and> is_i32 (limConns m) \<and> is_i32 (limConnsInbound m) \<and> is_i32 (limConnsOutbound m)"

subsection \<open>Getters\<close>

definition GetMemoryLimit :: "GfSpLimit \<Rightarrow> int" where
  "GetMemoryLimit m = limMemory m"

definition GetFDLimit :: "GfSpLimit \<Rightarrow> int" where
  "GetFDLimit m = limFd m"

definition GetConnLimit :: "GfSpLimit \<Rightarrow> Direction \<Rightarrow> int" where
  "GetConnLimit m direction =
     (if direction = DirOutbound then limConnsOutbound m else limConnsInbound m)"

definition GetConnTotalLimit :: "GfSpLimit \<Rightarrow> int" where
  "GetConnTotalLimit m = limConns m"

definition GetTaskLimit :: "GfSpLimit \<Rightarrow> ReserveTaskPriority \<Rightarrow> int" where
  "GetTaskLimit m priority =
     (if priority = ReserveTaskPriorityHigh then limTasksHighPriority m
      else if priority = ReserveTaskPriorityMedium then limTasksMediumPriority m
      else limTasksLowPriority m)"

definition GetTaskTotalLimit :: "GfSpLimit \<Rightarrow> int" where
  "GetTaskTotalLimit m = limTasks m"

lemmas getter_defs = GetMemoryLimit_def GetFDLimit_def GetConnLimit_def GetConnTotalLimit_def
  GetTaskLimit_def GetTaskTotalLimit_def

definition limit_ScopeStat :: "GfSpLimit \<Rightarrow> ScopeStat" where
  "limit_ScopeStat m = \<lparr>stMemory = limMemory m,
     stNumTasksHigh = i64 (GetTaskLimit m ReserveTaskPriorityHigh),
     stNumTasksMedium = i64 (GetTaskLimit m ReserveTaskPriorityMedium),
     stNumTasksLow = i64 (GetTaskLimit m ReserveTaskPriorityLow),
     stNumConnsInbound = i64 (GetConnLimit m DirInbound),
     stNumConnsOutbound = i64 (GetConnLimit m DirOutbound),
     stNumFD = i64 (GetFDLimit m)\<rparr>"

subsection \<open>Comparison and arithmetic\<close>

definition NotLess :: "GfSpLimit \<Rightarrow> GfSpLimit \<Rightarrow> bool" where
  "NotLess m x =
     (if GetMemoryLimit m < GetMemoryLimit x then False
      else if GetFDLimit m < GetFDLimit x then False
      else if GetTaskTotalLimit m < GetTaskTotalLimit x then False
      else if GetConnLimit m DirOutbound < GetConnLimit x DirOutbound then False
      else if GetConnLimit m DirInbound < GetConnLimit x DirInbound then False
      else if GetConnTotalLimit m < GetConnTotalLimit x then False
      else if GetTaskLimit m ReserveTaskPriorityHigh < GetTaskLimit x ReserveTaskPriorityHigh then False
      else if GetTaskLimit m ReserveTaskPriorityMedium < GetTaskLimit x ReserveTaskPriorityMedium
      then False
      else if GetTaskLimit m ReserveTaskPriorityLow < GetTaskLimit x ReserveTaskPriorityLow then False
      else True)"

definition limit_Add :: "GfSpLimit \<Rightarrow> GfSpLimit \<Rightarrow> GfSpLimit" where
  "limit_Add m x = \<lparr>
     limMemory = i64 (limMemory m + GetMemoryLimit x),
     limTasks = i32 (limTasks m + i32 (GetTaskTotalLimit x)),
     limTasksHighPriority = i32 (limTasksHighPriority m + i32 (GetTaskLimit x ReserveTaskPriorityHigh)),
     limTasksMediumPriority =
       i32 (limTasksMediumPriority m + i32 (GetTaskLimit x ReserveTaskPriorityMedium)),
     limTasksLowPriority = i32 (limTasksLowPriority m + i32 (GetTaskLimit x ReserveTaskPriorityLow)),
     limFd = i32 (limFd m + i32 (GetFDLimit x)),
     limConns = i32 (limConns m + i32 (GetConnTotalLimit x)),
     limConnsInbound = i32 (limConnsInbound m + i32 (GetConnLimit x DirInbound)),
     limConnsOutbound = i32 (limConnsOutbound m + i32 (GetConnLimit x DirOutbound))\<rparr>"

text \<open>\<open>Sub\<close> returns whether it succeeded and the receiver after the call.\<close>

definition limit_Sub :: "GfSpLimit \<Rightarrow> GfSpLimit \<Rightarrow> GfSpLimit \<times> bool" where
  "limit_Sub m x = (if \<not> NotLess m x then (m, False) else (\<lparr>
     limMemory = i64 (limMemory m - GetMemoryLimit x),
     limTasks = i32 (limTasks m - i32 (GetTaskTotalLimit x)),
     limTasksHighPriority = i32 (limTasksHighPriority m - i32 (GetTaskLimit x ReserveTaskPriorityHigh)),
     limTasksMediumPriority =
       i32 (limTasksMediumPriority m - i32 (GetTaskLimit x ReserveTaskPriorityMedium)),
     limTasksLowPriority = i32 (limTasksLowPriority m - i32 (GetTaskLimit x ReserveTaskPriorityLow)),
     limFd = i32 (limFd m - i32 (GetFDLimit x)),
     limConns = i32 (limConns m - i32 (GetConnTotalLimit x)),
     limConnsInbound = i32 (limConnsInbound m - i32 (GetConnLimit x DirInbound)),
     limConnsOutbound = i32 (limConnsOutbound m - i32 (GetConnLimit x DirOutbound))\<rparr>, True))"

definition limit_Equal :: "GfSpLimit \<Rightarrow> GfSpLimit \<Rightarrow> bool" where
  "limit_Equal m x =
     (if GetMemoryLimit m \<noteq> GetMemoryLimit x then False
      else if GetFDLimit m \<noteq> GetFDLimit x then False
      else if GetTaskTotalLimit m \<noteq> GetTaskTotalLimit x then False
      else if GetConnLimit m DirOutbound \<noteq> GetConnLimit x DirOutbound then False
      else if GetConnLimit m DirInbound \<noteq> GetConnLimit x DirInbound then False
      else if GetConnTotalLimit m \<noteq> GetConnTotalLimit x then False
      else if GetTaskLimit m ReserveTaskPriorityHigh \<noteq> GetTaskLimit x ReserveTaskPriorityHigh then False
      else if GetTaskLimit m ReserveTaskPriorityMedium \<noteq> GetTaskLimit x ReserveTaskPriorityMedium
      then False
      else if GetTaskLimit m ReserveTaskPriorityLow \<noteq> GetTaskLimit x ReserveTaskPriorityLow then False
      else True)"

record GfSpLimiter =
  limiterSystem :: "GfSpLimit option"
  limiterTransient :: "GfSpLimit option"
  limiterServiceLimit :: "string \<rightharpoonup> GfSpLimit"

definition GetSystemLimits :: "GfSpLimiter \<Rightarrow> GfSpLimit option" where
  "GetSystemLimits m = limiterSystem m"

definition GetTransientLimits :: "GfSpLimiter \<Rightarrow> GfSpLimit option" where
  "GetTransientLimits m = limiterTransient m"

definition GetServiceLimits :: "GfSpLimiter \<Rightarrow> string \<Rightarrow> GfSpLimit option" where
  "GetServiceLimits m svc =
     (if limiterServiceLimit m svc = None then None else limiterServiceLimit m svc)"

subsection \<open>NotLess is a partial order, Equal its equality\<close>

lemma NotLess_iff:
  "NotLess m x \<longleftrightarrow> limMemory x \<le> limMemory m \<and> limFd x \<le> limFd m \<and> limTasks x \<le> limTasks m
     \<and> limConnsOutbound x \<le> limConnsOutbound m \<and> limConnsInbound x \<le> limConnsInbound m
     \<and> limConns x \<le> limConns m \<and> limTasksHighPriority x \<le> limTasksHighPriority m
     \<and> limTasksMediumPriority x \<le> limTasksMediumPriority m
     \<and> limTasksLowPriority x \<le> limTasksLowPriority m"
  by (auto simp: NotLess_def getter_defs)

lemma limit_Equal_iff: "limit_Equal m x \<longleftrightarrow> m = x"
  by (cases m; cases x) (auto simp: limit_Equal_def getter_defs)

interpretation limit_order: ordering "\<lambda>x m. NotLess m x" "\<lambda>x m. NotLess m x \<and> x \<noteq> m"
proof (unfold_locales, goal_cases)
  case 4 then show ?case by (intro GfSpLimit.equality) (auto simp: NotLess_iff)
qed (auto simp: NotLess_iff)

lemma limit_Sub_fields:
  assumes "limit_Sub m x = (m', True)" and "limit_typed m" and "limit_typed x"
    and "NotLess x zero_limit"
  shows "limMemory m' = limMemory m - limMemory x" "limTasks m' = limTasks m - limTasks x"
    "limTasksHighPriority m' = limTasksHighPriority m - limTasksHighPriority x"
    "limTasksMediumPriority m' = limTasksMediumPriority m - limTasksMediumPriority x"
    "limTasksLowPriority m' = limTasksLowPriority m - limTasksLowPriority x"
    "limFd m' = limFd m - limFd x" "limConns m' = limConns m - limConns x"
    "limConnsInbound m' = limConnsInbound m - limConnsInbound x"
    "limConnsOutbound m' = limConnsOutbound m - limConnsOutbound x"
  using assms
  by (auto simp: limit_Sub_def NotLess_iff limit_typed_def getter_defs range_defs zero_limit_def
      wrap_simps split: if_splits)

text \<open>
  Subtracting a non-negative limit that fits and adding it back gives the limit the scheduler
  started with, no field wraps on the way, and what is left is itself non-negative: the pair of
  operations the task scheduler uses to account for dispatched tasks neither leaks nor invents
  capacity.
\<close>

theorem limit_Sub_Add_roundtrip:
  assumes "limit_typed m" and "limit_typed x" and "NotLess x zero_limit" and "NotLess m x"
  shows "\<exists>m'. limit_Sub m x = (m', True) \<and> limit_Add m' x = m \<and> NotLess m' zero_limit
    \<and> limit_typed m' \<and> NotLess m m'"
proof -
  obtain m' where m': "limit_Sub m x = (m', True)"
    using assms(4) by (simp add: limit_Sub_def)
  note f = limit_Sub_fields [OF m' assms(1,2,3)]
  have "limit_typed m'" "NotLess m' zero_limit" "NotLess m m'"
    using assms f by (auto simp: limit_typed_def NotLess_iff range_defs zero_limit_def)
  moreover have "limit_Add m' x = m"
    using assms(1,2) f by (auto simp: limit_Add_def getter_defs limit_typed_def)
  ultimately show ?thesis using m' by blast
qed

theorem limit_Sub_Add_roundtrip_witness:
  "\<exists>m'. limit_Sub (zero_limit\<lparr>limTasks := 5, limMemory := 7\<rparr>) (zero_limit\<lparr>limTasks := 2\<rparr>) = (m', True)
    \<and> limit_Add m' (zero_limit\<lparr>limTasks := 2\<rparr>) = zero_limit\<lparr>limTasks := 5, limMemory := 7\<rparr>
    \<and> NotLess m' zero_limit"
proof -
  have "limit_typed (zero_limit\<lparr>limTasks := 5, limMemory := 7\<rparr>)" "limit_typed (zero_limit\<lparr>limTasks := 2\<rparr>)"
    "NotLess (zero_limit\<lparr>limTasks := 2\<rparr>) zero_limit"
    "NotLess (zero_limit\<lparr>limTasks := 5, limMemory := 7\<rparr>) (zero_limit\<lparr>limTasks := 2\<rparr>)"
    by (simp_all add: limit_typed_def zero_limit_def range_defs NotLess_iff)
  then show ?thesis using limit_Sub_Add_roundtrip by blast
qed

end
