(* ===== verification/SP_Resources.thy ===== *)
theory SP_Resources
  imports SP_Limit
begin

text \<open>
  The accounting of one resource scope: \<^verbatim>\<open>src/base/gfsprcmgr/resource.go\<close> with the errors of
  \<^verbatim>\<open>src/base/gfsprcmgr/error.go\<close>.  A \<open>resources\<close> value holds the limit and the amounts in use; every
  operation is a function on it, fallible ones return \<open>rc_error + resources\<close>.  The invariant
  \<open>rc_inv\<close> says that no amount is negative or above its limit; every operation keeps it.  The
  memory threshold is computed in 64-bit arithmetic with an overflow test and a detour through
  big integers: \<open>mem_threshold_exact\<close> shows that both paths give the exact quotient.
\<close>

subsection \<open>State and errors\<close>

record resources =
  rcLimit :: GfSpLimit
  nconnsIn :: int
  nconnsOut :: int
  nfd :: int
  ntasksHigh :: int
  ntasksMedium :: int
  ntasksLow :: int
  memory :: int

datatype limit_kind =
    TotalTask | HighTask | MediumTask | LowTask | InboundConn | OutboundConn | TotalConn | FileDesc

text \<open>
  \<open>NegativeMemory\<close> is the formatted error of \<open>checkMemory\<close>; \<open>wrapError\<close> prefixes a scope's name.
  The \<open>fmt.Errorf\<close> texts that tell the limits apart are the constructors of \<open>limit_kind\<close>.
\<close>

datatype rc_error =
    NegativeMemory int
  | ErrMemoryLimitExceeded int int int int \<comment> \<open>current, attempted, limit, priority\<close>
  | ErrTaskLimitExceeded limit_kind int int int \<comment> \<open>current, attempted, limit\<close>
  | ErrConnLimitExceeded limit_kind int int int
  | ErrResourceScopeClosed
  | Wrapped string rc_error

definition new_resources :: "GfSpLimit \<Rightarrow> resources" where
  "new_resources l = \<lparr>rcLimit = l, nconnsIn = 0, nconnsOut = 0, nfd = 0, ntasksHigh = 0,
     ntasksMedium = 0, ntasksLow = 0, memory = 0\<rparr>"

subsection \<open>What is left\<close>

definition remaining :: "resources \<Rightarrow> GfSpLimit" where
  "remaining rc = zero_limit\<lparr>
     limMemory :=
       (if GetMemoryLimit (rcLimit rc) > memory rc
        then i64 (GetMemoryLimit (rcLimit rc) - memory rc) else 0),
     limTasks :=
       (if GetTaskTotalLimit (rcLimit rc) > i64 (ntasksHigh rc + ntasksMedium rc + ntasksLow rc)
        then i32 (GetTaskTotalLimit (rcLimit rc)
               - i64 (ntasksHigh rc + ntasksMedium rc + ntasksLow rc)) else 0),
     limTasksHighPriority :=
       (if GetTaskLimit (rcLimit rc) ReserveTaskPriorityHigh > ntasksHigh rc
        then i32 (GetTaskLimit (rcLimit rc) ReserveTaskPriorityHigh - ntasksHigh rc) else 0),
     limTasksMediumPriority :=
       (if GetTaskLimit (rcLimit rc) ReserveTaskPriorityMedium > ntasksMedium rc
        then i32 (GetTaskLimit (rcLimit rc) ReserveTaskPriorityMedium - ntasksMedium rc) else 0),
     limTasksLowPriority :=
       (if GetTaskLimit (rcLimit rc) ReserveTaskPriorityLow > ntasksLow rc
        then i32 (GetTaskLimit (rcLimit rc) ReserveTaskPriorityLow - ntasksLow rc) else 0)\<rparr>"

subsection \<open>Memory\<close>

definition addInt64WithOverflow :: "int \<Rightarrow> int \<Rightarrow> int \<times> bool" where
  "addInt64WithOverflow a b = (let c = i64 (a + b) in (c, (c > a) = (b > 0)))"

definition mulInt64WithOverflow :: "int \<Rightarrow> int \<Rightarrow> int \<times> bool" where
  "mulInt64WithOverflow a b =
     (let c = i64 (a * b)
      in if a = 0 \<or> b = 0 \<or> a = 1 \<or> b = 1 then (c, True)
         else if a = MaxInt64 \<or> b = MinInt64 then (c, False)
         else (c, i64 (c sdiv b) = a))"

text \<open>The part of \<open>checkMemory\<close> before the label \<open>finish\<close>.\<close>

definition mem_threshold :: "int \<Rightarrow> int \<Rightarrow> int" where
  "mem_threshold limit prio =
     (let (threshold, mulOk) = mulInt64WithOverflow (1 + prio) limit
      in if \<not> mulOk
         then (let thresholdBig = (limit * (1 + prio)) div 2 ^ 8
               in if \<not> is_i64 thresholdBig then limit else thresholdBig)
         else threshold sdiv 256)"

definition checkMemory :: "resources \<Rightarrow> int \<Rightarrow> int \<Rightarrow> rc_error option" where
  "checkMemory rc rsvp prio =
     (if rsvp < 0 then Some (NegativeMemory rsvp)
      else let limit = GetMemoryLimit (rcLimit rc)
      in if limit = MaxInt64 then None
      else let (newMem, addOk) = addInt64WithOverflow (memory rc) rsvp;
               threshold = mem_threshold limit prio
      in if \<not> addOk \<or> newMem > threshold
         then Some (ErrMemoryLimitExceeded (memory rc) rsvp limit prio)
         else None)"

definition reserveMemory :: "resources \<Rightarrow> int \<Rightarrow> int \<Rightarrow> rc_error + resources" where
  "reserveMemory rc sz prio =
     (case checkMemory rc sz prio of
        Some err \<Rightarrow> Inl err
      | None \<Rightarrow> Inr (rc\<lparr>memory := i64 (memory rc + sz)\<rparr>))"

definition releaseMemory :: "resources \<Rightarrow> int \<Rightarrow> resources" where
  "releaseMemory rc sz =
     (let m = i64 (memory rc - sz) in if m < 0 then rc\<lparr>memory := 0\<rparr> else rc\<lparr>memory := m\<rparr>)"

subsection \<open>Tasks\<close>

definition addTasks :: "resources \<Rightarrow> int \<Rightarrow> int \<Rightarrow> int \<Rightarrow> rc_error + resources" where
  "addTasks rc high medium low =
     (let l = rcLimit rc in
      if i64 (ntasksHigh rc + ntasksMedium rc + ntasksLow rc + high + medium + low) > GetTaskTotalLimit l
      then Inl (ErrTaskLimitExceeded TotalTask (i64 (ntasksHigh rc + ntasksMedium rc + ntasksLow rc))
             (i64 (high + medium + low)) (GetTaskTotalLimit l))
      else if i64 (high + ntasksHigh rc) > GetTaskLimit l ReserveTaskPriorityHigh
      then Inl (ErrTaskLimitExceeded HighTask (ntasksHigh rc) high
             (GetTaskLimit l ReserveTaskPriorityHigh))
      else if i64 (medium + ntasksMedium rc) > GetTaskLimit l ReserveTaskPriorityMedium
      then Inl (ErrTaskLimitExceeded MediumTask (ntasksMedium rc) medium
             (GetTaskLimit l ReserveTaskPriorityMedium))
      else if i64 (low + ntasksLow rc) > GetTaskLimit l ReserveTaskPriorityLow
      then Inl (ErrTaskLimitExceeded LowTask (ntasksLow rc) low (GetTaskLimit l ReserveTaskPriorityLow))
      else Inr (rc\<lparr>ntasksHigh := i64 (ntasksHigh rc + high),
                   ntasksMedium := i64 (ntasksMedium rc + medium),
                   ntasksLow := i64 (ntasksLow rc + low)\<rparr>))"

definition addTask :: "resources \<Rightarrow> int \<Rightarrow> ReserveTaskPriority \<Rightarrow> rc_error + resources" where
  "addTask rc num prio =
     (if prio = ReserveTaskPriorityHigh then addTasks rc num 0 0
      else if prio = ReserveTaskPriorityMedium then addTasks rc 0 num 0
      else addTasks rc 0 0 num)"

text \<open>The sanity check after a decrement: a negative counter is set to zero.\<close>

definition floor0 :: "int \<Rightarrow> int" where
  "floor0 x = (if x < 0 then 0 else x)"

definition removeTasks :: "resources \<Rightarrow> int \<Rightarrow> int \<Rightarrow> int \<Rightarrow> resources" where
  "removeTasks rc high medium low =
     rc\<lparr>ntasksHigh := floor0 (i64 (ntasksHigh rc - high)),
        ntasksMedium := floor0 (i64 (ntasksMedium rc - medium)),
        ntasksLow := floor0 (i64 (ntasksLow rc - low))\<rparr>"

definition removeTask :: "resources \<Rightarrow> int \<Rightarrow> ReserveTaskPriority \<Rightarrow> resources" where
  "removeTask rc num prio =
     (if prio = ReserveTaskPriorityHigh then removeTasks rc num 0 0
      else if prio = ReserveTaskPriorityMedium then removeTasks rc 0 num 0
      else if prio = ReserveTaskPriorityLow then removeTasks rc 0 0 num
      else rc)"

subsection \<open>Connections\<close>

definition addConns :: "resources \<Rightarrow> int \<Rightarrow> int \<Rightarrow> int \<Rightarrow> rc_error + resources" where
  "addConns rc inCount outCount fdCount =
     (let l = rcLimit rc in
      if inCount > 0 \<and> i64 (nconnsIn rc + inCount) > GetConnLimit l DirInbound
      then Inl (ErrConnLimitExceeded InboundConn (nconnsIn rc) inCount (GetConnLimit l DirInbound))
      else if outCount > 0 \<and> i64 (nconnsOut rc + outCount) > GetConnLimit l DirOutbound
      then Inl (ErrConnLimitExceeded OutboundConn (nconnsOut rc) outCount (GetConnLimit l DirOutbound))
      else if i64 (nconnsIn rc + inCount + nconnsOut rc + outCount) > GetConnTotalLimit l
      then Inl (ErrConnLimitExceeded TotalConn (i64 (nconnsIn rc + nconnsOut rc))
             (i64 (inCount + outCount)) (GetConnTotalLimit l))
      else if fdCount > 0 \<and> i64 (nfd rc + fdCount) > GetFDLimit l
      then Inl (ErrConnLimitExceeded FileDesc (nfd rc) fdCount (GetFDLimit l))
      else Inr (rc\<lparr>nconnsIn := i64 (nconnsIn rc + inCount),
                   nconnsOut := i64 (nconnsOut rc + outCount),
                   nfd := i64 (nfd rc + fdCount)\<rparr>))"

definition addConn :: "resources \<Rightarrow> Direction \<Rightarrow> rc_error + resources" where
  "addConn rc dir = (if dir = DirInbound then addConns rc 1 0 1 else addConns rc 0 1 1)"

definition removeConns :: "resources \<Rightarrow> int \<Rightarrow> int \<Rightarrow> int \<Rightarrow> resources" where
  "removeConns rc inCount outCount fdCount =
     rc\<lparr>nconnsIn := floor0 (i64 (nconnsIn rc - inCount)),
        nconnsOut := floor0 (i64 (nconnsOut rc - outCount)),
        nfd := floor0 (i64 (nfd rc - fdCount))\<rparr>"

text \<open>There is no \<open>return\<close> after the inbound branch: the second call runs for both directions.\<close>

definition removeConn :: "resources \<Rightarrow> Direction \<Rightarrow> resources" where
  "removeConn rc dir =
     (let rc1 = (if dir = DirInbound then removeConns rc 1 0 1 else rc) in removeConns rc1 0 1 1)"

definition rc_stat :: "resources \<Rightarrow> ScopeStat" where
  "rc_stat rc = \<lparr>stMemory = memory rc, stNumTasksHigh = ntasksHigh rc,
     stNumTasksMedium = ntasksMedium rc, stNumTasksLow = ntasksLow rc,
     stNumConnsInbound = nconnsIn rc, stNumConnsOutbound = nconnsOut rc, stNumFD = nfd rc\<rparr>"

subsection \<open>The invariant\<close>

definition rc_inv :: "resources \<Rightarrow> bool" where
  "rc_inv rc \<longleftrightarrow> limit_typed (rcLimit rc) \<and> limMemory (rcLimit rc) < MaxInt64
     \<and> 0 \<le> memory rc \<and> memory rc \<le> limMemory (rcLimit rc)
     \<and> 0 \<le> ntasksHigh rc \<and> ntasksHigh rc \<le> limTasksHighPriority (rcLimit rc)
     \<and> 0 \<le> ntasksMedium rc \<and> ntasksMedium rc \<le> limTasksMediumPriority (rcLimit rc)
     \<and> 0 \<le> ntasksLow rc \<and> ntasksLow rc \<le> limTasksLowPriority (rcLimit rc)
     \<and> ntasksHigh rc + ntasksMedium rc + ntasksLow rc \<le> limTasks (rcLimit rc)
     \<and> 0 \<le> nconnsIn rc \<and> nconnsIn rc \<le> limConnsInbound (rcLimit rc)
     \<and> 0 \<le> nconnsOut rc \<and> nconnsOut rc \<le> limConnsOutbound (rcLimit rc)
     \<and> nconnsIn rc + nconnsOut rc \<le> limConns (rcLimit rc)
     \<and> 0 \<le> nfd rc \<and> nfd rc \<le> limFd (rcLimit rc)"

text \<open>Amounts an \<open>int\<close> variable of the callers can hold without the sums leaving 64 bits.\<close>

definition small :: "int \<Rightarrow> bool" where
  "small n \<longleftrightarrow> 0 \<le> n \<and> n < 2 ^ 62"

lemmas rc_inv_unfold = rc_inv_def limit_typed_def range_defs small_def getter_defs

lemma rc_inv_new:
  "limit_typed l \<Longrightarrow> NotLess l zero_limit \<Longrightarrow> limMemory l < MaxInt64 \<Longrightarrow> rc_inv (new_resources l)"
  by (simp add: rc_inv_def new_resources_def NotLess_iff zero_limit_def)

subsubsection \<open>Overflow tests\<close>

lemma addInt64WithOverflow_ok:
  assumes "is_i64 a" "is_i64 b" "0 \<le> b" "b = 0 \<Longrightarrow> ok"
  shows "addInt64WithOverflow a b = (c, ok) \<Longrightarrow> ok \<longleftrightarrow> a + b < 2 ^ 63"
proof (cases "a + b < 2 ^ 63")
  case True
  then have "i64 (a + b) = a + b" using assms by (simp add: range_defs wrap_simps)
  with True show "addInt64WithOverflow a b = (c, ok) \<Longrightarrow> ?thesis"
    by (auto simp: addInt64WithOverflow_def Let_def)
next
  case False
  have "(a + b + 2 ^ 63) mod 2 ^ 64 = (a + b + 2 ^ 63 - 2 ^ 64) mod 2 ^ 64"
    by (metis minus_mod_self2)
  also have "\<dots> = a + b + 2 ^ 63 - 2 ^ 64"
    using False assms(1,2) by (intro mod_pos_pos_trivial) (auto simp: range_defs)
  finally have "i64 (a + b) = a + b - 2 ^ 64" by (simp add: i64_def)
  with False assms show "addInt64WithOverflow a b = (c, ok) \<Longrightarrow> ?thesis"
    by (auto simp: addInt64WithOverflow_def Let_def range_defs)
qed

lemma sdiv_eq_imp_exact:
  assumes "2 \<le> a" "2 \<le> b" "b < 2 ^ 63" "i64 (a * b) sdiv b = a"
  shows "i64 (a * b) = a * b"
proof -
  let ?c = "i64 (a * b)"
  have pos: "0 < ?c"
  proof (rule ccontr)
    assume "\<not> 0 < ?c"
    then have "?c sdiv b \<le> 0" using assms(2)
      by (cases "?c = 0") (simp_all add: signed_divide_int_def pos_imp_zdiv_nonneg_iff)
    with assms(1,4) show False by linarith
  qed
  then have q: "?c div b = a" using assms by (simp add: sdiv_nonneg)
  have r: "?c = a * b + ?c mod b" using q by (metis div_mult_mod_eq)
  have "?c mod 2 ^ 64 = (a * b) mod 2 ^ 64" by (rule i64_cong)
  then have "2 ^ 64 dvd (?c - a * b)" by (metis mod_eq_dvd_iff)
  moreover have "?c - a * b = ?c mod b" using r by linarith
  ultimately have "2 ^ 64 dvd ?c mod b" by metis
  moreover have "0 \<le> ?c mod b" "?c mod b < b" using assms(2) by simp_all
  ultimately have "?c mod b = 0" using assms(3) zdvd_not_zless [of "?c mod b" "2 ^ 64"] by force
  with r show ?thesis by simp
qed

lemma mem_threshold_exact:
  assumes "0 \<le> prio" "prio < 256" "0 \<le> limit" "limit < 2 ^ 63"
  shows "mem_threshold limit prio = (1 + prio) * limit div 256"
proof -
  have le: "(1 + prio) * limit \<le> 256 * limit" using assms by (intro mult_right_mono) auto
  have nn: "0 \<le> (1 + prio) * limit" using assms by simp
  have q: "(1 + prio) * limit div 256 \<le> limit" using le by linarith
  moreover have "0 \<le> (1 + prio) * limit div 256" using nn by simp
  ultimately have big: "is_i64 ((limit * (1 + prio)) div 2 ^ 8)"
    using assms by (simp add: range_defs mult.commute)
  show ?thesis
  proof (cases "1 + prio = 1 \<or> limit = 0 \<or> limit = 1")
    case True
    then have "i64 ((1 + prio) * limit) = (1 + prio) * limit"
      using assms by (auto simp: wrap_simps)
    with True nn show ?thesis
      by (auto simp: mem_threshold_def mulInt64WithOverflow_def Let_def sdiv_nonneg)
  next
    case False
    then have ge: "2 \<le> 1 + prio" "2 \<le> limit" using assms by auto
    show ?thesis
    proof (cases "i64 (i64 ((1 + prio) * limit) sdiv limit) = 1 + prio")
      case True
      have "\<bar>i64 ((1 + prio) * limit) sdiv limit\<bar> \<le> \<bar>i64 ((1 + prio) * limit)\<bar> div \<bar>limit\<bar>"
        by (auto simp: signed_divide_int_def abs_mult abs_sgn_eq pos_imp_zdiv_nonneg_iff)
      also have "\<dots> < 2 ^ 63"
        using is_i64_i64 [of "(1 + prio) * limit"] ge
        by (auto simp: range_defs intro: order.strict_trans1 [OF zdiv_mono2 [where b' = 2]])
      finally have "i64 (i64 ((1 + prio) * limit) sdiv limit) = i64 ((1 + prio) * limit) sdiv limit"
        by (intro i64_id) auto
      with True sdiv_eq_imp_exact [OF ge assms(4)]
      have "i64 ((1 + prio) * limit) = (1 + prio) * limit" by simp
      with True False nn show ?thesis
        using assms by (auto simp: mem_threshold_def mulInt64WithOverflow_def Let_def sdiv_nonneg)
    next
      case False
      with \<open>\<not> (1 + prio = 1 \<or> limit = 0 \<or> limit = 1)\<close> big assms show ?thesis
        by (auto simp: mem_threshold_def mulInt64WithOverflow_def Let_def mult.commute)
    qed
  qed
qed

lemma mem_threshold_le:
  "0 \<le> prio \<Longrightarrow> prio < 256 \<Longrightarrow> 0 \<le> limit \<Longrightarrow> limit < 2 ^ 63 \<Longrightarrow> mem_threshold limit prio \<le> limit"
proof -
  assume a: "0 \<le> prio" "prio < 256" "0 \<le> limit" "limit < 2 ^ 63"
  have "(1 + prio) * limit \<le> 256 * limit" using a by (intro mult_right_mono) auto
  then have "(1 + prio) * limit div 256 \<le> limit" by linarith
  with mem_threshold_exact [OF a] show ?thesis by simp
qed

lemma checkMemory_iff:
  assumes "rc_inv rc" "is_u8 prio" "is_i64 sz"
  shows "checkMemory rc sz prio = None
    \<longleftrightarrow> 0 \<le> sz \<and> memory rc + sz \<le> (1 + prio) * limMemory (rcLimit rc) div 256"
proof -
  let ?l = "limMemory (rcLimit rc)"
  have l: "0 \<le> ?l" "?l < 2 ^ 63" "?l \<noteq> MaxInt64" and p: "0 \<le> prio" "prio < 256"
    and m: "is_i64 (memory rc)"
    using assms by (auto simp: rc_inv_unfold)
  obtain c ok where ao: "addInt64WithOverflow (memory rc) sz = (c, ok)" by fastforce
  have c: "c = i64 (memory rc + sz)" and ok0: "sz = 0 \<Longrightarrow> ok"
    using ao m by (auto simp: addInt64WithOverflow_def Let_def)
  show ?thesis
  proof (cases "0 \<le> sz")
    case True
    have ok: "ok \<longleftrightarrow> memory rc + sz < 2 ^ 63"
      using addInt64WithOverflow_ok [OF m assms(3) True ok0 ao] .
    have t: "mem_threshold ?l prio = (1 + prio) * ?l div 256"
      using mem_threshold_exact [OF p l(1,2)] .
    have tl: "(1 + prio) * ?l div 256 \<le> ?l" using mem_threshold_le [OF p l(1,2)] t by simp
    show ?thesis
    proof (cases ok)
      case True
      then have "c = memory rc + sz" using ok c \<open>0 \<le> sz\<close> m by (simp add: range_defs wrap_simps)
      with True \<open>0 \<le> sz\<close> l(3) ao t show ?thesis
        by (auto simp: checkMemory_def Let_def getter_defs)
    next
      case False
      with ok tl l(2) have "\<not> memory rc + sz \<le> (1 + prio) * ?l div 256" by linarith
      with False \<open>0 \<le> sz\<close> l(3) ao show ?thesis
        by (auto simp: checkMemory_def Let_def getter_defs)
    qed
  qed (simp add: checkMemory_def)
qed

subsubsection \<open>Every operation keeps the invariant and undoes its inverse\<close>

lemma reserveMemory_Inr:
  assumes "rc_inv rc" "is_u8 prio" "is_i64 sz"
  shows "reserveMemory rc sz prio = Inr rc' \<longleftrightarrow> 0 \<le> sz
    \<and> memory rc + sz \<le> (1 + prio) * limMemory (rcLimit rc) div 256 \<and> rc' = rc\<lparr>memory := memory rc + sz\<rparr>"
proof -
  have "(1 + prio) * limMemory (rcLimit rc) div 256 \<le> limMemory (rcLimit rc)"
    using mem_threshold_le [of prio "limMemory (rcLimit rc)"] mem_threshold_exact [of prio] assms
    by (auto simp: rc_inv_unfold)
  then have "i64 (memory rc + sz) = memory rc + sz"
    if "0 \<le> sz" "memory rc + sz \<le> (1 + prio) * limMemory (rcLimit rc) div 256"
    using that assms(1) by (intro i64_id) (auto simp: rc_inv_unfold)
  then show ?thesis
    using checkMemory_iff [OF assms] by (auto simp: reserveMemory_def split: option.splits)
qed

lemma reserveMemory_inv:
  assumes "rc_inv rc" "is_u8 prio" "is_i64 sz" "reserveMemory rc sz prio = Inr rc'"
  shows "rc_inv rc'"
proof -
  have "(1 + prio) * limMemory (rcLimit rc) div 256 \<le> limMemory (rcLimit rc)"
    using mem_threshold_le [of prio "limMemory (rcLimit rc)"] mem_threshold_exact [of prio] assms(1,2)
    by (auto simp: rc_inv_unfold)
  with assms(1,4) reserveMemory_Inr [OF assms(1,2,3)] show ?thesis by (auto simp: rc_inv_def)
qed

lemma releaseMemory_eq:
  "rc_inv rc \<Longrightarrow> 0 \<le> sz \<Longrightarrow> is_i64 sz \<Longrightarrow> releaseMemory rc sz = rc\<lparr>memory := max 0 (memory rc - sz)\<rparr>"
  by (auto simp: releaseMemory_def rc_inv_unfold wrap_simps Let_def max_def)

lemma releaseMemory_inv: "rc_inv rc \<Longrightarrow> 0 \<le> sz \<Longrightarrow> is_i64 sz \<Longrightarrow> rc_inv (releaseMemory rc sz)"
  by (auto simp: releaseMemory_eq rc_inv_def)

lemma addTasks_Inr:
  assumes "rc_inv rc" "small high" "small medium" "small low"
    "high = 0 \<or> medium = 0" "high = 0 \<or> low = 0" "medium = 0 \<or> low = 0"
  shows "addTasks rc high medium low = Inr rc' \<longleftrightarrow>
    ntasksHigh rc + ntasksMedium rc + ntasksLow rc + high + medium + low \<le> limTasks (rcLimit rc)
    \<and> ntasksHigh rc + high \<le> limTasksHighPriority (rcLimit rc)
    \<and> ntasksMedium rc + medium \<le> limTasksMediumPriority (rcLimit rc)
    \<and> ntasksLow rc + low \<le> limTasksLowPriority (rcLimit rc)
    \<and> rc' = rc\<lparr>ntasksHigh := ntasksHigh rc + high, ntasksMedium := ntasksMedium rc + medium,
               ntasksLow := ntasksLow rc + low\<rparr>"
proof -
  have "i64 (ntasksHigh rc + ntasksMedium rc + ntasksLow rc + high + medium + low)
      = ntasksHigh rc + ntasksMedium rc + ntasksLow rc + high + medium + low"
    "i64 (high + ntasksHigh rc) = high + ntasksHigh rc" "i64 (ntasksHigh rc + high) = ntasksHigh rc + high"
    "i64 (medium + ntasksMedium rc) = medium + ntasksMedium rc"
    "i64 (ntasksMedium rc + medium) = ntasksMedium rc + medium"
    "i64 (low + ntasksLow rc) = low + ntasksLow rc" "i64 (ntasksLow rc + low) = ntasksLow rc + low"
    using assms by (auto intro!: i64_id simp: rc_inv_unfold)
  then show ?thesis by (auto simp: addTasks_def Let_def getter_defs)
qed

lemma removeTasks_eq:
  "rc_inv rc \<Longrightarrow> small high \<Longrightarrow> small medium \<Longrightarrow> small low \<Longrightarrow> removeTasks rc high medium low =
     rc\<lparr>ntasksHigh := max 0 (ntasksHigh rc - high), ntasksMedium := max 0 (ntasksMedium rc - medium),
        ntasksLow := max 0 (ntasksLow rc - low)\<rparr>"
  by (auto simp: removeTasks_def floor0_def rc_inv_unfold wrap_simps max_def)

lemma small_0 [simp]: "small 0" and small_1 [simp]: "small 1"
  by (simp_all add: small_def)

lemma addTask_Inr:
  assumes "rc_inv rc" "small num"
  shows "addTask rc num prio = Inr rc' \<longleftrightarrow>
    ntasksHigh rc + ntasksMedium rc + ntasksLow rc + num \<le> limTasks (rcLimit rc) \<and>
    (if prio = ReserveTaskPriorityHigh
     then ntasksHigh rc + num \<le> limTasksHighPriority (rcLimit rc) \<and> rc' = rc\<lparr>ntasksHigh := ntasksHigh rc + num\<rparr>
     else if prio = ReserveTaskPriorityMedium
     then ntasksMedium rc + num \<le> limTasksMediumPriority (rcLimit rc)
       \<and> rc' = rc\<lparr>ntasksMedium := ntasksMedium rc + num\<rparr>
     else ntasksLow rc + num \<le> limTasksLowPriority (rcLimit rc) \<and> rc' = rc\<lparr>ntasksLow := ntasksLow rc + num\<rparr>)"
  using assms by (cases rc) (auto simp: addTask_def addTasks_Inr rc_inv_def small_def)

lemma addTask_inv: "rc_inv rc \<Longrightarrow> small num \<Longrightarrow> addTask rc num prio = Inr rc' \<Longrightarrow> rc_inv rc'"
  by (auto simp: addTask_Inr rc_inv_def small_def split: if_splits)

lemma removeTask_inv: "rc_inv rc \<Longrightarrow> small num \<Longrightarrow> rc_inv (removeTask rc num prio)"
  by (auto simp: removeTask_def removeTasks_eq rc_inv_def small_def)

lemma addConns_Inr:
  assumes "rc_inv rc" "small i" "small out" "small fd"
  shows "addConns rc i out fd = Inr rc' \<longleftrightarrow>
    nconnsIn rc + i \<le> limConnsInbound (rcLimit rc) \<and> nconnsOut rc + out \<le> limConnsOutbound (rcLimit rc)
    \<and> nconnsIn rc + nconnsOut rc + i + out \<le> limConns (rcLimit rc) \<and> nfd rc + fd \<le> limFd (rcLimit rc)
    \<and> rc' = rc\<lparr>nconnsIn := nconnsIn rc + i, nconnsOut := nconnsOut rc + out, nfd := nfd rc + fd\<rparr>"
proof -
  have e: "i64 (nconnsIn rc + i) = nconnsIn rc + i" "i64 (nconnsOut rc + out) = nconnsOut rc + out"
    "i64 (nfd rc + fd) = nfd rc + fd"
    using assms by (auto intro!: i64_id simp: rc_inv_unfold)
  have t: "i64 (nconnsIn rc + i + nconnsOut rc + out) > limConns (rcLimit rc)
      \<longleftrightarrow> nconnsIn rc + i + nconnsOut rc + out > limConns (rcLimit rc)"
    if "nconnsIn rc + i \<le> limConnsInbound (rcLimit rc)" "nconnsOut rc + out \<le> limConnsOutbound (rcLimit rc)"
    using that assms by (subst i64_id) (auto simp: rc_inv_unfold)
  show ?thesis
    using assms e t by (cases rc) (auto simp: addConns_def Let_def getter_defs rc_inv_def small_def)
qed

lemma removeConns_eq:
  "rc_inv rc \<Longrightarrow> small i \<Longrightarrow> small out \<Longrightarrow> small fd \<Longrightarrow> removeConns rc i out fd =
     rc\<lparr>nconnsIn := max 0 (nconnsIn rc - i), nconnsOut := max 0 (nconnsOut rc - out),
        nfd := max 0 (nfd rc - fd)\<rparr>"
  by (auto simp: removeConns_def floor0_def rc_inv_unfold wrap_simps max_def)

lemma addConns_inv:
  "rc_inv rc \<Longrightarrow> small i \<Longrightarrow> small out \<Longrightarrow> small fd \<Longrightarrow> addConns rc i out fd = Inr rc' \<Longrightarrow> rc_inv rc'"
  by (auto simp: addConns_Inr rc_inv_def small_def)

lemma removeConns_inv:
  "rc_inv rc \<Longrightarrow> small i \<Longrightarrow> small out \<Longrightarrow> small fd \<Longrightarrow> rc_inv (removeConns rc i out fd)"
  by (auto simp: removeConns_eq rc_inv_def small_def)

lemma addConn_inv: "rc_inv rc \<Longrightarrow> addConn rc dir = Inr rc' \<Longrightarrow> rc_inv rc'"
  using addConns_inv [of rc 1 0 1 rc'] addConns_inv [of rc 0 1 1 rc']
  by (simp add: addConn_def split: if_splits)

lemma removeConn_inv: "rc_inv rc \<Longrightarrow> rc_inv (removeConn rc dir)"
  by (simp add: removeConn_def Let_def removeConns_inv)

subsection \<open>The contract of a pair of accounting functions\<close>

text \<open>
  What the scopes rely on when they reserve in one accounting record after the other and release
  again on failure: on valid arguments both functions keep the invariant, and releasing undoes
  reserving exactly.
\<close>

locale reservation =
  fixes valid :: "'a \<Rightarrow> bool"
    and reserve :: "'a \<Rightarrow> resources \<Rightarrow> rc_error + resources"
    and release :: "'a \<Rightarrow> resources \<Rightarrow> resources"
  assumes reserve_inv: "valid a \<Longrightarrow> rc_inv r \<Longrightarrow> reserve a r = Inr r' \<Longrightarrow> rc_inv r'"
    and release_inv: "valid a \<Longrightarrow> rc_inv r \<Longrightarrow> rc_inv (release a r)"
    and release_reserve: "valid a \<Longrightarrow> rc_inv r \<Longrightarrow> reserve a r = Inr r' \<Longrightarrow> release a r' = r"

definition valid_mem :: "int \<times> int \<Rightarrow> bool" where
  "valid_mem a \<longleftrightarrow> 0 \<le> fst a \<and> is_i64 (fst a) \<and> is_u8 (snd a)"

definition valid_task :: "int \<times> ReserveTaskPriority \<Rightarrow> bool" where
  "valid_task a \<longleftrightarrow> small (fst a) \<and> snd a \<noteq> ReserveTaskPriorityUnknown"

interpretation mem_reservation:
  reservation valid_mem "\<lambda>a r. reserveMemory r (fst a) (snd a)" "\<lambda>a r. releaseMemory r (fst a)"
proof (unfold_locales, goal_cases)
  case (1 a r r') then show ?case by (auto simp: valid_mem_def intro: reserveMemory_inv)
next
  case (2 a r) then show ?case by (auto simp: valid_mem_def intro: releaseMemory_inv)
next
  case (3 a r r')
  then have "rc_inv r'" by (auto simp: valid_mem_def intro: reserveMemory_inv)
  with 3 show ?case by (auto simp: valid_mem_def releaseMemory_eq reserveMemory_Inr rc_inv_def)
qed

interpretation task_reservation:
  reservation valid_task "\<lambda>a r. addTask r (fst a) (snd a)" "\<lambda>a r. removeTask r (fst a) (snd a)"
proof (unfold_locales, goal_cases)
  case (1 a r r') then show ?case by (auto simp: valid_task_def intro: addTask_inv)
next
  case (2 a r) then show ?case by (auto simp: valid_task_def intro: removeTask_inv)
next
  case (3 a r r')
  then have "rc_inv r'" by (auto simp: valid_task_def intro: addTask_inv)
  with 3 show ?case
    by (cases "snd a")
      (auto simp: valid_task_def addTask_Inr removeTask_def removeTasks_eq small_def rc_inv_def)
qed

text \<open>
  Connections satisfy the contract in the outbound direction only: releasing an inbound
  connection also takes an outbound connection and a second file descriptor away.
\<close>

interpretation conn_reservation:
  reservation "\<lambda>dir. dir \<noteq> DirInbound" "\<lambda>dir r. addConn r dir" "\<lambda>dir r. removeConn r dir"
proof (unfold_locales, goal_cases)
  case (1 dir r r') then show ?case by (blast intro: addConn_inv)
next
  case (2 dir r) then show ?case by (simp add: removeConn_inv)
next
  case (3 dir r r')
  then have "rc_inv r'" by (blast intro: addConn_inv)
  with 3 show ?case by (auto simp: addConn_def addConns_Inr removeConn_def removeConns_eq rc_inv_def)
qed

subsection \<open>Properties\<close>

text \<open>
  on accounting records within their limits, \<open>checkMemory\<close> accepts a request exactly when it is
  not negative and the new total is at most \<open>(1 + prio) / 256\<close> of the limit, computed exactly: the
  64-bit overflow tests and the big-integer detour never change the verdict.
\<close>

theorem checkMemory_exact:
  assumes "rc_inv rc" and "is_u8 prio" and "is_i64 sz"
  shows "checkMemory rc sz prio = None
    \<longleftrightarrow> 0 \<le> sz \<and> memory rc + sz \<le> (1 + prio) * limMemory (rcLimit rc) div 256"
  by (rule checkMemory_iff [OF assms])

theorem checkMemory_exact_witness:
  "checkMemory (new_resources (zero_limit\<lparr>limMemory := 2 ^ 62\<rparr>)) (2 ^ 61) 127 = None
    \<longleftrightarrow> (0::int) \<le> 2 ^ 61 \<and> (2 ^ 61 :: int) \<le> 128 * 2 ^ 62 div 256"
proof -
  have "rc_inv (new_resources (zero_limit\<lparr>limMemory := 2 ^ 62\<rparr>))"
    by (simp add: rc_inv_new limit_typed_def zero_limit_def range_defs NotLess_iff)
  from checkMemory_exact [OF this, of 127 "2 ^ 61"] show ?thesis
    by (simp add: range_defs new_resources_def zero_limit_def)
qed

text \<open>
  after an inbound connection is added and removed again, the outbound count and the file
  descriptor count are one lower than before wherever they were positive: the removal runs both
  branches.
\<close>

theorem removeConn_inbound_drops_outbound:
  assumes "rc_inv rc" and "addConn rc DirInbound = Inr rc'"
  shows "nconnsIn (removeConn rc' DirInbound) = nconnsIn rc
    \<and> nconnsOut (removeConn rc' DirInbound) = max 0 (nconnsOut rc - 1)
    \<and> nfd (removeConn rc' DirInbound) = max 0 (nfd rc - 1)"
proof -
  have inv': "rc_inv rc'" using assms by (blast intro: addConn_inv)
  moreover have "rc_inv (removeConns rc' 1 0 1)" using inv' by (simp add: removeConns_inv)
  ultimately show ?thesis
    using assms by (auto simp: addConn_def addConns_Inr removeConn_def removeConns_eq rc_inv_def)
qed

theorem removeConn_inbound_drops_outbound_witness:
  "let rc0 = (new_resources (zero_limit\<lparr>limConns := 9, limConnsInbound := 9, limConnsOutbound := 9,
       limFd := 9\<rparr>))\<lparr>nconnsOut := 3, nfd := 3\<rparr>
   in \<exists>rc1. addConn rc0 DirInbound = Inr rc1 \<and> nconnsOut (removeConn rc1 DirInbound) = 2
     \<and> nfd (removeConn rc1 DirInbound) = 2"
proof -
  let ?rc = "(new_resources (zero_limit\<lparr>limConns := 9, limConnsInbound := 9, limConnsOutbound := 9,
       limFd := 9\<rparr>))\<lparr>nconnsOut := 3, nfd := 3\<rparr>"
  have inv: "rc_inv ?rc"
    by (simp add: rc_inv_def limit_typed_def zero_limit_def range_defs new_resources_def)
  obtain rc1 where rc1: "addConn ?rc DirInbound = Inr rc1"
    by (simp add: addConn_def addConns_Inr [OF inv] addConns_def getter_defs new_resources_def
        zero_limit_def i64_def)
  from removeConn_inbound_drops_outbound [OF inv rc1] rc1 show ?thesis
    by (auto simp: Let_def)
qed

end
