(* ===== verification/SP_Text.thy ===== *)
theory SP_Text
  imports SP_Prelude
begin

text \<open>
  What the sources use of \<open>strconv\<close>, \<open>fmt\<close> and \<open>strings\<close>, and \<^verbatim>\<open>src/util/string.go\<close> on top of it:
  decimal printing, \<open>ParseUint\<close> and \<open>ParseInt\<close> with their range errors, \<open>Split\<close>, \<open>Join\<close> and
  \<open>TrimSpace\<close>.  The round trips of this theory (print then parse, join then split) carry those of the
  piece keys and of the comma-separated lists stored in the database.
\<close>

subsection \<open>Decimal printing\<close>

definition digit :: "nat \<Rightarrow> char" where
  "digit d = char_of (48 + d)"

fun show_nat :: "nat \<Rightarrow> string" where
  "show_nat n = (if n < 10 then [digit n] else show_nat (n div 10) @ [digit (n mod 10)])"

declare show_nat.simps [simp del]

definition show_int :: "int \<Rightarrow> string" where
  "show_int i = (if i < 0 then CHR ''-'' # show_nat (nat (- i)) else show_nat (nat i))"

subsection \<open>Parsing\<close>

datatype num_error = ErrSyntax | ErrRange

definition digit_val :: "char \<Rightarrow> nat option" where
  "digit_val c = (if 48 \<le> (of_char c :: nat) \<and> (of_char c :: nat) \<le> 57 then Some (of_char c - 48) else None)"

fun parse_digits :: "nat \<Rightarrow> nat \<Rightarrow> string \<Rightarrow> num_error + nat" where
  "parse_digits maxVal n [] = Inr n"
| "parse_digits maxVal n (c # cs) =
     (case digit_val c of
        None \<Rightarrow> Inl ErrSyntax
      | Some d \<Rightarrow> if n * 10 + d > maxVal then Inl ErrRange else parse_digits maxVal (n * 10 + d) cs)"

definition ParseUint :: "string \<Rightarrow> nat \<Rightarrow> num_error + int" where
  "ParseUint s bits =
     (if s = [] then Inl ErrSyntax else map_sum id int (parse_digits (2 ^ bits - 1) 0 s))"

definition ParseInt :: "string \<Rightarrow> nat \<Rightarrow> num_error + int" where
  "ParseInt s bits =
     (if s = [] then Inl ErrSyntax
      else let neg = (hd s = CHR ''-''); s' = (if hd s = CHR ''-'' \<or> hd s = CHR ''+'' then tl s else s)
      in case ParseUint s' bits of
           Inl e \<Rightarrow> Inl e
         | Inr un \<Rightarrow> if \<not> neg \<and> un \<ge> 2 ^ (bits - 1) then Inl ErrRange
                   else if neg \<and> un > 2 ^ (bits - 1) then Inl ErrRange
                   else Inr (if neg then - un else un))"

subsection \<open>Split, join, trim\<close>

fun split_on :: "char \<Rightarrow> string \<Rightarrow> string list" where
  "split_on c [] = [[]]"
| "split_on c (x # xs) =
     (if x = c then [] # split_on c xs
      else case split_on c xs of [] \<Rightarrow> [[x]] | p # ps \<Rightarrow> (x # p) # ps)"

fun join_with :: "string \<Rightarrow> string list \<Rightarrow> string" where
  "join_with sep [] = []"
| "join_with sep [x] = x"
| "join_with sep (x # y # xs) = x @ sep @ join_with sep (y # xs)"

definition is_space :: "char \<Rightarrow> bool" where
  "is_space c \<longleftrightarrow> c \<in> {CHR '' '', CHR 0x09, CHR 0x0A, CHR 0x0B, CHR 0x0C, CHR 0x0D}"

definition TrimSpace :: "string \<Rightarrow> string" where
  "TrimSpace s = rev (dropWhile is_space (rev (dropWhile is_space s)))"

subsection \<open>util/string.go\<close>

datatype text_error = NumError num_error | ErrIntegerOverflow | ErrSyntaxBool

definition StringToUint64 :: "string \<Rightarrow> text_error + int" where
  "StringToUint64 str = (case ParseUint str 64 of Inl e \<Rightarrow> Inl (NumError e) | Inr v \<Rightarrow> Inr v)"

definition StringToInt64 :: "string \<Rightarrow> text_error + int" where
  "StringToInt64 str = (case ParseInt str 64 of Inl e \<Rightarrow> Inl (NumError e) | Inr v \<Rightarrow> Inr v)"

definition Uint64ToString :: "int \<Rightarrow> string" where
  "Uint64ToString u = show_int u"

definition Uint32ToString :: "int \<Rightarrow> string" where
  "Uint32ToString u = Uint64ToString (u64 u)"

text \<open>The error of the conversion is ignored, so an out-of-range value becomes the result 0.\<close>

definition Uint64ToInt64 :: "int \<Rightarrow> int" where
  "Uint64ToInt64 n = (case StringToInt64 (Uint64ToString n) of Inl _ \<Rightarrow> 0 | Inr res \<Rightarrow> res)"

definition StringToUint32 :: "string \<Rightarrow> text_error + int" where
  "StringToUint32 str =
     (case StringToUint64 str of
        Inl e \<Rightarrow> Inl e
      | Inr ui64 \<Rightarrow> if ui64 > MaxUint32 then Inl ErrIntegerOverflow else Inr (u32 ui64))"

definition StringToInt32 :: "string \<Rightarrow> text_error + int" where
  "StringToInt32 str =
     (case StringToInt64 str of
        Inl e \<Rightarrow> Inl e
      | Inr v \<Rightarrow> if v > MaxInt32 then Inl ErrIntegerOverflow else Inr (i32 v))"

definition StringToBool :: "string \<Rightarrow> text_error + bool" where
  "StringToBool str =
     (if str \<in> {''1'', ''t'', ''T'', ''true'', ''TRUE'', ''True''} then Inr True
      else if str \<in> {''0'', ''f'', ''F'', ''false'', ''FALSE'', ''False''} then Inr False
      else Inl ErrSyntaxBool)"

definition BoolToInt :: "bool \<Rightarrow> int" where
  "BoolToInt b = (if b then 1 else 0)"

definition JoinWithComma :: "string list \<Rightarrow> string" where
  "JoinWithComma slice = join_with '','' slice"

fun trim_items :: "string list \<Rightarrow> string list" where
  "trim_items [] = []"
| "trim_items (item # rest) =
     (if length (TrimSpace item) > 0 then TrimSpace item # trim_items rest else trim_items rest)"

definition SplitByComma :: "string \<Rightarrow> string list" where
  "SplitByComma str = trim_items (split_on CHR '','' (TrimSpace str))"

definition Uint32SliceToString :: "int list \<Rightarrow> string" where
  "Uint32SliceToString ids = JoinWithComma (map Uint32ToString ids)"

fun parse_all_uint32 :: "string list \<Rightarrow> text_error + int list" where
  "parse_all_uint32 [] = Inr []"
| "parse_all_uint32 (x # xs) =
     (case StringToUint32 x of
        Inl e \<Rightarrow> Inl e
      | Inr v \<Rightarrow> (case parse_all_uint32 xs of Inl e \<Rightarrow> Inl e | Inr vs \<Rightarrow> Inr (v # vs)))"

definition StringToUint32Slice :: "string \<Rightarrow> text_error + int list" where
  "StringToUint32Slice str = parse_all_uint32 (SplitByComma str)"

definition StringArrayToUint32Slice :: "string list \<Rightarrow> text_error + int list" where
  "StringArrayToUint32Slice arr = parse_all_uint32 arr"

subsection \<open>Lemmas on printing and parsing\<close>

lemma of_char_digit [simp]: "d < 10 \<Longrightarrow> of_char (digit d) = 48 + d"
  by (simp add: digit_def)

lemma digit_val_digit [simp]: "d < 10 \<Longrightarrow> digit_val (digit d) = Some d"
  by (simp add: digit_val_def)

lemma show_nat_ne [simp]: "show_nat n \<noteq> []"
  by (subst show_nat.simps) simp

lemma show_nat_digits: "c \<in> set (show_nat n) \<Longrightarrow> \<exists>d < 10. c = digit d"
proof (induction n rule: show_nat.induct)
  case (1 n)
  show ?case
  proof (cases "n < 10")
    case True
    with "1.prems" show ?thesis by (auto simp: show_nat.simps [of n])
  next
    case False
    with "1.prems" have "c \<in> set (show_nat (n div 10)) \<or> c = digit (n mod 10)"
      by (auto simp: show_nat.simps [of n])
    with "1.IH" False show ?thesis by (metis mod_less_divisor zero_less_numeral)
  qed
qed

lemma show_nat_char_range: "c \<in> set (show_nat n) \<Longrightarrow> 48 \<le> (of_char c :: nat) \<and> (of_char c :: nat) \<le> 57"
  using show_nat_digits by fastforce

lemma not_in_show_nat:
  "(of_char c :: nat) < 48 \<or> 57 < (of_char c :: nat) \<Longrightarrow> c \<notin> set (show_nat n)"
  using show_nat_char_range by fastforce

lemma parse_digits_append:
  "parse_digits mx a (xs @ ys) =
     (case parse_digits mx a xs of Inl e \<Rightarrow> Inl e | Inr b \<Rightarrow> parse_digits mx b ys)"
  by (induction mx a xs rule: parse_digits.induct) (auto split: option.splits)

lemma parse_digits_show: "n \<le> mx \<Longrightarrow> parse_digits mx 0 (show_nat n) = Inr n"
proof (induction n rule: show_nat.induct)
  case (1 n)
  show ?case
  proof (cases "n < 10")
    case True
    with "1.prems" show ?thesis by (simp add: show_nat.simps [of n])
  next
    case False
    with "1.prems" have "n div 10 \<le> mx" by linarith
    with "1.IH" False have "parse_digits mx 0 (show_nat (n div 10)) = Inr (n div 10)" by simp
    with False "1.prems" show ?thesis
      by (simp add: show_nat.simps [of n] parse_digits_append)
  qed
qed

lemma ParseUint_show_nat: "n < 2 ^ bits \<Longrightarrow> ParseUint (show_nat n) bits = Inr (int n)"
  by (simp add: ParseUint_def parse_digits_show)

lemma hd_show_nat: "(of_char c :: nat) < 48 \<Longrightarrow> hd (show_nat n) \<noteq> c"
  using not_in_show_nat [of c n] hd_in_set [OF show_nat_ne [of n]] by auto

lemma ParseUint_show_int: "0 \<le> u \<Longrightarrow> u < 2 ^ bits \<Longrightarrow> ParseUint (show_int u) bits = Inr u"
  by (simp add: show_int_def ParseUint_show_nat nat_less_iff)

lemma ParseInt_show_int:
  assumes "0 < bits" "- (2 ^ (bits - 1)) \<le> v" "v < 2 ^ (bits - 1)"
  shows "ParseInt (show_int v) bits = Inr v"
proof -
  have "(2::int) ^ (bits - 1) < 2 ^ bits" using assms(1) by (intro power_strict_increasing) auto
  then have "\<bar>v\<bar> < 2 ^ bits" using assms by linarith
  then have "nat \<bar>v\<bar> < 2 ^ bits" by (simp add: nat_less_iff)
  then have "ParseUint (show_nat (nat \<bar>v\<bar>)) bits = Inr \<bar>v\<bar>" by (simp add: ParseUint_show_nat)
  then show ?thesis using assms hd_show_nat [of "CHR ''-''" "nat v"] hd_show_nat [of "CHR ''+''" "nat v"]
    by (cases "v < 0") (auto simp: ParseInt_def show_int_def Let_def)
qed

lemma show_nat_inject [simp]: "show_nat a = show_nat b \<longleftrightarrow> a = b"
  by (metis parse_digits_show Inr_inject max.cobounded1 max.cobounded2)

lemma show_int_nonneg_inject: "0 \<le> a \<Longrightarrow> 0 \<le> b \<Longrightarrow> show_int a = show_int b \<longleftrightarrow> a = b"
  by (simp add: show_int_def eq_nat_nat_iff)

lemma show_int_inject [simp]: "show_int a = show_int b \<longleftrightarrow> a = b"
  using hd_show_nat [of "CHR ''-''" "nat a"] hd_show_nat [of "CHR ''-''" "nat b"]
  by (cases "a < 0"; cases "b < 0") (auto simp: show_int_def eq_nat_nat_iff dest: arg_cong [where f = hd])

lemma set_show_int: "c \<in> set (show_int i) \<Longrightarrow> c = CHR ''-'' \<or> 48 \<le> (of_char c :: nat) \<and> (of_char c :: nat) \<le> 57"
  using show_nat_char_range by (auto simp: show_int_def split: if_splits)

lemma show_int_ne [simp]: "show_int i \<noteq> []"
  by (simp add: show_int_def)

lemma not_in_show_int:
  "c \<noteq> CHR ''-'' \<Longrightarrow> (of_char c :: nat) < 48 \<or> 57 < (of_char c :: nat) \<Longrightarrow> c \<notin> set (show_int i)"
  using set_show_int by fastforce

subsection \<open>Lemmas on split, join and trim\<close>

lemma split_on_ne [simp]: "split_on c xs \<noteq> []"
  by (induction xs) (auto split: list.splits)

lemma split_on_no_sep: "c \<notin> set xs \<Longrightarrow> split_on c xs = [xs]"
  by (induction xs) auto

lemma split_on_append: "c \<notin> set xs \<Longrightarrow> split_on c (xs @ c # ys) = xs # split_on c ys"
  by (induction xs) auto

lemma split_on_join:
  "xs \<noteq> [] \<Longrightarrow> \<forall>x \<in> set xs. c \<notin> set x \<Longrightarrow> split_on c (join_with [c] xs) = xs"
  by (induction "[c]" xs rule: join_with.induct) (auto simp: split_on_no_sep split_on_append)

lemma TrimSpace_id: "xs \<noteq> [] \<Longrightarrow> \<not> is_space (hd xs) \<Longrightarrow> \<not> is_space (last xs) \<Longrightarrow> TrimSpace xs = xs"
  by (metis TrimSpace_def dropWhile_eq_self_iff hd_rev rev_rev_ident)

lemma hd_join: "xs \<noteq> [] \<Longrightarrow> hd xs \<noteq> [] \<Longrightarrow> hd (join_with sep xs) = hd (hd xs)"
  by (induction sep xs rule: join_with.induct) auto

lemma join_ne: "xs \<noteq> [] \<Longrightarrow> hd xs \<noteq> [] \<Longrightarrow> join_with sep xs \<noteq> []"
  by (induction sep xs rule: join_with.induct) auto

lemma last_join: "xs \<noteq> [] \<Longrightarrow> \<forall>x \<in> set xs. x \<noteq> [] \<Longrightarrow> last (join_with sep xs) = last (last xs)"
  by (induction sep xs rule: join_with.induct) (auto simp: join_ne)

lemma trim_items_id: "\<forall>x \<in> set xs. x \<noteq> [] \<and> TrimSpace x = x \<Longrightarrow> trim_items xs = xs"
  by (induction xs) auto

lemma SplitByComma_join:
  assumes "\<forall>x \<in> set xs. x \<noteq> [] \<and> (\<forall>c \<in> set x. \<not> is_space c \<and> c \<noteq> CHR '','')"
  shows "SplitByComma (JoinWithComma xs) = xs"
proof (cases "xs = []")
  case True
  then show ?thesis by (simp add: SplitByComma_def JoinWithComma_def TrimSpace_def)
next
  case False
  have t: "TrimSpace x = x" if "x \<in> set xs" for x
    using assms that by (intro TrimSpace_id) auto
  have ne: "\<forall>x \<in> set xs. x \<noteq> []" using assms by blast
  then have "hd xs \<noteq> []" "last xs \<noteq> []" using False by simp_all
  then have ends: "hd (hd xs) \<in> set (hd xs)" "last (last xs) \<in> set (last xs)" by simp_all
  have "\<not> is_space (hd (hd xs))" "\<not> is_space (last (last xs))"
    using assms ends hd_in_set [OF False] last_in_set [OF False] by blast+
  then have "TrimSpace (join_with '','' xs) = join_with '','' xs"
    using False ne \<open>hd xs \<noteq> []\<close> by (intro TrimSpace_id) (simp_all add: hd_join last_join join_ne)
  moreover have "split_on CHR '','' (join_with '','' xs) = xs"
    using False assms by (intro split_on_join) auto
  ultimately show ?thesis
    using assms t by (simp add: SplitByComma_def JoinWithComma_def trim_items_id)
qed

lemma is_space_small: "is_space c \<Longrightarrow> (of_char c :: nat) < 48"
  unfolding is_space_def by (elim insertE) simp_all

lemma digit_not_space: "c \<in> set (show_nat n) \<Longrightarrow> \<not> is_space c \<and> c \<noteq> CHR '',''"
  using show_nat_char_range [of c n] is_space_small [of c] by force

lemma StringToUint32_print: "is_u32 v \<Longrightarrow> StringToUint32 (Uint32ToString v) = Inr v"
proof -
  assume v: "is_u32 v"
  then have "u64 v = v" by (intro u64_fix) (simp add: range_defs)
  moreover have "ParseUint (show_int v) 64 = Inr v"
    using v by (intro ParseUint_show_int) (simp_all add: range_defs)
  ultimately show ?thesis using v
    by (simp add: StringToUint32_def Uint32ToString_def Uint64ToString_def StringToUint64_def range_defs
        wrap_simps)
qed

lemma parse_all_uint32_print:
  "\<forall>v \<in> set ids. is_u32 v \<Longrightarrow> parse_all_uint32 (map Uint32ToString ids) = Inr ids"
  by (induction ids) (auto simp: StringToUint32_print)

text \<open>
  Printing a list of \<open>uint32\<close> identifiers with commas (as the database columns of recovered
  object ids and virtual group ids are written) and reading it back gives the same list, the empty
  list included.
\<close>

theorem uint32_slice_roundtrip:
  assumes "\<forall>v \<in> set ids. is_u32 v"
  shows "StringToUint32Slice (Uint32SliceToString ids) = Inr ids"
proof -
  have "x \<noteq> [] \<and> (\<forall>c \<in> set x. \<not> is_space c \<and> c \<noteq> CHR '','')" if x: "x \<in> set (map Uint32ToString ids)" for x
  proof -
    from x obtain v where "x = show_int (u64 v)" by (auto simp: Uint32ToString_def Uint64ToString_def)
    moreover have "0 \<le> u64 v" by (simp add: u64_def)
    ultimately have "x = show_nat (nat (u64 v))" by (simp add: show_int_def)
    then show ?thesis using digit_not_space by auto
  qed
  then have "SplitByComma (Uint32SliceToString ids) = map Uint32ToString ids"
    by (simp add: Uint32SliceToString_def SplitByComma_join)
  then show ?thesis using assms by (simp add: StringToUint32Slice_def parse_all_uint32_print)
qed

theorem uint32_slice_roundtrip_witness:
  "StringToUint32Slice (Uint32SliceToString [7, 4294967295]) = Inr [7, 4294967295]"
  by (rule uint32_slice_roundtrip) (simp add: range_defs)

end
