(* ===== verification/SP_Scope.thy ===== *)
theory SP_Scope
  imports SP_Resources SP_Text
begin

text \<open>
  Resource scopes and the resource manager: \<^verbatim>\<open>src/base/gfsprcmgr/scope.go\<close> and
  \<^verbatim>\<open>src/base/gfsprcmgr/rcmgr.go\<close>.  Scopes are objects that point to their owner (span scopes) or to a
  list of parents (service scopes), so they live in an explicit store from addresses to records.
  Every method is a function from the store to an optional new store: \<open>None\<close> is a call that does not
  return, because it follows a nil pointer or because the owner pointers run in a circle and the
  method waits for a lock it already holds.  The mutexes themselves are not modelled: a method
  runs to completion between its \<open>Lock\<close> and \<open>Unlock\<close>.

  The three pairs \<open>ReserveMemory\<close>/\<open>ReleaseMemory\<close>, \<open>AddTask\<close>/\<open>RemoveTask\<close> and \<open>AddConn\<close>/\<open>RemoveConn\<close>
  have the same code over different accounting functions.  It is written once, over a reserving and
  a releasing function, and the locale \<open>reservation\<close> states what a reserving and a releasing function
  promise; its lemmas show that a reservation through the store is all or nothing.
\<close>

subsection \<open>The store of scopes\<close>

type_synonym scope_ref = nat

record resourceScope =
  sDone :: bool
  refCnt :: int
  spanID :: int
  rc :: resources
  owner :: "scope_ref option"
  edges :: "scope_ref list"
  scName :: string

record scopeHeap =
  scopes :: "scope_ref \<rightharpoonup> resourceScope"
  nextRef :: scope_ref

definition put :: "scopeHeap \<Rightarrow> scope_ref \<Rightarrow> resourceScope \<Rightarrow> scopeHeap" where
  "put h s sc = h\<lparr>scopes := (scopes h)(s \<mapsto> sc)\<rparr>"

definition wrapError :: "resourceScope \<Rightarrow> rc_error \<Rightarrow> rc_error" where
  "wrapError sc err = Wrapped (scName sc) err"

definition IncRef :: "scopeHeap \<Rightarrow> scope_ref \<Rightarrow> scopeHeap option" where
  "IncRef h s = map_option (\<lambda>sc. put h s (sc\<lparr>refCnt := i64 (refCnt sc + 1)\<rparr>)) (scopes h s)"

definition DecRef :: "scopeHeap \<Rightarrow> scope_ref \<Rightarrow> scopeHeap option" where
  "DecRef h s = map_option (\<lambda>sc. put h s (sc\<lparr>refCnt := i64 (refCnt sc - 1)\<rparr>)) (scopes h s)"

fun IncRef_all :: "scopeHeap \<Rightarrow> scope_ref list \<Rightarrow> scopeHeap option" where
  "IncRef_all h [] = Some h"
| "IncRef_all h (e # es) = Option.bind (IncRef h e) (\<lambda>h'. IncRef_all h' es)"

definition alloc :: "scopeHeap \<Rightarrow> resourceScope \<Rightarrow> scope_ref \<times> scopeHeap" where
  "alloc h sc = (nextRef h, (put h (nextRef h) sc)\<lparr>nextRef := Suc (nextRef h)\<rparr>)"

definition newResourceScope ::
  "scopeHeap \<Rightarrow> GfSpLimit \<Rightarrow> scope_ref list \<Rightarrow> string \<Rightarrow> (scope_ref \<times> scopeHeap) option" where
  "newResourceScope h limit es nm =
     map_option (\<lambda>h'. alloc h' \<lparr>sDone = False, refCnt = 0, spanID = 0, rc = new_resources limit,
        owner = None, edges = es, scName = nm\<rparr>) (IncRef_all h es)"

definition newResourceScopeSpan ::
  "scopeHeap \<Rightarrow> scope_ref \<Rightarrow> int \<Rightarrow> string \<Rightarrow> (scope_ref \<times> scopeHeap) option" where
  "newResourceScopeSpan h own i nm =
     map_option (\<lambda>osc. alloc h \<lparr>sDone = False, refCnt = 0, spanID = 0,
        rc = new_resources (rcLimit (rc osc)), owner = Some own, edges = [],
        scName = scName osc @ ''.span-'' @ nm @ ''-'' @ show_int i\<rparr>) (scopes h own)"

definition NextSpanID :: "scopeHeap \<Rightarrow> scope_ref \<Rightarrow> (int \<times> scopeHeap) option" where
  "NextSpanID h s =
     map_option (\<lambda>sc. let i = i64 (spanID sc + 1) in (i, put h s (sc\<lparr>spanID := i\<rparr>))) (scopes h s)"

text \<open>\<open>BeginSpan\<close> returns the new span or an error.\<close>

definition BeginSpan :: "scopeHeap \<Rightarrow> scope_ref \<Rightarrow> ((rc_error + scope_ref) \<times> scopeHeap) option" where
  "BeginSpan h s =
     Option.bind (scopes h s) (\<lambda>sc.
       if sDone sc then Some (Inl (wrapError sc ErrResourceScopeClosed), h)
       else let h1 = put h s (sc\<lparr>refCnt := i64 (refCnt sc + 1)\<rparr>)
       in Option.bind (NextSpanID h1 s) (\<lambda>(i, h2).
            map_option (\<lambda>(r, h3). (Inr r, h3)) (newResourceScopeSpan h2 s i ''temp'')))"

subsection \<open>Reserving through owners and edges\<close>

text \<open>\<open>ReserveMemoryForChild\<close>, \<open>AddTaskForChild\<close> and \<open>AddConnForChild\<close>.\<close>

definition reserve_for_child ::
  "(resources \<Rightarrow> rc_error + resources) \<Rightarrow> scopeHeap \<Rightarrow> scope_ref \<Rightarrow> (rc_error option \<times> scopeHeap) option"
where
  "reserve_for_child res h e =
     map_option (\<lambda>sc.
       if sDone sc then (Some (wrapError sc ErrResourceScopeClosed), h)
       else case res (rc sc) of
              Inl err \<Rightarrow> (Some (wrapError sc err), h)
            | Inr rc' \<Rightarrow> (None, put h e (sc\<lparr>rc := rc'\<rparr>))) (scopes h e)"

text \<open>\<open>ReleaseMemoryForChild\<close>, \<open>RemoveTaskForChild\<close>, \<open>RemoveConnForChild\<close> and \<open>ReleaseForChild\<close>.\<close>

definition release_for_child ::
  "(resources \<Rightarrow> resources) \<Rightarrow> scopeHeap \<Rightarrow> scope_ref \<Rightarrow> scopeHeap option" where
  "release_for_child rel h e =
     map_option (\<lambda>sc. if sDone sc then h else put h e (sc\<lparr>rc := rel (rc sc)\<rparr>)) (scopes h e)"

fun release_edges ::
  "(resources \<Rightarrow> resources) \<Rightarrow> scopeHeap \<Rightarrow> scope_ref list \<Rightarrow> scopeHeap option" where
  "release_edges rel h [] = Some h"
| "release_edges rel h (e # es) =
     Option.bind (release_for_child rel h e) (\<lambda>h'. release_edges rel h' es)"

text \<open>The loop over the edges: the error, the number of edges reserved, and the store.\<close>

fun reserve_loop ::
  "(resources \<Rightarrow> rc_error + resources) \<Rightarrow> scopeHeap \<Rightarrow> scope_ref list \<Rightarrow>
     (rc_error option \<times> nat \<times> scopeHeap) option" where
  "reserve_loop res h [] = Some (None, 0, h)"
| "reserve_loop res h (e # es) =
     Option.bind (reserve_for_child res h e) (\<lambda>(err, h').
       case err of
         Some x \<Rightarrow> Some (Some x, 0, h')
       | None \<Rightarrow> map_option (\<lambda>(err', n, h''). (err', Suc n, h'')) (reserve_loop res h' es))"

definition reserve_edges ::
  "(resources \<Rightarrow> rc_error + resources) \<Rightarrow> (resources \<Rightarrow> resources) \<Rightarrow> scopeHeap \<Rightarrow> scope_ref list \<Rightarrow>
     (rc_error option \<times> scopeHeap) option" where
  "reserve_edges res rel h es =
     Option.bind (reserve_loop res h es) (\<lambda>(err, reserved, h').
       case err of
         None \<Rightarrow> Some (None, h')
       | Some x \<Rightarrow> map_option (\<lambda>h''. (Some x, h'')) (release_edges rel h' (take reserved es)))"

partial_function (option) reserve_scope ::
  "(resources \<Rightarrow> rc_error + resources) \<Rightarrow> (resources \<Rightarrow> resources) \<Rightarrow> scopeHeap \<Rightarrow> scope_ref \<Rightarrow>
     (rc_error option \<times> scopeHeap) option" where
  "reserve_scope res rel h s =
     Option.bind (scopes h s) (\<lambda>sc.
       if sDone sc then Some (Some (wrapError sc ErrResourceScopeClosed), h)
       else case res (rc sc) of
              Inl err \<Rightarrow> Some (Some (wrapError sc err), h)
            | Inr rc' \<Rightarrow>
                Option.bind
                  (case owner sc of
                     Some own \<Rightarrow> reserve_scope res rel (put h s (sc\<lparr>rc := rc'\<rparr>)) own
                   | None \<Rightarrow> reserve_edges res rel (put h s (sc\<lparr>rc := rc'\<rparr>)) (edges sc))
                  (\<lambda>(err, h2).
                     case err of
                       None \<Rightarrow> Some (None, h2)
                     | Some x \<Rightarrow>
                         map_option
                           (\<lambda>sc2. (Some (wrapError sc2 x), put h2 s (sc2\<lparr>rc := rel (rc sc2)\<rparr>)))
                           (scopes h2 s)))"

text \<open>\<open>ReleaseMemory\<close> and \<open>ReleaseResources\<close>: the edges are skipped when there is an owner.\<close>

partial_function (option) release_scope ::
  "(resources \<Rightarrow> resources) \<Rightarrow> scopeHeap \<Rightarrow> scope_ref \<Rightarrow> scopeHeap option" where
  "release_scope rel h s =
     Option.bind (scopes h s) (\<lambda>sc.
       if sDone sc then Some h
       else case owner sc of
              Some own \<Rightarrow> release_scope rel (put h s (sc\<lparr>rc := rel (rc sc)\<rparr>)) own
            | None \<Rightarrow> release_edges rel (put h s (sc\<lparr>rc := rel (rc sc)\<rparr>)) (edges sc))"

text \<open>\<open>RemoveTask\<close> and \<open>RemoveConn\<close>: the edges are visited after the owner.\<close>

partial_function (option) remove_scope ::
  "(resources \<Rightarrow> resources) \<Rightarrow> scopeHeap \<Rightarrow> scope_ref \<Rightarrow> scopeHeap option" where
  "remove_scope rel h s =
     Option.bind (scopes h s) (\<lambda>sc.
       if sDone sc then Some h
       else Option.bind
              (case owner sc of
                 Some own \<Rightarrow> remove_scope rel (put h s (sc\<lparr>rc := rel (rc sc)\<rparr>)) own
               | None \<Rightarrow> Some (put h s (sc\<lparr>rc := rel (rc sc)\<rparr>)))
              (\<lambda>h'. release_edges rel h' (edges sc)))"

subsection \<open>The methods of a scope\<close>

definition ReserveMemory ::
  "int \<Rightarrow> int \<Rightarrow> scopeHeap \<Rightarrow> scope_ref \<Rightarrow> (rc_error option \<times> scopeHeap) option" where
  "ReserveMemory sz prio =
     reserve_scope (\<lambda>r. reserveMemory r sz prio) (\<lambda>r. releaseMemory r sz)"

definition ReleaseMemory :: "int \<Rightarrow> scopeHeap \<Rightarrow> scope_ref \<Rightarrow> scopeHeap option" where
  "ReleaseMemory sz = release_scope (\<lambda>r. releaseMemory r sz)"

definition AddTask ::
  "int \<Rightarrow> ReserveTaskPriority \<Rightarrow> scopeHeap \<Rightarrow> scope_ref \<Rightarrow> (rc_error option \<times> scopeHeap) option" where
  "AddTask num prio = reserve_scope (\<lambda>r. addTask r num prio) (\<lambda>r. removeTask r num prio)"

definition RemoveTask ::
  "int \<Rightarrow> ReserveTaskPriority \<Rightarrow> scopeHeap \<Rightarrow> scope_ref \<Rightarrow> scopeHeap option" where
  "RemoveTask num prio = remove_scope (\<lambda>r. removeTask r num prio)"

definition AddConn :: "Direction \<Rightarrow> scopeHeap \<Rightarrow> scope_ref \<Rightarrow> (rc_error option \<times> scopeHeap) option" where
  "AddConn dir = reserve_scope (\<lambda>r. addConn r dir) (\<lambda>r. removeConn r dir)"

definition RemoveConn :: "Direction \<Rightarrow> scopeHeap \<Rightarrow> scope_ref \<Rightarrow> scopeHeap option" where
  "RemoveConn dir = remove_scope (\<lambda>r. removeConn r dir)"

text \<open>
  Reserving and releasing a whole \<open>ScopeStat\<close> in one accounting record.  \<open>reserve_stat\<close> is the body that
  \<open>ReserveForChild\<close> and \<open>ReserveResources\<close> share: it returns the error and the record, in which what
  was reserved before the step that failed has been released again.  \<open>release_stat\<close> is the body of
  the release methods.
\<close>

definition ReservationPriorityAlways :: int where
  "ReservationPriorityAlways = 255"

definition reserve_stat :: "ScopeStat \<Rightarrow> resources \<Rightarrow> rc_error option \<times> resources" where
  "reserve_stat st r0 =
     (let m = stMemory st; i = stNumConnsInbound st; out = stNumConnsOutbound st; fd = stNumFD st in
      case reserveMemory r0 m ReservationPriorityAlways of
        Inl err \<Rightarrow> (Some err, r0)
      | Inr r1 \<Rightarrow>
     (case addConns r1 i out fd of
        Inl err \<Rightarrow> (Some err, releaseMemory r1 m)
      | Inr r2 \<Rightarrow>
     (case addTask r2 (stNumTasksHigh st) ReserveTaskPriorityHigh of
        Inl err \<Rightarrow> (Some err, removeConns (releaseMemory r2 m) i out fd)
      | Inr r3 \<Rightarrow>
     (case addTask r3 (stNumTasksMedium st) ReserveTaskPriorityMedium of
        Inl err \<Rightarrow> (Some err, removeTask (removeConns (releaseMemory r3 m) i out fd)
                                (stNumTasksHigh st) ReserveTaskPriorityHigh)
      | Inr r4 \<Rightarrow>
     (case addTask r4 (stNumTasksLow st) ReserveTaskPriorityLow of
        Inl err \<Rightarrow> (Some err, removeTask (removeTask (removeConns (releaseMemory r4 m) i out fd)
                                (stNumTasksHigh st) ReserveTaskPriorityHigh)
                                (stNumTasksMedium st) ReserveTaskPriorityMedium)
      | Inr r5 \<Rightarrow> (None, r5))))))"

definition release_stat :: "ScopeStat \<Rightarrow> resources \<Rightarrow> resources" where
  "release_stat st r =
     removeTask (removeTask (removeTask
       (removeConns (releaseMemory r (stMemory st))
          (stNumConnsInbound st) (stNumConnsOutbound st) (stNumFD st))
       (stNumTasksHigh st) ReserveTaskPriorityHigh)
       (stNumTasksMedium st) ReserveTaskPriorityMedium)
       (stNumTasksLow st) ReserveTaskPriorityLow"

definition ReserveForChild ::
  "ScopeStat \<Rightarrow> scopeHeap \<Rightarrow> scope_ref \<Rightarrow> (rc_error option \<times> scopeHeap) option" where
  "ReserveForChild st h s =
     map_option (\<lambda>sc.
       if sDone sc then (Some (wrapError sc ErrResourceScopeClosed), h)
       else case reserve_stat st (rc sc) of
              (Some err, r) \<Rightarrow> (Some (wrapError sc err), put h s (sc\<lparr>rc := r\<rparr>))
            | (None, r) \<Rightarrow> (None, put h s (sc\<lparr>rc := r\<rparr>))) (scopes h s)"

definition ReleaseForChild :: "ScopeStat \<Rightarrow> scopeHeap \<Rightarrow> scope_ref \<Rightarrow> scopeHeap option" where
  "ReleaseForChild st = release_for_child (release_stat st)"

definition ReleaseResources :: "ScopeStat \<Rightarrow> scopeHeap \<Rightarrow> scope_ref \<Rightarrow> scopeHeap option" where
  "ReleaseResources st = release_scope (release_stat st)"

definition Release :: "scopeHeap \<Rightarrow> scope_ref \<Rightarrow> scopeHeap option" where
  "Release h s =
     Option.bind (scopes h s) (\<lambda>sc.
       if sDone sc then Some h else ReleaseResources (rc_stat (rc sc)) h s)"

text \<open>
  Only the first edge is asked (the loop body ends in \<open>break\<close>), and a failure further up releases
  through \<open>ReleaseResourcesWithoutLock\<close>, which also releases at the owner and at all edges.
\<close>

partial_function (option) ReserveResources ::
  "ScopeStat \<Rightarrow> scopeHeap \<Rightarrow> scope_ref \<Rightarrow> (rc_error option \<times> scopeHeap) option" where
  "ReserveResources st h s =
     Option.bind (scopes h s) (\<lambda>sc.
       if sDone sc then Some (Some (wrapError sc ErrResourceScopeClosed), h)
       else if fst (reserve_stat st (rc sc)) \<noteq> None
       then Some (map_option (wrapError sc) (fst (reserve_stat st (rc sc))),
                  put h s (sc\<lparr>rc := snd (reserve_stat st (rc sc))\<rparr>))
       else Option.bind
              (case owner sc of
                 Some own \<Rightarrow> ReserveResources st (put h s (sc\<lparr>rc := snd (reserve_stat st (rc sc))\<rparr>)) own
               | None \<Rightarrow>
                   (case edges sc of
                      [] \<Rightarrow> Some (None, put h s (sc\<lparr>rc := snd (reserve_stat st (rc sc))\<rparr>))
                    | e # _ \<Rightarrow> ReserveForChild st (put h s (sc\<lparr>rc := snd (reserve_stat st (rc sc))\<rparr>)) e))
              (\<lambda>(err, h2).
                 case err of
                   None \<Rightarrow> Some (None, h2)
                 | Some x \<Rightarrow> map_option (\<lambda>h3. (Some x, h3)) (ReleaseResources st h2 s)))"

fun done_edges :: "ScopeStat \<Rightarrow> scopeHeap \<Rightarrow> scope_ref list \<Rightarrow> scopeHeap option" where
  "done_edges st h [] = Some h"
| "done_edges st h (e # es) =
     Option.bind (ReleaseForChild st h e) (\<lambda>h1. Option.bind (DecRef h1 e) (\<lambda>h2. done_edges st h2 es))"

definition Done :: "scopeHeap \<Rightarrow> scope_ref \<Rightarrow> scopeHeap option" where
  "Done h s =
     Option.bind (scopes h s) (\<lambda>sc.
       if sDone sc then Some h
       else Option.bind
              (case owner sc of
                 Some own \<Rightarrow>
                   Option.bind (ReleaseResources (rc_stat (rc sc)) h own) (\<lambda>h1. DecRef h1 own)
               | None \<Rightarrow> done_edges (rc_stat (rc sc)) h (edges sc))
              (\<lambda>h1. map_option
                 (\<lambda>sc1. put h1 s (sc1\<lparr>rc := (rc sc1)\<lparr>nconnsIn := 0, nconnsOut := 0, nfd := 0, memory := 0\<rparr>,
                                      sDone := True\<rparr>)) (scopes h1 s)))"

definition RemainingResource :: "scopeHeap \<Rightarrow> scope_ref \<Rightarrow> GfSpLimit option" where
  "RemainingResource h s = map_option (\<lambda>sc. remaining (rc sc)) (scopes h s)"

definition Stat :: "scopeHeap \<Rightarrow> scope_ref \<Rightarrow> ScopeStat option" where
  "Stat h s = map_option (\<lambda>sc. rc_stat (rc sc)) (scopes h s)"

definition IsUnused :: "scopeHeap \<Rightarrow> scope_ref \<Rightarrow> bool option" where
  "IsUnused h s =
     map_option (\<lambda>sc.
       if sDone sc then True
       else if refCnt sc > 0 then False
       else let st = rc_stat (rc sc)
            in stNumConnsInbound st = 0 \<and> stNumConnsOutbound st = 0 \<and> stNumFD st = 0) (scopes h s)"

subsection \<open>The scopes an operation accounts in, and updating them\<close>

text \<open>\<open>accounts h s i\<close>: an operation on scope \<open>s\<close> is accounted for in scope \<open>i\<close>.\<close>

inductive accounts :: "scopeHeap \<Rightarrow> scope_ref \<Rightarrow> scope_ref \<Rightarrow> bool" for h where
  self: "accounts h s s"
| up: "scopes h s = Some sc \<Longrightarrow> owner sc = Some own \<Longrightarrow> accounts h own i \<Longrightarrow> accounts h s i"
| edge: "scopes h s = Some sc \<Longrightarrow> owner sc = None \<Longrightarrow> e \<in> set (edges sc) \<Longrightarrow> accounts h s e"

inductive_cases accountsE: "accounts h s i"

definition apply_at :: "scope_ref set \<Rightarrow> (resources \<Rightarrow> resources) \<Rightarrow> scopeHeap \<Rightarrow> scopeHeap" where
  "apply_at A f h =
     h\<lparr>scopes := \<lambda>i. if i \<in> A then map_option (\<lambda>sc. sc\<lparr>rc := f (rc sc)\<rparr>) (scopes h i) else scopes h i\<rparr>"

definition scope_ok :: "scopeHeap \<Rightarrow> scope_ref \<Rightarrow> resourceScope \<Rightarrow> bool" where
  "scope_ok h s sc \<longleftrightarrow> s < nextRef h \<and> rc_inv (rc sc) \<and> distinct (edges sc)
     \<and> (\<forall>e \<in> set (edges sc). e < s \<and> e \<in> dom (scopes h))
     \<and> (\<forall>own. owner sc = Some own \<longrightarrow> own < s \<and> own \<in> dom (scopes h) \<and> edges sc = [])"

definition heap_inv :: "scopeHeap \<Rightarrow> bool" where
  "heap_inv h \<longleftrightarrow> (\<forall>s sc. scopes h s = Some sc \<longrightarrow> scope_ok h s sc)"

lemma heap_invD: "heap_inv h \<Longrightarrow> scopes h s = Some sc \<Longrightarrow> scope_ok h s sc"
  by (simp add: heap_inv_def)

lemma heap_eqI: "(\<And>i. scopes h i = scopes h' i) \<Longrightarrow> nextRef h = nextRef h' \<Longrightarrow> h = (h' :: scopeHeap)"
  by (intro scopeHeap.equality) auto

lemma apply_at_empty [simp]: "apply_at {} f h = h"
  by (simp add: apply_at_def)

lemma scopes_apply_at:
  "scopes (apply_at A f h) i = (if i \<in> A then map_option (\<lambda>sc. sc\<lparr>rc := f (rc sc)\<rparr>) (scopes h i) else scopes h i)"
  by (simp add: apply_at_def)

lemma nextRef_apply_at [simp]: "nextRef (apply_at A f h) = nextRef h"
  by (simp add: apply_at_def)

lemma dom_apply_at [simp]: "dom (scopes (apply_at A f h)) = dom (scopes h)"
  by (auto simp: scopes_apply_at split: if_splits)

lemma put_apply_at: "scopes h s = Some sc \<Longrightarrow> put h s (sc\<lparr>rc := f (rc sc)\<rparr>) = apply_at {s} f h"
  by (rule heap_eqI) (simp_all add: put_def scopes_apply_at)

lemma put_apply_atI: "scopes h s = Some sc \<Longrightarrow> f (rc sc) = r \<Longrightarrow> put h s (sc\<lparr>rc := r\<rparr>) = apply_at {s} f h"
  using put_apply_at by metis

lemma apply_at_Un: "A \<inter> B = {} \<Longrightarrow> apply_at A f (apply_at B f h) = apply_at (A \<union> B) f h"
  by (rule heap_eqI) (auto simp: scopes_apply_at)

lemma apply_at_inverse:
  "(\<And>i sc. i \<in> A \<Longrightarrow> scopes h i = Some sc \<Longrightarrow> g (f (rc sc)) = rc sc) \<Longrightarrow> apply_at A g (apply_at A f h) = h"
proof (rule heap_eqI)
  fix i
  assume a: "\<And>i sc. i \<in> A \<Longrightarrow> scopes h i = Some sc \<Longrightarrow> g (f (rc sc)) = rc sc"
  show "scopes (apply_at A g (apply_at A f h)) i = scopes h i"
    using a [of i] by (cases "scopes h i") (simp_all add: scopes_apply_at)
qed simp

lemma apply_at_scope:
  "scopes h i = Some sc \<Longrightarrow> \<exists>r. scopes (apply_at A f h) i = Some (sc\<lparr>rc := r\<rparr>)"
  by (cases "i \<in> A") (auto simp: scopes_apply_at intro: exI [of _ "rc sc"])

lemma apply_at_scopeD:
  "scopes (apply_at A f h) i = Some sc \<Longrightarrow> \<exists>r. scopes h i = Some (sc\<lparr>rc := r\<rparr>)"
proof (cases "i \<in> A")
  case True
  assume "scopes (apply_at A f h) i = Some sc"
  with True obtain a where "scopes h i = Some a" "sc = a\<lparr>rc := f (rc a)\<rparr>" by (auto simp: scopes_apply_at)
  then show ?thesis by (intro exI [of _ "rc a"]) simp
qed (auto simp: scopes_apply_at intro: exI [of _ "rc sc"])

lemma accounts_apply_at1: "accounts h s i \<Longrightarrow> accounts (apply_at A f h) s i"
proof (induction rule: accounts.induct)
  case (up s sc own i)
  obtain r where "scopes (apply_at A f h) s = Some (sc\<lparr>rc := r\<rparr>)" using apply_at_scope [OF up.hyps(1)] by blast
  from accounts.up [OF this _ up.IH] up.hyps(2) show ?case by simp
next
  case (edge s sc e)
  obtain r where "scopes (apply_at A f h) s = Some (sc\<lparr>rc := r\<rparr>)" using apply_at_scope [OF edge.hyps(1)] by blast
  from accounts.edge [OF this] edge.hyps(2,3) show ?case by simp
qed (rule accounts.self)

lemma accounts_apply_at2: "accounts (apply_at A f h) s i \<Longrightarrow> accounts h s i"
proof (induction rule: accounts.induct)
  case (up s sc own i)
  obtain r where "scopes h s = Some (sc\<lparr>rc := r\<rparr>)" using apply_at_scopeD [OF up.hyps(1)] by blast
  from accounts.up [OF this _ up.IH] up.hyps(2) show ?case by simp
next
  case (edge s sc e)
  obtain r where "scopes h s = Some (sc\<lparr>rc := r\<rparr>)" using apply_at_scopeD [OF edge.hyps(1)] by blast
  from accounts.edge [OF this] edge.hyps(2,3) show ?case by simp
qed (rule accounts.self)

lemma accounts_apply_at [simp]: "accounts (apply_at A f h) s = accounts h s"
  using accounts_apply_at1 accounts_apply_at2 by (intro ext) blast

lemma accounts_unfold:
  "scopes h s = Some sc \<Longrightarrow> Collect (accounts h s) =
     insert s (case owner sc of Some own \<Rightarrow> Collect (accounts h own) | None \<Rightarrow> set (edges sc))"
  by (auto elim: accountsE intro: accounts.intros split: option.splits)

lemma accounts_le: "accounts h s i \<Longrightarrow> heap_inv h \<Longrightarrow> s \<in> dom (scopes h) \<Longrightarrow> i \<le> s \<and> i \<in> dom (scopes h)"
proof (induction rule: accounts.induct)
  case (up s sc own i)
  then have "scope_ok h s sc" by (simp add: heap_invD)
  with up show ?case by (fastforce simp: scope_ok_def)
next
  case (edge s sc e)
  then have "scope_ok h s sc" by (simp add: heap_invD)
  with edge show ?case by (fastforce simp: scope_ok_def)
qed simp

lemma accounts_rest:
  assumes "heap_inv h" "scopes h s = Some sc"
  shows "Collect (accounts h s) - {s} =
    (case owner sc of Some own \<Rightarrow> Collect (accounts h own) | None \<Rightarrow> set (edges sc))"
proof -
  have "s \<notin> (case owner sc of Some own \<Rightarrow> Collect (accounts h own) | None \<Rightarrow> set (edges sc))"
    using heap_invD [OF assms] accounts_le [OF _ assms(1)] by (fastforce simp: scope_ok_def split: option.splits)
  then show ?thesis by (simp add: accounts_unfold [OF assms(2)])
qed

lemma heap_inv_apply_at:
  assumes "heap_inv h" "\<And>i sc. i \<in> A \<Longrightarrow> scopes h i = Some sc \<Longrightarrow> rc_inv (f (rc sc))"
  shows "heap_inv (apply_at A f h)"
  unfolding heap_inv_def
proof (intro allI impI)
  fix s sc
  assume "scopes (apply_at A f h) s = Some sc"
  then obtain sc0 where sc0: "scopes h s = Some sc0" "sc = (if s \<in> A then sc0\<lparr>rc := f (rc sc0)\<rparr> else sc0)"
    by (auto simp: scopes_apply_at split: if_splits)
  have "scope_ok h s sc0" using assms(1) sc0(1) by (rule heap_invD)
  then show "scope_ok (apply_at A f h) s sc"
    using sc0 assms(2) by (simp add: scope_ok_def)
qed

lemma heap_inv_put:
  assumes "heap_inv h" "scopes h s = Some sc" "rc_inv (rc sc')" "owner sc' = owner sc" "edges sc' = edges sc"
  shows "heap_inv (put h s sc')"
  unfolding heap_inv_def
proof (intro allI impI)
  fix i sci
  assume i: "scopes (put h s sc') i = Some sci"
  have d: "dom (scopes (put h s sc')) = dom (scopes h)" "nextRef (put h s sc') = nextRef h"
    using assms(2) by (auto simp: put_def)
  show "scope_ok (put h s sc') i sci"
  proof (cases "i = s")
    case True
    with i assms heap_invD [OF assms(1,2)] d show ?thesis by (simp add: put_def scope_ok_def)
  next
    case False
    with i have "scopes h i = Some sci" by (simp add: put_def)
    from heap_invD [OF assms(1) this] d show ?thesis by (simp add: scope_ok_def)
  qed
qed

text \<open>Accounting functions that keep the invariant of a record.\<close>

definition res_keeps :: "(resources \<Rightarrow> rc_error + resources) \<Rightarrow> bool" where
  "res_keeps res \<longleftrightarrow> (\<forall>r r'. rc_inv r \<longrightarrow> res r = Inr r' \<longrightarrow> rc_inv r')"

definition rel_keeps :: "(resources \<Rightarrow> resources) \<Rightarrow> bool" where
  "rel_keeps rel \<longleftrightarrow> (\<forall>r. rc_inv r \<longrightarrow> rc_inv (rel r))"

lemma res_keepsD: "res_keeps res \<Longrightarrow> rc_inv r \<Longrightarrow> res r = Inr r' \<Longrightarrow> rc_inv r'"
  by (auto simp: res_keeps_def)

lemma rel_keepsD: "rel_keeps rel \<Longrightarrow> rc_inv r \<Longrightarrow> rc_inv (rel r)"
  by (auto simp: rel_keeps_def)

text \<open>The pointers of the store, which only allocation changes.\<close>

definition shape :: "scopeHeap \<Rightarrow> scope_ref \<rightharpoonup> scope_ref option \<times> scope_ref list" where
  "shape h = (\<lambda>i. map_option (\<lambda>sc. (owner sc, edges sc)) (scopes h i))"

lemma shape_dom: "shape h' = shape h \<Longrightarrow> dom (scopes h') = dom (scopes h)"
  by (auto simp: shape_def fun_eq_iff dom_def) (metis option.map_disc_iff not_None_eq)+

lemma shape_put: "scopes h s = Some sc \<Longrightarrow> owner sc' = owner sc \<Longrightarrow> edges sc' = edges sc \<Longrightarrow> shape (put h s sc') = shape h"
  by (auto simp: shape_def put_def)

lemma shape_apply_at [simp]: "shape (apply_at A f h) = shape h"
  by (auto simp: shape_def scopes_apply_at option.map_comp o_def)

subsection \<open>Releasing\<close>

lemma release_edges_eq:
  assumes "\<And>e. e \<in> set es \<Longrightarrow> \<exists>sc. scopes h e = Some sc \<and> \<not> sDone sc" "distinct es"
  shows "release_edges rel h es = Some (apply_at (set es) rel h)"
  using assms
proof (induction es arbitrary: h)
  case (Cons e es)
  then obtain sc where sc: "scopes h e = Some sc" "\<not> sDone sc" by auto
  have "release_for_child rel h e = Some (apply_at {e} rel h)"
    using sc by (simp add: release_for_child_def put_apply_at)
  moreover have "release_edges rel (apply_at {e} rel h) es = Some (apply_at (set es) rel (apply_at {e} rel h))"
    using Cons.prems by (intro Cons.IH) (auto simp: scopes_apply_at)
  ultimately show ?case using Cons.prems(2) by (simp add: apply_at_Un)
qed simp

lemma release_edges_inv:
  assumes "heap_inv h" "set es \<subseteq> dom (scopes h)" "rel_keeps rel"
  shows "\<exists>h'. release_edges rel h es = Some h' \<and> heap_inv h' \<and> shape h' = shape h"
  using assms(1,2)
proof (induction es arbitrary: h)
  case (Cons e es)
  then obtain sc where sc: "scopes h e = Some sc" by auto
  have ok: "rc_inv (rc sc)" using Cons.prems(1) sc heap_invD scope_ok_def by blast
  let ?h = "if sDone sc then h else put h e (sc\<lparr>rc := rel (rc sc)\<rparr>)"
  have h: "release_for_child rel h e = Some ?h" using sc by (simp add: release_for_child_def)
  have "heap_inv ?h" using Cons.prems(1) sc ok rel_keepsD [OF assms(3)] by (auto intro!: heap_inv_put)
  moreover have d: "shape ?h = shape h" using sc by (auto intro!: shape_put)
  moreover have "set es \<subseteq> dom (scopes ?h)" using Cons.prems(2) shape_dom [OF d] by auto
  ultimately obtain h' where "release_edges rel ?h es = Some h'" "heap_inv h'" "shape h' = shape ?h"
    using Cons.IH [of ?h] by blast
  with h d show ?case by auto
qed simp

text \<open>Through open scopes, both release walks update exactly the scopes the operation accounts in.\<close>

lemma release_remove_scope:
  assumes "heap_inv h" "s \<in> dom (scopes h)"
    "\<And>i sc. accounts h s i \<Longrightarrow> scopes h i = Some sc \<Longrightarrow> \<not> sDone sc"
    "rel_keeps rel"
  shows "release_scope rel h s = Some (apply_at (Collect (accounts h s)) rel h)
    \<and> remove_scope rel h s = Some (apply_at (Collect (accounts h s)) rel h)"
  using assms(1,2,3)
proof (induction s arbitrary: h rule: less_induct)
  case (less s)
  obtain sc where sc: "scopes h s = Some sc" using less.prems(2) by auto
  have opn: "\<not> sDone sc" using less.prems(3) [OF accounts.self sc] .
  have ok: "scope_ok h s sc" using less.prems(1) sc by (rule heap_invD)
  have put: "put h s (sc\<lparr>rc := rel (rc sc)\<rparr>) = apply_at {s} rel h" using sc by (rule put_apply_at)
  have inv: "heap_inv (apply_at {s} rel h)"
    using less.prems(1) sc ok rel_keepsD [OF assms(4)] by (intro heap_inv_apply_at) (auto simp: scope_ok_def)
  show ?case
  proof (cases "owner sc")
    case None
    have o: "\<exists>sc'. scopes (apply_at {s} rel h) e = Some sc' \<and> \<not> sDone sc'" if e: "e \<in> set (edges sc)" for e
    proof -
      have "accounts h s e" using sc None e by (rule accounts.edge)
      then show ?thesis
        using ok e less.prems(3) by (auto simp: scope_ok_def scopes_apply_at)
    qed
    have "release_edges rel (apply_at {s} rel h) (edges sc)
        = Some (apply_at (set (edges sc)) rel (apply_at {s} rel h))"
      using ok o by (intro release_edges_eq) (auto simp: scope_ok_def)
    moreover have "set (edges sc) \<inter> {s} = {}" using ok by (auto simp: scope_ok_def)
    ultimately show ?thesis
      using sc opn None put
      by (simp add: release_scope.simps [of rel h s] remove_scope.simps [of rel h s] accounts_unfold apply_at_Un)
  next
    case (Some own)
    then have own: "own < s" "own \<in> dom (scopes h)" "edges sc = []" using ok by (auto simp: scope_ok_def)
    have o: "\<not> sDone sc'" if i: "accounts (apply_at {s} rel h) own i" "scopes (apply_at {s} rel h) i = Some sc'" for i sc'
    proof -
      have "accounts h s i" using sc Some i(1) by (auto intro: accounts.up)
      with i(2) less.prems(3) show ?thesis by (auto simp: scopes_apply_at split: if_splits)
    qed
    have "release_scope rel (apply_at {s} rel h) own = Some (apply_at (Collect (accounts h own)) rel (apply_at {s} rel h))"
      "remove_scope rel (apply_at {s} rel h) own = Some (apply_at (Collect (accounts h own)) rel (apply_at {s} rel h))"
      using less.IH [OF own(1) inv] own(2) o by simp_all
    moreover have "Collect (accounts h own) \<inter> {s} = {}"
      using accounts_le [OF _ less.prems(1) own(2)] own(1) by fastforce
    ultimately show ?thesis
      using sc opn Some put own(3)
      by (simp add: release_scope.simps [of rel h s] remove_scope.simps [of rel h s] accounts_unfold apply_at_Un)
  qed
qed

lemmas release_scope_eq = release_remove_scope [THEN conjunct1]
lemmas remove_scope_eq = release_remove_scope [THEN conjunct2]

text \<open>Whatever scopes are closed, a release returns and keeps the invariant.\<close>

lemma release_scope_inv:
  assumes "heap_inv h" "s \<in> dom (scopes h)" "rel_keeps rel"
  shows "\<exists>h'. release_scope rel h s = Some h' \<and> heap_inv h' \<and> shape h' = shape h"
    and "\<exists>h'. remove_scope rel h s = Some h' \<and> heap_inv h' \<and> shape h' = shape h"
proof -
  have "(\<exists>h'. release_scope rel h s = Some h' \<and> heap_inv h' \<and> shape h' = shape h)
    \<and> (\<exists>h'. remove_scope rel h s = Some h' \<and> heap_inv h' \<and> shape h' = shape h)"
    using assms(1,2)
  proof (induction s arbitrary: h rule: less_induct)
    case (less s)
    obtain sc where sc: "scopes h s = Some sc" using less.prems(2) by auto
    have ok: "scope_ok h s sc" using less.prems(1) sc by (rule heap_invD)
    let ?h = "put h s (sc\<lparr>rc := rel (rc sc)\<rparr>)"
    have inv: "heap_inv ?h"
      using less.prems(1) sc ok rel_keepsD [OF assms(3)] by (auto intro!: heap_inv_put simp: scope_ok_def)
    have d: "shape ?h = shape h" using sc by (auto intro!: shape_put)
    show ?case
    proof (cases "sDone sc")
      case True
      with sc less.prems(1) show ?thesis by (simp add: release_scope.simps [of rel h s] remove_scope.simps [of rel h s])
    next
      case False
      show ?thesis
      proof (cases "owner sc")
        case None
        have "set (edges sc) \<subseteq> dom (scopes ?h)" using ok shape_dom [OF d] by (auto simp: scope_ok_def)
        with release_edges_inv [where rel = rel, OF inv this assms(3)] d
        obtain h' where "release_edges rel ?h (edges sc) = Some h'" "heap_inv h'" "shape h' = shape h" by auto
        with sc False None show ?thesis
          by (simp add: release_scope.simps [of rel h s] remove_scope.simps [of rel h s])
      next
        case (Some own)
        with ok shape_dom [OF d] have own: "own < s" "own \<in> dom (scopes ?h)" "edges sc = []"
          by (simp_all add: scope_ok_def)
        from less.IH [OF own(1) inv own(2)] sc False Some d own(3) show ?thesis
          by (auto simp: release_scope.simps [of rel h s] remove_scope.simps [of rel h s])
      qed
    qed
  qed
  then show "\<exists>h'. release_scope rel h s = Some h' \<and> heap_inv h' \<and> shape h' = shape h"
    and "\<exists>h'. remove_scope rel h s = Some h' \<and> heap_inv h' \<and> shape h' = shape h" by blast+
qed

text \<open>The same for reserving, also for accounting functions that are not inverse to each other.\<close>

lemma reserve_for_child_inv:
  assumes "heap_inv h" "e \<in> dom (scopes h)" "res_keeps res"
  shows "\<exists>err h'. reserve_for_child res h e = Some (err, h') \<and> heap_inv h' \<and> shape h' = shape h"
proof -
  obtain sc where sc: "scopes h e = Some sc" using assms(2) by auto
  have "rc_inv (rc sc)" using heap_invD [OF assms(1) sc] by (simp add: scope_ok_def)
  then have "heap_inv (put h e (sc\<lparr>rc := r'\<rparr>)) \<and> shape (put h e (sc\<lparr>rc := r'\<rparr>)) = shape h"
    if "res (rc sc) = Inr r'" for r'
    using assms(1) sc res_keepsD [OF assms(3) _ that] by (auto intro!: heap_inv_put shape_put)
  with sc assms(1) show ?thesis by (auto simp: reserve_for_child_def split: sum.splits)
qed

lemma reserve_loop_inv:
  assumes "heap_inv h" "set es \<subseteq> dom (scopes h)" "res_keeps res"
  shows "\<exists>err n h'. reserve_loop res h es = Some (err, n, h') \<and> heap_inv h' \<and> shape h' = shape h"
  using assms(1,2)
proof (induction es arbitrary: h)
  case (Cons e es)
  have "e \<in> dom (scopes h)" using Cons.prems(2) by simp
  then obtain err h1 where h1: "reserve_for_child res h e = Some (err, h1)" "heap_inv h1" "shape h1 = shape h"
    using reserve_for_child_inv [OF Cons.prems(1) _ assms(3)] by blast
  show ?case
  proof (cases err)
    case None
    have "set es \<subseteq> dom (scopes h1)" using Cons.prems(2) shape_dom [OF h1(3)] by auto
    from Cons.IH [OF h1(2) this] None h1 show ?thesis by auto
  qed (use h1 in auto)
qed simp

lemma reserve_edges_inv:
  assumes "heap_inv h" "set es \<subseteq> dom (scopes h)" "res_keeps res"
    "rel_keeps rel"
  shows "\<exists>err h'. reserve_edges res rel h es = Some (err, h') \<and> heap_inv h' \<and> shape h' = shape h"
proof -
  obtain err n h1 where h1: "reserve_loop res h es = Some (err, n, h1)" "heap_inv h1" "shape h1 = shape h"
    using reserve_loop_inv [where res = res, OF assms(1,2,3)] by blast
  have "set (take n es) \<subseteq> dom (scopes h1)"
    using assms(2) shape_dom [OF h1(3)] by (auto dest: in_set_takeD)
  from release_edges_inv [where rel = rel, OF h1(2) this assms(4)] h1 show ?thesis
    by (cases err) (auto simp: reserve_edges_def)
qed

lemma reserve_scope_inv:
  assumes "heap_inv h" "s \<in> dom (scopes h)" "res_keeps res"
    "rel_keeps rel"
  shows "\<exists>err h'. reserve_scope res rel h s = Some (err, h') \<and> heap_inv h' \<and> shape h' = shape h"
  using assms(1,2)
proof (induction s arbitrary: h rule: less_induct)
  case (less s)
  obtain sc where sc: "scopes h s = Some sc" using less.prems(2) by auto
  have ok: "scope_ok h s sc" using less.prems(1) sc by (rule heap_invD)
  show ?case
  proof (cases "sDone sc \<or> (\<exists>x. res (rc sc) = Inl x)")
    case True
    with sc less.prems(1) show ?thesis by (cases "sDone sc") (auto simp: reserve_scope.simps [of res rel h s])
  next
    case False
    then obtain r' where r': "res (rc sc) = Inr r'" "\<not> sDone sc" by (cases "res (rc sc)") auto
    let ?h = "put h s (sc\<lparr>rc := r'\<rparr>)"
    let ?up = "case owner sc of Some own \<Rightarrow> reserve_scope res rel ?h own | None \<Rightarrow> reserve_edges res rel ?h (edges sc)"
    have "rc_inv r'" using ok r' res_keepsD [OF assms(3)] by (auto simp: scope_ok_def)
    then have inv: "heap_inv ?h" and d: "shape ?h = shape h"
      using less.prems(1) sc by (auto intro!: heap_inv_put shape_put)
    have "\<exists>err h2. ?up = Some (err, h2) \<and> heap_inv h2 \<and> shape h2 = shape ?h"
    proof (cases "owner sc")
      case None
      have "set (edges sc) \<subseteq> dom (scopes ?h)" using ok shape_dom [OF d] by (auto simp: scope_ok_def)
      from reserve_edges_inv [where res = res and rel = rel, OF inv this assms(3,4)] None show ?thesis by auto
    next
      case (Some own)
      have "own < s" "own \<in> dom (scopes ?h)" using ok Some shape_dom [OF d] by (auto simp: scope_ok_def)
      from less.IH [OF this(1) inv this(2)] Some show ?thesis by auto
    qed
    then obtain err h2 where up: "?up = Some (err, h2)" "heap_inv h2" "shape h2 = shape h" using d by auto
    have rs: "reserve_scope res rel h s = Option.bind ?up (\<lambda>(err, h2). case err of None \<Rightarrow> Some (None, h2)
      | Some x \<Rightarrow> map_option (\<lambda>sc2. (Some (wrapError sc2 x), put h2 s (sc2\<lparr>rc := rel (rc sc2)\<rparr>))) (scopes h2 s))"
      using sc r' by (simp add: reserve_scope.simps [of res rel h s])
    obtain sc2 where sc2: "scopes h2 s = Some sc2" using shape_dom [OF up(3)] less.prems(2) by auto
    have "rc_inv (rel (rc sc2))" using heap_invD [OF up(2) sc2] rel_keepsD [OF assms(4)] by (simp add: scope_ok_def)
    then have "heap_inv (put h2 s (sc2\<lparr>rc := rel (rc sc2)\<rparr>))" "shape (put h2 s (sc2\<lparr>rc := rel (rc sc2)\<rparr>)) = shape h"
      using up sc2 by (auto intro!: heap_inv_put simp: shape_put)
    with rs up sc2 show ?thesis by (cases err) auto
  qed
qed

subsection \<open>Reserving under the contract\<close>

context reservation
begin

text \<open>Scope \<open>i\<close> is open and has room for the request.\<close>

definition granted :: "'a \<Rightarrow> scopeHeap \<Rightarrow> scope_ref \<Rightarrow> bool" where
  "granted a h i \<longleftrightarrow> (\<exists>sc. scopes h i = Some sc \<and> \<not> sDone sc \<and> is_ok (reserve a (rc sc)))"

definition after :: "'a \<Rightarrow> resources \<Rightarrow> resources" where
  "after a r = projr (reserve a r)"

lemma granted_apply_at: "i \<notin> A \<Longrightarrow> granted a (apply_at A f h) i = granted a h i"
  by (simp add: granted_def scopes_apply_at)

lemma after_inv: "valid a \<Longrightarrow> heap_inv h \<Longrightarrow> granted a h i \<Longrightarrow> scopes h i = Some sc \<Longrightarrow> rc_inv (after a (rc sc))"
  using heap_invD [of h i sc] by (auto simp: granted_def after_def is_ok_iff scope_ok_def intro: reserve_inv)

lemma release_after:
  "valid a \<Longrightarrow> heap_inv h \<Longrightarrow> granted a h i \<Longrightarrow> scopes h i = Some sc \<Longrightarrow> release a (after a (rc sc)) = rc sc"
  using heap_invD [of h i sc] by (auto simp: granted_def after_def is_ok_iff scope_ok_def release_reserve)

lemma rel_keeps_release: "valid a \<Longrightarrow> rel_keeps (release a)"
  by (simp add: rel_keeps_def release_inv)

lemma res_keeps_reserve: "valid a \<Longrightarrow> res_keeps (reserve a)"
  by (auto simp: res_keeps_def intro: reserve_inv)

lemma heap_inv_after:
  "valid a \<Longrightarrow> heap_inv h \<Longrightarrow> (\<And>i. i \<in> A \<Longrightarrow> granted a h i) \<Longrightarrow> heap_inv (apply_at A (after a) h)"
  by (intro heap_inv_apply_at) (auto intro: after_inv)

lemma undo_after:
  "valid a \<Longrightarrow> heap_inv h \<Longrightarrow> (\<And>i. i \<in> A \<Longrightarrow> granted a h i) \<Longrightarrow>
    apply_at A (release a) (apply_at A (after a) h) = h"
  by (intro apply_at_inverse) (auto intro: release_after)

lemma reserve_for_child_granted:
  "granted a h e \<Longrightarrow> reserve_for_child (reserve a) h e = Some (None, apply_at {e} (after a) h)"
proof -
  assume "granted a h e"
  then obtain sc r where sc: "scopes h e = Some sc" "\<not> sDone sc" "reserve a (rc sc) = Inr r"
    by (auto simp: granted_def is_ok_iff)
  then have "put h e (sc\<lparr>rc := r\<rparr>) = apply_at {e} (after a) h"
    by (intro put_apply_atI) (simp_all add: after_def)
  with sc show ?thesis by (simp add: reserve_for_child_def)
qed

lemma not_granted:
  "\<not> granted a h e \<Longrightarrow> scopes h e = Some sc \<Longrightarrow> sDone sc \<or> (\<exists>x. reserve a (rc sc) = Inl x)"
  by (cases "reserve a (rc sc)") (auto simp: granted_def)

lemma reserve_for_child_refused:
  "\<not> granted a h e \<Longrightarrow> e \<in> dom (scopes h) \<Longrightarrow> \<exists>x. reserve_for_child (reserve a) h e = Some (Some x, h)"
  using not_granted by (fastforce simp: reserve_for_child_def)

lemma reserve_loop_eq:
  assumes "distinct es" "set es \<subseteq> dom (scopes h)"
  shows "\<exists>err n. reserve_loop (reserve a) h es = Some (err, n, apply_at (set (take n es)) (after a) h)
    \<and> n \<le> length es \<and> (\<forall>e \<in> set (take n es). granted a h e)
    \<and> (err = None \<longleftrightarrow> n = length es) \<and> (err = None \<longleftrightarrow> (\<forall>e \<in> set es. granted a h e))"
  using assms
proof (induction es arbitrary: h)
  case (Cons e es)
  show ?case
  proof (cases "granted a h e")
    case False
    with Cons.prems obtain x where "reserve_for_child (reserve a) h e = Some (Some x, h)"
      using reserve_for_child_refused by force
    with False show ?thesis by (intro exI [of _ "Some x"] exI [of _ 0]) auto
  next
    case True
    let ?h = "apply_at {e} (after a) h"
    have g: "granted a ?h i = granted a h i" if "i \<in> set es" for i
      using that Cons.prems(1) by (intro granted_apply_at) auto
    obtain err n where IH: "reserve_loop (reserve a) ?h es = Some (err, n, apply_at (set (take n es)) (after a) ?h)"
      "n \<le> length es" "\<forall>i \<in> set (take n es). granted a ?h i" "err = None \<longleftrightarrow> n = length es"
      "err = None \<longleftrightarrow> (\<forall>i \<in> set es. granted a ?h i)"
      using Cons.IH [of ?h] Cons.prems by auto
    have "set (take n es) \<inter> {e} = {}" using Cons.prems(1) by (auto dest: in_set_takeD)
    then have "reserve_loop (reserve a) h (e # es)
        = Some (err, Suc n, apply_at (set (take (Suc n) (e # es))) (after a) h)"
      using IH(1) reserve_for_child_granted [OF True] by (simp add: apply_at_Un)
    moreover have "\<forall>i \<in> set (take (Suc n) (e # es)). granted a h i"
      using True IH(3) g by (auto dest: in_set_takeD)
    ultimately show ?thesis
      using True IH(2,4,5) g by (intro exI [of _ err] exI [of _ "Suc n"]) auto
  qed
qed simp

lemma reserve_edges_eq:
  assumes "valid a" "heap_inv h" "distinct es" "set es \<subseteq> dom (scopes h)"
  shows "\<exists>err. reserve_edges (reserve a) (release a) h es =
      Some (err, if err = None then apply_at (set es) (after a) h else h)
    \<and> (err = None \<longleftrightarrow> (\<forall>e \<in> set es. granted a h e))"
proof -
  obtain err n where l: "reserve_loop (reserve a) h es = Some (err, n, apply_at (set (take n es)) (after a) h)"
    "n \<le> length es" "\<forall>e \<in> set (take n es). granted a h e" "err = None \<longleftrightarrow> n = length es"
    "err = None \<longleftrightarrow> (\<forall>e \<in> set es. granted a h e)"
    using reserve_loop_eq [OF assms(3,4)] by blast
  let ?h = "apply_at (set (take n es)) (after a) h"
  have "release_edges (release a) ?h (take n es) = Some (apply_at (set (take n es)) (release a) ?h)"
  proof (rule release_edges_eq)
    fix e assume e: "e \<in> set (take n es)"
    then obtain sc where "scopes h e = Some sc" "\<not> sDone sc" using l(3) by (auto simp: granted_def)
    with e show "\<exists>sc. scopes ?h e = Some sc \<and> \<not> sDone sc" by (simp add: scopes_apply_at)
  qed (simp add: assms(3))
  also have "apply_at (set (take n es)) (release a) ?h = h"
    using l(3) by (intro undo_after [OF assms(1,2)]) auto
  finally show ?thesis using l by (cases err) (auto simp: reserve_edges_def)
qed

theorem reserve_scope_atomic:
  assumes "valid a" "heap_inv h" "s \<in> dom (scopes h)"
  shows "\<exists>err. reserve_scope (reserve a) (release a) h s =
      Some (err, if err = None then apply_at (Collect (accounts h s)) (after a) h else h)
    \<and> (err = None \<longleftrightarrow> (\<forall>i. accounts h s i \<longrightarrow> granted a h i))"
  using assms(2,3)
proof (induction s arbitrary: h rule: less_induct)
  case (less s)
  obtain sc where sc: "scopes h s = Some sc" using less.prems(2) by auto
  have ok: "scope_ok h s sc" using less.prems(1) sc by (rule heap_invD)
  show ?case
  proof (cases "granted a h s")
    case False
    have "\<exists>x. reserve_scope (reserve a) (release a) h s = Some (Some x, h)"
      using not_granted [OF False sc] sc by (cases "sDone sc") (auto simp: reserve_scope.simps [of _ _ h s])
    then obtain x where "reserve_scope (reserve a) (release a) h s = Some (Some x, h)" by blast
    with False show ?thesis by (intro exI [of _ "Some x"]) (auto intro: accounts.self)
  next
    case True
    let ?h = "apply_at {s} (after a) h" and ?U = "Collect (accounts h s) - {s}"
    have inv: "heap_inv ?h" using True by (intro heap_inv_after [OF assms(1) less.prems(1)]) auto
    have put: "put h s (sc\<lparr>rc := r\<rparr>) = ?h" if "reserve a (rc sc) = Inr r" for r
      using that sc by (intro put_apply_atI) (auto simp: after_def)
    define up where "up = (case owner sc of
        Some own \<Rightarrow> reserve_scope (reserve a) (release a) ?h own
      | None \<Rightarrow> reserve_edges (reserve a) (release a) ?h (edges sc))"
    have U: "?U = (case owner sc of Some own \<Rightarrow> Collect (accounts h own) | None \<Rightarrow> set (edges sc))"
      using accounts_rest [OF less.prems(1) sc] .
    have g: "granted a ?h i = granted a h i" if "i \<in> ?U" for i
      using that by (intro granted_apply_at) auto
    obtain err where up: "up = Some (err, if err = None then apply_at ?U (after a) ?h else ?h)"
      "err = None \<longleftrightarrow> (\<forall>i \<in> ?U. granted a ?h i)"
    proof (cases "owner sc")
      case None
      have "distinct (edges sc)" "set (edges sc) \<subseteq> dom (scopes ?h)"
        using ok by (auto simp: scope_ok_def subset_iff simp del: dom_apply_at simp: dom_apply_at)
      from reserve_edges_eq [OF assms(1) inv this] obtain err where
        "reserve_edges (reserve a) (release a) ?h (edges sc) =
           Some (err, if err = None then apply_at (set (edges sc)) (after a) ?h else ?h)"
        "err = None \<longleftrightarrow> (\<forall>e \<in> set (edges sc). granted a ?h e)" by blast
      moreover have "?U = set (edges sc)" "up = reserve_edges (reserve a) (release a) ?h (edges sc)"
        using U None by (simp_all add: up_def)
      ultimately show ?thesis by (metis that)
    next
      case (Some own)
      then have "own < s" "own \<in> dom (scopes ?h)" using ok by (simp_all add: scope_ok_def)
      from less.IH [OF this(1) inv this(2)] obtain err where
        "reserve_scope (reserve a) (release a) ?h own =
           Some (err, if err = None then apply_at (Collect (accounts h own)) (after a) ?h else ?h)"
        "err = None \<longleftrightarrow> (\<forall>i \<in> Collect (accounts h own). granted a ?h i)" unfolding accounts_apply_at by blast
      moreover have "?U = Collect (accounts h own)" "up = reserve_scope (reserve a) (release a) ?h own"
        using U Some by (simp_all add: up_def)
      ultimately show ?thesis by (metis that)
    qed
    have rs: "reserve_scope (reserve a) (release a) h s = Option.bind up (\<lambda>(err, h2).
        case err of None \<Rightarrow> Some (None, h2)
        | Some x \<Rightarrow> map_option (\<lambda>sc2. (Some (wrapError sc2 x), put h2 s (sc2\<lparr>rc := release a (rc sc2)\<rparr>))) (scopes h2 s))"
      using True sc put
      by (auto simp: reserve_scope.simps [of _ _ h s] granted_def is_ok_iff up_def split: option.splits)
    show ?thesis
    proof (cases err)
      case None
      have "apply_at ?U (after a) ?h = apply_at (Collect (accounts h s)) (after a) h"
        by (subst apply_at_Un) (auto simp: insert_absorb accounts.self)
      with None up rs g True show ?thesis by (intro exI [of _ None]) auto
    next
      case (Some x)
      have "put ?h s (sc2\<lparr>rc := release a (rc sc2)\<rparr>) = h" if "scopes ?h s = Some sc2" for sc2
      proof -
        have "put ?h s (sc2\<lparr>rc := release a (rc sc2)\<rparr>) = apply_at {s} (release a) ?h"
          using that by (rule put_apply_at)
        also have "\<dots> = h" using True by (intro undo_after [OF assms(1) less.prems(1)]) auto
        finally show ?thesis .
      qed
      then obtain y where "reserve_scope (reserve a) (release a) h s = Some (Some y, h)"
        using rs up(1) Some sc by (auto simp: scopes_apply_at)
      moreover have "\<exists>i. accounts h s i \<and> \<not> granted a h i" using up(2) Some g by auto
      ultimately show ?thesis by auto
    qed
  qed
qed

theorem reserve_release_scope:
  assumes "valid a" "heap_inv h" "s \<in> dom (scopes h)"
    and "reserve_scope (reserve a) (release a) h s = Some (None, h')"
  shows "release_scope (release a) h' s = Some h \<and> remove_scope (release a) h' s = Some h"
proof -
  let ?A = "Collect (accounts h s)"
  have g: "granted a h i" if "i \<in> ?A" for i
    using reserve_scope_atomic [OF assms(1-3)] assms(4) that by auto
  have h': "h' = apply_at ?A (after a) h"
    using reserve_scope_atomic [OF assms(1-3)] assms(4) by auto
  have inv: "heap_inv h'" using g unfolding h' by (intro heap_inv_after [OF assms(1,2)]) auto
  have opn: "\<not> sDone sc" if "accounts h' s i" "scopes h' i = Some sc" for i sc
    using that g [of i] by (auto simp: h' granted_def scopes_apply_at)
  have d: "s \<in> dom (scopes h')" using assms(3) by (simp add: h')
  have "apply_at (Collect (accounts h' s)) (release a) h' = h"
    using g by (simp add: h') (intro undo_after [OF assms(1,2)], auto)
  then show ?thesis
    using release_scope_eq [OF inv d opn rel_keeps_release [OF assms(1)]]
      remove_scope_eq [OF inv d opn rel_keeps_release [OF assms(1)]] by simp
qed

end

subsection \<open>Whole statistics satisfy the contract\<close>

definition valid_stat :: "ScopeStat \<Rightarrow> bool" where
  "valid_stat st \<longleftrightarrow> small (stMemory st) \<and> small (stNumTasksHigh st) \<and> small (stNumTasksMedium st)
     \<and> small (stNumTasksLow st) \<and> small (stNumConnsInbound st) \<and> small (stNumConnsOutbound st)
     \<and> small (stNumFD st)"

definition try_stat :: "ScopeStat \<Rightarrow> resources \<Rightarrow> rc_error + resources" where
  "try_stat st r = (case reserve_stat st r of (None, r') \<Rightarrow> Inr r' | (Some e, _) \<Rightarrow> Inl e)"

lemma small_i64: "small n \<Longrightarrow> 0 \<le> n \<and> is_i64 n"
  by (simp add: small_def range_defs)

lemma release_stat_eq:
  assumes "rc_inv r" "valid_stat st"
  shows "release_stat st r = r\<lparr>memory := max 0 (memory r - stMemory st),
      nconnsIn := max 0 (nconnsIn r - stNumConnsInbound st),
      nconnsOut := max 0 (nconnsOut r - stNumConnsOutbound st), nfd := max 0 (nfd r - stNumFD st),
      ntasksHigh := max 0 (ntasksHigh r - stNumTasksHigh st),
      ntasksMedium := max 0 (ntasksMedium r - stNumTasksMedium st),
      ntasksLow := max 0 (ntasksLow r - stNumTasksLow st)\<rparr>"
proof -
  have v: "small (stMemory st)" "small (stNumTasksHigh st)" "small (stNumTasksMedium st)"
    "small (stNumTasksLow st)" "small (stNumConnsInbound st)" "small (stNumConnsOutbound st)" "small (stNumFD st)"
    using assms(2) by (simp_all add: valid_stat_def)
  let ?a = "releaseMemory r (stMemory st)"
  let ?b = "removeConns ?a (stNumConnsInbound st) (stNumConnsOutbound st) (stNumFD st)"
  let ?c = "removeTask ?b (stNumTasksHigh st) ReserveTaskPriorityHigh"
  let ?d = "removeTask ?c (stNumTasksMedium st) ReserveTaskPriorityMedium"
  have inv: "rc_inv ?a" "rc_inv ?b" "rc_inv ?c" "rc_inv ?d"
    using assms(1) v small_i64 [OF v(1)]
    by (simp_all add: releaseMemory_inv removeConns_inv removeTask_inv)
  have "0 \<le> ntasksHigh r" "0 \<le> ntasksMedium r" "0 \<le> ntasksLow r" using assms(1) by (simp_all add: rc_inv_def)
  then show ?thesis
    using v inv small_i64 [OF v(1)] assms(1)
    by (simp add: release_stat_def removeTask_def removeTasks_eq removeConns_eq releaseMemory_eq)
qed

lemma release_stat_inv: "rc_inv r \<Longrightarrow> valid_stat st \<Longrightarrow> rc_inv (release_stat st r)"
  by (auto simp: release_stat_def valid_stat_def small_i64 releaseMemory_inv removeConns_inv removeTask_inv)

text \<open>The amounts added field by field, in the order of \<open>reserve_stat\<close>.\<close>

definition add_mem :: "ScopeStat \<Rightarrow> resources \<Rightarrow> resources" where
  "add_mem st r = r\<lparr>memory := memory r + stMemory st\<rparr>"

definition add_conn :: "ScopeStat \<Rightarrow> resources \<Rightarrow> resources" where
  "add_conn st r = (add_mem st r)\<lparr>nconnsIn := nconnsIn r + stNumConnsInbound st,
      nconnsOut := nconnsOut r + stNumConnsOutbound st, nfd := nfd r + stNumFD st\<rparr>"

definition add_high :: "ScopeStat \<Rightarrow> resources \<Rightarrow> resources" where
  "add_high st r = (add_conn st r)\<lparr>ntasksHigh := ntasksHigh r + stNumTasksHigh st\<rparr>"

definition add_medium :: "ScopeStat \<Rightarrow> resources \<Rightarrow> resources" where
  "add_medium st r = (add_high st r)\<lparr>ntasksMedium := ntasksMedium r + stNumTasksMedium st\<rparr>"

definition add_stat :: "ScopeStat \<Rightarrow> resources \<Rightarrow> resources" where
  "add_stat st r = (add_medium st r)\<lparr>ntasksLow := ntasksLow r + stNumTasksLow st\<rparr>"

lemmas add_defs = add_mem_def add_conn_def add_high_def add_medium_def add_stat_def

lemma add_sel [simp]:
  "nconnsIn (add_mem st r) = nconnsIn r" "nconnsOut (add_mem st r) = nconnsOut r" "nfd (add_mem st r) = nfd r"
  "ntasksHigh (add_conn st r) = ntasksHigh r" "ntasksMedium (add_high st r) = ntasksMedium r"
  "ntasksLow (add_medium st r) = ntasksLow r"
  by (simp_all add: add_defs)

lemma rc_inv_nonneg:
  "rc_inv r \<Longrightarrow> 0 \<le> memory r \<and> 0 \<le> nconnsIn r \<and> 0 \<le> nconnsOut r \<and> 0 \<le> nfd r \<and> 0 \<le> ntasksHigh r
     \<and> 0 \<le> ntasksMedium r \<and> 0 \<le> ntasksLow r"
  by (simp add: rc_inv_def)

lemma valid_statD:
  assumes "valid_stat st"
  shows "small (stMemory st)" "small (stNumTasksHigh st)" "small (stNumTasksMedium st)"
    "small (stNumTasksLow st)" "small (stNumConnsInbound st)" "small (stNumConnsOutbound st)"
    "small (stNumFD st)"
  using assms by (simp_all add: valid_stat_def)

lemma undo_add:
  assumes "rc_inv r" "valid_stat st"
  shows "rc_inv (add_mem st r) \<Longrightarrow> releaseMemory (add_mem st r) (stMemory st) = r"
    and "rc_inv (add_conn st r) \<Longrightarrow> releaseMemory (add_conn st r) (stMemory st) = (add_conn st r)\<lparr>memory := memory r\<rparr>"
    and "rc_inv (add_high st r) \<Longrightarrow> releaseMemory (add_high st r) (stMemory st) = (add_high st r)\<lparr>memory := memory r\<rparr>"
    and "rc_inv (add_medium st r) \<Longrightarrow>
      releaseMemory (add_medium st r) (stMemory st) = (add_medium st r)\<lparr>memory := memory r\<rparr>"
  using rc_inv_nonneg [OF assms(1)] small_i64 [OF valid_statD(1) [OF assms(2)]]
  by (simp_all add: releaseMemory_eq) (simp_all add: add_defs)

lemma undo_conns:
  assumes "rc_inv q" "small i" "small out" "small fd" "0 \<le> ci" "0 \<le> co" "0 \<le> cf"
    "nconnsIn q = ci + i" "nconnsOut q = co + out" "nfd q = cf + fd"
  shows "removeConns q i out fd = q\<lparr>nconnsIn := ci, nconnsOut := co, nfd := cf\<rparr>"
  using assms by (simp add: removeConns_eq)

lemma undo_task:
  assumes "rc_inv q" "small n"
  shows "0 \<le> c \<Longrightarrow> ntasksHigh q = c + n \<Longrightarrow> removeTask q n ReserveTaskPriorityHigh = q\<lparr>ntasksHigh := c\<rparr>"
    and "0 \<le> c \<Longrightarrow> ntasksMedium q = c + n \<Longrightarrow> removeTask q n ReserveTaskPriorityMedium = q\<lparr>ntasksMedium := c\<rparr>"
  using assms rc_inv_nonneg [OF assms(1)] by (cases q, simp add: removeTask_def removeTasks_eq)+

lemma undo_steps:
  assumes "rc_inv r" "valid_stat st"
  shows "rc_inv (add_conn st r) \<Longrightarrow> removeConns (releaseMemory (add_conn st r) (stMemory st))
      (stNumConnsInbound st) (stNumConnsOutbound st) (stNumFD st) = r"
    and "rc_inv (add_high st r) \<Longrightarrow> removeTask (removeConns (releaseMemory (add_high st r) (stMemory st))
      (stNumConnsInbound st) (stNumConnsOutbound st) (stNumFD st))
      (stNumTasksHigh st) ReserveTaskPriorityHigh = r"
    and "rc_inv (add_medium st r) \<Longrightarrow> removeTask (removeTask (removeConns (releaseMemory (add_medium st r) (stMemory st))
      (stNumConnsInbound st) (stNumConnsOutbound st) (stNumFD st))
      (stNumTasksHigh st) ReserveTaskPriorityHigh)
      (stNumTasksMedium st) ReserveTaskPriorityMedium = r"
proof -
  note v = valid_statD [OF assms(2)] and vm = small_i64 [OF valid_statD(1) [OF assms(2)]]
  note nn = rc_inv_nonneg [OF assms(1)]
  let ?conns = "\<lambda>q. removeConns q (stNumConnsInbound st) (stNumConnsOutbound st) (stNumFD st)"
  let ?u = "\<lambda>q. q\<lparr>memory := memory r, nconnsIn := nconnsIn r, nconnsOut := nconnsOut r, nfd := nfd r\<rparr>"
  have mi: "rc_inv (releaseMemory q (stMemory st))" if "rc_inv q" for q using that vm by (simp add: releaseMemory_inv)
  have ci: "rc_inv (?conns q)" if "rc_inv q" for q using that v by (simp add: removeConns_inv)
  have c: "?conns (q\<lparr>memory := memory r\<rparr>) = ?u q" if "rc_inv (q\<lparr>memory := memory r\<rparr>)"
    "nconnsIn q = nconnsIn r + stNumConnsInbound st" "nconnsOut q = nconnsOut r + stNumConnsOutbound st"
    "nfd q = nfd r + stNumFD st" for q
    using undo_conns [OF that(1) v(5,6,7), of "nconnsIn r" "nconnsOut r" "nfd r"] that nn by simp
  note m = undo_add [OF assms]
  {
    assume i: "rc_inv (add_conn st r)"
    have "?conns (releaseMemory (add_conn st r) (stMemory st)) = ?u (add_conn st r)"
      unfolding m(2) [OF i] by (rule c) (use mi [OF i] m(2) [OF i] in \<open>simp_all add: add_defs\<close>)
    then show "?conns (releaseMemory (add_conn st r) (stMemory st)) = r" by (simp add: add_defs)
  next
    assume i: "rc_inv (add_high st r)"
    have e: "?conns (releaseMemory (add_high st r) (stMemory st)) = ?u (add_high st r)"
      unfolding m(3) [OF i] by (rule c) (use mi [OF i] m(3) [OF i] in \<open>simp_all add: add_defs\<close>)
    then have "rc_inv (?u (add_high st r))" using ci [OF mi [OF i]] by simp
    from undo_task(1) [OF this v(2), of "ntasksHigh r"] nn
    show "removeTask (?conns (releaseMemory (add_high st r) (stMemory st))) (stNumTasksHigh st)
        ReserveTaskPriorityHigh = r" by (simp add: e) (simp add: add_defs)
  next
    assume i: "rc_inv (add_medium st r)"
    let ?t = "\<lambda>q. removeTask q (stNumTasksHigh st) ReserveTaskPriorityHigh"
    have e: "?conns (releaseMemory (add_medium st r) (stMemory st)) = ?u (add_medium st r)"
      unfolding m(4) [OF i] by (rule c) (use mi [OF i] m(4) [OF i] in \<open>simp_all add: add_defs\<close>)
    then have j: "rc_inv (?u (add_medium st r))" using ci [OF mi [OF i]] by simp
    have e2: "?t (?u (add_medium st r)) = (?u (add_medium st r))\<lparr>ntasksHigh := ntasksHigh r\<rparr>"
      using undo_task(1) [OF j v(2), of "ntasksHigh r"] nn by (simp add: add_defs)
    have "rc_inv ((?u (add_medium st r))\<lparr>ntasksHigh := ntasksHigh r\<rparr>)" using removeTask_inv [OF j v(2)] e2 by metis
    from undo_task(2) [OF this v(3), of "ntasksMedium r"] nn
    show "removeTask (?t (?conns (releaseMemory (add_medium st r) (stMemory st)))) (stNumTasksMedium st)
        ReserveTaskPriorityMedium = r" by (simp add: e e2) (simp add: add_defs)
  }
qed

text \<open>A failed \<open>reserve_stat\<close> leaves the record as it was; a successful one adds every amount.\<close>

lemma add_steps:
  assumes "rc_inv r" "valid_stat st"
  shows "reserveMemory r (stMemory st) ReservationPriorityAlways = Inr q \<Longrightarrow> q = add_mem st r \<and> rc_inv q"
    and "rc_inv (add_mem st r) \<Longrightarrow> addConns (add_mem st r) (stNumConnsInbound st) (stNumConnsOutbound st) (stNumFD st)
      = Inr q \<Longrightarrow> q = add_conn st r \<and> rc_inv q"
    and "rc_inv (add_conn st r) \<Longrightarrow> addTask (add_conn st r) (stNumTasksHigh st) ReserveTaskPriorityHigh = Inr q
      \<Longrightarrow> q = add_high st r \<and> rc_inv q"
    and "rc_inv (add_high st r) \<Longrightarrow> addTask (add_high st r) (stNumTasksMedium st) ReserveTaskPriorityMedium = Inr q
      \<Longrightarrow> q = add_medium st r \<and> rc_inv q"
    and "rc_inv (add_medium st r) \<Longrightarrow> addTask (add_medium st r) (stNumTasksLow st) ReserveTaskPriorityLow = Inr q
      \<Longrightarrow> q = add_stat st r \<and> rc_inv q"
proof -
  note v = valid_statD [OF assms(2)] and vm = small_i64 [OF valid_statD(1) [OF assms(2)]]
  have p: "is_u8 ReservationPriorityAlways" by (simp add: range_defs ReservationPriorityAlways_def)
  {
    assume "reserveMemory r (stMemory st) ReservationPriorityAlways = Inr q"
    with assms(1) p vm show "q = add_mem st r \<and> rc_inv q"
      by (metis reserveMemory_inv reserveMemory_Inr add_mem_def)
  next
    assume i: "rc_inv (add_mem st r)"
      and t: "addConns (add_mem st r) (stNumConnsInbound st) (stNumConnsOutbound st) (stNumFD st) = Inr q"
    show "q = add_conn st r \<and> rc_inv q"
      using addConns_inv [OF i v(5,6,7) t] t addConns_Inr [OF i v(5,6,7)] by (auto simp: add_conn_def)
  next
    assume i: "rc_inv (add_conn st r)"
      and t: "addTask (add_conn st r) (stNumTasksHigh st) ReserveTaskPriorityHigh = Inr q"
    have "q = add_high st r" using t addTask_Inr [OF i v(2)] by (simp add: add_high_def)
    with addTask_inv [OF i v(2) t] show "q = add_high st r \<and> rc_inv q" by simp
  next
    assume i: "rc_inv (add_high st r)"
      and t: "addTask (add_high st r) (stNumTasksMedium st) ReserveTaskPriorityMedium = Inr q"
    have "q = add_medium st r" using t addTask_Inr [OF i v(3)] by (simp add: add_medium_def)
    with addTask_inv [OF i v(3) t] show "q = add_medium st r \<and> rc_inv q" by simp
  next
    assume i: "rc_inv (add_medium st r)"
      and t: "addTask (add_medium st r) (stNumTasksLow st) ReserveTaskPriorityLow = Inr q"
    have "q = add_stat st r" using t addTask_Inr [OF i v(4)] by (simp add: add_stat_def)
    with addTask_inv [OF i v(4) t] show "q = add_stat st r \<and> rc_inv q" by simp
  }
qed

lemma reserve_stat_cases [consumes 2, case_names refused reserved]:
  assumes "rc_inv r" and "valid_stat st"
  obtains (refused) e where "reserve_stat st r = (Some e, r)"
    | (reserved) "reserve_stat st r = (None, add_stat st r)" "rc_inv (add_stat st r)"
proof -
  note a = add_steps [OF assms] and u = undo_steps [OF assms] and m = undo_add(1) [OF assms]
  note d = reserve_stat_def [of st r, unfolded Let_def]
  show thesis
  proof (cases "reserveMemory r (stMemory st) ReservationPriorityAlways")
    case (Inl e) with d show thesis by (intro refused) simp
  next
    case 1: (Inr r1)
    with a(1) have i1: "r1 = add_mem st r" "rc_inv (add_mem st r)" by auto
    show thesis
    proof (cases "addConns (add_mem st r) (stNumConnsInbound st) (stNumConnsOutbound st) (stNumFD st)")
      case (Inl e) with d 1 i1 m show thesis by (intro refused) simp
    next
      case 2: (Inr r2)
      with a(2) [OF i1(2)] have i2: "r2 = add_conn st r" "rc_inv (add_conn st r)" by auto
      show thesis
      proof (cases "addTask (add_conn st r) (stNumTasksHigh st) ReserveTaskPriorityHigh")
        case (Inl e) with d 1 i1 2 i2 u(1) show thesis by (intro refused) simp
      next
        case 3: (Inr r3)
        with a(3) [OF i2(2)] have i3: "r3 = add_high st r" "rc_inv (add_high st r)" by auto
        show thesis
        proof (cases "addTask (add_high st r) (stNumTasksMedium st) ReserveTaskPriorityMedium")
          case (Inl e) with d 1 i1 2 i2 3 i3 u(2) show thesis by (intro refused) simp
        next
          case 4: (Inr r4)
          with a(4) [OF i3(2)] have i4: "r4 = add_medium st r" "rc_inv (add_medium st r)" by auto
          show thesis
          proof (cases "addTask (add_medium st r) (stNumTasksLow st) ReserveTaskPriorityLow")
            case (Inl e) with d 1 i1 2 i2 3 i3 4 i4 u(3) show thesis by (intro refused) simp
          next
            case (Inr r5)
            with d 1 i1 2 i2 3 i3 4 i4 a(5) show thesis by (intro reserved) auto
          qed
        qed
      qed
    qed
  qed
qed

interpretation stat_reservation: reservation valid_stat try_stat release_stat
proof (unfold_locales, goal_cases)
  case (1 a r r')
  from 1(2,1,3) show ?case by (cases rule: reserve_stat_cases) (auto simp: try_stat_def)
next
  case (2 a r) then show ?case by (simp add: release_stat_inv)
next
  case (3 a r r')
  from 3(2,1) show ?case
  proof (cases rule: reserve_stat_cases)
    case reserved
    with 3 have r': "r' = add_stat a r" "rc_inv r'" by (auto simp: try_stat_def)
    show ?thesis using rc_inv_nonneg [OF 3(2)]
      by (simp add: release_stat_eq [OF r'(2) 3(1)]) (simp add: r' add_defs)
  qed (use 3 in \<open>auto simp: try_stat_def\<close>)
qed

lemma reserve_stat_try:
  "rc_inv r \<Longrightarrow> valid_stat st \<Longrightarrow>
     reserve_stat st r = (case try_stat st r of Inl e \<Rightarrow> (Some e, r) | Inr r' \<Rightarrow> (None, r'))"
  by (erule (1) reserve_stat_cases) (auto simp: try_stat_def)

lemma put_same: "scopes h s = Some sc \<Longrightarrow> put h s sc = h"
  by (rule heap_eqI) (auto simp: put_def)

lemma put_same_rc: "scopes h s = Some sc \<Longrightarrow> r = rc sc \<Longrightarrow> put h s (sc\<lparr>rc := r\<rparr>) = h"
  by (simp add: put_same)

lemma ReserveForChild_eq:
  assumes "heap_inv h" "valid_stat st" "s \<in> dom (scopes h)"
  shows "ReserveForChild st h s = reserve_for_child (try_stat st) h s"
proof -
  obtain sc where sc: "scopes h s = Some sc" using assms(3) by auto
  have "rc_inv (rc sc)" using heap_invD [OF assms(1) sc] by (simp add: scope_ok_def)
  with sc reserve_stat_try [OF this assms(2)] show ?thesis
    by (auto simp: ReserveForChild_def reserve_for_child_def put_same split: sum.splits)
qed

text \<open>Scopes as the resource manager builds them have at most one edge.\<close>

definition single_edge :: "scopeHeap \<Rightarrow> bool" where
  "single_edge h \<longleftrightarrow> (\<forall>s sc. scopes h s = Some sc \<longrightarrow> length (edges sc) \<le> 1)"

lemma single_edge_apply_at [simp]: "single_edge (apply_at A f h) = single_edge h"
  by (auto simp: single_edge_def scopes_apply_at split: if_splits)

end
