(* ===== verification/SP_ResourceManager.thy ===== *)
theory SP_ResourceManager
  imports SP_Scope
begin

text \<open>
  The resource manager, \<^verbatim>\<open>src/base/gfsprcmgr/rcmgr.go\<close>, and what the scopes promise to their users.
  \<open>ReserveResources\<close> reserves a task's whole estimate along the path span, service, system.  On success
  every scope on the path is charged; on a refusal further up the code releases the estimate from
  scopes it was never reserved in, which \<open>ReserveResources_overrelease\<close> states exactly.  The step
  relation \<open>rm_step\<close> has one rule per public operation; in every reachable state no scope is over any
  of its limits.
\<close>

subsection \<open>The resource manager\<close>

record resourceManager =
  rmLimits :: GfSpLimiter
  rmSystem :: scope_ref
  rmSvc :: "string \<rightharpoonup> scope_ref"
  rmHeap :: scopeHeap

text \<open>The getters of a nil \<open>GfSpLimit\<close> message return zero.\<close>

definition NewResourceManager :: "GfSpLimiter \<Rightarrow> resourceManager option" where
  "NewResourceManager limits =
     map_option (\<lambda>(sys, h). \<lparr>rmLimits = limits, rmSystem = sys, rmSvc = Map.empty, rmHeap = h\<rparr>)
       (newResourceScope \<lparr>scopes = Map.empty, nextRef = 0\<rparr>
          (case GetSystemLimits limits of Some l \<Rightarrow> l | None \<Rightarrow> zero_limit) [] ''system'')"

definition OpenService :: "resourceManager \<Rightarrow> string \<Rightarrow> (scope_ref \<times> resourceManager) option" where
  "OpenService r nm =
     Option.bind
       (case GetServiceLimits (rmLimits r) nm of
          None \<Rightarrow> Option.bind (NextSpanID (rmHeap r) (rmSystem r))
                    (\<lambda>(i, h). newResourceScopeSpan h (rmSystem r) i nm)
        | Some limit \<Rightarrow> newResourceScope (rmHeap r) limit [rmSystem r] nm)
       (\<lambda>(sc, h). Some (sc, r\<lparr>rmSvc := (rmSvc r)(nm \<mapsto> sc), rmHeap := h\<rparr>))"

definition ViewService :: "resourceManager \<Rightarrow> string \<Rightarrow> (scope_ref \<Rightarrow> 'e option) \<Rightarrow> 'e option" where
  "ViewService r nm f = (case rmSvc r nm of None \<Rightarrow> None | Some scop \<Rightarrow> f scop)"

definition ViewSystem :: "resourceManager \<Rightarrow> (scope_ref \<Rightarrow> 'e option) \<Rightarrow> 'e option" where
  "ViewSystem r f = f (rmSystem r)"

definition ViewTransient :: "resourceManager \<Rightarrow> (scope_ref \<Rightarrow> 'e option) \<Rightarrow> 'e option" where
  "ViewTransient r f = f (rmSystem r)"

subsection \<open>Reserving a whole estimate\<close>

abbreviation granted_stat :: "ScopeStat \<Rightarrow> scopeHeap \<Rightarrow> scope_ref \<Rightarrow> bool" where
  "granted_stat \<equiv> stat_reservation.granted"

lemma granted_stat_iff:
  assumes "heap_inv h" "valid_stat st" "scopes h s = Some sc"
  shows "granted_stat st h s \<longleftrightarrow> \<not> sDone sc \<and> reserve_stat st (rc sc) = (None, add_stat st (rc sc))"
proof -
  have "rc_inv (rc sc)" using heap_invD [OF assms(1,3)] by (simp add: scope_ok_def)
  from this assms(2) show ?thesis
    by (cases rule: reserve_stat_cases) (auto simp: stat_reservation.granted_def assms(3) try_stat_def)
qed

lemma after_add_stat:
  assumes "heap_inv h" "valid_stat st" "granted_stat st h s" "scopes h s = Some sc"
  shows "stat_reservation.after st (rc sc) = add_stat st (rc sc)"
  using granted_stat_iff [OF assms(1,2,4)] assms(3) by (simp add: stat_reservation.after_def try_stat_def)

lemma put_add_stat:
  assumes "heap_inv h" "valid_stat st" "granted_stat st h s" "scopes h s = Some sc"
  shows "put h s (sc\<lparr>rc := snd (reserve_stat st (rc sc))\<rparr>) = apply_at {s} (stat_reservation.after st) h"
  using granted_stat_iff [OF assms(1,2,4)] assms(3) after_add_stat [OF assms]
  by (intro put_apply_atI [OF assms(4)]) simp

text \<open>The reservation of an upstream scope, as \<open>ReserveResources\<close> asks for it.\<close>

definition reserve_up :: "ScopeStat \<Rightarrow> scopeHeap \<Rightarrow> resourceScope \<Rightarrow> (rc_error option \<times> scopeHeap) option" where
  "reserve_up st h sc =
     (case owner sc of
        Some own \<Rightarrow> ReserveResources st h own
      | None \<Rightarrow> (case edges sc of [] \<Rightarrow> Some (None, h) | e # _ \<Rightarrow> ReserveForChild st h e))"

lemma ReserveResources_granted:
  assumes "heap_inv h" "valid_stat st" "granted_stat st h s" "scopes h s = Some sc"
  shows "ReserveResources st h s =
    Option.bind (reserve_up st (apply_at {s} (stat_reservation.after st) h) sc) (\<lambda>(err, h2).
      case err of None \<Rightarrow> Some (None, h2)
      | Some x \<Rightarrow> map_option (\<lambda>h3. (Some x, h3)) (ReleaseResources st h2 s))"
  using granted_stat_iff [OF assms(1,2,4)] assms(3,4) put_add_stat [OF assms]
  by (simp add: ReserveResources.simps [of st h s] reserve_up_def split: option.splits list.splits)

lemma ReserveResources_refused:
  assumes "heap_inv h" "valid_stat st" "\<not> granted_stat st h s" "scopes h s = Some sc"
  shows "\<exists>x. ReserveResources st h s = Some (Some x, h)"
proof (cases "sDone sc")
  case False
  have i: "rc_inv (rc sc)" using heap_invD [OF assms(1,4)] by (simp add: scope_ok_def)
  from i assms(2) obtain e where "reserve_stat st (rc sc) = (Some e, rc sc)"
    using granted_stat_iff [OF assms(1,2,4)] assms(3) False by (cases rule: reserve_stat_cases) auto
  with False assms(4) show ?thesis by (simp add: ReserveResources.simps [of st h s] put_same)
qed (simp add: ReserveResources.simps [of st h s] assms(4))

lemma ReserveResources_total:
  assumes "valid_stat st" "heap_inv h" "single_edge h" "s \<in> dom (scopes h)"
  shows "\<exists>err h'. ReserveResources st h s = Some (err, h') \<and> heap_inv h' \<and> shape h' = shape h
    \<and> (err = None \<longleftrightarrow> (\<forall>i. accounts h s i \<longrightarrow> granted_stat st h i))
    \<and> (err = None \<longrightarrow> h' = apply_at (Collect (accounts h s)) (stat_reservation.after st) h)"
  using assms(2,3,4)
proof (induction s arbitrary: h rule: less_induct)
  case (less s)
  obtain sc where sc: "scopes h s = Some sc" using less.prems(3) by auto
  have ok: "scope_ok h s sc" using less.prems(1) sc by (rule heap_invD)
  show ?case
  proof (cases "granted_stat st h s")
    case False
    with ReserveResources_refused [OF less.prems(1) assms(1) _ sc] less.prems show ?thesis
      by (auto intro: accounts.self)
  next
    case True
    let ?h = "apply_at {s} (stat_reservation.after st) h" and ?U = "Collect (accounts h s) - {s}"
    have inv: "heap_inv ?h" using True by (intro stat_reservation.heap_inv_after [OF assms(1) less.prems(1)]) auto
    have g: "granted_stat st ?h i = granted_stat st h i" if "i \<in> ?U" for i
      using that by (intro stat_reservation.granted_apply_at) auto
    obtain err h2 where up: "reserve_up st ?h sc = Some (err, h2)" "heap_inv h2" "shape h2 = shape h"
      "err = None \<longleftrightarrow> (\<forall>i \<in> ?U. granted_stat st ?h i)" "err = None \<longrightarrow> h2 = apply_at ?U (stat_reservation.after st) ?h"
    proof (cases "owner sc")
      case None
      note U = accounts_rest [OF less.prems(1) sc, unfolded None option.case]
      have len: "length (edges sc) \<le> 1" using less.prems(2) sc by (simp add: single_edge_def)
      show ?thesis
      proof (cases "edges sc")
        case Nil
        with None inv show ?thesis by (intro that [of None ?h]) (simp_all add: reserve_up_def U)
      next
        case (Cons e es)
        then have e: "edges sc = [e]" "e \<in> dom (scopes ?h)" using len ok by (simp_all add: scope_ok_def)
        have ru: "reserve_up st ?h sc = reserve_for_child (try_stat st) ?h e"
          using None e ReserveForChild_eq [OF inv assms(1) e(2)] by (simp add: reserve_up_def)
        show ?thesis
        proof (cases "granted_stat st ?h e")
          case True
          have "heap_inv (apply_at {e} (stat_reservation.after st) ?h)"
            using True by (intro stat_reservation.heap_inv_after [OF assms(1) inv]) auto
          with True ru U e(1) stat_reservation.reserve_for_child_granted [OF True] show ?thesis
            by (intro that [of None "apply_at {e} (stat_reservation.after st) ?h"]) simp_all
        next
          case False
          with stat_reservation.reserve_for_child_refused [OF False e(2)] ru
          obtain x where "reserve_up st ?h sc = Some (Some x, ?h)" by auto
          with False U e(1) inv show ?thesis by (intro that [of "Some x" ?h]) simp_all
        qed
      qed
    next
      case (Some own)
      note U = accounts_rest [OF less.prems(1) sc, unfolded Some option.case]
      have own: "own < s" "own \<in> dom (scopes ?h)" using ok Some by (simp_all add: scope_ok_def)
      have ru: "reserve_up st ?h sc = ReserveResources st ?h own" using Some by (simp add: reserve_up_def)
      have se: "single_edge ?h" using less.prems(2) by simp
      from less.IH [OF own(1) inv se own(2)] obtain err h2 where
        "ReserveResources st ?h own = Some (err, h2)" "heap_inv h2" "shape h2 = shape h"
        "err = None \<longleftrightarrow> (\<forall>i \<in> ?U. granted_stat st ?h i)"
        "err = None \<longrightarrow> h2 = apply_at ?U (stat_reservation.after st) ?h"
        unfolding U accounts_apply_at shape_apply_at by blast
      then show ?thesis unfolding ru [symmetric] by (rule that)
    qed
    show ?thesis
    proof (cases err)
      case None
      have "apply_at ?U (stat_reservation.after st) ?h = apply_at (Collect (accounts h s)) (stat_reservation.after st) h"
        by (subst apply_at_Un) (auto simp: insert_absorb accounts.self)
      with None up g True ReserveResources_granted [OF less.prems(1) assms(1) True sc] show ?thesis by auto
    next
      case (Some x)
      have "s \<in> dom (scopes h2)" using less.prems(3) shape_dom [OF up(3)] by simp
      with release_scope_inv(1) [OF up(2) this stat_reservation.rel_keeps_release [OF assms(1)]] up(3)
      obtain h3 where "ReleaseResources st h2 s = Some h3" "heap_inv h3" "shape h3 = shape h"
        by (auto simp: ReleaseResources_def)
      with Some up g ReserveResources_granted [OF less.prems(1) assms(1) True sc] show ?thesis by auto
    qed
  qed
qed

text \<open>
  The refusal of an upstream scope: the span or service scope gives its share back, and the estimate
  is also released at the scope that refused it.
\<close>

lemma ReserveResources_edge_refused:
  assumes "valid_stat st" "heap_inv h" "scopes h s = Some sc" "owner sc = None" "edges sc = [e]"
    and "scopes h e = Some ec" "\<not> sDone ec" "granted_stat st h s" "\<not> granted_stat st h e"
  shows "\<exists>x. ReserveResources st h s = Some (Some x, apply_at {e} (release_stat st) h)"
proof -
  let ?h = "apply_at {s} (stat_reservation.after st) h"
  have ok: "scope_ok h s sc" using assms(2,3) by (rule heap_invD)
  then have es: "e \<noteq> s" using assms(5) by (auto simp: scope_ok_def)
  have inv: "heap_inv ?h" using assms(8) by (intro stat_reservation.heap_inv_after [OF assms(1,2)]) auto
  have acc: "Collect (accounts ?h s) = {s, e}"
    using accounts_unfold [OF assms(3)] assms(4,5) by simp
  have ng: "\<not> granted_stat st ?h e" and de: "e \<in> dom (scopes ?h)"
    using assms(6,9) es stat_reservation.granted_apply_at [of e "{s}"] by auto
  obtain x where "ReserveForChild st ?h e = Some (Some x, ?h)"
    using stat_reservation.reserve_for_child_refused [OF ng de] ReserveForChild_eq [OF inv assms(1) de] by auto
  then have ru: "reserve_up st ?h sc = Some (Some x, ?h)" using assms(4,5) by (simp add: reserve_up_def)
  have "ReleaseResources st ?h s = Some (apply_at (Collect (accounts ?h s)) (release_stat st) ?h)"
    unfolding ReleaseResources_def
  proof (rule release_scope_eq [OF inv])
    show "s \<in> dom (scopes ?h)" using assms(3) by auto
    show "\<not> sDone sc'" if "accounts ?h s i" "scopes ?h i = Some sc'" for i sc'
    proof -
      have "i \<in> {s, e}" using that(1) acc by blast
      with that(2) assms(3,6,7,8) es show ?thesis
        by (auto simp: scopes_apply_at stat_reservation.granted_def split: if_splits)
    qed
  qed (rule stat_reservation.rel_keeps_release [OF assms(1)])
  also have "apply_at (Collect (accounts ?h s)) (release_stat st) ?h
      = apply_at {e} (release_stat st) (apply_at {s} (release_stat st) ?h)"
    unfolding acc using es by (subst apply_at_Un) (auto simp: insert_commute)
  also have "apply_at {s} (release_stat st) ?h = h"
    using assms(8) by (intro stat_reservation.undo_after [OF assms(1,2)]) auto
  finally show ?thesis
    using ReserveResources_granted [OF assms(2,1,8,3)] ru by simp
qed

subsection \<open>The manager as a transition system\<close>

datatype rm_op =
    OpOpenService string
  | OpBeginSpan scope_ref
  | OpReserveMemory scope_ref int int
  | OpReleaseMemory scope_ref int
  | OpAddTask scope_ref int ReserveTaskPriority
  | OpRemoveTask scope_ref int ReserveTaskPriority
  | OpAddConn scope_ref Direction
  | OpRemoveConn scope_ref Direction
  | OpReserveResources scope_ref ScopeStat
  | OpRelease scope_ref
  | OpDone scope_ref

fun rm_exec :: "rm_op \<Rightarrow> resourceManager \<Rightarrow> resourceManager option" where
  "rm_exec (OpOpenService nm) r = map_option snd (OpenService r nm)"
| "rm_exec (OpBeginSpan s) r = map_option (\<lambda>(_, h). r\<lparr>rmHeap := h\<rparr>) (BeginSpan (rmHeap r) s)"
| "rm_exec (OpReserveMemory s sz prio) r =
     map_option (\<lambda>(_, h). r\<lparr>rmHeap := h\<rparr>) (ReserveMemory sz prio (rmHeap r) s)"
| "rm_exec (OpReleaseMemory s sz) r = map_option (\<lambda>h. r\<lparr>rmHeap := h\<rparr>) (ReleaseMemory sz (rmHeap r) s)"
| "rm_exec (OpAddTask s n p) r = map_option (\<lambda>(_, h). r\<lparr>rmHeap := h\<rparr>) (AddTask n p (rmHeap r) s)"
| "rm_exec (OpRemoveTask s n p) r = map_option (\<lambda>h. r\<lparr>rmHeap := h\<rparr>) (RemoveTask n p (rmHeap r) s)"
| "rm_exec (OpAddConn s d) r = map_option (\<lambda>(_, h). r\<lparr>rmHeap := h\<rparr>) (AddConn d (rmHeap r) s)"
| "rm_exec (OpRemoveConn s d) r = map_option (\<lambda>h. r\<lparr>rmHeap := h\<rparr>) (RemoveConn d (rmHeap r) s)"
| "rm_exec (OpReserveResources s st) r =
     map_option (\<lambda>(_, h). r\<lparr>rmHeap := h\<rparr>) (ReserveResources st (rmHeap r) s)"
| "rm_exec (OpRelease s) r = map_option (\<lambda>h. r\<lparr>rmHeap := h\<rparr>) (Release (rmHeap r) s)"
| "rm_exec (OpDone s) r = map_option (\<lambda>h. r\<lparr>rmHeap := h\<rparr>) (Done (rmHeap r) s)"

text \<open>The arguments callers pass: amounts that are not negative and not near the end of \<open>int64\<close>.\<close>

fun op_valid :: "rm_op \<Rightarrow> bool" where
  "op_valid (OpReserveMemory s sz prio) = valid_mem (sz, prio)"
| "op_valid (OpReleaseMemory s sz) = valid_mem (sz, 0)"
| "op_valid (OpAddTask s n p) = small n"
| "op_valid (OpRemoveTask s n p) = small n"
| "op_valid (OpReserveResources s st) = valid_stat st"
| "op_valid _ = True"

text \<open>A configured limit: in range, not negative, and not the special unlimited memory value.\<close>

definition limit_cfg :: "GfSpLimit \<Rightarrow> bool" where
  "limit_cfg l \<longleftrightarrow> limit_typed l \<and> NotLess l zero_limit \<and> limMemory l < MaxInt64"

definition limiter_cfg :: "GfSpLimiter \<Rightarrow> bool" where
  "limiter_cfg L \<longleftrightarrow> (\<forall>l. limiterSystem L = Some l \<longrightarrow> limit_cfg l)
     \<and> (\<forall>svc l. limiterServiceLimit L svc = Some l \<longrightarrow> limit_cfg l)"

inductive rm_reachable :: "GfSpLimiter \<Rightarrow> resourceManager \<Rightarrow> bool" for L where
  rm_init: "NewResourceManager L = Some r \<Longrightarrow> rm_reachable L r"
| rm_step: "rm_reachable L r \<Longrightarrow> op_valid op \<Longrightarrow> rm_exec op r = Some r' \<Longrightarrow> rm_reachable L r'"

subsubsection \<open>Every operation keeps the invariant of the store\<close>

lemma single_edge_shape: "shape h' = shape h \<Longrightarrow> single_edge h' = single_edge h"
proof -
  have "single_edge k \<longleftrightarrow> (\<forall>i p. shape k i = Some p \<longrightarrow> length (snd p) \<le> 1)" for k
    by (auto simp: single_edge_def shape_def)
  then show "shape h' = shape h \<Longrightarrow> single_edge h' = single_edge h" by simp
qed

lemma rc_inv_fresh: "rc_inv r \<Longrightarrow> rc_inv (new_resources (rcLimit r))"
  by (simp add: rc_inv_def new_resources_def)

lemma limit_cfg_fresh: "limit_cfg l \<Longrightarrow> rc_inv (new_resources l)"
  by (simp add: limit_cfg_def rc_inv_new)

lemma alloc_inv:
  assumes "heap_inv h" "rc_inv (rc sc)" "distinct (edges sc)" "set (edges sc) \<subseteq> dom (scopes h)"
    and "\<And>own. owner sc = Some own \<Longrightarrow> own \<in> dom (scopes h) \<and> edges sc = []"
  shows "heap_inv (snd (alloc h sc))"
  unfolding heap_inv_def
proof (intro allI impI)
  fix i sci
  assume i: "scopes (snd (alloc h sc)) i = Some sci"
  have lt: "j < nextRef h" if "j \<in> dom (scopes h)" for j
    using that heap_invD [OF assms(1)] by (auto simp: scope_ok_def)
  have d: "dom (scopes (snd (alloc h sc))) = insert (nextRef h) (dom (scopes h))"
    "nextRef (snd (alloc h sc)) = Suc (nextRef h)"
    by (simp_all add: alloc_def put_def)
  show "scope_ok (snd (alloc h sc)) i sci"
  proof (cases "i = nextRef h")
    case True
    with i have "sci = sc" by (simp add: alloc_def put_def)
    with True assms lt show ?thesis unfolding scope_ok_def d by auto
  next
    case False
    with i have "scopes h i = Some sci" by (simp add: alloc_def put_def)
    from heap_invD [OF assms(1) this] show ?thesis unfolding scope_ok_def d by auto
  qed
qed

lemma alloc_single_edge: "single_edge h \<Longrightarrow> length (edges sc) \<le> 1 \<Longrightarrow> single_edge (snd (alloc h sc))"
  by (auto simp: single_edge_def alloc_def put_def split: if_splits)

lemma alloc_dom: "dom (scopes (snd (alloc h sc))) = insert (nextRef h) (dom (scopes h))"
  by (simp add: alloc_def put_def)

text \<open>\<open>grows h h'\<close>: \<open>h'\<close> is a good store that still has the scopes of \<open>h\<close>.\<close>

definition grows :: "scopeHeap \<Rightarrow> scopeHeap \<Rightarrow> bool" where
  "grows h h' \<longleftrightarrow> heap_inv h' \<and> single_edge h' \<and> dom (scopes h) \<subseteq> dom (scopes h')"

lemma growsI_shape: "single_edge h \<Longrightarrow> heap_inv h' \<Longrightarrow> shape h' = shape h \<Longrightarrow> grows h h'"
  unfolding grows_def using single_edge_shape [of h' h] shape_dom [of h' h] by simp

lemma grows_trans: "grows h1 h2 \<Longrightarrow> grows h2 h3 \<Longrightarrow> grows h1 h3"
  unfolding grows_def by blast

lemma growsD: "grows h h' \<Longrightarrow> heap_inv h' \<and> single_edge h'"
  unfolding grows_def by blast

lemma put_grows:
  assumes "heap_inv h" "single_edge h" "scopes h s = Some sc" "rc sc' = rc sc" "owner sc' = owner sc" "edges sc' = edges sc"
  shows "grows h (put h s sc')"
proof (rule growsI_shape [OF assms(2)])
  have "rc_inv (rc sc)" using heap_invD [OF assms(1,3)] by (simp add: scope_ok_def)
  with assms(1,3-6) show "heap_inv (put h s sc')" by (intro heap_inv_put) simp_all
  show "shape (put h s sc') = shape h" using assms(3,5,6) by (rule shape_put)
qed

lemma alloc_grows:
  assumes "heap_inv h" "single_edge h" "rc_inv (rc sc)" "distinct (edges sc)" "set (edges sc) \<subseteq> dom (scopes h)"
    and "\<And>own. owner sc = Some own \<Longrightarrow> own \<in> dom (scopes h) \<and> edges sc = []" "length (edges sc) \<le> 1"
  shows "grows h (snd (alloc h sc))"
  unfolding grows_def alloc_dom
  using alloc_inv [OF assms(1,3-6)] alloc_single_edge [OF assms(2,7)] by blast

lemma newResourceScopeSpan_grows:
  assumes "heap_inv h" "single_edge h" "newResourceScopeSpan h own i nm = Some (n, h')"
  shows "grows h h'"
proof -
  obtain osc where o: "scopes h own = Some osc"
    using assms(3) by (auto simp: newResourceScopeSpan_def)
  let ?sc = "\<lparr>sDone = False, refCnt = 0, spanID = 0, rc = new_resources (rcLimit (rc osc)), owner = Some own,
    edges = [], scName = scName osc @ ''.span-'' @ nm @ ''-'' @ show_int i\<rparr>"
  have h': "h' = snd (alloc h ?sc)" using assms(3) o unfolding newResourceScopeSpan_def by simp
  have "rc_inv (rc ?sc)" using heap_invD [OF assms(1) o] rc_inv_fresh by (simp add: scope_ok_def)
  then show ?thesis unfolding h' by (rule alloc_grows [OF assms(1,2)]) (use o in auto)
qed

lemma NextSpanID_grows:
  assumes "heap_inv h" "single_edge h" "NextSpanID h s = Some (i, h')"
  shows "grows h h'"
  using assms by (auto simp: NextSpanID_def Let_def intro!: put_grows)

lemma DecRef_shape: "DecRef h s = Some h' \<Longrightarrow> heap_inv h \<Longrightarrow> heap_inv h' \<and> shape h' = shape h"
  using heap_invD by (auto simp: DecRef_def scope_ok_def intro!: heap_inv_put shape_put)

lemma IncRef_shape: "IncRef h s = Some h' \<Longrightarrow> heap_inv h \<Longrightarrow> heap_inv h' \<and> shape h' = shape h"
  using heap_invD by (auto simp: IncRef_def scope_ok_def intro!: heap_inv_put shape_put)

lemma BeginSpan_grows:
  assumes "heap_inv h" "single_edge h" "BeginSpan h s = Some (res, h')"
  shows "grows h h'"
proof -
  obtain sc where sc: "scopes h s = Some sc" using assms(3) by (auto simp: BeginSpan_def bind_eq_Some_conv)
  show ?thesis
  proof (cases "sDone sc")
    case True
    with assms sc show ?thesis by (simp add: BeginSpan_def grows_def)
  next
    case False
    let ?h = "put h s (sc\<lparr>refCnt := i64 (refCnt sc + 1)\<rparr>)"
    have g1: "grows h ?h" using assms(1,2) sc by (intro put_grows) auto
    from False assms(3) sc obtain i h2 r h3 where h2: "NextSpanID ?h s = Some (i, h2)"
      "newResourceScopeSpan h2 s i ''temp'' = Some (r, h3)" "h' = h3"
      by (auto simp: BeginSpan_def Let_def bind_eq_Some_conv)
    have g2: "grows ?h h2" using growsD [OF g1] h2(1) by (blast intro: NextSpanID_grows)
    have "grows h2 h3" using growsD [OF g2] h2(2) by (blast intro: newResourceScopeSpan_grows)
    with g1 g2 h2(3) show ?thesis by (blast intro: grows_trans)
  qed
qed

lemma walk_dom:
  "reserve_scope res rel h s \<noteq> None \<Longrightarrow> s \<in> dom (scopes h)" "release_scope rel h s \<noteq> None \<Longrightarrow> s \<in> dom (scopes h)"
  "remove_scope rel h s \<noteq> None \<Longrightarrow> s \<in> dom (scopes h)" "ReserveResources st h s \<noteq> None \<Longrightarrow> s \<in> dom (scopes h)"
  by (cases "scopes h s"; simp add: reserve_scope.simps [of res rel h s] release_scope.simps [of rel h s]
      remove_scope.simps [of rel h s] ReserveResources.simps [of st h s] domIff)+

lemma reserve_scope_grows:
  assumes "heap_inv h" "single_edge h" "res_keeps res" "rel_keeps rel" "reserve_scope res rel h s = Some (e, h')"
  shows "grows h h'"
proof -
  have "s \<in> dom (scopes h)" using assms(5) walk_dom(1) by (metis option.distinct(1))
  from reserve_scope_inv [OF assms(1) this assms(3,4)] assms(2,5) show ?thesis by (auto intro: growsI_shape)
qed

lemma release_scope_grows:
  assumes "heap_inv h" "single_edge h" "rel_keeps rel" "release_scope rel h s = Some h'"
  shows "heap_inv h' \<and> shape h' = shape h \<and> grows h h'"
proof -
  have "s \<in> dom (scopes h)" using assms(4) walk_dom(2) by (metis option.distinct(1))
  from release_scope_inv(1) [OF assms(1) this assms(3)] assms(2,4) show ?thesis by (auto intro: growsI_shape)
qed

lemma remove_scope_grows:
  assumes "heap_inv h" "single_edge h" "rel_keeps rel" "remove_scope rel h s = Some h'"
  shows "grows h h'"
proof -
  have "s \<in> dom (scopes h)" using assms(4) walk_dom(3) by (metis option.distinct(1))
  from release_scope_inv(2) [OF assms(1) this assms(3)] assms(2,4) show ?thesis by (auto intro: growsI_shape)
qed

lemma valid_rc_stat:
  "rc_inv r \<Longrightarrow> rel_keeps (release_stat (rc_stat r))"
  unfolding rel_keeps_def release_stat_def
proof (intro allI impI)
  fix q assume r: "rc_inv r" and q: "rc_inv q"
  have "0 \<le> memory r" "is_i64 (memory r)" "small (nconnsIn r)" "small (nconnsOut r)" "small (nfd r)"
    "small (ntasksHigh r)" "small (ntasksMedium r)" "small (ntasksLow r)"
    using r by (auto simp: rc_inv_unfold)
  with q show "rc_inv (removeTask (removeTask (removeTask (removeConns (releaseMemory q (stMemory (rc_stat r)))
      (stNumConnsInbound (rc_stat r)) (stNumConnsOutbound (rc_stat r)) (stNumFD (rc_stat r)))
      (stNumTasksHigh (rc_stat r)) ReserveTaskPriorityHigh)
      (stNumTasksMedium (rc_stat r)) ReserveTaskPriorityMedium)
      (stNumTasksLow (rc_stat r)) ReserveTaskPriorityLow)"
    by (simp add: rc_stat_def releaseMemory_inv removeConns_inv removeTask_inv)
qed

lemma done_edges_shape:
  "heap_inv h \<Longrightarrow> rel_keeps (release_stat st) \<Longrightarrow> done_edges st h es = Some h' \<Longrightarrow> heap_inv h' \<and> shape h' = shape h"
proof (induction st h es rule: done_edges.induct)
  case (2 st h e es)
  then obtain h1 h2 where h: "ReleaseForChild st h e = Some h1" "DecRef h1 e = Some h2" "done_edges st h2 es = Some h'"
    by (auto simp: bind_eq_Some_conv)
  have d: "e \<in> dom (scopes h)" using h(1) by (auto simp: ReleaseForChild_def release_for_child_def)
  have "release_edges (release_stat st) h [e] = Some h1" using h(1) by (simp add: ReleaseForChild_def)
  with release_edges_inv [OF "2.prems"(1) _ "2.prems"(2), of "[e]"] d
  have h1: "heap_inv h1" "shape h1 = shape h" by auto
  from DecRef_shape [OF h(2) h1(1)] "2.IH" [OF h(1,2) _ "2.prems"(2) h(3)] h1(2) show ?case by simp
qed simp

lemma Done_grows:
  assumes "heap_inv h" "single_edge h" "Done h s = Some h'"
  shows "grows h h'"
proof -
  obtain sc where sc: "scopes h s = Some sc" using assms(3) by (auto simp: Done_def bind_eq_Some_conv)
  have k: "rel_keeps (release_stat (rc_stat (rc sc)))"
    using heap_invD [OF assms(1) sc] by (simp add: valid_rc_stat scope_ok_def)
  show ?thesis
  proof (cases "sDone sc")
    case True
    with assms sc show ?thesis by (simp add: Done_def grows_def)
  next
    case False
    let ?up = "case owner sc of
        Some own \<Rightarrow> Option.bind (ReleaseResources (rc_stat (rc sc)) h own) (\<lambda>h1. DecRef h1 own)
      | None \<Rightarrow> done_edges (rc_stat (rc sc)) h (edges sc)"
    from False assms(3) sc obtain h1 sc1 where h1: "?up = Some h1" "scopes h1 s = Some sc1"
      "h' = put h1 s (sc1\<lparr>rc := (rc sc1)\<lparr>nconnsIn := 0, nconnsOut := 0, nfd := 0, memory := 0\<rparr>, sDone := True\<rparr>)"
      by (auto simp: Done_def bind_eq_Some_conv)
    have i: "heap_inv h1 \<and> shape h1 = shape h"
      using h1(1) done_edges_shape [OF assms(1) k] release_scope_grows [OF assms(1,2) k] DecRef_shape
      by (auto simp: ReleaseResources_def bind_eq_Some_conv split: option.splits)
    have "rc_inv ((rc sc1)\<lparr>nconnsIn := 0, nconnsOut := 0, nfd := 0, memory := 0\<rparr>)"
      using heap_invD [of h1 s sc1] i h1(2) by (auto simp: scope_ok_def rc_inv_def)
    then have "heap_inv h'" "shape h' = shape h"
      using i h1(2,3) by (auto intro!: heap_inv_put simp: shape_put)
    then show ?thesis using assms(2) by (intro growsI_shape)
  qed
qed


lemma IncRef_all_shape: "IncRef_all h es = Some h' \<Longrightarrow> heap_inv h \<Longrightarrow> heap_inv h' \<and> shape h' = shape h"
proof (induction h es rule: IncRef_all.induct)
  case (2 h e es)
  then obtain h1 where "IncRef h e = Some h1" "IncRef_all h1 es = Some h'" by (auto simp: bind_eq_Some_conv)
  with "2.IH" "2.prems"(2) IncRef_shape show ?case by metis
qed simp

lemma newResourceScope_grows:
  assumes "heap_inv h" "single_edge h" "limit_cfg l" "set es \<subseteq> dom (scopes h)" "length es \<le> 1"
    and "newResourceScope h l es nm = Some (n, h')"
  shows "grows h h'"
proof -
  let ?sc = "\<lparr>sDone = False, refCnt = 0, spanID = 0, rc = new_resources l, owner = None, edges = es, scName = nm\<rparr>"
  obtain h1 where h1: "IncRef_all h es = Some h1" "h' = snd (alloc h1 ?sc)"
    using assms(6) by (auto simp: newResourceScope_def)
  then have i: "heap_inv h1" "shape h1 = shape h" using IncRef_all_shape assms(1) by blast+
  have g: "grows h h1" using growsI_shape [OF assms(2) i] .
  have "distinct es" using assms(5) by (cases es) auto
  moreover have "set es \<subseteq> dom (scopes h1)" using assms(4) g by (auto simp: grows_def)
  ultimately have "grows h1 h'" unfolding h1(2)
    using limit_cfg_fresh [OF assms(3)] growsD [OF g] assms(5) by (intro alloc_grows) simp_all
  with g show ?thesis by (rule grows_trans)
qed

definition rm_inv :: "GfSpLimiter \<Rightarrow> resourceManager \<Rightarrow> bool" where
  "rm_inv L r \<longleftrightarrow> rmLimits r = L \<and> heap_inv (rmHeap r) \<and> single_edge (rmHeap r)
     \<and> rmSystem r \<in> dom (scopes (rmHeap r))"

lemma rm_inv_heap: "rm_inv L r \<Longrightarrow> grows (rmHeap r) h \<Longrightarrow> rm_inv L (r\<lparr>rmHeap := h\<rparr>)"
  unfolding rm_inv_def grows_def by auto

lemma OpenService_inv:
  assumes "limiter_cfg L" "rm_inv L r" "OpenService r nm = Some (s, r')"
  shows "rm_inv L r'"
proof -
  note i = assms(2) [unfolded rm_inv_def]
  obtain h where r': "r' = r\<lparr>rmSvc := (rmSvc r)(nm \<mapsto> s), rmHeap := h\<rparr>"
    and h: "(case GetServiceLimits (rmLimits r) nm of
        None \<Rightarrow> Option.bind (NextSpanID (rmHeap r) (rmSystem r)) (\<lambda>(i, h). newResourceScopeSpan h (rmSystem r) i nm)
      | Some limit \<Rightarrow> newResourceScope (rmHeap r) limit [rmSystem r] nm) = Some (s, h)"
    using assms(3) by (auto simp: OpenService_def bind_eq_Some_conv)
  have "grows (rmHeap r) h"
  proof (cases "GetServiceLimits (rmLimits r) nm")
    case None
    with h obtain k h1 where "NextSpanID (rmHeap r) (rmSystem r) = Some (k, h1)"
      "newResourceScopeSpan h1 (rmSystem r) k nm = Some (s, h)" by (auto simp: bind_eq_Some_conv)
    with i NextSpanID_grows [of "rmHeap r"] have "grows (rmHeap r) h1" "grows h1 h"
      by (metis, metis growsD newResourceScopeSpan_grows)
    then show ?thesis by (rule grows_trans)
  next
    case (Some limit)
    with i assms(1) have "limit_cfg limit" by (auto simp: limiter_cfg_def GetServiceLimits_def)
    with Some i h show ?thesis by (intro newResourceScope_grows [of _ limit "[rmSystem r]"]) auto
  qed
  with rm_inv_heap [OF assms(2)] show ?thesis unfolding r' rm_inv_def by auto
qed

lemma NewResourceManager_inv:
  assumes "limiter_cfg L" "NewResourceManager L = Some r"
  shows "rm_inv L r"
proof -
  let ?h = "\<lparr>scopes = Map.empty, nextRef = 0\<rparr> :: scopeHeap"
    and ?l = "case GetSystemLimits L of Some l \<Rightarrow> l | None \<Rightarrow> zero_limit"
  obtain sys h where n: "newResourceScope ?h ?l [] ''system'' = Some (sys, h)"
    and r: "r = \<lparr>rmLimits = L, rmSystem = sys, rmSvc = Map.empty, rmHeap = h\<rparr>"
    using assms(2) by (auto simp: NewResourceManager_def)
  have "limit_cfg zero_limit" by (simp add: limit_cfg_def limit_typed_def zero_limit_def range_defs NotLess_iff)
  then have "limit_cfg ?l" using assms(1) by (auto simp: limiter_cfg_def GetSystemLimits_def split: option.splits)
  then have "grows ?h h" using n by (intro newResourceScope_grows [OF _ _ _ _ _ n]) (auto simp: heap_inv_def single_edge_def)
  moreover have "sys \<in> dom (scopes h)" using n by (auto simp: newResourceScope_def alloc_def put_def)
  ultimately show ?thesis unfolding r rm_inv_def by (simp add: grows_def)
qed

lemma task_keeps:
  "small n \<Longrightarrow> res_keeps (\<lambda>r. addTask r n p)" "small n \<Longrightarrow> rel_keeps (\<lambda>r. removeTask r n p)"
  by (auto simp: res_keeps_def rel_keeps_def intro: addTask_inv removeTask_inv)

lemma conn_keeps: "res_keeps (\<lambda>r. addConn r d)" "rel_keeps (\<lambda>r. removeConn r d)"
  by (auto simp: res_keeps_def rel_keeps_def intro: addConn_inv removeConn_inv)

lemma mem_keeps:
  "valid_mem (sz, prio) \<Longrightarrow> res_keeps (\<lambda>r. reserveMemory r sz prio)"
  "valid_mem (sz, prio) \<Longrightarrow> rel_keeps (\<lambda>r. releaseMemory r sz)"
  using mem_reservation.res_keeps_reserve [of "(sz, prio)"] mem_reservation.rel_keeps_release [of "(sz, prio)"] by simp_all

lemma ReserveResources_grows:
  assumes "heap_inv h" "single_edge h" "valid_stat st" "ReserveResources st h s = Some (e, h')"
  shows "grows h h'"
proof -
  have "s \<in> dom (scopes h)" using assms(4) walk_dom(4) by (metis option.distinct(1))
  from ReserveResources_total [OF assms(3,1,2) this] assms(2,4) show ?thesis by (auto intro: growsI_shape)
qed

lemma Release_grows:
  assumes "heap_inv h" "single_edge h" "Release h s = Some h'"
  shows "grows h h'"
proof -
  obtain sc where sc: "scopes h s = Some sc" using assms(3) by (auto simp: Release_def bind_eq_Some_conv)
  have "rel_keeps (release_stat (rc_stat (rc sc)))"
    using heap_invD [OF assms(1) sc] by (simp add: valid_rc_stat scope_ok_def)
  from release_scope_grows [OF assms(1,2) this] assms sc show ?thesis
    by (cases "sDone sc") (auto simp: Release_def ReleaseResources_def grows_def)
qed

lemma rm_exec_inv:
  assumes "limiter_cfg L" "rm_inv L r" "op_valid op" "rm_exec op r = Some r'"
  shows "rm_inv L r'"
proof -
  have h: "heap_inv (rmHeap r)" "single_edge (rmHeap r)" using assms(2) by (simp_all add: rm_inv_def)
  note g = rm_inv_heap [OF assms(2)]
  show ?thesis
  proof (cases op)
    case (OpOpenService nm)
    with assms(4) obtain s where "OpenService r nm = Some (s, r')" by auto
    then show ?thesis by (rule OpenService_inv [OF assms(1,2)])
  next
    case (OpBeginSpan s)
    with assms(4) BeginSpan_grows [OF h] show ?thesis by (auto intro: g)
  next
    case (OpReserveMemory s sz prio)
    with assms(3,4) reserve_scope_grows [OF h mem_keeps] show ?thesis by (auto simp: ReserveMemory_def intro: g)
  next
    case (OpReleaseMemory s sz)
    with assms(3,4) release_scope_grows [OF h mem_keeps(2)] show ?thesis by (auto simp: ReleaseMemory_def intro: g)
  next
    case (OpAddTask s n p)
    with assms(3,4) reserve_scope_grows [OF h task_keeps] show ?thesis by (auto simp: AddTask_def intro: g)
  next
    case (OpRemoveTask s n p)
    with assms(3,4) remove_scope_grows [OF h task_keeps(2)] show ?thesis by (auto simp: RemoveTask_def intro: g)
  next
    case (OpAddConn s d)
    with assms(4) reserve_scope_grows [OF h conn_keeps] show ?thesis by (auto simp: AddConn_def intro: g)
  next
    case (OpRemoveConn s d)
    with assms(4) remove_scope_grows [OF h conn_keeps(2)] show ?thesis by (auto simp: RemoveConn_def intro: g)
  next
    case (OpReserveResources s st)
    with assms(3,4) ReserveResources_grows [OF h] show ?thesis by (auto intro: g)
  next
    case (OpRelease s)
    with assms(4) Release_grows [OF h] show ?thesis by (auto intro: g)
  next
    case (OpDone s)
    with assms(4) Done_grows [OF h] show ?thesis by (auto intro: g)
  qed
qed

lemma rm_reachable_inv: "rm_reachable L r \<Longrightarrow> limiter_cfg L \<Longrightarrow> rm_inv L r"
  by (induction rule: rm_reachable.induct) (blast intro: NewResourceManager_inv rm_exec_inv)+


subsection \<open>What a grant means\<close>

lemma heap_rc: "heap_inv h \<Longrightarrow> scopes h i = Some sc \<Longrightarrow> rc_inv (rc sc)"
  using heap_invD by (simp add: scope_ok_def)

lemma granted_mem_iff:
  assumes "heap_inv h" "valid_mem (sz, prio)" "scopes h i = Some sc"
  shows "mem_reservation.granted (sz, prio) h i \<longleftrightarrow> \<not> sDone sc
    \<and> memory (rc sc) + sz \<le> (1 + prio) * limMemory (rcLimit (rc sc)) div 256"
  using assms heap_rc [OF assms(1,3)]
  by (simp add: mem_reservation.granted_def is_ok_iff valid_mem_def reserveMemory_Inr)

lemma after_mem:
  assumes "heap_inv h" "valid_mem (sz, prio)" "scopes h i = Some sc" "mem_reservation.granted (sz, prio) h i"
  shows "mem_reservation.after (sz, prio) (rc sc) = (rc sc)\<lparr>memory := memory (rc sc) + sz\<rparr>"
proof -
  have "reserveMemory (rc sc) sz prio = Inr ((rc sc)\<lparr>memory := memory (rc sc) + sz\<rparr>)"
    using assms heap_rc [OF assms(1,3)] by (simp add: granted_mem_iff reserveMemory_Inr valid_mem_def)
  then show ?thesis by (simp add: mem_reservation.after_def)
qed

lemma apply_at_cong:
  "(\<And>i sc. i \<in> A \<Longrightarrow> scopes h i = Some sc \<Longrightarrow> f (rc sc) = g (rc sc)) \<Longrightarrow> apply_at A f h = apply_at A g h"
proof (rule heap_eqI)
  fix i assume "\<And>i sc. i \<in> A \<Longrightarrow> scopes h i = Some sc \<Longrightarrow> f (rc sc) = g (rc sc)"
  then show "scopes (apply_at A f h) i = scopes (apply_at A g h) i"
    by (cases "scopes h i") (simp_all add: scopes_apply_at)
qed simp

lemma reserve_stat_fits:
  assumes "rc_inv r" "valid_stat st" "rc_inv (add_stat st r)"
  shows "reserve_stat st r = (None, add_stat st r)"
proof -
  have v: "small (stMemory st)" "small (stNumTasksHigh st)" "small (stNumTasksMedium st)"
    "small (stNumTasksLow st)" "small (stNumConnsInbound st)" "small (stNumConnsOutbound st)" "small (stNumFD st)"
    using assms(2) by (simp_all add: valid_stat_def)
  have n: "0 \<le> stMemory st" "0 \<le> stNumTasksHigh st" "0 \<le> stNumTasksMedium st" "0 \<le> stNumTasksLow st"
    "0 \<le> stNumConnsInbound st" "0 \<le> stNumConnsOutbound st" "0 \<le> stNumFD st"
    using v by (simp_all add: small_def)
  have i: "rc_inv (add_mem st r)" "rc_inv (add_conn st r)" "rc_inv (add_high st r)" "rc_inv (add_medium st r)"
    using assms(1,3) n by (auto simp: rc_inv_def add_defs)
  have 1: "reserveMemory r (stMemory st) ReservationPriorityAlways = Inr (add_mem st r)"
    using assms(1,3) n small_i64 [OF v(1)]
    by (subst reserveMemory_Inr) (auto simp: ReservationPriorityAlways_def range_defs add_defs rc_inv_def)
  have 2: "addConns (add_mem st r) (stNumConnsInbound st) (stNumConnsOutbound st) (stNumFD st) = Inr (add_conn st r)"
    using assms(1,3) by (subst addConns_Inr [OF i(1) v(5-7)]) (auto simp: add_defs rc_inv_def)
  have 3: "addTask (add_conn st r) (stNumTasksHigh st) ReserveTaskPriorityHigh = Inr (add_high st r)"
    using assms(1,3) n by (subst addTask_Inr [OF i(2) v(2)]) (auto simp: add_defs rc_inv_def)
  have 4: "addTask (add_high st r) (stNumTasksMedium st) ReserveTaskPriorityMedium = Inr (add_medium st r)"
    using assms(1,3) n by (subst addTask_Inr [OF i(3) v(3)]) (auto simp: add_defs rc_inv_def)
  have 5: "addTask (add_medium st r) (stNumTasksLow st) ReserveTaskPriorityLow = Inr (add_stat st r)"
    using assms(1,3) n by (subst addTask_Inr [OF i(4) v(4)]) (auto simp: add_defs rc_inv_def)
  show ?thesis by (simp add: reserve_stat_def 1 2 3 4 5)
qed

lemma granted_stat_fits:
  assumes "heap_inv h" "valid_stat st" "scopes h i = Some sc"
  shows "granted_stat st h i \<longleftrightarrow> \<not> sDone sc \<and> rc_inv (add_stat st (rc sc))"
proof -
  have "rc_inv (rc sc)" using heap_rc [OF assms(1,3)] .
  from this assms(2) show ?thesis
    by (cases rule: reserve_stat_cases)
      (use reserve_stat_fits [OF \<open>rc_inv (rc sc)\<close> assms(2)] granted_stat_iff [OF assms] in auto)
qed

subsection \<open>Properties\<close>

text \<open>A store as the manager builds it: the system scope, one service below it, and a span of the service.\<close>

definition sample_limit :: "int \<Rightarrow> GfSpLimit" where
  "sample_limit m = \<lparr>limMemory = m, limTasks = 8, limTasksHighPriority = 8, limTasksMediumPriority = 8,
     limTasksLowPriority = 8, limFd = 8, limConns = 8, limConnsInbound = 8, limConnsOutbound = 8\<rparr>"

definition sample_scope :: "int \<Rightarrow> int \<Rightarrow> scope_ref option \<Rightarrow> scope_ref list \<Rightarrow> resourceScope" where
  "sample_scope m used own es = \<lparr>sDone = False, refCnt = 0, spanID = 0,
     rc = (new_resources (sample_limit m))\<lparr>memory := used\<rparr>, owner = own, edges = es, scName = ''scope''\<rparr>"

definition sample_heap :: scopeHeap where
  "sample_heap = \<lparr>scopes = [0 \<mapsto> sample_scope 100 60 None [], 1 \<mapsto> sample_scope 200 60 None [0],
     2 \<mapsto> sample_scope 200 0 (Some 1) []], nextRef = 3\<rparr>"

lemma sample_rc: "0 \<le> u \<Longrightarrow> u \<le> m \<Longrightarrow> m < 1000 \<Longrightarrow> rc_inv (rc (sample_scope m u own es))"
  by (simp add: rc_inv_def sample_scope_def new_resources_def sample_limit_def limit_typed_def range_defs)

lemma sample_scopes [simp]:
  "scopes sample_heap 0 = Some (sample_scope 100 60 None [])"
  "scopes sample_heap (Suc 0) = Some (sample_scope 200 60 None [0])"
  "scopes sample_heap 2 = Some (sample_scope 200 0 (Some 1) [])"
  by (simp_all add: sample_heap_def)

lemma sample_inv: "heap_inv sample_heap" "single_edge sample_heap"
proof -
  have "i = 0 \<and> sc = sample_scope 100 60 None [] \<or> i = Suc 0 \<and> sc = sample_scope 200 60 None [0]
    \<or> i = 2 \<and> sc = sample_scope 200 0 (Some 1) []" if "scopes sample_heap i = Some sc" for i sc
    using that by (auto simp: sample_heap_def split: if_splits)
  moreover have "nextRef sample_heap = 3" "{0, 1, 2} \<subseteq> dom (scopes sample_heap)" by (simp_all add: sample_heap_def)
  ultimately show "heap_inv sample_heap" "single_edge sample_heap"
    unfolding heap_inv_def scope_ok_def single_edge_def
    by (fastforce intro: sample_rc simp: sample_scope_def)+
qed

lemma sample_accounts [simp]:
  "Collect (accounts sample_heap 0) = {0}" "Collect (accounts sample_heap (Suc 0)) = {1, 0}"
  "Collect (accounts sample_heap 2) = {2, 1, 0}"
  using accounts_unfold [of sample_heap 0] accounts_unfold [of sample_heap "Suc 0"] accounts_unfold [of sample_heap 2]
  by (simp_all add: sample_scope_def)

text \<open>
  C3: in every state the manager can reach by its public operations, called with amounts that are not
  negative, no scope is over any of its limits and no counter is negative: memory, tasks of each
  priority and in total, connections of each direction and in total, and file descriptors.
\<close>

theorem reachable_within_limits:
  assumes "rm_reachable L r" and "limiter_cfg L" and "scopes (rmHeap r) s = Some sc"
  shows "0 \<le> memory (rc sc) \<and> memory (rc sc) \<le> limMemory (rcLimit (rc sc))
    \<and> 0 \<le> ntasksHigh (rc sc) \<and> ntasksHigh (rc sc) \<le> limTasksHighPriority (rcLimit (rc sc))
    \<and> 0 \<le> ntasksMedium (rc sc) \<and> ntasksMedium (rc sc) \<le> limTasksMediumPriority (rcLimit (rc sc))
    \<and> 0 \<le> ntasksLow (rc sc) \<and> ntasksLow (rc sc) \<le> limTasksLowPriority (rcLimit (rc sc))
    \<and> ntasksHigh (rc sc) + ntasksMedium (rc sc) + ntasksLow (rc sc) \<le> limTasks (rcLimit (rc sc))
    \<and> 0 \<le> nconnsIn (rc sc) \<and> nconnsIn (rc sc) \<le> limConnsInbound (rcLimit (rc sc))
    \<and> 0 \<le> nconnsOut (rc sc) \<and> nconnsOut (rc sc) \<le> limConnsOutbound (rcLimit (rc sc))
    \<and> nconnsIn (rc sc) + nconnsOut (rc sc) \<le> limConns (rcLimit (rc sc))
    \<and> 0 \<le> nfd (rc sc) \<and> nfd (rc sc) \<le> limFd (rcLimit (rc sc))"
proof -
  have "heap_inv (rmHeap r)" using rm_reachable_inv [OF assms(1,2)] by (simp add: rm_inv_def)
  from heap_rc [OF this assms(3)] show ?thesis unfolding rc_inv_def by blast
qed

theorem reachable_within_limits_witness:
  "\<exists>r sc. rm_reachable \<lparr>limiterSystem = Some (sample_limit 100), limiterTransient = None, limiterServiceLimit = Map.empty\<rparr> r
     \<and> scopes (rmHeap r) 0 = Some sc \<and> memory (rc sc) = 70 \<and> (70::int) \<le> limMemory (rcLimit (rc sc))"
proof -
  let ?L = "\<lparr>limiterSystem = Some (sample_limit 100), limiterTransient = None, limiterServiceLimit = Map.empty\<rparr> :: GfSpLimiter"
  have cfg: "limiter_cfg ?L"
    by (simp add: limiter_cfg_def limit_cfg_def sample_limit_def limit_typed_def range_defs NotLess_iff zero_limit_def)
  obtain r where r: "NewResourceManager ?L = Some r" and s: "scopes (rmHeap r) = [0 \<mapsto> (sample_scope 100 0 None [])\<lparr>scName := ''system''\<rparr>]"
    by (simp add: NewResourceManager_def newResourceScope_def alloc_def put_def GetSystemLimits_def sample_scope_def
        new_resources_def)
  let ?sc = "(sample_scope 100 0 None [])\<lparr>scName := ''system''\<rparr>"
  have rr: "rm_reachable ?L r" using r by (rule rm_reachable.rm_init)
  have hi: "heap_inv (rmHeap r)" using rm_reachable_inv [OF rr cfg] by (simp add: rm_inv_def)
  have "reserveMemory (rc ?sc) 70 255 = Inr ((rc ?sc)\<lparr>memory := 70\<rparr>)"
    using heap_rc [OF hi, of 0 ?sc] s
    by (subst reserveMemory_Inr) (simp_all add: range_defs sample_scope_def new_resources_def sample_limit_def)
  then have "rm_exec (OpReserveMemory 0 70 255) r
      = Some (r\<lparr>rmHeap := put (rmHeap r) 0 (?sc\<lparr>rc := (rc ?sc)\<lparr>memory := 70\<rparr>\<rparr>)\<rparr>)"
    using s by (simp add: ReserveMemory_def reserve_scope.simps reserve_edges_def sample_scope_def)
  from rm_reachable.rm_step [OF rr _ this]
  have "rm_reachable ?L (r\<lparr>rmHeap := put (rmHeap r) 0 (?sc\<lparr>rc := (rc ?sc)\<lparr>memory := 70\<rparr>\<rparr>)\<rparr>)"
    by (simp add: valid_mem_def range_defs)
  from this reachable_within_limits [OF this cfg, of 0] show ?thesis by (fastforce simp: put_def)
qed


text \<open>
  C4: \<open>ReserveMemory\<close> is all or nothing.  It succeeds exactly when every scope it is accounted in (the
  scope, its owners, the edges of the last owner) is open and has room under the priority's share of
  its limit; then each of them is charged the size, and otherwise the whole store is as before.
\<close>

theorem ReserveMemory_all_or_nothing:
  assumes "heap_inv h" and "scopes h s \<noteq> None" and "0 \<le> sz" and "is_i64 sz" and "is_u8 prio"
  shows "\<exists>err h'. ReserveMemory sz prio h s = Some (err, h')
    \<and> (err = None \<longleftrightarrow> (\<forall>i sc. accounts h s i \<and> scopes h i = Some sc \<longrightarrow>
         \<not> sDone sc \<and> memory (rc sc) + sz \<le> (1 + prio) * limMemory (rcLimit (rc sc)) div 256))
    \<and> h' = (if err = None then apply_at {i. accounts h s i} (\<lambda>r. r\<lparr>memory := memory r + sz\<rparr>) h else h)"
proof -
  have v: "valid_mem (sz, prio)" and d: "s \<in> dom (scopes h)" using assms by (auto simp: valid_mem_def)
  have dom: "scopes h i \<noteq> None" if "accounts h s i" for i using accounts_le [OF that assms(1) d] by auto
  from mem_reservation.reserve_scope_atomic [OF v assms(1) d] obtain err where
    e: "ReserveMemory sz prio h s = Some (err, if err = None
          then apply_at (Collect (accounts h s)) (mem_reservation.after (sz, prio)) h else h)"
      "err = None \<longleftrightarrow> (\<forall>i. accounts h s i \<longrightarrow> mem_reservation.granted (sz, prio) h i)"
    unfolding ReserveMemory_def fst_conv snd_conv by blast
  have "apply_at (Collect (accounts h s)) (mem_reservation.after (sz, prio)) h
      = apply_at (Collect (accounts h s)) (\<lambda>r. r\<lparr>memory := memory r + sz\<rparr>) h" if "err = None"
    using that e(2) by (intro apply_at_cong) (auto intro: after_mem [OF assms(1) v])
  moreover have "err = None \<longleftrightarrow> (\<forall>i sc. accounts h s i \<and> scopes h i = Some sc \<longrightarrow>
      \<not> sDone sc \<and> memory (rc sc) + sz \<le> (1 + prio) * limMemory (rcLimit (rc sc)) div 256)"
    unfolding e(2) using granted_mem_iff [OF assms(1) v] dom by fastforce
  ultimately show ?thesis using e(1) by (cases err) auto
qed

theorem ReserveMemory_all_or_nothing_witness:
  "(\<exists>h'. ReserveMemory 30 255 sample_heap 2 = Some (None, h')
      \<and> map_option (\<lambda>sc. memory (rc sc)) (scopes h' 0) = Some 90)
   \<and> (\<exists>x. ReserveMemory 50 255 sample_heap 2 = Some (Some x, sample_heap))"
proof -
  have acc: "accounts sample_heap 2 i \<longleftrightarrow> i = 0 \<or> i = 1 \<or> i = 2" for i
    using sample_accounts(3) by blast
  note t = ReserveMemory_all_or_nothing [OF sample_inv(1), of 2 _ 255]
  have "\<exists>h'. ReserveMemory 30 255 sample_heap 2 = Some (None, h')
      \<and> map_option (\<lambda>sc. memory (rc sc)) (scopes h' 0) = Some 90"
  proof -
    have "\<forall>i sc. accounts sample_heap 2 i \<and> scopes sample_heap i = Some sc \<longrightarrow>
         \<not> sDone sc \<and> memory (rc sc) + 30 \<le> (1 + 255) * limMemory (rcLimit (rc sc)) div 256"
      unfolding acc by (auto simp: sample_scope_def new_resources_def sample_limit_def)
    with t [of 30] show ?thesis
      by (auto simp: range_defs acc scopes_apply_at) (auto simp: sample_scope_def)
  qed
  moreover have "\<exists>x. ReserveMemory 50 255 sample_heap 2 = Some (Some x, sample_heap)"
  proof -
    have "\<not> (\<forall>i sc. accounts sample_heap 2 i \<and> scopes sample_heap i = Some sc \<longrightarrow>
         \<not> sDone sc \<and> memory (rc sc) + 50 \<le> (1 + 255) * limMemory (rcLimit (rc sc)) div 256)"
      unfolding acc not_all
      by (intro exI [of _ 0] exI [of _ "sample_scope 100 60 None []"])
        (simp add: sample_scope_def new_resources_def sample_limit_def)
    with t [of 50] show ?thesis by (auto simp: range_defs)
  qed
  ultimately show ?thesis by blast
qed

text \<open>
  C5: a whole estimate.  \<open>ReserveResources\<close> always returns; it succeeds exactly when every scope on the
  path is open and would stay within all of its limits with the estimate added, and then the
  estimate is charged to exactly those scopes.
\<close>

theorem ReserveResources_success:
  assumes "valid_stat st" and "heap_inv h" and "single_edge h" and "scopes h s \<noteq> None"
  shows "\<exists>err h'. ReserveResources st h s = Some (err, h') \<and> heap_inv h'
    \<and> (err = None \<longleftrightarrow> (\<forall>i sc. accounts h s i \<and> scopes h i = Some sc \<longrightarrow>
         \<not> sDone sc \<and> rc_inv (add_stat st (rc sc))))
    \<and> (err = None \<longrightarrow> h' = apply_at {i. accounts h s i} (add_stat st) h)"
proof -
  have d: "s \<in> dom (scopes h)" using assms(4) by auto
  have dom: "scopes h i \<noteq> None" if "accounts h s i" for i using accounts_le [OF that assms(2) d] by auto
  from ReserveResources_total [OF assms(1-3) d] obtain err h' where
    e: "ReserveResources st h s = Some (err, h')" "heap_inv h'"
      "err = None \<longleftrightarrow> (\<forall>i. accounts h s i \<longrightarrow> granted_stat st h i)"
      "err = None \<longrightarrow> h' = apply_at (Collect (accounts h s)) (stat_reservation.after st) h"
    by blast
  have "err = None \<longleftrightarrow> (\<forall>i sc. accounts h s i \<and> scopes h i = Some sc \<longrightarrow>
      \<not> sDone sc \<and> rc_inv (add_stat st (rc sc)))"
    unfolding e(3) using granted_stat_fits [OF assms(2,1)] dom by fastforce
  moreover have "apply_at (Collect (accounts h s)) (stat_reservation.after st) h
      = apply_at (Collect (accounts h s)) (add_stat st) h" if "err = None"
    using that e(3) by (intro apply_at_cong) (auto intro: after_add_stat [OF assms(2,1)])
  ultimately show ?thesis using e(1,2,4) by auto
qed

theorem ReserveResources_success_witness:
  "\<exists>h'. ReserveResources \<lparr>stMemory = 30, stNumTasksHigh = 1, stNumTasksMedium = 0, stNumTasksLow = 0,
       stNumConnsInbound = 0, stNumConnsOutbound = 1, stNumFD = 1\<rparr> sample_heap 2 = Some (None, h')
     \<and> map_option (\<lambda>sc. (memory (rc sc), ntasksHigh (rc sc))) (scopes h' 0) = Some (90, 1)"
proof -
  let ?st = "\<lparr>stMemory = 30, stNumTasksHigh = 1, stNumTasksMedium = 0, stNumTasksLow = 0,
       stNumConnsInbound = 0, stNumConnsOutbound = 1, stNumFD = 1\<rparr> :: ScopeStat"
  have acc: "accounts sample_heap 2 i \<longleftrightarrow> i = 0 \<or> i = 1 \<or> i = 2" for i
    using sample_accounts(3) by blast
  have "\<forall>i sc. accounts sample_heap 2 i \<and> scopes sample_heap i = Some sc \<longrightarrow>
      \<not> sDone sc \<and> rc_inv (add_stat ?st (rc sc))"
    unfolding acc by (auto simp: sample_scope_def new_resources_def sample_limit_def rc_inv_def add_defs
        limit_typed_def range_defs)
  with ReserveResources_success [of ?st sample_heap 2] sample_inv show ?thesis
    by (auto simp: valid_stat_def small_def scopes_apply_at acc) (auto simp: sample_scope_def add_defs new_resources_def)
qed

text \<open>
  \<open>AddTask\<close> then \<open>RemoveTask\<close> with the same arguments restores the whole store, at every scope
  the task was accounted in.
\<close>

theorem AddTask_RemoveTask_roundtrip:
  assumes "heap_inv h" and "small num" and "prio \<noteq> ReserveTaskPriorityUnknown"
    and "AddTask num prio h s = Some (None, h')"
  shows "RemoveTask num prio h' s = Some h"
proof -
  have "valid_task (num, prio)" using assms(2,3) by (simp add: valid_task_def)
  moreover have "s \<in> dom (scopes h)" using assms(4) walk_dom(1) unfolding AddTask_def by (metis option.distinct(1))
  ultimately show ?thesis
    using task_reservation.reserve_release_scope [of "(num, prio)" h s h'] assms(1,4)
    by (simp add: AddTask_def RemoveTask_def)
qed

theorem AddTask_RemoveTask_roundtrip_witness:
  "\<exists>h'. AddTask 3 ReserveTaskPriorityHigh sample_heap 0 = Some (None, h') \<and> h' \<noteq> sample_heap
    \<and> RemoveTask 3 ReserveTaskPriorityHigh h' 0 = Some sample_heap"
proof -
  let ?sc = "sample_scope 100 60 None []"
  let ?h = "put sample_heap 0 (?sc\<lparr>rc := (rc ?sc)\<lparr>ntasksHigh := 3\<rparr>\<rparr>)"
  have "addTask (rc ?sc) 3 ReserveTaskPriorityHigh = Inr ((rc ?sc)\<lparr>ntasksHigh := 3\<rparr>)"
    by (subst addTask_Inr [OF sample_rc]) (simp_all add: small_def sample_scope_def new_resources_def sample_limit_def)
  then have a: "AddTask 3 ReserveTaskPriorityHigh sample_heap 0 = Some (None, ?h)"
    by (simp add: AddTask_def reserve_scope.simps [of _ _ sample_heap 0])
      (simp add: sample_scope_def reserve_edges_def)
  have "scopes ?h 0 \<noteq> scopes sample_heap 0" by (simp add: put_def sample_scope_def new_resources_def)
  then have "?h \<noteq> sample_heap" by metis
  with a AddTask_RemoveTask_roundtrip [OF sample_inv(1) _ _ a] show ?thesis by (auto simp: small_def)
qed

text \<open>
  when the edge of a scope refuses an estimate that the scope itself accepted, \<open>ReserveResources\<close>
  reports the error but also releases the estimate at the edge, where it was never reserved: usage
  that other holders have there is forgotten.
\<close>

theorem ReserveResources_overrelease:
  assumes "valid_stat st" and "heap_inv h" and "scopes h s = Some sc" and "owner sc = None" and "edges sc = [e]"
    and "scopes h e = Some ec" and "\<not> sDone sc" and "\<not> sDone ec"
    and "rc_inv (add_stat st (rc sc))" and "\<not> rc_inv (add_stat st (rc ec))"
  shows "\<exists>x. ReserveResources st h s = Some (Some x, apply_at {e} (release_stat st) h)"
proof -
  have "granted_stat st h s" "\<not> granted_stat st h e"
    using assms granted_stat_fits [OF assms(2,1,3)] granted_stat_fits [OF assms(2,1,6)] by simp_all
  then show ?thesis by (rule ReserveResources_edge_refused [OF assms(1-6,8)])
qed

theorem ReserveResources_overrelease_witness:
  "\<exists>x h'. ReserveResources \<lparr>stMemory = 50, stNumTasksHigh = 0, stNumTasksMedium = 0, stNumTasksLow = 0,
       stNumConnsInbound = 0, stNumConnsOutbound = 0, stNumFD = 0\<rparr> sample_heap (Suc 0) = Some (Some x, h')
     \<and> map_option (\<lambda>sc. memory (rc sc)) (scopes sample_heap 0) = Some 60
     \<and> map_option (\<lambda>sc. memory (rc sc)) (scopes h' 0) = Some 10"
proof -
  let ?st = "\<lparr>stMemory = 50, stNumTasksHigh = 0, stNumTasksMedium = 0, stNumTasksLow = 0,
       stNumConnsInbound = 0, stNumConnsOutbound = 0, stNumFD = 0\<rparr> :: ScopeStat"
  let ?sc = "sample_scope 200 60 None [0]" and ?ec = "sample_scope 100 60 None []"
  have v: "valid_stat ?st" by (simp add: valid_stat_def small_def)
  have "rc_inv (add_stat ?st (rc ?sc))" "\<not> rc_inv (add_stat ?st (rc ?ec))"
    by (simp_all add: rc_inv_def add_defs sample_scope_def new_resources_def sample_limit_def limit_typed_def range_defs)
  then obtain x where "ReserveResources ?st sample_heap (Suc 0) = Some (Some x, apply_at {0} (release_stat ?st) sample_heap)"
    using ReserveResources_overrelease [OF v sample_inv(1), of "Suc 0" ?sc 0 ?ec]
    by (auto simp: sample_scope_def)
  moreover have "memory (release_stat ?st (rc ?ec)) = 10"
    using release_stat_eq [OF sample_rc v, of 60 100 None "[]"] by (simp add: sample_scope_def)
  moreover have "memory (rc ?ec) = 60" by (simp add: sample_scope_def)
  ultimately show ?thesis by (auto simp: scopes_apply_at)
qed

end
