(* ===== verification/SP_Piece.thy ===== *)
theory SP_Piece
  imports SP_Text
begin

text \<open>
  Piece keys and piece sizes, \<^verbatim>\<open>src/base/gfsppieceop/piece_op.go\<close>.  Sizes are computed on 64-bit
  integers with the conversions of the source; \<open>None\<close> is the run-time panic of a division by zero,
  and \<open>PiecePanic\<close> the one of a slice index out of range while a key is parsed.  The properties: the
  segments of an object tile its payload, an erasure-coded piece is the rounded-up share of its
  segment, a key determines the piece it names, and parsing a key recovers its indices.
\<close>

subsection \<open>Keys\<close>

definition SegmentPieceKey :: "int \<Rightarrow> int \<Rightarrow> int \<Rightarrow> string" where
  "SegmentPieceKey objectID segmentIdx version =
     (if version = 0 then ''s'' @ show_int objectID @ ''_s'' @ show_int segmentIdx
      else ''s'' @ show_int objectID @ ''_s'' @ show_int segmentIdx @ ''_v'' @ show_int version)"

definition ECPieceKey :: "int \<Rightarrow> int \<Rightarrow> int \<Rightarrow> int \<Rightarrow> string" where
  "ECPieceKey objectID segmentIdx redundancyIdx version =
     (if version = 0
      then ''e'' @ show_int objectID @ ''_s'' @ show_int segmentIdx @ ''_p'' @ show_int redundancyIdx
      else ''e'' @ show_int objectID @ ''_s'' @ show_int segmentIdx @ ''_p'' @ show_int redundancyIdx
             @ ''_v'' @ show_int version)"

definition ChallengePieceKey :: "int \<Rightarrow> int \<Rightarrow> int \<Rightarrow> int \<Rightarrow> string" where
  "ChallengePieceKey objectID segmentIdx redundancyIdx version =
     (if redundancyIdx < 0 then SegmentPieceKey objectID segmentIdx version
      else ECPieceKey objectID segmentIdx (u32 redundancyIdx) version)"

subsection \<open>Sizes\<close>

definition MaxSegmentPieceSize :: "int \<Rightarrow> int \<Rightarrow> int" where
  "MaxSegmentPieceSize payloadSize maxSegmentSize =
     (if payloadSize > maxSegmentSize then i64 maxSegmentSize else i64 payloadSize)"

definition SegmentPieceCount :: "int \<Rightarrow> int \<Rightarrow> int option" where
  "SegmentPieceCount payloadSize maxSegmentSize =
     (if maxSegmentSize = 0 then None
      else let count = payloadSize div maxSegmentSize
      in Some (u32 (if payloadSize mod maxSegmentSize > 0 then u64 (count + 1) else count)))"

definition SegmentPieceSize :: "int \<Rightarrow> int \<Rightarrow> int \<Rightarrow> int option" where
  "SegmentPieceSize payloadSize segmentIdx maxSegmentSize =
     Option.bind (SegmentPieceCount payloadSize maxSegmentSize) (\<lambda>segmentCount.
       Some (if segmentCount = 1 then i64 payloadSize
             else if segmentIdx = u32 (segmentCount - 1)
             then i64 (i64 payloadSize - i64 (i64 (i64 segmentCount - 1) * i64 maxSegmentSize))
             else i64 maxSegmentSize))"

definition ECPieceSize :: "int \<Rightarrow> int \<Rightarrow> int \<Rightarrow> int \<Rightarrow> int option" where
  "ECPieceSize payloadSize segmentIdx maxSegmentSize dataChunkNum =
     Option.bind (SegmentPieceSize payloadSize segmentIdx maxSegmentSize) (\<lambda>segmentSize.
       if i64 dataChunkNum = 0 then None
       else let sz = i64 (segmentSize sdiv i64 dataChunkNum)
       in Some (if segmentSize > 0 \<and> segmentSize smod i64 dataChunkNum \<noteq> 0 then i64 (sz + 1) else sz))"

subsection \<open>Parsing keys\<close>

datatype piece_error = PieceInvalidKey | PieceNum num_error | PiecePanic

text \<open>\<open>part[1:]\<close>, which panics on an empty part.\<close>

definition drop1 :: "string \<Rightarrow> piece_error + string" where
  "drop1 s = (if s = [] then Inl PiecePanic else Inr (tl s))"

definition parse_part_uint :: "string \<Rightarrow> piece_error + int" where
  "parse_part_uint part =
     (case drop1 part of Inl e \<Rightarrow> Inl e
      | Inr s \<Rightarrow> (case ParseUint s 32 of Inl e \<Rightarrow> Inl (PieceNum e) | Inr v \<Rightarrow> Inr (u32 v)))"

definition parse_part_int :: "string \<Rightarrow> piece_error + int" where
  "parse_part_int part =
     (case drop1 part of Inl e \<Rightarrow> Inl e
      | Inr s \<Rightarrow> (case ParseInt s 32 of Inl e \<Rightarrow> Inl (PieceNum e) | Inr v \<Rightarrow> Inr (i32 v)))"

definition ParseSegmentIdx :: "string \<Rightarrow> piece_error + int" where
  "ParseSegmentIdx segmentKey =
     (let keyParts = split_on CHR ''_'' segmentKey
      in if length keyParts \<noteq> 2 \<and> length keyParts \<noteq> 3 then Inl PieceInvalidKey
         else parse_part_uint (keyParts ! 1))"

definition ParseECPieceKeyIdx :: "string \<Rightarrow> piece_error + (int \<times> int)" where
  "ParseECPieceKeyIdx ecPieceKey =
     (let keyParts = split_on CHR ''_'' ecPieceKey
      in if length keyParts \<noteq> 3 \<and> length keyParts \<noteq> 4 then Inl PieceInvalidKey
         else case parse_part_uint (keyParts ! 1) of
                Inl e \<Rightarrow> Inl e
              | Inr segmentIdx \<Rightarrow>
                  (case parse_part_int (keyParts ! 2) of
                     Inl e \<Rightarrow> Inl e
                   | Inr redundancyIndex \<Rightarrow> Inr (segmentIdx, redundancyIndex)))"

definition ParseChallengeIdx :: "string \<Rightarrow> piece_error + (int \<times> int)" where
  "ParseChallengeIdx challengeKey =
     (let keyParts = split_on CHR ''_'' challengeKey
      in if hd keyParts = [] then Inl PiecePanic
         else if hd (hd keyParts) = CHR ''e'' then ParseECPieceKeyIdx challengeKey
         else if hd (hd keyParts) = CHR ''s''
         then (case ParseSegmentIdx challengeKey of Inl e \<Rightarrow> Inl e | Inr segmentIdx \<Rightarrow> Inr (segmentIdx, -1))
         else Inl PieceInvalidKey)"

subsection \<open>The parts of a key\<close>

definition version_part :: "int \<Rightarrow> string list" where
  "version_part v = (if v = 0 then [] else [''v'' @ show_int v])"

lemma no_underscore [simp]: "CHR ''_'' \<notin> set (show_int i)"
  by (rule not_in_show_int) simp_all

lemma split_key: "CHR ''_'' \<notin> set p \<Longrightarrow> split_on CHR ''_'' (p @ CHR ''_'' # q) = p # split_on CHR ''_'' q"
  by (rule split_on_append)

lemma split_last: "CHR ''_'' \<notin> set p \<Longrightarrow> split_on CHR ''_'' p = [p]"
  by (rule split_on_no_sep)

lemma split_SegmentPieceKey:
  "split_on CHR ''_'' (SegmentPieceKey ob seg v) = (CHR ''s'' # show_int ob) # (CHR ''s'' # show_int seg) # version_part v"
  using split_key [of "CHR ''s'' # show_int ob"] split_key [of "CHR ''s'' # show_int seg"]
    split_last [of "CHR ''s'' # show_int seg"] split_last [of "CHR ''v'' # show_int v"]
  by (simp add: SegmentPieceKey_def version_part_def)

lemma split_ECPieceKey:
  "split_on CHR ''_'' (ECPieceKey ob seg red v) =
     (CHR ''e'' # show_int ob) # (CHR ''s'' # show_int seg) # (CHR ''p'' # show_int red) # version_part v"
  using split_key [of "CHR ''e'' # show_int ob"] split_key [of "CHR ''s'' # show_int seg"]
    split_key [of "CHR ''p'' # show_int red"] split_last [of "CHR ''p'' # show_int red"]
    split_last [of "CHR ''v'' # show_int v"]
  by (simp add: ECPieceKey_def version_part_def)

lemma version_part_inject [simp]: "version_part v = version_part w \<longleftrightarrow> v = w"
  by (auto simp: version_part_def)

lemma length_version_part: "length (version_part v) = 0 \<or> length (version_part v) = 1"
  by (simp add: version_part_def)

lemma SegmentPieceKey_inject:
  "SegmentPieceKey ob seg v = SegmentPieceKey ob' seg' v' \<longleftrightarrow> ob = ob' \<and> seg = seg' \<and> v = v'"
proof
  assume "SegmentPieceKey ob seg v = SegmentPieceKey ob' seg' v'"
  then have "split_on CHR ''_'' (SegmentPieceKey ob seg v) = split_on CHR ''_'' (SegmentPieceKey ob' seg' v')" by simp
  then show "ob = ob' \<and> seg = seg' \<and> v = v'" unfolding split_SegmentPieceKey by simp
qed simp

lemma ECPieceKey_inject:
  "ECPieceKey ob seg red v = ECPieceKey ob' seg' red' v' \<longleftrightarrow> ob = ob' \<and> seg = seg' \<and> red = red' \<and> v = v'"
proof
  assume "ECPieceKey ob seg red v = ECPieceKey ob' seg' red' v'"
  then have "split_on CHR ''_'' (ECPieceKey ob seg red v) = split_on CHR ''_'' (ECPieceKey ob' seg' red' v')" by simp
  then show "ob = ob' \<and> seg = seg' \<and> red = red' \<and> v = v'" unfolding split_ECPieceKey by simp
qed simp

lemma Segment_EC_distinct: "SegmentPieceKey ob seg v \<noteq> ECPieceKey ob' seg' red' v'"
proof
  assume "SegmentPieceKey ob seg v = ECPieceKey ob' seg' red' v'"
  then have "split_on CHR ''_'' (SegmentPieceKey ob seg v) = split_on CHR ''_'' (ECPieceKey ob' seg' red' v')" by simp
  then show False unfolding split_ECPieceKey split_SegmentPieceKey by simp
qed

lemma parse_part_uint_print: "is_u32 v \<Longrightarrow> parse_part_uint (c # show_int v) = Inr v"
  by (simp add: parse_part_uint_def drop1_def ParseUint_show_int range_defs u32_def)

lemma parse_part_int_print: "is_i32 v \<Longrightarrow> parse_part_int (c # show_int v) = Inr v"
  by (simp add: parse_part_int_def drop1_def ParseInt_show_int range_defs i32_def)

lemma ParseSegmentIdx_print: "is_u32 seg \<Longrightarrow> ParseSegmentIdx (SegmentPieceKey ob seg v) = Inr seg"
  using length_version_part [of v]
  by (auto simp: ParseSegmentIdx_def split_SegmentPieceKey parse_part_uint_print Let_def)

lemma ParseECPieceKeyIdx_print:
  "is_u32 seg \<Longrightarrow> is_i32 red \<Longrightarrow> ParseECPieceKeyIdx (ECPieceKey ob seg red v) = Inr (seg, red)"
  using length_version_part [of v]
  by (auto simp: ParseECPieceKeyIdx_def split_ECPieceKey parse_part_uint_print parse_part_int_print
      numeral_2_eq_2 Let_def)


subsection \<open>Counting and sizing\<close>

text \<open>The sizes for which the segment count fits \<open>uint32\<close> and the sizes fit \<open>int64\<close>.\<close>

definition payload_ok :: "int \<Rightarrow> int \<Rightarrow> bool" where
  "payload_ok payload mx \<longleftrightarrow> 0 \<le> payload \<and> payload \<le> MaxInt64 \<and> 0 < mx \<and> mx \<le> MaxInt64
     \<and> payload div mx < MaxUint32"

abbreviation ceil_div :: "int \<Rightarrow> int \<Rightarrow> int" where
  "ceil_div a b \<equiv> (a + b - 1) div b"

lemma ceil_div_mod: "0 < b \<Longrightarrow> 0 \<le> a \<Longrightarrow> ceil_div a b = (if a mod b > 0 then a div b + 1 else a div b)" for a b :: int
proof -
  assume b: "0 < b" "0 \<le> a"
  define q r where "q = a div b" and "r = a mod b"
  have a: "a = b * q + r" "0 \<le> r" "r < b" using b by (simp_all add: q_def r_def)
  have "ceil_div a b = (if r > 0 then q + 1 else q)"
  proof (cases "r > 0")
    case True
    then show ?thesis using a by (simp, intro int_div_pos_eq [where r = "r - 1"]) (auto simp: algebra_simps)
  next
    case False
    then show ?thesis using a by (simp, intro int_div_pos_eq [where r = "b - 1"]) (auto simp: algebra_simps)
  qed
  then show ?thesis by (simp add: q_def r_def)
qed

lemma ceil_div_bounds: "0 < b \<Longrightarrow> 0 \<le> a \<Longrightarrow> a \<le> ceil_div a b * b \<and> ceil_div a b * b \<le> a + b - 1" for a b :: int
proof -
  assume b: "0 < b" "0 \<le> a"
  define q r where qr: "q = a div b" "r = a mod b"
  have a: "a = b * q + r" "0 \<le> r" "r < b" using b by (simp_all add: qr)
  show ?thesis unfolding ceil_div_mod [OF b] qr [symmetric] using a by (auto simp: algebra_simps)
qed

lemma SegmentPieceCount_ceil:
  assumes "payload_ok payload mx"
  shows "SegmentPieceCount payload mx = Some (ceil_div payload mx)"
    and "0 \<le> ceil_div payload mx" and "ceil_div payload mx \<le> MaxUint32"
proof -
  note p = assms [unfolded payload_ok_def]
  have c: "ceil_div payload mx = (if payload mod mx > 0 then payload div mx + 1 else payload div mx)"
    using p by (intro ceil_div_mod) auto
  have d: "0 \<le> payload div mx" using p by (simp add: pos_imp_zdiv_nonneg_iff)
  show "0 \<le> ceil_div payload mx" "ceil_div payload mx \<le> MaxUint32" unfolding c using p d by auto
  show "SegmentPieceCount payload mx = Some (ceil_div payload mx)"
    unfolding SegmentPieceCount_def c using p d by (simp add: u64_id u32_id Let_def)
qed

lemma SegmentPieceSize_eq:
  assumes "payload_ok payload mx" "0 \<le> k" "k < ceil_div payload mx"
  shows "SegmentPieceSize payload k mx = Some (min mx (payload - k * mx))"
proof -
  note p = assms(1) [unfolded payload_ok_def]
  let ?c = "ceil_div payload mx"
  have u: "(?c - 1) * mx < payload" "payload \<le> ?c * mx"
    using p ceil_div_bounds [of mx payload] by (auto simp: algebra_simps)
  obtain c where cdef: "c = ?c" by blast
  note q = SegmentPieceCount_ceil [OF assms(1), folded cdef] and u = u [folded cdef] and k = assms(2,3) [folded cdef]
  have b: "0 \<le> (c - 1) * mx" using k p by simp
  show ?thesis
  proof (cases "k = c - 1")
    case True
    with k u b p q show ?thesis
      by (auto simp: SegmentPieceSize_def i64_id u32_id min_def algebra_simps)
  next
    case False
    with k have "k + 1 \<le> c - 1" by simp
    then have "(k + 1) * mx \<le> (c - 1) * mx" using p by (intro mult_right_mono) auto
    with False k u b p q show ?thesis
      by (auto simp: SegmentPieceSize_def i64_id u32_id min_def algebra_simps)
  qed
qed

lemma sum_segments:
  "0 \<le> p \<Longrightarrow> 0 < m \<Longrightarrow> (\<Sum>i < n. min m (max 0 (p - int i * m))) = min (int n * m) p" for p m :: int
  by (induction n) (auto simp: algebra_simps min_def max_def)

subsection \<open>Properties\<close>

text \<open>
  C35: the segments of an object tile its payload: they are as many as the count says, each is at
  most the maximal segment size and not empty, and their sizes add up to the payload size.
\<close>

theorem segments_tile_payload:
  assumes "payload_ok payload mx"
  shows "\<exists>n. SegmentPieceCount payload mx = Some (int n)
    \<and> (\<forall>i < n. \<exists>sz. SegmentPieceSize payload (int i) mx = Some sz \<and> 0 < sz \<and> sz \<le> mx)
    \<and> (\<Sum>i < n. the (SegmentPieceSize payload (int i) mx)) = payload"
proof -
  note p = assms [unfolded payload_ok_def] and c = SegmentPieceCount_ceil [OF assms]
  let ?n = "nat (ceil_div payload mx)"
  have n: "int ?n = ceil_div payload mx" using c(2) by simp
  have s: "SegmentPieceSize payload (int i) mx = Some (min mx (payload - int i * mx)) \<and> 0 < payload - int i * mx"
    if "i < ?n" for i
  proof -
    have "int i < ceil_div payload mx" using that by linarith
    then have "(int i + 1) * mx \<le> ceil_div payload mx * mx" using p by (intro mult_right_mono) auto
    moreover have "ceil_div payload mx * mx \<le> payload + mx - 1" using p ceil_div_bounds by auto
    ultimately show ?thesis using \<open>int i < _\<close> SegmentPieceSize_eq [OF assms, of "int i"] by (simp add: algebra_simps)
  qed
  have "(\<Sum>i < ?n. the (SegmentPieceSize payload (int i) mx)) = (\<Sum>i < ?n. min mx (max 0 (payload - int i * mx)))"
    by (rule sum.cong) (auto simp: s dest: s)
  also have "\<dots> = min (ceil_div payload mx * mx) payload" using p n by (subst sum_segments) auto
  also have "\<dots> = payload"
    using p ceil_div_bounds [of mx payload] by (simp add: min_def)
  finally show ?thesis using s n c(1) p by (intro exI [of _ ?n]) auto
qed

theorem segments_tile_payload_witness:
  "\<exists>n. SegmentPieceCount 40 16 = Some (int n) \<and> (\<Sum>i < n. the (SegmentPieceSize 40 (int i) 16)) = 40"
  using segments_tile_payload [of 40 16] by (auto simp: payload_ok_def)

text \<open>
  the size of an erasure-coded piece is the size of its segment over the number of data chunks,
  rounded up: the chunks hold the segment, and one byte less per chunk would not.
\<close>

theorem ECPieceSize_ceil:
  assumes "payload_ok payload mx" and "0 \<le> k" and "k < ceil_div payload mx" and "0 < n" and "n \<le> MaxUint32"
  shows "\<exists>seg sz. SegmentPieceSize payload k mx = Some seg \<and> ECPieceSize payload k mx n = Some sz
    \<and> seg \<le> n * sz \<and> n * (sz - 1) < seg"
proof -
  note p = assms(1) [unfolded payload_ok_def] and c = SegmentPieceCount_ceil [OF assms(1)]
  let ?s = "min mx (payload - k * mx)"
  have seg: "SegmentPieceSize payload k mx = Some ?s" using assms by (intro SegmentPieceSize_eq)
  have "(k + 1) * mx \<le> ceil_div payload mx * mx" using assms(3) p by (intro mult_right_mono) auto
  moreover have "ceil_div payload mx * mx \<le> payload + mx - 1" using p ceil_div_bounds by auto
  ultimately have s: "0 < ?s" "?s \<le> MaxInt64" using p assms(2) by (auto simp: algebra_simps)
  obtain s where sd: "s = ?s" by blast
  define q r where qr: "q = s div n" "r = s mod n"
  have m: "s = n * q + r" "0 \<le> r" "r < n" using assms(4) by (simp_all add: qr)
  have ql: "0 \<le> q" "q \<le> s" using s sd assms(4) zdiv_mono2 [of s 1 n] by (auto simp: qr pos_imp_zdiv_nonneg_iff)
  have qm: "q < MaxInt64" if "r > 0"
  proof -
    have "q * 1 \<le> q * n" using ql(1) assms(4) by (intro mult_left_mono) auto
    then show ?thesis using that m s sd by (simp add: mult.commute)
  qed
  have sq: "s sdiv n = q" "s smod n = r"
    using s sd assms(4) by (simp_all add: qr sdiv_nonneg smod_nonneg)
  have "ECPieceSize payload k mx n = Some (if r \<noteq> 0 then q + 1 else q)"
    using seg [folded sd] sq ql qm m(2) assms(4,5) s sd by (auto simp: ECPieceSize_def Let_def i64_id)
  moreover have "s \<le> n * (if r \<noteq> 0 then q + 1 else q)" "n * ((if r \<noteq> 0 then q + 1 else q) - 1) < s"
    using m by (auto simp: algebra_simps)
  ultimately show ?thesis using seg [folded sd] by blast
qed

theorem ECPieceSize_ceil_witness:
  "\<exists>seg sz. SegmentPieceSize 31 1 16 = Some seg \<and> ECPieceSize 31 1 16 4 = Some sz \<and> seg \<le> 4 * sz \<and> 4 * (sz - 1) < seg"
  using ECPieceSize_ceil [of 31 16 1 4] by (simp add: payload_ok_def)

text \<open>
  Parsing the key of a challenged piece recovers its segment index and its redundancy index,
  which is -1 for a segment of the primary provider.
\<close>

theorem ParseChallengeIdx_roundtrip:
  assumes "is_u32 seg" and "is_i32 red"
  shows "ParseChallengeIdx (ChallengePieceKey ob seg red v) = Inr (seg, if red < 0 then -1 else red)"
proof (cases "red < 0")
  case True
  then show ?thesis
    using ParseSegmentIdx_print [OF assms(1)]
    by (simp add: ParseChallengeIdx_def ChallengePieceKey_def split_SegmentPieceKey Let_def)
next
  case False
  then have "u32 red = red" using assms(2) by (intro u32_id) (auto simp: range_defs)
  with False show ?thesis
    using ParseECPieceKeyIdx_print [OF assms]
    by (simp add: ParseChallengeIdx_def ChallengePieceKey_def split_ECPieceKey Let_def)
qed

theorem ParseChallengeIdx_roundtrip_witness:
  "ParseChallengeIdx (ChallengePieceKey 7 3 2 1) = Inr (3, 2) \<and> ParseChallengeIdx (ChallengePieceKey 7 3 (-1) 0) = Inr (3, -1)"
  using ParseChallengeIdx_roundtrip [of 3 2 7 1] ParseChallengeIdx_roundtrip [of 3 "-1" 7 0] by (simp add: range_defs)

text \<open>
  C36: two pieces share a store key only when they agree in object, segment and version and in the
  redundancy index (all negative indices name the segment itself).
\<close>

theorem ChallengePieceKey_injective:
  assumes "is_i32 red" and "is_i32 red'" and "ChallengePieceKey ob seg red v = ChallengePieceKey ob' seg' red' v'"
  shows "ob = ob' \<and> seg = seg' \<and> v = v' \<and> (red = red' \<or> red < 0 \<and> red' < 0)"
proof -
  have u: "u32 r = r" if "is_i32 r" "\<not> r < 0" for r using that by (intro u32_id) (auto simp: range_defs)
  show ?thesis
    using assms u [of red] u [of red'] Segment_EC_distinct [of ob seg v ob' seg' red' v']
      Segment_EC_distinct [of ob' seg' v' ob seg red v]
    by (cases "red < 0"; cases "red' < 0")
      (simp_all add: ChallengePieceKey_def SegmentPieceKey_inject ECPieceKey_inject)
qed

theorem ChallengePieceKey_injective_witness:
  "ChallengePieceKey 1 2 (-1) 0 = ChallengePieceKey 1 2 (-5) 0 \<and> ((-1::int) = -5 \<or> (-1::int) < 0 \<and> (-5::int) < 0)"
  using ChallengePieceKey_injective [of "-1" "-5" 1 2 0 1 2 0] by (simp add: ChallengePieceKey_def range_defs)

end
