(* ===== verification/SP_TaskTypes.thy ===== *)
theory SP_TaskTypes
  imports SP_Limit SP_Text "HOL-Library.Log_Nat"
begin

text \<open>
  The data of tasks: the base task \<open>GfSpTask\<close> and its methods
  (\<^verbatim>\<open>src/base/types/gfsptask/task.go\<close>), the errors it carries
  (\<^verbatim>\<open>src/base/types/gfsperrors/error.go\<close>), the task keys (\<^verbatim>\<open>task_key.go\<close>), the priorities and types
  (\<^verbatim>\<open>src/core/task/const.go\<close>) and one record per kind of task.  The clock is an argument \<open>now\<close>
  of the operations that read it.  Of the messages of the chain (object, parameters, bucket, virtual
  group) the records hold the fields the tasks read.
\<close>

subsection \<open>Errors\<close>

record GfSpError =
  CodeSpace :: string
  HttpStatusCode :: int
  InnerCode :: int
  Description :: string

text \<open>An error value: one of the provider's own, or any other with its message.\<close>

datatype go_error = GfSpErr GfSpError | OtherErr string

text \<open>\<open>strings.Index\<close>: the position of the first occurrence, if there is one.\<close>

fun str_index :: "string \<Rightarrow> string \<Rightarrow> nat option" where
  "str_index pat s =
     (if take (length pat) s = pat then Some 0
      else case s of [] \<Rightarrow> None | _ # s' \<Rightarrow> map_option Suc (str_index pat s'))"

declare str_index.simps [simp del]

text \<open>The argument \<open>unmarshal\<close> is \<open>json.Unmarshal\<close> into a \<open>GfSpError\<close>.\<close>

definition MakeGfSpError :: "(string \<Rightarrow> GfSpError option) \<Rightarrow> go_error option \<Rightarrow> GfSpError option" where
  "MakeGfSpError unmarshal err =
     (case err of
        None \<Rightarrow> None
      | Some (GfSpErr e) \<Rightarrow> if InnerCode e = 0 then None else Some e
      | Some (OtherErr errInfo) \<Rightarrow>
          (let dflt = \<lparr>CodeSpace = ''GfSp'', HttpStatusCode = 500, InnerCode = 999999, Description = errInfo\<rparr>
           in case str_index ''desc = '' errInfo of
                None \<Rightarrow> Some dflt
              | Some i \<Rightarrow>
                  if int (length errInfo) - 1 \<ge> int i + 6
                  then (case unmarshal (drop (i + 6) errInfo) of
                          Some e \<Rightarrow> if HttpStatusCode e \<noteq> 0 then Some e else Some dflt
                        | None \<Rightarrow> Some dflt)
                  else Some dflt))"

text \<open>The registry of predefined errors, keyed by inner code; a later registration replaces an earlier one.\<close>

definition Register :: "(int \<rightharpoonup> GfSpError) \<Rightarrow> string \<Rightarrow> int \<Rightarrow> int \<Rightarrow> string \<Rightarrow> GfSpError \<times> (int \<rightharpoonup> GfSpError)" where
  "Register mgr codeSpace http inner descr =
     (let e = \<lparr>CodeSpace = codeSpace, HttpStatusCode = i32 http, InnerCode = i32 inner, Description = descr\<rparr>
      in (e, mgr(InnerCode e \<mapsto> e)))"

subsection \<open>Task types and priorities\<close>

datatype TType =
    TypeTaskUnknown | TypeTaskCreateBucketApproval | TypeTaskMigrateBucketApproval
  | TypeTaskCreateObjectApproval | TypeTaskReplicatePieceApproval | TypeTaskUpload
  | TypeTaskReplicatePiece | TypeTaskSealObject | TypeTaskReceivePiece | TypeTaskDownloadObject
  | TypeTaskDownloadPiece | TypeTaskChallengePiece | TypeTaskGCObject | TypeTaskGCZombiePiece
  | TypeTaskGCMeta | TypeTaskGCBucketMigration | TypeTaskRecoverPiece | TypeTaskMigrateGVG
  | TypeTaskGCStaleVersionObject

fun TypeTaskMap :: "TType \<Rightarrow> string option" where
  "TypeTaskMap TypeTaskUnknown = Some ''UnknownTask''"
| "TypeTaskMap TypeTaskCreateBucketApproval = Some ''CreateBucketApprovalTask''"
| "TypeTaskMap TypeTaskMigrateBucketApproval = Some ''MigrateBucketApprovalTask''"
| "TypeTaskMap TypeTaskCreateObjectApproval = Some ''CreateObjectApprovalTask''"
| "TypeTaskMap TypeTaskReplicatePieceApproval = Some ''ReplicatePieceApprovalTask''"
| "TypeTaskMap TypeTaskUpload = Some ''UploadObjectTask''"
| "TypeTaskMap TypeTaskReplicatePiece = Some ''ReplicatePieceTask''"
| "TypeTaskMap TypeTaskSealObject = Some ''SealObjectTask''"
| "TypeTaskMap TypeTaskReceivePiece = Some ''ReceivePieceTask''"
| "TypeTaskMap TypeTaskDownloadObject = Some ''DownloadObjectTask''"
| "TypeTaskMap TypeTaskChallengePiece = Some ''ChallengePieceTask''"
| "TypeTaskMap TypeTaskGCObject = Some ''GCObjectTask''"
| "TypeTaskMap TypeTaskGCZombiePiece = Some ''GCZombiePieceTask''"
| "TypeTaskMap TypeTaskGCMeta = Some ''GCMetaTask''"
| "TypeTaskMap TypeTaskGCBucketMigration = Some ''GCBucketMigrationTask''"
| "TypeTaskMap TypeTaskRecoverPiece = Some ''RecoverPieceTask''"
| "TypeTaskMap TypeTaskMigrateGVG = Some ''MigrateGVGTask''"
| "TypeTaskMap _ = None"

definition TaskTypeName :: "TType \<Rightarrow> string" where
  "TaskTypeName taskType =
     (case TypeTaskMap taskType of None \<Rightarrow> the (TypeTaskMap TypeTaskUnknown) | Some s \<Rightarrow> s)"

definition UnKnownTaskPriority :: int where "UnKnownTaskPriority = 0"
definition UnSchedulingPriority :: int where "UnSchedulingPriority = 0"
definition MaxTaskPriority :: int where "MaxTaskPriority = 255"
definition DefaultLargerTaskPriority :: int where "DefaultLargerTaskPriority = 170"
definition DefaultSmallerPriority :: int where "DefaultSmallerPriority = 85"

lemmas priority_defs = UnKnownTaskPriority_def UnSchedulingPriority_def MaxTaskPriority_def
  DefaultLargerTaskPriority_def DefaultSmallerPriority_def

subsection \<open>The base task\<close>

record GfSpTask =
  tAddress :: string
  tCreateTime :: int
  tUpdateTime :: int
  tTimeout :: int
  tTaskPriority :: int
  tRetry :: int
  tMaxRetry :: int
  tUserAddress :: string
  tLogs :: string
  tErr :: "GfSpError option"

definition zero_task :: GfSpTask where
  "zero_task = \<lparr>tAddress = [], tCreateTime = 0, tUpdateTime = 0, tTimeout = 0, tTaskPriority = 0,
     tRetry = 0, tMaxRetry = 0, tUserAddress = [], tLogs = [], tErr = None\<rparr>"

definition base_ExceedTimeout :: "int \<Rightarrow> GfSpTask \<Rightarrow> bool" where
  "base_ExceedTimeout now m \<longleftrightarrow> i64 (tUpdateTime m + tTimeout m) < now"

definition base_IncRetry :: "GfSpTask \<Rightarrow> GfSpTask" where
  "base_IncRetry m = m\<lparr>tRetry := i64 (tRetry m + 1)\<rparr>"

definition base_ExceedRetry :: "GfSpTask \<Rightarrow> bool" where
  "base_ExceedRetry m \<longleftrightarrow> tRetry m \<ge> tMaxRetry m"

definition base_Expired :: "int \<Rightarrow> GfSpTask \<Rightarrow> bool" where
  "base_Expired now m \<longleftrightarrow> base_ExceedRetry m \<and> base_ExceedTimeout now m"

definition base_GetPriority :: "GfSpTask \<Rightarrow> int" where
  "base_GetPriority m = u8 (tTaskPriority m)"

definition base_SetPriority :: "int \<Rightarrow> GfSpTask \<Rightarrow> GfSpTask" where
  "base_SetPriority priority m = m\<lparr>tTaskPriority := i32 priority\<rparr>"

text \<open>The time stamp \<open>time.Now().String()\<close> of the log line is an argument.\<close>

definition base_AppendLog :: "string \<Rightarrow> string \<Rightarrow> GfSpTask \<Rightarrow> GfSpTask" where
  "base_AppendLog stamp logLine m = m\<lparr>tLogs := tLogs m @ stamp @ ''-'' @ logLine @ [CHR 0x0A]\<rparr>"

definition base_Error :: "GfSpTask \<Rightarrow> GfSpError option" where
  "base_Error m = (case tErr m of None \<Rightarrow> None | Some e \<Rightarrow> if InnerCode e = 0 then None else Some e)"

definition base_SetError :: "(string \<Rightarrow> GfSpError option) \<Rightarrow> go_error option \<Rightarrow> GfSpTask \<Rightarrow> GfSpTask" where
  "base_SetError unmarshal err m = m\<lparr>tErr := MakeGfSpError unmarshal err\<rparr>"

definition LimitEstimateByPriority :: "int \<Rightarrow> GfSpLimit" where
  "LimitEstimateByPriority priority =
     (if priority < DefaultSmallerPriority then zero_limit\<lparr>limTasks := 1, limTasksLowPriority := 1\<rparr>
      else if priority > DefaultLargerTaskPriority then zero_limit\<lparr>limTasks := 1, limTasksHighPriority := 1\<rparr>
      else zero_limit\<lparr>limTasks := 1, limTasksMediumPriority := 1\<rparr>)"

subsection \<open>Task keys\<close>

definition hex_digit :: "nat \<Rightarrow> char" where
  "hex_digit d = (if d < 10 then char_of (48 + d) else char_of (87 + d))"

definition EncodeToString :: "int list \<Rightarrow> string" where
  "EncodeToString bytes = concat (map (\<lambda>b. [hex_digit (nat (b div 16)), hex_digit (nat (b mod 16))]) bytes)"

fun CombineKey :: "string list \<Rightarrow> string" where
  "CombineKey [] = []"
| "CombineKey (f # fs) = ''-'' @ f @ CombineKey fs"

definition GfSpCreateBucketApprovalTaskKey :: "string \<Rightarrow> string \<Rightarrow> int list \<Rightarrow> string" where
  "GfSpCreateBucketApprovalTaskKey bucket account fingerprint =
     ''CreateBucketApproval'' @ CombineKey [''bucket:'' @ bucket, ''account:'' @ account,
        ''fingerprint:'' @ EncodeToString fingerprint]"

definition GfSpCreateObjectApprovalTaskKey :: "string \<Rightarrow> string \<Rightarrow> string \<Rightarrow> int list \<Rightarrow> string" where
  "GfSpCreateObjectApprovalTaskKey bucket ob account fingerprint =
     ''CreateObjectApproval'' @ CombineKey [''bucket:'' @ bucket, ''object:'' @ ob, ''account:'' @ account,
        ''fingerprint:'' @ EncodeToString fingerprint]"

definition GfSpMigrateBucketApprovalTaskKey :: "string \<Rightarrow> string \<Rightarrow> string" where
  "GfSpMigrateBucketApprovalTaskKey bucket migrateBucketHash =
     ''MigrateBucketApproval'' @ CombineKey [''bucket:'' @ bucket, ''hash:'' @ migrateBucketHash]"

definition GfSpReplicatePieceApprovalTaskKey :: "string \<Rightarrow> string \<Rightarrow> string \<Rightarrow> string" where
  "GfSpReplicatePieceApprovalTaskKey bucket ob i =
     ''ReplicatePieceApproval'' @ CombineKey [''bucket:'' @ bucket, ''object:'' @ ob, ''id:'' @ i]"

definition GfSpDownloadObjectTaskKey :: "string \<Rightarrow> string \<Rightarrow> string \<Rightarrow> int \<Rightarrow> int \<Rightarrow> string" where
  "GfSpDownloadObjectTaskKey bucket ob i low high =
     ''DownloadObject'' @ CombineKey [''bucket:'' @ bucket, ''object:'' @ ob, ''id:'' @ i,
        ''low:'' @ show_int low, ''high:'' @ show_int high]"

definition GfSpDownloadPieceTaskKey :: "string \<Rightarrow> string \<Rightarrow> string \<Rightarrow> int \<Rightarrow> int \<Rightarrow> string" where
  "GfSpDownloadPieceTaskKey bucket ob pieceKey pieceOffset pieceLength =
     ''DownloadPiece'' @ CombineKey [''bucket:'' @ bucket, ''object:'' @ ob, ''piece:'' @ pieceKey,
        ''offset:'' @ show_int pieceOffset, ''length:'' @ show_int pieceLength]"

definition GfSpChallengePieceTaskKey :: "string \<Rightarrow> string \<Rightarrow> string \<Rightarrow> int \<Rightarrow> int \<Rightarrow> string \<Rightarrow> string" where
  "GfSpChallengePieceTaskKey bucket ob i sIdx rIdx user =
     ''ChallengePiece'' @ CombineKey [''bucket:'' @ bucket, ''object:'' @ ob, ''id:'' @ i,
        ''sIdx:'' @ show_int sIdx, ''rIdx:'' @ show_int rIdx, user]"

definition GfSpUploadObjectTaskKey :: "string \<Rightarrow> string \<Rightarrow> string \<Rightarrow> string" where
  "GfSpUploadObjectTaskKey bucket ob i =
     ''Uploading'' @ CombineKey [''bucket:'' @ bucket, ''object:'' @ ob, ''id:'' @ i]"

definition GfSpResumableUploadObjectTaskKey :: "string \<Rightarrow> string \<Rightarrow> string \<Rightarrow> int \<Rightarrow> string" where
  "GfSpResumableUploadObjectTaskKey bucket ob i offset =
     ''ResumableUploading'' @ CombineKey [bucket, ob, i, show_int offset]"

definition GfSpReplicatePieceTaskKey :: "string \<Rightarrow> string \<Rightarrow> string \<Rightarrow> string" where
  "GfSpReplicatePieceTaskKey bucket ob i =
     ''Uploading'' @ CombineKey [''bucket:'' @ bucket, ''object:'' @ ob, ''id:'' @ i]"

definition GfSpRecoverPieceTaskKey :: "string \<Rightarrow> string \<Rightarrow> string \<Rightarrow> int \<Rightarrow> int \<Rightarrow> string" where
  "GfSpRecoverPieceTaskKey bucket ob i pIdx replicateIdx =
     (if replicateIdx \<ge> 0
      then ''Recovering'' @ CombineKey [''bucket:'' @ bucket, ''object:'' @ ob, ''id:'' @ i,
             ''segIdx:'' @ show_int pIdx, ''ecIdx:'' @ show_int replicateIdx]
      else ''Recovering'' @ CombineKey [''bucket:'' @ bucket, ''object:'' @ ob, ''id:'' @ i,
             ''segIdx:'' @ show_int pIdx])"

definition GfSpSealObjectTaskKey :: "string \<Rightarrow> string \<Rightarrow> string \<Rightarrow> string" where
  "GfSpSealObjectTaskKey bucket ob i =
     ''Uploading'' @ CombineKey [''bucket:'' @ bucket, ''object:'' @ ob, ''id:'' @ i]"

definition GfSpReceivePieceTaskKey :: "string \<Rightarrow> string \<Rightarrow> string \<Rightarrow> int \<Rightarrow> int \<Rightarrow> string" where
  "GfSpReceivePieceTaskKey bucket ob i rIdx pIdx =
     ''ReceivePiece'' @ CombineKey [''bucket:'' @ bucket, ''object:'' @ ob, ''id:'' @ i,
        ''segmentIdx:'' @ show_int rIdx, ''redundancyIdx:'' @ show_int pIdx]"

definition GfSpGCObjectTaskKey :: "int \<Rightarrow> int \<Rightarrow> int \<Rightarrow> string" where
  "GfSpGCObjectTaskKey start fin time =
     ''GCObject'' @ CombineKey [''start'' @ show_int start, ''end'' @ show_int fin, ''time'' @ show_int time]"

definition GfSpGCZombiePieceTaskKey :: "int \<Rightarrow> int \<Rightarrow> int \<Rightarrow> string" where
  "GfSpGCZombiePieceTaskKey start fin time =
     ''GCZombiePiece'' @ CombineKey [''start'' @ show_int start, ''end'' @ show_int fin, ''time'' @ show_int time]"

definition GfSpGCStaleVersionObjectTaskKey :: "int \<Rightarrow> int \<Rightarrow> int \<Rightarrow> int \<Rightarrow> string" where
  "GfSpGCStaleVersionObjectTaskKey objectID redundancyIndex version time =
     ''GCStaleVersionObject'' @ CombineKey [''object_id'' @ show_int objectID, ''version'' @ show_int version,
        ''redundancy_index'' @ show_int redundancyIndex, ''time'' @ show_int time]"

definition GfSpGfSpGCMetaTaskKey :: "int \<Rightarrow> string" where
  "GfSpGfSpGCMetaTaskKey time = ''GCMeta'' @ CombineKey [''time'' @ show_int time]"

definition GfSpGCBucketMigrationTaskKey :: "int \<Rightarrow> string" where
  "GfSpGCBucketMigrationTaskKey bucketID = ''GCBucketMigration'' @ CombineKey [''bucketID'' @ show_int bucketID]"

definition GfSpMigrateGVGTaskKey :: "int \<Rightarrow> int \<Rightarrow> int \<Rightarrow> string" where
  "GfSpMigrateGVGTaskKey oldGvgID bucketID redundancyIndex =
     ''MigrateGVG'' @ CombineKey [''oldGvgID'' @ show_int oldGvgID, ''bucketID'' @ show_int bucketID,
        ''redundancyIndex'' @ show_int redundancyIndex]"

definition GfSpMigrateBucketTaskKey :: "int \<Rightarrow> string" where
  "GfSpMigrateBucketTaskKey bucketID = ''MigrateBucket'' @ CombineKey [''bucketID'' @ show_int bucketID]"

definition GfSpMigratePieceTaskKey :: "string \<Rightarrow> string \<Rightarrow> int \<Rightarrow> int \<Rightarrow> string" where
  "GfSpMigratePieceTaskKey ob i redundancyIdx ecIdx =
     ''MigratePiece'' @ CombineKey [''object:'' @ ob, ''id:'', i, ''segIdx:'', show_int redundancyIdx,
        ''redundancyIndex:'', show_int ecIdx]"

end
