(* ===== verification/SP_Task.thy ===== *)
theory SP_Task
  imports SP_TaskTypes
begin

text \<open>
  The kinds of tasks (\<^verbatim>\<open>src/base/types/gfsptask/upload.go\<close>, \<^verbatim>\<open>approval.go\<close>, \<^verbatim>\<open>download.go\<close>, \<^verbatim>\<open>gc.go\<close>,
  \<^verbatim>\<open>migrate_gvg.go\<close>, \<^verbatim>\<open>recovery.go\<close>): one record each, its initialisation, key and resource estimate.  The
  datatype \<open>Task\<close> is the interface value: every kind delegates the base operations to its \<open>GfSpTask\<close>,
  which \<open>GetTask\<close> reads and \<open>map_task\<close> updates.  An estimate is \<open>None\<close> where the code panics (a division by
  zero) or converts a floating-point number out of the range of \<open>int64\<close>.
\<close>

subsection \<open>Messages of the chain\<close>

datatype ObjectStatus = OBJECT_STATUS_CREATED | OBJECT_STATUS_SEALED | OBJECT_STATUS_DISCONTINUED

datatype RedundancyType = REDUNDANCY_EC_TYPE | REDUNDANCY_REPLICA_TYPE

record ObjectInfo =
  oBucketName :: string
  oObjectName :: string
  oId :: int
  oPayloadSize :: int
  oRedundancyType :: RedundancyType
  oVersion :: int
  oObjectStatus :: ObjectStatus
  oIsUpdating :: bool
  oChecksums :: "int list list"
  oOwner :: string
  oCreateAt :: int
  oLocalVirtualGroupId :: int

record Params =
  MaxPayloadSize :: int
  MaxSegmentSize :: int
  RedundantDataChunkNum :: int
  RedundantParityChunkNum :: int

record BucketInfo =
  bBucketName :: string
  bId :: int
  bOwner :: string
  bChargedReadQuota :: int
  bGlobalVirtualGroupFamilyId :: int

record MsgCreateBucket =
  cbBucketName :: string
  cbExpiredHeight :: int

text \<open>\<open>mbSignBytes\<close> is what \<open>GetSignBytes\<close> of the message returns.\<close>

record MsgMigrateBucket =
  mbBucketName :: string
  mbSignBytes :: "int list"
  mbExpiredHeight :: int

record MsgCreateObject =
  coBucketName :: string
  coObjectName :: string
  coExpiredHeight :: int

subsection \<open>The kinds of tasks\<close>

record GfSpCreateBucketApprovalTask =
  cba_Task :: GfSpTask
  cba_CreateBucketInfo :: MsgCreateBucket
  cba_Fingerprint :: "int list"

record GfSpMigrateBucketApprovalTask =
  mba_Task :: GfSpTask
  mba_MigrateBucketInfo :: MsgMigrateBucket

record GfSpCreateObjectApprovalTask =
  coa_Task :: GfSpTask
  coa_CreateObjectInfo :: MsgCreateObject
  coa_Fingerprint :: "int list"

record GfSpDelegateCreateObjectApprovalTask =
  dca_Task :: GfSpTask
  dca_DelegateCreateObject :: MsgCreateObject
  dca_Fingerprint :: "int list"

record GfSpReplicatePieceApprovalTask =
  rpa_Task :: GfSpTask
  rpa_ObjectInfo :: ObjectInfo
  rpa_StorageParams :: Params
  rpa_AskSpOperatorAddress :: string
  rpa_AskSignature :: "int list"
  rpa_ApprovedSpEndpoint :: string
  rpa_ApprovedSpOperatorAddress :: string
  rpa_ApprovedSignature :: "int list"
  rpa_ApprovedSpApprovalAddress :: string
  rpa_ExpiredHeight :: int

record GfSpUploadObjectTask =
  uo_Task :: GfSpTask
  uo_VirtualGroupFamilyId :: int
  uo_ObjectInfo :: ObjectInfo
  uo_StorageParams :: Params
  uo_IsAgentUpload :: bool

record GfSpResumableUploadObjectTask =
  ru_Task :: GfSpTask
  ru_ObjectInfo :: ObjectInfo
  ru_StorageParams :: Params
  ru_Offset :: int
  ru_Length :: int
  ru_Completed :: bool
  ru_VirtualGroupFamilyId :: int
  ru_IsAgentUpload :: bool

record GfSpReplicatePieceTask =
  rp_Task :: GfSpTask
  rp_ObjectInfo :: ObjectInfo
  rp_StorageParams :: Params
  rp_SecondaryAddresses :: "string list"
  rp_SecondarySignatures :: "int list list"
  rp_Sealed :: bool
  rp_GlobalVirtualGroupId :: int
  rp_SecondaryEndpoints :: "string list"
  rp_NotAvailableSpIdx :: int
  rp_IsAgentUploadTask :: bool

record GfSpSealObjectTask =
  so_Task :: GfSpTask
  so_ObjectInfo :: ObjectInfo
  so_StorageParams :: Params
  so_SecondaryAddresses :: "string list"
  so_SecondarySignatures :: "int list list"
  so_GlobalVirtualGroupId :: int
  so_SecondaryEndpoints :: "string list"
  so_IsAgentUploadTask :: bool

record GfSpReceivePieceTask =
  rc_Task :: GfSpTask
  rc_ObjectInfo :: ObjectInfo
  rc_StorageParams :: Params
  rc_SegmentIdx :: int
  rc_RedundancyIdx :: int
  rc_PieceSize :: int
  rc_PieceChecksum :: "int list"
  rc_Signature :: "int list"
  rc_Sealed :: bool
  rc_Finished :: bool
  rc_GlobalVirtualGroupId :: int
  rc_BucketMigration :: bool
  rc_IsAgentUploadTask :: bool

record GfSpDownloadObjectTask =
  do_Task :: GfSpTask
  do_ObjectInfo :: ObjectInfo
  do_BucketInfo :: BucketInfo
  do_StorageParams :: Params
  do_Low :: int
  do_High :: int

record GfSpDownloadPieceTask =
  dp_Task :: GfSpTask
  dp_ObjectInfo :: ObjectInfo
  dp_BucketInfo :: BucketInfo
  dp_StorageParams :: Params
  dp_EnableCheck :: bool
  dp_TotalSize :: int
  dp_PieceKey :: string
  dp_PieceOffset :: int
  dp_PieceLength :: int

record GfSpChallengePieceTask =
  cp_Task :: GfSpTask
  cp_ObjectInfo :: ObjectInfo
  cp_BucketInfo :: BucketInfo
  cp_StorageParams :: Params
  cp_SegmentIdx :: int
  cp_RedundancyIdx :: int
  cp_IntegrityHash :: "int list"
  cp_PieceHash :: "int list list"
  cp_PieceDataSize :: int

record GfSpGCObjectTask =
  go_Task :: GfSpTask
  go_StartBlockNumber :: int
  go_EndBlockNumber :: int
  go_CurrentBlockNumber :: int
  go_LastDeletedObjectId :: int
  go_Running :: bool

record GfSpGCZombiePieceTask =
  gz_Task :: GfSpTask
  gz_Running :: bool
  gz_StartObjectId :: int
  gz_EndObjectId :: int
  gz_Finished :: bool

record GfSpGCStaleVersionObjectTask =
  gs_Task :: GfSpTask
  gs_ObjectId :: int
  gs_RedundancyIndex :: int
  gs_Version :: int
  gs_IntegrityChecksum :: "int list"
  gs_PieceChecksumList :: "int list list"
  gs_ObjectSize :: int

record GfSpGCMetaTask =
  gm_Task :: GfSpTask
  gm_CurrentIdx :: int
  gm_DeleteCount :: int

record GfSpMigrateGVGTask =
  mg_Task :: GfSpTask
  mg_BucketId :: int
  mg_SrcGvgId :: int
  mg_DestGvgId :: int
  mg_RedundancyIdx :: int
  mg_SrcSpId :: int
  mg_LastMigratedObjectId :: int
  mg_Finished :: bool
  mg_ExpireTime :: int
  mg_Signature :: "int list"
  mg_MigratedBytesSize :: int

record GfSpGCBucketMigrationTask =
  gb_Task :: GfSpTask
  gb_BucketId :: int
  gb_LastGcObjectId :: int
  gb_LastGcGvgId :: int
  gb_Finished :: bool
  gb_TotalGvgNum :: int
  gb_GcFinishedGvgNum :: int

record GfSpRecoverPieceTask =
  re_Task :: GfSpTask
  re_ObjectInfo :: ObjectInfo
  re_StorageParams :: Params
  re_SegmentIdx :: int
  re_EcIdx :: int
  re_PieceSize :: int
  re_Signature :: "int list"
  re_Recovered :: bool
  re_BySuccessorSp :: bool
  re_GvgId :: int

subsection \<open>The task interface\<close>

datatype Task =
    CreateBucketApproval GfSpCreateBucketApprovalTask
  | MigrateBucketApproval GfSpMigrateBucketApprovalTask
  | CreateObjectApproval GfSpCreateObjectApprovalTask
  | DelegateCreateObjectApproval GfSpDelegateCreateObjectApprovalTask
  | ReplicatePieceApproval GfSpReplicatePieceApprovalTask
  | UploadObject GfSpUploadObjectTask
  | ResumableUploadObject GfSpResumableUploadObjectTask
  | ReplicatePiece GfSpReplicatePieceTask
  | SealObject GfSpSealObjectTask
  | ReceivePiece GfSpReceivePieceTask
  | DownloadObject GfSpDownloadObjectTask
  | DownloadPiece GfSpDownloadPieceTask
  | ChallengePiece GfSpChallengePieceTask
  | GCObject GfSpGCObjectTask
  | GCZombiePiece GfSpGCZombiePieceTask
  | GCStaleVersionObject GfSpGCStaleVersionObjectTask
  | GCMeta GfSpGCMetaTask
  | MigrateGVG GfSpMigrateGVGTask
  | GCBucketMigration GfSpGCBucketMigrationTask
  | RecoverPiece GfSpRecoverPieceTask

fun GetTask :: "Task \<Rightarrow> GfSpTask" where
  "GetTask (CreateBucketApproval m) = cba_Task m"
| "GetTask (MigrateBucketApproval m) = mba_Task m"
| "GetTask (CreateObjectApproval m) = coa_Task m"
| "GetTask (DelegateCreateObjectApproval m) = dca_Task m"
| "GetTask (ReplicatePieceApproval m) = rpa_Task m"
| "GetTask (UploadObject m) = uo_Task m"
| "GetTask (ResumableUploadObject m) = ru_Task m"
| "GetTask (ReplicatePiece m) = rp_Task m"
| "GetTask (SealObject m) = so_Task m"
| "GetTask (ReceivePiece m) = rc_Task m"
| "GetTask (DownloadObject m) = do_Task m"
| "GetTask (DownloadPiece m) = dp_Task m"
| "GetTask (ChallengePiece m) = cp_Task m"
| "GetTask (GCObject m) = go_Task m"
| "GetTask (GCZombiePiece m) = gz_Task m"
| "GetTask (GCStaleVersionObject m) = gs_Task m"
| "GetTask (GCMeta m) = gm_Task m"
| "GetTask (MigrateGVG m) = mg_Task m"
| "GetTask (GCBucketMigration m) = gb_Task m"
| "GetTask (RecoverPiece m) = re_Task m"

fun map_task :: "(GfSpTask \<Rightarrow> GfSpTask) \<Rightarrow> Task \<Rightarrow> Task" where
  "map_task f (CreateBucketApproval m) = CreateBucketApproval (m\<lparr>cba_Task := f (cba_Task m)\<rparr>)"
| "map_task f (MigrateBucketApproval m) = MigrateBucketApproval (m\<lparr>mba_Task := f (mba_Task m)\<rparr>)"
| "map_task f (CreateObjectApproval m) = CreateObjectApproval (m\<lparr>coa_Task := f (coa_Task m)\<rparr>)"
| "map_task f (DelegateCreateObjectApproval m) = DelegateCreateObjectApproval (m\<lparr>dca_Task := f (dca_Task m)\<rparr>)"
| "map_task f (ReplicatePieceApproval m) = ReplicatePieceApproval (m\<lparr>rpa_Task := f (rpa_Task m)\<rparr>)"
| "map_task f (UploadObject m) = UploadObject (m\<lparr>uo_Task := f (uo_Task m)\<rparr>)"
| "map_task f (ResumableUploadObject m) = ResumableUploadObject (m\<lparr>ru_Task := f (ru_Task m)\<rparr>)"
| "map_task f (ReplicatePiece m) = ReplicatePiece (m\<lparr>rp_Task := f (rp_Task m)\<rparr>)"
| "map_task f (SealObject m) = SealObject (m\<lparr>so_Task := f (so_Task m)\<rparr>)"
| "map_task f (ReceivePiece m) = ReceivePiece (m\<lparr>rc_Task := f (rc_Task m)\<rparr>)"
| "map_task f (DownloadObject m) = DownloadObject (m\<lparr>do_Task := f (do_Task m)\<rparr>)"
| "map_task f (DownloadPiece m) = DownloadPiece (m\<lparr>dp_Task := f (dp_Task m)\<rparr>)"
| "map_task f (ChallengePiece m) = ChallengePiece (m\<lparr>cp_Task := f (cp_Task m)\<rparr>)"
| "map_task f (GCObject m) = GCObject (m\<lparr>go_Task := f (go_Task m)\<rparr>)"
| "map_task f (GCZombiePiece m) = GCZombiePiece (m\<lparr>gz_Task := f (gz_Task m)\<rparr>)"
| "map_task f (GCStaleVersionObject m) = GCStaleVersionObject (m\<lparr>gs_Task := f (gs_Task m)\<rparr>)"
| "map_task f (GCMeta m) = GCMeta (m\<lparr>gm_Task := f (gm_Task m)\<rparr>)"
| "map_task f (MigrateGVG m) = MigrateGVG (m\<lparr>mg_Task := f (mg_Task m)\<rparr>)"
| "map_task f (GCBucketMigration m) = GCBucketMigration (m\<lparr>gb_Task := f (gb_Task m)\<rparr>)"
| "map_task f (RecoverPiece m) = RecoverPiece (m\<lparr>re_Task := f (re_Task m)\<rparr>)"

fun Type :: "Task \<Rightarrow> TType" where
  "Type (CreateBucketApproval _) = TypeTaskCreateBucketApproval"
| "Type (MigrateBucketApproval _) = TypeTaskMigrateBucketApproval"
| "Type (CreateObjectApproval _) = TypeTaskCreateObjectApproval"
| "Type (DelegateCreateObjectApproval _) = TypeTaskCreateObjectApproval"
| "Type (ReplicatePieceApproval _) = TypeTaskReplicatePieceApproval"
| "Type (UploadObject _) = TypeTaskUpload"
| "Type (ResumableUploadObject _) = TypeTaskUpload"
| "Type (ReplicatePiece _) = TypeTaskReplicatePiece"
| "Type (SealObject _) = TypeTaskSealObject"
| "Type (ReceivePiece _) = TypeTaskReceivePiece"
| "Type (DownloadObject _) = TypeTaskDownloadObject"
| "Type (DownloadPiece _) = TypeTaskDownloadPiece"
| "Type (ChallengePiece _) = TypeTaskChallengePiece"
| "Type (GCObject _) = TypeTaskGCObject"
| "Type (GCZombiePiece _) = TypeTaskGCZombiePiece"
| "Type (GCStaleVersionObject _) = TypeTaskGCStaleVersionObject"
| "Type (GCMeta _) = TypeTaskGCMeta"
| "Type (MigrateGVG _) = TypeTaskMigrateGVG"
| "Type (GCBucketMigration _) = TypeTaskGCBucketMigration"
| "Type (RecoverPiece _) = TypeTaskRecoverPiece"

text \<open>The key of an object: \<open>GetBucketName\<close>, \<open>GetObjectName\<close> and \<open>Id.String()\<close> of the object info.\<close>

definition on_object :: "(string \<Rightarrow> string \<Rightarrow> string \<Rightarrow> 'a) \<Rightarrow> ObjectInfo \<Rightarrow> 'a" where
  "on_object f ob = f (oBucketName ob) (oObjectName ob) (show_int (oId ob))"

fun Key :: "Task \<Rightarrow> string" where
  "Key (CreateBucketApproval m) = GfSpCreateBucketApprovalTaskKey (cbBucketName (cba_CreateBucketInfo m))
     (tUserAddress (cba_Task m)) (cba_Fingerprint m)"
| "Key (MigrateBucketApproval m) = GfSpMigrateBucketApprovalTaskKey (mbBucketName (mba_MigrateBucketInfo m))
     (EncodeToString (mbSignBytes (mba_MigrateBucketInfo m)))"
| "Key (CreateObjectApproval m) = GfSpCreateObjectApprovalTaskKey (coBucketName (coa_CreateObjectInfo m))
     (coObjectName (coa_CreateObjectInfo m)) (tUserAddress (coa_Task m)) (coa_Fingerprint m)"
| "Key (DelegateCreateObjectApproval m) = GfSpCreateObjectApprovalTaskKey
     (coBucketName (dca_DelegateCreateObject m)) (coObjectName (dca_DelegateCreateObject m))
     (tUserAddress (dca_Task m)) (dca_Fingerprint m)"
| "Key (ReplicatePieceApproval m) = on_object GfSpReplicatePieceApprovalTaskKey (rpa_ObjectInfo m)"
| "Key (UploadObject m) = on_object GfSpUploadObjectTaskKey (uo_ObjectInfo m)"
| "Key (ResumableUploadObject m) = on_object GfSpResumableUploadObjectTaskKey (ru_ObjectInfo m) (ru_Offset m)"
| "Key (ReplicatePiece m) = on_object GfSpReplicatePieceTaskKey (rp_ObjectInfo m)"
| "Key (SealObject m) = on_object GfSpSealObjectTaskKey (so_ObjectInfo m)"
| "Key (ReceivePiece m) = on_object GfSpReceivePieceTaskKey (rc_ObjectInfo m) (rc_SegmentIdx m) (rc_RedundancyIdx m)"
| "Key (DownloadObject m) = on_object GfSpDownloadObjectTaskKey (do_ObjectInfo m) (do_Low m) (do_High m)"
| "Key (DownloadPiece m) = GfSpDownloadPieceTaskKey (oBucketName (dp_ObjectInfo m)) (oObjectName (dp_ObjectInfo m))
     (dp_PieceKey m) (dp_PieceOffset m) (dp_PieceLength m)"
| "Key (ChallengePiece m) = on_object GfSpChallengePieceTaskKey (cp_ObjectInfo m) (cp_SegmentIdx m)
     (cp_RedundancyIdx m) (tUserAddress (cp_Task m))"
| "Key (GCObject m) = GfSpGCObjectTaskKey (go_StartBlockNumber m) (go_EndBlockNumber m) (tCreateTime (go_Task m))"
| "Key (GCZombiePiece m) = GfSpGCZombiePieceTaskKey (gz_StartObjectId m) (gz_EndObjectId m) (tCreateTime (gz_Task m))"
| "Key (GCStaleVersionObject m) = GfSpGCStaleVersionObjectTaskKey (gs_ObjectId m) (gs_RedundancyIndex m)
     (gs_Version m) (tCreateTime (gs_Task m))"
| "Key (GCMeta m) = GfSpGfSpGCMetaTaskKey (tCreateTime (gm_Task m))"
| "Key (MigrateGVG m) = GfSpMigrateGVGTaskKey (mg_SrcGvgId m) (mg_BucketId m) (mg_RedundancyIdx m)"
| "Key (GCBucketMigration m) = GfSpGCBucketMigrationTaskKey (gb_BucketId m)"
| "Key (RecoverPiece m) = on_object GfSpRecoverPieceTaskKey (re_ObjectInfo m) (re_SegmentIdx m) (re_EcIdx m)"

end
