(* ===== verification/SP_TaskOps.thy ===== *)
theory SP_TaskOps
  imports SP_Task SP_Piece
begin

text \<open>
  The operations of tasks: the delegated setters and getters, the initialisers, and the resource
  estimates by which the scheduler and the executor reserve resources.  The estimate of a
  replication is computed in \<open>float64\<close>; \<open>f64\<close> is rounding to the nearest double, ties to even, on the
  values that occur (zero and values from one).  Also the timeouts, retries and priorities of
  \<^verbatim>\<open>src/base/gfspapp/task_options.go\<close>.
\<close>

subsection \<open>Delegation to the base task\<close>

definition GetAddress :: "Task \<Rightarrow> string" where "GetAddress t = tAddress (GetTask t)"
definition SetAddress :: "string \<Rightarrow> Task \<Rightarrow> Task" where "SetAddress a = map_task (\<lambda>m. m\<lparr>tAddress := a\<rparr>)"
definition GetCreateTime :: "Task \<Rightarrow> int" where "GetCreateTime t = tCreateTime (GetTask t)"
definition SetCreateTime :: "int \<Rightarrow> Task \<Rightarrow> Task" where "SetCreateTime n = map_task (\<lambda>m. m\<lparr>tCreateTime := n\<rparr>)"
definition GetUpdateTime :: "Task \<Rightarrow> int" where "GetUpdateTime t = tUpdateTime (GetTask t)"
definition SetUpdateTime :: "int \<Rightarrow> Task \<Rightarrow> Task" where "SetUpdateTime n = map_task (\<lambda>m. m\<lparr>tUpdateTime := n\<rparr>)"
definition GetTimeout :: "Task \<Rightarrow> int" where "GetTimeout t = tTimeout (GetTask t)"
definition SetTimeout :: "int \<Rightarrow> Task \<Rightarrow> Task" where "SetTimeout n = map_task (\<lambda>m. m\<lparr>tTimeout := n\<rparr>)"
definition ExceedTimeout :: "int \<Rightarrow> Task \<Rightarrow> bool" where "ExceedTimeout now t = base_ExceedTimeout now (GetTask t)"
definition GetRetry :: "Task \<Rightarrow> int" where "GetRetry t = tRetry (GetTask t)"
definition IncRetry :: "Task \<Rightarrow> Task" where "IncRetry = map_task base_IncRetry"
definition SetRetry :: "int \<Rightarrow> Task \<Rightarrow> Task" where "SetRetry n = map_task (\<lambda>m. m\<lparr>tRetry := n\<rparr>)"
definition GetMaxRetry :: "Task \<Rightarrow> int" where "GetMaxRetry t = tMaxRetry (GetTask t)"
definition SetMaxRetry :: "int \<Rightarrow> Task \<Rightarrow> Task" where "SetMaxRetry n = map_task (\<lambda>m. m\<lparr>tMaxRetry := n\<rparr>)"
definition ExceedRetry :: "Task \<Rightarrow> bool" where "ExceedRetry t = base_ExceedRetry (GetTask t)"
definition Expired :: "int \<Rightarrow> Task \<Rightarrow> bool" where "Expired now t = base_Expired now (GetTask t)"
definition GetPriority :: "Task \<Rightarrow> int" where "GetPriority t = base_GetPriority (GetTask t)"
definition SetPriority :: "int \<Rightarrow> Task \<Rightarrow> Task" where "SetPriority p = map_task (base_SetPriority p)"
definition GetUserAddress :: "Task \<Rightarrow> string" where "GetUserAddress t = tUserAddress (GetTask t)"
definition SetUserAddress :: "string \<Rightarrow> Task \<Rightarrow> Task" where "SetUserAddress a = map_task (\<lambda>m. m\<lparr>tUserAddress := a\<rparr>)"
definition SetLogs :: "string \<Rightarrow> Task \<Rightarrow> Task" where "SetLogs l = map_task (\<lambda>m. m\<lparr>tLogs := l\<rparr>)"
definition GetLogs :: "Task \<Rightarrow> string" where "GetLogs t = tLogs (GetTask t)"
definition AppendLog :: "string \<Rightarrow> string \<Rightarrow> Task \<Rightarrow> Task" where "AppendLog stamp l = map_task (base_AppendLog stamp l)"
definition task_Error :: "Task \<Rightarrow> GfSpError option" where "task_Error t = base_Error (GetTask t)"
definition SetError :: "(string \<Rightarrow> GfSpError option) \<Rightarrow> go_error option \<Rightarrow> Task \<Rightarrow> Task" where
  "SetError unmarshal err = map_task (base_SetError unmarshal err)"

lemmas getter_task_defs = GetAddress_def GetCreateTime_def GetUpdateTime_def GetTimeout_def ExceedTimeout_def
  GetRetry_def GetMaxRetry_def ExceedRetry_def Expired_def GetPriority_def GetUserAddress_def GetLogs_def task_Error_def

lemmas setter_task_defs = SetAddress_def SetCreateTime_def SetUpdateTime_def SetTimeout_def IncRetry_def SetRetry_def
  SetMaxRetry_def SetPriority_def SetUserAddress_def SetLogs_def AppendLog_def SetError_def

subsection \<open>Initialisers\<close>

text \<open>The base task after \<open>m.Task = &GfSpTask{}\<close>, \<open>SetCreateTime\<close> and \<open>SetUpdateTime\<close>.\<close>

definition fresh_base :: "int \<Rightarrow> GfSpTask" where
  "fresh_base now = zero_task\<lparr>tCreateTime := now, tUpdateTime := now\<rparr>"

definition InitApprovalCreateBucketTask :: "int \<Rightarrow> string \<Rightarrow> MsgCreateBucket \<Rightarrow> int list \<Rightarrow> int \<Rightarrow> GfSpCreateBucketApprovalTask" where
  "InitApprovalCreateBucketTask now account bucket fingerprint priority =
     \<lparr>cba_Task = base_SetPriority priority ((fresh_base now)\<lparr>tUserAddress := account\<rparr>),
      cba_CreateBucketInfo = bucket, cba_Fingerprint = fingerprint\<rparr>"

definition InitApprovalMigrateBucketTask :: "int \<Rightarrow> MsgMigrateBucket \<Rightarrow> int \<Rightarrow> GfSpMigrateBucketApprovalTask" where
  "InitApprovalMigrateBucketTask now bucket priority =
     \<lparr>mba_Task = base_SetPriority priority (fresh_base now), mba_MigrateBucketInfo = bucket\<rparr>"

definition InitApprovalCreateObjectTask :: "int \<Rightarrow> string \<Rightarrow> MsgCreateObject \<Rightarrow> int list \<Rightarrow> int \<Rightarrow> GfSpCreateObjectApprovalTask" where
  "InitApprovalCreateObjectTask now account ob fingerprint priority =
     \<lparr>coa_Task = base_SetPriority priority ((fresh_base now)\<lparr>tUserAddress := account\<rparr>),
      coa_CreateObjectInfo = ob, coa_Fingerprint = fingerprint\<rparr>"

definition InitApprovalDelegateCreateObjectTask ::
  "int \<Rightarrow> string \<Rightarrow> MsgCreateObject \<Rightarrow> int list \<Rightarrow> int \<Rightarrow> GfSpDelegateCreateObjectApprovalTask" where
  "InitApprovalDelegateCreateObjectTask now account ob fingerprint priority =
     \<lparr>dca_Task = base_SetPriority priority ((fresh_base now)\<lparr>tUserAddress := account\<rparr>),
      dca_DelegateCreateObject = ob, dca_Fingerprint = fingerprint\<rparr>"

definition InitApprovalReplicatePieceTask ::
  "int \<Rightarrow> ObjectInfo \<Rightarrow> Params \<Rightarrow> int \<Rightarrow> string \<Rightarrow> GfSpReplicatePieceApprovalTask" where
  "InitApprovalReplicatePieceTask now ob params priority askOpAddress =
     \<lparr>rpa_Task = base_SetPriority priority (fresh_base now), rpa_ObjectInfo = ob, rpa_StorageParams = params,
      rpa_AskSpOperatorAddress = askOpAddress, rpa_AskSignature = [], rpa_ApprovedSpEndpoint = [],
      rpa_ApprovedSpOperatorAddress = [], rpa_ApprovedSignature = [], rpa_ApprovedSpApprovalAddress = [],
      rpa_ExpiredHeight = 0\<rparr>"

definition InitUploadObjectTask :: "int \<Rightarrow> int \<Rightarrow> ObjectInfo \<Rightarrow> Params \<Rightarrow> int \<Rightarrow> bool \<Rightarrow> GfSpUploadObjectTask" where
  "InitUploadObjectTask now vgfID ob params timeout isAgentUpload =
     \<lparr>uo_Task = (fresh_base now)\<lparr>tTimeout := timeout\<rparr>, uo_VirtualGroupFamilyId = vgfID, uo_ObjectInfo = ob,
      uo_StorageParams = params, uo_IsAgentUpload = isAgentUpload\<rparr>"

definition InitResumableUploadObjectTask ::
  "int \<Rightarrow> int \<Rightarrow> ObjectInfo \<Rightarrow> Params \<Rightarrow> int \<Rightarrow> bool \<Rightarrow> int \<Rightarrow> bool \<Rightarrow> GfSpResumableUploadObjectTask" where
  "InitResumableUploadObjectTask now vgfID ob params timeout completed offset isAgentUpload =
     \<lparr>ru_Task = (fresh_base now)\<lparr>tTimeout := timeout\<rparr>, ru_ObjectInfo = ob, ru_StorageParams = params,
      ru_Offset = offset, ru_Length = 0, ru_Completed = completed, ru_VirtualGroupFamilyId = vgfID,
      ru_IsAgentUpload = isAgentUpload\<rparr>"

definition InitReplicatePieceTask ::
  "int \<Rightarrow> ObjectInfo \<Rightarrow> Params \<Rightarrow> int \<Rightarrow> int \<Rightarrow> int \<Rightarrow> bool \<Rightarrow> GfSpReplicatePieceTask" where
  "InitReplicatePieceTask now ob params priority timeout retry isAgentUploadTask =
     \<lparr>rp_Task = (base_SetPriority priority (fresh_base now))\<lparr>tTimeout := timeout, tMaxRetry := retry\<rparr>,
      rp_ObjectInfo = ob, rp_StorageParams = params, rp_SecondaryAddresses = [], rp_SecondarySignatures = [],
      rp_Sealed = False, rp_GlobalVirtualGroupId = 0, rp_SecondaryEndpoints = [], rp_NotAvailableSpIdx = -1,
      rp_IsAgentUploadTask = isAgentUploadTask\<rparr>"

text \<open>\<open>atomic.CompareAndSwapInt32(&m.NotAvailableSpIdx, -1, idx)\<close>: only the first index is kept.\<close>

definition SetNotAvailableSpIdx :: "int \<Rightarrow> GfSpReplicatePieceTask \<Rightarrow> GfSpReplicatePieceTask" where
  "SetNotAvailableSpIdx idx m = (if rp_NotAvailableSpIdx m = -1 then m\<lparr>rp_NotAvailableSpIdx := idx\<rparr> else m)"

definition InitSealObjectTask ::
  "int \<Rightarrow> int \<Rightarrow> ObjectInfo \<Rightarrow> Params \<Rightarrow> int \<Rightarrow> string list \<Rightarrow> int list list \<Rightarrow> int \<Rightarrow> int \<Rightarrow> bool \<Rightarrow> GfSpSealObjectTask" where
  "InitSealObjectTask now vgfID ob params priority endpoints signatures timeout retry isAgentUpload =
     \<lparr>so_Task = (base_SetPriority priority (fresh_base now))\<lparr>tTimeout := timeout, tMaxRetry := retry\<rparr>,
      so_ObjectInfo = ob, so_StorageParams = params, so_SecondaryAddresses = [], so_SecondarySignatures = signatures,
      so_GlobalVirtualGroupId = vgfID, so_SecondaryEndpoints = endpoints, so_IsAgentUploadTask = isAgentUpload\<rparr>"

definition InitReceivePieceTask ::
  "int \<Rightarrow> int \<Rightarrow> ObjectInfo \<Rightarrow> Params \<Rightarrow> int \<Rightarrow> int \<Rightarrow> int \<Rightarrow> int \<Rightarrow> bool \<Rightarrow> GfSpReceivePieceTask" where
  "InitReceivePieceTask now gvgID ob params priority segmentIdx redundancyIdx pieceSize isAgentUpload =
     \<lparr>rc_Task = base_SetPriority priority (fresh_base now), rc_ObjectInfo = ob, rc_StorageParams = params,
      rc_SegmentIdx = segmentIdx, rc_RedundancyIdx = redundancyIdx, rc_PieceSize = pieceSize, rc_PieceChecksum = [],
      rc_Signature = [], rc_Sealed = False, rc_Finished = False, rc_GlobalVirtualGroupId = gvgID,
      rc_BucketMigration = False, rc_IsAgentUploadTask = isAgentUpload\<rparr>"

definition InitDownloadObjectTask ::
  "int \<Rightarrow> ObjectInfo \<Rightarrow> BucketInfo \<Rightarrow> Params \<Rightarrow> int \<Rightarrow> string \<Rightarrow> int \<Rightarrow> int \<Rightarrow> int \<Rightarrow> int \<Rightarrow> GfSpDownloadObjectTask" where
  "InitDownloadObjectTask now ob bucket params priority userAddress low high timeout maxRetry =
     \<lparr>do_Task = (base_SetPriority priority (fresh_base now))\<lparr>tUserAddress := userAddress, tTimeout := timeout,
        tMaxRetry := maxRetry\<rparr>,
      do_ObjectInfo = ob, do_BucketInfo = bucket, do_StorageParams = params, do_Low = low, do_High = high\<rparr>"

definition InitDownloadPieceTask ::
  "int \<Rightarrow> ObjectInfo \<Rightarrow> BucketInfo \<Rightarrow> Params \<Rightarrow> int \<Rightarrow> bool \<Rightarrow> string \<Rightarrow> int \<Rightarrow> string \<Rightarrow> int \<Rightarrow> int \<Rightarrow> int \<Rightarrow> int \<Rightarrow> GfSpDownloadPieceTask" where
  "InitDownloadPieceTask now ob bucket params priority enableCheck userAddress totalSize pieceKey pieceOffset
     pieceLength timeout maxRetry =
     \<lparr>dp_Task = (base_SetPriority priority (fresh_base now))\<lparr>tUserAddress := userAddress, tTimeout := timeout,
        tMaxRetry := maxRetry\<rparr>,
      dp_ObjectInfo = ob, dp_BucketInfo = bucket, dp_StorageParams = params, dp_EnableCheck = enableCheck,
      dp_TotalSize = totalSize, dp_PieceKey = pieceKey, dp_PieceOffset = pieceOffset, dp_PieceLength = pieceLength\<rparr>"

definition InitChallengePieceTask ::
  "int \<Rightarrow> ObjectInfo \<Rightarrow> BucketInfo \<Rightarrow> Params \<Rightarrow> int \<Rightarrow> string \<Rightarrow> int \<Rightarrow> int \<Rightarrow> int \<Rightarrow> int \<Rightarrow> GfSpChallengePieceTask" where
  "InitChallengePieceTask now ob bucket params priority userAddress replicateIdx segmentIdx timeout retry =
     \<lparr>cp_Task = (base_SetPriority priority (fresh_base now))\<lparr>tUserAddress := userAddress, tTimeout := timeout,
        tMaxRetry := retry\<rparr>,
      cp_ObjectInfo = ob, cp_BucketInfo = bucket, cp_StorageParams = params, cp_SegmentIdx = segmentIdx,
      cp_RedundancyIdx = replicateIdx, cp_IntegrityHash = [], cp_PieceHash = [], cp_PieceDataSize = 0\<rparr>"

definition InitGCObjectTask :: "int \<Rightarrow> int \<Rightarrow> int \<Rightarrow> int \<Rightarrow> int \<Rightarrow> GfSpGCObjectTask" where
  "InitGCObjectTask now priority start fin timeout =
     \<lparr>go_Task = (base_SetPriority priority (fresh_base now))\<lparr>tTimeout := timeout\<rparr>, go_StartBlockNumber = start,
      go_EndBlockNumber = fin, go_CurrentBlockNumber = 0, go_LastDeletedObjectId = 0, go_Running = False\<rparr>"

definition SetGCObjectProgress :: "int \<Rightarrow> int \<Rightarrow> GfSpGCObjectTask \<Rightarrow> GfSpGCObjectTask" where
  "SetGCObjectProgress block ob m = m\<lparr>go_CurrentBlockNumber := block, go_LastDeletedObjectId := ob\<rparr>"

definition GetGCObjectProgress :: "GfSpGCObjectTask \<Rightarrow> int \<times> int" where
  "GetGCObjectProgress m = (go_CurrentBlockNumber m, go_LastDeletedObjectId m)"

definition InitGCZombiePieceTask :: "int \<Rightarrow> int \<Rightarrow> int \<Rightarrow> int \<Rightarrow> int \<Rightarrow> GfSpGCZombiePieceTask" where
  "InitGCZombiePieceTask now priority start fin timeout =
     \<lparr>gz_Task = (base_SetPriority priority (fresh_base now))\<lparr>tTimeout := timeout\<rparr>, gz_Running = False,
      gz_StartObjectId = start, gz_EndObjectId = fin, gz_Finished = False\<rparr>"

definition InitGCStaleVersionObjectTask ::
  "int \<Rightarrow> int \<Rightarrow> int \<Rightarrow> int \<Rightarrow> int list \<Rightarrow> int list list \<Rightarrow> int \<Rightarrow> int \<Rightarrow> int \<Rightarrow> GfSpGCStaleVersionObjectTask" where
  "InitGCStaleVersionObjectTask now priority objectID redundancyIndex integrityChecksum pieceChecksumList version
     objectSize timeout =
     \<lparr>gs_Task = (base_SetPriority priority (fresh_base now))\<lparr>tTimeout := timeout\<rparr>, gs_ObjectId = objectID,
      gs_RedundancyIndex = redundancyIndex, gs_Version = version, gs_IntegrityChecksum = integrityChecksum,
      gs_PieceChecksumList = pieceChecksumList, gs_ObjectSize = objectSize\<rparr>"

definition InitGCMetaTask :: "int \<Rightarrow> int \<Rightarrow> int \<Rightarrow> GfSpGCMetaTask" where
  "InitGCMetaTask now priority timeout =
     \<lparr>gm_Task = (base_SetPriority priority (fresh_base now))\<lparr>tTimeout := timeout\<rparr>, gm_CurrentIdx = 0,
      gm_DeleteCount = 0\<rparr>"

text \<open>This initialiser does not set the creation and update times.\<close>

definition InitMigrateGVGTask :: "int \<Rightarrow> int \<Rightarrow> int \<Rightarrow> int \<Rightarrow> int \<Rightarrow> int \<Rightarrow> int \<Rightarrow> GfSpMigrateGVGTask" where
  "InitMigrateGVGTask priority bucketID srcGvg redundancyIndex srcSP timeout retry =
     \<lparr>mg_Task = (base_SetPriority priority zero_task)\<lparr>tTimeout := timeout, tMaxRetry := retry, tRetry := 0\<rparr>,
      mg_BucketId = bucketID, mg_SrcGvgId = srcGvg, mg_DestGvgId = 0, mg_RedundancyIdx = redundancyIndex,
      mg_SrcSpId = srcSP, mg_LastMigratedObjectId = 0, mg_Finished = False, mg_ExpireTime = 0, mg_Signature = [],
      mg_MigratedBytesSize = 0\<rparr>"

definition InitGCBucketMigrationTask :: "int \<Rightarrow> int \<Rightarrow> int \<Rightarrow> int \<Rightarrow> int \<Rightarrow> GfSpGCBucketMigrationTask" where
  "InitGCBucketMigrationTask now priority bucketID timeout retry =
     \<lparr>gb_Task = (base_SetPriority priority zero_task)\<lparr>tTimeout := timeout, tMaxRetry := retry, tRetry := 0,
        tUpdateTime := now\<rparr>,
      gb_BucketId = bucketID, gb_LastGcObjectId = 0, gb_LastGcGvgId = 0, gb_Finished = False, gb_TotalGvgNum = 0,
      gb_GcFinishedGvgNum = 0\<rparr>"

definition InitRecoverPieceTask ::
  "int \<Rightarrow> ObjectInfo \<Rightarrow> Params \<Rightarrow> int \<Rightarrow> int \<Rightarrow> int \<Rightarrow> int \<Rightarrow> int \<Rightarrow> int \<Rightarrow> GfSpRecoverPieceTask" where
  "InitRecoverPieceTask now ob params priority segmentIdx ecIdx pieceSize timeout retry =
     \<lparr>re_Task = (base_SetPriority priority (fresh_base now))\<lparr>tTimeout := timeout, tMaxRetry := retry\<rparr>,
      re_ObjectInfo = ob, re_StorageParams = params, re_SegmentIdx = segmentIdx, re_EcIdx = ecIdx,
      re_PieceSize = pieceSize, re_Signature = [], re_Recovered = False, re_BySuccessorSp = False, re_GvgId = 0\<rparr>"


subsection \<open>Resource estimates\<close>

definition round_half_even :: "rat \<Rightarrow> int" where
  "round_half_even x =
     (let n = \<lfloor>x\<rfloor>; d = x - of_int n
      in if d < 1 / 2 then n else if d > 1 / 2 then n + 1 else if even n then n else n + 1)"

definition f64 :: "rat \<Rightarrow> rat" where
  "f64 x = (let s = 2 powi (53 - int (floorlog 2 (nat \<lfloor>x\<rfloor>))) in of_int (round_half_even (x * s)) / s)"

text \<open>\<open>int64(math.Ceil(x))\<close>; out of range the conversion is left to the implementation.\<close>

definition int64_ceil :: "rat \<Rightarrow> int option" where
  "int64_ceil x = (if \<lceil>x\<rceil> < 2 ^ 63 then Some \<lceil>x\<rceil> else None)"

text \<open>\<open>l.Add(LimitEstimateByPriority(m.GetPriority()))\<close> on a limit with the given memory.\<close>

definition estimate :: "GfSpTask \<Rightarrow> int \<Rightarrow> GfSpLimit" where
  "estimate b mem = limit_Add (zero_limit\<lparr>limMemory := mem\<rparr>) (LimitEstimateByPriority (base_GetPriority b))"

definition upload_mem :: "ObjectInfo \<Rightarrow> Params \<Rightarrow> int" where
  "upload_mem ob params =
     (if oPayloadSize ob \<ge> MaxSegmentSize params then i64 (i64 (MaxSegmentSize params) * 2)
      else i64 (i64 (oPayloadSize ob) * 2))"

definition ec_replicate_mem :: "Params \<Rightarrow> int option" where
  "ec_replicate_mem params =
     (let m = f64 (of_int (MaxSegmentSize params)); d = f64 (of_int (RedundantDataChunkNum params));
          p = f64 (of_int (RedundantParityChunkNum params))
      in if d = 0 then None else int64_ceil (f64 (f64 (m * f64 (d + p)) / d)))"

definition replicate_mem :: "ObjectInfo \<Rightarrow> Params \<Rightarrow> int option" where
  "replicate_mem ob params =
     (if oRedundancyType ob = REDUNDANCY_REPLICA_TYPE
      then if oPayloadSize ob < MaxPayloadSize params then Some (i64 (oPayloadSize ob))
           else Some (i64 (MaxSegmentSize params))
      else ec_replicate_mem params)"

definition download_GetSize :: "GfSpDownloadObjectTask \<Rightarrow> int" where
  "download_GetSize m = (if do_High m < do_Low m then 0 else i64 (do_High m - do_Low m + 1))"

definition challenge_mem :: "GfSpChallengePieceTask \<Rightarrow> int option" where
  "challenge_mem m =
     (let payloadSize = oPayloadSize (cp_ObjectInfo m); maxSegmentSize = MaxSegmentSize (cp_StorageParams m);
          dataChunkNum = RedundantDataChunkNum (cp_StorageParams m)
      in if maxSegmentSize = 0 then None
         else let q = payloadSize div maxSegmentSize;
                  segmentCount = (if payloadSize mod maxSegmentSize \<noteq> 0 then u64 (q + 1) else q);
                  rest = i64 (i64 (i64 segmentCount - 1) * i64 maxSegmentSize)
         in if cp_RedundancyIdx m < 0
            then if segmentCount = 1 then Some (i64 payloadSize)
                 else if cp_SegmentIdx m = u32 (u64 (segmentCount - 1)) then Some (i64 (i64 payloadSize - rest))
                 else Some (i64 maxSegmentSize)
            else if i64 dataChunkNum = 0 then None
            else if segmentCount = 1 then Some (i64 (i64 payloadSize sdiv i64 dataChunkNum))
            else if cp_SegmentIdx m = u32 (u64 (segmentCount - 1))
            then Some (i64 (i64 payloadSize - i64 (rest sdiv i64 dataChunkNum)))
            else Some (i64 (i64 maxSegmentSize sdiv i64 dataChunkNum)))"

fun EstimateLimit :: "Task \<Rightarrow> GfSpLimit option" where
  "EstimateLimit (CreateBucketApproval m) = Some (estimate (cba_Task m) 0)"
| "EstimateLimit (MigrateBucketApproval m) = Some (estimate (mba_Task m) 0)"
| "EstimateLimit (CreateObjectApproval m) = Some (estimate (coa_Task m) 0)"
| "EstimateLimit (DelegateCreateObjectApproval m) = Some (estimate (dca_Task m) 0)"
| "EstimateLimit (ReplicatePieceApproval m) = Some (estimate (rpa_Task m) 0)"
| "EstimateLimit (UploadObject m) = Some (estimate (uo_Task m) (upload_mem (uo_ObjectInfo m) (uo_StorageParams m)))"
| "EstimateLimit (ResumableUploadObject m) =
     Some (estimate (ru_Task m) (upload_mem (ru_ObjectInfo m) (ru_StorageParams m)))"
| "EstimateLimit (ReplicatePiece m) =
     map_option (estimate (rp_Task m)) (replicate_mem (rp_ObjectInfo m) (rp_StorageParams m))"
| "EstimateLimit (SealObject m) = Some (estimate (so_Task m) 0)"
| "EstimateLimit (ReceivePiece m) = Some (estimate (rc_Task m) (rc_PieceSize m))"
| "EstimateLimit (DownloadObject m) = Some (estimate (do_Task m) (download_GetSize m))"
| "EstimateLimit (DownloadPiece m) = Some (estimate (dp_Task m) (i64 (dp_PieceLength m)))"
| "EstimateLimit (ChallengePiece m) = map_option (estimate (cp_Task m)) (challenge_mem m)"
| "EstimateLimit (GCObject m) = Some (LimitEstimateByPriority (base_GetPriority (go_Task m)))"
| "EstimateLimit (GCZombiePiece m) = Some (LimitEstimateByPriority (base_GetPriority (gz_Task m)))"
| "EstimateLimit (GCStaleVersionObject m) = Some (LimitEstimateByPriority (base_GetPriority (gs_Task m)))"
| "EstimateLimit (GCMeta m) = Some (LimitEstimateByPriority (base_GetPriority (gm_Task m)))"
| "EstimateLimit (MigrateGVG m) = Some (LimitEstimateByPriority (base_GetPriority (mg_Task m)))"
| "EstimateLimit (GCBucketMigration m) = Some (LimitEstimateByPriority (base_GetPriority (gb_Task m)))"
| "EstimateLimit (RecoverPiece m) = Some (estimate (re_Task m) (i64 (2 * i64 (oPayloadSize (re_ObjectInfo m)))))"

subsection \<open>Timeouts, retries and priorities\<close>

record GfSpBaseApp =
  uploadSpeed :: int
  downloadSpeed :: int
  replicateSpeed :: int
  sealObjectTimeout :: int
  gcObjectTimeout :: int
  gcZombieTimeout :: int
  gcMetaTimeout :: int
  migrateGVGTimeout :: int
  gcBucketMigrationTimeout :: int
  gcStaleVersionObjectTimeout :: int
  replicateRetry :: int
  receiveConfirmRetry :: int
  sealObjectRetry :: int
  gcObjectRetry :: int
  gcZombieRetry :: int
  gcMetaRetry :: int
  recoveryRetry :: int
  migrateGVGRetry :: int
  gcBucketMigrationRetry :: int

definition clamp :: "int \<Rightarrow> int \<Rightarrow> int \<Rightarrow> int" where
  "clamp lo hi v = (if v < lo then lo else if v > hi then hi else v)"

definition clamp_uint64 :: "int \<Rightarrow> int \<Rightarrow> int \<Rightarrow> int" where
  "clamp_uint64 lo hi v = (if v < u64 lo then lo else if v > u64 hi then hi else Uint64ToInt64 v)"

text \<open>\<open>size / (uint64(speed) + 1) / MinSpeed\<close>; \<open>None\<close> is the panic of a zero divisor.\<close>

definition by_speed :: "int \<Rightarrow> int \<Rightarrow> int option" where
  "by_speed sz speed =
     (let d = u64 (u64 speed + 1) in if d = 0 then None else Some (sz div d div (10 * 1024 * 1024)))"

fun TaskTimeout :: "GfSpBaseApp \<Rightarrow> TType \<Rightarrow> int \<Rightarrow> int option" where
  "TaskTimeout g TypeTaskCreateBucketApproval sz = Some 0"
| "TaskTimeout g TypeTaskCreateObjectApproval sz = Some 0"
| "TaskTimeout g TypeTaskReplicatePieceApproval sz = Some 0"
| "TaskTimeout g TypeTaskUpload sz = map_option (clamp_uint64 2 300) (by_speed sz (uploadSpeed g))"
| "TaskTimeout g TypeTaskReplicatePiece sz = map_option (clamp_uint64 90 500) (by_speed sz (replicateSpeed g))"
| "TaskTimeout g TypeTaskReceivePiece sz = map_option (clamp_uint64 90 300) (by_speed sz (replicateSpeed g))"
| "TaskTimeout g TypeTaskSealObject sz = Some (clamp 90 300 (sealObjectTimeout g))"
| "TaskTimeout g TypeTaskDownloadObject sz = map_option (clamp_uint64 2 300) (by_speed sz (downloadSpeed g))"
| "TaskTimeout g TypeTaskChallengePiece sz = map_option (clamp_uint64 2 300) (by_speed sz (downloadSpeed g))"
| "TaskTimeout g TypeTaskGCObject sz = Some (clamp 300 600 (gcObjectTimeout g))"
| "TaskTimeout g TypeTaskGCZombiePiece sz = Some (clamp 300 600 (gcZombieTimeout g))"
| "TaskTimeout g TypeTaskGCMeta sz = Some (clamp 300 600 (gcMetaTimeout g))"
| "TaskTimeout g TypeTaskRecoverPiece sz =
     map_option (\<lambda>v. clamp_uint64 10 50 (u64 (v + 1))) (by_speed sz (replicateSpeed g))"
| "TaskTimeout g TypeTaskMigrateGVG sz = Some (clamp 1800 3600 (migrateGVGTimeout g))"
| "TaskTimeout g TypeTaskGCBucketMigration sz = Some (clamp 1800 3600 (gcBucketMigrationTimeout g))"
| "TaskTimeout g TypeTaskGCStaleVersionObject sz = Some (clamp 300 600 (gcStaleVersionObjectTimeout g))"
| "TaskTimeout g _ sz = Some 0"

fun TaskMaxRetry :: "GfSpBaseApp \<Rightarrow> TType \<Rightarrow> int" where
  "TaskMaxRetry g TypeTaskReplicatePiece = clamp 3 6 (replicateRetry g)"
| "TaskMaxRetry g TypeTaskReceivePiece = clamp 1 3 (receiveConfirmRetry g)"
| "TaskMaxRetry g TypeTaskSealObject = clamp 3 10 (sealObjectRetry g)"
| "TaskMaxRetry g TypeTaskGCObject = clamp 3 5 (gcObjectRetry g)"
| "TaskMaxRetry g TypeTaskGCZombiePiece = clamp 3 5 (gcZombieRetry g)"
| "TaskMaxRetry g TypeTaskGCMeta = clamp 3 5 (gcMetaRetry g)"
| "TaskMaxRetry g TypeTaskRecoverPiece = clamp 2 3 (recoveryRetry g)"
| "TaskMaxRetry g TypeTaskMigrateGVG = clamp 2 3 (migrateGVGRetry g)"
| "TaskMaxRetry g TypeTaskGCBucketMigration = clamp 3 5 (gcBucketMigrationRetry g)"
| "TaskMaxRetry g _ = 0"

fun TaskPriority :: "TType \<Rightarrow> int" where
  "TaskPriority TypeTaskReplicatePiece = MaxTaskPriority"
| "TaskPriority TypeTaskReceivePiece = DefaultSmallerPriority div 4"
| "TaskPriority TypeTaskSealObject = DefaultSmallerPriority"
| "TaskPriority TypeTaskGCObject = DefaultSmallerPriority div 4"
| "TaskPriority TypeTaskGCZombiePiece = DefaultSmallerPriority div 4"
| "TaskPriority TypeTaskGCMeta = DefaultSmallerPriority div 4"
| "TaskPriority TypeTaskGCBucketMigration = DefaultSmallerPriority div 4"
| "TaskPriority TypeTaskGCStaleVersionObject = DefaultSmallerPriority div 4"
| "TaskPriority TypeTaskRecoverPiece = DefaultSmallerPriority div 4"
| "TaskPriority TypeTaskMigrateGVG = DefaultSmallerPriority"
| "TaskPriority TypeTaskDownloadPiece = UnKnownTaskPriority"
| "TaskPriority TypeTaskUnknown = UnKnownTaskPriority"
| "TaskPriority _ = UnSchedulingPriority"

datatype TPriorityLevel = TLowPriorityLevel | TMediumPriorityLevel | THighPriorityLevel

definition TaskPriorityLevel :: "Task \<Rightarrow> TPriorityLevel" where
  "TaskPriorityLevel t =
     (if GetPriority t \<le> DefaultSmallerPriority then TLowPriorityLevel
      else if GetPriority t > DefaultLargerTaskPriority then THighPriorityLevel
      else TMediumPriorityLevel)"

end
