(* ===== verification/SP_TaskProps.thy ===== *)
theory SP_TaskProps
  imports SP_TaskOps
begin

text \<open>
  What the queues and the scheduler rely on when they hold tasks: the operations a scheduler applies
  to a task keep its key, an estimate always asks for exactly one task slot of the class its priority
  belongs to, the floating-point estimate of a replication is exact for the sizes in use, and keys of
  uploads are injective.
\<close>

subsection \<open>The contract of delegation\<close>

locale base_task =
  fixes get :: "'t \<Rightarrow> GfSpTask" and upd :: "(GfSpTask \<Rightarrow> GfSpTask) \<Rightarrow> 't \<Rightarrow> 't"
    and key :: "'t \<Rightarrow> string" and kind :: "'t \<Rightarrow> TType"
  assumes get_upd: "get (upd f m) = f (get m)"
    and upd_upd: "upd f (upd g m) = upd (\<lambda>b. f (g b)) m"
    and kind_upd: "kind (upd f m) = kind m"
    and key_upd: "tCreateTime (f (get m)) = tCreateTime (get m) \<Longrightarrow> tUserAddress (f (get m)) = tUserAddress (get m)
      \<Longrightarrow> key (upd f m) = key m"
begin

definition keeps_key :: "(GfSpTask \<Rightarrow> GfSpTask) \<Rightarrow> bool" where
  "keeps_key f \<longleftrightarrow> (\<forall>b. tCreateTime (f b) = tCreateTime b \<and> tUserAddress (f b) = tUserAddress b)"

lemma upd_keeps: "keeps_key f \<Longrightarrow> key (upd f m) = key m \<and> kind (upd f m) = kind m"
  by (simp add: keeps_key_def key_upd kind_upd)

lemma upd_funpow: "(upd f ^^ n) m = upd (f ^^ n) m \<or> n = 0"
  by (induction n) (auto simp: upd_upd comp_def)

lemma get_funpow: "get ((upd f ^^ n) m) = (f ^^ n) (get m)"
  by (induction n) (auto simp: get_upd)

end

interpretation any_task: base_task GetTask map_task Key Type
proof (unfold_locales, goal_cases)
  case (1 f m) then show ?case by (cases m) simp_all
next
  case (2 f g m) then show ?case by (cases m) simp_all
next
  case (3 f m) then show ?case by (cases m) simp_all
next
  case (4 f m) then show ?case by (cases m) simp_all
qed

subsection \<open>Rounding to a double\<close>

lemma round_half_even_int [simp]: "round_half_even (of_int k) = k"
  by (simp add: round_half_even_def)

lemma round_half_even_le: "x \<le> of_int k \<Longrightarrow> round_half_even x \<le> k"
proof -
  assume x: "x \<le> of_int k"
  have "\<lfloor>x\<rfloor> \<le> k" using x by (simp add: floor_le_iff)
  moreover have "x = of_int k" if "\<lfloor>x\<rfloor> = k" using x that by linarith
  ultimately show ?thesis by (cases "\<lfloor>x\<rfloor> = k") (auto simp: round_half_even_def Let_def)
qed

lemma round_half_even_ge: "x - 1 / 2 \<le> of_int (round_half_even x)"
  unfolding round_half_even_def Let_def by (auto; linarith)

lemma floorlog_le_53: "0 \<le> n \<Longrightarrow> n < 2 ^ 53 \<Longrightarrow> floorlog 2 (nat n) \<le> 53" for n :: int
  by (intro floorlog_leI) (auto simp: nat_less_iff)

lemma scale_int: "e \<le> 53 \<Longrightarrow> (2::rat) powi (53 - int e) = of_int (2 ^ (53 - e))"
  by (metis of_int_numeral of_int_power of_nat_diff power_int_of_nat of_nat_numeral)

lemma f64_int: "0 \<le> n \<Longrightarrow> n < 2 ^ 53 \<Longrightarrow> f64 (of_int n) = of_int n"
proof -
  assume n: "0 \<le> n" "n < 2 ^ 53"
  let ?e = "floorlog 2 (nat n)"
  have "of_int n * of_int (2 ^ (53 - ?e)) = (of_int (n * 2 ^ (53 - ?e)) :: rat)" by simp
  then show ?thesis
    by (simp only: f64_def floor_of_int scale_int [OF floorlog_le_53 [OF n]] Let_def round_half_even_int) simp
qed

lemma ceiling_ceil_div: "0 < d \<Longrightarrow> 0 \<le> a \<Longrightarrow> \<lceil>of_int a / of_int d :: rat\<rceil> = ceil_div a d"
proof (rule ceiling_unique)
  assume d: "0 < d" "0 \<le> a"
  note b = ceil_div_bounds [OF d]
  have "(ceil_div a d - 1) * d < a" using b by (simp add: algebra_simps)
  then have "of_int (ceil_div a d - 1) * of_int d < (of_int a :: rat)" by (metis of_int_less_iff of_int_mult)
  then show "of_int (ceil_div a d) - 1 < (of_int a / of_int d :: rat)" using d(1) by (simp add: less_divide_eq)
  have "(of_int a :: rat) \<le> of_int (ceil_div a d) * of_int d" using b by (metis of_int_le_iff of_int_mult)
  then show "(of_int a / of_int d :: rat) \<le> of_int (ceil_div a d)" using d(1) by (simp add: divide_le_eq)
qed

lemma f64_quotient:
  fixes a d :: int
  assumes "0 < d" "d \<le> a" "a < 2 ^ 53"
  shows "\<lceil>f64 (of_int a / of_int d)\<rceil> = \<lceil>of_int a / of_int d :: rat\<rceil>"
proof -
  define x where "x = (of_int a / of_int d :: rat)"
  define e where "e = floorlog 2 (nat \<lfloor>x\<rfloor>)"
  have x: "1 \<le> x" "x < 2 ^ 53" using assms by (simp_all add: x_def divide_less_eq)
  then have fl: "0 < nat \<lfloor>x\<rfloor>" "\<lfloor>x\<rfloor> < 2 ^ 53" by (auto simp: floor_less_iff)
  have e: "e \<le> 53" "1 \<le> e" using floorlog_le_53 [of "\<lfloor>x\<rfloor>"] fl by (auto simp: e_def floorlog_def)
  let ?s = "2 ^ (53 - e) :: int"
  have f: "f64 x = of_int (round_half_even (x * of_int ?s)) / of_int ?s"
    by (simp only: f64_def e_def [symmetric] scale_int [OF e(1)] Let_def)
  let ?n = "\<lceil>x\<rceil>"
  have up: "f64 x \<le> of_int ?n"
  proof -
    have "x * of_int ?s \<le> of_int (?n * ?s)" by (simp add: mult_right_mono)
    from round_half_even_le [OF this] have "of_int (round_half_even (x * of_int ?s)) \<le> (of_int ?n * of_int ?s :: rat)"
      by (metis of_int_le_iff of_int_mult)
    then show ?thesis unfolding f by (simp add: divide_le_eq)
  qed
  have lo: "of_int ?n - 1 < f64 x"
  proof -
    have "2 ^ (e - 1) \<le> nat \<lfloor>x\<rfloor>" using floorlog_bounds [of "nat \<lfloor>x\<rfloor>" 2] fl by (simp add: e_def)
    then have "(2::int) ^ (e - 1) \<le> \<lfloor>x\<rfloor>" using fl by (metis nat_le_iff of_nat_numeral of_nat_power zle_int int_nat_eq le_nat_iff less_imp_le zero_less_nat_eq)
    then have "(2::rat) ^ (e - 1) \<le> x" by (metis le_floor_iff of_int_numeral of_int_power)
    then have "of_int (d * 2 ^ (e - 1)) \<le> (of_int a :: rat)" using assms(1) by (simp add: x_def le_divide_eq mult.commute)
    then have "d * 2 ^ (e - 1) < 2 ^ 53" using assms(3) by linarith
    moreover have "(2::int) ^ 53 = 2 ^ (e - 1) * (2 * ?s)" using e by (simp flip: power_add power_Suc)
    ultimately have ds: "d < 2 * ?s" by (metis mult.commute mult_less_cancel_left_pos zero_less_numeral zero_less_power)
    have "of_int (?n - 1) < x" by linarith
    then have "of_int (?n - 1) * of_int d < (of_int a :: rat)" using assms(1) by (simp add: x_def less_divide_eq)
    then have "(?n - 1) * d < a" by (metis of_int_less_iff of_int_mult)
    then have "of_int ((?n - 1) * d + 1) \<le> (of_int a :: rat)" by linarith
    then have "of_int ((?n - 1) * d + 1) / of_int d \<le> x" using assms(1) unfolding x_def by (intro divide_right_mono) auto
    then have "of_int ?n - 1 + 1 / of_int d \<le> x" using assms(1) by (simp add: add_divide_distrib)
    moreover have "1 / (2 * of_int ?s) < (1 / of_int d :: rat)" using ds assms(1)
      by (intro divide_strict_left_mono) (metis of_int_less_iff of_int_mult of_int_numeral, simp_all)
    moreover have "x - 1 / (2 * of_int ?s) \<le> f64 x"
    proof -
      have "(x * of_int ?s - 1 / 2) / of_int ?s \<le> f64 x" unfolding f by (intro divide_right_mono round_half_even_ge) simp
      then show ?thesis by (simp add: diff_divide_distrib)
    qed
    ultimately show ?thesis by linarith
  qed
  show ?thesis using up lo unfolding x_def [symmetric] by (intro ceiling_unique) auto
qed


subsection \<open>Properties of tasks\<close>

lemma estimate_fields:
  "is_i64 mem \<Longrightarrow> limMemory (estimate b mem) = mem" "limTasks (estimate b mem) = 1"
  "limFd (estimate b mem) = 0" "limConns (estimate b mem) = 0" "limConnsInbound (estimate b mem) = 0"
  "limConnsOutbound (estimate b mem) = 0"
  "limTasksHighPriority (estimate b mem) = limTasksHighPriority (LimitEstimateByPriority (base_GetPriority b))"
  "limTasksMediumPriority (estimate b mem) = limTasksMediumPriority (LimitEstimateByPriority (base_GetPriority b))"
  "limTasksLowPriority (estimate b mem) = limTasksLowPriority (LimitEstimateByPriority (base_GetPriority b))"
  by (simp_all add: estimate_def limit_Add_def LimitEstimateByPriority_def zero_limit_def getter_defs i32_def)

lemma EstimateLimit_class:
  assumes "EstimateLimit t = Some l"
  shows "limTasks l = 1 \<and> limFd l = 0 \<and> limConns l = 0 \<and> limConnsInbound l = 0 \<and> limConnsOutbound l = 0
    \<and> limTasksHighPriority l = limTasksHighPriority (LimitEstimateByPriority (GetPriority t))
    \<and> limTasksMediumPriority l = limTasksMediumPriority (LimitEstimateByPriority (GetPriority t))
    \<and> limTasksLowPriority l = limTasksLowPriority (LimitEstimateByPriority (GetPriority t))"
  using assms
  by (cases t) (auto simp: estimate_fields GetPriority_def LimitEstimateByPriority_def zero_limit_def)

text \<open>
  retrying, touching, rescheduling, relabelling or failing a task never changes its key or its
  type, so a task that a queue holds under its key stays under that key: only the creation time and
  the user address enter keys.
\<close>

theorem scheduling_keeps_key:
  "Key (IncRetry t) = Key t \<and> Key (SetRetry n t) = Key t \<and> Key (SetMaxRetry n t) = Key t
   \<and> Key (SetUpdateTime n t) = Key t \<and> Key (SetTimeout n t) = Key t \<and> Key (SetPriority n t) = Key t
   \<and> Key (SetAddress a t) = Key t \<and> Key (SetLogs a t) = Key t \<and> Key (AppendLog stamp a t) = Key t
   \<and> Key (SetError js err t) = Key t \<and> Type (IncRetry t) = Type t \<and> Type (SetUpdateTime n t) = Type t"
proof -
  have k: "any_task.keeps_key base_IncRetry" "any_task.keeps_key (\<lambda>m. m\<lparr>tRetry := n\<rparr>)"
    "any_task.keeps_key (\<lambda>m. m\<lparr>tMaxRetry := n\<rparr>)" "any_task.keeps_key (\<lambda>m. m\<lparr>tUpdateTime := n\<rparr>)"
    "any_task.keeps_key (\<lambda>m. m\<lparr>tTimeout := n\<rparr>)" "any_task.keeps_key (base_SetPriority n)"
    "any_task.keeps_key (\<lambda>m. m\<lparr>tAddress := a\<rparr>)" "any_task.keeps_key (\<lambda>m. m\<lparr>tLogs := a\<rparr>)"
    "any_task.keeps_key (base_AppendLog stamp a)" "any_task.keeps_key (base_SetError js err)"
    by (simp_all add: any_task.keeps_key_def base_IncRetry_def base_SetPriority_def base_AppendLog_def base_SetError_def)
  show ?thesis by (simp add: setter_task_defs k [THEN any_task.upd_keeps])
qed

text \<open>
  every resource estimate asks for exactly one task slot, of exactly one priority class, and for
  no connection and no file descriptor, whatever the kind of the task.
\<close>

theorem EstimateLimit_one_slot:
  assumes "EstimateLimit t = Some l"
  shows "limTasks l = 1 \<and> limTasksHighPriority l + limTasksMediumPriority l + limTasksLowPriority l = 1
    \<and> 0 \<le> limTasksHighPriority l \<and> 0 \<le> limTasksMediumPriority l \<and> 0 \<le> limTasksLowPriority l
    \<and> limFd l = 0 \<and> limConns l = 0 \<and> limConnsInbound l = 0 \<and> limConnsOutbound l = 0
    \<and> (limTasksHighPriority l = 1 \<longleftrightarrow> GetPriority t > DefaultLargerTaskPriority)
    \<and> (limTasksLowPriority l = 1 \<longleftrightarrow> GetPriority t < DefaultSmallerPriority)"
  using EstimateLimit_class [OF assms]
  by (auto simp: LimitEstimateByPriority_def zero_limit_def priority_defs)

definition sample_object :: "int \<Rightarrow> ObjectInfo" where
  "sample_object payload = \<lparr>oBucketName = ''b'', oObjectName = ''o'', oId = 7, oPayloadSize = payload,
     oRedundancyType = REDUNDANCY_EC_TYPE, oVersion = 0, oObjectStatus = OBJECT_STATUS_CREATED, oIsUpdating = False,
     oChecksums = [], oOwner = ''u'', oCreateAt = 0, oLocalVirtualGroupId = 1\<rparr>"

definition sample_params :: Params where
  "sample_params = \<lparr>MaxPayloadSize = 1000, MaxSegmentSize = 16, RedundantDataChunkNum = 4, RedundantParityChunkNum = 2\<rparr>"

theorem EstimateLimit_one_slot_witness:
  "\<exists>l. EstimateLimit (RecoverPiece (InitRecoverPieceTask 5 (sample_object 40) sample_params 85 1 0 16 10 3)) = Some l
     \<and> limTasks l = 1 \<and> limTasksHighPriority l + limTasksMediumPriority l + limTasksLowPriority l = 1"
proof -
  let ?t = "RecoverPiece (InitRecoverPieceTask 5 (sample_object 40) sample_params 85 1 0 16 10 3)"
  obtain l where l: "EstimateLimit ?t = Some l" by simp
  from EstimateLimit_one_slot [OF l] l show ?thesis by blast
qed

text \<open>
  the memory a replication of an erasure-coded object reserves, computed in \<open>float64\<close>, is exactly
  the size of all chunks of one segment, rounded up, as long as that product is below \<open>2 ^ 53\<close>: no
  rounding error reaches the reservation.
\<close>

theorem ec_replicate_mem_exact:
  assumes "0 \<le> MaxSegmentSize p" and "0 < RedundantDataChunkNum p" and "0 \<le> RedundantParityChunkNum p"
    and "RedundantDataChunkNum p + RedundantParityChunkNum p < 2 ^ 53"
    and "MaxSegmentSize p * (RedundantDataChunkNum p + RedundantParityChunkNum p) < 2 ^ 53"
  shows "ec_replicate_mem p = Some (ceil_div (MaxSegmentSize p * (RedundantDataChunkNum p + RedundantParityChunkNum p))
    (RedundantDataChunkNum p))"
proof -
  obtain m d r where p: "MaxSegmentSize p = m" "RedundantDataChunkNum p = d" "RedundantParityChunkNum p = r" by blast
  note a = assms [unfolded p]
  have md: "m \<le> m * (d + r)" using a(1-3) by (simp add: mult_le_cancel_left1)
  then have m: "m < 2 ^ 53" using a(5) by linarith
  have r1: "f64 (of_int m) = of_int m" "f64 (of_int d) = of_int d" "f64 (of_int r) = of_int r"
    using a m by (auto intro: f64_int)
  have r2: "f64 (of_int d + of_int r) = of_int (d + r)" using f64_int [of "d + r"] a by simp
  have r3: "f64 (of_int m * of_int (d + r)) = of_int (m * (d + r))" using f64_int [of "m * (d + r)"] a by simp
  have c: "\<lceil>f64 (of_int (m * (d + r)) / of_int d)\<rceil> = ceil_div (m * (d + r)) d"
  proof (cases "m = 0")
    case True then show ?thesis using a(2) f64_int [of 0] by (simp add: div_pos_pos_trivial)
  next
    case False
    then have "1 * d \<le> m * (d + r)" using a(1-3) by (intro mult_mono) auto
    then have "\<lceil>f64 (of_int (m * (d + r)) / of_int d)\<rceil> = \<lceil>of_int (m * (d + r)) / of_int d :: rat\<rceil>"
      using a by (intro f64_quotient) auto
    also have "\<dots> = ceil_div (m * (d + r)) d"
      using a(1-3) by (intro ceiling_ceil_div) auto
    finally show ?thesis .
  qed
  have "ceil_div (m * (d + r)) d < 2 ^ 63"
  proof -
    have "0 \<le> m * (d + r) + d - 1" using a(1-3) md by linarith
    then have "ceil_div (m * (d + r)) d \<le> m * (d + r) + d - 1"
      using zdiv_mono2 [of "m * (d + r) + d - 1" 1 d] a(2) by simp
    then show ?thesis using a by (simp add: power_numeral)
  qed
  then show ?thesis
    unfolding ec_replicate_mem_def Let_def p r1 r2 r3 int64_ceil_def c using a(2) by simp
qed

theorem ec_replicate_mem_exact_witness: "ec_replicate_mem sample_params = Some 24"
  using ec_replicate_mem_exact [of sample_params] by (simp add: sample_params_def)


text \<open>
  the priority level that limits concurrent tasks and the class of the slot a task reserves agree
  for every priority but one: a task of the smaller default priority, which sealing and migrating a
  virtual group use, counts as a low level task and reserves a medium slot.
\<close>

theorem priority_level_and_slot:
  "((TaskPriorityLevel t = TLowPriorityLevel) = (limTasksLowPriority (LimitEstimateByPriority (GetPriority t)) = 1))
     = (GetPriority t \<noteq> DefaultSmallerPriority)
   \<and> ((TaskPriorityLevel t = THighPriorityLevel) = (limTasksHighPriority (LimitEstimateByPriority (GetPriority t)) = 1))
   \<and> TaskPriority TypeTaskSealObject = DefaultSmallerPriority \<and> TaskPriority TypeTaskMigrateGVG = DefaultSmallerPriority"
  by (simp add: TaskPriorityLevel_def LimitEstimateByPriority_def zero_limit_def priority_defs)

lemma append_colon_inject:
  "CHR '':'' \<notin> set b \<Longrightarrow> CHR '':'' \<notin> set b' \<Longrightarrow> b @ suf @ CHR '':'' # r = b' @ suf @ CHR '':'' # r' \<Longrightarrow>
    CHR '':'' \<notin> set suf \<Longrightarrow> b = b' \<and> r = r'"
proof -
  assume a: "CHR '':'' \<notin> set b" "CHR '':'' \<notin> set b'" "b @ suf @ CHR '':'' # r = b' @ suf @ CHR '':'' # r'" "CHR '':'' \<notin> set suf"
  have "takeWhile (\<lambda>c. c \<noteq> CHR '':'') (xs @ CHR '':'' # ys) = xs \<and> dropWhile (\<lambda>c. c \<noteq> CHR '':'') (xs @ CHR '':'' # ys) = CHR '':'' # ys"
    if "CHR '':'' \<notin> set xs" for xs ys :: string using that by (induction xs) auto
  from this [of "b @ suf" r] this [of "b' @ suf" r'] a show ?thesis by auto
qed

lemma last_colon_inject:
  assumes "CHR '':'' \<notin> set i" "CHR '':'' \<notin> set i'" "ob @ suf @ CHR '':'' # i = ob' @ suf @ CHR '':'' # i'"
    "CHR '':'' \<notin> set suf"
  shows "ob = ob' \<and> i = i'"
proof -
  have "rev (ob @ suf @ CHR '':'' # i) = rev (ob' @ suf @ CHR '':'' # i')" using assms(3) by simp
  then have "rev i @ [] @ CHR '':'' # rev (ob @ suf) = rev i' @ [] @ CHR '':'' # rev (ob' @ suf)" by simp
  from append_colon_inject [OF _ _ this] assms(1,2,4) show ?thesis by simp
qed

text \<open>
  the key that the upload, replication and sealing of an object share determines the object: two
  objects with the same key have the same bucket, name and identifier, provided bucket names hold no
  colon (the naming rule of buckets), although names may hold the delimiter.
\<close>

theorem upload_key_injective:
  assumes "CHR '':'' \<notin> set (oBucketName a)" and "CHR '':'' \<notin> set (oBucketName b)"
    and "on_object GfSpUploadObjectTaskKey a = on_object GfSpSealObjectTaskKey b"
  shows "oBucketName a = oBucketName b \<and> oObjectName a = oObjectName b \<and> oId a = oId b"
proof -
  have "oBucketName a @ ''-object'' @ CHR '':'' # (oObjectName a @ ''-id'' @ CHR '':'' # show_int (oId a))
      = oBucketName b @ ''-object'' @ CHR '':'' # (oObjectName b @ ''-id'' @ CHR '':'' # show_int (oId b))"
    using assms(3) by (simp add: on_object_def GfSpUploadObjectTaskKey_def GfSpSealObjectTaskKey_def)
  from append_colon_inject [OF assms(1,2) this]
  have n: "oBucketName a = oBucketName b"
    "oObjectName a @ ''-id'' @ CHR '':'' # show_int (oId a) = oObjectName b @ ''-id'' @ CHR '':'' # show_int (oId b)" by simp_all
  have "CHR '':'' \<notin> set (show_int k)" for k by (rule not_in_show_int) simp_all
  with last_colon_inject [OF _ _ n(2)] n(1) show ?thesis by simp
qed

theorem upload_key_injective_witness:
  "on_object GfSpUploadObjectTaskKey (sample_object 40) = on_object GfSpSealObjectTaskKey (sample_object 9)
   \<and> oObjectName (sample_object 40) = oObjectName (sample_object 9)"
  using upload_key_injective [of "sample_object 40" "sample_object 9"]
  by (simp add: sample_object_def on_object_def GfSpUploadObjectTaskKey_def GfSpSealObjectTaskKey_def)

lemma challenge_count:
  assumes "payload_ok payload mx"
  shows "(if payload mod mx \<noteq> 0 then u64 (payload div mx + 1) else payload div mx) = ceil_div payload mx"
proof -
  note p = assms [unfolded payload_ok_def]
  have "0 \<le> payload mod mx" using p by simp
  then have "payload mod mx \<noteq> 0 \<longleftrightarrow> payload mod mx > 0" by linarith
  moreover have "0 \<le> payload div mx" using p by (simp add: pos_imp_zdiv_nonneg_iff)
  ultimately show ?thesis using p by (simp add: ceil_div_mod u64_id)
qed

lemma challenge_rest:
  assumes "payload_ok payload mx" "2 \<le> ceil_div payload mx"
  shows "i64 (i64 (i64 (ceil_div payload mx) - 1) * i64 mx) = (ceil_div payload mx - 1) * mx
    \<and> 0 < (ceil_div payload mx - 1) * mx \<and> (ceil_div payload mx - 1) * mx < payload"
proof -
  note p = assms(1) [unfolded payload_ok_def] and c = SegmentPieceCount_ceil [OF assms(1)]
  obtain n where n: "n = ceil_div payload mx" by blast
  have b: "(n - 1) * mx < payload" using ceil_div_bounds [of mx payload] p unfolding n by (simp add: algebra_simps)
  have "0 < (n - 1) * mx" using assms(2) p unfolding n [symmetric] by simp
  moreover from this b p have "i64 ((n - 1) * mx) = (n - 1) * mx" by (intro i64_id) linarith+
  ultimately show ?thesis using b p c assms(2) unfolding n [symmetric] by (simp add: i64_id)
qed

text \<open>
  For a challenge of a segment on the primary provider, the estimated memory is exactly the size
  of the segment that is read.
\<close>

theorem challenge_estimate_primary:
  assumes "payload_ok (oPayloadSize (cp_ObjectInfo m)) (MaxSegmentSize (cp_StorageParams m))"
    and "cp_RedundancyIdx m < 0"
  shows "challenge_mem m = SegmentPieceSize (oPayloadSize (cp_ObjectInfo m)) (cp_SegmentIdx m) (MaxSegmentSize (cp_StorageParams m))"
proof -
  obtain payload mx where pm: "oPayloadSize (cp_ObjectInfo m) = payload" "MaxSegmentSize (cp_StorageParams m) = mx" by blast
  note a = assms [unfolded pm]
  note p = a(1) [unfolded payload_ok_def] and c = SegmentPieceCount_ceil [OF a(1)]
  have "u32 (u64 (ceil_div payload mx - 1)) = u32 (ceil_div payload mx - 1)"
    by (simp add: u32_def u64_def mod_mod_cancel)
  then show ?thesis
    using a(2) p by (simp add: challenge_mem_def SegmentPieceSize_def pm Let_def challenge_count [OF a(1)] c(1))
qed

definition sample_challenge :: "int \<Rightarrow> GfSpChallengePieceTask" where
  "sample_challenge red = InitChallengePieceTask 5 (sample_object 40) \<lparr>bBucketName = ''b'', bId = 1, bOwner = ''u'', bChargedReadQuota = 0,
     bGlobalVirtualGroupFamilyId = 1\<rparr> sample_params 0 ''u'' red 2 10 0"

lemma sample_challenge_fields:
  "oPayloadSize (cp_ObjectInfo (sample_challenge red)) = 40" "MaxSegmentSize (cp_StorageParams (sample_challenge red)) = 16"
  "cp_RedundancyIdx (sample_challenge red) = red" "cp_SegmentIdx (sample_challenge red) = 2"
  "RedundantDataChunkNum (cp_StorageParams (sample_challenge red)) = 4"
  by (simp_all add: sample_challenge_def InitChallengePieceTask_def sample_object_def sample_params_def)

theorem challenge_estimate_primary_witness: "challenge_mem (sample_challenge (-1)) = SegmentPieceSize 40 2 16"
  using challenge_estimate_primary [of "sample_challenge (-1)"]
  by (simp add: sample_challenge_fields payload_ok_def)

text \<open>
  for a challenge of the last erasure-coded piece of an object of several segments, the estimate
  divides only the size of the preceding segments by the number of data chunks, so that it exceeds
  the size of the whole last segment, of which the piece is one chunk.
\<close>

theorem challenge_estimate_last_ec:
  assumes "payload_ok (oPayloadSize (cp_ObjectInfo m)) (MaxSegmentSize (cp_StorageParams m))"
    and "n = ceil_div (oPayloadSize (cp_ObjectInfo m)) (MaxSegmentSize (cp_StorageParams m))" and "2 \<le> n"
    and "0 \<le> cp_RedundancyIdx m" and "cp_SegmentIdx m = n - 1"
    and "2 \<le> RedundantDataChunkNum (cp_StorageParams m)" and "is_u32 (RedundantDataChunkNum (cp_StorageParams m))"
  shows "\<exists>est seg. challenge_mem m = Some est
    \<and> SegmentPieceSize (oPayloadSize (cp_ObjectInfo m)) (cp_SegmentIdx m) (MaxSegmentSize (cp_StorageParams m)) = Some seg
    \<and> seg < est"
proof -
  obtain payload mx d where pm: "oPayloadSize (cp_ObjectInfo m) = payload" "MaxSegmentSize (cp_StorageParams m) = mx"
    "RedundantDataChunkNum (cp_StorageParams m) = d" by blast
  note a = assms [unfolded pm]
  note p = a(1) [unfolded payload_ok_def] and c = SegmentPieceCount_ceil [OF a(1)]
    and r = challenge_rest [OF a(1), folded a(2), OF a(3)]
  let ?r = "(n - 1) * mx"
  have u: "u32 (u64 (n - 1)) = n - 1" using a(2,3) c(3) by (simp add: u64_id u32_id)
  have q: "?r sdiv d = ?r div d" "0 \<le> ?r div d" "?r div d < ?r"
    using r a(6) by (simp_all add: sdiv_nonneg pos_imp_zdiv_nonneg_iff int_div_less_self)
  have di: "i64 d = d" using a(7) by (simp add: i64_id range_defs)
  have "challenge_mem m = Some (payload - ?r div d)"
    using a p r q u di by (simp add: challenge_mem_def pm Let_def challenge_count [OF a(1)] i64_id flip: a(2))
  moreover have "SegmentPieceSize payload (n - 1) mx = Some (min mx (payload - ?r))"
    using SegmentPieceSize_eq [OF a(1), of "n - 1"] a(2,3) by simp
  ultimately show ?thesis using q(3) unfolding pm a(5)
    by (intro exI [of _ "payload - ?r div d"] exI [of _ "min mx (payload - ?r)"]) simp
qed

theorem challenge_estimate_last_ec_witness:
  "\<exists>est seg. challenge_mem (sample_challenge 1) = Some est \<and> SegmentPieceSize 40 2 16 = Some seg \<and> seg < est"
  using challenge_estimate_last_ec [of "sample_challenge 1" 3]
  by (simp add: sample_challenge_fields payload_ok_def range_defs)

lemma funpow_base_IncRetry:
  "is_i64 (tRetry b) \<Longrightarrow> tRetry b + int n \<le> MaxInt64 \<Longrightarrow> (base_IncRetry ^^ n) b = b\<lparr>tRetry := tRetry b + int n\<rparr>"
  by (induction n) (auto simp: base_IncRetry_def i64_id range_defs)

text \<open>
  retries run out: a task that starts with a retry count within its maximum exceeds its retries
  after exactly the missing number of increments, and once the timeout since its last update has
  passed as well it is expired and a queue may retire it.
\<close>

theorem retries_run_out:
  assumes "0 \<le> GetRetry t" and "GetRetry t + int n \<le> MaxInt64" and "is_i64 (GetUpdateTime t + GetTimeout t)"
  shows "Expired now ((IncRetry ^^ n) t) \<longleftrightarrow> GetMaxRetry t \<le> GetRetry t + int n \<and> GetUpdateTime t + GetTimeout t < now"
proof -
  have "GetTask ((IncRetry ^^ n) t) = (GetTask t)\<lparr>tRetry := GetRetry t + int n\<rparr>"
    using any_task.get_funpow [where f = base_IncRetry and n = n and m = t] funpow_base_IncRetry [of "GetTask t" n] assms
    by (simp add: IncRetry_def GetRetry_def range_defs)
  then show ?thesis
    using assms(3) by (auto simp: Expired_def base_Expired_def base_ExceedRetry_def base_ExceedTimeout_def getter_task_defs)
qed

theorem retries_run_out_witness:
  "Expired 100 ((IncRetry ^^ 3) (RecoverPiece (InitRecoverPieceTask 5 (sample_object 40) sample_params 85 1 0 16 10 3)))"
  using retries_run_out [of "RecoverPiece (InitRecoverPieceTask 5 (sample_object 40) sample_params 85 1 0 16 10 3)" 3 100]
  by (simp add: getter_task_defs InitRecoverPieceTask_def base_SetPriority_def fresh_base_def zero_task_def range_defs)

end
