(* ===== verification/SP_Queue.thy ===== *)
theory SP_Queue
  imports SP_TaskOps "HOL-Library.List_Lexorder" "HOL-Library.Char_ord"
begin

text \<open>
  The task queues, \<^verbatim>\<open>src/base/gfsptqueue/queue.go\<close> and \<^verbatim>\<open>queue_limit.go\<close>: tasks by key with a capacity, a
  strategy that retires tasks and a strategy that filters what may be popped.  Ranging over the map of
  tasks visits the keys in an order the language leaves open; the operations that do so take that
  order as an argument, so that a property that holds for every order holds for the program.  The
  strategies are predicates on tasks.
\<close>

subsection \<open>Searching a sorted slice\<close>

text \<open>\<open>sort.Search\<close>: the binary search of the library on the interval from \<open>i\<close> to \<open>j\<close>.\<close>

function search_from :: "(nat \<Rightarrow> bool) \<Rightarrow> nat \<Rightarrow> nat \<Rightarrow> nat" where
  "search_from f i j =
     (if i < j then let h = (i + j) div 2 in if \<not> f h then search_from f (h + 1) j else search_from f i h else i)"
  by pat_completeness auto
termination by (relation "measure (\<lambda>(f, i, j). j - i)") (auto simp: Let_def)

declare search_from.simps [simp del]

definition sort_Search :: "nat \<Rightarrow> (nat \<Rightarrow> bool) \<Rightarrow> nat" where
  "sort_Search n f = search_from f 0 n"

subsection \<open>The queue\<close>

datatype queue_error = ErrTaskRepeated | ErrTaskQueueExceed

record GfSpTQueue =
  queueName :: string
  queueCurrent :: int
  queueTasks :: "string \<rightharpoonup> Task"
  queueCap :: int
  gcFunc :: "(Task \<Rightarrow> bool) option"
  filterFunc :: "(Task \<Rightarrow> bool) option"

definition NewGfSpTQueue :: "string \<Rightarrow> int \<Rightarrow> GfSpTQueue" where
  "NewGfSpTQueue name capacity = \<lparr>queueName = name, queueCurrent = 0, queueTasks = Map.empty, queueCap = capacity,
     gcFunc = None, filterFunc = None\<rparr>"

definition queue_Len :: "GfSpTQueue \<Rightarrow> int" where
  "queue_Len q = int (card (dom (queueTasks q)))"

text \<open>\<open>t.gcFunc != nil && t.gcFunc(task)\<close> and \<open>t.filterFunc == nil || t.filterFunc(task)\<close>.\<close>

definition retired :: "GfSpTQueue \<Rightarrow> Task \<Rightarrow> bool" where
  "retired q t \<longleftrightarrow> (case gcFunc q of None \<Rightarrow> False | Some gc \<Rightarrow> gc t)"

definition admitted :: "GfSpTQueue \<Rightarrow> Task \<Rightarrow> bool" where
  "admitted q t \<longleftrightarrow> (case filterFunc q of None \<Rightarrow> True | Some f \<Rightarrow> f t)"

definition remove_key :: "string \<Rightarrow> GfSpTQueue \<Rightarrow> GfSpTQueue" where
  "remove_key k q = q\<lparr>queueTasks := (queueTasks q)(k := None)\<rparr>"

definition queue_has :: "string \<Rightarrow> GfSpTQueue \<Rightarrow> bool \<times> GfSpTQueue" where
  "queue_has key q =
     (case queueTasks q key of
        None \<Rightarrow> (False, q)
      | Some task \<Rightarrow> if retired q task then (False, remove_key (Key task) q) else (True, q))"

definition queue_delete :: "Task \<Rightarrow> GfSpTQueue \<Rightarrow> GfSpTQueue" where
  "queue_delete task q =
     (let (present, q1) = queue_has (Key task) q in if \<not> present then q1 else remove_key (Key task) q1)"

definition queue_add :: "Task \<Rightarrow> GfSpTQueue \<Rightarrow> GfSpTQueue" where
  "queue_add task q =
     (let (present, q1) = queue_has (Key task) q
      in if present then q1 else q1\<lparr>queueTasks := (queueTasks q1)(Key task \<mapsto> task)\<rparr>)"

definition queue_exceed :: "GfSpTQueue \<Rightarrow> bool" where
  "queue_exceed q \<longleftrightarrow> queue_Len q \<ge> queueCap q"

text \<open>The loop that retires one task, in the order of the keys; \<open>None\<close> when no task can be retired.\<close>

fun retire_one :: "(Task \<Rightarrow> bool) \<Rightarrow> string list \<Rightarrow> GfSpTQueue \<Rightarrow> GfSpTQueue option" where
  "retire_one gc [] q = None"
| "retire_one gc (key # keys) q =
     (case queueTasks q key of
        None \<Rightarrow> retire_one gc keys q
      | Some task \<Rightarrow> if gc task then Some (queue_delete task q) else retire_one gc keys q)"

definition SortKeys :: "(string \<rightharpoonup> Task) \<Rightarrow> string list" where
  "SortKeys m = sorted_list_of_set (dom m)"

definition queue_Push :: "Task \<Rightarrow> GfSpTQueue \<Rightarrow> queue_error option \<times> GfSpTQueue" where
  "queue_Push task q =
     (let (present, q1) = queue_has (Key task) q
      in if present then (Some ErrTaskRepeated, q1)
         else if queue_exceed q1
         then (case gcFunc q1 of
                 None \<Rightarrow> (Some ErrTaskQueueExceed, q1)
               | Some gc \<Rightarrow>
                   (case retire_one gc (SortKeys (queueTasks q1)) q1 of
                      None \<Rightarrow> (Some ErrTaskQueueExceed, q1)
                    | Some q2 \<Rightarrow> (None, queue_add task q2)))
         else (None, queue_add task q1))"

text \<open>
  \<open>top\<close> and \<open>topByLimit\<close>: \<open>ord\<close> is the order in which the map is ranged over, \<open>ok\<close> tells which tasks are
  kept as backup tasks.  Sorting by creation time is the library's stable sort of the backup tasks:
  since \<open>ord\<close> is arbitrary, so is the order of tasks with equal creation times.
\<close>

definition tasks_in :: "string list \<Rightarrow> GfSpTQueue \<Rightarrow> Task list" where
  "tasks_in ord q = List.map_filter (queueTasks q) ord"

fun remove_all :: "Task list \<Rightarrow> GfSpTQueue \<Rightarrow> GfSpTQueue" where
  "remove_all [] q = q"
| "remove_all (t # ts) q = remove_all ts (remove_key (Key t) q)"

definition top_by :: "(Task \<Rightarrow> bool) \<Rightarrow> string list \<Rightarrow> GfSpTQueue \<Rightarrow> Task option \<times> GfSpTQueue" where
  "top_by ok ord q =
     (if queueTasks q = Map.empty then (None, q)
      else let gcTasks = filter (retired q) (tasks_in ord q);
               backup = filter (\<lambda>t. \<not> retired q t \<and> ok t) (tasks_in ord q);
               sorted = sort_key GetCreateTime backup;
               index = sort_Search (length sorted) (\<lambda>i. GetCreateTime (sorted ! i) > queueCurrent q);
               index = (if index = length sorted then 0 else index)
           in if backup = [] then (None, remove_all gcTasks q)
              else (Some (sorted ! index),
                    remove_all gcTasks (q\<lparr>queueCurrent := GetCreateTime (sorted ! index)\<rparr>)))"

definition queue_top :: "string list \<Rightarrow> GfSpTQueue \<Rightarrow> Task option \<times> GfSpTQueue" where
  "queue_top ord q = top_by (admitted q) ord q"

definition queue_Pop :: "string list \<Rightarrow> GfSpTQueue \<Rightarrow> Task option \<times> GfSpTQueue" where
  "queue_Pop ord q =
     (let (task, q1) = queue_top ord q in case task of None \<Rightarrow> (None, q1) | Some t \<Rightarrow> (Some t, queue_delete t q1))"

definition queue_Has :: "string \<Rightarrow> GfSpTQueue \<Rightarrow> bool \<times> GfSpTQueue" where
  "queue_Has key q = queue_has key q"

definition queue_PopByKey :: "string \<Rightarrow> GfSpTQueue \<Rightarrow> Task option \<times> GfSpTQueue" where
  "queue_PopByKey key q =
     (let (present, q1) = queue_has key q
      in if \<not> present then (None, q1)
         else case queueTasks q1 key of None \<Rightarrow> (None, q1) | Some task \<Rightarrow> (Some task, queue_delete task q1))"

definition SetFilterTaskStrategy :: "(Task \<Rightarrow> bool) \<Rightarrow> GfSpTQueue \<Rightarrow> GfSpTQueue" where
  "SetFilterTaskStrategy f q = q\<lparr>filterFunc := Some f\<rparr>"

definition SetRetireTaskStrategy :: "(Task \<Rightarrow> bool) \<Rightarrow> GfSpTQueue \<Rightarrow> GfSpTQueue" where
  "SetRetireTaskStrategy f q = q\<lparr>gcFunc := Some f\<rparr>"

text \<open>
  The queue with a limit keeps the same state.  \<open>None\<close> is the panic of a task whose estimate divides by
  zero; the estimate is computed for every task that is not retired.
\<close>

definition queue_topByLimit :: "GfSpLimit \<Rightarrow> string list \<Rightarrow> GfSpTQueue \<Rightarrow> (Task option \<times> GfSpTQueue) option" where
  "queue_topByLimit limit ord q =
     (if \<exists>t \<in> set (tasks_in ord q). \<not> retired q t \<and> EstimateLimit t = None then None
      else Some (top_by (\<lambda>t. (case EstimateLimit t of Some l \<Rightarrow> NotLess limit l | None \<Rightarrow> False) \<and> admitted q t) ord q))"

definition queue_PopByLimit :: "GfSpLimit \<Rightarrow> string list \<Rightarrow> GfSpTQueue \<Rightarrow> (Task option \<times> GfSpTQueue) option" where
  "queue_PopByLimit limit ord q =
     map_option (\<lambda>(task, q1). case task of None \<Rightarrow> (None, q1) | Some t \<Rightarrow> (Some t, queue_delete t q1))
       (queue_topByLimit limit ord q)"

subsection \<open>The invariant\<close>

definition queue_inv :: "GfSpTQueue \<Rightarrow> bool" where
  "queue_inv q \<longleftrightarrow> finite (dom (queueTasks q)) \<and> (\<forall>k t. queueTasks q k = Some t \<longrightarrow> Key t = k)
     \<and> queue_Len q \<le> max 0 (queueCap q)"

text \<open>The live tasks: what the queue still answers for.\<close>

definition live :: "GfSpTQueue \<Rightarrow> string \<rightharpoonup> Task" where
  "live q k = (case queueTasks q k of None \<Rightarrow> None | Some t \<Rightarrow> if retired q t then None else Some t)"

lemma queue_invD:
  "queue_inv q \<Longrightarrow> queueTasks q k = Some t \<Longrightarrow> Key t = k" "queue_inv q \<Longrightarrow> finite (dom (queueTasks q))"
  "queue_inv q \<Longrightarrow> queue_Len q \<le> max 0 (queueCap q)"
  by (simp_all add: queue_inv_def)

lemma remove_key_sel [simp]:
  "queueTasks (remove_key k q) = (queueTasks q)(k := None)" "queueCap (remove_key k q) = queueCap q"
  "gcFunc (remove_key k q) = gcFunc q" "filterFunc (remove_key k q) = filterFunc q"
  "queueCurrent (remove_key k q) = queueCurrent q" "retired (remove_key k q) = retired q"
  "admitted (remove_key k q) = admitted q"
  by (simp_all add: remove_key_def retired_def admitted_def fun_eq_iff)

lemma Len_remove_key: "finite (dom (queueTasks q)) \<Longrightarrow> queue_Len (remove_key k q) \<le> queue_Len q"
  by (auto simp: queue_Len_def intro!: card_mono)

lemma Len_remove_present:
  "finite (dom (queueTasks q)) \<Longrightarrow> k \<in> dom (queueTasks q) \<Longrightarrow> queue_Len (remove_key k q) = queue_Len q - 1"
  by (simp add: queue_Len_def) (metis One_nat_def card_Diff_singleton card_gt_0_iff empty_iff of_nat_1 of_nat_diff Suc_leI)

lemma remove_key_inv: "queue_inv q \<Longrightarrow> queue_inv (remove_key k q)"
  using Len_remove_key [of q k] by (auto simp: queue_inv_def split: if_splits)

lemma live_remove_key: "live (remove_key k q) = (live q)(k := None)"
  by (auto simp: live_def fun_eq_iff split: option.splits)

lemma live_cong: "queueTasks q' = queueTasks q \<Longrightarrow> gcFunc q' = gcFunc q \<Longrightarrow> live q' = live q"
  by (auto simp: live_def retired_def fun_eq_iff split: option.splits)

lemma queue_has_eq:
  assumes "queue_inv q"
  shows "queue_has k q = (k \<in> dom (live q), if k \<in> dom (queueTasks q) \<and> k \<notin> dom (live q) then remove_key k q else q)"
  using queue_invD(1) [OF assms] by (auto simp: queue_has_def live_def split: option.splits)

lemma queue_has_live: "queue_inv q \<Longrightarrow> live (snd (queue_has k q)) = live q \<and> queue_inv (snd (queue_has k q))
    \<and> retired (snd (queue_has k q)) = retired q"
  by (auto simp: queue_has_eq live_remove_key remove_key_inv fun_upd_idem)

lemma queue_delete_eq: "queue_inv q \<Longrightarrow> queue_delete t q = (if Key t \<in> dom (queueTasks q) then remove_key (Key t) q else q)"
  by (auto simp: queue_delete_def queue_has_eq live_def split: option.splits if_splits)

lemma retire_one_cases:
  "retire_one gc keys q = Some q' \<Longrightarrow> \<exists>k \<in> set keys. \<exists>t. queueTasks q k = Some t \<and> gc t \<and> q' = queue_delete t q"
  by (induction gc keys q rule: retire_one.induct) (auto split: option.splits if_splits)

lemma retire_one_None:
  "retire_one gc keys q = None \<Longrightarrow> k \<in> set keys \<Longrightarrow> queueTasks q k = Some t \<Longrightarrow> \<not> gc t"
  by (induction gc keys q rule: retire_one.induct) (auto split: option.splits if_splits)

lemma queue_add_eq:
  assumes "queue_inv q" "Key t \<notin> dom (live q)"
  shows "queueTasks (queue_add t q) = (queueTasks q)(Key t \<mapsto> t)" "queueCap (queue_add t q) = queueCap q"
    "gcFunc (queue_add t q) = gcFunc q" "retired (queue_add t q) = retired q" "filterFunc (queue_add t q) = filterFunc q"
  using assms by (auto simp: queue_add_def queue_has_eq retired_def)


lemma live_add:
  assumes "queue_inv q" "Key t \<notin> dom (live q)"
  shows "live (queue_add t q) = (if retired q t then live q else (live q)(Key t \<mapsto> t))"
  using assms(2) by (auto simp: live_def queue_add_eq [OF assms] fun_eq_iff split: option.splits)

lemma add_inv:
  assumes "queue_inv q" "Key t \<notin> dom (live q)" "queue_Len q < queueCap q"
  shows "queue_inv (queue_add t q)"
proof -
  have "queue_Len (queue_add t q) \<le> queue_Len q + 1"
    using queue_invD(2) [OF assms(1)] by (simp add: queue_Len_def queue_add_eq [OF assms(1,2)] card_insert_if)
  with assms show ?thesis by (auto simp: queue_inv_def queue_add_eq [OF assms(1,2)] split: if_splits)
qed

text \<open>A successful push: the new task is added to the queue, or to the queue less a single retired task.\<close>

lemma Push_cases:
  assumes "queue_inv q"
  obtains (repeated) "Key t \<in> dom (live q)" "queue_Push t q = (Some ErrTaskRepeated, snd (queue_has (Key t) q))"
    | (exceed) "Key t \<notin> dom (live q)" "queue_Push t q = (Some ErrTaskQueueExceed, snd (queue_has (Key t) q))"
        "queue_Len (snd (queue_has (Key t) q)) \<ge> queueCap q"
        "\<forall>k u. queueTasks (snd (queue_has (Key t) q)) k = Some u \<longrightarrow> \<not> retired q u"
    | (pushed) q1 where "Key t \<notin> dom (live q)" "queue_Push t q = (None, queue_add t q1)" "queue_inv q1"
        "live q1 = live q" "retired q1 = retired q" "queue_Len q1 < queueCap q1" "Key t \<notin> dom (live q1)"
        "queueCap q1 = queueCap q"
proof -
  obtain q1 where h: "queue_has (Key t) q = (Key t \<in> dom (live q), q1)" by (simp add: queue_has_eq [OF assms])
  have i: "queue_inv q1" "live q1 = live q" "retired q1 = retired q" using queue_has_live [OF assms, of "Key t"] h by auto
  have c: "queueCap q1 = queueCap q" using h by (auto simp: queue_has_eq [OF assms])
  note repeated = repeated [unfolded h snd_conv] and exceed = exceed [unfolded h snd_conv]
  note d = queue_Push_def [of t q, unfolded h Let_def prod.case]
  show thesis
  proof (cases "Key t \<in> dom (live q)")
    case True with d show thesis by (intro repeated) simp_all
  next
    case nl: False
    show thesis
    proof (cases "queue_exceed q1")
      case False
      with d nl i c show thesis by (intro pushed [of q1]) (auto simp: queue_exceed_def)
    next
      case ex: True
      show thesis
      proof (cases "gcFunc q1")
        case None
        then have "\<not> retired q u" for u unfolding i(3) [symmetric] by (simp add: retired_def)
        with None ex d nl c show thesis by (intro exceed) (auto simp: queue_exceed_def)
      next
        case (Some gc)
        then have g: "retired q u = gc u" for u unfolding i(3) [symmetric] by (simp add: retired_def)
        have keys: "set (SortKeys (queueTasks q1)) = dom (queueTasks q1)"
          using queue_invD(2) [OF i(1)] by (simp add: SortKeys_def)
        show thesis
        proof (cases "retire_one gc (SortKeys (queueTasks q1)) q1")
          case None
          with retire_one_None keys g have "\<forall>k u. queueTasks q1 k = Some u \<longrightarrow> \<not> retired q u" by blast
          with None Some ex d nl c show thesis by (intro exceed) (auto simp: queue_exceed_def)
        next
          case q2: (Some q2)
          from retire_one_cases [OF this] obtain k u where u: "queueTasks q1 k = Some u" "gc u" "q2 = queue_delete u q1"
            by blast
          have k: "Key u = k" using queue_invD(1) [OF i(1) u(1)] .
          have q2': "q2 = remove_key k q1" using u k by (simp add: queue_delete_eq [OF i(1)] domIff)
          have "k \<notin> dom (live q1)" using u g i(3) by (simp add: live_def domIff)
          then have l: "live q2 = live q" unfolding q2' live_remove_key i(2) by (simp add: fun_upd_idem domIff)
          have "queue_Len q2 = queue_Len q1 - 1"
            unfolding q2' using u(1) by (intro Len_remove_present queue_invD(2) [OF i(1)]) auto
          moreover have "queue_Len q1 \<le> max 0 (queueCap q1)" "queue_Len q1 > 0"
            using queue_invD(3) [OF i(1)] u(1) queue_invD(2) [OF i(1)] by (auto simp: queue_Len_def card_gt_0_iff)
          moreover have "queueCap q2 = queueCap q1" by (simp add: q2')
          ultimately have "queue_Len q2 < queueCap q2" by linarith
          moreover have "retired q2 = retired q" by (simp add: q2' i(3))
          moreover have "queue_inv q2" unfolding q2' using i(1) by (rule remove_key_inv)
          ultimately show thesis
            using q2 Some ex d nl l c by (intro pushed [of q2]) (auto simp: q2')
        qed
      qed
    qed
  qed
qed

lemma Push_inv:
  assumes "queue_inv q"
  shows "queue_inv (snd (queue_Push t q))"
  using assms
proof (cases rule: Push_cases [where t = t])
  case (pushed q1) then show ?thesis by (simp add: add_inv)
qed (use queue_has_live [OF assms] in simp_all)

lemma Push_error:
  assumes "queue_inv q" "queue_Push t q = (Some e, q')"
  shows "live q' = live q \<and> retired q' = retired q"
  using assms(1)
proof (cases rule: Push_cases [where t = t])
  case (pushed q1) with assms show ?thesis by simp
qed (use assms(2) queue_has_live [OF assms(1), of "Key t"] in simp_all)

lemma Push_ok:
  assumes "queue_inv q" "queue_Push t q = (None, q')"
  shows "Key t \<notin> dom (live q) \<and> live q' = (if retired q t then live q else (live q)(Key t \<mapsto> t)) \<and> retired q' = retired q"
  using assms(1)
proof (cases rule: Push_cases [where t = t])
  case (pushed q1)
  with assms(2) have "q' = queue_add t q1" by simp
  with pushed show ?thesis using live_add [of q1 t] queue_add_eq(4) [of q1 t] by simp
qed (use assms(2) in simp_all)

lemma PopByKey_eq:
  assumes "queue_inv q"
  shows "fst (queue_PopByKey k q) = live q k" "live (snd (queue_PopByKey k q)) = (live q)(k := None)"
    "queue_inv (snd (queue_PopByKey k q))" "retired (snd (queue_PopByKey k q)) = retired q"
proof -
  obtain q1 where h: "queue_has k q = (k \<in> dom (live q), q1)" by (simp add: queue_has_eq [OF assms])
  note i = queue_has_live [OF assms, of k, unfolded h snd_conv]
  have "fst (queue_PopByKey k q) = live q k \<and> live (snd (queue_PopByKey k q)) = (live q)(k := None)
    \<and> queue_inv (snd (queue_PopByKey k q)) \<and> retired (snd (queue_PopByKey k q)) = retired q"
  proof (cases "k \<in> dom (live q)")
    case False
    with h i show ?thesis by (auto simp: queue_PopByKey_def fun_upd_idem domIff)
  next
    case True
    then obtain t where t: "live q k = Some t" "queueTasks q k = Some t" by (auto simp: live_def split: option.splits if_splits)
    have k: "Key t = k" using queue_invD(1) [OF assms t(2)] .
    have q1: "q1 = q" using True h by (simp add: queue_has_eq [OF assms])
    have "queue_PopByKey k q = (Some t, remove_key k q)"
      using True h t k by (simp add: queue_PopByKey_def q1 queue_delete_eq [OF assms] domIff)
    with t show ?thesis by (simp add: live_remove_key remove_key_inv [OF assms])
  qed
  then show "fst (queue_PopByKey k q) = live q k" "live (snd (queue_PopByKey k q)) = (live q)(k := None)"
    "queue_inv (snd (queue_PopByKey k q))" "retired (snd (queue_PopByKey k q)) = retired q" by blast+
qed


subsection \<open>Searching\<close>

lemma search_from_spec:
  assumes "\<forall>k l. k \<le> l \<longrightarrow> l < n \<longrightarrow> f k \<longrightarrow> f l" "i \<le> j" "j \<le> n" "\<forall>k < i. \<not> f k" "\<forall>k. j \<le> k \<longrightarrow> k < n \<longrightarrow> f k"
  shows "search_from f i j \<le> j \<and> (\<forall>k < search_from f i j. \<not> f k) \<and> (\<forall>k. search_from f i j \<le> k \<longrightarrow> k < n \<longrightarrow> f k)"
  using assms(2-5)
proof (induction "j - i" arbitrary: i j rule: less_induct)
  case less
  show ?case
  proof (cases "i < j")
    case False
    then have "search_from f i j = i" by (simp add: search_from.simps)
    moreover have "j = i" using False less.prems(1) by simp
    ultimately show ?thesis using less.prems by simp
  next
    case True
    let ?h = "(i + j) div 2"
    have h: "i \<le> ?h" "?h < j" using True by auto
    show ?thesis
    proof (cases "f ?h")
      case f: True
      have "\<forall>k. ?h \<le> k \<longrightarrow> k < n \<longrightarrow> f k" using assms(1) f by blast
      from less.hyps [OF _ h(1) _ less.prems(3) this] h less.prems(2)
      have "search_from f i ?h \<le> ?h \<and> (\<forall>k < search_from f i ?h. \<not> f k) \<and> (\<forall>k. search_from f i ?h \<le> k \<longrightarrow> k < n \<longrightarrow> f k)"
        by simp
      then show ?thesis using True f h(2) by (simp add: search_from.simps [of f i j] Let_def)
    next
      case f: False
      have "\<forall>k < ?h + 1. \<not> f k" 
      proof (intro allI impI notI)
        fix k assume "k < ?h + 1" "f k"
        then show False using assms(1) f h(2) less.prems(2) by (metis Suc_eq_plus1 less_Suc_eq_le less_le_trans)
      qed
      from less.hyps [OF _ _ less.prems(2) this less.prems(4)] h
      show ?thesis using True f by (simp add: search_from.simps [of f i j] Let_def)
    qed
  qed
qed

lemma sort_Search_spec:
  assumes "\<forall>k l. k \<le> l \<longrightarrow> l < n \<longrightarrow> f k \<longrightarrow> f l"
  shows "sort_Search n f \<le> n" "k < sort_Search n f \<Longrightarrow> \<not> f k" "sort_Search n f \<le> k \<Longrightarrow> k < n \<Longrightarrow> f k"
  using search_from_spec [OF assms, of 0 n] by (auto simp: sort_Search_def)

subsection \<open>Choosing the top task\<close>

definition cands :: "(Task \<Rightarrow> bool) \<Rightarrow> GfSpTQueue \<Rightarrow> Task set" where
  "cands ok q = {t \<in> ran (live q). ok t}"

text \<open>The next creation time in the round: the least one after the current, or the least of all.\<close>

definition next_in_round :: "int \<Rightarrow> Task set \<Rightarrow> Task \<Rightarrow> bool" where
  "next_in_round cur C t \<longleftrightarrow> t \<in> C \<and>
     (if \<exists>c \<in> C. GetCreateTime c > cur
      then GetCreateTime t > cur \<and> (\<forall>c \<in> C. GetCreateTime c > cur \<longrightarrow> GetCreateTime t \<le> GetCreateTime c)
      else \<forall>c \<in> C. GetCreateTime t \<le> GetCreateTime c)"

definition pick :: "int \<Rightarrow> Task list \<Rightarrow> nat" where
  "pick cur xs = (let i = sort_Search (length xs) (\<lambda>i. GetCreateTime (xs ! i) > cur) in if i = length xs then 0 else i)"

lemma pick_spec:
  assumes "xs \<noteq> []" "sorted (map GetCreateTime xs)"
  shows "pick cur xs < length xs" "next_in_round cur (set xs) (xs ! pick cur xs)"
proof -
  let ?f = "\<lambda>i. GetCreateTime (xs ! i) > cur" and ?n = "length xs"
  have srt: "GetCreateTime (xs ! k) \<le> GetCreateTime (xs ! l)" if "k \<le> l" "l < ?n" for k l
    using sorted_nth_mono [OF assms(2), of k l] that by simp
  then have "\<forall>k l. k \<le> l \<longrightarrow> l < ?n \<longrightarrow> ?f k \<longrightarrow> ?f l" by (meson less_le_trans)
  note sp = sort_Search_spec [OF this]
  let ?i = "sort_Search ?n ?f"
  show lt: "pick cur xs < ?n" using sp(1) assms(1) by (auto simp: pick_def Let_def)
  show "next_in_round cur (set xs) (xs ! pick cur xs)"
  proof (cases "?i = ?n")
    case True
    then have p: "pick cur xs = 0" by (simp add: pick_def)
    have n: "\<not> GetCreateTime c > cur" if "c \<in> set xs" for c
      using that sp(2) True unfolding in_set_conv_nth by auto
    moreover have "GetCreateTime (xs ! 0) \<le> GetCreateTime c" if "c \<in> set xs" for c
      using that srt [of 0] unfolding in_set_conv_nth by auto
    ultimately show ?thesis using assms(1) p by (auto simp: next_in_round_def)
  next
    case False
    then have p: "pick cur xs = ?i" "?i < ?n" using sp(1) by (auto simp: pick_def Let_def)
    have "GetCreateTime (xs ! ?i) > cur" using sp(3) [of ?i] p(2) by simp
    moreover have "GetCreateTime (xs ! ?i) \<le> GetCreateTime c" if c: "c \<in> set xs" "GetCreateTime c > cur" for c
    proof -
      obtain k where k: "k < ?n" "xs ! k = c" using c(1) by (auto simp: in_set_conv_nth)
      have "\<not> k < ?i"
      proof
        assume "k < ?i"
        from sp(2) [OF this] c(2) k(2) show False by simp
      qed
      then have "?i \<le> k" by linarith
      from srt [OF this k(1)] k(2) show ?thesis by simp
    qed
    ultimately show ?thesis unfolding next_in_round_def p(1) using nth_mem [OF p(2)] by metis
  qed
qed

lemma remove_all_sel:
  "queueTasks (remove_all ts q) k = (if k \<in> Key ` set ts then None else queueTasks q k)"
  "queueCap (remove_all ts q) = queueCap q" "gcFunc (remove_all ts q) = gcFunc q" "filterFunc (remove_all ts q) = filterFunc q"
  "queueCurrent (remove_all ts q) = queueCurrent q" "retired (remove_all ts q) = retired q"
  by (induction ts q rule: remove_all.induct) auto

lemma set_tasks_in: "set ord = dom (queueTasks q) \<Longrightarrow> set (tasks_in ord q) = ran (queueTasks q)"
  by (force simp: tasks_in_def List.map_filter_def ran_def)

lemma live_ran: "ran (live q) = {t \<in> ran (queueTasks q). \<not> retired q t}"
  by (force simp: live_def ran_def split: option.splits if_splits)

lemma gc_all_live:
  assumes "queue_inv q" "set ord = dom (queueTasks q)"
  shows "queueTasks (remove_all (filter (retired q) (tasks_in ord q)) (q\<lparr>queueCurrent := c\<rparr>)) = live q"
    "queueTasks (remove_all (filter (retired q) (tasks_in ord q)) q) = live q"
proof -
  have "k \<in> Key ` {t \<in> ran (queueTasks q). retired q t} \<longleftrightarrow> (\<exists>t. queueTasks q k = Some t \<and> retired q t)" for k
    using queue_invD(1) [OF assms(1)] by (force simp: ran_def)
  then show "queueTasks (remove_all (filter (retired q) (tasks_in ord q)) (q\<lparr>queueCurrent := c\<rparr>)) = live q"
    "queueTasks (remove_all (filter (retired q) (tasks_in ord q)) q) = live q"
    by (auto simp: remove_all_sel set_tasks_in [OF assms(2)] live_def fun_eq_iff Int_def split: option.splits)
qed

lemma top_by_eq:
  fixes ok :: "Task \<Rightarrow> bool"
  assumes "queue_inv q" "set ord = dom (queueTasks q)"
  defines "backup \<equiv> filter (\<lambda>t. \<not> retired q t \<and> ok t) (tasks_in ord q)"
  shows "set backup = cands ok q"
    "fst (top_by ok ord q) = (if cands ok q = {} then None
       else Some (sort_key GetCreateTime backup ! pick (queueCurrent q) (sort_key GetCreateTime backup)))"
    "queueTasks (snd (top_by ok ord q)) = live q" "gcFunc (snd (top_by ok ord q)) = gcFunc q"
    "filterFunc (snd (top_by ok ord q)) = filterFunc q" "queueCap (snd (top_by ok ord q)) = queueCap q"
    "queueCurrent (snd (top_by ok ord q)) = (case fst (top_by ok ord q) of None \<Rightarrow> queueCurrent q | Some t \<Rightarrow> GetCreateTime t)"
proof -
  show s: "set backup = cands ok q"
    by (auto simp: backup_def set_tasks_in [OF assms(2)] cands_def live_ran)
  have e: "cands ok q = {}" "live q = Map.empty" if "queueTasks q = Map.empty"
    using that by (auto simp: cands_def live_def ran_def fun_eq_iff)
  have b: "backup = [] \<longleftrightarrow> cands ok q = {}" using s by (metis set_empty)
  have t: "top_by ok ord q = (if cands ok q = {} then (None, if queueTasks q = Map.empty then q else remove_all (filter (retired q) (tasks_in ord q)) q)
      else (Some (sort_key GetCreateTime backup ! pick (queueCurrent q) (sort_key GetCreateTime backup)),
        remove_all (filter (retired q) (tasks_in ord q)) (q\<lparr>queueCurrent := GetCreateTime (sort_key GetCreateTime backup !
          pick (queueCurrent q) (sort_key GetCreateTime backup))\<rparr>)))"
    using e b by (auto simp: top_by_def Let_def pick_def backup_def [symmetric])
  show "fst (top_by ok ord q) = (if cands ok q = {} then None
       else Some (sort_key GetCreateTime backup ! pick (queueCurrent q) (sort_key GetCreateTime backup)))"
    "queueTasks (snd (top_by ok ord q)) = live q" "gcFunc (snd (top_by ok ord q)) = gcFunc q"
    "filterFunc (snd (top_by ok ord q)) = filterFunc q" "queueCap (snd (top_by ok ord q)) = queueCap q"
    "queueCurrent (snd (top_by ok ord q)) = (case fst (top_by ok ord q) of None \<Rightarrow> queueCurrent q | Some t \<Rightarrow> GetCreateTime t)"
    using e by (auto simp: t gc_all_live [OF assms(1,2)] remove_all_sel)
qed

lemma top_by_choice:
  assumes "queue_inv q" "set ord = dom (queueTasks q)"
  shows "fst (top_by ok ord q) = None \<longleftrightarrow> cands ok q = {}"
    "fst (top_by ok ord q) = Some t \<Longrightarrow> next_in_round (queueCurrent q) (cands ok q) t"
proof -
  note t = top_by_eq [OF assms, of ok]
  show "fst (top_by ok ord q) = None \<longleftrightarrow> cands ok q = {}" by (simp add: t(2))
  let ?xs = "sort_key GetCreateTime (filter (\<lambda>t. \<not> retired q t \<and> ok t) (tasks_in ord q))"
  assume "fst (top_by ok ord q) = Some t"
  then have ne: "cands ok q \<noteq> {}" "t = ?xs ! pick (queueCurrent q) ?xs" by (auto simp: t(2) split: if_splits)
  have xs: "set ?xs = cands ok q" using t(1) by (simp only: set_sort)
  then have "?xs \<noteq> []" using ne(1) by (metis set_empty)
  from pick_spec(2) [OF this, of "queueCurrent q"] show "next_in_round (queueCurrent q) (cands ok q) t"
    unfolding xs ne(2) by simp
qed

end
