(* ===== verification/SP_QueueProps.thy ===== *)
theory SP_QueueProps
  imports SP_Queue
begin

text \<open>
  What the queues promise: the contract of a queue as a locale over its live tasks, its
  interpretation on \<open>GfSpTQueue\<close>, the transition system of all queue operations with the capacity as an
  invariant, and the round-robin choice of \<open>top\<close>.
\<close>

subsection \<open>The contract of a task queue\<close>

locale task_queue =
  fixes inv :: "'q \<Rightarrow> bool" and content :: "'q \<Rightarrow> string \<rightharpoonup> Task" and dead :: "'q \<Rightarrow> Task \<Rightarrow> bool"
    and push :: "Task \<Rightarrow> 'q \<Rightarrow> queue_error option \<times> 'q" and pop_key :: "string \<Rightarrow> 'q \<Rightarrow> Task option \<times> 'q"
  assumes push_keeps: "inv q \<Longrightarrow> inv (snd (push t q)) \<and> dead (snd (push t q)) = dead q"
    and push_refused: "inv q \<Longrightarrow> push t q = (Some e, q') \<Longrightarrow> content q' = content q"
    and push_accepted: "inv q \<Longrightarrow> push t q = (None, q') \<Longrightarrow>
      Key t \<notin> dom (content q) \<and> content q' = (if dead q t then content q else (content q)(Key t \<mapsto> t))"
    and pop_key_keeps: "inv q \<Longrightarrow> inv (snd (pop_key k q)) \<and> dead (snd (pop_key k q)) = dead q"
    and pop_key_content: "inv q \<Longrightarrow> fst (pop_key k q) = content q k \<and> content (snd (pop_key k q)) = (content q)(k := None)"
begin

lemma push_pop:
  assumes "inv q" "push t q = (None, q')" "\<not> dead q t"
  shows "fst (pop_key (Key t) q') = Some t \<and> content (snd (pop_key (Key t) q')) = content q"
proof -
  have "inv q'" using push_keeps [OF assms(1), of t] assms(2) by simp
  moreover note push_accepted [OF assms(1,2)] assms(3)
  ultimately show ?thesis using pop_key_content [of q' "Key t"] by (auto simp: fun_upd_idem domIff)
qed

lemma push_keeps_others:
  assumes "inv q" "k \<noteq> Key t"
  shows "content (snd (push t q)) k = content q k"
  using push_refused [OF assms(1)] push_accepted [OF assms(1)] assms(2)
  by (cases "push t q"; cases "fst (push t q)") auto

lemma pop_key_twice: "inv q \<Longrightarrow> fst (pop_key k (snd (pop_key k q))) = None"
  using pop_key_content pop_key_keeps by simp

end

interpretation gfsp_queue: task_queue queue_inv live retired queue_Push queue_PopByKey
proof (unfold_locales, goal_cases)
  case (1 q t)
  obtain e q' where p: "queue_Push t q = (e, q')" by force
  then show ?case using Push_inv [OF 1, of t] Push_error [OF 1, of t] Push_ok [OF 1, of t] by (cases e) simp_all
next
  case (2 q t e q') then show ?case using Push_error by blast
next
  case (3 q t q') then show ?case using Push_ok by blast
next
  case (4 q k) then show ?case using PopByKey_eq by blast
next
  case (5 q k) then show ?case using PopByKey_eq by blast
qed

subsection \<open>Popping the top task\<close>

lemma top_by_inv:
  assumes "queue_inv q" "set ord = dom (queueTasks q)"
  shows "queue_inv (snd (top_by ok ord q))" "live (snd (top_by ok ord q)) = live q" "retired (snd (top_by ok ord q)) = retired q"
    "admitted (snd (top_by ok ord q)) = admitted q"
proof -
  note t = top_by_eq [OF assms, of ok]
  show r: "retired (snd (top_by ok ord q)) = retired q" using t(4) by (simp add: retired_def fun_eq_iff)
  show "admitted (snd (top_by ok ord q)) = admitted q" using t(5) by (simp add: admitted_def fun_eq_iff)
  show "live (snd (top_by ok ord q)) = live q"
    unfolding live_def [of "snd (top_by ok ord q)"] t(3) r by (rule ext) (simp add: live_def split: option.splits)
  have "dom (live q) \<subseteq> dom (queueTasks q)" by (auto simp: live_def split: option.splits)
  then have "card (dom (live q)) \<le> card (dom (queueTasks q))" using queue_invD(2) [OF assms(1)] by (rule card_mono [rotated])
  then show "queue_inv (snd (top_by ok ord q))"
    using assms(1) \<open>dom (live q) \<subseteq> _\<close> finite_subset [OF \<open>dom (live q) \<subseteq> _\<close>]
    by (auto simp: queue_inv_def t(3,6) queue_Len_def live_def split: option.splits if_splits)
qed

lemma delete_live:
  assumes "queue_inv q" "live q (Key t) = Some t"
  shows "live (queue_delete t q) = (live q)(Key t := None)" "queue_inv (queue_delete t q)" "queueCurrent (queue_delete t q) = queueCurrent q"
  using assms by (auto simp: queue_delete_eq live_remove_key remove_key_inv live_def domIff split: option.splits)

lemma cands_key: "queue_inv q \<Longrightarrow> t \<in> cands ok q \<Longrightarrow> live q (Key t) = Some t"
  using queue_invD(1) by (fastforce simp: cands_def ran_def live_def split: option.splits if_splits)

lemma pop_by_spec:
  assumes "queue_inv q" "set ord = dom (queueTasks q)" "top_by ok ord q = (Some t, q1)"
  shows "t \<in> cands ok q" "next_in_round (queueCurrent q) (cands ok q) t" "live (queue_delete t q1) = (live q)(Key t := None)"
    "queue_inv (queue_delete t q1)" "queueCurrent (queue_delete t q1) = GetCreateTime t"
proof -
  note i = top_by_inv [OF assms(1,2), of ok] and e = top_by_eq(7) [OF assms(1,2), of ok]
  show n: "next_in_round (queueCurrent q) (cands ok q) t" using top_by_choice(2) [OF assms(1,2), of ok t] assms(3) by simp
  then show c: "t \<in> cands ok q" by (simp add: next_in_round_def)
  have l: "live q1 (Key t) = Some t" using cands_key [OF assms(1) c] i(2) assms(3) by simp
  show "live (queue_delete t q1) = (live q)(Key t := None)" "queue_inv (queue_delete t q1)"
    "queueCurrent (queue_delete t q1) = GetCreateTime t"
    using delete_live [of q1 t] l i(1,2) e assms(3) by auto
qed

subsection \<open>The queue as a transition system\<close>

datatype queue_op =
    OpPush Task
  | OpPop "string list"
  | OpTop "string list"
  | OpPopByKey string
  | OpHas string
  | OpPopByLimit GfSpLimit "string list"
  | OpSetFilter "Task \<Rightarrow> bool"
  | OpSetRetire "Task \<Rightarrow> bool"

fun queue_exec :: "queue_op \<Rightarrow> GfSpTQueue \<Rightarrow> GfSpTQueue option" where
  "queue_exec (OpPush t) q = Some (snd (queue_Push t q))"
| "queue_exec (OpPop ord) q = Some (snd (queue_Pop ord q))"
| "queue_exec (OpTop ord) q = Some (snd (queue_top ord q))"
| "queue_exec (OpPopByKey k) q = Some (snd (queue_PopByKey k q))"
| "queue_exec (OpHas k) q = Some (snd (queue_Has k q))"
| "queue_exec (OpPopByLimit l ord) q = map_option snd (queue_PopByLimit l ord q)"
| "queue_exec (OpSetFilter f) q = Some (SetFilterTaskStrategy f q)"
| "queue_exec (OpSetRetire f) q = Some (SetRetireTaskStrategy f q)"

text \<open>An order of the keys is an order of ranging over the map when it has exactly its keys.\<close>

fun order_ok :: "queue_op \<Rightarrow> GfSpTQueue \<Rightarrow> bool" where
  "order_ok (OpPop ord) q \<longleftrightarrow> set ord = dom (queueTasks q)"
| "order_ok (OpTop ord) q \<longleftrightarrow> set ord = dom (queueTasks q)"
| "order_ok (OpPopByLimit l ord) q \<longleftrightarrow> set ord = dom (queueTasks q)"
| "order_ok _ q \<longleftrightarrow> True"

inductive queue_reachable :: "string \<Rightarrow> int \<Rightarrow> GfSpTQueue \<Rightarrow> bool" for name capacity where
  queue_init: "queue_reachable name capacity (NewGfSpTQueue name capacity)"
| queue_step: "queue_reachable name capacity q \<Longrightarrow> order_ok op q \<Longrightarrow> queue_exec op q = Some q' \<Longrightarrow>
    queue_reachable name capacity q'"

lemma queueCap_ops [simp]:
  "queueCap (snd (queue_has k q)) = queueCap q" "queueCap (queue_delete t q) = queueCap q" "queueCap (queue_add t q) = queueCap q"
  "queueCap (SetFilterTaskStrategy f q) = queueCap q" "queueCap (SetRetireTaskStrategy f q) = queueCap q"
  by (auto simp: queue_has_def queue_delete_def queue_add_def SetFilterTaskStrategy_def SetRetireTaskStrategy_def
      Let_def split: option.splits prod.splits)

lemma queueCap_top [simp]: "queueCap (snd (top_by ok ord q)) = queueCap q"
  by (simp add: top_by_def Let_def remove_all_sel)

lemma queueCap_retire: "retire_one gc ks q = Some q' \<Longrightarrow> queueCap q' = queueCap q"
  using retire_one_cases by fastforce

lemma queueCap_has: "queue_has k q = (b, q') \<Longrightarrow> queueCap q' = queueCap q"
  using queueCap_ops(1) [of k q] by simp

lemma queueCap_Pop: "queueCap (snd (queue_Pop ord q)) = queueCap q"
proof -
  obtain r q1 where t: "top_by (admitted q) ord q = (r, q1)" by force
  have "queueCap q1 = queueCap q" using queueCap_top [of "admitted q" ord q] t by simp
  then show ?thesis by (cases r) (simp_all add: queue_Pop_def queue_top_def t)
qed

lemma queueCap_PopByLimit: "queue_PopByLimit l ord q = Some (r, q') \<Longrightarrow> queueCap q' = queueCap q"
proof -
  assume "queue_PopByLimit l ord q = Some (r, q')"
  then obtain r1 q1 ok where t: "top_by ok ord q = (r1, q1)"
    and q': "(r, q') = (case r1 of None \<Rightarrow> (None, q1) | Some t \<Rightarrow> (Some t, queue_delete t q1))"
    by (auto simp: queue_PopByLimit_def queue_topByLimit_def split: if_splits prod.splits)
  have "queueCap q1 = queueCap q" using queueCap_top [of ok ord q] t by simp
  with q' show ?thesis by (cases r1) simp_all
qed

lemma queueCap_Push: "queueCap (snd (queue_Push t q)) = queueCap q"
proof -
  obtain b q1 where h: "queue_has (Key t) q = (b, q1)" by force
  then have "queueCap q1 = queueCap q" by (rule queueCap_has)
  then show ?thesis by (auto simp: queue_Push_def h dest: queueCap_retire split: option.splits)
qed

lemma queueCap_PopByKey: "queueCap (snd (queue_PopByKey k q)) = queueCap q"
proof -
  obtain b q1 where h: "queue_has k q = (b, q1)" by force
  then have "queueCap q1 = queueCap q" by (rule queueCap_has)
  then show ?thesis by (auto simp: queue_PopByKey_def h split: option.splits)
qed

lemma queueCap_exec: "queue_exec op q = Some q' \<Longrightarrow> queueCap q' = queueCap q"
  by (cases op) (auto simp: queue_top_def queue_Has_def queueCap_Push queueCap_Pop queueCap_PopByKey queueCap_PopByLimit)

lemma strategy_inv: "queue_inv (SetFilterTaskStrategy f q) = queue_inv q" "queue_inv (SetRetireTaskStrategy f q) = queue_inv q"
  by (simp_all add: queue_inv_def SetFilterTaskStrategy_def SetRetireTaskStrategy_def queue_Len_def)

lemma Pop_inv:
  assumes "queue_inv q" "set ord = dom (queueTasks q)"
  shows "queue_inv (snd (queue_Pop ord q))"
proof -
  obtain r q1 where t: "top_by (admitted q) ord q = (r, q1)" by force
  show ?thesis
  proof (cases r)
    case None with t top_by_inv(1) [OF assms, of "admitted q"] show ?thesis by (simp add: queue_Pop_def queue_top_def)
  next
    case (Some u) with t pop_by_spec(4) [OF assms] show ?thesis by (simp add: queue_Pop_def queue_top_def)
  qed
qed

lemma PopByLimit_cases:
  assumes "queue_PopByLimit l ord q = Some (r, q')"
  obtains (none) q1 where "r = None" "queue_topByLimit l ord q = Some (None, q1)" "q' = q1"
    | (some) t q1 where "r = Some t" "queue_topByLimit l ord q = Some (Some t, q1)" "q' = queue_delete t q1"
  using assms by (auto simp: queue_PopByLimit_def split: option.splits)

lemma topByLimit_eq:
  "queue_topByLimit l ord q = Some p \<Longrightarrow>
    p = top_by (\<lambda>t. (case EstimateLimit t of Some k \<Rightarrow> NotLess l k | None \<Rightarrow> False) \<and> admitted q t) ord q"
  by (simp add: queue_topByLimit_def split: if_splits)

lemma PopByLimit_inv:
  assumes "queue_inv q" "set ord = dom (queueTasks q)" "queue_PopByLimit l ord q = Some (r, q')"
  shows "queue_inv q'"
  using assms(3)
proof (cases rule: PopByLimit_cases)
  case (none q1)
  with topByLimit_eq [OF none(2)] top_by_inv(1) [OF assms(1,2)] show ?thesis by (metis snd_conv)
next
  case (some t q1)
  with topByLimit_eq [OF some(2)] pop_by_spec(4) [OF assms(1,2)] show ?thesis by metis
qed

lemma queue_exec_inv:
  assumes "queue_inv q" "order_ok op q" "queue_exec op q = Some q'"
  shows "queue_inv q'"
proof (cases op)
  case (OpHas k)
  with assms queue_has_live show ?thesis by (auto simp: queue_Has_def)
next
  case (OpPopByLimit l ord)
  with assms PopByLimit_inv [of q ord l] show ?thesis by auto
qed (use assms in \<open>auto simp: Push_inv Pop_inv queue_top_def top_by_inv PopByKey_eq strategy_inv\<close>)

lemma queue_reachable_inv: "queue_reachable name capacity q \<Longrightarrow> queue_inv q \<and> queueCap q = capacity"
proof (induction rule: queue_reachable.induct)
  case queue_init
  then show ?case by (simp add: NewGfSpTQueue_def queue_inv_def queue_Len_def)
next
  case (queue_step q op q')
  then show ?case using queue_exec_inv queueCap_exec by metis
qed


lemma card_live: "queue_inv q \<Longrightarrow> int (card (dom (live q))) \<le> queue_Len q"
  using queue_invD(2) [of q] by (auto simp: queue_Len_def live_def split: option.splits intro!: card_mono)

lemma Push_result:
  assumes "queue_inv q"
  shows "fst (queue_Push t q) = (if Key t \<in> dom (live q) then Some ErrTaskRepeated
    else if int (card (dom (live q))) \<ge> queueCap q then Some ErrTaskQueueExceed else None)"
  using assms
proof (cases rule: Push_cases [where t = t])
  case exceed
  let ?q1 = "snd (queue_has (Key t) q)"
  have l: "live ?q1 = live q" "retired ?q1 = retired q" using queue_has_live [OF assms] by auto
  have "queueTasks ?q1 = live q"
  proof
    fix k show "queueTasks ?q1 k = live q k"
      using exceed(4) unfolding l(1) [symmetric] live_def l(2) by (cases "queueTasks ?q1 k") simp_all
  qed
  then have "int (card (dom (live q))) \<ge> queueCap q" using exceed(3) by (simp add: queue_Len_def)
  with exceed show ?thesis by simp
next
  case (pushed q1)
  then have "int (card (dom (live q))) < queueCap q" using card_live [of q1] by simp
  with pushed show ?thesis by simp
qed simp

subsection \<open>Properties\<close>

definition sample_meta :: "int \<Rightarrow> Task" where
  "sample_meta n = GCMeta (InitGCMetaTask n 10 5)"

definition sample_queue :: "int list \<Rightarrow> int \<Rightarrow> GfSpTQueue" where
  "sample_queue ns capacity = (NewGfSpTQueue ''q'' capacity)\<lparr>queueTasks := map_of (map (\<lambda>n. (Key (sample_meta n), sample_meta n)) ns)\<rparr>"

lemma sample_meta_key [simp]: "Key (sample_meta n) = Key (sample_meta m) \<longleftrightarrow> n = m" "GetCreateTime (sample_meta n) = n"
  by (simp_all add: sample_meta_def GfSpGfSpGCMetaTaskKey_def InitGCMetaTask_def fresh_base_def base_SetPriority_def
      GetCreateTime_def)

lemma sample_meta_inject: "sample_meta n = sample_meta m \<longleftrightarrow> n = m"
  using sample_meta_key(2) by metis

lemma sample_queue_sel [simp]:
  "queueTasks (sample_queue ns c) = map_of (map (\<lambda>n. (Key (sample_meta n), sample_meta n)) ns)"
  "queueCap (sample_queue ns c) = c" "retired (sample_queue ns c) = (\<lambda>_. False)" "admitted (sample_queue ns c) = (\<lambda>_. True)"
  "queueCurrent (sample_queue ns c) = 0"
  by (simp_all add: sample_queue_def NewGfSpTQueue_def retired_def admitted_def fun_eq_iff)

lemma sample_live [simp]: "live (sample_queue ns c) = map_of (map (\<lambda>n. (Key (sample_meta n), sample_meta n)) ns)"
  by (rule ext) (simp add: live_def split: option.splits)

lemma sample_dom: "dom (map_of (map (\<lambda>n. (Key (sample_meta n), sample_meta n)) ns)) = (\<lambda>n. Key (sample_meta n)) ` set ns"
  by (simp add: dom_map_of_conv_image_fst image_image)

lemma sample_card: "distinct ns \<Longrightarrow> card ((\<lambda>n. Key (sample_meta n)) ` set ns) = length ns"
  by (subst card_image) (auto simp: inj_on_def distinct_card)

lemma sample_queue_inv: "distinct ns \<Longrightarrow> int (length ns) \<le> c \<Longrightarrow> queue_inv (sample_queue ns c)"
  by (auto simp: queue_inv_def queue_Len_def sample_dom sample_card dest: map_of_SomeD)

lemma sample_cands: "distinct ns \<Longrightarrow> cands ok (sample_queue ns c) = {t \<in> sample_meta ` set ns. ok t}"
proof -
  assume "distinct ns"
  then have "ran (map_of (map (\<lambda>n. (Key (sample_meta n), sample_meta n)) ns)) = sample_meta ` set ns"
    by (subst ran_distinct) (auto simp: distinct_map inj_on_def image_image)
  then show ?thesis by (simp add: cands_def)
qed

text \<open>
  a queue never grows past its capacity and holds every task under that task's own key, in every
  state reachable by pushes, pops in whatever order the map is ranged over, pops by key and by limit,
  lookups and changes of strategy.
\<close>

theorem queue_bounded:
  assumes "queue_reachable name capacity q"
  shows "queue_Len q \<le> max 0 capacity \<and> (\<forall>k t. queueTasks q k = Some t \<longrightarrow> Key t = k)"
  using queue_reachable_inv [OF assms] by (auto simp: queue_inv_def)

theorem queue_bounded_witness:
  "queue_Len (snd (queue_Push (sample_meta 4) (NewGfSpTQueue ''q'' 1))) \<le> 1"
proof -
  have "queue_reachable ''q'' 1 (snd (queue_Push (sample_meta 4) (NewGfSpTQueue ''q'' 1)))"
    by (rule queue_step [where op = "OpPush (sample_meta 4)", OF queue_init]) simp_all
  from queue_bounded [OF this] show ?thesis by simp
qed

text \<open>
  C33: a push is refused as repeated exactly when a live task has its key, and for capacity exactly when
  the live tasks alone fill the queue (retired tasks make room); otherwise the task is in the queue
  afterwards, and in every case no other live task is lost.
\<close>

theorem Push_behaviour:
  assumes "queue_inv q"
  shows "fst (queue_Push t q) = (if Key t \<in> dom (live q) then Some ErrTaskRepeated
      else if int (card (dom (live q))) \<ge> queueCap q then Some ErrTaskQueueExceed else None)
    \<and> live (snd (queue_Push t q)) = (if fst (queue_Push t q) = None \<and> \<not> retired q t then (live q)(Key t \<mapsto> t) else live q)"
proof -
  obtain e q' where p: "queue_Push t q = (e, q')" by force
  have "live q' = (if e = None \<and> \<not> retired q t then (live q)(Key t \<mapsto> t) else live q)"
  proof (cases e)
    case None with Push_ok [OF assms, of t q'] p show ?thesis by simp
  next
    case (Some x) with Push_error [OF assms, of t x q'] p show ?thesis by simp
  qed
  then show ?thesis unfolding Push_result [OF assms] by (simp only: p fst_conv snd_conv Push_result [OF assms, of t, unfolded p fst_conv])
qed

theorem Push_behaviour_witness:
  "fst (queue_Push (sample_meta 7) (sample_queue [4, 5] 2)) = Some ErrTaskQueueExceed
   \<and> fst (queue_Push (sample_meta 5) (sample_queue [4, 5] 2)) = Some ErrTaskRepeated
   \<and> live (snd (queue_Push (sample_meta 7) (sample_queue [4, 5] 3))) (Key (sample_meta 7)) = Some (sample_meta 7)"
proof -
  have d: "dom (live (sample_queue [4, 5] c)) = (\<lambda>n. Key (sample_meta n)) ` set [4, 5]" for c
    unfolding sample_live sample_dom ..
  have c: "card ((\<lambda>n. Key (sample_meta n)) ` set [4, 5]) = 2" by (subst sample_card) simp_all
  have i: "queue_inv (sample_queue [4, 5] 2)" "queue_inv (sample_queue [4, 5] 3)" by (rule sample_queue_inv; simp)+
  have n: "Key (sample_meta 7) \<notin> (\<lambda>n. Key (sample_meta n)) ` set [4, 5]"
    "Key (sample_meta 5) \<in> (\<lambda>n. Key (sample_meta n)) ` set [4, 5]" by auto
  note b = Push_behaviour [OF i(1), unfolded d c sample_queue_sel] Push_behaviour [OF i(2), unfolded d c sample_queue_sel]
  have "fst (queue_Push (sample_meta 7) (sample_queue [4, 5] 2)) = Some ErrTaskQueueExceed" using b(1) n(1) by simp
  moreover have "fst (queue_Push (sample_meta 5) (sample_queue [4, 5] 2)) = Some ErrTaskRepeated" using b(1) n(2) by simp
  moreover have "live (snd (queue_Push (sample_meta 7) (sample_queue [4, 5] 3))) (Key (sample_meta 7)) = Some (sample_meta 7)"
    using b(2) n(1) by simp
  ultimately show ?thesis by blast
qed

text \<open>
  a task that was pushed and is not retired is returned by a pop with its key, and the pop leaves
  the live tasks that were there before the push.
\<close>

theorem Push_PopByKey_roundtrip:
  assumes "queue_inv q" and "queue_Push t q = (None, q')" and "\<not> retired q t"
  shows "fst (queue_PopByKey (Key t) q') = Some t \<and> live (snd (queue_PopByKey (Key t) q')) = live q"
  using gfsp_queue.push_pop [OF assms] .

theorem Push_PopByKey_roundtrip_witness:
  "\<exists>q'. queue_Push (sample_meta 7) (sample_queue [4] 3) = (None, q')
    \<and> fst (queue_PopByKey (Key (sample_meta 7)) q') = Some (sample_meta 7)"
proof -
  have i: "queue_inv (sample_queue [4] 3)" by (rule sample_queue_inv) simp_all
  have "fst (queue_Push (sample_meta 7) (sample_queue [4] 3)) = None"
    unfolding Push_result [OF i] by (simp add: sample_dom)
  then obtain q' where q': "queue_Push (sample_meta 7) (sample_queue [4] 3) = (None, q')" by (metis prod.collapse)
  from Push_PopByKey_roundtrip [OF i q'] q' show ?thesis by simp
qed

text \<open>
  a pop returns nothing exactly when no live task passes the filter; otherwise it returns the next
  one in the round (the least creation time after that of the task returned last, or the least of all
  when there is none), removes it and no other live task.
\<close>

theorem Pop_behaviour:
  assumes "queue_inv q" and "set ord = dom (queueTasks q)"
  shows "case queue_Pop ord q of
      (None, q') \<Rightarrow> cands (admitted q) q = {} \<and> live q' = live q
    | (Some t, q') \<Rightarrow> next_in_round (queueCurrent q) (cands (admitted q) q) t \<and> live q' = (live q)(Key t := None)
        \<and> queueCurrent q' = GetCreateTime t"
proof -
  obtain r q1 where t: "top_by (admitted q) ord q = (r, q1)" by force
  show ?thesis
  proof (cases r)
    case None
    with t top_by_choice(1) [OF assms, of "admitted q"] top_by_inv(2) [OF assms, of "admitted q"] show ?thesis
      by (simp add: queue_Pop_def queue_top_def)
  next
    case (Some u)
    with t pop_by_spec [OF assms, of "admitted q" u q1] show ?thesis by (simp add: queue_Pop_def queue_top_def)
  qed
qed

theorem Pop_behaviour_witness:
  "case queue_Pop [Key (sample_meta 4), Key (sample_meta 5)] (sample_queue [4, 5] 2) of
      (None, q') \<Rightarrow> False
    | (Some t, q') \<Rightarrow> next_in_round 0 {sample_meta 4, sample_meta 5} t"
proof -
  have c: "cands (\<lambda>_. True) (sample_queue [4, 5] 2) = {sample_meta 4, sample_meta 5}"
    by (subst sample_cands) auto
  have "queue_inv (sample_queue [4, 5] 2)" by (rule sample_queue_inv) simp_all
  from Pop_behaviour [OF this, of "[Key (sample_meta 4), Key (sample_meta 5)]"] c show ?thesis
    by (auto simp: sample_dom split: prod.splits option.splits)
qed

text \<open>
  a pop by limit returns only a task whose resource estimate fits the limit, so the executor that
  asked with its remaining resources can reserve what the task needs; it removes exactly that task.
\<close>

theorem PopByLimit_fits:
  assumes "queue_inv q" and "set ord = dom (queueTasks q)" and "queue_PopByLimit limit ord q = Some (Some t, q')"
  shows "\<exists>l. EstimateLimit t = Some l \<and> NotLess limit l \<and> live q (Key t) = Some t \<and> admitted q t
    \<and> live q' = (live q)(Key t := None)"
  using assms(3)
proof (cases rule: PopByLimit_cases)
  case (some u q1)
  then have tb: "top_by (\<lambda>t. (case EstimateLimit t of Some k \<Rightarrow> NotLess limit k | None \<Rightarrow> False) \<and> admitted q t) ord q = (Some t, q1)"
    using topByLimit_eq [OF some(2)] by simp
  note p = pop_by_spec [OF assms(1,2) tb]
  have "live q (Key t) = Some t" using p(1) by (rule cands_key [OF assms(1)])
  with p(1,3) some show ?thesis by (auto simp: cands_def split: option.splits)
qed simp

theorem PopByLimit_fits_witness:
  "\<exists>t q' l. queue_PopByLimit (zero_limit\<lparr>limTasks := 5, limTasksLowPriority := 5\<rparr>) [Key (sample_meta 4)] (sample_queue [4] 2)
      = Some (Some t, q') \<and> EstimateLimit t = Some l \<and> NotLess (zero_limit\<lparr>limTasks := 5, limTasksLowPriority := 5\<rparr>) l"
proof -
  let ?L = "zero_limit\<lparr>limTasks := 5, limTasksLowPriority := 5\<rparr>" and ?q = "sample_queue [4] 2" and ?k = "Key (sample_meta 4)"
  have i: "queue_inv ?q" by (rule sample_queue_inv) simp_all
  have e: "EstimateLimit (sample_meta 4) = Some (zero_limit\<lparr>limTasks := 1, limTasksLowPriority := 1\<rparr>)"
    by (simp add: sample_meta_def InitGCMetaTask_def LimitEstimateByPriority_def priority_defs base_GetPriority_def
        base_SetPriority_def u8_def i32_def)
  have ti: "tasks_in [?k] ?q = [sample_meta 4]" by (simp add: tasks_in_def)
  have f: "NotLess ?L (zero_limit\<lparr>limTasks := 1, limTasksLowPriority := 1\<rparr>)" by (simp add: NotLess_iff zero_limit_def)
  let ?ok = "\<lambda>t. (case EstimateLimit t of Some l \<Rightarrow> NotLess ?L l | None \<Rightarrow> False) \<and> admitted ?q t"
  have "cands ?ok ?q = {sample_meta 4}" using e f by (subst sample_cands) auto
  then obtain t where "fst (top_by ?ok [?k] ?q) = Some t"
    using top_by_choice(1) [OF i, of "[?k]" ?ok] by (auto simp: sample_dom)
  then obtain q1 where "top_by ?ok [?k] ?q = (Some t, q1)" by (metis prod.collapse)
  then have "queue_topByLimit ?L [?k] ?q = Some (Some t, q1)" using e ti by (simp add: queue_topByLimit_def)
  then have p: "queue_PopByLimit ?L [?k] ?q = Some (Some t, queue_delete t q1)" by (simp add: queue_PopByLimit_def)
  from PopByLimit_fits [OF i _ p] p show ?thesis by (auto simp: sample_dom)
qed


subsection \<open>Round robin\<close>

text \<open>Successive calls of \<open>Top\<close>, each with its own order of ranging over the map.\<close>

fun tops :: "string list list \<Rightarrow> GfSpTQueue \<Rightarrow> Task option list" where
  "tops [] q = []"
| "tops (ord # ords) q = (let (r, q') = queue_top ord q in r # tops ords q')"

lemma pick_strict:
  assumes "sorted_wrt (\<lambda>a b. GetCreateTime a < GetCreateTime b) xs" "i < length xs"
  shows "pick (GetCreateTime (xs ! i)) xs = Suc i mod length xs"
proof -
  let ?n = "length xs" and ?c = "GetCreateTime (xs ! i)"
  have lt: "GetCreateTime (xs ! k) < GetCreateTime (xs ! l)" if "k < l" "l < ?n" for k l
    using sorted_wrt_nth_less [OF assms(1) that] .
  have le: "GetCreateTime (xs ! k) \<le> GetCreateTime (xs ! l)" if "k \<le> l" "l < ?n" for k l
    using lt [of k l] that by (cases "k = l") auto
  have "\<forall>k l. k \<le> l \<longrightarrow> l < ?n \<longrightarrow> ?c < GetCreateTime (xs ! k) \<longrightarrow> ?c < GetCreateTime (xs ! l)"
    using le by (meson less_le_trans)
  note sp = sort_Search_spec [OF this]
  let ?s = "sort_Search ?n (\<lambda>k. ?c < GetCreateTime (xs ! k))"
  have "?s = Suc i"
  proof (rule antisym)
    show "?s \<le> Suc i"
    proof (cases "Suc i < ?n")
      case True
      then have "?c < GetCreateTime (xs ! Suc i)" using lt [of i "Suc i"] by simp
      then show ?thesis using sp(2) [of "Suc i"] by (meson not_less)
    next
      case False then show ?thesis using sp(1) assms(2) by simp
    qed
    show "Suc i \<le> ?s"
    proof (rule ccontr)
      assume "\<not> Suc i \<le> ?s"
      then have "?s \<le> i" by simp
      from sp(3) [OF this assms(2)] show False by simp
    qed
  qed
  then show ?thesis using assms(2) by (auto simp: pick_def)
qed

lemma strict_sort_unique:
  assumes "set xs = set ys" "sorted_wrt (\<lambda>a b. GetCreateTime a < GetCreateTime b) xs"
    "sorted_wrt (\<lambda>a b. GetCreateTime a < GetCreateTime b) ys"
  shows "xs = ys"
proof (rule map_inj_on [of GetCreateTime])
  have "sorted (map GetCreateTime zs) \<and> distinct (map GetCreateTime zs)"
    if "sorted_wrt (\<lambda>a b. GetCreateTime a < GetCreateTime b) zs" for zs
  proof -
    have "sorted_wrt (<) (map GetCreateTime zs)" using that by (simp add: sorted_wrt_map)
    then show ?thesis unfolding strict_sorted_iff by blast
  qed
  from this [OF assms(2)] this [OF assms(3)] assms(1)
  show "map GetCreateTime xs = map GetCreateTime ys" "inj_on GetCreateTime (set xs \<union> set ys)"
    by (auto intro: sorted_distinct_set_unique simp: distinct_map)
qed

lemma strict_sort_key:
  assumes "distinct zs" "inj_on GetCreateTime (set zs)"
  shows "sorted_wrt (\<lambda>a b. GetCreateTime a < GetCreateTime b) (sort_key GetCreateTime zs)"
proof -
  have "distinct (map GetCreateTime (sort_key GetCreateTime zs))" using assms by (simp add: distinct_map)
  then have "sorted_wrt (<) (map GetCreateTime (sort_key GetCreateTime zs))" by (simp add: strict_sorted_iff)
  then show ?thesis by (simp add: sorted_wrt_map)
qed

lemma distinct_tasks_in: "queue_inv q \<Longrightarrow> distinct ord \<Longrightarrow> distinct (tasks_in ord q)"
proof (induction ord)
  case (Cons k ord)
  have "u \<notin> set (tasks_in ord q)" if "queueTasks q k = Some u" for u
  proof
    assume "u \<in> set (tasks_in ord q)"
    then obtain l where "l \<in> set ord" "queueTasks q l = Some u" by (auto simp: tasks_in_def List.map_filter_def)
    moreover from this that have "Key u = l" "Key u = k" using queue_invD(1) [OF Cons.prems(1)] by blast+
    ultimately show False using Cons.prems(2) by simp
  qed
  with Cons show ?case by (simp add: tasks_in_def split: option.splits)
qed (simp add: tasks_in_def)

lemma top_static:
  assumes "queue_inv q" "distinct ord" "set ord = dom (queueTasks q)" "live q = queueTasks q"
    and "sorted_wrt (\<lambda>a b. GetCreateTime a < GetCreateTime b) xs" "set xs = cands (admitted q) q" "xs \<noteq> []"
  shows "\<exists>q'. queue_top ord q = (Some (xs ! pick (queueCurrent q) xs), q') \<and> queue_inv q' \<and> queueTasks q' = queueTasks q
    \<and> live q' = queueTasks q' \<and> cands (admitted q') q' = cands (admitted q) q
    \<and> queueCurrent q' = GetCreateTime (xs ! pick (queueCurrent q) xs)"
proof -
  let ?b = "filter (\<lambda>t. \<not> retired q t \<and> admitted q t) (tasks_in ord q)"
  note t = top_by_eq [OF assms(1,3), of "admitted q"] and i = top_by_inv [OF assms(1,3), of "admitted q"]
  have "inj_on GetCreateTime (set xs)"
    using assms(5) by (metis distinct_map strict_sorted_iff sorted_wrt_map)
  then have "sorted_wrt (\<lambda>a b. GetCreateTime a < GetCreateTime b) (sort_key GetCreateTime ?b)"
    using distinct_tasks_in [OF assms(1,2)] t(1) assms(6) by (intro strict_sort_key) auto
  moreover have "set (sort_key GetCreateTime ?b) = set xs" using t(1) assms(6) by (simp only: set_sort)
  ultimately have s: "sort_key GetCreateTime ?b = xs" using strict_sort_unique assms(5) by blast
  have ne: "cands (admitted q) q \<noteq> {}" using assms(6,7) by auto
  have f: "fst (queue_top ord q) = Some (xs ! pick (queueCurrent q) xs)"
    unfolding queue_top_def t(2) s using ne by simp
  have c: "cands (admitted q) (snd (queue_top ord q)) = cands (admitted q) q"
    by (simp add: cands_def queue_top_def i(2))
  show ?thesis
    using f t(3,7) i assms(4) c unfolding queue_top_def
    by (intro exI [of _ "snd (top_by (admitted q) ord q)"]) (simp add: prod_eq_iff)
qed

lemma tops_static:
  assumes "sorted_wrt (\<lambda>a b. GetCreateTime a < GetCreateTime b) xs" "xs \<noteq> []"
  shows "queue_inv q \<Longrightarrow> live q = queueTasks q \<Longrightarrow> set xs = cands (admitted q) q \<Longrightarrow>
    \<forall>ord \<in> set ords. distinct ord \<and> set ord = dom (queueTasks q) \<Longrightarrow>
    tops ords q = map (\<lambda>j. Some (xs ! ((pick (queueCurrent q) xs + j) mod length xs))) [0..<length ords]"
proof (induction ords arbitrary: q)
  case (Cons ord ords)
  let ?i = "pick (queueCurrent q) xs"
  have srt: "sorted (map GetCreateTime xs)" using assms(1) by (metis sorted_wrt_map strict_sorted_imp_sorted)
  have lt: "?i < length xs" using pick_spec(1) [OF assms(2) srt] .
  obtain q' where q': "queue_top ord q = (Some (xs ! ?i), q')" "queue_inv q'" "queueTasks q' = queueTasks q"
    "live q' = queueTasks q'" "cands (admitted q') q' = cands (admitted q) q" "queueCurrent q' = GetCreateTime (xs ! ?i)"
    using top_static [OF Cons.prems(1) _ _ Cons.prems(2) assms(1) Cons.prems(3) assms(2), of ord] Cons.prems(4) by auto
  have p: "pick (queueCurrent q') xs = Suc ?i mod length xs" unfolding q'(6) using pick_strict [OF assms(1) lt] .
  have "tops ords q' = map (\<lambda>j. Some (xs ! ((Suc ?i mod length xs + j) mod length xs))) [0..<length ords]"
    using Cons.IH [OF q'(2,4)] q'(3,5) Cons.prems(3,4) p by simp
  moreover have "(Suc ?i mod length xs + j) mod length xs = (?i + Suc j) mod length xs" for j
    by (simp add: mod_add_left_eq)
  ultimately have "tops (ord # ords) q = Some (xs ! ?i) # map (\<lambda>j. Some (xs ! ((?i + Suc j) mod length xs))) [0..<length ords]"
    using q'(1) by simp
  also have "\<dots> = map (\<lambda>j. Some (xs ! ((?i + j) mod length xs))) [0..<length (ord # ords)]"
    using lt by (simp add: map_upt_Suc del: upt_Suc)
  finally show ?case .
qed simp

lemma mod_shift_surj: "0 < n \<Longrightarrow> k < n \<Longrightarrow> \<exists>j < n. (i + j) mod n = k" for n :: nat
proof -
  assume a: "0 < n" "k < n"
  let ?j = "(k + (n - i mod n)) mod n"
  have "(i + ?j) mod n = (i mod n + (k + (n - i mod n))) mod n" by (simp add: mod_add_left_eq mod_add_right_eq)
  also have "i mod n + (k + (n - i mod n)) = k + n" using a mod_less_divisor [of n i] by linarith
  finally show ?thesis using a by (intro exI [of _ ?j]) simp
qed

text \<open>
  C34: the choice of the top task is fair: on a queue whose tasks are not retired and have distinct
  creation times, as many calls of \<open>Top\<close> as there are admitted tasks return every one of them, in
  whatever orders the map is ranged over and whatever task was returned before.
\<close>

theorem Top_round_robin:
  assumes "queue_inv q" and "\<forall>k t. queueTasks q k = Some t \<longrightarrow> \<not> retired q t"
    and "inj_on GetCreateTime (cands (admitted q) q)" and "length ords = card (cands (admitted q) q)"
    and "\<forall>ord \<in> set ords. distinct ord \<and> set ord = dom (queueTasks q)"
  shows "set (tops ords q) = Some ` cands (admitted q) q"
proof (cases "cands (admitted q) q = {}")
  case True
  with assms(4) show ?thesis by simp
next
  case False
  have fin: "finite (cands (admitted q) q)"
  proof (rule finite_subset)
    show "cands (admitted q) q \<subseteq> ran (queueTasks q)" by (auto simp: cands_def live_ran)
    show "finite (ran (queueTasks q))" using queue_invD(2) [OF assms(1)] by (rule finite_ran)
  qed
  obtain zs where zs: "set zs = cands (admitted q) q" "distinct zs" using finite_distinct_list [OF fin] by blast
  let ?xs = "sort_key GetCreateTime zs"
  have xs: "sorted_wrt (\<lambda>a b. GetCreateTime a < GetCreateTime b) ?xs" "set ?xs = cands (admitted q) q" "?xs \<noteq> []"
  proof -
    show "sorted_wrt (\<lambda>a b. GetCreateTime a < GetCreateTime b) ?xs" using strict_sort_key [OF zs(2)] assms(3) zs(1) by simp
    show "set ?xs = cands (admitted q) q" using zs(1) by simp
    have "set ?xs \<noteq> {}" using zs(1) False by simp
    then show "?xs \<noteq> []" by force
  qed
  have len: "length ?xs = length ords" using zs assms(4) distinct_card by fastforce
  have l: "live q = queueTasks q" using assms(2) by (auto simp: live_def fun_eq_iff split: option.splits)
  let ?g = "\<lambda>j. ?xs ! ((pick (queueCurrent q) ?xs + j) mod length ?xs)"
  have "tops ords q = map (\<lambda>j. Some (?g j)) [0..<length ords]"
    using tops_static [OF xs(1,3) assms(1) l xs(2) assms(5)] .
  then have "set (tops ords q) = Some ` ?g ` {0..<length ?xs}" by (simp only: set_map set_upt image_image len)
  moreover have "?g ` {0..<length ?xs} = set ?xs"
  proof (rule set_eqI, rule iffI)
    fix x assume "x \<in> ?g ` {0..<length ?xs}"
    then show "x \<in> set ?xs" using xs(3) by (auto simp del: set_sort length_sort intro!: nth_mem mod_less_divisor)
  next
    fix x assume "x \<in> set ?xs"
    then obtain k where k: "k < length ?xs" "?xs ! k = x" by (metis in_set_conv_nth)
    with mod_shift_surj [of "length ?xs" k "pick (queueCurrent q) ?xs"] show "x \<in> ?g ` {0..<length ?xs}" by force
  qed
  ultimately show ?thesis using xs(2) by simp
qed


theorem Top_round_robin_witness:
  "set (tops [[Key (sample_meta 4), Key (sample_meta 5)], [Key (sample_meta 5), Key (sample_meta 4)]] (sample_queue [4, 5] 2))
     = Some ` {sample_meta 4, sample_meta 5}"
proof -
  have i: "queue_inv (sample_queue [4, 5] 2)" by (rule sample_queue_inv) simp_all
  have c: "cands (admitted (sample_queue [4, 5] 2)) (sample_queue [4, 5] 2) = {sample_meta 4, sample_meta 5}"
    by (subst sample_cands) auto
  have "set (tops [[Key (sample_meta 4), Key (sample_meta 5)], [Key (sample_meta 5), Key (sample_meta 4)]] (sample_queue [4, 5] 2))
     = Some ` cands (admitted (sample_queue [4, 5] 2)) (sample_queue [4, 5] 2)"
    by (rule Top_round_robin [OF i]) (auto simp: c sample_meta_inject sample_dom simp del: sample_queue_sel(4))
  then show ?thesis unfolding c .
qed

end
