(* ===== verification/SP_Traffic.thy ===== *)
theory SP_Traffic
  imports SP_Text "HOL-Library.List_Lexorder" "HOL-Library.Char_ord"
begin

text \<open>
  The read quota of buckets, \<^verbatim>\<open>src/store/sqldb/traffic.go\<close> and \<^verbatim>\<open>util.go\<close>.  The database is a list of rows
  per table, keyed as the schema says, with the documented behaviour of the object mapper: a
  transaction that returns an error leaves the tables as they were, creating a row whose key exists is
  an error, an update from a structure skips fields that are zero unless they are selected, and an
  update of a model without a key is refused.  The argument \<open>fails\<close> says which statement of an
  operation, counted from zero, is refused by the database.  Formatting a time as year and month
  depends on the time zone of the host and is the argument \<open>fmt\<close>.
\<close>

subsection \<open>Times\<close>

type_synonym go_time = "int \<times> int"

definition TimestampUsToTime :: "int \<Rightarrow> go_time" where
  "TimestampUsToTime ts = (ts sdiv 1000000, (ts smod 1000000) * 1000)"

definition TimestampYearMonth :: "(go_time \<Rightarrow> string) \<Rightarrow> int \<Rightarrow> string" where
  "TimestampYearMonth fmt ts = take 7 (fmt (TimestampUsToTime ts))"

text \<open>
  \<open>time.Parse("2006-01", s)\<close>, as a count of months; an error, which the source ignores, gives the zero
  time, which is January of the year one.
\<close>

definition parse_month :: "string \<Rightarrow> int" where
  "parse_month s =
     (if length s = 7 \<and> s ! 4 = CHR ''-'' \<and> list_all (\<lambda>c. digit_val c \<noteq> None) (take 4 s @ drop 5 s)
      then (case (ParseUint (take 4 s) 32, ParseUint (drop 5 s) 32) of
              (Inr y, Inr m) \<Rightarrow> if 1 \<le> m \<and> m \<le> 12 then y * 12 + m - 1 else 12
            | _ \<Rightarrow> 12)
      else 12)"

definition IsNextMonth :: "string \<Rightarrow> string \<Rightarrow> bool" where
  "IsNextMonth firstYearMonth secondYearMonth \<longleftrightarrow> parse_month firstYearMonth = parse_month secondYearMonth + 1"

subsection \<open>Rows and records\<close>

record ReadRecord =
  rrBucketID :: int
  rrObjectID :: int
  rrUserAddress :: string
  rrBucketName :: string
  rrObjectName :: string
  rrReadSize :: int
  rrReadTimestampUs :: int

record BucketQuota =
  bqChargedQuotaSize :: int
  bqFreeQuotaSize :: int
  bqMonthlyFreeQuotaSize :: int

record BucketTrafficTable =
  trBucketID :: int
  trMonth :: string
  trBucketName :: string
  trReadConsumedSize :: int
  trFreeQuotaConsumedSize :: int
  trMonthlyFreeQuotaConsumedSize :: int
  trFreeQuotaSize :: int
  trChargedQuotaSize :: int
  trMonthlyQuotaSize :: int
  trModifiedTime :: int

record TrafficTimeRange =
  StartTimestampUs :: int
  EndTimestampUs :: int
  LimitNum :: int

record spdb =
  traffic :: "BucketTrafficTable list"
  reads :: "ReadRecord list"

datatype db_error = ErrCheckQuotaEnough | ErrRecordNotFound | ErrDatabase | ErrInvalidMonth | ErrMissingWhereClause | ErrDecode | ErrDuplicate

type_synonym faults = "nat \<Rightarrow> bool"

definition has_key :: "int \<Rightarrow> string \<Rightarrow> BucketTrafficTable \<Rightarrow> bool" where
  "has_key bid m r \<longleftrightarrow> trBucketID r = bid \<and> trMonth r = m"

definition find_row :: "int \<Rightarrow> string \<Rightarrow> spdb \<Rightarrow> BucketTrafficTable option" where
  "find_row bid m db = find (has_key bid m) (traffic db)"

definition put_row :: "int \<Rightarrow> string \<Rightarrow> BucketTrafficTable \<Rightarrow> spdb \<Rightarrow> spdb" where
  "put_row bid m row db = db\<lparr>traffic := map (\<lambda>r. if has_key bid m r then row else r) (traffic db)\<rparr>"

subsection \<open>Charging a read\<close>

text \<open>
  The result, in the order of the source: consumed free quota, consumed charged quota, consumed
  monthly free quota, remaining free quota, remaining monthly free quota.
\<close>

definition getUpdatedConsumedQuotaV2 ::
  "int \<Rightarrow> int \<Rightarrow> int \<Rightarrow> int \<Rightarrow> int \<Rightarrow> int \<Rightarrow> int \<Rightarrow> db_error + int \<times> int \<times> int \<times> int \<times> int" where
  "getUpdatedConsumedQuotaV2 recordQuotaCost freeQuotaRemain consumeFreeQuota consumeChargedQuota chargedQuota
     monthlyFreeQuotaRemain consumeMonthlyFreeQuota =
     (let chargedQuotaInt = i64 (i64 chargedQuota - i64 consumeChargedQuota) in
      if chargedQuotaInt \<ge> i64 recordQuotaCost
      then Inr (consumeFreeQuota, u64 (consumeChargedQuota + recordQuotaCost), consumeMonthlyFreeQuota,
             freeQuotaRemain, monthlyFreeQuotaRemain)
      else let consumeCharged1 = (if chargedQuotaInt > 0 then u64 (consumeChargedQuota + u64 chargedQuotaInt)
                                  else consumeChargedQuota);
               cost1 = (if chargedQuotaInt > 0 then u64 (recordQuotaCost - u64 chargedQuotaInt) else recordQuotaCost)
      in if monthlyFreeQuotaRemain \<ge> cost1
         then Inr (consumeFreeQuota, consumeCharged1, u64 (consumeMonthlyFreeQuota + cost1), freeQuotaRemain,
                u64 (monthlyFreeQuotaRemain - cost1))
         else let consumeMonthly2 = (if monthlyFreeQuotaRemain > 0
                                     then u64 (consumeMonthlyFreeQuota + monthlyFreeQuotaRemain)
                                     else consumeMonthlyFreeQuota);
                  cost2 = (if monthlyFreeQuotaRemain > 0 then u64 (cost1 - monthlyFreeQuotaRemain) else cost1);
                  monthlyRemain2 = (if monthlyFreeQuotaRemain > 0 then 0 else monthlyFreeQuotaRemain)
         in if freeQuotaRemain \<ge> cost2
            then Inr (u64 (consumeFreeQuota + cost2), consumeCharged1, consumeMonthly2, u64 (freeQuotaRemain - cost2),
                   monthlyRemain2)
            else Inl ErrCheckQuotaEnough)"

text \<open>The update of the charged quota from a structure: a quota of zero is not written.\<close>

definition update_charged :: "int \<Rightarrow> int \<Rightarrow> BucketTrafficTable \<Rightarrow> BucketTrafficTable" where
  "update_charged now charged row =
     (if charged = 0 then row else row\<lparr>trChargedQuotaSize := charged\<rparr>)\<lparr>trModifiedTime := now\<rparr>"

definition updateConsumedQuota ::
  "faults \<Rightarrow> (go_time \<Rightarrow> string) \<Rightarrow> int \<Rightarrow> ReadRecord \<Rightarrow> BucketQuota \<Rightarrow> spdb \<Rightarrow> db_error option \<times> spdb" where
  "updateConsumedQuota fails fmt now rec quota db =
     (let bid = rrBucketID rec; m = TimestampYearMonth fmt (rrReadTimestampUs rec) in
      case (if fails 0 then None else find_row bid m db) of
        None \<Rightarrow> (Some ErrDatabase, db)
      | Some row \<Rightarrow>
          let changed = trChargedQuotaSize row \<noteq> bqChargedQuotaSize quota;
              row1 = (if changed then update_charged now (bqChargedQuotaSize quota) row else row)
          in if changed \<and> fails 1 then (Some ErrDatabase, db)
             else case getUpdatedConsumedQuotaV2 (rrReadSize rec) (trFreeQuotaSize row1) (trFreeQuotaConsumedSize row1)
                         (trReadConsumedSize row1) (bqChargedQuotaSize quota) (trMonthlyQuotaSize row1)
                         (trMonthlyFreeQuotaConsumedSize row1) of
                    Inl e \<Rightarrow> (Some e, db)
                  | Inr (cFree, cCharged, cMonthly, rFree, rMonthly) \<Rightarrow>
                      if fails 2 then (Some ErrDatabase, db)
                      else (None, put_row bid m (row1\<lparr>trReadConsumedSize := cCharged, trFreeQuotaConsumedSize := cFree,
                              trFreeQuotaSize := rFree, trMonthlyFreeQuotaConsumedSize := cMonthly,
                              trMonthlyQuotaSize := rMonthly, trModifiedTime := now\<rparr>) db))"

definition CheckQuotaAndAddReadRecord ::
  "faults \<Rightarrow> (go_time \<Rightarrow> string) \<Rightarrow> int \<Rightarrow> ReadRecord \<Rightarrow> BucketQuota \<Rightarrow> spdb \<Rightarrow> db_error option \<times> spdb" where
  "CheckQuotaAndAddReadRecord fails fmt now rec quota db =
     (case updateConsumedQuota fails fmt now rec quota db of
        (Some e, db1) \<Rightarrow> (Some e, db1)
      | (None, db1) \<Rightarrow> if fails 3 then (Some ErrDatabase, db1) else (None, db1\<lparr>reads := reads db1 @ [rec]\<rparr>))"

subsection \<open>A new month\<close>

text \<open>The row of the newest month of a bucket.\<close>

definition newest_row :: "int \<Rightarrow> spdb \<Rightarrow> BucketTrafficTable option" where
  "newest_row bid db =
     fold (\<lambda>r best. case best of None \<Rightarrow> Some r | Some b \<Rightarrow> if trMonth b < trMonth r then Some r else Some b)
       (filter (\<lambda>r. trBucketID r = bid) (traffic db)) None"

definition InitBucketTraffic ::
  "faults \<Rightarrow> (go_time \<Rightarrow> string) \<Rightarrow> int \<Rightarrow> ReadRecord \<Rightarrow> BucketQuota \<Rightarrow> spdb \<Rightarrow> db_error option \<times> spdb" where
  "InitBucketTraffic fails fmt now rec quota db =
     (let bid = rrBucketID rec; m = TimestampYearMonth fmt (rrReadTimestampUs rec);
          free = (case newest_row bid db of None \<Rightarrow> bqFreeQuotaSize quota | Some r \<Rightarrow> trFreeQuotaSize r);
          row = \<lparr>trBucketID = bid, trMonth = m, trBucketName = rrBucketName rec, trReadConsumedSize = 0,
                 trFreeQuotaConsumedSize = 0, trMonthlyFreeQuotaConsumedSize = 0, trFreeQuotaSize = free,
                 trChargedQuotaSize = bqChargedQuotaSize quota, trMonthlyQuotaSize = bqMonthlyFreeQuotaSize quota,
                 trModifiedTime = now\<rparr>
      in if fails 0 then (Some ErrDatabase, db)
         else if newest_row bid db \<noteq> None \<and> fails 1 then (Some ErrDatabase, db)
         else if fails 2 then (Some ErrDatabase, db)
         else if find_row bid m db \<noteq> None then (None, db)
         else (None, db\<lparr>traffic := traffic db @ [row]\<rparr>))"

subsection \<open>Giving quota back\<close>

text \<open>The remaining amounts after compensation: charged, monthly and free, in this order.\<close>

definition compensate :: "int \<Rightarrow> BucketTrafficTable \<Rightarrow> BucketTrafficTable" where
  "compensate extra0 row =
     (let charged0 = trReadConsumedSize row; monthly0 = trMonthlyFreeQuotaConsumedSize row;
          (charged, extra1) = (if charged0 \<ge> extra0 then (u64 (charged0 - extra0), 0)
                               else if charged0 > 0 then (0, u64 (extra0 - charged0)) else (charged0, extra0));
          (monthly, remainMonthly, extra2) =
            (if extra1 > 0 \<and> monthly0 \<ge> extra1
             then (u64 (monthly0 - extra1), u64 (trMonthlyQuotaSize row + extra1), 0)
             else if extra1 > 0 \<and> monthly0 > 0
             then (0, u64 (trMonthlyQuotaSize row + monthly0), u64 (extra1 - monthly0))
             else (monthly0, trMonthlyQuotaSize row, extra1));
          (consumedFree, remainFree) =
            (if extra2 > 0 then (u64 (trFreeQuotaConsumedSize row - extra2), u64 (trFreeQuotaSize row + extra2))
             else (trFreeQuotaConsumedSize row, trFreeQuotaSize row))
      in row\<lparr>trReadConsumedSize := charged, trFreeQuotaConsumedSize := consumedFree,
             trMonthlyFreeQuotaConsumedSize := monthly, trFreeQuotaSize := remainFree,
             trMonthlyQuotaSize := remainMonthly\<rparr>)"

text \<open>
  When the current month follows the month of the compensation and has no row yet, the row that was
  queried is the zero value, and so is its key: the update is refused.
\<close>

definition UpdateExtraQuota ::
  "faults \<Rightarrow> (go_time \<Rightarrow> string) \<Rightarrow> int \<Rightarrow> int \<Rightarrow> int \<Rightarrow> int \<Rightarrow> string \<Rightarrow> spdb \<Rightarrow> db_error option \<times> spdb" where
  "UpdateExtraQuota fails fmt nowUs now bid extraQuota yearMonth db =
     (let yearMonthOfNow = TimestampYearMonth fmt nowUs in
      if IsNextMonth yearMonthOfNow yearMonth
      then if fails 0 then (Some ErrMissingWhereClause, db)
           else case find_row bid yearMonthOfNow db of
                  None \<Rightarrow> (Some ErrMissingWhereClause, db)
                | Some row \<Rightarrow>
                    if fails 1 then (Some ErrDatabase, db)
                    else let free = u64 (trFreeQuotaSize row + extraQuota)
                    in (None, put_row bid yearMonthOfNow
                          ((if free = 0 then row else row\<lparr>trFreeQuotaSize := free\<rparr>)\<lparr>trModifiedTime := now\<rparr>) db)
      else if yearMonthOfNow \<noteq> yearMonth then (Some ErrInvalidMonth, db)
      else case (if fails 0 then None else find_row bid yearMonth db) of
             None \<Rightarrow> (Some ErrDatabase, db)
           | Some row \<Rightarrow>
               if fails 1 then (Some ErrDatabase, db)
               else (None, put_row bid yearMonth ((compensate extraQuota row)\<lparr>trModifiedTime := now\<rparr>) db))"

subsection \<open>Queries and maintenance\<close>

record BucketTraffic =
  btBucketID :: int
  btYearMonth :: string
  btBucketName :: string
  btReadConsumedSize :: int
  btFreeQuotaSize :: int
  btFreeQuotaConsumedSize :: int
  btChargedQuotaSize :: int
  btMonthlyFreeQuotaSize :: int
  btMonthlyFreeQuotaConsumedSize :: int
  btModifyTime :: int

definition to_BucketTraffic :: "BucketTrafficTable \<Rightarrow> BucketTraffic" where
  "to_BucketTraffic r = \<lparr>btBucketID = trBucketID r, btYearMonth = trMonth r, btBucketName = trBucketName r,
     btReadConsumedSize = trReadConsumedSize r, btFreeQuotaSize = trFreeQuotaSize r,
     btFreeQuotaConsumedSize = trFreeQuotaConsumedSize r, btChargedQuotaSize = trChargedQuotaSize r,
     btMonthlyFreeQuotaSize = trMonthlyQuotaSize r, btMonthlyFreeQuotaConsumedSize = trMonthlyFreeQuotaConsumedSize r,
     btModifyTime = trModifiedTime r\<rparr>"

definition GetBucketTraffic :: "faults \<Rightarrow> int \<Rightarrow> string \<Rightarrow> spdb \<Rightarrow> db_error + BucketTraffic" where
  "GetBucketTraffic fails bid yearMonth db =
     (if fails 0 then Inl ErrDatabase
      else case find_row bid yearMonth db of None \<Rightarrow> Inl ErrRecordNotFound | Some r \<Rightarrow> Inr (to_BucketTraffic r))"

text \<open>For a positive limit; the rows come in the order of the table.\<close>

definition ListBucketTraffic :: "faults \<Rightarrow> string \<Rightarrow> nat \<Rightarrow> nat \<Rightarrow> spdb \<Rightarrow> db_error + BucketTraffic list" where
  "ListBucketTraffic fails yearMonth offset limit db =
     (if fails 0 then Inl ErrDatabase
      else Inr (map to_BucketTraffic (take limit (drop offset (filter (\<lambda>r. trMonth r = yearMonth) (traffic db))))))"

definition GetBucketTrafficCount :: "faults \<Rightarrow> string \<Rightarrow> spdb \<Rightarrow> db_error + int" where
  "GetBucketTrafficCount fails yearMonth db =
     (if fails 0 then Inl ErrDatabase else Inr (int (length (filter (\<lambda>r. trMonth r = yearMonth) (traffic db)))))"

text \<open>The monthly quota is not copied.\<close>

definition GetLatestBucketTraffic :: "faults \<Rightarrow> int \<Rightarrow> spdb \<Rightarrow> db_error + BucketTraffic" where
  "GetLatestBucketTraffic fails bid db =
     (if fails 0 then Inl ErrDatabase
      else case newest_row bid db of
             None \<Rightarrow> Inl ErrRecordNotFound
           | Some r \<Rightarrow> Inr ((to_BucketTraffic r)\<lparr>btMonthlyFreeQuotaSize := 0, btMonthlyFreeQuotaConsumedSize := 0\<rparr>))"

definition upd_nz :: "int \<Rightarrow> int \<Rightarrow> int" where
  "upd_nz new old = (if new = 0 then old else new)"

definition UpdateBucketTraffic :: "faults \<Rightarrow> int \<Rightarrow> int \<Rightarrow> BucketTraffic \<Rightarrow> spdb \<Rightarrow> db_error option \<times> spdb" where
  "UpdateBucketTraffic fails now bid upd db =
     (if fails 0 then (Some ErrDatabase, db)
      else case find_row bid (btYearMonth upd) db of
        None \<Rightarrow>
          if fails 1 \<or> find_row (btBucketID upd) (btYearMonth upd) db \<noteq> None then (Some ErrDatabase, db)
          else (None, db\<lparr>traffic := traffic db @ [\<lparr>trBucketID = btBucketID upd, trMonth = btYearMonth upd,
                  trBucketName = btBucketName upd, trReadConsumedSize = btReadConsumedSize upd,
                  trFreeQuotaConsumedSize = btFreeQuotaConsumedSize upd, trMonthlyFreeQuotaConsumedSize = 0,
                  trFreeQuotaSize = btFreeQuotaSize upd, trChargedQuotaSize = btChargedQuotaSize upd,
                  trMonthlyQuotaSize = 0, trModifiedTime = now\<rparr>]\<rparr>)
      | Some r \<Rightarrow>
          if fails 1 \<or> (btBucketID upd \<noteq> 0 \<and> btBucketID upd \<noteq> bid \<and>
               find_row (btBucketID upd) (btYearMonth upd) db \<noteq> None)
          then (Some ErrDatabase, db)
          else (None, put_row bid (btYearMonth upd)
                 (r\<lparr>trBucketID := upd_nz (btBucketID upd) (trBucketID r),
                    trBucketName := (if btBucketName upd = [] then trBucketName r else btBucketName upd),
                    trReadConsumedSize := upd_nz (btReadConsumedSize upd) (trReadConsumedSize r),
                    trFreeQuotaConsumedSize := upd_nz (btFreeQuotaConsumedSize upd) (trFreeQuotaConsumedSize r),
                    trFreeQuotaSize := upd_nz (btFreeQuotaSize upd) (trFreeQuotaSize r),
                    trChargedQuotaSize := upd_nz (btChargedQuotaSize upd) (trChargedQuotaSize r),
                    trModifiedTime := now\<rparr>) db))"

text \<open>At most \<open>metaDeleteLimit\<close> rows are deleted per call.\<close>

fun delete_some :: "('a \<Rightarrow> bool) \<Rightarrow> nat \<Rightarrow> 'a list \<Rightarrow> 'a list" where
  "delete_some p 0 xs = xs"
| "delete_some p (Suc n) [] = []"
| "delete_some p (Suc n) (x # xs) = (if p x then delete_some p n xs else x # delete_some p (Suc n) xs)"

definition DeleteExpiredBucketTraffic :: "faults \<Rightarrow> string \<Rightarrow> spdb \<Rightarrow> db_error option \<times> spdb" where
  "DeleteExpiredBucketTraffic fails yearMonth db =
     (if fails 0 then (Some ErrDatabase, db)
      else (None, db\<lparr>traffic := delete_some (\<lambda>r. trMonth r < yearMonth) 100 (traffic db)\<rparr>))"

text \<open>The limit is converted to a signed number; a negative one is no limit.  Callers pass a positive one.\<close>

definition DeleteExpiredReadRecord :: "faults \<Rightarrow> int \<Rightarrow> int \<Rightarrow> spdb \<Rightarrow> db_error option \<times> spdb" where
  "DeleteExpiredReadRecord fails ts limit db =
     (if fails 0 then (Some ErrDatabase, db)
      else (None, db\<lparr>reads :=
        (if i64 limit < 0 then filter (\<lambda>r. \<not> rrReadTimestampUs r < ts) (reads db)
         else delete_some (\<lambda>r. rrReadTimestampUs r < ts) (nat (i64 limit)) (reads db))\<rparr>))"

definition limit_reads :: "TrafficTimeRange \<Rightarrow> ReadRecord list \<Rightarrow> ReadRecord list" where
  "limit_reads trange rs = (if LimitNum trange \<le> 0 then rs else take (nat (LimitNum trange)) rs)"

definition in_range :: "TrafficTimeRange \<Rightarrow> ReadRecord \<Rightarrow> bool" where
  "in_range trange r \<longleftrightarrow> rrReadTimestampUs r \<ge> StartTimestampUs trange \<and> rrReadTimestampUs r < EndTimestampUs trange"

definition GetReadRecord :: "faults \<Rightarrow> TrafficTimeRange \<Rightarrow> spdb \<Rightarrow> db_error + ReadRecord list" where
  "GetReadRecord fails trange db =
     (if fails 0 then Inl ErrDatabase else Inr (limit_reads trange (filter (in_range trange) (reads db))))"

definition GetBucketReadRecord :: "faults \<Rightarrow> int \<Rightarrow> TrafficTimeRange \<Rightarrow> spdb \<Rightarrow> db_error + ReadRecord list" where
  "GetBucketReadRecord fails bid trange db =
     (if fails 0 then Inl ErrDatabase
      else Inr (limit_reads trange (filter (\<lambda>r. in_range trange r \<and> rrBucketID r = bid) (reads db))))"

definition GetObjectReadRecord :: "faults \<Rightarrow> int \<Rightarrow> TrafficTimeRange \<Rightarrow> spdb \<Rightarrow> db_error + ReadRecord list" where
  "GetObjectReadRecord fails oid trange db =
     (if fails 0 then Inl ErrDatabase
      else Inr (limit_reads trange (filter (\<lambda>r. in_range trange r \<and> rrObjectID r = oid) (reads db))))"

definition GetUserReadRecord :: "faults \<Rightarrow> string \<Rightarrow> TrafficTimeRange \<Rightarrow> spdb \<Rightarrow> db_error + ReadRecord list" where
  "GetUserReadRecord fails userAddress trange db =
     (if fails 0 then Inl ErrDatabase
      else Inr (limit_reads trange (filter (\<lambda>r. in_range trange r \<and> rrUserAddress r = userAddress) (reads db))))"

end
