(* ===== verification/SP_TrafficProps.thy ===== *)
theory SP_TrafficProps
  imports SP_Traffic
begin

text \<open>
  Correctness of the quota accounting: the table as a keyed store (locale \<open>row_table\<close>, interpreted on
  the functions of the model), the charge against an exact specification, refunds, months, and the
  invariant of every reachable database.
\<close>

subsection \<open>The table as a keyed store\<close>

text \<open>
  The contract the quota code relies on: a stored row is found under its key and no other key is
  touched.
\<close>

locale row_table =
  fixes lookup :: "'k \<Rightarrow> 'db \<Rightarrow> 'r option"
    and store :: "'k \<Rightarrow> 'r \<Rightarrow> 'db \<Rightarrow> 'db"
    and create :: "'r \<Rightarrow> 'db \<Rightarrow> 'db"
    and key :: "'r \<Rightarrow> 'k"
    and inv :: "'db \<Rightarrow> bool"
  assumes lookup_key: "lookup k db = Some r \<Longrightarrow> key r = k"
    and lookup_store: "inv db \<Longrightarrow> lookup k db \<noteq> None \<Longrightarrow> key r = k \<Longrightarrow>
          lookup k' (store k r db) = (if k' = k then Some r else lookup k' db)"
    and lookup_create: "inv db \<Longrightarrow> lookup (key r) db = None \<Longrightarrow>
          lookup k' (create r db) = (if k' = key r then Some r else lookup k' db)"
    and inv_store: "inv db \<Longrightarrow> key r = k \<Longrightarrow> inv (store k r db)"
    and inv_create: "inv db \<Longrightarrow> lookup (key r) db = None \<Longrightarrow> inv (create r db)"
begin

text \<open>A change of the row under a key, as the transactions make it.\<close>

lemma change_row:
  assumes "inv db" and "lookup k db = Some r" and "key (f r) = key r"
  shows "inv (store k (f r) db)"
    and "lookup k (store k (f r) db) = Some (f r)"
    and "k' \<noteq> k \<Longrightarrow> lookup k' (store k (f r) db) = lookup k' db"
  using assms lookup_key [of k db r] lookup_store [of db k "f r"] inv_store [of db "f r" k] by auto

text \<open>Two changes in a row under the same key are the change by both.\<close>

lemma change_twice:
  assumes "inv db" and "lookup k db = Some r" and "key (f r) = key r" and "key (g (f r)) = key (f r)"
  shows "lookup k (store k (g (f r)) (store k (f r) db)) = Some (g (f r))"
    and "k' \<noteq> k \<Longrightarrow> lookup k' (store k (g (f r)) (store k (f r) db)) = lookup k' db"
proof -
  have 1: "inv (store k (f r) db)" "lookup k (store k (f r) db) = Some (f r)"
    using change_row [of db k r f] assms by simp_all
  show "lookup k (store k (g (f r)) (store k (f r) db)) = Some (g (f r))"
    using change_row(2) [OF 1] assms(4) by simp
  show "lookup k' (store k (g (f r)) (store k (f r) db)) = lookup k' db" if n: "k' \<noteq> k"
    using change_row(3) [OF 1, of g k'] change_row(3) [of db k r f k'] assms n by simp
qed

end

definition row_key :: "BucketTrafficTable \<Rightarrow> int \<times> string" where
  "row_key r = (trBucketID r, trMonth r)"

definition unique_keys :: "spdb \<Rightarrow> bool" where
  "unique_keys db \<longleftrightarrow> distinct (map row_key (traffic db))"

definition create_row :: "BucketTrafficTable \<Rightarrow> spdb \<Rightarrow> spdb" where
  "create_row r db = db\<lparr>traffic := traffic db @ [r]\<rparr>"

lemma has_key_iff: "has_key bid m r \<longleftrightarrow> row_key r = (bid, m)"
  by (auto simp: has_key_def row_key_def)

lemma find_row_Some_iff:
  assumes "unique_keys db"
  shows "find_row bid m db = Some r \<longleftrightarrow> r \<in> set (traffic db) \<and> row_key r = (bid, m)"
proof -
  have "distinct (map row_key xs) \<Longrightarrow>
    find (has_key bid m) xs = Some r \<longleftrightarrow> r \<in> set xs \<and> row_key r = (bid, m)" for xs
    by (induction xs) (auto simp: has_key_iff image_iff)
  then show ?thesis using assms by (simp add: unique_keys_def find_row_def)
qed

lemma find_row_SomeD: "find_row bid m db = Some r \<Longrightarrow> r \<in> set (traffic db) \<and> row_key r = (bid, m)"
  by (auto simp: find_row_def find_Some_iff has_key_iff)

lemma find_row_None_iff: "find_row bid m db = None \<longleftrightarrow> (bid, m) \<notin> row_key ` set (traffic db)"
  by (auto simp: find_row_def find_None_iff has_key_iff image_iff)

lemma put_row_keys:
  "row_key r = (bid, m) \<Longrightarrow> map row_key (traffic (put_row bid m r db)) = map row_key (traffic db)"
  by (auto simp: put_row_def has_key_iff)

lemma reads_put_row [simp]: "reads (put_row bid m r db) = reads db"
  by (simp add: put_row_def)

lemma set_put_row: "x \<in> set (traffic (put_row bid m r db)) \<Longrightarrow> x = r \<or> x \<in> set (traffic db)"
  by (auto simp: put_row_def)

lemma find_row_put_row:
  assumes "find_row bid m db \<noteq> None" and "row_key r = (bid, m)"
  shows "find_row b m' (put_row bid m r db) = (if (b, m') = (bid, m) then Some r else find_row b m' db)"
proof -
  have "(\<exists>x \<in> set xs. has_key bid m x) \<Longrightarrow>
    find (has_key b m') (map (\<lambda>x. if has_key bid m x then r else x) xs) =
      (if (b, m') = (bid, m) then Some r else find (has_key b m') xs)" for xs
  proof (induction xs)
    case (Cons a xs)
    have other: "find (has_key b m') (map (\<lambda>x. if has_key bid m x then r else x) ys) = find (has_key b m') ys"
      if "(b, m') \<noteq> (bid, m)" for ys
      using that assms(2) by (induction ys) (auto simp: has_key_iff)
    show ?case
    proof (cases "(b, m') = (bid, m)")
      case True
      with Cons assms(2) show ?thesis by (auto simp: has_key_iff)
    next
      case False
      then show ?thesis unfolding other [OF False] by auto
    qed
  qed simp
  moreover have "\<exists>x \<in> set (traffic db). has_key bid m x"
    using assms(1) find_row_SomeD [of bid m db] by (auto simp: has_key_iff)
  ultimately show ?thesis by (simp add: find_row_def put_row_def)
qed

lemma find_row_create_row:
  assumes "find_row bid m db = None" and "row_key r = (bid, m)"
  shows "find_row b m' (create_row r db) = (if (b, m') = (bid, m) then Some r else find_row b m' db)"
  using assms by (auto simp: find_row_def create_row_def find_append has_key_iff split: option.splits)

interpretation traffic_table: row_table
  "\<lambda>(bid, m). find_row bid m" "\<lambda>(bid, m). put_row bid m" create_row row_key unique_keys
proof (unfold_locales, goal_cases)
  case (1 k db r) then show ?case using find_row_SomeD by (cases k) auto
next
  case (2 db k r k') then show ?case using find_row_put_row by (cases k; cases k') auto
next
  case (3 db r k')
  then show ?case
    using find_row_create_row by (cases k'; cases "row_key r") auto
next
  case (4 db r k) then show ?case by (cases k) (simp add: unique_keys_def put_row_keys)
next
  case (5 db r) then show ?case
    by (cases "row_key r") (auto simp: unique_keys_def create_row_def find_row_None_iff)
qed

subsection \<open>The charge of a read\<close>

text \<open>
  The specification: the charged quota left, then the monthly quota, then the free quota pay for the
  read, each up to what is left of it.
\<close>

definition charged_share :: "int \<Rightarrow> int \<Rightarrow> BucketTrafficTable \<Rightarrow> int" where
  "charged_share cost charged r = min cost (max 0 (charged - trReadConsumedSize r))"

definition monthly_share :: "int \<Rightarrow> int \<Rightarrow> BucketTrafficTable \<Rightarrow> int" where
  "monthly_share cost charged r = min (cost - charged_share cost charged r) (trMonthlyQuotaSize r)"

definition free_share :: "int \<Rightarrow> int \<Rightarrow> BucketTrafficTable \<Rightarrow> int" where
  "free_share cost charged r = cost - charged_share cost charged r - monthly_share cost charged r"

definition charge_row :: "int \<Rightarrow> int \<Rightarrow> int \<Rightarrow> BucketTrafficTable \<Rightarrow> BucketTrafficTable" where
  "charge_row now cost charged r = r\<lparr>
     trReadConsumedSize := trReadConsumedSize r + charged_share cost charged r,
     trFreeQuotaConsumedSize := trFreeQuotaConsumedSize r + free_share cost charged r,
     trMonthlyFreeQuotaConsumedSize := trMonthlyFreeQuotaConsumedSize r + monthly_share cost charged r,
     trFreeQuotaSize := trFreeQuotaSize r - free_share cost charged r,
     trChargedQuotaSize := (if charged = 0 then trChargedQuotaSize r else charged),
     trMonthlyQuotaSize := trMonthlyQuotaSize r - monthly_share cost charged r,
     trModifiedTime := now\<rparr>"

definition quota_left :: "int \<Rightarrow> BucketTrafficTable \<Rightarrow> int" where
  "quota_left charged r = max 0 (charged - trReadConsumedSize r) + trMonthlyQuotaSize r + trFreeQuotaSize r"

definition total_consumed :: "BucketTrafficTable \<Rightarrow> int" where
  "total_consumed r = trReadConsumedSize r + trMonthlyFreeQuotaConsumedSize r + trFreeQuotaConsumedSize r"

text \<open>Sizes below the signed range, and grants (consumed plus left) below the unsigned one.\<close>

definition row_ok :: "BucketTrafficTable \<Rightarrow> bool" where
  "row_ok r \<longleftrightarrow> 0 \<le> trReadConsumedSize r \<and> trReadConsumedSize r < 2 ^ 63
     \<and> 0 \<le> trFreeQuotaConsumedSize r \<and> 0 \<le> trFreeQuotaSize r \<and> trFreeQuotaConsumedSize r + trFreeQuotaSize r < 2 ^ 64
     \<and> 0 \<le> trMonthlyFreeQuotaConsumedSize r \<and> 0 \<le> trMonthlyQuotaSize r
     \<and> trMonthlyFreeQuotaConsumedSize r + trMonthlyQuotaSize r < 2 ^ 64"

abbreviation size63 :: "int \<Rightarrow> bool" where
  "size63 x \<equiv> 0 \<le> x \<and> x < 2 ^ 63"

lemma getUpdatedConsumedQuotaV2_exact:
  assumes "row_ok r" and "size63 cost" and "size63 charged"
  shows "getUpdatedConsumedQuotaV2 cost (trFreeQuotaSize r) (trFreeQuotaConsumedSize r) (trReadConsumedSize r) charged
           (trMonthlyQuotaSize r) (trMonthlyFreeQuotaConsumedSize r) =
         (if cost \<le> quota_left charged r
          then Inr (trFreeQuotaConsumedSize r + free_share cost charged r,
                    trReadConsumedSize r + charged_share cost charged r,
                    trMonthlyFreeQuotaConsumedSize r + monthly_share cost charged r,
                    trFreeQuotaSize r - free_share cost charged r,
                    trMonthlyQuotaSize r - monthly_share cost charged r)
          else Inl ErrCheckQuotaEnough)"
proof (cases "cost \<le> charged - trReadConsumedSize r")
  case True
  with assms show ?thesis
    unfolding getUpdatedConsumedQuotaV2_def row_ok_def quota_left_def free_share_def monthly_share_def charged_share_def
      Let_def
    by (auto simp: wrap_simps)
next
  case False
  then have "u64 (cost - (charged - trReadConsumedSize r)) = cost - (charged - trReadConsumedSize r)"
    if "0 < charged - trReadConsumedSize r"
    using assms that by (simp add: row_ok_def wrap_simps)
  with False assms show ?thesis
    unfolding getUpdatedConsumedQuotaV2_def row_ok_def quota_left_def free_share_def monthly_share_def charged_share_def
      Let_def
    by (auto simp: wrap_simps min_def max_def)
qed

lemma shares_bounds:
  assumes "row_ok r" and "size63 cost" and "size63 charged"
  shows "0 \<le> charged_share cost charged r" and "0 \<le> monthly_share cost charged r" and "0 \<le> free_share cost charged r"
    and "monthly_share cost charged r \<le> trMonthlyQuotaSize r"
    and "charged_share cost charged r \<le> max 0 (charged - trReadConsumedSize r)"
    and "cost \<le> quota_left charged r \<Longrightarrow> free_share cost charged r \<le> trFreeQuotaSize r"
  using assms unfolding row_ok_def quota_left_def free_share_def monthly_share_def charged_share_def
  by (auto simp: min_def max_def)

lemma charge_row_ok:
  "row_ok r \<Longrightarrow> size63 cost \<Longrightarrow> size63 charged \<Longrightarrow> cost \<le> quota_left charged r \<Longrightarrow> row_ok (charge_row now cost charged r)"
  using shares_bounds [of r cost charged] unfolding row_ok_def charge_row_def by auto

lemma charge_row_total: "total_consumed (charge_row now cost charged r) = total_consumed r + cost"
  by (simp add: total_consumed_def charge_row_def free_share_def)

lemma charge_row_key [simp]: "row_key (charge_row now cost charged r) = row_key r"
  by (simp add: row_key_def charge_row_def)

lemma update_charged_fields [simp]:
  "trFreeQuotaSize (update_charged now c r) = trFreeQuotaSize r"
  "trFreeQuotaConsumedSize (update_charged now c r) = trFreeQuotaConsumedSize r"
  "trReadConsumedSize (update_charged now c r) = trReadConsumedSize r"
  "trMonthlyQuotaSize (update_charged now c r) = trMonthlyQuotaSize r"
  "trMonthlyFreeQuotaConsumedSize (update_charged now c r) = trMonthlyFreeQuotaConsumedSize r"
  "trBucketID (update_charged now c r) = trBucketID r"
  "trMonth (update_charged now c r) = trMonth r"
  by (simp_all add: update_charged_def row_key_def)

abbreviation rec_month :: "(go_time \<Rightarrow> string) \<Rightarrow> ReadRecord \<Rightarrow> string" where
  "rec_month fmt rec \<equiv> TimestampYearMonth fmt (rrReadTimestampUs rec)"

abbreviation charged_of :: "int \<Rightarrow> ReadRecord \<Rightarrow> BucketQuota \<Rightarrow> BucketTrafficTable \<Rightarrow> BucketTrafficTable" where
  "charged_of now rec quota r \<equiv> charge_row now (rrReadSize rec) (bqChargedQuotaSize quota) r"

lemma updateConsumedQuota_exact:
  assumes "find_row (rrBucketID rec) (rec_month fmt rec) db = Some r" and "row_ok r"
    and "size63 (rrReadSize rec)" and "size63 (bqChargedQuotaSize quota)"
    and "\<not> fails 0" "\<not> fails 1" "\<not> fails 2"
  shows "updateConsumedQuota fails fmt now rec quota db =
    (if rrReadSize rec \<le> quota_left (bqChargedQuotaSize quota) r
     then (None, put_row (rrBucketID rec) (rec_month fmt rec) (charged_of now rec quota r) db)
     else (Some ErrCheckQuotaEnough, db))"
  using getUpdatedConsumedQuotaV2_exact [OF assms(2-4)] assms
  by (simp add: updateConsumedQuota_def Let_def) 
    (auto simp: charge_row_def update_charged_def
      intro!: arg_cong [where f = "\<lambda>x. put_row _ _ x db"] BucketTrafficTable.equality)

lemma updateConsumedQuota_keys:
  assumes "updateConsumedQuota fails fmt now rec quota db = (e, db')"
  shows "map row_key (traffic db') = map row_key (traffic db) \<and> reads db' = reads db \<and> (e \<noteq> None \<longrightarrow> db' = db)"
  using assms find_row_SomeD [of "rrBucketID rec" "rec_month fmt rec" db] unfolding updateConsumedQuota_def Let_def
  by (auto split: if_splits option.splits sum.splits prod.splits intro!: put_row_keys simp: row_key_def)

subsection \<open>Every reachable database\<close>

text \<open>A row whose sizes are all in the range of the columns.\<close>

definition row_u64 :: "BucketTrafficTable \<Rightarrow> bool" where
  "row_u64 r \<longleftrightarrow> is_u64 (trReadConsumedSize r) \<and> is_u64 (trFreeQuotaConsumedSize r)
     \<and> is_u64 (trMonthlyFreeQuotaConsumedSize r) \<and> is_u64 (trFreeQuotaSize r) \<and> is_u64 (trChargedQuotaSize r)
     \<and> is_u64 (trMonthlyQuotaSize r)"

definition spdb_inv :: "spdb \<Rightarrow> bool" where
  "spdb_inv db \<longleftrightarrow> unique_keys db \<and> (\<forall>r \<in> set (traffic db). row_u64 r)"

lemma spdb_inv_put_row:
  "spdb_inv db \<Longrightarrow> row_key r = (bid, m) \<Longrightarrow> row_u64 r \<Longrightarrow> spdb_inv (put_row bid m r db)"
  using set_put_row [of _ bid m r db] by (auto simp: spdb_inv_def unique_keys_def put_row_keys)

lemma spdb_inv_create_row:
  "spdb_inv db \<Longrightarrow> find_row bid m db = None \<Longrightarrow> row_key r = (bid, m) \<Longrightarrow> row_u64 r \<Longrightarrow>
   spdb_inv (db\<lparr>traffic := traffic db @ [r]\<rparr>)"
  by (auto simp: spdb_inv_def unique_keys_def find_row_None_iff)

lemma spdb_inv_reads [simp]: "spdb_inv (db\<lparr>reads := rs\<rparr>) = spdb_inv db"
  by (simp add: spdb_inv_def unique_keys_def)

lemma find_row_inv:
  "spdb_inv db \<Longrightarrow> find_row bid m db = Some r \<Longrightarrow> row_u64 r \<and> trBucketID r = bid \<and> trMonth r = m"
  using find_row_SomeD [of bid m db r] by (auto simp: spdb_inv_def row_key_def)

lemma getUpdatedConsumedQuotaV2_u64:
  assumes "getUpdatedConsumedQuotaV2 cost rf cf cc ch rm cm = Inr (a, b, c, d, e)"
    and "is_u64 rf" "is_u64 cf" "is_u64 cc" "is_u64 rm" "is_u64 cm"
  shows "is_u64 a \<and> is_u64 b \<and> is_u64 c \<and> is_u64 d \<and> is_u64 e"
  using assms unfolding getUpdatedConsumedQuotaV2_def Let_def
  by (auto split: if_splits) (auto simp: range_defs)

lemma updateConsumedQuota_inv:
  assumes "spdb_inv db" and "is_u64 (bqChargedQuotaSize quota)"
  shows "spdb_inv (snd (updateConsumedQuota fails fmt now rec quota db))"
proof -
  have "spdb_inv (snd (updateConsumedQuota fails fmt now rec quota db))"
    if r: "find_row (rrBucketID rec) (rec_month fmt rec) db = Some r" for r
    using find_row_inv [OF assms(1) r] assms r
      getUpdatedConsumedQuotaV2_u64 [of "rrReadSize rec" "trFreeQuotaSize r" "trFreeQuotaConsumedSize r"
        "trReadConsumedSize r" "bqChargedQuotaSize quota" "trMonthlyQuotaSize r" "trMonthlyFreeQuotaConsumedSize r"]
    by (auto simp: updateConsumedQuota_def Let_def row_key_def row_u64_def update_charged_def
        split: sum.splits intro!: spdb_inv_put_row)
  then show ?thesis
    using assms by (cases "find_row (rrBucketID rec) (rec_month fmt rec) db")
      (auto simp: updateConsumedQuota_def Let_def)
qed

lemma is_u64_zero: "is_u64 0"
  by (simp add: range_defs)

lemma compensate_u64: "row_u64 r \<Longrightarrow> row_u64 (compensate extra r)"
  unfolding compensate_def row_u64_def Let_def by (simp add: is_u64_zero)

lemma compensate_key [simp]: "trBucketID (compensate extra r) = trBucketID r" "trMonth (compensate extra r) = trMonth r"
  unfolding compensate_def Let_def by (auto split: prod.splits)

lemma delete_some_set: "x \<in> set (delete_some p n xs) \<Longrightarrow> x \<in> set xs"
  by (induction p n xs rule: delete_some.induct) (auto split: if_splits)

lemma delete_some_distinct: "distinct (map f xs) \<Longrightarrow> distinct (map f (delete_some p n xs))"
  by (induction p n xs rule: delete_some.induct) (auto dest: delete_some_set)

lemma newest_row_in: "newest_row bid db = Some r \<Longrightarrow> r \<in> set (traffic db) \<and> trBucketID r = bid"
proof -
  have "fold (\<lambda>r best. case best of None \<Rightarrow> Some r | Some b \<Rightarrow> if trMonth b < trMonth r then Some r else Some b) xs best
      = Some r \<Longrightarrow> best = Some r \<or> r \<in> set xs" for xs best
  proof (induction xs arbitrary: best)
    case (Cons a xs)
    from Cons.IH [OF Cons.prems [unfolded fold_Cons comp_apply]] show ?case
      by (auto split: option.splits if_splits)
  qed simp
  then show "newest_row bid db = Some r \<Longrightarrow> r \<in> set (traffic db) \<and> trBucketID r = bid"
    unfolding newest_row_def by fastforce
qed

lemma InitBucketTraffic_inv:
  assumes "spdb_inv db" and "is_u64 (bqChargedQuotaSize quota)" "is_u64 (bqFreeQuotaSize quota)"
    "is_u64 (bqMonthlyFreeQuotaSize quota)"
  shows "spdb_inv (snd (InitBucketTraffic fails fmt now rec quota db))"
  using assms newest_row_in [of "rrBucketID rec" db] unfolding InitBucketTraffic_def Let_def
  by (auto simp: row_key_def row_u64_def is_u64_zero spdb_inv_def [of db] split: option.splits
      intro!: spdb_inv_create_row)

lemma UpdateExtraQuota_inv:
  assumes "spdb_inv db"
  shows "spdb_inv (snd (UpdateExtraQuota fails fmt nowUs now bid extra m db))"
  using assms find_row_inv [OF assms] compensate_u64 unfolding UpdateExtraQuota_def Let_def
  by (auto simp: row_key_def row_u64_def split: option.splits intro!: spdb_inv_put_row)

lemma rekey_distinct:
  "distinct (map row_key xs) \<Longrightarrow> row_key row \<notin> row_key ` set xs \<Longrightarrow>
   distinct (map row_key (map (\<lambda>r. if has_key bid m r then row else r) xs))"
  by (induction xs) (auto simp: has_key_iff image_iff)

lemma UpdateBucketTraffic_inv:
  assumes inv: "spdb_inv db" and upd: "is_u64 (btReadConsumedSize upd)" "is_u64 (btFreeQuotaSize upd)"
    "is_u64 (btFreeQuotaConsumedSize upd)" "is_u64 (btChargedQuotaSize upd)"
  shows "spdb_inv (snd (UpdateBucketTraffic fails now bid upd db))"
proof (cases "find_row bid (btYearMonth upd) db")
  case None
  with assms show ?thesis unfolding UpdateBucketTraffic_def
    by (auto simp: row_key_def row_u64_def is_u64_zero intro!: spdb_inv_create_row [where bid = "btBucketID upd" and m = "btYearMonth upd"])
next
  case (Some r)
  define m where "m = btYearMonth upd"
  define b where "b = upd_nz (btBucketID upd) bid"
  have r: "row_u64 r" "trBucketID r = bid" "trMonth r = m" "find_row bid m db = Some r"
    using find_row_inv [OF inv Some] Some by (simp_all add: m_def)
  have move: "spdb_inv (put_row bid m row db)"
    if row: "row_key row = (b, m)" "row_u64 row" and free: "b \<noteq> bid \<Longrightarrow> find_row b m db = None" for row
  proof (cases "b = bid")
    case True
    with row inv show ?thesis by (simp add: spdb_inv_put_row)
  next
    case False
    then have "(b, m) \<notin> row_key ` set (traffic db)" using free by (simp add: find_row_None_iff)
    then have "distinct (map row_key (traffic (put_row bid m row db)))"
      using inv row(1) rekey_distinct [of "traffic db" row bid m] by (simp add: spdb_inv_def unique_keys_def put_row_def)
    with inv row set_put_row [of _ bid m row db] show ?thesis
      by (auto simp: spdb_inv_def unique_keys_def)
  qed
  show ?thesis
    using inv upd r move unfolding UpdateBucketTraffic_def
    by (auto simp: m_def [symmetric] b_def upd_nz_def row_key_def row_u64_def intro!: move)
qed

text \<open>The operations that change the two tables, and the databases they reach from empty tables.\<close>

datatype spdb_op =
    Charge ReadRecord BucketQuota
  | InitMonth ReadRecord BucketQuota
  | Refund int int int string
  | UpdateTraffic int BucketTraffic
  | ExpireTraffic string
  | ExpireReads int int

fun op_ok :: "spdb_op \<Rightarrow> bool" where
  "op_ok (Charge rec q) = is_u64 (bqChargedQuotaSize q)"
| "op_ok (InitMonth rec q) =
     (is_u64 (bqChargedQuotaSize q) \<and> is_u64 (bqFreeQuotaSize q) \<and> is_u64 (bqMonthlyFreeQuotaSize q))"
| "op_ok (UpdateTraffic bid u) = (is_u64 (btReadConsumedSize u) \<and> is_u64 (btFreeQuotaSize u)
     \<and> is_u64 (btFreeQuotaConsumedSize u) \<and> is_u64 (btChargedQuotaSize u))"
| "op_ok _ = True"

fun spdb_exec :: "faults \<Rightarrow> (go_time \<Rightarrow> string) \<Rightarrow> int \<Rightarrow> spdb_op \<Rightarrow> spdb \<Rightarrow> db_error option \<times> spdb" where
  "spdb_exec fails fmt now (Charge rec q) db = CheckQuotaAndAddReadRecord fails fmt now rec q db"
| "spdb_exec fails fmt now (InitMonth rec q) db = InitBucketTraffic fails fmt now rec q db"
| "spdb_exec fails fmt now (Refund nowUs bid extra m) db = UpdateExtraQuota fails fmt nowUs now bid extra m db"
| "spdb_exec fails fmt now (UpdateTraffic bid u) db = UpdateBucketTraffic fails now bid u db"
| "spdb_exec fails fmt now (ExpireTraffic m) db = DeleteExpiredBucketTraffic fails m db"
| "spdb_exec fails fmt now (ExpireReads ts n) db = DeleteExpiredReadRecord fails ts n db"

inductive spdb_reachable :: "spdb \<Rightarrow> bool" where
  empty_tables: "spdb_reachable \<lparr>traffic = [], reads = []\<rparr>"
| spdb_step: "spdb_reachable db \<Longrightarrow> op_ok opn \<Longrightarrow> spdb_exec fails fmt now opn db = (e, db') \<Longrightarrow> spdb_reachable db'"

lemma spdb_exec_inv:
  assumes "spdb_inv db" and "op_ok opn"
  shows "spdb_inv (snd (spdb_exec fails fmt now opn db))"
proof (cases opn)
  case (Charge rec q)
  then show ?thesis
    using updateConsumedQuota_inv [of db q fails fmt now rec] assms
    by (cases "updateConsumedQuota fails fmt now rec q db")
      (auto simp: CheckQuotaAndAddReadRecord_def split: option.splits)
next
  case (InitMonth rec q)
  then show ?thesis using assms InitBucketTraffic_inv by simp
next
  case (Refund nowUs bid extra m)
  then show ?thesis using assms UpdateExtraQuota_inv by simp
next
  case (UpdateTraffic bid u)
  then show ?thesis using assms UpdateBucketTraffic_inv by simp
next
  case (ExpireTraffic m)
  then show ?thesis
    using assms by (auto simp: DeleteExpiredBucketTraffic_def spdb_inv_def unique_keys_def delete_some_distinct
        dest: delete_some_set)
next
  case (ExpireReads ts n)
  then show ?thesis using assms by (simp add: DeleteExpiredReadRecord_def)
qed

text \<open>The invariant the properties below assume holds in every database reached by these operations, with any failures on the way.\<close>

lemma spdb_reachable_inv: "spdb_reachable db \<Longrightarrow> spdb_inv db"
proof (induction rule: spdb_reachable.induct)
  case empty_tables
  show ?case by (simp add: spdb_inv_def unique_keys_def)
next
  case (spdb_step db opn fails fmt now e db')
  then show ?case using spdb_exec_inv [of db opn fails fmt now] by simp
qed

definition sample_rec :: ReadRecord where
  "sample_rec = \<lparr>rrBucketID = 7, rrObjectID = 3, rrUserAddress = ''0xa'', rrBucketName = ''b'', rrObjectName = ''o'',
     rrReadSize = 30, rrReadTimestampUs = 0\<rparr>"

definition sample_quota :: BucketQuota where
  "sample_quota = \<lparr>bqChargedQuotaSize = 10, bqFreeQuotaSize = 100, bqMonthlyFreeQuotaSize = 15\<rparr>"

definition sample_month :: "go_time \<Rightarrow> string" where
  "sample_month t = ''2024-05-01''"

definition sample_row :: BucketTrafficTable where
  "sample_row = \<lparr>trBucketID = 7, trMonth = ''2024-05'', trBucketName = ''b'', trReadConsumedSize = 0,
     trFreeQuotaConsumedSize = 0, trMonthlyFreeQuotaConsumedSize = 0, trFreeQuotaSize = 100, trChargedQuotaSize = 10,
     trMonthlyQuotaSize = 15, trModifiedTime = 1\<rparr>"

definition sample_db :: spdb where
  "sample_db = \<lparr>traffic = [sample_row], reads = []\<rparr>"

lemmas sample_traffic = sample_rec_def sample_quota_def sample_month_def sample_row_def sample_db_def TimestampYearMonth_def

lemma sample_init:
  "InitBucketTraffic (\<lambda>_. False) sample_month 1 sample_rec sample_quota \<lparr>traffic = [], reads = []\<rparr> = (None, sample_db)"
  by (simp add: InitBucketTraffic_def sample_traffic newest_row_def find_row_def)

lemma sample_find: "find_row 7 ''2024-05'' sample_db = Some sample_row"
  by (simp add: find_row_def sample_traffic has_key_def)

subsection \<open>Charging and refunding\<close>

lemma find_row_reads [simp]: "find_row b m (db\<lparr>reads := rs\<rparr>) = find_row b m db"
  by (simp add: find_row_def)

text \<open>
  C31: Charging a read, when no statement fails and the month has a row: the read is refused with
  the database unchanged exactly when the charged, monthly and free quota left do not cover it;
  otherwise the row is charged the shares of the specification, so the total consumption grows by
  exactly the size of the read, no other row changes and the read is recorded.
\<close>

theorem CheckQuota_exact:
  assumes "spdb_inv db" and "find_row (rrBucketID rec) (rec_month fmt rec) db = Some r" and "row_ok r"
    and "size63 (rrReadSize rec)" and "size63 (bqChargedQuotaSize quota)"
  shows "if rrReadSize rec \<le> quota_left (bqChargedQuotaSize quota) r
    then \<exists>db'. CheckQuotaAndAddReadRecord (\<lambda>_. False) fmt now rec quota db = (None, db')
        \<and> find_row (rrBucketID rec) (rec_month fmt rec) db' = Some (charged_of now rec quota r)
        \<and> total_consumed (charged_of now rec quota r) = total_consumed r + rrReadSize rec
        \<and> row_ok (charged_of now rec quota r)
        \<and> (\<forall>b m. (b, m) \<noteq> (rrBucketID rec, rec_month fmt rec) \<longrightarrow> find_row b m db' = find_row b m db)
        \<and> reads db' = reads db @ [rec]
    else CheckQuotaAndAddReadRecord (\<lambda>_. False) fmt now rec quota db = (Some ErrCheckQuotaEnough, db)"
proof -
  note ex = updateConsumedQuota_exact [OF assms(2-5), of "\<lambda>_. False"]
  have u: "unique_keys db" using assms(1) by (simp add: spdb_inv_def)
  note row = traffic_table.change_row [where k = "(rrBucketID rec, rec_month fmt rec)" and f = "charged_of now rec quota",
      simplified, OF u assms(2)]
  show ?thesis
    using ex row charge_row_total charge_row_ok [OF assms(3-5)]
    by (auto simp: CheckQuotaAndAddReadRecord_def)
qed

theorem CheckQuota_exact_witness:
  "find_row 7 ''2024-05'' (snd (CheckQuotaAndAddReadRecord (\<lambda>_. False) sample_month 5 sample_rec sample_quota sample_db))
     = Some (charge_row 5 30 10 sample_row) \<and> total_consumed (charge_row 5 30 10 sample_row) = 30
   \<and> trFreeQuotaConsumedSize (charge_row 5 30 10 sample_row) = 5"
proof -
  have inv: "spdb_inv sample_db"
    using InitBucketTraffic_inv [of "\<lparr>traffic = [], reads = []\<rparr>" sample_quota "\<lambda>_. False" sample_month 1 sample_rec] sample_init
    by (simp add: spdb_inv_def unique_keys_def sample_quota_def range_defs)
  have month: "rec_month sample_month sample_rec = ''2024-05''" "rrBucketID sample_rec = 7"
    by (simp_all add: sample_traffic)
  have "\<exists>db'. CheckQuotaAndAddReadRecord (\<lambda>_. False) sample_month 5 sample_rec sample_quota sample_db = (None, db')
     \<and> find_row 7 ''2024-05'' db' = Some (charge_row 5 30 10 sample_row)
     \<and> total_consumed (charge_row 5 30 10 sample_row) = total_consumed sample_row + 30"
    using CheckQuota_exact [OF inv, of sample_rec sample_month sample_row sample_quota 5, unfolded month, OF sample_find]
    by (simp add: sample_rec_def sample_quota_def sample_row_def row_ok_def quota_left_def) blast
  then show ?thesis
    by (auto simp: sample_row_def total_consumed_def charge_row_def free_share_def monthly_share_def charged_share_def)
qed

text \<open>
  An error of a charge leaves both tables as they were, whichever statement fails, with one
  exception: when only the insertion of the read record fails, the quota has been charged already
  and the call reports an error.
\<close>

theorem CheckQuota_error:
  "CheckQuotaAndAddReadRecord fails fmt now rec quota db = (Some e, db') \<Longrightarrow>
     db' = db \<or> (fails 3 \<and> e = ErrDatabase \<and> reads db' = reads db
                 \<and> updateConsumedQuota fails fmt now rec quota db = (None, db'))"
  using updateConsumedQuota_keys [of fails fmt now rec quota db]
  by (auto simp: CheckQuotaAndAddReadRecord_def split: prod.splits option.splits if_splits)

theorem CheckQuota_error_witness:
  "let r = CheckQuotaAndAddReadRecord (\<lambda>n. n = 3) sample_month 5 sample_rec sample_quota sample_db
   in fst r = Some ErrDatabase \<and> snd r \<noteq> sample_db \<and> reads (snd r) = []"
proof -
  obtain db' where r: "CheckQuotaAndAddReadRecord (\<lambda>n. n = 3) sample_month 5 sample_rec sample_quota sample_db
      = (Some ErrDatabase, db')" and ne: "db' \<noteq> sample_db"
    by (simp add: CheckQuotaAndAddReadRecord_def updateConsumedQuota_def Let_def sample_traffic find_row_def has_key_def
        getUpdatedConsumedQuotaV2_def put_row_def wrap_simps)
  from CheckQuota_error [OF r] ne r show ?thesis by (simp add: sample_db_def)
qed

lemma compensate_row:
  assumes "row_ok r" and "is_u64 extra" and "extra \<le> total_consumed r"
  shows "let c = min extra (trReadConsumedSize r); m = min (extra - c) (trMonthlyFreeQuotaConsumedSize r); f = extra - c - m
    in compensate extra r = r\<lparr>trReadConsumedSize := trReadConsumedSize r - c,
         trFreeQuotaConsumedSize := trFreeQuotaConsumedSize r - f,
         trMonthlyFreeQuotaConsumedSize := trMonthlyFreeQuotaConsumedSize r - m,
         trFreeQuotaSize := trFreeQuotaSize r + f, trMonthlyQuotaSize := trMonthlyQuotaSize r + m\<rparr>"
proof -
  define x where "x = extra - trReadConsumedSize r"
  have e: "extra = trReadConsumedSize r + x" by (simp add: x_def)
  consider "extra \<le> trReadConsumedSize r" | "0 < x" "x \<le> trMonthlyFreeQuotaConsumedSize r"
    | "0 < x" "trMonthlyFreeQuotaConsumedSize r < x"
    unfolding x_def by linarith
  then show ?thesis
  proof cases
    case 1
    with assms show ?thesis
      by (simp add: compensate_def Let_def row_ok_def wrap_simps range_defs min_def)
  next
    case 2
    with assms show ?thesis unfolding e
      by (cases "trReadConsumedSize r = 0")
        (simp_all add: compensate_def Let_def row_ok_def wrap_simps range_defs min_def)
  next
    case 3
    with assms show ?thesis unfolding e
      by (cases "trReadConsumedSize r = 0"; cases "trMonthlyFreeQuotaConsumedSize r = 0")
        (simp_all add: compensate_def Let_def row_ok_def wrap_simps range_defs min_def total_consumed_def)
  qed
qed

lemma compensate_exact:
  assumes "row_ok r" and "is_u64 extra" and "extra \<le> total_consumed r"
  shows "total_consumed (compensate extra r) = total_consumed r - extra" and "row_ok (compensate extra r)"
    and "trMonthlyFreeQuotaConsumedSize (compensate extra r) + trMonthlyQuotaSize (compensate extra r)
        = trMonthlyFreeQuotaConsumedSize r + trMonthlyQuotaSize r"
    and "trFreeQuotaConsumedSize (compensate extra r) + trFreeQuotaSize (compensate extra r)
        = trFreeQuotaConsumedSize r + trFreeQuotaSize r"
  using compensate_row [OF assms] assms unfolding Let_def total_consumed_def row_ok_def range_defs by simp_all (auto simp: min_def)

lemma IsNextMonth_irrefl [simp]: "\<not> IsNextMonth m m"
  by (simp add: IsNextMonth_def)

abbreviation monthly_grant :: "BucketTrafficTable \<Rightarrow> int" where
  "monthly_grant r \<equiv> trMonthlyFreeQuotaConsumedSize r + trMonthlyQuotaSize r"

abbreviation free_grant :: "BucketTrafficTable \<Rightarrow> int" where
  "free_grant r \<equiv> trFreeQuotaConsumedSize r + trFreeQuotaSize r"

text \<open>
  C32: A refund in the month of the read: after a charged read, giving back part or all of its
  size succeeds, lowers the total consumption by exactly that amount, keeps the monthly and the
  free grant (consumed plus left) as they were before the read, and touches no other row.
\<close>

theorem charge_then_refund:
  assumes "spdb_inv db" and "find_row (rrBucketID rec) (rec_month fmt rec) db = Some r" and "row_ok r"
    and "size63 (rrReadSize rec)" and "size63 (bqChargedQuotaSize quota)"
    and "rrReadSize rec \<le> quota_left (bqChargedQuotaSize quota) r"
    and "0 \<le> extra" and "extra \<le> rrReadSize rec" and "TimestampYearMonth fmt nowUs = rec_month fmt rec"
  shows "\<exists>db1 db2 r2. CheckQuotaAndAddReadRecord (\<lambda>_. False) fmt now rec quota db = (None, db1)
    \<and> UpdateExtraQuota (\<lambda>_. False) fmt nowUs now' (rrBucketID rec) extra (rec_month fmt rec) db1 = (None, db2)
    \<and> find_row (rrBucketID rec) (rec_month fmt rec) db2 = Some r2
    \<and> total_consumed r2 = total_consumed r + rrReadSize rec - extra
    \<and> monthly_grant r2 = monthly_grant r \<and> free_grant r2 = free_grant r \<and> row_ok r2
    \<and> (\<forall>b m. (b, m) \<noteq> (rrBucketID rec, rec_month fmt rec) \<longrightarrow> find_row b m db2 = find_row b m db)"
proof -
  let ?b = "rrBucketID rec" and ?m = "rec_month fmt rec" and ?r1 = "charged_of now rec quota r"
  define db1 where "db1 = (put_row ?b ?m ?r1 db)\<lparr>reads := reads db @ [rec]\<rparr>"
  define r2 where "r2 = (compensate extra ?r1)\<lparr>trModifiedTime := now'\<rparr>"
  have charge: "CheckQuotaAndAddReadRecord (\<lambda>_. False) fmt now rec quota db = (None, db1)"
    using updateConsumedQuota_exact [OF assms(2-5), of "\<lambda>_. False"] assms(6)
    by (simp add: CheckQuotaAndAddReadRecord_def db1_def)
  have u: "unique_keys db" using assms(1) by (simp add: spdb_inv_def)
  note row = traffic_table.change_row [where k = "(?b, ?m)" and f = "charged_of now rec quota", simplified, OF u assms(2)]
  have u1: "unique_keys db1" and f1: "find_row ?b ?m db1 = Some ?r1" and
    o1: "(b, m) \<noteq> (?b, ?m) \<Longrightarrow> find_row b m db1 = find_row b m db" for b m
    using row by (auto simp: db1_def unique_keys_def)
  have refund: "UpdateExtraQuota (\<lambda>_. False) fmt nowUs now' ?b extra ?m db1 = (None, put_row ?b ?m r2 db1)"
    using f1 assms(9) by (simp add: UpdateExtraQuota_def r2_def)
  have k2: "row_key r2 = row_key ?r1" by (simp add: row_key_def r2_def)
  note row2 = traffic_table.change_row [where k = "(?b, ?m)" and f = "\<lambda>_. r2", simplified, OF u1 f1 k2]
  have ok1: "row_ok ?r1" by (rule charge_row_ok [OF assms(3-6)])
  have "is_u64 extra" "extra \<le> total_consumed ?r1"
    using assms(3,4,7,8) by (auto simp: charge_row_total total_consumed_def [of r] row_ok_def range_defs)
  note comp = compensate_exact [OF ok1 this]
  have "total_consumed r2 = total_consumed r + rrReadSize rec - extra"
    using comp(1) by (simp add: r2_def total_consumed_def [of "compensate _ _\<lparr>trModifiedTime := _\<rparr>"]
        charge_row_total) (simp add: total_consumed_def)
  moreover have "monthly_grant r2 = monthly_grant r" "free_grant r2 = free_grant r"
    using comp(3,4) by (simp_all add: r2_def charge_row_def)
  moreover have "row_ok r2" using comp(2) by (simp add: r2_def row_ok_def)
  ultimately show ?thesis using charge refund row2 o1 by auto
qed

lemma sample_db_inv: "spdb_inv sample_db"
  using InitBucketTraffic_inv [of "\<lparr>traffic = [], reads = []\<rparr>" sample_quota "\<lambda>_. False" sample_month 1 sample_rec] sample_init
  by (simp add: spdb_inv_def unique_keys_def sample_quota_def range_defs)

lemma sample_row_facts: "row_ok sample_row" "rec_month sample_month sample_rec = ''2024-05''" "rrBucketID sample_rec = 7"
  "rrReadSize sample_rec = 30" "bqChargedQuotaSize sample_quota = 10" "quota_left 10 sample_row = 125"
  by (simp_all add: sample_traffic row_ok_def quota_left_def)

theorem charge_then_refund_witness:
  "\<exists>db1 db2 r2. CheckQuotaAndAddReadRecord (\<lambda>_. False) sample_month 5 sample_rec sample_quota sample_db = (None, db1)
     \<and> UpdateExtraQuota (\<lambda>_. False) sample_month 6 6 7 20 ''2024-05'' db1 = (None, db2)
     \<and> find_row 7 ''2024-05'' db2 = Some r2 \<and> total_consumed r2 = 10"
proof -
  have "TimestampYearMonth sample_month 6 = rec_month sample_month sample_rec" "total_consumed sample_row = 0"
    by (simp_all add: sample_traffic total_consumed_def)
  then show ?thesis
    using charge_then_refund [OF sample_db_inv, of sample_rec sample_month sample_row sample_quota 20 6 5 6] sample_find sample_row_facts
    by auto
qed

text \<open>
  A refund at the turn of a month: when the new month has no row yet the call fails and changes
  nothing, so the refund is lost, although the source announces that the old month is updated; when
  the new month has a row, the refund is added to its free quota.
\<close>

theorem UpdateExtraQuota_new_month:
  assumes "IsNextMonth (TimestampYearMonth fmt nowUs) yearMonth"
  shows "UpdateExtraQuota (\<lambda>_. False) fmt nowUs now bid extra yearMonth db =
    (case find_row bid (TimestampYearMonth fmt nowUs) db of
       None \<Rightarrow> (Some ErrMissingWhereClause, db)
     | Some r \<Rightarrow> (None, put_row bid (TimestampYearMonth fmt nowUs)
         (r\<lparr>trFreeQuotaSize := (if u64 (trFreeQuotaSize r + extra) = 0 then trFreeQuotaSize r
                               else u64 (trFreeQuotaSize r + extra)), trModifiedTime := now\<rparr>) db))"
  using assms by (auto simp: UpdateExtraQuota_def Let_def split: option.splits)

theorem UpdateExtraQuota_new_month_witness:
  "UpdateExtraQuota (\<lambda>_. False) (\<lambda>_. ''2024-06-01'') 0 9 7 20 ''2024-05'' sample_db = (Some ErrMissingWhereClause, sample_db)"
proof -
  have m: "TimestampYearMonth (\<lambda>_. ''2024-06-01'') 0 = ''2024-06''"
    by (simp add: TimestampYearMonth_def)
  have "IsNextMonth ''2024-06'' ''2024-05''"
    by (simp add: IsNextMonth_def parse_month_def digit_val_def ParseUint_def)
  moreover have "find_row 7 ''2024-06'' sample_db = None"
    by (simp add: find_row_def sample_traffic has_key_def)
  ultimately show ?thesis
    using UpdateExtraQuota_new_month [of "\<lambda>_. ''2024-06-01''" 0 "''2024-05''" 9 7 20 sample_db] m by simp
qed

text \<open>
  A month is opened once: initialising twice is initialising once, a row that exists is never
  changed, and a new row takes the remaining free quota of the row of the newest month, or the quota
  of the bucket when it is the first, with nothing consumed.
\<close>

theorem InitBucketTraffic_once:
  assumes "InitBucketTraffic (\<lambda>_. False) fmt now rec quota db = (e, db')"
  shows "e = None \<and> InitBucketTraffic (\<lambda>_. False) fmt now' rec quota' db' = (None, db')
    \<and> (\<forall>b m r. find_row b m db = Some r \<longrightarrow> find_row b m db' = Some r)
    \<and> (\<exists>r. find_row (rrBucketID rec) (rec_month fmt rec) db' = Some r
        \<and> (find_row (rrBucketID rec) (rec_month fmt rec) db = None \<longrightarrow> total_consumed r = 0
             \<and> trFreeQuotaSize r = (case newest_row (rrBucketID rec) db of
                   None \<Rightarrow> bqFreeQuotaSize quota | Some r0 \<Rightarrow> trFreeQuotaSize r0)
             \<and> trMonthlyQuotaSize r = bqMonthlyFreeQuotaSize quota))"
proof (cases "find_row (rrBucketID rec) (rec_month fmt rec) db")
  case (Some r)
  then show ?thesis using assms by (simp add: InitBucketTraffic_def Let_def)
next
  case None
  let ?free = "case newest_row (rrBucketID rec) db of None \<Rightarrow> bqFreeQuotaSize quota | Some r0 \<Rightarrow> trFreeQuotaSize r0"
  define row where "row = \<lparr>trBucketID = rrBucketID rec, trMonth = rec_month fmt rec, trBucketName = rrBucketName rec,
    trReadConsumedSize = 0, trFreeQuotaConsumedSize = 0, trMonthlyFreeQuotaConsumedSize = 0, trFreeQuotaSize = ?free,
    trChargedQuotaSize = bqChargedQuotaSize quota, trMonthlyQuotaSize = bqMonthlyFreeQuotaSize quota, trModifiedTime = now\<rparr>"
  have db': "e = None" "db' = create_row row db"
    using assms None by (auto simp: InitBucketTraffic_def Let_def row_def create_row_def)
  have find': "find_row b m db' = (if (b, m) = (rrBucketID rec, rec_month fmt rec) then Some row else find_row b m db)" for b m
    unfolding db' by (rule find_row_create_row [OF None]) (simp add: row_def row_key_def)
  have "InitBucketTraffic (\<lambda>_. False) fmt now' rec quota' db' = (None, db')"
    using find' by (simp add: InitBucketTraffic_def Let_def)
  then show ?thesis using db' find' None by (auto simp: row_def total_consumed_def)
qed

theorem InitBucketTraffic_once_witness:
  "InitBucketTraffic (\<lambda>_. False) sample_month 2 sample_rec sample_quota sample_db = (None, sample_db)"
  using InitBucketTraffic_once [OF sample_init, of 2 sample_quota] by simp

text \<open>
  The recorded charged quota after a successful charge: a quota of the bucket that is zero is
  not written, so the row keeps the old, larger quota although the read was judged with zero.
\<close>

theorem charged_quota_recorded:
  assumes "updateConsumedQuota fails fmt now rec quota db = (None, db')"
    and "find_row (rrBucketID rec) (rec_month fmt rec) db = Some r"
  shows "\<exists>r'. find_row (rrBucketID rec) (rec_month fmt rec) db' = Some r'
    \<and> trChargedQuotaSize r' = (if bqChargedQuotaSize quota = 0 then trChargedQuotaSize r else bqChargedQuotaSize quota)"
proof -
  have "row_key r = (rrBucketID rec, rec_month fmt rec)" using find_row_SomeD [OF assms(2)] by simp
  then show ?thesis
    using assms find_row_put_row [of "rrBucketID rec" "rec_month fmt rec" db]
    by (auto simp: updateConsumedQuota_def Let_def row_key_def update_charged_def
        split: if_splits sum.splits prod.splits)
qed

theorem charged_quota_recorded_witness:
  "\<exists>r'. find_row 7 ''2024-05'' (snd (updateConsumedQuota (\<lambda>_. False) sample_month 5 sample_rec
        (sample_quota\<lparr>bqChargedQuotaSize := 0\<rparr>) sample_db)) = Some r' \<and> trChargedQuotaSize r' = 10"
proof -
  let ?q = "sample_quota\<lparr>bqChargedQuotaSize := 0\<rparr>"
  obtain db' where db': "updateConsumedQuota (\<lambda>_. False) sample_month 5 sample_rec ?q sample_db = (None, db')"
    using updateConsumedQuota_exact [of sample_rec sample_month sample_db sample_row ?q] sample_find sample_row_facts
    by (simp add: quota_left_def sample_row_def)
  show ?thesis
    using charged_quota_recorded [OF db'] sample_find sample_row_facts db' by (simp add: sample_row_def)
qed

end
