(* ===== verification/SP_Store.thy ===== *)
theory SP_Store
  imports SP_Text "HOL-Library.AList" "HOL-Library.Word" "HOL-Library.List_Lexorder" "HOL-Library.Char_ord" "HOL-Library.Sublist" "HOL-Library.Multiset"
begin

text \<open>
  The piece store, \<^verbatim>\<open>src/store/piecestore\<close>: the store in memory (\<^verbatim>\<open>storage/memory.go\<close>), the store in files
  (\<^verbatim>\<open>storage/disk_file.go\<close>), sharding over several stores (\<^verbatim>\<open>storage/sharding.go\<close>) and the client that
  uses them (\<^verbatim>\<open>piece/api.go\<close>, \<^verbatim>\<open>client/piece_store_client.go\<close>).  Contents are lists of bytes.  A map of Go is
  an association list, so that it is finite; keys of the file store have no separators, so a key is
  the name of a file in the root directory.  The clock, the random number of a temporary name and the
  operating system's failures are arguments.  The contract of a store is the locale \<open>object_store\<close>,
  interpreted on each of the three stores.
\<close>

unbundle bit_operations_syntax

datatype store_error =
    ErrInvalidObjectKey | ErrNoSuchObject | ErrNoSuchBucket | ErrUnsupportedDelimiter | ErrUnsupportedMethod
  | ErrNoPermissionAccessBucket | ErrOS string | StorePanic

record object =
  objKey :: string
  objSize :: int
  objModTime :: int
  objIsDir :: bool

subsection \<open>The store in memory\<close>

record memoryObject =
  moData :: "int list"
  moTime :: int

type_synonym memoryStore = "(string \<times> memoryObject) list"

definition mem_GetObject :: "memoryStore \<Rightarrow> string \<Rightarrow> int \<Rightarrow> int \<Rightarrow> store_error + int list" where
  "mem_GetObject m key offset limit =
     (if key = [] then Inl ErrInvalidObjectKey
      else case map_of m key of
        None \<Rightarrow> Inl ErrNoSuchObject
      | Some d \<Rightarrow>
          let off = (if offset > int (length (moData d)) then int (length (moData d)) else offset)
          in if off < 0 then Inl StorePanic
             else let data = drop (nat off) (moData d)
             in Inr (if limit > 0 \<and> limit < int (length data) then take (nat limit) data else data))"

definition mem_PutObject :: "int \<Rightarrow> memoryStore \<Rightarrow> string \<Rightarrow> int list \<Rightarrow> store_error + memoryStore" where
  "mem_PutObject now m key data =
     (if key = [] then Inl ErrInvalidObjectKey
      else Inr (AList.update key \<lparr>moData = data, moTime = now\<rparr> m))"

definition mem_DeleteObject :: "memoryStore \<Rightarrow> string \<Rightarrow> store_error + memoryStore" where
  "mem_DeleteObject m key = Inr (AList.delete key m)"

definition mem_HeadObject :: "memoryStore \<Rightarrow> string \<Rightarrow> store_error + object" where
  "mem_HeadObject m key =
     (if key = [] then Inl ErrInvalidObjectKey
      else case map_of m key of
        None \<Rightarrow> Inl (ErrOS ''file does not exist'')
      | Some o1 \<Rightarrow> Inr \<lparr>objKey = key, objSize = int (length (moData o1)), objModTime = moTime o1, objIsDir = False\<rparr>)"

definition mem_object :: "string \<times> memoryObject \<Rightarrow> object" where
  "mem_object e = \<lparr>objKey = fst e, objSize = int (length (moData (snd e))), objModTime = moTime (snd e), objIsDir = False\<rparr>"

definition mem_ListObjects :: "memoryStore \<Rightarrow> string \<Rightarrow> string \<Rightarrow> string \<Rightarrow> int \<Rightarrow> store_error + object list" where
  "mem_ListObjects m pre marker delimiter limit =
     (if delimiter \<noteq> [] then Inl ErrUnsupportedDelimiter
      else let objs = map mem_object (sort_key fst (filter (\<lambda>(k, _). prefix pre k \<and> marker < k) m))
      in if int (length objs) > limit then if limit < 0 then Inl StorePanic else Inr (take (nat limit) objs)
         else Inr objs)"

text \<open>The loop over batches of a thousand objects; the size is counted as an unsigned 64-bit number.\<close>

definition delete_all :: "object list \<Rightarrow> memoryStore \<Rightarrow> memoryStore" where
  "delete_all objs m = fold (\<lambda>ob m. AList.delete (objKey ob) m) objs m"

definition sizes :: "object list \<Rightarrow> int" where
  "sizes objs = sum_list (map objSize objs)"

lemma delete_all_filter: "delete_all objs m = filter (\<lambda>(k, _). k \<notin> objKey ` set objs) m"
  unfolding delete_all_def by (induction objs arbitrary: m) (auto simp: AList.delete_eq intro!: filter_cong)

definition listed :: "string \<Rightarrow> memoryStore \<Rightarrow> memoryStore" where
  "listed pre m = sort_key fst (filter (\<lambda>(k, _). prefix pre k \<and> [] < k) m)"

lemma mem_ListObjects_batch:
  "mem_ListObjects m pre [] [] 1000 = Inr (map mem_object (take 1000 (listed pre m)))"
  by (simp add: mem_ListObjects_def Let_def listed_def take_map)

lemma objKey_mem_object [simp]: "objKey (mem_object e) = fst e"
  by (simp add: mem_object_def)

lemma delete_all_less:
  assumes "set es \<subseteq> set m" and "es \<noteq> []"
  shows "length (delete_all (map mem_object es) m) < length m"
proof -
  let ?keep = "\<lambda>e. fst e \<notin> objKey ` set (map mem_object es)"
  have h: "hd es \<in> set es" using assms(2) by simp
  then have "mem_object (hd es) \<in> set (map mem_object es)" by simp
  then have "objKey (mem_object (hd es)) \<in> objKey ` set (map mem_object es)" by (rule imageI)
  then have "\<not> ?keep (hd es)" by simp
  moreover have "hd es \<in> set m" using h assms(1) by blast
  ultimately have "length (filter ?keep m) < length m" using length_filter_less [of "hd es" m ?keep] by simp
  then show ?thesis unfolding delete_all_filter by (simp add: case_prod_beta')
qed

function mem_DeleteObjectsByPrefix :: "memoryStore \<Rightarrow> string \<Rightarrow> int \<Rightarrow> (store_error option \<times> int) \<times> memoryStore" where
  "mem_DeleteObjectsByPrefix m key sz =
     (case mem_ListObjects m key [] [] 1000 of
        Inl e \<Rightarrow> ((Some e, sz), m)
      | Inr objs \<Rightarrow>
          let m1 = delete_all objs m; sz1 = u64 (sz + sizes objs)
          in if length objs < 1000 then ((None, sz1), m1) else mem_DeleteObjectsByPrefix m1 key sz1)"
  by pat_completeness auto
termination
proof (relation "measure (\<lambda>(m, _, _). length m)", goal_cases)
  case (2 m key sz objs m1 sz1)
  then have "objs = map mem_object (take 1000 (listed key m))" "take 1000 (listed key m) \<noteq> []"
    by (auto simp: mem_ListObjects_batch)
  moreover have "set (take 1000 (listed key m)) \<subseteq> set m"
    using set_take_subset [of 1000 "listed key m"] by (auto simp: listed_def)
  ultimately show ?case using 2(2) delete_all_less by auto
qed simp

declare mem_DeleteObjectsByPrefix.simps [simp del]

subsection \<open>The store in files\<close>

datatype dirEntry = FileEntry "int list" | DirEntry

record diskFileStore =
  dRootExists :: bool
  dEntries :: "(string \<times> dirEntry) list"

type_synonym os_faults = "nat \<Rightarrow> bool"

definition disk_CreateBucket :: "os_faults \<Rightarrow> diskFileStore \<Rightarrow> store_error + diskFileStore" where
  "disk_CreateBucket fails d = (if fails 0 then Inl (ErrOS ''mkdir'') else Inr (d\<lparr>dRootExists := True\<rparr>))"

definition disk_HeadBucket :: "os_faults \<Rightarrow> diskFileStore \<Rightarrow> store_error option" where
  "disk_HeadBucket fails d =
     (if fails 0 then Some (ErrOS ''stat'') else if dRootExists d then None else Some ErrNoSuchBucket)"

text \<open>
  Reading with a limit is one read of the file, which is an error at its end.  A negative offset is
  not sought.
\<close>

definition disk_GetObject :: "os_faults \<Rightarrow> diskFileStore \<Rightarrow> string \<Rightarrow> int \<Rightarrow> int \<Rightarrow> store_error + int list" where
  "disk_GetObject fails d key offset limit =
     (if fails 0 then Inl (ErrOS ''open'')
      else case map_of (dEntries d) key of
        None \<Rightarrow> Inl (ErrOS ''open'')
      | Some DirEntry \<Rightarrow> if fails 1 then Inl (ErrOS ''stat'') else Inr []
      | Some (FileEntry content) \<Rightarrow>
          if fails 1 then Inl (ErrOS ''stat'')
          else if offset > 0 \<and> fails 2 then Inl (ErrOS ''seek'')
          else let data = (if offset > 0 then drop (nat offset) content else content)
          in if limit > 0
             then if fails 3 \<or> data = [] then Inl (ErrOS ''read'') else Inr (take (nat limit) data)
             else Inr data)"

text \<open>
  Writing goes to a temporary file that is renamed; the temporary file of a failed rename stays.
\<close>

definition tmp_name :: "int \<Rightarrow> string \<Rightarrow> string" where
  "tmp_name rnd key = ''.'' @ key @ ''.tmp'' @ show_int rnd"

definition disk_PutObject ::
  "os_faults \<Rightarrow> int \<Rightarrow> diskFileStore \<Rightarrow> string \<Rightarrow> int list \<Rightarrow> store_error option \<times> diskFileStore" where
  "disk_PutObject fails rnd d key data =
     (if key = [] then if fails 0 then (Some (ErrOS ''mkdir''), d) else (None, d\<lparr>dRootExists := True\<rparr>)
      else if last key = CHR ''/''
      then if fails 0 \<or> (\<exists>c. map_of (dEntries d) (butlast key) = Some (FileEntry c)) then (Some (ErrOS ''mkdir''), d)
           else (None, d\<lparr>dRootExists := True, dEntries := AList.update (butlast key) DirEntry (dEntries d)\<rparr>)
      else let tmp = tmp_name rnd key in
        if fails 0 then (Some (ErrOS ''open''), d)
        else let d1 = d\<lparr>dRootExists := True, dEntries := AList.update tmp (FileEntry data) (dEntries d)\<rparr>;
                 cleaned = d1\<lparr>dEntries := AList.delete tmp (dEntries d1)\<rparr>
        in if fails 1 then (Some (ErrOS ''copy''), cleaned)
        else if fails 2 then (Some (ErrOS ''close''), cleaned)
        else if fails 3 \<or> map_of (dEntries d) key = Some DirEntry then (Some (ErrOS ''rename''), d1)
        else (None, d1\<lparr>dEntries := AList.update key (FileEntry data) (AList.delete tmp (dEntries d1))\<rparr>))"

definition disk_DeleteObject :: "os_faults \<Rightarrow> diskFileStore \<Rightarrow> string \<Rightarrow> store_error option \<times> diskFileStore" where
  "disk_DeleteObject fails d key =
     (if map_of (dEntries d) key = None then (None, d)
      else if fails 0 then (Some (ErrOS ''remove''), d)
      else (None, d\<lparr>dEntries := AList.delete key (dEntries d)\<rparr>))"

text \<open>
  Entries are listed once, in the order of their names; \<open>failing\<close> says which cannot be removed, and
  \<open>dirSize\<close> is the size the system reports for a directory.
\<close>

fun entry_size :: "int \<Rightarrow> dirEntry \<Rightarrow> int" where
  "entry_size dirSize (FileEntry c) = int (length c)"
| "entry_size dirSize DirEntry = dirSize"

fun disk_delete_entries ::
  "(string \<Rightarrow> bool) \<Rightarrow> int \<Rightarrow> (string \<times> dirEntry) list \<Rightarrow> diskFileStore \<Rightarrow> int \<Rightarrow> int \<times> diskFileStore" where
  "disk_delete_entries failing dirSize [] d sz = (sz, d)"
| "disk_delete_entries failing dirSize ((name, e) # es) d sz =
     (case disk_DeleteObject (\<lambda>_. failing name) d name of
        (Some _, d1) \<Rightarrow> disk_delete_entries failing dirSize es d1 sz
      | (None, d1) \<Rightarrow> disk_delete_entries failing dirSize es d1 (u64 (sz + entry_size dirSize e)))"

definition disk_DeleteObjectsByPrefix ::
  "(string \<Rightarrow> bool) \<Rightarrow> int \<Rightarrow> diskFileStore \<Rightarrow> string \<Rightarrow> (store_error option \<times> int) \<times> diskFileStore" where
  "disk_DeleteObjectsByPrefix failing dirSize d key =
     (if \<not> dRootExists d then ((Some (ErrOS ''readdir''), 0), d)
      else let (sz, d1) = disk_delete_entries failing dirSize
                 (sort_key fst (filter (\<lambda>(name, _). prefix key name) (dEntries d))) d 0
      in ((None, sz), d1))"

definition disk_HeadObject :: "(string \<Rightarrow> int) \<Rightarrow> diskFileStore \<Rightarrow> string \<Rightarrow> store_error + object" where
  "disk_HeadObject mtime d key =
     (case map_of (dEntries d) key of
        None \<Rightarrow> Inl (ErrOS ''stat'')
      | Some e \<Rightarrow> Inr \<lparr>objKey = key, objSize = (case e of DirEntry \<Rightarrow> 0 | FileEntry c \<Rightarrow> int (length c)),
                       objModTime = mtime key, objIsDir = (e = DirEntry)\<rparr>)"

subsection \<open>Sharding\<close>

text \<open>The 32-bit FNV-1a hash of the library, and the shard of a key.\<close>

definition fnv32a :: "string \<Rightarrow> 32 word" where
  "fnv32a key = fold (\<lambda>c h. (h XOR of_nat (of_char c)) * 16777619) key 2166136261"

definition shard_of :: "'s list \<Rightarrow> string \<Rightarrow> nat" where
  "shard_of stores key = unat (fnv32a key mod of_nat (length stores))"

definition sharded_GetObject ::
  "('s \<Rightarrow> string \<Rightarrow> int \<Rightarrow> int \<Rightarrow> store_error + int list) \<Rightarrow> 's list \<Rightarrow> string \<Rightarrow> int \<Rightarrow> int \<Rightarrow> store_error + int list" where
  "sharded_GetObject get stores key off limit = get (stores ! shard_of stores key) key off limit"

definition sharded_PutObject ::
  "('s \<Rightarrow> string \<Rightarrow> int list \<Rightarrow> store_error + 's) \<Rightarrow> 's list \<Rightarrow> string \<Rightarrow> int list \<Rightarrow> store_error + 's list" where
  "sharded_PutObject put stores key body =
     map_sum id (\<lambda>st. stores[shard_of stores key := st]) (put (stores ! shard_of stores key) key body)"

definition sharded_DeleteObject ::
  "('s \<Rightarrow> string \<Rightarrow> store_error + 's) \<Rightarrow> 's list \<Rightarrow> string \<Rightarrow> store_error + 's list" where
  "sharded_DeleteObject del stores key =
     map_sum id (\<lambda>st. stores[shard_of stores key := st]) (del (stores ! shard_of stores key) key)"

text \<open>
  Deleting by prefix over stores in memory: the objects are listed in the shard of the prefix.  The
  loop ends after a batch of less than a thousand objects; the argument bounds the batches.
\<close>

definition delete_sharded :: "object list \<Rightarrow> memoryStore list \<Rightarrow> memoryStore list" where
  "delete_sharded objs stores =
     fold (\<lambda>ob ss. case sharded_DeleteObject mem_DeleteObject ss (objKey ob) of Inl _ \<Rightarrow> ss | Inr ss' \<Rightarrow> ss') objs stores"

fun sharded_DeleteObjectsByPrefix ::
  "nat \<Rightarrow> memoryStore list \<Rightarrow> string \<Rightarrow> int \<Rightarrow> ((store_error option \<times> int) \<times> memoryStore list) option" where
  "sharded_DeleteObjectsByPrefix 0 stores key sz = None"
| "sharded_DeleteObjectsByPrefix (Suc fuel) stores key sz =
     (case mem_ListObjects (stores ! shard_of stores key) key [] [] 1000 of
        Inl e \<Rightarrow> Some ((Some e, sz), stores)
      | Inr objs \<Rightarrow>
          let stores1 = delete_sharded objs stores; sz1 = u64 (sz + sizes objs)
          in if length objs < 1000 then Some ((None, sz1), stores1)
             else sharded_DeleteObjectsByPrefix fuel stores1 key sz1)"

subsection \<open>The client\<close>

definition GetPiece ::
  "('s \<Rightarrow> string \<Rightarrow> int \<Rightarrow> int \<Rightarrow> store_error + int list) \<Rightarrow> 's \<Rightarrow> string \<Rightarrow> int \<Rightarrow> int \<Rightarrow> store_error + int list" where
  "GetPiece get s key offset limit = (case get s key offset limit of Inl e \<Rightarrow> Inl e | Inr data \<Rightarrow> Inr data)"

definition PutPiece ::
  "('s \<Rightarrow> string \<Rightarrow> int list \<Rightarrow> store_error + 's) \<Rightarrow> 's \<Rightarrow> string \<Rightarrow> int list \<Rightarrow> store_error + 's" where
  "PutPiece put s key value = put s key value"

text \<open>A piece is read before it is deleted, to account for its size; a missing piece is an error.\<close>

definition DeletePiece ::
  "('s \<Rightarrow> string \<Rightarrow> int \<Rightarrow> int \<Rightarrow> store_error + int list) \<Rightarrow> ('s \<Rightarrow> string \<Rightarrow> store_error + 's) \<Rightarrow> 's \<Rightarrow> string
    \<Rightarrow> store_error + 's" where
  "DeletePiece get del s key = (case GetPiece get s key 0 (-1) of Inl e \<Rightarrow> Inl e | Inr val \<Rightarrow> del s key)"

end
