(* ===== verification/SP_StoreProps.thy ===== *)
theory SP_StoreProps
  imports SP_Store
begin

text \<open>
  The contract of a piece store and its three providers: the store in memory, the store in files and
  the sharded store.  Deletion by prefix terminates and is exact in memory; over shards it reaches one
  shard only.
\<close>

subsection \<open>The contract\<close>

locale object_store =
  fixes get :: "'s \<Rightarrow> string \<Rightarrow> int \<Rightarrow> int \<Rightarrow> store_error + int list"
    and put :: "'s \<Rightarrow> string \<Rightarrow> int list \<Rightarrow> store_error + 's"
    and del :: "'s \<Rightarrow> string \<Rightarrow> store_error + 's"
    and inv :: "'s \<Rightarrow> bool"
    and ok_key :: "string \<Rightarrow> bool"
  assumes put_ok: "inv s \<Longrightarrow> ok_key k \<Longrightarrow> \<exists>s'. put s k v = Inr s' \<and> inv s'"
    and get_put: "inv s \<Longrightarrow> ok_key k \<Longrightarrow> put s k v = Inr s' \<Longrightarrow> 0 \<le> off \<Longrightarrow> 0 < lim \<Longrightarrow> off < int (length v) \<Longrightarrow>
          get s' k off lim = Inr (take (nat lim) (drop (nat off) v))"
    and get_put_whole: "inv s \<Longrightarrow> ok_key k \<Longrightarrow> put s k v = Inr s' \<Longrightarrow> get s' k 0 (-1) = Inr v"
    and get_put_other: "inv s \<Longrightarrow> ok_key k \<Longrightarrow> put s k v = Inr s' \<Longrightarrow> ok_key k' \<Longrightarrow> k' \<noteq> k \<Longrightarrow>
          get s' k' off lim = get s k' off lim"
    and del_ok: "inv s \<Longrightarrow> ok_key k \<Longrightarrow> \<exists>s'. del s k = Inr s' \<and> inv s'"
    and get_del: "inv s \<Longrightarrow> ok_key k \<Longrightarrow> del s k = Inr s' \<Longrightarrow> \<exists>e. get s' k off lim = Inl e"
    and get_del_other: "inv s \<Longrightarrow> ok_key k \<Longrightarrow> del s k = Inr s' \<Longrightarrow> ok_key k' \<Longrightarrow> k' \<noteq> k \<Longrightarrow>
          get s' k' off lim = get s k' off lim"
begin

text \<open>Writing a list of pieces, as an upload does.\<close>

fun put_all :: "(string \<times> int list) list \<Rightarrow> 's \<Rightarrow> store_error + 's" where
  "put_all [] s = Inr s"
| "put_all ((k, v) # kvs) s = (case put s k v of Inl e \<Rightarrow> Inl e | Inr s' \<Rightarrow> put_all kvs s')"

lemma put_all_ok:
  "inv s \<Longrightarrow> \<forall>k \<in> fst ` set kvs. ok_key k \<Longrightarrow> \<exists>s'. put_all kvs s = Inr s' \<and> inv s'"
proof (induction kvs arbitrary: s)
  case (Cons kv kvs)
  obtain k v where kv: "kv = (k, v)" by (cases kv)
  obtain s1 where "put s k v = Inr s1" "inv s1" using put_ok [of s k v] Cons.prems kv by auto
  then show ?case using Cons.IH [of s1] Cons.prems kv by auto
qed simp

lemma put_all_other:
  "inv s \<Longrightarrow> \<forall>k \<in> fst ` set kvs. ok_key k \<Longrightarrow> put_all kvs s = Inr s' \<Longrightarrow> ok_key k' \<Longrightarrow> k' \<notin> fst ` set kvs \<Longrightarrow>
   get s' k' off lim = get s k' off lim"
proof (induction kvs arbitrary: s)
  case (Cons kv kvs)
  obtain k v where kv: "kv = (k, v)" by (cases kv)
  obtain s1 where s1: "put s k v = Inr s1" "inv s1" using put_ok [of s k v] Cons.prems kv by auto
  then show ?case using Cons.IH [of s1] Cons.prems kv get_put_other [of s k v s1 k' off lim] by auto
qed simp

lemma put_all_get:
  assumes "inv s" and "\<forall>k \<in> fst ` set kvs. ok_key k" and "distinct (map fst kvs)" and "put_all kvs s = Inr s'"
    and "(k, v) \<in> set kvs" and "0 \<le> off" and "0 < lim" and "off < int (length v)"
  shows "get s' k off lim = Inr (take (nat lim) (drop (nat off) v))"
  using assms(1-5)
proof (induction kvs arbitrary: s)
  case (Cons kv kvs)
  obtain k1 v1 where kv: "kv = (k1, v1)" by (cases kv)
  obtain s1 where s1: "put s k1 v1 = Inr s1" "inv s1" using put_ok [of s k1 v1] Cons.prems kv by auto
  show ?case
  proof (cases "(k, v) = kv")
    case True
    then have "k = k1" "v = v1" using kv by simp_all
    then have "get s1 k off lim = Inr (take (nat lim) (drop (nat off) v))"
      using get_put [of s k1 v1 s1 off lim] Cons.prems s1 kv assms(6-8) by auto
    moreover have "get s' k off lim = get s1 k off lim"
      using put_all_other [of s1 kvs s' k off lim] Cons.prems s1 kv \<open>k = k1\<close> by auto
    ultimately show ?thesis by simp
  next
    case False
    then show ?thesis using Cons.IH [of s1] Cons.prems s1 kv by auto
  qed
qed simp

text \<open>A deleted piece is gone, and deleting it again is an error.\<close>

lemma DeletePiece_twice:
  assumes "inv s" and "ok_key k" and "DeletePiece get del s k = Inr s'"
  shows "\<exists>e. DeletePiece get del s' k = Inl e"
  using assms get_del [of s k s' 0 "- 1"] by (auto simp: DeletePiece_def GetPiece_def split: sum.splits)

end

subsection \<open>The store in memory\<close>

definition nonempty_key :: "string \<Rightarrow> bool" where
  "nonempty_key k \<longleftrightarrow> k \<noteq> []"

interpretation memory_store: object_store mem_GetObject "mem_PutObject 0" mem_DeleteObject "\<lambda>_. True" nonempty_key
  by unfold_locales
    (auto simp: mem_GetObject_def mem_PutObject_def mem_DeleteObject_def nonempty_key_def update_conv' delete_conv' Let_def)

subsection \<open>The store in files\<close>

text \<open>Keys of pieces: not empty, not hidden, no directory.\<close>

definition file_key :: "string \<Rightarrow> bool" where
  "file_key k \<longleftrightarrow> k \<noteq> [] \<and> hd k \<noteq> CHR ''.'' \<and> last k \<noteq> CHR ''/''"

definition files_inv :: "diskFileStore \<Rightarrow> bool" where
  "files_inv d \<longleftrightarrow> (\<forall>k. file_key k \<longrightarrow> map_of (dEntries d) k \<noteq> Some DirEntry)"

definition file_put :: "diskFileStore \<Rightarrow> string \<Rightarrow> int list \<Rightarrow> store_error + diskFileStore" where
  "file_put d k v = (case disk_PutObject (\<lambda>_. False) 0 d k v of (None, d') \<Rightarrow> Inr d' | (Some e, _) \<Rightarrow> Inl e)"

definition file_del :: "diskFileStore \<Rightarrow> string \<Rightarrow> store_error + diskFileStore" where
  "file_del d k = (case disk_DeleteObject (\<lambda>_. False) d k of (None, d') \<Rightarrow> Inr d' | (Some e, _) \<Rightarrow> Inl e)"

lemma file_put_eq:
  assumes "files_inv d" and "file_key k"
  shows "file_put d k v = Inr (d\<lparr>dRootExists := True,
    dEntries := AList.update k (FileEntry v) (AList.delete (tmp_name 0 k) (AList.update (tmp_name 0 k) (FileEntry v) (dEntries d)))\<rparr>)"
  using assms by (auto simp: file_put_def disk_PutObject_def file_key_def files_inv_def Let_def)

lemma tmp_not_file_key: "file_key k' \<Longrightarrow> k' \<noteq> tmp_name r k"
  by (auto simp: file_key_def tmp_name_def)

lemma file_put_lookup:
  "files_inv d \<Longrightarrow> file_key k \<Longrightarrow> file_put d k v = Inr d' \<Longrightarrow> file_key k' \<Longrightarrow>
   map_of (dEntries d') k' = (if k' = k then Some (FileEntry v) else map_of (dEntries d) k')"
  using tmp_not_file_key by (auto simp: file_put_eq update_conv' delete_conv')

lemma file_del_lookup:
  "file_del d k = Inr d' \<Longrightarrow> map_of (dEntries d') k' = (if k' = k then None else map_of (dEntries d) k')"
  by (auto simp: file_del_def disk_DeleteObject_def delete_conv' split: if_splits)

interpretation file_store: object_store "disk_GetObject (\<lambda>_. False)" file_put file_del files_inv file_key
proof (unfold_locales, goal_cases)
  case (1 s k v)
  then obtain d' where d': "file_put s k v = Inr d'" by (auto simp: file_put_eq)
  then have "files_inv d'" using 1 file_put_lookup [OF 1 d'] by (auto simp: files_inv_def)
  with d' show ?case by blast
next
  case (2 s k v s' off lim)
  then show ?case using file_put_lookup [OF 2(1-3) 2(2)] by (auto simp: disk_GetObject_def Let_def)
next
  case (3 s k v s')
  then show ?case using file_put_lookup [OF 3 3(2)] by (auto simp: disk_GetObject_def Let_def)
next
  case (4 s k v s' k' off lim)
  then show ?case using file_put_lookup [OF 4(1-4)] by (auto simp: disk_GetObject_def)
next
  case (5 s k)
  then show ?case by (auto simp: file_del_def disk_DeleteObject_def files_inv_def delete_conv')
next
  case (6 s k s' off lim)
  then show ?case using file_del_lookup [OF 6(3)] by (auto simp: disk_GetObject_def)
next
  case (7 s k s' k' off lim)
  then show ?case using file_del_lookup [OF 7(3)] by (auto simp: disk_GetObject_def)
qed

subsection \<open>The sharded store\<close>

text \<open>Sharding over stores that keep the contract keeps it.\<close>

lemma shard_of_less:
  assumes "ss \<noteq> []" and "length ss \<le> 256"
  shows "shard_of ss k < length ss"
proof -
  have "unat (of_nat (length ss) :: 32 word) = length ss" using assms(2) by (simp add: unat_of_nat)
  then show ?thesis using assms(1) by (simp add: shard_of_def unat_mod)
qed

lemma shard_of_update [simp]: "shard_of (ss[i := s]) k = shard_of ss k"
  by (simp add: shard_of_def)

definition shards_inv :: "('s \<Rightarrow> bool) \<Rightarrow> 's list \<Rightarrow> bool" where
  "shards_inv P ss \<longleftrightarrow> ss \<noteq> [] \<and> length ss \<le> 256 \<and> (\<forall>s \<in> set ss. P s)"

lemma shards_inv_update:
  "shards_inv P ss \<Longrightarrow> P s \<Longrightarrow> shards_inv P (ss[i := s])"
  using set_update_subset_insert [of ss i s] by (auto simp: shards_inv_def)

lemma shards_invD: "shards_inv P ss \<Longrightarrow> P (ss ! shard_of ss k)"
  using shard_of_less [of ss k] by (simp add: shards_inv_def)

locale sharded_stores = object_store get put del inv ok_key
  for get :: "'s \<Rightarrow> string \<Rightarrow> int \<Rightarrow> int \<Rightarrow> store_error + int list" and put :: "'s \<Rightarrow> string \<Rightarrow> int list \<Rightarrow> store_error + 's"
    and del :: "'s \<Rightarrow> string \<Rightarrow> store_error + 's" and inv :: "'s \<Rightarrow> bool" and ok_key :: "string \<Rightarrow> bool"
begin

lemma sharded_put_ok:
  assumes "shards_inv inv ss" and "ok_key k"
  shows "\<exists>s'. put (ss ! shard_of ss k) k v = Inr s' \<and> inv s' \<and>
    sharded_PutObject put ss k v = Inr (ss[shard_of ss k := s'])"
  using put_ok [OF shards_invD [OF assms(1), of k] assms(2), of v] by (auto simp: sharded_PutObject_def)

lemma sharded_del_ok:
  assumes "shards_inv inv ss" and "ok_key k"
  shows "\<exists>s'. del (ss ! shard_of ss k) k = Inr s' \<and> inv s' \<and>
    sharded_DeleteObject del ss k = Inr (ss[shard_of ss k := s'])"
  using del_ok [OF shards_invD [OF assms(1), of k] assms(2)] by (auto simp: sharded_DeleteObject_def)

lemma sharded_get_update:
  assumes "ss \<noteq> []" and "length ss \<le> 256"
  shows "sharded_GetObject get (ss[shard_of ss k := s']) k' off lim =
    (if shard_of ss k' = shard_of ss k then get s' k' off lim else sharded_GetObject get ss k' off lim)"
  using shard_of_less [OF assms, of k] by (auto simp: sharded_GetObject_def)

end

sublocale sharded_stores \<subseteq> shards: object_store "sharded_GetObject get" "sharded_PutObject put" "sharded_DeleteObject del"
  "shards_inv inv" ok_key
proof (unfold_locales, goal_cases)
  case (1 ss k v)
  then show ?case using sharded_put_ok [of ss k v] by (auto simp: shards_inv_update)
next
  case (2 ss k v ss' off lim)
  then have "ss \<noteq> []" "length ss \<le> 256" by (simp_all add: shards_inv_def)
  with 2 show ?case
    using sharded_put_ok [of ss k v] get_put [OF shards_invD [of inv ss k], of k v] sharded_get_update [of ss k] by auto
next
  case (3 ss k v ss')
  then have "ss \<noteq> []" "length ss \<le> 256" by (simp_all add: shards_inv_def)
  with 3 show ?case
    using sharded_put_ok [of ss k v] get_put_whole [OF shards_invD [of inv ss k], of k v] sharded_get_update [of ss k] by auto
next
  case (4 ss k v ss' k' off lim)
  then have ne: "ss \<noteq> []" "length ss \<le> 256" by (simp_all add: shards_inv_def)
  obtain s' where s': "put (ss ! shard_of ss k) k v = Inr s'" "ss' = ss[shard_of ss k := s']"
    using sharded_put_ok [of ss k v] 4 by auto
  show ?case
    using get_put_other [OF shards_invD [OF 4(1), of k] 4(2) s'(1) 4(4,5), of off lim] sharded_get_update [OF ne, of k s' k' off lim] s'
    by (auto simp: sharded_GetObject_def)
next
  case (5 ss k)
  then show ?case using sharded_del_ok [of ss k] by (auto simp: shards_inv_update)
next
  case (6 ss k ss' off lim)
  then have "ss \<noteq> []" "length ss \<le> 256" by (simp_all add: shards_inv_def)
  with 6 show ?case
    using sharded_del_ok [of ss k] get_del [OF shards_invD [of inv ss k], of k] sharded_get_update [of ss k] by auto
next
  case (7 ss k ss' k' off lim)
  then have ne: "ss \<noteq> []" "length ss \<le> 256" by (simp_all add: shards_inv_def)
  obtain s' where s': "del (ss ! shard_of ss k) k = Inr s'" "ss' = ss[shard_of ss k := s']"
    using sharded_del_ok [of ss k] 7 by auto
  show ?case
    using get_del_other [OF shards_invD [OF 7(1), of k] 7(2) s'(1) 7(4,5), of off lim] sharded_get_update [OF ne, of k s' k' off lim] s'
    by (auto simp: sharded_GetObject_def)
qed

interpretation sharded_memory: sharded_stores mem_GetObject "mem_PutObject 0" mem_DeleteObject "\<lambda>_. True" nonempty_key
  by unfold_locales

interpretation sharded_files: sharded_stores "disk_GetObject (\<lambda>_. False)" file_put file_del files_inv file_key
  by unfold_locales

subsection \<open>Deleting by prefix\<close>

definition total_size :: "memoryStore \<Rightarrow> int" where
  "total_size m = (\<Sum>e \<leftarrow> m. int (length (moData (snd e))))"

definition store_keys_ok :: "memoryStore \<Rightarrow> bool" where
  "store_keys_ok m \<longleftrightarrow> distinct (map fst m) \<and> [] \<notin> fst ` set m"

definition with_prefix :: "string \<Rightarrow> memoryStore \<Rightarrow> memoryStore" where
  "with_prefix p m = filter (\<lambda>e. prefix p (fst e)) m"

definition without_prefix :: "string \<Rightarrow> memoryStore \<Rightarrow> memoryStore" where
  "without_prefix p m = filter (\<lambda>e. \<not> prefix p (fst e)) m"

lemma total_size_set: "distinct m \<Longrightarrow> total_size m = (\<Sum>e \<in> set m. int (length (moData (snd e))))"
  by (simp add: total_size_def sum_list_distinct_conv_sum_set)

lemma sizes_objects: "sizes (map mem_object es) = total_size es"
  by (simp add: sizes_def total_size_def mem_object_def comp_def)

lemma delete_all_objects: "delete_all (map mem_object es) m = filter (\<lambda>e. fst e \<notin> fst ` set es) m"
  by (simp add: delete_all_filter image_image case_prod_beta')

lemma Nil_less_iff: "([] :: string) < k \<longleftrightarrow> k \<noteq> []"
  by (cases k) auto

lemma listed_set:
  assumes "store_keys_ok m"
  shows "set (listed p m) = set (with_prefix p m)"
proof -
  have "fst e \<noteq> []" if e: "e \<in> set m" for e
    using assms imageI [OF e, of fst] unfolding store_keys_ok_def by metis
  then show ?thesis by (auto simp: listed_def with_prefix_def Nil_less_iff split: prod.splits) fastforce
qed

lemma listed_distinct:
  assumes "store_keys_ok m"
  shows "distinct (map fst (listed p m))"
proof -
  let ?xs = "filter (\<lambda>(k, _). prefix p k \<and> [] < k) m"
  have "distinct (map fst ?xs)" using assms by (simp add: store_keys_ok_def distinct_map_filter)
  moreover have "mset (map fst (listed p m)) = mset (map fst ?xs)" by (simp add: listed_def)
  ultimately show ?thesis using mset_eq_imp_distinct_iff by blast
qed

lemma store_keys_ok_filter: "store_keys_ok m \<Longrightarrow> store_keys_ok (filter P m)"
  by (auto simp: store_keys_ok_def distinct_map_filter)

lemma delete_by_prefix_aux:
  "store_keys_ok m \<Longrightarrow> mem_DeleteObjectsByPrefix m key sz = ((None, u64 (sz + total_size (with_prefix key m))), without_prefix key m)"
proof (induction m key sz rule: mem_DeleteObjectsByPrefix.induct)
  case (1 m key sz)
  define es where "es = take 1000 (listed key m)"
  define m1 where "m1 = filter (\<lambda>e. fst e \<notin> fst ` set es) m"
  have ok1: "store_keys_ok m1" using 1(2) unfolding m1_def by (rule store_keys_ok_filter)
  have dl: "distinct (map fst (listed key m))" by (rule listed_distinct [OF 1(2)])
  have sub: "set es \<subseteq> set (with_prefix key m)"
    using set_take_subset [of 1000 "listed key m"] listed_set [OF 1(2)] by (simp add: es_def)
  have dm: "distinct (map fst m)" using 1(2) by (simp add: store_keys_ok_def)
  have in_es: "e \<in> set es" if em: "e \<in> set m" and ek: "fst e \<in> fst ` set es" for e
  proof -
    obtain e' where e': "e' \<in> set es" "fst e' = fst e" using imageE [OF ek] by metis
    then have "e' \<in> set m" using sub by (auto simp: with_prefix_def)
    then have "e' = e" using dm em e'(2) unfolding distinct_map by (blast dest: inj_onD)
    then show ?thesis using e' by simp
  qed
  have split: "set (with_prefix key m) = set es \<union> set (with_prefix key m1)" "set es \<inter> set (with_prefix key m1) = {}"
    using sub in_es by (auto simp: with_prefix_def m1_def)
  have dists: "distinct (with_prefix key m)" "distinct (with_prefix key m1)" "distinct es"
    using dm dl by (auto simp: with_prefix_def distinct_map m1_def es_def)
  have total: "total_size (with_prefix key m) = total_size es + total_size (with_prefix key m1)"
    using split dists by (simp add: total_size_set sum.union_disjoint)
  have out: "without_prefix key m1 = without_prefix key m"
    using sub by (auto simp: without_prefix_def with_prefix_def m1_def intro!: filter_cong)
  show ?case
  proof (cases "length es < 1000")
    case True
    then have len: "length (listed key m) < 1000" by (simp add: es_def min_def split: if_splits)
    then have "es = listed key m" by (simp add: es_def)
    then have "set es = set (with_prefix key m)" using listed_set [OF 1(2), of key] by simp
    then have "set (with_prefix key m1) \<subseteq> set es" using split(1) by (metis Un_upper2)
    then have "set (with_prefix key m1) = {}" using split(2) by (metis Int_absorb1)
    then have "with_prefix key m1 = []" by simp
    moreover from this have "m1 = without_prefix key m"
      using out by (auto simp: with_prefix_def without_prefix_def filter_empty_conv filter_id_conv)
    ultimately show ?thesis
      using len total by (simp add: mem_DeleteObjectsByPrefix.simps [of m] mem_ListObjects_batch delete_all_objects
          sizes_objects Let_def total_size_def es_def m1_def)
  next
    case False
    have "mem_DeleteObjectsByPrefix m1 key (u64 (sz + total_size es)) =
        ((None, u64 (u64 (sz + total_size es) + total_size (with_prefix key m1))), without_prefix key m1)"
      using 1(1) [of "map mem_object es" m1 "u64 (sz + total_size es)"] False ok1
      by (simp add: mem_ListObjects_batch delete_all_objects sizes_objects es_def m1_def)
    then show ?thesis
      using False total out by (simp add: mem_DeleteObjectsByPrefix.simps [of m] mem_ListObjects_batch delete_all_objects
          sizes_objects Let_def u64_add_left add.assoc es_def m1_def)
  qed
qed

text \<open>
  Deleting by prefix in memory always ends, removes exactly the objects whose key has the prefix,
  keeps all others in their order, and returns the sum of the sizes removed as an unsigned 64-bit
  number, however many batches it takes.
\<close>

theorem delete_by_prefix_exact:
  assumes "store_keys_ok m"
  shows "mem_DeleteObjectsByPrefix m key 0 = ((None, u64 (total_size (with_prefix key m))), without_prefix key m)"
  using delete_by_prefix_aux [OF assms, of key 0] by simp

theorem delete_by_prefix_exact_witness:
  "mem_DeleteObjectsByPrefix [(''s1_s0'', \<lparr>moData = [1, 2], moTime = 0\<rparr>), (''s2_s0'', \<lparr>moData = [3], moTime = 0\<rparr>)] ''s1_'' 0
   = ((None, 2), [(''s2_s0'', \<lparr>moData = [3], moTime = 0\<rparr>)])"
  using delete_by_prefix_exact [of "[(''s1_s0'', \<lparr>moData = [1, 2], moTime = 0\<rparr>), (''s2_s0'', \<lparr>moData = [3], moTime = 0\<rparr>)]" "''s1_''"]
  by (simp add: store_keys_ok_def with_prefix_def without_prefix_def total_size_def u64_def)

text \<open>Every object is in the shard of its key, as the sharded store puts it.\<close>

definition placed :: "memoryStore list \<Rightarrow> bool" where
  "placed stores \<longleftrightarrow> stores \<noteq> [] \<and> length stores \<le> 256 \<and> (\<forall>j < length stores. \<forall>k \<in> fst ` set (stores ! j). shard_of stores k = j)"

definition batch :: "memoryStore list \<Rightarrow> string \<Rightarrow> memoryStore" where
  "batch stores key = take 1000 (listed key (stores ! shard_of stores key))"

definition after_batch :: "memoryStore list \<Rightarrow> string \<Rightarrow> memoryStore list" where
  "after_batch stores key = stores[shard_of stores key :=
     delete_all (map mem_object (batch stores key)) (stores ! shard_of stores key)]"

lemma batch_subset: "set (batch stores key) \<subseteq> set (stores ! shard_of stores key)"
  using set_take_subset [of 1000 "listed key (stores ! shard_of stores key)"] by (auto simp: batch_def listed_def)

lemma delete_sharded_batch:
  assumes "h < length ss" and "\<forall>x \<in> set xs. shard_of ss (fst x) = h"
  shows "delete_sharded (map mem_object xs) ss = ss[h := delete_all (map mem_object xs) (ss ! h)]"
  using assms
proof (induction xs arbitrary: ss)
  case Nil
  then show ?case by (simp add: delete_sharded_def delete_all_def)
next
  case (Cons x xs)
  let ?ss = "ss[h := AList.delete (fst x) (ss ! h)]"
  have "delete_sharded (map mem_object (x # xs)) ss = delete_sharded (map mem_object xs) ?ss"
    using Cons.prems by (simp add: delete_sharded_def sharded_DeleteObject_def mem_DeleteObject_def)
  also have "\<dots> = ?ss[h := delete_all (map mem_object xs) (?ss ! h)]"
    using Cons.IH [of ?ss] Cons.prems by simp
  also have "\<dots> = ss[h := delete_all (map mem_object (x # xs)) (ss ! h)]"
    using Cons.prems(1) by (simp add: delete_all_def)
  finally show ?case .
qed

lemma placed_after_batch:
  assumes "placed stores"
  shows "placed (after_batch stores key)"
proof -
  have "set (after_batch stores key ! j) \<subseteq> set (stores ! j)" for j
    using shard_of_less [of stores key] assms
    by (cases "j = shard_of stores key") (auto simp: after_batch_def delete_all_filter placed_def)
  then show ?thesis using assms by (fastforce simp: placed_def after_batch_def [of stores key])
qed

lemma sharded_delete_step:
  assumes "placed stores"
  shows "sharded_DeleteObjectsByPrefix (Suc fuel) stores key sz =
    (if length (batch stores key) < 1000
     then Some ((None, u64 (sz + sizes (map mem_object (batch stores key)))), after_batch stores key)
     else sharded_DeleteObjectsByPrefix fuel (after_batch stores key) key (u64 (sz + sizes (map mem_object (batch stores key)))))"
proof -
  have h: "shard_of stores key < length stores" using assms by (simp add: placed_def shard_of_less)
  have "shard_of stores (fst x) = shard_of stores key" if "x \<in> set (batch stores key)" for x
    using assms batch_subset [of stores key] h that by (auto simp: placed_def)
  then have "delete_sharded (map mem_object (batch stores key)) stores = after_batch stores key"
    unfolding after_batch_def by (intro delete_sharded_batch [OF h]) simp
  then show ?thesis by (simp add: mem_ListObjects_batch batch_def [symmetric] Let_def)
qed

lemma after_batch_shrinks:
  assumes "placed stores" and "batch stores key \<noteq> []"
  shows "length (after_batch stores key ! shard_of stores key) < length (stores ! shard_of stores key)"
  using assms shard_of_less [of stores key] delete_all_less [OF batch_subset assms(2)]
  by (simp add: placed_def after_batch_def)

lemma shard_after_batch [simp]: "shard_of (after_batch stores key) k = shard_of stores k"
  by (simp add: after_batch_def)

lemma sharded_delete_spec:
  assumes "placed stores" and "length (stores ! shard_of stores key) < fuel"
  shows "\<exists>r stores'. sharded_DeleteObjectsByPrefix fuel stores key sz = Some (r, stores') \<and> length stores' = length stores
    \<and> (\<forall>i. i \<noteq> shard_of stores key \<longrightarrow> stores' ! i = stores ! i)"
  using assms
proof (induction fuel arbitrary: stores sz)
  case (Suc fuel)
  show ?case
  proof (cases "length (batch stores key) < 1000")
    case True
    then show ?thesis using sharded_delete_step [OF Suc.prems(1), of fuel key sz] by (auto simp: after_batch_def)
  next
    case False
    then have "batch stores key \<noteq> []" by auto
    then have "length (after_batch stores key ! shard_of stores key) < fuel"
      using after_batch_shrinks [OF Suc.prems(1)] Suc.prems(2) by fastforce
    then show ?thesis
      using Suc.IH [of "after_batch stores key"] sharded_delete_step [OF Suc.prems(1), of fuel key sz]
        placed_after_batch [OF Suc.prems(1)] False by (fastforce simp: after_batch_def)
  qed
qed simp

text \<open>
  Deleting by prefix over shards ends, but it only reaches the shard the prefix itself hashes to:
  an object with the prefix that lies in another shard is still readable afterwards.
\<close>

theorem sharded_delete_incomplete:
  assumes "placed stores" and "length (stores ! shard_of stores key) < fuel" and "shard_of stores k \<noteq> shard_of stores key"
  shows "\<exists>r stores'. sharded_DeleteObjectsByPrefix fuel stores key 0 = Some (r, stores') \<and>
    sharded_GetObject mem_GetObject stores' k off lim = sharded_GetObject mem_GetObject stores k off lim"
proof -
  obtain r stores' where "sharded_DeleteObjectsByPrefix fuel stores key 0 = Some (r, stores')"
    "length stores' = length stores" "stores' ! shard_of stores k = stores ! shard_of stores k"
    using sharded_delete_spec [OF assms(1,2), of 0] assms(3) by blast
  then show ?thesis by (auto simp: sharded_GetObject_def shard_of_def)
qed

lemma sample_shards:
  "shard_of [[], [(''s1_s0'', ob)]] ''s1_'' = 0" "shard_of [[], [(''s1_s0'', ob)]] ''s1_s0'' = 1"
  by (simp_all add: shard_of_def fnv32a_def)

theorem sharded_delete_incomplete_witness:
  "\<exists>r stores'. sharded_DeleteObjectsByPrefix 1 [[], [(''s1_s0'', \<lparr>moData = [1, 2], moTime = 0\<rparr>)]] ''s1_'' 0 = Some (r, stores')
    \<and> sharded_GetObject mem_GetObject stores' ''s1_s0'' 0 (-1) = Inr [1, 2]"
proof -
  let ?ss = "[[], [(''s1_s0'', \<lparr>moData = [1, 2], moTime = 0\<rparr>)]]"
  have "placed ?ss" using sample_shards by (auto simp: placed_def less_Suc_eq)
  moreover have "sharded_GetObject mem_GetObject ?ss ''s1_s0'' 0 (-1) = Inr [1, 2]"
    by (simp add: sharded_GetObject_def sample_shards mem_GetObject_def)
  moreover have "length (?ss ! shard_of ?ss ''s1_'') < 1" "shard_of ?ss ''s1_s0'' \<noteq> shard_of ?ss ''s1_''"
    by (simp_all add: sample_shards)
  ultimately show ?thesis
    using sharded_delete_incomplete [of ?ss "''s1_''" 1 "''s1_s0''" 0 "- 1"] by metis
qed

end
