(* ===== verification/SP_MetaDB.thy ===== *)
theory SP_MetaDB
  imports SP_Traffic SP_TaskTypes "HOL-Library.Product_Lexorder"
begin

text \<open>
  The tables of the metadata of objects: integrity hashes (\<^verbatim>\<open>src/store/sqldb/object_integrity.go\<close>), their
  shadow while an object is being updated (\<^verbatim>\<open>shadow_object_integrity.go\<close>), checksums of replicated
  pieces and the progress of uploads (\<^verbatim>\<open>upload_object.go\<close>), with the states of
  \<^verbatim>\<open>src/store/types/store.go\<close>.  Hashes are stored as hexadecimal text, lists of them separated by commas.
  The database is modelled as in the theory of bucket traffic; further documented behaviour used here:
  a deletion by a structure has all columns of its primary key in the condition, and the number of
  affected rows of an update counts the rows whose contents changed.
\<close>

subsection \<open>Hexadecimal text\<close>

definition hex_val :: "char \<Rightarrow> nat option" where
  "hex_val c = (let n = of_char c in
     if 48 \<le> n \<and> n \<le> 57 then Some (n - 48)
     else if 97 \<le> n \<and> n \<le> 102 then Some (n - 87)
     else if 65 \<le> n \<and> n \<le> 70 then Some (n - 55) else None)"

fun DecodeString :: "string \<Rightarrow> int list option" where
  "DecodeString [] = Some []"
| "DecodeString [c] = None"
| "DecodeString (a # b # s) =
     (case (hex_val a, hex_val b, DecodeString s) of
        (Some x, Some y, Some r) \<Rightarrow> Some (int (16 * x + y) # r) | _ \<Rightarrow> None)"

definition BytesSliceToString :: "int list list \<Rightarrow> string" where
  "BytesSliceToString bytes = JoinWithComma (map EncodeToString bytes)"

definition StringToBytesSlice :: "string \<Rightarrow> int list list option" where
  "StringToBytesSlice str = those (map DecodeString (SplitByComma str))"

text \<open>
  The slice the function returns beside an error: the texts before the first one that does not decode,
  the bytes of that one up to the fault, and nothing for the rest, with the length of the list.
\<close>

fun decoded_prefix :: "string \<Rightarrow> int list" where
  "decoded_prefix (a # b # s) =
     (case (hex_val a, hex_val b) of (Some x, Some y) \<Rightarrow> int (16 * x + y) # decoded_prefix s | _ \<Rightarrow> [])"
| "decoded_prefix _ = []"

fun decoded_slice :: "string list \<Rightarrow> int list list" where
  "decoded_slice [] = []"
| "decoded_slice (s # ss) =
     (case DecodeString s of Some b \<Rightarrow> b # decoded_slice ss | None \<Rightarrow> decoded_prefix s # map (\<lambda>_. []) ss)"

lemma decoded_slice_eq: "StringToBytesSlice str = Some l \<Longrightarrow> decoded_slice (SplitByComma str) = l"
proof -
  have "those (map DecodeString ss) = Some l \<Longrightarrow> decoded_slice ss = l" for ss
    by (induction ss arbitrary: l) (auto split: option.splits)
  then show "StringToBytesSlice str = Some l \<Longrightarrow> ?thesis" by (simp add: StringToBytesSlice_def)
qed

lemma length_decoded_slice [simp]: "length (decoded_slice ss) = length ss"
  by (induction ss) (auto split: option.splits)

subsection \<open>Rows by key\<close>

definition row_find :: "('r \<Rightarrow> 'k) \<Rightarrow> 'k \<Rightarrow> 'r list \<Rightarrow> 'r option" where
  "row_find key k rows = find (\<lambda>r. key r = k) rows"

definition row_map :: "('r \<Rightarrow> 'k) \<Rightarrow> 'k \<Rightarrow> ('r \<Rightarrow> 'r) \<Rightarrow> 'r list \<Rightarrow> 'r list" where
  "row_map key k f rows = map (\<lambda>r. if key r = k then f r else r) rows"

definition row_delete :: "('r \<Rightarrow> 'k) \<Rightarrow> 'k \<Rightarrow> 'r list \<Rightarrow> 'r list" where
  "row_delete key k rows = filter (\<lambda>r. key r \<noteq> k) rows"

subsection \<open>The tables\<close>

record IntegrityMetaTable =
  imtObjectID :: int
  imtRedundancyIndex :: int
  imtIntegrityChecksum :: string
  imtPieceChecksumList :: string
  imtObjectSize :: int

record ShadowIntegrityMetaTable =
  smtObjectID :: int
  smtRedundancyIndex :: int
  smtIntegrityChecksum :: string
  smtPieceChecksumList :: string
  smtVersion :: int
  smtObjectSize :: int

record PieceHashTable =
  phtObjectID :: int
  phtSegmentIndex :: int
  phtRedundancyIndex :: int
  phtPieceChecksum :: string
  phtVersion :: int

datatype TaskState =
    TASK_STATE_INIT_UNSPECIFIED | TASK_STATE_UPLOAD_OBJECT_DOING | TASK_STATE_UPLOAD_OBJECT_DONE
  | TASK_STATE_UPLOAD_OBJECT_ERROR | TASK_STATE_ALLOC_SECONDARY_DOING | TASK_STATE_ALLOC_SECONDARY_DONE
  | TASK_STATE_ALLOC_SECONDARY_ERROR | TASK_STATE_REPLICATE_OBJECT_DOING | TASK_STATE_REPLICATE_OBJECT_DONE
  | TASK_STATE_REPLICATE_OBJECT_ERROR | TASK_STATE_SIGN_OBJECT_DOING | TASK_STATE_SIGN_OBJECT_DONE
  | TASK_STATE_SIGN_OBJECT_ERROR | TASK_STATE_SEAL_OBJECT_DOING | TASK_STATE_SEAL_OBJECT_DONE
  | TASK_STATE_SEAL_OBJECT_ERROR | TASK_STATE_OBJECT_DISCONTINUED

fun TaskState_String :: "TaskState \<Rightarrow> string" where
  "TaskState_String TASK_STATE_INIT_UNSPECIFIED = ''TASK_STATE_INIT_UNSPECIFIED''"
| "TaskState_String TASK_STATE_UPLOAD_OBJECT_DOING = ''TASK_STATE_UPLOAD_OBJECT_DOING''"
| "TaskState_String TASK_STATE_UPLOAD_OBJECT_DONE = ''TASK_STATE_UPLOAD_OBJECT_DONE''"
| "TaskState_String TASK_STATE_UPLOAD_OBJECT_ERROR = ''TASK_STATE_UPLOAD_OBJECT_ERROR''"
| "TaskState_String TASK_STATE_ALLOC_SECONDARY_DOING = ''TASK_STATE_ALLOC_SECONDARY_DOING''"
| "TaskState_String TASK_STATE_ALLOC_SECONDARY_DONE = ''TASK_STATE_ALLOC_SECONDARY_DONE''"
| "TaskState_String TASK_STATE_ALLOC_SECONDARY_ERROR = ''TASK_STATE_ALLOC_SECONDARY_ERROR''"
| "TaskState_String TASK_STATE_REPLICATE_OBJECT_DOING = ''TASK_STATE_REPLICATE_OBJECT_DOING''"
| "TaskState_String TASK_STATE_REPLICATE_OBJECT_DONE = ''TASK_STATE_REPLICATE_OBJECT_DONE''"
| "TaskState_String TASK_STATE_REPLICATE_OBJECT_ERROR = ''TASK_STATE_REPLICATE_OBJECT_ERROR''"
| "TaskState_String TASK_STATE_SIGN_OBJECT_DOING = ''TASK_STATE_SIGN_OBJECT_DOING''"
| "TaskState_String TASK_STATE_SIGN_OBJECT_DONE = ''TASK_STATE_SIGN_OBJECT_DONE''"
| "TaskState_String TASK_STATE_SIGN_OBJECT_ERROR = ''TASK_STATE_SIGN_OBJECT_ERROR''"
| "TaskState_String TASK_STATE_SEAL_OBJECT_DOING = ''TASK_STATE_SEAL_OBJECT_DOING''"
| "TaskState_String TASK_STATE_SEAL_OBJECT_DONE = ''TASK_STATE_SEAL_OBJECT_DONE''"
| "TaskState_String TASK_STATE_SEAL_OBJECT_ERROR = ''TASK_STATE_SEAL_OBJECT_ERROR''"
| "TaskState_String TASK_STATE_OBJECT_DISCONTINUED = ''TASK_STATE_OBJECT_DISCONTINUED''"

definition CheckAllowUploadStatus :: "TaskState \<Rightarrow> bool" where
  "CheckAllowUploadStatus state \<longleftrightarrow> state \<notin> {TASK_STATE_UPLOAD_OBJECT_DONE, TASK_STATE_REPLICATE_OBJECT_DOING}"

datatype readableUploadProgressType =
    UploadProgressMetaCreated | UploadProgressDataUploading | UploadProgressDataReplicating | UploadProgressSealing
  | UploadProgressSealed | UploadProgressUploadToPrimaryFailed | UploadProgressAllocSecondaryFailed
  | UploadProgressReplicateSecondaryFailed | UploadProgressSignObjectFailed | UploadProgressSealObjectFailed
  | UploadProgressObjectDiscontinued

fun StateToProgressType :: "TaskState \<Rightarrow> readableUploadProgressType" where
  "StateToProgressType TASK_STATE_INIT_UNSPECIFIED = UploadProgressMetaCreated"
| "StateToProgressType TASK_STATE_UPLOAD_OBJECT_DOING = UploadProgressDataUploading"
| "StateToProgressType TASK_STATE_UPLOAD_OBJECT_DONE = UploadProgressDataReplicating"
| "StateToProgressType TASK_STATE_UPLOAD_OBJECT_ERROR = UploadProgressUploadToPrimaryFailed"
| "StateToProgressType TASK_STATE_ALLOC_SECONDARY_DOING = UploadProgressDataReplicating"
| "StateToProgressType TASK_STATE_ALLOC_SECONDARY_DONE = UploadProgressDataReplicating"
| "StateToProgressType TASK_STATE_ALLOC_SECONDARY_ERROR = UploadProgressAllocSecondaryFailed"
| "StateToProgressType TASK_STATE_REPLICATE_OBJECT_DOING = UploadProgressDataReplicating"
| "StateToProgressType TASK_STATE_REPLICATE_OBJECT_DONE = UploadProgressDataReplicating"
| "StateToProgressType TASK_STATE_REPLICATE_OBJECT_ERROR = UploadProgressReplicateSecondaryFailed"
| "StateToProgressType TASK_STATE_SIGN_OBJECT_DOING = UploadProgressSealing"
| "StateToProgressType TASK_STATE_SIGN_OBJECT_DONE = UploadProgressSealing"
| "StateToProgressType TASK_STATE_SIGN_OBJECT_ERROR = UploadProgressSignObjectFailed"
| "StateToProgressType TASK_STATE_SEAL_OBJECT_DOING = UploadProgressSealing"
| "StateToProgressType TASK_STATE_SEAL_OBJECT_DONE = UploadProgressSealed"
| "StateToProgressType TASK_STATE_SEAL_OBJECT_ERROR = UploadProgressSealObjectFailed"
| "StateToProgressType TASK_STATE_OBJECT_DISCONTINUED = UploadProgressObjectDiscontinued"

record UploadObjectProgressTable =
  upObjectID :: int
  upTaskState :: TaskState
  upGlobalVirtualGroupID :: int
  upTaskStateDescription :: string
  upErrorDescription :: string
  upSecondaryEndpoints :: string
  upSecondarySignatures :: string
  upCreateTimestampSecond :: int
  upUpdateTimestampSecond :: int
  upIsAgentUpload :: bool

record metadb =
  integrity_metas :: "IntegrityMetaTable list"
  shadow_metas :: "ShadowIntegrityMetaTable list"
  piece_hashes :: "PieceHashTable list"
  upload_progress :: "UploadObjectProgressTable list"

record IntegrityMeta =
  imObjectID :: int
  imRedundancyIndex :: int
  imIntegrityChecksum :: "int list"
  imPieceChecksumList :: "int list list"
  imObjectSize :: int

record ShadowIntegrityMeta =
  smObjectID :: int
  smRedundancyIndex :: int
  smIntegrityChecksum :: "int list"
  smPieceChecksumList :: "int list list"
  smVersion :: int
  smObjectSize :: int

record UploadObjectMeta =
  umObjectID :: int
  umTaskState :: TaskState
  umGlobalVirtualGroupID :: int
  umSecondaryEndpoints :: "string list"
  umSecondarySignatures :: "int list list"
  umErrorDescription :: string
  umCreateTimeStampSecond :: int
  umIsAgentUpload :: bool

definition imt_key :: "IntegrityMetaTable \<Rightarrow> int \<times> int" where
  "imt_key r = (imtObjectID r, imtRedundancyIndex r)"

definition smt_key :: "ShadowIntegrityMetaTable \<Rightarrow> int \<times> int" where
  "smt_key r = (smtObjectID r, smtRedundancyIndex r)"

definition pht_key :: "PieceHashTable \<Rightarrow> int \<times> int \<times> int" where
  "pht_key r = (phtObjectID r, phtSegmentIndex r, phtRedundancyIndex r)"

text \<open>An update from a structure skips the empty string, as it skips zero.\<close>

definition upd_str :: "string \<Rightarrow> string \<Rightarrow> string" where
  "upd_str new old = (if new = [] then old else new)"

subsection \<open>Integrity hashes\<close>

text \<open>The number of the table a row is in; each holds five million consecutive objects.\<close>

definition GetIntegrityMetasShardNumberByBucketName :: "int \<Rightarrow> int" where
  "GetIntegrityMetasShardNumberByBucketName objectID = objectID div 5000000 mod 64"

definition GetObjectIntegrity :: "faults \<Rightarrow> metadb \<Rightarrow> int \<Rightarrow> int \<Rightarrow> db_error + IntegrityMeta" where
  "GetObjectIntegrity fails db objectID redundancyIndex =
     (if fails 0 then Inl ErrDatabase
      else case row_find imt_key (objectID, redundancyIndex) (integrity_metas db) of
        None \<Rightarrow> Inl ErrRecordNotFound
      | Some q \<Rightarrow>
          (case (DecodeString (imtIntegrityChecksum q), StringToBytesSlice (imtPieceChecksumList q)) of
             (Some c, Some l) \<Rightarrow> Inr \<lparr>imObjectID = imtObjectID q, imRedundancyIndex = imtRedundancyIndex q,
                 imIntegrityChecksum = c, imPieceChecksumList = l, imObjectSize = imtObjectSize q\<rparr>
           | _ \<Rightarrow> Inl ErrDecode))"

text \<open>A row that exists is kept and reported as success.\<close>

definition SetObjectIntegrity :: "faults \<Rightarrow> IntegrityMeta \<Rightarrow> metadb \<Rightarrow> db_error option \<times> metadb" where
  "SetObjectIntegrity fails meta db =
     (if fails 0 then (Some ErrDatabase, db)
      else if row_find imt_key (imObjectID meta, imRedundancyIndex meta) (integrity_metas db) \<noteq> None then (None, db)
      else (None, db\<lparr>integrity_metas := integrity_metas db @
             [\<lparr>imtObjectID = imObjectID meta, imtRedundancyIndex = imRedundancyIndex meta,
               imtIntegrityChecksum = EncodeToString (imIntegrityChecksum meta),
               imtPieceChecksumList = BytesSliceToString (imPieceChecksumList meta), imtObjectSize = imObjectSize meta\<rparr>]\<rparr>))"

definition UpdateIntegrityChecksum :: "faults \<Rightarrow> IntegrityMeta \<Rightarrow> metadb \<Rightarrow> db_error option \<times> metadb" where
  "UpdateIntegrityChecksum fails meta db =
     (if fails 0 then (Some ErrDatabase, db)
      else (None, db\<lparr>integrity_metas := row_map imt_key (imObjectID meta, imRedundancyIndex meta)
             (\<lambda>r. r\<lparr>imtIntegrityChecksum := upd_str (EncodeToString (imIntegrityChecksum meta)) (imtIntegrityChecksum r)\<rparr>)
             (integrity_metas db)\<rparr>))"

definition UpdateIntegrityMeta :: "faults \<Rightarrow> IntegrityMeta \<Rightarrow> metadb \<Rightarrow> db_error option \<times> metadb" where
  "UpdateIntegrityMeta fails meta db =
     (if fails 0 then (Some ErrDatabase, db)
      else (None, db\<lparr>integrity_metas := row_map imt_key (imObjectID meta, imRedundancyIndex meta)
             (\<lambda>r. r\<lparr>imtIntegrityChecksum := upd_str (EncodeToString (imIntegrityChecksum meta)) (imtIntegrityChecksum r),
                    imtPieceChecksumList := upd_str (BytesSliceToString (imPieceChecksumList meta)) (imtPieceChecksumList r)\<rparr>)
             (integrity_metas db)\<rparr>))"

text \<open>
  The largest index stands for all rows of the object; the structure then leaves the index at zero,
  which is in the condition of the deletion.
\<close>

definition DeleteObjectIntegrity :: "faults \<Rightarrow> int \<Rightarrow> int \<Rightarrow> metadb \<Rightarrow> db_error option \<times> metadb" where
  "DeleteObjectIntegrity fails objectID redundancyIndex db =
     (let r = (if redundancyIndex = MaxInt32 then 0 else redundancyIndex) in
      if fails 0 then (Some ErrDatabase, db)
      else if objectID = 0 \<and> r = 0 then (Some ErrMissingWhereClause, db)
      else (None, db\<lparr>integrity_metas := row_delete imt_key (objectID, r) (integrity_metas db)\<rparr>))"

definition list_meta :: "IntegrityMetaTable \<Rightarrow> IntegrityMeta" where
  "list_meta q = \<lparr>imObjectID = imtObjectID q, imRedundancyIndex = imtRedundancyIndex q,
     imIntegrityChecksum = map (\<lambda>c. int (of_char c)) (imtIntegrityChecksum q),
     imPieceChecksumList = decoded_slice (SplitByComma (imtPieceChecksumList q)), imObjectSize = 0\<rparr>"

definition shard_metas :: "metadb \<Rightarrow> int \<Rightarrow> int \<Rightarrow> int \<Rightarrow> IntegrityMetaTable list" where
  "shard_metas db startID endID i =
     take 1000 (sort_key imt_key (filter (\<lambda>q. GetIntegrityMetasShardNumberByBucketName (imtObjectID q) = i
       \<and> startID \<le> imtObjectID q \<and> imtObjectID q < endID) (integrity_metas db)))"

text \<open>
  The shards are read into one variable: a query that fails leaves it as it was, and the rows of the
  shard before are added a second time. The error is that of the last text parsed, or, without rows,
  that of the last shard; a fault before is forgotten.
\<close>

fun list_shards :: "faults \<Rightarrow> metadb \<Rightarrow> int \<Rightarrow> int \<Rightarrow> IntegrityMetaTable list \<Rightarrow> nat list \<Rightarrow> IntegrityMetaTable list" where
  "list_shards fails db startID endID rows [] = []"
| "list_shards fails db startID endID rows (i # is) =
     (let rows1 = (if fails i then rows else shard_metas db startID endID (int i))
      in rows1 @ list_shards fails db startID endID rows1 is)"

definition list_error :: "faults \<Rightarrow> IntegrityMetaTable list \<Rightarrow> db_error option" where
  "list_error fails rows =
     (if rows = [] then if fails 63 then Some ErrDatabase else None
      else if StringToBytesSlice (imtPieceChecksumList (last rows)) = None then Some ErrDecode else None)"

definition ListIntegrityMetaByObjectIDRange ::
  "faults \<Rightarrow> metadb \<Rightarrow> int \<Rightarrow> int \<Rightarrow> bool \<Rightarrow> IntegrityMeta list \<times> db_error option" where
  "ListIntegrityMetaByObjectIDRange fails db startID endID includePrivate =
     (if \<not> includePrivate then ([], None)
      else let rows = take 1000 (list_shards fails db startID endID [] [0..<64])
           in (sort_key (\<lambda>m. (imObjectID m, imRedundancyIndex m)) (map list_meta rows), list_error fails rows))"

definition UpdatePieceChecksum :: "faults \<Rightarrow> int \<Rightarrow> int \<Rightarrow> int list \<Rightarrow> int \<Rightarrow> metadb \<Rightarrow> db_error option \<times> metadb" where
  "UpdatePieceChecksum fails objectID redundancyIndex checksum dataLength db =
     (case GetObjectIntegrity fails db objectID redundancyIndex of
        Inl ErrRecordNotFound \<Rightarrow>
          SetObjectIntegrity (\<lambda>n. fails (Suc n)) \<lparr>imObjectID = objectID, imRedundancyIndex = redundancyIndex,
            imIntegrityChecksum = [], imPieceChecksumList = [checksum], imObjectSize = dataLength\<rparr> db
      | Inl e \<Rightarrow> (Some e, db)
      | Inr meta \<Rightarrow>
          if fails 1 then (Some ErrDatabase, db)
          else (None, db\<lparr>integrity_metas := row_map imt_key (objectID, redundancyIndex)
             (\<lambda>r. r\<lparr>imtPieceChecksumList := upd_str (BytesSliceToString (imPieceChecksumList meta @ [checksum])) (imtPieceChecksumList r),
                    imtObjectSize := upd_nz (u64 (imObjectSize meta + dataLength)) (imtObjectSize r)\<rparr>)
             (integrity_metas db)\<rparr>))"

subsection \<open>Integrity hashes of objects being updated\<close>

definition GetShadowObjectIntegrity :: "faults \<Rightarrow> metadb \<Rightarrow> int \<Rightarrow> int \<Rightarrow> db_error + ShadowIntegrityMeta" where
  "GetShadowObjectIntegrity fails db objectID redundancyIndex =
     (if fails 0 then Inl ErrDatabase
      else case row_find smt_key (objectID, redundancyIndex) (shadow_metas db) of
        None \<Rightarrow> Inl ErrRecordNotFound
      | Some q \<Rightarrow>
          (case (DecodeString (smtIntegrityChecksum q), StringToBytesSlice (smtPieceChecksumList q)) of
             (Some c, Some l) \<Rightarrow> Inr \<lparr>smObjectID = smtObjectID q, smRedundancyIndex = smtRedundancyIndex q,
                 smIntegrityChecksum = c, smPieceChecksumList = l, smVersion = smtVersion q, smObjectSize = smtObjectSize q\<rparr>
           | _ \<Rightarrow> Inl ErrDecode))"

definition SetShadowObjectIntegrity :: "faults \<Rightarrow> ShadowIntegrityMeta \<Rightarrow> metadb \<Rightarrow> db_error option \<times> metadb" where
  "SetShadowObjectIntegrity fails meta db =
     (if fails 0 then (Some ErrDatabase, db)
      else if row_find smt_key (smObjectID meta, smRedundancyIndex meta) (shadow_metas db) \<noteq> None then (None, db)
      else (None, db\<lparr>shadow_metas := shadow_metas db @
             [\<lparr>smtObjectID = smObjectID meta, smtRedundancyIndex = smRedundancyIndex meta,
               smtIntegrityChecksum = EncodeToString (smIntegrityChecksum meta),
               smtPieceChecksumList = BytesSliceToString (smPieceChecksumList meta), smtVersion = smVersion meta,
               smtObjectSize = smObjectSize meta\<rparr>]\<rparr>))"

definition UpdateShadowIntegrityChecksum :: "faults \<Rightarrow> ShadowIntegrityMeta \<Rightarrow> metadb \<Rightarrow> db_error option \<times> metadb" where
  "UpdateShadowIntegrityChecksum fails meta db =
     (if fails 0 then (Some ErrDatabase, db)
      else (None, db\<lparr>shadow_metas := row_map smt_key (smObjectID meta, smRedundancyIndex meta)
             (\<lambda>r. r\<lparr>smtIntegrityChecksum := upd_str (EncodeToString (smIntegrityChecksum meta)) (smtIntegrityChecksum r)\<rparr>)
             (shadow_metas db)\<rparr>))"

definition DeleteShadowObjectIntegrity :: "faults \<Rightarrow> int \<Rightarrow> int \<Rightarrow> metadb \<Rightarrow> db_error option \<times> metadb" where
  "DeleteShadowObjectIntegrity fails objectID redundancyIndex db =
     (if fails 0 then (Some ErrDatabase, db)
      else if objectID = 0 \<and> redundancyIndex = 0 then (Some ErrMissingWhereClause, db)
      else (None, db\<lparr>shadow_metas := row_delete smt_key (objectID, redundancyIndex) (shadow_metas db)\<rparr>))"

definition UpdateShadowPieceChecksum ::
  "faults \<Rightarrow> int \<Rightarrow> int \<Rightarrow> int list \<Rightarrow> int \<Rightarrow> int \<Rightarrow> metadb \<Rightarrow> db_error option \<times> metadb" where
  "UpdateShadowPieceChecksum fails objectID redundancyIndex checksum version dataLength db =
     (case GetShadowObjectIntegrity fails db objectID redundancyIndex of
        Inl ErrRecordNotFound \<Rightarrow>
          SetShadowObjectIntegrity (\<lambda>n. fails (Suc n)) \<lparr>smObjectID = objectID, smRedundancyIndex = redundancyIndex,
            smIntegrityChecksum = [], smPieceChecksumList = [checksum], smVersion = version, smObjectSize = dataLength\<rparr> db
      | Inl e \<Rightarrow> (Some e, db)
      | Inr meta \<Rightarrow>
          if fails 1 then (Some ErrDatabase, db)
          else (None, db\<lparr>shadow_metas := row_map smt_key (objectID, redundancyIndex)
             (\<lambda>r. r\<lparr>smtPieceChecksumList := upd_str (BytesSliceToString (smPieceChecksumList meta @ [checksum])) (smtPieceChecksumList r),
                    smtObjectSize := upd_nz (u64 (smObjectSize meta + dataLength)) (smtObjectSize r)\<rparr>)
             (shadow_metas db)\<rparr>))"

text \<open>At most five rows, those with the largest objects first; the order of equal objects is that of the table.\<close>

definition ListShadowIntegrityMeta :: "faults \<Rightarrow> metadb \<Rightarrow> db_error + ShadowIntegrityMeta list" where
  "ListShadowIntegrityMeta fails db =
     (if fails 0 then Inl ErrDatabase
      else case those (map (\<lambda>q. case (DecodeString (smtIntegrityChecksum q), StringToBytesSlice (smtPieceChecksumList q)) of
              (Some c, Some l) \<Rightarrow> Some \<lparr>smObjectID = smtObjectID q, smRedundancyIndex = smtRedundancyIndex q,
                 smIntegrityChecksum = c, smPieceChecksumList = l, smVersion = smtVersion q, smObjectSize = smtObjectSize q\<rparr>
            | _ \<Rightarrow> None) (take 5 (sort_key (\<lambda>q. - smtObjectID q) (shadow_metas db)))) of
             None \<Rightarrow> Inl ErrDecode
           | Some l \<Rightarrow> Inr l)"

subsection \<open>Checksums of replicated pieces\<close>

definition GetReplicatePieceChecksum :: "faults \<Rightarrow> metadb \<Rightarrow> int \<Rightarrow> int \<Rightarrow> int \<Rightarrow> db_error + int list" where
  "GetReplicatePieceChecksum fails db objectID segmentIdx redundancyIdx =
     (if fails 0 then Inl ErrDatabase
      else case row_find pht_key (objectID, segmentIdx, redundancyIdx) (piece_hashes db) of
        None \<Rightarrow> Inl ErrRecordNotFound
      | Some q \<Rightarrow> (case DecodeString (phtPieceChecksum q) of None \<Rightarrow> Inl ErrDecode | Some c \<Rightarrow> Inr c))"

definition SetReplicatePieceChecksum :: "faults \<Rightarrow> int \<Rightarrow> int \<Rightarrow> int \<Rightarrow> int list \<Rightarrow> int \<Rightarrow> metadb \<Rightarrow> db_error option \<times> metadb" where
  "SetReplicatePieceChecksum fails objectID segmentIdx redundancyIdx checksum version db =
     (let row = \<lparr>phtObjectID = objectID, phtSegmentIndex = segmentIdx, phtRedundancyIndex = redundancyIdx,
                 phtPieceChecksum = EncodeToString checksum, phtVersion = version\<rparr>
      in if fails 0 then (Some ErrDatabase, db)
         else if row_find pht_key (pht_key row) (piece_hashes db) \<noteq> None
         then (None, db\<lparr>piece_hashes := row_map pht_key (pht_key row) (\<lambda>_. row) (piece_hashes db)\<rparr>)
         else (None, db\<lparr>piece_hashes := piece_hashes db @ [row]\<rparr>))"

definition DeleteReplicatePieceChecksum :: "faults \<Rightarrow> int \<Rightarrow> int \<Rightarrow> int \<Rightarrow> metadb \<Rightarrow> db_error option \<times> metadb" where
  "DeleteReplicatePieceChecksum fails objectID segmentIdx redundancyIdx db =
     (if fails 0 then (Some ErrDatabase, db)
      else (None, db\<lparr>piece_hashes := row_delete pht_key (objectID, segmentIdx, redundancyIdx) (piece_hashes db)\<rparr>))"

text \<open>The loop over the segments from \<open>segmentIdx\<close>; the argument counts what is left.\<close>

fun get_checksums :: "faults \<Rightarrow> metadb \<Rightarrow> int \<Rightarrow> int \<Rightarrow> int \<Rightarrow> nat \<Rightarrow> db_error + int list list" where
  "get_checksums fails db objectID redundancyIdx segmentIdx 0 = Inr []"
| "get_checksums fails db objectID redundancyIdx segmentIdx (Suc left) =
     (case GetReplicatePieceChecksum (\<lambda>_. fails (nat segmentIdx)) db objectID segmentIdx redundancyIdx of
        Inl e \<Rightarrow> Inl e
      | Inr c \<Rightarrow> (case get_checksums fails db objectID redundancyIdx (segmentIdx + 1) left of
                   Inl e \<Rightarrow> Inl e | Inr cs \<Rightarrow> Inr (c # cs)))"

definition GetAllReplicatePieceChecksum :: "faults \<Rightarrow> metadb \<Rightarrow> int \<Rightarrow> int \<Rightarrow> int \<Rightarrow> db_error + int list list" where
  "GetAllReplicatePieceChecksum fails db objectID redundancyIdx pieceCount =
     get_checksums fails db objectID redundancyIdx 0 (nat pieceCount)"

text \<open>The rows come in the order of the primary key, which the engine of the table uses.\<close>

definition GetAllReplicatePieceChecksumOptimized :: "faults \<Rightarrow> metadb \<Rightarrow> int \<Rightarrow> int \<Rightarrow> int \<Rightarrow> db_error + int list list" where
  "GetAllReplicatePieceChecksumOptimized fails db objectID redundancyIdx pieceCount =
     (if fails 0 then Inl ErrDatabase
      else case those (map (\<lambda>q. DecodeString (phtPieceChecksum q)) (take (nat pieceCount) (sort_key pht_key
             (filter (\<lambda>q. phtObjectID q = objectID \<and> phtRedundancyIndex q = redundancyIdx) (piece_hashes db))))) of
             None \<Rightarrow> Inl ErrDecode
           | Some cs \<Rightarrow> Inr cs)"

fun DeleteAllReplicatePieceChecksum :: "faults \<Rightarrow> int \<Rightarrow> int \<Rightarrow> nat \<Rightarrow> metadb \<Rightarrow> db_error option \<times> metadb" where
  "DeleteAllReplicatePieceChecksum fails objectID redundancyIdx 0 db = (None, db)"
| "DeleteAllReplicatePieceChecksum fails objectID redundancyIdx (Suc n) db =
     (case DeleteAllReplicatePieceChecksum fails objectID redundancyIdx n db of
        (Some e, db1) \<Rightarrow> (Some e, db1)
      | (None, db1) \<Rightarrow> DeleteReplicatePieceChecksum (\<lambda>_. fails n) objectID (int n) redundancyIdx db1)"

definition DeleteAllReplicatePieceChecksumOptimized :: "faults \<Rightarrow> int \<Rightarrow> int \<Rightarrow> metadb \<Rightarrow> db_error option \<times> metadb" where
  "DeleteAllReplicatePieceChecksumOptimized fails objectID redundancyIdx db =
     (if fails 0 then (Some ErrDatabase, db)
      else (None, db\<lparr>piece_hashes := filter (\<lambda>q. \<not> (phtObjectID q = objectID \<and> phtRedundancyIndex q = redundancyIdx))
             (piece_hashes db)\<rparr>))"

definition DeleteReplicatePieceChecksumsByObjectID :: "faults \<Rightarrow> int \<Rightarrow> metadb \<Rightarrow> db_error option \<times> metadb" where
  "DeleteReplicatePieceChecksumsByObjectID fails objectID db =
     (if fails 0 then (Some ErrDatabase, db)
      else (None, db\<lparr>piece_hashes := filter (\<lambda>q. phtObjectID q \<noteq> objectID) (piece_hashes db)\<rparr>))"

definition ListReplicatePieceChecksumByObjectIDRange :: "faults \<Rightarrow> metadb \<Rightarrow> int \<Rightarrow> int \<Rightarrow> db_error + PieceHashTable list" where
  "ListReplicatePieceChecksumByObjectIDRange fails db startID endID =
     (if fails 0 then Inl ErrDatabase
      else Inr (take 1000 (sort_key pht_key
             (filter (\<lambda>q. startID \<le> phtObjectID q \<and> phtObjectID q \<le> endID) (piece_hashes db)))))"

subsection \<open>Progress of uploads\<close>

definition InsertUploadProgress :: "faults \<Rightarrow> int \<Rightarrow> int \<Rightarrow> bool \<Rightarrow> metadb \<Rightarrow> db_error option \<times> metadb" where
  "InsertUploadProgress fails now objectID isAgentUpload db =
     (if fails 0 then (Some ErrDatabase, db)
      else if row_find upObjectID objectID (upload_progress db) \<noteq> None then (Some ErrDuplicate, db)
      else (None, db\<lparr>upload_progress := upload_progress db @
             [\<lparr>upObjectID = objectID, upTaskState = TASK_STATE_INIT_UNSPECIFIED, upGlobalVirtualGroupID = 0,
               upTaskStateDescription = TaskState_String TASK_STATE_INIT_UNSPECIFIED,
               upErrorDescription = [], upSecondaryEndpoints = [], upSecondarySignatures = [],
               upCreateTimestampSecond = now, upUpdateTimestampSecond = now, upIsAgentUpload = isAgentUpload\<rparr>]\<rparr>))"

definition DeleteUploadProgress :: "faults \<Rightarrow> int \<Rightarrow> metadb \<Rightarrow> db_error option \<times> metadb" where
  "DeleteUploadProgress fails objectID db =
     (if fails 0 then (Some ErrDatabase, db)
      else if objectID = 0 then (Some ErrMissingWhereClause, db)
      else (None, db\<lparr>upload_progress := row_delete upObjectID objectID (upload_progress db)\<rparr>))"

definition upd_state :: "TaskState \<Rightarrow> TaskState \<Rightarrow> TaskState" where
  "upd_state new old = (if new = TASK_STATE_INIT_UNSPECIFIED then old else new)"

definition progress_update :: "int \<Rightarrow> UploadObjectMeta \<Rightarrow> UploadObjectProgressTable \<Rightarrow> UploadObjectProgressTable" where
  "progress_update now m r =
     (let r1 = r\<lparr>upTaskState := upd_state (umTaskState m) (upTaskState r),
                 upTaskStateDescription := TaskState_String (umTaskState m),
                 upErrorDescription := upd_str (umErrorDescription m) (upErrorDescription r),
                 upUpdateTimestampSecond := upd_nz now (upUpdateTimestampSecond r)\<rparr>
      in if umSecondaryEndpoints m \<noteq> []
         then r1\<lparr>upGlobalVirtualGroupID := upd_nz (umGlobalVirtualGroupID m) (upGlobalVirtualGroupID r),
                 upSecondaryEndpoints := upd_str (JoinWithComma (umSecondaryEndpoints m)) (upSecondaryEndpoints r),
                 upSecondarySignatures := upd_str (BytesSliceToString (umSecondarySignatures m)) (upSecondarySignatures r)\<rparr>
         else r1)"

text \<open>An update that changes no row is reported as an error.\<close>

definition UpdateUploadProgress :: "faults \<Rightarrow> int \<Rightarrow> UploadObjectMeta \<Rightarrow> metadb \<Rightarrow> db_error option \<times> metadb" where
  "UpdateUploadProgress fails now m db =
     (if fails 0 then (Some ErrDatabase, db)
      else case row_find upObjectID (umObjectID m) (upload_progress db) of
        None \<Rightarrow> (Some ErrDatabase, db)
      | Some r \<Rightarrow>
          if progress_update now m r = r then (Some ErrDatabase, db)
          else (None, db\<lparr>upload_progress := row_map upObjectID (umObjectID m) (progress_update now m) (upload_progress db)\<rparr>))"

definition GetUploadState :: "faults \<Rightarrow> metadb \<Rightarrow> int \<Rightarrow> db_error + (TaskState \<times> string)" where
  "GetUploadState fails db objectID =
     (if fails 0 then Inl ErrDatabase
      else case row_find upObjectID objectID (upload_progress db) of
        None \<Rightarrow> Inl ErrDatabase
      | Some r \<Rightarrow> Inr (upTaskState r, upErrorDescription r))"

definition empty_meta :: "int \<Rightarrow> UploadObjectMeta" where
  "empty_meta objectID = \<lparr>umObjectID = objectID, umTaskState = TASK_STATE_INIT_UNSPECIFIED, umGlobalVirtualGroupID = 0,
     umSecondaryEndpoints = [], umSecondarySignatures = [], umErrorDescription = [], umCreateTimeStampSecond = 0,
     umIsAgentUpload = False\<rparr>"

definition GetUploadMetasToReplicate :: "faults \<Rightarrow> int \<Rightarrow> nat \<Rightarrow> int \<Rightarrow> metadb \<Rightarrow> db_error + UploadObjectMeta list" where
  "GetUploadMetasToReplicate fails now limit timeoutSecond db =
     (if fails 0 then Inl ErrDatabase
      else Inr (map (\<lambda>u. empty_meta (upObjectID u))
        (takeWhile (\<lambda>u. \<not> now - timeoutSecond > upUpdateTimestampSecond u) (take limit
          (sort_key (\<lambda>u. - upUpdateTimestampSecond u) (filter (\<lambda>u. upTaskState u \<in>
             {TASK_STATE_UPLOAD_OBJECT_DONE, TASK_STATE_REPLICATE_OBJECT_DOING}) (upload_progress db)))))))"

definition full_meta :: "bool \<Rightarrow> bool \<Rightarrow> UploadObjectProgressTable \<Rightarrow> UploadObjectMeta option" where
  "full_meta with_time with_agent u = map_option (\<lambda>sigs. (empty_meta (upObjectID u))\<lparr>
     umGlobalVirtualGroupID := upGlobalVirtualGroupID u, umSecondaryEndpoints := SplitByComma (upSecondaryEndpoints u),
     umSecondarySignatures := sigs, umCreateTimeStampSecond := (if with_time then upCreateTimestampSecond u else 0),
     umIsAgentUpload := with_agent \<and> upIsAgentUpload u\<rparr>) (StringToBytesSlice (upSecondarySignatures u))"

definition GetUploadMetasToSeal :: "faults \<Rightarrow> int \<Rightarrow> nat \<Rightarrow> int \<Rightarrow> metadb \<Rightarrow> db_error + UploadObjectMeta list" where
  "GetUploadMetasToSeal fails now limit timeoutSecond db =
     (if fails 0 then Inl ErrDatabase
      else case those (map (full_meta False True)
        (takeWhile (\<lambda>u. \<not> now - timeoutSecond > upUpdateTimestampSecond u) (take limit
          (sort_key (\<lambda>u. - upUpdateTimestampSecond u) (filter (\<lambda>u. upTaskState u \<in>
             {TASK_STATE_REPLICATE_OBJECT_DONE, TASK_STATE_SEAL_OBJECT_DOING}) (upload_progress db)))))) of
        None \<Rightarrow> Inl ErrDecode
      | Some ms \<Rightarrow> Inr ms)"

definition by_start :: "bool \<Rightarrow> TaskState set \<Rightarrow> faults \<Rightarrow> nat \<Rightarrow> int \<Rightarrow> metadb \<Rightarrow> db_error + UploadObjectMeta list" where
  "by_start with_agent states fails limit startTS db =
     (if fails 0 then Inl ErrDatabase
      else case those (map (full_meta True with_agent) (take limit (sort_key upCreateTimestampSecond
             (filter (\<lambda>u. upTaskState u \<in> states \<and> upCreateTimestampSecond u > startTS) (upload_progress db))))) of
        None \<Rightarrow> Inl ErrDecode
      | Some ms \<Rightarrow> Inr ms)"

definition GetUploadMetasToReplicateByStartTS :: "faults \<Rightarrow> nat \<Rightarrow> int \<Rightarrow> metadb \<Rightarrow> db_error + UploadObjectMeta list" where
  "GetUploadMetasToReplicateByStartTS =
     by_start True {TASK_STATE_UPLOAD_OBJECT_DONE, TASK_STATE_REPLICATE_OBJECT_DOING, TASK_STATE_REPLICATE_OBJECT_ERROR}"

definition GetUploadMetasToSealByStartTS :: "faults \<Rightarrow> nat \<Rightarrow> int \<Rightarrow> metadb \<Rightarrow> db_error + UploadObjectMeta list" where
  "GetUploadMetasToSealByStartTS =
     by_start False {TASK_STATE_REPLICATE_OBJECT_DONE, TASK_STATE_SEAL_OBJECT_DOING, TASK_STATE_SEAL_OBJECT_ERROR}"

definition GetUploadMetasToRejectUnsealByRangeTS :: "faults \<Rightarrow> nat \<Rightarrow> int \<Rightarrow> int \<Rightarrow> metadb \<Rightarrow> db_error + UploadObjectMeta list" where
  "GetUploadMetasToRejectUnsealByRangeTS fails limit startTS endTS db =
     (if fails 0 then Inl ErrDatabase
      else Inr (map (\<lambda>u. (empty_meta (upObjectID u))\<lparr>umCreateTimeStampSecond := upCreateTimestampSecond u\<rparr>)
        (take limit (sort_key upCreateTimestampSecond
          (filter (\<lambda>u. startTS < upCreateTimestampSecond u \<and> upCreateTimestampSecond u \<le> endTS) (upload_progress db))))))"

end
