(* ===== verification/SP_MetaDBProps.thy ===== *)
theory SP_MetaDBProps
  imports SP_MetaDB
begin

text \<open>
  Properties of the tables of the metadata: hashes survive their textual form, the first integrity
  record of an object wins, and the single query for the checksums of a replicated object agrees with
  the loop over its segments.
\<close>

subsection \<open>Hexadecimal text\<close>

lemma hex_val_digit: "d < 16 \<Longrightarrow> hex_val (hex_digit d) = Some d"
  by (auto simp: hex_val_def hex_digit_def Let_def)

lemma decode_byte: "is_u8 b \<Longrightarrow> int (16 * nat (b div 16) + nat (b mod 16)) = b"
  by (simp add: is_u8_def)

lemma hex_roundtrip: "\<forall>b \<in> set bs. is_u8 b \<Longrightarrow> DecodeString (EncodeToString bs) = Some bs"
proof (induction bs)
  case (Cons b bs)
  then have b: "is_u8 b" by simp
  then have "nat (b div 16) < 16" "nat (b mod 16) < 16" by (auto simp: is_u8_def)
  then show ?case using Cons decode_byte [OF b] by (simp add: EncodeToString_def hex_val_digit)
qed (simp add: EncodeToString_def)

lemma hex_digit_plain: "d < 16 \<Longrightarrow> \<not> is_space (hex_digit d) \<and> hex_digit d \<noteq> CHR '',''"
proof -
  assume d: "d < 16"
  have "(of_char (hex_digit d) :: nat) \<ge> 48" using d by (auto simp: hex_digit_def)
  then have "hex_digit d \<notin> {CHR '' '', CHR 0x09, CHR 0x0A, CHR 0x0B, CHR 0x0C, CHR 0x0D, CHR '',''}" by auto
  then show ?thesis by (auto simp: is_space_def)
qed

lemma hex_plain:
  assumes "\<forall>b \<in> set bs. is_u8 b"
  shows "\<forall>c \<in> set (EncodeToString bs). \<not> is_space c \<and> c \<noteq> CHR '',''"
proof
  fix c assume "c \<in> set (EncodeToString bs)"
  then obtain b where b: "b \<in> set bs" "c \<in> {hex_digit (nat (b div 16)), hex_digit (nat (b mod 16))}"
    by (auto simp: EncodeToString_def)
  moreover from b assms have "nat (b div 16) < 16" "nat (b mod 16) < 16" by (auto simp: is_u8_def)
  ultimately show "\<not> is_space c \<and> c \<noteq> CHR '',''" using hex_digit_plain by auto
qed

definition bytes :: "int list \<Rightarrow> bool" where
  "bytes bs \<longleftrightarrow> (\<forall>b \<in> set bs. is_u8 b)"

definition hashes :: "int list list \<Rightarrow> bool" where
  "hashes hs \<longleftrightarrow> (\<forall>h \<in> set hs. h \<noteq> [] \<and> bytes h)"

lemma those_map_Some: "\<forall>x \<in> set xs. f (g x) = Some x \<Longrightarrow> those (map f (map g xs)) = Some xs"
  by (induction xs) auto

lemma slice_roundtrip:
  assumes "hashes hs"
  shows "StringToBytesSlice (BytesSliceToString hs) = Some hs"
proof -
  have "x \<noteq> [] \<and> (\<forall>c \<in> set x. \<not> is_space c \<and> c \<noteq> CHR '','')" if x: "x \<in> set (map EncodeToString hs)" for x
  proof -
    from x obtain h where h: "x = EncodeToString h" "h \<noteq> []" "\<forall>b \<in> set h. is_u8 b" using assms by (auto simp: hashes_def bytes_def)
    then have "x \<noteq> []" by (cases h) (auto simp: EncodeToString_def)
    then show ?thesis using hex_plain h by blast
  qed
  then have "SplitByComma (BytesSliceToString hs) = map EncodeToString hs"
    by (simp add: BytesSliceToString_def SplitByComma_join)
  then show ?thesis
    using assms unfolding StringToBytesSlice_def by (simp only:) (intro those_map_Some, auto simp: hashes_def bytes_def hex_roundtrip)
qed

subsection \<open>Integrity records\<close>

abbreviation no_faults :: faults where
  "no_faults \<equiv> \<lambda>_. False"

text \<open>
  The first integrity record of an object and redundancy index wins.  When there is none, the record
  read back is the one that was set, hashes included; when there is one, setting another reports success
  and changes nothing.
\<close>

theorem SetObjectIntegrity_first_wins:
  assumes "bytes (imIntegrityChecksum meta)" and "hashes (imPieceChecksumList meta)" and k_def: "k = (imObjectID meta, imRedundancyIndex meta)"
  shows "if row_find imt_key k (integrity_metas db) = None
    then \<exists>db'. SetObjectIntegrity no_faults meta db = (None, db')
      \<and> GetObjectIntegrity no_faults db' (imObjectID meta) (imRedundancyIndex meta) = Inr meta
      \<and> (\<forall>j. j \<noteq> k \<longrightarrow> row_find imt_key j (integrity_metas db') = row_find imt_key j (integrity_metas db))
    else SetObjectIntegrity no_faults meta db = (None, db)"
  using hex_roundtrip [of "imIntegrityChecksum meta"] slice_roundtrip [OF assms(2)] assms(1)
  by (auto simp: SetObjectIntegrity_def GetObjectIntegrity_def row_find_def find_append imt_key_def bytes_def k_def split: option.splits)

theorem SetObjectIntegrity_first_wins_witness:
  "SetObjectIntegrity no_faults \<lparr>imObjectID = 7, imRedundancyIndex = -1, imIntegrityChecksum = [171], imPieceChecksumList = [[1], [2]], imObjectSize = 2\<rparr>
     \<lparr>integrity_metas = [\<lparr>imtObjectID = 7, imtRedundancyIndex = -1, imtIntegrityChecksum = ''00'', imtPieceChecksumList = ''00'', imtObjectSize = 1\<rparr>],
      shadow_metas = [], piece_hashes = [], upload_progress = []\<rparr> =
   (None, \<lparr>integrity_metas = [\<lparr>imtObjectID = 7, imtRedundancyIndex = -1, imtIntegrityChecksum = ''00'', imtPieceChecksumList = ''00'', imtObjectSize = 1\<rparr>],
      shadow_metas = [], piece_hashes = [], upload_progress = []\<rparr>)"
  using SetObjectIntegrity_first_wins [where k = "(7, - 1)", of
      "\<lparr>imObjectID = 7, imRedundancyIndex = -1, imIntegrityChecksum = [171], imPieceChecksumList = [[1], [2]], imObjectSize = 2\<rparr>"
      "\<lparr>integrity_metas = [\<lparr>imtObjectID = 7, imtRedundancyIndex = -1, imtIntegrityChecksum = ''00'', imtPieceChecksumList = ''00'', imtObjectSize = 1\<rparr>],
        shadow_metas = [], piece_hashes = [], upload_progress = []\<rparr>"]
  by (simp add: bytes_def hashes_def is_u8_def row_find_def imt_key_def)

subsection \<open>Checksums of a replicated object\<close>

definition rows_of :: "int \<Rightarrow> int \<Rightarrow> metadb \<Rightarrow> PieceHashTable list" where
  "rows_of objectID redundancyIdx db =
     sort_key pht_key (filter (\<lambda>q. phtObjectID q = objectID \<and> phtRedundancyIndex q = redundancyIdx) (piece_hashes db))"

text \<open>Keys are unique, and segment indices are unsigned.\<close>

definition hashes_inv :: "metadb \<Rightarrow> bool" where
  "hashes_inv db \<longleftrightarrow> distinct (map pht_key (piece_hashes db)) \<and> (\<forall>q \<in> set (piece_hashes db). 0 \<le> phtSegmentIndex q)"

text \<open>All segments below the count are recorded.\<close>

definition complete_upto :: "nat \<Rightarrow> int \<Rightarrow> int \<Rightarrow> metadb \<Rightarrow> bool" where
  "complete_upto n objectID redundancyIdx db \<longleftrightarrow> (\<forall>i < n. (objectID, int i, redundancyIdx) \<in> pht_key ` set (piece_hashes db))"

lemma take_interval:
  "sorted_wrt (<) xs \<Longrightarrow> (\<forall>i < n. int (a + i) \<in> set xs) \<Longrightarrow> \<forall>x \<in> set xs. int a \<le> x \<Longrightarrow> take n xs = map int [a..<a + n]"
proof (induction n arbitrary: a xs)
  case (Suc n)
  have "int a \<in> set xs" using Suc.prems(2) by (metis add_0_right zero_less_Suc)
  then obtain ys where xs: "xs = int a # ys"
    using Suc.prems(1,3) by (cases xs) (auto simp: order.antisym dest!: bspec)
  have "int (Suc a + i) \<in> set ys" if "i < n" for i
    using Suc.prems(2) [rule_format, of "Suc i"] that xs by auto
  moreover have "\<forall>x \<in> set ys. int (Suc a) \<le> x" using Suc.prems(1) xs by auto
  ultimately have "take n ys = map int [Suc a..<Suc a + n]" using Suc.IH [of ys "Suc a"] Suc.prems(1) xs by simp
  moreover have "[a..<a + Suc n] = a # [Suc a..<Suc a + n]" by (simp add: upt_conv_Cons)
  ultimately show ?case using xs by simp
qed simp

lemma rows_of_set: "set (rows_of ob r db) = {q \<in> set (piece_hashes db). phtObjectID q = ob \<and> phtRedundancyIndex q = r}"
  by (auto simp: rows_of_def)

lemma rows_of_sorted:
  assumes "hashes_inv db"
  shows "sorted_wrt (<) (map phtSegmentIndex (rows_of ob r db))"
proof -
  have "distinct (map pht_key (rows_of ob r db))"
    using assms by (simp add: hashes_inv_def rows_of_def distinct_map inj_on_def)
  moreover have "sorted (map pht_key (rows_of ob r db))" by (simp add: rows_of_def)
  ultimately have "sorted_wrt (<) (map pht_key (rows_of ob r db))" by (simp add: strict_sorted_iff)
  then show ?thesis unfolding sorted_wrt_map
    by (rule sorted_wrt_mono_rel [rotated]) (auto simp: rows_of_set pht_key_def)
qed

lemma find_distinct:
  "distinct (map key rows) \<Longrightarrow> q \<in> set rows \<Longrightarrow> row_find key (key q) rows = Some q"
  by (induction rows) (auto simp: row_find_def)

lemma take_rows:
  assumes "hashes_inv db" "complete_upto n ob r db"
  shows "map phtSegmentIndex (take n (rows_of ob r db)) = map int [0..<n]"
proof -
  have "int (0 + i) \<in> set (map phtSegmentIndex (rows_of ob r db))" if "i < n" for i
    using assms(2) that by (force simp: complete_upto_def rows_of_set pht_key_def)
  moreover have "\<forall>x \<in> set (map phtSegmentIndex (rows_of ob r db)). int 0 \<le> x" using assms(1) by (auto simp: rows_of_set hashes_inv_def)
  ultimately show ?thesis using take_interval [OF rows_of_sorted [OF assms(1)], of n 0] by (simp add: take_map)
qed

lemma get_checksums_rows:
  assumes "hashes_inv db"
  shows "set qs \<subseteq> set (rows_of ob r db) \<Longrightarrow> map phtSegmentIndex qs = map int [a..<a + length qs] \<Longrightarrow>
    get_checksums no_faults db ob r (int a) (length qs) =
      (case those (map (\<lambda>q. DecodeString (phtPieceChecksum q)) qs) of None \<Rightarrow> Inl ErrDecode | Some cs \<Rightarrow> Inr cs)"
proof (induction qs arbitrary: a)
  case (Cons q qs)
  have u: "[a..<a + length (q # qs)] = a # [Suc a..<Suc a + length qs]" by (subst upt_conv_Cons) simp_all
  have q: "q \<in> set (piece_hashes db)" "pht_key q = (ob, int a, r)" and rest: "map phtSegmentIndex qs = map int [Suc a..<Suc a + length qs]"
    using Cons.prems(1) Cons.prems(2) [unfolded u] by (auto simp: rows_of_set pht_key_def)
  have "row_find pht_key (ob, int a, r) (piece_hashes db) = Some q"
    using find_distinct [of pht_key "piece_hashes db" q] assms q by (simp add: hashes_inv_def)
  then show ?case using Cons.IH [of "Suc a"] Cons.prems(1) rest
    by (auto simp: GetReplicatePieceChecksum_def add.commute split: option.splits)
qed simp

text \<open>
  When the checksums of all segments of an object are recorded, the single query returns exactly what
  the loop over the segments returns, in the order of the segments, undecodable text included.
\<close>

theorem checksums_optimized_equivalent:
  assumes "hashes_inv db" and "complete_upto (nat pieceCount) objectID redundancyIdx db"
  shows "GetAllReplicatePieceChecksumOptimized no_faults db objectID redundancyIdx pieceCount =
    GetAllReplicatePieceChecksum no_faults db objectID redundancyIdx pieceCount"
proof -
  define qs where "qs = take (nat pieceCount) (rows_of objectID redundancyIdx db)"
  have m: "map phtSegmentIndex qs = map int [0..<nat pieceCount]" using take_rows [OF assms] by (simp add: qs_def)
  then have "length qs = nat pieceCount" using length_map by (metis diff_zero length_upt)
  moreover have "set qs \<subseteq> set (rows_of objectID redundancyIdx db)" by (simp add: qs_def set_take_subset)
  ultimately show ?thesis
    using get_checksums_rows [OF assms(1), of qs objectID redundancyIdx 0] m
    by (simp add: GetAllReplicatePieceChecksum_def GetAllReplicatePieceChecksumOptimized_def rows_of_def [symmetric] qs_def [symmetric])
qed

theorem checksums_optimized_equivalent_witness:
  "GetAllReplicatePieceChecksumOptimized no_faults \<lparr>integrity_metas = [], shadow_metas = [],
     piece_hashes = [\<lparr>phtObjectID = 7, phtSegmentIndex = 1, phtRedundancyIndex = 2, phtPieceChecksum = ''ab'', phtVersion = 0\<rparr>,
                     \<lparr>phtObjectID = 7, phtSegmentIndex = 0, phtRedundancyIndex = 2, phtPieceChecksum = ''0c'', phtVersion = 0\<rparr>],
     upload_progress = []\<rparr> 7 2 2 = Inr [[12], [171]]"
proof -
  let ?db = "\<lparr>integrity_metas = [], shadow_metas = [],
     piece_hashes = [\<lparr>phtObjectID = 7, phtSegmentIndex = 1, phtRedundancyIndex = 2, phtPieceChecksum = ''ab'', phtVersion = 0\<rparr>,
                     \<lparr>phtObjectID = 7, phtSegmentIndex = 0, phtRedundancyIndex = 2, phtPieceChecksum = ''0c'', phtVersion = 0\<rparr>],
     upload_progress = []\<rparr>"
  have "hashes_inv ?db" "complete_upto (nat 2) 7 2 ?db"
    by (auto simp: hashes_inv_def complete_upto_def pht_key_def less_2_cases_iff)
  then show ?thesis
    using checksums_optimized_equivalent [of ?db 2 7 2]
    by (simp add: GetAllReplicatePieceChecksum_def numeral_2_eq_2 GetReplicatePieceChecksum_def row_find_def pht_key_def hex_val_def)
qed

end
