(* ===== verification/SP_Uploader.thy ===== *)
theory SP_Uploader
  imports SP_Store SP_MetaDB SP_Queue SP_Piece
begin

text \<open>
  The uploader, \<^verbatim>\<open>src/modular/uploader/upload_task.go\<close>: it cuts the payload into segments, stores them as
  pieces, checks the integrity hash and records it.  The hash functions, the store, the printed form
  of errors, the clock and the faults of the database are an environment record.  The stream of the
  request is what its \<open>Read\<close> will deliver: a list of chunks, an error coming together with the last
  bytes of a chunk or on its own.  A report to the manager is part of the result.
\<close>

subsection \<open>Streams\<close>

datatype stream_err = EOF | StreamFailed string

type_synonym stream = "(int list \<times> stream_err option) list"

text \<open>The loop of \<open>StreamReadAt\<close>: it reads until the buffer is full or \<open>Read\<close> returns an error, which then stays.\<close>

fun read_full :: "nat \<Rightarrow> stream \<Rightarrow> int list \<times> stream_err option \<times> stream" where
  "read_full n [] = ([], Some EOF, [])"
| "read_full n ((c, e) # st) =
     (if n < length c then (take n c, None, (drop n c, e) # st)
      else case e of
        Some x \<Rightarrow> (c, Some x, [([], Some x)])
      | None \<Rightarrow>
          if length c = n then (c, None, st)
          else let (d, e', st') = read_full (n - length c) st in (c @ d, e', st'))"

definition StreamReadAt :: "stream \<Rightarrow> nat \<Rightarrow> int list \<times> stream_err option \<times> stream" where
  "StreamReadAt st n =
     (if n = 0 then ([], Some (StreamFailed ''failed to read due to invalid args''), st) else read_full n st)"

text \<open>The bytes of a stream.\<close>

fun stream_data :: "stream \<Rightarrow> int list" where
  "stream_data [] = []"
| "stream_data ((c, Some _) # st) = c"
| "stream_data ((c, None) # st) = c @ stream_data st"

lemma read_full_progress:
  "read_full n st = (d, None, st') \<Longrightarrow> length d = n \<and> stream_data st = d @ stream_data st'"
proof (induction st arbitrary: n d st')
  case (Cons ce st)
  obtain c e where ce: "ce = (c, e)" by (cases ce)
  obtain d1 e1 st1 where r: "read_full (n - length c) st = (d1, e1, st1)" by (cases "read_full (n - length c) st")
  show ?case
  proof (cases "n < length c \<or> e \<noteq> None \<or> length c = n")
    case True
    with Cons.prems ce show ?thesis by (cases e) (fastforce split: if_splits)+
  next
    case False
    with Cons.prems ce r have "e1 = None" "d = c @ d1" "st' = st1" by simp_all
    with False ce Cons.IH [of "n - length c" d1 st1] r show ?thesis by simp
  qed
qed simp

lemma StreamReadAt_progress:
  "StreamReadAt st n = (d, None, st') \<Longrightarrow> 0 < n \<and> length d = n \<and> stream_data st = d @ stream_data st'"
  by (auto simp: StreamReadAt_def dest: read_full_progress split: if_splits)

subsection \<open>Results\<close>

datatype 'a outcome = Ok 'a | Fail go_error | Panic

record 's env =
  eChecksum :: "int list \<Rightarrow> int list"
  eIntegrity :: "int list list \<Rightarrow> int list"
  ePut :: "'s \<Rightarrow> string \<Rightarrow> int list \<Rightarrow> store_error + 's"
  eStoreMsg :: "store_error \<Rightarrow> string"
  eDbMsg :: "db_error \<Rightarrow> string"
  eUnmarshal :: "string \<Rightarrow> GfSpError option"
  eStamp :: string
  eNow :: int
  eDbFails :: "nat \<Rightarrow> faults"

text \<open>What the handlers leave: the value returned, the variable \<open>err\<close> the deferred functions see, and the state.\<close>

record 's upload_out =
  outRet :: "unit outcome"
  outErr :: "go_error option"
  outStore :: 's
  outDB :: metadb
  outReject :: bool

definition up_error :: "int \<Rightarrow> int \<Rightarrow> string \<Rightarrow> go_error" where
  "up_error http code descr =
     GfSpErr \<lparr>CodeSpace = ''uploader'', HttpStatusCode = http, InnerCode = code, Description = descr\<rparr>"

definition ErrDanglingUploadTask :: go_error where "ErrDanglingUploadTask = up_error 400 110001 ''OoooH... request lost, try again later''"
definition ErrNotCreatedState :: go_error where "ErrNotCreatedState = up_error 403 110002 ''object not created state''"
definition ErrRepeatedTask :: go_error where "ErrRepeatedTask = up_error 406 110003 ''put object request repeated''"
definition ErrInvalidIntegrity :: go_error where "ErrInvalidIntegrity = up_error 406 110004 ''invalid payload data integrity hash''"
definition ErrClosedStream :: go_error where "ErrClosedStream = up_error 400 110005 ''upload payload data stream exception''"
definition ErrInvalidUploadRequest :: go_error where "ErrInvalidUploadRequest = up_error 409 110006 ''the object had already been fully uploaded and any further uploading attempt is not allowed''"
definition ErrGetObjectUploadState :: go_error where "ErrGetObjectUploadState = up_error 500 110007 ''failed to get upload object state''"
definition ErrPayloadSize :: go_error where "ErrPayloadSize = up_error 400 110008 ''The file payload size is inconsistent with the parameter payload size''"

definition ErrPieceStoreWithDetail :: "string \<Rightarrow> go_error" where "ErrPieceStoreWithDetail detail = up_error 500 115101 detail"
definition ErrGfSpDBWithDetail :: "string \<Rightarrow> go_error" where "ErrGfSpDBWithDetail detail = up_error 500 115001 detail"

subsection \<open>Admission\<close>

text \<open>
  Pointers of the task are present in the record; \<open>created\<close> is the manager's answer to the creation and
  \<open>state\<close> its answer to the query of the state.
\<close>

definition PreUpload ::
  "ObjectInfo option \<Rightarrow> string \<Rightarrow> go_error option \<Rightarrow> go_error + TaskState \<Rightarrow> GfSpTQueue \<Rightarrow> go_error option \<times> GfSpTQueue" where
  "PreUpload obj key created state q =
     (case obj of
        None \<Rightarrow> (Some ErrDanglingUploadTask, q)
      | Some ob \<Rightarrow>
          if oObjectStatus ob \<noteq> OBJECT_STATUS_CREATED \<and> \<not> oIsUpdating ob then (Some ErrNotCreatedState, q)
          else let (present, q1) = queue_Has key q
          in if present then (Some ErrRepeatedTask, q1)
             else case created of
               Some e \<Rightarrow> (Some e, q1)
             | None \<Rightarrow>
                 (case state of
                    Inl _ \<Rightarrow> (Some ErrGetObjectUploadState, q1)
                  | Inr s \<Rightarrow> (if CheckAllowUploadStatus s then None else Some ErrInvalidUploadRequest, q1)))"

definition PreUploadObject ::
  "GfSpUploadObjectTask option \<Rightarrow> go_error option \<Rightarrow> go_error + TaskState \<Rightarrow> GfSpTQueue \<Rightarrow> go_error option \<times> GfSpTQueue" where
  "PreUploadObject task created state q =
     PreUpload (map_option uo_ObjectInfo task) (case task of None \<Rightarrow> [] | Some t \<Rightarrow> Key (UploadObject t)) created state q"

definition PreResumableUploadObject ::
  "GfSpResumableUploadObjectTask option \<Rightarrow> go_error option \<Rightarrow> go_error + TaskState \<Rightarrow> GfSpTQueue \<Rightarrow> go_error option \<times> GfSpTQueue" where
  "PreResumableUploadObject task created state q =
     PreUpload (map_option ru_ObjectInfo task) (case task of None \<Rightarrow> [] | Some t \<Rightarrow> Key (ResumableUploadObject t)) created state q"

subsection \<open>Uploading an object\<close>

definition done_meta :: "int \<Rightarrow> UploadObjectMeta" where
  "done_meta objectID = (empty_meta objectID)\<lparr>umTaskState := TASK_STATE_UPLOAD_OBJECT_DONE\<rparr>"

text \<open>The last two statements, shared by both uploads.\<close>

definition mark_done :: "'s env \<Rightarrow> int \<Rightarrow> bool \<Rightarrow> 's \<Rightarrow> metadb \<Rightarrow> 's upload_out" where
  "mark_done env objectID reject s db =
     (case UpdateUploadProgress (eDbFails env 1) (eNow env) (done_meta objectID) db of
        (Some e, db1) \<Rightarrow> \<lparr>outRet = Fail (ErrGfSpDBWithDetail (''failed to update upload progress, error: '' @ eDbMsg env e)),
           outErr = Some (OtherErr (eDbMsg env e)), outStore = s, outDB = db1, outReject = reject\<rparr>
      | (None, db1) \<Rightarrow> \<lparr>outRet = Ok (), outErr = None, outStore = s, outDB = db1, outReject = reject\<rparr>)"

definition record_integrity ::
  "'s env \<Rightarrow> GfSpUploadObjectTask \<Rightarrow> int list list \<Rightarrow> int list \<Rightarrow> int \<Rightarrow> metadb \<Rightarrow> db_error option \<times> metadb" where
  "record_integrity env t checksums integrity readSize db =
     (let ob = uo_ObjectInfo t in
      if oIsUpdating ob
      then SetShadowObjectIntegrity (eDbFails env 0) \<lparr>smObjectID = oId ob, smRedundancyIndex = -1, smIntegrityChecksum = integrity,
             smPieceChecksumList = checksums, smVersion = oVersion ob, smObjectSize = u64 readSize\<rparr> db
      else SetObjectIntegrity (eDbFails env 0) \<lparr>imObjectID = oId ob, imRedundancyIndex = -1, imIntegrityChecksum = integrity,
             imPieceChecksumList = checksums, imObjectSize = u64 readSize\<rparr> db)"

text \<open>What follows the last segment.\<close>

definition upload_finish ::
  "'s env \<Rightarrow> GfSpUploadObjectTask \<Rightarrow> int list list \<Rightarrow> int \<Rightarrow> 's \<Rightarrow> metadb \<Rightarrow> 's upload_out" where
  "upload_finish env t checksums readSize s db =
     (let ob = uo_ObjectInfo t; integrity = eIntegrity env checksums in
      if \<not> uo_IsAgentUpload t \<and> oChecksums ob = []
      then \<lparr>outRet = Panic, outErr = None, outStore = s, outDB = db, outReject = False\<rparr>
      else if \<not> uo_IsAgentUpload t \<and> integrity \<noteq> hd (oChecksums ob)
      then \<lparr>outRet = Fail ErrInvalidIntegrity, outErr = Some ErrInvalidIntegrity, outStore = s, outDB = db, outReject = False\<rparr>
      else if u64 readSize \<noteq> oPayloadSize ob
      then \<lparr>outRet = Fail ErrPayloadSize, outErr = None, outStore = s, outDB = db, outReject = True\<rparr>
      else case record_integrity env t checksums integrity readSize db of
        (Some e, db1) \<Rightarrow> \<lparr>outRet = Fail (ErrGfSpDBWithDetail (''failed to write integrity hash to db, error: '' @ eDbMsg env e)),
           outErr = Some (OtherErr (eDbMsg env e)), outStore = s, outDB = db1, outReject = False\<rparr>
      | (None, db1) \<Rightarrow> mark_done env (oId ob) False s db1)"

definition put_failed :: "'s env \<Rightarrow> string \<Rightarrow> store_error \<Rightarrow> 's \<Rightarrow> metadb \<Rightarrow> 's upload_out" where
  "put_failed env descr e s db = \<lparr>outRet = Fail (ErrPieceStoreWithDetail (descr @ eStoreMsg env e)),
     outErr = Some (OtherErr (eStoreMsg env e)), outStore = s, outDB = db, outReject = False\<rparr>"

definition segment_key :: "ObjectInfo \<Rightarrow> int \<Rightarrow> string" where
  "segment_key ob segIdx = SegmentPieceKey (oId ob) segIdx (oVersion ob)"

text \<open>The loop over the segments of size \<open>n\<close>; it ends because every turn that goes on has read \<open>n\<close> bytes.\<close>

function upload_loop ::
  "'s env \<Rightarrow> GfSpUploadObjectTask \<Rightarrow> nat \<Rightarrow> stream \<Rightarrow> int \<Rightarrow> int list list \<Rightarrow> int \<Rightarrow> 's \<Rightarrow> metadb \<Rightarrow> 's upload_out" where
  "upload_loop env t n st segIdx checksums readSize s db =
     (case StreamReadAt st n of
        (data, err, st') \<Rightarrow>
          let readSize' = i64 (readSize + int (length data)); key = segment_key (uo_ObjectInfo t) segIdx in
          case err of
            Some EOF \<Rightarrow>
              if data \<noteq> []
              then (case PutPiece (ePut env) s key data of
                      Inl e \<Rightarrow> put_failed env (''failed to put segment piece to piece store, piece_key: '' @ key @ '', error: '') e s db
                    | Inr s1 \<Rightarrow> upload_finish env t (checksums @ [eChecksum env data]) readSize' s1 db)
              else upload_finish env t checksums readSize' s db
          | Some (StreamFailed m) \<Rightarrow> \<lparr>outRet = Fail ErrClosedStream, outErr = Some (OtherErr m), outStore = s, outDB = db, outReject = False\<rparr>
          | None \<Rightarrow>
              (case PutPiece (ePut env) s key data of
                 Inl e \<Rightarrow> put_failed env ''failed to put segment piece to piece store, error: '' e s db
               | Inr s1 \<Rightarrow> upload_loop env t n st' (u32 (segIdx + 1)) (checksums @ [eChecksum env data]) readSize' s1 db))"
  by pat_completeness auto
termination
proof (relation "measure (\<lambda>(_, _, _, st, _). length (stream_data st))", goal_cases)
  case (2 env t n st segIdx checksums readSize s db data r err st')
  then show ?case using StreamReadAt_progress [of st n data st'] by auto
qed simp

declare upload_loop.simps [simp del]

text \<open>The handler: the queue it leaves, the task it reports, and the rest.\<close>

record 's upload_result =
  resRet :: "unit outcome"
  resStore :: 's
  resDB :: metadb
  resQueue :: GfSpTQueue
  resReported :: "Task option"
  resReject :: bool

text \<open>The errors of a queue are registered errors of the task queue.\<close>

definition queue_err :: "queue_error \<Rightarrow> go_error" where
  "queue_err e = (case e of
     ErrTaskRepeated \<Rightarrow> GfSpErr \<lparr>CodeSpace = ''TaskQueue'', HttpStatusCode = 400, InnerCode = 970001, Description = ''request repeated''\<rparr>
   | ErrTaskQueueExceed \<Rightarrow> GfSpErr \<lparr>CodeSpace = ''TaskQueue'', HttpStatusCode = 400, InnerCode = 970002, Description = ''request exceed limit''\<rparr>)"

definition report :: "'s env \<Rightarrow> go_error option \<Rightarrow> Task \<Rightarrow> Task" where
  "report env err t = (if err \<noteq> None then SetError (eUnmarshal env) err t else t)"

definition HandleUploadObjectTask ::
  "'s env \<Rightarrow> GfSpUploadObjectTask \<Rightarrow> stream \<Rightarrow> GfSpTQueue \<Rightarrow> 's \<Rightarrow> metadb \<Rightarrow> 's upload_result" where
  "HandleUploadObjectTask env t st q s db =
     (case queue_Push (UploadObject t) q of
        (Some e, q1) \<Rightarrow> \<lparr>resRet = Fail (queue_err e), resStore = s, resDB = db, resQueue = q1, resReported = None, resReject = False\<rparr>
      | (None, q1) \<Rightarrow>
          let q2 = snd (queue_PopByKey (Key (UploadObject t)) q1);
              segmentSize = MaxSegmentPieceSize (oPayloadSize (uo_ObjectInfo t)) (MaxSegmentSize (uo_StorageParams t))
          in if segmentSize < 0
             then \<lparr>resRet = Panic, resStore = s, resDB = db, resQueue = q2, resReported = None, resReject = False\<rparr>
             else let out = upload_loop env t (nat segmentSize) st 0 [] 0 s db
             in \<lparr>resRet = outRet out, resStore = outStore out, resDB = outDB out, resQueue = q2,
                 resReported = Some (AppendLog (eStamp env) ''uploader-report-upload-task'' (report env (outErr out) (UploadObject t))),
                 resReject = outReject out\<rparr>)"

subsection \<open>Uploading in parts\<close>

definition updatePieceCheckSum ::
  "'s env \<Rightarrow> faults \<Rightarrow> ObjectInfo \<Rightarrow> int list \<Rightarrow> bool \<Rightarrow> int \<Rightarrow> metadb \<Rightarrow> db_error option \<times> metadb" where
  "updatePieceCheckSum env fails ob data isUpdate dataLength db =
     (if isUpdate then UpdateShadowPieceChecksum fails (oId ob) (-1) (eChecksum env data) (oVersion ob) dataLength db
      else UpdatePieceChecksum fails (oId ob) (-1) (eChecksum env data) dataLength db)"

definition getPieceCheckSumListAndPieceSize :: "faults \<Rightarrow> ObjectInfo \<Rightarrow> bool \<Rightarrow> metadb \<Rightarrow> db_error + (int list list \<times> int)" where
  "getPieceCheckSumListAndPieceSize fails ob isUpdate db =
     (if isUpdate
      then (case GetShadowObjectIntegrity fails db (oId ob) (-1) of
              Inl e \<Rightarrow> Inl e | Inr m \<Rightarrow> Inr (smPieceChecksumList m, smObjectSize m))
      else (case GetObjectIntegrity fails db (oId ob) (-1) of
              Inl e \<Rightarrow> Inl e | Inr m \<Rightarrow> Inr (imPieceChecksumList m, imObjectSize m)))"

definition updateIntegrityChecksum :: "faults \<Rightarrow> int \<Rightarrow> int list \<Rightarrow> bool \<Rightarrow> metadb \<Rightarrow> db_error option \<times> metadb" where
  "updateIntegrityChecksum fails objectID integrityHash isUpdate db =
     (if isUpdate
      then UpdateShadowIntegrityChecksum fails \<lparr>smObjectID = objectID, smRedundancyIndex = -1, smIntegrityChecksum = integrityHash,
             smPieceChecksumList = [], smVersion = 0, smObjectSize = 0\<rparr> db
      else UpdateIntegrityChecksum fails \<lparr>imObjectID = objectID, imRedundancyIndex = -1, imIntegrityChecksum = integrityHash,
             imPieceChecksumList = [], imObjectSize = 0\<rparr> db)"

text \<open>A wrong size of a delegated upload is rejected on the chain, but the handler goes on.\<close>

definition resumable_finish :: "'s env \<Rightarrow> GfSpResumableUploadObjectTask \<Rightarrow> 's \<Rightarrow> metadb \<Rightarrow> 's upload_out" where
  "resumable_finish env t s db =
     (let ob = ru_ObjectInfo t in
      if \<not> ru_Completed t then \<lparr>outRet = Ok (), outErr = None, outStore = s, outDB = db, outReject = False\<rparr>
      else case getPieceCheckSumListAndPieceSize (eDbFails env 2) ob (oIsUpdating ob) db of
        Inl e \<Rightarrow> \<lparr>outRet = Fail (OtherErr (eDbMsg env e)), outErr = Some (OtherErr (eDbMsg env e)), outStore = s, outDB = db, outReject = False\<rparr>
      | Inr (checksums, pieceSize) \<Rightarrow>
          let reject = (ru_IsAgentUpload t \<and> pieceSize \<noteq> oPayloadSize ob); integrity = eIntegrity env checksums in
          if \<not> ru_IsAgentUpload t \<and> oChecksums ob = []
          then \<lparr>outRet = Panic, outErr = None, outStore = s, outDB = db, outReject = reject\<rparr>
          else if \<not> ru_IsAgentUpload t \<and> integrity \<noteq> hd (oChecksums ob)
          then \<lparr>outRet = Fail ErrInvalidIntegrity, outErr = Some ErrInvalidIntegrity, outStore = s, outDB = db, outReject = reject\<rparr>
          else case updateIntegrityChecksum (eDbFails env 0) (oId ob) integrity (oIsUpdating ob) db of
            (Some e, db1) \<Rightarrow> \<lparr>outRet = Fail (ErrGfSpDBWithDetail (''failed to write integrity hash to db, error: '' @ eDbMsg env e)),
               outErr = Some (OtherErr (eDbMsg env e)), outStore = s, outDB = db1, outReject = reject\<rparr>
          | (None, db1) \<Rightarrow> mark_done env (oId ob) reject s db1)"

text \<open>Storing one segment of a part: the piece first, its checksum after it.\<close>

definition put_part ::
  "'s env \<Rightarrow> ObjectInfo \<Rightarrow> string \<Rightarrow> int \<Rightarrow> int list \<Rightarrow> 's \<Rightarrow> metadb \<Rightarrow> 's upload_out + ('s \<times> metadb)" where
  "put_part env ob descr segIdx data s db =
     (case PutPiece (ePut env) s (segment_key ob segIdx) data of
        Inl e \<Rightarrow> Inl (put_failed env descr e s db)
      | Inr s1 \<Rightarrow>
          (case updatePieceCheckSum env (eDbFails env (3 + nat segIdx)) ob data (oIsUpdating ob) (int (length data)) db of
             (Some e, db1) \<Rightarrow> Inl \<lparr>outRet = Fail (ErrGfSpDBWithDetail (''failed to append integrity checksum to db, error: '' @ eDbMsg env e)),
                outErr = Some (OtherErr (eDbMsg env e)), outStore = s1, outDB = db1, outReject = False\<rparr>
           | (None, db1) \<Rightarrow> Inr (s1, db1)))"

function resumable_loop ::
  "'s env \<Rightarrow> GfSpResumableUploadObjectTask \<Rightarrow> nat \<Rightarrow> stream \<Rightarrow> int \<Rightarrow> 's \<Rightarrow> metadb \<Rightarrow> 's upload_out" where
  "resumable_loop env t n st segIdx s db =
     (case StreamReadAt st n of
        (data, err, st') \<Rightarrow>
          let ob = ru_ObjectInfo t; key = segment_key ob segIdx in
          case err of
            Some EOF \<Rightarrow>
              if data \<noteq> []
              then (case put_part env ob (''failed to put segment piece to piece store, piece_key: '' @ key @ '', error: '') segIdx data s db of
                      Inl out \<Rightarrow> out
                    | Inr (s1, db1) \<Rightarrow> resumable_finish env t s1 db1)
              else resumable_finish env t s db
          | Some (StreamFailed m) \<Rightarrow> \<lparr>outRet = Fail ErrClosedStream, outErr = Some (OtherErr m), outStore = s, outDB = db, outReject = False\<rparr>
          | None \<Rightarrow>
              (case put_part env ob ''failed to put segment piece to piece store, error: '' segIdx data s db of
                 Inl out \<Rightarrow> out
               | Inr (s1, db1) \<Rightarrow> resumable_loop env t n st' (u32 (segIdx + 1)) s1 db1))"
  by pat_completeness auto
termination
proof (relation "measure (\<lambda>(_, _, _, st, _). length (stream_data st))", goal_cases)
  case (2 env t n st segIdx s db data r err st')
  then show ?case using StreamReadAt_progress [of st n data st'] by auto
qed simp

declare resumable_loop.simps [simp del]

text \<open>The first segment of a part is found by dividing its offset, which fails for an empty payload.\<close>

definition HandleResumableUploadObjectTask ::
  "'s env \<Rightarrow> GfSpResumableUploadObjectTask \<Rightarrow> stream \<Rightarrow> GfSpTQueue \<Rightarrow> 's \<Rightarrow> metadb \<Rightarrow> 's upload_result" where
  "HandleResumableUploadObjectTask env t st q s db =
     (case queue_Push (ResumableUploadObject t) q of
        (Some e, q1) \<Rightarrow> \<lparr>resRet = Fail (queue_err e), resStore = s, resDB = db, resQueue = q1, resReported = None, resReject = False\<rparr>
      | (None, q1) \<Rightarrow>
          let q2 = snd (queue_PopByKey (Key (ResumableUploadObject t)) q1);
              segmentSize = MaxSegmentPieceSize (oPayloadSize (ru_ObjectInfo t)) (MaxSegmentSize (ru_StorageParams t))
          in if segmentSize \<le> 0
             then \<lparr>resRet = Panic, resStore = s, resDB = db, resQueue = q2, resReported = None, resReject = False\<rparr>
             else let out = resumable_loop env t (nat segmentSize) st (u32 (i64 (ru_Offset t) sdiv segmentSize)) s db
             in \<lparr>resRet = outRet out, resStore = outStore out, resDB = outDB out, resQueue = q2,
                 resReported = Some (report env (outErr out) (ResumableUploadObject t)),
                 resReject = outReject out\<rparr>)"

subsection \<open>Rejecting an object on the chain\<close>

text \<open>
  For each attempt, whether the message is sent and what the chain says afterwards (\<open>Inr True\<close>: the
  object is rejected).  The loop stops at the first rejection; \<open>True\<close> tells that there was one.
\<close>

fun reject_loop :: "(bool \<times> (string + bool)) list \<Rightarrow> bool" where
  "reject_loop [] = False"
| "reject_loop ((sent, heard) # answers) = (if sent \<and> heard = Inr True then True else reject_loop answers)"

definition rejectCreateObject :: "(nat \<Rightarrow> bool \<times> (string + bool)) \<Rightarrow> bool" where
  "rejectCreateObject answers = reject_loop (map answers [0..<3])"

end
