(* ===== verification/SP_Downloader.thy ===== *)
theory SP_Downloader
  imports SP_Uploader SP_TaskOps
begin

text \<open>
  The downloader, \<^verbatim>\<open>src/modular/downloader/download_task.go\<close> and \<^verbatim>\<open>downloader.go\<close>: admission with the read
  quota, cutting a range into pieces, reading them through a cache, and the data of a challenge.  The
  cache is a library: its two operations are arguments.  Answers of the chain and of other services
  are arguments.
\<close>

record 'c DownloadModular =
  pieceCache :: 'c
  downloading :: int
  downloadParallel :: int
  challenging :: int
  challengeParallel :: int
  monthlyFreeQuota :: int

record ('s, 'c) denv =
  dGet :: "'s \<Rightarrow> string \<Rightarrow> int \<Rightarrow> int \<Rightarrow> store_error + int list"
  dCacheGet :: "'c \<Rightarrow> string \<Rightarrow> int list option \<times> 'c"
  dCacheAdd :: "'c \<Rightarrow> string \<Rightarrow> int list \<Rightarrow> 'c"
  dStoreMsg :: "store_error \<Rightarrow> string"
  dDbMsg :: "db_error \<Rightarrow> string"
  dInfo :: "Task \<Rightarrow> string"
  dUnmarshal :: "string \<Rightarrow> GfSpError option"

definition down_error :: "int \<Rightarrow> int \<Rightarrow> string \<Rightarrow> go_error" where
  "down_error http code descr =
     GfSpErr \<lparr>CodeSpace = ''downloader'', HttpStatusCode = http, InnerCode = code, Description = descr\<rparr>"

definition ErrDanglingPointer :: go_error where "ErrDanglingPointer = down_error 400 30001 ''OoooH.... request lost''"
definition ErrObjectUnsealed :: go_error where "ErrObjectUnsealed = down_error 400 30002 ''object unsealed''"
definition ErrExceedRequest :: go_error where "ErrExceedRequest = down_error 400 30003 ''get piece request exceed''"
definition ErrExceedBucketQuota :: go_error where "ErrExceedBucketQuota = down_error 406 30004 ''bucket quota overflow''"
definition ErrInvalidParam :: go_error where "ErrInvalidParam = down_error 400 30005 ''request params invalid''"
definition ErrNoSuchPiece :: go_error where "ErrNoSuchPiece = down_error 400 30006 ''request params invalid, no such piece''"
definition ErrAccountFrozen :: go_error where "ErrAccountFrozen = down_error 406 30008 ''stream account has been frozen''"
definition ErrDownloadStatus :: go_error where "ErrDownloadStatus = down_error 400 30009 ''object cannot be downloaded''"

definition receiver_error :: "int \<Rightarrow> int \<Rightarrow> string \<Rightarrow> go_error" where
  "receiver_error http code descr =
     GfSpErr \<lparr>CodeSpace = ''receiver'', HttpStatusCode = http, InnerCode = code, Description = descr\<rparr>"

definition down_ErrPieceStoreWithDetail :: "string \<Rightarrow> go_error" where "down_ErrPieceStoreWithDetail = receiver_error 500 85101"
definition ErrPieceStoreNoSuchKeyWithDetail :: "string \<Rightarrow> go_error" where "ErrPieceStoreNoSuchKeyWithDetail = receiver_error 404 85102"
definition down_ErrGfSpDBWithDetail :: "string \<Rightarrow> go_error" where "down_ErrGfSpDBWithDetail = receiver_error 500 85201"
definition ErrConsensusWithDetail :: "string \<Rightarrow> go_error" where "ErrConsensusWithDetail = receiver_error 500 85201"

definition isErrNoSuchKey :: "string \<Rightarrow> bool" where
  "isErrNoSuchKey msg \<longleftrightarrow> str_index ''NoSuchKey'' msg \<noteq> None"

definition piece_store_error :: "string \<Rightarrow> string \<Rightarrow> go_error" where
  "piece_store_error msg detail =
     (if isErrNoSuchKey msg then ErrPieceStoreNoSuchKeyWithDetail detail else down_ErrPieceStoreWithDetail detail)"

definition cacheKey :: "string \<Rightarrow> int \<Rightarrow> int \<Rightarrow> string" where
  "cacheKey pieceKey offset len =
     ''piece:'' @ pieceKey @ ''-offset:'' @ show_int offset @ ''-length:'' @ show_int len"

subsection \<open>Admission\<close>

text \<open>
  The part shared by downloads of objects and of pieces: status of the object, then the quota.  The
  database has the integrity table and the traffic table; \<open>fails\<close> gives the faults per statement.
\<close>

definition check_status :: "faults \<Rightarrow> metadb \<Rightarrow> ObjectInfo \<Rightarrow> go_error option" where
  "check_status fails mdb ob =
     (case oObjectStatus ob of
        OBJECT_STATUS_SEALED \<Rightarrow> None
      | OBJECT_STATUS_CREATED \<Rightarrow> (case GetObjectIntegrity fails mdb (oId ob) (-1) of Inl _ \<Rightarrow> Some ErrDownloadStatus | Inr _ \<Rightarrow> None)
      | _ \<Rightarrow> Some ErrDownloadStatus)"

record clock_env =
  ceFmt :: "go_time \<Rightarrow> string"
  ceNowUs :: int
  ceNow :: int
  ceFreeQuota :: "string + int"
  ceFails :: "nat \<Rightarrow> faults"

definition check_quota ::
  "clock_env \<Rightarrow> (db_error \<Rightarrow> string) \<Rightarrow> int \<Rightarrow> ReadRecord \<Rightarrow> BucketInfo \<Rightarrow> bool \<Rightarrow> spdb \<Rightarrow> go_error option \<times> spdb" where
  "check_quota ce msg monthly rec bucket passFree db =
     (let m = TimestampYearMonth (ceFmt ce) (rrReadTimestampUs rec);
          quota = (\<lambda>free mon. \<lparr>bqChargedQuotaSize = bChargedReadQuota bucket, bqFreeQuotaSize = free, bqMonthlyFreeQuotaSize = mon\<rparr>);
          check = (\<lambda>free db1.
            case CheckQuotaAndAddReadRecord (ceFails ce 2) (ceFmt ce) (ceNow ce) rec (quota (if passFree then free else 0) 0) db1 of
              (Some ErrCheckQuotaEnough, db2) \<Rightarrow> (Some ErrExceedBucketQuota, db2)
            | (_, db2) \<Rightarrow> (None, db2))
      in case GetBucketTraffic (ceFails ce 0) (bId bucket) m db of
           Inr _ \<Rightarrow> check 0 db
         | Inl ErrRecordNotFound \<Rightarrow>
             (case ceFreeQuota ce of
                Inl e \<Rightarrow> (Some (ErrConsensusWithDetail (''QuerySPFreeQuota error: '' @ e)), db)
              | Inr free \<Rightarrow>
                  (case InitBucketTraffic (ceFails ce 1) (ceFmt ce) (ceNow ce) rec (quota free monthly) db of
                     (Some e, db1) \<Rightarrow> (Some (down_ErrGfSpDBWithDetail (''failed to init bucket traffic, error: '' @ msg e)), db1)
                   | (None, db1) \<Rightarrow> check free db1))
         | Inl e \<Rightarrow> (Some (OtherErr (msg e)), db))"

definition object_record :: "GfSpDownloadObjectTask \<Rightarrow> int \<Rightarrow> ReadRecord" where
  "object_record t nowUs =
     \<lparr>rrBucketID = bId (do_BucketInfo t), rrObjectID = oId (do_ObjectInfo t), rrUserAddress = tUserAddress (do_Task t),
      rrBucketName = bBucketName (do_BucketInfo t), rrObjectName = oObjectName (do_ObjectInfo t),
      rrReadSize = u64 (download_GetSize t), rrReadTimestampUs = nowUs\<rparr>"

text \<open>\<open>active\<close> is the payment status of the bucket, \<open>None\<close> when the query fails, which is ignored.\<close>

definition PreDownloadObject ::
  "clock_env \<Rightarrow> ('s, 'c) denv \<Rightarrow> 'c DownloadModular \<Rightarrow> faults \<Rightarrow> metadb \<Rightarrow> bool option \<Rightarrow> GfSpDownloadObjectTask option \<Rightarrow> spdb
    \<Rightarrow> go_error option \<times> spdb" where
  "PreDownloadObject ce env d mfails mdb active task db =
     (case task of
        None \<Rightarrow> (Some ErrDanglingPointer, db)
      | Some t \<Rightarrow>
          (case check_status mfails mdb (do_ObjectInfo t) of
             Some e \<Rightarrow> (Some e, db)
           | None \<Rightarrow>
               if active = Some False then (Some ErrAccountFrozen, db)
               else check_quota ce (dDbMsg env) (monthlyFreeQuota d) (object_record t (ceNowUs ce)) (do_BucketInfo t) True db))"

definition piece_record :: "GfSpDownloadPieceTask \<Rightarrow> int \<Rightarrow> ReadRecord" where
  "piece_record t nowUs =
     \<lparr>rrBucketID = bId (dp_BucketInfo t), rrObjectID = oId (dp_ObjectInfo t), rrUserAddress = tUserAddress (dp_Task t),
      rrBucketName = bBucketName (dp_BucketInfo t), rrObjectName = oObjectName (dp_ObjectInfo t),
      rrReadSize = dp_TotalSize t, rrReadTimestampUs = nowUs\<rparr>"

text \<open>\<open>primary\<close> is the operator address of the primary provider of the bucket, which reads without charge.\<close>

definition PreDownloadPiece ::
  "clock_env \<Rightarrow> ('s, 'c) denv \<Rightarrow> 'c DownloadModular \<Rightarrow> faults \<Rightarrow> metadb \<Rightarrow> go_error + string \<Rightarrow> GfSpDownloadPieceTask option \<Rightarrow> spdb
    \<Rightarrow> go_error option \<times> spdb" where
  "PreDownloadPiece ce env d mfails mdb primary task db =
     (case task of
        None \<Rightarrow> (Some ErrDanglingPointer, db)
      | Some t \<Rightarrow>
          (case check_status mfails mdb (dp_ObjectInfo t) of
             Some e \<Rightarrow> (Some e, db)
           | None \<Rightarrow>
               (case primary of
                  Inl e \<Rightarrow> (Some e, db)
                | Inr operator \<Rightarrow>
                    if tUserAddress (dp_Task t) = operator \<or> \<not> dp_EnableCheck t then (None, db)
                    else check_quota ce (dDbMsg env) (monthlyFreeQuota d) (piece_record t (ceNowUs ce)) (dp_BucketInfo t) False db)))"

definition PreChallengePiece :: "GfSpChallengePieceTask option \<Rightarrow> go_error option" where
  "PreChallengePiece task =
     (case task of
        None \<Rightarrow> Some ErrDanglingPointer
      | Some t \<Rightarrow> if oObjectStatus (cp_ObjectInfo t) \<noteq> OBJECT_STATUS_SEALED then Some ErrObjectUnsealed else None)"

subsection \<open>Cutting a range into pieces\<close>

record SegmentPieceInfo =
  spKey :: string
  spOffset :: int
  spLength :: int

text \<open>The loop from the segment \<open>i\<close> on, with \<open>left\<close> segments to go; all numbers are 64-bit and unsigned.\<close>

fun split_from :: "ObjectInfo \<Rightarrow> int \<Rightarrow> int \<Rightarrow> int \<Rightarrow> int \<Rightarrow> nat \<Rightarrow> SegmentPieceInfo list" where
  "split_from ob segmentSize low high i 0 = []"
| "split_from ob segmentSize low high i (Suc left) =
     (let segStart = u64 (i * segmentSize); currentEnd = u64 (u64 (u64 (i + 1) * segmentSize) - 1) in
      if low > currentEnd then split_from ob segmentSize low high (i + 1) left
      else let currentStart = (if low > segStart then low else segStart);
               info = (\<lambda>e. \<lparr>spKey = SegmentPieceKey (oId ob) (u32 i) (oVersion ob), spOffset = u64 (currentStart - segStart),
                             spLength = u64 (u64 (e - currentStart) + 1)\<rparr>)
      in if high \<le> currentEnd then [info high]
         else info currentEnd # split_from ob segmentSize low high (i + 1) left)"

definition SplitToSegmentPieceInfos :: "GfSpDownloadObjectTask \<Rightarrow> SegmentPieceInfo list outcome" where
  "SplitToSegmentPieceInfos t =
     (let ob = do_ObjectInfo t; payload = oPayloadSize ob; segmentSize = MaxSegmentSize (do_StorageParams t) in
      if payload = 0 \<or> do_Low t \<ge> i64 payload \<or> do_High t \<ge> i64 payload \<or> do_High t < do_Low t then Fail ErrInvalidParam
      else case SegmentPieceCount payload segmentSize of
        None \<Rightarrow> Panic
      | Some segmentCount \<Rightarrow> Ok (split_from ob segmentSize (u64 (do_Low t)) (u64 (do_High t)) 0 (nat segmentCount)))"

subsection \<open>Reading\<close>

text \<open>
  The loop over the pieces.  When the store fails, the handler asks for the message of a variable that
  holds no error, which panics.
\<close>

fun fetch :: "('s, 'c) denv \<Rightarrow> SegmentPieceInfo list \<Rightarrow> 's \<Rightarrow> 'c \<Rightarrow> int list \<Rightarrow> int list outcome \<times> 'c" where
  "fetch env [] s c data = (Ok data, c)"
| "fetch env (p # ps) s c data =
     (let key = cacheKey (spKey p) (i64 (spOffset p)) (i64 (spLength p)) in
      case dCacheGet env c key of
        (Some x, c1) \<Rightarrow> fetch env ps s c1 (data @ x)
      | (None, c1) \<Rightarrow>
          (case GetPiece (dGet env) s (spKey p) (i64 (spOffset p)) (i64 (spLength p)) of
             Inl e \<Rightarrow> (Panic, c1)
           | Inr piece \<Rightarrow> fetch env ps s (dCacheAdd env c1 key piece) (data @ piece)))"

text \<open>The counter is back to its value when a handler returns, also after a panic.\<close>

definition HandleDownloadObjectTask ::
  "('s, 'c) denv \<Rightarrow> GfSpDownloadObjectTask \<Rightarrow> 's \<Rightarrow> 'c DownloadModular \<Rightarrow> (int list outcome \<times> Task) \<times> 'c DownloadModular" where
  "HandleDownloadObjectTask env t s d =
     (let fail = (\<lambda>e. ((Fail e, SetError (dUnmarshal env) (Some e) (DownloadObject t)), d)) in
      if i64 (downloading d + 1) \<ge> downloadParallel d then fail ErrExceedRequest
      else case SplitToSegmentPieceInfos t of
        Fail e \<Rightarrow> fail e
      | Panic \<Rightarrow> ((Panic, DownloadObject t), d)
      | Ok infos \<Rightarrow> (case fetch env infos s (pieceCache d) [] of (r, c) \<Rightarrow> ((r, DownloadObject t), d\<lparr>pieceCache := c\<rparr>)))"

definition HandleDownloadPieceTask ::
  "('s, 'c) denv \<Rightarrow> GfSpDownloadPieceTask \<Rightarrow> 's \<Rightarrow> 'c DownloadModular \<Rightarrow> (int list outcome \<times> Task) \<times> 'c DownloadModular" where
  "HandleDownloadPieceTask env t s d =
     (let fail = (\<lambda>ret e d1. ((Fail ret, SetError (dUnmarshal env) (Some e) (DownloadPiece t)), d1)) in
      if i64 (downloading d + 1) \<ge> downloadParallel d then fail ErrExceedRequest ErrExceedRequest d
      else case dCacheGet env (pieceCache d) (cacheKey (dp_PieceKey t) (i64 (dp_PieceOffset t)) (i64 (dp_PieceLength t))) of
        (Some x, c1) \<Rightarrow> ((Ok x, DownloadPiece t), d\<lparr>pieceCache := c1\<rparr>)
      | (None, c1) \<Rightarrow>
          (case GetPiece (dGet env) s (dp_PieceKey t) (i64 (dp_PieceOffset t)) (i64 (dp_PieceLength t)) of
             Inr x \<Rightarrow> ((Ok x, DownloadPiece t), d\<lparr>pieceCache := c1\<rparr>)
           | Inl e \<Rightarrow> fail (piece_store_error (dStoreMsg env e) (''failed to get piece data from piece store, task_info: '' @
                 dInfo env (DownloadPiece t) @ '', error: '' @ dStoreMsg env e)) (OtherErr (dStoreMsg env e)) (d\<lparr>pieceCache := c1\<rparr>)))"

text \<open>The data of a challenge: the integrity hash, the checksums of all pieces and the piece.\<close>

definition HandleChallengePiece ::
  "('s, 'c) denv \<Rightarrow> faults \<Rightarrow> metadb \<Rightarrow> GfSpChallengePieceTask \<Rightarrow> 's \<Rightarrow> 'c DownloadModular
    \<Rightarrow> ((int list \<times> int list list \<times> int list) outcome \<times> Task) \<times> 'c DownloadModular" where
  "HandleChallengePiece env fails mdb t s d =
     (let ob = cp_ObjectInfo t; fail = (\<lambda>ret e d1. ((Fail ret, SetError (dUnmarshal env) (Some e) (ChallengePiece t)), d1)) in
      if i64 (challenging d + 1) \<ge> challengeParallel d then fail ErrExceedRequest ErrExceedRequest d
      else let pieceKey = ChallengePieceKey (oId ob) (cp_SegmentIdx t) (cp_RedundancyIdx t) (oVersion ob) in
        case GetObjectIntegrity fails mdb (oId ob) (cp_RedundancyIdx t) of
          Inl e \<Rightarrow> fail (down_ErrGfSpDBWithDetail (''failed to get integrity hash, error: '' @ dDbMsg env e)) (OtherErr (dDbMsg env e)) d
        | Inr m \<Rightarrow>
            if cp_SegmentIdx t \<ge> int (length (imPieceChecksumList m)) then ((Fail ErrNoSuchPiece, ChallengePiece t), d)
            else case dCacheGet env (pieceCache d) (cacheKey pieceKey 0 (-1)) of
              (Some x, c1) \<Rightarrow> ((Ok (imIntegrityChecksum m, imPieceChecksumList m, x), ChallengePiece t), d\<lparr>pieceCache := c1\<rparr>)
            | (None, c1) \<Rightarrow>
                (case GetPiece (dGet env) s pieceKey 0 (-1) of
                   Inr x \<Rightarrow> ((Ok (imIntegrityChecksum m, imPieceChecksumList m, x), ChallengePiece t), d\<lparr>pieceCache := c1\<rparr>)
                 | Inl e \<Rightarrow> fail (piece_store_error (dStoreMsg env e) (''failed to get piece data, task: '' @ dInfo env (ChallengePiece t) @
                       '', error: '' @ dStoreMsg env e)) (OtherErr (dStoreMsg env e)) (d\<lparr>pieceCache := c1\<rparr>)))"

end
