(* ===== verification/SP_TransferProps.thy ===== *)
theory SP_TransferProps
  imports SP_Downloader SP_StoreProps
begin

text \<open>
  What an upload stores a download returns.  The upload loop is compared with a reference that cuts the
  bytes of the stream into chunks, whatever the reads of the stream were; the pieces of a range are
  given in closed form; both are put together over the contract of a piece store, for every store that
  satisfies it.
\<close>

subsection \<open>Chunks\<close>

function chunks :: "nat \<Rightarrow> 'a list \<Rightarrow> 'a list list" where
  "chunks n xs = (if n = 0 \<or> xs = [] then [] else take n xs # chunks n (drop n xs))"
  by pat_completeness auto
termination by (relation "measure (\<lambda>(_, xs). length xs)") auto

declare chunks.simps [simp del]

lemma chunks_Nil [simp]: "chunks n [] = []"
  by (simp add: chunks.simps)

lemma chunks_take: "0 < n \<Longrightarrow> xs \<noteq> [] \<Longrightarrow> chunks n xs = take n xs # chunks n (drop n xs)"
  by (subst chunks.simps) simp

lemma chunks_short: "xs \<noteq> [] \<Longrightarrow> length xs \<le> n \<Longrightarrow> chunks n xs = [xs]"
proof -
  assume a: "xs \<noteq> []" "length xs \<le> n"
  then have "0 < n" by (cases xs) auto
  with a show ?thesis by (simp add: chunks_take)
qed

lemma chunks_append: "length xs = n \<Longrightarrow> 0 < n \<Longrightarrow> chunks n (xs @ ys) = xs # chunks n ys"
  by (subst chunks_take) auto

lemma concat_chunks: "0 < n \<Longrightarrow> concat (chunks n xs) = xs"
proof (induction n xs rule: chunks.induct)
  case (1 n xs)
  then show ?case by (cases "xs = []") (auto simp: chunks_take)
qed

lemma length_chunks: "0 < n \<Longrightarrow> length (chunks n xs) * n < length xs + n \<and> length xs \<le> length (chunks n xs) * n"
proof (induction n xs rule: chunks.induct)
  case (1 n xs)
  show ?case
  proof (cases "xs = []")
    case False
    then have "length (chunks n (drop n xs)) * n < length (drop n xs) + n \<and> length (drop n xs) \<le> length (chunks n (drop n xs)) * n"
      using 1 by auto
    moreover have "chunks n (drop n xs) = []" if "length xs \<le> n" using that by simp
    ultimately show ?thesis using 1(2) False by (cases "length xs \<le> n") (auto simp: chunks_take)
  qed (use 1(2) in simp)
qed

lemma nth_chunks: "i < length (chunks n xs) \<Longrightarrow> chunks n xs ! i = take n (drop (i * n) xs)"
proof (induction n xs arbitrary: i rule: chunks.induct)
  case (1 n xs)
  then have "n \<noteq> 0" "xs \<noteq> []" by (auto simp: chunks.simps [of n xs] split: if_splits)
  then show ?case using 1 by (cases i) (auto simp: chunks_take add.commute)
qed

lemma chunk_index: "0 < n \<Longrightarrow> i < length (chunks n xs) \<longleftrightarrow> i * n < length xs"
proof -
  assume n: "0 < n"
  note l = length_chunks [OF n, of xs]
  have "i < length (chunks n xs) \<Longrightarrow> i * n + n \<le> length (chunks n xs) * n"
    using mult_le_mono1 [of "Suc i" "length (chunks n xs)" n] by simp
  moreover have "\<not> i < length (chunks n xs) \<Longrightarrow> length (chunks n xs) * n \<le> i * n" by simp
  ultimately show ?thesis using l by fastforce
qed

subsection \<open>Streams\<close>

fun stream_end :: "stream \<Rightarrow> stream_err" where
  "stream_end [] = EOF"
| "stream_end ((c, Some x) # st) = x"
| "stream_end ((c, None) # st) = stream_end st"

lemma read_full_end:
  "read_full n st = (d, e, st') \<Longrightarrow>
   (e = None \<and> stream_end st' = stream_end st) \<or> (e = Some (stream_end st) \<and> d = stream_data st \<and> length d \<le> n)"
proof (induction st arbitrary: n d e st')
  case (Cons ce st)
  obtain c x where ce: "ce = (c, x)" by (cases ce)
  obtain d1 e1 st1 where r: "read_full (n - length c) st = (d1, e1, st1)" by (cases "read_full (n - length c) st")
  show ?case
  proof (cases "n < length c \<or> x \<noteq> None \<or> length c = n")
    case True
    with Cons.prems ce show ?thesis by (cases x) (auto split: if_splits)
  next
    case False
    then have "e = e1" "d = c @ d1" "st' = st1" "x = None" using Cons.prems ce r by auto
    with False ce Cons.IH [of "n - length c" d1 e1 st1] r show ?thesis by auto
  qed
qed auto

lemma StreamReadAt_end:
  assumes "0 < n" and "StreamReadAt st n = (d, e, st')"
  obtains "e = None" "length d = n" "stream_data st = d @ stream_data st'" "stream_end st' = stream_end st"
    | "e = Some (stream_end st)" "d = stream_data st" "length d \<le> n"
proof -
  have "read_full n st = (d, e, st')" using assms by (simp add: StreamReadAt_def)
  from read_full_end [OF this] show ?thesis using that StreamReadAt_progress assms(2) by metis
qed

subsection \<open>The upload loop\<close>

text \<open>The reference: the pieces are stored in order under consecutive keys.\<close>

fun put_pieces ::
  "('s \<Rightarrow> string \<Rightarrow> int list \<Rightarrow> store_error + 's) \<Rightarrow> (int \<Rightarrow> string) \<Rightarrow> int \<Rightarrow> int list list \<Rightarrow> 's \<Rightarrow> store_error + 's" where
  "put_pieces put key i [] s = Inr s"
| "put_pieces put key i (d # ds) s =
     (case put s (key i) d of Inl e \<Rightarrow> Inl e | Inr s1 \<Rightarrow> put_pieces put key (u32 (i + 1)) ds s1)"

lemma upload_loop_chunks:
  assumes "stream_end st = EOF" and "0 < n"
    and "put_pieces (ePut env) (segment_key (uo_ObjectInfo t)) i (chunks n (stream_data st)) s = Inr s'"
  shows "upload_loop env t n st i cs rs s db =
    upload_finish env t (cs @ map (eChecksum env) (chunks n (stream_data st))) (i64 (rs + int (length (stream_data st)))) s' db"
  using assms(1,3)
proof (induction "length (stream_data st)" arbitrary: st i cs rs s rule: less_induct)
  case less
  obtain d e st' where r: "StreamReadAt st n = (d, e, st')" by (cases "StreamReadAt st n")
  show ?case
  proof (rule StreamReadAt_end [OF assms(2) r])
    assume a0: "e = None" "length d = n" "stream_data st = d @ stream_data st'" "stream_end st' = stream_end st"
    then have a: "e = None" "length d = n" "stream_data st = d @ stream_data st'" "stream_end st' = EOF"
      using less.prems(1) by simp_all
    then have c: "chunks n (stream_data st) = d # chunks n (stream_data st')"
      using chunks_append [of d n] assms(2) by simp
    then obtain s1 where s1: "ePut env s (segment_key (uo_ObjectInfo t) i) d = Inr s1"
      "put_pieces (ePut env) (segment_key (uo_ObjectInfo t)) (u32 (i + 1)) (chunks n (stream_data st')) s1 = Inr s'"
      using less.prems(2) by (auto split: sum.splits)
    have "length (stream_data st') < length (stream_data st)" using a assms(2) by simp
    from less.hyps [OF this a(4) s1(2)] show ?thesis
      using a c s1(1) by (simp add: upload_loop.simps [of env t n st] r PutPiece_def Let_def i64_add_left add.assoc)
  next
    assume "e = Some (stream_end st)" "d = stream_data st" "length d \<le> n"
    then have a: "e = Some EOF" "d = stream_data st" "length d \<le> n" using less.prems(1) by simp_all
    show ?thesis
    proof (cases "d = []")
      case True
      then show ?thesis using a less.prems(2) by (simp add: upload_loop.simps [of env t n st] r Let_def)
    next
      case False
      then have "chunks n (stream_data st) = [d]" using chunks_short [of d n] a by simp
      then show ?thesis using a False less.prems(2)
        by (auto simp: upload_loop.simps [of env t n st] r PutPiece_def Let_def split: sum.splits)
    qed
  qed
qed

subsection \<open>The pieces of a range\<close>

text \<open>The piece of the segment \<open>i\<close> in the range from \<open>low\<close> to \<open>high\<close>.\<close>

definition piece_of :: "ObjectInfo \<Rightarrow> int \<Rightarrow> int \<Rightarrow> int \<Rightarrow> int \<Rightarrow> SegmentPieceInfo" where
  "piece_of ob mx low high i =
     \<lparr>spKey = segment_key ob i, spOffset = max low (i * mx) - i * mx,
      spLength = min high ((i + 1) * mx - 1) - max low (i * mx) + 1\<rparr>"

lemma div_between: "0 < m \<Longrightarrow> i * m \<le> x \<Longrightarrow> x < (i + 1) * m \<Longrightarrow> x div m = i" for x m i :: int
  by (rule int_div_pos_eq [where r = "x - i * m"]) (auto simp: algebra_simps)

lemma div_ge: "0 < m \<Longrightarrow> (i + 1) * m \<le> x \<Longrightarrow> i + 1 \<le> x div m" for x m i :: int
  using zdiv_mono1 [of "(i + 1) * m" x m] by simp

lemma div_less: "0 < m \<Longrightarrow> x < (i + 1) * m \<Longrightarrow> x div m \<le> i" for x m i :: int
  using div_ge [of m i x] zdiv_mono1 [of x "(i + 1) * m - 1" m] div_between [of m i "(i + 1) * m - 1"] by (simp add: algebra_simps)

lemma div_bounds:
  fixes x m :: int
  assumes "0 < m"
  shows "(x div m) * m \<le> x" "x < (x div m + 1) * m"
proof -
  have "x = (x div m) * m + x mod m" "0 \<le> x mod m" "x mod m < m" using assms by simp_all
  then show "(x div m) * m \<le> x" "x < (x div m + 1) * m" unfolding distrib_right by linarith+
qed

lemma split_from_eq:
  assumes "0 < mx" and "0 \<le> low" and "low \<le> high"
  shows "0 \<le> i \<Longrightarrow> i * mx \<le> high \<Longrightarrow> high < (i + int left) * mx \<Longrightarrow> (i + int left) * mx \<le> MaxUint64 \<Longrightarrow> i + int left \<le> MaxUint32 \<Longrightarrow>
    split_from ob mx low high i left = map (piece_of ob mx low high) [max i (low div mx)..high div mx]"
proof (induction left arbitrary: i)
  case (Suc left)
  have step: "(i + 1) * mx \<le> (i + int (Suc left)) * mx" using assms(1) by (intro mult_right_mono) auto
  have nn: "0 \<le> i * mx" using Suc.prems(1) assms(1) by simp
  have e: "(i + 1) * mx = i * mx + mx" by (simp add: algebra_simps)
  have w: "u64 (i * mx) = i * mx" "u64 (i + 1) = i + 1" "u64 ((i + 1) * mx) = (i + 1) * mx"
      "u64 ((i + 1) * mx - 1) = (i + 1) * mx - 1" "u32 i = i"
    using Suc.prems(1,4,5) step nn e assms(1) by (intro u64_id u32_id; linarith)+
  have IH: "split_from ob mx low high (i + 1) left = map (piece_of ob mx low high) [max (i + 1) (low div mx)..high div mx]"
    if "(i + 1) * mx \<le> high"
    using Suc.IH [of "i + 1"] Suc.prems that by (simp add: algebra_simps)
  show ?case
  proof (cases "low > (i + 1) * mx - 1")
    case True
    then have "i + 1 \<le> low div mx" using div_ge [OF assms(1)] by simp
    then show ?thesis using True IH assms(3) w by (simp add: Let_def max_def)
  next
    case False
    then have lo: "max i (low div mx) = i" using div_less [OF assms(1), of low i] by simp
    have start: "(if low > i * mx then low else i * mx) = max low (i * mx)" by simp
    have len: "u64 (u64 (x - max low (i * mx)) + 1) = x - max low (i * mx) + 1" "u64 (max low (i * mx) - i * mx) = max low (i * mx) - i * mx"
      if m: "max low (i * mx) \<le> x" "x \<le> high" for x
    proof -
      have "0 \<le> x - max low (i * mx)" "x - max low (i * mx) + 1 < 18446744073709551616" "0 \<le> max low (i * mx) - i * mx" "max low (i * mx) - i * mx < 18446744073709551616"
        using m nn Suc.prems(3,4) assms(2) by linarith+
      then show "u64 (u64 (x - max low (i * mx)) + 1) = x - max low (i * mx) + 1" "u64 (max low (i * mx) - i * mx) = max low (i * mx) - i * mx"
        by (simp_all add: u64_id)
    qed
    show ?thesis
    proof (cases "high \<le> (i + 1) * mx - 1")
      case True
      then have "high div mx = i" using div_between [OF assms(1) Suc.prems(2)] by simp
      then show ?thesis using True False w lo len [of high] Suc.prems assms
        by (simp add: Let_def start piece_of_def segment_key_def min_def)
    next
      case False
      then have "i + 1 \<le> high div mx" using div_ge [OF assms(1)] by simp
      then have "[i..high div mx] = i # [i + 1..high div mx]" by (simp add: upto_rec1)
      moreover have "max (i + 1) (low div mx) = i + 1" using lo by simp
      ultimately show ?thesis using False \<open>\<not> low > (i + 1) * mx - 1\<close> w lo len [of "(i + 1) * mx - 1"] IH assms e
        by (simp add: Let_def start piece_of_def segment_key_def min_def)
    qed
  qed
qed (use assms in simp)

text \<open>A download task over a range of an object whose size is in bounds.\<close>

definition range_ok :: "GfSpDownloadObjectTask \<Rightarrow> bool" where
  "range_ok t \<longleftrightarrow> payload_ok (oPayloadSize (do_ObjectInfo t)) (MaxSegmentSize (do_StorageParams t))
     \<and> 0 \<le> do_Low t \<and> do_Low t \<le> do_High t \<and> do_High t < oPayloadSize (do_ObjectInfo t)"

lemma split_closed_form:
  assumes "range_ok t"
  shows "SplitToSegmentPieceInfos t = Ok (map (piece_of (do_ObjectInfo t) (MaxSegmentSize (do_StorageParams t)) (do_Low t) (do_High t))
    [do_Low t div MaxSegmentSize (do_StorageParams t)..do_High t div MaxSegmentSize (do_StorageParams t)])"
proof -
  define ob mx p lo hi where d: "ob = do_ObjectInfo t" "mx = MaxSegmentSize (do_StorageParams t)" "p = oPayloadSize ob" "lo = do_Low t" "hi = do_High t"
  note a = assms [unfolded range_ok_def, folded d(1), folded d(2-)]
  have pk: "payload_ok p mx" and mx: "0 < mx" and p: "0 < p" "p \<le> MaxInt64" "mx \<le> MaxInt64" using a by (auto simp: payload_ok_def)
  note c = SegmentPieceCount_ceil [OF pk]
  have cb: "p \<le> ceil_div p mx * mx" "ceil_div p mx * mx \<le> p + mx - 1" using ceil_div_bounds [OF mx, of p] p by auto
  have "split_from ob mx lo hi 0 (nat (ceil_div p mx)) = map (piece_of ob mx lo hi) [max 0 (lo div mx)..hi div mx]"
    using c cb a p by (intro split_from_eq mx) auto
  moreover have "0 \<le> lo div mx" using a mx by (simp add: pos_imp_zdiv_nonneg_iff)
  moreover have "u64 lo = lo" "u64 hi = hi" "i64 p = p" using a p by (auto intro!: u64_id i64_id)
  ultimately show ?thesis
    unfolding SplitToSegmentPieceInfos_def d [symmetric] using c(1) a p by (simp add: Let_def d [symmetric] max_def)
qed

text \<open>The bytes of the pieces, put together, are the bytes of the range.\<close>

definition segment :: "int \<Rightarrow> int list \<Rightarrow> int \<Rightarrow> int list" where
  "segment mx D i = take (nat mx) (drop (nat (i * mx)) D)"

definition piece_bytes :: "int \<Rightarrow> int list \<Rightarrow> SegmentPieceInfo \<Rightarrow> int \<Rightarrow> int list" where
  "piece_bytes mx D p i = take (nat (spLength p)) (drop (nat (spOffset p)) (segment mx D i))"

lemma piece_bytes_eq:
  assumes "0 < mx" "0 \<le> i" "0 \<le> low" "max low (i * mx) \<le> min high ((i + 1) * mx - 1)"
  shows "piece_bytes mx D (piece_of ob mx low high i) i =
    take (nat (min high ((i + 1) * mx - 1) + 1 - max low (i * mx))) (drop (nat (max low (i * mx))) D)"
proof -
  define a b where ab: "a = max low (i * mx)" "b = min high ((i + 1) * mx - 1)"
  have nn: "0 \<le> i * mx" using assms by simp
  have le: "i * mx \<le> a" "a \<le> b" "b < i * mx + mx" using assms(4) unfolding ab by (auto simp: algebra_simps)
  have "nat (a - i * mx) + nat (i * mx) = nat a" "nat (b - a + 1) \<le> nat mx - nat (a - i * mx)" using le nn by auto
  then show ?thesis
    unfolding piece_bytes_def segment_def piece_of_def ab [symmetric]
    by (simp add: drop_take min_absorb1 algebra_simps)
qed

lemma pieces_cover:
  assumes "0 < mx" "0 \<le> low" "low \<le> high"
  shows "low div mx \<le> i \<Longrightarrow> i \<le> high div mx \<Longrightarrow>
    concat (map (\<lambda>j. piece_bytes mx D (piece_of ob mx low high j) j) [i..high div mx]) =
    take (nat (high + 1 - max low (i * mx))) (drop (nat (max low (i * mx))) D)"
proof (induction "nat (high div mx - i)" arbitrary: i)
  case 0
  then have i: "i = high div mx" by simp
  have b: "i * mx \<le> high" "high < (i + 1) * mx"
    using div_bounds [OF assms(1), of high] i by simp_all
  have "0 \<le> i" using 0(2) assms by (meson order_trans pos_imp_zdiv_nonneg_iff)
  then show ?case using piece_bytes_eq [OF assms(1) _ assms(2), of i high D ob] b i assms by (simp add: min_def)
next
  case (Suc k)
  have i0: "0 \<le> i" using Suc.prems(1) assms by (meson order_trans pos_imp_zdiv_nonneg_iff)
  have "i + 1 \<le> high div mx" using Suc(2) by simp
  then have hi: "(i + 1) * mx \<le> high" using mult_right_mono [of "i + 1" "high div mx" mx] div_bounds(1) [OF assms(1), of high] assms(1) by linarith
  have lo: "low < (i + 1) * mx"
    using Suc.prems(1) assms(1) div_ge [of mx i low] by linarith
  define a where "a = max low (i * mx)"
  have ab: "a < (i + 1) * mx" "0 \<le> a" "max low ((i + 1) * mx) = (i + 1) * mx" using lo assms by (auto simp: a_def algebra_simps)
  have p: "piece_bytes mx D (piece_of ob mx low high i) i = take (nat ((i + 1) * mx - a)) (drop (nat a) D)"
    using piece_bytes_eq [OF assms(1) i0 assms(2), of high D ob] ab hi by (simp add: a_def min_def)
  have r: "concat (map (\<lambda>j. piece_bytes mx D (piece_of ob mx low high j) j) [i + 1..high div mx]) =
      take (nat (high + 1 - (i + 1) * mx)) (drop (nat ((i + 1) * mx)) D)"
    using Suc.hyps(1) [of "i + 1"] Suc.hyps(2) Suc.prems ab(3) by simp
  have l: "[i..high div mx] = i # [i + 1..high div mx]" using Suc.prems by (simp add: upto_rec1)
  have n: "nat ((i + 1) * mx) = nat a + nat ((i + 1) * mx - a)" "nat (high + 1 - a) = nat ((i + 1) * mx - a) + nat (high + 1 - (i + 1) * mx)"
    using ab hi by auto
  show ?case unfolding l a_def [symmetric] list.map concat.simps p r n by (simp add: take_add add.commute)
qed

subsection \<open>Reading through the cache\<close>

text \<open>
  What the library documents of the cache, for the set of its entries: a lookup returns an entry and
  adds none, an addition adds one entry and may drop others.
\<close>

definition cache_laws ::
  "('c \<Rightarrow> string \<Rightarrow> int list option \<times> 'c) \<Rightarrow> ('c \<Rightarrow> string \<Rightarrow> int list \<Rightarrow> 'c) \<Rightarrow> ('c \<Rightarrow> (string \<times> int list) set) \<Rightarrow> bool" where
  "cache_laws cget cadd entries \<longleftrightarrow>
     (\<forall>c k. entries (snd (cget c k)) \<subseteq> entries c \<and> (\<forall>x. fst (cget c k) = Some x \<longrightarrow> (k, x) \<in> entries c))
     \<and> (\<forall>c k x. entries (cadd c k x) \<subseteq> insert (k, x) (entries c))"

definition plain :: "string \<Rightarrow> bool" where
  "plain k \<longleftrightarrow> CHR ''-'' \<notin> set k"

text \<open>Every entry is what the store returns.\<close>

definition coherent :: "('c \<Rightarrow> (string \<times> int list) set) \<Rightarrow> ('s \<Rightarrow> string \<Rightarrow> int \<Rightarrow> int \<Rightarrow> store_error + int list) \<Rightarrow> 's \<Rightarrow> 'c \<Rightarrow> bool" where
  "coherent entries get s c \<longleftrightarrow>
     (\<forall>k off len x. plain k \<longrightarrow> 0 \<le> off \<longrightarrow> (cacheKey k off len, x) \<in> entries c \<longrightarrow> get s k off len = Inr x)"

lemma cacheKey_inject:
  assumes "plain k" "plain k'" "0 \<le> off" "0 \<le> off'"
  shows "cacheKey k off len = cacheKey k' off' len' \<longleftrightarrow> k = k' \<and> off = off' \<and> len = len'"
proof -
  have "CHR ''-'' \<notin> set (show_int off)" "CHR ''-'' \<notin> set (show_int off')"
    using assms not_in_show_nat [of "CHR ''-''"] by (simp_all add: show_int_def)
  then show ?thesis using assms(1,2) by (auto simp: cacheKey_def plain_def append_sep)
qed

lemma plain_segment_key: "0 \<le> oId ob \<Longrightarrow> 0 \<le> i \<Longrightarrow> 0 \<le> oVersion ob \<Longrightarrow> plain (segment_key ob i)"
  using not_in_show_nat [of "CHR ''-''"] by (simp add: plain_def segment_key_def SegmentPieceKey_def show_int_def)

lemma coherent_get: "cache_laws cget cadd entries \<Longrightarrow> coherent entries get s c \<Longrightarrow> coherent entries get s (snd (cget c k))"
  unfolding cache_laws_def coherent_def by blast

lemma coherent_hit:
  "cache_laws cget cadd entries \<Longrightarrow> coherent entries get s c \<Longrightarrow> plain k \<Longrightarrow> 0 \<le> off \<Longrightarrow>
   fst (cget c (cacheKey k off len)) = Some x \<Longrightarrow> get s k off len = Inr x"
  unfolding cache_laws_def coherent_def by blast

lemma coherent_add:
  assumes "cache_laws cget cadd entries" "coherent entries get s c" "plain k" "0 \<le> off" "get s k off len = Inr x"
  shows "coherent entries get s (cadd c (cacheKey k off len) x)"
  unfolding coherent_def
proof (intro allI impI)
  fix k' off' len' y assume a: "plain k'" "0 \<le> off'" "(cacheKey k' off' len', y) \<in> entries (cadd c (cacheKey k off len) x)"
  then consider "(cacheKey k' off' len', y) \<in> entries c" | "cacheKey k' off' len' = cacheKey k off len" "y = x"
    using assms(1) unfolding cache_laws_def by blast
  then show "get s k' off' len' = Inr y"
  proof cases
    case 1
    then show ?thesis using assms(2) a unfolding coherent_def by blast
  next
    case 2
    then show ?thesis using cacheKey_inject [OF a(1) assms(3) a(2) assms(4)] assms(5) by simp
  qed
qed

text \<open>A piece the loop can read.\<close>

definition readable :: "('s \<Rightarrow> string \<Rightarrow> int \<Rightarrow> int \<Rightarrow> store_error + int list) \<Rightarrow> 's \<Rightarrow> SegmentPieceInfo \<Rightarrow> int list \<Rightarrow> bool" where
  "readable get s p x \<longleftrightarrow> plain (spKey p) \<and> is_i64 (spOffset p) \<and> is_i64 (spLength p) \<and> 0 \<le> spOffset p \<and> get s (spKey p) (spOffset p) (spLength p) = Inr x"

lemma fetch_all:
  assumes "cache_laws (dCacheGet env) (dCacheAdd env) entries"
  shows "coherent entries (dGet env) s c \<Longrightarrow> list_all2 (readable (dGet env) s) ps xs \<Longrightarrow>
    \<exists>c'. fetch env ps s c data = (Ok (data @ concat xs), c') \<and> coherent entries (dGet env) s c'"
proof (induction ps arbitrary: c data xs)
  case (Cons p ps)
  obtain x ys where xs: "xs = x # ys" "readable (dGet env) s p x" "list_all2 (readable (dGet env) s) ps ys"
    using Cons.prems(2) by (auto simp: list_all2_Cons1)
  then have p: "plain (spKey p)" "0 \<le> spOffset p" "i64 (spOffset p) = spOffset p" "i64 (spLength p) = spLength p"
      "dGet env s (spKey p) (spOffset p) (spLength p) = Inr x"
    by (simp_all add: readable_def is_i64_def i64_id)
  define key where "key = cacheKey (spKey p) (spOffset p) (spLength p)"
  obtain v c1 where v: "dCacheGet env c key = (v, c1)" by (cases "dCacheGet env c key")
  have c1: "coherent entries (dGet env) s c1" using coherent_get [OF assms Cons.prems(1), of key] v by simp
  show ?case
  proof (cases v)
    case None
    have "coherent entries (dGet env) s (dCacheAdd env c1 key x)"
      unfolding key_def by (rule coherent_add [OF assms c1 p(1,2,5)])
    from Cons.IH [OF this xs(3), of "data @ x"] show ?thesis
      using None v p xs by (simp add: Let_def key_def [symmetric] GetPiece_def)
  next
    case (Some y)
    then have "x = y" using coherent_hit [OF assms Cons.prems(1) p(1,2), of "spLength p"] v p(5) unfolding key_def by simp
    then show ?thesis using Cons.IH [OF c1 xs(3), of "data @ x"] Some v p xs by (simp add: Let_def key_def [symmetric])
  qed
qed simp

subsection \<open>Downloads\<close>

text \<open>The store holds the bytes \<open>D\<close> of an object in segments of \<open>mx\<close> bytes.\<close>

definition holds :: "('s \<Rightarrow> string \<Rightarrow> int \<Rightarrow> int \<Rightarrow> store_error + int list) \<Rightarrow> 's \<Rightarrow> ObjectInfo \<Rightarrow> int \<Rightarrow> int list \<Rightarrow> bool" where
  "holds get s ob mx D \<longleftrightarrow>
     (\<forall>i off len. 0 \<le> i \<longrightarrow> i * mx < int (length D) \<longrightarrow> 0 \<le> off \<longrightarrow> 0 < len \<longrightarrow> off < int (length (segment mx D i)) \<longrightarrow>
        get s (segment_key ob i) off len = Inr (take (nat len) (drop (nat off) (segment mx D i))))"

definition object_ok :: "ObjectInfo \<Rightarrow> bool" where
  "object_ok ob \<longleftrightarrow> 0 \<le> oId ob \<and> 0 \<le> oVersion ob"

lemma length_segment: "0 < mx \<Longrightarrow> 0 \<le> i \<Longrightarrow> i * mx < int (length D) \<Longrightarrow> int (length (segment mx D i)) = min mx (int (length D) - i * mx)"
  by (simp add: segment_def of_nat_min of_nat_diff nat_le_iff)

lemma piece_readable:
  assumes "range_ok t" "object_ok (do_ObjectInfo t)" "length D = nat (oPayloadSize (do_ObjectInfo t))"
    and "holds get s (do_ObjectInfo t) (MaxSegmentSize (do_StorageParams t)) D"
    and "do_Low t div MaxSegmentSize (do_StorageParams t) \<le> i" "i \<le> do_High t div MaxSegmentSize (do_StorageParams t)"
  shows "readable get s (piece_of (do_ObjectInfo t) (MaxSegmentSize (do_StorageParams t)) (do_Low t) (do_High t) i)
    (piece_bytes (MaxSegmentSize (do_StorageParams t)) D
      (piece_of (do_ObjectInfo t) (MaxSegmentSize (do_StorageParams t)) (do_Low t) (do_High t) i) i)"
proof -
  define ob mx lo hi where d: "ob = do_ObjectInfo t" "mx = MaxSegmentSize (do_StorageParams t)" "lo = do_Low t" "hi = do_High t"
  note a = assms [unfolded range_ok_def payload_ok_def object_ok_def, folded d]
  have mx: "0 < mx" and lo: "0 \<le> lo" "lo \<le> hi" and D: "int (length D) = oPayloadSize ob" "hi < int (length D)" using a by auto
  have i0: "0 \<le> i" using a(5) mx lo by (meson order_trans pos_imp_zdiv_nonneg_iff)
  have b: "i * mx \<le> hi" using mult_right_mono [OF a(6), of mx] div_bounds(1) [OF mx, of hi] mx by linarith
  have c: "lo < (i + 1) * mx" using div_ge [OF mx, of i lo] a(5) by linarith
  define p where "p = piece_of ob mx lo hi i"
  have nn: "0 \<le> i * mx" using i0 mx by simp
  have o1: "0 \<le> spOffset p" "spOffset p < mx" "spOffset p < int (length D) - i * mx" "0 < spLength p" "spLength p \<le> mx"
    using b c lo D(2) mx by (auto simp: p_def piece_of_def algebra_simps)
  have seg: "spOffset p < int (length (segment mx D i))" using o1 length_segment [OF mx i0, of D] b D by simp
  have "get s (segment_key ob i) (spOffset p) (spLength p) = Inr (piece_bytes mx D p i)"
    using a(4) i0 b D o1 seg unfolding holds_def piece_bytes_def by auto
  moreover have "spKey p = segment_key ob i" by (simp add: p_def piece_of_def)
  moreover have "is_i64 (spOffset p)" "is_i64 (spLength p)" using o1 a(1) by (auto simp: is_i64_def)
  ultimately show ?thesis using plain_segment_key [of ob i] a(2) i0 o1
    unfolding d [symmetric] p_def [symmetric] readable_def by simp
qed

lemma download_ok:
  assumes "range_ok t" "object_ok (do_ObjectInfo t)" "length D = nat (oPayloadSize (do_ObjectInfo t))"
    and "holds (dGet env) s (do_ObjectInfo t) (MaxSegmentSize (do_StorageParams t)) D"
    and "cache_laws (dCacheGet env) (dCacheAdd env) entries" and "coherent entries (dGet env) s (pieceCache dm)"
    and "i64 (downloading dm + 1) < downloadParallel dm"
  shows "\<exists>c. HandleDownloadObjectTask env t s dm =
      ((Ok (take (nat (do_High t + 1 - do_Low t)) (drop (nat (do_Low t)) D)), DownloadObject t), dm\<lparr>pieceCache := c\<rparr>)
      \<and> coherent entries (dGet env) s c"
proof -
  define ob mx lo hi where d: "ob = do_ObjectInfo t" "mx = MaxSegmentSize (do_StorageParams t)" "lo = do_Low t" "hi = do_High t"
  have a: "0 < mx" "0 \<le> lo" "lo \<le> hi" using assms(1) unfolding range_ok_def payload_ok_def d by auto
  define js where "js = [lo div mx..hi div mx]"
  have "list_all2 (readable (dGet env) s) (map (piece_of ob mx lo hi) js) (map (\<lambda>j. piece_bytes mx D (piece_of ob mx lo hi j) j) js)"
    using piece_readable [OF assms(1-4)] unfolding d [symmetric] by (simp add: list_all2_map1 list_all2_map2 list_all2_same js_def)
  from fetch_all [OF assms(5,6) this, of "[]"]
  obtain c where c: "fetch env (map (piece_of ob mx lo hi) js) s (pieceCache dm) [] =
      (Ok (concat (map (\<lambda>j. piece_bytes mx D (piece_of ob mx lo hi j) j) js)), c)" "coherent entries (dGet env) s c" by auto
  have m: "max lo (lo div mx * mx) = lo" using div_bounds(1) [OF a(1), of lo] by (simp add: max_def)
  have "concat (map (\<lambda>j. piece_bytes mx D (piece_of ob mx lo hi j) j) js) = take (nat (hi + 1 - lo)) (drop (nat lo) D)"
    using pieces_cover [OF a, of "lo div mx" D ob] zdiv_mono1 [OF a(3,1)] unfolding js_def m by simp
  then show ?thesis
    using c assms(7) split_closed_form [OF assms(1)] unfolding HandleDownloadObjectTask_def d [symmetric] js_def [symmetric]
    by (auto simp: Let_def)
qed

subsection \<open>Uploads\<close>

lemma upload_finish_Ok:
  "outRet (upload_finish env t cs rs s db) = Ok () \<Longrightarrow> u64 rs = oPayloadSize (uo_ObjectInfo t) \<and> outStore (upload_finish env t cs rs s db) = s"
  by (auto simp: upload_finish_def mark_done_def Let_def split: if_splits prod.splits option.splits)

lemma segment_chunk:
  assumes "0 < mx" "int (length D) = p" "0 < p" "0 \<le> i" "i * mx < p"
  shows "nat i < length (chunks (nat (min p mx)) D)" "chunks (nat (min p mx)) D ! nat i = segment mx D i"
proof -
  define n where "n = nat (min p mx)"
  have n: "0 < n" using assms by (simp add: n_def)
  have i: "int (nat i * n) = i * min p mx" using assms by (simp add: n_def)
  moreover have "i * min p mx \<le> i * mx" using assms by (intro mult_left_mono) auto
  ultimately have "int (nat i * n) < int (length D)" using assms by linarith
  then show l: "nat i < length (chunks (nat (min p mx)) D)" unfolding n_def [symmetric] chunk_index [OF n] by linarith
  show "chunks (nat (min p mx)) D ! nat i = segment mx D i"
  proof (cases "p \<le> mx")
    case True
    have "\<not> 1 \<le> i" using mult_right_mono [of 1 i mx] assms(1,5) True by linarith
    then have "i = 0" using assms(4) by simp
    then show ?thesis using nth_chunks [OF l] True assms by (simp add: segment_def)
  next
    case False
    then show ?thesis using nth_chunks [OF l] assms by (simp add: segment_def nat_mult_distrib min_def)
  qed
qed

definition seg_size :: "GfSpUploadObjectTask \<Rightarrow> nat" where
  "seg_size t = nat (min (oPayloadSize (uo_ObjectInfo t)) (MaxSegmentSize (uo_StorageParams t)))"

definition upload_ok :: "GfSpUploadObjectTask \<Rightarrow> bool" where
  "upload_ok t \<longleftrightarrow> payload_ok (oPayloadSize (uo_ObjectInfo t)) (MaxSegmentSize (uo_StorageParams t)) \<and> 0 < oPayloadSize (uo_ObjectInfo t)"

lemma seg_size_pos: "upload_ok t \<Longrightarrow> 0 < seg_size t"
  by (simp add: upload_ok_def payload_ok_def seg_size_def)

lemma MaxSegmentPieceSize_nat:
  "upload_ok t \<Longrightarrow> MaxSegmentPieceSize (oPayloadSize (uo_ObjectInfo t)) (MaxSegmentSize (uo_StorageParams t)) = int (seg_size t)"
  by (auto simp: MaxSegmentPieceSize_def seg_size_def upload_ok_def payload_ok_def i64_id)

lemma handle_fields:
  assumes "upload_ok t" and "fst (queue_Push (UploadObject t) q) = None" and out_def: "out = upload_loop env t (seg_size t) st 0 [] 0 s db"
  shows "resRet (HandleUploadObjectTask env t st q s db) = outRet out"
    and "resStore (HandleUploadObjectTask env t st q s db) = outStore out"
    and "resDB (HandleUploadObjectTask env t st q s db) = outDB out"
    and "resReject (HandleUploadObjectTask env t st q s db) = outReject out"
    and "resReported (HandleUploadObjectTask env t st q s db) =
      Some (AppendLog (eStamp env) ''uploader-report-upload-task'' (report env (outErr out) (UploadObject t)))"
proof -
  obtain q1 where q1: "queue_Push (UploadObject t) q = (None, q1)" using assms(2) by (metis prod.collapse)
  show "resRet (HandleUploadObjectTask env t st q s db) = outRet out" "resStore (HandleUploadObjectTask env t st q s db) = outStore out"
    "resDB (HandleUploadObjectTask env t st q s db) = outDB out" "resReject (HandleUploadObjectTask env t st q s db) = outReject out"
    "resReported (HandleUploadObjectTask env t st q s db) =
      Some (AppendLog (eStamp env) ''uploader-report-upload-task'' (report env (outErr out) (UploadObject t)))"
    using q1 MaxSegmentPieceSize_nat [OF assms(1)] by (simp_all add: HandleUploadObjectTask_def Let_def out_def)
qed

lemma handle_refused:
  "fst (queue_Push (UploadObject t) q) = Some e \<Longrightarrow> resRet (HandleUploadObjectTask env t st q s db) = Fail (queue_err e) \<and>
    resStore (HandleUploadObjectTask env t st q s db) = s \<and> resDB (HandleUploadObjectTask env t st q s db) = db"
  by (auto simp: HandleUploadObjectTask_def split: prod.splits option.splits)

context object_store
begin

lemma put_pieces_ok:
  "inv s \<Longrightarrow> (\<And>i. 0 \<le> i \<Longrightarrow> ok_key (key i)) \<Longrightarrow> 0 \<le> i \<Longrightarrow> \<exists>s'. put_pieces put key i ds s = Inr s' \<and> inv s'"
proof (induction ds arbitrary: s i)
  case (Cons d ds)
  obtain s1 where "put s (key i) d = Inr s1" "inv s1" using put_ok [of s "key i" d] Cons.prems by auto
  then show ?case using Cons.IH [of s1 "u32 (i + 1)"] Cons.prems by (simp add: u32_def)
qed simp

lemma put_pieces_all:
  "0 \<le> i \<Longrightarrow> i + int (length ds) \<le> MaxUint32 \<Longrightarrow> put_pieces put key i ds s = put_all (zip (map key [i..i + int (length ds) - 1]) ds) s"
proof (induction ds arbitrary: i s)
  case (Cons d ds)
  have "[i..i + int (length (d # ds)) - 1] = i # [i + 1..i + int (length (d # ds)) - 1]" by (simp add: upto_rec1)
  moreover have "u32 (i + 1) = i + 1" using Cons.prems by (intro u32_id) auto
  ultimately show ?case using Cons.IH [of "i + 1"] Cons.prems by (simp add: algebra_simps split: sum.splits)
qed simp

lemma put_pieces_get:
  assumes "inv s" "\<And>i. 0 \<le> i \<Longrightarrow> ok_key (key i)" "inj key" "int (length ds) \<le> MaxUint32" "put_pieces put key 0 ds s = Inr s'"
    and "j < length ds" "0 \<le> off" "0 < len" "off < int (length (ds ! j))"
  shows "get s' (key (int j)) off len = Inr (take (nat len) (drop (nat off) (ds ! j)))"
proof -
  let ?kvs = "zip (map key [0..int (length ds) - 1]) ds"
  have p: "put_all ?kvs s = Inr s'" using put_pieces_all [of 0 ds key s] assms(4,5) by simp
  have k: "map fst ?kvs = map key [0..int (length ds) - 1]" by simp
  then have "distinct (map fst ?kvs)" using assms(3) by (simp add: distinct_map inj_on_subset [OF _ subset_UNIV])
  moreover have "\<forall>k \<in> fst ` set ?kvs. ok_key k"
    using assms(2) k by (metis (no_types, lifting) atLeastAtMost_iff imageE list.set_map set_upto)
  moreover have "(key (int j), ds ! j) \<in> set ?kvs"
    using assms(6) by (auto simp: in_set_conv_nth intro!: exI [of _ j])
  ultimately show ?thesis using put_all_get [OF assms(1) _ _ p] assms(7-9) by blast
qed

lemma upload_runs:
  assumes "inv s" "\<And>i. 0 \<le> i \<Longrightarrow> ok_key (segment_key (uo_ObjectInfo t) i)" "ePut env = put" "upload_ok t" "stream_end st = EOF"
  obtains s' where "put_pieces put (segment_key (uo_ObjectInfo t)) 0 (chunks (seg_size t) (stream_data st)) s = Inr s'"
    "upload_loop env t (seg_size t) st 0 [] 0 s db =
      upload_finish env t (map (eChecksum env) (chunks (seg_size t) (stream_data st))) (i64 (int (length (stream_data st)))) s' db"
proof -
  obtain s' where s': "put_pieces put (segment_key (uo_ObjectInfo t)) 0 (chunks (seg_size t) (stream_data st)) s = Inr s'"
    using put_pieces_ok [OF assms(1), of "segment_key (uo_ObjectInfo t)" 0] assms(2) by auto
  from that [OF this] show ?thesis
    using upload_loop_chunks [OF assms(5) seg_size_pos [OF assms(4)], of env t 0 s s' "[]" 0 db] s' assms(3) by simp
qed

lemma upload_stores:
  assumes "inv s" "\<And>i. 0 \<le> i \<Longrightarrow> ok_key (segment_key (uo_ObjectInfo t) i)" "ePut env = put" "upload_ok t"
    and "stream_end st = EOF" "int (length (stream_data st)) \<le> MaxUint64"
    and "resRet (HandleUploadObjectTask env t st q s db) = Ok ()"
  shows "holds get (resStore (HandleUploadObjectTask env t st q s db)) (uo_ObjectInfo t) (MaxSegmentSize (uo_StorageParams t)) (stream_data st)"
    and "int (length (stream_data st)) = oPayloadSize (uo_ObjectInfo t)"
proof -
  define ob mx p D n where d: "ob = uo_ObjectInfo t" "mx = MaxSegmentSize (uo_StorageParams t)" "p = oPayloadSize ob" "D = stream_data st" "n = seg_size t"
  have b: "0 < mx" "0 < p" "p div mx < MaxUint32" "n = nat (min p mx)" using assms(4) unfolding upload_ok_def payload_ok_def seg_size_def d by auto
  have n: "0 < n" using seg_size_pos [OF assms(4)] d by simp
  have "fst (queue_Push (UploadObject t) q) = None" using handle_refused [of t q _ env st s db] assms(7) by fastforce
  note h = handle_fields [OF assms(4) this refl, of env st s db]
  obtain s' where s': "put_pieces put (segment_key ob) 0 (chunks n D) s = Inr s'"
      and loop: "upload_loop env t n st 0 [] 0 s db = upload_finish env t (map (eChecksum env) (chunks n D)) (i64 (int (length D))) s' db"
    using upload_runs [OF assms(1-5), where db = db] unfolding d by blast
  have f: "u64 (i64 (int (length D))) = p" "outStore (upload_loop env t n st 0 [] 0 s db) = s'"
    using upload_finish_Ok [of env t "map (eChecksum env) (chunks n D)" "i64 (int (length D))" s' db] loop h(1) assms(7) unfolding d by simp_all
  then show len: "int (length (stream_data st)) = oPayloadSize (uo_ObjectInfo t)"
    using assms(6) unfolding u64_i64 d by (simp add: u64_id)
  have count: "int (length (chunks n D)) \<le> MaxUint32"
  proof -
    have "int (length (chunks n D)) * int n < p + int n"
      using length_chunks [OF n, of D] len unfolding d by (metis of_nat_add of_nat_less_iff of_nat_mult)
    moreover have "0 \<le> p div mx" using b by (simp add: pos_imp_zdiv_nonneg_iff)
    then have "(p div mx + 1) * int n \<ge> p" using div_bounds(2) [OF b(1), of p] b by (auto simp: min_def)
    ultimately have "int (length (chunks n D)) * int n < (p div mx + 2) * int n" by (simp add: algebra_simps)
    then have "int (length (chunks n D)) < p div mx + 2" using n by (simp add: mult_less_cancel_right)
    then show ?thesis using b(3) by simp
  qed
  have lenD: "int (length D) = p" using len unfolding d .
  show "holds get (resStore (HandleUploadObjectTask env t st q s db)) (uo_ObjectInfo t) (MaxSegmentSize (uo_StorageParams t)) (stream_data st)"
    unfolding h(2) f(2) [unfolded d(5)] d(1,2,4) [symmetric] holds_def
  proof (intro allI impI)
    fix i off len :: int assume i: "0 \<le> i" "i * mx < int (length D)" "0 \<le> off" "0 < len" "off < int (length (segment mx D i))"
    note c = segment_chunk [OF b(1) lenD b(2) i(1), folded b(4)]
    have "inj (segment_key ob)" by (auto simp: inj_def segment_key_def SegmentPieceKey_inject)
    then have "get s' (segment_key ob (int (nat i))) off len = Inr (take (nat len) (drop (nat off) (chunks n D ! nat i)))"
      using c i lenD assms(2) unfolding d(1) by (intro put_pieces_get [OF assms(1) _ _ count s' [unfolded d(1)]]) auto
    then show "get s' (segment_key ob i) off len = Inr (take (nat len) (drop (nat off) (segment mx D i)))" using c i lenD by simp
  qed
qed

end

text \<open>The database changes only after the whole stream has been read.\<close>

lemma upload_loop_db:
  assumes "0 < n"
  shows "outDB (upload_loop env t n st i cs rs s db) = db \<or>
    stream_end st = EOF \<and> (\<exists>s'. upload_loop env t n st i cs rs s db =
      upload_finish env t (cs @ map (eChecksum env) (chunks n (stream_data st))) (i64 (rs + int (length (stream_data st)))) s' db)"
proof (induction "length (stream_data st)" arbitrary: st i cs rs s rule: less_induct)
  case less
  obtain d e st' where r: "StreamReadAt st n = (d, e, st')" by (cases "StreamReadAt st n")
  note loop = upload_loop.simps [of env t n st i cs rs s db, unfolded r]
  show ?case
  proof (rule StreamReadAt_end [OF assms r])
    assume a: "e = None" "length d = n" "stream_data st = d @ stream_data st'" "stream_end st' = stream_end st"
    have c: "chunks n (stream_data st) = d # chunks n (stream_data st')" using chunks_append [of d n] assms a by simp
    have l: "length (stream_data st') < length (stream_data st)" using a assms by simp
    show ?thesis
    proof (cases "ePut env s (segment_key (uo_ObjectInfo t) i) d")
      case (Inl er)
      then show ?thesis using a by (simp add: loop PutPiece_def Let_def put_failed_def)
    next
      case (Inr s1)
      then have "upload_loop env t n st i cs rs s db =
          upload_loop env t n st' (u32 (i + 1)) (cs @ [eChecksum env d]) (i64 (rs + int (length d))) s1 db"
        using a by (simp add: loop PutPiece_def Let_def)
      then show ?thesis using less [OF l, of "u32 (i + 1)" "cs @ [eChecksum env d]" "i64 (rs + int (length d))" s1] a c
        by (simp add: i64_add_left add.assoc)
    qed
  next
    assume a: "e = Some (stream_end st)" "d = stream_data st" "length d \<le> n"
    show ?thesis
    proof (cases "stream_end st")
      case EOF
      show ?thesis
      proof (cases "d = []")
        case True
        then have "upload_loop env t n st i cs rs s db = upload_finish env t cs (i64 rs) s db" using a EOF by (simp add: loop Let_def)
        then show ?thesis using True a EOF by auto
      next
        case False
        then have "chunks n (stream_data st) = [d]" using chunks_short [of d n] a by simp
        then show ?thesis using a False EOF
          by (cases "ePut env s (segment_key (uo_ObjectInfo t) i) d") (auto simp: loop PutPiece_def Let_def put_failed_def)
      qed
    next
      case (StreamFailed m)
      then show ?thesis using a by (simp add: loop Let_def)
    qed
  qed
qed

subsection \<open>Round trips\<close>

lemma file_key_segment: "file_key (segment_key ob i)"
proof -
  have "CHR ''/'' \<notin> set (show_int j)" for j using not_in_show_int [of "CHR ''/''"] by simp
  then have "last (show_int j) \<noteq> CHR ''/''" for j using last_in_set [OF show_int_ne [of j]] by metis
  then show ?thesis by (simp add: file_key_def segment_key_def SegmentPieceKey_def)
qed

text \<open>A concrete object of five bytes in segments of two.\<close>

definition sample_object :: ObjectInfo where
  "sample_object = \<lparr>oBucketName = ''b'', oObjectName = ''o'', oId = 7, oPayloadSize = 5, oRedundancyType = REDUNDANCY_EC_TYPE,
     oVersion = 0, oObjectStatus = OBJECT_STATUS_CREATED, oIsUpdating = False, oChecksums = [[1, 2, 3, 4, 5]], oOwner = [],
     oCreateAt = 0, oLocalVirtualGroupId = 0\<rparr>"

definition sample_params :: Params where
  "sample_params = \<lparr>MaxPayloadSize = 100, MaxSegmentSize = 2, RedundantDataChunkNum = 4, RedundantParityChunkNum = 2\<rparr>"

definition sample_up :: "bool \<Rightarrow> GfSpUploadObjectTask" where
  "sample_up agent = \<lparr>uo_Task = zero_task, uo_VirtualGroupFamilyId = 1, uo_ObjectInfo = sample_object, uo_StorageParams = sample_params,
     uo_IsAgentUpload = agent\<rparr>"

definition sample_down :: GfSpDownloadObjectTask where
  "sample_down = \<lparr>do_Task = zero_task, do_ObjectInfo = sample_object,
     do_BucketInfo = \<lparr>bBucketName = ''b'', bId = 1, bOwner = [], bChargedReadQuota = 0, bGlobalVirtualGroupFamilyId = 1\<rparr>,
     do_StorageParams = sample_params, do_Low = 1, do_High = 3\<rparr>"

definition sample_env :: "('s \<Rightarrow> string \<Rightarrow> int list \<Rightarrow> store_error + 's) \<Rightarrow> 's env" where
  "sample_env put = \<lparr>eChecksum = \<lambda>x. x, eIntegrity = concat, ePut = put, eStoreMsg = \<lambda>_. [], eDbMsg = \<lambda>_. [],
     eUnmarshal = \<lambda>_. None, eStamp = [], eNow = 9, eDbFails = \<lambda>_ _. False\<rparr>"

definition sample_denv :: "('s \<Rightarrow> string \<Rightarrow> int \<Rightarrow> int \<Rightarrow> store_error + int list) \<Rightarrow> ('s, (string \<times> int list) list) denv" where
  "sample_denv get = \<lparr>dGet = get, dCacheGet = \<lambda>c k. (map_of c k, c), dCacheAdd = \<lambda>c k x. (k, x) # c, dStoreMsg = \<lambda>_. [],
     dDbMsg = \<lambda>_. [], dInfo = \<lambda>_. [], dUnmarshal = \<lambda>_. None\<rparr>"

definition sample_modular :: "(string \<times> int list) list DownloadModular" where
  "sample_modular = \<lparr>pieceCache = [], downloading = 0, downloadParallel = 4, challenging = 0, challengeParallel = 4, monthlyFreeQuota = 0\<rparr>"

definition sample_metadb :: metadb where
  "sample_metadb = \<lparr>integrity_metas = [], shadow_metas = [], piece_hashes = [],
     upload_progress = [\<lparr>upObjectID = 7, upTaskState = TASK_STATE_INIT_UNSPECIFIED, upGlobalVirtualGroupID = 0,
       upTaskStateDescription = TaskState_String TASK_STATE_INIT_UNSPECIFIED, upErrorDescription = [],
       upSecondaryEndpoints = [], upSecondarySignatures = [], upCreateTimestampSecond = 1, upUpdateTimestampSecond = 1, upIsAgentUpload = False\<rparr>]\<rparr>"

definition sample_files :: diskFileStore where
  "sample_files = \<lparr>dRootExists = True, dEntries = []\<rparr>"

lemmas sample_defs = sample_object_def sample_params_def sample_up_def sample_down_def sample_env_def sample_denv_def
  sample_modular_def sample_metadb_def sample_files_def

lemma sample_push: "fst (queue_Push task (NewGfSpTQueue n 8)) = None"
  by (simp add: queue_Push_def queue_has_def NewGfSpTQueue_def queue_exceed_def queue_Len_def)

lemma sample_laws: "cache_laws (dCacheGet (sample_denv get)) (dCacheAdd (sample_denv get)) set"
  by (auto simp: cache_laws_def sample_denv_def dest: map_of_SomeD)

lemma sample_upload_ok: "upload_ok (sample_up agent)"
  by (simp add: upload_ok_def payload_ok_def sample_defs)

lemma sample_range_ok: "range_ok sample_down"
  by (simp add: range_ok_def payload_ok_def sample_defs)

lemma sample_coherent: "coherent set get s (pieceCache sample_modular)"
  by (simp add: coherent_def sample_defs)

abbreviation sample_stream :: stream where
  "sample_stream \<equiv> [([1, 2, 3], None), ([4, 5], Some EOF)]"

lemma sample_finish:
  "outRet (upload_finish (sample_env put) (sample_up False) [[1, 2], [3, 4], [5]] (i64 5) s sample_metadb) = Ok ()"
  "outDB (upload_finish (sample_env put) (sample_up False) [[1, 2], [3, 4], [5]] (i64 5) s sample_metadb) \<noteq> sample_metadb"
  by (simp_all add: upload_finish_def sample_up_def sample_object_def sample_env_def sample_metadb_def record_integrity_def SetObjectIntegrity_def mark_done_def UpdateUploadProgress_def
      done_meta_def empty_meta_def row_find_def row_map_def progress_update_def upd_state_def upd_nz_def Let_def i64_id u64_id)

lemma sample_upload:
  "resRet (HandleUploadObjectTask (sample_env file_put) (sample_up False) sample_stream (NewGfSpTQueue n 8) sample_files sample_metadb) = Ok ()"
  "resDB (HandleUploadObjectTask (sample_env file_put) (sample_up False) sample_stream (NewGfSpTQueue n 8) sample_files sample_metadb) \<noteq> sample_metadb"
proof -
  have c: "map (eChecksum (sample_env file_put)) (chunks (seg_size (sample_up False)) (stream_data sample_stream)) = [[1, 2], [3, 4], [5]]"
    by (simp add: seg_size_def sample_defs chunks.simps)
  have l: "int (length (stream_data sample_stream)) = 5" by simp
  have "files_inv sample_files" "ePut (sample_env file_put) = file_put" "stream_end sample_stream = EOF" by (simp_all add: files_inv_def sample_defs)
  from file_store.upload_runs [OF this(1) file_key_segment this(2) sample_upload_ok this(3), where db = sample_metadb]
  obtain s' where "upload_loop (sample_env file_put) (sample_up False) (seg_size (sample_up False)) sample_stream 0 [] 0 sample_files sample_metadb =
      upload_finish (sample_env file_put) (sample_up False) (map (eChecksum (sample_env file_put)) (chunks (seg_size (sample_up False)) (stream_data sample_stream)))
        (i64 (int (length (stream_data sample_stream)))) s' sample_metadb" .
  then have "upload_loop (sample_env file_put) (sample_up False) (seg_size (sample_up False)) sample_stream 0 [] 0 sample_files sample_metadb =
      upload_finish (sample_env file_put) (sample_up False) [[1, 2], [3, 4], [5]] (i64 5) s' sample_metadb"
    unfolding c l .
  then show "resRet (HandleUploadObjectTask (sample_env file_put) (sample_up False) sample_stream (NewGfSpTQueue n 8) sample_files sample_metadb) = Ok ()"
    "resDB (HandleUploadObjectTask (sample_env file_put) (sample_up False) sample_stream (NewGfSpTQueue n 8) sample_files sample_metadb) \<noteq> sample_metadb"
    unfolding handle_fields(1,3) [OF sample_upload_ok sample_push refl] using sample_finish by simp_all
qed

subsection \<open>Properties\<close>

text \<open>
  C1: What an upload to the file store accepted is what a download returns: after an upload that
  returned no error, every range of the object is read back exactly as it was in the stream, whatever
  the reads of the stream were and whatever the cache holds, and the cache stays coherent.
\<close>

theorem upload_download_roundtrip:
  assumes "files_inv s" and "ePut env = file_put" and "upload_ok t" and "object_ok (uo_ObjectInfo t)"
    and "stream_end st = EOF" and "int (length (stream_data st)) \<le> MaxUint64"
    and "HandleUploadObjectTask env t st q s db = r" and "resRet r = Ok ()"
    and "do_ObjectInfo g = uo_ObjectInfo t" and "do_StorageParams g = uo_StorageParams t" and "range_ok g"
    and "dGet denv = disk_GetObject (\<lambda>_. False)" and "cache_laws (dCacheGet denv) (dCacheAdd denv) entries"
    and "coherent entries (dGet denv) (resStore r) (pieceCache dm)" and "i64 (downloading dm + 1) < downloadParallel dm"
  shows "\<exists>c. HandleDownloadObjectTask denv g (resStore r) dm =
      ((Ok (take (nat (do_High g + 1 - do_Low g)) (drop (nat (do_Low g)) (stream_data st))), DownloadObject g), dm\<lparr>pieceCache := c\<rparr>)
      \<and> coherent entries (dGet denv) (resStore r) c"
proof -
  note u = file_store.upload_stores [OF assms(1) file_key_segment assms(2,3,5,6), of q db, unfolded assms(7), OF assms(8)]
  show ?thesis
    using u assms(4,9-15) by (intro download_ok) (auto simp: nat_eq_iff)
qed

theorem upload_download_roundtrip_witness:
  "\<exists>c. HandleDownloadObjectTask (sample_denv (disk_GetObject (\<lambda>_. False))) sample_down
      (resStore (HandleUploadObjectTask (sample_env file_put) (sample_up False) [([1, 2, 3], None), ([4, 5], Some EOF)] (NewGfSpTQueue [] 8)
        sample_files sample_metadb)) sample_modular =
    ((Ok [2, 3, 4], DownloadObject sample_down), sample_modular\<lparr>pieceCache := c\<rparr>)"
proof -
  have "files_inv sample_files" "object_ok (uo_ObjectInfo (sample_up False))" "i64 (downloading sample_modular + 1) < downloadParallel sample_modular"
    "do_ObjectInfo sample_down = uo_ObjectInfo (sample_up False)" "do_StorageParams sample_down = uo_StorageParams (sample_up False)"
    "ePut (sample_env file_put) = file_put" "dGet (sample_denv (disk_GetObject (\<lambda>_. False))) = disk_GetObject (\<lambda>_. False)"
    by (simp_all add: files_inv_def object_ok_def sample_defs i64_id)
  moreover have "stream_end [([1, 2, 3], None), ([4, 5], Some EOF)] = EOF" "int (length (stream_data [([1, 2, 3], None), ([4, 5], Some EOF)])) \<le> MaxUint64"
    by simp_all
  moreover have "take (nat (do_High sample_down + 1 - do_Low sample_down)) (drop (nat (do_Low sample_down)) (stream_data [([1, 2, 3], None), ([4, 5], Some EOF)])) = [2, 3, 4]"
    by (simp add: sample_defs numeral_eq_Suc)
  ultimately show ?thesis
    using upload_download_roundtrip [OF _ _ sample_upload_ok _ _ _ refl sample_upload(1) _ _ sample_range_ok _ sample_laws sample_coherent]
    by metis
qed

text \<open>
  The pieces a range is cut into, in closed form: one for each segment the range meets, in order, and
  the bytes they name, put together, are exactly the bytes of the range.
\<close>

theorem split_covers_range:
  assumes "range_ok t" and "mx = MaxSegmentSize (do_StorageParams t)"
  shows "SplitToSegmentPieceInfos t = Ok (map (piece_of (do_ObjectInfo t) mx (do_Low t) (do_High t)) [do_Low t div mx..do_High t div mx])
    \<and> concat (map (\<lambda>i. piece_bytes mx D (piece_of (do_ObjectInfo t) mx (do_Low t) (do_High t) i) i) [do_Low t div mx..do_High t div mx]) =
      take (nat (do_High t + 1 - do_Low t)) (drop (nat (do_Low t)) D)"
proof -
  have a: "0 < mx" "0 \<le> do_Low t" "do_Low t \<le> do_High t" using assms by (auto simp: range_ok_def payload_ok_def)
  have m: "max (do_Low t) (do_Low t div mx * mx) = do_Low t" using div_bounds(1) [OF a(1), of "do_Low t"] by (simp add: max_def)
  show ?thesis
    using pieces_cover [OF a, of "do_Low t div mx" D "do_ObjectInfo t"] zdiv_mono1 [OF a(3,1)] split_closed_form [OF assms(1)] assms(2)
    unfolding m by simp
qed

theorem split_covers_range_witness:
  "SplitToSegmentPieceInfos sample_down = Ok [\<lparr>spKey = SegmentPieceKey 7 0 0, spOffset = 1, spLength = 1\<rparr>, \<lparr>spKey = SegmentPieceKey 7 1 0, spOffset = 0, spLength = 2\<rparr>]"
proof -
  have "[0..1::int] = [0, 1]" by (simp add: upto_rec1)
  then show ?thesis using split_covers_range [OF sample_range_ok refl]
    by (simp add: piece_of_def segment_key_def sample_defs)
qed

text \<open>
  An upload depends on the bytes of the stream only: two streams with the same bytes, however cut
  into reads and with the end of the stream reported with the last bytes or after them, give the same
  result, report, store and database.
\<close>

theorem upload_ignores_reads:
  assumes "files_inv s" and "ePut env = file_put" and "upload_ok t"
    and "stream_end st1 = EOF" and "stream_end st2 = EOF" and "stream_data st1 = stream_data st2"
  shows "HandleUploadObjectTask env t st1 q s db = HandleUploadObjectTask env t st2 q s db"
proof (cases "fst (queue_Push (UploadObject t) q)")
  case None
  obtain s' where "put_pieces file_put (segment_key (uo_ObjectInfo t)) 0 (chunks (seg_size t) (stream_data st1)) s = Inr s'"
    using file_store.upload_runs [OF assms(1) file_key_segment assms(2-4), where db = db] by blast
  then have "upload_loop env t (seg_size t) st1 0 [] 0 s db = upload_loop env t (seg_size t) st2 0 [] 0 s db"
    using upload_loop_chunks [OF _ seg_size_pos [OF assms(3)], of _ env t 0 s s' "[]" 0 db] assms(2,4-6) by simp
  then show ?thesis
    using assms(3) by (simp add: HandleUploadObjectTask_def MaxSegmentPieceSize_nat split: prod.splits option.splits)
next
  case (Some e)
  then show ?thesis by (auto simp: HandleUploadObjectTask_def split: prod.splits option.splits)
qed

theorem upload_ignores_reads_witness:
  "HandleUploadObjectTask (sample_env file_put) (sample_up True) [([1, 2, 3], None), ([4, 5], Some EOF)] (NewGfSpTQueue [] 8) sample_files sample_metadb =
   HandleUploadObjectTask (sample_env file_put) (sample_up True) [([1], None), ([2, 3, 4, 5], None)] (NewGfSpTQueue [] 8) sample_files sample_metadb"
  using upload_ignores_reads [OF _ _ sample_upload_ok, of sample_files "sample_env file_put" "[([1, 2, 3], None), ([4, 5], Some EOF)]"
      "[([1], None), ([2, 3, 4, 5], None)]" True]
  by (simp add: files_inv_def sample_defs)

text \<open>
  C2: The database changes in an upload only when the whole stream was read, its integrity hash is the one
  the chain expects (unless the upload is delegated) and its size is the size of the payload.
\<close>

theorem upload_db_guard:
  assumes "upload_ok t" and "int (length (stream_data st)) \<le> MaxUint64" and "resDB (HandleUploadObjectTask env t st q s db) \<noteq> db"
  shows "stream_end st = EOF \<and> int (length (stream_data st)) = oPayloadSize (uo_ObjectInfo t) \<and>
    (uo_IsAgentUpload t \<or> oChecksums (uo_ObjectInfo t) \<noteq> [] \<and>
      eIntegrity env (map (eChecksum env) (chunks (seg_size t) (stream_data st))) = hd (oChecksums (uo_ObjectInfo t)))"
proof -
  have "fst (queue_Push (UploadObject t) q) = None" using handle_refused [of t q _ env st s db] assms(3) by (cases "fst (queue_Push (UploadObject t) q)") auto
  note h = handle_fields(3) [OF assms(1) this refl, of env st s db]
  have "outDB (upload_loop env t (seg_size t) st 0 [] 0 s db) \<noteq> db" using assms(3) h by simp
  with upload_loop_db [OF seg_size_pos [OF assms(1)], of env t st 0 "[]" 0 s db]
  obtain s' where e: "stream_end st = EOF" "upload_loop env t (seg_size t) st 0 [] 0 s db =
      upload_finish env t (map (eChecksum env) (chunks (seg_size t) (stream_data st))) (i64 (int (length (stream_data st)))) s' db" by auto
  then have "outDB (upload_finish env t (map (eChecksum env) (chunks (seg_size t) (stream_data st))) (i64 (int (length (stream_data st)))) s' db) \<noteq> db"
    using assms(3) h by simp
  then show ?thesis using e(1) assms(2) by (auto simp: upload_finish_def Let_def u64_i64 u64_id split: if_splits)
qed

theorem upload_db_guard_witness:
  "int (length (stream_data [([1, 2, 3], None), ([4, 5], Some EOF)])) = oPayloadSize (uo_ObjectInfo (sample_up False)) \<and>
   resDB (HandleUploadObjectTask (sample_env file_put) (sample_up False) [([1, 2, 3], None), ([4, 5], Some EOF)] (NewGfSpTQueue [] 8) sample_files sample_metadb)
     \<noteq> sample_metadb"
proof -
  have "resDB (HandleUploadObjectTask (sample_env file_put) (sample_up False) [([1, 2, 3], None), ([4, 5], Some EOF)] (NewGfSpTQueue [] 8) sample_files sample_metadb)
     \<noteq> sample_metadb"
    by (rule sample_upload(2))
  moreover have "int (length (stream_data [([1, 2, 3], None), ([4, 5], Some EOF)])) \<le> MaxUint64" by simp
  ultimately show ?thesis using upload_db_guard [OF sample_upload_ok, of "[([1, 2, 3], None), ([4, 5], Some EOF)]"] by metis
qed

text \<open>
  When the size of a delegated upload is wrong, the client gets the error and the object is rejected on
  the chain, but the task reported to the manager carries no error.
\<close>

theorem size_mismatch_reported_clean:
  assumes "files_inv s" and "ePut env = file_put" and "upload_ok t" and "stream_end st = EOF" and "uo_IsAgentUpload t"
    and "int (length (stream_data st)) \<le> MaxUint64" and "int (length (stream_data st)) \<noteq> oPayloadSize (uo_ObjectInfo t)"
    and "fst (queue_Push (UploadObject t) q) = None" and "task_Error (UploadObject t) = None"
  shows "resRet (HandleUploadObjectTask env t st q s db) = Fail ErrPayloadSize \<and> resReject (HandleUploadObjectTask env t st q s db)
    \<and> (\<exists>t'. resReported (HandleUploadObjectTask env t st q s db) = Some t' \<and> task_Error t' = None)"
proof -
  obtain s' where "upload_loop env t (seg_size t) st 0 [] 0 s db =
      upload_finish env t (map (eChecksum env) (chunks (seg_size t) (stream_data st))) (i64 (int (length (stream_data st)))) s' db"
    using file_store.upload_runs [OF assms(1) file_key_segment assms(2-4), where db = db] by blast
  moreover have "upload_finish env t cs (i64 (int (length (stream_data st)))) s' db =
      \<lparr>outRet = Fail ErrPayloadSize, outErr = None, outStore = s', outDB = db, outReject = True\<rparr>" for cs
    using assms(5-7) by (simp add: upload_finish_def Let_def u64_i64 u64_id)
  ultimately show ?thesis
    using handle_fields [OF assms(3,8) refl, of env st s db] assms(9)
    by (simp add: report_def task_Error_def AppendLog_def base_AppendLog_def base_Error_def)
qed

theorem size_mismatch_reported_clean_witness:
  "resRet (HandleUploadObjectTask (sample_env file_put) (sample_up True) [([1, 2, 3], None)] (NewGfSpTQueue [] 8) sample_files sample_metadb) = Fail ErrPayloadSize
   \<and> (\<exists>t'. resReported (HandleUploadObjectTask (sample_env file_put) (sample_up True) [([1, 2, 3], None)] (NewGfSpTQueue [] 8) sample_files sample_metadb) = Some t'
      \<and> task_Error t' = None)"
proof -
  have "uo_IsAgentUpload (sample_up True)" "task_Error (UploadObject (sample_up True)) = None"
    by (simp_all add: sample_up_def task_Error_def base_Error_def zero_task_def)
  then show ?thesis
    using size_mismatch_reported_clean [OF _ _ sample_upload_ok _ _ _ _ sample_push, of sample_files "sample_env file_put" "[([1, 2, 3], None)]" True "[]" sample_metadb]
    by (simp add: files_inv_def sample_env_def sample_up_def sample_files_def sample_object_def)
qed

text \<open>
  A download of a piece that the store cannot read, and that is not cached, panics instead of
  returning the error of the store.
\<close>

theorem download_missing_piece_panics:
  assumes "i64 (downloading dm + 1) < downloadParallel dm" and "SplitToSegmentPieceInfos t = Ok (p # ps)"
    and "fst (dCacheGet env (pieceCache dm) (cacheKey (spKey p) (i64 (spOffset p)) (i64 (spLength p)))) = None"
    and "dGet env s (spKey p) (i64 (spOffset p)) (i64 (spLength p)) = Inl e"
  shows "fst (fst (HandleDownloadObjectTask env t s dm)) = Panic"
  using assms by (auto simp: HandleDownloadObjectTask_def GetPiece_def Let_def split: prod.splits)

theorem download_missing_piece_panics_witness:
  "fst (fst (HandleDownloadObjectTask (sample_denv (disk_GetObject (\<lambda>_. False))) sample_down sample_files sample_modular)) = Panic"
proof -
  have "[0..1::int] = [0, 1]" by (simp add: upto_rec1)
  then have "SplitToSegmentPieceInfos sample_down = Ok (piece_of sample_object 2 1 3 0 # [piece_of sample_object 2 1 3 1])"
    using split_closed_form [OF sample_range_ok] by (simp add: sample_defs)
  then show ?thesis
    using download_missing_piece_panics [of sample_modular sample_down "piece_of sample_object 2 1 3 0" _
        "sample_denv (disk_GetObject (\<lambda>_. False))" sample_files]
    by (simp add: sample_modular_def sample_denv_def sample_files_def disk_GetObject_def i64_id)
qed

end
