(* ===== verification/SP_VirtualGroup.thy ===== *)
theory SP_VirtualGroup
  imports SP_TaskOps "HOL-Library.AList"
begin

text \<open>
  The virtual group manager, \<^verbatim>\<open>src/base/gfspvgmgr\<close> with the filters of \<^verbatim>\<open>src/core/vgmgr\<close>: which family and
  which group of providers an object goes to.  It weighs groups by the free part of their staked storage,
  leaves out groups that are frozen, excluded or have an unhealthy provider, deposits for groups that fill
  up and deletes groups that stay empty.  Maps are association lists; where the code ranges over a map
  twice, the order of the second range is an argument.  The random number, the clock and the answers
  of the chain are arguments.
\<close>

subsection \<open>Floating-point weights\<close>

text \<open>Rounding to \<open>float64\<close>, below one too; subnormal numbers do not occur among the weights.\<close>

definition float64 :: "rat \<Rightarrow> rat" where
  "float64 x =
     (if x \<le> 0 then 0
      else if x < 1 then (let s = 2 powi (52 + int (floorlog 2 (nat \<lfloor>1 / x\<rfloor>))) in of_int (round_half_even (x * s)) / s)
      else f64 x)"

definition MaxStorageUsageRatio :: rat where
  "MaxStorageUsageRatio = float64 (95 / 100)"

text \<open>\<open>float64(used) >= MaxStorageUsageRatio*float64(staking)\<close>\<close>

definition usage_full :: "int \<Rightarrow> int \<Rightarrow> bool" where
  "usage_full used staking \<longleftrightarrow> float64 (of_int used) \<ge> float64 (MaxStorageUsageRatio * float64 (of_int staking))"

subsection \<open>Groups, families and providers\<close>

record GlobalVirtualGroupMeta =
  gvgID :: int
  gvgFamilyID :: int
  gvgPrimarySPID :: int
  gvgSecondarySPIDs :: "int list"
  gvgSecondarySPEndpoints :: "string list"
  gvgUsedStorageSize :: int
  gvgStakingStorageSize :: int

record VirtualGroupFamilyMeta =
  vgfID :: int
  vgfPrimarySPID :: int
  vgfUsedStorageSize :: int
  vgfStakingStorageSize :: int
  vgfGVGMap :: "(int \<times> GlobalVirtualGroupMeta) list"

record StorageProvider =
  spId :: int
  spOperatorAddress :: string
  spEndpoint :: string
  spInService :: bool

text \<open>A group as the chain has it.\<close>

record GlobalVirtualGroup =
  cgId :: int
  cgFamilyId :: int
  cgPrimarySpId :: int
  cgSecondarySpIds :: "int list"
  cgStoredSize :: int
  cgTotalDeposit :: int

datatype vg_error = ErrFailedPickVGF | ErrFailedPickGVG | ErrStaledMetadata | ErrFailedPickDestSP | ErrNoEnoughSP | ErrChain | VgPanic

subsection \<open>Filters\<close>

definition PickVGFFilter_Check :: "int list \<Rightarrow> int \<Rightarrow> bool" where
  "PickVGFFilter_Check available i \<longleftrightarrow> i \<in> set available"

definition PickVGFByGVGFilter_Check :: "int list \<Rightarrow> (int \<times> GlobalVirtualGroupMeta) list \<Rightarrow> bool" where
  "PickVGFByGVGFilter_Check blackList gvgs \<longleftrightarrow>
     int (length gvgs) - int (length (filter (\<lambda>(_, g). \<exists>s \<in> set (gvgSecondarySPIDs g). s \<in> set blackList) gvgs)) > 0"

definition ExcludeIDFilter_Apply :: "int list \<Rightarrow> int \<Rightarrow> bool" where
  "ExcludeIDFilter_Apply excluded i \<longleftrightarrow> i \<in> set excluded"

subsection \<open>Health of providers\<close>

record HealthChecker =
  hcSps :: "(int \<times> StorageProvider) list"
  hcUnhealthy :: "(int \<times> StorageProvider) list"

definition addAllSP :: "StorageProvider list \<Rightarrow> HealthChecker \<Rightarrow> HealthChecker" where
  "addAllSP sps c = c\<lparr>hcSps := fold (\<lambda>sp m. AList.update (spId sp) sp m) sps []\<rparr>"

definition isSPHealthy :: "HealthChecker \<Rightarrow> int \<Rightarrow> bool" where
  "isSPHealthy c i = (if map_of (hcSps c) i \<noteq> None then map_of (hcUnhealthy c) i = None else True)"

definition isGVGHealthy :: "HealthChecker \<Rightarrow> GlobalVirtualGroupMeta \<Rightarrow> bool" where
  "isGVGHealthy c gvg \<longleftrightarrow> list_all (isSPHealthy c) (gvgSecondarySPIDs gvg)"

definition isVGFHealthy :: "HealthChecker \<Rightarrow> VirtualGroupFamilyMeta \<Rightarrow> bool" where
  "isVGFHealthy c vgf =
     (let gvgs = vgfGVGMap vgf in
      if gvgs = [] then True
      else int (length gvgs) - int (length (filter (\<lambda>(_, g). \<not> isGVGHealthy c g) gvgs)) > 0)"

text \<open>
  One request of the status page per attempt; \<open>answers\<close> tells which attempts are answered with success.
\<close>

definition checkSPHealth :: "(int \<Rightarrow> nat \<Rightarrow> bool) \<Rightarrow> StorageProvider \<Rightarrow> bool" where
  "checkSPHealth answers sp \<longleftrightarrow> spInService sp \<and> list_ex (answers (spId sp)) [0..<5]"

text \<open>The new unhealthy set is only taken over when enough providers are left.\<close>

definition checkAllSPHealth :: "(int \<Rightarrow> nat \<Rightarrow> bool) \<Rightarrow> Params option \<Rightarrow> HealthChecker \<Rightarrow> HealthChecker" where
  "checkAllSPHealth answers params c =
     (let (healthy, unhealthy) = partition (\<lambda>(_, sp). checkSPHealth answers sp) (hcSps c);
          c1 = c\<lparr>hcUnhealthy := fold (\<lambda>(_, sp) m. AList.delete (spId sp) m) healthy (hcUnhealthy c)\<rparr>
      in if unhealthy = [] then c1
         else case params of
           None \<Rightarrow> c1
         | Some p \<Rightarrow>
             if int (length (hcSps c)) - int (length unhealthy) \<ge> u32 (RedundantDataChunkNum p + RedundantParityChunkNum p)
             then c1\<lparr>hcUnhealthy := fold (\<lambda>(_, sp) m. AList.update (spId sp) sp m) unhealthy []\<rparr>
             else c1)"

subsection \<open>Weighted picking\<close>

type_synonym weights = "(int \<times> rat) list"

definition addVirtualGroupFamily :: "VirtualGroupFamilyMeta \<Rightarrow> weights \<Rightarrow> weights" where
  "addVirtualGroupFamily vgf w =
     (if usage_full (vgfUsedStorageSize vgf) (vgfStakingStorageSize vgf) \<or> vgfStakingStorageSize vgf = 0 then w
      else AList.update (vgfID vgf) (float64 (float64 (of_int (u64 (vgfStakingStorageSize vgf - vgfUsedStorageSize vgf)))
             / float64 (of_int (vgfStakingStorageSize vgf)))) w)"

definition addGlobalVirtualGroup :: "GlobalVirtualGroupMeta \<Rightarrow> weights \<Rightarrow> weights" where
  "addGlobalVirtualGroup gvg w =
     (if usage_full (gvgUsedStorageSize gvg) (gvgStakingStorageSize gvg) then w
      else AList.update (gvgID gvg) (float64 (float64 (of_int (u64 (gvgStakingStorageSize gvg - gvgUsedStorageSize gvg)))
             / float64 (of_int (gvgStakingStorageSize gvg)))) w)"

text \<open>The second loop stops at the first key whose partial sum passes the random weight.\<close>

fun first_above :: "rat \<Rightarrow> rat \<Rightarrow> weights \<Rightarrow> int option" where
  "first_above target acc [] = None"
| "first_above target acc ((key, v) # w) =
     (let acc' = float64 (acc + v) in if acc' > target then Some key else first_above target acc' w)"

definition pickIndex :: "rat \<Rightarrow> (weights \<Rightarrow> weights) \<Rightarrow> weights \<Rightarrow> int option" where
  "pickIndex rnd ord w =
     (let sumWeight = fold (\<lambda>(_, v) acc. float64 (acc + v)) w 0
      in first_above (float64 (rnd * sumWeight)) 0 (ord w))"

type_synonym families = "(int \<times> VirtualGroupFamilyMeta) list"

definition family_ok :: "int list option \<Rightarrow> int list \<Rightarrow> HealthChecker option \<Rightarrow> int \<times> VirtualGroupFamilyMeta \<Rightarrow> bool" where
  "family_ok available blackList hc e \<longleftrightarrow>
     (case available of None \<Rightarrow> True | Some ids \<Rightarrow> PickVGFFilter_Check ids (fst e))
     \<and> PickVGFByGVGFilter_Check blackList (vgfGVGMap (snd e))
     \<and> (case hc of None \<Rightarrow> True | Some c \<Rightarrow> isVGFHealthy c (snd e))"

definition pickVirtualGroupFamily ::
  "rat \<Rightarrow> (weights \<Rightarrow> weights) \<Rightarrow> int list option \<Rightarrow> int list \<Rightarrow> HealthChecker option \<Rightarrow> families
    \<Rightarrow> vg_error + VirtualGroupFamilyMeta option" where
  "pickVirtualGroupFamily rnd ord available blackList hc vgfs =
     (let w = fold (\<lambda>e w. if family_ok available blackList hc e then addVirtualGroupFamily (snd e) w else w) vgfs []
      in case pickIndex rnd ord w of None \<Rightarrow> Inl ErrFailedPickVGF | Some i \<Rightarrow> Inr (map_of vgfs i))"

definition group_ok :: "int list option \<Rightarrow> int list option \<Rightarrow> HealthChecker option \<Rightarrow> GlobalVirtualGroupMeta \<Rightarrow> bool" where
  "group_ok frozen excluded hc g \<longleftrightarrow>
     (case frozen of None \<Rightarrow> True | Some ids \<Rightarrow> \<not> ExcludeIDFilter_Apply ids (gvgID g))
     \<and> (case excluded of None \<Rightarrow> True | Some ids \<Rightarrow> \<not> ExcludeIDFilter_Apply ids (gvgID g))
     \<and> (case hc of None \<Rightarrow> True | Some c \<Rightarrow> isGVGHealthy c g)"

definition vgf_pickGlobalVirtualGroup ::
  "rat \<Rightarrow> (weights \<Rightarrow> weights) \<Rightarrow> int \<Rightarrow> int list option \<Rightarrow> int list option \<Rightarrow> HealthChecker option \<Rightarrow> families
    \<Rightarrow> vg_error + GlobalVirtualGroupMeta option" where
  "vgf_pickGlobalVirtualGroup rnd ord i frozen excluded hc vgfs =
     (case map_of vgfs i of
        None \<Rightarrow> Inl ErrStaledMetadata
      | Some f \<Rightarrow>
          let w = fold (\<lambda>(_, g) w. if group_ok frozen excluded hc g then addGlobalVirtualGroup g w else w) (vgfGVGMap f) []
          in case pickIndex rnd ord w of None \<Rightarrow> Inl ErrFailedPickGVG | Some gid \<Rightarrow> Inr (map_of (vgfGVGMap f) gid))"

text \<open>The filter for migrations checks families and groups; the first family with a pick is taken.\<close>

fun pickGlobalVirtualGroupForBucketMigrate ::
  "rat \<Rightarrow> (weights \<Rightarrow> weights) \<Rightarrow> int list option \<Rightarrow> (int \<Rightarrow> bool) \<Rightarrow> (GlobalVirtualGroupMeta \<Rightarrow> bool) \<Rightarrow> families
    \<Rightarrow> vg_error + GlobalVirtualGroupMeta option" where
  "pickGlobalVirtualGroupForBucketMigrate rnd ord available checkFamily checkGVG [] = Inl ErrFailedPickGVG"
| "pickGlobalVirtualGroupForBucketMigrate rnd ord available checkFamily checkGVG ((i, f) # vgfs) =
     (if (case available of None \<Rightarrow> False | Some ids \<Rightarrow> \<not> PickVGFFilter_Check ids i) \<or> \<not> checkFamily i
      then pickGlobalVirtualGroupForBucketMigrate rnd ord available checkFamily checkGVG vgfs
      else let w = fold (\<lambda>(_, g) w. if checkGVG g then addGlobalVirtualGroup g w else w) (vgfGVGMap f) []
      in case pickIndex rnd ord w of
           None \<Rightarrow> pickGlobalVirtualGroupForBucketMigrate rnd ord available checkFamily checkGVG vgfs
         | Some gid \<Rightarrow> Inr (map_of (vgfGVGMap f) gid))"

subsection \<open>Providers for a new group\<close>

record policy =
  expectedSecondarySPNumber :: int
  preferSPIDMap :: "int list"
  preferSPIDList :: "int list"
  backupSPIDList :: "int list"

definition NewGenerateGVGSecondarySPsPolicyByPrefer :: "Params \<Rightarrow> int list \<Rightarrow> policy" where
  "NewGenerateGVGSecondarySPsPolicyByPrefer p prefer =
     \<lparr>expectedSecondarySPNumber = u32 (RedundantDataChunkNum p + RedundantParityChunkNum p), preferSPIDMap = prefer,
      preferSPIDList = [], backupSPIDList = []\<rparr>"

definition AddCandidateSP :: "int \<Rightarrow> policy \<Rightarrow> policy" where
  "AddCandidateSP i p =
     (if i \<in> set (preferSPIDMap p) then p\<lparr>preferSPIDList := preferSPIDList p @ [i]\<rparr>
      else p\<lparr>backupSPIDList := backupSPIDList p @ [i]\<rparr>)"

definition GenerateGVGSecondarySPs :: "policy \<Rightarrow> vg_error + int list" where
  "GenerateGVGSecondarySPs p =
     (if expectedSecondarySPNumber p > int (length (preferSPIDList p) + length (backupSPIDList p)) then Inl ErrNoEnoughSP
      else Inr (take (nat (expectedSecondarySPNumber p)) (preferSPIDList p @ backupSPIDList p)))"

record spManager =
  selfSP :: StorageProvider
  otherSPs :: "StorageProvider list"

definition candidate :: "int list option \<Rightarrow> int list option \<Rightarrow> HealthChecker option \<Rightarrow> StorageProvider \<Rightarrow> bool" where
  "candidate frozen excluded hc sp \<longleftrightarrow> spInService sp
     \<and> (case frozen of None \<Rightarrow> True | Some ids \<Rightarrow> \<not> ExcludeIDFilter_Apply ids (spId sp))
     \<and> (case excluded of None \<Rightarrow> True | Some ids \<Rightarrow> \<not> ExcludeIDFilter_Apply ids (spId sp))
     \<and> (case hc of None \<Rightarrow> True | Some c \<Rightarrow> isSPHealthy c (spId sp))"

definition generateVirtualGroupMeta ::
  "policy \<Rightarrow> int list option \<Rightarrow> int list option \<Rightarrow> HealthChecker option \<Rightarrow> spManager \<Rightarrow> vg_error + GlobalVirtualGroupMeta" where
  "generateVirtualGroupMeta pol frozen excluded hc sm =
     (case GenerateGVGSecondarySPs (fold (\<lambda>sp p. if candidate frozen excluded hc sp then AddCandidateSP (spId sp) p else p) (otherSPs sm) pol) of
        Inl e \<Rightarrow> Inl e
      | Inr ids \<Rightarrow> Inr \<lparr>gvgID = 0, gvgFamilyID = 0, gvgPrimarySPID = spId (selfSP sm), gvgSecondarySPIDs = ids, gvgSecondarySPEndpoints = [],
                        gvgUsedStorageSize = 0, gvgStakingStorageSize = 1024 * 1024 * 1024 * 256\<rparr>)"

definition pickSPByFilter :: "(int \<Rightarrow> bool) \<Rightarrow> HealthChecker option \<Rightarrow> spManager \<Rightarrow> vg_error + StorageProvider" where
  "pickSPByFilter check hc sm =
     (case find (\<lambda>sp. spInService sp \<and> (case hc of None \<Rightarrow> True | Some c \<Rightarrow> isSPHealthy c (spId sp)) \<and> check (spId sp)) (otherSPs sm) of
        None \<Rightarrow> Inl ErrFailedPickDestSP | Some sp \<Rightarrow> Inr sp)"

definition querySPByID :: "int \<Rightarrow> spManager \<Rightarrow> vg_error + StorageProvider" where
  "querySPByID i sm =
     (if spId (selfSP sm) = i then Inr (selfSP sm)
      else case find (\<lambda>sp. spId sp = i) (otherSPs sm) of None \<Rightarrow> Inl ErrFailedPickDestSP | Some sp \<Rightarrow> Inr sp)"

subsection \<open>Frozen providers\<close>

record SPStats =
  ssJoinedGVGs :: "GlobalVirtualGroup list"
  ssFreezeUntil :: int

type_synonym FreezeSPPool = "(int \<times> SPStats) list"

text \<open>Providers are frozen for five minutes.\<close>

definition pool_FreezeSPAndGVGs :: "int \<Rightarrow> int \<Rightarrow> GlobalVirtualGroup list \<Rightarrow> FreezeSPPool \<Rightarrow> FreezeSPPool" where
  "pool_FreezeSPAndGVGs now sp gvgs pool = AList.update sp \<lparr>ssJoinedGVGs = gvgs, ssFreezeUntil = i64 (now + 300)\<rparr> pool"

definition GetFreezeSPIDs :: "FreezeSPPool \<Rightarrow> int list" where
  "GetFreezeSPIDs pool = map fst pool"

definition GetFreezeGVGsInFamily :: "int \<Rightarrow> FreezeSPPool \<Rightarrow> int list" where
  "GetFreezeGVGsInFamily family pool =
     concat (map (\<lambda>(_, st). map cgId (filter (\<lambda>g. cgFamilyId g = family) (ssJoinedGVGs st))) pool)"

definition ReleaseSP :: "int \<Rightarrow> FreezeSPPool \<Rightarrow> FreezeSPPool" where
  "ReleaseSP now pool = filter (\<lambda>(_, st). \<not> now > ssFreezeUntil st) pool"

definition pool_ReleaseAllSP :: "FreezeSPPool \<Rightarrow> FreezeSPPool" where
  "pool_ReleaseAllSP pool = []"

subsection \<open>The manager\<close>

type_synonym gc_map = "(int \<times> int) list"

record virtualGroupManager =
  vmOperatorAddress :: string
  vmSelfSPID :: int
  vmSpManager :: "spManager option"
  vmFamilies :: "families option"
  vmFreezePool :: FreezeSPPool
  vmHealthChecker :: "HealthChecker option"
  vmGCMap :: gc_map

definition GetSecondarySPIndexFromGVG :: "GlobalVirtualGroup \<Rightarrow> int \<Rightarrow> int option" where
  "GetSecondarySPIndexFromGVG gvg sp =
     map_option (\<lambda>(i, _). i32 (int i)) (find (\<lambda>(_, x). x = sp) (enumerate 0 (cgSecondarySpIds gvg)))"

definition ValidateSecondarySPs :: "int \<Rightarrow> int list \<Rightarrow> int \<times> bool" where
  "ValidateSecondarySPs sp ids =
     (case find (\<lambda>(_, x). sp = x) (enumerate 0 ids) of None \<Rightarrow> (-1, False) | Some (i, _) \<Rightarrow> (int i, True))"

text \<open>The price per byte divides the deposit; a price of zero panics.\<close>

definition TotalStakingStoreSizeOfGVG :: "GlobalVirtualGroup \<Rightarrow> int \<Rightarrow> int option" where
  "TotalStakingStoreSizeOfGVG gvg per =
     (if per = 0 then None
      else let stake = cgTotalDeposit gvg sdiv per in Some (if is_u64 stake then stake else MaxUint64))"

text \<open>
  Answers for one pass: the first query of a group (from the chain or from the metadata service), the
  queries of the chain before a message and after a deposit, and the results of the messages.
\<close>

record vg_answers =
  vaNow :: int
  vaQuery :: "int \<Rightarrow> vg_error + GlobalVirtualGroup"
  vaChain :: "int \<Rightarrow> vg_error + GlobalVirtualGroup"
  vaAgain :: "int \<Rightarrow> vg_error + GlobalVirtualGroup"
  vaDelete :: "int \<Rightarrow> vg_error option"
  vaDeposit :: "int \<Rightarrow> vg_error option"

datatype vg_action = DeleteGVG int | DepositGVG int

definition monitorGVGUsage ::
  "vg_answers \<Rightarrow> int \<Rightarrow> bool \<Rightarrow> GlobalVirtualGroup \<Rightarrow> gc_map \<Rightarrow> (vg_error + bool \<times> bool) \<times> gc_map \<times> vg_action list" where
  "monitorGVGUsage ans per byChain gvg gc =
     (if cgStoredSize gvg = 0
      then let gc1 = filter (\<lambda>(_, t). \<not> vaNow ans > i64 (t + 60)) gc in
        (case (if byChain then Inr gvg else vaChain ans (cgId gvg)) of
          Inl e \<Rightarrow> (Inl e, gc1, [])
        | Inr g \<Rightarrow>
            if cgStoredSize g \<noteq> 0 then (Inr (False, False), gc1, [])
            else (case map_of gc1 (cgId g) of
              None \<Rightarrow> (Inr (False, False), AList.update (cgId g) (i64 (vaNow ans + 86400)) gc1, [])
            | Some safeDeleteTime \<Rightarrow>
                if vaNow ans < safeDeleteTime then (Inr (False, False), gc1, [])
                else (case vaDelete ans (cgId g) of
                        Some e \<Rightarrow> (Inl e, gc1, [DeleteGVG (cgId g)])
                      | None \<Rightarrow> (Inr (False, True), AList.delete (cgId g) gc1, [DeleteGVG (cgId g)]))))
      else case TotalStakingStoreSizeOfGVG gvg per of
        None \<Rightarrow> (Inl VgPanic, gc, [])
      | Some stake \<Rightarrow>
          if \<not> usage_full (cgStoredSize gvg) stake then (Inr (False, False), gc, [])
          else (case (if byChain then Inr gvg else vaChain ans (cgId gvg)) of
            Inl e \<Rightarrow> (Inl e, gc, [])
          | Inr g \<Rightarrow>
              (case TotalStakingStoreSizeOfGVG g per of
                 None \<Rightarrow> (Inl VgPanic, gc, [])
               | Some stake' \<Rightarrow>
                   if \<not> byChain \<and> \<not> usage_full (cgStoredSize g) stake' then (Inr (False, False), gc, [])
                   else (case vaDeposit ans (cgId gvg) of
                           Some e \<Rightarrow> (Inl e, gc, [DepositGVG (cgId gvg)])
                         | None \<Rightarrow> (Inr (True, False), gc, [DepositGVG (cgId gvg)])))))"

definition gvg_meta :: "(int \<Rightarrow> string) \<Rightarrow> int \<Rightarrow> int \<Rightarrow> GlobalVirtualGroup \<Rightarrow> int \<Rightarrow> GlobalVirtualGroupMeta" where
  "gvg_meta endpoint sp family g stake =
     \<lparr>gvgID = cgId g, gvgFamilyID = family, gvgPrimarySPID = sp, gvgSecondarySPIDs = cgSecondarySpIds g,
      gvgSecondarySPEndpoints = map endpoint (cgSecondarySpIds g), gvgUsedStorageSize = cgStoredSize g, gvgStakingStorageSize = stake\<rparr>"

definition add_gvg :: "GlobalVirtualGroupMeta \<Rightarrow> VirtualGroupFamilyMeta \<Rightarrow> VirtualGroupFamilyMeta" where
  "add_gvg m f = f\<lparr>vgfGVGMap := AList.update (gvgID m) m (vgfGVGMap f),
     vgfUsedStorageSize := u64 (vgfUsedStorageSize f + gvgUsedStorageSize m),
     vgfStakingStorageSize := u64 (vgfStakingStorageSize f + gvgStakingStorageSize m)\<rparr>"

text \<open>The groups of one family; \<open>None\<close> for the family when an error ends the refresh.\<close>

fun refresh_groups ::
  "vg_answers \<Rightarrow> int \<Rightarrow> bool \<Rightarrow> (int \<Rightarrow> string) \<Rightarrow> int \<Rightarrow> int list \<Rightarrow> VirtualGroupFamilyMeta \<Rightarrow> gc_map \<Rightarrow> vg_action list
    \<Rightarrow> VirtualGroupFamilyMeta option \<times> gc_map \<times> vg_action list" where
  "refresh_groups ans per byChain endpoint sp [] f gc acts = (Some f, gc, acts)"
| "refresh_groups ans per byChain endpoint sp (i # ids) f gc acts =
     (case vaQuery ans i of
        Inl e \<Rightarrow> (None, gc, acts)
      | Inr g \<Rightarrow>
          (case monitorGVGUsage ans per byChain g gc of
             (Inl e, gc1, as) \<Rightarrow> (None, gc1, acts @ as)
           | (Inr (deposited, deleted), gc1, as) \<Rightarrow>
               if deleted then refresh_groups ans per byChain endpoint sp ids f gc1 (acts @ as)
               else (case (if deposited then vaAgain ans (cgId g) else Inr g) of
                       Inl e \<Rightarrow> (None, gc1, acts @ as)
                     | Inr g' \<Rightarrow>
                         (case TotalStakingStoreSizeOfGVG g' per of
                            None \<Rightarrow> (None, gc1, acts @ as)
                          | Some stake \<Rightarrow> refresh_groups ans per byChain endpoint sp ids
                              (add_gvg (gvg_meta endpoint sp (vgfID f) g' stake) f) gc1 (acts @ as)))))"

fun refresh_families ::
  "vg_answers \<Rightarrow> int \<Rightarrow> bool \<Rightarrow> (int \<Rightarrow> string) \<Rightarrow> int \<Rightarrow> (int \<times> int list) list \<Rightarrow> families \<Rightarrow> gc_map \<Rightarrow> vg_action list
    \<Rightarrow> families option \<times> gc_map \<times> vg_action list" where
  "refresh_families ans per byChain endpoint sp [] fs gc acts = (Some fs, gc, acts)"
| "refresh_families ans per byChain endpoint sp ((i, gvgs) # vgfs) fs gc acts =
     (case refresh_groups ans per byChain endpoint sp gvgs
             \<lparr>vgfID = i, vgfPrimarySPID = sp, vgfUsedStorageSize = 0, vgfStakingStorageSize = 0, vgfGVGMap = []\<rparr> gc acts of
        (None, gc1, acts1) \<Rightarrow> (None, gc1, acts1)
      | (Some f, gc1, acts1) \<Rightarrow> refresh_families ans per byChain endpoint sp vgfs (AList.update i f fs) gc1 acts1)"

definition lower :: "char \<Rightarrow> char" where
  "lower c = (let n = of_char c :: nat in if 65 \<le> n \<and> n \<le> 90 then char_of (n + 32) else c)"

definition EqualFold :: "string \<Rightarrow> string \<Rightarrow> bool" where
  "EqualFold a b \<longleftrightarrow> map lower a = map lower b"

text \<open>Operator addresses are unique on the chain, so at most one provider is this one.\<close>

definition refreshGVGMeta ::
  "vg_answers \<Rightarrow> StorageProvider list option \<Rightarrow> int option \<Rightarrow> (int \<times> int list) list option \<Rightarrow> bool \<Rightarrow> virtualGroupManager
    \<Rightarrow> virtualGroupManager \<times> vg_action list" where
  "refreshGVGMeta ans spList perBytes vgfList byChain vm =
     (case spList of
        None \<Rightarrow> (vm, [])
      | Some sps \<Rightarrow>
          let isSelf = (\<lambda>sp. EqualFold (vmOperatorAddress vm) (spOperatorAddress sp));
              others = (if list_ex isSelf sps then filter (\<lambda>sp. \<not> isSelf sp) (sort_key spId sps) else []);
              vm1 = vm\<lparr>vmHealthChecker := map_option (addAllSP others) (vmHealthChecker vm)\<rparr>;
              endpoint = (\<lambda>i. case find (\<lambda>sp. spId sp = i) sps of None \<Rightarrow> [] | Some sp \<Rightarrow> spEndpoint sp)
          in case find isSelf sps of
               None \<Rightarrow> (vm1, [])
             | Some self \<Rightarrow>
                 if spId self = 0 then (vm1, [])
                 else (case (perBytes, vgfList) of
                         (Some per, Some vgfs) \<Rightarrow>
                           (case refresh_families ans per byChain endpoint (spId self) vgfs [] (vmGCMap vm1) [] of
                              (None, gc, acts) \<Rightarrow> (vm1\<lparr>vmGCMap := gc\<rparr>, acts)
                            | (Some fs, gc, acts) \<Rightarrow>
                                (vm1\<lparr>vmSelfSPID := spId self, vmSpManager := Some \<lparr>selfSP = self, otherSPs = others\<rparr>,
                                     vmFamilies := Some fs, vmGCMap := gc\<rparr>, acts))
                       | _ \<Rightarrow> (vm1, [])))"

subsection \<open>The interface\<close>

text \<open>When the chain does not answer, families are not filtered.\<close>

definition genVgfFilter :: "(int list \<Rightarrow> vg_error + int list) \<Rightarrow> virtualGroupManager \<Rightarrow> vg_error + int list option" where
  "genVgfFilter avail vm =
     (case vmFamilies vm of
        None \<Rightarrow> Inl VgPanic
      | Some fs \<Rightarrow>
          if fs = [] then Inl ErrFailedPickVGF
          else (case avail (map fst fs) of Inl _ \<Rightarrow> Inr None | Inr ids \<Rightarrow> Inr (Some ids)))"

definition PickVirtualGroupFamily ::
  "rat \<Rightarrow> (weights \<Rightarrow> weights) \<Rightarrow> (int list \<Rightarrow> vg_error + int list) \<Rightarrow> int list \<Rightarrow> virtualGroupManager \<Rightarrow> vg_error + VirtualGroupFamilyMeta option" where
  "PickVirtualGroupFamily rnd ord avail blackList vm =
     (case genVgfFilter avail vm of
        Inl e \<Rightarrow> Inl e
      | Inr available \<Rightarrow> pickVirtualGroupFamily rnd ord available blackList (vmHealthChecker vm) (the (vmFamilies vm)))"

text \<open>\<open>PickMigrateDestGlobalVirtualGroup\<close> has the same body.\<close>

definition PickGlobalVirtualGroup ::
  "rat \<Rightarrow> (weights \<Rightarrow> weights) \<Rightarrow> int \<Rightarrow> int list option \<Rightarrow> virtualGroupManager \<Rightarrow> vg_error + GlobalVirtualGroupMeta option" where
  "PickGlobalVirtualGroup rnd ord family excluded vm =
     (case vmFamilies vm of
        None \<Rightarrow> Inl VgPanic
      | Some fs \<Rightarrow> vgf_pickGlobalVirtualGroup rnd ord family (Some (GetFreezeGVGsInFamily family (vmFreezePool vm))) excluded (vmHealthChecker vm) fs)"

definition PickGlobalVirtualGroupForBucketMigrate ::
  "rat \<Rightarrow> (weights \<Rightarrow> weights) \<Rightarrow> (int list \<Rightarrow> vg_error + int list) \<Rightarrow> (int \<Rightarrow> bool) \<Rightarrow> (GlobalVirtualGroupMeta \<Rightarrow> bool) \<Rightarrow> virtualGroupManager
    \<Rightarrow> vg_error + GlobalVirtualGroupMeta option" where
  "PickGlobalVirtualGroupForBucketMigrate rnd ord avail checkFamily checkGVG vm =
     (case genVgfFilter avail vm of
        Inl e \<Rightarrow> Inl e
      | Inr available \<Rightarrow> pickGlobalVirtualGroupForBucketMigrate rnd ord available checkFamily checkGVG (the (vmFamilies vm)))"

definition GenerateGlobalVirtualGroupMeta :: "policy \<Rightarrow> int list option \<Rightarrow> virtualGroupManager \<Rightarrow> vg_error + GlobalVirtualGroupMeta" where
  "GenerateGlobalVirtualGroupMeta pol excluded vm =
     (case vmSpManager vm of
        None \<Rightarrow> Inl VgPanic
      | Some sm \<Rightarrow> generateVirtualGroupMeta pol (Some (GetFreezeSPIDs (vmFreezePool vm))) excluded (vmHealthChecker vm) sm)"

definition PickSPByFilter :: "(int \<Rightarrow> bool) \<Rightarrow> virtualGroupManager \<Rightarrow> vg_error + StorageProvider" where
  "PickSPByFilter check vm =
     (case vmSpManager vm of None \<Rightarrow> Inl VgPanic | Some sm \<Rightarrow> pickSPByFilter check (vmHealthChecker vm) sm)"

definition QuerySPByID :: "(int \<Rightarrow> vg_error + StorageProvider) \<Rightarrow> int \<Rightarrow> virtualGroupManager \<Rightarrow> vg_error + StorageProvider" where
  "QuerySPByID chain i vm =
     (case vmSpManager vm of
        None \<Rightarrow> Inl VgPanic
      | Some sm \<Rightarrow> (case querySPByID i sm of Inr sp \<Rightarrow> Inr sp | Inl _ \<Rightarrow> chain i))"

definition FreezeSPAndGVGs :: "int \<Rightarrow> int \<Rightarrow> GlobalVirtualGroup list \<Rightarrow> virtualGroupManager \<Rightarrow> virtualGroupManager" where
  "FreezeSPAndGVGs now sp gvgs vm = vm\<lparr>vmFreezePool := pool_FreezeSPAndGVGs now sp gvgs (vmFreezePool vm)\<rparr>"

definition ReleaseAllSP :: "virtualGroupManager \<Rightarrow> virtualGroupManager" where
  "ReleaseAllSP vm = vm\<lparr>vmFreezePool := pool_ReleaseAllSP (vmFreezePool vm)\<rparr>"

text \<open>One tick of the loop that releases frozen providers.\<close>

definition releaseSPAndGVGLoop :: "int \<Rightarrow> Params option \<Rightarrow> virtualGroupManager \<Rightarrow> virtualGroupManager" where
  "releaseSPAndGVGLoop now params vm =
     (case vmSpManager vm of
        None \<Rightarrow> vm
      | Some sm \<Rightarrow>
          let vm1 = vm\<lparr>vmFreezePool := ReleaseSP now (vmFreezePool vm)\<rparr>;
              alive = filter spInService (otherSPs sm)
          in case params of
               None \<Rightarrow> vm1
             | Some p \<Rightarrow>
                 if int (length alive) - int (length (GetFreezeSPIDs (vmFreezePool vm1))) < u32 (RedundantDataChunkNum p + RedundantParityChunkNum p)
                 then ReleaseAllSP vm1 else vm1)"

end
