(* ===== verification/SP_VirtualGroupProps.thy ===== *)
theory SP_VirtualGroupProps
  imports SP_VirtualGroup SP_TaskProps
begin

text \<open>
  Properties of the virtual group manager: what it picks has room, is healthy, not frozen and not
  excluded, in every state it can reach; the providers of a new group are distinct and as many as the
  redundancy asks for; and a group is only deleted after it has been empty for a day.
\<close>

subsection \<open>Weighted picking\<close>

text \<open>The order in which a map is ranged over is a permutation of it.\<close>

definition ord_ok :: "(weights \<Rightarrow> weights) \<Rightarrow> bool" where
  "ord_ok ord \<longleftrightarrow> (\<forall>w. set (ord w) = set w)"

lemma first_above_in: "first_above target acc w = Some k \<Longrightarrow> k \<in> fst ` set w"
  by (induction target acc w rule: first_above.induct) (force simp: Let_def split: if_splits)+

lemma pickIndex_in: "ord_ok ord \<Longrightarrow> pickIndex rnd ord w = Some k \<Longrightarrow> k \<in> fst ` set w"
  using first_above_in unfolding pickIndex_def ord_ok_def Let_def by metis

lemma keys_update: "fst ` set (AList.update k v w) = insert k (fst ` set w)"
  by (simp add: dom_update)

lemma family_weights:
  "fst ` set (fold (\<lambda>e w. if P e then addVirtualGroupFamily (snd e) w else w) es w0) =
     fst ` set w0 \<union> (\<lambda>e. vgfID (snd e)) ` {e \<in> set es. P e \<and> \<not> usage_full (vgfUsedStorageSize (snd e)) (vgfStakingStorageSize (snd e))
       \<and> vgfStakingStorageSize (snd e) \<noteq> 0}"
  by (induction es arbitrary: w0) (auto simp: addVirtualGroupFamily_def keys_update)

lemma group_weights:
  "fst ` set (fold (\<lambda>(_, g) w. if P g then addGlobalVirtualGroup g w else w) es w0) =
     fst ` set w0 \<union> gvgID ` {g \<in> snd ` set es. P g \<and> \<not> usage_full (gvgUsedStorageSize g) (gvgStakingStorageSize g)}"
proof (induction es arbitrary: w0)
  case (Cons e es)
  obtain i g where e: "e = (i, g)" by (cases e)
  show ?case using Cons [of "if P g then addGlobalVirtualGroup g w0 else w0"]
    by (auto simp: e addGlobalVirtualGroup_def keys_update)
qed simp

subsection \<open>The manager's invariant\<close>

definition map_ok :: "('a \<Rightarrow> int) \<Rightarrow> (int \<times> 'a) list \<Rightarrow> bool" where
  "map_ok key m \<longleftrightarrow> distinct (map fst m) \<and> (\<forall>e \<in> set m. key (snd e) = fst e)"

definition family_inv :: "VirtualGroupFamilyMeta \<Rightarrow> bool" where
  "family_inv f \<longleftrightarrow> map_ok gvgID (vgfGVGMap f)"

definition families_inv :: "families \<Rightarrow> bool" where
  "families_inv fs \<longleftrightarrow> map_ok vgfID fs \<and> (\<forall>e \<in> set fs. family_inv (snd e))"

definition sps_inv :: "spManager \<Rightarrow> bool" where
  "sps_inv sm \<longleftrightarrow> distinct (map spId (selfSP sm # otherSPs sm))"

definition vm_inv :: "virtualGroupManager \<Rightarrow> bool" where
  "vm_inv vm \<longleftrightarrow> (\<forall>fs. vmFamilies vm = Some fs \<longrightarrow> families_inv fs) \<and> (\<forall>sm. vmSpManager vm = Some sm \<longrightarrow> sps_inv sm)"

lemma map_ok_lookup: "map_ok key m \<Longrightarrow> (k, x) \<in> set m \<Longrightarrow> map_of m (key x) = Some x"
  by (force simp: map_ok_def)

lemma map_ok_Some: "map_ok key m \<Longrightarrow> map_of m k = Some x \<Longrightarrow> key x = k \<and> (k, x) \<in> set m"
  by (auto simp: map_ok_def dest!: map_of_SomeD)

lemma update_entries: "e \<in> set (AList.update k x m) \<Longrightarrow> e = (k, x) \<or> e \<in> set m"
  by (induction m) (auto split: if_splits)

lemma map_ok_update: "map_ok key m \<Longrightarrow> key x = k \<Longrightarrow> map_ok key (AList.update k x m)"
  by (auto simp: map_ok_def distinct_update dest!: update_entries)

lemma refresh_groups_inv:
  "refresh_groups ans per byChain endpoint sp ids f gc acts = (Some f', gc', acts') \<Longrightarrow> family_inv f \<Longrightarrow> family_inv f' \<and> vgfID f' = vgfID f"
proof (induction ids arbitrary: f gc acts)
  case (Cons i ids)
  obtain g where g: "vaQuery ans i = Inr g" using Cons.prems(1) by (auto split: sum.splits)
  obtain r gc1 as where m: "monitorGVGUsage ans per byChain g gc = (r, gc1, as)" by (cases "monitorGVGUsage ans per byChain g gc")
  obtain deposited deleted where r: "r = Inr (deposited, deleted)" using Cons.prems(1) g m by (cases r) auto
  show ?case
  proof (cases deleted)
    case True
    then show ?thesis using Cons g m r by simp
  next
    case False
    then obtain g' stake where s: "TotalStakingStoreSizeOfGVG g' per = Some stake"
      "refresh_groups ans per byChain endpoint sp ids (add_gvg (gvg_meta endpoint sp (vgfID f) g' stake) f) gc1 (acts @ as) = (Some f', gc', acts')"
      using Cons.prems(1) g m r by (auto split: sum.splits option.splits if_splits)
    have "family_inv (add_gvg (gvg_meta endpoint sp (vgfID f) g' stake) f)"
      using Cons.prems(2) by (simp add: family_inv_def add_gvg_def map_ok_update)
    from Cons.IH [OF s(2) this] show ?thesis by (simp add: add_gvg_def)
  qed
qed simp

lemma refresh_families_inv:
  "refresh_families ans per byChain endpoint sp vgfs fs gc acts = (Some fs', gc', acts') \<Longrightarrow> families_inv fs \<Longrightarrow> families_inv fs'"
proof (induction vgfs arbitrary: fs gc acts)
  case (Cons v vgfs)
  obtain i gvgs where v: "v = (i, gvgs)" by (cases v)
  define f0 where "f0 = \<lparr>vgfID = i, vgfPrimarySPID = sp, vgfUsedStorageSize = 0, vgfStakingStorageSize = 0, vgfGVGMap = []\<rparr>"
  obtain f gc1 acts1 where f: "refresh_groups ans per byChain endpoint sp gvgs f0 gc acts = (Some f, gc1, acts1)"
      "refresh_families ans per byChain endpoint sp vgfs (AList.update i f fs) gc1 acts1 = (Some fs', gc', acts')"
    using Cons.prems(1) by (auto simp: v f0_def split: prod.splits option.splits)
  have fi: "family_inv f" "vgfID f = i" using refresh_groups_inv [OF f(1)] by (auto simp: f0_def family_inv_def map_ok_def)
  have "families_inv (AList.update i f fs)"
    using Cons.prems(2) fi map_ok_update [of vgfID fs f i] by (auto simp: families_inv_def dest!: update_entries)
  from Cons.IH [OF f(2) this] show ?case .
qed simp

text \<open>
  The states a manager can reach.  Every operation that changes it is a step; the chain lists every
  provider once.
\<close>

inductive vm_reachable :: "virtualGroupManager \<Rightarrow> bool" where
  vm_new: "vmFamilies vm = None \<Longrightarrow> vmSpManager vm = None \<Longrightarrow> vm_reachable vm"
| vm_refresh: "vm_reachable vm \<Longrightarrow> (\<forall>sps. spList = Some sps \<longrightarrow> distinct (map spId sps)) \<Longrightarrow>
    vm_reachable (fst (refreshGVGMeta ans spList perBytes vgfList byChain vm))"
| vm_freeze: "vm_reachable vm \<Longrightarrow> vm_reachable (FreezeSPAndGVGs now sp gvgs vm)"
| vm_release_all: "vm_reachable vm \<Longrightarrow> vm_reachable (ReleaseAllSP vm)"
| vm_release: "vm_reachable vm \<Longrightarrow> vm_reachable (releaseSPAndGVGLoop now params vm)"
| vm_health: "vm_reachable vm \<Longrightarrow> vm_reachable (vm\<lparr>vmHealthChecker := map_option (checkAllSPHealth answers params) (vmHealthChecker vm)\<rparr>)"

lemma refreshGVGMeta_inv:
  assumes "vm_inv vm" and "\<forall>sps. spList = Some sps \<longrightarrow> distinct (map spId sps)"
  shows "vm_inv (fst (refreshGVGMeta ans spList perBytes vgfList byChain vm))"
proof (cases spList)
  case (Some sps)
  define isSelf :: "StorageProvider \<Rightarrow> bool" where "isSelf = (\<lambda>sp. EqualFold (vmOperatorAddress vm) (spOperatorAddress sp))"
  define others where "others = (if list_ex isSelf sps then filter (\<lambda>sp. \<not> isSelf sp) (sort_key spId sps) else [])"
  have d: "distinct (map spId sps)" using assms(2) Some by simp
  have dm: "distinct (map spId (filter P (sort_key spId sps)))" for P
    using d by (intro distinct_map_filter) (simp add: distinct_map inj_on_def)
  have inv1: "vm_inv (vm\<lparr>vmHealthChecker := h, vmGCMap := gc\<rparr>)" "vm_inv (vm\<lparr>vmHealthChecker := h\<rparr>)" for h gc
    using assms(1) by (simp_all add: vm_inv_def)
  show ?thesis
  proof (cases "find isSelf sps")
    case None
    then show ?thesis using inv1 Some by (simp add: refreshGVGMeta_def Let_def isSelf_def [symmetric])
  next
    case (Some self)
    then have self: "self \<in> set sps" "isSelf self" by (auto simp: find_Some_iff)
    have "spId self \<notin> spId ` set others"
      using d self by (auto simp: others_def distinct_map inj_on_def split: if_splits)
    then have "sps_inv \<lparr>selfSP = self, otherSPs = others\<rparr>"
      using dm [of "\<lambda>sp. \<not> isSelf sp"] by (simp add: sps_inv_def others_def)
    then have inv2: "vm_inv (vm\<lparr>vmHealthChecker := h, vmSelfSPID := i, vmSpManager := Some \<lparr>selfSP = self, otherSPs = others\<rparr>, vmFamilies := Some fs, vmGCMap := gc\<rparr>)"
      if "families_inv fs" for fs i gc h using that by (simp add: vm_inv_def)
    have inv3: "families_inv fs" if "refresh_families ans per byChain endpoint sp vgfs [] gc acts = (Some fs, gc', acts')" for per endpoint sp vgfs gc acts fs gc' acts'
      using refresh_families_inv [OF that] by (simp add: families_inv_def map_ok_def)
    have ex: "list_ex isSelf sps" using self by (auto simp: list_ex_iff)
    then have oe: "others = filter (\<lambda>sp. \<not> isSelf sp) (sort_key spId sps)" by (simp add: others_def)
    show ?thesis
      using inv1 inv2 [unfolded oe] inv3 Some \<open>spList = Some sps\<close> ex
      by (auto simp: refreshGVGMeta_def Let_def isSelf_def [symmetric] split: option.splits prod.splits)
  qed
qed (use assms in \<open>simp add: refreshGVGMeta_def\<close>)

lemma vm_reachable_inv: "vm_reachable vm \<Longrightarrow> vm_inv vm"
proof (induction rule: vm_reachable.induct)
  case (vm_refresh vm spList ans perBytes vgfList byChain)
  then show ?case by (intro refreshGVGMeta_inv)
qed (auto simp: vm_inv_def FreezeSPAndGVGs_def ReleaseAllSP_def releaseSPAndGVGLoop_def Let_def split: option.splits)

subsection \<open>Rounding keeps positive numbers positive\<close>

lemma round_pos: "1 \<le> x \<Longrightarrow> 1 \<le> round_half_even x"
proof -
  assume "1 \<le> x"
  then have "1 \<le> \<lfloor>x\<rfloor>" by linarith
  then show ?thesis by (auto simp: round_half_even_def Let_def)
qed

lemma power_floorlog: "0 < n \<Longrightarrow> n < 2 ^ floorlog 2 n \<and> 2 ^ floorlog 2 n \<le> 2 * n"
proof -
  assume n: "0 < n"
  have "n < 2 ^ floorlog 2 n" using floorlog_bounds [of n 2] n by simp
  moreover have "2 ^ (floorlog 2 n - 1) \<le> n" using floorlog_bounds [of n 2] n by simp
  moreover have "floorlog 2 n = Suc (floorlog 2 n - 1)" using n by (simp add: floorlog_def)
  ultimately show ?thesis by (metis mult_le_mono2 power_Suc)
qed

lemma float64_pos: "0 < x \<Longrightarrow> 0 < float64 x"
proof (cases "x < 1")
  case True
  assume x: "0 < x"
  define n where "n = nat \<lfloor>1 / x\<rfloor>"
  have "1 < 1 / x" using x True by simp
  then have fl: "0 < \<lfloor>1 / x\<rfloor>" by linarith
  have nn: "int n = \<lfloor>1 / x\<rfloor>" unfolding n_def using fl by linarith
  with fl have n: "0 < n" by linarith
  have "1 / x < of_int (\<lfloor>1 / x\<rfloor> + 1)" by linarith
  also have "\<lfloor>1 / x\<rfloor> + 1 = int (n + 1)" unfolding nn [symmetric] by simp
  also have "of_int (int (n + 1)) = (of_nat (n + 1) :: rat)" by simp
  also have "\<dots> \<le> of_nat (2 ^ floorlog 2 n)" using power_floorlog [OF n] by (intro of_nat_mono) simp
  finally have "1 < x * 2 ^ floorlog 2 n" using x by (simp add: field_simps)
  then have "1 * 1 \<le> x * 2 ^ floorlog 2 n * 2 ^ 52" by (intro mult_mono) auto
  then have "1 \<le> x * 2 powi (52 + int (floorlog 2 n))" by (simp add: power_int_add mult_ac)
  from round_pos [OF this] show ?thesis using x True by (simp add: float64_def Let_def n_def [symmetric] zero_less_power_int)
next
  case False
  define n where "n = nat \<lfloor>x\<rfloor>"
  have n: "0 < n" "of_nat n \<le> x" using False by (simp_all add: n_def)
  have "(2 :: rat) ^ floorlog 2 n \<le> 2 * of_nat n" using power_floorlog [OF n(1)] by (metis of_nat_le_iff of_nat_mult of_nat_numeral of_nat_power)
  then have "1 \<le> x * 2 / 2 ^ floorlog 2 n" using n by (simp add: field_simps)
  then have "1 * 1 \<le> x * 2 / 2 ^ floorlog 2 n * 2 ^ 52" using False by (intro mult_mono) auto
  then have "1 \<le> x * 2 powi (53 - int (floorlog 2 n))" by (simp add: power_int_diff field_simps)
  from round_pos [OF this] show ?thesis using False by (simp add: float64_def f64_def Let_def n_def [symmetric] zero_less_power_int)
qed

lemma empty_not_full: "0 < stake \<Longrightarrow> \<not> usage_full 0 stake"
proof -
  assume s: "0 < stake"
  have "0 < MaxStorageUsageRatio" by (simp add: MaxStorageUsageRatio_def float64_pos)
  moreover have "0 < float64 (of_int stake)" using s by (simp add: float64_pos)
  ultimately have "0 < float64 (MaxStorageUsageRatio * float64 (of_int stake))" by (simp add: float64_pos)
  then show ?thesis by (simp add: usage_full_def float64_def)
qed

subsection \<open>Properties\<close>

text \<open>
  C29: In every reachable state, a group picked for an object belongs to the family asked for, has room
  below the usage limit, is not excluded, has no frozen record in that family, and all its secondary
  providers are healthy.
\<close>

theorem picked_group_sound:
  assumes "vm_reachable vm" and "ord_ok ord" and "PickGlobalVirtualGroup rnd ord family excluded vm = Inr r"
  shows "\<exists>g f fs. r = Some g \<and> vmFamilies vm = Some fs \<and> map_of fs family = Some f \<and> map_of (vgfGVGMap f) (gvgID g) = Some g
    \<and> \<not> usage_full (gvgUsedStorageSize g) (gvgStakingStorageSize g)
    \<and> gvgID g \<notin> set (GetFreezeGVGsInFamily family (vmFreezePool vm))
    \<and> (\<forall>ids. excluded = Some ids \<longrightarrow> gvgID g \<notin> set ids)
    \<and> (\<forall>c. vmHealthChecker vm = Some c \<longrightarrow> list_all (isSPHealthy c) (gvgSecondarySPIDs g))"
proof -
  obtain fs f gid where f: "vmFamilies vm = Some fs" "map_of fs family = Some f" "r = map_of (vgfGVGMap f) gid"
    and p: "pickIndex rnd ord (fold (\<lambda>(_, g) w. if group_ok (Some (GetFreezeGVGsInFamily family (vmFreezePool vm))) excluded (vmHealthChecker vm) g
        then addGlobalVirtualGroup g w else w) (vgfGVGMap f) []) = Some gid"
    using assms(3) by (auto simp: PickGlobalVirtualGroup_def vgf_pickGlobalVirtualGroup_def Let_def split: option.splits)
  obtain k g where g: "(k, g) \<in> set (vgfGVGMap f)" "gvgID g = gid" "\<not> usage_full (gvgUsedStorageSize g) (gvgStakingStorageSize g)"
      "group_ok (Some (GetFreezeGVGsInFamily family (vmFreezePool vm))) excluded (vmHealthChecker vm) g"
    using pickIndex_in [OF assms(2) p] unfolding group_weights by auto
  have "family_inv f"
    using vm_reachable_inv [OF assms(1)] f(1) map_of_SomeD [OF f(2)] by (auto simp: vm_inv_def families_inv_def)
  then have "map_of (vgfGVGMap f) (gvgID g) = Some g" using g(1) map_ok_lookup unfolding family_inv_def by metis
  then show ?thesis using f g by (auto simp: group_ok_def ExcludeIDFilter_Apply_def isGVGHealthy_def)
qed

text \<open>
  In every reachable state, a family picked for a bucket is available when the chain answered, has a
  group without a blacklisted provider, counts as healthy, and has room below the usage limit.
\<close>

theorem picked_family_sound:
  assumes "vm_reachable vm" and "ord_ok ord" and "PickVirtualGroupFamily rnd ord avail blackList vm = Inr r"
  shows "\<exists>f fs. r = Some f \<and> vmFamilies vm = Some fs \<and> map_of fs (vgfID f) = Some f
    \<and> \<not> usage_full (vgfUsedStorageSize f) (vgfStakingStorageSize f) \<and> vgfStakingStorageSize f \<noteq> 0
    \<and> (\<forall>ids. avail (map fst fs) = Inr ids \<longrightarrow> vgfID f \<in> set ids)
    \<and> (\<exists>g \<in> snd ` set (vgfGVGMap f). set (gvgSecondarySPIDs g) \<inter> set blackList = {})
    \<and> (\<forall>c. vmHealthChecker vm = Some c \<longrightarrow> isVGFHealthy c f)"
proof -
  obtain fs available i where f: "vmFamilies vm = Some fs" "genVgfFilter avail vm = Inr available" "r = map_of fs i"
    and p: "pickIndex rnd ord (fold (\<lambda>e w. if family_ok available blackList (vmHealthChecker vm) e then addVirtualGroupFamily (snd e) w else w) fs []) = Some i"
    using assms(3) by (auto simp: PickVirtualGroupFamily_def pickVirtualGroupFamily_def genVgfFilter_def Let_def split: option.splits sum.splits if_splits)
  obtain e where e: "e \<in> set fs" "vgfID (snd e) = i" "\<not> usage_full (vgfUsedStorageSize (snd e)) (vgfStakingStorageSize (snd e))"
      "vgfStakingStorageSize (snd e) \<noteq> 0" "family_ok available blackList (vmHealthChecker vm) e"
    using pickIndex_in [OF assms(2) p] unfolding family_weights by auto
  have fi: "map_ok vgfID fs" using vm_reachable_inv [OF assms(1)] f(1) by (auto simp: vm_inv_def families_inv_def)
  then have m: "map_of fs (vgfID (snd e)) = Some (snd e)" "fst e = vgfID (snd e)" using e(1) map_ok_lookup [of vgfID fs "fst e" "snd e"] by (auto simp: map_ok_def)
  have a: "vgfID (snd e) \<in> set ids" if "avail (map fst fs) = Inr ids" for ids
    using f(1,2) e(5) m(2) that by (auto simp: genVgfFilter_def family_ok_def PickVGFFilter_Check_def split: if_splits)
  let ?bad = "\<lambda>(_ :: int, g). \<exists>s \<in> set (gvgSecondarySPIDs g). s \<in> set blackList"
  have "length (filter ?bad (vgfGVGMap (snd e))) < length (vgfGVGMap (snd e))"
    using e(5) by (simp add: family_ok_def PickVGFByGVGFilter_Check_def)
  then obtain x where "x \<in> set (vgfGVGMap (snd e))" "\<not> ?bad x" by (metis (no_types, lifting) filter_True less_irrefl)
  then have "\<exists>g \<in> snd ` set (vgfGVGMap (snd e)). set (gvgSecondarySPIDs g) \<inter> set blackList = {}" by (force split: prod.splits)
  then show ?thesis using f e m a by (auto simp: family_ok_def)
qed

text \<open>A state reached by one refresh: this provider, two others, and a family with one empty group.\<close>

definition sample_gvg :: GlobalVirtualGroup where
  "sample_gvg = \<lparr>cgId = 9, cgFamilyId = 5, cgPrimarySpId = 1, cgSecondarySpIds = [2, 3], cgStoredSize = 0, cgTotalDeposit = 1000\<rparr>"

definition sample_sp :: "int \<Rightarrow> StorageProvider" where
  "sample_sp i = \<lparr>spId = i, spOperatorAddress = (if i = 1 then [] else ''x''), spEndpoint = [], spInService = True\<rparr>"

definition sample_answers :: "int \<Rightarrow> vg_answers" where
  "sample_answers now = \<lparr>vaNow = now, vaQuery = \<lambda>_. Inr sample_gvg, vaChain = \<lambda>_. Inr sample_gvg, vaAgain = \<lambda>_. Inr sample_gvg,
     vaDelete = \<lambda>_. None, vaDeposit = \<lambda>_. None\<rparr>"

definition sample_vm0 :: virtualGroupManager where
  "sample_vm0 = \<lparr>vmOperatorAddress = [], vmSelfSPID = 0, vmSpManager = None, vmFamilies = None, vmFreezePool = [],
     vmHealthChecker = Some \<lparr>hcSps = [], hcUnhealthy = []\<rparr>, vmGCMap = []\<rparr>"

definition sample_vm :: virtualGroupManager where
  "sample_vm = fst (refreshGVGMeta (sample_answers 10) (Some [sample_sp 1, sample_sp 2, sample_sp 3]) (Some 1) (Some [(5, [9])]) True sample_vm0)"

definition sample_group :: GlobalVirtualGroupMeta where
  "sample_group = \<lparr>gvgID = 9, gvgFamilyID = 5, gvgPrimarySPID = 1, gvgSecondarySPIDs = [2, 3], gvgSecondarySPEndpoints = [[], []],
     gvgUsedStorageSize = 0, gvgStakingStorageSize = 1000\<rparr>"

definition sample_family :: VirtualGroupFamilyMeta where
  "sample_family = \<lparr>vgfID = 5, vgfPrimarySPID = 1, vgfUsedStorageSize = 0, vgfStakingStorageSize = 1000, vgfGVGMap = [(9, sample_group)]\<rparr>"

lemma sample_vm_reachable: "vm_reachable sample_vm"
  unfolding sample_vm_def by (intro vm_refresh vm_new) (simp_all add: sample_vm0_def sample_sp_def)

lemma sample_vm_fields:
  "vmFamilies sample_vm = Some [(5, sample_family)]" "vmFreezePool sample_vm = []"
  "vmSpManager sample_vm = Some \<lparr>selfSP = sample_sp 1, otherSPs = [sample_sp 2, sample_sp 3]\<rparr>"
  "vmHealthChecker sample_vm = Some \<lparr>hcSps = [(2, sample_sp 2), (3, sample_sp 3)], hcUnhealthy = []\<rparr>"
  by (simp_all add: sample_vm_def refreshGVGMeta_def sample_vm0_def sample_sp_def EqualFold_def Let_def sample_answers_def sample_gvg_def
      monitorGVGUsage_def TotalStakingStoreSizeOfGVG_def add_gvg_def gvg_meta_def sample_family_def sample_group_def sdiv_nonneg is_u64_def u64_id addAllSP_def)

lemma sample_ord: "ord_ok (\<lambda>w. w)"
  by (simp add: ord_ok_def)

lemma sample_weight: "float64 1000 \<noteq> 0" "float64 0 = 0" "0 < float64 (float64 1)"
proof -
  show "float64 1000 \<noteq> 0" using float64_pos [of 1000] by linarith
  show "float64 0 = 0" by (simp add: float64_def)
  show "0 < float64 (float64 1)" by (simp add: float64_pos)
qed

theorem picked_group_sound_witness:
  "\<exists>g. PickGlobalVirtualGroup 0 (\<lambda>w. w) 5 (Some []) sample_vm = Inr (Some g) \<and> \<not> usage_full (gvgUsedStorageSize g) (gvgStakingStorageSize g)"
proof -
  have "PickGlobalVirtualGroup 0 (\<lambda>w. w) 5 (Some []) sample_vm = Inr (Some sample_group)"
    using sample_weight empty_not_full [of 1000]
    by (simp add: PickGlobalVirtualGroup_def sample_vm_fields vgf_pickGlobalVirtualGroup_def sample_family_def group_ok_def GetFreezeGVGsInFamily_def
        ExcludeIDFilter_Apply_def isGVGHealthy_def isSPHealthy_def sample_group_def addGlobalVirtualGroup_def pickIndex_def Let_def u64_id float64_pos)
  from picked_group_sound [OF sample_vm_reachable sample_ord this] this show ?thesis by blast
qed

theorem picked_family_sound_witness:
  "\<exists>f. PickVirtualGroupFamily 0 (\<lambda>w. w) (\<lambda>ids. Inr ids) [7] sample_vm = Inr (Some f) \<and> \<not> usage_full (vgfUsedStorageSize f) (vgfStakingStorageSize f)"
proof -
  have "PickVirtualGroupFamily 0 (\<lambda>w. w) (\<lambda>ids. Inr ids) [7] sample_vm = Inr (Some sample_family)"
    using sample_weight empty_not_full [of 1000]
    by (simp add: PickVirtualGroupFamily_def genVgfFilter_def sample_vm_fields pickVirtualGroupFamily_def sample_family_def family_ok_def
        PickVGFFilter_Check_def PickVGFByGVGFilter_Check_def isVGFHealthy_def isGVGHealthy_def isSPHealthy_def sample_group_def
        addVirtualGroupFamily_def pickIndex_def Let_def u64_id float64_pos)
  from picked_family_sound [OF sample_vm_reachable sample_ord this] this show ?thesis by blast
qed

subsection \<open>New groups\<close>

lemma candidates_added:
  "fold (\<lambda>sp p. if P sp then AddCandidateSP (spId sp) p else p) sps pol =
     pol\<lparr>preferSPIDList := preferSPIDList pol @ map spId (filter (\<lambda>sp. P sp \<and> spId sp \<in> set (preferSPIDMap pol)) sps),
         backupSPIDList := backupSPIDList pol @ map spId (filter (\<lambda>sp. P sp \<and> spId sp \<notin> set (preferSPIDMap pol)) sps)\<rparr>"
  by (induction sps arbitrary: pol) (auto simp: AddCandidateSP_def)

lemma filter_lengths: "length (filter (\<lambda>x. P x \<and> Q x) xs) + length (filter (\<lambda>x. P x \<and> \<not> Q x) xs) = length (filter P xs)"
  by (induction xs) auto

text \<open>
  C30: A new group planned in a reachable state has this provider as its primary and as many secondary
  providers as the redundancy asks for, all different and different from the primary, in service, not
  frozen, not excluded and healthy; preferred providers come first.  It fails exactly when there are too few.
\<close>

theorem planned_group_sound:
  assumes "vm_reachable vm" and "vmSpManager vm = Some sm"
    and "pol = NewGenerateGVGSecondarySPsPolicyByPrefer p prefer"
    and "cands = filter (candidate (Some (GetFreezeSPIDs (vmFreezePool vm))) excluded (vmHealthChecker vm)) (otherSPs sm)"
    and "need = u32 (RedundantDataChunkNum p + RedundantParityChunkNum p)"
  shows "case GenerateGlobalVirtualGroupMeta pol excluded vm of
      Inl e \<Rightarrow> e = ErrNoEnoughSP \<and> int (length cands) < need
    | Inr m \<Rightarrow> gvgPrimarySPID m = spId (selfSP sm) \<and> int (length (gvgSecondarySPIDs m)) = need
        \<and> distinct (spId (selfSP sm) # gvgSecondarySPIDs m) \<and> set (gvgSecondarySPIDs m) \<subseteq> spId ` set cands
        \<and> (\<exists>a b. gvgSecondarySPIDs m = a @ b \<and> set a \<subseteq> set prefer \<and> set b \<inter> set prefer = {})"
proof -
  define P where "P = candidate (Some (GetFreezeSPIDs (vmFreezePool vm))) excluded (vmHealthChecker vm)"
  define xs where "xs = map spId (filter (\<lambda>sp. P sp \<and> spId sp \<in> set prefer) (otherSPs sm))"
  define ys where "ys = map spId (filter (\<lambda>sp. P sp \<and> spId sp \<notin> set prefer) (otherSPs sm))"
  have len: "length xs + length ys = length cands"
    unfolding xs_def ys_def assms(4) P_def [symmetric] length_map by (rule filter_lengths)
  have sets: "set xs \<union> set ys = spId ` set cands" "set xs \<subseteq> set prefer" "set ys \<inter> set prefer = {}" unfolding xs_def ys_def assms(4) P_def by auto
  have inv: "distinct (spId (selfSP sm) # map spId (otherSPs sm))"
    using vm_reachable_inv [OF assms(1)] assms(2) by (simp add: vm_inv_def sps_inv_def)
  then have d: "distinct (spId (selfSP sm) # xs @ ys)"
    using sets by (auto simp: xs_def ys_def distinct_map_filter)
  have need: "0 \<le> need" by (simp add: assms(5) u32_def)
  have g: "GenerateGlobalVirtualGroupMeta pol excluded vm =
      (if need > int (length xs + length ys) then Inl ErrNoEnoughSP
       else Inr \<lparr>gvgID = 0, gvgFamilyID = 0, gvgPrimarySPID = spId (selfSP sm), gvgSecondarySPIDs = take (nat need) (xs @ ys), gvgSecondarySPEndpoints = [],
                 gvgUsedStorageSize = 0, gvgStakingStorageSize = 1024 * 1024 * 1024 * 256\<rparr>)"
    by (simp add: GenerateGlobalVirtualGroupMeta_def assms(2) generateVirtualGroupMeta_def P_def [symmetric] candidates_added assms(3)
        NewGenerateGVGSecondarySPsPolicyByPrefer_def GenerateGVGSecondarySPs_def xs_def ys_def assms(5))
  show ?thesis
  proof (cases "need > int (length xs + length ys)")
    case True
    then show ?thesis using g len by simp
  next
    case False
    have t: "set (take (nat need) (xs @ ys)) \<subseteq> set (xs @ ys)" by (rule set_take_subset)
    have "distinct (take (nat need) (xs @ ys))" using d by (intro distinct_take) simp
    then have "distinct (spId (selfSP sm) # take (nat need) (xs @ ys))" using d t by (auto simp del: take_append)
    moreover have "take (nat need) (xs @ ys) = take (nat need) xs @ take (nat need - length xs) ys" by simp
    moreover have "set (take (nat need) xs) \<subseteq> set prefer" "set (take (nat need - length xs) ys) \<inter> set prefer = {}"
      using sets set_take_subset [of "nat need" xs] set_take_subset [of "nat need - length xs" ys] by auto
    ultimately show ?thesis unfolding g using False need t sets(1) by (auto simp: subset_iff)
  qed
qed

theorem planned_group_sound_witness:
  "\<exists>m. GenerateGlobalVirtualGroupMeta (NewGenerateGVGSecondarySPsPolicyByPrefer
        \<lparr>MaxPayloadSize = 100, MaxSegmentSize = 2, RedundantDataChunkNum = 1, RedundantParityChunkNum = 1\<rparr> [3]) (Some []) sample_vm = Inr m
      \<and> gvgPrimarySPID m = 1 \<and> length (gvgSecondarySPIDs m) = 2 \<and> distinct (gvgSecondarySPIDs m)"
proof -
  let ?p = "\<lparr>MaxPayloadSize = 100, MaxSegmentSize = 2, RedundantDataChunkNum = 1, RedundantParityChunkNum = 1\<rparr>"
  let ?r = "GenerateGlobalVirtualGroupMeta (NewGenerateGVGSecondarySPsPolicyByPrefer ?p [3]) (Some []) sample_vm"
  have c: "filter (candidate (Some (GetFreezeSPIDs (vmFreezePool sample_vm))) (Some []) (vmHealthChecker sample_vm)) [sample_sp 2, sample_sp 3]
      = [sample_sp 2, sample_sp 3]"
    by (simp add: candidate_def sample_vm_fields sample_sp_def GetFreezeSPIDs_def ExcludeIDFilter_Apply_def isSPHealthy_def)
  have n: "u32 (RedundantDataChunkNum ?p + RedundantParityChunkNum ?p) = 2" by (simp add: u32_id)
  note t = planned_group_sound [OF sample_vm_reachable sample_vm_fields(3) refl refl refl, of "Some []" ?p "[3]"]
  have "\<exists>m. ?r = Inr m \<and> gvgPrimarySPID m = 1 \<and> int (length (gvgSecondarySPIDs m)) = 2 \<and> distinct (gvgSecondarySPIDs m)"
    using t unfolding n spManager.simps c by (cases ?r) (simp_all, simp add: sample_sp_def)
  then show ?thesis by (metis of_nat_eq_iff of_nat_numeral)
qed

subsection \<open>Deleting empty groups\<close>

text \<open>A pass of the monitor over one group.\<close>

type_synonym pass = "vg_answers \<times> int \<times> bool \<times> GlobalVirtualGroup"

fun pass_time :: "pass \<Rightarrow> int" where
  "pass_time (ans, per, byChain, gvg) = vaNow ans"

fun pass_run :: "pass \<Rightarrow> gc_map \<Rightarrow> (vg_error + bool \<times> bool) \<times> gc_map \<times> vg_action list" where
  "pass_run (ans, per, byChain, gvg) gc = monitorGVGUsage ans per byChain gvg gc"

text \<open>The pass found the group empty, on the chain unless the group came from there.\<close>

fun seen_empty :: "pass \<Rightarrow> int \<Rightarrow> bool" where
  "seen_empty (ans, per, byChain, gvg) i \<longleftrightarrow> cgStoredSize gvg = 0 \<and>
     (if byChain then cgId gvg = i else case vaChain ans (cgId gvg) of Inl _ \<Rightarrow> False | Inr g \<Rightarrow> cgStoredSize g = 0 \<and> cgId g = i)"

definition gc_after :: "pass list \<Rightarrow> gc_map" where
  "gc_after ps = fold (\<lambda>p gc. fst (snd (pass_run p gc))) ps []"

lemma gc_after_snoc: "gc_after (ps @ [p]) = fst (snd (pass_run p (gc_after ps)))"
  by (simp add: gc_after_def)

definition clock_ok :: "pass \<Rightarrow> bool" where
  "clock_ok p \<longleftrightarrow> 0 \<le> pass_time p \<and> pass_time p < 2 ^ 62"

lemma pass_entries:
  assumes "clock_ok p" "e \<in> set (fst (snd (pass_run p gc)))"
  shows "e \<in> set gc \<or> seen_empty p (fst e) \<and> snd e = pass_time p + 86400"
proof -
  obtain ans per byChain gvg where p: "p = (ans, per, byChain, gvg)" by (cases p)
  have t: "i64 (vaNow ans + 86400) = vaNow ans + 86400" using assms(1) by (simp add: p clock_ok_def i64_id)
  have d: "x \<in> set (AList.delete k m) \<Longrightarrow> x \<in> set m" for x k and m :: gc_map by (auto simp: AList.delete_eq)
  show ?thesis using assms(2)
    by (auto simp: p monitorGVGUsage_def Let_def t split: if_splits sum.splits option.splits dest!: update_entries d)
qed

lemma gc_entries:
  assumes "\<forall>p \<in> set ps. clock_ok p"
  shows "(i, t) \<in> set (gc_after ps) \<Longrightarrow> \<exists>p \<in> set ps. seen_empty p i \<and> t = pass_time p + 86400"
  using assms
proof (induction ps rule: rev_induct)
  case (snoc p ps)
  then show ?case using pass_entries [of p "(i, t)" "gc_after ps"] by (auto simp: gc_after_snoc)
qed (simp add: gc_after_def)

lemma pass_deletes:
  assumes "DeleteGVG i \<in> set (snd (snd (pass_run p gc)))"
  shows "seen_empty p i \<and> (\<exists>t \<le> pass_time p. (i, t) \<in> set gc)"
proof -
  obtain ans per byChain gvg where p: "p = (ans, per, byChain, gvg)" by (cases p)
  have f: "map_of (filter P gc) k = Some t \<Longrightarrow> (k, t) \<in> set gc" for P k t by (auto dest: map_of_SomeD)
  show ?thesis using assms
    by (auto simp: p monitorGVGUsage_def Let_def not_less split: if_splits sum.splits option.splits dest!: f)
qed

text \<open>
  Whatever the passes of the monitor were, a group is only asked to be deleted when it is empty now and
  an earlier pass, at least a day before, found it empty.
\<close>

theorem delete_after_a_day:
  assumes "\<forall>q \<in> set ps. clock_ok q" and "DeleteGVG i \<in> set (snd (snd (pass_run p (gc_after ps))))"
  shows "seen_empty p i \<and> (\<exists>q \<in> set ps. seen_empty q i \<and> pass_time q + 86400 \<le> pass_time p)"
proof -
  obtain t where t: "seen_empty p i" "t \<le> pass_time p" "(i, t) \<in> set (gc_after ps)" using pass_deletes [OF assms(2)] by auto
  from gc_entries [OF assms(1) t(3)] t(1,2) show ?thesis by blast
qed

theorem delete_after_a_day_witness:
  "DeleteGVG 9 \<in> set (snd (snd (pass_run (sample_answers 86410, 1, True, sample_gvg) (gc_after [(sample_answers 10, 1, True, sample_gvg)]))))
   \<and> seen_empty (sample_answers 10, 1, True, sample_gvg) 9"
proof -
  have a: "DeleteGVG 9 \<in> set (snd (snd (pass_run (sample_answers 86410, 1, True, sample_gvg) (gc_after [(sample_answers 10, 1, True, sample_gvg)]))))"
    by (simp add: gc_after_def monitorGVGUsage_def sample_answers_def sample_gvg_def i64_id Let_def)
  have "clock_ok (sample_answers 10, 1, True, sample_gvg)" by (simp add: clock_ok_def sample_answers_def)
  then show ?thesis using a delete_after_a_day [OF _ a] by simp
qed

end
