(* ===== verification/SP_ProgressDB.thy ===== *)
theory SP_ProgressDB
  imports SP_MetaDB SP_TaskOps
begin

text \<open>
  The tables of the progress of work: garbage collection of objects
  (\<^verbatim>\<open>src/store/sqldb/gc_object.go\<close>), the trace of put events (\<^verbatim>\<open>upload_event.go\<close>), and the recovery of a
  leaving provider's groups and objects (\<^verbatim>\<open>exit_recover.go\<close>), with their lemmas.  The database is
  modelled as in the theories of bucket traffic and object metadata: a fault argument per statement,
  an insertion refused when the primary key is taken, updates from a structure that skip zero values.
\<close>

subsection \<open>Garbage collection of objects\<close>

record GCObjectProgressTable =
  gcTaskKey :: string
  gcStartGCBlockID :: int
  gcEndGCBlockID :: int
  gcCurrentGCBlockID :: int
  gcLastDeletedObjectID :: int
  gcCreateTimestampSecond :: int
  gcUpdateTimestampSecond :: int

record GCObjectMeta =
  gmTaskKey :: string
  gmStartBlockHeight :: int
  gmEndBlockHeight :: int
  gmCurrentBlockHeight :: int
  gmLastDeletedObjectID :: int

type_synonym gc_table = "GCObjectProgressTable list"

definition InsertGCObjectProgress :: "faults \<Rightarrow> int \<Rightarrow> GCObjectMeta \<Rightarrow> gc_table \<Rightarrow> db_error option \<times> gc_table" where
  "InsertGCObjectProgress fails now m rows =
     (if fails 0 \<or> row_find gcTaskKey (gmTaskKey m) rows \<noteq> None then (Some ErrDatabase, rows)
      else (None, rows @ [\<lparr>gcTaskKey = gmTaskKey m, gcStartGCBlockID = gmStartBlockHeight m, gcEndGCBlockID = gmEndBlockHeight m,
              gcCurrentGCBlockID = 0, gcLastDeletedObjectID = 0, gcCreateTimestampSecond = now, gcUpdateTimestampSecond = now\<rparr>]))"

text \<open>A deletion by a structure whose primary key is empty has no condition and is refused.\<close>

definition DeleteGCObjectProgress :: "faults \<Rightarrow> string \<Rightarrow> gc_table \<Rightarrow> db_error option \<times> gc_table" where
  "DeleteGCObjectProgress fails key rows =
     (if fails 0 then (Some ErrDatabase, rows)
      else if key = [] then (Some ErrMissingWhereClause, rows)
      else (None, row_delete gcTaskKey key rows))"

definition UpdateGCObjectProgress :: "faults \<Rightarrow> int \<Rightarrow> GCObjectMeta \<Rightarrow> gc_table \<Rightarrow> db_error option \<times> gc_table" where
  "UpdateGCObjectProgress fails now m rows =
     (if fails 0 then (Some ErrDatabase, rows)
      else (None, row_map gcTaskKey (gmTaskKey m) (\<lambda>r. r\<lparr>
              gcCurrentGCBlockID := upd_nz (gmCurrentBlockHeight m) (gcCurrentGCBlockID r),
              gcLastDeletedObjectID := upd_nz (gmLastDeletedObjectID m) (gcLastDeletedObjectID r),
              gcUpdateTimestampSecond := upd_nz now (gcUpdateTimestampSecond r)\<rparr>) rows))"

definition GetGCMetasToGC :: "faults \<Rightarrow> nat \<Rightarrow> gc_table \<Rightarrow> db_error + GCObjectMeta list" where
  "GetGCMetasToGC fails limit rows =
     (if fails 0 then Inl ErrDatabase
      else Inr (map (\<lambda>g. \<lparr>gmTaskKey = gcTaskKey g, gmStartBlockHeight = gcStartGCBlockID g, gmEndBlockHeight = gcEndGCBlockID g,
              gmCurrentBlockHeight = gcCurrentGCBlockID g, gmLastDeletedObjectID = gcLastDeletedObjectID g\<rparr>)
            (take limit (sort_key (\<lambda>g. - gcUpdateTimestampSecond g) rows))))"

subsection \<open>The trace of put events\<close>

text \<open>
  The tables have the same columns, all but two without a state; their numbers are assigned by the
  database.  The printed time and the printed error are arguments; an insertion that fails is ignored.
\<close>

record PutObjectEventTable =
  peUpdateTime :: string
  peObjectID :: int
  peBucket :: string
  peObject :: string
  peState :: string
  peError :: string
  peLogs :: string

record put_events =
  putEvents :: "PutObjectEventTable list"
  putSuccess :: "PutObjectEventTable list"
  uploadTimeouts :: "PutObjectEventTable list"
  replicateTimeouts :: "PutObjectEventTable list"
  sealTimeouts :: "PutObjectEventTable list"
  uploadFailures :: "PutObjectEventTable list"
  replicateFailures :: "PutObjectEventTable list"
  sealFailures :: "PutObjectEventTable list"

definition event_row :: "(GfSpError \<Rightarrow> string) \<Rightarrow> string \<Rightarrow> ObjectInfo \<Rightarrow> string \<Rightarrow> Task \<Rightarrow> PutObjectEventTable" where
  "event_row print time ob state t = \<lparr>peUpdateTime = time, peObjectID = oId ob, peBucket = oBucketName ob, peObject = oObjectName ob,
     peState = state, peError = (case task_Error t of None \<Rightarrow> [] | Some e \<Rightarrow> print e), peLogs = GetLogs t\<rparr>"

definition create_row :: "faults \<Rightarrow> nat \<Rightarrow> 'r \<Rightarrow> 'r list \<Rightarrow> 'r list" where
  "create_row fails n r rows = (if fails n then rows else rows @ [r])"

definition InsertUploadEvent :: "faults \<Rightarrow> (GfSpError \<Rightarrow> string) \<Rightarrow> string \<Rightarrow> int \<Rightarrow> GfSpUploadObjectTask \<Rightarrow> put_events \<Rightarrow> put_events" where
  "InsertUploadEvent fails print time now m ev =
     (let t = UploadObject m; row = (\<lambda>state. event_row print time (uo_ObjectInfo m) state t);
          ev1 = ev\<lparr>putEvents := create_row fails 0 (row ''Upload'') (putEvents ev)\<rparr>
      in if task_Error t \<noteq> None then ev1\<lparr>uploadFailures := create_row fails 1 (row []) (uploadFailures ev)\<rparr>
         else if i64 (now - GetCreateTime t) > 2 then ev1\<lparr>uploadTimeouts := create_row fails 1 (row []) (uploadTimeouts ev)\<rparr>
         else ev1)"

definition InsertReplicateEvent :: "faults \<Rightarrow> (GfSpError \<Rightarrow> string) \<Rightarrow> string \<Rightarrow> int \<Rightarrow> GfSpReplicatePieceTask \<Rightarrow> put_events \<Rightarrow> put_events" where
  "InsertReplicateEvent fails print time now m ev =
     (let t = ReplicatePiece m; row = (\<lambda>state. event_row print time (rp_ObjectInfo m) state t);
          state = (if rp_Sealed m then ''Replicate + Seal'' else ''replicate'');
          ev1 = ev\<lparr>putEvents := create_row fails 0 (row state) (putEvents ev)\<rparr>
      in if task_Error t \<noteq> None then ev1\<lparr>replicateFailures := create_row fails 1 (row []) (replicateFailures ev)\<rparr>
         else if i64 (now - GetCreateTime t) > 10 then ev1\<lparr>replicateTimeouts := create_row fails 1 (row []) (replicateTimeouts ev)\<rparr>
         else if rp_Sealed m then ev1\<lparr>putSuccess := create_row fails 1 (row ''replicate+seal'') (putSuccess ev)\<rparr>
         else ev1)"

definition InsertSealEvent :: "faults \<Rightarrow> (GfSpError \<Rightarrow> string) \<Rightarrow> string \<Rightarrow> int \<Rightarrow> GfSpSealObjectTask \<Rightarrow> put_events \<Rightarrow> put_events" where
  "InsertSealEvent fails print time now m ev =
     (let t = SealObject m; row = (\<lambda>state. event_row print time (so_ObjectInfo m) state t);
          ev1 = ev\<lparr>putEvents := create_row fails 0 (row ''Seal'') (putEvents ev)\<rparr>
      in if task_Error t \<noteq> None then ev1\<lparr>sealFailures := create_row fails 1 (row []) (sealFailures ev)\<rparr>
         else if i64 (now - GetCreateTime t) > 10 then ev1\<lparr>sealTimeouts := create_row fails 1 (row []) (sealTimeouts ev)\<rparr>
         else ev1\<lparr>putSuccess := create_row fails 1 (row ''seal'') (putSuccess ev)\<rparr>)"

text \<open>What the routine started by \<open>InsertPutEvent\<close> does; nothing when the trace is disabled.\<close>

definition InsertPutEvent :: "bool \<Rightarrow> faults \<Rightarrow> (GfSpError \<Rightarrow> string) \<Rightarrow> string \<Rightarrow> int \<Rightarrow> Task \<Rightarrow> put_events \<Rightarrow> put_events" where
  "InsertPutEvent enabled fails print time now t ev =
     (if \<not> enabled then ev
      else case t of
        UploadObject m \<Rightarrow> InsertUploadEvent fails print time now m ev
      | ReplicatePiece m \<Rightarrow> InsertReplicateEvent fails print time now m ev
      | SealObject m \<Rightarrow> InsertSealEvent fails print time now m ev
      | _ \<Rightarrow> ev)"

subsection \<open>Recovery of groups and objects\<close>

record RecoverGVGStatsTable =
  rgVirtualGroupID :: int
  rgVirtualGroupFamilyID :: int
  rgRedundancyIndex :: int
  rgStartAfter :: int
  rgNextStartAfter :: int
  rgLimit :: int
  rgStatus :: int
  rgObjectCount :: int

record RecoverFailedObjectTable =
  rfObjectID :: int
  rfVirtualGroupID :: int
  rfRedundancyIndex :: int
  rfRetry :: int

text \<open>
  The structures \<open>RecoverGVGStats\<close> and \<open>RecoverFailedObject\<close> of the interface have the fields of the rows,
  and the same records stand for them.
\<close>

definition GetRecoverGVGStats :: "faults \<Rightarrow> int \<Rightarrow> RecoverGVGStatsTable list \<Rightarrow> db_error + RecoverGVGStatsTable" where
  "GetRecoverGVGStats fails gvg rows =
     (if fails 0 then Inl ErrDatabase
      else case row_find rgVirtualGroupID gvg rows of None \<Rightarrow> Inl ErrRecordNotFound | Some r \<Rightarrow> Inr r)"

definition BatchGetRecoverGVGStats :: "faults \<Rightarrow> int list \<Rightarrow> RecoverGVGStatsTable list \<Rightarrow> db_error + RecoverGVGStatsTable list" where
  "BatchGetRecoverGVGStats fails gvgs rows =
     (if fails 0 then Inl ErrDatabase else Inr (filter (\<lambda>r. rgVirtualGroupID r \<in> set gvgs) rows))"

text \<open>
  One statement inserts all rows, or none when a primary key is taken, which counts as success.  The
  object count of the structure is not written.
\<close>

definition SetRecoverGVGStats :: "faults \<Rightarrow> RecoverGVGStatsTable list \<Rightarrow> RecoverGVGStatsTable list \<Rightarrow> db_error option \<times> RecoverGVGStatsTable list" where
  "SetRecoverGVGStats fails stats rows =
     (let new = map (\<lambda>g. g\<lparr>rgLimit := u32 (rgLimit g), rgObjectCount := 0\<rparr>) stats in
      if fails 0 then (Some ErrDatabase, rows)
      else if distinct (map rgVirtualGroupID (rows @ new)) then (None, rows @ new)
      else (None, rows))"

definition UpdateRecoverGVGStats :: "faults \<Rightarrow> RecoverGVGStatsTable \<Rightarrow> RecoverGVGStatsTable list \<Rightarrow> db_error option \<times> RecoverGVGStatsTable list" where
  "UpdateRecoverGVGStats fails g rows =
     (if fails 0 then (Some ErrDatabase, rows)
      else (None, row_map rgVirtualGroupID (rgVirtualGroupID g) (\<lambda>r. r\<lparr>
              rgStatus := upd_nz (rgStatus g) (rgStatus r), rgStartAfter := upd_nz (rgStartAfter g) (rgStartAfter r),
              rgNextStartAfter := upd_nz (rgNextStartAfter g) (rgNextStartAfter r),
              rgObjectCount := upd_nz (rgObjectCount g) (rgObjectCount r)\<rparr>) rows))"

definition DeleteRecoverGVGStats :: "faults \<Rightarrow> int \<Rightarrow> RecoverGVGStatsTable list \<Rightarrow> db_error option \<times> RecoverGVGStatsTable list" where
  "DeleteRecoverGVGStats fails gvg rows =
     (if fails 0 then (Some ErrDatabase, rows)
      else if gvg = 0 then (Some ErrMissingWhereClause, rows)
      else (None, row_delete rgVirtualGroupID gvg rows))"

type_synonym failed_table = "RecoverFailedObjectTable list"

definition InsertRecoverFailedObject :: "faults \<Rightarrow> RecoverFailedObjectTable \<Rightarrow> failed_table \<Rightarrow> db_error option \<times> failed_table" where
  "InsertRecoverFailedObject fails ob rows =
     (if fails 0 then (Some ErrDatabase, rows)
      else if row_find rfObjectID (rfObjectID ob) rows \<noteq> None then (None, rows)
      else (None, rows @ [ob\<lparr>rfRetry := 0\<rparr>]))"

definition DeleteRecoverFailedObject :: "faults \<Rightarrow> int \<Rightarrow> failed_table \<Rightarrow> db_error option \<times> failed_table" where
  "DeleteRecoverFailedObject fails objectID rows =
     (if fails 0 then (Some ErrDatabase, rows)
      else if objectID = 0 then (Some ErrMissingWhereClause, rows)
      else (None, row_delete rfObjectID objectID rows))"

definition GetRecoverFailedObject :: "faults \<Rightarrow> int \<Rightarrow> failed_table \<Rightarrow> db_error + RecoverFailedObjectTable" where
  "GetRecoverFailedObject fails objectID rows =
     (if fails 0 then Inl ErrDatabase
      else case row_find rfObjectID objectID rows of None \<Rightarrow> Inl ErrRecordNotFound | Some r \<Rightarrow> Inr r)"

definition GetRecoverFailedObjects :: "faults \<Rightarrow> int \<Rightarrow> nat \<Rightarrow> failed_table \<Rightarrow> db_error + failed_table" where
  "GetRecoverFailedObjects fails retry limit rows =
     (if fails 0 then Inl ErrDatabase
      else Inr (take limit (sort_key rfObjectID (filter (\<lambda>r. rfRetry r \<le> retry) rows))))"

definition GetRecoverFailedObjectsByRetryTime :: "faults \<Rightarrow> int \<Rightarrow> failed_table \<Rightarrow> db_error + failed_table" where
  "GetRecoverFailedObjectsByRetryTime fails retry rows =
     (if fails 0 then Inl ErrDatabase else Inr (sort_key rfObjectID (filter (\<lambda>r. rfRetry r \<ge> retry) rows)))"

definition UpdateRecoverFailedObject :: "faults \<Rightarrow> RecoverFailedObjectTable \<Rightarrow> failed_table \<Rightarrow> db_error option \<times> failed_table" where
  "UpdateRecoverFailedObject fails ob rows =
     (if fails 0 then (Some ErrDatabase, rows)
      else (None, row_map rfObjectID (rfObjectID ob) (\<lambda>r. r\<lparr>rfRetry := upd_nz (rfRetry ob) (rfRetry r)\<rparr>) rows))"

definition CountRecoverFailedObject :: "faults \<Rightarrow> failed_table \<Rightarrow> db_error + int" where
  "CountRecoverFailedObject fails rows = (if fails 0 then Inl ErrDatabase else Inr (int (length rows)))"

subsection \<open>Keys stay unique\<close>

lemma row_map_keys: "(\<And>r. key (f r) = key r) \<Longrightarrow> map key (row_map key k f rows) = map key rows"
  by (simp add: row_map_def)

lemma row_delete_distinct: "distinct (map key rows) \<Longrightarrow> distinct (map key (row_delete key k rows))"
  by (simp add: row_delete_def distinct_map_filter)

lemma row_find_None: "row_find key k rows = None \<longleftrightarrow> k \<notin> key ` set rows"
  by (auto simp: row_find_def find_None_iff)

lemma gc_table_distinct:
  "distinct (map gcTaskKey rows) \<Longrightarrow> distinct (map gcTaskKey (snd (InsertGCObjectProgress fails now m rows)))"
  "distinct (map gcTaskKey rows) \<Longrightarrow> distinct (map gcTaskKey (snd (UpdateGCObjectProgress fails now m rows)))"
  "distinct (map gcTaskKey rows) \<Longrightarrow> distinct (map gcTaskKey (snd (DeleteGCObjectProgress fails key rows)))"
  by (auto simp: InsertGCObjectProgress_def UpdateGCObjectProgress_def DeleteGCObjectProgress_def row_map_keys row_delete_distinct row_find_None)

lemma failed_table_distinct:
  "distinct (map rfObjectID rows) \<Longrightarrow> distinct (map rfObjectID (snd (InsertRecoverFailedObject fails ob rows)))"
  "distinct (map rfObjectID rows) \<Longrightarrow> distinct (map rfObjectID (snd (UpdateRecoverFailedObject fails ob rows)))"
  "distinct (map rfObjectID rows) \<Longrightarrow> distinct (map rfObjectID (snd (DeleteRecoverFailedObject fails i rows)))"
  by (auto simp: InsertRecoverFailedObject_def UpdateRecoverFailedObject_def DeleteRecoverFailedObject_def row_map_keys row_delete_distinct row_find_None)

end
