(* ===== verification/SP_Manager.thy ===== *)
theory SP_Manager
  imports SP_QueueProps SP_ProgressDB SP_VirtualGroup
begin

text \<open>
  The manager, \<^verbatim>\<open>src/modular/manager/manager.go\<close>: its queues with their strategies, the dispatch of tasks
  to executors, the periodic generation of garbage collection tasks and the loading of tasks at the
  start.  The handlers of reports are in the next theory.

  A queue is named by a value of \<open>qid\<close>.  The strategies read the clock, so a queue gets the strategies of
  the present time before each operation; their effects (a row of the progress table, the retry counter
  of a task, the list of failed recoveries) are applied to the tasks the operation calls them on.  A
  strategy that is called twice on a task within one operation has the same effect twice, which is
  kept once.  A goroutine is a pending job that a later step runs as a whole, in any order with
  handlers and other jobs; a send on the channel of tasks waits until there is room.
\<close>

subsection \<open>State\<close>

datatype qid =
    uploadQueue | resumableUploadQueue | replicateQueue | sealQueue | receiveQueue | gcObjectQueue | gcZombieQueue
  | gcMetaQueue | gcBucketMigrationQueue | gcStaleVersionObjectQueue | downloadQueue | challengeQueue | recoveryQueue
  | migrateGVGQueue

datatype job =
    UpdateProgressJob UploadObjectMeta
  | ReplicateSealedJob GfSpReplicatePieceTask
  | ReplicateErrorJob GfSpReplicatePieceTask UploadObjectMeta
  | SealDoneJob GfSpSealObjectTask
  | ReceivePopJob string
  | ReceivePushJob GfSpReceivePieceTask
  | PutEventJob Task
  | BackupJob
  | ResendJob Task

record ObjectSegmentsStats =
  ssSegmentCount :: int
  ssFailedSegments :: "int set"
  ssSucceedSegments :: "int set"

datatype mgr_action =
    CreateGVG int "int list" int
  | VGAction vg_action

record ManageModular =
  mQueues :: "qid \<Rightarrow> GfSpTQueue"
  taskCh :: "Task list"
  taskChCap :: nat
  backupTaskNum :: int
  pendingBackup :: "(Task \<times> Task list) option"
  maxUploadObjectNumber :: int
  gcBlockHeight :: int
  gcObjectBlockInterval :: int
  gcSafeBlockDistance :: int
  gcZombiePieceEnabled :: bool
  gcZombiePieceObjectID :: int
  gcZombiePieceObjectIDInterval :: int
  gcZombiePieceSafeObjectIDDistance :: int
  gcMetaEnabled :: bool
  mSpID :: int
  mVGM :: virtualGroupManager
  gvgPreferSPList :: "int list"
  spBlackList :: "int list"
  gvgBlackList :: "int list"
  recoveryFailedList :: "string list"
  recoveryTaskMap :: "string \<rightharpoonup> string"
  recoverObjectStats :: "int \<rightharpoonup> ObjectSegmentsStats"
  mDB :: metadb
  mGC :: gc_table
  mEvents :: put_events
  mFailed :: failed_table
  jobs :: "job list"
  actions :: "mgr_action list"

datatype manager_error =
    Mgr_ErrDanglingTask | Mgr_ErrRepeatedTask | Mgr_ErrExceedTask | Mgr_ErrCanceledTask
  | Mgr_ErrGfSpDBWithDetail string | QueueErr queue_error | VgErr vg_error | DbErr db_error | ChainErr string

datatype 'a reply = Done_ok 'a | Failed manager_error | Crashed

text \<open>
  What a call sees of its surroundings: the clock and its printed form, the address of the executor,
  printed errors and tasks, the options, faults of the database by statement, orders of ranging over
  queues, random numbers, and the answers of the chain and of other services.
\<close>

record menv =
  mvNow :: int
  mvStamp :: string
  mvAddr :: string
  mvPrint :: "GfSpError \<Rightarrow> string"
  mvUnmarshal :: "string \<Rightarrow> GfSpError option"
  mvDbMsg :: "db_error \<Rightarrow> string"
  mvInfo :: "Task \<Rightarrow> string"
  mvApp :: GfSpBaseApp
  mvTrace :: bool
  mvDbFails :: "nat \<Rightarrow> faults"
  mvOrders :: "qid \<Rightarrow> string list"
  mvIntn :: "int \<Rightarrow> int"
  mvRnd :: "nat \<Rightarrow> rat"
  mvOrd :: "weights \<Rightarrow> weights"
  mvAvail :: "int list \<Rightarrow> vg_error + int list"
  mvVG :: vg_answers
  mvSPs :: "StorageProvider list option"
  mvPerBytes :: "int option"
  mvVgfs :: "(int \<times> int list) list option"
  mvParams :: "manager_error + Params"
  mvParamsOf :: "ObjectInfo \<Rightarrow> manager_error + Params"
  mvVGParams :: "manager_error + int"
  mvCreateGVG :: "manager_error option"
  mvObject :: "int \<Rightarrow> manager_error + ObjectInfo"
  mvShadow :: "string \<Rightarrow> string \<Rightarrow> manager_error + ObjectInfo"
  mvBucketFamily :: "string \<Rightarrow> manager_error + int option"
  mvGVG :: "int \<Rightarrow> manager_error + GlobalVirtualGroup"
  mvJoined :: "int \<Rightarrow> manager_error + GlobalVirtualGroup list"
  mvSelf :: "manager_error + int"
  mvHeight :: "int option"
  mvLatestObject :: "int option"

subsection \<open>Strategies\<close>

definition error_meta :: "int \<Rightarrow> TaskState \<Rightarrow> string \<Rightarrow> UploadObjectMeta" where
  "error_meta objectID state descr = (empty_meta objectID)\<lparr>umTaskState := state, umErrorDescription := descr\<rparr>"

fun object_of :: "Task \<Rightarrow> ObjectInfo option" where
  "object_of (UploadObject m) = Some (uo_ObjectInfo m)"
| "object_of (ResumableUploadObject m) = Some (ru_ObjectInfo m)"
| "object_of (ReplicatePiece m) = Some (rp_ObjectInfo m)"
| "object_of (SealObject m) = Some (so_ObjectInfo m)"
| "object_of (RecoverPiece m) = Some (re_ObjectInfo m)"
| "object_of _ = None"

definition expired_job :: "TaskState \<Rightarrow> Task \<Rightarrow> job list" where
  "expired_job state t = (case object_of t of None \<Rightarrow> [] | Some ob \<Rightarrow> [UpdateProgressJob (error_meta (oId ob) state ''expired'')])"

definition add_jobs :: "job list \<Rightarrow> ManageModular \<Rightarrow> ManageModular" where
  "add_jobs js m = m\<lparr>jobs := jobs m @ js\<rparr>"

text \<open>The strategies that retire a task, each with its effect on the manager.\<close>

definition GCUploadObjectQueue :: "int \<Rightarrow> Task \<Rightarrow> ManageModular \<Rightarrow> bool \<times> ManageModular" where
  "GCUploadObjectQueue now t m =
     (if Expired now t then (True, add_jobs (expired_job TASK_STATE_UPLOAD_OBJECT_ERROR t) m) else (False, m))"

definition GCResumableUploadObjectQueue :: "int \<Rightarrow> Task \<Rightarrow> ManageModular \<Rightarrow> bool \<times> ManageModular" where
  "GCResumableUploadObjectQueue now t m =
     (if Expired now t then (True, add_jobs (expired_job TASK_STATE_UPLOAD_OBJECT_ERROR t) m) else (False, m))"

definition GCReplicatePieceQueue :: "int \<Rightarrow> Task \<Rightarrow> ManageModular \<Rightarrow> bool \<times> ManageModular" where
  "GCReplicatePieceQueue now t m =
     (if Expired now t then (True, add_jobs (expired_job TASK_STATE_REPLICATE_OBJECT_ERROR t) m) else (False, m))"

definition GCSealObjectQueue :: "int \<Rightarrow> Task \<Rightarrow> ManageModular \<Rightarrow> bool \<times> ManageModular" where
  "GCSealObjectQueue now t m =
     (if Expired now t then (True, add_jobs (expired_job TASK_STATE_SEAL_OBJECT_ERROR t) m) else (False, m))"

definition GCReceiveQueue :: "Task \<Rightarrow> ManageModular \<Rightarrow> bool \<times> ManageModular" where
  "GCReceiveQueue t m = (ExceedRetry t, m)"

definition add_failed :: "string \<Rightarrow> ManageModular \<Rightarrow> ManageModular" where
  "add_failed name m = (if name \<in> set (recoveryFailedList m) then m else m\<lparr>recoveryFailedList := recoveryFailedList m @ [name]\<rparr>)"

definition forget_recovery :: "string \<Rightarrow> ManageModular \<Rightarrow> ManageModular" where
  "forget_recovery key m = m\<lparr>recoveryTaskMap := (recoveryTaskMap m)(key := None)\<rparr>"

definition GCRecoverQueue :: "Task \<Rightarrow> ManageModular \<Rightarrow> bool \<times> ManageModular" where
  "GCRecoverQueue t m =
     (if ExceedRetry t
      then (True, forget_recovery (Key t) (case object_of t of None \<Rightarrow> m | Some ob \<Rightarrow> add_failed (oObjectName ob) m))
      else (False, m))"

definition GCMigrateGVGQueue :: "Task \<Rightarrow> ManageModular \<Rightarrow> bool \<times> ManageModular" where
  "GCMigrateGVGQueue t m = ((case t of MigrateGVG g \<Rightarrow> mg_Finished g | _ \<Rightarrow> False), m)"

definition GCCacheQueue :: "Task \<Rightarrow> ManageModular \<Rightarrow> bool \<times> ManageModular" where
  "GCCacheQueue t m = (True, m)"

text \<open>The strategies of the garbage collection queues never retire a task: they reset its retries.\<close>

definition ResetGCObjectTask :: "int \<Rightarrow> Task \<Rightarrow> Task" where
  "ResetGCObjectTask now t = (if Expired now t then SetRetry 0 t else t)"

fun resetting :: "qid \<Rightarrow> bool" where
  "resetting gcObjectQueue = True"
| "resetting gcZombieQueue = True"
| "resetting gcMetaQueue = True"
| "resetting gcBucketMigrationQueue = True"
| "resetting gcStaleVersionObjectQueue = True"
| "resetting _ = False"

fun retire_strategy :: "int \<Rightarrow> qid \<Rightarrow> Task \<Rightarrow> ManageModular \<Rightarrow> bool \<times> ManageModular" where
  "retire_strategy now uploadQueue = GCUploadObjectQueue now"
| "retire_strategy now resumableUploadQueue = GCResumableUploadObjectQueue now"
| "retire_strategy now replicateQueue = GCReplicatePieceQueue now"
| "retire_strategy now sealQueue = GCSealObjectQueue now"
| "retire_strategy now receiveQueue = GCReceiveQueue"
| "retire_strategy now recoveryQueue = GCRecoverQueue"
| "retire_strategy now migrateGVGQueue = GCMigrateGVGQueue"
| "retire_strategy now downloadQueue = GCCacheQueue"
| "retire_strategy now challengeQueue = GCCacheQueue"
| "retire_strategy now _ = (\<lambda>t m. (False, m))"

text \<open>Whether a strategy retires a task does not depend on the manager.\<close>

fun retires :: "int \<Rightarrow> qid \<Rightarrow> Task \<Rightarrow> bool" where
  "retires now uploadQueue t = Expired now t"
| "retires now resumableUploadQueue t = Expired now t"
| "retires now replicateQueue t = Expired now t"
| "retires now sealQueue t = Expired now t"
| "retires now receiveQueue t = ExceedRetry t"
| "retires now recoveryQueue t = ExceedRetry t"
| "retires now migrateGVGQueue t = (case t of MigrateGVG g \<Rightarrow> mg_Finished g | _ \<Rightarrow> False)"
| "retires now downloadQueue t = True"
| "retires now challengeQueue t = True"
| "retires now _ t = False"

lemma retires_strategy: "fst (retire_strategy now i t m) = retires now i t"
  by (cases i) (auto simp: GCUploadObjectQueue_def GCResumableUploadObjectQueue_def GCReplicatePieceQueue_def GCSealObjectQueue_def
      GCReceiveQueue_def GCRecoverQueue_def GCMigrateGVGQueue_def GCCacheQueue_def)

definition FilterGCTask :: "Task \<Rightarrow> bool" where
  "FilterGCTask t \<longleftrightarrow> GetRetry t = 0"

definition FilterUploadingTask :: "int \<Rightarrow> Task \<Rightarrow> bool" where
  "FilterUploadingTask now t = (if ExceedRetry t then False else if ExceedTimeout now t then True else GetRetry t = 0)"

definition FilterGVGTask :: "int \<Rightarrow> Task \<Rightarrow> bool" where
  "FilterGVGTask now t = (if GetRetry t = 0 then True else ExceedTimeout now t)"

definition FilterReceiveTask :: "int \<Rightarrow> Task \<Rightarrow> bool" where
  "FilterReceiveTask now t = (if ExceedRetry t then False else ExceedTimeout now t)"

fun filter_strategy :: "int \<Rightarrow> qid \<Rightarrow> (Task \<Rightarrow> bool) option" where
  "filter_strategy now replicateQueue = Some (FilterUploadingTask now)"
| "filter_strategy now sealQueue = Some (FilterUploadingTask now)"
| "filter_strategy now receiveQueue = Some (FilterReceiveTask now)"
| "filter_strategy now recoveryQueue = Some (FilterUploadingTask now)"
| "filter_strategy now migrateGVGQueue = Some (FilterGVGTask now)"
| "filter_strategy now uploadQueue = None"
| "filter_strategy now resumableUploadQueue = None"
| "filter_strategy now downloadQueue = None"
| "filter_strategy now challengeQueue = None"
| "filter_strategy now _ = Some FilterGCTask"

subsection \<open>Operations on a queue of the manager\<close>

definition queue_at :: "int \<Rightarrow> qid \<Rightarrow> GfSpTQueue \<Rightarrow> GfSpTQueue" where
  "queue_at now i q = q\<lparr>gcFunc := Some (retires now i), filterFunc := filter_strategy now i\<rparr>"

definition reset_visited :: "int \<Rightarrow> qid \<Rightarrow> string list \<Rightarrow> GfSpTQueue \<Rightarrow> GfSpTQueue" where
  "reset_visited now i keys q =
     (if resetting i
      then q\<lparr>queueTasks := (\<lambda>k. if k \<in> set keys then map_option (ResetGCObjectTask now) (queueTasks q k) else queueTasks q k)\<rparr>
      else q)"

text \<open>An operation \<open>f\<close> on the queue \<open>i\<close> that calls the strategy on the tasks under the given keys.\<close>

definition on_queue :: "int \<Rightarrow> qid \<Rightarrow> string list \<Rightarrow> (GfSpTQueue \<Rightarrow> 'a \<times> GfSpTQueue) \<Rightarrow> ManageModular \<Rightarrow> 'a \<times> ManageModular" where
  "on_queue now i keys f m =
     (let q = queue_at now i (mQueues m i);
          (r, q1) = f (reset_visited now i keys q);
          m1 = fold (\<lambda>t m. snd (retire_strategy now i t m)) (tasks_in keys q) m
      in (r, m1\<lparr>mQueues := (mQueues m)(i := q1)\<rparr>))"

definition Has :: "int \<Rightarrow> qid \<Rightarrow> string \<Rightarrow> ManageModular \<Rightarrow> bool \<times> ManageModular" where
  "Has now i key = on_queue now i [key] (queue_Has key)"

definition PopByKey :: "int \<Rightarrow> qid \<Rightarrow> string \<Rightarrow> ManageModular \<Rightarrow> Task option \<times> ManageModular" where
  "PopByKey now i key = on_queue now i [key] (queue_PopByKey key)"

text \<open>A push to a full queue goes through the keys in order up to the first task that is retired.\<close>

definition push_visits :: "int \<Rightarrow> qid \<Rightarrow> Task \<Rightarrow> GfSpTQueue \<Rightarrow> string list" where
  "push_visits now i t q =
     (let (present, q1) = queue_has (Key t) q; keys = SortKeys (queueTasks q1);
          keeps = (\<lambda>k. case queueTasks q1 k of None \<Rightarrow> True | Some u \<Rightarrow> \<not> retires now i u)
      in Key t # (if \<not> present \<and> queue_exceed q1 then takeWhile keeps keys @ take 1 (dropWhile keeps keys) else []))"

definition Push :: "int \<Rightarrow> qid \<Rightarrow> Task \<Rightarrow> ManageModular \<Rightarrow> queue_error option \<times> ManageModular" where
  "Push now i t m = on_queue now i (push_visits now i t (queue_at now i (mQueues m i))) (queue_Push t) m"

text \<open>
  \<open>PopByLimit\<close> with \<open>rcmgr.Unlimited\<close>, whose \<open>NotLess\<close> is always true; the estimates are computed all the
  same, and \<open>None\<close> is the panic of an estimate that divides by zero.
\<close>

definition PopUnlimited :: "int \<Rightarrow> qid \<Rightarrow> string list \<Rightarrow> ManageModular \<Rightarrow> (Task option \<times> ManageModular) option" where
  "PopUnlimited now i ord m =
     (let q = queue_at now i (mQueues m i) in
      if \<exists>t \<in> set (tasks_in ord q). \<not> retires now i t \<and> EstimateLimit t = None then None
      else Some (on_queue now i ord (queue_Pop ord) m))"

definition TaskUploading :: "int \<Rightarrow> Task \<Rightarrow> ManageModular \<Rightarrow> bool \<times> ManageModular" where
  "TaskUploading now t m =
     (let (b1, m1) = Has now uploadQueue (Key t) m in if b1 then (True, m1) else
      let (b2, m2) = Has now replicateQueue (Key t) m1 in if b2 then (True, m2) else
      let (b3, m3) = Has now sealQueue (Key t) m2 in if b3 then (True, m3) else
      Has now resumableUploadQueue (Key t) m3)"

definition TaskRecovering :: "int \<Rightarrow> Task \<Rightarrow> ManageModular \<Rightarrow> bool \<times> ManageModular" where
  "TaskRecovering now t m = Has now recoveryQueue (Key t) m"

definition UploadingObjectNumber :: "ManageModular \<Rightarrow> int" where
  "UploadingObjectNumber m = queue_Len (mQueues m uploadQueue) + queue_Len (mQueues m replicateQueue)
     + queue_Len (mQueues m sealQueue) + queue_Len (mQueues m resumableUploadQueue)"

subsection \<open>Dispatch\<close>

fun repush_queue :: "Task \<Rightarrow> qid option" where
  "repush_queue (ReplicatePiece _) = Some replicateQueue"
| "repush_queue (SealObject _) = Some sealQueue"
| "repush_queue (ReceivePiece _) = Some receiveQueue"
| "repush_queue (GCObject _) = Some gcObjectQueue"
| "repush_queue (GCZombiePiece _) = Some gcZombieQueue"
| "repush_queue (GCMeta _) = Some gcMetaQueue"
| "repush_queue (RecoverPiece _) = Some recoveryQueue"
| "repush_queue (MigrateGVG _) = Some migrateGVGQueue"
| "repush_queue (GCBucketMigration _) = Some gcBucketMigrationQueue"
| "repush_queue (GCStaleVersionObject _) = Some gcStaleVersionObjectQueue"
| "repush_queue _ = None"

text \<open>The error of the push is logged only.\<close>

definition repushTask :: "int \<Rightarrow> Task \<Rightarrow> ManageModular \<Rightarrow> ManageModular" where
  "repushTask now t m = (case repush_queue t of None \<Rightarrow> m | Some i \<Rightarrow> snd (Push now i t m))"

text \<open>The loop of \<open>PickUpTask\<close> over the tasks sorted by priority; \<open>acc\<close> is the total so far.\<close>

fun pick_loop :: "string \<Rightarrow> int \<Rightarrow> int \<Rightarrow> Task list \<Rightarrow> Task list \<Rightarrow> Task option \<times> Task list" where
  "pick_loop stamp r acc before [] = (None, before)"
| "pick_loop stamp r acc before (t # ts) =
     (let acc1 = acc + GetPriority t
      in if acc1 \<ge> r then (Some (AppendLog stamp ''pickup-to-backup-task-pool'' t), before @ ts)
         else pick_loop stamp r acc1 (before @ [t]) ts)"

definition PickUpTask :: "menv \<Rightarrow> Task list \<Rightarrow> Task option \<times> Task list" where
  "PickUpTask env tasks =
     (case tasks of
        [] \<Rightarrow> (None, [])
      | [t] \<Rightarrow> (Some t, [])
      | _ \<Rightarrow>
          let sorted = sort_key GetPriority tasks; total = sum_list (map GetPriority sorted)
          in if total \<le> 0 then (None, [])
             else pick_loop (mvStamp env) (mvIntn env total) 0 [] sorted)"

definition backup_order :: "qid list" where
  "backup_order = [replicateQueue, sealQueue, gcObjectQueue, gcZombieQueue, gcMetaQueue, receiveQueue, recoveryQueue,
     migrateGVGQueue, gcBucketMigrationQueue, gcStaleVersionObjectQueue]"

fun backup_pops :: "menv \<Rightarrow> qid list \<Rightarrow> ManageModular \<Rightarrow> (Task list \<times> ManageModular) option" where
  "backup_pops env [] m = Some ([], m)"
| "backup_pops env (i # is) m =
     (case PopUnlimited (mvNow env) i (mvOrders env i) m of
        None \<Rightarrow> None
      | Some (t, m1) \<Rightarrow> map_option (\<lambda>(ts, m2). ((case t of None \<Rightarrow> ts | Some t \<Rightarrow> t # ts), m2)) (backup_pops env is m1))"

definition backup_logs :: "string \<Rightarrow> Task \<Rightarrow> Task" where
  "backup_logs stamp t =
     AppendLog stamp ''end-pickup-task-to-dispatch''
       (AppendLog stamp (''start-pickup-task-to-dispatch:'' @ stamp)
         (AppendLog stamp (''end-pop-task-from-queue:'' @ stamp)
           (AppendLog stamp (''start-pop-task-from-queue:'' @ stamp) t)))"

text \<open>
  \<open>backUpTask\<close> up to the send on the channel, and the rest of it.  The mutex it holds keeps a second
  one from starting before the first has sent its task and pushed the others back.
\<close>

definition backUpTask :: "menv \<Rightarrow> ManageModular \<Rightarrow> ManageModular option" where
  "backUpTask env m =
     (case backup_pops env backup_order m of
        None \<Rightarrow> None
      | Some (ts, m1) \<Rightarrow>
          (case PickUpTask env ts of
             (None, reserved) \<Rightarrow> Some (fold (repushTask (mvNow env)) reserved m1)
           | (Some t, reserved) \<Rightarrow>
               Some (m1\<lparr>backupTaskNum := i64 (backupTaskNum m1 + 1), pendingBackup := Some (backup_logs (mvStamp env) t, reserved)\<rparr>)))"

definition backup_send :: "menv \<Rightarrow> ManageModular \<Rightarrow> ManageModular" where
  "backup_send env m =
     (case pendingBackup m of
        None \<Rightarrow> m
      | Some (t, reserved) \<Rightarrow>
          if length (taskCh m) < taskChCap m
          then fold (repushTask (mvNow env)) reserved (m\<lparr>taskCh := taskCh m @ [t], pendingBackup := None\<rparr>)
          else m)"

text \<open>
  One round of the loop of \<open>DispatchTask\<close>: \<open>Done_ok None\<close> when it goes on waiting (nothing on the channel,
  or a task beyond the limit of the executor, which is sent again by a goroutine).
\<close>

definition DispatchTask :: "menv \<Rightarrow> GfSpLimit \<Rightarrow> ManageModular \<Rightarrow> Task option reply \<times> ManageModular" where
  "DispatchTask env limit m =
     (case taskCh m of
        [] \<Rightarrow> (Done_ok None, m)
      | t # ch \<Rightarrow>
          let m1 = m\<lparr>taskCh := ch, backupTaskNum := i64 (backupTaskNum m - 1)\<rparr>
          in case EstimateLimit t of
               None \<Rightarrow> (Crashed, m1)
             | Some l \<Rightarrow>
                 if \<not> NotLess limit l then (Done_ok None, add_jobs [ResendJob t] m1)
                 else let t1 = SetAddress (mvAddr env) (SetUpdateTime (mvNow env) (SetError (mvUnmarshal env) None (IncRetry t)))
                      in (Done_ok (Some t1), repushTask (mvNow env) t1 m1))"

end
