(* ===== verification/SP_ManagerTasks.thy ===== *)
theory SP_ManagerTasks
  imports SP_Manager
begin

text \<open>
  The handlers of the manager, \<^verbatim>\<open>src/modular/manager/manage_task.go\<close>: creation and completion of uploads,
  reports of executors on replicating, sealing, receiving, recovering and collecting, and the choice of
  virtual groups; the goroutines they start, as jobs; the periodic tasks and the loading of tasks from
  the database (\<^verbatim>\<open>manager.go\<close>).  \<open>None\<close> for a task is a nil pointer, also one without the object or the
  parameters where the handler tests for them.
\<close>

subsection \<open>Virtual groups\<close>

definition vg_reply :: "vg_error + 'a \<Rightarrow> 'a reply" where
  "vg_reply r = (case r of Inr x \<Rightarrow> Done_ok x | Inl e \<Rightarrow> if e = VgPanic then Crashed else Failed (VgErr e))"

definition createGlobalVirtualGroup :: "menv \<Rightarrow> int \<Rightarrow> Params option \<Rightarrow> ManageModular \<Rightarrow> unit reply \<times> ManageModular" where
  "createGlobalVirtualGroup env vgf params m =
     (case (case params of Some p \<Rightarrow> Inr p | None \<Rightarrow> mvParams env) of
        Inl e \<Rightarrow> (Failed e, m)
      | Inr p \<Rightarrow>
          (case vg_reply (GenerateGlobalVirtualGroupMeta (NewGenerateGVGSecondarySPsPolicyByPrefer p (gvgPreferSPList m)) (Some (spBlackList m)) (mVGM m)) of
             Crashed \<Rightarrow> (Crashed, m)
           | Failed e \<Rightarrow> (Failed e, m)
           | Done_ok g \<Rightarrow>
               (case mvVGParams env of
                  Inl e \<Rightarrow> (Failed e, m)
                | Inr per \<Rightarrow>
                    ((case mvCreateGVG env of None \<Rightarrow> Done_ok () | Some e \<Rightarrow> Failed e),
                     m\<lparr>actions := actions m @ [CreateGVG vgf (gvgSecondarySPIDs g) (per * gvgStakingStorageSize g)]\<rparr>))))"

definition ForceRefreshMeta :: "menv \<Rightarrow> ManageModular \<Rightarrow> ManageModular" where
  "ForceRefreshMeta env m =
     (let (vm, acts) = refreshGVGMeta (mvVG env) (mvSPs env) (mvPerBytes env) (mvVgfs env) True (mVGM m)
      in m\<lparr>mVGM := vm, actions := actions m @ map VGAction acts\<rparr>)"

text \<open>Both choices: when nothing can be picked, a group is created, the view is refreshed and the choice repeated.\<close>

definition pick_or_create ::
  "menv \<Rightarrow> int \<Rightarrow> Params option \<Rightarrow> (rat \<Rightarrow> virtualGroupManager \<Rightarrow> vg_error + 'a) \<Rightarrow> ManageModular \<Rightarrow> 'a reply \<times> ManageModular" where
  "pick_or_create env vgf params sel m =
     (case vg_reply (sel (mvRnd env 0) (mVGM m)) of
        Crashed \<Rightarrow> (Crashed, m)
      | Done_ok x \<Rightarrow> (Done_ok x, m)
      | Failed _ \<Rightarrow>
          (case createGlobalVirtualGroup env vgf params m of
             (Crashed, m1) \<Rightarrow> (Crashed, m1)
           | (Failed e, m1) \<Rightarrow> (Failed e, m1)
           | (Done_ok _, m1) \<Rightarrow>
               let m2 = ForceRefreshMeta env m1 in (vg_reply (sel (mvRnd env 1) (mVGM m2)), m2)))"

definition pickGlobalVirtualGroup :: "menv \<Rightarrow> int \<Rightarrow> Params \<Rightarrow> ManageModular \<Rightarrow> GlobalVirtualGroupMeta option reply \<times> ManageModular" where
  "pickGlobalVirtualGroup env vgf p m =
     pick_or_create env vgf (Some p) (\<lambda>rnd. PickGlobalVirtualGroup rnd (mvOrd env) vgf (Some (gvgBlackList m))) m"

text \<open>The identifier of the family; a nil family panics.\<close>

definition mgr_PickVirtualGroupFamily :: "menv \<Rightarrow> ManageModular \<Rightarrow> int reply \<times> ManageModular" where
  "mgr_PickVirtualGroupFamily env m =
     (case pick_or_create env 0 None (\<lambda>rnd. PickVirtualGroupFamily rnd (mvOrd env) (mvAvail env) (spBlackList m)) m of
        (Done_ok (Some f), m1) \<Rightarrow> (Done_ok (vgfID f), m1)
      | (Done_ok None, m1) \<Rightarrow> (Crashed, m1)
      | (Failed e, m1) \<Rightarrow> (Failed e, m1)
      | (Crashed, m1) \<Rightarrow> (Crashed, m1))"

definition getSPID :: "menv \<Rightarrow> ManageModular \<Rightarrow> (manager_error + int) \<times> ManageModular" where
  "getSPID env m =
     (if mSpID m \<noteq> 0 then (Inr (mSpID m), m)
      else case mvSelf env of Inl e \<Rightarrow> (Inl e, m) | Inr i \<Rightarrow> (Inr i, m\<lparr>mSpID := i\<rparr>))"

subsection \<open>Uploads\<close>

definition create_upload :: "menv \<Rightarrow> qid \<Rightarrow> Task \<Rightarrow> int \<Rightarrow> bool \<Rightarrow> string \<Rightarrow> ManageModular \<Rightarrow> unit reply \<times> ManageModular" where
  "create_upload env i t objectID agent msg m =
     (if UploadingObjectNumber m \<ge> maxUploadObjectNumber m then (Failed Mgr_ErrExceedTask, m)
      else let (uploading, m1) = TaskUploading (mvNow env) t m
      in if uploading then (Failed Mgr_ErrRepeatedTask, m1)
         else (case Push (mvNow env) i t m1 of
                 (Some e, m2) \<Rightarrow> (Failed (QueueErr e), m2)
               | (None, m2) \<Rightarrow>
                   (case InsertUploadProgress (mvDbFails env 0) (mvNow env) objectID agent (mDB m2) of
                      (None, db) \<Rightarrow> (Done_ok (), m2\<lparr>mDB := db\<rparr>)
                    | (Some ErrDuplicate, db) \<Rightarrow> (Done_ok (), m2\<lparr>mDB := db\<rparr>)
                    | (Some e, db) \<Rightarrow>
                        (Failed (Mgr_ErrGfSpDBWithDetail (msg @ mvInfo env t @ '', error: '' @ mvDbMsg env e)), m2\<lparr>mDB := db\<rparr>))))"

definition HandleCreateUploadObjectTask :: "menv \<Rightarrow> GfSpUploadObjectTask option \<Rightarrow> ManageModular \<Rightarrow> unit reply \<times> ManageModular" where
  "HandleCreateUploadObjectTask env task m =
     (case task of
        None \<Rightarrow> (Failed Mgr_ErrDanglingTask, m)
      | Some t \<Rightarrow> create_upload env uploadQueue (UploadObject t) (oId (uo_ObjectInfo t)) (uo_IsAgentUpload t)
                    ''failed to create upload object progress, task_info: '' m)"

definition HandleCreateResumableUploadObjectTask :: "menv \<Rightarrow> GfSpResumableUploadObjectTask option \<Rightarrow> ManageModular \<Rightarrow> unit reply \<times> ManageModular" where
  "HandleCreateResumableUploadObjectTask env task m =
     (case task of
        None \<Rightarrow> (Failed Mgr_ErrDanglingTask, m)
      | Some t \<Rightarrow> create_upload env resumableUploadQueue (ResumableUploadObject t) (oId (ru_ObjectInfo t)) (ru_IsAgentUpload t)
                    ''failed to create resumable upload object progress, task_info: '' m)"

text \<open>The replicating task of an object on a group; \<open>None\<close> is the panic of a zero divisor in the timeout.\<close>

definition new_replicate :: "menv \<Rightarrow> ObjectInfo \<Rightarrow> Params \<Rightarrow> bool \<Rightarrow> GlobalVirtualGroupMeta \<Rightarrow> GfSpReplicatePieceTask option" where
  "new_replicate env ob p agent g =
     map_option (\<lambda>timeout.
        (InitReplicatePieceTask (mvNow env) ob p (TaskPriority TypeTaskReplicatePiece) timeout (TaskMaxRetry (mvApp env) TypeTaskReplicatePiece) agent)
          \<lparr>rp_GlobalVirtualGroupId := gvgID g, rp_SecondaryEndpoints := gvgSecondarySPEndpoints g\<rparr>)
       (TaskTimeout (mvApp env) TypeTaskReplicatePiece (oPayloadSize ob))"

definition replicate_doing :: "ObjectInfo \<Rightarrow> GlobalVirtualGroupMeta \<Rightarrow> UploadObjectMeta" where
  "replicate_doing ob g = (empty_meta (oId ob))\<lparr>umTaskState := TASK_STATE_REPLICATE_OBJECT_DOING, umGlobalVirtualGroupID := gvgID g,
     umSecondaryEndpoints := gvgSecondarySPEndpoints g\<rparr>"

definition push_replicate :: "menv \<Rightarrow> ObjectInfo \<Rightarrow> GlobalVirtualGroupMeta \<Rightarrow> Task \<Rightarrow> ManageModular \<Rightarrow> unit reply \<times> ManageModular" where
  "push_replicate env ob g t m =
     (case Push (mvNow env) replicateQueue t m of
        (Some e, m1) \<Rightarrow> (Failed (QueueErr e), m1)
      | (None, m1) \<Rightarrow> (Done_ok (), add_jobs [BackupJob, UpdateProgressJob (replicate_doing ob g)] m1))"

definition pickGVGAndReplicate :: "menv \<Rightarrow> int \<Rightarrow> Task \<Rightarrow> ObjectInfo \<Rightarrow> Params \<Rightarrow> bool \<Rightarrow> ManageModular \<Rightarrow> unit reply \<times> ManageModular" where
  "pickGVGAndReplicate env vgf t ob p agent m =
     (case pickGlobalVirtualGroup env vgf p m of
        (Crashed, m1) \<Rightarrow> (Crashed, m1)
      | (Failed e, m1) \<Rightarrow> (Failed e, m1\<lparr>mVGM := ReleaseAllSP (mVGM m1)\<rparr>)
      | (Done_ok None, m1) \<Rightarrow> (Crashed, m1)
      | (Done_ok (Some g), m1) \<Rightarrow>
          (case new_replicate env ob p agent g of
             None \<Rightarrow> (Crashed, m1)
           | Some r \<Rightarrow> push_replicate env ob g
               (AppendLog (mvStamp env) ''manager-create-replicate-task''
                 (SetRetry (GetRetry t) (SetLogs (GetLogs t) (SetCreateTime (GetCreateTime t) (ReplicatePiece r))))) m1))"

definition HandleDoneUploadObjectTask :: "menv \<Rightarrow> GfSpUploadObjectTask option \<Rightarrow> ManageModular \<Rightarrow> unit reply \<times> ManageModular" where
  "HandleDoneUploadObjectTask env task m =
     (case task of
        None \<Rightarrow> (Failed Mgr_ErrDanglingTask, m)
      | Some u \<Rightarrow>
          let t = UploadObject u; m1 = snd (PopByKey (mvNow env) uploadQueue (Key t) m);
              (uploading, m2) = TaskUploading (mvNow env) t m1
          in if uploading then (Failed Mgr_ErrRepeatedTask, m2)
             else (case task_Error t of
                     Some e \<Rightarrow> (Done_ok (), add_jobs [UpdateProgressJob (error_meta (oId (uo_ObjectInfo u)) TASK_STATE_UPLOAD_OBJECT_ERROR (mvPrint env e))] m2)
                   | None \<Rightarrow> pickGVGAndReplicate env (uo_VirtualGroupFamilyId u) t (uo_ObjectInfo u) (uo_StorageParams u) (uo_IsAgentUpload u) m2))"

definition HandleDoneResumableUploadObjectTask :: "menv \<Rightarrow> GfSpResumableUploadObjectTask option \<Rightarrow> ManageModular \<Rightarrow> unit reply \<times> ManageModular" where
  "HandleDoneResumableUploadObjectTask env task m =
     (case task of
        None \<Rightarrow> (Failed Mgr_ErrDanglingTask, m)
      | Some u \<Rightarrow>
          let t = ResumableUploadObject u; ob = ru_ObjectInfo u; m1 = snd (PopByKey (mvNow env) resumableUploadQueue (Key t) m);
              (uploading, m2) = TaskUploading (mvNow env) t m1
          in if uploading then (Failed Mgr_ErrRepeatedTask, m2)
             else (case task_Error t of
                     Some e \<Rightarrow> (Done_ok (), add_jobs [UpdateProgressJob (error_meta (oId ob) TASK_STATE_UPLOAD_OBJECT_ERROR (mvPrint env e))] m2)
                   | None \<Rightarrow>
                       if \<not> ru_Completed u then (Done_ok (), m2)
                       else (case pickGlobalVirtualGroup env (ru_VirtualGroupFamilyId u) (ru_StorageParams u) m2 of
                               (Crashed, m3) \<Rightarrow> (Crashed, m3)
                             | (Failed e, m3) \<Rightarrow> (Failed e, m3)
                             | (Done_ok None, m3) \<Rightarrow> (Crashed, m3)
                             | (Done_ok (Some g), m3) \<Rightarrow>
                                 (case new_replicate env ob (ru_StorageParams u) (ru_IsAgentUpload u) g of
                                    None \<Rightarrow> (Crashed, m3)
                                  | Some r \<Rightarrow> push_replicate env ob g (ReplicatePiece r) m3))))"

subsection \<open>Replicating\<close>

text \<open>The part of the retry that excludes the provider that was not available.\<close>

definition freeze_and_repick :: "menv \<Rightarrow> int \<Rightarrow> GfSpReplicatePieceTask \<Rightarrow> ManageModular \<Rightarrow> unit reply \<times> ManageModular" where
  "freeze_and_repick env idx old m =
     (let t = ReplicatePiece old; ob = rp_ObjectInfo old in
      case mvObject env (oId ob) of
        Inl e \<Rightarrow> (Failed e, m)
      | Inr info \<Rightarrow>
          if oObjectStatus info = OBJECT_STATUS_SEALED \<and> \<not> oIsUpdating info
          then (Done_ok (), snd (PopByKey (mvNow env) replicateQueue (Key t) m))
          else (case mvGVG env (rp_GlobalVirtualGroupId old) of
                  Inl e \<Rightarrow> (Failed e, m)
                | Inr gvg \<Rightarrow>
                    if idx < 0 \<or> idx \<ge> int (length (cgSecondarySpIds gvg)) then (Crashed, m)
                    else let sp = cgSecondarySpIds gvg ! nat idx in
                      (case mvJoined env sp of
                         Inl e \<Rightarrow> (Failed e, m)
                       | Inr joined \<Rightarrow>
                           (case getSPID env m of
                              (Inl e, m1) \<Rightarrow> (Failed e, m1)
                            | (Inr self, m1) \<Rightarrow>
                                let own = filter (\<lambda>g. cgPrimarySpId g = self) joined;
                                    m2 = m1\<lparr>mVGM := FreezeSPAndGVGs (mvNow env) sp own (mVGM m1)\<rparr>
                                in pickGVGAndReplicate env (cgFamilyId gvg) t ob (rp_StorageParams old) (rp_IsAgentUploadTask old) m2))))"

definition put_event :: "menv \<Rightarrow> Task \<Rightarrow> ManageModular \<Rightarrow> ManageModular" where
  "put_event env t m = (if mvTrace env then add_jobs [PutEventJob t] m else m)"

definition repush_replicate_log :: "menv \<Rightarrow> GfSpReplicatePieceTask \<Rightarrow> Task \<Rightarrow> Task" where
  "repush_replicate_log env shadow t =
     SetUpdateTime (mvNow env) (AppendLog (mvStamp env) (tLogs (rp_Task shadow))
       (AppendLog (mvStamp env) (''manager-handle-failed-replicate-task-repush:'' @ show_int (tRetry (rp_Task shadow))) t))"

definition err_text :: "menv \<Rightarrow> Task \<Rightarrow> string" where
  "err_text env t = (case task_Error t of None \<Rightarrow> [] | Some e \<Rightarrow> mvPrint env e)"

definition handleFailedReplicatePieceTask :: "menv \<Rightarrow> GfSpReplicatePieceTask \<Rightarrow> ManageModular \<Rightarrow> unit reply \<times> ManageModular" where
  "handleFailedReplicatePieceTask env shadow m =
     (let st = ReplicatePiece shadow; (old, m1) = PopByKey (mvNow env) replicateQueue (Key st) m;
          (uploading, m2) = TaskUploading (mvNow env) st m1
      in if uploading then (Failed Mgr_ErrRepeatedTask, m2)
         else (case old of
                 None \<Rightarrow> (Failed Mgr_ErrCanceledTask, m2)
               | Some (ReplicatePiece h) \<Rightarrow>
                   let t = ReplicatePiece h in
                   if \<not> ExceedRetry t
                   then let t1 = repush_replicate_log env shadow t in
                     (if rp_NotAvailableSpIdx shadow \<noteq> -1
                      then (case t1 of ReplicatePiece h1 \<Rightarrow> freeze_and_repick env (rp_NotAvailableSpIdx shadow) h1 m2 | _ \<Rightarrow> (Crashed, m2))
                      else (case Push (mvNow env) replicateQueue t1 m2 of
                              (None, m3) \<Rightarrow> (Done_ok (), m3)
                            | (Some e, m3) \<Rightarrow> (Failed (QueueErr e), m3)))
                   else let st1 = AppendLog (mvStamp env) (''manager-handle-failed-replicate-task-error:'' @ err_text env st @ ''-retry:'' @ show_int (GetRetry st)) st in
                     (case st1 of
                        ReplicatePiece s1 \<Rightarrow> (Done_ok (), add_jobs [ReplicateErrorJob s1 (error_meta (oId (rp_ObjectInfo h)) TASK_STATE_REPLICATE_OBJECT_ERROR ''exceed_replicate_retry'')] m2)
                      | _ \<Rightarrow> (Crashed, m2))
               | Some _ \<Rightarrow> (Crashed, m2)))"

definition new_seal :: "menv \<Rightarrow> GfSpReplicatePieceTask \<Rightarrow> GfSpSealObjectTask" where
  "new_seal env r = InitSealObjectTask (mvNow env) (rp_GlobalVirtualGroupId r) (rp_ObjectInfo r) (rp_StorageParams r) (TaskPriority TypeTaskSealObject)
     (rp_SecondaryEndpoints r) (rp_SecondarySignatures r) (the (TaskTimeout (mvApp env) TypeTaskSealObject 0)) (TaskMaxRetry (mvApp env) TypeTaskSealObject)
     (rp_IsAgentUploadTask r)"

definition seal_doing :: "GfSpReplicatePieceTask \<Rightarrow> UploadObjectMeta" where
  "seal_doing r = (empty_meta (oId (rp_ObjectInfo r)))\<lparr>umTaskState := TASK_STATE_SEAL_OBJECT_DOING, umGlobalVirtualGroupID := rp_GlobalVirtualGroupId r,
     umSecondaryEndpoints := rp_SecondaryEndpoints r, umSecondarySignatures := rp_SecondarySignatures r\<rparr>"

definition HandleReplicatePieceTask :: "menv \<Rightarrow> GfSpReplicatePieceTask option \<Rightarrow> ManageModular \<Rightarrow> unit reply \<times> ManageModular" where
  "HandleReplicatePieceTask env task m =
     (case task of
        None \<Rightarrow> (Failed Mgr_ErrDanglingTask, m)
      | Some r \<Rightarrow>
          let t = ReplicatePiece r in
          if task_Error t \<noteq> None
          then (case handleFailedReplicatePieceTask env r m of
                  (Crashed, m1) \<Rightarrow> (Crashed, m1)
                | (_, m1) \<Rightarrow> (Done_ok (), m1))
          else let m1 = snd (PopByKey (mvNow env) replicateQueue (Key t) m); (uploading, m2) = TaskUploading (mvNow env) t m1
          in if uploading then (Failed Mgr_ErrRepeatedTask, m2)
             else if rp_Sealed r
             then (case AppendLog (mvStamp env) (''manager-handle-succeed-replicate-task-retry:'' @ show_int (GetRetry t)) t of
                     ReplicatePiece r1 \<Rightarrow> (Done_ok (), add_jobs [ReplicateSealedJob r1] m2)
                   | _ \<Rightarrow> (Crashed, m2))
             else let t1 = AppendLog (mvStamp env) ''manager-handle-succeed-replicate-failed-seal'' t;
                      s = AppendLog (mvStamp env) ''manager-create-seal-task''
                            (SetLogs (GetLogs t1) (SetCreateTime (GetCreateTime t1) (SealObject (new_seal env r))))
                  in (case Push (mvNow env) sealQueue s m2 of
                        (Some e, m3) \<Rightarrow> (Failed (QueueErr e), m3)
                      | (None, m3) \<Rightarrow> (Done_ok (), add_jobs [BackupJob, UpdateProgressJob (seal_doing r)] m3)))"

subsection \<open>Sealing\<close>

definition handleFailedSealObjectTask :: "menv \<Rightarrow> GfSpSealObjectTask \<Rightarrow> ManageModular \<Rightarrow> unit reply \<times> ManageModular" where
  "handleFailedSealObjectTask env shadow m =
     (let st = SealObject shadow; (old, m1) = PopByKey (mvNow env) sealQueue (Key st) m;
          (uploading, m2) = TaskUploading (mvNow env) st m1
      in if uploading then (Failed Mgr_ErrRepeatedTask, m2)
         else (case old of
                 None \<Rightarrow> (Failed Mgr_ErrCanceledTask, m2)
               | Some (SealObject h) \<Rightarrow>
                   let t = SealObject h in
                   if \<not> ExceedRetry t
                   then let t1 = SetUpdateTime (mvNow env) (AppendLog (mvStamp env) (GetLogs st)
                          (AppendLog (mvStamp env) (''manager-handle-failed-seal-task-error:'' @ err_text env st @ ''-repush:'' @ show_int (GetRetry st)) t))
                     in (Done_ok (), snd (Push (mvNow env) sealQueue t1 m2))
                   else let st1 = AppendLog (mvStamp env) (''manager-handle-failed-seal-task-error:'' @ err_text env st @ ''-retry:'' @ show_int (GetRetry t)) st
                     in (Done_ok (), add_jobs [UpdateProgressJob (error_meta (oId (so_ObjectInfo h)) TASK_STATE_SEAL_OBJECT_ERROR ''exceed_seal_retry'')]
                           (put_event env st1 m2))
               | Some _ \<Rightarrow> (Crashed, m2)))"

definition HandleSealObjectTask :: "menv \<Rightarrow> GfSpSealObjectTask option \<Rightarrow> ManageModular \<Rightarrow> unit reply \<times> ManageModular" where
  "HandleSealObjectTask env task m =
     (case task of
        None \<Rightarrow> (Failed Mgr_ErrDanglingTask, m)
      | Some s \<Rightarrow>
          if task_Error (SealObject s) \<noteq> None
          then (case handleFailedSealObjectTask env s m of
                  (Crashed, m1) \<Rightarrow> (Crashed, m1)
                | (_, m1) \<Rightarrow> (Done_ok (), m1))
          else (Done_ok (), add_jobs [SealDoneJob s] m))"

subsection \<open>Receiving and recovering pieces\<close>

definition handleFailedReceivePieceTask :: "menv \<Rightarrow> GfSpReceivePieceTask \<Rightarrow> ManageModular \<Rightarrow> unit reply \<times> ManageModular" where
  "handleFailedReceivePieceTask env r m =
     (case PopByKey (mvNow env) receiveQueue (Key (ReceivePiece r)) m of
        (None, m1) \<Rightarrow> (Failed Mgr_ErrCanceledTask, m1)
      | (Some (ReceivePiece h), m1) \<Rightarrow>
          if \<not> ExceedRetry (ReceivePiece h)
          then (Done_ok (), snd (Push (mvNow env) receiveQueue (SetUpdateTime (mvNow env) (ReceivePiece h)) m1))
          else (Done_ok (), m1)
      | (Some _, m1) \<Rightarrow> (Crashed, m1))"

definition HandleReceivePieceTask :: "menv \<Rightarrow> GfSpReceivePieceTask \<Rightarrow> ManageModular \<Rightarrow> unit reply \<times> ManageModular" where
  "HandleReceivePieceTask env r m =
     (if rc_Sealed r then (Done_ok (), add_jobs [ReceivePopJob (Key (ReceivePiece r))] m)
      else if task_Error (ReceivePiece r) \<noteq> None
      then (case handleFailedReceivePieceTask env r m of
              (Crashed, m1) \<Rightarrow> (Crashed, m1)
            | (_, m1) \<Rightarrow> (Done_ok (), m1))
      else (Done_ok (), add_jobs [ReceivePushJob r] m))"

definition addSegmentRecord :: "int \<Rightarrow> bool \<Rightarrow> int \<Rightarrow> (int \<rightharpoonup> ObjectSegmentsStats) \<Rightarrow> int \<rightharpoonup> ObjectSegmentsStats" where
  "addSegmentRecord objectID success idx stats =
     (case stats objectID of
        None \<Rightarrow> stats
      | Some s \<Rightarrow> stats(objectID \<mapsto> (if success then s\<lparr>ssSucceedSegments := insert idx (ssSucceedSegments s)\<rparr>
                                       else s\<lparr>ssFailedSegments := insert idx (ssFailedSegments s)\<rparr>)))"

definition isRecoverFailed :: "int \<Rightarrow> (int \<rightharpoonup> ObjectSegmentsStats) \<Rightarrow> bool" where
  "isRecoverFailed objectID stats =
     (case stats objectID of
        None \<Rightarrow> True
      | Some s \<Rightarrow>
          if int (card (ssSucceedSegments s)) = ssSegmentCount s then False
          else int (card (ssSucceedSegments s \<union> ssFailedSegments s)) = ssSegmentCount s \<and> ssFailedSegments s \<noteq> {})"

definition handleFailedRecoverPieceTask :: "menv \<Rightarrow> GfSpRecoverPieceTask \<Rightarrow> ManageModular \<Rightarrow> unit reply \<times> ManageModular" where
  "handleFailedRecoverPieceTask env r m =
     (case PopByKey (mvNow env) recoveryQueue (Key (RecoverPiece r)) m of
        (None, m1) \<Rightarrow> (Failed Mgr_ErrCanceledTask, m1)
      | (Some (RecoverPiece h), m1) \<Rightarrow>
          let t = RecoverPiece h; objectID = oId (re_ObjectInfo h) in
          if \<not> ExceedRetry t then (Done_ok (), snd (Push (mvNow env) recoveryQueue (SetUpdateTime (mvNow env) t) m1))
          else let m2 = forget_recovery (Key t) (add_failed (oObjectName (re_ObjectInfo h)) m1) in
            if \<not> re_BySuccessorSp h then (Done_ok (), m2)
            else let stats = addSegmentRecord objectID False (re_SegmentIdx h) (recoverObjectStats m2); m3 = m2\<lparr>recoverObjectStats := stats\<rparr> in
              if \<not> isRecoverFailed objectID stats then (Done_ok (), m3)
              else (case InsertRecoverFailedObject (mvDbFails env 0) \<lparr>rfObjectID = objectID, rfVirtualGroupID = re_GvgId h, rfRedundancyIndex = re_EcIdx h, rfRetry = 0\<rparr> (mFailed m3) of
                      (None, rows) \<Rightarrow> (Done_ok (), m3\<lparr>mFailed := rows\<rparr>)
                    | (Some e, rows) \<Rightarrow>
                        (Failed (Mgr_ErrGfSpDBWithDetail (''failed to insert recover failed object entry, task_info: '' @ mvInfo env t @ '', error: '' @ mvDbMsg env e)), m3\<lparr>mFailed := rows\<rparr>))
      | (Some _, m1) \<Rightarrow> (Crashed, m1))"

definition HandleRecoverPieceTask :: "menv \<Rightarrow> GfSpRecoverPieceTask option \<Rightarrow> ManageModular \<Rightarrow> unit reply \<times> ManageModular" where
  "HandleRecoverPieceTask env task m =
     (case task of
        None \<Rightarrow> (Failed Mgr_ErrDanglingTask, m)
      | Some r \<Rightarrow>
          let t = RecoverPiece r; m1 = (if re_Recovered r then forget_recovery (Key t) (snd (PopByKey (mvNow env) recoveryQueue (Key t) m)) else m) in
          if re_Recovered r \<and> re_BySuccessorSp r
          then (Done_ok (), m1\<lparr>recoverObjectStats := addSegmentRecord (oId (re_ObjectInfo r)) True (re_SegmentIdx r) (recoverObjectStats m1)\<rparr>)
          else if task_Error t \<noteq> None then handleFailedRecoverPieceTask env r m1
          else let (recovering, m2) = TaskRecovering (mvNow env) t m1 in
            if recovering then (Failed Mgr_ErrRepeatedTask, m2)
            else (case Push (mvNow env) recoveryQueue (SetUpdateTime (mvNow env) t) m2 of
                    (Some e, m3) \<Rightarrow> (Failed (QueueErr e), m3)
                  | (None, m3) \<Rightarrow> (Done_ok (), m3\<lparr>recoveryTaskMap := (recoveryTaskMap m3)(Key t \<mapsto> Key t)\<rparr>)))"

end
