(* ===== verification/SP_ManagerLoop.thy ===== *)
theory SP_ManagerLoop
  imports SP_ManagerTasks
begin

text \<open>
  The rest of the manager: reports of garbage collection, downloads and challenges
  (\<^verbatim>\<open>src/modular/manager/manage_task.go\<close>), the goroutines as jobs, the ticks of the event loop, loading
  tasks at the start and rejecting an object (\<^verbatim>\<open>manager.go\<close>), and the statistics of recovered objects
  (\<^verbatim>\<open>recover_scheduler.go\<close>).
\<close>

subsection \<open>Reports of garbage collection\<close>

text \<open>The range of blocks is done, the report is older than what the queue has, or the queue takes the report over.\<close>

definition HandleGCObjectTask :: "menv \<Rightarrow> GfSpGCObjectTask option \<Rightarrow> ManageModular \<Rightarrow> unit reply \<times> ManageModular" where
  "HandleGCObjectTask env task m =
     (case task of
        None \<Rightarrow> (Failed Mgr_ErrDanglingTask, m)
      | Some g \<Rightarrow>
          let now = mvNow env; key = Key (GCObject g); (present, m1) = Has now gcObjectQueue key m in
          if \<not> present then (Failed Mgr_ErrCanceledTask, m1)
          else if go_CurrentBlockNumber g > go_EndBlockNumber g
          then let m2 = snd (PopByKey now gcObjectQueue key m1)
               in (Done_ok (), m2\<lparr>mGC := snd (DeleteGCObjectProgress (mvDbFails env 0) key (mGC m2))\<rparr>)
          else (case PopByKey now gcObjectQueue key m1 of
                  (None, m2) \<Rightarrow> (Failed Mgr_ErrCanceledTask, m2)
                | (Some (GCObject old), m2) \<Rightarrow>
                    if go_CurrentBlockNumber old > go_CurrentBlockNumber g
                       \<or> go_CurrentBlockNumber old = go_CurrentBlockNumber g \<and> go_LastDeletedObjectId old > go_LastDeletedObjectId g
                    then (Failed Mgr_ErrCanceledTask, m2)
                    else let m3 = snd (Push now gcObjectQueue (SetUpdateTime now (GCObject g)) m2);
                             (block, ob) = GetGCObjectProgress g
                         in (Done_ok (), m3\<lparr>mGC := snd (UpdateGCObjectProgress (mvDbFails env 0) now
                              \<lparr>gmTaskKey = key, gmStartBlockHeight = 0, gmEndBlockHeight = 0, gmCurrentBlockHeight = block, gmLastDeletedObjectID = ob\<rparr> (mGC m3))\<rparr>)
                | (Some _, m2) \<Rightarrow> (Crashed, m2)))"

text \<open>The other collections: finished without an error, given up after too many retries, or pushed again.\<close>

definition gc_report :: "menv \<Rightarrow> qid \<Rightarrow> (Task \<Rightarrow> Task) \<Rightarrow> Task option \<Rightarrow> ManageModular \<Rightarrow> unit reply \<times> ManageModular" where
  "gc_report env i mark task m =
     (case task of
        None \<Rightarrow> (Failed Mgr_ErrDanglingTask, m)
      | Some t \<Rightarrow>
          let now = mvNow env; (present, m1) = Has now i (Key t) m in
          if \<not> present then (Failed Mgr_ErrCanceledTask, m1)
          else if task_Error t = None then (Done_ok (), snd (PopByKey now i (Key t) m1))
          else (case PopByKey now i (Key t) m1 of
                  (None, m2) \<Rightarrow> (Failed Mgr_ErrCanceledTask, m2)
                | (Some old, m2) \<Rightarrow>
                    if ExceedRetry old then (Failed Mgr_ErrCanceledTask, m2)
                    else (Done_ok (), snd (Push now i (mark (SetUpdateTime now t)) m2))))"

definition HandleGCZombiePieceTask :: "menv \<Rightarrow> GfSpGCZombiePieceTask option \<Rightarrow> ManageModular \<Rightarrow> unit reply \<times> ManageModular" where
  "HandleGCZombiePieceTask env task = gc_report env gcZombieQueue (\<lambda>t. t) (map_option GCZombiePiece task)"

definition HandleGCStaleVersionObjectTask :: "menv \<Rightarrow> GfSpGCStaleVersionObjectTask option \<Rightarrow> ManageModular \<Rightarrow> unit reply \<times> ManageModular" where
  "HandleGCStaleVersionObjectTask env task = gc_report env gcStaleVersionObjectQueue (\<lambda>t. t) (map_option GCStaleVersionObject task)"

definition HandleGCMetaTask :: "menv \<Rightarrow> GfSpGCMetaTask option \<Rightarrow> ManageModular \<Rightarrow> unit reply \<times> ManageModular" where
  "HandleGCMetaTask env task = gc_report env gcMetaQueue (SetError (mvUnmarshal env) None) (map_option GCMeta task)"

definition HandleCreateGCBucketMigrationTask :: "menv \<Rightarrow> GfSpGCBucketMigrationTask option \<Rightarrow> ManageModular \<Rightarrow> unit reply \<times> ManageModular" where
  "HandleCreateGCBucketMigrationTask env task m =
     (case task of
        None \<Rightarrow> (Failed Mgr_ErrDanglingTask, m)
      | Some b \<Rightarrow>
          let t = GCBucketMigration b; (present, m1) = Has (mvNow env) gcBucketMigrationQueue (Key t) m in
          if present then (Failed Mgr_ErrRepeatedTask, m1)
          else (case Push (mvNow env) gcBucketMigrationQueue t m1 of
                  (None, m2) \<Rightarrow> (Done_ok (), m2)
                | (Some e, m2) \<Rightarrow> (Failed (QueueErr e), m2)))"

definition mgr_HandleDownloadObjectTask :: "menv \<Rightarrow> GfSpDownloadObjectTask \<Rightarrow> ManageModular \<Rightarrow> unit reply \<times> ManageModular" where
  "mgr_HandleDownloadObjectTask env d m = (Done_ok (), snd (Push (mvNow env) downloadQueue (DownloadObject d) m))"

definition mgr_HandleChallengePieceTask :: "menv \<Rightarrow> GfSpChallengePieceTask \<Rightarrow> ManageModular \<Rightarrow> unit reply \<times> ManageModular" where
  "mgr_HandleChallengePieceTask env c m = (Done_ok (), snd (Push (mvNow env) challengeQueue (ChallengePiece c) m))"

subsection \<open>Migration of groups\<close>

definition migrateGVGQueuePush :: "int \<Rightarrow> Task \<Rightarrow> ManageModular \<Rightarrow> queue_error option \<times> ManageModular" where
  "migrateGVGQueuePush now t m = Push now migrateGVGQueue t m"

definition migrateGVGQueuePopByKey :: "int \<Rightarrow> string \<Rightarrow> ManageModular \<Rightarrow> ManageModular" where
  "migrateGVGQueuePopByKey now key m = snd (PopByKey now migrateGVGQueue key m)"

definition migrateGVGQueuePopByLimitAndPushAgain :: "int \<Rightarrow> GfSpMigrateGVGTask \<Rightarrow> bool \<Rightarrow> ManageModular \<Rightarrow> queue_error option \<times> ManageModular" where
  "migrateGVGQueuePopByLimitAndPushAgain now g push m =
     (let m1 = snd (PopByKey now migrateGVGQueue (Key (MigrateGVG g)) m)
      in if \<not> mg_Finished g \<and> push then Push now migrateGVGQueue (SetUpdateTime now (MigrateGVG g)) m1 else (None, m1))"

subsection \<open>Goroutines\<close>

definition new_stale :: "menv \<Rightarrow> ShadowIntegrityMeta \<Rightarrow> GfSpGCStaleVersionObjectTask" where
  "new_stale env s = InitGCStaleVersionObjectTask (mvNow env) (TaskPriority TypeTaskGCStaleVersionObject) (smObjectID s) (smRedundancyIndex s)
     (smIntegrityChecksum s) (smPieceChecksumList s) (smVersion s) (smObjectSize s) (the (TaskTimeout (mvApp env) TypeTaskGCStaleVersionObject 0))"

definition seal_done :: "ObjectInfo \<Rightarrow> UploadObjectMeta" where
  "seal_done ob = (empty_meta (oId ob))\<lparr>umTaskState := TASK_STATE_SEAL_OBJECT_DONE\<rparr>"

definition run_sealed :: "menv \<Rightarrow> GfSpReplicatePieceTask \<Rightarrow> ManageModular \<Rightarrow> ManageModular" where
  "run_sealed env r m =
     (let ob = rp_ObjectInfo r; m1 = put_event env (ReplicatePiece r) m;
          db1 = snd (UpdateUploadProgress (mvDbFails env 0) (mvNow env) (seal_done ob) (mDB m1));
          db2 = snd (DeleteUploadProgress (mvDbFails env 1) (oId ob) db1);
          db3 = (if rp_IsAgentUploadTask r then snd (DeleteReplicatePieceChecksumsByObjectID (mvDbFails env 2) (oId ob) db2) else db2);
          m2 = m1\<lparr>mDB := db3\<rparr>
      in if \<not> oIsUpdating ob then m2
         else (case GetShadowObjectIntegrity (mvDbFails env 3) db3 (oId ob) (-1) of
                 Inl _ \<Rightarrow> m2
               | Inr s \<Rightarrow> snd (Push (mvNow env) gcStaleVersionObjectQueue (GCStaleVersionObject (new_stale env s)) m2)))"

definition run_seal_done :: "menv \<Rightarrow> GfSpSealObjectTask \<Rightarrow> ManageModular \<Rightarrow> ManageModular" where
  "run_seal_done env s m =
     (let t = SealObject s; ob = so_ObjectInfo s; m1 = snd (PopByKey (mvNow env) sealQueue (Key t) m);
          t1 = AppendLog (mvStamp env) (''manager-handle-succeed-seal-task-retry:'' @ show_int (GetRetry t)) t;
          m2 = put_event env t1 m1
      in case UpdateUploadProgress (mvDbFails env 0) (mvNow env) (seal_done ob) (mDB m2) of
           (Some _, db) \<Rightarrow> m2\<lparr>mDB := db\<rparr>
         | (None, db) \<Rightarrow> m2\<lparr>mDB := snd (DeleteUploadProgress (mvDbFails env 1) (oId ob) db)\<rparr>)"

definition run_receive_push :: "menv \<Rightarrow> GfSpReceivePieceTask \<Rightarrow> ManageModular \<Rightarrow> ManageModular option" where
  "run_receive_push env r m =
     (case TaskTimeout (mvApp env) TypeTaskReceivePiece 0 of
        None \<Rightarrow> None
      | Some timeout \<Rightarrow>
          let t = SetUpdateTime (mvNow env) (SetPriority (TaskPriority TypeTaskReceivePiece) (SetTimeout timeout
                    (SetMaxRetry (TaskMaxRetry (mvApp env) TypeTaskReceivePiece) (SetRetry 0 (ReceivePiece r)))))
          in case Push (mvNow env) receiveQueue t m of
               (None, m1) \<Rightarrow> Some (add_jobs [BackupJob] m1)
             | (Some _, m1) \<Rightarrow> Some m1)"

fun run_job :: "menv \<Rightarrow> job \<Rightarrow> ManageModular \<Rightarrow> ManageModular option" where
  "run_job env (UpdateProgressJob meta) m = Some (m\<lparr>mDB := snd (UpdateUploadProgress (mvDbFails env 0) (mvNow env) meta (mDB m))\<rparr>)"
| "run_job env (ReplicateSealedJob r) m = Some (run_sealed env r m)"
| "run_job env (ReplicateErrorJob r meta) m =
     (let m1 = put_event env (ReplicatePiece r) m
      in Some (m1\<lparr>mDB := snd (UpdateUploadProgress (mvDbFails env 0) (mvNow env) meta (mDB m1))\<rparr>))"
| "run_job env (SealDoneJob s) m = Some (run_seal_done env s m)"
| "run_job env (ReceivePopJob key) m = Some (snd (PopByKey (mvNow env) receiveQueue key m))"
| "run_job env (ReceivePushJob r) m = run_receive_push env r m"
| "run_job env (PutEventJob t) m = Some (m\<lparr>mEvents := InsertPutEvent True (mvDbFails env 0) (mvPrint env) (mvStamp env) (mvNow env) t (mEvents m)\<rparr>)"
| "run_job env BackupJob m = backUpTask env m"
| "run_job env (ResendJob t) m = Some (m\<lparr>taskCh := taskCh m @ [t], backupTaskNum := i64 (backupTaskNum m + 1)\<rparr>)"

text \<open>A backup waits for the mutex, a send for room on the channel.\<close>

fun runnable :: "job \<Rightarrow> ManageModular \<Rightarrow> bool" where
  "runnable BackupJob m \<longleftrightarrow> pendingBackup m = None"
| "runnable (ResendJob t) m \<longleftrightarrow> length (taskCh m) < taskChCap m"
| "runnable _ m \<longleftrightarrow> True"

definition take_job :: "nat \<Rightarrow> ManageModular \<Rightarrow> ManageModular" where
  "take_job n m = m\<lparr>jobs := take n (jobs m) @ drop (Suc n) (jobs m)\<rparr>"

subsection \<open>Ticks of the event loop\<close>

definition gc_object_tick :: "menv \<Rightarrow> ManageModular \<Rightarrow> ManageModular" where
  "gc_object_tick env m =
     (let start = gcBlockHeight m; fin = u64 (gcBlockHeight m + gcObjectBlockInterval m); now = mvNow env in
      case mvHeight env of
        None \<Rightarrow> m
      | Some height \<Rightarrow>
          if u64 (fin + gcSafeBlockDistance m) > height then m
          else let g = InitGCObjectTask now (TaskPriority TypeTaskGCObject) start fin (the (TaskTimeout (mvApp env) TypeTaskGCObject 0))
               in case Push now gcObjectQueue (GCObject g) m of
                    (Some _, m1) \<Rightarrow> m1
                  | (None, m1) \<Rightarrow>
                      m1\<lparr>gcBlockHeight := u64 (fin + 1),
                         mGC := snd (InsertGCObjectProgress (mvDbFails env 0) now \<lparr>gmTaskKey = Key (GCObject g), gmStartBlockHeight = start,
                                  gmEndBlockHeight = fin, gmCurrentBlockHeight = 0, gmLastDeletedObjectID = 0\<rparr> (mGC m1))\<rparr>)"

definition gc_zombie_tick :: "menv \<Rightarrow> ManageModular \<Rightarrow> ManageModular" where
  "gc_zombie_tick env m =
     (let start = gcZombiePieceObjectID m; fin = u64 (gcZombiePieceObjectID m + gcZombiePieceObjectIDInterval m); now = mvNow env in
      if \<not> gcZombiePieceEnabled m then m
      else case mvLatestObject env of
        None \<Rightarrow> m
      | Some latest \<Rightarrow>
          if u64 (fin + gcZombiePieceSafeObjectIDDistance m) > latest then m\<lparr>gcZombiePieceObjectID := 0\<rparr>
          else let g = InitGCZombiePieceTask now (TaskPriority TypeTaskGCZombiePiece) start fin (the (TaskTimeout (mvApp env) TypeTaskGCZombiePiece 0))
               in case Push now gcZombieQueue (GCZombiePiece g) m of
                    (Some _, m1) \<Rightarrow> m1
                  | (None, m1) \<Rightarrow> m1\<lparr>gcZombiePieceObjectID := u64 (fin + 1)\<rparr>)"

definition gc_meta_tick :: "menv \<Rightarrow> ManageModular \<Rightarrow> ManageModular" where
  "gc_meta_tick env m =
     (if \<not> gcMetaEnabled m then m
      else snd (Push (mvNow env) gcMetaQueue (GCMeta (InitGCMetaTask (mvNow env) (TaskPriority TypeTaskGCMeta) (the (TaskTimeout (mvApp env) TypeTaskGCMeta 0)))) m))"

definition gcObjectStaleVersionPiece :: "menv \<Rightarrow> ManageModular \<Rightarrow> ManageModular" where
  "gcObjectStaleVersionPiece env m =
     (case ListShadowIntegrityMeta (mvDbFails env 0) (mDB m) of
        Inl _ \<Rightarrow> m
      | Inr metas \<Rightarrow> fold (\<lambda>s m. snd (Push (mvNow env) gcStaleVersionObjectQueue (GCStaleVersionObject (new_stale env s)) m)) metas m)"

subsection \<open>Loading tasks at the start\<close>

text \<open>\<open>assignShadowObjectInfo\<close>: the fields of the update in progress.  The time of the update, which the records here
  leave out, selects the parameters; they are a function of the object in the environment.\<close>

definition assign_shadow :: "ObjectInfo \<Rightarrow> ObjectInfo \<Rightarrow> ObjectInfo" where
  "assign_shadow shadow ob = ob\<lparr>oPayloadSize := oPayloadSize shadow, oVersion := oVersion shadow, oChecksums := oChecksums shadow\<rparr>"

text \<open>The object of a row: \<open>Inr None\<close> when the row is skipped, an error when the start fails.\<close>

definition load_object :: "menv \<Rightarrow> int \<Rightarrow> manager_error + (ObjectInfo \<times> Params) option" where
  "load_object env i =
     (case mvObject env i of
        Inl _ \<Rightarrow> Inr None
      | Inr ob \<Rightarrow>
          (case (if oIsUpdating ob then map_sum (\<lambda>e. e) (\<lambda>s. assign_shadow s ob) (mvShadow env (oBucketName ob) (oObjectName ob)) else Inr ob) of
             Inl e \<Rightarrow> Inl e
           | Inr ob1 \<Rightarrow>
               if \<not> oIsUpdating ob \<and> oObjectStatus ob \<noteq> OBJECT_STATUS_CREATED then Inr None
               else (case mvParamsOf env ob1 of Inl _ \<Rightarrow> Inr None | Inr p \<Rightarrow> Inr (Some (ob1, p)))))"

definition load_replicate :: "menv \<Rightarrow> UploadObjectMeta \<Rightarrow> ManageModular \<Rightarrow> bool reply \<times> ManageModular" where
  "load_replicate env meta m =
     (case load_object env (umObjectID meta) of
        Inl e \<Rightarrow> (Failed e, m)
      | Inr None \<Rightarrow> (Done_ok True, m)
      | Inr (Some (ob, p)) \<Rightarrow>
          (case TaskTimeout (mvApp env) TypeTaskReplicatePiece (oPayloadSize ob) of
             None \<Rightarrow> (Crashed, m)
           | Some timeout \<Rightarrow>
               (case mvBucketFamily env (oBucketName ob) of
                  Inl e \<Rightarrow> (Failed e, m)
                | Inr None \<Rightarrow> (Done_ok False, m)
                | Inr (Some vgf) \<Rightarrow>
                    (case pickGlobalVirtualGroup env vgf p m of
                       (Crashed, m1) \<Rightarrow> (Crashed, m1)
                     | (Failed e, m1) \<Rightarrow> (Failed e, m1)
                     | (Done_ok None, m1) \<Rightarrow> (Crashed, m1)
                     | (Done_ok (Some g), m1) \<Rightarrow>
                         let r = (InitReplicatePieceTask (mvNow env) ob p (TaskPriority TypeTaskReplicatePiece) timeout
                                   (TaskMaxRetry (mvApp env) TypeTaskReplicatePiece) (umIsAgentUpload meta))
                                  \<lparr>rp_GlobalVirtualGroupId := gvgID g, rp_SecondaryEndpoints := gvgSecondarySPEndpoints g\<rparr>;
                             meta1 = meta\<lparr>umGlobalVirtualGroupID := gvgID g, umSecondaryEndpoints := gvgSecondarySPEndpoints g\<rparr>;
                             m2 = m1\<lparr>mDB := snd (UpdateUploadProgress (mvDbFails env 1) (mvNow env) meta1 (mDB m1))\<rparr>
                         in (Done_ok True, snd (Push (mvNow env) replicateQueue (ReplicatePiece r) m2))))))"

definition load_seal :: "menv \<Rightarrow> UploadObjectMeta \<Rightarrow> ManageModular \<Rightarrow> bool reply \<times> ManageModular" where
  "load_seal env meta m =
     (case load_object env (umObjectID meta) of
        Inl e \<Rightarrow> (Failed e, m)
      | Inr None \<Rightarrow> (Done_ok True, m)
      | Inr (Some (ob, p)) \<Rightarrow>
          let s = InitSealObjectTask (mvNow env) (umGlobalVirtualGroupID meta) ob p (TaskPriority TypeTaskSealObject) (umSecondaryEndpoints meta)
                    (umSecondarySignatures meta) (the (TaskTimeout (mvApp env) TypeTaskSealObject 0)) (TaskMaxRetry (mvApp env) TypeTaskSealObject)
                    (umIsAgentUpload meta)
          in (Done_ok True, snd (Push (mvNow env) sealQueue (SealObject s) m)))"

definition load_gc :: "menv \<Rightarrow> GCObjectMeta \<Rightarrow> ManageModular \<Rightarrow> bool reply \<times> ManageModular" where
  "load_gc env meta m =
     (let g = SetGCObjectProgress (gmCurrentBlockHeight meta) (gmLastDeletedObjectID meta)
                (InitGCObjectTask (mvNow env) (TaskPriority TypeTaskGCObject) (gmStartBlockHeight meta) (gmEndBlockHeight meta)
                  (the (TaskTimeout (mvApp env) TypeTaskGCObject 0)))
      in case Push (mvNow env) gcObjectQueue (GCObject g) m of
           (Some _, m1) \<Rightarrow> (Done_ok True, m1)
         | (None, m1) \<Rightarrow>
             (Done_ok True, if gmEndBlockHeight meta \<ge> gcBlockHeight m1 then m1\<lparr>gcBlockHeight := u64 (gmEndBlockHeight meta + 1)\<rparr> else m1))"

text \<open>
  The rows of a phase, each with its own answers.  \<open>Done_ok False\<close> ends the loading without an error: it
  is the return of a nil error when the bucket of an object is not known.
\<close>

fun load_each :: "(nat \<Rightarrow> 'r \<Rightarrow> ManageModular \<Rightarrow> bool reply \<times> ManageModular) \<Rightarrow> nat \<Rightarrow> 'r list \<Rightarrow> ManageModular \<Rightarrow> bool reply \<times> ManageModular" where
  "load_each f n [] m = (Done_ok True, m)"
| "load_each f n (r # rs) m = (case f n r m of (Done_ok True, m1) \<Rightarrow> load_each f (Suc n) rs m1 | (e, m1) \<Rightarrow> (e, m1))"

text \<open>The three phases; the limits and ages of rows are the configuration's, and \<open>enable\<close> its switch.\<close>

definition LoadTaskFromDB ::
  "menv \<Rightarrow> (nat \<Rightarrow> menv) \<Rightarrow> bool \<Rightarrow> nat \<Rightarrow> nat \<Rightarrow> nat \<Rightarrow> int \<Rightarrow> int \<Rightarrow> ManageModular \<Rightarrow> bool reply \<times> ManageModular" where
  "LoadTaskFromDB env envs enable nReplicate nSeal nGC ageReplicate ageSeal m =
     (if \<not> enable then (Done_ok True, m)
      else case GetUploadMetasToReplicate (mvDbFails env 0) (mvNow env) nReplicate ageReplicate (mDB m) of
        Inl e \<Rightarrow> (Failed (DbErr e), m)
      | Inr metas \<Rightarrow>
          (case load_each (\<lambda>n. load_replicate (envs n)) 0 metas m of
             (Done_ok True, m1) \<Rightarrow>
               (case GetUploadMetasToSeal (mvDbFails env 1) (mvNow env) nSeal ageSeal (mDB m1) of
                  Inl e \<Rightarrow> (Failed (DbErr e), m1)
                | Inr seals \<Rightarrow>
                    (case load_each (\<lambda>n. load_seal (envs n)) (length metas) seals m1 of
                       (Done_ok True, m2) \<Rightarrow>
                         (case GetGCMetasToGC (mvDbFails env 2) nGC (mGC m2) of
                            Inl e \<Rightarrow> (Failed (DbErr e), m2)
                          | Inr gcs \<Rightarrow> load_each (\<lambda>n. load_gc (envs n)) (length metas + length seals) gcs m2)
                     | (e, m2) \<Rightarrow> (e, m2)))
           | (e, m1) \<Rightarrow> (e, m1)))"

subsection \<open>Rejecting an object\<close>

text \<open>
  Each try has the result of the message and what listening for the rejection found: an error, or
  whether the rejection was seen.  The error of the listening is a variable of the inner block, so the
  outer one keeps the error of the last message.
\<close>

fun reject_tries :: "(manager_error option \<times> (manager_error + bool)) list \<Rightarrow> manager_error option \<Rightarrow> manager_error option" where
  "reject_tries [] err = err"
| "reject_tries ((Some e, _) # rest) err = reject_tries rest (Some e)"
| "reject_tries ((None, Inl _) # rest) err = reject_tries rest None"
| "reject_tries ((None, Inr rejected) # rest) err = (if rejected then None else reject_tries rest None)"

definition RejectUnSealObject :: "(nat \<Rightarrow> manager_error option \<times> (manager_error + bool)) \<Rightarrow> manager_error option" where
  "RejectUnSealObject tries = reject_tries (map tries [0..<3]) None"

subsection \<open>Statistics of recovered objects\<close>

definition stats_put :: "int \<Rightarrow> int \<Rightarrow> (int \<rightharpoonup> ObjectSegmentsStats) \<Rightarrow> int \<rightharpoonup> ObjectSegmentsStats" where
  "stats_put objectID segmentCount stats = stats(objectID \<mapsto> \<lparr>ssSegmentCount = segmentCount, ssFailedSegments = {}, ssSucceedSegments = {}\<rparr>)"

definition stats_remove :: "int \<Rightarrow> (int \<rightharpoonup> ObjectSegmentsStats) \<Rightarrow> int \<rightharpoonup> ObjectSegmentsStats" where
  "stats_remove objectID stats = stats(objectID := None)"

definition isObjectProcessed :: "int \<Rightarrow> (int \<rightharpoonup> ObjectSegmentsStats) \<Rightarrow> bool" where
  "isObjectProcessed objectID stats =
     (case stats objectID of
        None \<Rightarrow> False
      | Some s \<Rightarrow> int (card (ssSucceedSegments s \<union> ssFailedSegments s)) = ssSegmentCount s)"

definition ResetRecoveryFailedList :: "ManageModular \<Rightarrow> ManageModular" where
  "ResetRecoveryFailedList m = m\<lparr>recoveryFailedList := []\<rparr>"

end
