(* ===== verification/SP_ManagerQueues.thy ===== *)
theory SP_ManagerQueues
  imports SP_ManagerLoop SP_TaskProps
begin

text \<open>
  The queues of the manager as maps from keys to live tasks: what each operation of a queue does to this
  view, that the rest of the manager only changes by the effects of the strategies, and the contract of
  the queues that the handlers rely on.
\<close>

subsection \<open>The live tasks of a queue at a time\<close>

definition lv :: "int \<Rightarrow> qid \<Rightarrow> ManageModular \<Rightarrow> string \<rightharpoonup> Task" where
  "lv now i m = live (queue_at now i (mQueues m i))"

definition minv :: "ManageModular \<Rightarrow> bool" where
  "minv m \<longleftrightarrow> (\<forall>i. queue_inv (mQueues m i))"

lemma minvD: "minv m \<Longrightarrow> queue_inv (mQueues m i)" by (simp add: minv_def)

lemma queue_at_sel [simp]:
  "queueTasks (queue_at now i q) = queueTasks q" "queueCap (queue_at now i q) = queueCap q"
  "gcFunc (queue_at now i q) = Some (retires now i)" "filterFunc (queue_at now i q) = filter_strategy now i"
  "queue_inv (queue_at now i q) = queue_inv q" "queue_Len (queue_at now i q) = queue_Len q"
  by (simp_all add: queue_at_def queue_inv_def queue_Len_def)

lemma retired_at [simp]: "retired (queue_at now i q) = retires now i"
  by (simp add: retired_def fun_eq_iff)

lemma lv_eq: "lv now i m k = (case queueTasks (mQueues m i) k of None \<Rightarrow> None | Some t \<Rightarrow> if retires now i t then None else Some t)"
  by (simp add: lv_def live_def split: option.split)

lemma lv_queues: "mQueues m' i = mQueues m i \<Longrightarrow> lv now i m' = lv now i m"
  by (simp add: lv_def)

lemma live_at: "queueTasks q = queueTasks q' \<Longrightarrow> live (queue_at now i q) = live (queue_at now i q')"
  by (simp add: live_def fun_eq_iff split: option.split)

lemma Key_keeps [simp]:
  "Key (SetRetry n t) = Key t" "Key (SetUpdateTime n t) = Key t" "Key (IncRetry t) = Key t" "Key (SetAddress a t) = Key t"
  "Key (AppendLog s l t) = Key t" "Key (SetError js e t) = Key t" "Key (SetLogs l t) = Key t" "Key (SetTimeout n t) = Key t"
  "Key (SetMaxRetry n t) = Key t" "Key (SetPriority n t) = Key t"
  by (cases t; simp add: setter_task_defs base_IncRetry_def base_AppendLog_def base_SetError_def base_SetPriority_def)+

text \<open>The queue a kind of task belongs to; the operations of tasks never change the kind.\<close>

fun task_home :: "Task \<Rightarrow> qid option" where
  "task_home (UploadObject _) = Some uploadQueue"
| "task_home (ResumableUploadObject _) = Some resumableUploadQueue"
| "task_home (DownloadObject _) = Some downloadQueue"
| "task_home (ChallengePiece _) = Some challengeQueue"
| "task_home t = repush_queue t"

lemma task_home_keeps [simp]: "task_home (map_task f t) = task_home t" "repush_queue (map_task f t) = repush_queue t"
  by (cases t; simp)+

lemma home_setters [simp]:
  "task_home (SetRetry n t) = task_home t" "task_home (SetUpdateTime n t) = task_home t" "task_home (IncRetry t) = task_home t"
  "task_home (SetAddress a t) = task_home t" "task_home (AppendLog s l t) = task_home t" "task_home (SetError js e t) = task_home t"
  "task_home (SetLogs l t) = task_home t" "task_home (SetTimeout n t) = task_home t" "task_home (SetMaxRetry n t) = task_home t"
  "task_home (SetPriority n t) = task_home t" "task_home (SetCreateTime n t) = task_home t"
  by (simp_all add: setter_task_defs)

lemma repush_home: "repush_queue t = Some i \<Longrightarrow> task_home t = Some i"
  by (cases t) simp_all

lemma reset_sel [simp]:
  "Key (ResetGCObjectTask now t) = Key t" "task_home (ResetGCObjectTask now t) = task_home t"
  by (simp_all add: ResetGCObjectTask_def)

subsection \<open>An operation on a queue\<close>

lemma strategy_queues: "mQueues (snd (retire_strategy now i t m)) = mQueues m"
  by (cases i) (auto simp: GCUploadObjectQueue_def GCResumableUploadObjectQueue_def GCReplicatePieceQueue_def GCSealObjectQueue_def
      GCReceiveQueue_def GCRecoverQueue_def GCMigrateGVGQueue_def GCCacheQueue_def add_jobs_def forget_recovery_def add_failed_def split: option.splits)

text \<open>The effects of the strategies: the recovery bookkeeping and updates of the progress table.\<close>

definition strategy_frame :: "ManageModular \<Rightarrow> ManageModular \<Rightarrow> bool" where
  "strategy_frame m m' \<longleftrightarrow> (\<exists>metas l r. m' = m\<lparr>mQueues := mQueues m', jobs := jobs m @ map UpdateProgressJob metas,
     recoveryFailedList := l, recoveryTaskMap := r\<rparr>)"

lemma frame_refl [simp]: "strategy_frame m m"
  unfolding strategy_frame_def
  by (intro exI [of _ "[]"] exI [of _ "recoveryFailedList m"] exI [of _ "recoveryTaskMap m"]) simp

lemma frame_trans: "strategy_frame m m' \<Longrightarrow> strategy_frame m' m'' \<Longrightarrow> strategy_frame m m''"
  unfolding strategy_frame_def
proof (elim exE)
  fix a l r b l' r'
  assume 1: "m' = m\<lparr>mQueues := mQueues m', jobs := jobs m @ map UpdateProgressJob a, recoveryFailedList := l, recoveryTaskMap := r\<rparr>"
    and 2: "m'' = m'\<lparr>mQueues := mQueues m'', jobs := jobs m' @ map UpdateProgressJob b, recoveryFailedList := l', recoveryTaskMap := r'\<rparr>"
  have "m'' = m\<lparr>mQueues := mQueues m'', jobs := jobs m @ map UpdateProgressJob (a @ b), recoveryFailedList := l', recoveryTaskMap := r'\<rparr>"
    by (subst 2, subst (1 2) 1) simp
  then show "\<exists>metas l r. m'' = m\<lparr>mQueues := mQueues m'', jobs := jobs m @ map UpdateProgressJob metas, recoveryFailedList := l, recoveryTaskMap := r\<rparr>" by blast
qed

lemma frameI:
  "m' = m\<lparr>jobs := jobs m @ map UpdateProgressJob metas, recoveryFailedList := l, recoveryTaskMap := r, mQueues := q\<rparr> \<Longrightarrow> strategy_frame m m'"
  unfolding strategy_frame_def by (intro exI [of _ metas] exI [of _ l] exI [of _ r]) simp

lemma strategy_frame_step: "strategy_frame m (snd (retire_strategy now i t m))"
proof -
  have j: "strategy_frame m (add_jobs (expired_job s t) m)" for s
    by (cases "object_of t"; rule frameI [where metas = "case object_of t of None \<Rightarrow> [] | Some ob \<Rightarrow> [error_meta (oId ob) s ''expired'']"
          and l = "recoveryFailedList m" and r = "recoveryTaskMap m" and q = "mQueues m"])
      (simp_all add: expired_job_def add_jobs_def)
  have r: "strategy_frame m (snd (GCRecoverQueue t m))"
    by (rule frameI [where metas = "[]" and l = "recoveryFailedList (snd (GCRecoverQueue t m))" and r = "recoveryTaskMap (snd (GCRecoverQueue t m))" and q = "mQueues m"])
      (auto simp: GCRecoverQueue_def forget_recovery_def add_failed_def split: option.splits)
  show ?thesis
    by (cases i) (simp_all add: j r GCUploadObjectQueue_def GCResumableUploadObjectQueue_def GCReplicatePieceQueue_def GCSealObjectQueue_def
        GCReceiveQueue_def GCMigrateGVGQueue_def GCCacheQueue_def)
qed

lemma strategy_fold:
  "strategy_frame m (fold (\<lambda>t m. snd (retire_strategy now i t m)) ts m)
   \<and> mQueues (fold (\<lambda>t m. snd (retire_strategy now i t m)) ts m) = mQueues m"
proof (induction ts arbitrary: m)
  case (Cons t ts)
  from Cons [of "snd (retire_strategy now i t m)"] show ?case
    using frame_trans [OF strategy_frame_step [of m now i t]] by (simp add: strategy_queues)
qed simp

lemma frame_queues: "strategy_frame m m' \<Longrightarrow> strategy_frame m (m'\<lparr>mQueues := q\<rparr>)"
  unfolding strategy_frame_def
proof (elim exE)
  fix a l r assume 1: "m' = m\<lparr>mQueues := mQueues m', jobs := jobs m @ map UpdateProgressJob a, recoveryFailedList := l, recoveryTaskMap := r\<rparr>"
  have "m'\<lparr>mQueues := q\<rparr> = m\<lparr>mQueues := q, jobs := jobs m @ map UpdateProgressJob a, recoveryFailedList := l, recoveryTaskMap := r\<rparr>"
    by (subst 1) simp
  then show "\<exists>metas l r. m'\<lparr>mQueues := q\<rparr> = m\<lparr>mQueues := mQueues (m'\<lparr>mQueues := q\<rparr>), jobs := jobs m @ map UpdateProgressJob metas, recoveryFailedList := l, recoveryTaskMap := r\<rparr>"
    by auto
qed

lemma on_queue_eq:
  assumes "on_queue now i keys f m = (r, m')"
  shows "\<exists>q1. f (reset_visited now i keys (queue_at now i (mQueues m i))) = (r, q1) \<and> mQueues m' = (mQueues m)(i := q1) \<and> strategy_frame m m'"
proof -
  obtain r1 q1 where f: "f (reset_visited now i keys (queue_at now i (mQueues m i))) = (r1, q1)" by force
  define m1 where "m1 = fold (\<lambda>t m. snd (retire_strategy now i t m)) (tasks_in keys (queue_at now i (mQueues m i))) m"
  have m': "r = r1" "m' = m1\<lparr>mQueues := (mQueues m)(i := q1)\<rparr>"
    using assms f by (simp_all add: on_queue_def Let_def m1_def)
  have "strategy_frame m m1" unfolding m1_def using strategy_fold by blast
  then show ?thesis using f m' frame_queues by auto
qed

text \<open>The fields a frame keeps.\<close>

lemma frame_sel:
  assumes "strategy_frame m m'"
  shows "taskCh m' = taskCh m" "taskChCap m' = taskChCap m" "pendingBackup m' = pendingBackup m" "mDB m' = mDB m" "mGC m' = mGC m"
    "mVGM m' = mVGM m" "maxUploadObjectNumber m' = maxUploadObjectNumber m" "mEvents m' = mEvents m" "mFailed m' = mFailed m"
    "backupTaskNum m' = backupTaskNum m" "gcBlockHeight m' = gcBlockHeight m"
proof -
  from assms obtain a l r where e: "m' = m\<lparr>mQueues := mQueues m', jobs := jobs m @ map UpdateProgressJob a, recoveryFailedList := l, recoveryTaskMap := r\<rparr>"
    unfolding strategy_frame_def by blast
  show "taskCh m' = taskCh m" "taskChCap m' = taskChCap m" "pendingBackup m' = pendingBackup m" "mDB m' = mDB m" "mGC m' = mGC m"
    "mVGM m' = mVGM m" "maxUploadObjectNumber m' = maxUploadObjectNumber m" "mEvents m' = mEvents m" "mFailed m' = mFailed m"
    "backupTaskNum m' = backupTaskNum m" "gcBlockHeight m' = gcBlockHeight m" by (subst e; simp)+
qed

subsection \<open>Tasks only enter by a push\<close>

lemma has_tasks: "queueTasks (snd (queue_has k q)) x = Some u \<Longrightarrow> queueTasks q x = Some u"
  by (auto simp: queue_has_def split: option.splits if_splits)

lemma delete_tasks: "queueTasks (queue_delete t q) x = Some u \<Longrightarrow> queueTasks q x = Some u"
  using has_tasks [of "Key t" q x u] by (auto simp: queue_delete_def split: prod.splits if_splits)

lemma add_tasks: "queueTasks (queue_add t q) x = Some u \<Longrightarrow> u = t \<or> queueTasks q x = Some u"
  using has_tasks [of "Key t" q x u] by (auto simp: queue_add_def split: prod.splits if_splits)

lemma retire_tasks: "retire_one gc ks q = Some q' \<Longrightarrow> queueTasks q' x = Some u \<Longrightarrow> queueTasks q x = Some u"
  by (drule retire_one_cases) (auto dest: delete_tasks)

lemma Push_tasks: "queueTasks (snd (queue_Push t q)) x = Some u \<Longrightarrow> u = t \<or> queueTasks q x = Some u"
proof -
  obtain b q1 where h: "queue_has (Key t) q = (b, q1)" by force
  show "queueTasks (snd (queue_Push t q)) x = Some u \<Longrightarrow> u = t \<or> queueTasks q x = Some u"
    using has_tasks [of "Key t" q x u] h
    by (auto simp: queue_Push_def dest: retire_tasks add_tasks split: if_splits option.splits)
qed

lemma PopByKey_tasks:
  "queueTasks (snd (queue_PopByKey k q)) x = Some u \<Longrightarrow> queueTasks q x = Some u"
  "fst (queue_PopByKey k q) = Some u \<Longrightarrow> queueTasks q k = Some u"
  using has_tasks [of k q x u] has_tasks [of k q k u]
  by (auto simp: queue_PopByKey_def dest: delete_tasks split: prod.splits if_splits option.splits)

lemma remove_all_tasks: "queueTasks (remove_all ts q) x = Some u \<Longrightarrow> queueTasks q x = Some u"
  by (induction ts q rule: remove_all.induct) (auto split: if_splits)

lemma tasks_in_ran: "t \<in> set (tasks_in ord q) \<Longrightarrow> \<exists>k \<in> set ord. queueTasks q k = Some t"
  by (auto simp: tasks_in_def List.map_filter_def)

lemma sort_Search_le: "sort_Search n f \<le> n"
proof -
  have "i \<le> j \<Longrightarrow> search_from f i j \<le> j" for i j
  proof (induction f i j rule: search_from.induct)
    case (1 f i j)
    have "i < j \<Longrightarrow> i \<le> (i + j) div 2 \<and> (i + j) div 2 < j" by linarith
    with 1 show ?case by (subst search_from.simps) (auto simp: Let_def)
  qed
  then show ?thesis by (simp add: sort_Search_def)
qed

lemma top_tasks:
  "queueTasks (snd (top_by ok ord q)) x = Some u \<Longrightarrow> queueTasks q x = Some u"
  "fst (top_by ok ord q) = Some t \<Longrightarrow> \<exists>k. queueTasks q k = Some t"
proof -
  show "queueTasks (snd (top_by ok ord q)) x = Some u \<Longrightarrow> queueTasks q x = Some u"
    by (auto simp: top_by_def Let_def dest!: remove_all_tasks split: if_splits)
  assume t: "fst (top_by ok ord q) = Some t"
  define c where "c = sort_key GetCreateTime (filter (\<lambda>t. \<not> retired q t \<and> ok t) (tasks_in ord q))"
  define n where "n = sort_Search (length c) (\<lambda>i. GetCreateTime (c ! i) > queueCurrent q)"
  have "c = [] \<longleftrightarrow> filter (\<lambda>t. \<not> retired q t \<and> ok t) (tasks_in ord q) = []" unfolding c_def by (metis length_0_conv length_sort)
  then have "c \<noteq> []" "t = c ! (if n = length c then 0 else n)"
    using t by (auto simp: top_by_def Let_def c_def n_def split: if_splits)
  moreover have "n \<le> length c" unfolding n_def by (rule sort_Search_le)
  ultimately have "t \<in> set c" by (auto intro!: nth_mem split: if_splits)
  then have "t \<in> set (tasks_in ord q)" by (simp add: c_def)
  then show "\<exists>k. queueTasks q k = Some t" using tasks_in_ran by blast
qed

lemma Pop_tasks:
  "queueTasks (snd (queue_Pop ord q)) x = Some u \<Longrightarrow> queueTasks q x = Some u"
  "fst (queue_Pop ord q) = Some t \<Longrightarrow> \<exists>k. queueTasks q k = Some t"
  using top_tasks [of "admitted q" ord q]
  by (auto simp: queue_Pop_def queue_top_def dest!: delete_tasks split: prod.splits option.splits)

subsection \<open>Invariants of the queues\<close>

definition homed :: "ManageModular \<Rightarrow> bool" where
  "homed m \<longleftrightarrow> (\<forall>i k t. queueTasks (mQueues m i) k = Some t \<longrightarrow> task_home t = Some i)"

lemma homedD: "homed m \<Longrightarrow> queueTasks (mQueues m i) k = Some t \<Longrightarrow> task_home t = Some i"
  by (simp add: homed_def)

lemma reset_tasks:
  "queueTasks (reset_visited now i ks q) k = Some t \<Longrightarrow> \<exists>u. queueTasks q k = Some u \<and> (t = u \<or> t = ResetGCObjectTask now u)"
  by (auto simp: reset_visited_def split: if_splits)

lemma reset_dom [simp]: "dom (queueTasks (reset_visited now i ks q)) = dom (queueTasks q)"
  by (auto simp: reset_visited_def split: if_splits)

lemma reset_queue [simp]:
  "queueCap (reset_visited now i ks q) = queueCap q" "queue_Len (reset_visited now i ks q) = queue_Len q"
  by (simp_all add: queue_Len_def) (simp add: reset_visited_def)

lemma reset_inv: "queue_inv q \<Longrightarrow> queue_inv (reset_visited now i ks q)"
  using reset_tasks [of now i ks q] by (auto simp: queue_inv_def) (metis reset_sel(1))+

lemma reset_non [simp]: "\<not> resetting i \<Longrightarrow> reset_visited now i ks q = q"
  by (simp add: reset_visited_def)

lemma on_queue_homed:
  assumes "homed m" "on_queue now i ks f m = (r, m')"
    and "\<And>q x u. queueTasks (snd (f q)) x = Some u \<Longrightarrow> task_home u = Some i \<or> queueTasks q x = Some u"
  shows "homed m'"
proof -
  obtain q1 where q: "f (reset_visited now i ks (queue_at now i (mQueues m i))) = (r, q1)" "mQueues m' = (mQueues m)(i := q1)"
    using on_queue_eq [OF assms(2)] by blast
  have "task_home u = Some i" if "queueTasks q1 x = Some u" for x u
    using assms(3) [of "reset_visited now i ks (queue_at now i (mQueues m i))" x u] q(1) that
      reset_tasks [of now i ks "queue_at now i (mQueues m i)" x u] homedD [OF assms(1), of i x] by auto
  then show ?thesis using assms(1) q(2) by (auto simp: homed_def)
qed

lemma on_queue_inv:
  assumes "minv m" "on_queue now i ks f m = (r, m')" "\<And>q. queue_inv q \<Longrightarrow> queue_inv (snd (f q))"
  shows "minv m'"
proof -
  obtain q1 where q: "f (reset_visited now i ks (queue_at now i (mQueues m i))) = (r, q1)" "mQueues m' = (mQueues m)(i := q1)"
    using on_queue_eq [OF assms(2)] by blast
  have "queue_inv q1" using assms(3) [OF reset_inv, of "queue_at now i (mQueues m i)" now i ks] q(1) minvD [OF assms(1)] by simp
  then show ?thesis using assms(1) q(2) by (simp add: minv_def)
qed

lemma on_queue_frame: "on_queue now i ks f m = (r, m') \<Longrightarrow> strategy_frame m m' \<and> (\<forall>j. j \<noteq> i \<longrightarrow> mQueues m' j = mQueues m j)"
  using on_queue_eq by fastforce

lemmas op_defs = Has_def PopByKey_def Push_def queue_Has_def

lemma op_homed:
  "Has now i k m = (b, m') \<Longrightarrow> homed m \<Longrightarrow> homed m'"
  "PopByKey now i k m = (t, m') \<Longrightarrow> homed m \<Longrightarrow> homed m'"
  "Push now i u m = (e, m') \<Longrightarrow> homed m \<Longrightarrow> task_home u = Some i \<Longrightarrow> homed m'"
  unfolding op_defs by (auto intro: on_queue_homed dest: has_tasks PopByKey_tasks(1) Push_tasks)

lemma op_inv:
  "Has now i k m = (b, m') \<Longrightarrow> minv m \<Longrightarrow> minv m'"
  "PopByKey now i k m = (t, m') \<Longrightarrow> minv m \<Longrightarrow> minv m'"
  "Push now i u m = (e, m') \<Longrightarrow> minv m \<Longrightarrow> minv m'"
  unfolding op_defs by (auto intro: on_queue_inv simp: queue_has_live PopByKey_eq Push_inv)

lemma op_frame:
  "Has now i k m = (b, m') \<Longrightarrow> strategy_frame m m'"
  "PopByKey now i k m = (t, m') \<Longrightarrow> strategy_frame m m'"
  "Push now i u m = (e, m') \<Longrightarrow> strategy_frame m m'"
  unfolding op_defs by (drule on_queue_frame; blast)+

lemma op_other:
  "Has now i k m = (b, m') \<Longrightarrow> j \<noteq> i \<Longrightarrow> mQueues m' j = mQueues m j"
  "PopByKey now i k m = (t, m') \<Longrightarrow> j \<noteq> i \<Longrightarrow> mQueues m' j = mQueues m j"
  "Push now i u m = (e, m') \<Longrightarrow> j \<noteq> i \<Longrightarrow> mQueues m' j = mQueues m j"
  unfolding op_defs by (drule on_queue_frame; blast)+

lemma PopByKey_home:
  assumes "homed m" "PopByKey now i k m = (Some t, m')"
  shows "task_home t = Some i"
proof -
  obtain q1 where "queue_PopByKey k (reset_visited now i [k] (queue_at now i (mQueues m i))) = (Some t, q1)"
    using on_queue_eq [OF assms(2) [unfolded PopByKey_def]] by blast
  then have "queueTasks (reset_visited now i [k] (queue_at now i (mQueues m i))) k = Some t"
    using PopByKey_tasks(2) by (metis fst_conv)
  then obtain u where "queueTasks (mQueues m i) k = Some u" "t = u \<or> t = ResetGCObjectTask now u"
    using reset_tasks by fastforce
  then show ?thesis using homedD [OF assms(1)] by auto
qed

subsection \<open>What the operations do to the live tasks\<close>

lemma lv_frame:
  assumes "mQueues m' = (mQueues m)(i := q1)"
  shows "lv now j m' = (if j = i then live (queue_at now i q1) else lv now j m)"
  by (simp add: lv_def assms)

lemma live_at_again: "gcFunc q = Some (retires now i) \<Longrightarrow> live (queue_at now i q) = live q"
  by (auto simp: live_def retired_def fun_eq_iff split: option.splits)

lemma gcFunc_ops:
  "gcFunc (snd (queue_has k q)) = gcFunc q" "gcFunc (queue_delete t q) = gcFunc q" "gcFunc (queue_add t q) = gcFunc q"
  by (auto simp: queue_has_def queue_delete_def queue_add_def split: option.splits prod.splits if_splits)

lemma gcFunc_retire: "retire_one gc ks q = Some q' \<Longrightarrow> gcFunc q' = gcFunc q"
  by (drule retire_one_cases) (auto simp: gcFunc_ops)

lemma gcFunc_Push: "gcFunc (snd (queue_Push t q)) = gcFunc q"
proof -
  obtain b q1 where h: "queue_has (Key t) q = (b, q1)" by force
  then have "gcFunc q1 = gcFunc q" using gcFunc_ops(1) [of "Key t" q] by simp
  with h show ?thesis by (auto simp: queue_Push_def gcFunc_ops dest: gcFunc_retire split: if_splits option.splits)
qed

lemma gcFunc_PopByKey: "gcFunc (snd (queue_PopByKey k q)) = gcFunc q"
proof -
  obtain b q1 where h: "queue_has k q = (b, q1)" by force
  then have "gcFunc q1 = gcFunc q" using gcFunc_ops(1) [of k q] by simp
  with h show ?thesis by (auto simp: queue_PopByKey_def gcFunc_ops split: if_splits option.splits)
qed

lemma Has_spec:
  assumes "minv m" "\<not> resetting i" "Has now i k m = (b, m')"
  shows "b \<longleftrightarrow> k \<in> dom (lv now i m)" "lv now j m' = lv now j m"
proof -
  obtain q1 where q: "queue_has k (queue_at now i (mQueues m i)) = (b, q1)" "mQueues m' = (mQueues m)(i := q1)"
    using on_queue_eq [OF assms(3) [unfolded op_defs]] assms(2) by (auto simp: queue_Has_def)
  have i: "queue_inv (queue_at now i (mQueues m i))" using minvD [OF assms(1)] by simp
  show "b \<longleftrightarrow> k \<in> dom (lv now i m)" using queue_has_eq [OF i, of k] q(1) by (simp add: lv_def)
  have "live q1 = lv now i m" using queue_has_live [OF i, of k] q(1) by (simp add: lv_def)
  moreover have "live (queue_at now i q1) = live q1"
    using gcFunc_ops(1) [of k "queue_at now i (mQueues m i)"] q(1) by (intro live_at_again) simp
  ultimately show "lv now j m' = lv now j m" using lv_frame [OF q(2), of now j] by simp
qed

lemma PopByKey_spec:
  assumes "minv m" "\<not> resetting i" "PopByKey now i k m = (t, m')"
  shows "t = lv now i m k" "lv now j m' = (if j = i then (lv now i m)(k := None) else lv now j m)"
proof -
  obtain q1 where q: "queue_PopByKey k (queue_at now i (mQueues m i)) = (t, q1)" "mQueues m' = (mQueues m)(i := q1)"
    using on_queue_eq [OF assms(3) [unfolded op_defs]] assms(2) by auto
  have i: "queue_inv (queue_at now i (mQueues m i))" using minvD [OF assms(1)] by simp
  note p = PopByKey_eq [OF i, of k, unfolded q(1)]
  show "t = lv now i m k" using p(1) by (simp add: lv_def)
  have "live (queue_at now i q1) = live q1"
    using gcFunc_PopByKey [of k "queue_at now i (mQueues m i)"] q(1) by (intro live_at_again) simp
  then show "lv now j m' = (if j = i then (lv now i m)(k := None) else lv now j m)" using lv_frame [OF q(2), of now j] p(2) by (simp add: lv_def)
qed

text \<open>For a push the tasks of a resetting queue may be reset, so there only the keys are known.\<close>

lemma Push_spec:
  assumes "minv m" "\<not> resetting i" "Push now i t m = (e, m')"
  shows "e = None \<Longrightarrow> Key t \<notin> dom (lv now i m)"
    "lv now j m' = (if j = i \<and> e = None \<and> \<not> retires now i t then (lv now i m)(Key t \<mapsto> t) else lv now j m)"
proof -
  obtain q1 where q: "queue_Push t (queue_at now i (mQueues m i)) = (e, q1)" "mQueues m' = (mQueues m)(i := q1)"
    using on_queue_eq [OF assms(3) [unfolded op_defs]] assms(2) by auto
  have i: "queue_inv (queue_at now i (mQueues m i))" using minvD [OF assms(1)] by simp
  have l: "live (queue_at now i q1) = live q1"
    using gcFunc_Push [of t "queue_at now i (mQueues m i)"] q(1) by (intro live_at_again) simp
  show "e = None \<Longrightarrow> Key t \<notin> dom (lv now i m)" using Push_ok [OF i, of t q1] q(1) by (simp add: lv_def)
  have "live q1 = (if e = None \<and> \<not> retires now i t then (lv now i m)(Key t \<mapsto> t) else lv now i m)"
    using Push_ok [OF i, of t q1] Push_error [OF i, of t _ q1] q(1) by (cases e) (auto simp: lv_def)
  then show "lv now j m' = (if j = i \<and> e = None \<and> \<not> retires now i t then (lv now i m)(Key t \<mapsto> t) else lv now j m)"
    using lv_frame [OF q(2), of now j] l by simp
qed

text \<open>The queues of the manager keep the contract of a queue, at any time and whatever else the manager does.\<close>

lemma queue_contract:
  assumes "\<not> resetting i"
  shows "task_queue minv (lv now i) (\<lambda>m. retires now i) (Push now i) (PopByKey now i)"
proof (unfold_locales, goal_cases)
  case (1 m t) then show ?case using op_inv(3) by (metis prod.collapse)
next
  case (2 m t e m') then show ?case using Push_spec(2) [OF _ assms, of m now t "Some e" m' i] by simp
next
  case (3 m t m') then show ?case using Push_spec [OF _ assms, of m now t None m'] by simp
next
  case (4 m k) then show ?case using op_inv(2) by (metis prod.collapse)
next
  case (5 m k)
  obtain t m' where "PopByKey now i k m = (t, m')" by force
  with PopByKey_spec [OF 5 assms this] show ?case by simp
qed

interpretation upload_queue: task_queue minv "lv now uploadQueue" "\<lambda>m. retires now uploadQueue" "Push now uploadQueue" "PopByKey now uploadQueue" for now
  by (rule queue_contract) simp

interpretation replicate_queue: task_queue minv "lv now replicateQueue" "\<lambda>m. retires now replicateQueue" "Push now replicateQueue" "PopByKey now replicateQueue" for now
  by (rule queue_contract) simp

interpretation seal_queue: task_queue minv "lv now sealQueue" "\<lambda>m. retires now sealQueue" "Push now sealQueue" "PopByKey now sealQueue" for now
  by (rule queue_contract) simp

interpretation recovery_queue: task_queue minv "lv now recoveryQueue" "\<lambda>m. retires now recoveryQueue" "Push now recoveryQueue" "PopByKey now recoveryQueue" for now
  by (rule queue_contract) simp

text \<open>The check before an upload: the key is live in one of the four queues.  It changes no live task.\<close>

definition uploading_in :: "int \<Rightarrow> string \<Rightarrow> ManageModular \<Rightarrow> bool" where
  "uploading_in now k m \<longleftrightarrow> (\<exists>i \<in> {uploadQueue, replicateQueue, sealQueue, resumableUploadQueue}. k \<in> dom (lv now i m))"

lemma TaskUploading_spec:
  assumes "minv m" "TaskUploading now t m = (b, m')"
  shows "b \<longleftrightarrow> uploading_in now (Key t) m" "lv now j m' = lv now j m" "minv m'" "strategy_frame m m'" "homed m \<Longrightarrow> homed m'"
proof -
  obtain b1 m1 where 1: "Has now uploadQueue (Key t) m = (b1, m1)" by force
  obtain b2 m2 where 2: "Has now replicateQueue (Key t) m1 = (b2, m2)" by force
  obtain b3 m3 where 3: "Has now sealQueue (Key t) m2 = (b3, m3)" by force
  obtain b4 m4 where 4: "Has now resumableUploadQueue (Key t) m3 = (b4, m4)" by force
  have i: "minv m1" "minv m2" "minv m3" "minv m4"
    using op_inv(1) [OF 1 assms(1)] op_inv(1) [OF 2] op_inv(1) [OF 3] op_inv(1) [OF 4] by blast+
  note s = Has_spec [OF assms(1) _ 1] Has_spec [OF i(1) _ 2] Has_spec [OF i(2) _ 3] Has_spec [OF i(3) _ 4]
  note f = op_frame(1) [OF 1] op_frame(1) [OF 2] op_frame(1) [OF 3] op_frame(1) [OF 4]
  have r: "TaskUploading now t m = (if b1 then (True, m1) else if b2 then (True, m2) else if b3 then (True, m3) else (b4, m4))"
    by (simp add: TaskUploading_def 1 2 3 4)
  show "b \<longleftrightarrow> uploading_in now (Key t) m" "lv now j m' = lv now j m" "minv m'"
    using r assms(2) s i by (auto simp: uploading_in_def split: if_splits)
  show "strategy_frame m m'" using r assms(2) f by (auto intro: frame_trans split: if_splits)
  show "homed m \<Longrightarrow> homed m'"
    using r assms(2) op_homed(1) [OF 1] op_homed(1) [OF 2] op_homed(1) [OF 3] op_homed(1) [OF 4] by (auto split: if_splits)
qed

end
