(* ===== verification/SP_ManagerSteps.thy ===== *)
theory SP_ManagerSteps
  imports SP_ManagerQueues
begin

text \<open>
  The manager as a transition system: an event is a call of a handler, a round of dispatch, a tick, or a
  pending goroutine, each with its own surroundings.  The invariant: every queue respects its capacity
  and holds tasks under their keys, and every task, wherever it is, is of a kind its queue can take
  back, so that no type assertion on a task from a queue fails.
\<close>

subsection \<open>Events\<close>

datatype mgr_event =
    CreateUpload "GfSpUploadObjectTask option"
  | DoneUpload "GfSpUploadObjectTask option"
  | CreateResumable "GfSpResumableUploadObjectTask option"
  | DoneResumable "GfSpResumableUploadObjectTask option"
  | ReportReplicate "GfSpReplicatePieceTask option"
  | ReportSeal "GfSpSealObjectTask option"
  | ReportReceive GfSpReceivePieceTask
  | ReportRecover "GfSpRecoverPieceTask option"
  | ReportGCObject "GfSpGCObjectTask option"
  | ReportGCZombie "GfSpGCZombiePieceTask option"
  | ReportGCStale "GfSpGCStaleVersionObjectTask option"
  | ReportGCMeta "GfSpGCMetaTask option"
  | CreateGCBucketMigration "GfSpGCBucketMigrationTask option"
  | ReportDownload GfSpDownloadObjectTask
  | ReportChallenge GfSpChallengePieceTask
  | PushMigrate GfSpMigrateGVGTask
  | PopMigrate string
  | RepushMigrate GfSpMigrateGVGTask bool
  | PickFamily
  | Dispatch GfSpLimit
  | BackupTick
  | BackupSend
  | RunJob nat
  | GCObjectTick
  | GCZombieTick
  | GCMetaTick
  | GCStaleTick
  | LoadTasks "nat \<Rightarrow> menv" nat nat nat int int

text \<open>An order of ranging over a queue visits exactly its keys.\<close>

definition orders_ok :: "menv \<Rightarrow> ManageModular \<Rightarrow> bool" where
  "orders_ok env m \<longleftrightarrow> (\<forall>i. set (mvOrders env i) = dom (queueTasks (mQueues m i)))"

fun enabled :: "menv \<Rightarrow> mgr_event \<Rightarrow> ManageModular \<Rightarrow> bool" where
  "enabled env BackupTick m \<longleftrightarrow> pendingBackup m = None \<and> orders_ok env m"
| "enabled env (RunJob n) m \<longleftrightarrow> n < length (jobs m) \<and> runnable (jobs m ! n) m \<and> orders_ok env m"
| "enabled env _ m \<longleftrightarrow> True"

text \<open>\<open>None\<close> is a crash of a goroutine.\<close>

fun mgr_exec :: "menv \<Rightarrow> mgr_event \<Rightarrow> ManageModular \<Rightarrow> ManageModular option" where
  "mgr_exec env (CreateUpload t) m = Some (snd (HandleCreateUploadObjectTask env t m))"
| "mgr_exec env (DoneUpload t) m = Some (snd (HandleDoneUploadObjectTask env t m))"
| "mgr_exec env (CreateResumable t) m = Some (snd (HandleCreateResumableUploadObjectTask env t m))"
| "mgr_exec env (DoneResumable t) m = Some (snd (HandleDoneResumableUploadObjectTask env t m))"
| "mgr_exec env (ReportReplicate t) m = Some (snd (HandleReplicatePieceTask env t m))"
| "mgr_exec env (ReportSeal t) m = Some (snd (HandleSealObjectTask env t m))"
| "mgr_exec env (ReportReceive t) m = Some (snd (HandleReceivePieceTask env t m))"
| "mgr_exec env (ReportRecover t) m = Some (snd (HandleRecoverPieceTask env t m))"
| "mgr_exec env (ReportGCObject t) m = Some (snd (HandleGCObjectTask env t m))"
| "mgr_exec env (ReportGCZombie t) m = Some (snd (HandleGCZombiePieceTask env t m))"
| "mgr_exec env (ReportGCStale t) m = Some (snd (HandleGCStaleVersionObjectTask env t m))"
| "mgr_exec env (ReportGCMeta t) m = Some (snd (HandleGCMetaTask env t m))"
| "mgr_exec env (CreateGCBucketMigration t) m = Some (snd (HandleCreateGCBucketMigrationTask env t m))"
| "mgr_exec env (ReportDownload t) m = Some (snd (mgr_HandleDownloadObjectTask env t m))"
| "mgr_exec env (ReportChallenge t) m = Some (snd (mgr_HandleChallengePieceTask env t m))"
| "mgr_exec env (PushMigrate g) m = Some (snd (migrateGVGQueuePush (mvNow env) (MigrateGVG g) m))"
| "mgr_exec env (PopMigrate k) m = Some (migrateGVGQueuePopByKey (mvNow env) k m)"
| "mgr_exec env (RepushMigrate g push) m = Some (snd (migrateGVGQueuePopByLimitAndPushAgain (mvNow env) g push m))"
| "mgr_exec env PickFamily m = Some (snd (mgr_PickVirtualGroupFamily env m))"
| "mgr_exec env (Dispatch limit) m = Some (snd (DispatchTask env limit m))"
| "mgr_exec env BackupTick m = backUpTask env m"
| "mgr_exec env BackupSend m = Some (backup_send env m)"
| "mgr_exec env (RunJob n) m = run_job env (jobs m ! n) (take_job n m)"
| "mgr_exec env GCObjectTick m = Some (gc_object_tick env m)"
| "mgr_exec env GCZombieTick m = Some (gc_zombie_tick env m)"
| "mgr_exec env GCMetaTick m = Some (gc_meta_tick env m)"
| "mgr_exec env GCStaleTick m = Some (gcObjectStaleVersionPiece env m)"
| "mgr_exec env (LoadTasks envs nR nS nG aR aS) m = Some (snd (LoadTaskFromDB env envs True nR nS nG aR aS m))"

text \<open>The manager before its start: empty queues of any capacity, nothing under way.\<close>

definition mgr_init :: "ManageModular \<Rightarrow> bool" where
  "mgr_init m \<longleftrightarrow> (\<forall>i. \<exists>name capacity. mQueues m i = NewGfSpTQueue name capacity) \<and> taskCh m = [] \<and> jobs m = [] \<and> pendingBackup m = None"

inductive mgr_reachable :: "ManageModular \<Rightarrow> bool" where
  mgr_start: "mgr_init m \<Longrightarrow> mgr_reachable m"
| mgr_step: "mgr_reachable m \<Longrightarrow> enabled env ev m \<Longrightarrow> mgr_exec env ev m = Some m' \<Longrightarrow> mgr_reachable m'"

subsection \<open>The invariant\<close>

definition dispatchable :: "Task \<Rightarrow> bool" where
  "dispatchable t \<longleftrightarrow> repush_queue t \<noteq> None"

definition chan_ok :: "ManageModular \<Rightarrow> bool" where
  "chan_ok m \<longleftrightarrow> (\<forall>t \<in> set (taskCh m). dispatchable t)
     \<and> (\<forall>t r. pendingBackup m = Some (t, r) \<longrightarrow> dispatchable t \<and> (\<forall>u \<in> set r. dispatchable u))
     \<and> (\<forall>t. ResendJob t \<in> set (jobs m) \<longrightarrow> dispatchable t)"

definition mgr_ok :: "ManageModular \<Rightarrow> bool" where
  "mgr_ok m \<longleftrightarrow> minv m \<and> homed m \<and> chan_ok m"

lemma dispatchable_keeps [simp]: "dispatchable (map_task f t) = dispatchable t"
  by (simp add: dispatchable_def)

lemma dispatchable_setters [simp]:
  "dispatchable (SetRetry n t) = dispatchable t" "dispatchable (SetUpdateTime n t) = dispatchable t" "dispatchable (IncRetry t) = dispatchable t"
  "dispatchable (SetAddress a t) = dispatchable t" "dispatchable (AppendLog s l t) = dispatchable t" "dispatchable (SetError js e t) = dispatchable t"
  by (simp_all add: setter_task_defs)

lemma frame_chan: "strategy_frame m m' \<Longrightarrow> chan_ok m' = chan_ok m"
proof -
  assume f: "strategy_frame m m'"
  then obtain a l r where e: "m' = m\<lparr>mQueues := mQueues m', jobs := jobs m @ map UpdateProgressJob a, recoveryFailedList := l, recoveryTaskMap := r\<rparr>"
    unfolding strategy_frame_def by blast
  have "jobs m' = jobs m @ map UpdateProgressJob a" by (subst e) simp
  then show ?thesis using frame_sel [OF f] by (auto simp: chan_ok_def)
qed

lemma ok_op:
  "Has now i k m = (b, m') \<Longrightarrow> mgr_ok m \<Longrightarrow> mgr_ok m'"
  "PopByKey now i k m = (r, m') \<Longrightarrow> mgr_ok m \<Longrightarrow> mgr_ok m'"
  "Push now i t m = (e, m') \<Longrightarrow> mgr_ok m \<Longrightarrow> task_home t = Some i \<Longrightarrow> mgr_ok m'"
  "TaskUploading now t m = (b, m') \<Longrightarrow> mgr_ok m \<Longrightarrow> mgr_ok m'"
  unfolding mgr_ok_def using op_inv op_homed op_frame frame_chan TaskUploading_spec(3,4,5) by metis+

lemma ok_snd [intro]:
  "mgr_ok m \<Longrightarrow> mgr_ok (snd (Has now i k m))" "mgr_ok m \<Longrightarrow> mgr_ok (snd (PopByKey now i k m))"
  "mgr_ok m \<Longrightarrow> task_home t = Some i \<Longrightarrow> mgr_ok (snd (Push now i t m))" "mgr_ok m \<Longrightarrow> mgr_ok (snd (TaskUploading now t m))"
  using ok_op by (metis prod.collapse)+

lemma ok_cong:
  "mQueues m' = mQueues m \<Longrightarrow> taskCh m' = taskCh m \<Longrightarrow> pendingBackup m' = pendingBackup m \<Longrightarrow> jobs m' = jobs m \<Longrightarrow> mgr_ok m' = mgr_ok m"
  by (simp add: mgr_ok_def minv_def homed_def chan_ok_def)

lemma ok_fields [simp]:
  "mgr_ok (m\<lparr>mDB := a\<rparr>) = mgr_ok m" "mgr_ok (m\<lparr>mGC := b\<rparr>) = mgr_ok m" "mgr_ok (m\<lparr>mVGM := c\<rparr>) = mgr_ok m" "mgr_ok (m\<lparr>mSpID := d\<rparr>) = mgr_ok m"
  "mgr_ok (m\<lparr>actions := e\<rparr>) = mgr_ok m" "mgr_ok (m\<lparr>recoverObjectStats := f\<rparr>) = mgr_ok m" "mgr_ok (m\<lparr>recoveryTaskMap := g\<rparr>) = mgr_ok m"
  "mgr_ok (m\<lparr>recoveryFailedList := h\<rparr>) = mgr_ok m" "mgr_ok (m\<lparr>mEvents := ev\<rparr>) = mgr_ok m" "mgr_ok (m\<lparr>mFailed := fl\<rparr>) = mgr_ok m"
  "mgr_ok (m\<lparr>gcBlockHeight := n\<rparr>) = mgr_ok m" "mgr_ok (m\<lparr>gcZombiePieceObjectID := n\<rparr>) = mgr_ok m" "mgr_ok (m\<lparr>backupTaskNum := n\<rparr>) = mgr_ok m"
  "mgr_ok (m\<lparr>mVGM := c, actions := e\<rparr>) = mgr_ok m" "mgr_ok (m\<lparr>gcBlockHeight := n, mGC := b\<rparr>) = mgr_ok m"
  by (rule ok_cong; simp)+

lemma ok_add_jobs [simp]: "\<forall>t. ResendJob t \<in> set js \<longrightarrow> dispatchable t \<Longrightarrow> mgr_ok (add_jobs js m) = mgr_ok m"
  by (auto simp: add_jobs_def mgr_ok_def minv_def homed_def chan_ok_def)

lemma ok_small [simp]:
  "mgr_ok (put_event env t m) = mgr_ok m" "mgr_ok (forget_recovery k m) = mgr_ok m" "mgr_ok (add_failed k m) = mgr_ok m"
  by (simp_all add: put_event_def forget_recovery_def add_failed_def)

lemma PopByKey_ok:
  "mgr_ok m \<Longrightarrow> PopByKey now i k m = (Some t, m') \<Longrightarrow> task_home t = Some i"
  using PopByKey_home unfolding mgr_ok_def by blast

subsection \<open>Every event keeps the invariant\<close>

named_theorems ok_step

lemmas reply_splits = prod.splits option.splits reply.splits sum.splits if_splits

lemma ok_refresh [simp]: "mgr_ok (ForceRefreshMeta env m) = mgr_ok m"
  by (simp add: ForceRefreshMeta_def split: prod.splits)

lemma ok_create_gvg: "createGlobalVirtualGroup env vgf p m = (r, m') \<Longrightarrow> mgr_ok m' = mgr_ok m"
  by (auto simp: createGlobalVirtualGroup_def split: reply_splits)

lemma ok_pick: "pick_or_create env vgf p f m = (r, m') \<Longrightarrow> mgr_ok m' = mgr_ok m"
  by (auto simp: pick_or_create_def Let_def dest: ok_create_gvg split: reply_splits)

lemma ok_pick_gvg: "pickGlobalVirtualGroup env vgf p m = (r, m') \<Longrightarrow> mgr_ok m' = mgr_ok m"
  unfolding pickGlobalVirtualGroup_def by (rule ok_pick)

lemma ok_create_upload: "mgr_ok m \<Longrightarrow> task_home t = Some i \<Longrightarrow> mgr_ok (snd (create_upload env i t ob agent msg m))"
  by (auto simp: create_upload_def dest: ok_op split: prod.splits option.splits db_error.splits)

lemma ok_push_replicate: "mgr_ok m \<Longrightarrow> task_home t = Some replicateQueue \<Longrightarrow> mgr_ok (snd (push_replicate env ob g t m))"
  by (auto simp: push_replicate_def dest: ok_op split: prod.splits option.splits)

lemma ok_pick_replicate: "mgr_ok m \<Longrightarrow> mgr_ok (snd (pickGVGAndReplicate env vgf t ob p agent m))"
  by (auto simp: pickGVGAndReplicate_def dest: ok_pick_gvg intro!: ok_push_replicate split: prod.splits reply.splits option.splits)

lemma ok_uploads [ok_step]:
  "mgr_ok m \<Longrightarrow> mgr_ok (snd (HandleCreateUploadObjectTask env u m))"
  "mgr_ok m \<Longrightarrow> mgr_ok (snd (HandleCreateResumableUploadObjectTask env r m))"
  "mgr_ok m \<Longrightarrow> mgr_ok (snd (HandleDoneUploadObjectTask env u m))"
  by (auto simp: HandleCreateUploadObjectTask_def HandleCreateResumableUploadObjectTask_def HandleDoneUploadObjectTask_def Let_def
      dest: ok_op(4) intro!: ok_create_upload ok_pick_replicate split: option.splits prod.splits)

lemma ok_done_resumable [ok_step]: "mgr_ok m \<Longrightarrow> mgr_ok (snd (HandleDoneResumableUploadObjectTask env r m))"
  by (auto simp: HandleDoneResumableUploadObjectTask_def Let_def
      dest: ok_op(4) ok_pick_gvg intro!: ok_push_replicate split: option.splits prod.splits reply.splits)

lemma ok_spid: "getSPID env m = (r, m') \<Longrightarrow> mgr_ok m' = mgr_ok m"
  by (auto simp: getSPID_def split: reply_splits)

lemma ok_freeze: "mgr_ok m \<Longrightarrow> mgr_ok (snd (freeze_and_repick env idx old m))"
  by (auto simp: freeze_and_repick_def Let_def dest: ok_spid intro!: ok_pick_replicate split: prod.splits sum.splits)

lemma failed_replicate_eq:
  assumes "PopByKey (mvNow env) replicateQueue (Key (ReplicatePiece s)) m = (old, m1)" "TaskUploading (mvNow env) (ReplicatePiece s) m1 = (b, m2)"
    "mgr_ok m"
  shows "handleFailedReplicatePieceTask env s m =
    (if b then (Failed Mgr_ErrRepeatedTask, m2)
     else case old of
       None \<Rightarrow> (Failed Mgr_ErrCanceledTask, m2)
     | Some t \<Rightarrow>
         let h = (case t of ReplicatePiece h \<Rightarrow> h); t1 = repush_replicate_log env s t in
         if ExceedRetry t
         then (Done_ok (), add_jobs [ReplicateErrorJob (s\<lparr>rp_Task := base_AppendLog (mvStamp env) (''manager-handle-failed-replicate-task-error:''
                 @ err_text env (ReplicatePiece s) @ ''-retry:'' @ show_int (GetRetry (ReplicatePiece s))) (rp_Task s)\<rparr>)
                 (error_meta (oId (rp_ObjectInfo h)) TASK_STATE_REPLICATE_OBJECT_ERROR ''exceed_replicate_retry'')] m2)
         else if rp_NotAvailableSpIdx s \<noteq> -1 then freeze_and_repick env (rp_NotAvailableSpIdx s) (case t1 of ReplicatePiece h1 \<Rightarrow> h1) m2
         else (case Push (mvNow env) replicateQueue t1 m2 of
                 (None, m3) \<Rightarrow> (Done_ok (), m3)
               | (Some e, m3) \<Rightarrow> (Failed (QueueErr e), m3)))"
proof (cases old)
  case None
  then show ?thesis using assms(1,2) by (simp add: handleFailedReplicatePieceTask_def)
next
  case (Some t)
  then obtain h where t: "t = ReplicatePiece h" using PopByKey_ok [OF assms(3), of _ replicateQueue _ t m1] assms(1) by (cases t) auto
  obtain h1 where h1: "repush_replicate_log env s (ReplicatePiece h) = ReplicatePiece h1"
    by (simp add: repush_replicate_log_def setter_task_defs)
  have l: "AppendLog st x (ReplicatePiece s) = ReplicatePiece (s\<lparr>rp_Task := base_AppendLog st x (rp_Task s)\<rparr>)" for st x by (simp add: AppendLog_def)
  show ?thesis using assms(1,2) unfolding Some t handleFailedReplicatePieceTask_def Let_def by (simp add: h1 l del: append_Cons)
qed

lemma home_repush [simp]: "task_home (repush_replicate_log env s t) = task_home t"
  by (simp add: repush_replicate_log_def)

lemma ok_failed_replicate: "mgr_ok m \<Longrightarrow> mgr_ok (snd (handleFailedReplicatePieceTask env s m))"
proof -
  assume m: "mgr_ok m"
  obtain old m1 where 1: "PopByKey (mvNow env) replicateQueue (Key (ReplicatePiece s)) m = (old, m1)" by force
  obtain b m2 where 2: "TaskUploading (mvNow env) (ReplicatePiece s) m1 = (b, m2)" by force
  have m2: "mgr_ok m2" using ok_op(2) [OF 1 m] ok_op(4) [OF 2] by blast
  have "task_home t = Some replicateQueue" if "old = Some t" for t using PopByKey_ok [OF m] 1 that by simp
  then have "mgr_ok m3" if "old = Some t" "Push (mvNow env) replicateQueue (repush_replicate_log env s t) m2 = (e, m3)" for t e m3
    using that ok_op(3) [OF that(2) m2] by simp
  then show ?thesis using m2 by (auto simp: failed_replicate_eq [OF 1 2 m] Let_def intro!: ok_freeze split: option.splits prod.splits)
qed

lemma ok_report_replicate [ok_step]: "mgr_ok m \<Longrightarrow> mgr_ok (snd (HandleReplicatePieceTask env r m))"
proof -
  assume m: "mgr_ok m"
  show ?thesis
  proof (cases "\<exists>s. r = Some s \<and> task_Error (ReplicatePiece s) \<noteq> None")
    case True
    then obtain s where "r = Some s" "task_Error (ReplicatePiece s) \<noteq> None" by blast
    with ok_failed_replicate [OF m, of env s] show ?thesis
      by (auto simp: HandleReplicatePieceTask_def Let_def split: prod.splits reply.splits)
  next
    case False
    show ?thesis
    proof (cases r)
      case (Some s)
      obtain b m2 where 2: "TaskUploading (mvNow env) (ReplicatePiece s) (snd (PopByKey (mvNow env) replicateQueue (Key (ReplicatePiece s)) m)) = (b, m2)" by force
      then have m2: "mgr_ok m2" using ok_op(4) ok_snd(2) [OF m] by blast
      have p: "mgr_ok m3" if "Push (mvNow env) sealQueue t m2 = (e, m3)" "task_home t = Some sealQueue" for t e m3 using ok_op(3) [OF that(1) m2 that(2)] .
      obtain s1 where s1: "AppendLog (mvStamp env) (''manager-handle-succeed-replicate-task-retry:'' @ show_int (GetRetry (ReplicatePiece s))) (ReplicatePiece s) = ReplicatePiece s1"
        by (simp add: AppendLog_def)
      from Some False 2 m2 show ?thesis
        by (auto simp: HandleReplicatePieceTask_def Let_def s1 simp del: append_Cons Key.simps dest!: p split: prod.splits option.splits)
    qed (simp add: HandleReplicatePieceTask_def m)
  qed
qed

text \<open>A task a queue gives back has the constructor of the queue.\<close>

lemma home_cases:
  "task_home t = Some sealQueue \<Longrightarrow> \<exists>h. t = SealObject h" "task_home t = Some receiveQueue \<Longrightarrow> \<exists>g. t = ReceivePiece g"
  "task_home t = Some recoveryQueue \<Longrightarrow> \<exists>r. t = RecoverPiece r" "task_home t = Some gcObjectQueue \<Longrightarrow> \<exists>o'. t = GCObject o'"
  "task_home t = Some replicateQueue \<Longrightarrow> \<exists>p. t = ReplicatePiece p"
  by (cases t; simp)+

lemma ok_failed_seal: "mgr_ok m \<Longrightarrow> mgr_ok (snd (handleFailedSealObjectTask env s m)) \<and> fst (handleFailedSealObjectTask env s m) \<noteq> Crashed"
proof -
  assume m: "mgr_ok m"
  obtain old m1 where 1: "PopByKey (mvNow env) sealQueue (Key (SealObject s)) m = (old, m1)" by force
  obtain b m2 where 2: "TaskUploading (mvNow env) (SealObject s) m1 = (b, m2)" by force
  have m2: "mgr_ok m2" using ok_op(2) [OF 1 m] ok_op(4) [OF 2] by blast
  have p: "mgr_ok (snd (Push (mvNow env) sealQueue t m2))" if "task_home t = Some sealQueue" for t using ok_snd(3) [OF m2 that] .
  have h: "\<exists>h. t = SealObject h" if "old = Some t" for t using PopByKey_ok [OF m] 1 that home_cases(1) by blast
  show ?thesis
    using h m2 by (cases old) (auto simp: handleFailedSealObjectTask_def 1 2 Let_def simp del: append_Cons Key.simps intro!: p split: if_splits)
qed

lemma ok_report_seal [ok_step]: "mgr_ok m \<Longrightarrow> mgr_ok (snd (HandleSealObjectTask env s m))"
  and no_crash_seal: "mgr_ok m \<Longrightarrow> fst (HandleSealObjectTask env s m) \<noteq> Crashed"
proof -
  assume m: "mgr_ok m"
  have f: "mgr_ok m1 \<and> r \<noteq> Crashed" if "handleFailedSealObjectTask env x m = (r, m1)" for x r m1 using ok_failed_seal [OF m, of env x] that by simp
  show "mgr_ok (snd (HandleSealObjectTask env s m))" "fst (HandleSealObjectTask env s m) \<noteq> Crashed"
    using m by (auto simp: HandleSealObjectTask_def dest: f split: option.splits prod.splits reply.splits)
qed

lemma ok_failed_receive: "mgr_ok m \<Longrightarrow> mgr_ok (snd (handleFailedReceivePieceTask env r m)) \<and> fst (handleFailedReceivePieceTask env r m) \<noteq> Crashed"
proof -
  assume m: "mgr_ok m"
  obtain old m1 where 1: "PopByKey (mvNow env) receiveQueue (Key (ReceivePiece r)) m = (old, m1)" by force
  note m1 = ok_op(2) [OF 1 m]
  have h: "\<exists>h. t = ReceivePiece h" if "old = Some t" for t using PopByKey_ok [OF m] 1 that home_cases(2) by blast
  show ?thesis using h m1 by (cases old) (auto simp: handleFailedReceivePieceTask_def 1 simp del: Key.simps intro!: ok_snd split: if_splits)
qed

lemma ok_report_receive [ok_step]: "mgr_ok m \<Longrightarrow> mgr_ok (snd (HandleReceivePieceTask env r m))"
  and no_crash_receive: "mgr_ok m \<Longrightarrow> fst (HandleReceivePieceTask env r m) \<noteq> Crashed"
proof -
  assume m: "mgr_ok m"
  have f: "mgr_ok m1 \<and> x \<noteq> Crashed" if "handleFailedReceivePieceTask env r m = (x, m1)" for x m1 using ok_failed_receive [OF m, of env r] that by simp
  show "mgr_ok (snd (HandleReceivePieceTask env r m))" "fst (HandleReceivePieceTask env r m) \<noteq> Crashed"
    using m by (auto simp: HandleReceivePieceTask_def dest: f split: prod.splits reply.splits)
qed

lemma ok_failed_recover: "mgr_ok m \<Longrightarrow> mgr_ok (snd (handleFailedRecoverPieceTask env r m)) \<and> fst (handleFailedRecoverPieceTask env r m) \<noteq> Crashed"
proof -
  assume m: "mgr_ok m"
  obtain old m1 where 1: "PopByKey (mvNow env) recoveryQueue (Key (RecoverPiece r)) m = (old, m1)" by force
  note m1 = ok_op(2) [OF 1 m]
  have h: "\<exists>h. t = RecoverPiece h" if "old = Some t" for t using PopByKey_ok [OF m] 1 that home_cases(3) by blast
  show ?thesis using h m1
    by (cases old) (auto simp: handleFailedRecoverPieceTask_def 1 Let_def simp del: Key.simps intro!: ok_snd split: prod.splits option.splits if_splits)
qed

lemma ok_report_recover [ok_step]: "mgr_ok m \<Longrightarrow> mgr_ok (snd (HandleRecoverPieceTask env r m))"
  and no_crash_recover: "mgr_ok m \<Longrightarrow> fst (HandleRecoverPieceTask env r m) \<noteq> Crashed"
proof -
  assume m: "mgr_ok m"
  define m1 where "m1 t = (if re_Recovered t then forget_recovery (Key (RecoverPiece t)) (snd (PopByKey (mvNow env) recoveryQueue (Key (RecoverPiece t)) m)) else m)" for t
  have m1: "mgr_ok (m1 t)" for t using m by (auto simp: m1_def intro!: ok_snd)
  note f = ok_failed_recover [OF m1]
  have t: "mgr_ok m2" if "TaskRecovering (mvNow env) u (m1 t) = (b, m2)" for u t b m2 using ok_op(1) [OF that [unfolded TaskRecovering_def] m1] .
  have p: "mgr_ok m3" if "Push (mvNow env) recoveryQueue u m2 = (e, m3)" "mgr_ok m2" "task_home u = Some recoveryQueue" for u m2 e m3 using ok_op(3) [OF that] .
  show "mgr_ok (snd (HandleRecoverPieceTask env r m))" "fst (HandleRecoverPieceTask env r m) \<noteq> Crashed"
    unfolding HandleRecoverPieceTask_def Let_def m1_def [symmetric]
    using m m1 f by (auto simp del: Key.simps dest!: t p split: option.splits prod.splits)
qed

lemma ok_report_gc_object [ok_step]: "mgr_ok m \<Longrightarrow> mgr_ok (snd (HandleGCObjectTask env g m))"
  and no_crash_gc_object: "mgr_ok m \<Longrightarrow> fst (HandleGCObjectTask env g m) \<noteq> Crashed"
proof -
  assume m: "mgr_ok m"
  have "mgr_ok (snd (HandleGCObjectTask env (Some x) m)) \<and> fst (HandleGCObjectTask env (Some x) m) \<noteq> Crashed" for x
  proof -
    obtain b m1 where 1: "Has (mvNow env) gcObjectQueue (Key (GCObject x)) m = (b, m1)" by force
    obtain old m2 where 2: "PopByKey (mvNow env) gcObjectQueue (Key (GCObject x)) m1 = (old, m2)" by force
    note m1 = ok_op(1) [OF 1 m] and m2 = ok_op(2) [OF 2 ok_op(1) [OF 1 m]]
    have h: "\<exists>h. t = GCObject h" if "old = Some t" for t using PopByKey_ok [OF m1] 2 that home_cases(4) by blast
    show ?thesis using h m1 m2
      by (cases old) (auto simp: HandleGCObjectTask_def 1 2 Let_def GetGCObjectProgress_def simp del: Key.simps intro!: ok_snd split: if_splits)
  qed
  then show "mgr_ok (snd (HandleGCObjectTask env g m))" "fst (HandleGCObjectTask env g m) \<noteq> Crashed"
    using m by (cases g; simp add: HandleGCObjectTask_def)+
qed

lemma ok_gc_report:
  assumes "mgr_ok m" "\<And>t. t \<in> set_option task \<Longrightarrow> task_home (mark (SetUpdateTime (mvNow env) t)) = Some i"
  shows "mgr_ok (snd (gc_report env i mark task m))"
proof (cases task)
  case (Some t)
  obtain b m1 where 1: "Has (mvNow env) i (Key t) m = (b, m1)" by force
  obtain old m2 where 2: "PopByKey (mvNow env) i (Key t) m1 = (old, m2)" by force
  note m1 = ok_op(1) [OF 1 assms(1)] and m2 = ok_op(2) [OF 2 ok_op(1) [OF 1 assms(1)]]
  show ?thesis using m1 m2 assms(2) [of t] Some
    by (cases old) (auto simp: gc_report_def 1 2 Let_def intro!: ok_snd)
qed (simp add: gc_report_def assms)

lemma ok_reports_gc [ok_step]:
  "mgr_ok m \<Longrightarrow> mgr_ok (snd (HandleGCZombiePieceTask env z m))"
  "mgr_ok m \<Longrightarrow> mgr_ok (snd (HandleGCStaleVersionObjectTask env s m))"
  "mgr_ok m \<Longrightarrow> mgr_ok (snd (HandleGCMetaTask env g m))"
  unfolding HandleGCZombiePieceTask_def HandleGCStaleVersionObjectTask_def HandleGCMetaTask_def
  by (rule ok_gc_report; auto)+

lemma ok_bucket_migration [ok_step]:
  assumes m: "mgr_ok m"
  shows "mgr_ok (snd (HandleCreateGCBucketMigrationTask env b m))"
proof (cases b)
  case (Some x)
  obtain p m1 where 1: "Has (mvNow env) gcBucketMigrationQueue (Key (GCBucketMigration x)) m = (p, m1)" by force
  obtain e m2 where 2: "Push (mvNow env) gcBucketMigrationQueue (GCBucketMigration x) m1 = (e, m2)" by force
  have "mgr_ok m1" "mgr_ok m2" using ok_op(1) [OF 1 m] ok_op(3) [OF 2 ok_op(1) [OF 1 m]] by simp_all
  then show ?thesis by (cases e) (simp_all add: HandleCreateGCBucketMigrationTask_def Some Let_def 1 2 del: Key.simps)
qed (simp add: HandleCreateGCBucketMigrationTask_def m)

lemma ok_others [ok_step]:
  "mgr_ok m \<Longrightarrow> mgr_ok (snd (mgr_HandleDownloadObjectTask env d m))"
  "mgr_ok m \<Longrightarrow> mgr_ok (snd (mgr_HandleChallengePieceTask env c m))"
  "mgr_ok m \<Longrightarrow> mgr_ok (snd (migrateGVGQueuePush now (MigrateGVG g) m))"
  "mgr_ok m \<Longrightarrow> mgr_ok (migrateGVGQueuePopByKey now k m)"
  "mgr_ok m \<Longrightarrow> mgr_ok (snd (migrateGVGQueuePopByLimitAndPushAgain now g push m))"
  by (simp_all add: mgr_HandleDownloadObjectTask_def mgr_HandleChallengePieceTask_def migrateGVGQueuePush_def
      migrateGVGQueuePopByKey_def migrateGVGQueuePopByLimitAndPushAgain_def Let_def ok_snd del: Key.simps)

lemma ok_pick_family [ok_step]: "mgr_ok m \<Longrightarrow> mgr_ok (snd (mgr_PickVirtualGroupFamily env m))"
  by (auto simp: mgr_PickVirtualGroupFamily_def dest: ok_pick split: prod.splits reply.splits option.splits)

subsubsection \<open>Dispatch\<close>

lemma ok_repush: "mgr_ok m \<Longrightarrow> mgr_ok (repushTask now t m)"
  by (auto simp: repushTask_def intro!: ok_snd repush_home split: option.splits)

lemma ok_repushes: "mgr_ok m \<Longrightarrow> mgr_ok (fold (repushTask now) ts m)"
  by (induction ts arbitrary: m) (simp_all add: ok_repush)

lemma PopUnlimited_ok:
  assumes "mgr_ok m" "set ord = dom (queueTasks (mQueues m i))" "PopUnlimited now i ord m = Some (t, m')"
  shows "mgr_ok m'" "\<And>u. t = Some u \<Longrightarrow> task_home u = Some i" "j \<noteq> i \<Longrightarrow> mQueues m' j = mQueues m j" "strategy_frame m m'"
proof -
  have o: "on_queue now i ord (queue_Pop ord) m = (t, m')" using assms(3) by (auto simp: PopUnlimited_def Let_def split: if_splits)
  define q where "q = reset_visited now i ord (queue_at now i (mQueues m i))"
  obtain q1 where q1: "queue_Pop ord q = (t, q1)" "mQueues m' = (mQueues m)(i := q1)" "strategy_frame m m'"
    using on_queue_eq [OF o] unfolding q_def by blast
  have h: "homed m" "minv m" using assms(1) by (simp_all add: mgr_ok_def)
  have q: "task_home u = Some i" if "queueTasks q k = Some u" for k u
    using reset_tasks [of now i ord "queue_at now i (mQueues m i)" k u] that homedD [OF h(1)] by (auto simp: q_def)
  have "queue_inv q1"
    using Pop_inv [of q ord] q1(1) reset_inv [of "queue_at now i (mQueues m i)"] minvD [OF h(2)] assms(2) by (simp add: q_def)
  then have "minv m'" using h(2) q1(2) by (simp add: minv_def)
  moreover have "homed m'"
    using on_queue_homed [OF h(1) o] Pop_tasks(1) by metis
  ultimately show "mgr_ok m'" using assms(1) frame_chan [OF q1(3)] by (simp add: mgr_ok_def)
  show "strategy_frame m m'" by fact
  show "j \<noteq> i \<Longrightarrow> mQueues m' j = mQueues m j" using q1(2) by simp
  show "task_home u = Some i" if "t = Some u" for u
    using Pop_tasks(2) [of ord q u] q1(1) that q by auto
qed

lemma backup_pops_ok:
  assumes "mgr_ok m" "\<forall>i \<in> set is. set (mvOrders env i) = dom (queueTasks (mQueues m i))" "distinct is" "backup_pops env is m = Some (ts, m')"
  shows "mgr_ok m' \<and> (\<forall>t \<in> set ts. \<exists>i \<in> set is. task_home t = Some i) \<and> strategy_frame m m'"
  using assms
proof (induction env "is" m arbitrary: ts m' rule: backup_pops.induct)
  case (2 env i "is" m)
  then obtain t m1 ts1 where 1: "PopUnlimited (mvNow env) i (mvOrders env i) m = Some (t, m1)" "backup_pops env is m1 = Some (ts1, m')"
    "ts = (case t of None \<Rightarrow> ts1 | Some t \<Rightarrow> t # ts1)" by (auto split: option.splits)
  note p = PopUnlimited_ok [OF "2.prems"(1) _ 1(1)]
  have o: "set (mvOrders env i) = dom (queueTasks (mQueues m i))" using "2.prems"(2) by simp
  have "mQueues m1 j = mQueues m j" if "j \<in> set is" for j using p(3) [OF o] that "2.prems"(3) by (metis distinct.simps(2))
  then have "\<forall>j \<in> set is. set (mvOrders env j) = dom (queueTasks (mQueues m1 j))" "distinct is" using "2.prems"(2,3) by simp_all
  then have "mgr_ok m' \<and> (\<forall>t \<in> set ts1. \<exists>i \<in> set is. task_home t = Some i) \<and> strategy_frame m1 m'"
    using "2.IH" [OF 1(1) refl p(1) [OF o]] 1(2) by blast
  then show ?case using 1(3) p(2) [OF o] frame_trans [OF p(4) [OF o]] by (auto split: option.splits)
qed simp

lemma home_dispatchable: "task_home t = Some i \<Longrightarrow> i \<in> set backup_order \<Longrightarrow> dispatchable t"
  by (cases t) (auto simp: backup_order_def dispatchable_def)

lemma pick_loop_set: "pick_loop stamp r acc b ts = (x, rest) \<Longrightarrow>
   set rest \<subseteq> set b \<union> set ts \<and> (\<forall>t. x = Some t \<longrightarrow> (\<exists>u \<in> set ts. t = AppendLog stamp ''pickup-to-backup-task-pool'' u))"
proof (induction ts arbitrary: acc b)
  case (Cons t ts)
  show ?case
  proof (cases "acc + GetPriority t \<ge> r")
    case True with Cons.prems show ?thesis by (auto simp: Let_def)
  next
    case False with Cons.prems Cons.IH [of "acc + GetPriority t" "b @ [t]"] show ?thesis by (auto simp: Let_def)
  qed
qed simp

lemma PickUpTask_set: "PickUpTask env ts = (x, rest) \<Longrightarrow>
   set rest \<subseteq> set ts \<and> (\<forall>t. x = Some t \<longrightarrow> (\<exists>u \<in> set ts. t = u \<or> t = AppendLog (mvStamp env) ''pickup-to-backup-task-pool'' u))"
  by (auto simp: PickUpTask_def Let_def set_insort_key split: list.splits if_splits dest!: pick_loop_set)

lemma ok_backup:
  assumes "mgr_ok m" "pendingBackup m = None" "orders_ok env m" "backUpTask env m = Some m'"
  shows "mgr_ok m'"
proof -
  obtain ts m1 where 1: "backup_pops env backup_order m = Some (ts, m1)" using assms(4) by (auto simp: backUpTask_def split: option.splits)
  have d: "distinct backup_order" by (simp add: backup_order_def)
  from backup_pops_ok [OF assms(1) _ d 1] assms(3)
  have m1: "mgr_ok m1" "\<forall>t \<in> set ts. dispatchable t" "strategy_frame m m1" by (auto simp: orders_ok_def intro: home_dispatchable)
  obtain x rest where p: "PickUpTask env ts = (x, rest)" by force
  from PickUpTask_set [OF p] m1(2) have "\<forall>t \<in> set rest. dispatchable t" "\<forall>t. x = Some t \<longrightarrow> dispatchable t" by auto
  moreover have "mgr_ok (m1\<lparr>backupTaskNum := n, pendingBackup := Some (u, rest)\<rparr>)" if "dispatchable u" "\<forall>t \<in> set rest. dispatchable t" for n u
    using m1(1) that by (auto simp: mgr_ok_def minv_def homed_def chan_ok_def)
  ultimately show ?thesis using ok_repushes [OF m1(1)] assms(4) by (cases x) (auto simp: backUpTask_def 1 p backup_logs_def)
qed

lemma ok_send [ok_step]: "mgr_ok m \<Longrightarrow> mgr_ok (backup_send env m)"
proof -
  assume m: "mgr_ok m"
  have "mgr_ok (m\<lparr>taskCh := taskCh m @ [t], pendingBackup := None\<rparr>)" if "pendingBackup m = Some (t, r)" for t r
    using m that by (auto simp: mgr_ok_def minv_def homed_def chan_ok_def)
  with m show ?thesis by (auto simp: backup_send_def intro!: ok_repushes split: option.splits)
qed

lemma ok_dispatch [ok_step]: "mgr_ok m \<Longrightarrow> mgr_ok (snd (DispatchTask env limit m))"
proof -
  assume m: "mgr_ok m"
  have "mgr_ok (m\<lparr>taskCh := ch, backupTaskNum := n\<rparr>)" "dispatchable t" if "taskCh m = t # ch" for t ch n
    using m that by (auto simp: mgr_ok_def minv_def homed_def chan_ok_def)
  with m show ?thesis by (auto simp: DispatchTask_def Let_def intro!: ok_repush split: list.splits option.splits)
qed

subsubsection \<open>Goroutines, ticks and loading\<close>

lemma ok_job:
  assumes "mgr_ok m" "\<And>t. j = ResendJob t \<Longrightarrow> dispatchable t" "runnable j m" "orders_ok env m" "run_job env j m = Some m'"
  shows "mgr_ok m'"
proof (cases j)
  case (ReplicateSealedJob r)
  with assms show ?thesis by (auto simp: run_sealed_def Let_def intro!: ok_snd split: sum.splits)
next
  case (SealDoneJob s)
  have "mgr_ok (put_event env t (snd (PopByKey (mvNow env) sealQueue k m)))" for t k using ok_snd(2) [OF assms(1)] by simp
  with SealDoneJob assms show ?thesis by (auto simp: run_seal_done_def Let_def split: prod.splits option.splits)
next
  case (ReceivePushJob r)
  with assms show ?thesis by (auto simp: run_receive_push_def Let_def dest: ok_op split: option.splits prod.splits)
next
  case BackupJob
  with assms show ?thesis by (auto intro: ok_backup)
next
  case (ResendJob t)
  then show ?thesis using assms by (auto simp: mgr_ok_def minv_def homed_def chan_ok_def)
qed (use assms in \<open>auto simp: Let_def intro!: ok_snd\<close>)

lemma ok_run:
  assumes "mgr_ok m" "enabled env (RunJob n) m" "run_job env (jobs m ! n) (take_job n m) = Some m'"
  shows "mgr_ok m'"
proof -
  have s: "set (take n (jobs m) @ drop (Suc n) (jobs m)) \<subseteq> set (jobs m)" by (auto dest: in_set_takeD in_set_dropD)
  have t: "mgr_ok (take_job n m)" using assms(1) s by (auto simp: take_job_def mgr_ok_def minv_def homed_def chan_ok_def)
  have r: "runnable (jobs m ! n) (take_job n m)" using assms(2) by (cases "jobs m ! n") (auto simp: take_job_def)
  have d: "dispatchable t" if "jobs m ! n = ResendJob t" for t
    using assms(1,2) that nth_mem [of n "jobs m"] by (auto simp: mgr_ok_def chan_ok_def)
  have "orders_ok env (take_job n m)" using assms(2) by (simp add: orders_ok_def take_job_def)
  then show ?thesis using ok_job [OF t d r _ assms(3)] by blast
qed

lemma ok_ticks [ok_step]:
  assumes m: "mgr_ok m"
  shows "mgr_ok (gc_object_tick env m)" "mgr_ok (gc_zombie_tick env m)" "mgr_ok (gc_meta_tick env m)"
proof -
  have p: "mgr_ok m1" if "Push (mvNow env) gcObjectQueue (GCObject g) m = (e, m1)" for g e m1 using ok_op(3) [OF that m] by simp
  have z: "mgr_ok m1" if "Push (mvNow env) gcZombieQueue (GCZombiePiece g) m = (e, m1)" for g e m1 using ok_op(3) [OF that m] by simp
  show "mgr_ok (gc_object_tick env m)" unfolding gc_object_tick_def Let_def
    using m by (auto simp del: Key.simps dest: p split: option.splits prod.splits)
  show "mgr_ok (gc_zombie_tick env m)" unfolding gc_zombie_tick_def Let_def
    using m by (auto dest: z split: option.splits prod.splits)
  show "mgr_ok (gc_meta_tick env m)" using m ok_snd(3) [OF m] by (simp add: gc_meta_tick_def)
qed

lemma ok_stale [ok_step]: "mgr_ok m \<Longrightarrow> mgr_ok (gcObjectStaleVersionPiece env m)"
proof -
  have "mgr_ok m \<Longrightarrow> mgr_ok (fold (\<lambda>s m. snd (Push (mvNow env) gcStaleVersionObjectQueue (GCStaleVersionObject (new_stale env s)) m)) metas m)" for metas m
    by (induction metas arbitrary: m) (simp_all add: ok_snd)
  then show "mgr_ok m \<Longrightarrow> ?thesis" by (auto simp: gcObjectStaleVersionPiece_def split: sum.splits)
qed

lemma ok_go_on:
  "mgr_ok (snd x) \<Longrightarrow> (\<And>m1. mgr_ok m1 \<Longrightarrow> mgr_ok (snd (f m1))) \<Longrightarrow> mgr_ok (snd (case x of (Done_ok True, m1) \<Rightarrow> f m1 | (e, m1) \<Rightarrow> (e, m1)))"
  by (cases x) (auto split: reply.splits bool.splits)

lemma ok_load_each: "(\<And>n r m. mgr_ok m \<Longrightarrow> mgr_ok (snd (f n r m))) \<Longrightarrow> mgr_ok m \<Longrightarrow> mgr_ok (snd (load_each f n rs m))"
  by (induction rs arbitrary: n m) (simp_all add: ok_go_on)

lemma ok_load_row:
  assumes m: "mgr_ok m"
  shows "mgr_ok (snd (load_replicate env meta m))" "mgr_ok (snd (load_seal env meta m))" "mgr_ok (snd (load_gc env g m))"
proof -
  have p: "mgr_ok m1" if "Push (mvNow env) gcObjectQueue (GCObject g) m = (e, m1)" for g e m1 using ok_op(3) [OF that m] by simp
  have q: "mgr_ok m1" if "pickGlobalVirtualGroup env vgf p m = (r, m1)" for vgf p r m1 using ok_pick_gvg [OF that] m by simp
  have r: "mgr_ok (snd (Push (mvNow env) replicateQueue (ReplicatePiece x) (m1\<lparr>mDB := d\<rparr>)))" if "mgr_ok m1" for x m1 d using that ok_snd(3) by simp
  show "mgr_ok (snd (load_replicate env meta m))" unfolding load_replicate_def Let_def
    using m by (auto dest: q intro!: r split: sum.splits option.splits prod.splits reply.splits)
  show "mgr_ok (snd (load_seal env meta m))" unfolding load_seal_def Let_def
    using m ok_snd(3) [OF m] by (auto split: sum.splits option.splits prod.splits)
  show "mgr_ok (snd (load_gc env g m))" unfolding load_gc_def Let_def
    by (auto dest: p split: option.splits prod.splits)
qed

lemma ok_load [ok_step]:
  assumes m: "mgr_ok m"
  shows "mgr_ok (snd (LoadTaskFromDB env envs e nR nS nG aR aS m))"
proof -
  have l: "mgr_ok (snd (load_each (\<lambda>n. load_replicate (envs n)) k rs x))" "mgr_ok (snd (load_each (\<lambda>n. load_seal (envs n)) k rs x))"
    "mgr_ok (snd (load_each (\<lambda>n. load_gc (envs n)) k gs x))" if "mgr_ok x" for k rs gs x
    using that by (simp_all add: ok_load_each ok_load_row)
  show ?thesis unfolding LoadTaskFromDB_def
    using m by (auto intro!: ok_go_on l split: sum.splits)
qed

lemma mgr_exec_ok:
  assumes "mgr_ok m" "enabled env ev m" "mgr_exec env ev m = Some m'"
  shows "mgr_ok m'"
proof (cases ev)
  case BackupTick
  with assms ok_backup [of m env m'] show ?thesis by simp
next
  case (RunJob n)
  with assms ok_run show ?thesis by (metis mgr_exec.simps(23))
qed (use assms in \<open>auto simp: ok_step\<close>)

lemma mgr_init_ok: "mgr_init m \<Longrightarrow> mgr_ok m"
proof -
  assume i: "mgr_init m"
  have "queue_inv (mQueues m j) \<and> queueTasks (mQueues m j) = Map.empty" for j
  proof -
    obtain name capacity where "mQueues m j = NewGfSpTQueue name capacity" using i unfolding mgr_init_def by blast
    then show ?thesis by (simp add: NewGfSpTQueue_def queue_inv_def queue_Len_def)
  qed
  with i show ?thesis by (auto simp: mgr_init_def mgr_ok_def minv_def homed_def chan_ok_def)
qed

lemma mgr_reachable_ok: "mgr_reachable m \<Longrightarrow> mgr_ok m"
  by (induction rule: mgr_reachable.induct) (auto intro: mgr_init_ok mgr_exec_ok)

end
