(* ===== verification/SP_ManagerDispatch.thy ===== *)
theory SP_ManagerDispatch
  imports SP_ManagerSteps "HOL-Library.Multiset"
begin

text \<open>
  One round of dispatch: every queue of the round gives up at most one task, one of them goes to the
  channel, and the others find their places in their queues again.
\<close>

subsection \<open>Keys and places of a queue\<close>

definition keys_at :: "int \<Rightarrow> qid \<Rightarrow> ManageModular \<Rightarrow> string set" where
  "keys_at now i m = dom (lv now i m)"

definition has_place :: "int \<Rightarrow> qid \<Rightarrow> ManageModular \<Rightarrow> bool" where
  "has_place now i m \<longleftrightarrow> int (card (keys_at now i m)) < queueCap (mQueues m i)"

lemma keys_queues: "mQueues m' i = mQueues m i \<Longrightarrow> keys_at now i m' = keys_at now i m"
  by (simp add: keys_at_def lv_def)

lemma place_queues: "mQueues m' i = mQueues m i \<Longrightarrow> has_place now i m' = has_place now i m"
  by (simp add: has_place_def keys_at_def lv_def)

lemma reset_priority [simp]: "GetPriority (ResetGCObjectTask now t) = GetPriority t"
  by (cases t) (simp_all add: ResetGCObjectTask_def GetPriority_def base_GetPriority_def setter_task_defs)

lemma resetting_retires: "resetting i \<Longrightarrow> \<not> retires now i t"
  by (cases i) simp_all

lemma retired_reset [simp]: "retired (reset_visited now i ks (queue_at now i q)) = retires now i"
  by (simp add: retired_def reset_visited_def fun_eq_iff)

lemma reset_live:
  "live (reset_visited now i ks (queue_at now i q)) k =
     (if resetting i \<and> k \<in> set ks then map_option (ResetGCObjectTask now) (live (queue_at now i q) k) else live (queue_at now i q) k)"
  by (auto simp: live_def resetting_retires reset_visited_def retired_def split: option.splits if_splits)

lemma reset_keys: "dom (live (reset_visited now i ks (queue_at now i q))) = dom (live (queue_at now i q))"
  by (auto simp: reset_live dom_def split: if_splits)

lemma finite_keys: "mgr_ok m \<Longrightarrow> finite (keys_at now i m)"
proof -
  assume "mgr_ok m"
  then have "finite (dom (queueTasks (mQueues m i)))" using queue_invD(2) minvD unfolding mgr_ok_def by blast
  moreover have "keys_at now i m \<subseteq> dom (queueTasks (mQueues m i))" by (auto simp: keys_at_def lv_eq split: option.splits)
  ultimately show ?thesis using finite_subset by blast
qed

lemma gcFunc_reset: "gcFunc (reset_visited now i ks (queue_at now i q)) = Some (retires now i)"
  by (simp add: reset_visited_def)

text \<open>What an operation of the queue leaves, seen from the manager.\<close>

lemma on_queue_keys:
  assumes "on_queue now i ks f m = (r, m')" and "\<And>q. gcFunc (snd (f q)) = gcFunc q"
    and "\<And>q. queueCap (snd (f q)) = queueCap q"
  defines "q \<equiv> reset_visited now i ks (queue_at now i (mQueues m i))"
  shows "fst (f q) = r" "keys_at now i m' = dom (live (snd (f q)))" "queueCap (mQueues m' j) = queueCap (mQueues m j)"
proof -
  obtain q1 where q1: "f q = (r, q1)" "mQueues m' = (mQueues m)(i := q1)" using on_queue_eq [OF assms(1)] unfolding q_def by blast
  show "fst (f q) = r" using q1(1) by simp
  have "gcFunc q1 = Some (retires now i)" "queueCap q1 = queueCap (mQueues m i)"
    using assms(2,3) [of q] q1(1) by (simp_all add: q_def gcFunc_reset)
  then show "keys_at now i m' = dom (live (snd (f q)))" "queueCap (mQueues m' j) = queueCap (mQueues m j)"
    using live_at_again [of q1 now i] q1 by (simp_all add: keys_at_def lv_def)
qed

lemma gcFunc_top: "gcFunc (snd (top_by ok ord q)) = gcFunc q"
proof -
  have "gcFunc (remove_all ts q) = gcFunc q" for ts q by (induction ts q rule: remove_all.induct) simp_all
  then show ?thesis by (auto simp: top_by_def Let_def)
qed

lemma gcFunc_Pop: "gcFunc (snd (queue_Pop ord q)) = gcFunc q"
  using gcFunc_top [of "admitted q" ord q] by (auto simp: queue_Pop_def queue_top_def gcFunc_ops split: prod.splits option.splits)

subsection \<open>A pop and a push of the manager\<close>

lemma PopUnlimited_keys:
  assumes "mgr_ok m" "set ord = dom (queueTasks (mQueues m i))" "PopUnlimited now i ord m = Some (t, m')"
  shows "t = None \<Longrightarrow> keys_at now i m' = keys_at now i m"
    "t = Some u \<Longrightarrow> Key u \<in> keys_at now i m \<and> keys_at now i m' = keys_at now i m - {Key u} \<and> \<not> retires now i u
       \<and> has_place now i m' \<and> (\<exists>v. lv now i m (Key u) = Some v \<and> GetPriority u = GetPriority v)"
    "queueCap (mQueues m' j) = queueCap (mQueues m j)"
proof -
  have o: "on_queue now i ord (queue_Pop ord) m = (t, m')" using assms(3) by (auto simp: PopUnlimited_def Let_def split: if_splits)
  define q where "q = reset_visited now i ord (queue_at now i (mQueues m i))"
  note k = on_queue_keys [OF o gcFunc_Pop queueCap_Pop, folded q_def]
  have i: "queue_inv (mQueues m i)" using assms(1) by (simp add: mgr_ok_def minvD)
  then have q: "queue_inv q" "set ord = dom (queueTasks q)" using reset_inv assms(2) by (simp_all add: q_def)
  have d: "dom (live q) = keys_at now i m" by (simp add: q_def reset_keys keys_at_def lv_def)
  show "queueCap (mQueues m' j) = queueCap (mQueues m j)" by (rule k)
  obtain r q1 where t: "top_by (admitted q) ord q = (r, q1)" by force
  note l = top_by_inv(2) [OF q, of "admitted q", unfolded t snd_conv]
  have r: "t = r" "keys_at now i m' = dom (live (case r of None \<Rightarrow> q1 | Some u \<Rightarrow> queue_delete u q1))"
    using k(1,2) by (auto simp: queue_Pop_def queue_top_def t split: option.splits)
  show "keys_at now i m' = keys_at now i m" if "t = None" using that r l d by simp
  assume u: "t = Some u"
  then have p: "u \<in> cands (admitted q) q" "live (queue_delete u q1) = (live q)(Key u := None)" using pop_by_spec(1,3) [OF q, of "admitted q" u q1] t r by auto
  have c: "live q (Key u) = Some u" using cands_key [OF q(1) p(1)] .
  have n: "\<not> retires now i u" using c by (auto simp: live_def q_def split: option.splits if_splits)
  have m': "keys_at now i m' = keys_at now i m - {Key u}" using u r p(2) d by auto
  have in_m: "Key u \<in> keys_at now i m" using c d by auto
  have "int (card (keys_at now i m)) \<le> queue_Len (queue_at now i (mQueues m i))"
    using card_live [of "queue_at now i (mQueues m i)"] i by (simp add: keys_at_def lv_def)
  moreover have "0 < card (keys_at now i m)" using in_m finite_keys [OF assms(1)] card_gt_0_iff by blast
  ultimately have "has_place now i m'"
    using m' in_m finite_keys [OF assms(1), of now i] queue_invD(3) [OF i] k(3) [of i] by (simp add: has_place_def)
  moreover have "\<exists>v. lv now i m (Key u) = Some v \<and> GetPriority u = GetPriority v"
    using c by (auto simp: q_def reset_live lv_def split: if_splits)
  ultimately show "Key u \<in> keys_at now i m \<and> keys_at now i m' = keys_at now i m - {Key u} \<and> \<not> retires now i u
       \<and> has_place now i m' \<and> (\<exists>v. lv now i m (Key u) = Some v \<and> GetPriority u = GetPriority v)" using in_m m' n by blast
qed

lemma Push_keys:
  assumes "mgr_ok m" "has_place now i m" "Key t \<notin> keys_at now i m" "\<not> retires now i t" "Push now i t m = (e, m')"
  shows "e = None \<and> keys_at now i m' = insert (Key t) (keys_at now i m)"
proof -
  define q where "q = reset_visited now i (push_visits now i t (queue_at now i (mQueues m i))) (queue_at now i (mQueues m i))"
  note k = on_queue_keys [OF assms(5) [unfolded Push_def] gcFunc_Push queueCap_Push, folded q_def]
  have q: "queue_inv q" using assms(1) reset_inv by (simp add: mgr_ok_def minvD q_def)
  have d: "dom (live q) = keys_at now i m" by (simp add: q_def reset_keys keys_at_def lv_def)
  have "e = None" using Push_result [OF q, of t] k(1) d assms(2,3) by (simp add: has_place_def q_def)
  moreover from this have "queue_Push t q = (None, snd (queue_Push t q))" using k(1) by (metis prod.collapse)
  from Push_ok [OF q this] have "dom (live (snd (queue_Push t q))) = insert (Key t) (dom (live q))" using assms(4) by (simp add: q_def)
  ultimately show ?thesis using k(2) d by simp
qed

subsection \<open>The pops of a round and the way back\<close>

text \<open>The keys a list of tasks takes from a queue.\<close>

definition taken :: "qid \<Rightarrow> Task list \<Rightarrow> string set" where
  "taken i ts = {Key t | t. t \<in> set ts \<and> task_home t = Some i}"

lemma taken_simps [simp]: "taken i [] = {}" "taken i (t # ts) = (if task_home t = Some i then insert (Key t) (taken i ts) else taken i ts)"
  by (auto simp: taken_def)

text \<open>A task that was popped at home: its queue has a place for it.\<close>

definition at_home :: "int \<Rightarrow> ManageModular \<Rightarrow> Task \<Rightarrow> bool" where
  "at_home now m t \<longleftrightarrow> (\<exists>i. repush_queue t = Some i \<and> \<not> retires now i t \<and> has_place now i m \<and> Key t \<notin> keys_at now i m)"

lemma home_at: "at_home now m t \<Longrightarrow> task_home t = repush_queue t"
  using repush_home by (auto simp: at_home_def)

lemma at_home_other:
  "at_home now m t \<Longrightarrow> (\<And>i. task_home t = Some i \<Longrightarrow> mQueues m' i = mQueues m i) \<Longrightarrow> at_home now m' t"
  using repush_home unfolding at_home_def by (metis keys_queues place_queues)

lemma at_home_queues: "mQueues m' = mQueues m \<Longrightarrow> at_home now m' t = at_home now m t"
  unfolding at_home_def using keys_queues place_queues by metis

lemma backup_pops_keys:
  assumes "mgr_ok m" "\<forall>i \<in> set is. set (mvOrders env i) = dom (queueTasks (mQueues m i))" "distinct is" "set is \<subseteq> set backup_order"
    "backup_pops env is m = Some (ts, m')"
  shows "(\<forall>t \<in> set ts. at_home (mvNow env) m' t \<and> the (task_home t) \<in> set is \<and> Key t \<in> keys_at (mvNow env) (the (task_home t)) m
             \<and> (\<exists>v. lv (mvNow env) (the (task_home t)) m (Key t) = Some v \<and> GetPriority t = GetPriority v))
    \<and> distinct (map task_home ts) \<and> (\<forall>j. keys_at (mvNow env) j m' = keys_at (mvNow env) j m - taken j ts) \<and> (\<forall>j. j \<notin> set is \<longrightarrow> mQueues m' j = mQueues m j)"
  using assms
proof (induction env "is" m arbitrary: ts m' rule: backup_pops.induct)
  case (2 env i "is" m)
  then obtain t m1 ts1 where 1: "PopUnlimited (mvNow env) i (mvOrders env i) m = Some (t, m1)" "backup_pops env is m1 = Some (ts1, m')"
    "ts = (case t of None \<Rightarrow> ts1 | Some t \<Rightarrow> t # ts1)" by (auto split: option.splits)
  have o: "set (mvOrders env i) = dom (queueTasks (mQueues m i))" using "2.prems"(2) by simp
  note p = PopUnlimited_ok [OF "2.prems"(1) o 1(1)] and k = PopUnlimited_keys [OF "2.prems"(1) o 1(1)]
  have i: "i \<notin> set is" "i \<in> set backup_order" using "2.prems"(3,4) by simp_all
  have q: "mQueues m1 j = mQueues m j" if "j \<in> set is" for j using p(3) [of j] that i(1) by metis
  then have "\<forall>j \<in> set is. set (mvOrders env j) = dom (queueTasks (mQueues m1 j))" using "2.prems"(2) by simp
  note ih = "2.IH" [OF 1(1) refl p(1) this _ _ 1(2)]
  define now where "now = mvNow env"
  have k1: "keys_at now j m1 = keys_at now j m - (if j = i then (case t of None \<Rightarrow> {} | Some u \<Rightarrow> {Key u}) else {})" for j
    using k(1,2) p(3) [of j] keys_queues [of m1 j m now] by (cases "j = i"; cases t) (auto simp: now_def)
  have l1: "lv now j m1 = lv now j m" if "j \<in> set is" for j using q [OF that] by (simp add: lv_def)
  have ih1: "at_home now m' t \<and> the (task_home t) \<in> set is \<and> Key t \<in> keys_at now (the (task_home t)) m
      \<and> (\<exists>v. lv now (the (task_home t)) m (Key t) = Some v \<and> GetPriority t = GetPriority v)" if "t \<in> set ts1" for t
  proof -
    have d: "distinct is" "set is \<subseteq> set backup_order" using "2.prems"(3,4) by simp_all
    have t: "at_home now m' t \<and> the (task_home t) \<in> set is \<and> Key t \<in> keys_at now (the (task_home t)) m1
      \<and> (\<exists>v. lv now (the (task_home t)) m1 (Key t) = Some v \<and> GetPriority t = GetPriority v)"
      using conjunct1 [OF ih [OF d]] that unfolding now_def by (rule bspec)
    then show ?thesis using l1 [of "the (task_home t)"] k1 [of "the (task_home t)"] by auto
  qed
  have ih2: "distinct (map task_home ts1)" "keys_at now j m' = keys_at now j m1 - taken j ts1" "mQueues m' i = mQueues m1 i"
    "j \<notin> set is \<Longrightarrow> mQueues m' j = mQueues m1 j" for j using ih "2.prems"(3,4) unfolding now_def by auto
  show ?case
  proof (cases t)
    case None
    then show ?thesis using ih1 ih2 k1 p(3) 1(3) by (auto simp: now_def)
  next
    case (Some u)
    note u = k(2) [OF Some] p(2) [OF Some]
    have r: "repush_queue u = Some i" using home_dispatchable [OF u(2) i(2)] repush_home u(2) by (auto simp: dispatchable_def)
    have "at_home now m' u" using r u(1) k1 Some keys_queues [OF ih2(3)] place_queues [OF ih2(3)] unfolding at_home_def now_def by auto
    moreover have "Some i \<notin> task_home ` set ts1" using ih1 i(1) by (metis imageE option.sel)
    ultimately show ?thesis using ih1 ih2 k1 p(3) 1(3) u Some by (auto simp: now_def)
  qed
qed simp

lemma repushes_chan: "taskCh (fold (repushTask now) ts m) = taskCh m"
proof (induction ts arbitrary: m)
  case (Cons t ts)
  have "taskCh (repushTask now t m) = taskCh m"
    using frame_sel(1) [OF op_frame(3)] by (metis option.case_eq_if prod.collapse repushTask_def)
  with Cons show ?case by simp
qed simp

lemma repushes_keys:
  assumes "mgr_ok m" "\<forall>t \<in> set ts. at_home now m t" "distinct (map task_home ts)"
  shows "keys_at now j (fold (repushTask now) ts m) = keys_at now j m \<union> taken j ts"
  using assms
proof (induction ts arbitrary: m)
  case (Cons t ts)
  then obtain i where i: "repush_queue t = Some i" "\<not> retires now i t" "has_place now i m" "Key t \<notin> keys_at now i m" by (auto simp: at_home_def)
  have h: "task_home t = Some i" using i(1) by (rule repush_home)
  obtain e m1 where p: "Push now i t m = (e, m1)" by force
  note k = Push_keys [OF Cons.prems(1) i(3,4,2) p] and o = op_other(3) [OF p]
  have r: "repushTask now t m = m1" using i(1) p by (simp add: repushTask_def)
  have "at_home now m1 u" if "u \<in> set ts" for u
  proof (rule at_home_other)
    show "at_home now m u" using Cons.prems(2) that by simp
    show "mQueues m1 l = mQueues m l" if "task_home u = Some l" for l using that \<open>u \<in> set ts\<close> Cons.prems(3) h o by force
  qed
  then have ih: "keys_at now j (fold (repushTask now) ts m1) = keys_at now j m1 \<union> taken j ts"
    using Cons.IH ok_op(3) [OF p Cons.prems(1) h] Cons.prems(3) by simp
  have "keys_at now j m1 = (if j = i then insert (Key t) (keys_at now j m) else keys_at now j m)" using k keys_queues [OF o] by auto
  then show ?case using ih h r by auto
qed simp

subsection \<open>The choice of a task\<close>

lemma pick_loop_picks:
  assumes "\<forall>t \<in> set ts. 0 < GetPriority t" "r < acc + sum_list (map GetPriority ts)" "ts \<noteq> []"
  shows "\<exists>u rest. pick_loop stamp r acc b ts = (Some (AppendLog stamp ''pickup-to-backup-task-pool'' u), rest) \<and> add_mset u (mset rest) = mset b + mset ts"
  using assms
proof (induction ts arbitrary: acc b)
  case (Cons t ts)
  show ?case
  proof (cases "acc + GetPriority t \<ge> r")
    case True then show ?thesis by (auto simp: Let_def)
  next
    case False
    then have "ts \<noteq> []" using Cons.prems by auto
    with Cons.IH [of "acc + GetPriority t" "b @ [t]"] Cons.prems False show ?thesis by (auto simp: Let_def add.assoc)
  qed
qed simp

lemma PickUpTask_picks:
  assumes "\<forall>t \<in> set ts. 0 < GetPriority t" "\<forall>n > 0. 0 \<le> mvIntn env n \<and> mvIntn env n < n" "ts \<noteq> []"
  shows "\<exists>t u rest. PickUpTask env ts = (Some t, rest) \<and> Key t = Key u \<and> task_home t = task_home u \<and> add_mset u (mset rest) = mset ts"
proof (cases "\<exists>t. ts = [t]")
  case False
  define sorted where "sorted = sort_key GetPriority ts"
  have s: "\<forall>t \<in> set sorted. 0 < GetPriority t" "mset sorted = mset ts" using assms(1) by (simp_all add: sorted_def)
  then have ne: "sorted \<noteq> []" using assms(3) by (metis mset.simps(1) mset_zero_iff)
  then have tot: "0 < sum_list (map GetPriority sorted)" using s(1) by (cases sorted) (auto intro!: add_pos_nonneg sum_list_nonneg simp: less_imp_le)
  have "PickUpTask env ts = pick_loop (mvStamp env) (mvIntn env (sum_list (map GetPriority sorted))) 0 [] sorted"
    using tot False assms(3) by (auto simp: PickUpTask_def Let_def sorted_def split: list.splits)
  moreover note pick_loop_picks [OF s(1) _ ne, of "mvIntn env (sum_list (map GetPriority sorted))" 0 "mvStamp env" "[]"]
  ultimately show ?thesis using assms(2) tot s(2) by fastforce
qed (auto simp: PickUpTask_def)

subsection \<open>A round loses no task\<close>

lemma backup_pops_total:
  assumes "\<And>i k t. i \<in> set is \<Longrightarrow> lv (mvNow env) i m k = Some t \<Longrightarrow> EstimateLimit t \<noteq> None" "distinct is"
    "mgr_ok m" "\<forall>i \<in> set is. set (mvOrders env i) = dom (queueTasks (mQueues m i))"
  shows "\<exists>ts m'. backup_pops env is m = Some (ts, m')"
  using assms
proof (induction env "is" m rule: backup_pops.induct)
  case (2 env i "is" m)
  have "EstimateLimit t \<noteq> None" if t: "t \<in> set (tasks_in (mvOrders env i) (queue_at (mvNow env) i (mQueues m i)))" "\<not> retires (mvNow env) i t" for t
  proof -
    obtain k where "queueTasks (mQueues m i) k = Some t" using tasks_in_ran [OF t(1)] by auto
    then have "lv (mvNow env) i m k = Some t" using t(2) by (simp add: lv_eq)
    then show ?thesis using "2.prems"(1) [of i k t] by simp
  qed
  then have "PopUnlimited (mvNow env) i (mvOrders env i) m = Some (on_queue (mvNow env) i (mvOrders env i) (queue_Pop (mvOrders env i)) m)"
    unfolding PopUnlimited_def Let_def by (metis (lifting))
  then obtain t m1 where p: "PopUnlimited (mvNow env) i (mvOrders env i) m = Some (t, m1)" by (metis surj_pair)
  have o: "set (mvOrders env i) = dom (queueTasks (mQueues m i))" using "2.prems"(4) by simp
  note ok = PopUnlimited_ok [OF "2.prems"(3) o p]
  have q: "mQueues m1 j = mQueues m j" if "j \<in> set is" for j using ok(3) that "2.prems"(2) by (metis distinct.simps(2))
  have "\<exists>ts m'. backup_pops env is m1 = Some (ts, m')"
  proof (rule "2.IH" [OF p refl])
    show "EstimateLimit u \<noteq> None" if "j \<in> set is" "lv (mvNow env) j m1 k = Some u" for j k u
      using that lv_queues [OF q [OF that(1)]] "2.prems"(1) [of j k u] by simp
  qed (use "2.prems"(2,4) q ok(1) in simp_all)
  then show ?case using p by auto
qed simp

lemma backup_round:
  assumes ok: "mgr_ok m" and free: "pendingBackup m = None" and ord: "orders_ok env m"
    and rnd: "\<forall>n > 0. 0 \<le> mvIntn env n \<and> mvIntn env n < n" and room: "length (taskCh m) < taskChCap m"
    and tasks: "\<And>i k t. i \<in> set backup_order \<Longrightarrow> lv (mvNow env) i m k = Some t \<Longrightarrow> 0 < GetPriority t \<and> EstimateLimit t \<noteq> None"
  defines "now \<equiv> mvNow env"
  obtains m1 where "backUpTask env m = Some m1"
    "(taskCh (backup_send env m1) = taskCh m \<and> (\<forall>j. keys_at now j (backup_send env m1) = keys_at now j m))
     \<or> (\<exists>t i. taskCh (backup_send env m1) = taskCh m @ [t] \<and> i \<in> set backup_order \<and> Key t \<in> keys_at now i m
          \<and> (\<forall>j. keys_at now j (backup_send env m1) = keys_at now j m - (if j = i then {Key t} else {})))"
proof -
  have d: "distinct backup_order" by (simp add: backup_order_def)
  have o: "\<forall>i \<in> set backup_order. set (mvOrders env i) = dom (queueTasks (mQueues m i))" using ord by (simp add: orders_ok_def)
  obtain ts m1 where 1: "backup_pops env backup_order m = Some (ts, m1)" using backup_pops_total [OF _ d ok o] tasks by blast
  note b = backup_pops_ok [OF ok o d 1] and k = backup_pops_keys [OF ok o d order_refl 1, folded now_def]
  show thesis
  proof (cases "ts = []")
    case True
    have "backUpTask env m = Some m1" using 1 True by (simp add: backUpTask_def PickUpTask_def)
    moreover have "backup_send env m1 = m1" using b free frame_sel(3) [of m m1] by (simp add: backup_send_def)
    ultimately show ?thesis using that [of m1] k True frame_sel(1) [of m m1] b by simp
  next
    case False
    have "\<forall>t \<in> set ts. 0 < GetPriority t" using k tasks unfolding now_def by metis
    then obtain t u rest where p: "PickUpTask env ts = (Some t, rest)" "Key t = Key u" "task_home t = task_home u" "add_mset u (mset rest) = mset ts"
      using PickUpTask_picks [OF _ rnd False] by blast
    define m2 where "m2 = m1\<lparr>backupTaskNum := i64 (backupTaskNum m1 + 1), pendingBackup := Some (backup_logs (mvStamp env) t, rest)\<rparr>"
    define m3 where "m3 = m1\<lparr>backupTaskNum := i64 (backupTaskNum m1 + 1), taskCh := taskCh m @ [backup_logs (mvStamp env) t], pendingBackup := None\<rparr>"
    have s: "backup_send env m2 = fold (repushTask now) rest m3" using room b frame_sel(1,2) [of m m1] by (simp add: backup_send_def m2_def m3_def now_def)
    have in_ts: "u \<in> set ts" "set rest \<subseteq> set ts" using p(4) by (metis mset_eq_setD set_mset_add_mset_insert set_mset_mset insertI1, metis set_mset_add_mset_insert set_mset_mset subset_insertI)
    have ms: "mset (map task_home (u # rest)) = mset (map task_home ts)" using p(4) by (metis mset.simps(2) mset_map)
    then have dist: "distinct (map task_home (u # rest))" using k mset_eq_imp_distinct_iff by metis
    obtain i where i: "task_home u = Some i" "i \<in> set backup_order" "Key u \<in> keys_at now i m" using k in_ts(1) home_at by (metis at_home_def option.sel)
    have q3: "mQueues m3 = mQueues m1" by (simp add: m3_def)
    have b2: "backUpTask env m = Some m2" using 1 p by (simp add: backUpTask_def m2_def)
    have h3: "mgr_ok m3" using ok_backup [OF ok free ord b2] frame_sel(1) [of m m1] b
      by (auto simp: mgr_ok_def minv_def homed_def chan_ok_def m2_def m3_def)
    have keys: "keys_at now j (fold (repushTask now) rest m3) = keys_at now j m - (if j = i then {Key u} else {})" for j
    proof -
      have "set ts = insert u (set rest)" using p(4) by (metis set_mset_add_mset_insert set_mset_mset)
      then have t1: "taken j ts = taken j (u # rest)" by (auto simp: taken_def)
      have t2: "taken i rest = {}" using dist i(1) by (force simp: taken_def)
      have t3: "taken j rest \<subseteq> keys_at now j m" using k in_ts(2) by (force simp: taken_def)
      have "keys_at now j (fold (repushTask now) rest m3) = keys_at now j m3 \<union> taken j rest"
      proof (rule repushes_keys [OF h3])
        show "\<forall>t \<in> set rest. at_home now m3 t" using k in_ts(2) at_home_queues [OF q3] by blast
      qed (use dist in simp)
      moreover have "keys_at now j m3 = keys_at now j m - taken j ts" using k keys_queues [of m3 j m1 now] q3 by simp
      ultimately show ?thesis using t1 t2 t3 i(1) by auto
    qed
    show ?thesis
    proof (rule that [OF b2], rule disjI2, rule exI [of _ "backup_logs (mvStamp env) t"], rule exI [of _ i])
      show "taskCh (backup_send env m2) = taskCh m @ [backup_logs (mvStamp env) t] \<and> i \<in> set backup_order
          \<and> Key (backup_logs (mvStamp env) t) \<in> keys_at now i m
          \<and> (\<forall>j. keys_at now j (backup_send env m2) = keys_at now j m - (if j = i then {Key (backup_logs (mvStamp env) t)} else {}))"
        using s keys i p(2) repushes_chan by (simp add: m3_def backup_logs_def)
    qed
  qed
qed

end
