(* ===== verification/SP_ManagerProps.thy ===== *)
theory SP_ManagerProps
  imports SP_ManagerDispatch SP_VirtualGroupProps
begin

text \<open>
  Properties of the manager: its states are typed, what an upload request is answered, that a round of
  dispatch loses no task, how failed and successful reports end, and where a report has an effect it
  should not have.
\<close>

subsection \<open>Pushes and reports, exactly\<close>

lemma Push_exact:
  assumes "minv m" "\<not> resetting i"
  shows "fst (Push now i t m) = (if Key t \<in> keys_at now i m then Some ErrTaskRepeated
     else if int (card (keys_at now i m)) \<ge> queueCap (mQueues m i) then Some ErrTaskQueueExceed else None)"
proof -
  obtain e m' where p: "Push now i t m = (e, m')" by force
  note k = on_queue_keys [OF p [unfolded Push_def] gcFunc_Push queueCap_Push]
  have "queue_inv (queue_at now i (mQueues m i))" using assms(1) by (simp add: minvD)
  from Push_result [OF this, of t] show ?thesis using p k(1) assms(2) by (auto simp: keys_at_def lv_def split: if_splits)
qed

lemma uploading_keys: "uploading_in now k m \<longleftrightarrow> (\<exists>i \<in> {uploadQueue, replicateQueue, sealQueue, resumableUploadQueue}. k \<in> keys_at now i m)"
  by (simp add: uploading_in_def keys_at_def)

lemma cap_has: "Has now i k m = (b, m') \<Longrightarrow> queueCap (mQueues m' j) = queueCap (mQueues m j)"
  unfolding Has_def using on_queue_keys(3) [of now i "[k]" "queue_Has k" m b m'] gcFunc_ops(1) queueCap_has
  by (metis prod.collapse queue_Has_def)

lemma cap_uploading: "TaskUploading now t m = (b, m') \<Longrightarrow> queueCap (mQueues m' j) = queueCap (mQueues m j)"
  by (auto simp: TaskUploading_def dest!: cap_has [where j = j] split: prod.splits if_splits)


lemma chan_uploading: "TaskUploading now t m = (b, m') \<Longrightarrow> taskCh m' = taskCh m"
  by (auto simp: TaskUploading_def dest!: op_frame(1) frame_sel(1) split: prod.splits if_splits)

lemma create_upload_result:
  fixes env :: menv
  assumes ok: "mgr_ok m" and h: "task_home t = Some i" "\<not> resetting i"
  defines "now \<equiv> mvNow env"
  shows "fst (create_upload env i t ob agent msg m) =
      (if UploadingObjectNumber m \<ge> maxUploadObjectNumber m then Failed Mgr_ErrExceedTask
       else if uploading_in now (Key t) m then Failed Mgr_ErrRepeatedTask
       else if Key t \<in> keys_at now i m then Failed (QueueErr ErrTaskRepeated)
       else if int (card (keys_at now i m)) \<ge> queueCap (mQueues m i) then Failed (QueueErr ErrTaskQueueExceed)
       else if mvDbFails env 0 0 then Failed (Mgr_ErrGfSpDBWithDetail (msg @ mvInfo env t @ '', error: '' @ mvDbMsg env ErrDatabase))
       else Done_ok ())"
    "fst (create_upload env i t ob agent msg m) = Done_ok () \<Longrightarrow>
      lv now j (snd (create_upload env i t ob agent msg m)) = (if j = i \<and> \<not> retires now i t then (lv now i m)(Key t \<mapsto> t) else lv now j m)
      \<and> row_find upObjectID ob (upload_progress (mDB (snd (create_upload env i t ob agent msg m)))) \<noteq> None"
    "fst (create_upload env i t ob agent msg m) \<in> {Failed Mgr_ErrExceedTask, Failed Mgr_ErrRepeatedTask, Failed (QueueErr e)} \<Longrightarrow>
      lv now j (snd (create_upload env i t ob agent msg m)) = lv now j m \<and> mDB (snd (create_upload env i t ob agent msg m)) = mDB m"
proof -
  obtain b m1 where u: "TaskUploading now t m = (b, m1)" by force
  obtain e1 m2 where p: "Push now i t m1 = (e1, m2)" by force
  have iv: "minv m" using ok by (simp add: mgr_ok_def)
  note us = TaskUploading_spec [OF iv u]
  have k1: "keys_at now i m1 = keys_at now i m" using us(2) by (simp add: keys_at_def)
  have e1: "e1 = (if Key t \<in> keys_at now i m then Some ErrTaskRepeated
     else if int (card (keys_at now i m)) \<ge> queueCap (mQueues m i) then Some ErrTaskQueueExceed else None)"
    using Push_exact [OF us(3) h(2), of now t] p k1 cap_uploading [OF u] by simp
  have l: "lv now j m2 = (if j = i \<and> e1 = None \<and> \<not> retires now i t then (lv now i m)(Key t \<mapsto> t) else lv now j m)"
    using Push_spec(2) [OF us(3) h(2) p] us(2) by simp
  have db: "mDB m2 = mDB m" "mDB m1 = mDB m" using frame_sel(4) [OF op_frame(3) [OF p]] frame_sel(4) [OF us(4)] by simp_all
  note c = create_upload_def now_def [symmetric] u p InsertUploadProgress_def
  have row: "\<exists>y. row_find upObjectID ob (xs @ [r]) = Some y" if "upObjectID r = ob" for xs and r :: UploadObjectProgressTable
    using that unfolding row_find_def by (induction xs) auto
  show "fst (create_upload env i t ob agent msg m) =
      (if UploadingObjectNumber m \<ge> maxUploadObjectNumber m then Failed Mgr_ErrExceedTask
       else if uploading_in now (Key t) m then Failed Mgr_ErrRepeatedTask
       else if Key t \<in> keys_at now i m then Failed (QueueErr ErrTaskRepeated)
       else if int (card (keys_at now i m)) \<ge> queueCap (mQueues m i) then Failed (QueueErr ErrTaskQueueExceed)
       else if mvDbFails env 0 0 then Failed (Mgr_ErrGfSpDBWithDetail (msg @ mvInfo env t @ '', error: '' @ mvDbMsg env ErrDatabase))
       else Done_ok ())" using us(1) e1 by (auto simp: c db split: if_splits)
  show "lv now j (snd (create_upload env i t ob agent msg m)) = (if j = i \<and> \<not> retires now i t then (lv now i m)(Key t \<mapsto> t) else lv now j m)
      \<and> row_find upObjectID ob (upload_progress (mDB (snd (create_upload env i t ob agent msg m)))) \<noteq> None"
    if "fst (create_upload env i t ob agent msg m) = Done_ok ()"
    using that l row by (auto simp: c db lv_def split: if_splits option.splits)
  show "lv now j (snd (create_upload env i t ob agent msg m)) = lv now j m \<and> mDB (snd (create_upload env i t ob agent msg m)) = mDB m"
    if "fst (create_upload env i t ob agent msg m) \<in> {Failed Mgr_ErrExceedTask, Failed Mgr_ErrRepeatedTask, Failed (QueueErr e)}"
    using that l us(2) by (auto simp: c db split: if_splits option.splits)
qed

subsection \<open>Samples\<close>

definition sample_app :: GfSpBaseApp where
  "sample_app = \<lparr>uploadSpeed = 0, downloadSpeed = 0, replicateSpeed = 0, sealObjectTimeout = 0, gcObjectTimeout = 0, gcZombieTimeout = 0,
     gcMetaTimeout = 0, migrateGVGTimeout = 0, gcBucketMigrationTimeout = 0, gcStaleVersionObjectTimeout = 0, replicateRetry = 0,
     receiveConfirmRetry = 0, sealObjectRetry = 0, gcObjectRetry = 0, gcZombieRetry = 0, gcMetaRetry = 0, recoveryRetry = 0,
     migrateGVGRetry = 0, gcBucketMigrationRetry = 0\<rparr>"

definition sample_menv :: "(qid \<Rightarrow> string list) \<Rightarrow> menv" where
  "sample_menv ords = \<lparr>mvNow = 100, mvStamp = [], mvAddr = [], mvPrint = (\<lambda>_. []), mvUnmarshal = (\<lambda>_. None), mvDbMsg = (\<lambda>_. []), mvInfo = (\<lambda>_. []),
     mvApp = sample_app, mvTrace = False, mvDbFails = (\<lambda>_ _. False), mvOrders = ords, mvIntn = (\<lambda>n. n - 1), mvRnd = (\<lambda>_. 0), mvOrd = (\<lambda>w. w),
     mvAvail = Inr, mvVG = sample_answers 100, mvSPs = None, mvPerBytes = None, mvVgfs = None, mvParams = Inr sample_params,
     mvParamsOf = (\<lambda>_. Inr sample_params), mvVGParams = Inr 1, mvCreateGVG = None, mvObject = (\<lambda>_. Inr (sample_object 40)),
     mvShadow = (\<lambda>_ _. Inr (sample_object 40)), mvBucketFamily = (\<lambda>_. Inr None), mvGVG = (\<lambda>_. Inr sample_gvg), mvJoined = (\<lambda>_. Inr []),
     mvSelf = Inr 1, mvHeight = Some 1, mvLatestObject = Some 1\<rparr>"

text \<open>A manager whose queues have ten places each and hold the given tasks.\<close>

definition queue_of :: "qid \<Rightarrow> Task list \<Rightarrow> GfSpTQueue" where
  "queue_of i ts = (NewGfSpTQueue [] 10)\<lparr>queueTasks := map_of (map (\<lambda>t. (Key t, t)) (filter (\<lambda>t. task_home t = Some i) ts))\<rparr>"

definition sample_mgr :: "Task list \<Rightarrow> ManageModular" where
  "sample_mgr ts = \<lparr>mQueues = (\<lambda>i. queue_of i ts), taskCh = [], taskChCap = 1, backupTaskNum = 0, pendingBackup = None,
     maxUploadObjectNumber = 5, gcBlockHeight = 1, gcObjectBlockInterval = 1, gcSafeBlockDistance = 1, gcZombiePieceEnabled = True,
     gcZombiePieceObjectID = 0, gcZombiePieceObjectIDInterval = 1, gcZombiePieceSafeObjectIDDistance = 1, gcMetaEnabled = True, mSpID = 1,
     mVGM = sample_vm, gvgPreferSPList = [], spBlackList = [], gvgBlackList = [], recoveryFailedList = [], recoveryTaskMap = Map.empty,
     recoverObjectStats = Map.empty, mDB = \<lparr>integrity_metas = [], shadow_metas = [], piece_hashes = [], upload_progress = []\<rparr>, mGC = [],
     mEvents = \<lparr>putEvents = [], putSuccess = [], uploadTimeouts = [], replicateTimeouts = [], sealTimeouts = [], uploadFailures = [], replicateFailures = [], sealFailures = []\<rparr>, mFailed = [], jobs = [], actions = []\<rparr>"

lemma sample_mgr_sel [simp]:
  "mQueues (sample_mgr ts) i = queue_of i ts" "taskCh (sample_mgr ts) = []" "taskChCap (sample_mgr ts) = 1" "pendingBackup (sample_mgr ts) = None"
  "maxUploadObjectNumber (sample_mgr ts) = 5" "jobs (sample_mgr ts) = []" "mDB (sample_mgr ts) = \<lparr>integrity_metas = [], shadow_metas = [], piece_hashes = [], upload_progress = []\<rparr>"
  by (simp_all add: sample_mgr_def)

lemma sample_menv_sel [simp]:
  "mvNow (sample_menv ords) = 100" "mvOrders (sample_menv ords) = ords" "mvDbFails (sample_menv ords) n s = False" "mvIntn (sample_menv ords) k = k - 1"
  by (simp_all add: sample_menv_def)

lemma queue_of_sel [simp]:
  "queueTasks (queue_of i ts) = map_of (map (\<lambda>t. (Key t, t)) (filter (\<lambda>t. task_home t = Some i) ts))" "queueCap (queue_of i ts) = 10"
  by (simp_all add: queue_of_def NewGfSpTQueue_def)

lemma queue_of_dom: "dom (queueTasks (queue_of i ts)) = Key ` {t \<in> set ts. task_home t = Some i}"
  by (auto simp: dom_map_of_conv_image_fst image_iff)

lemma queue_of_task: "queueTasks (queue_of i ts) k = Some t \<Longrightarrow> t \<in> set ts \<and> task_home t = Some i \<and> Key t = k"
  by (auto dest!: map_of_SomeD)

lemma sample_mgr_ok: "length ts \<le> 10 \<Longrightarrow> mgr_ok (sample_mgr ts)"
proof -
  assume l: "length ts \<le> 10"
  have "card (dom (queueTasks (queue_of i ts))) \<le> length ts" for i
  proof -
    have "dom (queueTasks (queue_of i ts)) \<subseteq> set (map Key ts)" by (auto simp: queue_of_dom simp del: queue_of_sel(1))
    then have "card (dom (queueTasks (queue_of i ts))) \<le> card (set (map Key ts))" by (intro card_mono) simp_all
    also have "\<dots> \<le> length ts" using card_length [of "map Key ts"] by simp
    finally show ?thesis .
  qed
  moreover have "finite (dom (queueTasks (queue_of i ts)))" for i unfolding queue_of_dom by simp
  moreover have "int (card (dom (queueTasks (queue_of i ts)))) \<le> max 0 10" for i using calculation(1) [of i] l by linarith
  ultimately have "queue_inv (queue_of i ts)" for i
    using queue_of_task [of i ts] unfolding queue_inv_def queue_Len_def queue_of_sel(2) by blast
  then have "minv (sample_mgr ts)" by (simp add: minv_def)
  moreover have "homed (sample_mgr ts)" using queue_of_task unfolding homed_def sample_mgr_sel by blast
  ultimately show ?thesis by (simp add: mgr_ok_def chan_ok_def)
qed

lemma sample_lv: "lv now i (sample_mgr ts) k = (case map_of (map (\<lambda>t. (Key t, t)) (filter (\<lambda>t. task_home t = Some i) ts)) k of
    None \<Rightarrow> None | Some t \<Rightarrow> if retires now i t then None else Some t)"
  by (simp add: lv_eq)

lemma sample_keys: "keys_at now i (sample_mgr ts) \<subseteq> Key ` {t \<in> set ts. task_home t = Some i}"
  using queue_of_dom [of i ts] by (auto simp: keys_at_def lv_eq simp del: queue_of_sel(1) split: option.splits if_splits)

subsection \<open>Properties\<close>

text \<open>
  C7: In every state the manager can reach, whatever requests, reports, ticks, goroutines and rounds of
  dispatch came before and in whatever order, each queue holds only tasks of its own kind, under their
  keys and within its capacity; every task on its way to an executor has a queue it can be pushed back
  to; and so the type assertions on tasks taken from a queue never fail, whatever is reported next.
\<close>

theorem manager_typed:
  assumes "mgr_reachable m"
  shows "(queueTasks (mQueues m i) k = Some t \<longrightarrow> task_home t = Some i \<and> Key t = k)
    \<and> queue_Len (mQueues m i) \<le> max 0 (queueCap (mQueues m i))
    \<and> (\<forall>t \<in> set (taskCh m). repush_queue t \<noteq> None)
    \<and> fst (HandleSealObjectTask env s m) \<noteq> Crashed \<and> fst (HandleReceivePieceTask env c m) \<noteq> Crashed
    \<and> fst (HandleRecoverPieceTask env r m) \<noteq> Crashed \<and> fst (HandleGCObjectTask env g m) \<noteq> Crashed"
proof (intro conjI)
  have ok: "mgr_ok m" using assms by (rule mgr_reachable_ok)
  then have "queue_inv (mQueues m i)" by (simp add: mgr_ok_def minvD)
  then show "queueTasks (mQueues m i) k = Some t \<longrightarrow> task_home t = Some i \<and> Key t = k" "queue_Len (mQueues m i) \<le> max 0 (queueCap (mQueues m i))"
    using ok homedD queue_invD(1,3) unfolding mgr_ok_def by blast+
  show "\<forall>t \<in> set (taskCh m). repush_queue t \<noteq> None" using ok by (simp add: mgr_ok_def chan_ok_def dispatchable_def)
  show "fst (HandleSealObjectTask env s m) \<noteq> Crashed" "fst (HandleReceivePieceTask env c m) \<noteq> Crashed"
    "fst (HandleRecoverPieceTask env r m) \<noteq> Crashed" "fst (HandleGCObjectTask env g m) \<noteq> Crashed"
    using no_crash_seal no_crash_receive no_crash_recover no_crash_gc_object ok by blast+
qed

abbreviation sample_menv0 :: menv where
  "sample_menv0 \<equiv> sample_menv (\<lambda>_. [])"

abbreviation sample_upload :: GfSpUploadObjectTask where
  "sample_upload \<equiv> InitUploadObjectTask 100 5 (sample_object 40) sample_params 30 False"

theorem manager_typed_witness:
  "fst (HandleSealObjectTask sample_menv0
      (Some (InitSealObjectTask 100 9 (sample_object 40) sample_params 100 [] [] 90 3 False))
      (snd (HandleCreateUploadObjectTask sample_menv0 (Some sample_upload) (sample_mgr [])))) \<noteq> Crashed"
proof -
  have "mgr_init (sample_mgr [])"
    by (auto simp: mgr_init_def queue_of_def NewGfSpTQueue_def intro!: exI [of _ "[]"] exI [of _ 10])
  then have "mgr_reachable (sample_mgr [])" by (rule mgr_start)
  then have "mgr_reachable (snd (HandleCreateUploadObjectTask sample_menv0 (Some sample_upload) (sample_mgr [])))"
    by (rule mgr_step [where env = sample_menv0 and ev = "CreateUpload (Some sample_upload)"]) simp_all
  from manager_typed [OF this] show ?thesis by blast
qed

text \<open>
  C8: A request to upload is answered exactly as follows: refused when as many objects are under way as
  are allowed, refused as a repetition when its key is live in one of the four queues of an upload,
  refused when the queue has no place, and accepted otherwise, unless the database fails.  When it is
  accepted the task is in the upload queue, no other queue changes and the object has a row in the
  progress table; when it is refused nothing changes.
\<close>

theorem upload_admission:
  assumes "mgr_ok m"
  shows "case HandleCreateUploadObjectTask env (Some u) m of (r, m') \<Rightarrow>
     r = (if UploadingObjectNumber m \<ge> maxUploadObjectNumber m then Failed Mgr_ErrExceedTask
          else if uploading_in (mvNow env) (Key (UploadObject u)) m then Failed Mgr_ErrRepeatedTask
          else if int (card (keys_at (mvNow env) uploadQueue m)) \<ge> queueCap (mQueues m uploadQueue) then Failed (QueueErr ErrTaskQueueExceed)
          else if mvDbFails env 0 0 then Failed (Mgr_ErrGfSpDBWithDetail (''failed to create upload object progress, task_info: ''
            @ mvInfo env (UploadObject u) @ '', error: '' @ mvDbMsg env ErrDatabase))
          else Done_ok ())
     \<and> (r = Done_ok () \<longrightarrow>
          lv (mvNow env) j m' = (if j = uploadQueue \<and> \<not> Expired (mvNow env) (UploadObject u)
            then (lv (mvNow env) uploadQueue m)(Key (UploadObject u) \<mapsto> UploadObject u) else lv (mvNow env) j m)
          \<and> row_find upObjectID (oId (uo_ObjectInfo u)) (upload_progress (mDB m')) \<noteq> None)
     \<and> (r \<in> {Failed Mgr_ErrExceedTask, Failed Mgr_ErrRepeatedTask, Failed (QueueErr e)} \<longrightarrow>
          lv (mvNow env) j m' = lv (mvNow env) j m \<and> mDB m' = mDB m)"
proof -
  let ?msg = "''failed to create upload object progress, task_info: ''"
  note c = create_upload_result [OF assms, of "UploadObject u" uploadQueue, where env = env and ob = "oId (uo_ObjectInfo u)" and agent = "uo_IsAgentUpload u" and msg = ?msg]
  have h: "HandleCreateUploadObjectTask env (Some u) m = create_upload env uploadQueue (UploadObject u) (oId (uo_ObjectInfo u)) (uo_IsAgentUpload u) ?msg m"
    by (simp add: HandleCreateUploadObjectTask_def)
  have k: "Key (UploadObject u) \<in> keys_at (mvNow env) uploadQueue m \<Longrightarrow> uploading_in (mvNow env) (Key (UploadObject u)) m"
    unfolding uploading_keys by blast
  show ?thesis unfolding h split_beta
    using c k by (auto simp del: Key.simps append_Cons)
qed

theorem upload_admission_witness:
  "fst (HandleCreateUploadObjectTask sample_menv0 (Some sample_upload) (sample_mgr [])) = Done_ok ()"
proof -
  have "lv 100 i (sample_mgr []) = Map.empty" for i by (simp add: lv_eq fun_eq_iff)
  then have "\<not> uploading_in 100 k (sample_mgr [])" "keys_at 100 i (sample_mgr []) = {}" for k i by (simp_all add: uploading_in_def keys_at_def)
  moreover have "UploadingObjectNumber (sample_mgr []) = 0" by (simp add: UploadingObjectNumber_def queue_Len_def)
  ultimately show ?thesis
    using upload_admission [OF sample_mgr_ok [of "[]"], of sample_menv0 sample_upload] by (auto simp: split_beta simp del: Key.simps)
qed

text \<open>
  C6: A round of dispatch (every queue gives up its next task, one of them is chosen at random by priority
  and sent to the executors' channel, the others are pushed back) loses no task: with room on the
  channel, positive priorities and computable estimates it ends without a panic, at most one task
  leaves the queues, that task is on the channel, and every other key is where it was.
\<close>

theorem dispatch_round_conserves:
  assumes "mgr_ok m" "pendingBackup m = None" "orders_ok env m"
    and "\<forall>n > 0. 0 \<le> mvIntn env n \<and> mvIntn env n < n" and "length (taskCh m) < taskChCap m"
    and "\<forall>i \<in> set backup_order. \<forall>k t. lv (mvNow env) i m k = Some t \<longrightarrow> 0 < GetPriority t \<and> EstimateLimit t \<noteq> None"
  shows "\<exists>m1. backUpTask env m = Some m1 \<and>
     ((taskCh (backup_send env m1) = taskCh m \<and> (\<forall>j. keys_at (mvNow env) j (backup_send env m1) = keys_at (mvNow env) j m))
     \<or> (\<exists>t i. taskCh (backup_send env m1) = taskCh m @ [t] \<and> i \<in> set backup_order \<and> Key t \<in> keys_at (mvNow env) i m
          \<and> (\<forall>j. keys_at (mvNow env) j (backup_send env m1) = keys_at (mvNow env) j m - (if j = i then {Key t} else {}))))"
proof (rule backup_round [OF assms(1-5)])
  show "0 < GetPriority t \<and> EstimateLimit t \<noteq> None" if "i \<in> set backup_order" "lv (mvNow env) i m k = Some t" for i k t
    using assms(6) that by blast
qed (rule exI, rule conjI)

theorem dispatch_round_conserves_witness:
  "\<exists>m1. backUpTask (sample_menv (\<lambda>i. if i = gcMetaQueue then [Key (sample_meta 4), Key (sample_meta 5)] else [])) (sample_mgr [sample_meta 4, sample_meta 5]) = Some m1"
proof -
  let ?env = "sample_menv (\<lambda>i. if i = gcMetaQueue then [Key (sample_meta 4), Key (sample_meta 5)] else [])"
  let ?m = "sample_mgr [sample_meta 4, sample_meta 5]"
  have h: "task_home (sample_meta n) = Some gcMetaQueue" for n by (simp add: sample_meta_def)
  have "orders_ok ?env ?m" unfolding orders_ok_def sample_menv_sel sample_mgr_sel queue_of_dom using h by auto
  moreover have "0 < GetPriority t \<and> EstimateLimit t \<noteq> None" if "lv 100 i ?m k = Some t" for i k t
  proof -
    from that have "queueTasks (queue_of i [sample_meta 4, sample_meta 5]) k = Some t"
      by (auto simp: lv_eq simp del: queue_of_sel(1) split: option.splits if_splits)
    then have "t \<in> set [sample_meta 4, sample_meta 5]" using queue_of_task by blast
    then show ?thesis by (auto simp: sample_meta_def InitGCMetaTask_def GetPriority_def base_GetPriority_def base_SetPriority_def u8_def i32_def)
  qed
  ultimately show ?thesis
    using dispatch_round_conserves [OF sample_mgr_ok [of "[sample_meta 4, sample_meta 5]"], of ?env] by auto
qed

text \<open>A task taken from its queue leaves a place, so that it or its successor under the same key is taken back.\<close>

lemma popped_place:
  assumes "mgr_ok m" "\<not> resetting i" "PopByKey now i k m = (Some t, m1)"
  shows "has_place now i m1" "k \<notin> keys_at now i m1" "Key t = k"
proof -
  have iv: "minv m" using assms(1) by (simp add: mgr_ok_def)
  note p = PopByKey_spec [OF iv assms(2,3)]
  have l: "lv now i m k = Some t" using p(1) by simp
  show "k \<notin> keys_at now i m1" using p(2) [of i] by (simp add: keys_at_def)
  show "Key t = k" using l queue_invD(1) [OF minvD [OF iv]] by (auto simp: lv_eq split: option.splits if_splits)
  have k: "keys_at now i m1 = keys_at now i m - {k}" "k \<in> keys_at now i m" using p(2) [of i] l by (auto simp: keys_at_def)
  have "queueCap (mQueues m1 i) = queueCap (mQueues m i)"
    using on_queue_keys(3) [OF assms(3) [unfolded PopByKey_def] gcFunc_PopByKey queueCap_PopByKey] by simp
  moreover have "int (card (keys_at now i m)) \<le> max 0 (queueCap (mQueues m i))"
    using card_live [of "queue_at now i (mQueues m i)"] minvD [OF iv, of i] queue_invD(3) [of "mQueues m i"] by (simp add: keys_at_def lv_def)
  moreover have "0 < card (keys_at now i m)" using k(2) finite_keys [OF assms(1)] card_gt_0_iff by blast
  ultimately show "has_place now i m1" using k finite_keys [OF assms(1), of now i] by (simp add: has_place_def)
qed

text \<open>
  Taking a key from the queue of replications: the other keys stay, the database is untouched and no goroutine is started but
  those that note expired tasks of the queues looked through.
\<close>

definition only_popped :: "int \<Rightarrow> string \<Rightarrow> ManageModular \<Rightarrow> ManageModular \<Rightarrow> bool" where
  "only_popped now k m m' \<longleftrightarrow> (\<forall>j. keys_at now j m' = keys_at now j m - (if j = replicateQueue then {k} else {})) \<and> mDB m' = mDB m
     \<and> (\<exists>a. jobs m' = jobs m @ map UpdateProgressJob a)"

definition elsewhere :: "int \<Rightarrow> string \<Rightarrow> ManageModular \<Rightarrow> bool" where
  "elsewhere now k m \<longleftrightarrow> (\<exists>i \<in> {uploadQueue, sealQueue, resumableUploadQueue}. k \<in> keys_at now i m)"

lemma frame_jobs: "\<exists>a. jobs m' = jobs m @ map UpdateProgressJob a" if "strategy_frame m m'"
proof -
  from that obtain a l r where e: "m' = m\<lparr>mQueues := mQueues m', jobs := jobs m @ map UpdateProgressJob a, recoveryFailedList := l, recoveryTaskMap := r\<rparr>"
    unfolding strategy_frame_def by blast
  show ?thesis by (rule exI [of _ a], subst e) simp
qed

lemma pop_and_look:
  assumes "mgr_ok m" "PopByKey now replicateQueue (Key t) m = (old, m1)" "TaskUploading now t m1 = (b, m2)"
  shows "mgr_ok m2" "old = lv now replicateQueue m (Key t)" "b \<longleftrightarrow> elsewhere now (Key t) m" "only_popped now (Key t) m m2"
    "lv now j m2 = (if j = replicateQueue then (lv now replicateQueue m)(Key t := None) else lv now j m)"
proof -
  have iv: "minv m" using assms(1) by (simp add: mgr_ok_def)
  note p = PopByKey_spec [OF iv _ assms(2), simplified]
  note u = TaskUploading_spec [OF op_inv(2) [OF assms(2) iv] assms(3)]
  have fr: "strategy_frame m m2" using frame_trans [OF op_frame(2) [OF assms(2)] u(4)] .
  show "mgr_ok m2" using ok_op(4) [OF assms(3) ok_op(2) [OF assms(2,1)]] .
  show "old = lv now replicateQueue m (Key t)" using p(1) .
  show "lv now j m2 = (if j = replicateQueue then (lv now replicateQueue m)(Key t := None) else lv now j m)" for j using u(2) p(2) by simp
  then show "only_popped now (Key t) m m2" using frame_sel(4) [OF fr] frame_jobs [OF fr] by (auto simp: only_popped_def keys_at_def)
  show "b \<longleftrightarrow> elsewhere now (Key t) m" using u(1) p(2) by (simp add: uploading_keys elsewhere_def keys_at_def)
qed

lemma popped_gone: "only_popped now k m m' \<Longrightarrow> \<not> elsewhere now k m \<Longrightarrow> \<not> uploading_in now k m'"
  by (auto simp: only_popped_def elsewhere_def uploading_keys)











abbreviation sample_replicate :: GfSpReplicatePieceTask where
  "sample_replicate \<equiv> InitReplicatePieceTask 100 (sample_object 40) sample_params 100 90 3 False"

lemma sample_has: "task_home t = Some i \<Longrightarrow> \<not> retires now i t \<Longrightarrow> lv now i (sample_mgr [t]) (Key t) = Some t"
  by (simp add: sample_lv)

lemma sample_other: "task_home t \<noteq> Some i \<Longrightarrow> lv now i (sample_mgr [t]) = Map.empty"
  by (simp add: sample_lv fun_eq_iff)

lemma sample_mgr_one: "mgr_ok (sample_mgr [t])" by (rule sample_mgr_ok) simp



lemma run_sealed_row:
  assumes "\<not> mvDbFails env 1 0" "oId (rp_ObjectInfo r) \<noteq> 0"
  shows "row_find upObjectID (oId (rp_ObjectInfo r)) (upload_progress (mDB (run_sealed env r m))) = None"
proof -
  have d: "row_find upObjectID i (upload_progress (snd (DeleteUploadProgress (mvDbFails env 1) i db))) = None" if "i \<noteq> 0" for i db
    using that assms(1) by (auto simp: DeleteUploadProgress_def row_find_def row_delete_def find_None_iff)
  have h: "upload_progress (snd (DeleteReplicatePieceChecksumsByObjectID f i db)) = upload_progress db" for f i db
    by (simp add: DeleteReplicatePieceChecksumsByObjectID_def)
  have p: "mDB (snd (Push n j t m)) = mDB m" for n j t m using frame_sel(4) [OF op_frame(3)] by (metis prod.collapse)
  show ?thesis using d [OF assms(2)] by (auto simp: run_sealed_def Let_def p h split: sum.splits)
qed

text \<open>
  C10: A report that an object was replicated and sealed on the chain takes its key from the queue of replications. When the key is in no
  other queue of uploads, the request is answered without an error, the key is then in none of these queues, and when the
  goroutine it starts has run without a fault of that deletion, in whatever state, the progress table has no row of the
  object, so that a restart does not take it up again. When the key is in another queue of uploads as well, the answer is
  the error for repeated tasks, and neither a goroutine is started for it nor is its row touched.
\<close>

theorem sealed_report_finishes:
  assumes "mgr_ok m" "task_Error (ReplicatePiece s) = None" "rp_Sealed s" "oId (rp_ObjectInfo s) \<noteq> 0"
  shows "case HandleReplicatePieceTask env (Some s) m of (r, m') \<Rightarrow>
     (if elsewhere (mvNow env) (Key (ReplicatePiece s)) m then r = Failed Mgr_ErrRepeatedTask \<and> only_popped (mvNow env) (Key (ReplicatePiece s)) m m'
      else r = Done_ok () \<and> \<not> uploading_in (mvNow env) (Key (ReplicatePiece s)) m'
        \<and> (\<exists>m1 s1. only_popped (mvNow env) (Key (ReplicatePiece s)) m m1 \<and> m' = add_jobs [ReplicateSealedJob s1] m1 \<and> (\<forall>env' m''. \<not> mvDbFails env' 1 0 \<longrightarrow>
             (\<exists>m3. run_job env' (ReplicateSealedJob s1) m'' = Some m3 \<and> row_find upObjectID (oId (rp_ObjectInfo s)) (upload_progress (mDB m3)) = None))))"
proof -
  define now where "now = mvNow env"
  define k where "k = Key (ReplicatePiece s)"
  obtain old m1 where 1: "PopByKey now replicateQueue k m = (old, m1)" by force
  obtain b m2 where 2: "TaskUploading now (ReplicatePiece s) m1 = (b, m2)" by force
  note pl = pop_and_look [OF assms(1) 1 [unfolded k_def] 2]
  define s1 where "s1 = s\<lparr>rp_Task := base_AppendLog (mvStamp env) (''manager-handle-succeed-replicate-task-retry:'' @ show_int (GetRetry (ReplicatePiece s))) (rp_Task s)\<rparr>"
  have h: "HandleReplicatePieceTask env (Some s) m = (if b then (Failed Mgr_ErrRepeatedTask, m2) else (Done_ok (), add_jobs [ReplicateSealedJob s1] m2))"
    using assms(2,3) 1 2 by (simp add: HandleReplicatePieceTask_def Let_def now_def k_def s1_def AppendLog_def del: Key.simps append_Cons)
  show ?thesis
  proof (cases b)
    case True
    then show ?thesis unfolding h using pl(3,4) by (simp add: now_def del: Key.simps)
  next
    case False
    have "\<not> uploading_in now k (add_jobs [ReplicateSealedJob s1] m2)"
      using popped_gone [OF pl(4)] pl(3) False by (simp add: k_def add_jobs_def uploading_in_def lv_def del: Key.simps)
    moreover have "row_find upObjectID (oId (rp_ObjectInfo s)) (upload_progress (mDB (run_sealed env' s1 m''))) = None" if "\<not> mvDbFails env' 1 0" for env' m''
      using run_sealed_row [of env' s1 m''] that assms(4) by (simp add: s1_def)
    ultimately show ?thesis unfolding h using False pl(3,4) by (auto simp: now_def k_def simp del: Key.simps)
  qed
qed

theorem sealed_report_finishes_witness:
  "fst (HandleReplicatePieceTask sample_menv0 (Some (sample_replicate\<lparr>rp_Sealed := True\<rparr>)) (sample_mgr [ReplicatePiece sample_replicate])) = Done_ok ()"
proof -
  let ?s = "sample_replicate\<lparr>rp_Sealed := True\<rparr>"
  have "task_Error (ReplicatePiece ?s) = None" "rp_Sealed ?s" "oId (rp_ObjectInfo ?s) \<noteq> 0"
    by (simp_all add: task_Error_def base_Error_def InitReplicatePieceTask_def sample_object_def fresh_base_def zero_task_def base_SetPriority_def)
  moreover have "\<not> elsewhere 100 k (sample_mgr [ReplicatePiece sample_replicate])" for k
    unfolding elsewhere_def keys_at_def by (simp add: sample_other)
  ultimately show ?thesis
    using sealed_report_finishes [OF sample_mgr_one, of ?s sample_menv0 "ReplicatePiece sample_replicate"] by (auto simp: split_beta simp del: Key.simps)
qed

text \<open>Looking a key up and taking it, in any queue: the strategies of garbage collection reset the task on the way.\<close>

lemma Has_any:
  assumes "minv m" "Has now i k m = (b, m')"
  shows "b \<longleftrightarrow> k \<in> keys_at now i m" "lv now i m' k = (if resetting i then map_option (ResetGCObjectTask now) (lv now i m k) else lv now i m k)"
proof -
  define q where "q = reset_visited now i [k] (queue_at now i (mQueues m i))"
  obtain q1 where q1: "queue_has k q = (b, q1)" "mQueues m' = (mQueues m)(i := q1)"
    using on_queue_eq [OF assms(2) [unfolded Has_def]] unfolding q_def queue_Has_def by blast
  have i: "queue_inv q" using assms(1) reset_inv by (simp add: minvD q_def)
  have d: "dom (live q) = keys_at now i m" by (simp add: q_def reset_keys keys_at_def lv_def)
  show "b \<longleftrightarrow> k \<in> keys_at now i m" using queue_has_eq [OF i, of k] q1(1) d by simp
  have "live (queue_at now i q1) = live q1" using gcFunc_ops(1) [of k q] q1(1) by (intro live_at_again) (simp add: q_def gcFunc_reset)
  then show "lv now i m' k = (if resetting i then map_option (ResetGCObjectTask now) (lv now i m k) else lv now i m k)"
    using queue_has_live [OF i, of k] q1 by (simp add: lv_def q_def reset_live)
qed

lemma PopByKey_any:
  assumes "minv m" "PopByKey now i k m = (t, m')"
  shows "t = (if resetting i then map_option (ResetGCObjectTask now) (lv now i m k) else lv now i m k)" "lv now i m' k = None"
proof -
  define q where "q = reset_visited now i [k] (queue_at now i (mQueues m i))"
  obtain q1 where q1: "queue_PopByKey k q = (t, q1)" "mQueues m' = (mQueues m)(i := q1)"
    using on_queue_eq [OF assms(2) [unfolded PopByKey_def]] unfolding q_def by blast
  have i: "queue_inv q" using assms(1) reset_inv by (simp add: minvD q_def)
  note p = PopByKey_eq [OF i, of k, unfolded q1(1)]
  show "t = (if resetting i then map_option (ResetGCObjectTask now) (lv now i m k) else lv now i m k)"
    using p by (simp add: q_def reset_live lv_def)
  have "live (queue_at now i q1) = live q1" using gcFunc_PopByKey [of k q] q1(1) by (intro live_at_again) (simp add: q_def gcFunc_reset)
  then show "lv now i m' k = None" using p q1(2) by (simp add: lv_def)
qed

text \<open>
  A report of garbage collection that is older than the state in the queue should be ignored; it is
  answered as cancelled, but the newer task has been taken from the queue by then and is not pushed
  back: the collection of those blocks stops until the manager restarts and reads the progress table.
\<close>

theorem stale_gc_report_drops_task:
  assumes "mgr_ok m" "queueTasks (mQueues m gcObjectQueue) (Key (GCObject g)) = Some (GCObject h)"
    and "go_CurrentBlockNumber g \<le> go_EndBlockNumber g" "go_CurrentBlockNumber g < go_CurrentBlockNumber h"
  shows "case HandleGCObjectTask env (Some g) m of (r, m') \<Rightarrow> r = Failed Mgr_ErrCanceledTask \<and> Key (GCObject g) \<notin> keys_at now gcObjectQueue m' \<and> mGC m' = mGC m"
proof -
  define k where "k = Key (GCObject g)"
  obtain b m1 where 1: "Has (mvNow env) gcObjectQueue k m = (b, m1)" by force
  obtain old m2 where 2: "PopByKey (mvNow env) gcObjectQueue k m1 = (old, m2)" by force
  have iv: "minv m" using assms(1) by (simp add: mgr_ok_def)
  have l: "lv n gcObjectQueue x = queueTasks (mQueues x gcObjectQueue)" for n x by (auto simp: lv_eq fun_eq_iff split: option.splits)
  have h: "lv (mvNow env) gcObjectQueue m k = Some (GCObject h)" using assms(2) by (simp add: l k_def)
  note hs = Has_any [OF iv 1] and ps = PopByKey_any [OF op_inv(1) [OF 1 iv] 2]
  obtain h1 where old: "old = Some (GCObject h1)" "go_CurrentBlockNumber h1 = go_CurrentBlockNumber h"
  proof -
    have r: "\<exists>y. ResetGCObjectTask n (GCObject x) = GCObject y \<and> go_CurrentBlockNumber y = go_CurrentBlockNumber x" for n x
      by (simp add: ResetGCObjectTask_def SetRetry_def)
    have "old = Some (ResetGCObjectTask (mvNow env) (ResetGCObjectTask (mvNow env) (GCObject h)))" using hs(2) ps(1) h by simp
    then show ?thesis using that r by metis
  qed
  have "k \<notin> keys_at now gcObjectQueue m2" using ps(2) by (auto simp: keys_at_def l)
  moreover have "mGC m2 = mGC m" using frame_sel(5) [OF op_frame(1) [OF 1]] frame_sel(5) [OF op_frame(2) [OF 2]] by simp
  moreover have "b" using hs(1) h by (auto simp: keys_at_def)
  ultimately show ?thesis using old assms(3,4) 1 2 by (simp add: HandleGCObjectTask_def Let_def k_def del: Key.simps)
qed

abbreviation sample_gc :: "int \<Rightarrow> GfSpGCObjectTask" where
  "sample_gc n \<equiv> SetGCObjectProgress n 0 (InitGCObjectTask 50 100 1 9 300)"

theorem stale_gc_report_drops_task_witness:
  "Key (GCObject (sample_gc 3)) \<notin> keys_at 100 gcObjectQueue (snd (HandleGCObjectTask sample_menv0 (Some (sample_gc 3)) (sample_mgr [GCObject (sample_gc 5)])))"
proof -
  have k: "Key (GCObject (sample_gc 3)) = Key (GCObject (sample_gc 5))" by (simp add: SetGCObjectProgress_def InitGCObjectTask_def)
  have "queueTasks (mQueues (sample_mgr [GCObject (sample_gc 5)]) gcObjectQueue) (Key (GCObject (sample_gc 3))) = Some (GCObject (sample_gc 5))"
    unfolding k by (simp del: Key.simps)
  from stale_gc_report_drops_task [OF sample_mgr_one this, where env = sample_menv0 and now = 100]
  show ?thesis by (auto simp: split_beta SetGCObjectProgress_def InitGCObjectTask_def simp del: Key.simps)
qed

text \<open>
  A report that a piece was recovered, when the piece was not recovered for a predecessor, is not the
  end of it: the task is taken from the recovery queue, and pushed into it again a few lines further
  down, where new requests of recovery are taken up; the bookkeeping of running recoveries has it
  again, and the next executor will recover the piece once more.
\<close>

theorem recovered_piece_requeued:
  assumes "mgr_ok m" "re_Recovered r" "\<not> re_BySuccessorSp r" "task_Error (RecoverPiece r) = None" "\<not> ExceedRetry (RecoverPiece r)"
    and "lv (mvNow env) recoveryQueue m (Key (RecoverPiece r)) \<noteq> None"
  shows "case HandleRecoverPieceTask env (Some r) m of (res, m') \<Rightarrow> res = Done_ok ()
     \<and> lv (mvNow env) recoveryQueue m' (Key (RecoverPiece r)) = Some (SetUpdateTime (mvNow env) (RecoverPiece r))
     \<and> recoveryTaskMap m' (Key (RecoverPiece r)) = Some (Key (RecoverPiece r))"
proof -
  define now where "now = mvNow env"
  define t where "t = RecoverPiece r"
  obtain old0 m0 where "PopByKey now recoveryQueue (Key t) m = (old0, m0)" by force
  moreover from PopByKey_any(1) [OF _ this] assms(1) have "old0 = lv now recoveryQueue m (Key t)" by (simp add: mgr_ok_def)
  ultimately obtain old where 0: "PopByKey now recoveryQueue (Key t) m = (Some old, m0)"
    using assms(6) unfolding now_def [symmetric] t_def [symmetric] by (metis not_Some_eq)
  define m1 where "m1 = forget_recovery (Key t) m0"
  have q: "mQueues m1 = mQueues m0" by (simp add: m1_def forget_recovery_def)
  have nr: "\<not> resetting recoveryQueue" by simp
  note pl = popped_place [OF assms(1) nr 0]
  have ok1: "mgr_ok m1" using ok_op(2) [OF 0 assms(1)] by (simp add: m1_def)
  then have iv1: "minv m1" by (simp add: mgr_ok_def)
  obtain b m2 where 1: "Has now recoveryQueue (Key t) m1 = (b, m2)" by force
  note h = Has_spec [OF iv1 nr 1]
  have k1: "keys_at now recoveryQueue m1 = keys_at now recoveryQueue m0" using q by (simp add: keys_at_def lv_def)
  have b: "\<not> b" using h(1) pl(2) k1 by (auto simp: keys_at_def)
  obtain e m3 where 2: "Push now recoveryQueue (SetUpdateTime now t) m2 = (e, m3)" by force
  have x: "\<not> retires now recoveryQueue (SetUpdateTime now t)"
    using assms(5) by (simp add: t_def ExceedRetry_def SetUpdateTime_def base_ExceedRetry_def)
  have ok2: "mgr_ok m2" using ok_op(1) [OF 1 ok1] .
  have k2: "keys_at now recoveryQueue m2 = keys_at now recoveryQueue m0" using h(2) k1 by (simp add: keys_at_def)
  then have "has_place now recoveryQueue m2" using pl(1) cap_has [OF 1] q by (simp add: has_place_def)
  then have e: "e = None" using Push_keys [OF ok2 _ _ x 2] pl(2) k2 by simp
  then have l: "lv now recoveryQueue m3 (Key t) = Some (SetUpdateTime now t)" using Push_spec(2) [OF _ nr 2] x ok2 by (simp add: mgr_ok_def)
  have "HandleRecoverPieceTask env (Some r) m = (Done_ok (), m3\<lparr>recoveryTaskMap := (recoveryTaskMap m3)(Key t \<mapsto> Key t)\<rparr>)"
    using assms(2-4) 0 1 2 e b by (simp add: HandleRecoverPieceTask_def TaskRecovering_def Let_def now_def t_def m1_def del: Key.simps)
  then show ?thesis using l by (simp add: lv_def now_def t_def del: Key.simps)
qed

theorem recovered_piece_requeued_witness:
  "\<exists>r. lv 100 recoveryQueue (snd (HandleRecoverPieceTask sample_menv0
       (Some ((InitRecoverPieceTask 90 (sample_object 40) sample_params 85 1 0 16 10 3)\<lparr>re_Recovered := True\<rparr>))
       (sample_mgr [RecoverPiece (InitRecoverPieceTask 90 (sample_object 40) sample_params 85 1 0 16 10 3)]))) 
     (Key (RecoverPiece (InitRecoverPieceTask 90 (sample_object 40) sample_params 85 1 0 16 10 3))) = Some (RecoverPiece r)"
proof -
  define t where "t = InitRecoverPieceTask 90 (sample_object 40) sample_params 85 1 0 16 10 3"
  let ?r = "t\<lparr>re_Recovered := True\<rparr>"
  have k: "Key (RecoverPiece ?r) = Key (RecoverPiece t)" by simp
  have x: "\<not> ExceedRetry (RecoverPiece t)" "\<not> ExceedRetry (RecoverPiece ?r)" "\<not> re_BySuccessorSp ?r" "task_Error (RecoverPiece ?r) = None"
    by (simp_all add: t_def ExceedRetry_def base_ExceedRetry_def InitRecoverPieceTask_def fresh_base_def zero_task_def base_SetPriority_def task_Error_def base_Error_def)
  have l: "lv 100 recoveryQueue (sample_mgr [RecoverPiece t]) (Key (RecoverPiece t)) = Some (RecoverPiece t)"
    by (intro sample_has) (simp_all add: x)
  have "\<exists>r. SetUpdateTime 100 (RecoverPiece ?r) = RecoverPiece r" by (simp add: SetUpdateTime_def)
  then show ?thesis
    using recovered_piece_requeued [OF sample_mgr_one _ x(3,4,2), of sample_menv0 "RecoverPiece t"] k l unfolding t_def [symmetric]
    by (auto simp: split_beta simp del: Key.simps)
qed

text \<open>
  Rejecting an object that cannot be sealed tries three times to send the message and to see it on the
  chain.  When the messages are sent but the rejection is never seen, or listening for it fails, no
  error is returned: the error of listening is a variable of the inner block, and the outer one is nil
  after a message that was sent.
\<close>

theorem reject_unseen_reports_success:
  assumes "\<forall>n < 3. fst (tries n) = None \<and> snd (tries n) \<noteq> Inr True"
  shows "RejectUnSealObject tries = None"
proof -
  have "reject_tries (tries n # rest) err = reject_tries rest None" if "n < 3" for n rest err
    using assms that by (cases "tries n"; cases "snd (tries n)") auto
  then show ?thesis by (simp add: RejectUnSealObject_def upt_rec)
qed

theorem reject_unseen_reports_success_witness:
  "RejectUnSealObject (\<lambda>n. (None, if n = 0 then Inl (ChainErr ''timeout'') else Inr False)) = None"
  by (rule reject_unseen_reports_success) simp

lemma create_upload_frame:
  assumes "create_upload env i t ob agent msg m = (r, m')"
  shows "taskCh m' = taskCh m" "j \<noteq> i \<Longrightarrow> queueCap (mQueues m' j) = queueCap (mQueues m j)"
proof -
  obtain b m1 where u: "TaskUploading (mvNow env) t m = (b, m1)" by force
  obtain e m2 where p: "Push (mvNow env) i t m1 = (e, m2)" by force
  have f: "taskCh m2 = taskCh m1" "j \<noteq> i \<Longrightarrow> mQueues m2 j = mQueues m1 j" using frame_sel(1) [OF op_frame(3) [OF p]] op_other(3) [OF p] by auto
  have g: "taskCh m1 = taskCh m" "queueCap (mQueues m1 j) = queueCap (mQueues m j)" using cap_uploading [OF u] chan_uploading [OF u] by auto
  show "taskCh m' = taskCh m" "j \<noteq> i \<Longrightarrow> queueCap (mQueues m' j) = queueCap (mQueues m j)"
    using assms f g by (auto simp: create_upload_def u p split: if_splits option.splits prod.splits db_error.splits)
qed

text \<open>
  While the replicating task of an object is on its way to an executor it is in no queue, so an upload
  of the same object is accepted; when the task is handed to an executor it is pushed back, and then
  the object is in the upload queue and in the replicate queue at once, although every request checks
  that its key is in none of them.
\<close>

theorem dispatched_object_accepted_again:
  assumes "mgr_ok m" "taskCh m = ReplicatePiece r # ch" "uo_ObjectInfo u = rp_ObjectInfo r"
    and "\<not> uploading_in (mvNow env) (Key (UploadObject u)) m" "UploadingObjectNumber m < maxUploadObjectNumber m" "\<not> mvDbFails env 0 0"
    and "has_place (mvNow env) uploadQueue m" "has_place (mvNow env) replicateQueue m"
    and "\<not> Expired (mvNow env) (UploadObject u)" "i64 (tRetry (rp_Task r) + 1) < tMaxRetry (rp_Task r)"
    and "EstimateLimit (ReplicatePiece r) = Some l" "NotLess limit l"
  shows "case HandleCreateUploadObjectTask env (Some u) m of (res, m1) \<Rightarrow> res = Done_ok ()
     \<and> (case DispatchTask env limit m1 of (d, m2) \<Rightarrow> (\<exists>t. d = Done_ok (Some t))
          \<and> Key (UploadObject u) \<in> keys_at (mvNow env) uploadQueue m2 \<and> Key (UploadObject u) \<in> keys_at (mvNow env) replicateQueue m2)"
proof -
  define now where "now = mvNow env"
  define k where "k = Key (UploadObject u)"
  let ?msg = "''failed to create upload object progress, task_info: ''"
  obtain res m1 where 1: "create_upload env uploadQueue (UploadObject u) (oId (uo_ObjectInfo u)) (uo_IsAgentUpload u) ?msg m = (res, m1)" by force
  note c = create_upload_result [OF assms(1), of "UploadObject u" uploadQueue, where env = env and ob = "oId (uo_ObjectInfo u)" and agent = "uo_IsAgentUpload u" and msg = ?msg]
  have "Key (UploadObject u) \<notin> keys_at (mvNow env) uploadQueue m" using assms(4) unfolding uploading_keys by blast
  then have res: "res = Done_ok ()" using c(1) 1 assms(4-7) by (simp add: has_place_def del: Key.simps append_Cons)
  have lv1: "lv now j m1 = (if j = uploadQueue then (lv now uploadQueue m)(k \<mapsto> UploadObject u) else lv now j m)" for j
    using c(2) [of j] 1 res assms(9) by (simp add: now_def k_def del: Key.simps append_Cons)
  have f: "taskCh m1 = taskCh m" "queueCap (mQueues m1 replicateQueue) = queueCap (mQueues m replicateQueue)" using create_upload_frame [OF 1] by simp_all
  have ok1: "mgr_ok m1" using ok_create_upload [OF assms(1), of "UploadObject u" uploadQueue env] 1 by (metis snd_conv task_home.simps(1))
  define t where "t = SetAddress (mvAddr env) (SetUpdateTime now (SetError (mvUnmarshal env) None (IncRetry (ReplicatePiece r))))"
  define m2 where "m2 = m1\<lparr>taskCh := ch, backupTaskNum := i64 (backupTaskNum m1 - 1)\<rparr>"
  have t: "task_home t = Some replicateQueue" "repush_queue t = Some replicateQueue" by (simp_all add: t_def setter_task_defs)
  have "Key (UploadObject u) = Key (ReplicatePiece r)"
    using assms(3) by (simp add: on_object_def GfSpUploadObjectTaskKey_def GfSpReplicatePieceTaskKey_def)
  then have tk: "Key t = k" by (simp add: t_def k_def del: Key.simps)
  have x: "\<not> retires now replicateQueue t"
    using assms(10) by (simp add: t_def Expired_def base_Expired_def base_ExceedRetry_def setter_task_defs base_IncRetry_def base_SetError_def)
  have q2: "mQueues m2 = mQueues m1" by (simp add: m2_def)
  have ok2: "mgr_ok m2" using ok1 assms(2) f(1) by (auto simp: m2_def mgr_ok_def minv_def homed_def chan_ok_def)
  have k2: "keys_at now j m2 = keys_at now j m1" for j using keys_queues q2 by metis
  have "keys_at now replicateQueue m1 = keys_at now replicateQueue m" using lv1 [of replicateQueue] by (simp add: keys_at_def)
  then have pl: "has_place now replicateQueue m2" "Key t \<notin> keys_at now replicateQueue m2"
    using assms(4,8) f(2) k2 tk q2 by (auto simp: has_place_def now_def k_def uploading_keys simp del: Key.simps)
  obtain e m3 where p: "Push now replicateQueue t m2 = (e, m3)" by force
  have "k \<in> keys_at now replicateQueue m3" using Push_keys [OF ok2 pl x p] tk by simp
  moreover have "keys_at now uploadQueue m3 = keys_at now uploadQueue m1" using keys_queues [OF op_other(3) [OF p, of uploadQueue]] k2 by simp
  moreover have "k \<in> keys_at now uploadQueue m1" using lv1 [of uploadQueue] by (simp add: keys_at_def)
  moreover have "DispatchTask env limit m1 = (Done_ok (Some t), m3)"
    using f(1) assms(2,11,12) p t(2) by (simp add: DispatchTask_def Let_def repushTask_def m2_def t_def now_def del: EstimateLimit.simps)
  ultimately show ?thesis using 1 res by (simp add: HandleCreateUploadObjectTask_def now_def k_def del: Key.simps append_Cons)
qed

definition replica_task :: GfSpReplicatePieceTask where
  "replica_task = InitReplicatePieceTask 100 ((sample_object 40)\<lparr>oRedundancyType := REDUNDANCY_REPLICA_TYPE\<rparr>) sample_params 100 90 3 False"

definition replica_upload :: GfSpUploadObjectTask where
  "replica_upload = InitUploadObjectTask 100 5 ((sample_object 40)\<lparr>oRedundancyType := REDUNDANCY_REPLICA_TYPE\<rparr>) sample_params 30 False"

theorem dispatched_object_accepted_again_witness:
  "\<exists>limit. case HandleCreateUploadObjectTask sample_menv0 (Some replica_upload) ((sample_mgr [])\<lparr>taskCh := [ReplicatePiece replica_task]\<rparr>) of (res, m1) \<Rightarrow>
     case DispatchTask sample_menv0 limit m1 of (d, m2) \<Rightarrow>
       Key (UploadObject replica_upload) \<in> keys_at 100 uploadQueue m2 \<and> Key (UploadObject replica_upload) \<in> keys_at 100 replicateQueue m2"
proof -
  let ?m = "(sample_mgr [])\<lparr>taskCh := [ReplicatePiece replica_task]\<rparr>"
  have ok: "mgr_ok ?m" using sample_mgr_ok [of "[]"] by (simp add: mgr_ok_def minv_def homed_def chan_ok_def dispatchable_def)
  have k: "uo_ObjectInfo replica_upload = rp_ObjectInfo replica_task" by (simp add: replica_task_def replica_upload_def InitUploadObjectTask_def InitReplicatePieceTask_def)
  have l: "lv 100 i ?m = Map.empty" for i by (simp add: lv_eq fun_eq_iff)
  have e: "\<not> uploading_in 100 x ?m" "has_place 100 i ?m" for i x using l by (simp_all add: uploading_in_def has_place_def keys_at_def)
  have n: "UploadingObjectNumber ?m < maxUploadObjectNumber ?m" by (simp add: UploadingObjectNumber_def queue_Len_def)
  have x: "\<not> Expired 100 (UploadObject replica_upload)" "i64 (tRetry (rp_Task replica_task) + 1) < tMaxRetry (rp_Task replica_task)"
    by (simp_all add: replica_task_def replica_upload_def Expired_def base_Expired_def base_ExceedTimeout_def InitUploadObjectTask_def InitReplicatePieceTask_def fresh_base_def zero_task_def base_SetPriority_def i64_def)
  have "replicate_mem (rp_ObjectInfo replica_task) (rp_StorageParams replica_task) \<noteq> None"
    by (simp add: replica_task_def replicate_mem_def InitReplicatePieceTask_def sample_params_def sample_object_def)
  then obtain y where y: "EstimateLimit (ReplicatePiece replica_task) = Some y" "NotLess y y" by (auto simp: NotLess_def)
  show ?thesis
    using dispatched_object_accepted_again [OF ok _ k _ n _ _ _ _ x(2) y, of "[]" sample_menv0] e x(1) by (auto simp: split_beta simp del: Key.simps)
qed

end
