(* ===== verification/SP_Receiver.thy ===== *)
theory SP_Receiver
  imports SP_Uploader SP_MetaDBProps
begin

text \<open>
  The receiver, \<^verbatim>\<open>src/modular/receiver\<close>: a secondary provider takes the pieces of an object one by one, and
  when the primary asks for it checks the integrity hash over them, signs it and records it.  The queue
  only keeps two requests for the same piece apart.  Signing, the chain and the hashes are arguments.
\<close>

subsection \<open>State and results\<close>

record 's ReceiveModular =
  rvQueue :: GfSpTQueue
  rvStore :: 's
  rvDB :: metadb
  rvSpID :: int

definition recv_error :: "int \<Rightarrow> int \<Rightarrow> string \<Rightarrow> go_error" where
  "recv_error http code descr =
     GfSpErr \<lparr>CodeSpace = ''receiver'', HttpStatusCode = http, InnerCode = code, Description = descr\<rparr>"

definition recv_ErrRepeatedTask :: go_error where "recv_ErrRepeatedTask = recv_error 406 80002 ''request repeated''"
definition ErrUnfinishedTask :: go_error where "ErrUnfinishedTask = recv_error 403 80003 ''replicate piece unfinished''"
definition ErrInvalidDataChecksum :: go_error where "ErrInvalidDataChecksum = recv_error 406 80004 ''verify data checksum failed''"
definition recv_ErrPieceStoreWithDetail :: "string \<Rightarrow> go_error" where "recv_ErrPieceStoreWithDetail detail = recv_error 500 85101 detail"
definition recv_ErrGfSpDBWithDetail :: "string \<Rightarrow> go_error" where "recv_ErrGfSpDBWithDetail detail = recv_error 500 85201 detail"

text \<open>Answers of other services: the signature, the primary provider of a group, the provider's own number, printed errors.\<close>

record recv_answers =
  raSign :: "int \<Rightarrow> int \<Rightarrow> int list list \<Rightarrow> go_error + int list"
  raPrimary :: "int \<Rightarrow> go_error + int"
  raSelf :: "go_error + int"
  raMsg :: "go_error \<Rightarrow> string"

text \<open>What a handler leaves: the value returned, the error the deferred function sets in the task, the report and the state.\<close>

record ('a, 's) recv_out =
  roRet :: "'a outcome"
  roErr :: "go_error option"
  roReport :: "Task option"
  roState :: "'s ReceiveModular"

definition recv_fail :: "go_error \<Rightarrow> go_error option \<Rightarrow> 's ReceiveModular \<Rightarrow> ('a, 's) recv_out" where
  "recv_fail ret err st = \<lparr>roRet = Fail ret, roErr = err, roReport = None, roState = st\<rparr>"

subsection \<open>Taking a piece\<close>

definition recv_piece_key :: "GfSpReceivePieceTask \<Rightarrow> string" where
  "recv_piece_key r =
     (let ob = rc_ObjectInfo r in
      if oRedundancyType ob = REDUNDANCY_EC_TYPE
      then ECPieceKey (oId ob) (rc_SegmentIdx r) (u32 (rc_RedundancyIdx r)) (oVersion ob)
      else SegmentPieceKey (oId ob) (rc_SegmentIdx r) (oVersion ob))"

text \<open>The checksum is recorded before the piece is stored.\<close>

definition recv_HandleReceivePieceTask :: "'s env \<Rightarrow> GfSpReceivePieceTask \<Rightarrow> int list \<Rightarrow> 's ReceiveModular \<Rightarrow> (unit, 's) recv_out" where
  "recv_HandleReceivePieceTask env r data st =
     (let t = ReceivePiece r; ob = rc_ObjectInfo r; (present, q1) = queue_Has (Key t) (rvQueue st) in
      if present then recv_fail recv_ErrRepeatedTask (Some recv_ErrRepeatedTask) (st\<lparr>rvQueue := q1\<rparr>)
      else (case queue_Push t q1 of
              (Some e, q2) \<Rightarrow> recv_fail (queue_err e) (Some (queue_err e)) (st\<lparr>rvQueue := q2\<rparr>)
            | (None, q2) \<Rightarrow>
                let st1 = st\<lparr>rvQueue := snd (queue_PopByKey (Key t) q2)\<rparr> in
                if eChecksum env data \<noteq> rc_PieceChecksum r then recv_fail ErrInvalidDataChecksum (Some ErrInvalidDataChecksum) st1
                else (case SetReplicatePieceChecksum (eDbFails env 0) (oId ob) (rc_SegmentIdx r) (rc_RedundancyIdx r) (rc_PieceChecksum r) (oVersion ob) (rvDB st) of
                        (Some e, db) \<Rightarrow> recv_fail (recv_ErrGfSpDBWithDetail (''failed to set checksum to db, error: '' @ eDbMsg env e))
                           (Some (OtherErr (eDbMsg env e))) (st1\<lparr>rvDB := db\<rparr>)
                      | (None, db) \<Rightarrow>
                          (case PutPiece (ePut env) (rvStore st) (recv_piece_key r) data of
                             Inl e \<Rightarrow> recv_fail (recv_ErrPieceStoreWithDetail (''failed to put piece into piece store, error: '' @ eStoreMsg env e))
                               (Some (OtherErr (eStoreMsg env e))) (st1\<lparr>rvDB := db\<rparr>)
                           | Inr s \<Rightarrow> \<lparr>roRet = Ok (), roErr = None, roReport = None, roState = st1\<lparr>rvDB := db, rvStore := s\<rparr>\<rparr>))))"

subsection \<open>Finishing an object\<close>

definition recv_getSPID :: "recv_answers \<Rightarrow> 's ReceiveModular \<Rightarrow> (go_error + int) \<times> 's ReceiveModular" where
  "recv_getSPID ans st =
     (if rvSpID st \<noteq> 0 then (Inr (rvSpID st), st)
      else case raSelf ans of Inl e \<Rightarrow> (Inl e, st) | Inr i \<Rightarrow> (Inr i, st\<lparr>rvSpID := i\<rparr>))"

definition recv_record :: "'s env \<Rightarrow> GfSpReceivePieceTask \<Rightarrow> int list \<Rightarrow> int list list \<Rightarrow> metadb \<Rightarrow> db_error option \<times> metadb" where
  "recv_record env r integrity checksums db =
     (let ob = rc_ObjectInfo r in
      if oIsUpdating ob
      then SetShadowObjectIntegrity (eDbFails env 2) \<lparr>smObjectID = oId ob, smRedundancyIndex = rc_RedundancyIdx r, smIntegrityChecksum = integrity,
             smPieceChecksumList = checksums, smVersion = oVersion ob, smObjectSize = oPayloadSize ob\<rparr> db
      else SetObjectIntegrity (eDbFails env 2) \<lparr>imObjectID = oId ob, imRedundancyIndex = rc_RedundancyIdx r, imIntegrityChecksum = integrity,
             imPieceChecksumList = checksums, imObjectSize = oPayloadSize ob\<rparr> db)"

text \<open>
  The end of the handler: the piece hashes are deleted, unless a delegated upload has this provider as its
  primary.  The error of the deletion stays in the variable the deferred function puts into the task,
  while a goroutine reports the same task; \<open>late\<close> tells whether the report is made after that.
\<close>

definition recv_finish :: "'s env \<Rightarrow> recv_answers \<Rightarrow> bool \<Rightarrow> GfSpReceivePieceTask \<Rightarrow> int list \<Rightarrow> 's ReceiveModular \<Rightarrow> (int list, 's) recv_out" where
  "recv_finish env ans late r signature st =
     (let done = (\<lambda>skip st.
            let (derr, db) = (if skip then (None, rvDB st)
                  else DeleteAllReplicatePieceChecksumOptimized (eDbFails env 3) (oId (rc_ObjectInfo r)) (rc_RedundancyIdx r) (rvDB st));
                err = map_option (\<lambda>e. OtherErr (eDbMsg env e)) derr;
                t = SetError (eUnmarshal env) None (ReceivePiece r)
            in \<lparr>roRet = Ok signature, roErr = err,
                roReport = (if rc_BucketMigration r then None else Some (if late then SetError (eUnmarshal env) err t else t)),
                roState = st\<lparr>rvDB := db\<rparr>\<rparr>)
      in if \<not> rc_IsAgentUploadTask r then done False st
         else (case raPrimary ans (rc_GlobalVirtualGroupId r) of
                 Inl e \<Rightarrow> recv_fail (recv_ErrGfSpDBWithDetail (''failed to QueryGlobalVirtualGroup, error: '' @ raMsg ans e)) None st
               | Inr primary \<Rightarrow>
                   (case recv_getSPID ans st of
                      (Inl e, st1) \<Rightarrow> recv_fail (recv_ErrGfSpDBWithDetail (''failed to getSPID, error: '' @ raMsg ans e)) None st1
                    | (Inr self, st1) \<Rightarrow> done (self = primary) st1)))"

definition recv_verify :: "'s env \<Rightarrow> recv_answers \<Rightarrow> bool \<Rightarrow> GfSpReceivePieceTask \<Rightarrow> bool \<Rightarrow> int list list \<Rightarrow> 's ReceiveModular \<Rightarrow> (int list, 's) recv_out" where
  "recv_verify env ans late r skip checksums st =
     (let ob = rc_ObjectInfo r; idx = i32 (rc_RedundancyIdx r + 1); integrity = eIntegrity env checksums in
      if idx < 0 \<or> int (length (oChecksums ob)) \<le> idx then \<lparr>roRet = Panic, roErr = None, roReport = None, roState = st\<rparr>
      else if oChecksums ob ! nat idx \<noteq> integrity then recv_fail ErrInvalidDataChecksum (Some ErrInvalidDataChecksum) st
      else (case raSign ans (oId ob) (rc_GlobalVirtualGroupId r) (oChecksums ob) of
              Inl e \<Rightarrow> recv_fail e (Some e) st
            | Inr signature \<Rightarrow>
                (case (if skip then (None, rvDB st) else recv_record env r integrity checksums (rvDB st)) of
                   (Some e, db) \<Rightarrow> recv_fail (recv_ErrGfSpDBWithDetail (''failed to write integrity meta to db, error: '' @ eDbMsg env e))
                      (Some (OtherErr (eDbMsg env e))) (st\<lparr>rvDB := db\<rparr>)
                 | (None, db) \<Rightarrow> recv_finish env ans late r signature (st\<lparr>rvDB := db\<rparr>))))"

definition HandleDoneReceivePieceTask :: "'s env \<Rightarrow> recv_answers \<Rightarrow> bool \<Rightarrow> GfSpReceivePieceTask \<Rightarrow> 's ReceiveModular \<Rightarrow> (int list, 's) recv_out" where
  "HandleDoneReceivePieceTask env ans late r st =
     (let t = ReceivePiece r; ob = rc_ObjectInfo r in
      case queue_Push t (rvQueue st) of
        (Some e, q1) \<Rightarrow> recv_fail (queue_err e) (Some (queue_err e)) (st\<lparr>rvQueue := q1\<rparr>)
      | (None, q1) \<Rightarrow>
          let st1 = st\<lparr>rvQueue := snd (queue_PopByKey (Key t) q1)\<rparr> in
          (case SegmentPieceCount (oPayloadSize ob) (MaxSegmentSize (rc_StorageParams r)) of
             None \<Rightarrow> \<lparr>roRet = Panic, roErr = None, roReport = None, roState = st1\<rparr>
           | Some segmentCount \<Rightarrow>
               (case GetAllReplicatePieceChecksumOptimized (eDbFails env 0) (rvDB st) (oId ob) (rc_RedundancyIdx r) segmentCount of
                  Inl e \<Rightarrow> recv_fail (recv_ErrGfSpDBWithDetail (''failed to get checksum from db, error: '' @ eDbMsg env e)) (Some (OtherErr (eDbMsg env e))) st1
                | Inr checksums \<Rightarrow>
                    if int (length checksums) = segmentCount then recv_verify env ans late r False checksums st1
                    else (case GetObjectIntegrity (eDbFails env 1) (rvDB st) (oId ob) (rc_RedundancyIdx r) of
                            Inr meta \<Rightarrow> recv_verify env ans late r True (imPieceChecksumList meta) st1
                          | Inl _ \<Rightarrow> recv_fail ErrUnfinishedTask (Some ErrUnfinishedTask) st1))))"

end
