(* ===== verification/SP_ReceiverProps.thy ===== *)
theory SP_ReceiverProps
  imports SP_Receiver
begin

text \<open>
  Properties of the receiver: when all pieces of an object have arrived, in any order and possibly more than
  once, the object can be finished and its integrity record read back; nothing is signed without the
  expected hash; and where the order of the two writes of a piece shows.
\<close>

subsection \<open>The queue between requests\<close>

text \<open>Between requests the queue is empty: a request pushes its task and the deferred function takes it out.\<close>

definition idle :: "GfSpTQueue \<Rightarrow> bool" where
  "idle q \<longleftrightarrow> queueTasks q = Map.empty \<and> 0 < queueCap q"

lemma idle_request:
  assumes "idle q"
  shows "queue_Has (Key t) q = (False, q)" "\<exists>q1. queue_Push t q = (None, q1) \<and> idle (snd (queue_PopByKey (Key t) q1))"
proof -
  show "queue_Has (Key t) q = (False, q)" using assms by (simp add: idle_def queue_Has_def queue_has_def)
  define q1 where "q1 = q\<lparr>queueTasks := [Key t \<mapsto> t]\<rparr>"
  have "queue_Push t q = (None, q1)"
    using assms by (simp add: idle_def queue_Push_def queue_has_def queue_exceed_def queue_Len_def queue_add_def q1_def)
  moreover have "idle (snd (queue_PopByKey (Key t) q1))"
    using assms by (auto simp: idle_def queue_PopByKey_def queue_has_def queue_delete_def remove_key_def q1_def split: prod.splits)
  ultimately show "\<exists>q1. queue_Push t q = (None, q1) \<and> idle (snd (queue_PopByKey (Key t) q1))" by blast
qed

subsection \<open>Piece hashes\<close>

definition hash_at :: "metadb \<Rightarrow> int \<times> int \<times> int \<Rightarrow> string option" where
  "hash_at db k = map_option phtPieceChecksum (row_find pht_key k (piece_hashes db))"

lemma row_find_map:
  "(\<And>r. key (f r) = key r) \<Longrightarrow> row_find key k (row_map key j f rows) = map_option (\<lambda>r. if k = j then f r else r) (row_find key k rows)"
  by (induction rows) (auto simp: row_find_def row_map_def)

lemma row_find_key: "row_find key k rows = Some r \<Longrightarrow> r \<in> set rows \<and> key r = k"
  by (auto simp: row_find_def find_Some_iff)

lemma row_missing_iff: "row_find key k rows = None \<longleftrightarrow> k \<notin> key ` set rows"
  by (auto simp: row_find_def find_None_iff)

lemma SetChecksum_hash:
  assumes "hashes_inv db" "0 \<le> seg"
  obtains db' where "SetReplicatePieceChecksum no_faults ob seg ri c v db = (None, db')" "hashes_inv db'"
    "\<And>k. hash_at db' k = (if k = (ob, seg, ri) then Some (EncodeToString c) else hash_at db k)" "integrity_metas db' = integrity_metas db"
proof -
  define row where "row = \<lparr>phtObjectID = ob, phtSegmentIndex = seg, phtRedundancyIndex = ri, phtPieceChecksum = EncodeToString c, phtVersion = v\<rparr>"
  have k: "pht_key row = (ob, seg, ri)" by (simp add: row_def pht_key_def)
  define db' where "db' = snd (SetReplicatePieceChecksum no_faults ob seg ri c v db)"
  have s: "SetReplicatePieceChecksum no_faults ob seg ri c v db = (None, db')"
    by (simp add: db'_def SetReplicatePieceChecksum_def Let_def)
  have i: "integrity_metas db' = integrity_metas db" by (simp add: db'_def SetReplicatePieceChecksum_def Let_def)
  show ?thesis
  proof (cases "row_find pht_key (ob, seg, ri) (piece_hashes db)")
    case None
    then have p: "piece_hashes db' = piece_hashes db @ [row]"
      using k by (simp add: db'_def SetReplicatePieceChecksum_def Let_def row_def)
    have "hashes_inv db'" using assms None k by (auto simp: hashes_inv_def p row_missing_iff row_def)
    moreover have "hash_at db' x = (if x = (ob, seg, ri) then Some (EncodeToString c) else hash_at db x)" for x
      using None k by (auto simp: hash_at_def p row_find_def find_append row_def split: option.splits)
    ultimately show ?thesis using that s i by blast
  next
    case (Some r)
    let ?f = "\<lambda>rows. row_map pht_key (ob, seg, ri) (\<lambda>_. row) rows"
    have p: "piece_hashes db' = ?f (piece_hashes db)" using Some k by (simp add: db'_def SetReplicatePieceChecksum_def Let_def row_def)
    have m: "map pht_key (?f rows) = map pht_key rows" for rows using k by (induction rows) (auto simp: row_map_def)
    have "q \<in> set (?f rows) \<Longrightarrow> q = row \<or> q \<in> set rows" for q rows by (auto simp: row_map_def split: if_splits)
    then have "\<forall>q \<in> set (piece_hashes db'). 0 \<le> phtSegmentIndex q"
      using assms unfolding p hashes_inv_def by (metis row_def PieceHashTable.select_convs(2))
    then have "hashes_inv db'" using assms(1) m [of "piece_hashes db"] unfolding hashes_inv_def p by simp
    moreover have "row_find pht_key x (?f rows) = (if x = (ob, seg, ri) \<and> row_find pht_key x rows \<noteq> None then Some row else row_find pht_key x rows)" for x rows
      using k by (induction rows) (auto simp: row_find_def row_map_def)
    then have "hash_at db' x = (if x = (ob, seg, ri) then Some (EncodeToString c) else hash_at db x)" for x
      using Some by (auto simp: hash_at_def p row_def)
    ultimately show ?thesis using that s i by blast
  qed
qed

lemma all_hashes:
  assumes "hashes_inv db" "\<And>i. i < length cs \<Longrightarrow> hash_at db (ob, int i, ri) = Some (EncodeToString (cs ! i))" "\<forall>c \<in> set cs. \<forall>b \<in> set c. is_u8 b"
  shows "GetAllReplicatePieceChecksumOptimized no_faults db ob ri (int (length cs)) = Inr cs"
proof -
  have c: "complete_upto (length cs) ob ri db"
  proof (unfold complete_upto_def, intro allI impI)
    fix i assume "i < length cs"
    then obtain r where "row_find pht_key (ob, int i, ri) (piece_hashes db) = Some r" using assms(2) by (fastforce simp: hash_at_def)
    from row_find_key [OF this] show "(ob, int i, ri) \<in> pht_key ` set (piece_hashes db)" by force
  qed
  define qs where "qs = take (length cs) (rows_of ob ri db)"
  have m: "map phtSegmentIndex qs = map int [0..<length cs]" using take_rows [OF assms(1) c] by (simp add: qs_def)
  then have l: "length qs = length cs" by (metis diff_zero length_map length_upt)
  have "phtPieceChecksum (qs ! i) = EncodeToString (cs ! i)" if "i < length cs" for i
  proof -
    have q: "qs ! i \<in> set (rows_of ob ri db)" using that l nth_mem [of i qs] set_take_subset unfolding qs_def by fastforce
    have "phtSegmentIndex (qs ! i) = int i" using arg_cong [OF m, of "\<lambda>x. x ! i"] that l by simp
    then have "row_find pht_key (ob, int i, ri) (piece_hashes db) = Some (qs ! i)"
      using find_distinct [of pht_key "piece_hashes db" "qs ! i"] q assms(1) by (auto simp: rows_of_set hashes_inv_def pht_key_def)
    then show ?thesis using assms(2) [OF that] by (simp add: hash_at_def)
  qed
  moreover have "DecodeString (EncodeToString (cs ! i)) = Some (cs ! i)" if "i < length cs" for i
    using hex_roundtrip assms(3) nth_mem [OF that] by blast
  ultimately have "map (\<lambda>q. DecodeString (phtPieceChecksum q)) qs = map Some cs"
    using l by (intro nth_equalityI) simp_all
  moreover have "those (map Some cs) = Some cs" using those_map_Some [of cs Some "\<lambda>x. x"] by simp
  ultimately show ?thesis by (simp add: GetAllReplicatePieceChecksumOptimized_def rows_of_def [symmetric] qs_def [symmetric])
qed

lemma record_read_back:
  assumes "bytes (imIntegrityChecksum meta)" "hashes (imPieceChecksumList meta)" "row_find imt_key (imObjectID meta, imRedundancyIndex meta) (integrity_metas db) = None"
  shows "\<exists>db'. SetObjectIntegrity no_faults meta db = (None, db') \<and> GetObjectIntegrity no_faults db' (imObjectID meta) (imRedundancyIndex meta) = Inr meta"
  using hex_roundtrip [of "imIntegrityChecksum meta"] slice_roundtrip [OF assms(2)] assms(1,3)
  by (auto simp: SetObjectIntegrity_def GetObjectIntegrity_def row_find_def find_append imt_key_def bytes_def split: option.splits)

subsection \<open>Arrivals\<close>

text \<open>An arrival of a segment of an object at this provider, with the data the object has there.\<close>

definition arrival :: "'s env \<Rightarrow> ObjectInfo \<Rightarrow> int \<Rightarrow> (int \<Rightarrow> int list) \<Rightarrow> GfSpReceivePieceTask \<Rightarrow> int list \<Rightarrow> bool" where
  "arrival env ob ri payload r data \<longleftrightarrow> rc_ObjectInfo r = ob \<and> rc_RedundancyIdx r = ri \<and> 0 \<le> rc_SegmentIdx r
     \<and> data = payload (rc_SegmentIdx r) \<and> rc_PieceChecksum r = eChecksum env data"

definition receive_all :: "'s env \<Rightarrow> (GfSpReceivePieceTask \<times> int list) list \<Rightarrow> 's ReceiveModular \<Rightarrow> 's ReceiveModular" where
  "receive_all env = fold (\<lambda>(r, data) st. roState (recv_HandleReceivePieceTask env r data st))"

text \<open>A database and a store without faults.\<close>

definition fault_free :: "'s env \<Rightarrow> bool" where
  "fault_free env \<longleftrightarrow> (\<forall>n. eDbFails env n = no_faults) \<and> (\<forall>s k d. \<exists>s'. ePut env s k d = Inr s')"

lemma receive_one:
  assumes "idle (rvQueue st)" "hashes_inv (rvDB st)" "fault_free env" "arrival env ob ri payload r data"
  obtains st' where "recv_HandleReceivePieceTask env r data st = \<lparr>roRet = Ok (), roErr = None, roReport = None, roState = st'\<rparr>"
    "idle (rvQueue st')" "hashes_inv (rvDB st')" "integrity_metas (rvDB st') = integrity_metas (rvDB st)" "rvSpID st' = rvSpID st"
    "\<And>k. hash_at (rvDB st') k = (if k = (oId ob, rc_SegmentIdx r, ri) then Some (EncodeToString (eChecksum env (payload (rc_SegmentIdx r)))) else hash_at (rvDB st) k)"
proof -
  note a = assms(4) [unfolded arrival_def]
  obtain q1 where q: "queue_Push (ReceivePiece r) (rvQueue st) = (None, q1)" "idle (snd (queue_PopByKey (Key (ReceivePiece r)) q1))"
    using idle_request(2) [OF assms(1), of "ReceivePiece r"] by auto
  obtain db' where db: "SetReplicatePieceChecksum no_faults (oId ob) (rc_SegmentIdx r) ri (rc_PieceChecksum r) (oVersion ob) (rvDB st) = (None, db')" "hashes_inv db'"
    "\<And>k. hash_at db' k = (if k = (oId ob, rc_SegmentIdx r, ri) then Some (EncodeToString (rc_PieceChecksum r)) else hash_at (rvDB st) k)"
    "integrity_metas db' = integrity_metas (rvDB st)"
    using SetChecksum_hash [OF assms(2)] a by metis
  obtain s where s: "ePut env (rvStore st) (recv_piece_key r) data = Inr s" using assms(3) unfolding fault_free_def by blast
  define st' where "st' = st\<lparr>rvQueue := snd (queue_PopByKey (Key (ReceivePiece r)) q1), rvDB := db', rvStore := s\<rparr>"
  have "recv_HandleReceivePieceTask env r data st = \<lparr>roRet = Ok (), roErr = None, roReport = None, roState = st'\<rparr>"
    using a db(1) s q(1) assms(3) idle_request(1) [OF assms(1), of "ReceivePiece r"]
    by (simp add: recv_HandleReceivePieceTask_def Let_def fault_free_def PutPiece_def st'_def del: Key.simps)
  then show ?thesis using that [of st'] q(2) db(2,3,4) a by (simp add: st'_def)
qed

lemma receive_all_hashes:
  assumes "idle (rvQueue st)" "hashes_inv (rvDB st)" "fault_free env" "\<forall>(r, data) \<in> set rs. arrival env ob ri payload r data"
  shows "idle (rvQueue (receive_all env rs st)) \<and> hashes_inv (rvDB (receive_all env rs st))
    \<and> integrity_metas (rvDB (receive_all env rs st)) = integrity_metas (rvDB st)
    \<and> (\<forall>i. hash_at (rvDB (receive_all env rs st)) (oId ob, i, ri)
          = (if i \<in> (rc_SegmentIdx \<circ> fst) ` set rs then Some (EncodeToString (eChecksum env (payload i))) else hash_at (rvDB st) (oId ob, i, ri)))"
  using assms
proof (induction rs arbitrary: st)
  case (Cons x rs)
  obtain r data where x: "x = (r, data)" by force
  have "arrival env ob ri payload r data" using Cons.prems(4) x by simp
  from receive_one [OF Cons.prems(1-3) this] obtain st' where st': "roState (recv_HandleReceivePieceTask env r data st) = st'"
    "idle (rvQueue st')" "hashes_inv (rvDB st')" "integrity_metas (rvDB st') = integrity_metas (rvDB st)"
    "\<And>k. hash_at (rvDB st') k = (if k = (oId ob, rc_SegmentIdx r, ri) then Some (EncodeToString (eChecksum env (payload (rc_SegmentIdx r)))) else hash_at (rvDB st) k)"
    by (metis recv_out.select_convs(4))
  have "receive_all env (x # rs) st = receive_all env rs st'" using st'(1) x by (simp add: receive_all_def)
  with Cons.IH [OF st'(2,3) Cons.prems(3)] Cons.prems(4) st'(4,5) x show ?case by auto
qed (simp add: receive_all_def)

subsection \<open>Properties\<close>

text \<open>A provider that holds the second piece row of an object of two segments.\<close>

definition sample_recv_object :: ObjectInfo where
  "sample_recv_object = \<lparr>oBucketName = ''b'', oObjectName = ''o'', oId = 7, oPayloadSize = 3, oRedundancyType = REDUNDANCY_EC_TYPE,
     oVersion = 0, oObjectStatus = OBJECT_STATUS_CREATED, oIsUpdating = False, oChecksums = [[0], [1, 2]], oOwner = [],
     oCreateAt = 0, oLocalVirtualGroupId = 0\<rparr>"

definition sample_recv :: "int \<Rightarrow> int \<Rightarrow> int list \<Rightarrow> GfSpReceivePieceTask" where
  "sample_recv seg idx checksum = \<lparr>rc_Task = zero_task, rc_ObjectInfo = sample_recv_object,
     rc_StorageParams = \<lparr>MaxPayloadSize = 100, MaxSegmentSize = seg, RedundantDataChunkNum = 4, RedundantParityChunkNum = 2\<rparr>,
     rc_SegmentIdx = idx, rc_RedundancyIdx = 0, rc_PieceSize = 1, rc_PieceChecksum = checksum, rc_Signature = [], rc_Sealed = False,
     rc_Finished = False, rc_GlobalVirtualGroupId = 1, rc_BucketMigration = False, rc_IsAgentUploadTask = False\<rparr>"

definition sample_recv_env :: "(string list \<Rightarrow> string \<Rightarrow> int list \<Rightarrow> store_error + string list) \<Rightarrow> string list env" where
  "sample_recv_env put = \<lparr>eChecksum = \<lambda>x. x, eIntegrity = concat, ePut = put, eStoreMsg = \<lambda>_. [], eDbMsg = \<lambda>_. [],
     eUnmarshal = \<lambda>_. None, eStamp = [], eNow = 9, eDbFails = \<lambda>_ _. False\<rparr>"

definition sample_recv_answers :: recv_answers where
  "sample_recv_answers = \<lparr>raSign = \<lambda>_ _ _. Inr [9], raPrimary = \<lambda>_. Inr 1, raSelf = Inr 2, raMsg = \<lambda>_. []\<rparr>"

definition sample_receiver :: "string list ReceiveModular" where
  "sample_receiver = \<lparr>rvQueue = NewGfSpTQueue [] 8, rvStore = [],
     rvDB = \<lparr>integrity_metas = [], shadow_metas = [], piece_hashes = [], upload_progress = []\<rparr>, rvSpID = 0\<rparr>"

lemmas sample_recv_defs = sample_recv_object_def sample_recv_def sample_recv_env_def sample_recv_answers_def sample_receiver_def

lemma sample_receiver_ready:
  "idle (rvQueue sample_receiver)" "hashes_inv (rvDB sample_receiver)" "row_find imt_key k (integrity_metas (rvDB sample_receiver)) = None"
  by (simp_all add: sample_receiver_def idle_def NewGfSpTQueue_def hashes_inv_def row_find_def)

text \<open>Clearing the error of a task twice is clearing it once.\<close>

lemma SetError_again: "SetError js None (SetError js None (ReceivePiece r)) = SetError js None (ReceivePiece r)"
  by (simp add: SetError_def base_SetError_def)

text \<open>Finishing an object whose piece hashes are all recorded.\<close>

lemma done_recorded:
  assumes st1: "idle (rvQueue st1)" "hashes_inv (rvDB st1)" and f: "\<And>k. eDbFails env k = no_faults"
    and hash: "\<And>i. i < length cs \<Longrightarrow> hash_at (rvDB st1) (oId ob, int i, ri) = Some (EncodeToString (cs ! i))"
    and count: "SegmentPieceCount (oPayloadSize ob) (MaxSegmentSize (rc_StorageParams done)) = Some (int (length cs))"
    and bytes: "hashes cs" "bytes (eIntegrity env cs)"
    and task: "rc_ObjectInfo done = ob" "rc_RedundancyIdx done = ri" "\<not> rc_IsAgentUploadTask done" "\<not> oIsUpdating ob"
    and idx: "0 \<le> ri + 1" "ri + 1 < int (length (oChecksums ob))" "ri < 2 ^ 31 - 1" "oChecksums ob ! nat (ri + 1) = eIntegrity env cs"
    and fresh: "row_find imt_key (oId ob, ri) (integrity_metas (rvDB st1)) = None"
    and sign: "raSign ans (oId ob) (rc_GlobalVirtualGroupId done) (oChecksums ob) = Inr signature"
  shows "let out = HandleDoneReceivePieceTask env ans late done st1; db = rvDB (roState out) in
     roRet out = Ok signature \<and> roErr out = None \<and> roReport out = (if rc_BucketMigration done then None else Some (SetError (eUnmarshal env) None (ReceivePiece done)))
     \<and> GetObjectIntegrity no_faults db (oId ob) ri = Inr \<lparr>imObjectID = oId ob, imRedundancyIndex = ri, imIntegrityChecksum = eIntegrity env cs,
          imPieceChecksumList = cs, imObjectSize = oPayloadSize ob\<rparr>
     \<and> (\<forall>i. hash_at db (oId ob, i, ri) = None)"
proof -
  obtain q where q: "queue_Push (ReceivePiece done) (rvQueue st1) = (None, q)" using idle_request(2) st1(1) by blast
  have get: "GetAllReplicatePieceChecksumOptimized no_faults (rvDB st1) (oId ob) ri (int (length cs)) = Inr cs"
    using all_hashes [OF st1(2) hash] bytes(1) by (auto simp: hashes_def bytes_def)
  have i: "i32 (ri + 1) = ri + 1" using idx by (intro i32_id) simp_all
  define meta where "meta = \<lparr>imObjectID = oId ob, imRedundancyIndex = ri, imIntegrityChecksum = eIntegrity env cs, imPieceChecksumList = cs, imObjectSize = oPayloadSize ob\<rparr>"
  obtain db where db: "SetObjectIntegrity no_faults meta (rvDB st1) = (None, db)" "GetObjectIntegrity no_faults db (oId ob) ri = Inr meta"
    using record_read_back [of meta "rvDB st1"] bytes fresh by (auto simp: meta_def)
  define db' where "db' = snd (DeleteAllReplicatePieceChecksumOptimized no_faults (oId ob) ri db)"
  have del: "DeleteAllReplicatePieceChecksumOptimized no_faults (oId ob) ri db = (None, db')" "integrity_metas db' = integrity_metas db"
    "hash_at db' (oId ob, x, ri) = None" for x
    by (auto simp: db'_def DeleteAllReplicatePieceChecksumOptimized_def hash_at_def row_missing_iff pht_key_def)
  have "GetObjectIntegrity no_faults db' (oId ob) ri = Inr meta" using db(2) del(2) by (simp add: GetObjectIntegrity_def)
  moreover have "roRet out = Ok signature \<and> roErr out = None \<and> roReport out = (if rc_BucketMigration done then None else Some (SetError (eUnmarshal env) None (ReceivePiece done)))
      \<and> rvDB (roState out) = db'"
    if "out = HandleDoneReceivePieceTask env ans late done st1" for out
    using that q get i idx task sign db(1) del(1) count
    by (simp add: HandleDoneReceivePieceTask_def recv_verify_def recv_record_def recv_finish_def Let_def f meta_def SetError_again del: Key.simps)
  ultimately show ?thesis using del(3) by (simp add: Let_def meta_def)
qed

text \<open>
  C11: When every segment of an object has arrived with the checksum of its data, in whatever order and however
  often, finishing the object succeeds exactly as the primary expects: the signature of the chain's
  checksums is returned, the integrity record with the hashes of the pieces in their order can be read
  back, the piece hashes are gone, and the task is reported without an error.
\<close>

theorem received_object_recorded:
  assumes "idle (rvQueue st)" "hashes_inv (rvDB st)" "fault_free env"
    and arr: "\<forall>(r, data) \<in> set rs. arrival env ob ri payload r data"
    and count: "SegmentPieceCount (oPayloadSize ob) (MaxSegmentSize (rc_StorageParams done)) = Some (int n)"
    and all: "\<forall>i < n. int i \<in> (rc_SegmentIdx \<circ> fst) ` set rs"
    and cs_def: "cs = map (\<lambda>i. eChecksum env (payload (int i))) [0..<n]"
    and bytes: "hashes cs" "bytes (eIntegrity env cs)"
    and task: "rc_ObjectInfo done = ob" "rc_RedundancyIdx done = ri" "\<not> rc_IsAgentUploadTask done" "\<not> oIsUpdating ob"
    and idx: "0 \<le> ri + 1" "ri + 1 < int (length (oChecksums ob))" "ri < 2 ^ 31 - 1" "oChecksums ob ! nat (ri + 1) = eIntegrity env cs"
    and fresh: "row_find imt_key (oId ob, ri) (integrity_metas (rvDB st)) = None"
    and sign: "raSign ans (oId ob) (rc_GlobalVirtualGroupId done) (oChecksums ob) = Inr signature"
  shows "let out = HandleDoneReceivePieceTask env ans late done (receive_all env rs st); db = rvDB (roState out) in
     roRet out = Ok signature \<and> roErr out = None \<and> roReport out = (if rc_BucketMigration done then None else Some (SetError (eUnmarshal env) None (ReceivePiece done)))
     \<and> GetObjectIntegrity no_faults db (oId ob) ri = Inr \<lparr>imObjectID = oId ob, imRedundancyIndex = ri, imIntegrityChecksum = eIntegrity env cs,
          imPieceChecksumList = cs, imObjectSize = oPayloadSize ob\<rparr>
     \<and> (\<forall>i. hash_at db (oId ob, i, ri) = None)"
proof (rule done_recorded)
  note r = receive_all_hashes [OF assms(1-3) arr]
  show "idle (rvQueue (receive_all env rs st))" "hashes_inv (rvDB (receive_all env rs st))" using r by simp_all
  show "eDbFails env k = no_faults" for k using assms(3) by (simp add: fault_free_def)
  show "hash_at (rvDB (receive_all env rs st)) (oId ob, int i, ri) = Some (EncodeToString (cs ! i))" if "i < length cs" for i
    using r all that by (simp add: cs_def)
  show "row_find imt_key (oId ob, ri) (integrity_metas (rvDB (receive_all env rs st))) = None" using r fresh by simp
qed (use count bytes task idx sign in \<open>simp_all add: cs_def\<close>)

theorem received_object_recorded_witness:
  "let out = HandleDoneReceivePieceTask (sample_recv_env (\<lambda>s k d. Inr (k # s))) sample_recv_answers True (sample_recv 2 0 [])
       (receive_all (sample_recv_env (\<lambda>s k d. Inr (k # s))) [(sample_recv 2 1 [2], [2]), (sample_recv 2 0 [1], [1]), (sample_recv 2 1 [2], [2])] sample_receiver)
   in roRet out = Ok [9] \<and> GetObjectIntegrity no_faults (rvDB (roState out)) 7 0 =
        Inr \<lparr>imObjectID = 7, imRedundancyIndex = 0, imIntegrityChecksum = [1, 2], imPieceChecksumList = [[1], [2]], imObjectSize = 3\<rparr>"
proof -
  define env where "env = sample_recv_env (\<lambda>s k d. Inr (k # s))"
  define payload where "payload = (\<lambda>i :: int. [i + 1])"
  define rs where "rs = [(sample_recv 2 1 [2], [2 :: int]), (sample_recv 2 0 [1], [1]), (sample_recv 2 1 [2], [2])]"
  have cs: "[[1], [2]] = map (\<lambda>i. eChecksum env (payload (int i))) [0..<2]" by (simp add: env_def payload_def sample_recv_env_def numeral_2_eq_2)
  have "\<forall>(r, data) \<in> set rs. arrival env sample_recv_object 0 payload r data" "fault_free env" "\<forall>i < 2. int i \<in> (rc_SegmentIdx \<circ> fst) ` set rs"
    "SegmentPieceCount (oPayloadSize sample_recv_object) (MaxSegmentSize (rc_StorageParams (sample_recv 2 0 []))) = Some (int 2)"
    "hashes [[1], [2]]" "bytes (eIntegrity env [[1], [2]])" "oChecksums sample_recv_object ! nat (0 + 1) = eIntegrity env [[1], [2]]"
    by (auto simp: rs_def env_def payload_def sample_recv_defs arrival_def fault_free_def SegmentPieceCount_def hashes_def bytes_def is_u8_def u32_def u64_def numeral_2_eq_2 less_Suc_eq)
  note c = this
  from received_object_recorded [where ri = 0 and late = True and ans = sample_recv_answers and signature = "[9]",
      OF sample_receiver_ready(1,2) c(2,1,4,3) cs c(5,6)]
  show ?thesis using c(7) by (simp add: env_def [symmetric] rs_def [symmetric] Let_def sample_receiver_ready) (simp add: env_def sample_recv_defs)
qed

text \<open>
  C12: A secondary provider signs an object only when the hash over the piece hashes it has recorded, or over those
  of an integrity record it already has, is the one the chain expects of it.
\<close>

theorem signed_only_with_expected_hash:
  assumes "roRet (HandleDoneReceivePieceTask env ans late r st) = Ok signature"
  shows "\<exists>cs count. SegmentPieceCount (oPayloadSize (rc_ObjectInfo r)) (MaxSegmentSize (rc_StorageParams r)) = Some count
     \<and> oChecksums (rc_ObjectInfo r) ! nat (i32 (rc_RedundancyIdx r + 1)) = eIntegrity env cs
     \<and> raSign ans (oId (rc_ObjectInfo r)) (rc_GlobalVirtualGroupId r) (oChecksums (rc_ObjectInfo r)) = Inr signature
     \<and> (int (length cs) = count \<and> GetAllReplicatePieceChecksumOptimized (eDbFails env 0) (rvDB st) (oId (rc_ObjectInfo r)) (rc_RedundancyIdx r) count = Inr cs
        \<or> (\<exists>meta. GetObjectIntegrity (eDbFails env 1) (rvDB st) (oId (rc_ObjectInfo r)) (rc_RedundancyIdx r) = Inr meta \<and> cs = imPieceChecksumList meta))"
proof -
  have f: "roRet (recv_finish env ans late r sig st1) = Ok signature \<Longrightarrow> sig = signature" for sig st1
    by (auto simp: recv_finish_def recv_fail_def Let_def split: if_splits sum.splits prod.splits)
  have v: "oChecksums (rc_ObjectInfo r) ! nat (i32 (rc_RedundancyIdx r + 1)) = eIntegrity env cs
      \<and> raSign ans (oId (rc_ObjectInfo r)) (rc_GlobalVirtualGroupId r) (oChecksums (rc_ObjectInfo r)) = Inr signature"
    if "roRet (recv_verify env ans late r skip cs st1) = Ok signature" for skip cs st1
    using that by (auto simp: recv_verify_def recv_fail_def Let_def dest: f split: if_splits sum.splits prod.splits option.splits)
  show ?thesis using assms
    by (auto simp: HandleDoneReceivePieceTask_def recv_fail_def Let_def dest!: v simp del: Key.simps split: if_splits sum.splits prod.splits option.splits)
qed

theorem signed_only_with_expected_hash_witness:
  "\<exists>cs. [1, 2] = concat cs \<and> GetAllReplicatePieceChecksumOptimized no_faults
     (snd (SetReplicatePieceChecksum no_faults 7 0 0 [1, 2] 0 (rvDB sample_receiver))) 7 0 1 = Inr cs"
proof -
  define env where "env = sample_recv_env (\<lambda>s k d. Inr (k # s))"
  obtain db where db: "SetReplicatePieceChecksum no_faults 7 0 0 [1, 2] 0 (rvDB sample_receiver) = (None, db)" "hashes_inv db"
      "\<And>k. hash_at db k = (if k = (7, 0, 0) then Some (EncodeToString [1, 2]) else hash_at (rvDB sample_receiver) k)"
      "integrity_metas db = integrity_metas (rvDB sample_receiver)"
    using SetChecksum_hash [OF sample_receiver_ready(2), of 0] by (metis order_refl)
  define st where "st = sample_receiver\<lparr>rvDB := db\<rparr>"
  have "roRet (HandleDoneReceivePieceTask env sample_recv_answers True (sample_recv 4 0 []) st) = Ok [9]"
    using done_recorded [of st env "[[1, 2]]" sample_recv_object 0 "sample_recv 4 0 []" sample_recv_answers "[9]" True] sample_receiver_ready(1) db(2,3,4)
    by (simp add: Let_def st_def env_def sample_recv_defs SegmentPieceCount_def hashes_def bytes_def is_u8_def u32_def u64_def row_find_def)
  from signed_only_with_expected_hash [OF this] obtain cs where "concat cs = [1, 2]"
    "GetAllReplicatePieceChecksumOptimized no_faults db 7 0 1 = Inr cs \<or> (\<exists>meta. GetObjectIntegrity no_faults db 7 0 = Inr meta)"
    by (auto simp: st_def env_def sample_recv_defs SegmentPieceCount_def u32_def u64_def i32_def)
  moreover have "\<nexists>meta. GetObjectIntegrity no_faults db 7 0 = Inr meta" using db(4) sample_receiver_ready(3) by (simp add: GetObjectIntegrity_def)
  ultimately show ?thesis using db(1) by auto
qed

text \<open>
  C39: The checksum of a piece is recorded before the piece is stored, so a piece the store refused counts as
  received: the request fails, nothing is stored, and yet the object can be finished and is signed.
\<close>

theorem refused_piece_counts_as_received:
  assumes "idle (rvQueue st)" "hashes_inv (rvDB st)" "\<forall>k. eDbFails env k = no_faults" "ePut env (rvStore st) (recv_piece_key r) data = Inl e"
    and r: "rc_ObjectInfo r = ob" "rc_RedundancyIdx r = ri" "rc_SegmentIdx r = 0" "rc_PieceChecksum r = eChecksum env data"
    and count: "SegmentPieceCount (oPayloadSize ob) (MaxSegmentSize (rc_StorageParams r)) = Some 1"
    and bytes: "hashes [eChecksum env data]" "bytes (eIntegrity env [eChecksum env data])"
    and task: "\<not> rc_IsAgentUploadTask r" "\<not> oIsUpdating ob"
    and idx: "0 \<le> ri + 1" "ri + 1 < int (length (oChecksums ob))" "ri < 2 ^ 31 - 1" "oChecksums ob ! nat (ri + 1) = eIntegrity env [eChecksum env data]"
    and fresh: "row_find imt_key (oId ob, ri) (integrity_metas (rvDB st)) = None"
    and sign: "raSign ans (oId ob) (rc_GlobalVirtualGroupId r) (oChecksums ob) = Inr signature"
  shows "let out = recv_HandleReceivePieceTask env r data st in
     (\<exists>err. roRet out = Fail err) \<and> rvStore (roState out) = rvStore st \<and> roRet (HandleDoneReceivePieceTask env ans late r (roState out)) = Ok signature"
proof -
  obtain q1 where q: "queue_Push (ReceivePiece r) (rvQueue st) = (None, q1)" "idle (snd (queue_PopByKey (Key (ReceivePiece r)) q1))"
    using idle_request(2) [OF assms(1), of "ReceivePiece r"] by auto
  obtain db' where db: "SetReplicatePieceChecksum no_faults (oId ob) 0 ri (eChecksum env data) (oVersion ob) (rvDB st) = (None, db')" "hashes_inv db'"
    "\<And>k. hash_at db' k = (if k = (oId ob, 0, ri) then Some (EncodeToString (eChecksum env data)) else hash_at (rvDB st) k)"
    "integrity_metas db' = integrity_metas (rvDB st)"
    using SetChecksum_hash [OF assms(2), of 0] by (metis order_refl)
  define st' where "st' = st\<lparr>rvQueue := snd (queue_PopByKey (Key (ReceivePiece r)) q1), rvDB := db'\<rparr>"
  define out where "out = recv_HandleReceivePieceTask env r data st"
  have o: "(\<exists>err. roRet out = Fail err) \<and> roState out = st'"
    using r db(1) q(1) assms(3,4) idle_request(1) [OF assms(1), of "ReceivePiece r"]
    by (simp add: out_def recv_HandleReceivePieceTask_def Let_def PutPiece_def recv_fail_def st'_def del: Key.simps)
  have "let out = HandleDoneReceivePieceTask env ans late r st'; db = rvDB (roState out) in
     roRet out = Ok signature \<and> roErr out = None \<and> roReport out = (if rc_BucketMigration r then None else Some (SetError (eUnmarshal env) None (ReceivePiece r)))
     \<and> GetObjectIntegrity no_faults db (oId ob) ri = Inr \<lparr>imObjectID = oId ob, imRedundancyIndex = ri, imIntegrityChecksum = eIntegrity env [eChecksum env data],
          imPieceChecksumList = [eChecksum env data], imObjectSize = oPayloadSize ob\<rparr>
     \<and> (\<forall>i. hash_at db (oId ob, i, ri) = None)"
    by (rule done_recorded) (use q(2) db r assms(3) count bytes task idx fresh sign in \<open>simp_all add: st'_def\<close>)
  then show ?thesis using o by (simp add: out_def [symmetric] Let_def st'_def)
qed

theorem refused_piece_counts_as_received_witness:
  "let env = sample_recv_env (\<lambda>s k d. Inl (ErrOS [])); out = recv_HandleReceivePieceTask env (sample_recv 4 0 [1, 2]) [1, 2] sample_receiver in
     (\<exists>err. roRet out = Fail err) \<and> rvStore (roState out) = [] \<and> roRet (HandleDoneReceivePieceTask env sample_recv_answers False (sample_recv 4 0 [1, 2]) (roState out)) = Ok [9]"
proof -
  define env where "env = sample_recv_env (\<lambda>s k d. Inl (ErrOS []))"
  have "\<forall>k. eDbFails env k = no_faults" "ePut env (rvStore sample_receiver) (recv_piece_key (sample_recv 4 0 [1, 2])) [1, 2] = Inl (ErrOS [])"
    "rc_PieceChecksum (sample_recv 4 0 [1, 2]) = eChecksum env [1, 2]" "SegmentPieceCount (oPayloadSize sample_recv_object) (MaxSegmentSize (rc_StorageParams (sample_recv 4 0 [1, 2]))) = Some 1"
    "hashes [eChecksum env [1, 2]]" "bytes (eIntegrity env [eChecksum env [1, 2]])" "oChecksums sample_recv_object ! nat (0 + 1) = eIntegrity env [eChecksum env [1, 2]]"
    by (simp_all add: env_def sample_recv_defs SegmentPieceCount_def hashes_def bytes_def is_u8_def u32_def u64_def)
  from refused_piece_counts_as_received [where late = False and ans = sample_recv_answers and signature = "[9]" and ob = sample_recv_object and ri = 0,
      OF sample_receiver_ready(1,2) this(1,2) _ _ _ this(3,4,5,6) _ _ _ _ _ this(7) sample_receiver_ready(3)]
  show ?thesis by (simp add: env_def [symmetric] Let_def) (simp add: sample_recv_defs)
qed

end
