(* ===== verification/SP_Retry.thy ===== *)
theory SP_Retry
  imports SP_ManagerLoop "HOL-Library.Sublist"
begin

text \<open>
  The scheduler that tries uploads again, \<^verbatim>\<open>src/modular/manager/task_retry_scheduler.go\<close>, with the sending of
  transactions of \<^verbatim>\<open>sp_exit_scheduler.go\<close>.  Three endless loops, one for each kind of work, go over the rows of the
  upload progress with an iterator that reads a hundred rows at a time.  A pass of a loop gets one
  environment for each turn: the clock at the three places where a turn reads it and the answers of the chain,
  the client and the signature library there.  Sleeping is not modelled otherwise, and the two ends of a range of
  times are computed from one reading of the clock.
\<close>

subsection \<open>State\<close>

datatype RetryTaskType = retryReplicate | retrySeal | retryRejectUnseal

record TaskRetryInfo =
  riTaskKey :: string
  riTriedTimes :: int
  riNextExecutionTime :: int

datatype retry_msg =
    MsgSealObject string string string int "int list"
  | MsgSealObjectV2 string string string int "int list" "int list list"
  | MsgRejectSealObject string string string

text \<open>The manager is shared by reference; \<open>rsSent\<close> lists the messages the client was asked to broadcast.\<close>

record TaskRetryScheduler =
  rsManager :: ManageModular
  rejectUnsealThresholdSecond :: int
  replicateTaskBackOffMap :: "string \<rightharpoonup> TaskRetryInfo"
  sealTaskBackOffMap :: "string \<rightharpoonup> TaskRetryInfo"
  rejectUnsealTaskBackOffMap :: "string \<rightharpoonup> TaskRetryInfo"
  rsSent :: "retry_msg list"

definition defaultRejectUnsealThresholdSecond :: int where "defaultRejectUnsealThresholdSecond = 1 * 24 * 60 * 60"
definition prefetchLimit :: nat where "prefetchLimit = 100"
definition retryIntervalSecond :: int where "retryIntervalSecond = 1000000000"
definition maxLengthOfNextExecutionBackOffMap :: nat where "maxLengthOfNextExecutionBackOffMap = 100000"
definition confirmRetryNumber :: nat where "confirmRetryNumber = 3"

definition NewTaskRetryScheduler :: "int \<Rightarrow> ManageModular \<Rightarrow> TaskRetryScheduler" where
  "NewTaskRetryScheduler threshold m = \<lparr>rsManager = m,
     rejectUnsealThresholdSecond = (if i64 threshold = 0 then defaultRejectUnsealThresholdSecond else i64 threshold),
     replicateTaskBackOffMap = Map.empty, sealTaskBackOffMap = Map.empty, rejectUnsealTaskBackOffMap = Map.empty, rsSent = []\<rparr>"

record retry_env =
  rnEnv :: menv
  rnEntry :: int
  rnCheck :: int
  rnAfter :: int
  rnPrefetch :: faults
  rnOperator :: string
  rnSigErr :: "int list \<Rightarrow> manager_error option"
  rnAggregate :: "int list list \<Rightarrow> int list"
  rnIntegrity :: "int list list \<Rightarrow> int list"
  rnSend :: "retry_msg \<Rightarrow> nat \<Rightarrow> string \<times> string option"
  rnConfirm :: "string \<Rightarrow> nat \<Rightarrow> string option"

subsection \<open>Back-off\<close>

fun backOffMap :: "RetryTaskType \<Rightarrow> TaskRetryScheduler \<Rightarrow> string \<rightharpoonup> TaskRetryInfo" where
  "backOffMap retryReplicate s = replicateTaskBackOffMap s"
| "backOffMap retrySeal s = sealTaskBackOffMap s"
| "backOffMap retryRejectUnseal s = rejectUnsealTaskBackOffMap s"

fun set_backOffMap :: "RetryTaskType \<Rightarrow> (string \<rightharpoonup> TaskRetryInfo) \<Rightarrow> TaskRetryScheduler \<Rightarrow> TaskRetryScheduler" where
  "set_backOffMap retryReplicate b s = s\<lparr>replicateTaskBackOffMap := b\<rparr>"
| "set_backOffMap retrySeal b s = s\<lparr>sealTaskBackOffMap := b\<rparr>"
| "set_backOffMap retryRejectUnseal b s = s\<lparr>rejectUnsealTaskBackOffMap := b\<rparr>"

definition resetTaskBackoffMap :: "RetryTaskType \<Rightarrow> TaskRetryScheduler \<Rightarrow> TaskRetryScheduler" where
  "resetTaskBackoffMap kind s =
     (if card (dom (backOffMap kind s)) > maxLengthOfNextExecutionBackOffMap then set_backOffMap kind Map.empty s else s)"

fun retry_number :: "RetryTaskType \<Rightarrow> int" where
  "retry_number retryReplicate = 0"
| "retry_number retrySeal = 1"
| "retry_number retryRejectUnseal = 2"

definition retry_key :: "RetryTaskType \<Rightarrow> int \<Rightarrow> string" where
  "retry_key kind objectID = show_int (retry_number kind) @ ''_'' @ show_int objectID"

text \<open>The shift and the product have the type of durations, signed with 64 bits.\<close>

definition retry_backoff :: "int \<Rightarrow> int" where
  "retry_backoff tried = i64 (i64 (2 * 2 ^ nat tried) * retryIntervalSecond)"

subsection \<open>Transactions\<close>

definition isAlreadyExists :: "string \<Rightarrow> bool" where
  "isAlreadyExists msg = sublist ''already exist'' msg"

text \<open>A failed broadcast whose message says the transaction exists returns the hash the client gave with it.\<close>

definition send_tx :: "retry_env \<Rightarrow> retry_msg \<Rightarrow> nat \<Rightarrow> string + string" where
  "send_tx env msg i =
     (case rnSend env msg i of
        (txHash, Some txErr) \<Rightarrow> if isAlreadyExists txErr then Inr txHash else Inl txErr
      | (txHash, None) \<Rightarrow> Inr txHash)"

text \<open>\<open>SendAndConfirmTx\<close> from its \<open>i\<close>th attempt, with \<open>n\<close> attempts left and the error so far: the error and the number of broadcasts.\<close>

fun confirm_tries :: "retry_env \<Rightarrow> retry_msg \<Rightarrow> nat \<Rightarrow> nat \<Rightarrow> string option \<Rightarrow> string option \<times> nat" where
  "confirm_tries env msg i 0 err = (err, i)"
| "confirm_tries env msg i (Suc n) err =
     (case send_tx env msg i of
        Inl txErr \<Rightarrow> confirm_tries env msg (Suc i) n (Some txErr)
      | Inr txHash \<Rightarrow>
          if txHash = '''' then (None, Suc i)
          else (case rnConfirm env txHash i of
                  Some e \<Rightarrow> confirm_tries env msg (Suc i) n (Some e)
                | None \<Rightarrow> (None, Suc i)))"

definition SendAndConfirmTx :: "retry_env \<Rightarrow> retry_msg \<Rightarrow> string option \<times> nat" where
  "SendAndConfirmTx env msg = confirm_tries env msg 0 confirmRetryNumber None"

text \<open>Sending, and after a confirmed transaction deleting the progress row, whatever the database answers.\<close>

definition send_and_forget :: "retry_env \<Rightarrow> int \<Rightarrow> retry_msg \<Rightarrow> TaskRetryScheduler \<Rightarrow> unit reply \<times> TaskRetryScheduler" where
  "send_and_forget env objectID msg s =
     (let (err, n) = SendAndConfirmTx env msg; s1 = s\<lparr>rsSent := rsSent s @ replicate n msg\<rparr>; m = rsManager s in
      case err of
        Some e \<Rightarrow> (Failed (ChainErr e), s1)
      | None \<Rightarrow> (Done_ok (), s1\<lparr>rsManager := m\<lparr>mDB := snd (DeleteUploadProgress (mvDbFails (rnEnv env) 2) objectID (mDB m))\<rparr>\<rparr>))"

subsection \<open>The three kinds of work\<close>

definition assignShadowObjectInfo :: "menv \<Rightarrow> ObjectInfo \<Rightarrow> manager_error + ObjectInfo" where
  "assignShadowObjectInfo env ob =
     (case mvShadow env (oBucketName ob) (oObjectName ob) of Inl e \<Rightarrow> Inl e | Inr shadow \<Rightarrow> Inr (assign_shadow shadow ob))"

text \<open>The object of a row: while it is updated with the facts of the update, otherwise only before it is sealed.\<close>

definition retry_object :: "menv \<Rightarrow> UploadObjectMeta \<Rightarrow> manager_error + ObjectInfo" where
  "retry_object env meta =
     (case mvObject env (umObjectID meta) of
        Inl e \<Rightarrow> Inl e
      | Inr ob \<Rightarrow>
          if oIsUpdating ob then assignShadowObjectInfo env ob
          else if oObjectStatus ob \<noteq> OBJECT_STATUS_CREATED then Inl (ChainErr ''object is not in create status'')
          else Inr ob)"

text \<open>A bucket that is not known leaves the nil error, which the caller takes for success.\<close>

definition retryReplicateTask :: "retry_env \<Rightarrow> UploadObjectMeta \<Rightarrow> TaskRetryScheduler \<Rightarrow> unit reply \<times> TaskRetryScheduler" where
  "retryReplicateTask renv meta s =
     (let env = rnEnv renv; m = rsManager s in
      case retry_object env meta of
        Inl e \<Rightarrow> (Failed e, s)
      | Inr ob \<Rightarrow>
          (case mvParamsOf env ob of
             Inl e \<Rightarrow> (Failed e, s)
           | Inr p \<Rightarrow>
               (case TaskTimeout (mvApp env) TypeTaskReplicatePiece (oPayloadSize ob) of
                  None \<Rightarrow> (Crashed, s)
                | Some timeout \<Rightarrow>
                    (case mvBucketFamily env (oBucketName ob) of
                       Inl e \<Rightarrow> (Failed e, s)
                     | Inr None \<Rightarrow> (Done_ok (), s)
                     | Inr (Some vgf) \<Rightarrow>
                         (case pickGlobalVirtualGroup env vgf p m of
                            (Crashed, m1) \<Rightarrow> (Crashed, s\<lparr>rsManager := m1\<rparr>)
                          | (Failed e, m1) \<Rightarrow> (Failed e, s\<lparr>rsManager := m1\<rparr>)
                          | (Done_ok None, m1) \<Rightarrow> (Crashed, s\<lparr>rsManager := m1\<rparr>)
                          | (Done_ok (Some g), m1) \<Rightarrow>
                              let r = (InitReplicatePieceTask (mvNow env) ob p (TaskPriority TypeTaskReplicatePiece) timeout
                                        (TaskMaxRetry (mvApp env) TypeTaskReplicatePiece) (umIsAgentUpload meta))
                                       \<lparr>rp_GlobalVirtualGroupId := gvgID g, rp_SecondaryEndpoints := gvgSecondarySPEndpoints g\<rparr>;
                                  meta1 = meta\<lparr>umGlobalVirtualGroupID := gvgID g, umSecondaryEndpoints := gvgSecondarySPEndpoints g\<rparr>;
                                  m2 = m1\<lparr>mDB := snd (UpdateUploadProgress (mvDbFails env 1) (mvNow env) meta1 (mDB m1))\<rparr>
                              in (case Push (mvNow env) replicateQueue (ReplicatePiece r) m2 of
                                    (Some e, m3) \<Rightarrow> (Failed (QueueErr e), s\<lparr>rsManager := m3\<rparr>)
                                  | (None, m3) \<Rightarrow> (Done_ok (), s\<lparr>rsManager := m3\<rparr>)))))))"

fun ec_checksums :: "retry_env \<Rightarrow> metadb \<Rightarrow> int \<Rightarrow> int \<Rightarrow> nat list \<Rightarrow> db_error + int list list" where
  "ec_checksums env db objectID spc [] = Inr []"
| "ec_checksums env db objectID spc (i # is) =
     (case GetAllReplicatePieceChecksum (mvDbFails (rnEnv env) (4 + i)) db objectID (i32 (int i)) spc of
        Inl e \<Rightarrow> Inl e
      | Inr ecHash \<Rightarrow> (case ec_checksums env db objectID spc is of Inl e \<Rightarrow> Inl e | Inr hs \<Rightarrow> Inr (rnIntegrity env ecHash # hs)))"

definition makeCheckSumsForAgentUpload :: "retry_env \<Rightarrow> ObjectInfo \<Rightarrow> string list \<Rightarrow> metadb \<Rightarrow> int list list reply" where
  "makeCheckSumsForAgentUpload env ob secondaryEndpoints db =
     (case GetObjectIntegrity (mvDbFails (rnEnv env) 3) db (oId ob) (-1) of
        Inl e \<Rightarrow> Failed (DbErr e)
      | Inr meta \<Rightarrow>
          (case mvParams (rnEnv env) of
             Inl e \<Rightarrow> Failed e
           | Inr p \<Rightarrow>
               (case SegmentPieceCount (oPayloadSize ob) (MaxSegmentSize p) of
                  None \<Rightarrow> Crashed
                | Some spc \<Rightarrow>
                    (case ec_checksums env db (oId ob) spc [0..<length secondaryEndpoints] of
                       Inl e \<Rightarrow> Failed (DbErr e)
                     | Inr hs \<Rightarrow> Done_ok (rnIntegrity env (imPieceChecksumList meta) # hs)))))"

definition retrySealTask :: "retry_env \<Rightarrow> UploadObjectMeta \<Rightarrow> TaskRetryScheduler \<Rightarrow> unit reply \<times> TaskRetryScheduler" where
  "retrySealTask env meta s =
     (case retry_object (rnEnv env) meta of
        Inl e \<Rightarrow> (Failed e, s)
      | Inr ob \<Rightarrow>
          (case List.find (\<lambda>err. err \<noteq> None) (map (rnSigErr env) (umSecondarySignatures meta)) of
             Some err \<Rightarrow> (Failed (the err), s)
           | None \<Rightarrow>
               let sigs = rnAggregate env (umSecondarySignatures meta) in
               if \<not> umIsAgentUpload meta
               then send_and_forget env (oId ob) (MsgSealObject (rnOperator env) (oBucketName ob) (oObjectName ob) (umGlobalVirtualGroupID meta) sigs) s
               else (case makeCheckSumsForAgentUpload env ob (umSecondaryEndpoints meta) (mDB (rsManager s)) of
                       Crashed \<Rightarrow> (Crashed, s)
                     | Failed e \<Rightarrow> (Failed e, s)
                     | Done_ok checksums \<Rightarrow>
                         send_and_forget env (oId ob)
                           (MsgSealObjectV2 (rnOperator env) (oBucketName ob) (oObjectName ob) (umGlobalVirtualGroupID meta) sigs checksums) s)))"

definition retryRejectUnsealTask :: "retry_env \<Rightarrow> UploadObjectMeta \<Rightarrow> TaskRetryScheduler \<Rightarrow> unit reply \<times> TaskRetryScheduler" where
  "retryRejectUnsealTask env meta s =
     (case mvObject (rnEnv env) (umObjectID meta) of
        Inl e \<Rightarrow> (Failed e, s)
      | Inr ob \<Rightarrow>
          if oObjectStatus ob \<noteq> OBJECT_STATUS_CREATED \<and> \<not> oIsUpdating ob
          then (Failed (ChainErr ''object is not in create status nor being updated''), s)
          else send_and_forget env (oId ob) (MsgRejectSealObject (rnOperator env) (oBucketName ob) (oObjectName ob)) s)"

fun retryTask :: "RetryTaskType \<Rightarrow> retry_env \<Rightarrow> UploadObjectMeta \<Rightarrow> TaskRetryScheduler \<Rightarrow> unit reply \<times> TaskRetryScheduler" where
  "retryTask retryReplicate = retryReplicateTask"
| "retryTask retrySeal = retrySealTask"
| "retryTask retryRejectUnseal = retryRejectUnsealTask"

subsection \<open>The iterator\<close>

record TaskIterator =
  itTaskType :: RetryTaskType
  itStartTimeStampSecond :: int
  itEndTimeStampSecond :: int
  itCachedValueList :: "UploadObjectMeta list"
  itCurrentIndex :: nat

fun NewTaskIterator :: "RetryTaskType \<Rightarrow> int \<Rightarrow> int \<Rightarrow> TaskIterator" where
  "NewTaskIterator retryRejectUnseal now threshold = \<lparr>itTaskType = retryRejectUnseal, itStartTimeStampSecond = i64 (now - i64 (2 * threshold)),
     itEndTimeStampSecond = i64 (now - threshold), itCachedValueList = [], itCurrentIndex = 0\<rparr>"
| "NewTaskIterator kind now threshold = \<lparr>itTaskType = kind, itStartTimeStampSecond = i64 (now - threshold),
     itEndTimeStampSecond = 0, itCachedValueList = [], itCurrentIndex = 0\<rparr>"

definition iter_prefetch :: "faults \<Rightarrow> metadb \<Rightarrow> TaskIterator \<Rightarrow> db_error + UploadObjectMeta list" where
  "iter_prefetch fails db it =
     (case itTaskType it of
        retryReplicate \<Rightarrow> GetUploadMetasToReplicateByStartTS fails prefetchLimit (itStartTimeStampSecond it) db
      | retrySeal \<Rightarrow> GetUploadMetasToSealByStartTS fails prefetchLimit (itStartTimeStampSecond it) db
      | retryRejectUnseal \<Rightarrow> GetUploadMetasToRejectUnsealByRangeTS fails prefetchLimit (itStartTimeStampSecond it) (itEndTimeStampSecond it) db)"

definition iter_Valid :: "faults \<Rightarrow> metadb \<Rightarrow> TaskIterator \<Rightarrow> bool \<times> TaskIterator" where
  "iter_Valid fails db it =
     (if itCurrentIndex it < length (itCachedValueList it) then (True, it)
      else case iter_prefetch fails db it of
             Inl _ \<Rightarrow> (False, it\<lparr>itCachedValueList := []\<rparr>)
           | Inr [] \<Rightarrow> (False, it\<lparr>itCachedValueList := []\<rparr>)
           | Inr metas \<Rightarrow> (True, it\<lparr>itCachedValueList := metas, itCurrentIndex := 0,
                                   itStartTimeStampSecond := umCreateTimeStampSecond (last metas)\<rparr>))"

definition iter_Next :: "TaskIterator \<Rightarrow> TaskIterator" where
  "iter_Next it = it\<lparr>itCurrentIndex := itCurrentIndex it + 1\<rparr>"

definition iter_Value :: "TaskIterator \<Rightarrow> UploadObjectMeta option" where
  "iter_Value it = (if itCurrentIndex it < length (itCachedValueList it) then Some (itCachedValueList it ! itCurrentIndex it) else None)"

subsection \<open>The loops\<close>

datatype turn = Ended | Skipped | Tried "manager_error option" | Panicked

text \<open>
  A turn of the inner loop of \<open>startReplicateTaskRetry\<close>, \<open>startSealTaskRetry\<close> and \<open>startRejectUnsealTaskRetry\<close>.  A task that is
  backed off goes to the next turn without a call of \<open>Next\<close>.
\<close>

definition retry_turn :: "RetryTaskType \<Rightarrow> retry_env \<Rightarrow> TaskRetryScheduler \<times> TaskIterator \<Rightarrow> turn \<times> TaskRetryScheduler \<times> TaskIterator" where
  "retry_turn kind env st =
     (let (s, it) = st; (valid, it1) = iter_Valid (rnPrefetch env) (mDB (rsManager s)) it in
      if \<not> valid then (Ended, s, it1)
      else case iter_Value it1 of
             None \<Rightarrow> (Panicked, s, it1)
           | Some meta \<Rightarrow>
               let key = retry_key kind (umObjectID meta);
                   info = (case backOffMap kind s key of
                             Some i \<Rightarrow> i | None \<Rightarrow> \<lparr>riTaskKey = key, riTriedTimes = 0, riNextExecutionTime = rnEntry env\<rparr>);
                   s1 = set_backOffMap kind ((backOffMap kind s)(key \<mapsto> info)) s
               in if riNextExecutionTime info > rnCheck env then (Skipped, s1, it1)
                  else let (ret, s2) = retryTask kind env meta s1; tried = i64 (riTriedTimes info + 1) in
                       (case ret of
                          Crashed \<Rightarrow> (Panicked, s2, it1)
                        | Failed e \<Rightarrow> (Tried (Some e),
                            set_backOffMap kind ((backOffMap kind s2)(key \<mapsto>
                              info\<lparr>riTriedTimes := tried, riNextExecutionTime := rnAfter env + retry_backoff tried\<rparr>)) s2, iter_Next it1)
                        | Done_ok _ \<Rightarrow> (Tried None, set_backOffMap kind ((backOffMap kind s2)(key := None)) s2, iter_Next it1)))"

fun retry_loop :: "RetryTaskType \<Rightarrow> retry_env list \<Rightarrow> TaskRetryScheduler \<times> TaskIterator \<Rightarrow> turn list \<times> TaskRetryScheduler \<times> TaskIterator" where
  "retry_loop kind [] st = ([], st)"
| "retry_loop kind (env # envs) st =
     (case retry_turn kind env st of
        (Ended, st1) \<Rightarrow> ([Ended], st1)
      | (Panicked, st1) \<Rightarrow> ([Panicked], st1)
      | (t, st1) \<Rightarrow> (case retry_loop kind envs st1 of (ts, st2) \<Rightarrow> (t # ts, st2)))"

text \<open>One pass of the outer loop, as far as the environments reach; \<open>now\<close> is the clock in seconds when it starts.\<close>

definition retry_pass :: "RetryTaskType \<Rightarrow> int \<Rightarrow> retry_env list \<Rightarrow> TaskRetryScheduler \<Rightarrow> turn list \<times> TaskRetryScheduler \<times> TaskIterator" where
  "retry_pass kind now envs s =
     (let s1 = resetTaskBackoffMap kind s in retry_loop kind envs (s1, NewTaskIterator kind now (rejectUnsealThresholdSecond s1)))"

end
