(* ===== verification/SP_RetryProps.thy ===== *)
theory SP_RetryProps
  imports SP_Retry SP_ManagerProps SP_MetaDBProps "HOL-Library.Multiset"
begin

text \<open>
  Properties of the retry scheduler: a pass tries each row at most once and ends; the iterator visits what a
  query without limit returns, when no two rows have the same second; what a retried transaction does; and
  where a pass is held up, loses rows, or sends the wrong message.
\<close>

subsection \<open>Pages\<close>

abbreviation row_ts :: "UploadObjectProgressTable \<Rightarrow> int" where
  "row_ts \<equiv> upCreateTimestampSecond"


text \<open>The rows a page is taken from, and the record made of a row.\<close>

fun due :: "RetryTaskType \<Rightarrow> int \<Rightarrow> UploadObjectProgressTable \<Rightarrow> bool" where
  "due retryReplicate e u = (upTaskState u \<in> {TASK_STATE_UPLOAD_OBJECT_DONE, TASK_STATE_REPLICATE_OBJECT_DOING, TASK_STATE_REPLICATE_OBJECT_ERROR})"
| "due retrySeal e u = (upTaskState u \<in> {TASK_STATE_REPLICATE_OBJECT_DONE, TASK_STATE_SEAL_OBJECT_DOING, TASK_STATE_SEAL_OBJECT_ERROR})"
| "due retryRejectUnseal e u = (row_ts u \<le> e)"

fun row_meta :: "RetryTaskType \<Rightarrow> UploadObjectProgressTable \<Rightarrow> UploadObjectMeta option" where
  "row_meta retryReplicate u = full_meta True True u"
| "row_meta retrySeal u = full_meta True False u"
| "row_meta retryRejectUnseal u = Some ((empty_meta (upObjectID u))\<lparr>umCreateTimeStampSecond := row_ts u\<rparr>)"

definition due_rows :: "RetryTaskType \<Rightarrow> int \<Rightarrow> int \<Rightarrow> metadb \<Rightarrow> UploadObjectProgressTable list" where
  "due_rows kind a e db = sort_key row_ts (filter (\<lambda>u. due kind e u \<and> a < row_ts u) (upload_progress db))"

lemma those_Some_map: "those (map f xs) = Some ys \<longleftrightarrow> map f xs = map Some ys"
proof (induction xs arbitrary: ys)
  case (Cons x xs)
  then show ?case by (cases ys) (auto split: option.splits)
qed auto

lemma row_meta_sel:
  assumes "row_meta kind u = Some meta"
  shows "umCreateTimeStampSecond meta = row_ts u" "umObjectID meta = upObjectID u" "umTaskState meta = TASK_STATE_INIT_UNSPECIFIED"
  using assms by (cases kind; auto simp: full_meta_def empty_meta_def)+

lemma prefetch_page:
  "iter_prefetch fails db it = (if fails 0 then Inl ErrDatabase
     else case those (map (row_meta (itTaskType it)) (take prefetchLimit (due_rows (itTaskType it) (itStartTimeStampSecond it) (itEndTimeStampSecond it) db))) of
            None \<Rightarrow> Inl ErrDecode | Some ms \<Rightarrow> Inr ms)"
proof -
  have m: "those (map (\<lambda>u. Some (f u)) xs) = Some (map f xs)" for f :: "UploadObjectProgressTable \<Rightarrow> UploadObjectMeta" and xs
    by (simp add: those_Some_map)
  have f: "row_meta retryReplicate = full_meta True True" "row_meta retrySeal = full_meta True False"
    "row_meta retryRejectUnseal = (\<lambda>u. Some ((empty_meta (upObjectID u))\<lparr>umCreateTimeStampSecond := row_ts u\<rparr>))" by (rule ext, simp)+
  show ?thesis
  proof (cases "itTaskType it")
    case retryRejectUnseal
    then show ?thesis
      unfolding iter_prefetch_def GetUploadMetasToRejectUnsealByRangeTS_def due_rows_def
      by (simp only: f RetryTaskType.case m due.simps option.case conj_commute)
  qed (simp_all add: iter_prefetch_def GetUploadMetasToReplicateByStartTS_def GetUploadMetasToSealByStartTS_def by_start_def due_rows_def f)
qed



subsection \<open>What a task does to the rows\<close>










lemma set_backOffMap_manager [simp]: "rsManager (set_backOffMap kind b s) = rsManager s" "rsSent (set_backOffMap kind b s) = rsSent s"
  "rejectUnsealThresholdSecond (set_backOffMap kind b s) = rejectUnsealThresholdSecond s"
  by (cases kind; simp)+

lemma backOffMap_set [simp]: "backOffMap kind (set_backOffMap kind b s) = b" "set_backOffMap kind (backOffMap kind s) s = s"
  by (cases kind; simp)+

text \<open>A table, a scheduler over it and answers that confirm every transaction.\<close>

definition sample_progress :: "int \<Rightarrow> int \<Rightarrow> UploadObjectProgressTable" where
  "sample_progress i ts = \<lparr>upObjectID = i, upTaskState = TASK_STATE_SEAL_OBJECT_DOING, upGlobalVirtualGroupID = 1,
     upTaskStateDescription = TaskState_String TASK_STATE_SEAL_OBJECT_DOING, upErrorDescription = [],
     upSecondaryEndpoints = [], upSecondarySignatures = [], upCreateTimestampSecond = ts, upUpdateTimestampSecond = ts, upIsAgentUpload = False\<rparr>"

definition sample_table :: "UploadObjectProgressTable list \<Rightarrow> metadb" where
  "sample_table rows = \<lparr>integrity_metas = [], shadow_metas = [], piece_hashes = [], upload_progress = rows\<rparr>"

definition sample_retry :: "UploadObjectProgressTable list \<Rightarrow> TaskRetryScheduler" where
  "sample_retry rows = NewTaskRetryScheduler 100 ((sample_mgr [])\<lparr>mDB := sample_table rows\<rparr>)"

definition sample_renv :: retry_env where
  "sample_renv = \<lparr>rnEnv = sample_menv (\<lambda>_. []), rnEntry = 0, rnCheck = 0, rnAfter = 0, rnPrefetch = (\<lambda>_. False), rnOperator = [], rnSigErr = (\<lambda>_. None),
     rnAggregate = concat, rnIntegrity = concat, rnSend = (\<lambda>_ _. (''h'', None)), rnConfirm = (\<lambda>_ _. None)\<rparr>"

lemma sample_progress_sel [simp]: "upObjectID (sample_progress i ts) = i" "row_ts (sample_progress i ts) = ts"
  by (simp_all add: sample_progress_def)

lemma sample_progress_meta: "row_meta kind (sample_progress i ts) \<noteq> None"
  by (cases kind) (simp_all add: full_meta_def sample_progress_def StringToBytesSlice_def SplitByComma_def TrimSpace_def)

subsection \<open>A pass ends\<close>




definition is_tried :: "turn \<Rightarrow> bool" where
  "is_tried t \<longleftrightarrow> (\<exists>r. t = Tried r)"

lemma is_tried_simps [simp]: "is_tried (Tried r)" "\<not> is_tried Skipped" "\<not> is_tried Ended" "\<not> is_tried Panicked"
  by (simp_all add: is_tried_def)



text \<open>
  A task that is backed off holds up the pass: as long as the clock has not reached its time, every turn comes
  back to it, and no other task of the pass is tried.
\<close>

theorem backed_off_task_blocks:
  assumes "iter_Value it = Some meta" "backOffMap kind s (retry_key kind (umObjectID meta)) = Some info"
    and "\<forall>env \<in> set envs. rnCheck env < riNextExecutionTime info"
  shows "retry_loop kind envs (s, it) = (replicate (length envs) Skipped, s, it)"
  using assms(3)
proof (induction envs)
  case (Cons env envs)
  have v: "iter_Valid (rnPrefetch env) (mDB (rsManager s)) it = (True, it)" using assms(1) by (auto simp: iter_Value_def iter_Valid_def split: if_splits)
  have b: "set_backOffMap kind ((backOffMap kind s)(retry_key kind (umObjectID meta) \<mapsto> info)) s = s"
    using assms(2) backOffMap_set(2) by (metis fun_upd_triv)
  have "retry_turn kind env (s, it) = (Skipped, s, it)"
    using Cons.prems v b assms(1,2) by (simp add: retry_turn_def Let_def)
  then show ?case using Cons by simp
qed simp

theorem backed_off_task_blocks_witness:
  "let meta = (empty_meta 7)\<lparr>umCreateTimeStampSecond := 150\<rparr>; other = (empty_meta 8)\<lparr>umCreateTimeStampSecond := 160\<rparr>;
     it = (NewTaskIterator retrySeal 200 100)\<lparr>itCachedValueList := [meta, other]\<rparr>;
     s = (sample_retry [])\<lparr>sealTaskBackOffMap := [retry_key retrySeal 7 \<mapsto> \<lparr>riTaskKey = retry_key retrySeal 7, riTriedTimes = 1, riNextExecutionTime = 5\<rparr>]\<rparr>
   in retry_loop retrySeal [sample_renv, sample_renv] (s, it) = ([Skipped, Skipped], s, it)"
  using backed_off_task_blocks [of "(NewTaskIterator retrySeal 200 100)\<lparr>itCachedValueList := [(empty_meta 7)\<lparr>umCreateTimeStampSecond := 150\<rparr>, (empty_meta 8)\<lparr>umCreateTimeStampSecond := 160\<rparr>]\<rparr>"
      "(empty_meta 7)\<lparr>umCreateTimeStampSecond := 150\<rparr>" retrySeal
      "(sample_retry [])\<lparr>sealTaskBackOffMap := [retry_key retrySeal 7 \<mapsto> \<lparr>riTaskKey = retry_key retrySeal 7, riTriedTimes = 1, riNextExecutionTime = 5\<rparr>]\<rparr>"
      "\<lparr>riTaskKey = retry_key retrySeal 7, riTriedTimes = 1, riNextExecutionTime = 5\<rparr>" "[sample_renv, sample_renv]"]
  by (simp add: iter_Value_def empty_meta_def sample_renv_def Let_def)










subsection \<open>The iterator\<close>

text \<open>The values a loop over the iterator sees when the table stays as it is, with fuel for the turns.\<close>

fun iterate :: "nat \<Rightarrow> metadb \<Rightarrow> TaskIterator \<Rightarrow> UploadObjectMeta list" where
  "iterate 0 db it = []"
| "iterate (Suc n) db it =
     (case iter_Valid no_faults db it of
        (False, _) \<Rightarrow> []
      | (True, it1) \<Rightarrow> (case iter_Value it1 of None \<Rightarrow> [] | Some meta \<Rightarrow> meta # iterate n db (iter_Next it1)))"

text \<open>What a query without a limit returns.\<close>

definition all_due :: "RetryTaskType \<Rightarrow> int \<Rightarrow> int \<Rightarrow> metadb \<Rightarrow> UploadObjectMeta list" where
  "all_due kind a e db = map (\<lambda>u. the (row_meta kind u)) (due_rows kind a e db)"

definition readable :: "RetryTaskType \<Rightarrow> metadb \<Rightarrow> bool" where
  "readable kind db \<longleftrightarrow> (\<forall>u \<in> set (upload_progress db). row_meta kind u \<noteq> None)"

lemma sample_readable: "readable kind (sample_table (map f xs)) \<longleftrightarrow> (\<forall>x \<in> set xs. row_meta kind (f x) \<noteq> None)"
  by (simp add: readable_def sample_table_def)

lemma readable_page: "readable kind db \<Longrightarrow> those (map (row_meta kind) (take n (due_rows kind a e db))) = Some (take n (all_due kind a e db))"
  by (auto simp: those_Some_map all_due_def take_map readable_def due_rows_def dest!: in_set_takeD)

lemma due_rows_later: "a \<le> b \<Longrightarrow> due_rows kind b e db = filter (\<lambda>u. b < row_ts u) (due_rows kind a e db)"
  unfolding due_rows_def filter_sort by (intro arg_cong [of _ _ "sort_key row_ts"]) (auto intro: filter_cong)

lemma strictly_later: "sorted_wrt (<) (map f xs) \<Longrightarrow> 0 < n \<Longrightarrow> xs \<noteq> [] \<Longrightarrow> filter (\<lambda>u. f (last (take n xs)) < (f u :: int)) xs = drop n xs"
proof (induction xs arbitrary: n)
  case (Cons x xs)
  obtain k where n: "n = Suc k" using Cons.prems(2) by (cases n) auto
  have x: "f x < f u" if "u \<in> set xs" for u using Cons.prems(1) that by simp
  show ?case
  proof (cases "k = 0 \<or> xs = []")
    case True
    then show ?thesis using x n by (auto simp: filter_id_conv)
  next
    case False
    then have "last (take k xs) \<in> set xs" "take k xs \<noteq> []" using in_set_takeD last_in_set take_eq_Nil by metis+
    then show ?thesis using Cons.IH [of k] Cons.prems(1) False x n by fastforce
  qed
qed simp

lemma due_sorted: "sorted (map row_ts (due_rows kind a e db))"
  by (simp add: due_rows_def)

lemma Valid_page:
  assumes "\<not> itCurrentIndex it < length (itCachedValueList it)" "iter_prefetch fails db it = Inr metas"
  shows "iter_Valid fails db it = (if metas = [] then (False, it\<lparr>itCachedValueList := []\<rparr>)
     else (True, it\<lparr>itCachedValueList := metas, itCurrentIndex := 0, itStartTimeStampSecond := umCreateTimeStampSecond (last metas)\<rparr>))"
  using assms by (cases metas) (simp_all add: iter_Valid_def)

text \<open>With readable rows and no two due rows of the same second, the rest of the iteration is the rest of the page and all later rows.\<close>

lemma iterate_rest:
  assumes "readable (itTaskType it) db" "distinct (map row_ts (due_rows (itTaskType it) (itStartTimeStampSecond it) (itEndTimeStampSecond it) db))"
  shows "iterate n db it = take n (drop (itCurrentIndex it) (itCachedValueList it) @ all_due (itTaskType it) (itStartTimeStampSecond it) (itEndTimeStampSecond it) db)"
  using assms
proof (induction n arbitrary: it)
  case (Suc n)
  let ?k = "itTaskType it" and ?e = "itEndTimeStampSecond it" and ?a = "itStartTimeStampSecond it"
  define L where "L = due_rows ?k ?a ?e db"
  show ?case
  proof (cases "itCurrentIndex it < length (itCachedValueList it)")
    case True
    then have "iterate (Suc n) db it = itCachedValueList it ! itCurrentIndex it # iterate n db (iter_Next it)"
      by (simp add: iter_Valid_def iter_Value_def)
    moreover have "iterate n db (iter_Next it) = take n (drop (Suc (itCurrentIndex it)) (itCachedValueList it) @ all_due ?k ?a ?e db)"
      using Suc.IH [of "iter_Next it"] Suc.prems by (simp add: iter_Next_def)
    ultimately show ?thesis using True by (simp add: Cons_nth_drop_Suc [symmetric])
  next
    case False
    have p: "iter_prefetch no_faults db it = Inr (take prefetchLimit (all_due ?k ?a ?e db))"
      using readable_page [OF Suc.prems(1)] by (simp add: prefetch_page)
    show ?thesis
    proof (cases "L = []")
      case True
      then show ?thesis using False p by (simp add: iter_Valid_def all_due_def L_def)
    next
      case ne: False
      have strict: "sorted_wrt (<) (map row_ts L)" using Suc.prems(2) due_sorted by (simp add: L_def strict_sorted_iff)
      define page where "page = take prefetchLimit L"
      have pg: "page \<noteq> []" "last page \<in> set L"
        using ne last_in_set [of page] set_take_subset [of prefetchLimit L] by (auto simp: page_def prefetchLimit_def)
      define b where "b = row_ts (last page)"
      have ab: "?a \<le> b" using pg(2) by (auto simp: L_def due_rows_def b_def)
      have later: "due_rows ?k b ?e db = drop prefetchLimit L"
        using due_rows_later [OF ab] strictly_later [OF strict, of prefetchLimit] ne by (simp add: L_def [symmetric] b_def page_def prefetchLimit_def)
      have "readable ?k db \<Longrightarrow> u \<in> set L \<Longrightarrow> umCreateTimeStampSecond (the (row_meta ?k u)) = row_ts u" for u
        using row_meta_sel(1) by (fastforce simp: readable_def L_def due_rows_def)
      then have tl: "umCreateTimeStampSecond (last (map (\<lambda>u. the (row_meta ?k u)) page)) = b"
        using pg Suc.prems(1) by (simp add: last_map b_def)
      define it1 where "it1 = it\<lparr>itCachedValueList := map (\<lambda>u. the (row_meta ?k u)) page, itCurrentIndex := 0, itStartTimeStampSecond := b\<rparr>"
      have v: "iter_Valid no_faults db it = (True, it1)"
        using Valid_page [OF False p] pg(1) tl by (simp add: it1_def all_due_def L_def [symmetric] page_def take_map)
      have d: "distinct (map row_ts (due_rows ?k b ?e db))" using Suc.prems(2) later by (simp add: L_def [symmetric] drop_map [symmetric])
      have "iterate n db (iter_Next it1) = take n (drop 1 (map (\<lambda>u. the (row_meta ?k u)) page) @ map (\<lambda>u. the (row_meta ?k u)) (drop prefetchLimit L))"
        using Suc.IH [of "iter_Next it1"] Suc.prems(1) d by (simp add: iter_Next_def it1_def all_due_def later)
      also have "drop 1 (map (\<lambda>u. the (row_meta ?k u)) page) @ map (\<lambda>u. the (row_meta ?k u)) (drop prefetchLimit L) = drop 1 (all_due ?k ?a ?e db)"
      proof -
        have "map (\<lambda>u. the (row_meta ?k u)) page @ map (\<lambda>u. the (row_meta ?k u)) (drop prefetchLimit L) = all_due ?k ?a ?e db"
          unfolding map_append [symmetric] page_def append_take_drop_id by (simp add: all_due_def L_def)
        from this [symmetric] show ?thesis using pg(1) by (cases page) simp_all
      qed
      finally have "iterate n db (iter_Next it1) = take n (drop 1 (all_due ?k ?a ?e db))" .
      moreover have "iter_Value it1 = Some (hd (all_due ?k ?a ?e db))"
        using pg(1) ne by (cases L) (auto simp: iter_Value_def it1_def all_due_def L_def [symmetric] page_def prefetchLimit_def)
      moreover have "all_due ?k ?a ?e db \<noteq> []" using ne by (simp add: all_due_def L_def)
      ultimately show ?thesis using v False by (cases "all_due ?k ?a ?e db") simp_all
    qed
  qed
qed simp

text \<open>
  C28: When no two rows in range were created in the same second, the iterator, reading a hundred rows at a time,
  returns exactly what one query without a limit returns, in the same order, and then ends.
\<close>

theorem iterator_visits_all:
  assumes "readable kind db" "it = NewTaskIterator kind now threshold"
    and "rows = due_rows kind (itStartTimeStampSecond it) (itEndTimeStampSecond it) db" "distinct (map row_ts rows)" "length rows \<le> n"
  shows "iterate n db it = map (\<lambda>u. the (row_meta kind u)) rows"
proof -
  have k: "itTaskType it = kind" "itCachedValueList it = []" using assms(2) by (cases kind; simp)+
  show ?thesis using iterate_rest [of it db n] assms k by (simp add: all_due_def)
qed

theorem iterator_visits_all_witness:
  "map umObjectID (iterate 2 (sample_table [sample_progress 8 160, sample_progress 7 150, sample_progress 9 99]) (NewTaskIterator retrySeal 200 100)) = [7, 8]"
proof -
  define db where "db = sample_table [sample_progress 8 160, sample_progress 7 150, sample_progress 9 99]"
  have d: "due_rows retrySeal 100 0 db = [sample_progress 7 150, sample_progress 8 160]"
    by (simp add: due_rows_def db_def sample_table_def sample_progress_def)
  have r: "readable retrySeal db" using sample_progress_meta by (simp add: db_def readable_def sample_table_def del: row_meta.simps)
  have "iterate 2 db (NewTaskIterator retrySeal 200 100) = map (\<lambda>u. the (row_meta retrySeal u)) [sample_progress 7 150, sample_progress 8 160]"
    using iterator_visits_all [OF r refl refl, of 200 100 2] d by (simp add: i64_def sample_progress_def)
  moreover have "umObjectID (the (row_meta retrySeal (sample_progress i ts))) = i" for i ts
    using row_meta_sel(2) [of retrySeal "sample_progress i ts"] sample_progress_meta [of retrySeal i ts] by (auto simp: sample_progress_def)
  ultimately show ?thesis by (simp add: db_def del: row_meta.simps)
qed

text \<open>Every value of an iteration is of the page at hand or later than the start of the next one.\<close>

lemma iterate_values:
  "meta \<in> set (iterate n db it) \<Longrightarrow> meta \<in> set (itCachedValueList it) \<or> itStartTimeStampSecond it < umCreateTimeStampSecond meta"
proof (induction n arbitrary: it)
  case (Suc n)
  obtain v it1 where v: "iter_Valid no_faults db it = (v, it1)" by force
  then have "v" using Suc.prems by (cases v) auto
  with v Suc.prems obtain x where x: "iter_Value it1 = Some x" "meta = x \<or> meta \<in> set (iterate n db (iter_Next it1))"
    by (cases "iter_Value it1") auto
  then have m: "meta \<in> set (itCachedValueList it1) \<or> itStartTimeStampSecond it1 < umCreateTimeStampSecond meta"
    using Suc.IH [of "iter_Next it1"] by (auto simp: iter_Next_def iter_Value_def split: if_splits)
  show ?case
  proof (cases "itCurrentIndex it < length (itCachedValueList it)")
    case True
    then show ?thesis using v m by (simp add: iter_Valid_def)
  next
    case False
    then obtain metas where p: "iter_prefetch no_faults db it = Inr metas" using v \<open>v\<close> by (auto simp: iter_Valid_def split: sum.splits)
    then have ne: "metas \<noteq> []" "it1 = it\<lparr>itCachedValueList := metas, itCurrentIndex := 0, itStartTimeStampSecond := umCreateTimeStampSecond (last metas)\<rparr>"
      using Valid_page [OF False p] v \<open>v\<close> by (auto split: if_splits)
    have "itStartTimeStampSecond it < umCreateTimeStampSecond y" if "y \<in> set metas" for y
    proof -
      have "map (row_meta (itTaskType it)) (take prefetchLimit (due_rows (itTaskType it) (itStartTimeStampSecond it) (itEndTimeStampSecond it) db)) = map Some metas"
        using p by (auto simp: prefetch_page those_Some_map split: option.splits)
      then have "Some y \<in> row_meta (itTaskType it) ` set (take prefetchLimit (due_rows (itTaskType it) (itStartTimeStampSecond it) (itEndTimeStampSecond it) db))"
        using that by (metis image_eqI list.set_map)
      then show ?thesis using row_meta_sel(1) by (force simp: due_rows_def dest!: in_set_takeD)
    qed
    then show ?thesis using m ne last_in_set [OF ne(1)] by fastforce
  qed
qed simp

text \<open>
  Pages are continued after the second of the last row, so when the hundredth and the next row were created in
  the same second, the next row is not visited, however long the pass goes on.
\<close>

theorem iterator_loses_rows:
  assumes "readable kind db" "it = NewTaskIterator kind now threshold"
    and "rows = due_rows kind (itStartTimeStampSecond it) (itEndTimeStampSecond it) db"
    and "100 < length rows" "row_ts (rows ! 100) = row_ts (rows ! 99)" "distinct (map upObjectID rows)"
  shows "the (row_meta kind (rows ! 100)) \<notin> set (iterate n db it)"
proof (cases n)
  case (Suc k)
  have k: "itTaskType it = kind" "itCachedValueList it = []" using assms(2) by (cases kind; simp)+
  define page where "page = take 100 rows"
  define f where "f = (\<lambda>u. the (row_meta kind u))"
  have pg: "page \<noteq> []" "last page = rows ! 99" using assms(4) by (auto simp: page_def take_Suc_conv_app_nth [of 99, simplified])
  have f: "umObjectID (f u) = upObjectID u" "umCreateTimeStampSecond (f u) = row_ts u" if "u \<in> set rows" for u
    using that assms(1,3) row_meta_sel [of kind u "f u"] by (auto simp: readable_def due_rows_def f_def)
  have mem: "rows ! 99 \<in> set rows" "rows ! 100 \<in> set rows" using assms(4) by simp_all
  have p: "iter_prefetch no_faults db it = Inr (map f page)"
    using readable_page [OF assms(1)] k assms(3) by (simp add: prefetch_page prefetchLimit_def page_def all_due_def f_def take_map)
  define it1 where "it1 = it\<lparr>itCachedValueList := map f page, itCurrentIndex := 0, itStartTimeStampSecond := row_ts (rows ! 99)\<rparr>"
  have v: "iter_Valid no_faults db it = (True, it1)"
    using Valid_page [OF _ p] k pg f(2) [OF mem(1)] by (simp add: it1_def last_map)
  have "f (rows ! 100) \<notin> set (map f page)"
  proof
    assume "f (rows ! 100) \<in> set (map f page)"
    then obtain u where u: "u \<in> set page" "f (rows ! 100) = f u" by auto
    then obtain i where i: "i < 100" "u = rows ! i" "i < length rows" by (auto simp: page_def in_set_conv_nth)
    then have "map upObjectID rows ! 100 = map upObjectID rows ! i" using f(1) u(2) mem(2) assms(4) by (metis nth_map nth_mem)
    then show False using nth_eq_iff_index_eq [OF assms(6), of 100 i] assms(4) i by simp
  qed
  moreover have "iterate n db it = iterate n db it1"
    using v k pg(1) by (simp add: Suc it1_def iter_Valid_def)
  ultimately show ?thesis
    using iterate_values [of "f (rows ! 100)" n db it1] f(2) [OF mem(2)] assms(5) by (auto simp: it1_def f_def)
qed simp

theorem iterator_loses_rows_witness:
  "the (row_meta retrySeal (sample_progress 101 150)) \<notin> set (iterate 500 (sample_table (map (\<lambda>i. sample_progress i 150) [1..101])) (NewTaskIterator retrySeal 200 100))"
proof -
  define rows where "rows = map (\<lambda>i. sample_progress i 150) [1..101]"
  have d: "due_rows retrySeal 100 0 (sample_table rows) = rows"
  proof -
    have "filter (\<lambda>u. due retrySeal 0 u \<and> 100 < row_ts u) rows = rows" by (auto simp: rows_def sample_progress_def intro!: filter_True)
    moreover have "sort_key row_ts rows = rows" by (rule sort_key_id_if_sorted) (simp add: rows_def sample_progress_def comp_def map_replicate_const)
    ultimately show ?thesis by (simp add: due_rows_def sample_table_def del: due.simps)
  qed
  have n: "rows ! k = sample_progress (int k + 1) 150" if "k < 101" for k using that by (simp add: rows_def add.commute)
  have "distinct (map upObjectID rows)" by (simp add: rows_def sample_progress_def comp_def)
  moreover have "length rows = 101" by (simp add: rows_def)
  moreover have "readable retrySeal (sample_table rows)" using sample_progress_meta by (simp add: rows_def sample_readable del: row_meta.simps)
  ultimately show ?thesis
    using iterator_loses_rows [OF _ refl refl, of retrySeal "sample_table rows" 200 100 500] d n [of 99] n [of 100]
    by (simp add: i64_def rows_def [symmetric] del: row_meta.simps)
qed

subsection \<open>Transactions\<close>

definition tx_ok :: "retry_env \<Rightarrow> retry_msg \<Rightarrow> nat \<Rightarrow> bool" where
  "tx_ok env msg i \<longleftrightarrow> (case send_tx env msg i of Inl _ \<Rightarrow> False | Inr h \<Rightarrow> h = [] \<or> rnConfirm env h i = None)"

lemma confirm_tries_outcome:
  "confirm_tries env msg i n err = (r, k) \<Longrightarrow> k \<le> i + n \<and> (\<forall>j. i \<le> j \<and> Suc j < k \<longrightarrow> \<not> tx_ok env msg j)
     \<and> (if \<exists>j. i \<le> j \<and> j < i + n \<and> tx_ok env msg j then r = None \<and> i < k \<and> tx_ok env msg (k - 1) else k = i + n \<and> (r = None \<longrightarrow> n = 0 \<and> err = None))"
proof (induction n arbitrary: i err)
  case (Suc n)
  show ?case
  proof (cases "tx_ok env msg i")
    case True
    then have "r = None" "k = Suc i" using Suc.prems by (auto simp: tx_ok_def split: sum.splits if_splits option.splits)
    moreover have "\<exists>j. i \<le> j \<and> j < i + Suc n \<and> tx_ok env msg j" using True by (intro exI [of _ i]) simp
    ultimately show ?thesis using True by auto
  next
    case False
    then obtain e where "confirm_tries env msg (Suc i) n (Some e) = (r, k)"
      using Suc.prems by (auto simp: tx_ok_def split: sum.splits if_splits option.splits)
    note IH = Suc.IH [OF this]
    have ex: "(\<exists>j. i \<le> j \<and> j < i + Suc n \<and> tx_ok env msg j) \<longleftrightarrow> (\<exists>j. Suc i \<le> j \<and> j < Suc i + n \<and> tx_ok env msg j)"
      using False by (metis Suc_leD add_Suc add_Suc_right le_antisym not_less_eq_eq)
    have nj: "\<forall>j. i \<le> j \<and> Suc j < k \<longrightarrow> \<not> tx_ok env msg j" using IH False by (metis le_neq_implies_less Suc_leI)
    show ?thesis
    proof (cases "\<exists>j. Suc i \<le> j \<and> j < Suc i + n \<and> tx_ok env msg j")
      case True
      then have "r = None \<and> i < k \<and> tx_ok env msg (k - 1)" using IH [THEN conjunct2, THEN conjunct2] by (simp only: if_True) simp
      then show ?thesis using True IH [THEN conjunct1] nj unfolding ex by (simp only: if_True) simp
    next
      case False
      then have "k = Suc i + n" "r \<noteq> None" using IH [THEN conjunct2, THEN conjunct2] by (simp_all only: if_False) auto
      then show ?thesis using nj unfolding ex if_not_P [OF False] by simp
    qed
  qed
qed auto

text \<open>A transaction is broadcast until the first attempt that is confirmed or needs no confirmation, three times at most.\<close>

lemma SendAndConfirmTx_outcome:
  assumes "SendAndConfirmTx env msg = (r, k)"
  shows "r = None \<and> 0 < k \<and> tx_ok env msg (k - 1) \<or> (\<exists>e. r = Some e) \<and> k = 3 \<and> \<not> tx_ok env msg 2" "k \<le> 3"
    "\<forall>j. Suc j < k \<longrightarrow> \<not> tx_ok env msg j"
proof -
  note c = confirm_tries_outcome [OF assms [unfolded SendAndConfirmTx_def confirmRetryNumber_def]]
  show "k \<le> 3" "\<forall>j. Suc j < k \<longrightarrow> \<not> tx_ok env msg j" using c [THEN conjunct1] c [THEN conjunct2, THEN conjunct1] by simp_all
  show "r = None \<and> 0 < k \<and> tx_ok env msg (k - 1) \<or> (\<exists>e. r = Some e) \<and> k = 3 \<and> \<not> tx_ok env msg 2"
  proof (cases "\<exists>j. 0 \<le> j \<and> j < 0 + 3 \<and> tx_ok env msg j")
    case True
    then show ?thesis using c [THEN conjunct2, THEN conjunct2] unfolding if_P [OF True] by blast
  next
    case False
    then show ?thesis using c [THEN conjunct2, THEN conjunct2] unfolding if_not_P [OF False] by auto
  qed
qed

definition progress_row :: "int \<Rightarrow> metadb \<Rightarrow> UploadObjectProgressTable option" where
  "progress_row i db = row_find upObjectID i (upload_progress db)"

lemma progress_row_deleted: "i \<noteq> 0 \<Longrightarrow> progress_row i (snd (DeleteUploadProgress no_faults i db)) = None"
  by (auto simp: progress_row_def DeleteUploadProgress_def row_find_def row_delete_def find_None_iff)

text \<open>
  Sealing again, for a row whose object the chain still waits for and whose signatures can be read: the message is
  broadcast until an attempt is confirmed, three times at most.  With a confirmed attempt the task is done and its row
  is deleted; without one it fails with the table as it was, so that a later pass finds it.
\<close>

theorem retried_seal_outcome:
  assumes "retry_object (rnEnv env) meta = Inr ob" "\<forall>sig \<in> set (umSecondarySignatures meta). rnSigErr env sig = None"
    and "\<not> umIsAgentUpload meta" "oId ob \<noteq> 0" "mvDbFails (rnEnv env) 2 = no_faults"
    and "msg = MsgSealObject (rnOperator env) (oBucketName ob) (oObjectName ob) (umGlobalVirtualGroupID meta) (rnAggregate env (umSecondarySignatures meta))"
    and "retrySealTask env meta s = (ret, s')"
  shows "\<exists>n. 0 < n \<and> n \<le> 3 \<and> rsSent s' = rsSent s @ replicate n msg \<and> (\<forall>j. Suc j < n \<longrightarrow> \<not> tx_ok env msg j) \<and>
     (if tx_ok env msg (n - 1) then ret = Done_ok () \<and> progress_row (oId ob) (mDB (rsManager s')) = None
      else n = 3 \<and> (\<exists>e. ret = Failed e) \<and> rsManager s' = rsManager s)"
proof -
  obtain r k where t: "SendAndConfirmTx env msg = (r, k)" by force
  note o = SendAndConfirmTx_outcome [OF t]
  have "List.find (\<lambda>err. err \<noteq> None) (map (rnSigErr env) (umSecondarySignatures meta)) = None" using assms(2) by (auto simp: find_None_iff)
  then have e: "retrySealTask env meta s = send_and_forget env (oId ob) msg s" using assms(1,3,6) by (simp add: retrySealTask_def Let_def)
  have k: "0 < k" using o(1) by auto
  show ?thesis
  proof (cases r)
    case None
    then have "ret = Done_ok ()" "rsSent s' = rsSent s @ replicate k msg" "progress_row (oId ob) (mDB (rsManager s')) = None" "tx_ok env msg (k - 1)"
      using assms(4,5,7) e t o(1) progress_row_deleted by (auto simp: send_and_forget_def Let_def)
    then show ?thesis using o(2,3) k by (intro exI [of _ k] conjI) simp_all
  next
    case (Some x)
    then have "ret = Failed (ChainErr x)" "rsSent s' = rsSent s @ replicate k msg" "rsManager s' = rsManager s" "\<not> tx_ok env msg (k - 1)" "k = 3"
      using assms(7) e t o(1) by (auto simp: send_and_forget_def Let_def)
    then show ?thesis using o(3) k by (intro exI [of _ k] conjI) simp_all
  qed
qed

theorem retried_seal_outcome_witness:
  "fst (retrySealTask sample_renv (empty_meta 7) (sample_retry [sample_progress 7 150])) = Done_ok ()
   \<and> progress_row 7 (mDB (rsManager (snd (retrySealTask sample_renv (empty_meta 7) (sample_retry [sample_progress 7 150]))))) = None"
proof -
  obtain ret s' where r: "retrySealTask sample_renv (empty_meta 7) (sample_retry [sample_progress 7 150]) = (ret, s')" by force
  have "tx_ok sample_renv msg j" for msg j by (simp add: tx_ok_def send_tx_def sample_renv_def)
  moreover have "retry_object (rnEnv sample_renv) (empty_meta 7) = Inr (sample_object 40)" "oId (sample_object 40) = 7" "mvDbFails (rnEnv sample_renv) 2 = no_faults"
    by (simp_all add: retry_object_def sample_renv_def sample_menv_def sample_object_def)
  ultimately show ?thesis using retried_seal_outcome [OF _ _ _ _ _ refl r, of "sample_object 40"] r by (auto simp: empty_meta_def)
qed

subsection \<open>Delegated uploads\<close>

definition plain_seal :: "retry_msg set" where
  "plain_seal = {msg. \<exists>op b ob g sig. msg = MsgSealObject op b ob g sig}"

definition none_agent :: "TaskIterator \<Rightarrow> bool" where
  "none_agent it \<longleftrightarrow> itTaskType it = retrySeal \<and> (\<forall>meta \<in> set (itCachedValueList it). \<not> umIsAgentUpload meta)"

lemma Valid_none_agent:
  assumes "iter_Valid fails db it = (v, it1)" "none_agent it"
  shows "none_agent it1"
proof -
  have "\<not> umIsAgentUpload y" if "iter_prefetch fails db it = Inr metas" "y \<in> set metas" for metas y
  proof -
    have "map (row_meta retrySeal) (take prefetchLimit (due_rows retrySeal (itStartTimeStampSecond it) (itEndTimeStampSecond it) db)) = map Some metas"
      using that assms(2) by (auto simp: prefetch_page those_Some_map none_agent_def split: option.splits if_splits)
    then have "Some y \<in> row_meta retrySeal ` set (take prefetchLimit (due_rows retrySeal (itStartTimeStampSecond it) (itEndTimeStampSecond it) db))"
      using that(2) by (metis image_eqI list.set_map)
    then show ?thesis by (auto simp: full_meta_def map_option_case split: option.splits)
  qed
  then show ?thesis using assms by (auto simp: iter_Valid_def none_agent_def split: if_splits sum.splits list.splits)
qed

lemma seal_sends_plain:
  assumes "\<not> umIsAgentUpload meta"
  shows "set (rsSent (snd (retrySealTask env meta s))) - set (rsSent s) \<subseteq> plain_seal"
  using assms by (auto simp: retrySealTask_def send_and_forget_def Let_def plain_seal_def split: sum.splits option.splits prod.splits)

lemma turn_plain:
  assumes "retry_turn retrySeal env (s, it) = (t, s', it')" "none_agent it"
  shows "set (rsSent s') - set (rsSent s) \<subseteq> plain_seal" "none_agent it'"
proof -
  obtain v it1 where v: "iter_Valid (rnPrefetch env) (mDB (rsManager s)) it = (v, it1)" by force
  note n = Valid_none_agent [OF v assms(2)]
  have i: "it' = it1 \<or> it' = iter_Next it1" "s' = s \<or> (\<exists>meta s1. meta \<in> set (itCachedValueList it1) \<and> rsSent s1 = rsSent s \<and> (rsSent s' = rsSent s \<or> rsSent s' = rsSent (snd (retrySealTask env meta s1))))"
    using assms(1) v
    by (auto simp: retry_turn_def iter_Value_def Let_def split: if_splits prod.splits reply.splits option.splits)
      (metis set_backOffMap_manager(2) nth_mem snd_conv set_backOffMap.simps(2))+
  then show "none_agent it'" using n by (auto simp: none_agent_def iter_Next_def)
  show "set (rsSent s') - set (rsSent s) \<subseteq> plain_seal"
    using i(2) n seal_sends_plain unfolding none_agent_def by (metis Diff_cancel empty_subsetI)
qed

lemma loop_plain:
  "none_agent it \<Longrightarrow> retry_loop retrySeal envs (s, it) = (ts, s', it') \<Longrightarrow> set (rsSent s') - set (rsSent s) \<subseteq> plain_seal"
proof (induction envs arbitrary: s it ts s' it')
  case (Cons env envs)
  obtain t s1 it1 where t: "retry_turn retrySeal env (s, it) = (t, s1, it1)" by (cases "retry_turn retrySeal env (s, it)") auto
  note T = turn_plain [OF t Cons.prems(1)]
  obtain ts1 s2 it2 where l: "retry_loop retrySeal envs (s1, it1) = (ts1, s2, it2)" by (cases "retry_loop retrySeal envs (s1, it1)") auto
  have "s' = s1 \<or> s' = s2" using Cons.prems(2) t l by (cases t) auto
  then show ?case using T(1) Cons.IH [OF T(2) l] by blast
qed simp

text \<open>
  The rows to seal are read without the mark of a delegated upload, so a pass that seals again sends only the message for
  direct uploads, which carries no checksums, also for objects the chain expects checksums of.
\<close>

theorem delegated_seal_retried_plain:
  "set (rsSent (fst (snd (retry_pass retrySeal now envs s)))) - set (rsSent s) \<subseteq> {msg. \<exists>op b ob g sig. msg = MsgSealObject op b ob g sig}"
proof -
  define it where "it = NewTaskIterator retrySeal now (rejectUnsealThresholdSecond s)"
  obtain ts s' it' where l: "retry_loop retrySeal envs (resetTaskBackoffMap retrySeal s, it) = (ts, s', it')"
    by (cases "retry_loop retrySeal envs (resetTaskBackoffMap retrySeal s, it)") auto
  have "none_agent it" by (simp add: it_def none_agent_def)
  moreover have "rsSent (resetTaskBackoffMap retrySeal s) = rsSent s" "rejectUnsealThresholdSecond (resetTaskBackoffMap retrySeal s) = rejectUnsealThresholdSecond s"
    by (simp_all add: resetTaskBackoffMap_def)
  ultimately show ?thesis using loop_plain [OF _ l] l by (simp add: retry_pass_def it_def plain_seal_def Let_def)
qed

text \<open>An object whose bucket is not known counts as replicated again: nothing is queued and its back-off is forgotten.\<close>

lemma unknown_bucket_counts_as_done:
  assumes "retry_object (rnEnv env) meta = Inr ob" "mvParamsOf (rnEnv env) ob = Inr p" "TaskTimeout (mvApp (rnEnv env)) TypeTaskReplicatePiece (oPayloadSize ob) \<noteq> None"
    and "mvBucketFamily (rnEnv env) (oBucketName ob) = Inr None"
  shows "retryReplicateTask env meta s = (Done_ok (), s)"
  using assms by (auto simp: retryReplicateTask_def)

text \<open>
  The interval before the next try doubles with every failure and is exact for 32 failures, which takes centuries; the
  product with the unit would not fit for more.
\<close>

theorem retry_backoff_bounds:
  assumes "0 \<le> tried" "tried \<le> 32"
  shows "retry_backoff tried = 2 ^ (nat tried + 1) * 1000000000 \<and> 2000000000 \<le> retry_backoff tried \<and> retry_backoff 33 < 0"
proof -
  define p :: int where "p = 2 ^ nat tried"
  have p: "p \<le> 2 ^ 32" "1 \<le> p" unfolding p_def using assms by (intro power_increasing) simp_all
  have "i64 (2 * p) = 2 * p" "i64 (2 * p * 1000000000) = 2 * p * 1000000000" by (intro i64_id; use p in simp)+
  then have "retry_backoff tried = 2 * p * 1000000000" by (simp add: retry_backoff_def retryIntervalSecond_def p_def)
  moreover have "retry_backoff 33 < 0" by (simp add: retry_backoff_def retryIntervalSecond_def i64_def)
  ultimately show ?thesis using p(2) by (simp add: p_def)
qed

theorem retry_backoff_bounds_witness: "retry_backoff 3 = 16 * 1000000000"
  using retry_backoff_bounds [of 3] by simp

end
