(* ===== verification/SP_Executor.thy ===== *)
theory SP_Executor
  imports SP_Receiver SP_Retry
begin

text \<open>
  The executor, \<^verbatim>\<open>src/modular/executor\<close>, first part: sealing an object (\<^verbatim>\<open>execute_task.go\<close>), confirming a received
  piece, recovering a lost piece.  An executor asks the manager for a task, works on it and reports it back with the
  error the work left in it.  The chain, the metadata service, the other providers, the erasure code and
  the signature library are functions in the environment record; database calls fail as \<open>xvDb\<close> says, by
  place and round.  Where a handler panics there is no task in its result.
\<close>

subsection \<open>State and environment\<close>

record 's ExecuteModular =
  xStore :: 's
  xDB :: metadb
  xTraffic :: spdb
  xSpID :: int
  xSpMap :: "int \<rightharpoonup> StorageProvider"
  xMaxListenSealRetry :: int
  xBucketTrafficKeepLatestDay :: int
  xReadRecordKeepLatestDay :: int
  xReadRecordDeleteLimit :: int
  xSent :: "retry_msg list"
  xReports :: "Task list"

text \<open>
  \<open>xSent\<close> lists the messages the signer was asked to send, \<open>xReports\<close> the tasks reported to the manager.
  Of the environment, \<open>xvChunks\<close> is the answer of another provider with what reading its body gives, \<open>xvDelPrefix\<close> the
  deletion of all pieces with a prefix, whose result the code only logs, and \<open>xvSpare\<close> the bytes that lie behind a
  decoded segment in its buffer.
\<close>

record 's xenv =
  xvEnv :: "'s env"
  xvGet :: "'s \<Rightarrow> string \<Rightarrow> int \<Rightarrow> int \<Rightarrow> store_error + int list"
  xvDel :: "'s \<Rightarrow> string \<Rightarrow> store_error + 's"
  xvDelPrefix :: "'s \<Rightarrow> string \<Rightarrow> 's"
  xvDb :: "nat \<Rightarrow> nat \<Rightarrow> faults"
  xvMsg :: "go_error \<Rightarrow> string"
  xvOperator :: string
  xvSelf :: "go_error + int"
  xvSeal :: "retry_msg \<Rightarrow> nat \<Rightarrow> go_error + string"
  xvListen :: "int \<Rightarrow> nat \<Rightarrow> go_error + bool"
  xvSigErr :: "int list \<Rightarrow> go_error option"
  xvAggregate :: "int list list \<Rightarrow> int list"
  xvObject :: "int \<Rightarrow> go_error + ObjectInfo"
  xvBucket :: "string \<Rightarrow> go_error + BucketInfo option"
  xvGroup :: "int \<Rightarrow> int \<Rightarrow> go_error + GlobalVirtualGroup"
  xvBucketMeta :: "string \<Rightarrow> go_error + BucketInfo"
  xvFamilyPrimary :: "int \<Rightarrow> go_error + int"
  xvListSPs :: "go_error + StorageProvider list"
  xvSelfSP :: "db_error + StorageProvider"
  xvSignRecovery :: "GfSpRecoverPieceTask \<Rightarrow> go_error + int list"
  xvChunks :: "string \<Rightarrow> GfSpRecoverPieceTask \<Rightarrow> go_error + (int list \<times> go_error option)"
  xvEncode :: "int list \<Rightarrow> int \<Rightarrow> int \<Rightarrow> go_error + int list list"
  xvDecode :: "int list option list \<Rightarrow> int \<Rightarrow> int \<Rightarrow> int \<Rightarrow> go_error + int list"
  xvSpare :: "int list \<Rightarrow> int list"

abbreviation x_db_err :: "'s xenv \<Rightarrow> db_error \<Rightarrow> go_error" where
  "x_db_err env e \<equiv> OtherErr (eDbMsg (xvEnv env) e)"

abbreviation x_store_err :: "'s xenv \<Rightarrow> store_error \<Rightarrow> go_error" where
  "x_store_err env e \<equiv> OtherErr (eStoreMsg (xvEnv env) e)"

abbreviation x_SetError :: "'s xenv \<Rightarrow> go_error option \<Rightarrow> GfSpTask \<Rightarrow> GfSpTask" where
  "x_SetError env \<equiv> base_SetError (eUnmarshal (xvEnv env))"

abbreviation x_AppendLog :: "'s xenv \<Rightarrow> string \<Rightarrow> GfSpTask \<Rightarrow> GfSpTask" where
  "x_AppendLog env \<equiv> base_AppendLog (eStamp (xvEnv env))"

definition exe_error :: "int \<Rightarrow> int \<Rightarrow> string \<Rightarrow> go_error" where
  "exe_error http code descr =
     GfSpErr \<lparr>CodeSpace = ''taskexecutor'', HttpStatusCode = http, InnerCode = code, Description = descr\<rparr>"

definition exe_ErrDanglingPointer :: go_error where "exe_ErrDanglingPointer = exe_error 400 40001 ''OoooH.... request lost''"
definition exe_ErrUnsealed :: go_error where "exe_ErrUnsealed = exe_error 500 40003 ''seal object on chain failed''"
definition exe_ErrSecondaryMismatch :: go_error where "exe_ErrSecondaryMismatch = exe_error 406 40006 ''secondary sp mismatch''"
definition exe_ErrReplicateIdsOutOfBounds :: go_error where "exe_ErrReplicateIdsOutOfBounds = exe_error 406 40007 ''replicate idx out of bounds''"
definition ErrRecoveryRedundancyType :: go_error where "ErrRecoveryRedundancyType = exe_error 500 45202 ''recovery only support EC redundancy type''"
definition ErrRecoveryPieceNotEnough :: go_error where "ErrRecoveryPieceNotEnough = exe_error 500 45203 ''failed to get enough piece data to recovery''"
definition ErrRecoveryDecode :: go_error where "ErrRecoveryDecode = exe_error 500 45204 ''EC decode error''"
definition ErrRecoveryPieceChecksum :: go_error where "ErrRecoveryPieceChecksum = exe_error 500 45206 ''recovery checksum not correct''"
definition ErrRecoveryPieceLength :: go_error where "ErrRecoveryPieceLength = exe_error 500 45207 ''get secondary piece data length error''"
definition ErrPrimaryNotFound :: go_error where "ErrPrimaryNotFound = exe_error 406 45208 ''primary sp endpoint not found when recovering''"
definition ErrRecoveryPieceIndex :: go_error where "ErrRecoveryPieceIndex = exe_error 406 45209 ''recovery piece index invalid''"
definition ErrInvalidRedundancyIndex :: go_error where "ErrInvalidRedundancyIndex = exe_error 500 45212 ''invalid redundancy index''"
definition ErrRecoveryObjectStatus :: go_error where "ErrRecoveryObjectStatus = exe_error 406 45215 ''the recovered object has not been sealed state''"
definition ErrInvalidSecondaryBlsSignature :: go_error where "ErrInvalidSecondaryBlsSignature = exe_error 406 45216 ''primary receive invalid bls signature from secondary SP''"
definition exe_ErrGfSpDBWithDetail :: "string \<Rightarrow> go_error" where "exe_ErrGfSpDBWithDetail detail = exe_error 500 45201 detail"
definition exe_ErrConsensusWithDetail :: "string \<Rightarrow> go_error" where "exe_ErrConsensusWithDetail detail = exe_error 400 45211 detail"

definition PrimarySPRedundancyIndex :: int where "PrimarySPRedundancyIndex = -1"

subsection \<open>The known providers\<close>

definition add_SPs :: "StorageProvider list \<Rightarrow> (int \<rightharpoonup> StorageProvider) \<Rightarrow> int \<rightharpoonup> StorageProvider" where
  "add_SPs sps m = foldl (\<lambda>m sp. m(spId sp \<mapsto> sp)) m sps"

text \<open>\<open>Start\<close> fills the map; a tick of the event loop adds to it and keeps providers the chain no longer lists.\<close>

definition exe_Start :: "'s xenv \<Rightarrow> 's ExecuteModular \<Rightarrow> go_error option \<times> 's ExecuteModular" where
  "exe_Start env st =
     (case xvListSPs env of Inl e \<Rightarrow> (Some e, st) | Inr sps \<Rightarrow> (None, st\<lparr>xSpMap := add_SPs sps Map.empty\<rparr>))"

definition exe_updateSps :: "'s xenv \<Rightarrow> 's ExecuteModular \<Rightarrow> 's ExecuteModular" where
  "exe_updateSps env st = (case xvListSPs env of Inl e \<Rightarrow> st | Inr sps \<Rightarrow> st\<lparr>xSpMap := add_SPs sps (xSpMap st)\<rparr>)"

definition getSpByID :: "'s ExecuteModular \<Rightarrow> int \<Rightarrow> StorageProvider option" where
  "getSpByID st i = xSpMap st i"

definition exe_getSPID :: "'s xenv \<Rightarrow> 's ExecuteModular \<Rightarrow> (go_error + int) \<times> 's ExecuteModular" where
  "exe_getSPID env st =
     (if xSpID st \<noteq> 0 then (Inr (xSpID st), st)
      else case xvSelf env of Inl e \<Rightarrow> (Inl e, st) | Inr i \<Rightarrow> (Inr i, st\<lparr>xSpID := i\<rparr>))"

subsection \<open>Sealing an object\<close>

text \<open>
  The attempts to send, from the one numbered \<open>i\<close> with \<open>n\<close> left: the task with its log and the number of
  messages sent.  An error of the last attempt is dropped; the result is what listening to the chain gives.
\<close>

fun seal_tries :: "'s xenv \<Rightarrow> retry_msg \<Rightarrow> nat \<Rightarrow> nat \<Rightarrow> GfSpTask \<Rightarrow> GfSpTask \<times> nat" where
  "seal_tries env msg i 0 t = (t, i)"
| "seal_tries env msg i (Suc n) t =
     (case xvSeal env msg i of
        Inl e \<Rightarrow> seal_tries env msg (Suc i) n
          (x_AppendLog env (''executor-seal-tx-failed-error:'' @ xvMsg env e @ ''-retry:'' @ show_nat i) t)
      | Inr txHash \<Rightarrow> (x_AppendLog env (''executor-seal-tx-succeed-retry:'' @ show_nat i @ ''-txHash:'' @ txHash) t, Suc i))"

fun listen_tries :: "'s xenv \<Rightarrow> int \<Rightarrow> nat \<Rightarrow> nat \<Rightarrow> go_error option \<Rightarrow> GfSpTask \<Rightarrow> go_error option \<times> GfSpTask" where
  "listen_tries env objectID i 0 err t = (err, t)"
| "listen_tries env objectID i (Suc n) err t =
     (case xvListen env objectID i of
        Inl e \<Rightarrow> listen_tries env objectID (Suc i) n (Some e)
          (x_AppendLog env (''executor-listen-seal-failed-error:'' @ xvMsg env e @ ''-retry:'' @ show_nat i) t)
      | Inr False \<Rightarrow> listen_tries env objectID (Suc i) n (Some exe_ErrUnsealed)
          (x_AppendLog env (''executor-listen-seal-failed(unseal)-retry:'' @ show_nat i) t)
      | Inr True \<Rightarrow> (None, x_AppendLog env (''executor-listen-seal-succeed-retry:'' @ show_nat i) t))"

definition listenSealObject :: "'s xenv \<Rightarrow> 's ExecuteModular \<Rightarrow> ObjectInfo \<Rightarrow> GfSpTask \<Rightarrow> go_error option \<times> GfSpTask" where
  "listenSealObject env st ob t = listen_tries env (oId ob) 0 (nat (xMaxListenSealRetry st)) None t"

text \<open>The two functions differ in the kind of message only; the number of tries is one more than the task's retries.\<close>

definition exe_sealObject :: "'s xenv \<Rightarrow> ObjectInfo \<Rightarrow> retry_msg \<Rightarrow> GfSpTask \<Rightarrow> 's ExecuteModular \<Rightarrow> (go_error option \<times> GfSpTask) \<times> 's ExecuteModular" where
  "exe_sealObject env ob msg t st =
     (let (t1, n) = seal_tries env msg 0 (nat (tMaxRetry t + 1)) t
      in (listenSealObject env st ob t1, st\<lparr>xSent := xSent st @ replicate n msg\<rparr>))"

definition exe_sealObjectV2 :: "'s xenv \<Rightarrow> ObjectInfo \<Rightarrow> retry_msg \<Rightarrow> GfSpTask \<Rightarrow> 's ExecuteModular \<Rightarrow> (go_error option \<times> GfSpTask) \<times> 's ExecuteModular" where
  "exe_sealObjectV2 env ob msg t st =
     (let (t1, n) = seal_tries env msg 0 (nat (tMaxRetry t + 1)) t
      in (listenSealObject env st ob t1, st\<lparr>xSent := xSent st @ replicate n msg\<rparr>))"

text \<open>The checksums of a delegated upload: the primary's, and one for each of \<open>n\<close> secondary providers from \<open>i\<close>.\<close>

fun ec_hashes :: "'s xenv \<Rightarrow> metadb \<Rightarrow> int \<Rightarrow> int \<Rightarrow> nat \<Rightarrow> nat \<Rightarrow> db_error + int list list" where
  "ec_hashes env db objectID spc i 0 = Inr []"
| "ec_hashes env db objectID spc i (Suc n) =
     (case GetAllReplicatePieceChecksum (xvDb env 1 i) db objectID (int i) spc of
        Inl e \<Rightarrow> Inl e
      | Inr ecHash \<Rightarrow> (case ec_hashes env db objectID spc (Suc i) n of
                        Inl e \<Rightarrow> Inl e | Inr hs \<Rightarrow> Inr (eIntegrity (xvEnv env) ecHash # hs)))"

definition exe_makeCheckSumsForAgentUpload :: "'s xenv \<Rightarrow> metadb \<Rightarrow> ObjectInfo \<Rightarrow> nat \<Rightarrow> Params \<Rightarrow> int list list outcome" where
  "exe_makeCheckSumsForAgentUpload env db ob redundancyCount params =
     (case GetObjectIntegrity (xvDb env 0 0) db (oId ob) PrimarySPRedundancyIndex of
        Inl e \<Rightarrow> Fail (x_db_err env e)
      | Inr meta \<Rightarrow>
          (case SegmentPieceCount (oPayloadSize ob) (MaxSegmentSize params) of
             None \<Rightarrow> Panic
           | Some spc \<Rightarrow>
               (case ec_hashes env db (oId ob) spc 0 redundancyCount of
                  Inl e \<Rightarrow> Fail (x_db_err env e)
                | Inr hs \<Rightarrow> Ok (eIntegrity (xvEnv env) (imPieceChecksumList meta) # hs))))"

text \<open>A signature that cannot be read ends the work, with no error in the task.\<close>

definition exe_HandleSealObjectTask :: "'s xenv \<Rightarrow> GfSpSealObjectTask \<Rightarrow> 's ExecuteModular \<Rightarrow> GfSpSealObjectTask option \<times> 's ExecuteModular" where
  "exe_HandleSealObjectTask env so st =
     (let ob = so_ObjectInfo so; sigs = so_SecondarySignatures so; agg = xvAggregate env sigs;
          begun = x_AppendLog env ''executor-begin-handle-seal-task'' (so_Task so);
          finish = (\<lambda>r. case r of ((err, t), st1) \<Rightarrow>
             (Some (so\<lparr>so_Task := x_AppendLog env ''executor-end-handle-seal-task'' (x_SetError env err t)\<rparr>), st1))
      in if list_ex (\<lambda>sig. xvSigErr env sig \<noteq> None) sigs then (Some so, st)
         else if so_IsAgentUploadTask so
         then (case exe_makeCheckSumsForAgentUpload env (xDB st) ob (length (so_SecondaryAddresses so)) (so_StorageParams so) of
                 Panic \<Rightarrow> (None, st)
               | Fail e \<Rightarrow> (Some (so\<lparr>so_Task := x_SetError env (Some e) begun\<rparr>), st)
               | Ok checksums \<Rightarrow> finish (exe_sealObjectV2 env ob
                   (MsgSealObjectV2 (xvOperator env) (oBucketName ob) (oObjectName ob) (so_GlobalVirtualGroupId so) agg checksums) begun st))
         else finish (exe_sealObject env ob
                (MsgSealObject (xvOperator env) (oBucketName ob) (oObjectName ob) (so_GlobalVirtualGroupId so) agg) begun st))"

subsection \<open>Confirming a received piece\<close>

text \<open>\<open>DeletePiece\<close> of the store, whose errors are only logged here.\<close>

definition x_delete :: "'s xenv \<Rightarrow> string \<Rightarrow> 's ExecuteModular \<Rightarrow> 's ExecuteModular" where
  "x_delete env key st =
     (case DeletePiece (xvGet env) (xvDel env) (xStore st) key of Inl e \<Rightarrow> st | Inr s \<Rightarrow> st\<lparr>xStore := s\<rparr>)"

definition confirm_key :: "GfSpReceivePieceTask \<Rightarrow> ObjectInfo \<Rightarrow> int \<Rightarrow> string" where
  "confirm_key r ob i =
     (if oRedundancyType (rc_ObjectInfo r) = REDUNDANCY_EC_TYPE then ECPieceKey (oId ob) i (u32 (rc_RedundancyIdx r)) (oVersion ob)
      else SegmentPieceKey (oId ob) i (oVersion ob))"

text \<open>
  The whole handler.  The number of pieces to delete is computed with the largest payload, not with the
  segment size.  A negative index into the secondary providers panics.
\<close>

definition exe_HandleReceivePieceTask :: "'s xenv \<Rightarrow> GfSpReceivePieceTask \<Rightarrow> 's ExecuteModular \<Rightarrow> GfSpReceivePieceTask option \<times> 's ExecuteModular" where
  "exe_HandleReceivePieceTask env r st =
     (let failed = (\<lambda>e r. r\<lparr>rc_Task := x_SetError env (Some e) (rc_Task r)\<rparr>) in
      case xvObject env (oId (rc_ObjectInfo r)) of
        Inl e \<Rightarrow> (Some (failed e r), st)
      | Inr ob \<Rightarrow>
          if oObjectStatus ob \<noteq> OBJECT_STATUS_SEALED \<or> oIsUpdating ob then (Some (failed exe_ErrUnsealed r), st)
          else let r1 = r\<lparr>rc_Sealed := True\<rparr> in
            (case xvBucket env (oBucketName ob) of
               Inr (Some bucket) \<Rightarrow>
                 (case xvGroup env (bId bucket) (oLocalVirtualGroupId ob) of
                    Inl e \<Rightarrow> (Some r1, st)
                  | Inr gvg \<Rightarrow>
                      if int (length (cgSecondarySpIds gvg)) \<le> rc_RedundancyIdx r then (Some (failed exe_ErrReplicateIdsOutOfBounds r1), st)
                      else (case exe_getSPID env st of
                              (Inl e, st1) \<Rightarrow> (Some r1, st1)
                            | (Inr self, st1) \<Rightarrow>
                                if rc_RedundancyIdx r < 0 then (None, st1)
                                else if cgSecondarySpIds gvg ! nat (rc_RedundancyIdx r) = self then (Some r1, st1)
                                else let r2 = failed exe_ErrSecondaryMismatch r1;
                                         st2 = st1\<lparr>xDB := snd (DeleteObjectIntegrity (xvDb env 0 0) (oId (rc_ObjectInfo r)) (rc_RedundancyIdx r) (xDB st1))\<rparr>
                                  in (case SegmentPieceCount (oPayloadSize ob) (MaxPayloadSize (rc_StorageParams r)) of
                                        None \<Rightarrow> (None, st2)
                                      | Some n \<Rightarrow> (Some r2, fold (\<lambda>i st. x_delete env (confirm_key r ob (int i)) st) [0..<nat n] st2))))
             | _ \<Rightarrow> (Some r1, st)))"

subsection \<open>Recovery: other providers\<close>

definition getObjectSecondaryEndpoints :: "'s xenv \<Rightarrow> ObjectInfo \<Rightarrow> (string list \<times> int) outcome" where
  "getObjectSecondaryEndpoints env ob =
     (case xvBucket env (oBucketName ob) of
        Inl e \<Rightarrow> Fail e
      | Inr None \<Rightarrow> Panic
      | Inr (Some bucket) \<Rightarrow>
          (case xvGroup env (bId bucket) (oLocalVirtualGroupId ob) of
             Inl e \<Rightarrow> Fail e
           | Inr gvg \<Rightarrow>
               (case xvListSPs env of
                  Inl e \<Rightarrow> Fail e
                | Inr sps \<Rightarrow>
                    let found = map (\<lambda>i. filter (\<lambda>sp. i = spId sp) sps) (cgSecondarySpIds gvg)
                    in Ok (map (\<lambda>f. if f = [] then '''' else spEndpoint (last f)) found, int (length (concat found))))))"

definition GetBucketPrimarySPID :: "'s xenv \<Rightarrow> BucketInfo \<Rightarrow> go_error + int" where
  "GetBucketPrimarySPID env bucket = xvFamilyPrimary env (bGlobalVirtualGroupFamilyId bucket)"

definition getBucketPrimarySPEndpoint :: "'s xenv \<Rightarrow> string \<Rightarrow> go_error + string" where
  "getBucketPrimarySPEndpoint env bucketName =
     (case xvBucketMeta env bucketName of
        Inl e \<Rightarrow> Inl e
      | Inr bucket \<Rightarrow>
          (case GetBucketPrimarySPID env bucket of
             Inl e \<Rightarrow> Inl e
           | Inr primary \<Rightarrow>
               (case xvListSPs env of
                  Inl e \<Rightarrow> Inl e
                | Inr sps \<Rightarrow> (case find (\<lambda>sp. primary = spId sp) sps of Some sp \<Rightarrow> Inr (spEndpoint sp) | None \<Rightarrow> Inl ErrPrimaryNotFound))))"

definition doRecoveryPiece :: "'s xenv \<Rightarrow> GfSpRecoverPieceTask \<Rightarrow> string \<Rightarrow> go_error + int list" where
  "doRecoveryPiece env re endpoint =
     (case xvChunks env endpoint re of
        Inl e \<Rightarrow> Inl e
      | Inr (data, Some e) \<Rightarrow> Inl e
      | Inr (data, None) \<Rightarrow> Inr data)"

subsection \<open>Recovery: checks and records\<close>

definition checkRecoveryChecksum :: "'s xenv \<Rightarrow> metadb \<Rightarrow> GfSpRecoverPieceTask \<Rightarrow> int list \<Rightarrow> unit outcome" where
  "checkRecoveryChecksum env db re checksum =
     (let ob = re_ObjectInfo re in
      case GetObjectIntegrity (xvDb env 0 0) db (oId ob) (re_EcIdx re) of
        Inl e \<Rightarrow> Fail (exe_ErrGfSpDBWithDetail (''failed to get object integrity hash in db when recovery, objectName: ''
                   @ oObjectName ob @ '',error: '' @ eDbMsg (xvEnv env) e))
      | Inr meta \<Rightarrow>
          if int (length (imPieceChecksumList meta)) \<le> re_SegmentIdx re then Panic
          else if checksum \<noteq> imPieceChecksumList meta ! nat (re_SegmentIdx re) then Fail ErrRecoveryPieceChecksum
          else Ok ())"

text \<open>\<open>recoverySegData[startPos:endPos]\<close>, which may reach into the rest of the buffer and panics beyond it.\<close>

definition go_slice :: "int list \<Rightarrow> int list \<Rightarrow> int \<Rightarrow> int \<Rightarrow> int list outcome" where
  "go_slice data spare startPos endPos =
     (if 0 \<le> startPos \<and> startPos \<le> endPos \<and> endPos \<le> int (length (data @ spare))
      then Ok (take (nat endPos - nat startPos) (drop (nat startPos) (data @ spare))) else Panic)"

definition getECPieceBySegment :: "'s xenv \<Rightarrow> int \<Rightarrow> ObjectInfo \<Rightarrow> Params \<Rightarrow> int list \<Rightarrow> int \<Rightarrow> int list outcome" where
  "getECPieceBySegment env redundancyIdx ob params segData segmentIdx =
     (let dataShards = RedundantDataChunkNum params; parityShards = RedundantParityChunkNum params in
      if redundancyIdx < 0 \<or> i32 (u32 (dataShards + parityShards - 1)) < redundancyIdx then Fail (OtherErr ''invalid redundancyIdx'')
      else if 0 < redundancyIdx \<and> redundancyIdx < i32 (i32 dataShards - 1)
      then (case ECPieceSize (oPayloadSize ob) segmentIdx (MaxSegmentSize params) dataShards of
              None \<Rightarrow> Panic
            | Some sz \<Rightarrow> go_slice segData (xvSpare env segData) (i64 (redundancyIdx * sz)) (i64 (i64 ((redundancyIdx + 1) * sz) - 1)))
      else (case xvEncode env segData dataShards parityShards of
              Inl e \<Rightarrow> Fail e
            | Inr pieces \<Rightarrow> if int (length pieces) \<le> redundancyIdx then Panic else Ok (pieces ! nat redundancyIdx)))"

text \<open>The record of a successor: the hash of the piece, and with the last piece the integrity record, of size zero.\<close>

definition setPieceMetadata :: "'s xenv \<Rightarrow> GfSpRecoverPieceTask \<Rightarrow> int list \<Rightarrow> metadb \<Rightarrow> unit outcome \<times> metadb" where
  "setPieceMetadata env re data db =
     (let ob = re_ObjectInfo re in
      case SetReplicatePieceChecksum (xvDb env 1 0) (oId ob) (re_SegmentIdx re) (re_EcIdx re) (eChecksum (xvEnv env) data) (oVersion ob) db of
        (Some e, db1) \<Rightarrow> (Fail (exe_ErrGfSpDBWithDetail (''failed to set replicate piece checksum, object_id: '' @ show_int (oId ob)
            @ '', segment_index: '' @ show_int (re_SegmentIdx re) @ '', redundancy_index: '' @ show_int (re_EcIdx re)
            @ '', error: '' @ eDbMsg (xvEnv env) e)), db1)
      | (None, db1) \<Rightarrow>
          (case SegmentPieceCount (oPayloadSize ob) (MaxSegmentSize (re_StorageParams re)) of
             None \<Rightarrow> (Panic, db1)
           | Some segmentCount \<Rightarrow>
               (case GetAllReplicatePieceChecksumOptimized (xvDb env 2 0) db1 (oId ob) (re_EcIdx re) segmentCount of
                  Inl e \<Rightarrow> (Fail (x_db_err env e), db1)
                | Inr checksums \<Rightarrow>
                    if int (length checksums) \<noteq> segmentCount then (Ok (), db1)
                    else (case SetObjectIntegrity (xvDb env 3 0) \<lparr>imObjectID = oId ob, imRedundancyIndex = re_EcIdx re,
                              imIntegrityChecksum = eIntegrity (xvEnv env) checksums, imPieceChecksumList = checksums, imObjectSize = 0\<rparr> db1 of
                            (Some e, db2) \<Rightarrow> (Fail (x_db_err env e), db2)
                          | (None, db2) \<Rightarrow>
                              (case DeleteAllReplicatePieceChecksum (xvDb env 4 0) (oId ob) (re_EcIdx re) (nat segmentCount) db2 of
                                 (Some e, db3) \<Rightarrow> (Fail (x_db_err env e), db3)
                               | (None, db3) \<Rightarrow> (Ok (), db3))))))"

text \<open>The end of both ways of recovery: the piece is written, and for a successor the record is made.\<close>

definition put_recovered :: "'s xenv \<Rightarrow> GfSpRecoverPieceTask \<Rightarrow> string \<Rightarrow> int list \<Rightarrow> 's ExecuteModular \<Rightarrow> unit outcome \<times> 's ExecuteModular" where
  "put_recovered env re key data st =
     (case PutPiece (ePut (xvEnv env)) (xStore st) key data of
        Inl e \<Rightarrow> (Fail (x_store_err env e), st)
      | Inr s \<Rightarrow>
          let st1 = st\<lparr>xStore := s\<rparr> in
          if re_BySuccessorSp re then let (r, db) = setPieceMetadata env re data (xDB st1) in (r, st1\<lparr>xDB := db\<rparr>)
          else (Ok (), st1))"

definition check_unless_successor :: "'s xenv \<Rightarrow> metadb \<Rightarrow> GfSpRecoverPieceTask \<Rightarrow> int list \<Rightarrow> unit outcome" where
  "check_unless_successor env db re data =
     (if re_BySuccessorSp re then Ok () else checkRecoveryChecksum env db re (eChecksum (xvEnv env) data))"

definition check_and_put :: "'s xenv \<Rightarrow> GfSpRecoverPieceTask \<Rightarrow> string \<Rightarrow> int list \<Rightarrow> 's ExecuteModular \<Rightarrow> unit outcome \<times> 's ExecuteModular" where
  "check_and_put env re key data st =
     (case check_unless_successor env (xDB st) re data of
        Ok _ \<Rightarrow> put_recovered env re key data st
      | bad \<Rightarrow> (bad, st))"

subsection \<open>Recovery from the primary and from the secondary providers\<close>

definition recoverByPrimarySP :: "'s xenv \<Rightarrow> GfSpRecoverPieceTask \<Rightarrow> 's ExecuteModular \<Rightarrow> unit outcome \<times> GfSpRecoverPieceTask \<times> 's ExecuteModular" where
  "recoverByPrimarySP env re st =
     (let ob = re_ObjectInfo re in
      case getBucketPrimarySPEndpoint env (oBucketName ob) of
        Inl e \<Rightarrow> (Fail e, re, st)
      | Inr endpoint \<Rightarrow>
          (case xvSignRecovery env re of
             Inl e \<Rightarrow> (Fail e, re, st)
           | Inr signature \<Rightarrow>
               let re1 = re\<lparr>re_Signature := signature\<rparr> in
               (case doRecoveryPiece env re1 endpoint of
                  Inl e \<Rightarrow> (Fail e, re1, st)
                | Inr data \<Rightarrow>
                    (case check_and_put env re1 (ECPieceKey (oId ob) (re_SegmentIdx re) (u32 (re_EcIdx re)) (oVersion ob)) data st of
                       (r, st1) \<Rightarrow> (r, re1, st1)))))"

text \<open>
  Asking the secondary providers, one goroutine each.  A schedule is the order in which the goroutines end; whether
  the main goroutine sees the end of all work before it has counted enough pieces (\<open>scLate\<close>, both channels being ready);
  and how many further goroutines still store their piece before the segment is decoded.  The counter of
  running requests starts one lower for a secondary provider, and its own goroutine lowers it again.
\<close>

record schedule =
  scOrder :: "nat list"
  scLate :: bool
  scExtra :: nat

datatype gathering = Gathered "int list option list" | TooFew | WrongLength | Crashed | Stuck

text \<open>One goroutine: the pieces so far and whether it fetched one.\<close>

definition fetch_piece :: "'s xenv \<Rightarrow> GfSpRecoverPieceTask \<Rightarrow> string list \<Rightarrow> string option \<Rightarrow> nat \<Rightarrow> int list option list \<Rightarrow> int list option list \<times> bool" where
  "fetch_piece env re endpoints self i sources =
     (if self = Some (endpoints ! i) then (sources, False)
      else case doRecoveryPiece env re (endpoints ! i) of
             Inl e \<Rightarrow> (sources, False)
           | Inr data \<Rightarrow> (sources[i := Some data], True))"

text \<open>
  The loop, by the goroutines that end: \<open>counter\<close> is the counter, \<open>got\<close> the number of pieces, \<open>need\<close> the number needed.
  The end of all work with enough pieces only happens where none is needed.
\<close>

fun gather :: "'s xenv \<Rightarrow> GfSpRecoverPieceTask \<Rightarrow> string list \<Rightarrow> string option \<Rightarrow> bool \<Rightarrow> nat \<Rightarrow> nat \<Rightarrow> int \<Rightarrow>
    nat list \<Rightarrow> int \<Rightarrow> nat \<Rightarrow> int list option list \<Rightarrow> gathering" where
  "gather env re endpoints self late extra need segmentSize [] counter got sources =
     (if need \<le> got \<and> 0 < got then Gathered sources else Stuck)"
| "gather env re endpoints self late extra need segmentSize (i # order) counter got sources =
     (if length endpoints \<le> i then Crashed
      else let (sources1, fetched) = fetch_piece env re endpoints self i sources; got1 = (if fetched then Suc got else got); counter1 = counter - 1
      in if fetched \<and> need \<le> got1 \<and> (\<not> late \<or> need = 0)
         then Gathered (fold (\<lambda>j s. fst (fetch_piece env re endpoints self j s)) (take extra order) sources1)
         else if counter1 = 0
         then if 0 < need then TooFew else if segmentSize \<noteq> 0 then WrongLength
              else gather env re endpoints self late extra need segmentSize order counter1 got1 sources1
         else gather env re endpoints self late extra need segmentSize order counter1 got1 sources1)"

text \<open>What is made of the decoded segment: the primary keeps it, a secondary provider keeps its piece of it.\<close>

definition recovered_piece :: "'s xenv \<Rightarrow> GfSpRecoverPieceTask \<Rightarrow> bool \<Rightarrow> int list \<Rightarrow> (string \<times> int list) outcome" where
  "recovered_piece env re me segData =
     (let ob = re_ObjectInfo re in
      if \<not> me then Ok (SegmentPieceKey (oId ob) (re_SegmentIdx re) (oVersion ob), segData)
      else (case getECPieceBySegment env (re_EcIdx re) ob (re_StorageParams re) segData (re_SegmentIdx re) of
              Ok data \<Rightarrow> Ok (ECPieceKey (oId ob) (re_SegmentIdx re) (u32 (re_EcIdx re)) (oVersion ob), data)
            | Fail e \<Rightarrow> Fail e
            | Panic \<Rightarrow> Panic))"

definition store_decoded :: "'s xenv \<Rightarrow> GfSpRecoverPieceTask \<Rightarrow> bool \<Rightarrow> int list \<Rightarrow> 's ExecuteModular \<Rightarrow> unit outcome \<times> 's ExecuteModular" where
  "store_decoded env re me segData st =
     (case recovered_piece env re me segData of
        Panic \<Rightarrow> (Panic, st)
      | Fail e \<Rightarrow> (Fail e, st)
      | Ok (key, data) \<Rightarrow> check_and_put env re key data st)"

text \<open>\<open>None\<close> where the wait never ends.\<close>

definition recoverBySecondarySP :: "'s xenv \<Rightarrow> schedule \<Rightarrow> GfSpRecoverPieceTask \<Rightarrow> bool \<Rightarrow> 's ExecuteModular
    \<Rightarrow> unit outcome option \<times> GfSpRecoverPieceTask \<times> 's ExecuteModular" where
  "recoverBySecondarySP env sched re me st =
     (let ob = re_ObjectInfo re; params = re_StorageParams re; dataShards = RedundantDataChunkNum params; parityShards = RedundantParityChunkNum params in
      case getObjectSecondaryEndpoints env ob of
        Panic \<Rightarrow> (Some Panic, re, st)
      | Fail e \<Rightarrow> (Some (Fail e), re, st)
      | Ok (endpoints, secondaryCount) \<Rightarrow>
          if u32 secondaryCount \<noteq> u32 (dataShards + parityShards) then (Some (Fail ErrRecoveryPieceNotEnough), re, st)
          else (case SegmentPieceSize (oPayloadSize ob) (re_SegmentIdx re) (MaxSegmentSize params) of
             None \<Rightarrow> (Some Panic, re, st)
           | Some segmentSize \<Rightarrow>
               (case (if me then (case xvSelfSP env of Inl e \<Rightarrow> Inl e | Inr sp \<Rightarrow> Inr (Some (spEndpoint sp))) else Inr None) of
                  Inl e \<Rightarrow> (Some (Fail (x_db_err env e)), re, st)
                | Inr self \<Rightarrow>
                    (case xvSignRecovery env re of
                       Inl e \<Rightarrow> (Some (Fail e), re, st)
                     | Inr signature \<Rightarrow>
                         let re1 = re\<lparr>re_Signature := signature\<rparr> in
                         (case gather env re1 endpoints self (scLate sched) (scExtra sched) (nat dataShards) segmentSize (scOrder sched)
                                 (if me then i32 secondaryCount - 1 else i32 secondaryCount) 0 (replicate (nat secondaryCount) None) of
                            Stuck \<Rightarrow> (None, re1, st)
                          | Crashed \<Rightarrow> (Some Panic, re1, st)
                          | TooFew \<Rightarrow> (Some (Fail ErrRecoveryPieceNotEnough), re1, st)
                          | WrongLength \<Rightarrow> (Some (Fail ErrRecoveryPieceLength), re1, st)
                          | Gathered sources \<Rightarrow>
                              (case xvDecode env sources segmentSize dataShards parityShards of
                                 Inl e \<Rightarrow> (Some (Fail ErrRecoveryDecode), re1, st)
                               | Inr segData \<Rightarrow> (case store_decoded env re1 me segData st of (r, st1) \<Rightarrow> (Some r, re1, st1))))))))"

text \<open>
  The handler.  The error of the primary stays in the variable the deferred function reads, also when the
  secondary providers then give the piece.
\<close>

definition recovered_task :: "'s xenv \<Rightarrow> go_error option \<Rightarrow> bool \<Rightarrow> GfSpRecoverPieceTask \<Rightarrow> GfSpRecoverPieceTask" where
  "recovered_task env err finish re =
     (let re1 = (case err of None \<Rightarrow> re | Some e \<Rightarrow> re\<lparr>re_Task := x_SetError env (Some e) (re_Task re)\<rparr>)
      in if finish then re1\<lparr>re_Recovered := True\<rparr> else re1)"

definition exe_HandleRecoverPieceTask :: "'s xenv \<Rightarrow> schedule \<Rightarrow> GfSpRecoverPieceTask \<Rightarrow> 's ExecuteModular \<Rightarrow> GfSpRecoverPieceTask option \<times> 's ExecuteModular" where
  "exe_HandleRecoverPieceTask env sched re st =
     (let ob = re_ObjectInfo re; params = re_StorageParams re; idx = re_EcIdx re;
          maxIndex = i32 (i32 (u32 (RedundantDataChunkNum params + RedundantParityChunkNum params)) - 1);
          second = (\<lambda>err me re st. case recoverBySecondarySP env sched re me st of
             (None, re1, st1) \<Rightarrow> (None, st1)
           | (Some Panic, re1, st1) \<Rightarrow> (None, st1)
           | (Some (Fail e), re1, st1) \<Rightarrow> (Some (recovered_task env (Some e) False re1), st1)
           | (Some (Ok _), re1, st1) \<Rightarrow> (Some (recovered_task env err True re1), st1))
      in if oObjectStatus ob \<noteq> OBJECT_STATUS_SEALED then (Some (recovered_task env (Some ErrRecoveryObjectStatus) False re), st)
         else if oRedundancyType ob \<noteq> REDUNDANCY_EC_TYPE then (Some (recovered_task env (Some ErrRecoveryRedundancyType) False re), st)
         else if idx < -1 \<or> maxIndex < idx then (Some (recovered_task env (Some ErrRecoveryPieceIndex) False re), st)
         else if 0 \<le> idx
         then (case recoverByPrimarySP env re st of
                 (Panic, re1, st1) \<Rightarrow> (None, st1)
               | (Ok _, re1, st1) \<Rightarrow> (Some (recovered_task env None True re1), st1)
               | (Fail e, re1, st1) \<Rightarrow> second (Some e) True re1 st1)
         else second None False re st)"

end
