(* ===== verification/SP_ExecutorReplicate.thy ===== *)
theory SP_ExecutorReplicate
  imports SP_Executor
begin

text \<open>
  Replication, \<^verbatim>\<open>src/modular/executor/execute_replicate.go\<close>: the primary provider encodes every segment, sends one piece of
  it to each secondary provider, asks each of them for its signature over the object, and seals the object.
  The other providers are the functions \<open>rvSend\<close> and \<open>rvDone\<close> on a state of the network.  The goroutines that
  send the pieces of one segment end in the order \<open>rvOrder\<close>, each taken as one step; the wait group is left before a goroutine
  hands over its error, so \<open>rvLost\<close> tells which errors the main goroutine does not see before the end.  Errors
  are seen in the order in which they occur, and a goroutine's write to the shared variable \<open>err\<close> is
  taken to happen before the wait for its group ends.
\<close>

subsection \<open>The network\<close>

record ('s, 'n) renv =
  rvX :: "'s xenv"
  rvSign :: "GfSpReceivePieceTask \<Rightarrow> go_error + int list"
  rvSend :: "string \<Rightarrow> GfSpReceivePieceTask \<Rightarrow> int list \<Rightarrow> 'n \<Rightarrow> (go_error + unit) \<times> 'n"
  rvDone :: "string \<Rightarrow> GfSpReceivePieceTask \<Rightarrow> 'n \<Rightarrow> (go_error + int list) \<times> 'n"
  rvGroupById :: "int \<Rightarrow> go_error + GlobalVirtualGroup option"
  rvObjectInfo :: "string \<Rightarrow> string \<Rightarrow> go_error + ObjectInfo"
  rvSignDoc :: "int \<Rightarrow> int \<Rightarrow> int list list \<Rightarrow> int list"
  rvKeyErr :: "StorageProvider \<Rightarrow> go_error option"
  rvVerify :: "StorageProvider \<Rightarrow> int list \<Rightarrow> int list \<Rightarrow> bool"
  rvOrder :: "nat \<Rightarrow> nat list"
  rvLost :: "nat \<Rightarrow> nat \<Rightarrow> bool"

record ('s, 'n) repl =
  plTask :: GfSpReplicatePieceTask
  plExe :: "'s ExecuteModular"
  plNet :: 'n

definition RtyAttNum :: nat where "RtyAttNum = 3"

text \<open>\<open>retry.Do\<close>: an attempt and up to \<open>k\<close> more, with the error of the last one.\<close>

fun retry_Do :: "nat \<Rightarrow> ('n \<Rightarrow> (go_error + 'a) \<times> 'n) \<Rightarrow> 'n \<Rightarrow> (go_error + 'a) \<times> 'n" where
  "retry_Do 0 f n = f n"
| "retry_Do (Suc k) f n = (case f n of (Inr v, n1) \<Rightarrow> (Inr v, n1) | (Inl e, n1) \<Rightarrow> retry_Do k f n1)"

definition pl_log :: "('s, 'n) renv \<Rightarrow> string \<Rightarrow> ('s, 'n) repl \<Rightarrow> ('s, 'n) repl" where
  "pl_log env l w = w\<lparr>plTask := (plTask w)\<lparr>rp_Task := x_AppendLog (rvX env) l (rp_Task (plTask w))\<rparr>\<rparr>"

definition pl_unavailable :: "nat \<Rightarrow> ('s, 'n) repl \<Rightarrow> ('s, 'n) repl" where
  "pl_unavailable i w = w\<lparr>plTask := SetNotAvailableSpIdx (i32 (int i)) (plTask w)\<rparr>"

subsection \<open>One piece\<close>

text \<open>The request for a piece, before it is signed.\<close>

definition receive_request :: "('s, 'n) renv \<Rightarrow> GfSpReplicatePieceTask \<Rightarrow> nat \<Rightarrow> nat \<Rightarrow> int list \<Rightarrow> GfSpReceivePieceTask" where
  "receive_request env rp seg i data =
     (InitReceivePieceTask (eNow (xvEnv (rvX env))) (rp_GlobalVirtualGroupId rp) (rp_ObjectInfo rp) (rp_StorageParams rp)
        (TaskPriority TypeTaskReplicatePiece) (int seg) (i32 (int i)) (int (length data)) (rp_IsAgentUploadTask rp))
     \<lparr>rc_PieceChecksum := eChecksum (xvEnv (rvX env)) data\<rparr>"

definition replicate_one :: "('s, 'n) renv \<Rightarrow> string \<Rightarrow> nat \<Rightarrow> nat \<Rightarrow> int list \<Rightarrow> ('s, 'n) repl \<Rightarrow> go_error option \<times> ('s, 'n) repl" where
  "replicate_one env endpoint seg i data w =
     (let rp = plTask w; ob = rp_ObjectInfo rp; receive = receive_request env rp seg i data;
          (dberr, db) = (if rp_IsAgentUploadTask rp
             then SetReplicatePieceChecksum (xvDb (rvX env) (2 + i) seg) (oId ob) (int seg) (i32 (int i)) (rc_PieceChecksum receive) (oVersion ob) (xDB (plExe w))
             else (None, xDB (plExe w)));
          w1 = w\<lparr>plExe := (plExe w)\<lparr>xDB := db\<rparr>\<rparr>
      in case dberr of
           Some e \<Rightarrow> (Some (exe_ErrGfSpDBWithDetail (''failed to set replicate piece checksum, object_id: '' @ show_int (oId ob) @ '', segment_index: '' @ show_nat seg
               @ '', redundancy_index: '' @ show_int (i32 (int i)) @ '', error: '' @ eDbMsg (xvEnv (rvX env)) e)), w1)
         | None \<Rightarrow>
             (case rvSign env receive of
                Inl e \<Rightarrow> (Some e, w1)
              | Inr signature \<Rightarrow>
                  (case retry_Do (RtyAttNum - 1) (rvSend env endpoint (receive\<lparr>rc_Signature := signature\<rparr>) data) (plNet w1) of
                     (Inl e, n) \<Rightarrow> (Some e, w1\<lparr>plNet := n\<rparr>)
                   | (Inr _, n) \<Rightarrow> (None, w1\<lparr>plNet := n\<rparr>))))"

definition doReplicatePiece :: "('s, 'n) renv \<Rightarrow> string \<Rightarrow> nat \<Rightarrow> nat \<Rightarrow> int list \<Rightarrow> ('s, 'n) repl \<Rightarrow> go_error option \<times> ('s, 'n) repl" where
  "doReplicatePiece env endpoint seg i data w =
     (let idx = ''sIdx:'' @ show_nat seg @ ''-rIdx-'' @ show_int (i32 (int i));
          (err, w1) = replicate_one env endpoint seg i data (pl_log env (''executor-begin-replicate-piece-'' @ idx) w)
      in (err, pl_log env (''executor-end-replicate-piece-'' @ idx
                 @ (case err of Some e \<Rightarrow> ''-error:'' @ xvMsg (rvX env) e | None \<Rightarrow> []) @ ''-endpoint:'' @ endpoint) w1))"

subsection \<open>One segment\<close>

text \<open>
  The goroutines of a segment, in the order in which they end; \<open>piece i\<close> is what goes to the \<open>i\<close>th provider, \<open>None\<close> where the
  index is out of range, which panics.  The errors seen are added to \<open>seen\<close>.
\<close>

fun replicate_all :: "('s, 'n) renv \<Rightarrow> nat \<Rightarrow> (nat \<Rightarrow> int list option) \<Rightarrow> nat list \<Rightarrow> go_error list \<Rightarrow> ('s, 'n) repl
    \<Rightarrow> (go_error list \<times> ('s, 'n) repl) option" where
  "replicate_all env seg piece [] seen w = Some (seen, w)"
| "replicate_all env seg piece (i # order) seen w =
     (case piece i of
        None \<Rightarrow> None
      | Some data \<Rightarrow>
          (case doReplicatePiece env (rp_SecondaryEndpoints (plTask w) ! i) seg i data w of
             (None, w1) \<Rightarrow> replicate_all env seg piece order seen w1
           | (Some e, w1) \<Rightarrow> replicate_all env seg piece order (if rvLost env seg i then seen else seen @ [e]) (pl_unavailable i w1)))"

text \<open>
  A segment that cannot be read or encoded hands its error over, and the work goes on with no data: an
  empty segment is encoded, and the pieces of a segment that could not be encoded are taken from an empty list.
\<close>

definition replicate_segment :: "('s, 'n) renv \<Rightarrow> nat \<Rightarrow> go_error list \<Rightarrow> ('s, 'n) repl \<Rightarrow> (go_error list \<times> ('s, 'n) repl) option" where
  "replicate_segment env seg seen w =
     (let rp = plTask w; ob = rp_ObjectInfo rp; params = rp_StorageParams rp;
          set_err = (\<lambda>e w. w\<lparr>plTask := (plTask w)\<lparr>rp_Task := x_SetError (rvX env) (Some e) (rp_Task (plTask w))\<rparr>\<rparr>);
          (seen1, w1, data) = (case GetPiece (xvGet (rvX env)) (xStore (plExe w)) (SegmentPieceKey (oId ob) (int seg) (oVersion ob)) 0 (-1) of
             Inl e \<Rightarrow> (let e1 = x_store_err (rvX env) e in (seen @ [e1], set_err e1 w, [])) | Inr data \<Rightarrow> (seen, w, data))
      in if oRedundancyType ob = REDUNDANCY_EC_TYPE
         then let (seen2, w2, pieces) = (case xvEncode (rvX env) data (RedundantDataChunkNum params) (RedundantParityChunkNum params) of
                Inl e \<Rightarrow> (seen1 @ [e], set_err e w1, []) | Inr pieces \<Rightarrow> (seen1, w1, pieces))
              in replicate_all env seg (\<lambda>i. if i < length pieces then Some (pieces ! i) else None) (rvOrder env seg) seen2 w2
         else replicate_all env seg (\<lambda>i. Some data) (rvOrder env seg) seen1 w1)"

fun replicate_segments :: "('s, 'n) renv \<Rightarrow> nat list \<Rightarrow> go_error list \<Rightarrow> ('s, 'n) repl \<Rightarrow> (go_error list \<times> ('s, 'n) repl) option" where
  "replicate_segments env [] seen w = Some (seen, w)"
| "replicate_segments env (seg # segs) seen w =
     (case replicate_segment env seg seen w of
        None \<Rightarrow> None
      | Some (seen1, w1) \<Rightarrow> replicate_segments env segs seen1 w1)"

subsection \<open>Signatures\<close>

definition veritySecondarySpBlsSignature :: "('s, 'n) renv \<Rightarrow> StorageProvider \<Rightarrow> int list \<Rightarrow> int list \<Rightarrow> go_error option" where
  "veritySecondarySpBlsSignature env sp signature sigDoc =
     (case rvKeyErr env sp of
        Some e \<Rightarrow> Some e
      | None \<Rightarrow>
          (case xvSigErr (rvX env) signature of
             Some e \<Rightarrow> Some e
           | None \<Rightarrow> if rvVerify env sp signature sigDoc then None
                     else Some (OtherErr (''failed to verify SP['' @ show_int (spId sp) @ ''] bls signature''))))"

definition done_request :: "('s, 'n) renv \<Rightarrow> GfSpReplicatePieceTask \<Rightarrow> nat \<Rightarrow> GfSpReceivePieceTask" where
  "done_request env rp i =
     (InitReceivePieceTask (eNow (xvEnv (rvX env))) (rp_GlobalVirtualGroupId rp) (rp_ObjectInfo rp) (rp_StorageParams rp)
        (TaskPriority TypeTaskReplicatePiece) 0 (i32 (int i)) 0 (rp_IsAgentUploadTask rp))\<lparr>rc_Finished := True\<rparr>"

text \<open>The bounds of the checksums are looked at after the provider has signed, and not in the log.\<close>

definition doneReplicatePiece :: "('s, 'n) renv \<Rightarrow> string \<Rightarrow> nat \<Rightarrow> ('s, 'n) repl \<Rightarrow> (go_error + int list) \<times> ('s, 'n) repl" where
  "doneReplicatePiece env endpoint i w =
     (let rp = plTask w; idx = ''executor-begin-done_replicate-piece-rIdx-'' @ show_int (i32 (int i)); receive = done_request env rp i;
          w1 = pl_log env idx w;
          finish = (\<lambda>err w. pl_log env (idx @ (case err of Some e \<Rightarrow> ''-error:'' @ xvMsg (rvX env) e | None \<Rightarrow> []) @ ''-endpoint:'' @ endpoint) w)
      in case rvSign env receive of
           Inl e \<Rightarrow> (Inl e, finish (Some e) w1)
         | Inr taskSignature \<Rightarrow>
             (case retry_Do (RtyAttNum - 1) (rvDone env endpoint (receive\<lparr>rc_Signature := taskSignature\<rparr>)) (plNet w1) of
                (Inl e, n) \<Rightarrow> (Inl e, finish (Some e) (w1\<lparr>plNet := n\<rparr>))
              | (Inr signature, n) \<Rightarrow>
                  (if \<not> rp_IsAgentUploadTask rp \<and> int (length (oChecksums (rp_ObjectInfo rp))) \<le> i32 (i32 (int i) + 1)
                   then Inl exe_ErrReplicateIdsOutOfBounds else Inr signature, finish None (w1\<lparr>plNet := n\<rparr>))))"

text \<open>The loop over the providers from \<open>i\<close>: the signatures, each verified, or the error; \<open>None\<close> for a panic.\<close>

fun done_all :: "('s, 'n) renv \<Rightarrow> GlobalVirtualGroup \<Rightarrow> nat \<Rightarrow> string list \<Rightarrow> int list list \<Rightarrow> ('s, 'n) repl
    \<Rightarrow> ((go_error + int list list) \<times> ('s, 'n) repl) option" where
  "done_all env gvg i [] signatures w = Some (Inr signatures, w)"
| "done_all env gvg i (endpoint # endpoints) signatures w =
     (case doneReplicatePiece env endpoint i w of
        (Inl e, w1) \<Rightarrow> Some (Inl e, pl_unavailable i w1)
      | (Inr signature, w1) \<Rightarrow>
          if length (cgSecondarySpIds gvg) \<le> i then None
          else (case getSpByID (plExe w1) (cgSecondarySpIds gvg ! i) of
                  None \<Rightarrow> None
                | Some sp \<Rightarrow>
                    let ob = rp_ObjectInfo (plTask w1) in
                    if veritySecondarySpBlsSignature env sp signature (rvSignDoc env (cgId gvg) (oId ob) (oChecksums ob)) \<noteq> None
                    then Some (Inl ErrInvalidSecondaryBlsSignature, pl_unavailable i w1)
                    else if length signatures \<le> i then None
                    else done_all env gvg (Suc i) endpoints (signatures[i := signature]) w1))"

definition doneReplicate :: "('s, 'n) renv \<Rightarrow> nat \<Rightarrow> ('s, 'n) repl \<Rightarrow> ((go_error + int list list) \<times> ('s, 'n) repl) option" where
  "doneReplicate env replicateCount w =
     (let rp = plTask w in
      case rvGroupById env (rp_GlobalVirtualGroupId rp) of
        Inl e \<Rightarrow> Some (Inl (exe_ErrConsensusWithDetail (''query gvg error: '' @ xvMsg (rvX env) e)), w)
      | Inr None \<Rightarrow> Some (Inl (OtherErr ''gvg not exist''), w)
      | Inr (Some gvg) \<Rightarrow>
          let run = (\<lambda>w. done_all env gvg 0 (rp_SecondaryEndpoints rp) (replicate replicateCount []) w) in
          if \<not> rp_IsAgentUploadTask rp then run w
          else (case exe_makeCheckSumsForAgentUpload (rvX env) (xDB (plExe w)) (rp_ObjectInfo rp) (length (rp_SecondaryEndpoints rp)) (rp_StorageParams rp) of
                  Panic \<Rightarrow> None
                | Fail e \<Rightarrow> Some (Inl e, w)
                | Ok checksums \<Rightarrow> run (w\<lparr>plTask := rp\<lparr>rp_ObjectInfo := (rp_ObjectInfo rp)\<lparr>oChecksums := checksums\<rparr>\<rparr>\<rparr>)))"

subsection \<open>The whole task\<close>

definition replicate_count :: "Params \<Rightarrow> nat" where
  "replicate_count params = nat (u32 (RedundantDataChunkNum params + RedundantParityChunkNum params))"

definition handleReplicatePiece :: "('s, 'n) renv \<Rightarrow> ('s, 'n) repl \<Rightarrow> (go_error option \<times> ('s, 'n) repl) option" where
  "handleReplicatePiece env w =
     (let rp = plTask w; params = rp_StorageParams rp in
      case SegmentPieceCount (oPayloadSize (rp_ObjectInfo rp)) (MaxSegmentSize params) of
        None \<Rightarrow> None
      | Some segmentPieceCount \<Rightarrow>
          (case replicate_segments env [0..<nat segmentPieceCount] [] w of
             None \<Rightarrow> None
           | Some (seen, w1) \<Rightarrow>
               (case doneReplicate env (replicate_count params) w1 of
                  None \<Rightarrow> None
                | Some (r, w2) \<Rightarrow>
                    let (err, w3) = (case r of Inl e \<Rightarrow> (Some e, w2)
                          | Inr signatures \<Rightarrow> (None, w2\<lparr>plTask := (plTask w2)\<lparr>rp_SecondarySignatures := signatures\<rparr>\<rparr>))
                    in Some (if seen \<noteq> [] then Some (hd seen) else err, w3))))"

definition rp_result :: "('s, 'n) renv \<Rightarrow> go_error option \<Rightarrow> ('s, 'n) repl \<Rightarrow> ('s, 'n) repl" where
  "rp_result env err w = w\<lparr>plTask := (plTask w)\<lparr>rp_Task := x_SetError (rvX env) err (rp_Task (plTask w))\<rparr>\<rparr>"

text \<open>Sealing after replication; an error of sealing stays out of the task, which is then not marked as sealed.\<close>

definition replicate_seal :: "('s, 'n) renv \<Rightarrow> ('s, 'n) repl \<Rightarrow> ('s, 'n) repl option" where
  "replicate_seal env w =
     (let rp = plTask w; ob = rp_ObjectInfo rp; x = rvX env; agg = xvAggregate x (rp_SecondarySignatures rp);
          finish = (\<lambda>r. case r of ((err, t), st) \<Rightarrow>
             rp_result env None (w\<lparr>plTask := rp\<lparr>rp_Task := t, rp_Sealed := (err = None \<or> rp_Sealed rp)\<rparr>, plExe := st\<rparr>))
      in if rp_IsAgentUploadTask rp
         then (case exe_makeCheckSumsForAgentUpload x (xDB (plExe w)) ob (length (rp_SecondaryEndpoints rp)) (rp_StorageParams rp) of
                 Panic \<Rightarrow> None
               | Fail e \<Rightarrow> Some (rp_result env (Some e) w)
               | Ok checksums \<Rightarrow> Some (finish (exe_sealObjectV2 x ob
                   (MsgSealObjectV2 (xvOperator x) (oBucketName ob) (oObjectName ob) (rp_GlobalVirtualGroupId rp) agg checksums) (rp_Task rp) (plExe w))))
         else Some (finish (exe_sealObject x ob
                (MsgSealObject (xvOperator x) (oBucketName ob) (oObjectName ob) (rp_GlobalVirtualGroupId rp) agg) (rp_Task rp) (plExe w))))"

text \<open>The error of a signature that cannot be read is a variable of the loop, and the task gets none.\<close>

definition exe_HandleReplicatePieceTask :: "('s, 'n) renv \<Rightarrow> ('s, 'n) repl \<Rightarrow> ('s, 'n) repl option" where
  "exe_HandleReplicatePieceTask env w =
     (let rp = plTask w; ob = rp_ObjectInfo rp; found = rvObjectInfo env (oBucketName ob) (oObjectName ob) in
      if (case found of Inr o1 \<Rightarrow> oObjectStatus o1 = OBJECT_STATUS_SEALED \<and> \<not> oIsUpdating o1 | Inl _ \<Rightarrow> False)
      then Some (rp_result env None (w\<lparr>plTask := rp\<lparr>rp_Sealed := True\<rparr>\<rparr>))
      else (case handleReplicatePiece env w of
              None \<Rightarrow> None
            | Some (Some e, w1) \<Rightarrow> Some (rp_result env (Some e) w1)
            | Some (None, w1) \<Rightarrow>
                if list_ex (\<lambda>sig. xvSigErr (rvX env) sig \<noteq> None) (rp_SecondarySignatures (plTask w1)) then Some (rp_result env None w1)
                else replicate_seal env (pl_log env ''executor-end-replicate-object'' w1)))"

end
