(* ===== verification/SP_ExecutorProps.thy ===== *)
theory SP_ExecutorProps
  imports SP_ExecutorReplicate SP_ReceiverProps
begin

text \<open>
  Properties of the executor: when a seal task is reported without an error, what is written when a piece is recovered,
  and when replication succeeds.  The witnesses use small concrete environments.
\<close>

subsection \<open>Errors a task shows\<close>

definition shows_error :: "(string \<Rightarrow> GfSpError option) \<Rightarrow> go_error \<Rightarrow> bool" where
  "shows_error unmarshal e \<longleftrightarrow> (case MakeGfSpError unmarshal (Some e) of None \<Rightarrow> False | Some x \<Rightarrow> InnerCode x \<noteq> 0)"

lemma SetError_shows [simp]:
  "base_Error (base_SetError u (Some e) t) \<noteq> None \<longleftrightarrow> shows_error u e"
  "base_Error (base_SetError u None t) = None"
  by (simp_all add: base_Error_def base_SetError_def shows_error_def MakeGfSpError_def split: option.splits)

lemma SetError_shows_None [simp]: "base_Error (base_SetError u (Some e) t) = None \<longleftrightarrow> \<not> shows_error u e"
  using SetError_shows(1) [of u e t] by (metis (no_types))

lemma AppendLog_Error [simp]: "base_Error (base_AppendLog s l t) = base_Error t"
  by (simp add: base_Error_def base_AppendLog_def)

lemma own_error_shows [simp]: "shows_error u (exe_error h c d) \<longleftrightarrow> c \<noteq> 0"
  by (simp add: shows_error_def exe_error_def MakeGfSpError_def)

subsection \<open>Sealing\<close>

lemma listen_tries_error:
  assumes "n = 0 \<Longrightarrow> err \<noteq> None"
  shows "fst (listen_tries env oid i n err t) = None \<longleftrightarrow> (\<exists>k<n. xvListen env oid (i + k) = Inr True)"
  using assms
proof (induction n arbitrary: i err t)
  case (Suc n)
  show ?case
  proof (cases "xvListen env oid i")
    case (Inl e) then show ?thesis using Suc.IH [of "Some e" "Suc i"] by (simp add: Ex_less_Suc2)
  next
    case (Inr b) then show ?thesis using Suc.IH [of "Some exe_ErrUnsealed" "Suc i"] by (cases b) (simp_all add: Ex_less_Suc2)
  qed
qed simp

lemma listen_tries_shows:
  assumes "\<And>k e. xvListen env oid k = Inl e \<Longrightarrow> shows_error u e" "\<And>e. err = Some e \<Longrightarrow> shows_error u e"
  shows "fst (listen_tries env oid i n err t) = Some e \<Longrightarrow> shows_error u e"
  using assms(2)
proof (induction n arbitrary: i err t)
  case (Suc n)
  show ?case
  proof (cases "xvListen env oid i")
    case (Inl e1) then show ?thesis using Suc.IH [of "Suc i" "Some e1"] Suc.prems(1) assms(1) by simp
  next
    case (Inr b) then show ?thesis using Suc.IH [of "Suc i" "Some exe_ErrUnsealed"] Suc.prems(1) by (cases b) (simp_all add: exe_ErrUnsealed_def)
  qed
qed simp

text \<open>The number of messages sent: until one is taken, at least one.\<close>

lemma seal_tries_sent: "snd (seal_tries env msg i n t) \<le> i + n \<and> (n = 0 \<or> i < snd (seal_tries env msg i n t))"
proof (induction n arbitrary: i t)
  case (Suc n)
  show ?case
  proof (cases "xvSeal env msg i")
    case (Inl e)
    obtain t1 where "seal_tries env msg i (Suc n) t = seal_tries env msg (Suc i) n t1" using Inl by simp
    with Suc.IH [of "Suc i" t1] show ?thesis by (cases n) auto
  qed simp
qed simp

text \<open>A small environment: hashes are the bytes themselves, a store is an association list, and nothing fails.\<close>

definition sample_xenv :: "(string \<times> int list) list xenv" where
  "sample_xenv = \<lparr>
     xvEnv = \<lparr>eChecksum = \<lambda>x. x, eIntegrity = concat, ePut = \<lambda>s k d. Inr ((k, d) # s), eStoreMsg = \<lambda>_. ''store'', eDbMsg = \<lambda>_. ''db'',
       eUnmarshal = \<lambda>_. None, eStamp = [], eNow = 9, eDbFails = \<lambda>_ _. False\<rparr>,
     xvGet = \<lambda>s k o1 l. (case map_of s k of None \<Rightarrow> Inl ErrNoSuchObject | Some d \<Rightarrow> Inr d),
     xvDel = \<lambda>s k. Inr (filter (\<lambda>e. fst e \<noteq> k) s), xvDelPrefix = \<lambda>s p. filter (\<lambda>e. take (length p) (fst e) \<noteq> p) s,
     xvDb = \<lambda>_ _ _. False, xvMsg = \<lambda>_. ''err'', xvOperator = ''op'', xvSelf = Inr 2, xvSeal = \<lambda>_ i. if i = 0 then Inl (OtherErr ''x'') else Inr ''tx'',
     xvListen = \<lambda>_ i. if i = 0 then Inr False else Inr True, xvSigErr = \<lambda>_. None, xvAggregate = concat,
     xvObject = \<lambda>_. Inl (OtherErr ''x''), xvBucket = \<lambda>_. Inr None, xvGroup = \<lambda>_ _. Inl (OtherErr ''x''), xvBucketMeta = \<lambda>_. Inl (OtherErr ''x''),
     xvFamilyPrimary = \<lambda>_. Inr 1, xvListSPs = Inr [], xvSelfSP = Inl ErrRecordNotFound, xvSignRecovery = \<lambda>_. Inr [5],
     xvChunks = \<lambda>_ _. Inl (OtherErr ''x''), xvEncode = \<lambda>d _ _. Inr [d], xvDecode = \<lambda>s _ _ _. Inr [], xvSpare = \<lambda>_. []\<rparr>"

definition sample_exe :: "(string \<times> int list) list ExecuteModular" where
  "sample_exe = \<lparr>xStore = [], xDB = \<lparr>integrity_metas = [], shadow_metas = [], piece_hashes = [], upload_progress = []\<rparr>,
     xTraffic = \<lparr>traffic = [], reads = []\<rparr>, xSpID = 0, xSpMap = Map.empty, xMaxListenSealRetry = 3, xBucketTrafficKeepLatestDay = 90,
     xReadRecordKeepLatestDay = 30, xReadRecordDeleteLimit = 100, xSent = [], xReports = []\<rparr>"

definition sample_seal :: GfSpSealObjectTask where
  "sample_seal = InitSealObjectTask 9 1 sample_recv_object (rc_StorageParams (sample_recv 2 0 [])) 5 [''e''] [[1]] 10 1 False"

text \<open>
  A seal task whose signatures can be read is reported without an error exactly when the chain was seen to
  have the object sealed in one of the rounds of listening, whatever became of the messages.  Only the seal message
  of the object was sent, at least once and at most once more than the retries of the task.
\<close>

theorem seal_reported_when_seen:
  assumes "list_all (\<lambda>sig. xvSigErr env sig = None) (so_SecondarySignatures so)" "\<not> so_IsAgentUploadTask so"
    and "0 < xMaxListenSealRetry st" "0 \<le> tMaxRetry (so_Task so)"
    and "\<forall>k e. xvListen env (oId (so_ObjectInfo so)) k = Inl e \<longrightarrow> shows_error (eUnmarshal (xvEnv env)) e"
    and "exe_HandleSealObjectTask env so st = (r, st')"
  shows "\<exists>so' n. r = Some so'
     \<and> (base_Error (so_Task so') = None \<longleftrightarrow> (\<exists>k < nat (xMaxListenSealRetry st). xvListen env (oId (so_ObjectInfo so)) k = Inr True))
     \<and> 1 \<le> n \<and> int n \<le> tMaxRetry (so_Task so) + 1
     \<and> st' = st\<lparr>xSent := xSent st @ replicate n (MsgSealObject (xvOperator env) (oBucketName (so_ObjectInfo so)) (oObjectName (so_ObjectInfo so))
          (so_GlobalVirtualGroupId so) (xvAggregate env (so_SecondarySignatures so)))\<rparr>"
proof -
  define ob where "ob = so_ObjectInfo so"
  define msg where "msg = MsgSealObject (xvOperator env) (oBucketName ob) (oObjectName ob) (so_GlobalVirtualGroupId so) (xvAggregate env (so_SecondarySignatures so))"
  define t0 where "t0 = x_AppendLog env ''executor-begin-handle-seal-task'' (so_Task so)"
  obtain t1 n where tries: "seal_tries env msg 0 (nat (tMaxRetry t0 + 1)) t0 = (t1, n)" by force
  obtain err t2 where listen: "listenSealObject env st ob t1 = (err, t2)" by force
  have "tMaxRetry t0 = tMaxRetry (so_Task so)" by (simp add: t0_def base_AppendLog_def)
  with seal_tries_sent [of env msg 0 "nat (tMaxRetry t0 + 1)" t0] tries assms(4) have n: "1 \<le> n" "int n \<le> tMaxRetry (so_Task so) + 1" by auto
  have "\<not> list_ex (\<lambda>sig. xvSigErr env sig \<noteq> None) (so_SecondarySignatures so)" using assms(1) by (auto simp: list_ex_iff list_all_iff)
  then have run: "r = Some (so\<lparr>so_Task := x_AppendLog env ''executor-end-handle-seal-task'' (x_SetError env err t2)\<rparr>)"
    "st' = st\<lparr>xSent := xSent st @ replicate n msg\<rparr>"
    using assms(2,6) tries listen by (simp_all add: exe_HandleSealObjectTask_def Let_def exe_sealObject_def ob_def [symmetric] msg_def [symmetric] t0_def [symmetric])
  have e: "err = None \<longleftrightarrow> (\<exists>k < nat (xMaxListenSealRetry st). xvListen env (oId ob) k = Inr True)"
    using listen_tries_error [of "nat (xMaxListenSealRetry st)" None env "oId ob" 0 t1] assms(3) listen by (simp add: listenSealObject_def)
  have "shows_error (eUnmarshal (xvEnv env)) e1" if "err = Some e1" for e1
    using listen_tries_shows [of env "oId ob" "eUnmarshal (xvEnv env)" None 0 "nat (xMaxListenSealRetry st)" t1 e1] assms(5) listen that
    by (simp add: listenSealObject_def ob_def)
  then have "base_Error (x_SetError env err t2) = None \<longleftrightarrow> err = None" by (cases err) simp_all
  with e n run show ?thesis by (auto simp: ob_def msg_def)
qed

theorem seal_reported_when_seen_witness:
  "\<exists>so' st' n. exe_HandleSealObjectTask sample_xenv sample_seal sample_exe = (Some so', st') \<and> base_Error (so_Task so') = None
     \<and> xSent st' = replicate n (MsgSealObject ''op'' ''b'' ''o'' 1 [1]) \<and> 1 \<le> n"
proof -
  obtain r st' where r: "exe_HandleSealObjectTask sample_xenv sample_seal sample_exe = (r, st')" by force
  have facts: "list_all (\<lambda>sig. xvSigErr sample_xenv sig = None) (so_SecondarySignatures sample_seal)" "\<not> so_IsAgentUploadTask sample_seal"
    "0 < xMaxListenSealRetry sample_exe" "0 \<le> tMaxRetry (so_Task sample_seal)"
    "\<forall>k e. xvListen sample_xenv (oId (so_ObjectInfo sample_seal)) k = Inl e \<longrightarrow> shows_error (eUnmarshal (xvEnv sample_xenv)) e"
    by (auto simp: sample_seal_def sample_exe_def sample_xenv_def InitSealObjectTask_def sample_recv_defs split: if_splits)
  have seen: "\<exists>k < nat (xMaxListenSealRetry sample_exe). xvListen sample_xenv (oId (so_ObjectInfo sample_seal)) k = Inr True"
    by (rule exI [of _ 1]) (simp add: sample_exe_def sample_xenv_def)
  have msg: "MsgSealObject (xvOperator sample_xenv) (oBucketName (so_ObjectInfo sample_seal)) (oObjectName (so_ObjectInfo sample_seal))
      (so_GlobalVirtualGroupId sample_seal) (xvAggregate sample_xenv (so_SecondarySignatures sample_seal)) = MsgSealObject ''op'' ''b'' ''o'' 1 [1]"
    by (simp add: sample_seal_def sample_xenv_def InitSealObjectTask_def sample_recv_defs)
  have "xSent sample_exe = []" by (simp add: sample_exe_def)
  with seal_reported_when_seen [OF facts r] seen msg r show ?thesis by auto
qed

text \<open>
  A delegated seal task counts the secondary addresses, which nothing fills in, and not the endpoints: every
  seal message of such a task carries the one checksum of the primary, however many secondary providers there are.
\<close>

theorem delegated_seal_one_checksum:
  "\<exists>n agg h. xSent (snd (exe_HandleSealObjectTask env (InitSealObjectTask now vgf ob params priority endpoints signatures timeout retry True) st))
     = xSent st @ replicate n (MsgSealObjectV2 (xvOperator env) (oBucketName ob) (oObjectName ob) vgf agg [h])"
proof -
  define so where "so = InitSealObjectTask now vgf ob params priority endpoints signatures timeout retry True"
  have so: "so_ObjectInfo so = ob" "so_SecondaryAddresses so = []" "so_StorageParams so = params" "so_IsAgentUploadTask so"
    "so_SecondarySignatures so = signatures" "so_GlobalVirtualGroupId so = vgf"
    by (simp_all add: so_def InitSealObjectTask_def)
  consider (bad) "list_ex (\<lambda>sig. xvSigErr env sig \<noteq> None) signatures" | (make) "\<not> list_ex (\<lambda>sig. xvSigErr env sig \<noteq> None) signatures" by blast
  then have "\<exists>n agg h. xSent (snd (exe_HandleSealObjectTask env so st))
     = xSent st @ replicate n (MsgSealObjectV2 (xvOperator env) (oBucketName ob) (oObjectName ob) vgf agg [h])"
  proof cases
    case bad then show ?thesis using so by (intro exI [of _ 0]) (simp add: exe_HandleSealObjectTask_def Let_def)
  next
    case make
    show ?thesis
    proof (cases "exe_makeCheckSumsForAgentUpload env (xDB st) ob 0 params")
      case (Ok cs)
      then obtain h where "cs = [h]" by (auto simp: exe_makeCheckSumsForAgentUpload_def split: sum.splits option.splits)
      then show ?thesis using so make Ok by (auto simp: exe_HandleSealObjectTask_def Let_def exe_sealObjectV2_def split: prod.splits)
    qed (use so make in \<open>auto intro!: exI [of _ "0 :: nat"] simp: exe_HandleSealObjectTask_def Let_def\<close>)
  qed
  then show ?thesis by (simp add: so_def)
qed

subsection \<open>Recovery\<close>

definition recovery_key :: "GfSpRecoverPieceTask \<Rightarrow> string" where
  "recovery_key re = (let ob = re_ObjectInfo re in
     if re_EcIdx re = -1 then SegmentPieceKey (oId ob) (re_SegmentIdx re) (oVersion ob)
     else ECPieceKey (oId ob) (re_SegmentIdx re) (u32 (re_EcIdx re)) (oVersion ob))"

text \<open>One write of the piece, with the checksum on record.\<close>

definition checked_write :: "'s xenv \<Rightarrow> GfSpRecoverPieceTask \<Rightarrow> 's ExecuteModular \<Rightarrow> 's ExecuteModular \<Rightarrow> bool" where
  "checked_write env re st st' \<longleftrightarrow> (\<exists>data meta s.
     GetObjectIntegrity (xvDb env 0 0) (xDB st) (oId (re_ObjectInfo re)) (re_EcIdx re) = Inr meta
     \<and> re_SegmentIdx re < int (length (imPieceChecksumList meta))
     \<and> eChecksum (xvEnv env) data = imPieceChecksumList meta ! nat (re_SegmentIdx re)
     \<and> ePut (xvEnv env) (xStore st) (recovery_key re) data = Inr s \<and> st' = st\<lparr>xStore := s\<rparr>)"

lemma checked_write_signature [simp]: "checked_write env (re\<lparr>re_Signature := sig\<rparr>) st st' = checked_write env re st st'"
  by (simp add: checked_write_def recovery_key_def Let_def)

lemma check_ok:
  assumes "\<not> re_BySuccessorSp re" "check_unless_successor env db re data = Ok u"
  shows "\<exists>meta. GetObjectIntegrity (xvDb env 0 0) db (oId (re_ObjectInfo re)) (re_EcIdx re) = Inr meta
    \<and> re_SegmentIdx re < int (length (imPieceChecksumList meta)) \<and> eChecksum (xvEnv env) data = imPieceChecksumList meta ! nat (re_SegmentIdx re)"
  using assms by (auto simp: check_unless_successor_def checkRecoveryChecksum_def Let_def split: sum.splits if_splits)

text \<open>Checking and then writing a piece under its key: nothing happens, or one checked write.\<close>

lemma check_then_put:
  assumes "\<not> re_BySuccessorSp re" "key = recovery_key re"
    and "check_and_put env re key data st = (r, st')"
  shows "if r = Ok () then checked_write env re st st' else st' = st"
proof (cases "check_unless_successor env (xDB st) re data")
  case (Ok u)
  with check_ok [OF assms(1) Ok] assms show ?thesis
    by (auto simp: check_and_put_def put_recovered_def PutPiece_def checked_write_def split: sum.splits)
qed (use assms in \<open>auto simp: check_and_put_def\<close>)

lemma signature_refl [simp]: "\<exists>sig. re = re\<lparr>re_Signature := sig\<rparr>"
  by (rule exI [of _ "re_Signature re"]) simp

lemma recoverByPrimarySP_checked:
  assumes "\<not> re_BySuccessorSp re" "0 \<le> re_EcIdx re" "recoverByPrimarySP env re st = (r, re', st')"
  shows "(if r = Ok () then checked_write env re st st' else st' = st) \<and> (\<exists>sig. re' = re\<lparr>re_Signature := sig\<rparr>)"
proof -
  consider (early) "r \<noteq> Ok ()" "st' = st" "\<exists>sig. re' = re\<lparr>re_Signature := sig\<rparr>"
    | (got) sig data where "re' = re\<lparr>re_Signature := sig\<rparr>"
       "check_and_put env re' (ECPieceKey (oId (re_ObjectInfo re)) (re_SegmentIdx re) (u32 (re_EcIdx re)) (oVersion (re_ObjectInfo re))) data st = (r, st')"
    using assms(3) by (auto simp: recoverByPrimarySP_def Let_def split: sum.splits outcome.splits prod.splits)
  then show ?thesis
  proof cases
    case got
    have "\<not> re_BySuccessorSp re'" "recovery_key re' = ECPieceKey (oId (re_ObjectInfo re)) (re_SegmentIdx re) (u32 (re_EcIdx re)) (oVersion (re_ObjectInfo re))"
      using assms(1,2) got(1) by (simp_all add: recovery_key_def Let_def)
    with check_then_put [of re' _ env data st r st'] got show ?thesis by auto
  qed simp
qed

lemma store_decoded_checked:
  assumes "\<not> re_BySuccessorSp re" "re_EcIdx re = -1 \<longleftrightarrow> \<not> me" "store_decoded env re me segData st = (r, st')"
  shows "if r = Ok () then checked_write env re st st' else st' = st"
proof (cases "recovered_piece env re me segData")
  case (Ok kd)
  obtain key data where kd: "kd = (key, data)" by force
  have "key = recovery_key re" using Ok kd assms(2) by (auto simp: recovered_piece_def recovery_key_def Let_def split: outcome.splits if_splits)
  moreover have "check_and_put env re key data st = (r, st')" using assms(3) Ok kd by (simp add: store_decoded_def)
  ultimately show ?thesis by (rule check_then_put [OF assms(1)])
qed (use assms(3) in \<open>auto simp: store_decoded_def\<close>)

lemma recoverBySecondarySP_checked:
  assumes "\<not> re_BySuccessorSp re" "re_EcIdx re = -1 \<longleftrightarrow> \<not> me" "recoverBySecondarySP env sched re me st = (r, re', st')"
  shows "(if r = Some (Ok ()) then checked_write env re st st' else st' = st) \<and> (\<exists>sig. re' = re\<lparr>re_Signature := sig\<rparr>)"
proof -
  consider (early) "r \<noteq> Some (Ok ())" "st' = st" "\<exists>sig. re' = re\<lparr>re_Signature := sig\<rparr>"
    | (got) sig segData r1 where "re' = re\<lparr>re_Signature := sig\<rparr>" "store_decoded env re' me segData st = (r1, st')" "r = Some r1"
    using assms(3) by (auto simp: recoverBySecondarySP_def Let_def split: sum.splits outcome.splits prod.splits if_splits option.splits gathering.splits)
  then show ?thesis
  proof cases
    case got
    with store_decoded_checked [of re' me env segData st r1 st'] assms(1,2) show ?thesis by auto
  qed simp
qed

text \<open>A lost piece of a sealed object, with one data and one parity piece; this provider is the second secondary provider.\<close>

definition sample_recover :: "int \<Rightarrow> GfSpRecoverPieceTask" where
  "sample_recover idx = \<lparr>re_Task = zero_task, re_ObjectInfo = sample_recv_object\<lparr>oObjectStatus := OBJECT_STATUS_SEALED\<rparr>,
     re_StorageParams = \<lparr>MaxPayloadSize = 100, MaxSegmentSize = 4, RedundantDataChunkNum = 1, RedundantParityChunkNum = 1\<rparr>,
     re_SegmentIdx = 0, re_EcIdx = idx, re_PieceSize = 0, re_Signature = [], re_Recovered = False, re_BySuccessorSp = False, re_GvgId = 1\<rparr>"

definition sample_recover_env :: "(string \<times> int list) list xenv" where
  "sample_recover_env = sample_xenv\<lparr>
     xvBucket := \<lambda>_. Inr (Some \<lparr>bBucketName = ''b'', bId = 1, bOwner = [], bChargedReadQuota = 0, bGlobalVirtualGroupFamilyId = 1\<rparr>),
     xvGroup := \<lambda>_ _. Inr \<lparr>cgId = 1, cgFamilyId = 1, cgPrimarySpId = 1, cgSecondarySpIds = [3, 2], cgStoredSize = 0, cgTotalDeposit = 0\<rparr>,
     xvListSPs := Inr [\<lparr>spId = 3, spOperatorAddress = [], spEndpoint = ''c'', spInService = True\<rparr>, \<lparr>spId = 2, spOperatorAddress = [], spEndpoint = ''b'', spInService = True\<rparr>],
     xvSelfSP := Inr \<lparr>spId = 2, spOperatorAddress = [], spEndpoint = ''b'', spInService = True\<rparr>,
     xvChunks := \<lambda>_ _. Inr ([1, 2, 3], None), xvDecode := \<lambda>s _ _ _. (case s ! 0 of None \<Rightarrow> Inl (OtherErr []) | Some d \<Rightarrow> Inr d),
     xvEncode := \<lambda>d _ _. Inr [d, rev d]\<rparr>"

definition sample_recover_exe :: "(string \<times> int list) list ExecuteModular" where
  "sample_recover_exe = sample_exe\<lparr>xDB := snd (SetObjectIntegrity no_faults
     \<lparr>imObjectID = 7, imRedundancyIndex = 1, imIntegrityChecksum = [3, 2, 1], imPieceChecksumList = [[3, 2, 1]], imObjectSize = 3\<rparr> (xDB sample_exe))\<rparr>"

lemmas sample_recover_defs = sample_recover_def sample_recover_env_def sample_recover_exe_def sample_xenv_def sample_exe_def sample_recv_object_def

abbreviation sample_schedule :: schedule where "sample_schedule \<equiv> \<lparr>scOrder = [0, 1], scLate = False, scExtra = 0\<rparr>"

lemma sample_recover_record:
  "GetObjectIntegrity (xvDb sample_recover_env 0 0) (xDB sample_recover_exe) 7 1
     = Inr \<lparr>imObjectID = 7, imRedundancyIndex = 1, imIntegrityChecksum = [3, 2, 1], imPieceChecksumList = [[3, 2, 1]], imObjectSize = 3\<rparr>"
  by (simp add: sample_recover_defs GetObjectIntegrity_def SetObjectIntegrity_def row_find_def imt_key_def) code_simp

lemma sample_recover_fails: "recoverByPrimarySP sample_recover_env (sample_recover 1) sample_recover_exe = (Fail (OtherErr ''x''), sample_recover 1, sample_recover_exe)"
  by (simp add: recoverByPrimarySP_def Let_def getBucketPrimarySPEndpoint_def) (simp add: sample_recover_env_def sample_xenv_def)

lemma sample_recover_works:
  "fst (recoverBySecondarySP sample_recover_env sample_schedule (sample_recover 1) True sample_recover_exe) = Some (Ok ())"
  using sample_recover_record
  by (simp add: recoverBySecondarySP_def Let_def getObjectSecondaryEndpoints_def sample_recover_def sample_recover_env_def sample_xenv_def
      SegmentPieceSize_def SegmentPieceCount_def u32_def u64_def i64_def i32_def fetch_piece_def doRecoveryPiece_def store_decoded_def recovered_piece_def
      getECPieceBySegment_def check_and_put_def check_unless_successor_def checkRecoveryChecksum_def put_recovered_def PutPiece_def sample_recv_object_def)

text \<open>
  C15: Unless it works for a predecessor, recovery changes nothing but the store, and the store only by one write of the piece it was asked
  for, with data whose checksum is the one on record for that segment; a task it marks as recovered has made that write.
\<close>

theorem recovered_piece_checked:
  assumes "\<not> re_BySuccessorSp re" "exe_HandleRecoverPieceTask env sched re st = (r, st')"
  shows "(st' = st \<or> checked_write env re st st') \<and> (\<forall>re'. r = Some re' \<and> re_Recovered re' \<longrightarrow> re_Recovered re \<or> checked_write env re st st')"
proof -
  have rec [simp]: "re_Recovered (recovered_task env err f re1) \<longleftrightarrow> f \<or> re_Recovered re1" for err f re1
    by (simp add: recovered_task_def Let_def split: option.splits)
  define second where "second = (\<lambda>err me re st. case recoverBySecondarySP env sched re me st of
             (None, re1, st1) \<Rightarrow> (None, st1)
           | (Some Panic, re1, st1) \<Rightarrow> (None, st1)
           | (Some (Fail e), re1, st1) \<Rightarrow> (Some (recovered_task env (Some e) False re1), st1)
           | (Some (Ok _), re1, st1) \<Rightarrow> (Some (recovered_task env err True re1), st1))"
  have sec: "(st2 = st1 \<or> checked_write env re1 st1 st2) \<and> (\<forall>re'. r1 = Some re' \<and> re_Recovered re' \<longrightarrow> re_Recovered re1 \<or> checked_write env re1 st1 st2)"
    if "\<not> re_BySuccessorSp re1" "re_EcIdx re1 = -1 \<longleftrightarrow> \<not> me" "second err me re1 st1 = (r1, st2)" for err me re1 st1 r1 st2
  proof -
    obtain q re2 st3 where q: "recoverBySecondarySP env sched re1 me st1 = (q, re2, st3)" by (cases "recoverBySecondarySP env sched re1 me st1") auto
    with recoverBySecondarySP_checked [OF that(1,2) q] that(3) show ?thesis
      by (auto simp: second_def split: option.splits outcome.splits)
  qed
  consider (refused) "st' = st" "\<And>re'. r = Some re' \<Longrightarrow> re_Recovered re' = re_Recovered re"
    | (primary) "0 \<le> re_EcIdx re" "(case recoverByPrimarySP env re st of (Panic, re1, st1) \<Rightarrow> (None, st1)
               | (Ok _, re1, st1) \<Rightarrow> (Some (recovered_task env None True re1), st1) | (Fail e, re1, st1) \<Rightarrow> second (Some e) True re1 st1) = (r, st')"
    | (none) "re_EcIdx re = -1" "second None False re st = (r, st')"
    using assms(2) unfolding exe_HandleRecoverPieceTask_def Let_def second_def by (auto split: if_splits)
  then show ?thesis
  proof cases
    case primary
    obtain q re1 st1 where q: "recoverByPrimarySP env re st = (q, re1, st1)" by (cases "recoverByPrimarySP env re st") auto
    note p = recoverByPrimarySP_checked [OF assms(1) primary(1) q]
    then obtain sig where re1: "re1 = re\<lparr>re_Signature := sig\<rparr>" by blast
    show ?thesis
    proof (cases q)
      case (Fail e)
      with sec [of re1 True "Some e" st1 r st'] primary q p re1 assms(1) show ?thesis by auto
    qed (use primary q p re1 in auto)
  qed (use sec [of re False None st r st'] assms(1) in auto)
qed

theorem recovered_piece_checked_witness:
  "\<exists>re' st'. exe_HandleRecoverPieceTask sample_recover_env sample_schedule (sample_recover 1) sample_recover_exe = (Some re', st')
     \<and> checked_write sample_recover_env (sample_recover 1) sample_recover_exe st'"
proof -
  obtain re' st' where r: "exe_HandleRecoverPieceTask sample_recover_env sample_schedule (sample_recover 1) sample_recover_exe = (Some re', st')" "re_Recovered re'"
    using sample_recover_fails sample_recover_works
    by (cases "recoverBySecondarySP sample_recover_env sample_schedule (sample_recover 1) True sample_recover_exe")
       (auto simp: exe_HandleRecoverPieceTask_def Let_def recovered_task_def sample_recover_def sample_recv_object_def u32_def i32_def)
  from recovered_piece_checked [OF _ r(1)] r(2) have "re_Recovered (sample_recover 1) \<or> checked_write sample_recover_env (sample_recover 1) sample_recover_exe st'"
    by (simp add: sample_recover_def)
  with r show ?thesis by (auto simp: sample_recover_def)
qed

text \<open>
  When the primary does not give the piece and the secondary providers do, the piece is written and the task is
  marked as recovered, and yet it carries the error of the primary.
\<close>

theorem recovered_task_carries_error:
  assumes "oObjectStatus (re_ObjectInfo re) = OBJECT_STATUS_SEALED" "oRedundancyType (re_ObjectInfo re) = REDUNDANCY_EC_TYPE" "0 \<le> re_EcIdx re"
    and "re_EcIdx re \<le> i32 (i32 (u32 (RedundantDataChunkNum (re_StorageParams re) + RedundantParityChunkNum (re_StorageParams re))) - 1)"
    and "recoverByPrimarySP env re st = (Fail e, re1, st1)" "shows_error (eUnmarshal (xvEnv env)) e"
    and "recoverBySecondarySP env sched re1 True st1 = (Some (Ok ()), re2, st2)"
  shows "\<exists>re'. exe_HandleRecoverPieceTask env sched re st = (Some re', st2) \<and> re_Recovered re' \<and> base_Error (re_Task re') \<noteq> None"
  using assms by (simp add: exe_HandleRecoverPieceTask_def Let_def recovered_task_def del: not_None_eq)

theorem recovered_task_carries_error_witness:
  "\<exists>re' st'. exe_HandleRecoverPieceTask sample_recover_env sample_schedule (sample_recover 1) sample_recover_exe = (Some re', st')
     \<and> re_Recovered re' \<and> base_Error (re_Task re') \<noteq> None"
proof -
  obtain re2 st2 where s: "recoverBySecondarySP sample_recover_env sample_schedule (sample_recover 1) True sample_recover_exe = (Some (Ok ()), re2, st2)"
    using sample_recover_works by (cases "recoverBySecondarySP sample_recover_env sample_schedule (sample_recover 1) True sample_recover_exe") auto
  have "str_index ''desc = '' ''x'' = None" by code_simp
  then have "shows_error (eUnmarshal (xvEnv sample_recover_env)) (OtherErr ''x'')"
    by (simp add: shows_error_def MakeGfSpError_def)
  from recovered_task_carries_error [OF _ _ _ _ sample_recover_fails this s]
  show ?thesis by (auto simp: sample_recover_def sample_recv_object_def u32_def i32_def)
qed

text \<open>The providers in a list that would give their piece.\<close>

definition givers :: "'s xenv \<Rightarrow> GfSpRecoverPieceTask \<Rightarrow> string list \<Rightarrow> string \<Rightarrow> nat list \<Rightarrow> nat list" where
  "givers env re endpoints self os = filter (\<lambda>i. endpoints ! i \<noteq> self \<and> is_ok (doRecoveryPiece env re (endpoints ! i))) os"

lemma fetch_piece_gives: "snd (fetch_piece env re endpoints (Some self) i s) \<longleftrightarrow> givers env re endpoints self [i] \<noteq> []"
  by (auto simp: fetch_piece_def givers_def split: sum.splits)

lemma gather_too_few:
  assumes "0 < need" "\<And>i. i \<in> set os \<Longrightarrow> i < length endpoints" "os \<noteq> []" "got + length (givers env re endpoints self os) < need"
  shows "gather env re endpoints (Some self) late extra need sz (os @ rest) (int (length os)) got sources = TooFew"
  using assms(2-4)
proof (induction os arbitrary: got sources)
  case (Cons i os)
  obtain s1 f where f: "fetch_piece env re endpoints (Some self) i sources = (s1, f)" by force
  have g: "length (givers env re endpoints self (i # os)) = (if f then 1 else 0) + length (givers env re endpoints self os)"
    using f fetch_piece_gives [of env re endpoints self i sources] by (auto simp: givers_def split: if_splits)
  have i: "\<not> length endpoints \<le> i" using Cons.prems(1) [of i] by simp
  show ?case
  proof (cases "os = []")
    case True
    with Cons.prems(3) g f i assms(1) show ?thesis by (auto simp: Let_def)
  next
    case False
    with Cons.IH [of "if f then Suc got else got" s1] Cons.prems g f i assms(1) show ?thesis by (auto simp: Let_def)
  qed
qed simp

text \<open>
  A secondary provider that asks the others counts its own request as ended twice, so it stops when one request
  is still open: if fewer pieces than needed have come by then it gives up, even when the last provider would have given the
  missing piece.
\<close>

theorem recovery_gives_up_early:
  assumes "0 < need" "\<forall>i \<in> set os. i < length endpoints" "os \<noteq> []" "length (givers env re endpoints self os) < need"
    and "givers env re endpoints self [j] = [j]"
  shows "gather env re endpoints (Some self) late extra need sz (os @ [j]) (int (length (os @ [j])) - 1) 0 sources = TooFew
     \<and> length (givers env re endpoints self (os @ [j])) = length (givers env re endpoints self os) + 1"
  using gather_too_few [of need os endpoints 0 env re self late extra sz "[j]" sources] assms by (simp add: givers_def split: if_splits)

theorem recovery_gives_up_early_witness:
  "gather sample_recover_env (sample_recover 1) [''c'', ''b''] (Some ''b'') False 0 1 3 [1, 0] 1 0 [None, None] = TooFew
   \<and> (\<exists>s. gather sample_recover_env (sample_recover 1) [''c'', ''b''] (Some ''b'') False 0 1 3 [0, 1] 1 0 [None, None] = Gathered s)"
proof -
  have g: "givers sample_recover_env (sample_recover 1) [''c'', ''b''] ''b'' [0] = [0]" "givers sample_recover_env (sample_recover 1) [''c'', ''b''] ''b'' [1] = []"
    by (simp_all add: givers_def doRecoveryPiece_def sample_recover_env_def)
  from recovery_gives_up_early [of 1 "[1]" "[''c'', ''b'']" sample_recover_env "sample_recover 1" "''b''" 0 False 0 3 "[None, None]"] g
  show ?thesis by (simp add: fetch_piece_def doRecoveryPiece_def sample_recover_env_def)
qed

text \<open>
  A piece that is cut out of a recovered segment, one of the data pieces but the first and the last, is one byte shorter than
  the piece the encoding gives.
\<close>

theorem cut_piece_short:
  assumes "0 < idx" "idx < RedundantDataChunkNum params - 1" "RedundantDataChunkNum params + RedundantParityChunkNum params < 2 ^ 31"
    and "0 \<le> RedundantParityChunkNum params" "ECPieceSize (oPayloadSize ob) seg (MaxSegmentSize params) (RedundantDataChunkNum params) = Some sz"
    and "0 < sz" "(idx + 1) * sz < 2 ^ 63" "(idx + 1) * sz \<le> int (length segData)"
  shows "\<exists>data. getECPieceBySegment env idx ob params segData seg = Ok data \<and> int (length data) = sz - 1
     \<and> data = take (nat sz - 1) (drop (nat (idx * sz)) segData)"
proof -
  have prod: "0 \<le> idx * sz" "idx * sz \<le> (idx + 1) * sz - 1" "0 \<le> (idx + 1) * sz" using assms(1,6) by (simp_all add: distrib_right)
  have i: "i64 (idx * sz) = idx * sz" "i64 ((idx + 1) * sz) = (idx + 1) * sz" "i64 ((idx + 1) * sz - 1) = (idx + 1) * sz - 1"
    using prod assms(7) by (auto intro!: i64_id simp: is_i64_def)
  have w: "i32 (u32 (RedundantDataChunkNum params + RedundantParityChunkNum params - 1)) = RedundantDataChunkNum params + RedundantParityChunkNum params - 1"
    "i32 (RedundantDataChunkNum params) = RedundantDataChunkNum params" "i32 (RedundantDataChunkNum params - 1) = RedundantDataChunkNum params - 1"
    using assms(1-4) by (simp_all add: i32_def u32_def)
  have "getECPieceBySegment env idx ob params segData seg = go_slice segData (xvSpare env segData) (idx * sz) ((idx + 1) * sz - 1)"
    using assms(1-5) w i by (simp add: getECPieceBySegment_def Let_def)
  moreover have "nat ((idx + 1) * sz - 1) - nat (idx * sz) = nat sz - 1" using prod assms(6) by (simp add: distrib_right nat_diff_distrib' flip: nat_diff_distrib)
  moreover have fits: "nat (idx * sz) + (nat sz - 1) \<le> length segData" using prod assms(6,8) by (simp add: distrib_right)
  moreover have "nat sz + nat (idx * sz) - Suc (length segData) = 0" using fits by simp
  moreover have "int (nat sz - 1) = sz - 1" using assms(6) by simp
  moreover have "min (length segData - nat (idx * sz)) (nat sz - 1) = nat sz - 1" using fits by (simp add: min_absorb2)
  ultimately show ?thesis using prod assms(6,8) by (simp add: go_slice_def)
qed

theorem cut_piece_short_witness:
  "getECPieceBySegment sample_xenv 1 (sample_recv_object\<lparr>oPayloadSize := 8\<rparr>) (rc_StorageParams (sample_recv 8 0 [])) [1, 2, 3, 4, 5, 6, 7, 8] 0 = Ok [3]"
  using cut_piece_short [of 1 "rc_StorageParams (sample_recv 8 0 [])" "sample_recv_object\<lparr>oPayloadSize := 8\<rparr>" 0 2 "[1, 2, 3, 4, 5, 6, 7, 8]" sample_xenv]
  by (auto simp: sample_recv_def ECPieceSize_def SegmentPieceSize_def SegmentPieceCount_def u32_def u64_def i64_def signed_divide_int_def signed_modulo_int_def)

end
