(* ===== verification/SP_ReplicationProps.thy ===== *)
theory SP_ReplicationProps
  imports SP_ExecutorProps
begin

text \<open>
  Properties of replication: a seal message is only sent with verified signatures of all secondary providers; and the
  executor composed with the receivers of the secondary providers, as the network, brings every piece to its place.
\<close>

subsection \<open>What replication leaves alone\<close>

text \<open>Sending pieces changes the log, the error and the unavailable provider of the task, the piece hashes and the network.\<close>

definition rp_core :: "GfSpReplicatePieceTask \<Rightarrow> ObjectInfo \<times> Params \<times> string list \<times> int \<times> bool \<times> int list list \<times> bool \<times> int" where
  "rp_core rp = (rp_ObjectInfo rp, rp_StorageParams rp, rp_SecondaryEndpoints rp, rp_GlobalVirtualGroupId rp, rp_IsAgentUploadTask rp,
     rp_SecondarySignatures rp, rp_Sealed rp, tMaxRetry (rp_Task rp))"

definition keeps :: "('s, 'n) repl \<Rightarrow> ('s, 'n) repl \<Rightarrow> bool" where
  "keeps w w' \<longleftrightarrow> rp_core (plTask w') = rp_core (plTask w) \<and> xStore (plExe w') = xStore (plExe w)
     \<and> xSpMap (plExe w') = xSpMap (plExe w) \<and> xSent (plExe w') = xSent (plExe w) \<and> xMaxListenSealRetry (plExe w') = xMaxListenSealRetry (plExe w)"

lemma keeps_refl [simp]: "keeps w w"
  by (simp add: keeps_def)

lemma keeps_trans: "keeps w1 w2 \<Longrightarrow> keeps w2 w3 \<Longrightarrow> keeps w1 w3"
  by (simp add: keeps_def)

lemma keeps_log [simp]: "keeps w (pl_log env l w)" "keeps (pl_log env l w) w1 \<longleftrightarrow> keeps w w1" "keeps w (pl_log env l w1) \<longleftrightarrow> keeps w w1"
  by (simp_all add: keeps_def pl_log_def rp_core_def base_AppendLog_def)

lemma keeps_unavailable [simp]: "keeps w (pl_unavailable i w1) \<longleftrightarrow> keeps w w1" "keeps (pl_unavailable i w) w1 \<longleftrightarrow> keeps w w1"
  by (simp_all add: keeps_def pl_unavailable_def rp_core_def SetNotAvailableSpIdx_def)

lemma keeps_error [simp]: "keeps w (w1\<lparr>plTask := (plTask w1)\<lparr>rp_Task := base_SetError u e (rp_Task (plTask w1))\<rparr>\<rparr>) \<longleftrightarrow> keeps w w1"
  by (simp add: keeps_def rp_core_def base_SetError_def)

lemma keeps_db_net [simp]: "keeps w (w1\<lparr>plExe := (plExe w1)\<lparr>xDB := db\<rparr>\<rparr>) \<longleftrightarrow> keeps w w1" "keeps w (w1\<lparr>plNet := n\<rparr>) \<longleftrightarrow> keeps w w1"
  by (simp_all add: keeps_def)

lemma replicate_one_keeps: "keeps w (snd (replicate_one env ep seg i data w))"
  by (auto simp: replicate_one_def Let_def split: prod.splits option.splits sum.splits if_splits)

lemma doReplicatePiece_keeps:
  assumes "doReplicatePiece env ep seg i data w = (err, w')" shows "keeps w w'"
proof -
  define begun where "begun = pl_log env (''executor-begin-replicate-piece-'' @ ''sIdx:'' @ show_nat seg @ ''-rIdx-'' @ show_int (i32 (int i))) w"
  obtain err1 w1 where r: "replicate_one env ep seg i data begun = (err1, w1)" by force
  then have "keeps w w1" using replicate_one_keeps [of begun env ep seg i data] by (simp add: begun_def)
  then show ?thesis using assms r by (auto simp: doReplicatePiece_def Let_def begun_def)
qed

lemma replicate_all_keeps: "replicate_all env seg piece order seen w = Some (seen', w') \<Longrightarrow> keeps w w'"
proof (induction order arbitrary: seen w)
  case (Cons i order)
  obtain data where d: "piece i = Some data" using Cons.prems by (cases "piece i") auto
  obtain err w1 where r: "doReplicatePiece env (rp_SecondaryEndpoints (plTask w) ! i) seg i data w = (err, w1)" by force
  from doReplicatePiece_keeps [OF r] Cons.prems d r show ?case
    by (cases err) (auto dest!: Cons.IH intro: keeps_trans)
qed simp

lemma replicate_segment_keeps: "replicate_segment env seg seen w = Some (seen', w') \<Longrightarrow> keeps w w'"
  by (auto simp: replicate_segment_def Let_def split: sum.splits if_splits dest!: replicate_all_keeps)
     (auto simp: keeps_def rp_core_def base_SetError_def)

lemma replicate_segments_keeps: "replicate_segments env segs seen w = Some (seen', w') \<Longrightarrow> keeps w w'"
proof (induction segs arbitrary: seen w)
  case (Cons seg segs)
  then show ?case by (cases "replicate_segment env seg seen w") (auto dest: replicate_segment_keeps intro: keeps_trans)
qed simp

lemma doneReplicatePiece_keeps: "doneReplicatePiece env ep i w = (r, w') \<Longrightarrow> keeps w w'"
  by (auto simp: doneReplicatePiece_def Let_def split: sum.splits prod.splits if_splits)

subsection \<open>Verified signatures\<close>

definition verified :: "('s, 'n) renv \<Rightarrow> GlobalVirtualGroup \<Rightarrow> (int \<rightharpoonup> StorageProvider) \<Rightarrow> ObjectInfo \<Rightarrow> nat \<Rightarrow> int list \<Rightarrow> bool" where
  "verified env gvg sps ob i sig \<longleftrightarrow> i < length (cgSecondarySpIds gvg) \<and> (\<exists>sp. sps (cgSecondarySpIds gvg ! i) = Some sp
     \<and> rvKeyErr env sp = None \<and> xvSigErr (rvX env) sig = None \<and> rvVerify env sp sig (rvSignDoc env (cgId gvg) (oId ob) (oChecksums ob)))"

lemma verity_verified: "veritySecondarySpBlsSignature env sp sig doc = None \<longleftrightarrow> rvKeyErr env sp = None \<and> xvSigErr (rvX env) sig = None \<and> rvVerify env sp sig doc"
  by (auto simp: veritySecondarySpBlsSignature_def split: option.splits)

lemma done_all_verified:
  assumes "done_all env gvg i eps sigs w = Some (Inr sigs', w')"
  shows "keeps w w' \<and> length sigs' = length sigs \<and> (\<forall>j<i. sigs' ! j = sigs ! j)
    \<and> (\<forall>j. i \<le> j \<and> j < i + length eps \<longrightarrow> verified env gvg (xSpMap (plExe w)) (rp_ObjectInfo (plTask w)) j (sigs' ! j))"
  using assms
proof (induction eps arbitrary: i sigs w)
  case (Cons ep eps)
  obtain r w1 where d: "doneReplicatePiece env ep i w = (r, w1)" by force
  then have k: "keeps w w1" by (rule doneReplicatePiece_keeps)
  from Cons.prems d obtain sig sp where s: "r = Inr sig" "i < length (cgSecondarySpIds gvg)" "getSpByID (plExe w1) (cgSecondarySpIds gvg ! i) = Some sp"
    "veritySecondarySpBlsSignature env sp sig (rvSignDoc env (cgId gvg) (oId (rp_ObjectInfo (plTask w1))) (oChecksums (rp_ObjectInfo (plTask w1)))) = None"
    "i < length sigs" "done_all env gvg (Suc i) eps (sigs[i := sig]) w1 = Some (Inr sigs', w')"
    by (auto simp: Let_def split: sum.splits if_splits option.splits)
  note ih = Cons.IH [OF s(6)]
  have same: "xSpMap (plExe w1) = xSpMap (plExe w)" "rp_ObjectInfo (plTask w1) = rp_ObjectInfo (plTask w)"
    using k by (simp_all add: keeps_def rp_core_def)
  have "sigs' ! i = sig" using ih s(5) by simp
  then have i: "verified env gvg (xSpMap (plExe w)) (rp_ObjectInfo (plTask w)) i (sigs' ! i)"
    using s(2,3,4) same by (simp add: verified_def verity_verified getSpByID_def)
  have "verified env gvg (xSpMap (plExe w)) (rp_ObjectInfo (plTask w)) j (sigs' ! j)" if "i \<le> j" "j < i + length (ep # eps)" for j
    using that i ih same by (cases "j = i") auto
  with ih k show ?case by (auto intro: keeps_trans)
qed auto

text \<open>The two messages that seal the object of a task.\<close>

definition seals :: "('s, 'n) renv \<Rightarrow> GfSpReplicatePieceTask \<Rightarrow> int list list \<Rightarrow> retry_msg \<Rightarrow> bool" where
  "seals env rp sigs msg \<longleftrightarrow> (let ob = rp_ObjectInfo rp; op = xvOperator (rvX env); agg = xvAggregate (rvX env) sigs in
     msg = MsgSealObject op (oBucketName ob) (oObjectName ob) (rp_GlobalVirtualGroupId rp) agg
     \<or> (\<exists>checksums. msg = MsgSealObjectV2 op (oBucketName ob) (oObjectName ob) (rp_GlobalVirtualGroupId rp) agg checksums))"

lemma seals_cong:
  assumes "oBucketName (rp_ObjectInfo rp') = oBucketName (rp_ObjectInfo rp)" "oObjectName (rp_ObjectInfo rp') = oObjectName (rp_ObjectInfo rp)"
    and "rp_GlobalVirtualGroupId rp' = rp_GlobalVirtualGroupId rp"
  shows "seals env rp' = seals env rp"
  using assms by (simp add: seals_def fun_eq_iff Let_def)

lemma done_all_sent: "done_all env gvg i eps sigs w = Some (r, w') \<Longrightarrow> xSent (plExe w') = xSent (plExe w)"
proof (induction eps arbitrary: i sigs w)
  case (Cons ep eps)
  obtain q w1 where d: "doneReplicatePiece env ep i w = (q, w1)" by force
  with doneReplicatePiece_keeps [OF d] Cons.prems show ?case
    by (cases q) (auto simp: Let_def keeps_def pl_unavailable_def split: if_splits option.splits dest!: Cons.IH)
qed simp

lemma doneReplicate_sent: "doneReplicate env n w = Some (r, w') \<Longrightarrow> xSent (plExe w') = xSent (plExe w)"
  by (auto simp: doneReplicate_def Let_def split: sum.splits option.splits if_splits outcome.splits dest!: done_all_sent)

lemma doneReplicate_verified:
  assumes "doneReplicate env n w = Some (Inr sigs, w')"
  shows "\<exists>gvg. rvGroupById env (rp_GlobalVirtualGroupId (plTask w)) = Inr (Some gvg) \<and> length sigs = n
    \<and> xSent (plExe w') = xSent (plExe w) \<and> seals env (plTask w') = seals env (plTask w)
    \<and> (\<forall>j < length (rp_SecondaryEndpoints (plTask w)). verified env gvg (xSpMap (plExe w)) (rp_ObjectInfo (plTask w')) j (sigs ! j))"
proof -
  define wc where "wc = (\<lambda>cs. w\<lparr>plTask := (plTask w)\<lparr>rp_ObjectInfo := (rp_ObjectInfo (plTask w))\<lparr>oChecksums := cs\<rparr>\<rparr>\<rparr>)"
  obtain gvg where g: "rvGroupById env (rp_GlobalVirtualGroupId (plTask w)) = Inr (Some gvg)"
    using assms by (auto simp: doneReplicate_def Let_def split: sum.splits option.splits)
  have "\<exists>w1. (w1 = w \<or> (\<exists>cs. w1 = wc cs)) \<and> done_all env gvg 0 (rp_SecondaryEndpoints (plTask w)) (replicate n []) w1 = Some (Inr sigs, w')"
    using assms g by (auto simp: doneReplicate_def Let_def wc_def split: if_splits outcome.splits)
  then obtain w1 where w: "w1 = w \<or> (\<exists>cs. w1 = wc cs)" and d: "done_all env gvg 0 (rp_SecondaryEndpoints (plTask w)) (replicate n []) w1 = Some (Inr sigs, w')"
    by blast
  have w1: "plExe w1 = plExe w" using w by (auto simp: wc_def)
  have s1: "seals env (plTask w1) = seals env (plTask w)" using w by (auto intro!: seals_cong simp: wc_def)
  have "seals env (plTask w') = seals env (plTask w1)" using done_all_verified [OF d] by (auto intro!: seals_cong simp: keeps_def rp_core_def)
  with done_all_verified [OF d] w1 s1 g show ?thesis by (auto simp: keeps_def rp_core_def)
qed

lemma handleReplicatePiece_verified:
  assumes "handleReplicatePiece env w = Some (None, w')"
  shows "\<exists>gvg. rvGroupById env (rp_GlobalVirtualGroupId (plTask w)) = Inr (Some gvg) \<and> xSent (plExe w') = xSent (plExe w)
    \<and> seals env (plTask w') = seals env (plTask w) \<and> length (rp_SecondarySignatures (plTask w')) = replicate_count (rp_StorageParams (plTask w))
    \<and> (\<forall>j < length (rp_SecondaryEndpoints (plTask w)). verified env gvg (xSpMap (plExe w)) (rp_ObjectInfo (plTask w')) j (rp_SecondarySignatures (plTask w') ! j))"
proof -
  from assms obtain n w1 w2 sigs where r: "replicate_segments env [0..<n] [] w = Some ([], w1)"
    "doneReplicate env (replicate_count (rp_StorageParams (plTask w))) w1 = Some (Inr sigs, w2)"
    "w' = w2\<lparr>plTask := (plTask w2)\<lparr>rp_SecondarySignatures := sigs\<rparr>\<rparr>"
    by (auto simp: handleReplicatePiece_def Let_def split: option.splits prod.splits sum.splits if_splits)
  have "seals env (plTask w1) = seals env (plTask w)" "seals env (plTask w') = seals env (plTask w2)"
    using replicate_segments_keeps [OF r(1)] r(3) by (auto intro!: seals_cong simp: keeps_def rp_core_def)
  with replicate_segments_keeps [OF r(1)] doneReplicate_verified [OF r(2)] r(3) show ?thesis by (auto simp: keeps_def rp_core_def)
qed

lemma sealObject_sent: "\<exists>n. xSent (snd (exe_sealObject x ob msg t st)) = xSent st @ replicate n msg"
  "\<exists>n. xSent (snd (exe_sealObjectV2 x ob msg t st)) = xSent st @ replicate n msg"
  by (auto simp: exe_sealObject_def exe_sealObjectV2_def split: prod.splits)

lemma replicate_seal_sent:
  assumes "replicate_seal env w = Some w'"
  shows "rp_ObjectInfo (plTask w') = rp_ObjectInfo (plTask w) \<and> (\<exists>n msg. xSent (plExe w') = xSent (plExe w) @ replicate n msg
    \<and> seals env (plTask w) (rp_SecondarySignatures (plTask w)) msg)"
proof -
  define rp where "rp = plTask w"
  define v1 where "v1 = MsgSealObject (xvOperator (rvX env)) (oBucketName (rp_ObjectInfo rp)) (oObjectName (rp_ObjectInfo rp)) (rp_GlobalVirtualGroupId rp)
     (xvAggregate (rvX env) (rp_SecondarySignatures rp))"
  define v2 where "v2 = (\<lambda>cs. MsgSealObjectV2 (xvOperator (rvX env)) (oBucketName (rp_ObjectInfo rp)) (oObjectName (rp_ObjectInfo rp)) (rp_GlobalVirtualGroupId rp)
     (xvAggregate (rvX env) (rp_SecondarySignatures rp)) cs)"
  have ok: "seals env rp (rp_SecondarySignatures rp) v1" "\<And>cs. seals env rp (rp_SecondarySignatures rp) (v2 cs)"
    by (simp_all add: seals_def Let_def v1_def v2_def)
  have info: "rp_ObjectInfo (plTask w') = rp_ObjectInfo rp"
    using assms by (auto simp: replicate_seal_def Let_def rp_result_def case_prod_beta rp_def split: if_splits outcome.splits)
  have "xSent (plExe w') = xSent (plExe w) @ replicate 0 v1
     \<or> plExe w' = snd (exe_sealObject (rvX env) (rp_ObjectInfo rp) v1 (rp_Task rp) (plExe w))
     \<or> (\<exists>cs. plExe w' = snd (exe_sealObjectV2 (rvX env) (rp_ObjectInfo rp) (v2 cs) (rp_Task rp) (plExe w)))"
    using assms by (auto simp: replicate_seal_def Let_def rp_result_def case_prod_beta rp_def [symmetric] v1_def [symmetric] v2_def split: if_splits outcome.splits)
  then consider "xSent (plExe w') = xSent (plExe w) @ replicate 0 v1" | n where "xSent (plExe w') = xSent (plExe w) @ replicate n v1"
    | n cs where "xSent (plExe w') = xSent (plExe w) @ replicate n (v2 cs)"
    using sealObject_sent [of "rvX env" "rp_ObjectInfo rp" _ "rp_Task rp" "plExe w"] by metis
  then have "\<exists>n msg. xSent (plExe w') = xSent (plExe w) @ replicate n msg \<and> seals env rp (rp_SecondarySignatures rp) msg"
    using ok by cases blast+
  then show ?thesis using info by (simp add: rp_def)
qed

text \<open>
  C14: The primary sends a seal message only when every secondary provider has given a signature that the key of
  the provider in that place of the group verifies over the checksums of the object; the message carries the aggregate
  of these signatures.
\<close>

theorem sealed_with_verified_signatures:
  assumes "exe_HandleReplicatePieceTask env w = Some w'" "xSent (plExe w') \<noteq> xSent (plExe w)"
  shows "\<exists>gvg sigs n msg. rvGroupById env (rp_GlobalVirtualGroupId (plTask w)) = Inr (Some gvg)
     \<and> length sigs = replicate_count (rp_StorageParams (plTask w))
     \<and> (\<forall>j < length (rp_SecondaryEndpoints (plTask w)). verified env gvg (xSpMap (plExe w)) (rp_ObjectInfo (plTask w')) j (sigs ! j))
     \<and> xSent (plExe w') = xSent (plExe w) @ replicate n msg \<and> seals env (plTask w) sigs msg"
proof -
  define l where "l = pl_log env ''executor-end-replicate-object''"
  have l: "plExe (l w1) = plExe w1" "rp_ObjectInfo (plTask (l w1)) = rp_ObjectInfo (plTask w1)" "rp_SecondarySignatures (plTask (l w1)) = rp_SecondarySignatures (plTask w1)"
    "seals env (plTask (l w1)) = seals env (plTask w1)" for w1
    by (auto intro!: seals_cong simp: l_def pl_log_def)
  obtain err w1 where h: "handleReplicatePiece env w = Some (err, w1)"
    using assms by (cases "handleReplicatePiece env w") (auto simp: exe_HandleReplicatePieceTask_def Let_def rp_result_def split: if_splits)
  have same: "xSent (plExe w1) = xSent (plExe w)" if "err = None" using handleReplicatePiece_verified [of env w w1] h that by auto
  have sent_err: "xSent (plExe w1) = xSent (plExe w)"
  proof -
    from h obtain seen w2 n w3 r where "replicate_segments env [0..<n] [] w = Some (seen, w2)" "doneReplicate env (replicate_count (rp_StorageParams (plTask w))) w2 = Some (r, w3)"
      "xSent (plExe w1) = xSent (plExe w3)"
      by (auto simp: handleReplicatePiece_def Let_def split: option.splits prod.splits sum.splits)
    moreover from this(2) have "xSent (plExe w3) = xSent (plExe w2)" by (rule doneReplicate_sent)
    ultimately show ?thesis by (auto simp: keeps_def dest: replicate_segments_keeps)
  qed
  from assms h sent_err have "err = None" "replicate_seal env (l w1) = Some w'"
    by (auto simp: exe_HandleReplicatePieceTask_def Let_def rp_result_def l_def split: if_splits option.splits)
  then obtain n msg where m: "xSent (plExe w') = xSent (plExe w) @ replicate n msg" "seals env (plTask w1) (rp_SecondarySignatures (plTask w1)) msg"
    "rp_ObjectInfo (plTask w') = rp_ObjectInfo (plTask w1)"
    using replicate_seal_sent [of env "l w1" w'] l sent_err by auto
  from handleReplicatePiece_verified [of env w w1] h \<open>err = None\<close> obtain gvg where g: "rvGroupById env (rp_GlobalVirtualGroupId (plTask w)) = Inr (Some gvg)"
    "seals env (plTask w1) = seals env (plTask w)" "length (rp_SecondarySignatures (plTask w1)) = replicate_count (rp_StorageParams (plTask w))"
    "\<forall>j < length (rp_SecondaryEndpoints (plTask w)). verified env gvg (xSpMap (plExe w)) (rp_ObjectInfo (plTask w1)) j (rp_SecondarySignatures (plTask w1) ! j)"
    by auto
  show ?thesis using g m by (intro exI [of _ gvg] exI [of _ "rp_SecondarySignatures (plTask w1)"] exI [of _ n] exI [of _ msg]) simp
qed

subsection \<open>Replication to receivers\<close>

text \<open>
  The network whose providers are receivers, one for each endpoint: a request changes the state of the receiver it is
  sent to, and its result is the answer.
\<close>

type_synonym 's receivers = "string \<Rightarrow> 's ReceiveModular"

definition net_send :: "(string \<Rightarrow> 's env) \<Rightarrow> string \<Rightarrow> GfSpReceivePieceTask \<Rightarrow> int list \<Rightarrow> 's receivers \<Rightarrow> (go_error + unit) \<times> 's receivers" where
  "net_send renv ep r data n =
     (let out = recv_HandleReceivePieceTask (renv ep) r data (n ep)
      in (case roRet out of Ok _ \<Rightarrow> Inr () | Fail e \<Rightarrow> Inl e | Panic \<Rightarrow> Inl (OtherErr ''connection lost''), n(ep := roState out)))"

definition net_done :: "(string \<Rightarrow> 's env) \<Rightarrow> (string \<Rightarrow> recv_answers) \<Rightarrow> string \<Rightarrow> GfSpReceivePieceTask \<Rightarrow> 's receivers \<Rightarrow> (go_error + int list) \<times> 's receivers" where
  "net_done renv ans ep r n =
     (let out = HandleDoneReceivePieceTask (renv ep) (ans ep) False r (n ep)
      in (case roRet out of Ok s \<Rightarrow> Inr s | Fail e \<Rightarrow> Inl e | Panic \<Rightarrow> Inl (OtherErr ''connection lost''), n(ep := roState out)))"

text \<open>A receiver that has the hashes of the first \<open>s\<close> pieces of an object, and no record of it yet.\<close>

definition receiving :: "ObjectInfo \<Rightarrow> int \<Rightarrow> (nat \<Rightarrow> int list) \<Rightarrow> nat \<Rightarrow> 's ReceiveModular \<Rightarrow> bool" where
  "receiving ob ri hash s st \<longleftrightarrow> idle (rvQueue st) \<and> hashes_inv (rvDB st) \<and> row_find imt_key (oId ob, ri) (integrity_metas (rvDB st)) = None
     \<and> (\<forall>j < s. hash_at (rvDB st) (oId ob, int j, ri) = Some (EncodeToString (hash j)))"

lemma receiving_step:
  assumes "receiving ob ri hash s st" "fault_free e" "rc_ObjectInfo r = ob" "rc_RedundancyIdx r = ri" "rc_SegmentIdx r = int s"
    and "rc_PieceChecksum r = eChecksum e data" "hash s = eChecksum e data"
  shows "\<exists>st'. roRet (recv_HandleReceivePieceTask e r data st) = Ok () \<and> roState (recv_HandleReceivePieceTask e r data st) = st' \<and> receiving ob ri hash (Suc s) st'"
proof -
  have "arrival e ob ri (\<lambda>_. data) r data" using assms(3-6) by (simp add: arrival_def)
  from receive_one [OF _ _ assms(2) this, of st] assms(1,3-7) show ?thesis
    unfolding receiving_def by (metis (no_types, lifting) less_Suc_eq of_nat_eq_iff prod.inject recv_out.select_convs(1,4))
qed

subsection \<open>One segment\<close>

lemma doReplicatePiece_ok:
  assumes "\<not> rp_IsAgentUploadTask (plTask w)" "rvSign env (receive_request env (plTask w) seg i data) = Inr s"
    and "rvSend env ep ((receive_request env (plTask w) seg i data)\<lparr>rc_Signature := s\<rparr>) data (plNet w) = (Inr (), n)"
  shows "\<exists>w'. doReplicatePiece env ep seg i data w = (None, w') \<and> plNet w' = n \<and> keeps w w'"
proof -
  obtain err w' where r: "doReplicatePiece env ep seg i data w = (err, w')" by force
  have "retry_Do (RtyAttNum - 1) (rvSend env ep ((receive_request env (plTask w) seg i data)\<lparr>rc_Signature := s\<rparr>) data) (plNet w) = (Inr (), n)"
    using assms(3) by (simp add: RtyAttNum_def numeral_2_eq_2)
  then have "err = None \<and> plNet w' = n"
    using r assms(1,2) by (auto simp: doReplicatePiece_def Let_def replicate_one_def pl_log_def receive_request_def split: prod.splits)
  then show ?thesis using r doReplicatePiece_keeps [OF r] by auto
qed

lemma request_core: "rp_core rp = rp_core rp0 \<Longrightarrow> receive_request env rp = receive_request env rp0 \<and> done_request env rp = done_request env rp0"
  by (simp add: rp_core_def receive_request_def done_request_def fun_eq_iff)

text \<open>
  A primary and its receivers: the hashes \<open>hash i s\<close> are those of the pieces \<open>piece s i\<close>, all providers hash alike, the
  endpoints are distinct, and requests get signed.
\<close>

definition replication_ready :: "('s, 't receivers) renv \<Rightarrow> (string \<Rightarrow> 't env) \<Rightarrow> GfSpReplicatePieceTask \<Rightarrow> nat \<Rightarrow> (nat \<Rightarrow> nat \<Rightarrow> int list) \<Rightarrow> bool" where
  "replication_ready env renv rp n piece \<longleftrightarrow>
     (let eps = rp_SecondaryEndpoints rp in
      \<not> rp_IsAgentUploadTask rp \<and> distinct eps \<and> length eps < 2 ^ 31 - 1 \<and> rvSend env = net_send renv \<and> (\<forall>r. \<exists>s. rvSign env r = Inr s)
      \<and> (\<forall>i < length eps. fault_free (renv (eps ! i)) \<and> eChecksum (renv (eps ! i)) = eChecksum (xvEnv (rvX env)))
      \<and> (\<forall>s < n. distinct (rvOrder env s) \<and> set (rvOrder env s) = {..<length eps}))"

abbreviation piece_hash :: "('s, 't receivers) renv \<Rightarrow> (nat \<Rightarrow> nat \<Rightarrow> int list) \<Rightarrow> nat \<Rightarrow> nat \<Rightarrow> int list" where
  "piece_hash env piece i s \<equiv> eChecksum (xvEnv (rvX env)) (piece s i)"

abbreviation at_stage :: "('s, 't receivers) renv \<Rightarrow> GfSpReplicatePieceTask \<Rightarrow> (nat \<Rightarrow> nat \<Rightarrow> int list) \<Rightarrow> nat \<Rightarrow> nat \<Rightarrow> 't ReceiveModular \<Rightarrow> bool" where
  "at_stage env rp piece i \<equiv> receiving (rp_ObjectInfo rp) (int i) (piece_hash env piece i)"

lemma i32_index: "i < 2 ^ 31 - 1 \<Longrightarrow> i32 (int i) = int i" "i < 2 ^ 31 - 1 \<Longrightarrow> i32 (int i + 1) = int i + 1"
  by (auto intro!: i32_id simp: is_i32_def)

text \<open>One piece reaches its receiver, and no other receiver is touched.\<close>

lemma piece_reaches:
  assumes "replication_ready env renv rp n piece" "rp_core (plTask w) = rp_core rp" "i < length (rp_SecondaryEndpoints rp)"
    and "at_stage env rp piece i s (plNet w (rp_SecondaryEndpoints rp ! i))"
  shows "\<exists>w' st'. doReplicatePiece env (rp_SecondaryEndpoints rp ! i) s i (piece s i) w = (None, w') \<and> keeps w w'
    \<and> plNet w' = (plNet w)(rp_SecondaryEndpoints rp ! i := st') \<and> at_stage env rp piece i (Suc s) st'"
proof -
  define ep where "ep = rp_SecondaryEndpoints rp ! i"
  note ready = assms(1) [unfolded replication_ready_def Let_def]
  have req: "receive_request env (plTask w) = receive_request env rp" by (rule request_core [OF assms(2), THEN conjunct1])
  obtain sig where sig: "rvSign env (receive_request env rp s i (piece s i)) = Inr sig" using ready by blast
  define r where "r = (receive_request env rp s i (piece s i))\<lparr>rc_Signature := sig\<rparr>"
  have ff: "fault_free (renv ep)" "eChecksum (renv ep) = eChecksum (xvEnv (rvX env))" using ready assms(3) by (simp_all add: ep_def)
  have "i32 (int i) = int i" using i32_index(1) ready assms(3) by simp
  then have "rc_ObjectInfo r = rp_ObjectInfo rp" "rc_RedundancyIdx r = int i" "rc_SegmentIdx r = int s" "rc_PieceChecksum r = eChecksum (renv ep) (piece s i)"
    using ff(2) by (simp_all add: r_def receive_request_def InitReceivePieceTask_def)
  from receiving_step [OF assms(4) [folded ep_def] ff(1) this] ff(2)
  obtain st' where st': "roRet (recv_HandleReceivePieceTask (renv ep) r (piece s i) (plNet w ep)) = Ok ()"
    "roState (recv_HandleReceivePieceTask (renv ep) r (piece s i) (plNet w ep)) = st'" "at_stage env rp piece i (Suc s) st'" by auto
  then have "rvSend env ep r (piece s i) (plNet w) = (Inr (), (plNet w)(ep := st'))"
    using ready by (simp add: net_send_def Let_def)
  moreover have "\<not> rp_IsAgentUploadTask (plTask w)" using ready assms(2) by (simp add: rp_core_def)
  ultimately show ?thesis using doReplicatePiece_ok [of w env s i "piece s i" sig ep] st'(3) sig req by (auto simp: r_def ep_def)
qed

lemma segment_reaches:
  assumes "replication_ready env renv rp n piece" "rp_core (plTask w) = rp_core rp" "distinct order" "set order \<subseteq> {..<length (rp_SecondaryEndpoints rp)}"
    and "\<And>i. i \<in> set order \<Longrightarrow> at_stage env rp piece i s (plNet w (rp_SecondaryEndpoints rp ! i))"
    and "\<And>i. i \<in> set order \<Longrightarrow> pc i = Some (piece s i)"
  shows "\<exists>w'. replicate_all env s pc order seen w = Some (seen, w') \<and> keeps w w'
    \<and> (\<forall>i \<in> set order. at_stage env rp piece i (Suc s) (plNet w' (rp_SecondaryEndpoints rp ! i)))
    \<and> (\<forall>ep. ep \<notin> (!) (rp_SecondaryEndpoints rp) ` set order \<longrightarrow> plNet w' ep = plNet w ep)"
  using assms(2-6)
proof (induction order arbitrary: w)
  case (Cons i order)
  define ep where "ep = rp_SecondaryEndpoints rp ! i"
  have d: "distinct (rp_SecondaryEndpoints rp)" using assms(1) by (simp add: replication_ready_def Let_def)
  have i: "i < length (rp_SecondaryEndpoints rp)" using Cons.prems(3) by simp
  obtain w1 st' where w1: "doReplicatePiece env ep s i (piece s i) w = (None, w1)" "keeps w w1" "plNet w1 = (plNet w)(ep := st')" "at_stage env rp piece i (Suc s) st'"
    using piece_reaches [OF assms(1) Cons.prems(1) i Cons.prems(4)] unfolding ep_def by auto
  have c: "rp_core (plTask w1) = rp_core rp" using w1(2) Cons.prems(1) by (simp add: keeps_def)
  have other: "rp_SecondaryEndpoints rp ! j \<noteq> ep" if "j \<in> set order" for j
    using that Cons.prems(2,3) d i by (auto simp: ep_def nth_eq_iff_index_eq)
  have "\<And>j. j \<in> set order \<Longrightarrow> at_stage env rp piece j s (plNet w1 (rp_SecondaryEndpoints rp ! j))" using Cons.prems(4) other w1(3) by simp
  from Cons.IH [OF c _ _ this] Cons.prems(2,3,5) obtain w' where w': "replicate_all env s pc order seen w1 = Some (seen, w')" "keeps w1 w'"
    "\<forall>i \<in> set order. at_stage env rp piece i (Suc s) (plNet w' (rp_SecondaryEndpoints rp ! i))"
    "\<forall>ep. ep \<notin> (!) (rp_SecondaryEndpoints rp) ` set order \<longrightarrow> plNet w' ep = plNet w1 ep" by auto
  have "rp_SecondaryEndpoints (plTask w) = rp_SecondaryEndpoints rp" using Cons.prems(1) by (simp add: rp_core_def)
  then have "replicate_all env s pc (i # order) seen w = Some (seen, w')" using Cons.prems(5) [of i] w1(1) w'(1) by (simp add: ep_def)
  moreover have "ep \<notin> (!) (rp_SecondaryEndpoints rp) ` set order" using other by blast
  then have "plNet w' ep = st'" using w'(4) w1(3) by simp
  ultimately show ?case using w' w1 by (auto simp: ep_def intro: keeps_trans)
qed simp

subsection \<open>All segments, and the end\<close>

text \<open>The store of the primary has the segments, and they encode to the pieces.\<close>

definition segments_encode :: "('s, 'n) renv \<Rightarrow> 's \<Rightarrow> GfSpReplicatePieceTask \<Rightarrow> nat \<Rightarrow> (nat \<Rightarrow> nat \<Rightarrow> int list) \<Rightarrow> bool" where
  "segments_encode env store rp n piece \<longleftrightarrow> (let ob = rp_ObjectInfo rp; params = rp_StorageParams rp in oRedundancyType ob = REDUNDANCY_EC_TYPE
     \<and> (\<forall>s < n. \<exists>data. GetPiece (xvGet (rvX env)) store (SegmentPieceKey (oId ob) (int s) (oVersion ob)) 0 (-1) = Inr data
        \<and> xvEncode (rvX env) data (RedundantDataChunkNum params) (RedundantParityChunkNum params) = Inr (map (piece s) [0..<length (rp_SecondaryEndpoints rp)])))"

lemma segment_replicated:
  assumes "replication_ready env renv rp n piece" "rp_core (plTask w) = rp_core rp" "segments_encode env (xStore (plExe w)) rp n piece" "s < n"
    and "\<And>i. i < length (rp_SecondaryEndpoints rp) \<Longrightarrow> at_stage env rp piece i s (plNet w (rp_SecondaryEndpoints rp ! i))"
  shows "\<exists>w'. replicate_segment env s [] w = Some ([], w') \<and> keeps w w'
    \<and> (\<forall>i < length (rp_SecondaryEndpoints rp). at_stage env rp piece i (Suc s) (plNet w' (rp_SecondaryEndpoints rp ! i)))"
proof -
  define k where "k = length (rp_SecondaryEndpoints rp)"
  define pc where "pc = (\<lambda>i. if i < length (map (piece s) [0..<k]) then Some (map (piece s) [0..<k] ! i) else None)"
  have ord: "distinct (rvOrder env s)" "set (rvOrder env s) = {..<k}" using assms(1,4) by (simp_all add: replication_ready_def Let_def k_def)
  have core: "rp_ObjectInfo (plTask w) = rp_ObjectInfo rp" "rp_StorageParams (plTask w) = rp_StorageParams rp" using assms(2) by (simp_all add: rp_core_def)
  obtain data where data: "GetPiece (xvGet (rvX env)) (xStore (plExe w)) (SegmentPieceKey (oId (rp_ObjectInfo rp)) (int s) (oVersion (rp_ObjectInfo rp))) 0 (-1) = Inr data"
    "xvEncode (rvX env) data (RedundantDataChunkNum (rp_StorageParams rp)) (RedundantParityChunkNum (rp_StorageParams rp)) = Inr (map (piece s) [0..<k])"
    "oRedundancyType (rp_ObjectInfo rp) = REDUNDANCY_EC_TYPE"
    using assms(3,4) by (auto simp: segments_encode_def Let_def k_def)
  have "replicate_segment env s [] w = replicate_all env s pc (rvOrder env s) [] w"
    using data core by (simp add: replicate_segment_def pc_def)
  moreover have "pc i = Some (piece s i)" if "i \<in> set (rvOrder env s)" for i using that ord(2) by (simp add: pc_def)
  ultimately show ?thesis using segment_reaches [OF assms(1,2) ord(1), of s pc "[]"] assms(5) ord(2) unfolding k_def by auto
qed

lemma segments_replicated:
  assumes "replication_ready env renv rp n piece" "rp_core (plTask w) = rp_core rp" "segments_encode env (xStore (plExe w)) rp n piece" "s + d = n"
    and "\<And>i. i < length (rp_SecondaryEndpoints rp) \<Longrightarrow> at_stage env rp piece i s (plNet w (rp_SecondaryEndpoints rp ! i))"
  shows "\<exists>w'. replicate_segments env [s..<n] [] w = Some ([], w') \<and> keeps w w'
    \<and> (\<forall>i < length (rp_SecondaryEndpoints rp). at_stage env rp piece i n (plNet w' (rp_SecondaryEndpoints rp ! i)))"
  using assms(2-5)
proof (induction d arbitrary: s w)
  case (Suc d)
  obtain w1 where w1: "replicate_segment env s [] w = Some ([], w1)" "keeps w w1"
    "\<forall>i < length (rp_SecondaryEndpoints rp). at_stage env rp piece i (Suc s) (plNet w1 (rp_SecondaryEndpoints rp ! i))"
    using segment_replicated [OF assms(1) Suc.prems(1,2) _ Suc.prems(4)] Suc.prems(3) by auto
  have c: "rp_core (plTask w1) = rp_core rp" "segments_encode env (xStore (plExe w1)) rp n piece" "Suc s + d = n"
    using w1(2) Suc.prems(1,2,3) by (simp_all add: keeps_def)
  have "[s..<n] = s # [Suc s..<n]" using Suc.prems(3) by (simp add: upt_conv_Cons)
  with Suc.IH [OF c] w1 show ?case by (auto intro: keeps_trans)
qed auto

text \<open>What the primary needs of the group, and of the receivers when they finish.\<close>

definition signatures_ready :: "('s, 't receivers) renv \<Rightarrow> (string \<Rightarrow> 't env) \<Rightarrow> (string \<Rightarrow> recv_answers) \<Rightarrow> GfSpReplicatePieceTask \<Rightarrow> (int \<rightharpoonup> StorageProvider)
    \<Rightarrow> GlobalVirtualGroup \<Rightarrow> nat \<Rightarrow> (nat \<Rightarrow> nat \<Rightarrow> int list) \<Rightarrow> (nat \<Rightarrow> int list) \<Rightarrow> bool" where
  "signatures_ready env renv ans rp sps gvg n piece sig \<longleftrightarrow>
     (let eps = rp_SecondaryEndpoints rp; ob = rp_ObjectInfo rp in
      rvDone env = net_done renv ans \<and> rvGroupById env (rp_GlobalVirtualGroupId rp) = Inr (Some gvg)
      \<and> SegmentPieceCount (oPayloadSize ob) (MaxSegmentSize (rp_StorageParams rp)) = Some (int n) \<and> \<not> oIsUpdating ob
      \<and> replicate_count (rp_StorageParams rp) = length eps \<and> length (oChecksums ob) = Suc (length eps)
      \<and> (\<forall>i < length eps. verified env gvg sps ob i (sig i) \<and> raSign (ans (eps ! i)) (oId ob) (rp_GlobalVirtualGroupId rp) (oChecksums ob) = Inr (sig i)
           \<and> hashes (map (piece_hash env piece i) [0..<n]) \<and> bytes (oChecksums ob ! Suc i)
           \<and> oChecksums ob ! Suc i = eIntegrity (renv (eps ! i)) (map (piece_hash env piece i) [0..<n])))"

definition has_record :: "('s, 't receivers) renv \<Rightarrow> GfSpReplicatePieceTask \<Rightarrow> nat \<Rightarrow> (nat \<Rightarrow> nat \<Rightarrow> int list) \<Rightarrow> nat \<Rightarrow> 't ReceiveModular \<Rightarrow> bool" where
  "has_record env rp n piece i st \<longleftrightarrow> (let ob = rp_ObjectInfo rp in GetObjectIntegrity no_faults (rvDB st) (oId ob) (int i)
     = Inr \<lparr>imObjectID = oId ob, imRedundancyIndex = int i, imIntegrityChecksum = oChecksums ob ! Suc i,
            imPieceChecksumList = map (piece_hash env piece i) [0..<n], imObjectSize = oPayloadSize ob\<rparr>)"

lemma doneReplicatePiece_ok:
  assumes "replication_ready env renv rp n piece" "signatures_ready env renv ans rp sps gvg n piece sig" "rp_core (plTask w) = rp_core rp"
    and "i < length (rp_SecondaryEndpoints rp)" "at_stage env rp piece i n (plNet w (rp_SecondaryEndpoints rp ! i))"
  shows "\<exists>w' st'. doneReplicatePiece env (rp_SecondaryEndpoints rp ! i) i w = (Inr (sig i), w') \<and> keeps w w'
    \<and> plNet w' = (plNet w)(rp_SecondaryEndpoints rp ! i := st') \<and> has_record env rp n piece i st'"
proof -
  define ep where "ep = rp_SecondaryEndpoints rp ! i"
  define ob where "ob = rp_ObjectInfo rp"
  define cs where "cs = map (piece_hash env piece i) [0..<n]"
  note ready = assms(1) [unfolded replication_ready_def Let_def] and sready = assms(2) [unfolded signatures_ready_def Let_def]
  have req: "done_request env (plTask w) = done_request env rp" by (rule request_core [OF assms(3), THEN conjunct2])
  obtain s where s: "rvSign env (done_request env rp i) = Inr s" using ready by blast
  define r where "r = (done_request env rp i)\<lparr>rc_Signature := s\<rparr>"
  have idx: "i32 (int i) = int i" "i32 (int i + 1) = int i + 1" using i32_index [of i] ready assms(4) by simp_all
  have r: "rc_ObjectInfo r = ob" "rc_RedundancyIdx r = int i" "\<not> rc_IsAgentUploadTask r" "rc_StorageParams r = rp_StorageParams rp"
    "rc_GlobalVirtualGroupId r = rp_GlobalVirtualGroupId rp" "rc_BucketMigration r = False"
    using idx ready by (simp_all add: r_def done_request_def InitReceivePieceTask_def ob_def)
  have stage: "idle (rvQueue (plNet w ep))" "hashes_inv (rvDB (plNet w ep))" "row_find imt_key (oId ob, int i) (integrity_metas (rvDB (plNet w ep))) = None"
    "\<And>j. j < length cs \<Longrightarrow> hash_at (rvDB (plNet w ep)) (oId ob, int j, int i) = Some (EncodeToString (cs ! j))"
    using assms(5) by (simp_all add: receiving_def ep_def ob_def cs_def)
  have here: "raSign (ans ep) (oId ob) (rp_GlobalVirtualGroupId rp) (oChecksums ob) = Inr (sig i)" "hashes cs" "bytes (oChecksums ob ! Suc i)"
    "oChecksums ob ! Suc i = eIntegrity (renv ep) cs"
    using sready assms(4) unfolding ep_def ob_def cs_def by blast+
  have ff: "\<And>k. eDbFails (renv ep) k = no_faults" using ready assms(4) by (simp add: ep_def fault_free_def)
  have glob: "SegmentPieceCount (oPayloadSize ob) (MaxSegmentSize (rp_StorageParams rp)) = Some (int (length cs))" "\<not> oIsUpdating ob"
    "int i + 1 < int (length (oChecksums ob))" "int i < 2 ^ 31 - 1"
    using sready ready assms(4) by (simp_all add: ob_def cs_def)
  define out where "out = HandleDoneReceivePieceTask (renv ep) (ans ep) False r (plNet w ep)"
  have "let db = rvDB (roState out) in roRet out = Ok (sig i) \<and> GetObjectIntegrity no_faults db (oId ob) (int i)
      = Inr \<lparr>imObjectID = oId ob, imRedundancyIndex = int i, imIntegrityChecksum = eIntegrity (renv ep) cs, imPieceChecksumList = cs, imObjectSize = oPayloadSize ob\<rparr>"
    using done_recorded [of "plNet w ep" "renv ep" cs ob "int i" r "ans ep" "sig i" False] stage here ff glob r by (simp add: out_def Let_def nat_add_distrib)
  then have o: "roRet out = Ok (sig i)" "has_record env rp n piece i (roState out)" using here(4) by (simp_all add: Let_def has_record_def ob_def cs_def)
  have "rvDone env ep r (plNet w) = (Inr (sig i), (plNet w)(ep := roState out))" using sready o(1) by (simp add: net_done_def out_def Let_def)
  then have call: "retry_Do (RtyAttNum - 1) (rvDone env ep r) (plNet w) = (Inr (sig i), (plNet w)(ep := roState out))" by (simp add: RtyAttNum_def numeral_2_eq_2)
  obtain q w' where d: "doneReplicatePiece env ep i w = (q, w')" by force
  have "rp_ObjectInfo (plTask w) = ob" using assms(3) by (simp add: rp_core_def ob_def)
  then have "q = Inr (sig i) \<and> plNet w' = (plNet w)(ep := roState out)"
    using d call s req glob(3) idx by (auto simp: doneReplicatePiece_def Let_def pl_log_def r_def)
  with d doneReplicatePiece_keeps [OF d] o(2) show ?thesis by (auto simp: ep_def)
qed

lemma all_done:
  assumes "replication_ready env renv rp n piece" "signatures_ready env renv ans rp sps gvg n piece sig" "rp_core (plTask w) = rp_core rp" "xSpMap (plExe w) = sps"
    and "length eps' = d" "i + d = length (rp_SecondaryEndpoints rp)" "eps' = drop i (rp_SecondaryEndpoints rp)" "length sigs = length (rp_SecondaryEndpoints rp)"
    and "\<And>j. i \<le> j \<Longrightarrow> j < length (rp_SecondaryEndpoints rp) \<Longrightarrow> at_stage env rp piece j n (plNet w (rp_SecondaryEndpoints rp ! j))"
    and "\<And>j. j < i \<Longrightarrow> has_record env rp n piece j (plNet w (rp_SecondaryEndpoints rp ! j))"
  shows "\<exists>w'. done_all env gvg i eps' sigs w = Some (Inr (take i sigs @ map sig [i..<length (rp_SecondaryEndpoints rp)]), w') \<and> keeps w w'
    \<and> (\<forall>j < length (rp_SecondaryEndpoints rp). has_record env rp n piece j (plNet w' (rp_SecondaryEndpoints rp ! j)))"
  using assms(3-10)
proof (induction d arbitrary: i eps' sigs w)
  case 0
  then show ?case by auto
next
  case (Suc d)
  define eps where "eps = rp_SecondaryEndpoints rp"
  note P = Suc.prems [folded eps_def]
  have i: "i < length eps" using P(4) by simp
  then have split: "eps' = eps ! i # drop (Suc i) eps" "length (drop (Suc i) eps) = d" using P(3,4,5) by (auto simp: Cons_nth_drop_Suc)
  have dist: "distinct eps" using assms(1) by (simp add: replication_ready_def Let_def eps_def)
  obtain w1 st' where w1: "doneReplicatePiece env (eps ! i) i w = (Inr (sig i), w1)" "keeps w w1" "plNet w1 = (plNet w)(eps ! i := st')" "has_record env rp n piece i st'"
    using doneReplicatePiece_ok [OF assms(1,2) P(1) i [unfolded eps_def] P(7) [of i, unfolded eps_def]] i by (auto simp: eps_def)
  have keep: "rp_core (plTask w1) = rp_core rp" "xSpMap (plExe w1) = sps" "rp_ObjectInfo (plTask w1) = rp_ObjectInfo rp" using w1(2) P(1,2) by (auto simp: keeps_def rp_core_def)
  have "verified env gvg sps (rp_ObjectInfo rp) i (sig i)" using assms(2) i by (simp add: signatures_ready_def Let_def eps_def)
  then have v: "i < length (cgSecondarySpIds gvg)" "\<exists>sp. getSpByID (plExe w1) (cgSecondarySpIds gvg ! i) = Some sp
      \<and> veritySecondarySpBlsSignature env sp (sig i) (rvSignDoc env (cgId gvg) (oId (rp_ObjectInfo (plTask w1))) (oChecksums (rp_ObjectInfo (plTask w1)))) = None"
    using keep by (auto simp: verified_def verity_verified getSpByID_def)
  then have step: "done_all env gvg i eps' sigs w = done_all env gvg (Suc i) (drop (Suc i) eps) (sigs[i := sig i]) w1"
    using split(1) w1(1) i P(6) by (auto simp: Let_def)
  have other: "eps ! j \<noteq> eps ! i" if "j \<noteq> i" "j < length eps" for j using that i dist by (simp add: nth_eq_iff_index_eq)
  have a: "at_stage env rp piece j n (plNet w1 (eps ! j))" if "Suc i \<le> j" "j < length eps" for j using P(7) [of j] that w1(3) other [of j] by simp
  have b: "has_record env rp n piece j (plNet w1 (eps ! j))" if "j < Suc i" for j
    using P(8) [of j] that w1(3,4) other [of j] i by (cases "j = i") auto
  have "Suc i + d = length eps" "length (sigs[i := sig i]) = length eps" using P(4,6) by simp_all
  from Suc.IH [OF keep(1,2) split(2) this(1) [unfolded eps_def] _ this(2) [unfolded eps_def] a [unfolded eps_def] b [unfolded eps_def]]
  obtain w' where w': "done_all env gvg (Suc i) (drop (Suc i) eps) (sigs[i := sig i]) w1 = Some (Inr (take (Suc i) (sigs[i := sig i]) @ map sig [Suc i..<length eps]), w')"
    "keeps w1 w'" "\<forall>j < length eps. has_record env rp n piece j (plNet w' (eps ! j))" by (auto simp: eps_def)
  have "take (Suc i) (sigs[i := sig i]) @ map sig [Suc i..<length eps] = take i sigs @ map sig [i..<length eps]"
    using i P(6) by (simp add: take_Suc_conv_app_nth upt_conv_Cons)
  with step w' w1(2) show ?case by (auto simp: eps_def intro: keeps_trans)
qed

lemma replication_works:
  assumes "replication_ready env renv (plTask w) n piece" "segments_encode env (xStore (plExe w)) (plTask w) n piece"
    and "signatures_ready env renv ans (plTask w) (xSpMap (plExe w)) gvg n piece sig"
    and "\<forall>i < length (rp_SecondaryEndpoints (plTask w)). at_stage env (plTask w) piece i 0 (plNet w (rp_SecondaryEndpoints (plTask w) ! i))"
  shows "\<exists>w'. handleReplicatePiece env w = Some (None, w')
     \<and> rp_SecondarySignatures (plTask w') = map sig [0..<length (rp_SecondaryEndpoints (plTask w))]
     \<and> (\<forall>i < length (rp_SecondaryEndpoints (plTask w)). has_record env (plTask w) n piece i (plNet w' (rp_SecondaryEndpoints (plTask w) ! i)))
     \<and> rp_core ((plTask w')\<lparr>rp_SecondarySignatures := rp_SecondarySignatures (plTask w)\<rparr>) = rp_core (plTask w) \<and> xSent (plExe w') = xSent (plExe w)"
proof -
  define rp where "rp = plTask w"
  note A = assms [folded rp_def]
  obtain w1 where w1: "replicate_segments env [0..<n] [] w = Some ([], w1)" "keeps w w1"
    "\<forall>i < length (rp_SecondaryEndpoints rp). at_stage env rp piece i n (plNet w1 (rp_SecondaryEndpoints rp ! i))"
    using segments_replicated [OF A(1) _ A(2), of 0 n] A(4) by (auto simp: rp_def)
  have core: "rp_core (plTask w1) = rp_core rp" "xSpMap (plExe w1) = xSpMap (plExe w)" using w1(2) by (simp_all add: keeps_def rp_def)
  obtain w2 where w2: "done_all env gvg 0 (rp_SecondaryEndpoints rp) (replicate (length (rp_SecondaryEndpoints rp)) []) w1
      = Some (Inr (map sig [0..<length (rp_SecondaryEndpoints rp)]), w2)" "keeps w1 w2"
    "\<forall>j < length (rp_SecondaryEndpoints rp). has_record env rp n piece j (plNet w2 (rp_SecondaryEndpoints rp ! j))"
    using all_done [OF A(1,3) core, of "rp_SecondaryEndpoints rp" "length (rp_SecondaryEndpoints rp)" 0 "replicate (length (rp_SecondaryEndpoints rp)) []"] w1(3) by auto
  have g: "rvGroupById env (rp_GlobalVirtualGroupId (plTask w1)) = Inr (Some gvg)" "\<not> rp_IsAgentUploadTask (plTask w1)" "rp_SecondaryEndpoints (plTask w1) = rp_SecondaryEndpoints rp"
    "replicate_count (rp_StorageParams rp) = length (rp_SecondaryEndpoints rp)" "SegmentPieceCount (oPayloadSize (rp_ObjectInfo rp)) (MaxSegmentSize (rp_StorageParams rp)) = Some (int n)"
    using A(1,3) core(1) by (simp_all add: signatures_ready_def replication_ready_def Let_def rp_core_def)
  then have "doneReplicate env (replicate_count (rp_StorageParams rp)) w1 = Some (Inr (map sig [0..<length (rp_SecondaryEndpoints rp)]), w2)"
    using w2(1) by (simp add: doneReplicate_def Let_def)
  with g w1(1) w2(3) keeps_trans [OF w1(2) w2(2)] show ?thesis by (simp add: handleReplicatePiece_def Let_def rp_def keeps_def rp_core_def)
qed

text \<open>
  C13: Replication to receivers.  When the segments of an object lie in the store of the primary, the secondary providers run receivers
  that have nothing of the object yet, and the checksums of the object are those of its pieces, then replication ends without an
  error, in whatever order the pieces of a segment are sent: every secondary provider has the record of its pieces, with their
  hashes in order, and the primary has all their signatures.
\<close>

theorem replication_reaches_receivers:
  assumes "replication_ready env renv (plTask w) n piece" "segments_encode env (xStore (plExe w)) (plTask w) n piece"
    and "signatures_ready env renv ans (plTask w) (xSpMap (plExe w)) gvg n piece sig"
    and "\<forall>i < length (rp_SecondaryEndpoints (plTask w)). at_stage env (plTask w) piece i 0 (plNet w (rp_SecondaryEndpoints (plTask w) ! i))"
  shows "\<exists>w'. handleReplicatePiece env w = Some (None, w')
     \<and> rp_SecondarySignatures (plTask w') = map sig [0..<length (rp_SecondaryEndpoints (plTask w))]
     \<and> (\<forall>i < length (rp_SecondaryEndpoints (plTask w)). has_record env (plTask w) n piece i (plNet w' (rp_SecondaryEndpoints (plTask w) ! i)))"
  using replication_works [OF assms] by blast

text \<open>An object of two segments, replicated to one secondary provider.\<close>

definition sample_net_env :: "string \<Rightarrow> string list env" where
  "sample_net_env = (\<lambda>_. sample_recv_env (\<lambda>s k d. Inr (k # s)))"

definition sample_group :: GlobalVirtualGroup where
  "sample_group = \<lparr>cgId = 1, cgFamilyId = 1, cgPrimarySpId = 1, cgSecondarySpIds = [2], cgStoredSize = 0, cgTotalDeposit = 0\<rparr>"

definition sample_renv :: "((string \<times> int list) list, string list receivers) renv" where
  "sample_renv = \<lparr>rvX = sample_xenv, rvSign = \<lambda>_. Inr [], rvSend = net_send sample_net_env, rvDone = net_done sample_net_env (\<lambda>_. sample_recv_answers),
     rvGroupById = \<lambda>_. Inr (Some sample_group), rvObjectInfo = \<lambda>_ _. Inl (OtherErr ''x''), rvSignDoc = \<lambda>_ _ _. [], rvKeyErr = \<lambda>_. None,
     rvVerify = \<lambda>_ s _. s = [9], rvOrder = \<lambda>_. [0], rvLost = \<lambda>_ _. False\<rparr>"

definition sample_replicate :: GfSpReplicatePieceTask where
  "sample_replicate = (InitReplicatePieceTask 9 sample_recv_object \<lparr>MaxPayloadSize = 100, MaxSegmentSize = 2, RedundantDataChunkNum = 1, RedundantParityChunkNum = 0\<rparr> 5 10 1 False)
     \<lparr>rp_SecondaryEndpoints := [''a'']\<rparr>"

definition sample_repl :: "((string \<times> int list) list, string list receivers) repl" where
  "sample_repl = \<lparr>plTask = sample_replicate,
     plExe = sample_exe\<lparr>xStore := [(SegmentPieceKey 7 0 0, [1]), (SegmentPieceKey 7 1 0, [2])],
       xSpMap := [2 \<mapsto> \<lparr>spId = 2, spOperatorAddress = [], spEndpoint = ''a'', spInService = True\<rparr>]\<rparr>, plNet = \<lambda>_. sample_receiver\<rparr>"

lemma sample_replicate_fields [simp]:
  "rp_SecondaryEndpoints sample_replicate = [''a'']" "rp_ObjectInfo sample_replicate = sample_recv_object" "\<not> rp_IsAgentUploadTask sample_replicate"
  "rp_StorageParams sample_replicate = \<lparr>MaxPayloadSize = 100, MaxSegmentSize = 2, RedundantDataChunkNum = 1, RedundantParityChunkNum = 0\<rparr>"
  by (simp_all add: sample_replicate_def InitReplicatePieceTask_def)

lemma sample_repl_fields [simp]: "plTask sample_repl = sample_replicate" "rvX sample_renv = sample_xenv"
  by (simp_all add: sample_repl_def sample_renv_def)

definition sample_piece :: "nat \<Rightarrow> nat \<Rightarrow> int list" where
  "sample_piece s i = [int s + 1]"

lemma sample_replication:
  "replication_ready sample_renv sample_net_env sample_replicate 2 sample_piece"
  "segments_encode sample_renv (xStore (plExe sample_repl)) sample_replicate 2 sample_piece"
  "signatures_ready sample_renv sample_net_env (\<lambda>_. sample_recv_answers) sample_replicate (xSpMap (plExe sample_repl)) sample_group 2 sample_piece (\<lambda>_. [9])"
  "\<forall>i < length (rp_SecondaryEndpoints sample_replicate). at_stage sample_renv sample_replicate sample_piece i 0 (plNet sample_repl (rp_SecondaryEndpoints sample_replicate ! i))"
proof -
  show "replication_ready sample_renv sample_net_env sample_replicate 2 sample_piece"
    by (auto simp: replication_ready_def Let_def sample_renv_def sample_net_env_def sample_xenv_def sample_recv_env_def fault_free_def)
  have "SegmentPieceKey 7 0 0 \<noteq> SegmentPieceKey 7 1 0" by code_simp
  then show "segments_encode sample_renv (xStore (plExe sample_repl)) sample_replicate 2 sample_piece"
    by (auto simp: segments_encode_def Let_def sample_recv_object_def sample_xenv_def sample_repl_def GetPiece_def sample_piece_def less_2_cases_iff)
  have "[0..<2] = [0, 1::nat]" by (simp add: upt_rec)
  then show "signatures_ready sample_renv sample_net_env (\<lambda>_. sample_recv_answers) sample_replicate (xSpMap (plExe sample_repl)) sample_group 2 sample_piece (\<lambda>_. [9])"
    by (simp add: signatures_ready_def Let_def sample_repl_def verified_def sample_group_def)
       (simp add: sample_renv_def sample_group_def sample_recv_defs sample_xenv_def sample_piece_def sample_net_env_def SegmentPieceCount_def replicate_count_def
          hashes_def bytes_def is_u8_def u32_def u64_def)
  show "\<forall>i < length (rp_SecondaryEndpoints sample_replicate). at_stage sample_renv sample_replicate sample_piece i 0 (plNet sample_repl (rp_SecondaryEndpoints sample_replicate ! i))"
    by (simp add: receiving_def sample_repl_def sample_receiver_ready)
qed

theorem replication_reaches_receivers_witness:
  "\<exists>w'. handleReplicatePiece sample_renv sample_repl = Some (None, w') \<and> rp_SecondarySignatures (plTask w') = [[9]]
     \<and> has_record sample_renv sample_replicate 2 sample_piece 0 (plNet w' ''a'')"
  using replication_reaches_receivers [of sample_renv sample_net_env sample_repl 2 sample_piece "\<lambda>_. sample_recv_answers" sample_group "\<lambda>_. [9]"] sample_replication
  by auto

theorem sealed_with_verified_signatures_witness:
  "\<exists>w' n gvg sigs. exe_HandleReplicatePieceTask sample_renv sample_repl = Some w' \<and> n \<noteq> 0 \<and> xSent (plExe w') = replicate n (MsgSealObject ''op'' ''b'' ''o'' 0 [9])
     \<and> length sigs = 1 \<and> verified sample_renv gvg (xSpMap (plExe sample_repl)) (rp_ObjectInfo (plTask w')) 0 (sigs ! 0)"
proof -
  obtain w1 where w1: "handleReplicatePiece sample_renv sample_repl = Some (None, w1)" "rp_SecondarySignatures (plTask w1) = [[9]]"
    "rp_core ((plTask w1)\<lparr>rp_SecondarySignatures := rp_SecondarySignatures (plTask sample_repl)\<rparr>) = rp_core (plTask sample_repl)" "xSent (plExe w1) = xSent (plExe sample_repl)"
    using replication_works [of sample_renv sample_net_env sample_repl 2 sample_piece "\<lambda>_. sample_recv_answers" sample_group "\<lambda>_. [9]"] sample_replication by auto
  have none: "rvObjectInfo sample_renv a b = Inl (OtherErr ''x'')" "xvSigErr sample_xenv = (\<lambda>_. None)" "xSent (plExe sample_repl) = []" for a b
    by (simp_all add: sample_renv_def sample_xenv_def sample_repl_def sample_exe_def)
  define w2 where "w2 = pl_log sample_renv ''executor-end-replicate-object'' w1"
  have h: "exe_HandleReplicatePieceTask sample_renv sample_repl = replicate_seal sample_renv w2"
    using w1 none by (simp add: exe_HandleReplicatePieceTask_def Let_def w2_def)
  have "rp_core ((plTask w1)\<lparr>rp_SecondarySignatures := rp_SecondarySignatures sample_replicate\<rparr>) = rp_core sample_replicate" using w1(3) by simp
  then have k: "rp_ObjectInfo (plTask w1) = sample_recv_object" "rp_GlobalVirtualGroupId (plTask w1) = 0" "\<not> rp_IsAgentUploadTask (plTask w1)" "tMaxRetry (rp_Task (plTask w1)) = 1"
    by (simp_all add: rp_core_def) (simp_all add: sample_replicate_def InitReplicatePieceTask_def)
  define msg where "msg = MsgSealObject ''op'' ''b'' ''o'' 0 [9]"
  define t where "t = rp_Task (plTask w2)"
  have w2: "rp_ObjectInfo (plTask w2) = sample_recv_object" "rp_GlobalVirtualGroupId (plTask w2) = 0" "\<not> rp_IsAgentUploadTask (plTask w2)" "tMaxRetry t = 1"
    "rp_SecondarySignatures (plTask w2) = [[9]]" "xSent (plExe w2) = []"
    using k w1(2,4) none(3) by (simp_all add: w2_def t_def pl_log_def base_AppendLog_def)
  have m: "MsgSealObject (xvOperator sample_xenv) (oBucketName sample_recv_object) (oObjectName sample_recv_object) 0 (xvAggregate sample_xenv [[9]]) = msg"
    by (simp add: sample_xenv_def sample_recv_object_def msg_def)
  obtain w' where w': "replicate_seal sample_renv w2 = Some w'" "plExe w' = snd (exe_sealObject sample_xenv sample_recv_object msg t (plExe w2))"
    using w2 m by (auto simp: replicate_seal_def Let_def rp_result_def t_def split: prod.splits)
  obtain t1 n where n: "seal_tries sample_xenv msg 0 (nat (tMaxRetry t + 1)) t = (t1, n)" by force
  have "n \<noteq> 0" using seal_tries_sent [of sample_xenv msg 0 "nat (tMaxRetry t + 1)" t] n w2(4) by simp
  moreover have "xSent (plExe w') = replicate n msg" using w'(2) n w2(6) by (simp add: exe_sealObject_def)
  ultimately have "xSent (plExe w') \<noteq> xSent (plExe sample_repl)" using none(3) by simp
  from sealed_with_verified_signatures [OF _ this] h w'(1)
  have "\<exists>gvg sigs. length sigs = 1 \<and> verified sample_renv gvg (xSpMap (plExe sample_repl)) (rp_ObjectInfo (plTask w')) 0 (sigs ! 0)"
    by (fastforce simp: replicate_count_def u32_def)
  then show ?thesis using h w'(1) \<open>n \<noteq> 0\<close> \<open>xSent (plExe w') = replicate n msg\<close> unfolding msg_def by auto
qed

end
