(* ===== verification/SP_ExecutorGC.thy ===== *)
theory SP_ExecutorGC
  imports SP_Executor
begin

text \<open>
  Garbage collection by the executor, \<^verbatim>\<open>src/modular/executor/execute_gc.go\<close>: the pieces of deleted objects, pieces that
  lie with the wrong provider, old versions of updated objects, buckets that moved away, and expired rows
  of the traffic tables; with the reporting of a task (\<^verbatim>\<open>src/base/gfspclient/manager.go\<close>).  An error of Go is a
  pointer, and \<open>errors.Is\<close> compares pointers here: a predefined error is told apart from one decoded from an answer.
\<close>

subsection \<open>Environment\<close>

datatype rpc_answer = ConnFailed string | RpcFailed string | Answered "GfSpError option"

record 's genv =
  gvX :: "'s xenv"
  gvReport :: "nat \<Rightarrow> rpc_answer"
  gvBucketInfo :: "string \<Rightarrow> go_error + (BucketInfo \<times> bool) option"
  gvGroup :: "int \<Rightarrow> int \<Rightarrow> go_error + GlobalVirtualGroup option"
  gvSwapFamily :: "int \<Rightarrow> go_error + (int \<times> int)"
  gvSwapGroup :: "int \<Rightarrow> go_error + (int \<times> int)"
  gvParams :: "ObjectInfo \<Rightarrow> go_error + Params"
  gvDeleted :: "int \<Rightarrow> int \<Rightarrow> go_error + ((int \<times> ObjectInfo) list \<times> int)"
  gvChain :: "int \<Rightarrow> go_error + ObjectInfo"
  gvGroups :: "int \<Rightarrow> go_error + GlobalVirtualGroup list"
  gvBucketById :: "int \<Rightarrow> go_error + BucketInfo option"
  gvObjects :: "int \<Rightarrow> int \<Rightarrow> int \<Rightarrow> go_error + ObjectInfo list"
  gvNow :: int
  gvYearMonth :: "int \<Rightarrow> string"

text \<open>
  A bucket comes with whether it is migrating; a swap in progress is the successor and its target; deleted objects
  come with the block of their deletion, and with the block the metadata service has reached.
\<close>

definition str_contains :: "string \<Rightarrow> string \<Rightarrow> bool" where
  "str_contains s pat \<longleftrightarrow> str_index pat s \<noteq> None"

subsection \<open>Reporting a task\<close>

datatype err_ref = Predefined go_error | Decoded go_error

definition errors_Is :: "err_ref option \<Rightarrow> go_error \<Rightarrow> bool" where
  "errors_Is err target \<longleftrightarrow> err = Some (Predefined target)"

definition ErrTypeMismatch :: go_error where
  "ErrTypeMismatch = GfSpErr \<lparr>CodeSpace = ''GfSpClient'', HttpStatusCode = 400, InnerCode = 980002, Description = ''response type mismatch''\<rparr>"

fun reportable :: "Task \<Rightarrow> bool" where
  "reportable (UploadObject _) = True" | "reportable (ResumableUploadObject _) = True" | "reportable (ReplicatePiece _) = True"
| "reportable (ReceivePiece _) = True" | "reportable (SealObject _) = True" | "reportable (GCObject _) = True"
| "reportable (GCZombiePiece _) = True" | "reportable (GCMeta _) = True" | "reportable (DownloadObject _) = True"
| "reportable (ChallengePiece _) = True" | "reportable (RecoverPiece _) = True" | "reportable (MigrateGVG _) = True"
| "reportable (GCBucketMigration _) = True" | "reportable (GCStaleVersionObject _) = True"
| "reportable _ = False"

definition ErrRPCUnknownWithDetail :: "(string \<Rightarrow> GfSpError option) \<Rightarrow> string \<Rightarrow> string \<Rightarrow> GfSpError" where
  "ErrRPCUnknownWithDetail unmarshal detail msg =
     (case MakeGfSpError unmarshal (Some (OtherErr msg)) of
        Some e \<Rightarrow> e
      | None \<Rightarrow> \<lparr>CodeSpace = ''GfSpClient'', HttpStatusCode = 500, InnerCode = 98001, Description = detail @ msg\<rparr>)"

definition client_ReportTask :: "(string \<Rightarrow> GfSpError option) \<Rightarrow> rpc_answer \<Rightarrow> Task \<Rightarrow> err_ref option" where
  "client_ReportTask unmarshal answer t =
     (case answer of
        ConnFailed msg \<Rightarrow> Some (Decoded (GfSpErr (ErrRPCUnknownWithDetail unmarshal ''client failed to connect manager, error: '' msg)))
      | RpcFailed msg \<Rightarrow> if \<not> reportable t then Some (Predefined ErrTypeMismatch)
          else Some (Decoded (GfSpErr (ErrRPCUnknownWithDetail unmarshal ''client failed to report task, error: '' msg)))
      | Answered err \<Rightarrow> if \<not> reportable t then Some (Predefined ErrTypeMismatch)
          else map_option (\<lambda>e. Decoded (GfSpErr e)) err)"

text \<open>The \<open>n\<close>th report gets the \<open>n\<close>th answer.\<close>

definition exe_ReportTask :: "'s genv \<Rightarrow> Task \<Rightarrow> 's ExecuteModular \<Rightarrow> err_ref option \<times> 's ExecuteModular" where
  "exe_ReportTask env t st =
     (client_ReportTask (eUnmarshal (xvEnv (gvX env))) (gvReport env (length (xReports st))) t, st\<lparr>xReports := xReports st @ [t]\<rparr>)"

definition gc_ErrCanceledTask :: go_error where
  "gc_ErrCanceledTask = GfSpErr \<lparr>CodeSpace = ''manager'', HttpStatusCode = 400, InnerCode = 60004, Description = ''task canceled''\<rparr>"

text \<open>\<open>reportProgress\<close> of the handlers that ask whether the task was cancelled.\<close>

definition reportProgress :: "'s genv \<Rightarrow> Task \<Rightarrow> 's ExecuteModular \<Rightarrow> bool \<times> 's ExecuteModular" where
  "reportProgress env t st = (case exe_ReportTask env t st of (err, st1) \<Rightarrow> (errors_Is err gc_ErrCanceledTask, st1))"

subsection \<open>Deleting\<close>

definition gc_key :: "int \<Rightarrow> int \<Rightarrow> int \<Rightarrow> int \<Rightarrow> string" where
  "gc_key objectID version segmentIdx redundancyIdx =
     (if redundancyIdx \<noteq> PrimarySPRedundancyIndex then ECPieceKey objectID segmentIdx (u32 redundancyIdx) version
      else SegmentPieceKey objectID segmentIdx version)"

definition deletePiece :: "'s genv \<Rightarrow> int \<Rightarrow> int \<Rightarrow> int \<Rightarrow> int \<Rightarrow> 's ExecuteModular \<Rightarrow> 's ExecuteModular" where
  "deletePiece env objectID version segmentIdx redundancyIdx st =
     x_delete (gvX env) (gc_key objectID version segmentIdx redundancyIdx) st"

text \<open>The loop goes one piece past the last.\<close>

definition deleteObjectPiecesAndIntegrityMeta :: "'s genv \<Rightarrow> nat \<Rightarrow> IntegrityMeta \<Rightarrow> int \<Rightarrow> 's ExecuteModular \<Rightarrow> 's ExecuteModular" where
  "deleteObjectPiecesAndIntegrityMeta env turn meta version st =
     (let st1 = fold (\<lambda>i st. deletePiece env (imObjectID meta) version (int i) (imRedundancyIndex meta) st)
                  [0..<Suc (length (imPieceChecksumList meta))] st
      in st1\<lparr>xDB := snd (DeleteObjectIntegrity (xvDb (gvX env) 0 turn) (imObjectID meta) (imRedundancyIndex meta) (xDB st1))\<rparr>)"

text \<open>The error for unknown parameters and the panic for a segment size of zero are \<open>Fail\<close> and \<open>Panic\<close>.\<close>

definition deleteObjectSegmentsAndIntegrity :: "'s genv \<Rightarrow> nat \<Rightarrow> ObjectInfo \<Rightarrow> 's ExecuteModular \<Rightarrow> unit outcome \<times> 's ExecuteModular" where
  "deleteObjectSegmentsAndIntegrity env turn ob st =
     (case gvParams env ob of
        Inl e \<Rightarrow> (Fail (OtherErr ''failed to query storage params''), st)
      | Inr params \<Rightarrow>
          (case SegmentPieceCount (oPayloadSize ob) (MaxSegmentSize params) of
             None \<Rightarrow> (Panic, st)
           | Some n \<Rightarrow>
               let st1 = fold (\<lambda>i st. x_delete (gvX env) (SegmentPieceKey (oId ob) (int i) (oVersion ob)) st) [0..<nat n] st
               in (Ok (), st1\<lparr>xDB := snd (DeleteObjectIntegrity (xvDb (gvX env) 0 turn) (oId ob) PrimarySPRedundancyIndex (xDB st1))\<rparr>)))"

definition deletePieceAndPieceChecksum :: "'s genv \<Rightarrow> nat \<Rightarrow> PieceHashTable \<Rightarrow> 's ExecuteModular \<Rightarrow> 's ExecuteModular" where
  "deletePieceAndPieceChecksum env turn piece st =
     (let st1 = deletePiece env (phtObjectID piece) (phtVersion piece) (phtSegmentIndex piece) (phtRedundancyIndex piece) st
      in st1\<lparr>xDB := snd (DeleteReplicatePieceChecksum (xvDb (gvX env) 1 turn) (phtObjectID piece) (phtSegmentIndex piece) (phtRedundancyIndex piece) (xDB st1))\<rparr>)"

subsection \<open>Whether a piece is in its place\<close>

definition isAllowGCCheck :: "ObjectInfo \<Rightarrow> bool \<Rightarrow> bool" where
  "isAllowGCCheck ob migrating \<longleftrightarrow> oObjectStatus ob = OBJECT_STATUS_SEALED \<and> \<not> migrating"

definition getGvgAndSpId :: "'s genv \<Rightarrow> ObjectInfo \<Rightarrow> 's ExecuteModular
    \<Rightarrow> (go_error + ((BucketInfo \<times> bool) \<times> GlobalVirtualGroup option \<times> int) option) \<times> 's ExecuteModular" where
  "getGvgAndSpId env ob st =
     (case gvBucketInfo env (oBucketName ob) of
        Inl e \<Rightarrow> (Inl e, st)
      | Inr None \<Rightarrow> (Inr None, st)
      | Inr (Some (bucket, migrating)) \<Rightarrow>
          (case gvGroup env (bId bucket) (oLocalVirtualGroupId ob) of
             Inl e \<Rightarrow> (Inl e, st)
           | Inr gvg \<Rightarrow>
               (case exe_getSPID (gvX env) st of
                  (Inl e, st1) \<Rightarrow> (Inl e, st1)
                | (Inr self, st1) \<Rightarrow> (Inr (Some ((bucket, migrating), gvg, self)), st1))))"

text \<open>\<open>Misplaced\<close> is the error the callers compare with; a missing index into the secondary providers panics.\<close>

datatype gvg_check = InPlace | Misplaced | CheckFailed go_error | CheckPanic

definition check_swap :: "'s genv \<Rightarrow> go_error + (int \<times> int) \<Rightarrow> int \<Rightarrow> int \<Rightarrow> gvg_check" where
  "check_swap env swap self owner =
     (case swap of
        Inl e \<Rightarrow> if str_contains (xvMsg (gvX env) e) ''swap in info not exist'' then Misplaced else InPlace
      | Inr (successor, target) \<Rightarrow> if successor = self \<and> target = owner then InPlace else Misplaced)"

definition checkGVGMatchSP :: "'s genv \<Rightarrow> ObjectInfo \<Rightarrow> int \<Rightarrow> 's ExecuteModular \<Rightarrow> gvg_check \<times> 's ExecuteModular" where
  "checkGVGMatchSP env ob idx st =
     (case getGvgAndSpId env ob st of
        (Inl e, st1) \<Rightarrow> (CheckFailed e, st1)
      | (Inr None, st1) \<Rightarrow> (InPlace, st1)
      | (Inr (Some (_, None, _)), st1) \<Rightarrow> (InPlace, st1)
      | (Inr (Some ((bucket, migrating), Some gvg, self)), st1) \<Rightarrow>
          (if \<not> isAllowGCCheck ob migrating then InPlace
           else if idx = PrimarySPRedundancyIndex
           then if cgPrimarySpId gvg = self then InPlace else check_swap env (gvSwapFamily env (cgFamilyId gvg)) self (cgPrimarySpId gvg)
           else if idx < 0 \<or> int (length (cgSecondarySpIds gvg)) \<le> idx then CheckPanic
           else let owner = cgSecondarySpIds gvg ! nat idx
             in if owner = self then InPlace else check_swap env (gvSwapGroup env (cgId gvg)) self owner, st1))"

subsection \<open>Deleted objects\<close>

definition x_delete_prefix :: "'s genv \<Rightarrow> string \<Rightarrow> 's ExecuteModular \<Rightarrow> 's ExecuteModular" where
  "x_delete_prefix env pre st = st\<lparr>xStore := xvDelPrefix (gvX env) (xStore st) pre\<rparr>"

text \<open>
  The pieces a secondary provider holds: one deletion for each place the provider has among the secondary providers, and
  the last of these places; without secondary providers a deletion, and the number for all places.
\<close>

definition gc_secondary :: "'s genv \<Rightarrow> int \<Rightarrow> int \<Rightarrow> int list \<Rightarrow> 's ExecuteModular \<Rightarrow> int \<times> 's ExecuteModular" where
  "gc_secondary env objectID self ids st =
     (let del = x_delete_prefix env (''e'' @ show_int objectID @ ''_'') in
      if ids = [] then (MaxInt32, del st)
      else let places = filter (\<lambda>i. ids ! i = self) [0..<length ids]
           in (if places = [] then -1 else i32 (int (last places)), fold (\<lambda>_ st. del st) places st))"

text \<open>
  The loop over the deleted objects: whether it came to its end, the task and the state.  The errors inside are
  those of variables of the loop body.
\<close>

fun gc_objects :: "'s genv \<Rightarrow> int \<Rightarrow> (int \<times> ObjectInfo) list \<Rightarrow> GfSpGCObjectTask \<Rightarrow> 's ExecuteModular \<Rightarrow> bool \<times> GfSpGCObjectTask \<times> 's ExecuteModular" where
  "gc_objects env self [] go st = (True, go, st)"
| "gc_objects env self ((deleteAt, ob) # objs) go st =
     (if u64 deleteAt < go_CurrentBlockNumber go then gc_objects env self objs go st
      else let st1 = x_delete_prefix env (''s'' @ show_int (oId ob) @ ''_'') st in
        (case gvBucketInfo env (oBucketName ob) of
           Inr (Some (bucket, _)) \<Rightarrow>
             (case gvGroup env (bId bucket) (oLocalVirtualGroupId ob) of
                Inl e \<Rightarrow> (False, go, st1)
              | Inr gvg \<Rightarrow>
                  let (idx, st2) = gc_secondary env (oId ob) self (case gvg of None \<Rightarrow> [] | Some g \<Rightarrow> cgSecondarySpIds g) st1;
                      st3 = st2\<lparr>xDB := snd (DeleteObjectIntegrity (xvDb (gvX env) 0 (length (xReports st2))) (oId ob) idx (xDB st2))\<rparr>;
                      go1 = go\<lparr>go_CurrentBlockNumber := u64 deleteAt, go_LastDeletedObjectId := oId ob\<rparr>;
                      (canceled, st4) = reportProgress env (GCObject go1) st3
                  in if canceled then (False, go1, st4) else gc_objects env self objs go1 st4)
         | _ \<Rightarrow> (False, go, st1)))"

definition gc_object_end :: "'s genv \<Rightarrow> go_error option \<Rightarrow> bool \<Rightarrow> GfSpGCObjectTask \<Rightarrow> 's ExecuteModular \<Rightarrow> GfSpGCObjectTask \<times> 's ExecuteModular" where
  "gc_object_end env err ok go st =
     (let go1 = (if err = None \<and> ok then go\<lparr>go_CurrentBlockNumber := u64 (go_EndBlockNumber go + 1)\<rparr>
                 else go\<lparr>go_Task := x_SetError (gvX env) err (go_Task go)\<rparr>)
      in (go1, snd (reportProgress env (GCObject go1) st)))"

definition exe_HandleGCObjectTask :: "'s genv \<Rightarrow> GfSpGCObjectTask \<Rightarrow> 's ExecuteModular \<Rightarrow> GfSpGCObjectTask \<times> 's ExecuteModular" where
  "exe_HandleGCObjectTask env go st =
     (case gvDeleted env (go_StartBlockNumber go) (go_EndBlockNumber go) of
        Inl e \<Rightarrow> gc_object_end env (Some e) False go st
      | Inr (objs, endBlock) \<Rightarrow>
          if endBlock < go_StartBlockNumber go \<or> endBlock < go_EndBlockNumber go then gc_object_end env None False go st
          else if objs = [] then gc_object_end env None True go st
          else (case exe_getSPID (gvX env) st of
                  (Inl e, st1) \<Rightarrow> gc_object_end env (Some e) False go st1
                | (Inr self, st1) \<Rightarrow> (case gc_objects env self objs go st1 of (ok, go1, st2) \<Rightarrow> gc_object_end env None ok go1 st2)))"

subsection \<open>Pieces with the wrong provider\<close>

text \<open>\<open>None\<close> is a panic of the check.\<close>

definition gc_if_misplaced :: "'s genv \<Rightarrow> ObjectInfo \<Rightarrow> int \<Rightarrow> ('s ExecuteModular \<Rightarrow> 's ExecuteModular) \<Rightarrow> 's ExecuteModular \<Rightarrow> 's ExecuteModular option" where
  "gc_if_misplaced env ob idx del st =
     (case checkGVGMatchSP env ob idx st of
        (CheckPanic, st1) \<Rightarrow> None
      | (Misplaced, st1) \<Rightarrow> Some (del st1)
      | (_, st1) \<Rightarrow> Some st1)"

fun gc_metas :: "'s genv \<Rightarrow> nat \<Rightarrow> IntegrityMeta list \<Rightarrow> 's ExecuteModular \<Rightarrow> 's ExecuteModular option" where
  "gc_metas env turn [] st = Some st"
| "gc_metas env turn (meta # metas) st =
     (let del = (\<lambda>ob. deleteObjectPiecesAndIntegrityMeta env turn meta (oVersion ob));
          next = (case xvObject (gvX env) (imObjectID meta) of
             Inr ob \<Rightarrow> gc_if_misplaced env ob (imRedundancyIndex meta) (del ob) st
           | Inl e \<Rightarrow>
               if str_contains (xvMsg (gvX env) e) ''no such object from metadata''
               then (case gvChain env (imObjectID meta) of Inl _ \<Rightarrow> Some st | Inr ob \<Rightarrow> gc_if_misplaced env ob (imRedundancyIndex meta) (del ob) st)
               else Some st)
      in case next of None \<Rightarrow> None | Some st1 \<Rightarrow> gc_metas env (Suc turn) metas st1)"

definition gcZombiePieceFromIntegrityMeta :: "'s genv \<Rightarrow> GfSpGCZombiePieceTask \<Rightarrow> 's ExecuteModular \<Rightarrow> (go_error option \<times> 's ExecuteModular) option" where
  "gcZombiePieceFromIntegrityMeta env gz st =
     (case ListIntegrityMetaByObjectIDRange (xvDb (gvX env) 2 0) (xDB st) (i64 (gz_StartObjectId gz)) (i64 (gz_EndObjectId gz)) True of
        (_, Some e) \<Rightarrow> Some (Some (x_db_err (gvX env) e), st)
      | (metas, None) \<Rightarrow> map_option (Pair None) (gc_metas env 0 metas st))"

text \<open>An object that is being updated ends the whole pass.\<close>

fun gc_hashes :: "'s genv \<Rightarrow> nat \<Rightarrow> PieceHashTable list \<Rightarrow> 's ExecuteModular \<Rightarrow> 's ExecuteModular option" where
  "gc_hashes env turn [] st = Some st"
| "gc_hashes env turn (piece # pieces) st =
     (let del = deletePieceAndPieceChecksum env turn piece;
          checked = (\<lambda>ob. if oIsUpdating ob then Some (False, st)
             else map_option (Pair True) (gc_if_misplaced env ob (phtRedundancyIndex piece) del st));
          next = (case xvObject (gvX env) (phtObjectID piece) of
             Inr ob \<Rightarrow> checked ob
           | Inl e \<Rightarrow>
               if str_contains (xvMsg (gvX env) e) ''no such object from metadata''
               then (case gvChain env (phtObjectID piece) of
                       Inl e1 \<Rightarrow> Some (True, if str_contains (xvMsg (gvX env) e1) ''No such object'' then del st else st)
                     | Inr ob \<Rightarrow> checked ob)
               else Some (True, st))
      in case next of None \<Rightarrow> None | Some (False, st1) \<Rightarrow> Some st1 | Some (True, st1) \<Rightarrow> gc_hashes env (Suc turn) pieces st1)"

definition gcZombiePieceFromPieceHash :: "'s genv \<Rightarrow> GfSpGCZombiePieceTask \<Rightarrow> 's ExecuteModular \<Rightarrow> (go_error option \<times> 's ExecuteModular) option" where
  "gcZombiePieceFromPieceHash env gz st =
     (case ListReplicatePieceChecksumByObjectIDRange (xvDb (gvX env) 3 0) (xDB st) (i64 (gz_StartObjectId gz)) (i64 (gz_EndObjectId gz)) of
        Inl e \<Rightarrow> Some (Some (x_db_err (gvX env) e), st)
      | Inr pieces \<Rightarrow> map_option (Pair None) (gc_hashes env 0 pieces st))"

definition exe_HandleGCZombiePieceTask :: "'s genv \<Rightarrow> GfSpGCZombiePieceTask \<Rightarrow> 's ExecuteModular \<Rightarrow> (GfSpGCZombiePieceTask \<times> 's ExecuteModular) option" where
  "exe_HandleGCZombiePieceTask env gz st =
     (case (case gcZombiePieceFromIntegrityMeta env gz st of
              None \<Rightarrow> None
            | Some (Some e, st1) \<Rightarrow> Some (Some e, st1)
            | Some (None, st1) \<Rightarrow> gcZombiePieceFromPieceHash env gz st1) of
        None \<Rightarrow> None
      | Some (err, st2) \<Rightarrow>
          let gz1 = (case err of None \<Rightarrow> gz | Some e \<Rightarrow> gz\<lparr>gz_Task := x_SetError (gvX env) (Some e) (gz_Task gz)\<rparr>)
          in Some (gz1, snd (exe_ReportTask env (GCZombiePiece gz1) st2)))"

subsection \<open>Expired rows\<close>

text \<open>The clock in nanoseconds, the age as a duration.\<close>

definition gc_days_ago :: "'s genv \<Rightarrow> int \<Rightarrow> int" where
  "gc_days_ago env days = gvNow env + i64 (- days * 24 * 3600 * 1000000000)"

definition gcMetaBucketTraffic :: "'s genv \<Rightarrow> 's ExecuteModular \<Rightarrow> 's ExecuteModular" where
  "gcMetaBucketTraffic env st =
     st\<lparr>xTraffic := snd (DeleteExpiredBucketTraffic (xvDb (gvX env) 0 0) (gvYearMonth env (gc_days_ago env (xBucketTrafficKeepLatestDay st))) (xTraffic st))\<rparr>"

definition gcMetaReadRecord :: "'s genv \<Rightarrow> 's ExecuteModular \<Rightarrow> 's ExecuteModular" where
  "gcMetaReadRecord env st =
     st\<lparr>xTraffic := snd (DeleteExpiredReadRecord (xvDb (gvX env) 1 0) (u64 (gc_days_ago env (xReadRecordKeepLatestDay st) div 1000))
          (xReadRecordDeleteLimit st) (xTraffic st))\<rparr>"

text \<open>Both deletions are goroutines nobody waits for; the task is reported without an error, whatever they do.\<close>

definition exe_HandleGCMetaTask :: "'s genv \<Rightarrow> GfSpGCMetaTask \<Rightarrow> 's ExecuteModular \<Rightarrow> GfSpGCMetaTask \<times> 's ExecuteModular" where
  "exe_HandleGCMetaTask env gm st = (gm, gcMetaReadRecord env (gcMetaBucketTraffic env (snd (exe_ReportTask env (GCMeta gm) st))))"

subsection \<open>Old versions of updated objects\<close>

text \<open>Deleting pieces one by one; a piece that is already gone is passed over, another error ends the loop.\<close>

fun gc_keys :: "'s genv \<Rightarrow> string list \<Rightarrow> 's ExecuteModular \<Rightarrow> go_error option \<times> 's ExecuteModular" where
  "gc_keys env [] st = (None, st)"
| "gc_keys env (key # keys) st =
     (case DeletePiece (xvGet (gvX env)) (xvDel (gvX env)) (xStore st) key of
        Inr s \<Rightarrow> gc_keys env keys (st\<lparr>xStore := s\<rparr>)
      | Inl e \<Rightarrow> if str_contains (eStoreMsg (xvEnv (gvX env)) e) ''The specified key does not exist'' then gc_keys env keys st
                 else (Some (x_store_err (gvX env) e), st))"

definition gc_shadow :: "'s genv \<Rightarrow> GfSpGCStaleVersionObjectTask \<Rightarrow> 's ExecuteModular \<Rightarrow> go_error option \<times> 's ExecuteModular" where
  "gc_shadow env gs st =
     (case DeleteShadowObjectIntegrity (xvDb (gvX env) 0 0) (gs_ObjectId gs) (gs_RedundancyIndex gs) (xDB st) of
        (err, db) \<Rightarrow> (map_option (x_db_err (gvX env)) err, st\<lparr>xDB := db\<rparr>))"

definition stale_keys :: "int \<Rightarrow> nat \<Rightarrow> int \<Rightarrow> int \<Rightarrow> string list" where
  "stale_keys objectID n version idx = map (\<lambda>i. gc_key objectID version (int i) idx) [0..<n]"

definition gcStaleVersionPieces :: "'s genv \<Rightarrow> GfSpGCStaleVersionObjectTask \<Rightarrow> 's ExecuteModular \<Rightarrow> go_error option \<times> 's ExecuteModular" where
  "gcStaleVersionPieces env gs st =
     (case gc_keys env (stale_keys (gs_ObjectId gs) (length (gs_PieceChecksumList gs)) (gs_Version gs) (gs_RedundancyIndex gs)) st of
        (Some e, st1) \<Rightarrow> (Some e, st1)
      | (None, st1) \<Rightarrow> gc_shadow env gs st1)"

text \<open>The shadow record becomes the record of the object; in the way after a collected record its size is left out.\<close>

definition promote_shadow :: "'s genv \<Rightarrow> int \<Rightarrow> GfSpGCStaleVersionObjectTask \<Rightarrow> 's ExecuteModular \<Rightarrow> go_error option \<times> 's ExecuteModular" where
  "promote_shadow env sz gs st =
     (case SetObjectIntegrity (xvDb (gvX env) 1 0) \<lparr>imObjectID = gs_ObjectId gs, imRedundancyIndex = gs_RedundancyIndex gs,
             imIntegrityChecksum = gs_IntegrityChecksum gs, imPieceChecksumList = gs_PieceChecksumList gs, imObjectSize = sz\<rparr> (xDB st) of
        (Some e, db) \<Rightarrow> (Some (x_db_err (gvX env) e), st\<lparr>xDB := db\<rparr>)
      | (None, db) \<Rightarrow> gc_shadow env gs (st\<lparr>xDB := db\<rparr>))"

definition replace_stale :: "'s genv \<Rightarrow> GfSpGCStaleVersionObjectTask \<Rightarrow> IntegrityMeta \<Rightarrow> int \<Rightarrow> 's ExecuteModular \<Rightarrow> go_error option \<times> 's ExecuteModular" where
  "replace_stale env gs stale idx st =
     (case gc_keys env (stale_keys (gs_ObjectId gs) (length (imPieceChecksumList stale)) (i64 (gs_Version gs - 1)) idx) st of
        (Some e, st1) \<Rightarrow> (Some e, st1)
      | (None, st1) \<Rightarrow>
          (case DeleteObjectIntegrity (xvDb (gvX env) 2 0) (gs_ObjectId gs) (imRedundancyIndex stale) (xDB st1) of
             (Some e, db) \<Rightarrow> (Some (x_db_err (gvX env) e), st1\<lparr>xDB := db\<rparr>)
           | (None, db) \<Rightarrow> promote_shadow env (gs_ObjectSize gs) gs (st1\<lparr>xDB := db\<rparr>)))"

definition gcStaleVersionObjectFromShadowIntegrityMeta :: "'s genv \<Rightarrow> GfSpGCStaleVersionObjectTask \<Rightarrow> 's ExecuteModular \<Rightarrow> go_error option \<times> 's ExecuteModular" where
  "gcStaleVersionObjectFromShadowIntegrityMeta env gs st =
     (let objectID = gs_ObjectId gs; idx = gs_RedundancyIndex gs in
      case gvChain env objectID of
        Inl e \<Rightarrow> if str_contains (xvMsg (gvX env) e) ''No such object'' then gcStaleVersionPieces env gs st else (Some e, st)
      | Inr ob \<Rightarrow>
          if gs_Version gs < oVersion ob then gcStaleVersionPieces env gs st
          else if oVersion ob < gs_Version gs then if oIsUpdating ob then (None, st) else gcStaleVersionPieces env gs st
          else if oIsUpdating ob then gcStaleVersionPieces env gs st
          else if idx = PrimarySPRedundancyIndex
          then (case GetObjectIntegrity (xvDb (gvX env) 3 0) (xDB st) objectID idx of
                  Inl e \<Rightarrow> (Some (x_db_err (gvX env) e), st)
                | Inr stale \<Rightarrow> replace_stale env gs stale idx st)
          else (case ListIntegrityMetaByObjectIDRange (xvDb (gvX env) 3 0) (xDB st) (i64 objectID) (i64 (i64 objectID + 1)) True of
                  (_, Some e) \<Rightarrow> (Some (x_db_err (gvX env) e), st)
                | (metas, None) \<Rightarrow>
                    (case find (\<lambda>m. imRedundancyIndex m \<noteq> PrimarySPRedundancyIndex) metas of
                       None \<Rightarrow> promote_shadow env 0 gs st
                     | Some stale \<Rightarrow> replace_stale env gs stale (imRedundancyIndex stale) st)))"

definition exe_HandleGCStaleVersionObjectTask :: "'s genv \<Rightarrow> GfSpGCStaleVersionObjectTask \<Rightarrow> 's ExecuteModular \<Rightarrow> GfSpGCStaleVersionObjectTask \<times> 's ExecuteModular" where
  "exe_HandleGCStaleVersionObjectTask env gs st =
     (case gcStaleVersionObjectFromShadowIntegrityMeta env gs st of
        (err, st1) \<Rightarrow>
          let gs1 = (case err of None \<Rightarrow> gs | Some e \<Rightarrow> gs\<lparr>gs_Task := x_SetError (gvX env) (Some e) (gs_Task gs)\<rparr>)
          in (gs1, snd (exe_ReportTask env (GCStaleVersionObject gs1) st1)))"

subsection \<open>Buckets that moved away\<close>

definition reportProgressPerN :: int where "reportProgressPerN = 10"
definition gc_bucket_limit :: nat where "gc_bucket_limit = 100"

text \<open>The variables of the handler: \<open>bgAfter\<close> is the number of the last object, one variable for all groups.\<close>

record 's bucket_gc =
  bgAfter :: int
  bgNum :: int
  bgFinished :: int
  bgTask :: GfSpGCBucketMigrationTask
  bgState :: "'s ExecuteModular"

datatype 's gc_walk = GcGo 's | GcStop go_error 's | GcPanic | GcFuel

fun err_value :: "err_ref \<Rightarrow> go_error" where
  "err_value (Predefined e) = e" | "err_value (Decoded e) = e"

definition gc_bucket_object :: "'s genv \<Rightarrow> int \<Rightarrow> bool \<Rightarrow> GlobalVirtualGroup \<Rightarrow> ObjectInfo \<Rightarrow> 's bucket_gc \<Rightarrow> 's bucket_gc gc_walk" where
  "gc_bucket_object env gvgs last_one gvg ob b =
     (let b1 = b\<lparr>bgNum := u64 (bgNum b + 1), bgAfter := oId ob\<rparr> in
      case checkGVGMatchSP env ob PrimarySPRedundancyIndex (bgState b) of
        (CheckPanic, st) \<Rightarrow> GcPanic
      | (check, st) \<Rightarrow>
          (case (if check = Misplaced then deleteObjectSegmentsAndIntegrity env (nat (bgNum b1)) ob st else (Ok (), st)) of
             (Panic, st1) \<Rightarrow> GcPanic
           | (_, st1) \<Rightarrow>
               if bgNum b1 mod reportProgressPerN = 0 \<or> last_one
               then let t = (bgTask b)\<lparr>gb_LastGcObjectId := oId ob, gb_LastGcGvgId := cgId gvg, gb_TotalGvgNum := gvgs, gb_GcFinishedGvgNum := bgFinished b\<rparr>;
                        (err, st2) = exe_ReportTask env (GCBucketMigration t) st1; b2 = b1\<lparr>bgTask := t, bgState := st2\<rparr>
                    in (case err of Some e \<Rightarrow> GcStop (err_value e) b2 | None \<Rightarrow> GcGo b2)
               else GcGo (b1\<lparr>bgState := st1\<rparr>)))"

fun gc_bucket_page :: "'s genv \<Rightarrow> int \<Rightarrow> GlobalVirtualGroup \<Rightarrow> ObjectInfo list \<Rightarrow> 's bucket_gc \<Rightarrow> 's bucket_gc gc_walk" where
  "gc_bucket_page env gvgs gvg [] b = GcGo b"
| "gc_bucket_page env gvgs gvg (ob # obs) b =
     (case gc_bucket_object env gvgs (obs = []) gvg ob b of
        GcGo b1 \<Rightarrow> gc_bucket_page env gvgs gvg obs b1
      | stop \<Rightarrow> stop)"

text \<open>The pages of a group, with fuel for their number.\<close>

fun gc_bucket_group :: "nat \<Rightarrow> 's genv \<Rightarrow> int \<Rightarrow> int \<Rightarrow> GlobalVirtualGroup \<Rightarrow> 's bucket_gc \<Rightarrow> 's bucket_gc gc_walk" where
  "gc_bucket_group 0 env bucketID gvgs gvg b = GcFuel"
| "gc_bucket_group (Suc fuel) env bucketID gvgs gvg b =
     (case gvObjects env (cgId gvg) bucketID (bgAfter b) of
        Inl e \<Rightarrow> GcStop e b
      | Inr obs \<Rightarrow>
          (case gc_bucket_page env gvgs gvg obs b of
             GcGo b1 \<Rightarrow> if length obs < gc_bucket_limit then GcGo (b1\<lparr>bgFinished := bgFinished b1 + 1\<rparr>)
                        else gc_bucket_group fuel env bucketID gvgs gvg b1
           | stop \<Rightarrow> stop))"

fun gc_bucket_groups :: "nat \<Rightarrow> 's genv \<Rightarrow> int \<Rightarrow> int \<Rightarrow> int \<Rightarrow> GlobalVirtualGroup list \<Rightarrow> 's bucket_gc \<Rightarrow> 's bucket_gc gc_walk" where
  "gc_bucket_groups fuel env bucketID gvgs family [] b = GcGo b"
| "gc_bucket_groups fuel env bucketID gvgs family (gvg # rest) b =
     (if cgFamilyId gvg \<noteq> family then GcStop (OtherErr ''gvg family id mismatch'') b
      else case gc_bucket_group fuel env bucketID gvgs gvg b of
             GcGo b1 \<Rightarrow> gc_bucket_groups fuel env bucketID gvgs family rest b1
           | stop \<Rightarrow> stop)"

definition gc_bucket_end :: "'s genv \<Rightarrow> go_error option \<Rightarrow> int \<Rightarrow> 's bucket_gc \<Rightarrow> GfSpGCBucketMigrationTask \<times> 's ExecuteModular" where
  "gc_bucket_end env err gvgs b =
     (let t = (bgTask b)\<lparr>gb_TotalGvgNum := gvgs, gb_GcFinishedGvgNum := bgFinished b\<rparr>;
          t1 = (case err of None \<Rightarrow> t\<lparr>gb_Finished := True\<rparr> | Some e \<Rightarrow> t\<lparr>gb_Task := x_SetError (gvX env) (Some e) (gb_Task t)\<rparr>)
      in (t1, snd (reportProgress env (GCBucketMigration t1) (bgState b))))"

text \<open>A bucket that the chain does not know and gives no error for counts as finished.  \<open>None\<close> is a panic or the end of the fuel.\<close>

definition HandleGCBucketMigrationBucket :: "nat \<Rightarrow> 's genv \<Rightarrow> GfSpGCBucketMigrationTask \<Rightarrow> 's ExecuteModular
    \<Rightarrow> (GfSpGCBucketMigrationTask \<times> 's ExecuteModular) option" where
  "HandleGCBucketMigrationBucket fuel env gb st =
     (let bucketID = gb_BucketId gb; b = \<lparr>bgAfter = 0, bgNum = 0, bgFinished = 0, bgTask = gb, bgState = st\<rparr> in
      case gvGroups env bucketID of
        Inl e \<Rightarrow> Some (gc_bucket_end env (Some e) 0 b)
      | Inr groups \<Rightarrow>
          (case gvBucketById env bucketID of
             Inl e \<Rightarrow> Some (gc_bucket_end env (Some e) 0 b)
           | Inr None \<Rightarrow> Some (gc_bucket_end env None 0 b)
           | Inr (Some bucket) \<Rightarrow>
               (case gc_bucket_groups fuel env bucketID (int (length groups)) (bGlobalVirtualGroupFamilyId bucket) groups b of
                  GcGo b1 \<Rightarrow> Some (gc_bucket_end env None (int (length groups)) b1)
                | GcStop e b1 \<Rightarrow> Some (gc_bucket_end env (Some e) (int (length groups)) b1)
                | _ \<Rightarrow> None)))"

end
