(* ===== verification/SP_ExecutorMigrate.thy ===== *)
theory SP_ExecutorMigrate
  imports SP_ExecutorReplicate SP_ExecutorGC
begin

text \<open>
  Migration by the executor, \<^verbatim>\<open>src/modular/executor/migrate_task.go\<close>: the provider that takes over a virtual group
  asks the old one for the pieces of every object, stores them, and records an object only with the integrity hash of
  the chain.  While an object is tried again the answers of the other services may change, so every
  attempt has its environment.  The group, its successor and the source provider, of which the task record holds the
  numbers, are part of the environment.
\<close>

subsection \<open>Environment\<close>

record ('s, 'n) vmenv =
  vmR :: "('s, 'n) renv"
  vmNow :: int
  vmLater :: int
  vmSignGvg :: "GfSpMigrateGVGTask \<Rightarrow> go_error + int list"
  vmParams :: "ObjectInfo \<Rightarrow> go_error + Params"
  vmSrcGvg :: GlobalVirtualGroup
  vmDestGvg :: GlobalVirtualGroup
  vmSrcSp :: StorageProvider
  vmSpById :: "int \<Rightarrow> go_error + StorageProvider"
  vmShow :: "ObjectInfo \<Rightarrow> string"
  vmPiece :: "GfSpMigrateGVGTask \<Rightarrow> ObjectInfo \<Rightarrow> nat \<Rightarrow> int \<Rightarrow> go_error + int list"

record ('s, 'n) migr =
  miTask :: GfSpMigrateGVGTask
  miExe :: "'s ExecuteModular"
  miNet :: 'n

abbreviation vmX :: "('s, 'n) vmenv \<Rightarrow> 's xenv" where "vmX env \<equiv> rvX (vmR env)"

definition queryLimit :: nat where "queryLimit = 100"
definition renewSigIntervalSecond :: int where "renewSigIntervalSecond = 60 * 60"

definition ErrMigratedPieceChecksum :: go_error where "ErrMigratedPieceChecksum = exe_error 500 45210 ''migrate piece checksum is not correct''"
definition ErrSetObjectIntegrity :: go_error where "ErrSetObjectIntegrity = exe_error 500 45213 ''failed to set object integrity into spdb''"
definition ErrInvalidPieceChecksumLength :: go_error where "ErrInvalidPieceChecksumLength = exe_error 500 45214 ''invalid piece checksum length''"
definition exe_ErrPieceStoreWithDetail :: "string \<Rightarrow> go_error" where "exe_ErrPieceStoreWithDetail detail = recv_error 500 45205 detail"

definition ContainOnlyOneDifferentElement :: "int list \<Rightarrow> int list \<Rightarrow> int" where
  "ContainOnlyOneDifferentElement xs ys =
     (if length xs \<noteq> length ys then -1
      else case filter (\<lambda>i. xs ! i \<noteq> ys ! i) [0..<length xs] of [i] \<Rightarrow> int i | _ \<Rightarrow> -1)"

subsection \<open>The signature of the task\<close>

definition checkAndTryRenewSig :: "('s, 'n) vmenv \<Rightarrow> GfSpMigrateGVGTask \<Rightarrow> go_error option \<times> GfSpMigrateGVGTask" where
  "checkAndTryRenewSig env mg =
     (if vmNow env + renewSigIntervalSecond div 10 > mg_ExpireTime mg
      then let renewed = mg\<lparr>mg_ExpireTime := vmNow env + renewSigIntervalSecond\<rparr> in
        (case vmSignGvg env renewed of
           Inl e \<Rightarrow> (if vmLater env > mg_ExpireTime mg then Some e else None, mg)
         | Inr signature \<Rightarrow> (None, renewed\<lparr>mg_Signature := signature\<rparr>))
      else (None, mg))"

subsection \<open>Handing pieces to another secondary provider\<close>

definition doBucketMigrationReplicatePiece :: "('s, 'n) vmenv \<Rightarrow> int \<Rightarrow> ObjectInfo \<Rightarrow> Params \<Rightarrow> string \<Rightarrow> nat \<Rightarrow> int \<Rightarrow> int list \<Rightarrow> 'n \<Rightarrow> go_error option \<times> 'n" where
  "doBucketMigrationReplicatePiece env gvg ob params endpoint seg idx data n =
     (let receive = (InitReceivePieceTask (eNow (xvEnv (vmX env))) gvg ob params DefaultSmallerPriority (int seg) (i32 idx) (int (length data)) False)
            \<lparr>rc_PieceChecksum := eChecksum (xvEnv (vmX env)) data, rc_BucketMigration := True\<rparr>
      in case rvSign (vmR env) receive of
           Inl e \<Rightarrow> (Some e, n)
         | Inr signature \<Rightarrow>
             if int (length (oChecksums ob)) \<le> u32 (idx + 1) then (Some exe_ErrReplicateIdsOutOfBounds, n)
             else (case rvSend (vmR env) endpoint (receive\<lparr>rc_Signature := signature\<rparr>) data n of
                     (Inl e, n1) \<Rightarrow> (Some e, n1) | (Inr _, n1) \<Rightarrow> (None, n1)))"

text \<open>The request that ends the object is signed before it is marked.\<close>

definition doneBucketMigrationReplicatePiece :: "('s, 'n) vmenv \<Rightarrow> int \<Rightarrow> ObjectInfo \<Rightarrow> Params \<Rightarrow> string \<Rightarrow> int \<Rightarrow> 'n \<Rightarrow> go_error option \<times> 'n" where
  "doneBucketMigrationReplicatePiece env gvg ob params endpoint idx n =
     (let receive = InitReceivePieceTask (eNow (xvEnv (vmX env))) gvg ob params DefaultSmallerPriority 0 (i32 idx) 0 False
      in case rvSign (vmR env) receive of
           Inl e \<Rightarrow> (Some e, n)
         | Inr signature \<Rightarrow>
             (case rvDone (vmR env) endpoint (receive\<lparr>rc_Signature := signature, rc_BucketMigration := True, rc_Finished := True\<rparr>) n of
                (Inl e, n1) \<Rightarrow> (Some e, n1) | (Inr _, n1) \<Rightarrow> (None, n1)))"

fun move_pieces :: "('s, 'n) vmenv \<Rightarrow> ObjectInfo \<Rightarrow> Params \<Rightarrow> string \<Rightarrow> int \<Rightarrow> nat list \<Rightarrow> 's ExecuteModular \<Rightarrow> 'n \<Rightarrow> go_error option \<times> 'n" where
  "move_pieces env ob params endpoint idx [] st n = (None, n)"
| "move_pieces env ob params endpoint idx (seg # segs) st n =
     (let key = (if oRedundancyType ob = REDUNDANCY_EC_TYPE then ECPieceKey (oId ob) (int seg) (u32 idx) (oVersion ob)
                 else SegmentPieceKey (oId ob) (int seg) (oVersion ob))
      in case GetPiece (xvGet (vmX env)) (xStore st) key 0 (-1) of
           Inl e \<Rightarrow> (Some (x_store_err (vmX env) e), n)
         | Inr data \<Rightarrow>
             (case doBucketMigrationReplicatePiece env (cgId (vmDestGvg env)) ob params endpoint seg idx data n of
                (Some e, n1) \<Rightarrow> (Some e, n1)
              | (None, n1) \<Rightarrow> move_pieces env ob params endpoint idx segs st n1))"

definition checkGVGConflict :: "('s, 'n) vmenv \<Rightarrow> ObjectInfo \<Rightarrow> Params \<Rightarrow> ('s, 'n) migr \<Rightarrow> unit outcome \<times> ('s, 'n) migr" where
  "checkGVGConflict env ob params w =
     (let src = cgSecondarySpIds (vmSrcGvg env); dest = cgSecondarySpIds (vmDestGvg env); idx = ContainOnlyOneDifferentElement src dest in
      if idx = PrimarySPRedundancyIndex then (Ok (), w)
      else (case exe_getSPID (vmX env) (miExe w) of
              (Inl e, st1) \<Rightarrow> (Fail e, w\<lparr>miExe := st1\<rparr>)
            | (Inr self, st1) \<Rightarrow>
                let w1 = w\<lparr>miExe := st1\<rparr> in
                if self \<noteq> src ! nat idx then (Fail (OtherErr ''invalid secondary sp id in src gvg''), w1)
                else (case vmSpById env (dest ! nat idx) of
                        Inl e \<Rightarrow> (Fail e, w1)
                      | Inr sp \<Rightarrow>
                          (case SegmentPieceCount (oPayloadSize ob) (MaxSegmentSize params) of
                             None \<Rightarrow> (Panic, w1)
                           | Some segmentCount \<Rightarrow>
                               (case move_pieces env ob params (spEndpoint sp) idx [0..<nat segmentCount] st1 (miNet w1) of
                                  (Some e, n) \<Rightarrow> (Fail e, w1\<lparr>miNet := n\<rparr>)
                                | (None, n) \<Rightarrow>
                                    (case doneBucketMigrationReplicatePiece env (cgId (vmDestGvg env)) ob params (spEndpoint sp) idx n of
                                       (Some e, n1) \<Rightarrow> (Fail e, w1\<lparr>miNet := n1\<rparr>)
                                     | (None, n1) \<Rightarrow> (Ok (), w1\<lparr>miNet := n1\<rparr>)))))))"

subsection \<open>The pieces of an object\<close>

text \<open>The record has no size; a failed deletion of the piece hashes is only logged.\<close>

definition setMigratePiecesMetadata :: "('s, 'n) vmenv \<Rightarrow> ObjectInfo \<Rightarrow> int \<Rightarrow> int \<Rightarrow> metadb \<Rightarrow> unit outcome \<times> metadb" where
  "setMigratePiecesMetadata env ob segmentCount idx db =
     (let x = vmX env in
      case GetAllReplicatePieceChecksumOptimized (xvDb x 1 0) db (oId ob) idx segmentCount of
        Inl e \<Rightarrow> (Fail (exe_ErrGfSpDBWithDetail (''failed to get checksum from db, object_info: '' @ vmShow env ob @ '',error: '' @ eDbMsg (xvEnv x) e)), db)
      | Inr checksums \<Rightarrow>
          if int (length checksums) \<noteq> segmentCount then (Fail ErrInvalidPieceChecksumLength, db)
          else let hash = eIntegrity (xvEnv x) checksums; place = (if idx = PrimarySPRedundancyIndex then 0 else i32 (idx + 1)) in
            if place < 0 \<or> int (length (oChecksums ob)) \<le> place then (Panic, db)
            else if hash \<noteq> oChecksums ob ! nat place then (Fail ErrMigratedPieceChecksum, db)
            else (case SetObjectIntegrity (xvDb x 2 0) \<lparr>imObjectID = oId ob, imRedundancyIndex = idx, imIntegrityChecksum = hash,
                        imPieceChecksumList = checksums, imObjectSize = 0\<rparr> db of
                    (Some e, db1) \<Rightarrow> (Fail ErrSetObjectIntegrity, db1)
                  | (None, db1) \<Rightarrow> (Ok (), snd (DeleteAllReplicatePieceChecksum (xvDb x 3 0) (oId ob) idx (nat segmentCount) db1))))"

fun migrate_pieces :: "('s, 'n) vmenv \<Rightarrow> GfSpMigrateGVGTask \<Rightarrow> ObjectInfo \<Rightarrow> int \<Rightarrow> nat list \<Rightarrow> 's ExecuteModular \<Rightarrow> go_error option \<times> 's ExecuteModular" where
  "migrate_pieces env mg ob idx [] st = (None, st)"
| "migrate_pieces env mg ob idx (i # segs) st =
     (let x = vmX env in
      case vmPiece env mg ob i idx of
        Inl e \<Rightarrow> (Some e, st)
      | Inr data \<Rightarrow>
          let key = gc_key (oId ob) (oVersion ob) (int i) idx in
          (case PutPiece (ePut (xvEnv x)) (xStore st) key data of
             Inl e \<Rightarrow> (Some (exe_ErrPieceStoreWithDetail (''failed to put piece data into primary sp, piece_key: '' @ key @ '',error: '' @ eStoreMsg (xvEnv x) e)), st)
           | Inr s \<Rightarrow>
               (case SetReplicatePieceChecksum (xvDb x 0 i) (oId ob) (int i) idx (eChecksum (xvEnv x) data) (oVersion ob) (xDB st) of
                  (Some e, db) \<Rightarrow> (Some (exe_ErrGfSpDBWithDetail (''failed to set replicate piece checksum, object_id: '' @ show_int (oId ob) @ '', segment_index: ''
                      @ show_nat i @ '', redundancy_index: '' @ show_int idx @ '', error: '' @ eDbMsg (xvEnv x) e)), st\<lparr>xStore := s, xDB := db\<rparr>)
                | (None, db) \<Rightarrow> migrate_pieces env mg ob idx segs (st\<lparr>xStore := s, xDB := db\<rparr>))))"

definition HandleMigratePieceTask :: "('s, 'n) vmenv \<Rightarrow> GfSpMigrateGVGTask \<Rightarrow> ObjectInfo \<Rightarrow> Params \<Rightarrow> int \<Rightarrow> 's ExecuteModular \<Rightarrow> unit outcome \<times> 's ExecuteModular" where
  "HandleMigratePieceTask env mg ob params idx st =
     (case SegmentPieceCount (oPayloadSize ob) (MaxSegmentSize params) of
        None \<Rightarrow> (Panic, st)
      | Some segmentCount \<Rightarrow>
          (case migrate_pieces env mg ob idx [0..<nat segmentCount] st of
             (Some e, st1) \<Rightarrow> (Fail e, st1)
           | (None, st1) \<Rightarrow> (case setMigratePiecesMetadata env ob segmentCount idx (xDB st1) of (r, db) \<Rightarrow> (r, st1\<lparr>xDB := db\<rparr>))))"

subsection \<open>An object, and the group\<close>

definition migrate_index :: "int \<Rightarrow> GlobalVirtualGroup \<Rightarrow> int option" where
  "migrate_index sp gvg =
     (let (idx, isSecondary) = ValidateSecondarySPs sp (cgSecondarySpIds gvg); isPrimary = (sp = cgPrimarySpId gvg) in
      if \<not> isPrimary \<and> \<not> isSecondary then None else if \<not> isSecondary then Some PrimarySPRedundancyIndex else Some (i32 idx))"

definition doObjectMigration :: "('s, 'n) vmenv \<Rightarrow> int \<Rightarrow> ObjectInfo \<times> GlobalVirtualGroup \<Rightarrow> ('s, 'n) migr \<Rightarrow> unit outcome \<times> ('s, 'n) migr" where
  "doObjectMigration env bucketID details w =
     (let (ob, gvg) = details in
      case vmParams env ob of
        Inl e \<Rightarrow> (Fail e, w)
      | Inr params \<Rightarrow>
          (case (if bucketID \<noteq> 0 then checkGVGConflict env ob params w else (Ok (), w)) of
             (Ok _, w1) \<Rightarrow>
               (case migrate_index (spId (vmSrcSp env)) gvg of
                  None \<Rightarrow> (Fail (OtherErr (''invalid sp id: '' @ show_int (spId (vmSrcSp env)))), w1)
                | Some idx \<Rightarrow> (case HandleMigratePieceTask env (miTask w1) ob params idx (miExe w1) of (r, st) \<Rightarrow> (r, w1\<lparr>miExe := st\<rparr>)))
           | bad \<Rightarrow> bad))"

record ('s, 'n) venv =
  veAttempt :: "int \<Rightarrow> nat \<Rightarrow> ('s, 'n) vmenv"
  veList :: "int \<Rightarrow> go_error + (ObjectInfo \<times> GlobalVirtualGroup) list"
  veReport :: "nat \<Rightarrow> rpc_answer"
  veMaxRetry :: int
  veSkip :: bool

text \<open>\<open>veAttempt\<close> gives the environment by object and attempt, \<open>veList\<close> a page of the group after an object.\<close>

definition isSkipFailedToMigrateObject :: "('s, 'n) venv \<Rightarrow> nat \<Rightarrow> ObjectInfo \<Rightarrow> bool" where
  "isSkipFailedToMigrateObject env k ob \<longleftrightarrow>
     veSkip env \<or> (let e = veAttempt env (oId ob) k in
       case rvObjectInfo (vmR e) (oBucketName ob) (oObjectName ob) of Inl err \<Rightarrow> str_contains (xvMsg (vmX e) err) ''No such object'' | Inr _ \<Rightarrow> False)"

text \<open>The attempts from the one numbered \<open>k\<close> with \<open>n\<close> left, and the error so far; \<open>None\<close> is a panic.\<close>

fun migrate_tries :: "('s, 'n) venv \<Rightarrow> int \<Rightarrow> ObjectInfo \<times> GlobalVirtualGroup \<Rightarrow> nat \<Rightarrow> nat \<Rightarrow> go_error option \<Rightarrow> ('s, 'n) migr \<Rightarrow> (go_error option \<times> ('s, 'n) migr) option" where
  "migrate_tries env bucketID details k 0 err w = Some (err, w)"
| "migrate_tries env bucketID details k (Suc n) err w =
     (case doObjectMigration (veAttempt env (oId (fst details)) k) bucketID details w of
        (Panic, w1) \<Rightarrow> None
      | (Ok _, w1) \<Rightarrow> Some (None, w1)
      | (Fail e, w1) \<Rightarrow> if isSkipFailedToMigrateObject env k (fst details) then Some (None, w1)
                         else migrate_tries env bucketID details (Suc k) n (Some e) w1)"

definition doObjectMigrationRetry :: "('s, 'n) venv \<Rightarrow> int \<Rightarrow> ObjectInfo \<times> GlobalVirtualGroup \<Rightarrow> ('s, 'n) migr \<Rightarrow> (go_error option \<times> ('s, 'n) migr) option" where
  "doObjectMigrationRetry env bucketID details w = migrate_tries env bucketID details 0 (nat (veMaxRetry env)) None w"

definition migrate_report :: "('s, 'n) venv \<Rightarrow> (string \<Rightarrow> GfSpError option) \<Rightarrow> ('s, 'n) migr \<Rightarrow> err_ref option \<times> ('s, 'n) migr" where
  "migrate_report env unmarshal w =
     (let st = miExe w; t = MigrateGVG (miTask w)
      in (client_ReportTask unmarshal (veReport env (length (xReports st))) t, w\<lparr>miExe := st\<lparr>xReports := xReports st @ [t]\<rparr>\<rparr>))"

text \<open>The objects of a page from the one numbered \<open>i\<close>: the number of the last object migrated is a variable of the handler.\<close>

fun migrate_page :: "('s, 'n) venv \<Rightarrow> int \<Rightarrow> nat \<Rightarrow> (ObjectInfo \<times> GlobalVirtualGroup) list \<Rightarrow> int \<Rightarrow> ('s, 'n) migr \<Rightarrow> (int \<times> ('s, 'n) migr) gc_walk" where
  "migrate_page env bucketID i [] after w = GcGo (after, w)"
| "migrate_page env bucketID i (details # rest) after w =
     (let ob = fst details; e0 = veAttempt env (oId ob) 0 in
      case checkAndTryRenewSig e0 (miTask w) of
        (Some e, mg) \<Rightarrow> GcStop e (after, w\<lparr>miTask := mg\<rparr>)
      | (None, mg) \<Rightarrow>
          (case doObjectMigrationRetry env bucketID details (w\<lparr>miTask := mg\<rparr>) of
             None \<Rightarrow> GcPanic
           | Some (Some e, w1) \<Rightarrow> GcStop e (after, w1)
           | Some (None, w1) \<Rightarrow>
               let moved = (\<lambda>w. w\<lparr>miTask := (miTask w)\<lparr>mg_MigratedBytesSize := u64 (mg_MigratedBytesSize (miTask w) + oPayloadSize ob)\<rparr>\<rparr>) in
               if int (Suc i) mod reportProgressPerN = 0 \<or> rest = []
               then (case migrate_report env (eUnmarshal (xvEnv (vmX e0))) (w1\<lparr>miTask := (miTask w1)\<lparr>mg_LastMigratedObjectId := oId ob\<rparr>\<rparr>) of
                       (Some e, w2) \<Rightarrow> GcStop (err_value e) (after, w2)
                     | (None, w2) \<Rightarrow> migrate_page env bucketID (Suc i) rest (oId ob) (moved w2))
               else migrate_page env bucketID (Suc i) rest (oId ob) (moved w1)))"

fun migrate_pages :: "nat \<Rightarrow> ('s, 'n) venv \<Rightarrow> int \<Rightarrow> int \<Rightarrow> ('s, 'n) migr \<Rightarrow> (int \<times> ('s, 'n) migr) gc_walk" where
  "migrate_pages 0 env bucketID after w = GcFuel"
| "migrate_pages (Suc fuel) env bucketID after w =
     (case veList env after of
        Inl e \<Rightarrow> GcStop e (after, w)
      | Inr objs \<Rightarrow>
          (case migrate_page env bucketID 0 objs after w of
             GcGo (after1, w1) \<Rightarrow>
               if length objs < queryLimit
               then GcGo (after1, w1\<lparr>miTask := (miTask w1)\<lparr>mg_LastMigratedObjectId := after1, mg_Finished := True\<rparr>\<rparr>)
               else migrate_pages fuel env bucketID after1 w1
           | stop \<Rightarrow> stop))"

text \<open>\<open>None\<close> is a panic or the end of the fuel.\<close>

definition HandleMigrateGVGTask :: "nat \<Rightarrow> ('s, 'n) venv \<Rightarrow> (string \<Rightarrow> GfSpError option) \<Rightarrow> ('s, 'n) migr \<Rightarrow> ('s, 'n) migr option" where
  "HandleMigrateGVGTask fuel env unmarshal w =
     (let finish = (\<lambda>err w. w\<lparr>miTask := (miTask w)\<lparr>mg_Task := base_SetError unmarshal err (mg_Task (miTask w))\<rparr>\<rparr>) in
      case migrate_pages fuel env (mg_BucketId (miTask w)) (mg_LastMigratedObjectId (miTask w)) w of
        GcGo (_, w1) \<Rightarrow> Some (finish None w1)
      | GcStop e (_, w1) \<Rightarrow> Some (finish (Some e) w1)
      | _ \<Rightarrow> None)"

end
