(* ===== verification/SP_ExecutorGCProps.thy ===== *)
theory SP_ExecutorGCProps
  imports SP_ExecutorMigrate SP_ExecutorProps
begin

text \<open>
  Properties of garbage collection and migration by the executor: which pieces a pass over misplaced pieces may delete, what
  becomes of an old version, when a migrated object is recorded, that the passes end, and where they go wrong.
\<close>

subsection \<open>The provider's own number\<close>

definition own_id :: "'s xenv \<Rightarrow> 's ExecuteModular \<Rightarrow> go_error + int" where
  "own_id x st = (if xSpID st \<noteq> 0 then Inr (xSpID st) else xvSelf x)"

lemma getSPID_own [simp]: "fst (exe_getSPID x st) = own_id x st" "own_id x (snd (exe_getSPID x st)) = own_id x st"
  "xStore (snd (exe_getSPID x st)) = xStore st" "xDB (snd (exe_getSPID x st)) = xDB st" "xReports (snd (exe_getSPID x st)) = xReports st"
  by (auto simp: own_id_def exe_getSPID_def split: sum.splits)

subsection \<open>Misplaced pieces\<close>

definition owner_of :: "GlobalVirtualGroup \<Rightarrow> int \<Rightarrow> int" where
  "owner_of gvg idx = (if idx = -1 then cgPrimarySpId gvg else cgSecondarySpIds gvg ! nat idx)"

text \<open>
  The object is sealed, its bucket is not migrating, its group has another provider in that place, and the chain answered that
  there is no swap, or one that does not bring this provider in for the owner of the place.
\<close>

definition no_swap_here :: "'s genv \<Rightarrow> go_error + (int \<times> int) \<Rightarrow> int \<Rightarrow> int \<Rightarrow> bool" where
  "no_swap_here env swap self owner \<longleftrightarrow>
     (case swap of Inl e \<Rightarrow> str_contains (xvMsg (gvX env) e) ''swap in info not exist'' | Inr (successor, target) \<Rightarrow> (successor, target) \<noteq> (self, owner))"

definition wrong_place :: "'s genv \<Rightarrow> ObjectInfo \<Rightarrow> int \<Rightarrow> int \<Rightarrow> bool" where
  "wrong_place env ob idx self \<longleftrightarrow> (\<exists>bucket gvg. gvBucketInfo env (oBucketName ob) = Inr (Some (bucket, False))
     \<and> gvGroup env (bId bucket) (oLocalVirtualGroupId ob) = Inr (Some gvg) \<and> oObjectStatus ob = OBJECT_STATUS_SEALED \<and> owner_of gvg idx \<noteq> self
     \<and> no_swap_here env (if idx = -1 then gvSwapFamily env (cgFamilyId gvg) else gvSwapGroup env (cgId gvg)) self (owner_of gvg idx))"

lemma check_state: "checkGVGMatchSP env ob idx st = (c, st') \<Longrightarrow> st' = st \<or> st' = snd (exe_getSPID (gvX env) st)"
  by (auto simp: checkGVGMatchSP_def getGvgAndSpId_def split: sum.splits option.splits prod.splits)

lemma check_Misplaced:
  assumes "checkGVGMatchSP env ob idx st = (Misplaced, st')"
  shows "\<exists>self. own_id (gvX env) st = Inr self \<and> wrong_place env ob idx self"
proof -
  obtain q st1 where q: "exe_getSPID (gvX env) st = (q, st1)" by force
  then have "q = own_id (gvX env) st" by (metis fst_conv getSPID_own(1))
  with assms q show ?thesis
    by (auto simp: checkGVGMatchSP_def getGvgAndSpId_def isAllowGCCheck_def wrong_place_def owner_of_def PrimarySPRedundancyIndex_def Let_def check_swap_def no_swap_here_def
        split: sum.splits option.splits prod.splits if_splits)
qed

text \<open>
  What the services answer on an object: the metadata service knows it, or says that it does not and the chain knows it; or
  both say that there is no such object.
\<close>

definition answered :: "'s genv \<Rightarrow> int \<Rightarrow> ObjectInfo \<Rightarrow> bool" where
  "answered env oid ob \<longleftrightarrow> xvObject (gvX env) oid = Inr ob
     \<or> (\<exists>e. xvObject (gvX env) oid = Inl e \<and> str_contains (xvMsg (gvX env) e) ''no such object from metadata'' \<and> gvChain env oid = Inr ob)"

definition unknown :: "'s genv \<Rightarrow> int \<Rightarrow> bool" where
  "unknown env oid \<longleftrightarrow> (\<exists>e e'. xvObject (gvX env) oid = Inl e \<and> str_contains (xvMsg (gvX env) e) ''no such object from metadata''
     \<and> gvChain env oid = Inl e' \<and> str_contains (xvMsg (gvX env) e') ''No such object'')"

text \<open>
  What a pass may delete: the pieces of a record of the task's range, at the version the service gave, when they are in the wrong
  place (the loop takes one number more than there are hashes); and the piece of a row of hashes of the range, when it is in the
  wrong place and its object is not being updated, or when nobody knows its object.
\<close>

definition may_delete_record :: "'s genv \<Rightarrow> GfSpGCZombiePieceTask \<Rightarrow> 's ExecuteModular \<Rightarrow> string \<Rightarrow> bool" where
  "may_delete_record env gz st key \<longleftrightarrow> (\<exists>q \<in> set (integrity_metas (xDB st)). \<exists>ob self seg. key = gc_key (imtObjectID q) (oVersion ob) (int seg) (imtRedundancyIndex q)
     \<and> i64 (gz_StartObjectId gz) \<le> imtObjectID q \<and> imtObjectID q < i64 (gz_EndObjectId gz) \<and> seg \<le> length (SplitByComma (imtPieceChecksumList q))
     \<and> answered env (imtObjectID q) ob \<and> own_id (gvX env) st = Inr self \<and> wrong_place env ob (imtRedundancyIndex q) self)"

definition may_delete_hash :: "'s genv \<Rightarrow> GfSpGCZombiePieceTask \<Rightarrow> 's ExecuteModular \<Rightarrow> string \<Rightarrow> bool" where
  "may_delete_hash env gz st key \<longleftrightarrow> (\<exists>q \<in> set (piece_hashes (xDB st)). key = gc_key (phtObjectID q) (phtVersion q) (phtSegmentIndex q) (phtRedundancyIndex q)
     \<and> i64 (gz_StartObjectId gz) \<le> phtObjectID q \<and> phtObjectID q \<le> i64 (gz_EndObjectId gz)
     \<and> (unknown env (phtObjectID q)
        \<or> (\<exists>ob self. answered env (phtObjectID q) ob \<and> \<not> oIsUpdating ob \<and> own_id (gvX env) st = Inr self \<and> wrong_place env ob (phtRedundancyIndex q) self)))"

text \<open>A store whose deletion touches one key only.\<close>

definition deletes_one :: "'s xenv \<Rightarrow> bool" where
  "deletes_one x \<longleftrightarrow> (\<forall>s k s' k'. xvDel x s k = Inr s' \<and> k' \<noteq> k \<longrightarrow> xvGet x s' k' 0 (-1) = xvGet x s k' 0 (-1))"

text \<open>From one state to the other only pieces with certain keys differ, and the provider's number is the same.\<close>

definition deletes_within :: "'s xenv \<Rightarrow> (string \<Rightarrow> bool) \<Rightarrow> 's ExecuteModular \<Rightarrow> 's ExecuteModular \<Rightarrow> bool" where
  "deletes_within x P st st' \<longleftrightarrow> own_id x st' = own_id x st \<and> (\<forall>k. \<not> P k \<longrightarrow> xvGet x (xStore st') k 0 (-1) = xvGet x (xStore st) k 0 (-1))"

lemma within_refl [simp]: "deletes_within x P st st"
  by (simp add: deletes_within_def)

lemma within_trans: "deletes_within x P st st1 \<Longrightarrow> deletes_within x P st1 st2 \<Longrightarrow> deletes_within x P st st2"
  by (simp add: deletes_within_def)

lemma within_fields [simp]:
  "deletes_within x P st (st'\<lparr>xDB := db\<rparr>) \<longleftrightarrow> deletes_within x P st st'" "deletes_within x P st (st'\<lparr>xReports := r\<rparr>) \<longleftrightarrow> deletes_within x P st st'"
  by (simp_all add: deletes_within_def own_id_def)

lemma within_check: "checkGVGMatchSP env ob idx st = (c, st') \<Longrightarrow> deletes_within (gvX env) P st st'"
  by (drule check_state) (auto simp: deletes_within_def)

lemma deletes_oneD: "deletes_one x \<Longrightarrow> xvDel x s k = Inr s' \<Longrightarrow> k' \<noteq> k \<Longrightarrow> xvGet x s' k' 0 (-1) = xvGet x s k' 0 (-1)"
  unfolding deletes_one_def by blast

lemma within_delete:
  assumes "deletes_one x" "P key" shows "deletes_within x P st (x_delete x key st)"
proof -
  have "xvGet x (xStore (x_delete x key st)) k 0 (-1) = xvGet x (xStore st) k 0 (-1)" if "\<not> P k" for k
  proof -
    have "k \<noteq> key" using assms(2) that by auto
    then show ?thesis using assms(1) by (auto simp: x_delete_def DeletePiece_def dest: deletes_oneD split: sum.splits)
  qed
  moreover have "own_id x (x_delete x key st) = own_id x st" by (auto simp: x_delete_def own_id_def split: sum.splits)
  ultimately show ?thesis by (simp add: deletes_within_def)
qed

lemma within_fold: "(\<And>i st. i \<in> set xs \<Longrightarrow> deletes_within x P st (f i st)) \<Longrightarrow> deletes_within x P st (fold f xs st)"
  by (induction xs arbitrary: st) (auto intro: within_trans)

lemma within_pieces:
  assumes "deletes_one (gvX env)" "\<And>i. i \<le> length (imPieceChecksumList meta) \<Longrightarrow> P (gc_key (imObjectID meta) version (int i) (imRedundancyIndex meta))"
  shows "deletes_within (gvX env) P st (deleteObjectPiecesAndIntegrityMeta env turn meta version st)"
  unfolding deleteObjectPiecesAndIntegrityMeta_def Let_def
  by (auto simp: deletePiece_def simp del: upt_Suc intro!: within_fold within_delete assms)

lemma within_hash:
  assumes "deletes_one (gvX env)" "P (gc_key (phtObjectID piece) (phtVersion piece) (phtSegmentIndex piece) (phtRedundancyIndex piece))"
  shows "deletes_within (gvX env) P st (deletePieceAndPieceChecksum env turn piece st)"
  by (simp add: deletePieceAndPieceChecksum_def Let_def deletePiece_def within_delete assms)

text \<open>A deletion after the check stays within what the check allows.\<close>

lemma within_if_misplaced:
  assumes "gc_if_misplaced env ob idx del st = Some st'"
    and "\<And>self st1. own_id (gvX env) st = Inr self \<Longrightarrow> wrong_place env ob idx self \<Longrightarrow> deletes_within (gvX env) P st1 (del st1)"
  shows "deletes_within (gvX env) P st st'"
proof -
  obtain c st1 where c: "checkGVGMatchSP env ob idx st = (c, st1)" by force
  have w: "deletes_within (gvX env) P st st1" using within_check [OF c] .
  show ?thesis
  proof (cases "c = Misplaced")
    case True
    then obtain self where "own_id (gvX env) st = Inr self" "wrong_place env ob idx self" using check_Misplaced c by blast
    then have "deletes_within (gvX env) P st1 (del st1)" by (rule assms(2))
    with True w c assms(1) show ?thesis by (auto simp: gc_if_misplaced_def intro: within_trans)
  next
    case False
    with w c assms(1) show ?thesis by (cases c) (auto simp: gc_if_misplaced_def)
  qed
qed

lemma own_within: "deletes_within x P st st' \<Longrightarrow> own_id x st' = own_id x st"
  by (simp add: deletes_within_def)

lemma within_metas:
  assumes "deletes_one (gvX env)"
    and "\<And>meta ob self i. meta \<in> set metas \<Longrightarrow> answered env (imObjectID meta) ob \<Longrightarrow> own = Inr self \<Longrightarrow> wrong_place env ob (imRedundancyIndex meta) self
      \<Longrightarrow> i \<le> length (imPieceChecksumList meta) \<Longrightarrow> P (gc_key (imObjectID meta) (oVersion ob) (int i) (imRedundancyIndex meta))"
  shows "gc_metas env turn metas st = Some st' \<Longrightarrow> own_id (gvX env) st = own \<Longrightarrow> deletes_within (gvX env) P st st'"
  using assms(2)
proof (induction metas arbitrary: turn st)
  case (Cons meta metas)
  let ?next = "\<lambda>ob. gc_if_misplaced env ob (imRedundancyIndex meta) (deleteObjectPiecesAndIntegrityMeta env turn meta (oVersion ob)) st"
  have del: "deletes_within (gvX env) P st st1" if "?next ob = Some st1" "answered env (imObjectID meta) ob" for ob st1
    using Cons.prems(2,3) that(2) by (intro within_if_misplaced [OF that(1)] within_pieces assms(1)) auto
  have "\<exists>st1. deletes_within (gvX env) P st st1 \<and> gc_metas env (Suc turn) metas st1 = Some st'"
    using Cons.prems(1) by (auto simp: Let_def answered_def intro: within_refl split: sum.splits option.splits if_splits dest: del)
  then obtain st1 where st1: "deletes_within (gvX env) P st st1" "gc_metas env (Suc turn) metas st1 = Some st'" by blast
  moreover have "own_id (gvX env) st1 = own" using own_within [OF st1(1)] Cons.prems(2) by simp
  ultimately show ?case using Cons.IH Cons.prems(3) by (metis list.set_intros(2) within_trans)
qed simp

lemma within_hashes:
  assumes "deletes_one (gvX env)"
    and "\<And>q ob self. q \<in> set pieces \<Longrightarrow> unknown env (phtObjectID q)
        \<or> (\<exists>ob self. answered env (phtObjectID q) ob \<and> \<not> oIsUpdating ob \<and> own = Inr self \<and> wrong_place env ob (phtRedundancyIndex q) self)
      \<Longrightarrow> P (gc_key (phtObjectID q) (phtVersion q) (phtSegmentIndex q) (phtRedundancyIndex q))"
  shows "gc_hashes env turn pieces st = Some st' \<Longrightarrow> own_id (gvX env) st = own \<Longrightarrow> deletes_within (gvX env) P st st'"
  using assms(2)
proof (induction pieces arbitrary: turn st)
  case (Cons piece pieces)
  let ?del = "deletePieceAndPieceChecksum env turn piece"
  have P: "P (gc_key (phtObjectID piece) (phtVersion piece) (phtSegmentIndex piece) (phtRedundancyIndex piece))" if "unknown env (phtObjectID piece)
      \<or> (\<exists>ob self. answered env (phtObjectID piece) ob \<and> \<not> oIsUpdating ob \<and> own = Inr self \<and> wrong_place env ob (phtRedundancyIndex piece) self)"
    using Cons.prems(3) [OF _ that] by simp
  have del: "deletes_within (gvX env) P st st1"
    if "gc_if_misplaced env ob (phtRedundancyIndex piece) ?del st = Some st1" "answered env (phtObjectID piece) ob" "\<not> oIsUpdating ob" for ob st1
    using Cons.prems(2) that(2,3) P by (intro within_if_misplaced [OF that(1)] within_hash assms(1)) auto
  have gone: "deletes_within (gvX env) P st (?del st)" if "unknown env (phtObjectID piece)"
    using that P by (intro within_hash assms(1)) auto
  have "deletes_within (gvX env) P st st' \<or> (\<exists>st1. deletes_within (gvX env) P st st1 \<and> gc_hashes env (Suc turn) pieces st1 = Some st')"
    using Cons.prems(1) del gone by (auto simp: Let_def answered_def unknown_def intro: within_refl split: sum.splits option.splits if_splits bool.splits)
  then show ?case
  proof
    assume "\<exists>st1. deletes_within (gvX env) P st st1 \<and> gc_hashes env (Suc turn) pieces st1 = Some st'"
    then obtain st1 where st1: "deletes_within (gvX env) P st st1" "gc_hashes env (Suc turn) pieces st1 = Some st'" by blast
    moreover have "own_id (gvX env) st1 = own" using own_within [OF st1(1)] Cons.prems(2) by simp
    ultimately show ?case using Cons.IH Cons.prems(3) by (metis list.set_intros(2) within_trans)
  qed
qed simp

text \<open>The rows the passes walk through are rows of the tables, within the range.\<close>

lemma shards_rows: "set (list_shards fails db a b rows is) \<subseteq> set rows \<union> {q \<in> set (integrity_metas db). a \<le> imtObjectID q \<and> imtObjectID q < b}"
proof (induction "is" arbitrary: rows)
  case (Cons i "is")
  have "set (shard_metas db a b (int i)) \<subseteq> {q \<in> set (integrity_metas db). a \<le> imtObjectID q \<and> imtObjectID q < b}"
    by (auto simp: shard_metas_def dest!: in_set_takeD)
  with Cons.IH [of rows] Cons.IH [of "shard_metas db a b (int i)"] show ?case by (auto simp: Let_def)
qed simp

lemma listed_rows:
  assumes "ListIntegrityMetaByObjectIDRange fails db a b p = (metas, e)" "meta \<in> set metas"
  shows "\<exists>q \<in> set (integrity_metas db). a \<le> imtObjectID q \<and> imtObjectID q < b \<and> meta = list_meta q"
proof -
  obtain q where q: "meta = list_meta q" "q \<in> set (take 1000 (list_shards fails db a b [] [0..<64]))"
    using assms unfolding ListIntegrityMetaByObjectIDRange_def Let_def by (auto simp del: upt_Suc split: if_splits)
  then have "q \<in> set (list_shards fails db a b [] [0..<64])" by (meson in_set_takeD)
  then show ?thesis using shards_rows [of fails db a b "[]" "[0..<64]"] q(1) by auto
qed

lemma listed_hashes:
  assumes "ListReplicatePieceChecksumByObjectIDRange fails db a b = Inr pieces" "q \<in> set pieces"
  shows "q \<in> set (piece_hashes db)" "a \<le> phtObjectID q" "phtObjectID q \<le> b"
  using assms by (auto simp: ListReplicatePieceChecksumByObjectIDRange_def split: if_splits dest!: in_set_takeD)

text \<open>The pass over the records leaves the rows of hashes.\<close>

lemma delete_keeps_db [simp]: "xDB (x_delete x k st) = xDB st"
  by (auto simp: x_delete_def split: sum.splits)

lemma fold_keeps: "(\<And>i st. g (f i st) = g st) \<Longrightarrow> g (fold f xs st) = g st"
  by (induction xs arbitrary: st) simp_all

lemma meta_keeps_hashes: "piece_hashes (xDB (deleteObjectPiecesAndIntegrityMeta env turn meta version st)) = piece_hashes (xDB st)"
  unfolding deleteObjectPiecesAndIntegrityMeta_def Let_def
  by (simp add: DeleteObjectIntegrity_def Let_def fold_keeps [where g = "xDB"] deletePiece_def del: upt_Suc)

lemma metas_keep_hashes: "gc_metas env turn metas st = Some st' \<Longrightarrow> piece_hashes (xDB st') = piece_hashes (xDB st)"
proof (induction metas arbitrary: turn st)
  case (Cons meta metas)
  have k: "piece_hashes (xDB st1) = piece_hashes (xDB st)"
    if "gc_if_misplaced env ob (imRedundancyIndex meta) (deleteObjectPiecesAndIntegrityMeta env turn meta v) st = Some st1" for ob v st1
    using that check_state by (fastforce simp: gc_if_misplaced_def meta_keeps_hashes split: prod.splits gvg_check.splits)
  then have "\<exists>st1. piece_hashes (xDB st1) = piece_hashes (xDB st) \<and> gc_metas env (Suc turn) metas st1 = Some st'"
    using Cons.prems by (auto simp: Let_def split: sum.splits option.splits if_splits)
  with Cons.IH show ?case by metis
qed simp

text \<open>The two passes of the handler.\<close>

lemma within_record_pass:
  assumes "gcZombiePieceFromIntegrityMeta env gz st = Some (err, st1)" "deletes_one (gvX env)"
  shows "deletes_within (gvX env) (may_delete_record env gz st) st st1" "piece_hashes (xDB st1) = piece_hashes (xDB st)"
proof -
  obtain metas e where l: "ListIntegrityMetaByObjectIDRange (xvDb (gvX env) 2 0) (xDB st) (i64 (gz_StartObjectId gz)) (i64 (gz_EndObjectId gz)) True = (metas, e)" by force
  have P: "may_delete_record env gz st (gc_key (imObjectID meta) (oVersion ob) (int i) (imRedundancyIndex meta))"
    if "meta \<in> set metas" "answered env (imObjectID meta) ob" "own_id (gvX env) st = Inr self" "wrong_place env ob (imRedundancyIndex meta) self"
      "i \<le> length (imPieceChecksumList meta)" for meta ob self i
    using listed_rows [OF l that(1)] that(2-5) unfolding may_delete_record_def by (fastforce simp: list_meta_def)
  have g: "(e \<noteq> None \<and> st1 = st) \<or> gc_metas env 0 metas st = Some st1"
    using assms(1) l by (auto simp: gcZombiePieceFromIntegrityMeta_def split: option.splits)
  show "deletes_within (gvX env) (may_delete_record env gz st) st st1"
  proof (cases "gc_metas env 0 metas st = Some st1")
    case True
    show ?thesis by (rule within_metas [where own = "own_id (gvX env) st", OF assms(2) _ True]) (auto intro: P)
  qed (use g in simp)
  show "piece_hashes (xDB st1) = piece_hashes (xDB st)" using g metas_keep_hashes by metis
qed

lemma within_hash_pass:
  assumes "gcZombiePieceFromPieceHash env gz st = Some (err, st1)" "deletes_one (gvX env)"
  shows "deletes_within (gvX env) (may_delete_hash env gz st) st st1"
proof (cases "ListReplicatePieceChecksumByObjectIDRange (xvDb (gvX env) 3 0) (xDB st) (i64 (gz_StartObjectId gz)) (i64 (gz_EndObjectId gz))")
  case (Inl e)
  with assms(1) show ?thesis by (simp add: gcZombiePieceFromPieceHash_def)
next
  case (Inr pieces)
  then have "gc_hashes env 0 pieces st = Some st1" using assms(1) by (auto simp: gcZombiePieceFromPieceHash_def)
  moreover have "may_delete_hash env gz st (gc_key (phtObjectID q) (phtVersion q) (phtSegmentIndex q) (phtRedundancyIndex q))"
    if "q \<in> set pieces" "unknown env (phtObjectID q)
      \<or> (\<exists>ob self. answered env (phtObjectID q) ob \<and> \<not> oIsUpdating ob \<and> own_id (gvX env) st = Inr self \<and> wrong_place env ob (phtRedundancyIndex q) self)" for q
    unfolding may_delete_hash_def using listed_hashes [OF Inr that(1)] that(2) by blast
  ultimately show ?thesis by (intro within_hashes [where own = "own_id (gvX env) st", OF assms(2)]) auto
qed

lemma within_mono: "deletes_within x P st st' \<Longrightarrow> (\<And>k. P k \<Longrightarrow> Q k) \<Longrightarrow> deletes_within x Q st st'"
  unfolding deletes_within_def by blast

text \<open>
  C16: A pass over misplaced pieces deletes only pieces the provider should not hold. Those of a record of the task's range, when the
  service that knows the object says that it is sealed and its bucket not migrating, its group has another provider in that
  place, and the chain answered that no swap brings this provider there (a failed query of the swap deletes nothing). The
  piece of a row of hashes of the range under the same conditions when the object is not being updated; or when the
  metadata service and the chain both answer that there is no such object.
\<close>

theorem gc_deletes_only_misplaced:
  assumes "exe_HandleGCZombiePieceTask env gz st = Some (gz', st')" "deletes_one (gvX env)"
    and "xvGet (gvX env) (xStore st') key 0 (-1) \<noteq> xvGet (gvX env) (xStore st) key 0 (-1)"
  shows "may_delete_record env gz st key \<or> may_delete_hash env gz st key"
proof -
  let ?P = "\<lambda>key. may_delete_record env gz st key \<or> may_delete_hash env gz st key"
  from assms(1) obtain err st1 where st1: "gcZombiePieceFromIntegrityMeta env gz st = Some (err, st1)"
    by (auto simp: exe_HandleGCZombiePieceTask_def split: option.splits)
  note w1 = within_record_pass [OF st1 assms(2)]
  have m: "may_delete_hash env gz st1 = may_delete_hash env gz st"
    using w1(2) own_within [OF w1(1)] by (simp add: may_delete_hash_def fun_eq_iff)
  have "\<exists>st2. xStore st' = xStore st2 \<and> deletes_within (gvX env) ?P st st2"
  proof (cases err)
    case None
    with assms(1) st1 obtain e st2 where st2: "gcZombiePieceFromPieceHash env gz st1 = Some (e, st2)" "xStore st' = xStore st2"
      by (auto simp: exe_HandleGCZombiePieceTask_def exe_ReportTask_def Let_def split: option.splits)
    have "deletes_within (gvX env) ?P st st1" "deletes_within (gvX env) ?P st1 st2"
      using within_mono [OF w1(1), of ?P] within_mono [OF within_hash_pass [OF st2(1) assms(2), unfolded m], of ?P] by blast+
    then show ?thesis using st2(2) within_trans by blast
  next
    case (Some e)
    then have "xStore st' = xStore st1" using assms(1) st1 by (auto simp: exe_HandleGCZombiePieceTask_def exe_ReportTask_def Let_def)
    then show ?thesis using within_mono [OF w1(1), of ?P] by blast
  qed
  then show ?thesis using assms(3) by (auto simp: deletes_within_def)
qed

text \<open>
  A provider numbered 2, a bucket whose one group has 3 and 4 as secondary providers, and a piece of a sealed object of that bucket
  at the provider.
\<close>

definition sample_gc_bucket :: BucketInfo where
  "sample_gc_bucket = \<lparr>bBucketName = ''b'', bId = 1, bOwner = [], bChargedReadQuota = 0, bGlobalVirtualGroupFamilyId = 1\<rparr>"

definition sample_gc_group :: "int \<Rightarrow> GlobalVirtualGroup" where
  "sample_gc_group n = \<lparr>cgId = n, cgFamilyId = 1, cgPrimarySpId = 1, cgSecondarySpIds = [3, 4], cgStoredSize = 0, cgTotalDeposit = 0\<rparr>"

definition sample_gc_object :: "int \<Rightarrow> ObjectInfo" where
  "sample_gc_object n = sample_recv_object\<lparr>oId := n, oObjectStatus := OBJECT_STATUS_SEALED\<rparr>"

definition sample_genv :: "(string \<times> int list) list genv" where
  "sample_genv = \<lparr>gvX = sample_xenv\<lparr>xvObject := \<lambda>n. Inr (sample_gc_object n)\<rparr>, gvReport = \<lambda>_. Answered None,
     gvBucketInfo = \<lambda>_. Inr (Some (sample_gc_bucket, False)), gvGroup = \<lambda>_ _. Inr (Some (sample_gc_group 1)),
     gvSwapFamily = \<lambda>_. Inr (9, 9), gvSwapGroup = \<lambda>_. Inr (9, 9), gvParams = \<lambda>_. Inr (rc_StorageParams (sample_recv 2 0 [])),
     gvDeleted = \<lambda>_ _. Inr ([(5, sample_gc_object 7)], 9), gvChain = \<lambda>n. Inr (sample_gc_object n), gvGroups = \<lambda>_. Inr [sample_gc_group 1, sample_gc_group 2],
     gvBucketById = \<lambda>_. Inr (Some sample_gc_bucket), gvObjects = \<lambda>g _ a. Inr (filter (\<lambda>ob. a < oId ob) [sample_gc_object (10 - g)]),
     gvNow = 0, gvYearMonth = \<lambda>_. []\<rparr>"

lemmas sample_gc_defs = sample_genv_def sample_gc_bucket_def sample_gc_group_def sample_gc_object_def sample_xenv_def sample_exe_def sample_recv_defs

definition sample_gc_state :: "(string \<times> int list) list ExecuteModular" where
  "sample_gc_state = sample_exe\<lparr>xStore := [(gc_key 7 0 0 0, [1])],
     xDB := \<lparr>integrity_metas = [], shadow_metas = [], piece_hashes = [\<lparr>phtObjectID = 7, phtSegmentIndex = 0, phtRedundancyIndex = 0, phtPieceChecksum = [], phtVersion = 0\<rparr>], upload_progress = []\<rparr>\<rparr>"

definition sample_zombie :: GfSpGCZombiePieceTask where
  "sample_zombie = \<lparr>gz_Task = zero_task, gz_Running = False, gz_StartObjectId = 1, gz_EndObjectId = 9, gz_Finished = False\<rparr>"

lemma map_of_others: "k' \<noteq> k \<Longrightarrow> map_of (filter (\<lambda>e. fst e \<noteq> k) s) k' = map_of s k'"
  by (induction s) auto

lemma sample_deletes_one [simp]: "deletes_one (gvX sample_genv)"
  by (auto simp: deletes_one_def sample_genv_def sample_xenv_def map_of_others split: option.splits)

lemma sample_zombie_run: "map_option (xStore \<circ> snd) (exe_HandleGCZombiePieceTask sample_genv sample_zombie sample_gc_state) = Some []"
  by code_simp

theorem gc_deletes_only_misplaced_witness: "may_delete_hash sample_genv sample_zombie sample_gc_state (gc_key 7 0 0 0)"
proof -
  obtain r st' where run: "exe_HandleGCZombiePieceTask sample_genv sample_zombie sample_gc_state = Some (r, st')" "xStore st' = []" using sample_zombie_run by auto
  have "xvGet (gvX sample_genv) (xStore st') (gc_key 7 0 0 0) 0 (-1) \<noteq> xvGet (gvX sample_genv) (xStore sample_gc_state) (gc_key 7 0 0 0) 0 (-1)"
    using run(2) by (simp add: sample_genv_def sample_xenv_def sample_gc_state_def)
  from gc_deletes_only_misplaced [OF run(1) sample_deletes_one this] show ?thesis
    by (simp add: may_delete_record_def sample_gc_state_def)
qed

subsection \<open>A cancelled task\<close>

lemma report_not_canceled [simp]: "reportProgress env (GCObject go) st = (False, st\<lparr>xReports := xReports st @ [GCObject go]\<rparr>)"
  by (auto simp: reportProgress_def exe_ReportTask_def client_ReportTask_def errors_Is_def split: rpc_answer.splits)

lemma prefix_same [simp]: "x_delete_prefix (env\<lparr>gvReport := f\<rparr>) = x_delete_prefix env"
  by (simp add: fun_eq_iff x_delete_prefix_def)

lemma secondary_same [simp]: "gc_secondary (env\<lparr>gvReport := f\<rparr>) = gc_secondary env" "gc_object_end (env\<lparr>gvReport := f\<rparr>) = gc_object_end env"
  by (simp_all add: fun_eq_iff gc_secondary_def gc_object_end_def Let_def)

lemma gc_objects_same: "gc_objects (env\<lparr>gvReport := f\<rparr>) self objs go st = gc_objects env self objs go st"
  by (induction objs arbitrary: go st) (auto simp: Let_def split: sum.splits option.splits prod.splits)

text \<open>
  What the manager answers to the reports makes no difference to the collection of deleted objects.  In particular a task that
  the manager has cancelled goes on: the answer is decoded into a new error, which is never the predefined one it is compared
  with.
\<close>

theorem canceled_gc_goes_on:
  "exe_HandleGCObjectTask (env\<lparr>gvReport := (\<lambda>_. Answered (Some canceled))\<rparr>) go st = exe_HandleGCObjectTask (env\<lparr>gvReport := (\<lambda>_. Answered None)\<rparr>) go st"
  by (auto simp: exe_HandleGCObjectTask_def gc_objects_same split: sum.splits prod.splits)


subsection \<open>A bucket that moved away\<close>

lemma primary_no_panic: "fst (checkGVGMatchSP env ob PrimarySPRedundancyIndex st) \<noteq> CheckPanic"
  by (auto simp: checkGVGMatchSP_def check_swap_def split: sum.splits option.splits prod.splits)

lemma segments_no_panic:
  assumes "\<forall>ob p. gvParams env ob = Inr p \<longrightarrow> MaxSegmentSize p \<noteq> 0"
  shows "fst (deleteObjectSegmentsAndIntegrity env turn ob st) \<noteq> Panic"
  using assms by (auto simp: deleteObjectSegmentsAndIntegrity_def SegmentPieceCount_def Let_def split: sum.splits option.splits if_splits)

text \<open>A walk that ends in order: with the end of the list, or with an error.\<close>

fun walk_ends :: "'a gc_walk \<Rightarrow> bool" where
  "walk_ends (GcGo _) = True" | "walk_ends (GcStop _ _) = True" | "walk_ends GcPanic = False" | "walk_ends GcFuel = False"

lemma object_ends:
  assumes "\<forall>ob p. gvParams env ob = Inr p \<longrightarrow> MaxSegmentSize p \<noteq> 0"
  shows "walk_ends (gc_bucket_object env n last_one gvg ob b)"
proof -
  define k where "k = nat (u64 (bgNum b + 1))"
  obtain c st where c: "checkGVGMatchSP env ob PrimarySPRedundancyIndex (bgState b) = (c, st)" "c \<noteq> CheckPanic" using primary_no_panic by (metis prod.collapse)
  have "fst (if c = Misplaced then deleteObjectSegmentsAndIntegrity env k ob st else (Ok (), st)) \<noteq> Panic" using segments_no_panic [OF assms] by simp
  then obtain r st1 where r: "(if c = Misplaced then deleteObjectSegmentsAndIntegrity env k ob st else (Ok (), st)) = (r, st1)" "r \<noteq> Panic" by (metis prod.collapse)
  have "walk_ends (case r of Panic \<Rightarrow> GcPanic | _ \<Rightarrow> w)" if "walk_ends w" for w :: "'a bucket_gc gc_walk" using r(2) that by (cases r) auto
  with c r show ?thesis by (cases c; cases r) (auto simp: gc_bucket_object_def Let_def k_def [symmetric] split: prod.splits option.splits)
qed

lemma object_after: "gc_bucket_object env n last_one gvg ob b = GcGo b' \<Longrightarrow> bgAfter b' = oId ob"
  by (auto simp: gc_bucket_object_def Let_def split: prod.splits gvg_check.splits outcome.splits option.splits if_splits)

lemma page_ends:
  assumes "\<forall>ob p. gvParams env ob = Inr p \<longrightarrow> MaxSegmentSize p \<noteq> 0"
  shows "walk_ends (gc_bucket_page env n gvg obs b)"
proof (induction obs arbitrary: b)
  case (Cons ob obs)
  then show ?case using object_ends [OF assms, of n "obs = []" gvg ob b] by (auto split: gc_walk.splits)
qed simp

lemma page_after: "gc_bucket_page env n gvg obs b = GcGo b' \<Longrightarrow> obs \<noteq> [] \<Longrightarrow> bgAfter b' = oId (last obs)"
proof (induction obs arbitrary: b)
  case (Cons ob obs)
  then show ?case by (cases "obs = []") (auto split: gc_walk.splits dest: object_after)
qed simp

text \<open>Every full page moves past at least one object.\<close>

lemma group_ends:
  assumes params: "\<forall>ob p. gvParams env ob = Inr p \<longrightarrow> MaxSegmentSize p \<noteq> 0"
    and listed: "\<forall>a. gvObjects env (cgId gvg) bucketID a = Inr (take gc_bucket_limit (filter (\<lambda>ob. a < oId ob) objs))"
  shows "length (filter (\<lambda>ob. bgAfter b < oId ob) objs) < fuel \<Longrightarrow> walk_ends (gc_bucket_group fuel env bucketID n gvg b)"
proof (induction fuel arbitrary: b)
  case (Suc fuel)
  define obs where "obs = take gc_bucket_limit (filter (\<lambda>ob. bgAfter b < oId ob) objs)"
  have obs: "gvObjects env (cgId gvg) bucketID (bgAfter b) = Inr obs" using listed by (simp add: obs_def)
  have go_on: "walk_ends (gc_bucket_group fuel env bucketID n gvg b1)" if b1: "gc_bucket_page env n gvg obs b = GcGo b1" and full: "\<not> length obs < gc_bucket_limit" for b1
  proof -
    from full have "obs \<noteq> []" by (auto simp: gc_bucket_limit_def)
    then have after: "bgAfter b1 = oId (last obs)" by (rule page_after [OF b1])
    have "last obs \<in> set (filter (\<lambda>ob. bgAfter b < oId ob) objs)" using last_in_set [OF \<open>obs \<noteq> []\<close>] unfolding obs_def by (meson in_set_takeD)
    then have l: "last obs \<in> set objs" "bgAfter b < oId (last obs)" by auto
    have "filter (\<lambda>ob. bgAfter b1 < oId ob) objs = filter (\<lambda>ob. bgAfter b1 < oId ob) (filter (\<lambda>ob. bgAfter b < oId ob) objs)"
      using l(2) after by (auto intro: filter_cong)
    also have "length \<dots> < length (filter (\<lambda>ob. bgAfter b < oId ob) objs)"
      using l after by (intro length_filter_less [of "last obs"]) auto
    finally show ?thesis using Suc.IH Suc.prems by simp
  qed
  show ?case using page_ends [OF params, of n gvg obs b] obs go_on by (auto split: gc_walk.splits)
qed simp

lemma groups_ends:
  assumes "\<forall>ob p. gvParams env ob = Inr p \<longrightarrow> MaxSegmentSize p \<noteq> 0"
    and "\<forall>g a. gvObjects env g bucketID a = Inr (take gc_bucket_limit (filter (\<lambda>ob. a < oId ob) (objs g)))" "\<forall>g. length (objs g) < fuel"
  shows "walk_ends (gc_bucket_groups fuel env bucketID n family groups b)"
proof (induction groups arbitrary: b)
  case (Cons g groups)
  have "length (filter (\<lambda>ob. bgAfter b < oId ob) (objs (cgId g))) < fuel" using assms(3) by (meson length_filter_le le_less_trans)
  then have "walk_ends (gc_bucket_group fuel env bucketID n g b)" using assms(2) by (intro group_ends [OF assms(1)]) auto
  with Cons show ?case by (auto split: gc_walk.splits)
qed simp

text \<open>
  C26: The collection of a bucket that moved away comes to an end, without a panic: when the metadata service lists, after the last object
  it was asked about, at most a hundred of finitely many objects, as many rounds as a group has objects and one more are enough.
\<close>

theorem bucket_gc_ends:
  assumes "\<forall>ob p. gvParams env ob = Inr p \<longrightarrow> MaxSegmentSize p \<noteq> 0"
    and "\<forall>g a. gvObjects env g (gb_BucketId gb) a = Inr (take gc_bucket_limit (filter (\<lambda>ob. a < oId ob) (objs g)))" "\<forall>g. length (objs g) < fuel"
  shows "\<exists>gb' st'. HandleGCBucketMigrationBucket fuel env gb st = Some (gb', st')"
proof -
  have "walk_ends (gc_bucket_groups fuel env (gb_BucketId gb) n family groups b)" for n family groups and b :: "'a bucket_gc"
    by (rule groups_ends [OF assms])
  then have "HandleGCBucketMigrationBucket fuel env gb st \<noteq> None"
    by (auto simp: HandleGCBucketMigrationBucket_def Let_def split: sum.splits option.splits gc_walk.splits) (metis walk_ends.simps(3,4))+
  then show ?thesis by auto
qed


definition sample_bucket_gc :: GfSpGCBucketMigrationTask where
  "sample_bucket_gc = \<lparr>gb_Task = zero_task, gb_BucketId = 1, gb_LastGcObjectId = 0, gb_LastGcGvgId = 0, gb_Finished = False, gb_TotalGvgNum = 0, gb_GcFinishedGvgNum = 0\<rparr>"

theorem bucket_gc_ends_witness: "\<exists>gb' st'. HandleGCBucketMigrationBucket 2 sample_genv sample_bucket_gc sample_exe = Some (gb', st')"
proof -
  have "\<forall>ob p. gvParams sample_genv ob = Inr p \<longrightarrow> MaxSegmentSize p \<noteq> 0" by (simp add: sample_genv_def sample_recv_def)
  moreover have "\<forall>g a. gvObjects sample_genv g (gb_BucketId sample_bucket_gc) a = Inr (take gc_bucket_limit (filter (\<lambda>ob. a < oId ob) [sample_gc_object (10 - g)]))"
    by (simp add: sample_genv_def gc_bucket_limit_def)
  ultimately show ?thesis by (rule bucket_gc_ends) simp
qed

lemma swap_same [simp]: "check_swap (env\<lparr>gvObjects := f\<rparr>) = check_swap env"
  by (auto simp: fun_eq_iff check_swap_def split: sum.splits)

lemma checks_same [simp]:
  "checkGVGMatchSP (env\<lparr>gvObjects := f\<rparr>) ob idx st = checkGVGMatchSP env ob idx st"
  "deleteObjectSegmentsAndIntegrity (env\<lparr>gvObjects := f\<rparr>) turn ob st = deleteObjectSegmentsAndIntegrity env turn ob st"
  "exe_ReportTask (env\<lparr>gvObjects := f\<rparr>) t st = exe_ReportTask env t st" "reportProgress (env\<lparr>gvObjects := f\<rparr>) t st = reportProgress env t st"
  by (auto simp: checkGVGMatchSP_def getGvgAndSpId_def deleteObjectSegmentsAndIntegrity_def exe_ReportTask_def reportProgress_def Let_def
      split: sum.splits option.splits prod.splits)

lemma page_same [simp]: "gc_bucket_page (env\<lparr>gvObjects := f\<rparr>) n gvg obs b = gc_bucket_page env n gvg obs b"
proof (induction obs arbitrary: b)
  case (Cons ob obs)
  have "gc_bucket_object (env\<lparr>gvObjects := f\<rparr>) n l gvg ob b = gc_bucket_object env n l gvg ob b" for l
    unfolding gc_bucket_object_def checks_same ..
  with Cons show ?case by (simp cong: gc_walk.case_cong)
qed simp

text \<open>
  C40: The number of the last object is not reset between the groups of a bucket: when the objects of the second group were created before the
  last object of the first, the collection does what it would do if the second group had no objects, and counts the group as finished.
\<close>

theorem bucket_gc_skips_objects:
  assumes "gvGroups env (gb_BucketId gb) = Inr [g1, g2]" "cgId g1 \<noteq> cgId g2"
    and "gvObjects env (cgId g1) (gb_BucketId gb) 0 = Inr objs1" "objs1 \<noteq> []" "length objs1 < gc_bucket_limit"
    and "\<forall>a. gvObjects env (cgId g2) (gb_BucketId gb) a = Inr (filter (\<lambda>ob. a < oId ob) objs2)" "\<forall>ob \<in> set objs2. oId ob \<le> oId (last objs1)"
  shows "HandleGCBucketMigrationBucket (Suc fuel) env gb st =
     HandleGCBucketMigrationBucket (Suc fuel) (env\<lparr>gvObjects := \<lambda>g bucket a. if g = cgId g2 then Inr [] else gvObjects env g bucket a\<rparr>) gb st"
proof -
  define env' where "env' = env\<lparr>gvObjects := \<lambda>g bucket a. if g = cgId g2 then Inr [] else gvObjects env g bucket a\<rparr>"
  have none: "gvObjects env (cgId g2) (gb_BucketId gb) (oId (last objs1)) = Inr []" using assms(6,7) by (auto simp: filter_empty_conv)
  have walk: "gc_bucket_groups (Suc fuel) env (gb_BucketId gb) n family [g1, g2] b = gc_bucket_groups (Suc fuel) env' (gb_BucketId gb) n family [g1, g2] b"
    if "bgAfter b = 0" for n family b
    using that assms(2-5) none
    by (cases "gc_bucket_page env n g1 objs1 b") (auto simp: env'_def gc_bucket_limit_def page_after)
  have rest: "gvGroups env' = gvGroups env" "gvBucketById env' = gvBucketById env" "gc_bucket_end env' err n b = gc_bucket_end env err n b" for err n b
    by (simp_all add: env'_def gc_bucket_end_def Let_def cong: option.case_cong)
  have "HandleGCBucketMigrationBucket (Suc fuel) env gb st = HandleGCBucketMigrationBucket (Suc fuel) env' gb st"
    unfolding HandleGCBucketMigrationBucket_def Let_def rest assms(1) sum.case by (simp only: walk bucket_gc.simps)
  then show ?thesis by (simp only: env'_def)
qed

theorem bucket_gc_skips_objects_witness:
  "HandleGCBucketMigrationBucket 1 sample_genv sample_bucket_gc sample_exe =
     HandleGCBucketMigrationBucket 1 (sample_genv\<lparr>gvObjects := \<lambda>g bucket a. if g = 2 then Inr [] else gvObjects sample_genv g bucket a\<rparr>) sample_bucket_gc sample_exe"
  using bucket_gc_skips_objects [of sample_genv sample_bucket_gc "sample_gc_group 1" "sample_gc_group 2" "[sample_gc_object 9]" "[sample_gc_object 8]" 0 sample_exe]
  by (simp add: sample_gc_defs gc_bucket_limit_def)


subsection \<open>Old versions\<close>

lemma row_deleted: "row_find key k (row_delete key k rows) = None"
  by (auto simp: row_find_def row_delete_def find_None_iff)

text \<open>
  C18: When an update has reached the chain with the version of the task, and the task ends without an error at the primary provider, the
  record of the object is the one of the new version that the task carries, with its size, and the shadow record is gone.
\<close>

theorem stale_version_replaced:
  assumes "gcStaleVersionObjectFromShadowIntegrityMeta env gs st = (None, st')" "xvDb (gvX env) = (\<lambda>_ _. no_faults)"
    and "gvChain env (gs_ObjectId gs) = Inr ob" "oVersion ob = gs_Version gs" "\<not> oIsUpdating ob" "gs_RedundancyIndex gs = -1"
    and "bytes (gs_IntegrityChecksum gs)" "hashes (gs_PieceChecksumList gs)"
  shows "GetObjectIntegrity no_faults (xDB st') (gs_ObjectId gs) (-1) = Inr \<lparr>imObjectID = gs_ObjectId gs, imRedundancyIndex = -1,
       imIntegrityChecksum = gs_IntegrityChecksum gs, imPieceChecksumList = gs_PieceChecksumList gs, imObjectSize = gs_ObjectSize gs\<rparr>
     \<and> GetShadowObjectIntegrity no_faults (xDB st') (gs_ObjectId gs) (-1) = Inl ErrRecordNotFound"
proof -
  let ?meta = "\<lparr>imObjectID = gs_ObjectId gs, imRedundancyIndex = -1,
       imIntegrityChecksum = gs_IntegrityChecksum gs, imPieceChecksumList = gs_PieceChecksumList gs, imObjectSize = gs_ObjectSize gs\<rparr>"
  from assms(1-6) obtain stale where stale: "GetObjectIntegrity no_faults (xDB st) (gs_ObjectId gs) (-1) = Inr stale"
    and run: "replace_stale env gs stale (-1) st = (None, st')"
    by (auto simp: gcStaleVersionObjectFromShadowIntegrityMeta_def PrimarySPRedundancyIndex_def Let_def split: sum.splits)
  have idx: "imRedundancyIndex stale = -1" using stale by (auto simp: GetObjectIntegrity_def split: option.splits dest!: row_find_key simp: imt_key_def)
  from run assms(2) idx obtain st1 where run1: "promote_shadow env (gs_ObjectSize gs) gs (st1\<lparr>xDB := (xDB st1)\<lparr>integrity_metas := row_delete imt_key (gs_ObjectId gs, -1) (integrity_metas (xDB st1))\<rparr>\<rparr>) = (None, st')"
    by (auto simp: replace_stale_def DeleteObjectIntegrity_def split: prod.splits option.splits)
  define db1 where "db1 = (xDB st1)\<lparr>integrity_metas := row_delete imt_key (gs_ObjectId gs, -1) (integrity_metas (xDB st1))\<rparr>"
  obtain db2 where db2: "SetObjectIntegrity no_faults ?meta db1 = (None, db2)" "GetObjectIntegrity no_faults db2 (gs_ObjectId gs) (-1) = Inr ?meta"
    using record_read_back [of ?meta db1] assms(7,8) by (auto simp: db1_def row_deleted)
  have st': "xDB st' = db2\<lparr>shadow_metas := row_delete smt_key (gs_ObjectId gs, -1) (shadow_metas db2)\<rparr>"
    using run1 db2(1) assms(2,6) by (auto simp: promote_shadow_def db1_def [symmetric] gc_shadow_def DeleteShadowObjectIntegrity_def)
  show ?thesis using db2(2) by (simp add: st' GetObjectIntegrity_def GetShadowObjectIntegrity_def row_deleted)
qed

definition sample_stale :: GfSpGCStaleVersionObjectTask where
  "sample_stale = \<lparr>gs_Task = zero_task, gs_ObjectId = 7, gs_RedundancyIndex = -1, gs_Version = 0, gs_IntegrityChecksum = [1], gs_PieceChecksumList = [[2]], gs_ObjectSize = 5\<rparr>"

definition sample_stale_state :: "(string \<times> int list) list ExecuteModular" where
  "sample_stale_state = sample_exe\<lparr>xDB := snd (SetObjectIntegrity no_faults \<lparr>imObjectID = 7, imRedundancyIndex = -1, imIntegrityChecksum = [3], imPieceChecksumList = [], imObjectSize = 2\<rparr> (xDB sample_exe))\<rparr>"

lemma sample_stale_run: "fst (gcStaleVersionObjectFromShadowIntegrityMeta sample_genv sample_stale sample_stale_state) = None"
  by code_simp

theorem stale_version_replaced_witness:
  "GetObjectIntegrity no_faults (xDB (snd (gcStaleVersionObjectFromShadowIntegrityMeta sample_genv sample_stale sample_stale_state))) 7 (-1)
     = Inr \<lparr>imObjectID = 7, imRedundancyIndex = -1, imIntegrityChecksum = [1], imPieceChecksumList = [[2]], imObjectSize = 5\<rparr>"
proof -
  have run: "gcStaleVersionObjectFromShadowIntegrityMeta sample_genv sample_stale sample_stale_state
      = (None, snd (gcStaleVersionObjectFromShadowIntegrityMeta sample_genv sample_stale sample_stale_state))"
    using sample_stale_run by (metis prod.collapse)
  have "xvDb (gvX sample_genv) = (\<lambda>_ _. no_faults)" "gvChain sample_genv (gs_ObjectId sample_stale) = Inr (sample_gc_object 7)"
    "oVersion (sample_gc_object 7) = gs_Version sample_stale" "\<not> oIsUpdating (sample_gc_object 7)" "gs_RedundancyIndex sample_stale = -1"
    "bytes (gs_IntegrityChecksum sample_stale)" "hashes (gs_PieceChecksumList sample_stale)"
    by (simp_all add: sample_stale_def sample_gc_defs bytes_def hashes_def is_u8_def)
  from stale_version_replaced [OF run this] show ?thesis by (simp add: sample_stale_def)
qed


subsection \<open>Migration\<close>

text \<open>Storing the pieces of an object records the hash of every one.\<close>

lemma migrate_pieces_ok:
  assumes "xvDb (vmX env) = (\<lambda>_ _. no_faults)" "\<forall>s k d. \<exists>s'. ePut (xvEnv (vmX env)) s k d = Inr s'"
    and "\<forall>i \<in> set segs. vmPiece env mg ob i idx = Inr (payload i)" "hashes_inv (xDB st)"
  shows "\<exists>st'. migrate_pieces env mg ob idx segs st = (None, st') \<and> hashes_inv (xDB st') \<and> integrity_metas (xDB st') = integrity_metas (xDB st)
     \<and> (\<forall>i. hash_at (xDB st') (oId ob, int i, idx) = (if i \<in> set segs then Some (EncodeToString (eChecksum (xvEnv (vmX env)) (payload i))) else hash_at (xDB st) (oId ob, int i, idx)))"
  using assms(3,4)
proof (induction segs arbitrary: st)
  case (Cons i segs)
  let ?x = "vmX env"
  obtain s where s: "ePut (xvEnv ?x) (xStore st) (gc_key (oId ob) (oVersion ob) (int i) idx) (payload i) = Inr s" using assms(2) by blast
  obtain db where db: "SetReplicatePieceChecksum no_faults (oId ob) (int i) idx (eChecksum (xvEnv ?x) (payload i)) (oVersion ob) (xDB st) = (None, db)" "hashes_inv db"
    "\<And>k. hash_at db k = (if k = (oId ob, int i, idx) then Some (EncodeToString (eChecksum (xvEnv ?x) (payload i))) else hash_at (xDB st) k)" "integrity_metas db = integrity_metas (xDB st)"
    using SetChecksum_hash [OF Cons.prems(2), of "int i" "oId ob" idx "eChecksum (xvEnv ?x) (payload i)" "oVersion ob"] by auto
  have step: "migrate_pieces env mg ob idx (i # segs) st = migrate_pieces env mg ob idx segs (st\<lparr>xStore := s, xDB := db\<rparr>)"
    using Cons.prems(1) s db(1) assms(1) by (simp add: Let_def PutPiece_def)
  from Cons.IH [of "st\<lparr>xStore := s, xDB := db\<rparr>"] Cons.prems(1) db(2-4) show ?case unfolding step by fastforce
qed simp

lemma delete_keeps_records: "integrity_metas (snd (DeleteAllReplicatePieceChecksum fails oid idx n db)) = integrity_metas db"
  by (induction n) (auto simp: DeleteReplicatePieceChecksum_def Let_def split: prod.splits option.splits if_splits)

text \<open>
  C17: An object is recorded at the new provider exactly when the hash over the pieces the old one sent is the hash of the chain for the
  place of the provider: then the record has that hash and the hashes of the pieces, but no size; otherwise the error says so and
  no record of any object has changed.
\<close>

theorem migrated_object_recorded:
  assumes "xvDb (vmX env) = (\<lambda>_ _. no_faults)" "\<forall>s k d. \<exists>s'. ePut (xvEnv (vmX env)) s k d = Inr s'" "hashes_inv (xDB st)"
    and "SegmentPieceCount (oPayloadSize ob) (MaxSegmentSize params) = Some (int n)" "\<forall>i < n. vmPiece env mg ob i idx = Inr (payload i)"
    and "cs = map (\<lambda>i. eChecksum (xvEnv (vmX env)) (payload i)) [0..<n]" "hashes cs" "bytes (eIntegrity (xvEnv (vmX env)) cs)"
    and "place = (if idx = -1 then 0 else idx + 1)" "-1 \<le> idx" "idx < 2 ^ 31 - 1" "place < int (length (oChecksums ob))"
    and "row_find imt_key (oId ob, idx) (integrity_metas (xDB st)) = None"
  shows "\<exists>st'. if eIntegrity (xvEnv (vmX env)) cs = oChecksums ob ! nat place
     then HandleMigratePieceTask env mg ob params idx st = (Ok (), st') \<and> GetObjectIntegrity no_faults (xDB st') (oId ob) idx
       = Inr \<lparr>imObjectID = oId ob, imRedundancyIndex = idx, imIntegrityChecksum = oChecksums ob ! nat place, imPieceChecksumList = cs, imObjectSize = 0\<rparr>
     else HandleMigratePieceTask env mg ob params idx st = (Fail ErrMigratedPieceChecksum, st') \<and> integrity_metas (xDB st') = integrity_metas (xDB st)"
proof -
  let ?x = "vmX env"
  obtain st1 where st1: "migrate_pieces env mg ob idx [0..<n] st = (None, st1)" "hashes_inv (xDB st1)" "integrity_metas (xDB st1) = integrity_metas (xDB st)"
    "\<And>i. i < n \<Longrightarrow> hash_at (xDB st1) (oId ob, int i, idx) = Some (EncodeToString (cs ! i))"
    using migrate_pieces_ok [OF assms(1,2), of "[0..<n]" mg ob idx payload st] assms(3,5,6) by auto
  have len: "length cs = n" using assms(6) by simp
  have all: "GetAllReplicatePieceChecksumOptimized no_faults (xDB st1) (oId ob) idx (int n) = Inr cs"
    using all_hashes [OF st1(2), of cs "oId ob" idx] st1(4) len assms(7) by (auto simp: hashes_def bytes_def)
  have place: "(if idx = PrimarySPRedundancyIndex then 0 else i32 (idx + 1)) = place" "0 \<le> place"
    using assms(9-11) by (auto simp: PrimarySPRedundancyIndex_def i32_def)
  define meta where "meta = \<lparr>imObjectID = oId ob, imRedundancyIndex = idx, imIntegrityChecksum = eIntegrity (xvEnv ?x) cs, imPieceChecksumList = cs, imObjectSize = 0\<rparr>"
  obtain db where db: "SetObjectIntegrity no_faults meta (xDB st1) = (None, db)" "GetObjectIntegrity no_faults db (oId ob) idx = Inr meta"
    using record_read_back [of meta "xDB st1"] assms(7,8,13) st1(3) by (auto simp: meta_def)
  define db' where "db' = snd (DeleteAllReplicatePieceChecksum no_faults (oId ob) idx n db)"
  have "GetObjectIntegrity no_faults db' (oId ob) idx = Inr meta" using db(2) by (simp add: db'_def GetObjectIntegrity_def delete_keeps_records)
  moreover have "HandleMigratePieceTask env mg ob params idx st =
      (if eIntegrity (xvEnv ?x) cs = oChecksums ob ! nat place then (Ok (), st1\<lparr>xDB := db'\<rparr>) else (Fail ErrMigratedPieceChecksum, st1\<lparr>xDB := xDB st1\<rparr>))"
    using assms(1,4,12) st1(1) all len place db(1) [unfolded meta_def]
    by (auto simp: HandleMigratePieceTask_def setMigratePiecesMetadata_def Let_def db'_def)
  ultimately show ?thesis using st1(3) by (cases "eIntegrity (xvEnv ?x) cs = oChecksums ob ! nat place") (auto simp: meta_def)
qed


definition sample_vmenv :: "((string \<times> int list) list, unit) vmenv" where
  "sample_vmenv = \<lparr>vmR = \<lparr>rvX = sample_xenv, rvSign = \<lambda>_. Inr [], rvSend = \<lambda>_ _ _ n. (Inr (), n), rvDone = \<lambda>_ _ n. (Inr [], n), rvGroupById = \<lambda>_. Inr None,
       rvObjectInfo = \<lambda>_ _. Inr sample_recv_object, rvSignDoc = \<lambda>_ _ _. [], rvKeyErr = \<lambda>_. None, rvVerify = \<lambda>_ _ _. True, rvOrder = \<lambda>n. [0..<n], rvLost = \<lambda>_ _. False\<rparr>,
     vmNow = 0, vmLater = 0, vmSignGvg = \<lambda>_. Inr [], vmParams = \<lambda>_. Inr (rc_StorageParams (sample_recv 2 0 [])), vmSrcGvg = sample_gc_group 1, vmDestGvg = sample_gc_group 2,
     vmSrcSp = \<lparr>spId = 3, spOperatorAddress = [], spEndpoint = [], spInService = True\<rparr>, vmSpById = \<lambda>_. Inl (OtherErr []), vmShow = \<lambda>_. [], vmPiece = \<lambda>_ _ i _. Inr [int i + 1]\<rparr>"

definition sample_migrate :: GfSpMigrateGVGTask where
  "sample_migrate = \<lparr>mg_Task = zero_task, mg_BucketId = 0, mg_SrcGvgId = 1, mg_DestGvgId = 2, mg_RedundancyIdx = 0, mg_SrcSpId = 3, mg_LastMigratedObjectId = 0,
     mg_Finished = False, mg_ExpireTime = 0, mg_Signature = [], mg_MigratedBytesSize = 0\<rparr>"

theorem migrated_object_recorded_witness:
  "\<exists>st'. HandleMigratePieceTask sample_vmenv sample_migrate sample_recv_object (rc_StorageParams (sample_recv 2 0 [])) 0 sample_exe = (Ok (), st')
     \<and> GetObjectIntegrity no_faults (xDB st') 7 0
       = Inr \<lparr>imObjectID = 7, imRedundancyIndex = 0, imIntegrityChecksum = [1, 2], imPieceChecksumList = [[1], [2]], imObjectSize = 0\<rparr>"
proof -
  have x: "vmX sample_vmenv = sample_xenv" by (simp add: sample_vmenv_def)
  have "xvDb (vmX sample_vmenv) = (\<lambda>_ _. no_faults)" "\<forall>s k d. \<exists>s'. ePut (xvEnv (vmX sample_vmenv)) s k d = Inr s'" "hashes_inv (xDB sample_exe)"
    by (simp_all add: x sample_xenv_def sample_exe_def hashes_inv_def)
  moreover have "SegmentPieceCount (oPayloadSize sample_recv_object) (MaxSegmentSize (rc_StorageParams (sample_recv 2 0 []))) = Some (int 2)"
    by (simp add: sample_recv_defs SegmentPieceCount_def u32_def u64_def)
  moreover have "\<forall>i < 2. vmPiece sample_vmenv sample_migrate sample_recv_object i 0 = Inr ((\<lambda>i. [int i + 1]) i)" by (simp add: sample_vmenv_def)
  moreover have cs: "[[1], [2]] = map (\<lambda>i. eChecksum (xvEnv (vmX sample_vmenv)) ((\<lambda>i. [int i + 1]) i)) [0..<2]" by (simp add: x sample_xenv_def upt_rec)
  moreover have "hashes [[1], [2]]" "bytes (eIntegrity (xvEnv (vmX sample_vmenv)) [[1], [2]])"
    by (simp_all add: x sample_xenv_def hashes_def bytes_def is_u8_def)
  ultimately have "\<exists>st'. if eIntegrity (xvEnv (vmX sample_vmenv)) [[1], [2]] = oChecksums sample_recv_object ! nat 1
     then HandleMigratePieceTask sample_vmenv sample_migrate sample_recv_object (rc_StorageParams (sample_recv 2 0 [])) 0 sample_exe = (Ok (), st')
       \<and> GetObjectIntegrity no_faults (xDB st') (oId sample_recv_object) 0
         = Inr \<lparr>imObjectID = oId sample_recv_object, imRedundancyIndex = 0, imIntegrityChecksum = oChecksums sample_recv_object ! nat 1, imPieceChecksumList = [[1], [2]], imObjectSize = 0\<rparr>
     else HandleMigratePieceTask sample_vmenv sample_migrate sample_recv_object (rc_StorageParams (sample_recv 2 0 [])) 0 sample_exe = (Fail ErrMigratedPieceChecksum, st')
       \<and> integrity_metas (xDB st') = integrity_metas (xDB sample_exe)"
    by (rule migrated_object_recorded) (simp_all add: sample_recv_object_def sample_exe_def row_find_def)
  then show ?thesis by (simp add: x sample_xenv_def sample_recv_object_def)
qed

end
