(* ===== verification/SP_ExecutorAsk.thy ===== *)
theory SP_ExecutorAsk
  imports SP_ExecutorMigrate SP_ResourceManager
begin

text \<open>
  The loop of the executor, \<^verbatim>\<open>src/modular/executor/executor.go\<close>: a worker asks the manager for a task that fits what is left of
  the resources of the module, reserves the estimate of the task in a span, runs the handler of its kind, gives the span
  back and reports the task.  The counters of running tasks, which go up and down again around a handler and are only printed,
  are left out.
\<close>

datatype ask_error = AskScope rc_error | AskClient go_error

text \<open>
  What a worker needs: the environments of the handlers, the order of the answers of a recovery, the fuel for the loops over pages, and what the
  manager answers to the request for a task within a limit.
\<close>

record ('s, 'n) aenv =
  avG :: "'s genv"
  avR :: "('s, 'n) renv"
  avV :: "('s, 'n) venv"
  avSched :: schedule
  avFuel :: nat
  avAsk :: "GfSpLimit \<Rightarrow> go_error + Task option"

record ('s, 'n) asker =
  akHeap :: scopeHeap
  akScope :: scope_ref
  akExe :: "'s ExecuteModular"
  akNet :: 'n

definition exe_ReserveResource :: "ScopeStat \<Rightarrow> ('s, 'n) asker \<Rightarrow> ((rc_error + scope_ref) \<times> ('s, 'n) asker) option" where
  "exe_ReserveResource stat a =
     Option.bind (BeginSpan (akHeap a) (akScope a)) (\<lambda>(r, h).
       case r of
         Inl e \<Rightarrow> Some (Inl e, a\<lparr>akHeap := h\<rparr>)
       | Inr sp \<Rightarrow>
           map_option (\<lambda>(err, h1). (case err of Some e \<Rightarrow> Inl e | None \<Rightarrow> Inr sp, a\<lparr>akHeap := h1\<rparr>)) (ReserveResources stat h sp))"

definition exe_ReleaseResource :: "scope_ref \<Rightarrow> ('s, 'n) asker \<Rightarrow> ('s, 'n) asker option" where
  "exe_ReleaseResource sp a = map_option (\<lambda>h. a\<lparr>akHeap := h\<rparr>) (Done (akHeap a) sp)"

definition exe_Stop :: "('s, 'n) asker \<Rightarrow> ('s, 'n) asker option" where
  "exe_Stop a = map_option (\<lambda>h. a\<lparr>akHeap := h\<rparr>) (Release (akHeap a) (akScope a))"

text \<open>A handler that gives a task or panics, for the kinds that need only the state of the module.\<close>

definition handled :: "('t \<Rightarrow> Task) \<Rightarrow> 't option \<times> 's ExecuteModular \<Rightarrow> ('s, 'n) asker \<Rightarrow> (Task \<times> ('s, 'n) asker) option" where
  "handled con r a = map_option (\<lambda>t. (con t, a\<lparr>akExe := snd r\<rparr>)) (fst r)"

fun ask_handle :: "('s, 'n) aenv \<Rightarrow> Task \<Rightarrow> ('s, 'n) asker \<Rightarrow> (Task \<times> ('s, 'n) asker) option" where
  "ask_handle env (ReplicatePiece t) a =
     map_option (\<lambda>w. (ReplicatePiece (plTask w), a\<lparr>akExe := plExe w, akNet := plNet w\<rparr>))
       (exe_HandleReplicatePieceTask (avR env) \<lparr>plTask = t, plExe = akExe a, plNet = akNet a\<rparr>)"
| "ask_handle env (SealObject t) a = handled SealObject (exe_HandleSealObjectTask (gvX (avG env)) t (akExe a)) a"
| "ask_handle env (ReceivePiece t) a = handled ReceivePiece (exe_HandleReceivePieceTask (gvX (avG env)) t (akExe a)) a"
| "ask_handle env (GCObject t) a = handled GCObject (apfst Some (exe_HandleGCObjectTask (avG env) t (akExe a))) a"
| "ask_handle env (GCZombiePiece t) a =
     map_option (\<lambda>(t1, st). (GCZombiePiece t1, a\<lparr>akExe := st\<rparr>)) (exe_HandleGCZombiePieceTask (avG env) t (akExe a))"
| "ask_handle env (GCStaleVersionObject t) a = handled GCStaleVersionObject (apfst Some (exe_HandleGCStaleVersionObjectTask (avG env) t (akExe a))) a"
| "ask_handle env (GCMeta t) a = handled GCMeta (apfst Some (exe_HandleGCMetaTask (avG env) t (akExe a))) a"
| "ask_handle env (RecoverPiece t) a = handled RecoverPiece (exe_HandleRecoverPieceTask (gvX (avG env)) (avSched env) t (akExe a)) a"
| "ask_handle env (MigrateGVG t) a =
     map_option (\<lambda>w. (MigrateGVG (miTask w), a\<lparr>akExe := miExe w, akNet := miNet w\<rparr>))
       (HandleMigrateGVGTask (avFuel env) (avV env) (eUnmarshal (xvEnv (gvX (avG env)))) \<lparr>miTask = t, miExe = akExe a, miNet = akNet a\<rparr>)"
| "ask_handle env (GCBucketMigration t) a =
     map_option (\<lambda>(t1, st). (GCBucketMigration t1, a\<lparr>akExe := st\<rparr>)) (HandleGCBucketMigrationBucket (avFuel env) (avG env) t (akExe a))"
| "ask_handle env t a = Some (t, a)"

text \<open>
  \<open>None\<close> is a panic, or the end of the fuel.  The report after the handler is a goroutine; its answer is not looked at.
\<close>

definition exe_AskTask :: "('s, 'n) aenv \<Rightarrow> ('s, 'n) asker \<Rightarrow> (ask_error option \<times> ('s, 'n) asker) option" where
  "exe_AskTask env a =
     Option.bind (RemainingResource (akHeap a) (akScope a)) (\<lambda>limit.
       case avAsk env limit of
         Inl e \<Rightarrow> Some (Some (AskClient e), a)
       | Inr None \<Rightarrow> Some (Some (AskClient exe_ErrDanglingPointer), a)
       | Inr (Some t) \<Rightarrow>
           Option.bind (EstimateLimit t) (\<lambda>est.
             Option.bind (exe_ReserveResource (limit_ScopeStat est) a) (\<lambda>(r, a1).
               case r of
                 Inl e \<Rightarrow> Some (Some (AskScope e), a1)
               | Inr sp \<Rightarrow>
                   Option.bind (ask_handle env t a1) (\<lambda>(t1, a2).
                     map_option (\<lambda>a3. (None, a3\<lparr>akExe := snd (exe_ReportTask (avG env) t1 (akExe a3))\<rparr>)) (exe_ReleaseResource sp a2)))))"

text \<open>The loop of a worker and the ticker of the providers, interleaved; every round has its own environment.\<close>

inductive exe_step :: "('s, 'n) asker \<Rightarrow> ('s, 'n) asker \<Rightarrow> bool" where
  ask: "exe_AskTask env a = Some (err, a') \<Longrightarrow> exe_step a a'"
| sps: "exe_step a (a\<lparr>akExe := exe_updateSps x (akExe a)\<rparr>)"

inductive_cases exe_stepE: "exe_step a a'"

end
