(* ===== verification/SP_ExecutorAskProps.thy ===== *)
theory SP_ExecutorAskProps
  imports SP_ExecutorAsk SP_ExecutorGCProps
begin

text \<open>
  The resources of the executor: a task that ran gives back what was reserved for it, in every scope; a reservation that is refused
  leaves its span open.
\<close>

subsection \<open>Handlers and reports leave the scopes alone\<close>

lemma handle_heap: "ask_handle env t a = Some (t', a') \<Longrightarrow> akHeap a' = akHeap a \<and> akScope a' = akScope a"
  by (cases "(env, t, a)" rule: ask_handle.cases) (auto simp: handled_def split: prod.splits)

subsection \<open>A span begun, filled and done\<close>

definition span_of :: "scopeHeap \<Rightarrow> scope_ref \<Rightarrow> resourceScope \<Rightarrow> resourceScope" where
  "span_of h s sc = \<lparr>sDone = False, refCnt = 0, spanID = 0, rc = new_resources (rcLimit (rc sc)), owner = Some s, edges = [],
     scName = scName sc @ ''.span-'' @ ''temp'' @ ''-'' @ show_int (i64 (spanID sc + 1))\<rparr>"

definition begun :: "scopeHeap \<Rightarrow> scope_ref \<Rightarrow> resourceScope \<Rightarrow> scopeHeap" where
  "begun h s sc = \<lparr>scopes = (scopes h)(s \<mapsto> sc\<lparr>refCnt := i64 (refCnt sc + 1), spanID := i64 (spanID sc + 1)\<rparr>, nextRef h \<mapsto> span_of h s sc), nextRef = Suc (nextRef h)\<rparr>"

lemma BeginSpan_eq:
  assumes "scopes h s = Some sc" "\<not> sDone sc"
  shows "BeginSpan h s = Some (Inr (nextRef h), begun h s sc)"
  using assms by (simp add: BeginSpan_def NextSpanID_def newResourceScopeSpan_def alloc_def put_def begun_def span_of_def Let_def)

lemma ReserveResource_begun:
  assumes "scopes (akHeap a) (akScope a) = Some sc" "\<not> sDone sc"
  shows "(\<forall>e a'. exe_ReserveResource st a = Some (Inl e, a') \<longrightarrow> ReserveResources st (begun (akHeap a) (akScope a) sc) (nextRef (akHeap a)) = Some (Some e, akHeap a'))
     \<and> (\<forall>n a'. exe_ReserveResource st a = Some (Inr n, a') \<longrightarrow> n = nextRef (akHeap a)
       \<and> ReserveResources st (begun (akHeap a) (akScope a) sc) (nextRef (akHeap a)) = Some (None, akHeap a'))"
proof -
  let ?f = "\<lambda>(err, h). (case err of Some e \<Rightarrow> Inl e | None \<Rightarrow> Inr (nextRef (akHeap a)), a\<lparr>akHeap := h\<rparr>)"
  obtain r where r: "r = ReserveResources st (begun (akHeap a) (akScope a) sc) (nextRef (akHeap a))" by blast
  have eq: "exe_ReserveResource st a = map_option ?f r" by (simp add: exe_ReserveResource_def BeginSpan_eq [OF assms] r)
  have "(\<forall>e a'. map_option ?f r = Some (Inl e, a') \<longrightarrow> r = Some (Some e, akHeap a'))
      \<and> (\<forall>n a'. map_option ?f r = Some (Inr n, a') \<longrightarrow> n = nextRef (akHeap a) \<and> r = Some (None, akHeap a'))"
    by (cases r; cases "the r"; cases "fst (the r)") auto
  then show ?thesis unfolding eq r [symmetric] .
qed

lemma begun_inv:
  assumes "heap_inv h" "single_edge h" "scopes h s = Some sc" "\<not> sDone sc"
  shows "heap_inv (begun h s sc)" "single_edge (begun h s sc)" "s < nextRef h"
    "scopes (begun h s sc) (nextRef h) = Some (span_of h s sc)" "nextRef h \<in> dom (scopes (begun h s sc))"
  using growsD [OF BeginSpan_grows [OF assms(1,2) BeginSpan_eq [OF assms(3,4)]]] heap_invD [OF assms(1,3)]
  by (auto simp: scope_ok_def begun_def)

lemma stat_of_span:
  assumes "heap_inv h" "valid_stat st" "granted_stat st h i" "scopes h i = Some x" "rc x = new_resources l"
  shows "rc_stat (stat_reservation.after st (rc x)) = st"
  using after_add_stat [OF assms(1-4)] assms(5) by (simp add: rc_stat_def add_defs new_resources_def)

text \<open>Reserving in a new span and closing it leaves every scope as it was, but for the number of the next span.\<close>

lemma span_returns:
  assumes inv: "heap_inv h" "single_edge h" and sc: "scopes h s = Some sc" "\<not> sDone sc" and st: "valid_stat st" and r: "is_i64 (refCnt sc)"
    and res: "ReserveResources st (begun h s sc) (nextRef h) = Some (None, h2)"
  shows "\<exists>h3. Done h2 (nextRef h) = Some h3 \<and> (\<forall>i \<in> dom (scopes h). scopes h3 i = (if i = s then Some (sc\<lparr>spanID := i64 (spanID sc + 1)\<rparr>) else scopes h i))"
proof -
  let ?h1 = "begun h s sc" and ?n = "nextRef h" and ?after = "stat_reservation.after st"
  note b = begun_inv [OF inv sc]
  define B where "B = Collect (accounts ?h1 s)"
  have A: "Collect (accounts ?h1 ?n) = insert ?n B" using accounts_unfold [OF b(4)] by (simp add: B_def span_of_def)
  have dom: "s \<in> dom (scopes ?h1)" by (simp add: begun_def)
  have nB: "?n \<notin> B" using accounts_le [OF _ b(1) dom, of ?n] b(3) by (auto simp: B_def)
  from ReserveResources_total [OF st b(1,2,5)] res
  have g: "\<forall>i \<in> insert ?n B. granted_stat st ?h1 i" and h2: "h2 = apply_at (insert ?n B) ?after ?h1" using A by auto
  define g1 where "g1 = apply_at {?n} ?after ?h1"
  have h2': "h2 = apply_at B ?after g1" using nB by (simp add: h2 g1_def apply_at_Un)
  have g1: "heap_inv g1" using g by (auto simp: g1_def intro: stat_reservation.heap_inv_after [OF st b(1)])
  have gB: "granted_stat st g1 i" if "i \<in> B" for i using that g nB stat_reservation.granted_apply_at [of i "{?n}"] by (auto simp: g1_def)
  have inv2: "heap_inv h2" using gB by (auto simp: h2' intro: stat_reservation.heap_inv_after [OF st g1])
  have span: "scopes h2 ?n = Some ((span_of h s sc)\<lparr>rc := ?after (rc (span_of h s sc))\<rparr>)" using b(4) by (simp add: h2 scopes_apply_at)
  have stat: "rc_stat (?after (rc (span_of h s sc))) = st" using g by (intro stat_of_span [OF b(1) st _ b(4)]) (auto simp: span_of_def)
  have "release_scope (release_stat st) h2 s = Some (apply_at (Collect (accounts h2 s)) (release_stat st) h2)"
  proof (rule release_scope_eq [OF inv2])
    show "s \<in> dom (scopes h2)" using dom by (simp add: h2)
    show "\<not> sDone x" if "accounts h2 s i" "scopes h2 i = Some x" for i x
      using that g by (auto simp: h2 B_def scopes_apply_at stat_reservation.granted_def split: if_splits)
  qed (rule stat_reservation.rel_keeps_release [OF st])
  also have "Collect (accounts h2 s) = B" by (simp add: h2 B_def)
  also have "apply_at B (release_stat st) h2 = g1" unfolding h2' using gB by (intro stat_reservation.undo_after [OF st g1])
  finally have rel: "ReleaseResources st h2 s = Some g1" by (simp add: ReleaseResources_def)
  have s1: "scopes g1 s = Some (sc\<lparr>refCnt := i64 (refCnt sc + 1), spanID := i64 (spanID sc + 1)\<rparr>)" using b(3) by (simp add: g1_def scopes_apply_at begun_def)
  have "i64 (i64 (refCnt sc + 1) - 1) = refCnt sc" using r by (simp add: i64_def is_i64_def mod_diff_left_eq)
  then have dec: "DecRef g1 s = Some (put g1 s (sc\<lparr>spanID := i64 (spanID sc + 1)\<rparr>))" using s1 by (simp add: DecRef_def)
  have n1: "scopes (put g1 s x) ?n = scopes h2 ?n" for x using b(3) nB by (simp add: put_def h2' scopes_apply_at)
  have other: "scopes g1 i = scopes h i" if "i \<in> dom (scopes h)" "i \<noteq> s" for i
    using that heap_invD [OF inv(1)] by (fastforce simp: g1_def scopes_apply_at begun_def scope_ok_def)
  show ?thesis
    using span stat rel dec n1 other heap_invD [OF inv(1)]
    by (fastforce simp: Done_def span_of_def put_def scope_ok_def)
qed


text \<open>
  C25: A task that ran gives back what it took: after a round of a worker that ended without an error every scope is as it was before,
  with its use of memory, of tasks and of connections and its count of references, but for the number of the next span of the
  module's scope.
\<close>

theorem ask_returns_resources:
  assumes "exe_AskTask env a = Some (None, a')" "heap_inv (akHeap a)" "single_edge (akHeap a)" "scopes (akHeap a) (akScope a) = Some sc" "is_i64 (refCnt sc)"
    and "\<forall>limit t est. avAsk env limit = Inr (Some t) \<and> EstimateLimit t = Some est \<longrightarrow> valid_stat (limit_ScopeStat est)"
  shows "\<forall>i \<in> dom (scopes (akHeap a)). scopes (akHeap a') i = (if i = akScope a then Some (sc\<lparr>spanID := i64 (spanID sc + 1)\<rparr>) else scopes (akHeap a) i)"
proof -
  let ?h = "akHeap a" and ?s = "akScope a"
  from assms(1,4) obtain t est n a1 t1 a2 a3 where t: "avAsk env (remaining (rc sc)) = Inr (Some t)" "EstimateLimit t = Some est"
    and res: "exe_ReserveResource (limit_ScopeStat est) a = Some (Inr n, a1)" and run: "ask_handle env t a1 = Some (t1, a2)"
    and rel: "exe_ReleaseResource n a2 = Some a3" and a': "akHeap a' = akHeap a3"
    apply (auto simp: exe_AskTask_def RemainingResource_def bind_eq_Some_conv split: sum.splits option.splits)
    subgoal for t est r a1 by (cases r) auto
    done
  have st: "valid_stat (limit_ScopeStat est)" using assms(6) t by blast
  have nd: "\<not> sDone sc" using res assms(4) by (auto simp: exe_ReserveResource_def BeginSpan_def bind_eq_Some_conv)
  from res have n: "n = nextRef ?h" "ReserveResources (limit_ScopeStat est) (begun ?h ?s sc) (nextRef ?h) = Some (None, akHeap a1)"
    using ReserveResource_begun [OF assms(4) nd] by blast+
  obtain h3 where h3: "Done (akHeap a1) (nextRef ?h) = Some h3"
      "\<forall>i \<in> dom (scopes ?h). scopes h3 i = (if i = ?s then Some (sc\<lparr>spanID := i64 (spanID sc + 1)\<rparr>) else scopes ?h i)"
    using span_returns [OF assms(2,3,4) nd st assms(5) n(2)] by blast
  then have "akHeap a' = h3" using handle_heap [OF run] rel a' n(1) by (auto simp: exe_ReleaseResource_def)
  with h3(2) show ?thesis by simp
qed

definition sample_aenv :: "Task \<Rightarrow> ((string \<times> int list) list, unit) aenv" where
  "sample_aenv t = \<lparr>avG = sample_genv, avR = vmR sample_vmenv,
     avV = \<lparr>veAttempt = \<lambda>_ _. sample_vmenv, veList = \<lambda>_. Inr [], veReport = \<lambda>_. Answered None, veMaxRetry = 1, veSkip = False\<rparr>,
     avSched = \<lparr>scOrder = [], scLate = False, scExtra = 0\<rparr>, avFuel = 1, avAsk = \<lambda>_. Inr (Some t)\<rparr>"

definition sample_asker :: "((string \<times> int list) list, unit) asker" where
  "sample_asker = \<lparr>akHeap = sample_heap, akScope = 1, akExe = sample_exe, akNet = ()\<rparr>"

definition sample_meta :: GfSpGCMetaTask where
  "sample_meta = \<lparr>gm_Task = zero_task, gm_CurrentIdx = 0, gm_DeleteCount = 0\<rparr>"

lemma sample_meta_stat: "limit_ScopeStat (LimitEstimateByPriority (base_GetPriority zero_task)) =
    \<lparr>stMemory = 0, stNumTasksHigh = 0, stNumTasksMedium = 0, stNumTasksLow = 1, stNumConnsInbound = 0, stNumConnsOutbound = 0, stNumFD = 0\<rparr>"
  by code_simp

lemma sample_ask_run: "\<exists>a'. exe_AskTask (sample_aenv (GCMeta sample_meta)) sample_asker = Some (None, a')"
proof -
  let ?sc = "sample_scope 200 60 None [0]" and ?st = "limit_ScopeStat (LimitEstimateByPriority (base_GetPriority zero_task))"
  define h1 where "h1 = begun sample_heap 1 ?sc"
  have sc: "scopes sample_heap 1 = Some ?sc" "\<not> sDone ?sc" "nextRef sample_heap = 3" by (simp_all add: sample_scope_def sample_heap_def)
  have inv: "heap_inv h1" "single_edge h1" "3 \<in> dom (scopes h1)" using begun_inv [OF sample_inv sc(1,2)] by (simp_all add: h1_def sc(3))
  have st: "valid_stat ?st" by (simp add: sample_meta_stat valid_stat_def small_def)
  have at: "scopes h1 3 = Some (span_of sample_heap 1 ?sc)" "scopes h1 1 = Some (?sc\<lparr>refCnt := 1, spanID := 1\<rparr>)" "scopes h1 0 = Some (sample_scope 100 60 None [])"
    by (simp_all add: h1_def begun_def sc(3)) (simp_all add: sample_scope_def i64_def)
  have acc: "Collect (accounts h1 3) = {3, 1, 0}"
    using accounts_unfold [OF at(1)] accounts_unfold [OF at(2)] by (simp add: span_of_def sample_scope_def)
  have "granted_stat ?st h1 i" if "i \<in> {3, 1, 0}" for i
    using that granted_stat_fits [OF inv(1) st at(1)] granted_stat_fits [OF inv(1) st at(2)] granted_stat_fits [OF inv(1) st at(3)]
    by (auto simp: sample_meta_stat sample_scope_def span_of_def new_resources_def sample_limit_def rc_inv_def add_defs limit_typed_def range_defs)
  then have all: "\<forall>i. accounts h1 3 i \<longrightarrow> granted_stat ?st h1 i" using acc by blast
  obtain err h2 where r: "ReserveResources ?st h1 3 = Some (err, h2)" "err = None \<longleftrightarrow> (\<forall>i. accounts h1 3 i \<longrightarrow> granted_stat ?st h1 i)"
    using ReserveResources_total [OF st inv] by blast
  have res: "ReserveResources ?st h1 3 = Some (None, h2)" using r all by simp
  have "is_i64 (refCnt ?sc)" by (simp add: sample_scope_def is_i64_def)
  from span_returns [OF sample_inv sc(1,2) st this] res obtain h3 where "Done h2 3 = Some h3" by (auto simp: h1_def sc(3))
  with res BeginSpan_eq [OF sc(1,2)] show ?thesis
    by (simp add: exe_AskTask_def sample_asker_def RemainingResource_def sc sample_aenv_def exe_ReserveResource_def sample_meta_def h1_def [symmetric]
        handled_def exe_ReleaseResource_def del: One_nat_def)
qed

theorem ask_returns_resources_witness:
  "\<exists>a'. exe_AskTask (sample_aenv (GCMeta sample_meta)) sample_asker = Some (None, a')
     \<and> scopes (akHeap a') 0 = scopes sample_heap 0 \<and> scopes (akHeap a') 1 = Some ((sample_scope 200 60 None [0])\<lparr>spanID := 1\<rparr>)"
proof -
  let ?t = "GCMeta sample_meta"
  obtain a' where a': "exe_AskTask (sample_aenv ?t) sample_asker = Some (None, a')" using sample_ask_run by auto
  have "heap_inv (akHeap sample_asker)" "single_edge (akHeap sample_asker)" "scopes (akHeap sample_asker) (akScope sample_asker) = Some (sample_scope 200 60 None [0])"
    using sample_inv by (simp_all add: sample_asker_def)
  moreover have "is_i64 (refCnt (sample_scope 200 60 None [0]))" by (simp add: sample_scope_def is_i64_def)
  moreover have "\<forall>limit t est. avAsk (sample_aenv ?t) limit = Inr (Some t) \<and> EstimateLimit t = Some est \<longrightarrow> valid_stat (limit_ScopeStat est)"
    by (auto simp: sample_aenv_def sample_meta_def sample_meta_stat valid_stat_def small_def)
  ultimately have "\<forall>i \<in> dom (scopes (akHeap sample_asker)). scopes (akHeap a') i = (if i = akScope sample_asker
      then Some ((sample_scope 200 60 None [0])\<lparr>spanID := i64 (spanID (sample_scope 200 60 None [0]) + 1)\<rparr>) else scopes (akHeap sample_asker) i)"
    by (rule ask_returns_resources [OF a'])
  then have "scopes (akHeap a') 0 = scopes sample_heap 0" "scopes (akHeap a') 1 = Some ((sample_scope 200 60 None [0])\<lparr>spanID := i64 1\<rparr>)"
    by (auto simp: sample_asker_def sample_heap_def sample_scope_def)
  with a' show ?thesis by (simp add: i64_def)
qed

subsection \<open>A refused reservation\<close>

definition refs :: "scopeHeap \<Rightarrow> scope_ref \<rightharpoonup> int \<times> bool \<times> scope_ref option" where
  "refs h = (\<lambda>i. map_option (\<lambda>sc. (refCnt sc, sDone sc, owner sc)) (scopes h i))"

lemma refs_put: "scopes h s = Some sc \<Longrightarrow> refs (put h s (sc\<lparr>rc := r\<rparr>)) = refs h"
  by (auto simp: refs_def put_def)

lemma refs_release_for_child: "release_for_child rel h e = Some h' \<Longrightarrow> refs h' = refs h"
  by (auto simp: release_for_child_def refs_put)

lemma refs_release_edges: "release_edges rel h es = Some h' \<Longrightarrow> refs h' = refs h"
  by (induction es arbitrary: h) (auto simp: bind_eq_Some_conv dest: refs_release_for_child)

lemma refs_release:
  assumes "release_scope rel h s = Some h'" shows "refs h' = refs h"
proof (rule release_scope.raw_induct [where P = "\<lambda>rel h s h'. refs h' = refs h"], goal_cases)
  case (1 f rel h s h')
  from 1(2) show ?case
    by (auto simp: bind_eq_Some_conv refs_put split: if_splits option.splits dest: 1(1) refs_release_edges)
qed (rule assms)

lemma refs_child: "ReserveForChild st h e = Some (err, h') \<Longrightarrow> refs h' = refs h"
  by (cases "scopes h e"; cases "reserve_stat st (rc (the (scopes h e)))"; cases "fst (reserve_stat st (rc (the (scopes h e))))")
    (auto simp: ReserveForChild_def refs_put split: if_splits)

lemma refs_reserve:
  assumes "ReserveResources st h s = Some (err, h')" shows "refs h' = refs h"
proof -
  have "refs (snd (err, h')) = refs h"
  proof (rule ReserveResources.raw_induct [where P = "\<lambda>st h s r. refs (snd r) = refs h"], goal_cases)
    case (1 f st h s r)
    then obtain sc where sc: "scopes h s = Some sc" by (auto simp: bind_eq_Some_conv)
    define h1 where "h1 = put h s (sc\<lparr>rc := snd (reserve_stat st (rc sc))\<rparr>)"
    define up where "up = (case owner sc of Some own \<Rightarrow> f st h1 own | None \<Rightarrow> (case edges sc of [] \<Rightarrow> Some (None, h1) | e # _ \<Rightarrow> ReserveForChild st h1 e))"
    have r1: "refs h1 = refs h" using sc by (simp add: h1_def refs_put)
    have r2: "refs h2 = refs h1" if "up = Some (e, h2)" for e h2
      using that 1(1) [of st h1 _ "(e, h2)"] by (auto simp: up_def split: option.splits list.splits dest: refs_child)
    have body: "(if sDone sc then Some (Some (wrapError sc ErrResourceScopeClosed), h)
       else if fst (reserve_stat st (rc sc)) \<noteq> None then Some (map_option (wrapError sc) (fst (reserve_stat st (rc sc))), h1)
       else Option.bind up (\<lambda>(err, h2). case err of None \<Rightarrow> Some (None, h2) | Some x \<Rightarrow> map_option (\<lambda>h3. (Some x, h3)) (ReleaseResources st h2 s))) = Some r"
      using 1(2) sc unfolding up_def h1_def by simp
    have "snd r = h \<or> snd r = h1 \<or> (\<exists>e h2. up = Some (e, h2) \<and> (snd r = h2 \<or> release_scope (release_stat st) h2 s = Some (snd r)))"
      using body by (cases up) (auto simp: ReleaseResources_def split: if_splits option.splits)
    then show ?case using r1 r2 refs_release by metis
  qed (rule assms)
  then show ?thesis by simp
qed

text \<open>
  A reservation that is refused is not undone: the span that was begun for the task stays open, nobody has it to close it, and the module's scope
  counts one reference more, for ever.
\<close>

theorem refused_reservation_leaks:
  assumes "exe_AskTask env a = Some (Some (AskScope e), a')" "scopes (akHeap a) (akScope a) = Some sc" "\<not> sDone sc" "akScope a < nextRef (akHeap a)"
  shows "\<exists>sc' sp. scopes (akHeap a') (akScope a) = Some sc' \<and> refCnt sc' = i64 (refCnt sc + 1)
     \<and> scopes (akHeap a') (nextRef (akHeap a)) = Some sp \<and> owner sp = Some (akScope a) \<and> \<not> sDone sp"
proof -
  let ?h = "akHeap a" and ?s = "akScope a"
  from assms(1,2) obtain est where "exe_ReserveResource (limit_ScopeStat est) a = Some (Inl e, a')"
    apply (auto simp: exe_AskTask_def RemainingResource_def bind_eq_Some_conv split: sum.splits option.splits)
    subgoal for t est r a1 by (cases r) auto
    done
  then have res: "ReserveResources (limit_ScopeStat est) (begun ?h ?s sc) (nextRef ?h) = Some (Some e, akHeap a')"
    by (rule ReserveResource_begun [OF assms(2,3), THEN conjunct1, rule_format])
  have "refs (akHeap a') ?s = Some (i64 (refCnt sc + 1), False, owner sc)"
    unfolding refs_reserve [OF res] using assms(3,4) by (simp add: refs_def begun_def)
  moreover have "refs (akHeap a') (nextRef ?h) = Some (0, False, Some ?s)"
    unfolding refs_reserve [OF res] by (simp add: refs_def begun_def span_of_def)
  ultimately show ?thesis by (auto simp: refs_def)
qed

definition sample_large :: Task where
  "sample_large = ReceivePiece ((sample_recv 2 0 [])\<lparr>rc_PieceSize := 1000\<rparr>)"

lemma sample_large_stat: "map_option limit_ScopeStat (EstimateLimit sample_large) =
    Some \<lparr>stMemory = 1000, stNumTasksHigh = 0, stNumTasksMedium = 0, stNumTasksLow = 1, stNumConnsInbound = 0, stNumConnsOutbound = 0, stNumFD = 0\<rparr>"
  by code_simp

lemma sample_refused_run: "\<exists>e a'. exe_AskTask (sample_aenv sample_large) sample_asker = Some (Some (AskScope e), a')"
proof -
  let ?sc = "sample_scope 200 60 None [0]"
  define h1 where "h1 = begun sample_heap 1 ?sc"
  obtain est where est: "EstimateLimit sample_large = Some est"
    "limit_ScopeStat est = \<lparr>stMemory = 1000, stNumTasksHigh = 0, stNumTasksMedium = 0, stNumTasksLow = 1, stNumConnsInbound = 0, stNumConnsOutbound = 0, stNumFD = 0\<rparr>"
    using sample_large_stat by auto
  have sc: "scopes sample_heap 1 = Some ?sc" "\<not> sDone ?sc" "nextRef sample_heap = 3" by (simp_all add: sample_scope_def sample_heap_def)
  have inv: "heap_inv h1" "scopes h1 3 = Some (span_of sample_heap 1 ?sc)" using begun_inv [OF sample_inv sc(1,2)] by (simp_all add: h1_def sc(3))
  have st: "valid_stat (limit_ScopeStat est)" by (simp add: est valid_stat_def small_def)
  have "\<not> granted_stat (limit_ScopeStat est) h1 3"
    using granted_stat_fits [OF inv(1) st inv(2)] by (simp add: est span_of_def sample_scope_def new_resources_def sample_limit_def rc_inv_def add_defs)
  from ReserveResources_refused [OF inv(1) st this inv(2)] obtain x where res: "ReserveResources (limit_ScopeStat est) h1 3 = Some (Some x, h1)" by blast
  with BeginSpan_eq [OF sc(1,2)] show ?thesis
    by (simp add: exe_AskTask_def sample_asker_def RemainingResource_def sc sample_aenv_def exe_ReserveResource_def est(1) h1_def [symmetric] del: One_nat_def)
qed

theorem refused_reservation_leaks_witness:
  "\<exists>e a' sc'. exe_AskTask (sample_aenv sample_large) sample_asker = Some (Some (AskScope e), a')
     \<and> scopes (akHeap a') 1 = Some sc' \<and> refCnt sc' = 1"
proof -
  obtain e a' where run: "exe_AskTask (sample_aenv sample_large) sample_asker = Some (Some (AskScope e), a')"
    using sample_refused_run by blast
  have "scopes (akHeap sample_asker) (akScope sample_asker) = Some (sample_scope 200 60 None [0])" "\<not> sDone (sample_scope 200 60 None [0])"
    "akScope sample_asker < nextRef (akHeap sample_asker)"
    by (simp_all add: sample_asker_def sample_scope_def sample_heap_def)
  from refused_reservation_leaks [OF run this] run show ?thesis by (auto simp: sample_asker_def sample_scope_def i64_def)
qed

end
