(* ===== verification/SP_Auth.thy ===== *)
theory SP_Auth
  imports SP_ExecutorGC SP_ResourceManager
begin

text \<open>
  The authenticator, \<^verbatim>\<open>src/modular/authenticator\<close>, with the two tables of keys a user signs requests with
  (\<^verbatim>\<open>src/store/sqldb/off_chain_auth_key.go\<close>, \<^verbatim>\<open>off_chain_auth_key_v2.go\<close>).  Documented behaviour of the database used here: an
  update from a structure leaves out zero values, is conditioned on those columns of the primary key that are not zero in the
  model it is given, is refused when there is no such column, and counts the rows it changed; text is compared byte by
  byte.  Times are nanoseconds since 1970; \<open>qNow\<close> gives the readings of the clock in their order.
\<close>

subsection \<open>Errors\<close>

definition auth_err :: "int \<Rightarrow> int \<Rightarrow> string \<Rightarrow> go_error" where
  "auth_err http inner descr = GfSpErr \<lparr>CodeSpace = ''authenticator'', HttpStatusCode = http, InnerCode = inner, Description = descr\<rparr>"

definition auth_ErrUnsupportedAuthType :: go_error where
  "auth_ErrUnsupportedAuthType = auth_err 400 20001 ''unsupported auth op type''"

definition auth_ErrMismatchSp :: go_error where
  "auth_ErrMismatchSp = auth_err 400 20002 ''mismatched primary sp''"

definition auth_ErrNotSealedState :: go_error where
  "auth_ErrNotSealedState = auth_err 400 20004 ''object has not been sealed state''"

definition auth_ErrPaymentState :: go_error where
  "auth_ErrPaymentState = auth_err 400 20005 ''payment account is not active''"

definition auth_ErrInvalidAddress :: go_error where
  "auth_ErrInvalidAddress = auth_err 400 20006 ''the user address format is invalid''"

definition auth_ErrNoSuchBucket :: go_error where
  "auth_ErrNoSuchBucket = auth_err 404 20007 ''no such bucket''"

definition auth_ErrNoSuchObject :: go_error where
  "auth_ErrNoSuchObject = auth_err 404 20008 ''no such object''"

definition auth_ErrRepeatedBucket :: go_error where
  "auth_ErrRepeatedBucket = auth_err 400 20009 ''repeated bucket''"

definition auth_ErrRepeatedObject :: go_error where
  "auth_ErrRepeatedObject = auth_err 400 20010 ''repeated object''"

definition auth_ErrNoPermission :: go_error where
  "auth_ErrNoPermission = auth_err 400 20011 ''no permission''"

definition auth_ErrBadSignature :: go_error where
  "auth_ErrBadSignature = auth_err 400 20012 ''bad signature''"

definition auth_ErrPublicKeyExpired :: go_error where
  "auth_ErrPublicKeyExpired = auth_err 400 20015 ''user public key is expired''"

definition auth_ErrInvalidAddressOrDomain :: go_error where
  "auth_ErrInvalidAddressOrDomain = auth_err 400 20016 ''userAddress or domain can't be null''"

definition auth_ErrInvalidAddressOrDomainOrPublicKey :: go_error where
  "auth_ErrInvalidAddressOrDomainOrPublicKey = auth_err 400 20017 ''userAddress, domain or publicKey can't be null''"

definition auth_ErrInvalidPublicKeyLength :: go_error where
  "auth_ErrInvalidPublicKeyLength = auth_err 400 20018 ''The length of publicKeys must be less or equal to 100''"

definition auth_ErrPublicKeyNotExist :: go_error where
  "auth_ErrPublicKeyNotExist = auth_err 400 20019 ''The publicKey was not registered''"

definition auth_ErrBucketIsRateLimited :: go_error where
  "auth_ErrBucketIsRateLimited = auth_err 400 20020 ''bucket is rate limited''"

fun status_text :: "ObjectStatus \<Rightarrow> string" where
  "status_text OBJECT_STATUS_CREATED = ''OBJECT_STATUS_CREATED''"
| "status_text OBJECT_STATUS_SEALED = ''OBJECT_STATUS_SEALED''"
| "status_text OBJECT_STATUS_DISCONTINUED = ''OBJECT_STATUS_DISCONTINUED''"

definition ErrUnexpectedObjectStatusWithDetail :: "string \<Rightarrow> ObjectStatus \<Rightarrow> ObjectStatus \<Rightarrow> go_error" where
  "ErrUnexpectedObjectStatusWithDetail objectName expected actual =
     auth_err 400 20003 (''object '' @ objectName @ '' is expected to be '' @ status_text expected @ '' status but actually ''
       @ status_text actual @ '' status'')"

definition auth_ErrConsensusWithDetail :: "string \<Rightarrow> go_error" where
  "auth_ErrConsensusWithDetail detail = auth_err 500 25002 detail"

subsection \<open>The tables of keys\<close>

record OffChainAuthKey =
  okUserAddress :: string
  okDomain :: string
  okCurrentNonce :: int
  okCurrentPublicKey :: string
  okNextNonce :: int
  okExpiryDate :: int
  okCreatedTime :: int
  okModifiedTime :: int

record OffChainAuthKeyV2 =
  k2UserAddress :: string
  k2Domain :: string
  k2PublicKey :: string
  k2ExpiryDate :: int
  k2CreatedTime :: int
  k2ModifiedTime :: int

record authdb =
  auth_keys :: "OffChainAuthKey list"
  auth_keys_v2 :: "OffChainAuthKeyV2 list"

definition ok_key :: "OffChainAuthKey \<Rightarrow> string \<times> string" where
  "ok_key r = (okUserAddress r, okDomain r)"

definition k2_key :: "OffChainAuthKeyV2 \<Rightarrow> string \<times> string \<times> string" where
  "k2_key r = (k2UserAddress r, k2Domain r, k2PublicKey r)"

text \<open>
  The environment: what the database and the clock do, the decoding of an error from text, and the libraries for the two
  kinds of EdDSA signatures.  \<open>qParsePk\<close> gives the key and the number of bytes it took.
\<close>

record 'k aqenv =
  qFails :: faults
  qMsg :: "db_error \<Rightarrow> string"
  qNow :: "nat \<Rightarrow> int"
  qUnmarshal :: "string \<Rightarrow> GfSpError option"
  qHexError :: "string \<Rightarrow> string"
  qParsePk :: "int list \<Rightarrow> go_error + 'k \<times> int"
  qVerify :: "'k \<Rightarrow> int list \<Rightarrow> int list \<Rightarrow> go_error + bool"
  qEd25519 :: "int list \<Rightarrow> int list \<Rightarrow> int list \<Rightarrow> bool"

definition UnixMilli :: "int \<Rightarrow> int" where
  "UnixMilli ms = ms * 1000000"

definition is_zero_time :: "int \<Rightarrow> bool" where
  "is_zero_time t \<longleftrightarrow> t = - 62135596800000000000"

definition errIsNotFound :: "db_error \<Rightarrow> bool" where
  "errIsNotFound e \<longleftrightarrow> e = ErrRecordNotFound"

definition new_auth_key :: "'k aqenv \<Rightarrow> string \<Rightarrow> string \<Rightarrow> OffChainAuthKey" where
  "new_auth_key env user domain =
     \<lparr>okUserAddress = user, okDomain = domain, okCurrentNonce = 0, okCurrentPublicKey = '''', okNextNonce = 1,
      okExpiryDate = qNow env 0, okCreatedTime = qNow env 1, okModifiedTime = qNow env 2\<rparr>"

definition InsertAuthKey :: "'k aqenv \<Rightarrow> nat \<Rightarrow> OffChainAuthKey \<Rightarrow> authdb \<Rightarrow> string option \<times> authdb" where
  "InsertAuthKey env n rec db =
     (let failed = \<lambda>e. (Some (''failed to insert record in service config table: '' @ qMsg env e), db) in
      if qFails env n then failed ErrDatabase
      else if row_find ok_key (ok_key rec) (auth_keys db) \<noteq> None then failed ErrDuplicate
      else (None, db\<lparr>auth_keys := auth_keys db @ [rec]\<rparr>))"

definition update_condition :: "string \<Rightarrow> string \<Rightarrow> OffChainAuthKey \<Rightarrow> bool" where
  "update_condition user domain r \<longleftrightarrow> (user = '''' \<or> okUserAddress r = user) \<and> (domain = '''' \<or> okDomain r = domain)"

definition update_fields :: "string \<Rightarrow> int \<Rightarrow> int \<Rightarrow> int \<Rightarrow> OffChainAuthKey \<Rightarrow> OffChainAuthKey" where
  "update_fields newPublicKey newNonce newExpiryDate now r =
     (let nxt = i32 (newNonce + 1);
          r1 = (if newPublicKey = '''' then r else r\<lparr>okCurrentPublicKey := newPublicKey\<rparr>);
          r2 = (if newNonce = 0 then r1 else r1\<lparr>okCurrentNonce := newNonce\<rparr>);
          r3 = (if nxt = 0 then r2 else r2\<lparr>okNextNonce := nxt\<rparr>);
          r4 = (if is_zero_time newExpiryDate then r3 else r3\<lparr>okExpiryDate := newExpiryDate\<rparr>)
      in if is_zero_time now then r4 else r4\<lparr>okModifiedTime := now\<rparr>)"

text \<open>
  The update is not a transaction: the query with the insertion of a first row, and the update of the row, are steps of their own,
  between which another request can work on the table.
\<close>

definition auth_query_insert :: "'k aqenv \<Rightarrow> string \<Rightarrow> string \<Rightarrow> int \<Rightarrow> authdb \<Rightarrow> string option \<times> authdb" where
  "auth_query_insert env user domain oldNonce db =
     (let first = (if qFails env 0 then Some ErrDatabase
                   else if find (\<lambda>r. ok_key r = (user, domain) \<and> okCurrentNonce r = oldNonce) (auth_keys db) = None
                   then Some ErrRecordNotFound else None)
      in case first of
           None \<Rightarrow> (None, db)
         | Some e \<Rightarrow>
             if errIsNotFound e
             then (case InsertAuthKey env 1 (new_auth_key env user domain) db of
                     (Some m, db1) \<Rightarrow> (Some (''failed to InsertAuthKey: '' @ m), db1)
                   | (None, db1) \<Rightarrow> (None, db1))
             else (Some (''failed to query OffChainAuthKey table: '' @ qMsg env e), db))"

definition auth_update_row :: "'k aqenv \<Rightarrow> string \<Rightarrow> string \<Rightarrow> int \<Rightarrow> string \<Rightarrow> int \<Rightarrow> authdb \<Rightarrow> string option \<times> authdb" where
  "auth_update_row env user domain newNonce newPublicKey newExpiryDate db =
     (let change = update_fields newPublicKey newNonce newExpiryDate (qNow env 3);
          touched = filter (\<lambda>r. update_condition user domain r \<and> change r \<noteq> r) (auth_keys db);
          failed = ''failed to update OffChainAuthKeyTable record's state: ''
      in if user = '''' \<and> domain = '''' then (Some (failed @ qMsg env ErrMissingWhereClause), db)
         else if qFails env 2 then (Some (failed @ qMsg env ErrDatabase), db)
         else (if length touched = 1 then None else Some (failed @ ''%!s(<nil>)''),
               db\<lparr>auth_keys := map (\<lambda>r. if update_condition user domain r then change r else r) (auth_keys db)\<rparr>))"

definition UpdateAuthKey ::
  "'k aqenv \<Rightarrow> string \<Rightarrow> string \<Rightarrow> int \<Rightarrow> int \<Rightarrow> string \<Rightarrow> int \<Rightarrow> authdb \<Rightarrow> string option \<times> authdb" where
  "UpdateAuthKey env user domain oldNonce newNonce newPublicKey newExpiryDate db =
     (case auth_query_insert env user domain oldNonce db of
        (Some m, db1) \<Rightarrow> (Some m, db1)
      | (None, db1) \<Rightarrow> auth_update_row env user domain newNonce newPublicKey newExpiryDate db1)"

lemmas UpdateAuthKey_defs = UpdateAuthKey_def auth_query_insert_def auth_update_row_def

definition GetAuthKey :: "'k aqenv \<Rightarrow> string \<Rightarrow> string \<Rightarrow> authdb \<Rightarrow> string + OffChainAuthKey" where
  "GetAuthKey env user domain db =
     (if user = '''' \<or> domain = '''' then Inl ''failed to GetAuthKey: userAddress or domain can't be null''
      else if qFails env 0 then Inl (''failed to query OffChainAuthKey table: '' @ qMsg env ErrDatabase)
      else case row_find ok_key (user, domain) (auth_keys db) of
             None \<Rightarrow> Inr (new_auth_key env user domain)
           | Some r \<Rightarrow> Inr r)"

definition InsertAuthKeyV2 :: "'k aqenv \<Rightarrow> OffChainAuthKeyV2 \<Rightarrow> authdb \<Rightarrow> string option \<times> authdb" where
  "InsertAuthKeyV2 env rec db =
     (if qFails env 0 then (Some (''failed to insert record in OffChainAuthKeyV2Table: '' @ qMsg env ErrDatabase), db)
      else (None, db\<lparr>auth_keys_v2 :=
             (if row_find k2_key (k2_key rec) (auth_keys_v2 db) = None then auth_keys_v2 db @ [rec]
              else row_map k2_key (k2_key rec)
                     (\<lambda>r. r\<lparr>k2ExpiryDate := k2ExpiryDate rec, k2ModifiedTime := k2ModifiedTime rec\<rparr>) (auth_keys_v2 db))\<rparr>))"

definition db_GetAuthKeyV2 :: "'k aqenv \<Rightarrow> string \<Rightarrow> string \<Rightarrow> string \<Rightarrow> authdb \<Rightarrow> string + OffChainAuthKeyV2 option" where
  "db_GetAuthKeyV2 env user domain publicKey db =
     (if qFails env 0 then Inl (''failed to query OffChainAuthKey table: '' @ qMsg env ErrDatabase)
      else Inr (row_find k2_key (user, domain, publicKey) (auth_keys_v2 db)))"

definition ClearExpiredOffChainAuthKeys :: "'k aqenv \<Rightarrow> authdb \<Rightarrow> string option \<times> authdb" where
  "ClearExpiredOffChainAuthKeys env db =
     (if qFails env 0 then (Some (qMsg env ErrDatabase), db)
      else (None, db\<lparr>auth_keys_v2 := filter (\<lambda>r. \<not> k2ExpiryDate r < qNow env 0) (auth_keys_v2 db)\<rparr>))"

definition db_ListAuthKeysV2 :: "'k aqenv \<Rightarrow> string \<Rightarrow> string \<Rightarrow> authdb \<Rightarrow> string + string list" where
  "db_ListAuthKeysV2 env user domain db =
     (if qFails env 0 then Inl (''failed to query ListAuthKeysV2 table: '' @ qMsg env ErrDatabase)
      else Inr (map k2PublicKey (filter (\<lambda>r. k2UserAddress r = user \<and> k2Domain r = domain) (auth_keys_v2 db))))"

definition db_DeleteAuthKeysV2 :: "'k aqenv \<Rightarrow> string \<Rightarrow> string \<Rightarrow> string list \<Rightarrow> authdb \<Rightarrow> (string + bool) \<times> authdb" where
  "db_DeleteAuthKeysV2 env user domain publicKeys db =
     (if qFails env 0 then (Inl (qMsg env ErrDatabase), db)
      else (Inr True, db\<lparr>auth_keys_v2 :=
              filter (\<lambda>r. \<not> (k2UserAddress r = user \<and> k2Domain r = domain \<and> k2PublicKey r \<in> set publicKeys)) (auth_keys_v2 db)\<rparr>))"

subsection \<open>The module and its resources\<close>

record AuthenticationModular =
  amHeap :: scopeHeap
  amScope :: scope_ref
  amSpID :: int
  amDB :: authdb

text \<open>\<open>Start\<close> keeps the scope that the resource manager opened for the service.\<close>

definition auth_Start :: "rc_error + scope_ref \<times> scopeHeap \<Rightarrow> AuthenticationModular \<Rightarrow> rc_error option \<times> AuthenticationModular" where
  "auth_Start opened a =
     (case opened of Inl e \<Rightarrow> (Some e, a) | Inr (sc, h) \<Rightarrow> (None, a\<lparr>amScope := sc, amHeap := h\<rparr>))"

definition auth_Stop :: "AuthenticationModular \<Rightarrow> AuthenticationModular option" where
  "auth_Stop a = map_option (\<lambda>h. a\<lparr>amHeap := h\<rparr>) (Release (amHeap a) (amScope a))"

definition auth_ReserveResource :: "ScopeStat \<Rightarrow> AuthenticationModular \<Rightarrow> ((rc_error + scope_ref) \<times> AuthenticationModular) option" where
  "auth_ReserveResource stat a =
     Option.bind (BeginSpan (amHeap a) (amScope a)) (\<lambda>(r, h).
       case r of
         Inl e \<Rightarrow> Some (Inl e, a\<lparr>amHeap := h\<rparr>)
       | Inr sp \<Rightarrow>
           map_option (\<lambda>(err, h1). (case err of Some e \<Rightarrow> Inl e | None \<Rightarrow> Inr sp, a\<lparr>amHeap := h1\<rparr>)) (ReserveResources stat h sp))"

definition auth_ReleaseResource :: "scope_ref \<Rightarrow> AuthenticationModular \<Rightarrow> AuthenticationModular option" where
  "auth_ReleaseResource sp a = map_option (\<lambda>h. a\<lparr>amHeap := h\<rparr>) (Done (amHeap a) sp)"

subsection \<open>Keys of users\<close>

definition GetAuthNonce :: "'k aqenv \<Rightarrow> string \<Rightarrow> string \<Rightarrow> AuthenticationModular \<Rightarrow> go_error + OffChainAuthKey" where
  "GetAuthNonce env account domain a =
     (if account = '''' \<or> domain = '''' then Inl auth_ErrInvalidAddressOrDomain
      else case GetAuthKey env account domain (amDB a) of Inl m \<Rightarrow> Inl (OtherErr m) | Inr k \<Rightarrow> Inr k)"

definition UpdateUserPublicKey ::
  "'k aqenv \<Rightarrow> string \<Rightarrow> string \<Rightarrow> int \<Rightarrow> int \<Rightarrow> string \<Rightarrow> int \<Rightarrow> AuthenticationModular \<Rightarrow> (go_error + bool) \<times> AuthenticationModular" where
  "UpdateUserPublicKey env account domain currentNonce nonce userPublicKey expiryDate a =
     (case UpdateAuthKey env account domain currentNonce nonce userPublicKey (UnixMilli expiryDate) (amDB a) of
        (Some m, db) \<Rightarrow> (Inl (OtherErr m), a\<lparr>amDB := db\<rparr>)
      | (None, db) \<Rightarrow> (Inr True, a\<lparr>amDB := db\<rparr>))"

definition ParsePk :: "'k aqenv \<Rightarrow> string \<Rightarrow> go_error + 'k" where
  "ParsePk env pkStr =
     (case DecodeString pkStr of
        None \<Rightarrow> Inl (OtherErr (qHexError env pkStr))
      | Some pkBytes \<Rightarrow>
          (case qParsePk env pkBytes of
             Inl e \<Rightarrow> Inl e
           | Inr (pk, n) \<Rightarrow> if n \<noteq> 32 then Inl (OtherErr ''invalid public key'') else Inr pk))"

definition VerifyEddsaSignature :: "'k aqenv \<Rightarrow> string \<Rightarrow> int list \<Rightarrow> int list \<Rightarrow> go_error option" where
  "VerifyEddsaSignature env pubKey sig message =
     (case ParsePk env pubKey of
        Inl e \<Rightarrow> Some e
      | Inr pk \<Rightarrow>
          (case qVerify env pk sig message of
             Inl e \<Rightarrow> Some e
           | Inr valid \<Rightarrow> if \<not> valid then Some auth_ErrBadSignature else None))"

text \<open>\<open>ed25519.Verify\<close> panics on a public key of the wrong length.\<close>

definition VerifyEddsaSignatureV2 :: "'k aqenv \<Rightarrow> string \<Rightarrow> int list \<Rightarrow> int list \<Rightarrow> unit outcome" where
  "VerifyEddsaSignatureV2 env pubKey sig message =
     (case DecodeString pubKey of
        None \<Rightarrow> Fail (OtherErr (qHexError env pubKey))
      | Some pubKeyBytes \<Rightarrow>
          if length pubKeyBytes \<noteq> 32 then Panic
          else if \<not> qEd25519 env pubKeyBytes message sig then Fail auth_ErrBadSignature else Ok ())"

text \<open>
  The error of a failed verification is converted; a conversion to a null pointer still is an error, whose fields
  read as zero.
\<close>

definition as_gfsp :: "'k aqenv \<Rightarrow> go_error \<Rightarrow> go_error" where
  "as_gfsp env e =
     GfSpErr (case MakeGfSpError (qUnmarshal env) (Some e) of
                Some g \<Rightarrow> g
              | None \<Rightarrow> \<lparr>CodeSpace = '''', HttpStatusCode = 0, InnerCode = 0, Description = ''''\<rparr>)"

definition VerifyGNFD1EddsaSignature ::
  "'k aqenv \<Rightarrow> string \<Rightarrow> string \<Rightarrow> string \<Rightarrow> int list \<Rightarrow> AuthenticationModular \<Rightarrow> bool outcome" where
  "VerifyGNFD1EddsaSignature env account domain offChainSig realMsgToSign a =
     (case DecodeString offChainSig of
        None \<Rightarrow> Fail auth_ErrBadSignature
      | Some signature \<Rightarrow>
          (case GetAuthNonce env account domain a of
             Inl e \<Rightarrow> Fail e
           | Inr key \<Rightarrow>
               if okExpiryDate key - qNow env 3 < 0 then Fail auth_ErrPublicKeyExpired
               else case VerifyEddsaSignature env (okCurrentPublicKey key) signature realMsgToSign of
                      Some e \<Rightarrow> Fail (as_gfsp env e)
                    | None \<Rightarrow> Ok True))"

definition GetAuthKeyV2 :: "'k aqenv \<Rightarrow> string \<Rightarrow> string \<Rightarrow> string \<Rightarrow> AuthenticationModular \<Rightarrow> go_error + OffChainAuthKeyV2 option" where
  "GetAuthKeyV2 env account domain publicKey a =
     (if account = '''' \<or> domain = '''' \<or> publicKey = '''' then Inl auth_ErrInvalidAddressOrDomainOrPublicKey
      else case db_GetAuthKeyV2 env account domain publicKey (amDB a) of Inl m \<Rightarrow> Inl (OtherErr m) | Inr k \<Rightarrow> Inr k)"

definition ListAuthKeysV2 :: "'k aqenv \<Rightarrow> string \<Rightarrow> string \<Rightarrow> AuthenticationModular \<Rightarrow> go_error + string list" where
  "ListAuthKeysV2 env account domain a =
     (if account = '''' \<or> domain = '''' then Inl auth_ErrInvalidAddressOrDomain
      else case db_ListAuthKeysV2 env account domain (amDB a) of Inl m \<Rightarrow> Inl (OtherErr m) | Inr ks \<Rightarrow> Inr ks)"

definition DeleteAuthKeysV2 ::
  "'k aqenv \<Rightarrow> string \<Rightarrow> string \<Rightarrow> string list \<Rightarrow> AuthenticationModular \<Rightarrow> (go_error + bool) \<times> AuthenticationModular" where
  "DeleteAuthKeysV2 env account domain publicKeys a =
     (if account = '''' \<or> domain = '''' then (Inl auth_ErrInvalidAddressOrDomain, a)
      else if length publicKeys = 0 then (Inr True, a)
      else if length publicKeys > 100 then (Inl auth_ErrInvalidPublicKeyLength, a)
      else case db_DeleteAuthKeysV2 env account domain publicKeys (amDB a) of
             (Inl m, db) \<Rightarrow> (Inl (OtherErr m), a\<lparr>amDB := db\<rparr>)
           | (Inr r, db) \<Rightarrow> (Inr r, a\<lparr>amDB := db\<rparr>))"

definition UpdateUserPublicKeyV2 ::
  "'k aqenv \<Rightarrow> string \<Rightarrow> string \<Rightarrow> string \<Rightarrow> int \<Rightarrow> AuthenticationModular \<Rightarrow> (go_error + bool) \<times> AuthenticationModular" where
  "UpdateUserPublicKeyV2 env account domain publicKey expiryDate a =
     (case InsertAuthKeyV2 env
             \<lparr>k2UserAddress = account, k2Domain = domain, k2PublicKey = publicKey, k2ExpiryDate = UnixMilli expiryDate,
              k2CreatedTime = qNow env 0, k2ModifiedTime = qNow env 1\<rparr> (amDB a) of
        (Some m, db) \<Rightarrow> (Inl (OtherErr m), a\<lparr>amDB := db\<rparr>)
      | (None, db) \<Rightarrow> (Inr True, a\<lparr>amDB := db\<rparr>))"

definition VerifyGNFD2EddsaSignature ::
  "'k aqenv \<Rightarrow> string \<Rightarrow> string \<Rightarrow> string \<Rightarrow> string \<Rightarrow> int list \<Rightarrow> AuthenticationModular \<Rightarrow> bool outcome" where
  "VerifyGNFD2EddsaSignature env account domain publicKey offChainSig realMsgToSign a =
     (case DecodeString offChainSig of
        None \<Rightarrow> Fail auth_ErrBadSignature
      | Some signature \<Rightarrow>
          (case GetAuthKeyV2 env account domain publicKey a of
             Inl e \<Rightarrow> Fail e
           | Inr None \<Rightarrow> Fail auth_ErrPublicKeyNotExist
           | Inr (Some key) \<Rightarrow>
               if k2ExpiryDate key - qNow env 0 < 0 then Fail auth_ErrPublicKeyExpired
               else case VerifyEddsaSignatureV2 env (k2PublicKey key) signature realMsgToSign of
                      Fail e \<Rightarrow> Fail (as_gfsp env e)
                    | Panic \<Rightarrow> Panic
                    | Ok _ \<Rightarrow> Ok True))"

subsection \<open>Permission of an operation\<close>

datatype AuthOpType =
    AuthOpTypeUnKnown | AuthOpAskCreateBucketApproval | AuthOpAskMigrateBucketApproval | AuthOpAskCreateObjectApproval
  | AuthOpTypeGetChallengePieceInfo | AuthOpTypePutObject | AuthOpTypeGetObject | AuthOpTypeGetUploadingState
  | AuthOpTypeGetBucketQuota | AuthOpTypeListBucketReadRecord | AuthOpTypeGetRecoveryPiece
  | AuthOpTypeQueryBucketMigrationProgress | AuthOpTypeAgentPutObject | AuthOpTypeAgentUpdateObject

text \<open>
  What the chain and the metadata service answer.  A bucket or an object may be missing from an answer without an error.  An
  extra information tells whether the bucket is rate limited, a family its primary provider, a group its secondary ones, a
  stream record (of the account that pays for the bucket) whether it is active, a permission whether its effect is to allow.
\<close>

record vaenv =
  aeValidHex :: "string \<Rightarrow> bool"
  aeMsg :: "go_error \<Rightarrow> string"
  aeSelf :: "go_error + int"
  aeBucket :: "string \<Rightarrow> go_error + BucketInfo option"
  aeObject :: "string \<Rightarrow> string \<Rightarrow> go_error + ObjectInfo option"
  aeExtra :: "string \<Rightarrow> go_error + bool option"
  aeFamily :: "int \<Rightarrow> go_error + int"
  aeGroup :: "int \<Rightarrow> int \<Rightarrow> go_error + int list"
  aeStream :: "BucketInfo option \<Rightarrow> go_error + bool"
  aePutPermission :: "string \<Rightarrow> string \<Rightarrow> string \<Rightarrow> go_error + bool"
  aeUpdatePermission :: "string \<Rightarrow> string \<Rightarrow> string \<Rightarrow> go_error + bool"
  aePermission :: "string \<Rightarrow> string \<Rightarrow> string \<Rightarrow> go_error + bool"
  aeValidators :: "go_error + string list"

definition answered :: "go_error + 'a option \<Rightarrow> 'a option" where
  "answered r = (case r of Inl _ \<Rightarrow> None | Inr x \<Rightarrow> x)"

definition QueryBucketInfoAndObjectInfo ::
  "vaenv \<Rightarrow> string \<Rightarrow> string \<Rightarrow> BucketInfo option \<times> ObjectInfo option \<times> go_error option" where
  "QueryBucketInfoAndObjectInfo env bucket object =
     (case aeBucket env bucket of
        Inl e \<Rightarrow> (None, None, Some e)
      | Inr b \<Rightarrow> (case aeObject env bucket object of Inl e \<Rightarrow> (b, None, Some e) | Inr ob \<Rightarrow> (b, ob, None)))"

definition auth_getSPID :: "vaenv \<Rightarrow> AuthenticationModular \<Rightarrow> (go_error + int) \<times> AuthenticationModular" where
  "auth_getSPID env a =
     (if amSpID a \<noteq> 0 then (Inr (amSpID a), a)
      else case aeSelf env of Inl e \<Rightarrow> (Inl e, a) | Inr i \<Rightarrow> (Inr i, a\<lparr>amSpID := i\<rparr>))"

text \<open>The getters of a missing bucket or object give zero values: family 0, status \<open>CREATED\<close>.\<close>

definition auth_GetBucketPrimarySPID :: "vaenv \<Rightarrow> BucketInfo option \<Rightarrow> go_error + int" where
  "auth_GetBucketPrimarySPID env b = aeFamily env (case b of None \<Rightarrow> 0 | Some bk \<Rightarrow> bGlobalVirtualGroupFamilyId bk)"

definition auth_object_status :: "ObjectInfo option \<Rightarrow> ObjectStatus" where
  "auth_object_status ob = (case ob of None \<Rightarrow> OBJECT_STATUS_CREATED | Some ob1 \<Rightarrow> oObjectStatus ob1)"

fun sp_index_from :: "int \<Rightarrow> int \<Rightarrow> int list \<Rightarrow> int option" where
  "sp_index_from self i [] = None"
| "sp_index_from self i (x # xs) = (if self = x then Some i else sp_index_from self (i + 1) xs)"

definition ValidateAndGetSPIndexWithinGVGSecondarySPs :: "vaenv \<Rightarrow> int \<Rightarrow> int \<Rightarrow> int \<Rightarrow> go_error + int \<times> bool" where
  "ValidateAndGetSPIndexWithinGVGSecondarySPs env self bucketID lvgID =
     (case aeGroup env bucketID lvgID of
        Inl e \<Rightarrow> Inl e
      | Inr sps \<Rightarrow> (case sp_index_from self 0 sps of Some i \<Rightarrow> Inr (i, True) | None \<Rightarrow> Inr (- 1, False)))"

definition bucket_query_error :: "vaenv \<Rightarrow> string \<Rightarrow> go_error \<Rightarrow> go_error" where
  "bucket_query_error env detail e =
     (if str_contains (aeMsg env e) ''No such bucket'' then auth_ErrNoSuchBucket
      else auth_ErrConsensusWithDetail (detail @ aeMsg env e))"

definition query_error :: "vaenv \<Rightarrow> string \<Rightarrow> go_error \<Rightarrow> go_error" where
  "query_error env detail e =
     (if str_contains (aeMsg env e) ''No such bucket'' then auth_ErrNoSuchBucket
      else if str_contains (aeMsg env e) ''No such object'' then auth_ErrNoSuchObject
      else auth_ErrConsensusWithDetail (detail @ aeMsg env e))"

text \<open>This provider and the primary provider of the bucket.\<close>

definition self_and_primary :: "vaenv \<Rightarrow> BucketInfo option \<Rightarrow> AuthenticationModular \<Rightarrow> (go_error + int \<times> int) \<times> AuthenticationModular" where
  "self_and_primary env b a =
     (case auth_getSPID env a of
        (Inl e, a1) \<Rightarrow> (Inl (auth_ErrConsensusWithDetail (''getSPID error: '' @ aeMsg env e)), a1)
      | (Inr self, a1) \<Rightarrow>
          (case auth_GetBucketPrimarySPID env b of
             Inl e \<Rightarrow> (Inl (auth_ErrConsensusWithDetail (''GetBucketPrimarySPID error: '' @ aeMsg env e)), a1)
           | Inr primary \<Rightarrow> (Inr (self, primary), a1)))"

definition of_answer :: "go_error + bool \<Rightarrow> bool outcome" where
  "of_answer r = (case r of Inl e \<Rightarrow> Fail e | Inr allow \<Rightarrow> Ok allow)"

text \<open>Whether this provider is a secondary one of the object: a missing bucket or object is a null pointer here.\<close>

definition is_secondary :: "vaenv \<Rightarrow> int \<Rightarrow> BucketInfo option \<Rightarrow> ObjectInfo option \<Rightarrow> bool outcome" where
  "is_secondary env self b ob =
     (case (b, ob) of
        (Some bk, Some ob1) \<Rightarrow>
          (case ValidateAndGetSPIndexWithinGVGSecondarySPs env self (bId bk) (oLocalVirtualGroupId ob1) of
             Inl e \<Rightarrow> Fail (auth_ErrConsensusWithDetail (''failed to global virtual group info from metaData, error: '' @ aeMsg env e))
           | Inr (_, sec) \<Rightarrow> Ok sec)
      | _ \<Rightarrow> Panic)"

definition verify_create_object_approval :: "vaenv \<Rightarrow> string \<Rightarrow> string \<Rightarrow> bool outcome" where
  "verify_create_object_approval env bucket object =
     (case QueryBucketInfoAndObjectInfo env bucket object of
        (b, ob, _) \<Rightarrow>
          if b = None then Fail auth_ErrNoSuchBucket
          else if ob \<noteq> None then Fail auth_ErrRepeatedObject else Ok True)"

definition verify_put_object ::
  "vaenv \<Rightarrow> string \<Rightarrow> string \<Rightarrow> string \<Rightarrow> AuthenticationModular \<Rightarrow> bool outcome \<times> AuthenticationModular" where
  "verify_put_object env account bucket object a =
     (case QueryBucketInfoAndObjectInfo env bucket object of
        (_, _, Some e) \<Rightarrow> (Fail (query_error env ''failed to get bucket and object info from consensus, error: '' e), a)
      | (b, ob, None) \<Rightarrow>
          (case self_and_primary env b a of
             (Inl e, a1) \<Rightarrow> (Fail e, a1)
           | (Inr (self, primary), a1) \<Rightarrow>
               if primary \<noteq> self then (Fail auth_ErrMismatchSp, a1)
               else (case ob of
                       None \<Rightarrow> of_answer (aePutPermission env account bucket object)
                     | Some ob1 \<Rightarrow>
                         (case oObjectStatus ob1 of
                            OBJECT_STATUS_CREATED \<Rightarrow> of_answer (aePutPermission env account bucket object)
                          | OBJECT_STATUS_SEALED \<Rightarrow>
                              if \<not> oIsUpdating ob1
                              then Fail (ErrUnexpectedObjectStatusWithDetail (oObjectName ob1) OBJECT_STATUS_CREATED (oObjectStatus ob1))
                              else of_answer (aeUpdatePermission env account bucket object)
                          | _ \<Rightarrow> Fail (ErrUnexpectedObjectStatusWithDetail (oObjectName ob1) OBJECT_STATUS_CREATED (oObjectStatus ob1))), a1)))"

definition verify_uploading_state ::
  "vaenv \<Rightarrow> string \<Rightarrow> string \<Rightarrow> AuthenticationModular \<Rightarrow> bool outcome \<times> AuthenticationModular" where
  "verify_uploading_state env bucket object a =
     (case QueryBucketInfoAndObjectInfo env bucket object of
        (_, _, Some e) \<Rightarrow> (Fail (query_error env ''failed to get bucket and object info from consensus, error: '' e), a)
      | (b, _, None) \<Rightarrow>
          (case self_and_primary env b a of
             (Inl e, a1) \<Rightarrow> (Fail e, a1)
           | (Inr (self, primary), a1) \<Rightarrow> (if primary \<noteq> self then Fail auth_ErrMismatchSp else Ok True, a1)))"

definition verify_get_object ::
  "vaenv \<Rightarrow> string \<Rightarrow> string \<Rightarrow> string \<Rightarrow> AuthenticationModular \<Rightarrow> bool outcome \<times> AuthenticationModular" where
  "verify_get_object env account bucket object a =
     (case QueryBucketInfoAndObjectInfo env bucket object of
        (_, _, Some e) \<Rightarrow> (Fail (query_error env ''failed to get bucket and object info from consensus, error: '' e), a)
      | (b, ob, None) \<Rightarrow>
          (case aeExtra env bucket of
             Inl e \<Rightarrow> (Fail (bucket_query_error env ''failed to get bucket extra info from consensus, error: '' e), a)
           | Inr extra \<Rightarrow>
               if extra = Some True then (Fail auth_ErrBucketIsRateLimited, a)
               else case self_and_primary env b a of
                      (Inl e, a1) \<Rightarrow> (Fail e, a1)
                    | (Inr (self, primary), a1) \<Rightarrow>
                        (if primary \<noteq> self then Fail auth_ErrMismatchSp
                         else if auth_object_status ob \<noteq> OBJECT_STATUS_SEALED \<and> auth_object_status ob \<noteq> OBJECT_STATUS_CREATED
                         then Fail auth_ErrNoPermission
                         else case aeStream env b of
                                Inl e \<Rightarrow> Fail e
                              | Inr active \<Rightarrow>
                                  if \<not> active then Fail auth_ErrPaymentState
                                  else of_answer (aePermission env account bucket object), a1)))"

definition verify_recovery_piece ::
  "vaenv \<Rightarrow> string \<Rightarrow> string \<Rightarrow> string \<Rightarrow> AuthenticationModular \<Rightarrow> bool outcome \<times> AuthenticationModular" where
  "verify_recovery_piece env account bucket object a =
     (case QueryBucketInfoAndObjectInfo env bucket object of
        (_, _, Some e) \<Rightarrow> (Fail (query_error env ''failed to get bucket and object info from consensus, error: '' e), a)
      | (b, ob, None) \<Rightarrow>
          (case auth_getSPID env a of
             (Inl e, a1) \<Rightarrow> (Fail (auth_ErrConsensusWithDetail (''getSPID error: '' @ aeMsg env e)), a1)
           | (Inr self, a1) \<Rightarrow>
               (case is_secondary env self b ob of
                  Ok sec \<Rightarrow>
                    if \<not> sec then Fail auth_ErrMismatchSp
                    else if auth_object_status ob \<noteq> OBJECT_STATUS_SEALED then Fail auth_ErrNotSealedState
                    else of_answer (aePermission env account bucket object)
                | r \<Rightarrow> r, a1)))"

definition verify_challenge ::
  "vaenv \<Rightarrow> string \<Rightarrow> string \<Rightarrow> string \<Rightarrow> AuthenticationModular \<Rightarrow> bool outcome \<times> AuthenticationModular" where
  "verify_challenge env account bucket object a =
     (case aeValidators env of
        Inl e \<Rightarrow> (Fail (auth_ErrConsensusWithDetail (''failed to list validator from consensus, error: '' @ aeMsg env e)), a)
      | Inr validators \<Rightarrow>
          if \<not> list_ex (\<lambda>v. EqualFold v account) validators then (Fail auth_ErrNoPermission, a)
          else case QueryBucketInfoAndObjectInfo env bucket object of
                 (_, _, Some e) \<Rightarrow> (Fail (query_error env ''failed to get object info from consensus, error: '' e), a)
               | (b, ob, None) \<Rightarrow>
                   (case self_and_primary env b a of
                      (Inl e, a1) \<Rightarrow> (Fail e, a1)
                    | (Inr (self, primary), a1) \<Rightarrow>
                        (if primary = self then Ok True
                         else case is_secondary env self b ob of
                                Ok sec \<Rightarrow> if \<not> sec then Fail auth_ErrMismatchSp else Ok True
                              | r \<Rightarrow> r, a1)))"

fun VerifyAuthentication ::
  "vaenv \<Rightarrow> AuthOpType \<Rightarrow> string \<Rightarrow> string \<Rightarrow> string \<Rightarrow> AuthenticationModular \<Rightarrow> bool outcome \<times> AuthenticationModular" where
  "VerifyAuthentication env authType account bucket object a =
     (if \<not> aeValidHex env account then (Fail auth_ErrInvalidAddress, a)
      else case authType of
        AuthOpAskCreateBucketApproval \<Rightarrow>
          (if answered (aeBucket env bucket) \<noteq> None then Fail auth_ErrRepeatedBucket else Ok True, a)
      | AuthOpAskMigrateBucketApproval \<Rightarrow>
          (if answered (aeBucket env bucket) = None then Fail auth_ErrNoSuchBucket else Ok True, a)
      | AuthOpTypeQueryBucketMigrationProgress \<Rightarrow>
          (if answered (aeBucket env bucket) = None then Fail auth_ErrNoSuchBucket else Ok True, a)
      | AuthOpAskCreateObjectApproval \<Rightarrow> (verify_create_object_approval env bucket object, a)
      | AuthOpTypeAgentPutObject \<Rightarrow> (of_answer (aePutPermission env account bucket object), a)
      | AuthOpTypeAgentUpdateObject \<Rightarrow> (of_answer (aeUpdatePermission env account bucket object), a)
      | AuthOpTypePutObject \<Rightarrow> verify_put_object env account bucket object a
      | AuthOpTypeGetUploadingState \<Rightarrow> verify_uploading_state env bucket object a
      | AuthOpTypeGetObject \<Rightarrow> verify_get_object env account bucket object a
      | AuthOpTypeGetRecoveryPiece \<Rightarrow> verify_recovery_piece env account bucket object a
      | AuthOpTypeGetChallengePieceInfo \<Rightarrow> verify_challenge env account bucket object a
      | _ \<Rightarrow> (Fail auth_ErrUnsupportedAuthType, a))"

declare VerifyAuthentication.simps [simp del]

end
