(* ===== verification/SP_Regex.thy ===== *)
theory SP_Regex
  imports SP_Prelude
begin

text \<open>
  The part of Go's \<open>regexp\<close> that the gateway uses to read a signed message: literals, classes of characters repeated greedily,
  capturing groups and repeated groups.  A match is the leftmost one, and among those the one a backtracking search
  finds first; \<open>rxs\<close> lists the matches at the start of a text in the order of that search.  The characters are
  bytes: every pattern of the gateway ends a run of characters at an ASCII literal or at the end of the line.
\<close>

datatype rx =
    Lit string
  | Some_of "char \<Rightarrow> bool"
  | Any_of "char \<Rightarrow> bool"
  | One_of "char \<Rightarrow> bool"
  | Group "rx list"
  | Many1 "rx list"

type_synonym rx_result = "string \<times> string list \<times> string"

text \<open>A run of \<open>lo\<close> to \<open>hi\<close> characters, the longest first.\<close>

definition runs :: "nat \<Rightarrow> nat \<Rightarrow> string \<Rightarrow> rx_result list" where
  "runs lo hi s = map (\<lambda>n. (take n s, [], drop n s)) (rev [lo..<Suc hi])"

fun many1 :: "(string \<Rightarrow> rx_result list) \<Rightarrow> string \<Rightarrow> rx_result list" where
  "many1 f s =
     concat (map (\<lambda>(c, _, r).
       (if length r < length s then map (\<lambda>(c2, _, r2). (c @ c2, [], r2)) (many1 f r) else []) @ [(c, [], r)]) (f s))"

declare many1.simps [simp del]

fun rx1 :: "rx \<Rightarrow> string \<Rightarrow> rx_result list"
  and rxs :: "rx list \<Rightarrow> string \<Rightarrow> rx_result list" where
  "rx1 (Lit l) s = (if take (length l) s = l then [(l, [], drop (length l) s)] else [])"
| "rx1 (Some_of p) s = runs 1 (length (takeWhile p s)) s"
| "rx1 (Any_of p) s = runs 0 (length (takeWhile p s)) s"
| "rx1 (One_of p) s = (case s of [] \<Rightarrow> [] | c # s' \<Rightarrow> if p c then [([c], [], s')] else [])"
| "rx1 (Group its) s = map (\<lambda>(c, caps, r). (c, c # caps, r)) (rxs its s)"
| "rx1 (Many1 its) s = many1 (\<lambda>s'. rxs its s') s"
| "rxs [] s = [([], [], s)]"
| "rxs (it # its) s =
     concat (map (\<lambda>(c, caps, r). map (\<lambda>(c2, caps2, r2). (c @ c2, caps @ caps2, r2)) (rxs its r)) (rx1 it s))"

text \<open>The leftmost match: the whole of it, its groups, and what follows.\<close>

fun leftmost :: "rx list \<Rightarrow> string \<Rightarrow> rx_result option" where
  "leftmost its s =
     (case rxs its s of m # _ \<Rightarrow> Some m | [] \<Rightarrow> (case s of [] \<Rightarrow> None | _ # s' \<Rightarrow> leftmost its s'))"

declare leftmost.simps [simp del]

definition FindStringSubmatch :: "rx list \<Rightarrow> string \<Rightarrow> string list" where
  "FindStringSubmatch its s = (case leftmost its s of None \<Rightarrow> [] | Some (c, caps, _) \<Rightarrow> c # caps)"

text \<open>All matches that do not overlap, for a pattern that takes at least one character.\<close>

fun FindAllStringSubmatch :: "rx list \<Rightarrow> string \<Rightarrow> string list list" where
  "FindAllStringSubmatch its s =
     (case leftmost its s of
        None \<Rightarrow> []
      | Some (c, caps, r) \<Rightarrow> (c # caps) # (if length r < length s then FindAllStringSubmatch its r else []))"

declare FindAllStringSubmatch.simps [simp del]

definition not_newline :: "char \<Rightarrow> bool" where
  "not_newline c \<longleftrightarrow> c \<noteq> CHR 0x0A"

definition is_newline :: "char \<Rightarrow> bool" where
  "is_newline c \<longleftrightarrow> c = CHR 0x0A"

definition rx_digit :: "char \<Rightarrow> bool" where
  "rx_digit c \<longleftrightarrow> (let n = of_char c :: nat in 48 \<le> n \<and> n \<le> 57)"

definition rx_not_space :: "char \<Rightarrow> bool" where
  "rx_not_space c \<longleftrightarrow> c \<noteq> CHR '' '' \<and> c \<noteq> CHR 0x09 \<and> c \<noteq> CHR 0x0A \<and> c \<noteq> CHR 0x0C \<and> c \<noteq> CHR 0x0D"

subsection \<open>The language of a pattern\<close>

text \<open>What a pattern means: the texts it takes, with the texts of its groups, without any order of search.\<close>

inductive rx_lang :: "rx list \<Rightarrow> string \<Rightarrow> string list \<Rightarrow> bool" where
  rx_Nil: "rx_lang [] [] []"
| rx_Lit: "rx_lang its c caps \<Longrightarrow> rx_lang (Lit l # its) (l @ c) caps"
| rx_Some: "run \<noteq> [] \<Longrightarrow> list_all p run \<Longrightarrow> rx_lang its c caps \<Longrightarrow> rx_lang (Some_of p # its) (run @ c) caps"
| rx_Any: "list_all p run \<Longrightarrow> rx_lang its c caps \<Longrightarrow> rx_lang (Any_of p # its) (run @ c) caps"
| rx_One: "p x \<Longrightarrow> rx_lang its c caps \<Longrightarrow> rx_lang (One_of p # its) (x # c) caps"
| rx_Group: "rx_lang inner g gcaps \<Longrightarrow> rx_lang its c caps \<Longrightarrow> rx_lang (Group inner # its) (g @ c) (g # gcaps @ caps)"
| rx_Many: "rx_lang inner g gcaps \<Longrightarrow> rx_lang its c caps \<Longrightarrow> rx_lang (Many1 inner # its) (g @ c) caps"
| rx_More: "rx_lang inner g gcaps \<Longrightarrow> rx_lang (Many1 inner # its) c caps \<Longrightarrow> rx_lang (Many1 inner # its) (g @ c) caps"

inductive_cases rx_lang_NilE: "rx_lang [] c caps"
inductive_cases rx_lang_LitE: "rx_lang (Lit l # its) c caps"
inductive_cases rx_lang_AnyE: "rx_lang (Any_of p # its) c caps"
inductive_cases rx_lang_SomeE: "rx_lang (Some_of p # its) c caps"
inductive_cases rx_lang_OneE: "rx_lang (One_of p # its) c caps"
inductive_cases rx_lang_GroupE: "rx_lang (Group inner # its) c caps"
inductive_cases rx_lang_ManyE: "rx_lang (Many1 inner # its) c caps"

lemmas rx_langE = rx_lang_NilE rx_lang_LitE rx_lang_AnyE rx_lang_SomeE rx_lang_OneE rx_lang_GroupE

subsection \<open>The search finds exactly the language\<close>

lemma many1_sound:
  assumes "\<And>s c caps r. (c, caps, r) \<in> set (f s) \<Longrightarrow> s = c @ r \<and> rx_lang inner c caps"
  shows "(c, caps, r) \<in> set (many1 f s) \<Longrightarrow>
    s = c @ r \<and> caps = [] \<and> (\<forall>its c2 caps2. rx_lang its c2 caps2 \<longrightarrow> rx_lang (Many1 inner # its) (c @ c2) caps2)"
proof (induction "length s" arbitrary: s c caps r rule: less_induct)
  case less
  from less.prems obtain c1 caps1 r1 where one: "(c1, caps1, r1) \<in> set (f s)"
    and alt: "(c, caps, r) = (c1, [], r1) \<or>
      (length r1 < length s \<and> (\<exists>c2 caps2. (c2, caps2, r) \<in> set (many1 f r1) \<and> c = c1 @ c2 \<and> caps = []))"
    by (auto simp: many1.simps [of f s] split: if_splits) blast+
  have first: "s = c1 @ r1 \<and> rx_lang inner c1 caps1" using assms one by blast
  from alt show ?case
  proof
    assume "(c, caps, r) = (c1, [], r1)"
    then show ?thesis using first by (auto intro: rx_Many)
  next
    assume "length r1 < length s \<and> (\<exists>c2 caps2. (c2, caps2, r) \<in> set (many1 f r1) \<and> c = c1 @ c2 \<and> caps = [])"
    then obtain c2 caps2 where "length r1 < length s" "(c2, caps2, r) \<in> set (many1 f r1)" "c = c1 @ c2" "caps = []" by auto
    with less.hyps [of r1 c2 caps2 r] first show ?thesis by (auto intro: rx_More)
  qed
qed

lemma runs_iff: "(c, caps, r) \<in> set (runs lo hi s) \<longleftrightarrow>
  caps = [] \<and> (\<exists>n. lo \<le> n \<and> n \<le> hi \<and> c = take n s \<and> r = drop n s)"
  by (auto simp: runs_def image_iff)

lemma run_taken: "n \<le> length (takeWhile p s) \<Longrightarrow> list_all p (take n s)"
  by (metis list_all_iff order_trans set_take_subset_set_take set_takeWhileD subsetD takeWhile_eq_take)

lemma rx_sound:
  "(c, caps, r) \<in> set (rx1 it s) \<Longrightarrow>
     s = c @ r \<and> (\<forall>its c2 caps2. rx_lang its c2 caps2 \<longrightarrow> rx_lang (it # its) (c @ c2) (caps @ caps2))"
  "(c, caps, r) \<in> set (rxs its s) \<Longrightarrow> s = c @ r \<and> rx_lang its c caps"
proof (induction it s and its s arbitrary: c caps r and c caps r rule: rx1_rxs.induct)
  case (1 l s)
  then show ?case by (auto intro: rx_Lit split: if_splits) (metis append_take_drop_id)
next
  case (2 p s)
  then show ?case by (auto simp: runs_iff intro!: rx_Some run_taken)
next
  case (3 p s)
  then show ?case by (auto simp: runs_iff intro!: rx_Any run_taken)
next
  case (4 p s)
  then show ?case by (auto intro: rx_One split: list.splits if_splits)
next
  case (5 its s)
  then show ?case by (fastforce intro: rx_Group)
next
  case (6 its s)
  then show ?case using many1_sound [of "rxs its" its c caps r s] by auto
next
  case (7 s)
  then show ?case by (auto intro: rx_Nil)
next
  case (8 it its s)
  then show ?case by fastforce
qed

lemma rxs_Cons_iff: "(c, caps, r) \<in> set (rxs (it # its) s) \<longleftrightarrow>
  (\<exists>c1 caps1 r1 c2 caps2. (c1, caps1, r1) \<in> set (rx1 it s) \<and> (c2, caps2, r) \<in> set (rxs its r1) \<and> c = c1 @ c2 \<and> caps = caps1 @ caps2)"
  (is "?l \<longleftrightarrow> ?r")
proof
  assume ?l
  then obtain c1 caps1 r1 c2 caps2 where "(c1, caps1, r1) \<in> set (rx1 it s)" "(c2, caps2, r) \<in> set (rxs its r1)"
    "c = c1 @ c2" "caps = caps1 @ caps2" by auto
  then show ?r by blast
next
  assume ?r
  then obtain c1 caps1 r1 c2 caps2 where parts: "(c1, caps1, r1) \<in> set (rx1 it s)" "(c2, caps2, r) \<in> set (rxs its r1)"
    "c = c1 @ c2" "caps = caps1 @ caps2" by blast
  then have "(c, caps, r) \<in> (\<lambda>(c2, caps2, r2). (c1 @ c2, caps1 @ caps2, r2)) ` set (rxs its r1)"
    by (auto intro!: image_eqI [of _ _ "(c2, caps2, r)"])
  with parts(1) show ?l unfolding rxs.simps set_concat set_map UN_iff image_image
    by (intro bexI [of _ "(c1, caps1, r1)"]) simp_all
qed

lemma many1_once: "(c, caps, r) \<in> set (f s) \<Longrightarrow> (c, [], r) \<in> set (many1 f s)"
  by (auto simp: many1.simps [of f s] intro!: bexI [of _ "(c, caps, r)"])

lemma many1_again:
  assumes "(g, gcaps, r1) \<in> set (f s)" "length r1 < length s" "(c, caps, r) \<in> set (many1 f r1)"
  shows "(g @ c, [], r) \<in> set (many1 f s)"
proof -
  have "(g @ c, [], r) \<in> (\<lambda>(c2, _, r2). (g @ c2, [] :: string list, r2)) ` set (many1 f r1)"
    using assms(3) by (auto intro!: image_eqI [of _ _ "(c, caps, r)"])
  with assms(1, 2) show ?thesis unfolding many1.simps [of f s] set_concat set_map UN_iff image_image
    by (intro bexI [of _ "(g, gcaps, r1)"]) (simp_all add: split_def)
qed

lemma rx_complete: "rx_lang its c caps \<Longrightarrow> (c, caps, r) \<in> set (rxs its (c @ r))"
proof (induction arbitrary: r rule: rx_lang.induct)
  case (rx_Some run p its c caps)
  have "(run, [], c @ r) \<in> set (rx1 (Some_of p) (run @ c @ r))"
    using rx_Some by (auto simp: runs_iff list_all_iff takeWhile_append Suc_le_eq intro!: exI [of _ "length run"])
  then show ?case using rx_Some.IH [of r] unfolding rxs_Cons_iff by force
next
  case (rx_Any p run its c caps)
  have "(run, [], c @ r) \<in> set (rx1 (Any_of p) (run @ c @ r))"
    using rx_Any by (auto simp: runs_iff list_all_iff takeWhile_append intro!: exI [of _ "length run"])
  then show ?case using rx_Any.IH [of r] unfolding rxs_Cons_iff by force
next
  case (rx_Group inner g gcaps its c caps)
  have "(g, g # gcaps, c @ r) \<in> set (rx1 (Group inner) (g @ c @ r))" using rx_Group.IH(1) [of "c @ r"] by force
  then show ?case using rx_Group.IH(2) [of r] unfolding rxs_Cons_iff by force
next
  case (rx_Many inner g gcaps its c caps)
  have "(g, [], c @ r) \<in> set (rx1 (Many1 inner) (g @ c @ r))" using rx_Many.IH(1) [of "c @ r"] by (auto intro: many1_once)
  then show ?case using rx_Many.IH(2) [of r] unfolding rxs_Cons_iff by force
next
  case (rx_More inner g gcaps its c caps)
  show ?case
  proof (cases "g = []")
    case True
    then show ?thesis using rx_More.IH(2) by simp
  next
    case False
    from rx_More.IH(2) [of r] obtain c1 caps1 r1 c2 caps2 where m: "(c1, caps1, r1) \<in> set (many1 (rxs inner) (c @ r))"
      "(c2, caps2, r) \<in> set (rxs its r1)" "c = c1 @ c2" "caps = caps1 @ caps2"
      unfolding rxs_Cons_iff by auto
    then have "(g @ c1, [], r1) \<in> set (many1 (rxs inner) (g @ c @ r))"
      using rx_More.IH(1) [of "c @ r"] False by (auto intro!: many1_again)
    moreover have "caps1 = []" using m(1) many1_sound [of "rxs inner" inner] rx_sound(2) by blast
    ultimately show ?thesis using m unfolding rxs_Cons_iff by force
  qed
qed (auto simp: rxs_Cons_iff)

lemma rxs_iff: "(c, caps, r) \<in> set (rxs its s) \<longleftrightarrow> s = c @ r \<and> rx_lang its c caps"
  using rx_sound(2) rx_complete by blast

lemma leftmost_sound: "leftmost its s = Some (c, caps, r) \<Longrightarrow> \<exists>pre. s = pre @ c @ r \<and> rx_lang its c caps"
proof (induction its s rule: leftmost.induct)
  case (1 its s)
  show ?case
  proof (cases "rxs its s")
    case (Cons m ms)
    with 1 have "(c, caps, r) \<in> set (rxs its s)" by (simp add: leftmost.simps [of its s])
    then show ?thesis by (auto simp: rxs_iff)
  next
    case Nil
    with 1 obtain x s' where "s = x # s'" "leftmost its s' = Some (c, caps, r)"
      by (auto simp: leftmost.simps [of its s] split: list.splits)
    with 1 Nil show ?thesis by (metis append_Cons)
  qed
qed

lemma leftmost_None: "leftmost its s = None \<longleftrightarrow> (\<forall>pre c post caps. s = pre @ c @ post \<longrightarrow> \<not> rx_lang its c caps)"
proof (induction its s rule: leftmost.induct)
  case (1 its s)
  show ?case
  proof (cases "rxs its s")
    case (Cons m ms)
    then obtain c caps r where "(c, caps, r) \<in> set (rxs its s)" by (cases m) auto
    moreover have "leftmost its s \<noteq> None" using Cons by (simp add: leftmost.simps [of its s])
    ultimately show ?thesis by (metis rxs_iff append_Nil)
  next
    case Nil
    then have here: "\<And>c post caps. s = c @ post \<Longrightarrow> \<not> rx_lang its c caps"
      by (metis rxs_iff list.set(1) empty_iff)
    show ?thesis
    proof (cases s)
      case Nil2: Nil
      then show ?thesis using Nil here by (auto simp: leftmost.simps [of its "[]"])
    next
      case s: (Cons x s')
      have "leftmost its s = leftmost its s'" using Nil s by (simp add: leftmost.simps [of its "x # s'"])
      also have "(leftmost its s' = None) \<longleftrightarrow> (\<forall>pre c post caps. s' = pre @ c @ post \<longrightarrow> \<not> rx_lang its c caps)"
        using 1 Nil s by simp
      also have "\<dots> \<longleftrightarrow> (\<forall>pre c post caps. s = pre @ c @ post \<longrightarrow> \<not> rx_lang its c caps)"
      proof (intro iffI allI impI)
        fix pre c post caps
        assume "\<forall>pre c post caps. s' = pre @ c @ post \<longrightarrow> \<not> rx_lang its c caps" "s = pre @ c @ post"
        then show "\<not> rx_lang its c caps" using here [of c post caps] s by (cases pre) auto
      next
        fix pre c post caps
        assume "\<forall>pre c post caps. s = pre @ c @ post \<longrightarrow> \<not> rx_lang its c caps" "s' = pre @ c @ post"
        then show "\<not> rx_lang its c caps" using s by (metis append_Cons)
      qed
      finally show ?thesis .
    qed
  qed
qed

text \<open>A text has a match exactly when some part of it is in the language, and the groups reported are groups of such a part.\<close>

lemma submatch_sound: "FindStringSubmatch its s = whole # caps \<Longrightarrow> \<exists>pre post. s = pre @ whole @ post \<and> rx_lang its whole caps"
  by (auto simp: FindStringSubmatch_def split: option.splits dest!: leftmost_sound)

lemma submatch_none: "FindStringSubmatch its s = [] \<longleftrightarrow> (\<forall>pre c post caps. s = pre @ c @ post \<longrightarrow> \<not> rx_lang its c caps)"
  by (subst leftmost_None [symmetric]) (auto simp: FindStringSubmatch_def split: option.splits)

end
