(* ===== verification/SP_GaterAuth.thy ===== *)
theory SP_GaterAuth
  imports SP_Auth SP_Regex
begin

text \<open>
  The gateway's part of authentication: the signature of a request (\<^verbatim>\<open>src/modular/gater/request_context.go\<close>), the handlers
  that register, list and delete keys (\<^verbatim>\<open>src/modular/gater/auth_handler.go\<close>), and the calls to the authenticator in between
  (\<^verbatim>\<open>src/base/gfspclient/authenticator.go\<close>, \<^verbatim>\<open>src/base/gfspapp/authenticator_server.go\<close>).  A handler gives what it answers and the
  state of the authenticator.  The encoding of an answer as XML, which does not fail for these structures, the metrics and the
  cancellation of contexts are left out.
\<close>

subsection \<open>Calls to the authenticator\<close>

text \<open>A call that fails after the connection may have been handled (the flag) or not.\<close>

datatype rpc_link = LinkDown string | LinkFailed bool string | LinkUp

type_synonym unmarshal = "string \<Rightarrow> GfSpError option"

text \<open>An answer has the error and the value; with an error the value is the zero value.\<close>

definition served :: "unmarshal \<Rightarrow> 'a \<Rightarrow> go_error + 'a \<Rightarrow> GfSpError option \<times> 'a" where
  "served um zero r = (case r of Inl e \<Rightarrow> (MakeGfSpError um (Some e), zero) | Inr v \<Rightarrow> (None, v))"

definition over_rpc :: "unmarshal \<Rightarrow> rpc_link \<Rightarrow> GfSpError option \<times> 'a \<Rightarrow> go_error + 'a" where
  "over_rpc um link resp =
     (case link of
        LinkDown m \<Rightarrow> Inl (GfSpErr (ErrRPCUnknownWithDetail um ''client failed to connect authenticator, error: '' m))
      | LinkFailed _ m \<Rightarrow> Inl (OtherErr m)
      | LinkUp \<Rightarrow> (case resp of (Some g, _) \<Rightarrow> Inl (GfSpErr g) | (None, v) \<Rightarrow> Inr v))"

definition handled_call :: "rpc_link \<Rightarrow> bool" where
  "handled_call link = (case link of LinkDown _ \<Rightarrow> False | LinkFailed h _ \<Rightarrow> h | LinkUp \<Rightarrow> True)"

text \<open>A call that changes the state, and a call that may panic.\<close>

definition call_step ::
  "unmarshal \<Rightarrow> rpc_link \<Rightarrow> 'a \<Rightarrow> (go_error + 'a) \<times> AuthenticationModular \<Rightarrow> AuthenticationModular \<Rightarrow> (go_error + 'a) \<times> AuthenticationModular" where
  "call_step um link zero r a = (over_rpc um link (served um zero (fst r)), if handled_call link then snd r else a)"

definition call_outcome :: "unmarshal \<Rightarrow> rpc_link \<Rightarrow> bool outcome \<Rightarrow> bool outcome" where
  "call_outcome um link r =
     (let answer = \<lambda>x. (case over_rpc um link (served um False x) of Inl e \<Rightarrow> Fail e | Inr v \<Rightarrow> Ok v) in
      case r of
        Panic \<Rightarrow> if handled_call link then Panic else answer (Inr False)
      | Fail e \<Rightarrow> answer (Inl e)
      | Ok v \<Rightarrow> answer (Inr v))"

definition srv_GetAuthNonce ::
  "unmarshal \<Rightarrow> 'k aqenv \<Rightarrow> string \<Rightarrow> string \<Rightarrow> AuthenticationModular \<Rightarrow> GfSpError option \<times> int \<times> int \<times> string \<times> int" where
  "srv_GetAuthNonce um q account domain a =
     served um (0, 0, '''', 0)
       (case GetAuthNonce q account domain a of
          Inl e \<Rightarrow> Inl e
        | Inr k \<Rightarrow> Inr (okCurrentNonce k, okNextNonce k, okCurrentPublicKey k, okExpiryDate k div 1000000))"

definition cli_GetAuthNonce ::
  "unmarshal \<Rightarrow> rpc_link \<Rightarrow> 'k aqenv \<Rightarrow> string \<Rightarrow> string \<Rightarrow> AuthenticationModular \<Rightarrow> go_error + int \<times> int \<times> string \<times> int" where
  "cli_GetAuthNonce um link q account domain a = over_rpc um link (srv_GetAuthNonce um q account domain a)"

definition cli_UpdateUserPublicKey ::
  "unmarshal \<Rightarrow> rpc_link \<Rightarrow> 'k aqenv \<Rightarrow> string \<Rightarrow> string \<Rightarrow> int \<Rightarrow> int \<Rightarrow> string \<Rightarrow> int \<Rightarrow> AuthenticationModular
    \<Rightarrow> (go_error + bool) \<times> AuthenticationModular" where
  "cli_UpdateUserPublicKey um link q account domain currentNonce nonce userPublicKey expiryDate a =
     call_step um link False (UpdateUserPublicKey q account domain currentNonce nonce userPublicKey expiryDate a) a"

definition cli_UpdateUserPublicKeyV2 ::
  "unmarshal \<Rightarrow> rpc_link \<Rightarrow> 'k aqenv \<Rightarrow> string \<Rightarrow> string \<Rightarrow> string \<Rightarrow> int \<Rightarrow> AuthenticationModular \<Rightarrow> (go_error + bool) \<times> AuthenticationModular" where
  "cli_UpdateUserPublicKeyV2 um link q account domain userPublicKey expiryDate a =
     call_step um link False (UpdateUserPublicKeyV2 q account domain userPublicKey expiryDate a) a"

definition cli_DeleteAuthKeysV2 ::
  "unmarshal \<Rightarrow> rpc_link \<Rightarrow> 'k aqenv \<Rightarrow> string \<Rightarrow> string \<Rightarrow> string list \<Rightarrow> AuthenticationModular \<Rightarrow> (go_error + bool) \<times> AuthenticationModular" where
  "cli_DeleteAuthKeysV2 um link q account domain publicKeys a =
     call_step um link False (DeleteAuthKeysV2 q account domain publicKeys a) a"

definition cli_ListAuthKeysV2 ::
  "unmarshal \<Rightarrow> rpc_link \<Rightarrow> 'k aqenv \<Rightarrow> string \<Rightarrow> string \<Rightarrow> AuthenticationModular \<Rightarrow> go_error + string list" where
  "cli_ListAuthKeysV2 um link q account domain a = over_rpc um link (served um [] (ListAuthKeysV2 q account domain a))"

definition srv_GetAuthKeyV2 ::
  "unmarshal \<Rightarrow> 'k aqenv \<Rightarrow> string \<Rightarrow> string \<Rightarrow> string \<Rightarrow> AuthenticationModular \<Rightarrow> GfSpError option \<times> string \<times> int" where
  "srv_GetAuthKeyV2 um q account domain publicKey a =
     served um ('''', 0)
       (case GetAuthKeyV2 q account domain publicKey a of
          Inl e \<Rightarrow> Inl e
        | Inr None \<Rightarrow> Inr ('''', 0)
        | Inr (Some k) \<Rightarrow> Inr (k2PublicKey k, k2ExpiryDate k div 1000000))"

definition cli_GetAuthKeyV2 ::
  "unmarshal \<Rightarrow> rpc_link \<Rightarrow> 'k aqenv \<Rightarrow> string \<Rightarrow> string \<Rightarrow> string \<Rightarrow> AuthenticationModular \<Rightarrow> go_error + string \<times> int" where
  "cli_GetAuthKeyV2 um link q account domain publicKey a = over_rpc um link (srv_GetAuthKeyV2 um q account domain publicKey a)"

definition cli_VerifyGNFD1EddsaSignature ::
  "unmarshal \<Rightarrow> rpc_link \<Rightarrow> 'k aqenv \<Rightarrow> string \<Rightarrow> string \<Rightarrow> string \<Rightarrow> int list \<Rightarrow> AuthenticationModular \<Rightarrow> bool outcome" where
  "cli_VerifyGNFD1EddsaSignature um link q account domain offChainSig realMsgToSign a =
     call_outcome um link (VerifyGNFD1EddsaSignature q account domain offChainSig realMsgToSign a)"

definition cli_VerifyGNFD2EddsaSignature ::
  "unmarshal \<Rightarrow> rpc_link \<Rightarrow> 'k aqenv \<Rightarrow> string \<Rightarrow> string \<Rightarrow> string \<Rightarrow> string \<Rightarrow> int list \<Rightarrow> AuthenticationModular \<Rightarrow> bool outcome" where
  "cli_VerifyGNFD2EddsaSignature um link q account domain publicKey offChainSig realMsgToSign a =
     call_outcome um link (VerifyGNFD2EddsaSignature q account domain publicKey offChainSig realMsgToSign a)"

definition AuthOpType_of :: "int \<Rightarrow> AuthOpType" where
  "AuthOpType_of n =
     (let ops = [AuthOpTypeUnKnown, AuthOpAskCreateBucketApproval, AuthOpAskMigrateBucketApproval, AuthOpAskCreateObjectApproval,
                 AuthOpTypeGetChallengePieceInfo, AuthOpTypePutObject, AuthOpTypeGetObject, AuthOpTypeGetUploadingState,
                 AuthOpTypeGetBucketQuota, AuthOpTypeListBucketReadRecord, AuthOpTypeGetRecoveryPiece,
                 AuthOpTypeQueryBucketMigrationProgress, AuthOpTypeAgentPutObject, AuthOpTypeAgentUpdateObject]
      in if 0 \<le> n \<and> n < int (length ops) then ops ! nat n else AuthOpTypeUnKnown)"

text \<open>\<open>VerifyAuthentication\<close> over a connection; a failed call is wrapped here, unlike in the calls above.\<close>

definition cli_VerifyAuthentication ::
  "unmarshal \<Rightarrow> rpc_link \<Rightarrow> vaenv \<Rightarrow> int \<Rightarrow> string \<Rightarrow> string \<Rightarrow> string \<Rightarrow> AuthenticationModular \<Rightarrow> bool outcome \<times> AuthenticationModular" where
  "cli_VerifyAuthentication um link env auth account bucket object a =
     (let (r, a1) = VerifyAuthentication env (AuthOpType_of auth) account bucket object a in
      (case link of
         LinkDown m \<Rightarrow> Fail (GfSpErr (ErrRPCUnknownWithDetail um ''client failed to connect authenticator, error:'' m))
       | LinkFailed h m \<Rightarrow>
           if h \<and> r = Panic then Panic
           else Fail (GfSpErr (ErrRPCUnknownWithDetail um ''client failed to verify authentication, error: '' m))
       | LinkUp \<Rightarrow> call_outcome um link r,
       if handled_call link then a1 else a))"

subsection \<open>Errors of the gateway\<close>

definition gate_err :: "int \<Rightarrow> int \<Rightarrow> string \<Rightarrow> go_error" where
  "gate_err http inner descr = GfSpErr \<lparr>CodeSpace = ''gateway'', HttpStatusCode = http, InnerCode = inner, Description = descr\<rparr>"

definition gate_ErrUnsupportedSignType :: go_error where
  "gate_ErrUnsupportedSignType = gate_err 400 50001 ''unsupported sign type''"

definition gate_ErrAuthorizationHeaderFormat :: go_error where
  "gate_ErrAuthorizationHeaderFormat = gate_err 400 50002 ''authorization header format error''"

definition gate_ErrRequestConsistent :: go_error where
  "gate_ErrRequestConsistent = gate_err 400 50003 ''request is tampered''"

definition gate_ErrNoPermission :: go_error where
  "gate_ErrNoPermission = gate_err 401 50004 ''no permission''"

definition gate_ErrInvalidHeader :: go_error where
  "gate_ErrInvalidHeader = gate_err 400 50009 ''invalid request header''"

definition gate_ErrExceptionStream :: go_error where
  "gate_ErrExceptionStream = gate_err 400 50013 ''stream exception''"

definition gate_ErrSignature :: go_error where
  "gate_ErrSignature = gate_err 406 50015 ''signature is invalid''"

definition gate_ErrInvalidDomainHeader :: go_error where
  "gate_ErrInvalidDomainHeader = gate_err 400 50017 ''The X-Gnfd-App-Domain header is incorrect.''"

definition gate_ErrInvalidPublicKeyHeader :: go_error where
  "gate_ErrInvalidPublicKeyHeader = gate_err 400 50018 ''The X-Gnfd-App-Reg-Public-Key header is incorrect.''"

definition gate_ErrInvalidRegNonceHeader :: go_error where
  "gate_ErrInvalidRegNonceHeader = gate_err 400 50019 ''The X-Gnfd-App-Reg-Nonce header is incorrect.''"

definition gate_ErrSignedMsgNotMatchSPAddr :: go_error where
  "gate_ErrSignedMsgNotMatchSPAddr = gate_err 400 50021 ''The SP addr in the signed message in Authorization is not for the this SP.''"

definition gate_ErrSignedMsgNotMatchSPNonce :: go_error where
  "gate_ErrSignedMsgNotMatchSPNonce = gate_err 400 50040 ''The SP Nonce in the signed message in Authorization is not for the this SP.''"

definition gate_ErrSignedMsgNotMatchDomain :: go_error where
  "gate_ErrSignedMsgNotMatchDomain = gate_err 400 50037 ''The domain in the signed message in Authorization does not match this website.''"

definition gate_ErrSignedMsgNotMatchExpiry :: "string \<Rightarrow> go_error" where
  "gate_ErrSignedMsgNotMatchExpiry expiryHeader = gate_err 400 50038
     (''The expiry time in signed message in Authorization does not match the expiry time in the header '' @ expiryHeader @ ''.'')"

definition gate_ErrSignedMsgNotMatchPubKey :: go_error where
  "gate_ErrSignedMsgNotMatchPubKey = gate_err 400 50039
     ''The public key in signed message in Authorization does not match the expiry time in the header X-Gnfd-App-Reg-Public-Key.''"

definition gate_ErrSignedMsgNotMatchTemplate :: go_error where
  "gate_ErrSignedMsgNotMatchTemplate = gate_err 400 50022 ''The signed message in Authorization does not match the template.''"

definition gate_ErrInvalidExpiryDateHeader :: "string \<Rightarrow> int \<Rightarrow> go_error" where
  "gate_ErrInvalidExpiryDateHeader expiryHeader maxAge = gate_err 400 50023
     (''The '' @ expiryHeader @ '' header is incorrect. The expiry date is expected to be within '' @ show_int maxAge
       @ '' seconds and formatted in RFC3339, e.g. 2006-01-02T15:04:05Z07:00 . '')"

subsection \<open>A request\<close>

text \<open>
  The headers the code reads, by their use; the expiry date is read from a header or, if that is empty, from the
  query.  \<open>hrAccount\<close> is the account in the route, \<open>hrBody\<close> the body unless reading it fails.
\<close>

record http_request =
  hrRoute :: string
  hrAccount :: string
  hrAuthorization :: string
  hrUserAddress :: string
  hrDomain :: string
  hrOrigin :: string
  hrNonce :: string
  hrPublicKey :: string
  hrExpiry :: string
  hrExpiryQuery :: string
  hrBody :: "string option"

text \<open>
  The environment of the gateway.  From other repositories come the names of the schemes, the longest age of an expiry date and
  the name of its header, the message a request is signed over, recovering the signer (its address as text and its public
  key), hashing, and the parsing of addresses; \<open>gwAddress\<close> is empty for what is no address.  \<open>gwTime\<close> parses a time of
  RFC 3339 to nanoseconds.  The calls of a handler are numbered; the authenticator has an environment for each.
\<close>

record 'k gwenv =
  gwEcdsa :: string
  gwEddsa1 :: string
  gwEddsa2 :: string
  gwPersonal :: string
  gwMaxAge :: int
  gwExpiryHeader :: string
  gwNow :: int
  gwTime :: "string \<Rightarrow> int option"
  gwMsgToSign :: "http_request \<Rightarrow> int list"
  gwPreSignedMsg :: "http_request \<Rightarrow> int list"
  gwRecover :: "int list \<Rightarrow> int list \<Rightarrow> go_error + string \<times> int list"
  gwTextHash :: "string \<Rightarrow> int list"
  gwKeccak :: "int list \<Rightarrow> int list"
  gwSecp :: "int list \<Rightarrow> int list \<Rightarrow> int list \<Rightarrow> bool"
  gwHexutil :: "string \<Rightarrow> go_error + int list"
  gwHexError :: "string \<Rightarrow> string"
  gwAddress :: "string \<Rightarrow> string"
  gwIsHexAddress :: "string \<Rightarrow> bool"
  gwOperator :: string
  gwUnmarshal :: unmarshal
  gwLink :: "nat \<Rightarrow> rpc_link"
  gwQ :: "nat \<Rightarrow> 'k aqenv"

subsection \<open>The signature of a request\<close>

text \<open>
  \<open>int32(time.Until(t).Seconds())\<close>: the duration saturates at 64 bits and is cut to whole seconds towards zero; a number
  of seconds that does not fit becomes the least number, as it does on the machines this runs on.
\<close>

definition seconds_until :: "int \<Rightarrow> int \<Rightarrow> int" where
  "seconds_until now t =
     (let d = max (- (2 ^ 63)) (min (2 ^ 63 - 1) (t - now));
          s = (if d \<ge> 0 then d div 1000000000 else - ((- d) div 1000000000))
      in if - (2 ^ 31) \<le> s \<and> s < 2 ^ 31 then s else - (2 ^ 31))"

definition expiry_ok :: "'k gwenv \<Rightarrow> int \<Rightarrow> bool" where
  "expiry_ok g t \<longleftrightarrow> \<not> (gwMaxAge g < seconds_until (gwNow g) t \<or> seconds_until (gwNow g) t < 0)"

definition gate_expiry_error :: "'k gwenv \<Rightarrow> go_error" where
  "gate_expiry_error g = gate_ErrInvalidExpiryDateHeader (gwExpiryHeader g) (gwMaxAge g)"

definition CheckIfSigExpiry :: "'k gwenv \<Rightarrow> http_request \<Rightarrow> go_error option" where
  "CheckIfSigExpiry g r =
     (case gwTime g (if hrExpiry r = '''' then hrExpiryQuery r else hrExpiry r) of
        None \<Rightarrow> Some (gate_expiry_error g)
      | Some t \<Rightarrow> if expiry_ok g t then None else Some (gate_expiry_error g))"

definition parseSignatureFromRequest :: "string \<Rightarrow> go_error + string" where
  "parseSignatureFromRequest requestSignature =
     (case split_on CHR ''='' (filter (\<lambda>c. c \<noteq> CHR '' '') requestSignature) of
        [k, v] \<Rightarrow> if k = ''Signature'' then Inr v else Inl gate_ErrAuthorizationHeaderFormat
      | _ \<Rightarrow> Inl gate_ErrAuthorizationHeaderFormat)"

definition verifySignatureForGNFD1Ecdsa :: "'k gwenv \<Rightarrow> http_request \<Rightarrow> string \<Rightarrow> string outcome" where
  "verifySignatureForGNFD1Ecdsa g r requestSignature =
     (case parseSignatureFromRequest requestSignature of
        Inl e \<Rightarrow> Fail e
      | Inr sigStr \<Rightarrow>
          (case DecodeString sigStr of
             None \<Rightarrow> Fail (OtherErr (gwHexError g sigStr))
           | Some signature \<Rightarrow>
               (case gwRecover g (gwMsgToSign g r) signature of
                  Inl _ \<Rightarrow> Fail gate_ErrRequestConsistent
                | Inr (addr, _) \<Rightarrow> Ok addr)))"

text \<open>The calls of a context ask the authenticator with the connection and environment numbered 0.  Their Boolean is not read.\<close>

definition verified_address :: "'k gwenv \<Rightarrow> string \<Rightarrow> bool outcome \<Rightarrow> string outcome" where
  "verified_address g account r = (case r of Fail e \<Rightarrow> Fail e | Panic \<Rightarrow> Panic | Ok _ \<Rightarrow> Ok (gwAddress g account))"

definition verify_eddsa1 ::
  "'k gwenv \<Rightarrow> int list \<Rightarrow> string \<Rightarrow> string \<Rightarrow> string \<Rightarrow> AuthenticationModular \<Rightarrow> string outcome" where
  "verify_eddsa1 g msg requestSignature account domain a =
     (case parseSignatureFromRequest requestSignature of
        Inl e \<Rightarrow> Fail e
      | Inr offChainSig \<Rightarrow>
          verified_address g account
            (cli_VerifyGNFD1EddsaSignature (gwUnmarshal g) (gwLink g 0) (gwQ g 0) account domain offChainSig msg a))"

definition verify_eddsa2 ::
  "'k gwenv \<Rightarrow> int list \<Rightarrow> string \<Rightarrow> string \<Rightarrow> string \<Rightarrow> string \<Rightarrow> AuthenticationModular \<Rightarrow> string outcome" where
  "verify_eddsa2 g msg requestSignature account domain publicKey a =
     (case parseSignatureFromRequest requestSignature of
        Inl e \<Rightarrow> Fail e
      | Inr offChainSig \<Rightarrow>
          verified_address g account
            (cli_VerifyGNFD2EddsaSignature (gwUnmarshal g) (gwLink g 0) (gwQ g 0) account domain publicKey offChainSig msg a))"

definition verifySignatureForGNFD1Eddsa :: "'k gwenv \<Rightarrow> http_request \<Rightarrow> string \<Rightarrow> AuthenticationModular \<Rightarrow> string outcome" where
  "verifySignatureForGNFD1Eddsa g r requestSignature a =
     verify_eddsa1 g (gwMsgToSign g r) requestSignature (hrUserAddress r) (hrDomain r) a"

definition verifySignatureForGNFD2Eddsa :: "'k gwenv \<Rightarrow> http_request \<Rightarrow> string \<Rightarrow> AuthenticationModular \<Rightarrow> string outcome" where
  "verifySignatureForGNFD2Eddsa g r requestSignature a =
     verify_eddsa2 g (gwMsgToSign g r) requestSignature (hrUserAddress r) (hrDomain r) (hrPublicKey r) a"

definition verifyGNFD1EddsaSignatureFromPreSignedURL ::
  "'k gwenv \<Rightarrow> http_request \<Rightarrow> string \<Rightarrow> string \<Rightarrow> string \<Rightarrow> AuthenticationModular \<Rightarrow> string outcome" where
  "verifyGNFD1EddsaSignatureFromPreSignedURL g r authenticationStr account domain a =
     verify_eddsa1 g (gwPreSignedMsg g r) authenticationStr account domain a"

definition verifyGNFD2EddsaSignatureFromPreSignedURL ::
  "'k gwenv \<Rightarrow> http_request \<Rightarrow> string \<Rightarrow> string \<Rightarrow> string \<Rightarrow> string \<Rightarrow> AuthenticationModular \<Rightarrow> string outcome" where
  "verifyGNFD2EddsaSignatureFromPreSignedURL g r authenticationStr account domain userPublicKey a =
     verify_eddsa2 g (gwPreSignedMsg g r) authenticationStr account domain userPublicKey a"

definition has_prefix :: "string \<Rightarrow> string \<Rightarrow> bool" where
  "has_prefix s pre \<longleftrightarrow> take (length pre) s = pre"

text \<open>The third scheme is cut at the length of the second; a shorter text there would panic.\<close>

definition VerifySignature :: "'k gwenv \<Rightarrow> http_request \<Rightarrow> AuthenticationModular \<Rightarrow> string outcome" where
  "VerifySignature g r a =
     (let s = hrAuthorization r; p0 = gwEcdsa g @ '',''; p1 = gwEddsa1 g @ '',''; p2 = gwEddsa2 g @ '','' in
      if has_prefix s p0 then verifySignatureForGNFD1Ecdsa g r (drop (length p0) s)
      else if has_prefix s p1 then verifySignatureForGNFD1Eddsa g r (drop (length p1) s) a
      else if has_prefix s p2
      then if length p1 > length s then Panic else verifySignatureForGNFD2Eddsa g r (drop (length p1) s) a
      else Fail gate_ErrUnsupportedSignType)"

text \<open>The signature of a task: \<open>None\<close> is a null address, which comes without an error when the signature does not verify.\<close>

definition verifyTaskSignature :: "'k gwenv \<Rightarrow> int list \<Rightarrow> int list \<Rightarrow> string option outcome" where
  "verifyTaskSignature g taskMsgBytes taskSignature =
     (let msg = (if length taskMsgBytes \<noteq> 32 then gwKeccak g taskMsgBytes else taskMsgBytes) in
      case gwRecover g msg taskSignature of
        Inl e \<Rightarrow> Fail e
      | Inr (addr, pk) \<Rightarrow>
          if taskSignature = [] then Panic
          else if \<not> gwSecp g pk msg (butlast taskSignature) then Ok None else Ok (Some addr))"

definition skipAuthRouterNames :: "string list" where
  "skipAuthRouterNames =
     [''RequestNonce'', ''UpdateUserPublicKey'', ''DownloadObjectByUniversalEndpoint'', ''ViewObjectByUniversalEndpoint'',
      ''GetUserBuckets'', ''ListObjectsByBucketName'', ''GetObjectMeta'', ''GetBucketMeta'', ''ListBucketsByIDs'', ''ListObjectsByIDs'']"

text \<open>The account of the context and the error of the verification; a panic goes through.\<close>

definition NewRequestContext :: "'k gwenv \<Rightarrow> http_request \<Rightarrow> AuthenticationModular \<Rightarrow> (string \<times> go_error option) option" where
  "NewRequestContext g r a =
     (if hrRoute r \<in> set skipAuthRouterNames then Some (hrAccount r, None)
      else case CheckIfSigExpiry g r of
             Some e \<Rightarrow> Some (hrAccount r, Some e)
           | None \<Rightarrow>
               (case VerifySignature g r a of
                  Panic \<Rightarrow> None
                | Fail e \<Rightarrow> Some (hrAccount r, Some e)
                | Ok account \<Rightarrow> Some (account, None)))"

subsection \<open>The signed message of a registration\<close>

text \<open>\<open>strings.ReplaceAll\<close> for a pattern of two characters.\<close>

fun replace2 :: "char \<Rightarrow> char \<Rightarrow> char \<Rightarrow> string \<Rightarrow> string" where
  "replace2 x y z (a # b # s) = (if a = x \<and> b = y then z # replace2 x y z s else a # replace2 x y z (b # s))"
| "replace2 x y z s = s"

fun read_items :: "string list \<Rightarrow> string \<times> string \<Rightarrow> go_error + string \<times> string" where
  "read_items [] (m, s) = Inr (m, s)"
| "read_items (item # items) (m, s) =
     (case split_on CHR ''='' item of
        [k, v] \<Rightarrow>
          if k = ''SignedMsg'' then read_items items (v, s)
          else if k = ''Signature'' then read_items items (m, v)
          else Inl gate_ErrAuthorizationHeaderFormat
      | _ \<Rightarrow> Inl gate_ErrAuthorizationHeaderFormat)"

definition parseSignedMsgAndSigFromRequest :: "string \<Rightarrow> go_error + string \<times> string" where
  "parseSignedMsgAndSigFromRequest requestSignature =
     (let items = split_on CHR '','' (replace2 CHR 0x5C CHR ''n'' CHR 0x0A requestSignature) in
      if length items \<noteq> 2 then Inl gate_ErrAuthorizationHeaderFormat else read_items items ('''', ''''))"

text \<open>A signature has 65 bytes, the last of which identifies the key, as 27 or 28 in older wallets.\<close>

definition VerifyPersonalSignature :: "'k gwenv \<Rightarrow> string \<Rightarrow> string \<Rightarrow> go_error + string" where
  "VerifyPersonalSignature g signedMsg sigString =
     (case gwHexutil g sigString of
        Inl e \<Rightarrow> Inl e
      | Inr signature \<Rightarrow>
          if length signature \<noteq> 65 then Inl gate_ErrSignature
          else let v = signature ! 64;
                   sig1 = (if v = 27 \<or> v = 28 then signature[64 := v - 27] else signature)
               in case gwRecover g (gwTextHash g signedMsg) sig1 of
                    Inl _ \<Rightarrow> Inl gate_ErrSignature
                  | Inr (addr, _) \<Rightarrow> Inr addr)"

abbreviation rx_field :: rx where
  "rx_field \<equiv> Group [Some_of not_newline]"

definition SignedContentV2Pattern :: "rx list" where
  "SignedContentV2Pattern =
     [rx_field, Lit '' wants you to sign in with your Mechain account:'', Any_of is_newline, rx_field, Any_of is_newline,
      Lit ''Register your identity public key '', rx_field, Any_of is_newline, Lit ''URI: '', rx_field, Any_of is_newline,
      Lit ''Version: '', rx_field, Any_of is_newline, Lit ''Chain ID: '', rx_field, Any_of is_newline,
      Lit ''Issued At: '', rx_field, Any_of is_newline, Lit ''Expiration Time: '', rx_field]"

definition signed_content_pattern :: "rx list" where
  "signed_content_pattern = SignedContentV2Pattern @
     [Any_of is_newline, Lit ''Resources:'',
      Group [Many1 [Lit (CHR 0x0A # ''- SP ''), Some_of not_newline, Lit '' (name:'', Some_of not_newline,
                    Lit '') with nonce: '', Some_of rx_digit]]]"

definition sps_pattern :: "rx list" where
  "sps_pattern =
     [Lit ''- SP '', rx_field, Lit '' (name:'', Group [Some_of not_newline, One_of rx_not_space], Lit '') with nonce: '', Group [Some_of rx_digit]]"

text \<open>The providers named in the message: a wrong nonce for this one ends the loop with an error.\<close>

fun check_sps :: "string \<Rightarrow> string \<Rightarrow> string list list \<Rightarrow> bool \<Rightarrow> go_error + bool" where
  "check_sps operator expectedNonce [] found = Inr found"
| "check_sps operator expectedNonce (m # ms) found =
     (if length m < 4 then Inl gate_ErrSignedMsgNotMatchTemplate
      else if m ! 1 = operator
      then if expectedNonce \<noteq> m ! 3 then Inl gate_ErrSignedMsgNotMatchSPNonce else check_sps operator expectedNonce ms True
      else check_sps operator expectedNonce ms found)"

definition check_fields :: "'k gwenv \<Rightarrow> string list \<Rightarrow> string \<Rightarrow> string \<Rightarrow> string \<Rightarrow> go_error option" where
  "check_fields g ms expectedDomain expectedPublicKey expectedExpiryDate =
     (if ms ! 1 \<noteq> expectedDomain then Some gate_ErrSignedMsgNotMatchDomain
      else if ms ! 3 \<noteq> expectedPublicKey then Some gate_ErrSignedMsgNotMatchPubKey
      else if ms ! 8 \<noteq> expectedExpiryDate then Some (gate_ErrSignedMsgNotMatchExpiry (gwExpiryHeader g))
      else None)"

definition verifySignedContent :: "'k gwenv \<Rightarrow> string \<Rightarrow> string \<Rightarrow> string \<Rightarrow> string \<Rightarrow> string \<Rightarrow> go_error option" where
  "verifySignedContent g signedContent expectedDomain expectedNonce expectedPublicKey expectedExpiryDate =
     (let ms = FindStringSubmatch signed_content_pattern signedContent in
      if length ms < 10 then Some gate_ErrSignedMsgNotMatchTemplate
      else case check_sps (gwOperator g) expectedNonce (FindAllStringSubmatch sps_pattern (ms ! 9)) False of
             Inl e \<Rightarrow> Some e
           | Inr found \<Rightarrow>
               if \<not> found then Some gate_ErrSignedMsgNotMatchSPAddr
               else check_fields g ms expectedDomain expectedPublicKey expectedExpiryDate)"

definition verifySignedContentV2 :: "'k gwenv \<Rightarrow> string \<Rightarrow> string \<Rightarrow> string \<Rightarrow> string \<Rightarrow> go_error option" where
  "verifySignedContentV2 g signedContent expectedDomain expectedPublicKey expectedExpiryDate =
     (let ms = FindStringSubmatch SignedContentV2Pattern signedContent in
      if length ms < 9 then Some gate_ErrSignedMsgNotMatchTemplate
      else check_fields g ms expectedDomain expectedPublicKey expectedExpiryDate)"

subsection \<open>Handlers\<close>

text \<open>What a handler answers and the state after it; \<open>None\<close> is a panic.  The error is converted for the answer.\<close>

type_synonym 'a handled = "((GfSpError option + 'a) \<times> AuthenticationModular) option"

definition reply_error :: "'k gwenv \<Rightarrow> go_error \<Rightarrow> AuthenticationModular \<Rightarrow> 'a handled" where
  "reply_error g e a = Some (Inl (MakeGfSpError (gwUnmarshal g) (Some e)), a)"

definition requestNonceHandler :: "'k gwenv \<Rightarrow> http_request \<Rightarrow> AuthenticationModular \<Rightarrow> (int \<times> int \<times> string \<times> int) handled" where
  "requestNonceHandler g r a =
     (case NewRequestContext g r a of
        None \<Rightarrow> None
      | Some _ \<Rightarrow>
          if \<not> gwIsHexAddress g (hrUserAddress r) then reply_error g gate_ErrInvalidHeader a
          else if hrDomain r = '''' then reply_error g gate_ErrInvalidDomainHeader a
          else case cli_GetAuthNonce (gwUnmarshal g) (gwLink g 1) (gwQ g 1) (hrUserAddress r) (hrDomain r) a of
                 Inl e \<Rightarrow> reply_error g e a
               | Inr resp \<Rightarrow> Some (Inr resp, a))"

text \<open>The signer of the personal message of a registration, with the message.\<close>

definition personal_signer :: "'k gwenv \<Rightarrow> http_request \<Rightarrow> go_error + string \<times> string" where
  "personal_signer g r =
     (let pre = gwPersonal g @ '','' in
      if \<not> has_prefix (hrAuthorization r) pre then Inl gate_ErrUnsupportedSignType
      else case parseSignedMsgAndSigFromRequest (drop (length pre) (hrAuthorization r)) of
             Inl e \<Rightarrow> Inl e
           | Inr (signedMsg, sigString) \<Rightarrow>
               (case VerifyPersonalSignature g signedMsg sigString of
                  Inl e \<Rightarrow> Inl e
                | Inr account \<Rightarrow> Inr (account, signedMsg)))"

definition bad_registration :: "http_request \<Rightarrow> go_error option" where
  "bad_registration r =
     (if hrDomain r = '''' \<or> hrDomain r \<noteq> hrOrigin r then Some gate_ErrInvalidDomainHeader
      else if hrPublicKey r = '''' \<or> length (hrPublicKey r) \<noteq> 64 then Some gate_ErrInvalidPublicKeyHeader
      else None)"

definition updateUserPublicKeyHandler :: "'k gwenv \<Rightarrow> http_request \<Rightarrow> AuthenticationModular \<Rightarrow> bool handled" where
  "updateUserPublicKeyHandler g r a =
     (case NewRequestContext g r a of
        None \<Rightarrow> None
      | Some _ \<Rightarrow>
      case personal_signer g r of
        Inl e \<Rightarrow> reply_error g e a
      | Inr (account, signedMsg) \<Rightarrow>
      case bad_registration r of
        Some e \<Rightarrow> reply_error g e a
      | None \<Rightarrow>
      case cli_GetAuthNonce (gwUnmarshal g) (gwLink g 1) (gwQ g 1) account (hrDomain r) a of
        Inl e \<Rightarrow> reply_error g e a
      | Inr (currentNonce, nextNonce, _, _) \<Rightarrow>
      case StringToInt32 (hrNonce r) of
        Inl _ \<Rightarrow> reply_error g gate_ErrInvalidRegNonceHeader a
      | Inr nonceInt \<Rightarrow>
          if nextNonce \<noteq> nonceInt then reply_error g gate_ErrInvalidRegNonceHeader a
          else case gwTime g (hrExpiry r) of
            None \<Rightarrow> reply_error g (gate_expiry_error g) a
          | Some expiryDate \<Rightarrow>
              if \<not> expiry_ok g expiryDate then reply_error g (gate_expiry_error g) a
              else case verifySignedContent g signedMsg (hrDomain r) (hrNonce r) (hrPublicKey r) (hrExpiry r) of
                Some e \<Rightarrow> reply_error g e a
              | None \<Rightarrow>
                  (case cli_UpdateUserPublicKey (gwUnmarshal g) (gwLink g 2) (gwQ g 2) account (hrDomain r) currentNonce nonceInt
                          (hrPublicKey r) (expiryDate div 1000000) a of
                     (Inl e, a1) \<Rightarrow> reply_error g e a1
                   | (Inr b, a1) \<Rightarrow> Some (Inr b, a1)))"

definition updateUserPublicKeyV2Handler :: "'k gwenv \<Rightarrow> http_request \<Rightarrow> AuthenticationModular \<Rightarrow> bool handled" where
  "updateUserPublicKeyV2Handler g r a =
     (case NewRequestContext g r a of
        None \<Rightarrow> None
      | Some _ \<Rightarrow>
      case personal_signer g r of
        Inl e \<Rightarrow> reply_error g e a
      | Inr (account, signedMsg) \<Rightarrow>
      case bad_registration r of
        Some e \<Rightarrow> reply_error g e a
      | None \<Rightarrow>
      case gwTime g (hrExpiry r) of
        None \<Rightarrow> reply_error g (gate_expiry_error g) a
      | Some expiryDate \<Rightarrow>
          if \<not> expiry_ok g expiryDate then reply_error g (gate_expiry_error g) a
          else case verifySignedContentV2 g signedMsg (hrDomain r) (hrPublicKey r) (hrExpiry r) of
            Some e \<Rightarrow> reply_error g e a
          | None \<Rightarrow>
              (case cli_UpdateUserPublicKeyV2 (gwUnmarshal g) (gwLink g 1) (gwQ g 1) account (hrDomain r) (hrPublicKey r)
                      (expiryDate div 1000000) a of
                 (Inl e, a1) \<Rightarrow> reply_error g e a1
               | (Inr b, a1) \<Rightarrow> Some (Inr b, a1)))"

definition listUserPublicKeyV2Handler :: "'k gwenv \<Rightarrow> http_request \<Rightarrow> AuthenticationModular \<Rightarrow> string list handled" where
  "listUserPublicKeyV2Handler g r a =
     (case NewRequestContext g r a of
        None \<Rightarrow> None
      | Some _ \<Rightarrow>
          if \<not> gwIsHexAddress g (hrUserAddress r) then reply_error g gate_ErrInvalidHeader a
          else if hrDomain r = '''' then reply_error g gate_ErrInvalidDomainHeader a
          else case cli_ListAuthKeysV2 (gwUnmarshal g) (gwLink g 1) (gwQ g 1) (hrUserAddress r) (hrDomain r) a of
                 Inl e \<Rightarrow> reply_error g e a
               | Inr ks \<Rightarrow> Some (Inr ks, a))"

text \<open>
  A user address other than the account of the context sets the error of the handler, but does not return: the next
  assignment, of reading the body, overwrites it.  The variable \<open>err\<close> is kept here to show this.
\<close>

definition deleteUserPublicKeyV2Handler :: "'k gwenv \<Rightarrow> http_request \<Rightarrow> AuthenticationModular \<Rightarrow> bool handled" where
  "deleteUserPublicKeyV2Handler g r a =
     (case NewRequestContext g r a of
        None \<Rightarrow> None
      | Some (_, Some e) \<Rightarrow> reply_error g e a
      | Some (ctxAccount, None) \<Rightarrow>
          if \<not> gwIsHexAddress g (hrUserAddress r) then reply_error g gate_ErrInvalidHeader a
          else let err = (if hrUserAddress r \<noteq> ctxAccount then Some gate_ErrNoPermission else None);
                   (data, err) = (case hrBody r of None \<Rightarrow> ('''', Some gate_ErrExceptionStream) | Some d \<Rightarrow> (d, None))
          in case err of
               Some e \<Rightarrow> reply_error g e a
             | None \<Rightarrow>
                 let publicKeys = split_on CHR '','' data
                 in if hrDomain r = '''' then reply_error g gate_ErrInvalidDomainHeader a
                    else case cli_DeleteAuthKeysV2 (gwUnmarshal g) (gwLink g 1) (gwQ g 1) (hrUserAddress r) (hrDomain r) publicKeys a of
                           (Inl e, a1) \<Rightarrow> reply_error g e a1
                         | (Inr b, a1) \<Rightarrow> Some (Inr b, a1))"

end
