(* ===== verification/SP_AuthProps.thy ===== *)
theory SP_AuthProps
  imports SP_Auth
begin

text \<open>
  What the authenticator promises: which signatures it accepts, what a registration changes, that clearing expired keys
  changes nothing of what is accepted, and when reading an object is permitted.
\<close>

subsection \<open>Signatures\<close>

lemmas eddsa2_defs = VerifyGNFD2EddsaSignature_def VerifyEddsaSignatureV2_def GetAuthKeyV2_def db_GetAuthKeyV2_def

lemma auth_row_found: "row_find key k rows = Some r \<Longrightarrow> r \<in> set rows \<and> key r = k"
  by (auto simp: row_find_def find_Some_iff)

lemma eddsa2_accepted_iff:
  "VerifyGNFD2EddsaSignature q account domain publicKey sig msg a = Ok b \<longleftrightarrow>
     b \<and> account \<noteq> '''' \<and> domain \<noteq> '''' \<and> publicKey \<noteq> '''' \<and> \<not> qFails q 0 \<and>
     (\<exists>s key pk. DecodeString sig = Some s \<and> row_find k2_key (account, domain, publicKey) (auth_keys_v2 (amDB a)) = Some key \<and>
        qNow q 0 \<le> k2ExpiryDate key \<and> DecodeString publicKey = Some pk \<and> length pk = 32 \<and> qEd25519 q pk msg s)"
  by (auto simp: eddsa2_defs k2_key_def dest!: auth_row_found split: option.splits sum.splits if_splits outcome.splits)

lemma eddsa1_accepted_iff:
  "VerifyGNFD1EddsaSignature q account domain sig msg a = Ok b \<longleftrightarrow>
     b \<and> account \<noteq> '''' \<and> domain \<noteq> '''' \<and> \<not> qFails q 0 \<and>
     (\<exists>s key pk. DecodeString sig = Some s \<and> GetAuthNonce q account domain a = Inr key \<and>
        qNow q 3 \<le> okExpiryDate key \<and> ParsePk q (okCurrentPublicKey key) = Inr pk \<and> qVerify q pk s msg = Inr True)"
  by (auto simp: VerifyGNFD1EddsaSignature_def VerifyEddsaSignature_def GetAuthNonce_def GetAuthKey_def
      split: option.splits sum.splits if_splits)

lemma DecodeString_length: "DecodeString s = Some b \<Longrightarrow> length s = 2 * length b"
  by (induction s arbitrary: b rule: DecodeString.induct) (auto split: option.splits)

lemma eddsa2_no_panic:
  assumes "\<forall>r\<in>set (auth_keys_v2 (amDB a)). length (k2PublicKey r) = 64"
  shows "VerifyGNFD2EddsaSignature q account domain publicKey sig msg a \<noteq> Panic"
  using assms by (auto simp: eddsa2_defs dest!: auth_row_found DecodeString_length
      split: option.splits sum.splits if_splits outcome.splits)

subsection \<open>Clearing expired keys\<close>

definition k2_unique :: "AuthenticationModular \<Rightarrow> bool" where
  "k2_unique a \<longleftrightarrow> distinct (map k2_key (auth_keys_v2 (amDB a)))"

lemma row_find_filter:
  "distinct (map key rows) \<Longrightarrow> row_find key k (filter p rows) =
     (case row_find key k rows of Some r \<Rightarrow> if p r then Some r else None | None \<Rightarrow> None)"
proof (induction rows)
  case Nil
  then show ?case by (simp add: row_find_def)
next
  case (Cons r rows)
  have "row_find key k (filter p rows) = None" if "key r = k"
    using Cons.prems that by (auto simp: row_find_def find_None_iff) (metis image_eqI)
  with Cons show ?case by (auto simp: row_find_def split: option.splits)
qed

lemma clear_expired_accepts:
  assumes "k2_unique a" "qNow q 0 \<le> qNow q1 0" "ClearExpiredOffChainAuthKeys q (amDB a) = (e, db)"
  shows "VerifyGNFD2EddsaSignature q1 account domain publicKey sig msg (a\<lparr>amDB := db\<rparr>) = Ok b \<longleftrightarrow>
         VerifyGNFD2EddsaSignature q1 account domain publicKey sig msg a = Ok b"
  using assms unfolding eddsa2_accepted_iff
  by (auto simp: k2_unique_def ClearExpiredOffChainAuthKeys_def row_find_filter split: if_splits option.splits)

subsection \<open>Registering with a nonce\<close>

lemma update_fields_key [simp]: "ok_key (update_fields pk n t now r) = ok_key r"
  by (auto simp: update_fields_def ok_key_def Let_def)

lemma update_condition_key: "user \<noteq> '''' \<Longrightarrow> domain \<noteq> '''' \<Longrightarrow> update_condition user domain r \<longleftrightarrow> ok_key r = (user, domain)"
  by (auto simp: update_condition_def ok_key_def)

lemma row_find_update:
  "row_find key k (map (\<lambda>r. if key r = k then f r else r) rows) = map_option f (row_find key k rows)"
  if "\<And>r. key (f r) = key r"
  using that by (induction rows) (auto simp: row_find_def)

text \<open>
  A registration under a known account and domain succeeds only with the current nonce; then the row has the new key, its nonce
  and expiry, and any other row is as before.  With another nonce nothing changes.
\<close>

lemma new_auth_key_key [simp]: "ok_key (new_auth_key q user domain) = (user, domain)"
  by (simp add: new_auth_key_def ok_key_def)

lemma UpdateAuthKey_known:
  assumes "row_find ok_key (user, domain) (auth_keys db) = Some row"
    "distinct (map ok_key (auth_keys db))" "okCurrentNonce row \<noteq> oldNonce"
  shows "\<exists>m. UpdateAuthKey q user domain oldNonce n pk t db = (Some m, db)"
proof -
  have row: "row \<in> set (auth_keys db)" "ok_key row = (user, domain)" using auth_row_found [OF assms(1)] by auto
  have "find (\<lambda>r. ok_key r = (user, domain) \<and> okCurrentNonce r = oldNonce) (auth_keys db) = None"
    unfolding find_None_iff using row assms(2, 3) by (metis distinct_map inj_onD)
  moreover have "\<exists>m. InsertAuthKey q 1 (new_auth_key q user domain) db = (Some m, db)"
    using assms(1) by (simp add: InsertAuthKey_def Let_def)
  ultimately show ?thesis by (auto simp: UpdateAuthKey_defs errIsNotFound_def Let_def)
qed

text \<open>The table the update works on is the one given, or has a first row for the account and domain.\<close>

abbreviation updated_rows :: "'k aqenv \<Rightarrow> string \<Rightarrow> string \<Rightarrow> int \<Rightarrow> string \<Rightarrow> int \<Rightarrow> OffChainAuthKey list \<Rightarrow> OffChainAuthKey list" where
  "updated_rows q user domain n pk t rows \<equiv>
     map (\<lambda>r. if update_condition user domain r then update_fields pk n t (qNow q 3) r else r) rows"

lemma UpdateAuthKey_split:
  assumes "UpdateAuthKey q user domain oldNonce n pk t db = (e, db1)" "db1 \<noteq> db \<or> e = None"
  shows "\<exists>new. (new = [] \<or> new = [new_auth_key q user domain]) \<and>
    (db1 = db\<lparr>auth_keys := auth_keys db @ new\<rparr> \<and> e \<noteq> None \<or>
     db1 = db\<lparr>auth_keys := updated_rows q user domain n pk t (auth_keys db @ new)\<rparr> \<and>
     (e = None \<longrightarrow> length (filter (\<lambda>r. update_condition user domain r \<and> update_fields pk n t (qNow q 3) r \<noteq> r) (auth_keys db @ new)) = 1))"
proof (cases "find (\<lambda>r. ok_key r = (user, domain) \<and> okCurrentNonce r = oldNonce) (auth_keys db) = None")
  case True
  then have ok: "\<not> qFails q 0" "\<not> qFails q (Suc 0)" "row_find ok_key (user, domain) (auth_keys db) = None"
    using assms by (auto simp: UpdateAuthKey_defs InsertAuthKey_def errIsNotFound_def Let_def split: if_splits)
  show ?thesis
    by (intro exI [of _ "[new_auth_key q user domain]"], insert True ok assms(1))
      (auto simp: UpdateAuthKey_defs InsertAuthKey_def errIsNotFound_def Let_def simp del: filter_append map_append split: if_splits)
next
  case False
  then have "\<not> qFails q 0" using assms by (auto simp: UpdateAuthKey_defs errIsNotFound_def Let_def)
  with False assms show ?thesis
    by (intro exI [of _ "[]"]) (auto simp: UpdateAuthKey_defs Let_def split: if_splits)
qed

lemma UpdateAuthKey_ok:
  assumes "user \<noteq> ''''" "domain \<noteq> ''''" "UpdateAuthKey q user domain oldNonce n pk t db = (None, db1)"
  shows "\<exists>row. row_find ok_key (user, domain) (auth_keys db1) = Some (update_fields pk n t (qNow q 3) row) \<and>
    filter (\<lambda>r. ok_key r \<noteq> (user, domain)) (auth_keys db1) = filter (\<lambda>r. ok_key r \<noteq> (user, domain)) (auth_keys db) \<and>
    auth_keys_v2 db1 = auth_keys_v2 db"
proof -
  let ?f = "update_fields pk n t (qNow q 3)" and ?is = "\<lambda>r. ok_key r = (user, domain)"
  obtain new where new: "new = [] \<or> new = [new_auth_key q user domain]"
    and one: "length (filter (\<lambda>r. ?is r \<and> ?f r \<noteq> r) (auth_keys db @ new)) = 1"
    and db1: "db1 = db\<lparr>auth_keys := map (\<lambda>r. if ?is r then ?f r else r) (auth_keys db @ new)\<rparr>"
    using UpdateAuthKey_split [OF assms(3)] unfolding update_condition_key [OF assms(1, 2)] by blast
  from one have "filter (\<lambda>r. ?is r \<and> ?f r \<noteq> r) (auth_keys db @ new) \<noteq> []" by fastforce
  then obtain r where "r \<in> set (auth_keys db @ new)" "?is r" by (auto simp: filter_empty_conv)
  then obtain row where row: "row_find ok_key (user, domain) (auth_keys db @ new) = Some row"
    by (cases "row_find ok_key (user, domain) (auth_keys db @ new)") (auto simp: row_find_def find_None_iff)
  have kept: "filter (\<lambda>r. \<not> ?is r) (map (\<lambda>r. if ?is r then ?f r else r) rows) = filter (\<lambda>r. \<not> ?is r) rows" for rows
    by (induction rows) auto
  show ?thesis using row new kept [of "auth_keys db @ new"] unfolding db1 by (auto simp: row_find_update simp del: map_append)
qed

text \<open>Of rows with distinct keys, an update of one key that changes its row touches exactly one.\<close>

lemma one_touched:
  assumes "row_find ok_key k rows = Some row" "distinct (map ok_key rows)" "f row \<noteq> row"
  shows "length (filter (\<lambda>r. ok_key r = k \<and> f r \<noteq> r) rows) = 1"
  using assms
proof (induction rows)
  case (Cons r rows)
  show ?case
  proof (cases "ok_key r = k")
    case True
    then have "filter (\<lambda>r. ok_key r = k \<and> f r \<noteq> r) rows = []" using Cons.prems(2) by (auto simp: filter_empty_conv image_iff)
    then show ?thesis using True Cons.prems(1,3) by (simp add: row_find_def)
  qed (use Cons in \<open>simp add: row_find_def\<close>)
qed (simp add: row_find_def)

lemma update_row_ok:
  assumes "row_find ok_key (user, domain) (auth_keys db) = Some row" "distinct (map ok_key (auth_keys db))" "user \<noteq> ''''" "domain \<noteq> ''''"
    "\<not> qFails q 2" "pk \<noteq> ''''" "okCurrentPublicKey row \<noteq> pk"
  shows "\<exists>db1 row1. auth_update_row q user domain n pk t db = (None, db1) \<and> row_find ok_key (user, domain) (auth_keys db1) = Some row1
    \<and> distinct (map ok_key (auth_keys db1)) \<and> okCurrentPublicKey row1 = pk \<and> (n \<noteq> 0 \<longrightarrow> okCurrentNonce row1 = n)"
proof -
  let ?f = "update_fields pk n t (qNow q 3)"
  have f: "okCurrentPublicKey (?f r) = pk" "n \<noteq> 0 \<longrightarrow> okCurrentNonce (?f r) = n" for r using assms(6) by (simp_all add: update_fields_def Let_def)
  have "?f row \<noteq> row" using f(1) [of row] assms(7) by auto
  note one = one_touched [where f = ?f, OF assms(1,2) this]
  define db1 where "db1 = db\<lparr>auth_keys := map (\<lambda>r. if ok_key r = (user, domain) then ?f r else r) (auth_keys db)\<rparr>"
  have "auth_update_row q user domain n pk t db = (None, db1)"
    using one assms(3-5) by (simp add: auth_update_row_def Let_def update_condition_key db1_def)
  moreover have "row_find ok_key (user, domain) (auth_keys db1) = Some (?f row)" using assms(1) by (simp add: db1_def row_find_update)
  moreover have "map ok_key (auth_keys db1) = map ok_key (auth_keys db)" by (auto simp: db1_def update_fields_def ok_key_def Let_def)
  ultimately show ?thesis using assms(2) f by metis
qed

text \<open>
  C37: Two registrations for the same account and domain, with the same nonce and different keys, that both made their query before either
  updated the row: both updates are reported as done, and the row has the key of the second, though the same request
  made after the first was done is refused.
\<close>

theorem nonce_accepted_twice:
  assumes "row_find ok_key (user, domain) (auth_keys db) = Some row" "distinct (map ok_key (auth_keys db))" "user \<noteq> ''''" "domain \<noteq> ''''"
    "okCurrentNonce row \<noteq> n" "n \<noteq> 0" "\<forall>i. \<not> qFails q1 i \<and> \<not> qFails q2 i" "pk1 \<notin> {'''', okCurrentPublicKey row}" "pk2 \<notin> {'''', pk1}"
  shows "\<exists>db1 db2 row2. auth_query_insert q1 user domain (okCurrentNonce row) db = (None, db)
    \<and> auth_query_insert q2 user domain (okCurrentNonce row) db = (None, db)
    \<and> auth_update_row q1 user domain n pk1 t1 db = (None, db1) \<and> auth_update_row q2 user domain n pk2 t2 db1 = (None, db2)
    \<and> row_find ok_key (user, domain) (auth_keys db2) = Some row2 \<and> okCurrentPublicKey row2 = pk2
    \<and> (\<exists>m. UpdateAuthKey q2 user domain (okCurrentNonce row) n pk2 t2 db1 = (Some m, db1))"
proof -
  have row: "row \<in> set (auth_keys db)" "ok_key row = (user, domain)" using auth_row_found [OF assms(1)] by auto
  then have find_row: "find (\<lambda>r. ok_key r = (user, domain) \<and> okCurrentNonce r = okCurrentNonce row) (auth_keys db) \<noteq> None" by (auto simp: find_None_iff)
  obtain db1 row1 where 1: "auth_update_row q1 user domain n pk1 t1 db = (None, db1)" "row_find ok_key (user, domain) (auth_keys db1) = Some row1"
    "distinct (map ok_key (auth_keys db1))" "okCurrentPublicKey row1 = pk1" "okCurrentNonce row1 = n"
    using update_row_ok [OF assms(1-4), of q1 pk1 n t1] assms(6-8) by auto
  obtain db2 row2 where 2: "auth_update_row q2 user domain n pk2 t2 db1 = (None, db2)" "row_find ok_key (user, domain) (auth_keys db2) = Some row2"
    "okCurrentPublicKey row2 = pk2"
    using update_row_ok [OF 1(2,3) assms(3,4), of q2 pk2 n t2] assms(7,9) 1(4) by auto
  have "\<exists>m. UpdateAuthKey q2 user domain (okCurrentNonce row) n pk2 t2 db1 = (Some m, db1)"
    using UpdateAuthKey_known [OF 1(2,3)] 1(5) assms(5) by metis
  moreover have "auth_query_insert q1 user domain (okCurrentNonce row) db = (None, db)" "auth_query_insert q2 user domain (okCurrentNonce row) db = (None, db)"
    using find_row assms(7) by (auto simp: auth_query_insert_def Let_def)
  ultimately show ?thesis using 1(1) 2 by blast
qed

definition race_env :: "unit aqenv" where
  "race_env = \<lparr>qFails = \<lambda>_. False, qMsg = \<lambda>_. [], qNow = \<lambda>_. 0, qUnmarshal = \<lambda>_. None, qHexError = \<lambda>_. [], qParsePk = \<lambda>_. Inr ((), 32),
     qVerify = \<lambda>_ _ _. Inr True, qEd25519 = \<lambda>_ _ _. True\<rparr>"

definition race_db :: authdb where
  "race_db = \<lparr>auth_keys = [new_auth_key race_env ''a'' ''d''], auth_keys_v2 = []\<rparr>"

theorem nonce_accepted_twice_witness:
  "\<exists>db1 db2 row2. auth_update_row race_env ''a'' ''d'' 1 ''k'' 5 race_db = (None, db1) \<and> auth_update_row race_env ''a'' ''d'' 1 ''m'' 5 db1 = (None, db2)
    \<and> row_find ok_key (''a'', ''d'') (auth_keys db2) = Some row2 \<and> okCurrentPublicKey row2 = ''m''"
  using nonce_accepted_twice [of "''a''" "''d''" race_db "new_auth_key race_env ''a'' ''d''" 1 race_env race_env "''k''" "''m''" 5 5]
  by (auto simp: race_db_def row_find_def ok_key_def new_auth_key_def race_env_def)

subsection \<open>Keys stay unique\<close>

lemma k2_unique_insert:
  assumes "distinct (map k2_key (auth_keys_v2 db))" "InsertAuthKeyV2 q rec db = (e, db1)"
  shows "distinct (map k2_key (auth_keys_v2 db1))"
proof -
  have same: "map k2_key (row_map k2_key k (\<lambda>r. r\<lparr>k2ExpiryDate := t, k2ModifiedTime := m\<rparr>) rows) = map k2_key rows" for k t m rows
    by (induction rows) (auto simp: row_map_def k2_key_def)
  show ?thesis using assms
    by (auto simp: InsertAuthKeyV2_def same row_find_def find_None_iff split: if_splits) blast
qed

lemma k2_unique_filter: "distinct (map k2_key rows) \<Longrightarrow> distinct (map k2_key (filter p rows))"
  by (simp add: distinct_map_filter)

subsection \<open>Reading an object\<close>

lemma of_answer_Ok [simp]: "of_answer x = Ok b \<longleftrightarrow> x = Inr b"
  by (auto simp: of_answer_def split: sum.splits)

lemma query_ok: "QueryBucketInfoAndObjectInfo env bucket object = (b, ob, None) \<longleftrightarrow>
  aeBucket env bucket = Inr b \<and> aeObject env bucket object = Inr ob"
  by (auto simp: QueryBucketInfoAndObjectInfo_def split: sum.splits)

lemma self_and_primary_ok: "self_and_primary env b a = (Inr (self, primary), a1) \<longleftrightarrow>
  auth_getSPID env a = (Inr self, a1) \<and> auth_GetBucketPrimarySPID env b = Inr primary"
  by (auto simp: self_and_primary_def split: sum.splits prod.splits)

lemma get_object_allowed_iff:
  "verify_get_object env account bucket object a = (Ok True, a1) \<longleftrightarrow>
     (\<exists>b ob extra self. aeBucket env bucket = Inr b \<and> aeObject env bucket object = Inr ob \<and>
        aeExtra env bucket = Inr extra \<and> extra \<noteq> Some True \<and>
        auth_getSPID env a = (Inr self, a1) \<and> auth_GetBucketPrimarySPID env b = Inr self \<and>
        auth_object_status ob \<in> {OBJECT_STATUS_SEALED, OBJECT_STATUS_CREATED} \<and>
        aeStream env b = Inr True \<and> aePermission env account bucket object = Inr True)" (is "?l \<longleftrightarrow> ?r")
proof
  assume l: ?l
  then obtain b ob where q: "QueryBucketInfoAndObjectInfo env bucket object = (b, ob, None)"
    by (cases "QueryBucketInfoAndObjectInfo env bucket object") (auto simp: verify_get_object_def split: option.splits)
  with l obtain extra where x: "aeExtra env bucket = Inr extra" "extra \<noteq> Some True"
    by (auto simp: verify_get_object_def split: sum.splits if_splits)
  with l q obtain self primary a2 where s: "self_and_primary env b a = (Inr (self, primary), a2)"
    by (cases "self_and_primary env b a") (auto simp: verify_get_object_def split: sum.splits if_splits)
  have "aeStream env b = Inr True \<and> aePermission env account bucket object = Inr True \<and> a2 = a1 \<and> primary = self \<and>
      auth_object_status ob \<in> {OBJECT_STATUS_SEALED, OBJECT_STATUS_CREATED}"
    using l q x s by (auto simp: verify_get_object_def split: sum.splits if_splits)
  with q x s show ?r unfolding query_ok self_and_primary_ok by blast
next
  assume ?r
  then obtain b ob extra self where r: "QueryBucketInfoAndObjectInfo env bucket object = (b, ob, None)"
    "aeExtra env bucket = Inr extra" "extra \<noteq> Some True" "self_and_primary env b a = (Inr (self, self), a1)"
    "auth_object_status ob \<in> {OBJECT_STATUS_SEALED, OBJECT_STATUS_CREATED}" "aeStream env b = Inr True"
    "aePermission env account bucket object = Inr True"
    unfolding query_ok self_and_primary_ok by blast
  then show ?l by (auto simp: verify_get_object_def)
qed

end
