(* ===== verification/SP_GaterAuthProps.thy ===== *)
theory SP_GaterAuthProps
  imports SP_GaterAuth SP_AuthProps
begin

text \<open>
  What a request must bring to be accepted, what a registration proves about the key it registers, that a registration
  with a nonce is accepted once, and who can delete keys.
\<close>

subsection \<open>Calls\<close>

text \<open>An error that is still one after it went through an answer; an error with inner code 0 is not.\<close>

definition reported :: "unmarshal \<Rightarrow> go_error \<Rightarrow> bool" where
  "reported um e \<longleftrightarrow> MakeGfSpError um (Some e) \<noteq> None"

lemma reported_iff: "reported um e \<longleftrightarrow> (\<forall>x. e = GfSpErr x \<longrightarrow> InnerCode x \<noteq> 0)"
  by (auto simp: reported_def MakeGfSpError_def Let_def split: go_error.splits option.splits if_splits)

lemma over_rpc_Inr: "over_rpc um link (served um zero x) = Inr v \<longleftrightarrow>
  link = LinkUp \<and> (x = Inr v \<or> (\<exists>e. x = Inl e \<and> \<not> reported um e \<and> v = zero))"
  by (auto simp: over_rpc_def served_def reported_def split: rpc_link.splits sum.splits option.splits)

lemma call_outcome_Ok: "call_outcome um link r = Ok v \<longleftrightarrow>
  link = LinkUp \<and> (r = Ok v \<or> (\<exists>e. r = Fail e \<and> \<not> reported um e \<and> \<not> v))"
  by (cases r; cases link)
    (auto simp: call_outcome_def over_rpc_def served_def handled_call_def reported_def Let_def split: option.splits sum.splits)

subsection \<open>Accepted requests\<close>

text \<open>Messages of the hexadecimal decoder carry no encoded error.\<close>

definition hex_errors_plain :: "'k aqenv \<Rightarrow> bool" where
  "hex_errors_plain q \<longleftrightarrow> (\<forall>s. str_index ''desc = '' (qHexError q s) = None)"

lemma as_gfsp_plain: "str_index ''desc = '' m = None \<Longrightarrow> reported um (as_gfsp q (OtherErr m))"
  by (simp add: as_gfsp_def MakeGfSpError_def reported_def)

lemma as_gfsp_coded: "InnerCode x \<noteq> 0 \<Longrightarrow> reported um (as_gfsp q (GfSpErr x))"
  by (simp add: as_gfsp_def MakeGfSpError_def reported_def)

lemma auth_err_coded [simp]: "inner \<noteq> 0 \<Longrightarrow> reported um (auth_err http inner d)"
  by (simp add: auth_err_def reported_iff)

lemma eddsa2_errors_coded:
  assumes "hex_errors_plain q" "VerifyGNFD2EddsaSignature q account domain publicKey sig msg a = Fail e"
  shows "reported um e"
proof -
  have other: "reported um (OtherErr m)" for m by (simp add: reported_iff)
  have bad: "reported um (as_gfsp q auth_ErrBadSignature)"
    by (simp add: auth_ErrBadSignature_def auth_err_def as_gfsp_coded)
  have hex: "reported um (as_gfsp q (OtherErr (qHexError q m)))" for m
    using assms(1) by (simp add: hex_errors_plain_def as_gfsp_plain)
  show ?thesis using assms(2) other bad hex
    by (auto simp: eddsa2_defs auth_ErrBadSignature_def auth_ErrPublicKeyNotExist_def auth_ErrPublicKeyExpired_def
        auth_ErrInvalidAddressOrDomainOrPublicKey_def split: option.splits sum.splits if_splits outcome.splits)
qed

text \<open>
  C21: A request under the scheme with registered keys is accepted only for the address it names, only with a key that is registered
  for that address and domain and has not expired, and only if the signature verifies over the request with that key.
\<close>

theorem eddsa_request_accepted:
  assumes "has_prefix (hrAuthorization r) (gwEddsa2 g @ '','')" "\<not> has_prefix (hrAuthorization r) (gwEcdsa g @ '','')"
    "\<not> has_prefix (hrAuthorization r) (gwEddsa1 g @ '','')" "hex_errors_plain (gwQ g 0)" "VerifySignature g r a = Ok account"
  shows "account = gwAddress g (hrUserAddress r) \<and>
    (\<exists>sig s key pk. parseSignatureFromRequest (drop (length (gwEddsa1 g @ '','')) (hrAuthorization r)) = Inr sig \<and>
       DecodeString sig = Some s \<and> key \<in> set (auth_keys_v2 (amDB a)) \<and>
       k2_key key = (hrUserAddress r, hrDomain r, hrPublicKey r) \<and> qNow (gwQ g 0) 0 \<le> k2ExpiryDate key \<and>
       DecodeString (hrPublicKey r) = Some pk \<and> length pk = 32 \<and> qEd25519 (gwQ g 0) pk (gwMsgToSign g r) s)"
proof -
  obtain sig where sig: "parseSignatureFromRequest (drop (length (gwEddsa1 g @ '','')) (hrAuthorization r)) = Inr sig"
    and acc: "verified_address g (hrUserAddress r) (cli_VerifyGNFD2EddsaSignature (gwUnmarshal g) (gwLink g 0) (gwQ g 0)
        (hrUserAddress r) (hrDomain r) (hrPublicKey r) sig (gwMsgToSign g r) a) = Ok account"
    using assms by (auto simp: VerifySignature_def verifySignatureForGNFD2Eddsa_def verify_eddsa2_def Let_def
        split: if_splits sum.splits)
  from acc obtain v where addr: "account = gwAddress g (hrUserAddress r)"
    and call: "cli_VerifyGNFD2EddsaSignature (gwUnmarshal g) (gwLink g 0) (gwQ g 0)
        (hrUserAddress r) (hrDomain r) (hrPublicKey r) sig (gwMsgToSign g r) a = Ok v"
    by (auto simp: verified_address_def split: outcome.splits)
  then have "VerifyGNFD2EddsaSignature (gwQ g 0) (hrUserAddress r) (hrDomain r) (hrPublicKey r) sig (gwMsgToSign g r) a = Ok v"
    using eddsa2_errors_coded [OF assms(4)] by (auto simp: cli_VerifyGNFD2EddsaSignature_def call_outcome_Ok)
  then show ?thesis using sig addr unfolding eddsa2_accepted_iff by (auto dest!: auth_row_found)
qed

subsection \<open>The text of a registration\<close>

definition says_registration :: "string \<Rightarrow> string \<Rightarrow> string \<Rightarrow> string \<Rightarrow> bool" where
  "says_registration msg domain key expiry \<longleftrightarrow>
     (\<exists>pre mid1 mid2 post. msg = pre @ domain @ '' wants you to sign in with your Mechain account:'' @ mid1 @
        ''Register your identity public key '' @ key @ mid2 @ ''Expiration Time: '' @ expiry @ post)"

lemma lang_Nil: "rx_lang [] c caps \<longleftrightarrow> c = [] \<and> caps = []"
  by (auto intro: rx_Nil elim: rx_lang_NilE)

lemma lang_Lit: "rx_lang (Lit l # its) c caps \<longleftrightarrow> (\<exists>c1. c = l @ c1 \<and> rx_lang its c1 caps)"
  by (auto intro: rx_Lit elim: rx_lang_LitE)

lemma lang_Any: "rx_lang (Any_of p # its) c caps \<longleftrightarrow> (\<exists>n c1. c = n @ c1 \<and> list_all p n \<and> rx_lang its c1 caps)"
  by (auto intro: rx_Any elim!: rx_lang_AnyE)

lemma lang_field: "rx_lang (Group [Some_of p] # its) c caps \<longleftrightarrow>
  (\<exists>f c1 caps1. c = f @ c1 \<and> caps = f # caps1 \<and> f \<noteq> [] \<and> list_all p f \<and> rx_lang its c1 caps1)" (is "?l \<longleftrightarrow> ?r")
proof
  assume ?l
  then show ?r by (auto elim!: rx_lang_GroupE rx_lang_SomeE rx_lang_NilE)
next
  assume ?r
  then obtain f c1 caps1 where f: "c = f @ c1" "caps = f # caps1" "f \<noteq> []" "list_all p f" "rx_lang its c1 caps1" by auto
  then have "rx_lang [Some_of p] f []" using rx_Some [OF _ _ rx_Nil, of f p] by simp
  then show ?l using f rx_Group [of "[Some_of p]" f "[]" its c1 caps1] by simp
qed

text \<open>The shape of a template of eight fields, with a rest.\<close>

lemma template_language:
  assumes "rx_lang ([F, Lit l1, Any_of p, F, Any_of p, Lit l2, F, Any_of p, Lit l3, F, Any_of p, Lit l4, F, Any_of p, Lit l5, F,
                    Any_of p, Lit l6, F, Any_of p, Lit l7, F] @ its) whole caps" and "F = Group [Some_of q]"
  shows "\<exists>d u k f4 f5 f6 f7 ex rest mid1 mid2 post. caps = [d, u, k, f4, f5, f6, f7, ex] @ rest \<and>
    whole = d @ l1 @ mid1 @ l2 @ k @ mid2 @ l7 @ ex @ post \<and> rx_lang its post rest"
proof -
  from assms(1) have "\<exists>d n1 u n2 k n3 f4 n4 f5 n5 f6 n6 f7 n7 ex rest post. caps = d # u # k # f4 # f5 # f6 # f7 # ex # rest \<and>
      whole = d @ l1 @ n1 @ u @ n2 @ l2 @ k @ n3 @ l3 @ f4 @ n4 @ l4 @ f5 @ n5 @ l5 @ f6 @ n6 @ l6 @ f7 @ n7 @ l7 @ ex @ post \<and>
      rx_lang its post rest"
    unfolding assms(2) append_Cons append_Nil lang_Lit lang_Any lang_field
    by (elim exE conjE, hypsubst) (intro exI conjI, rule refl, rule refl, assumption)
  then obtain d n1 u n2 k n3 f4 n4 f5 n5 f6 n6 f7 n7 ex rest post
    where "caps = d # u # k # f4 # f5 # f6 # f7 # ex # rest"
      "whole = d @ l1 @ n1 @ u @ n2 @ l2 @ k @ n3 @ l3 @ f4 @ n4 @ l4 @ f5 @ n5 @ l5 @ f6 @ n6 @ l6 @ f7 @ n7 @ l7 @ ex @ post"
      "rx_lang its post rest" by (elim exE conjE)
  then show ?thesis
    by - (rule exI [of _ d], rule exI [of _ u], rule exI [of _ k], rule exI [of _ f4], rule exI [of _ f5], rule exI [of _ f6], rule exI [of _ f7], rule exI [of _ ex], rule exI [of _ rest], rule exI [of _ "n1 @ u @ n2"], rule exI [of _ "n3 @ l3 @ f4 @ n4 @ l4 @ f5 @ n5 @ l5 @ f6 @ n6 @ l6 @ f7 @ n7"], rule exI [of _ post], simp)
qed

lemma v2_template:
  assumes "rx_lang (SignedContentV2Pattern @ its) whole caps"
  shows "\<exists>d u k f4 f5 f6 f7 ex rest post. caps = [d, u, k, f4, f5, f6, f7, ex] @ rest \<and>
    says_registration whole d k ex \<and> rx_lang its post rest"
proof -
  obtain d u k f4 f5 f6 f7 ex rest mid1 mid2 post where t: "caps = [d, u, k, f4, f5, f6, f7, ex] @ rest"
    "whole = d @ '' wants you to sign in with your Mechain account:'' @ mid1 @ ''Register your identity public key '' @ k @ mid2
       @ ''Expiration Time: '' @ ex @ post" "rx_lang its post rest"
    using template_language [OF assms [unfolded SignedContentV2Pattern_def] refl] by blast
  have "says_registration whole d k ex" unfolding says_registration_def
    by (rule exI [of _ "[]"], rule exI [of _ mid1], rule exI [of _ mid2], rule exI [of _ post]) (simp only: t(2) append_Nil)
  with t show ?thesis by blast
qed

lemma says_registration_inside: "says_registration c d k ex \<Longrightarrow> says_registration (pre @ c @ post) d k ex"
  unfolding says_registration_def by (metis append_assoc)

lemma check_fields_None:
  "check_fields g ms domain key expiry = None \<longleftrightarrow> ms ! 1 = domain \<and> ms ! 3 = key \<and> ms ! 8 = expiry"
  by (auto simp: check_fields_def)

lemma signed_v2_says:
  assumes "verifySignedContentV2 g msg domain key expiry = None"
  shows "says_registration msg domain key expiry"
proof -
  obtain whole caps where ms: "FindStringSubmatch SignedContentV2Pattern msg = whole # caps"
    using assms by (cases "FindStringSubmatch SignedContentV2Pattern msg") (auto simp: verifySignedContentV2_def)
  then have fields: "(whole # caps) ! 1 = domain" "(whole # caps) ! 3 = key" "(whole # caps) ! 8 = expiry"
    using assms by (auto simp: verifySignedContentV2_def Let_def check_fields_None split: if_splits)
  from submatch_sound [OF ms] obtain pre post where msg: "msg = pre @ whole @ post" "rx_lang SignedContentV2Pattern whole caps" by blast
  obtain d u k f4 f5 f6 f7 ex rest where "caps = [d, u, k, f4, f5, f6, f7, ex] @ rest" "says_registration whole d k ex"
    using v2_template [of "[]" whole caps] msg(2) by (auto simp del: append_Cons)
  then show ?thesis using fields msg(1) by (auto intro: says_registration_inside)
qed

text \<open>In the message with nonces, the nonce for this provider is digits, and is the one in the header.\<close>

lemma all_matches_sound: "m \<in> set (FindAllStringSubmatch its s) \<Longrightarrow> \<exists>whole caps. m = whole # caps \<and> rx_lang its whole caps"
proof (induction its s rule: FindAllStringSubmatch.induct)
  case (1 its s)
  then obtain c caps r where l: "leftmost its s = Some (c, caps, r)"
    by (cases "leftmost its s") (auto simp: FindAllStringSubmatch.simps [of its s])
  with 1 leftmost_sound [OF l] show ?case
    by (auto simp: FindAllStringSubmatch.simps [of its s] split: if_splits)
qed

lemma sps_nonce_digits:
  assumes "rx_lang sps_pattern whole caps"
  shows "\<exists>sp name nonce. caps = [sp, name, nonce] \<and> nonce \<noteq> [] \<and> list_all rx_digit nonce"
proof -
  have split: "rx_lang (Group inner # its) c caps \<Longrightarrow> \<exists>f fcaps c1 caps1. c = f @ c1 \<and> caps = f # fcaps @ caps1 \<and>
      rx_lang inner f fcaps \<and> rx_lang its c1 caps1" for inner its c caps
    by (auto elim!: rx_lang_GroupE)
  have one: "rx_lang [Some_of p, One_of q] f fcaps \<Longrightarrow> fcaps = []" for p q f fcaps
    by (auto elim!: rx_lang_SomeE rx_lang_OneE rx_lang_NilE)
  from assms obtain sp c1 caps1 where "caps = sp # caps1"
    "rx_lang (Group [Some_of not_newline, One_of rx_not_space] # [Lit '') with nonce: '', Group [Some_of rx_digit]]) c1 caps1"
    unfolding sps_pattern_def lang_Lit lang_field by blast
  with split one obtain name c2 caps2 where "caps = sp # name # caps2" "rx_lang [Lit '') with nonce: '', Group [Some_of rx_digit]] c2 caps2"
    by (metis append_Nil)
  then show ?thesis unfolding lang_Lit lang_field lang_Nil by blast
qed

lemma check_sps_found:
  "check_sps operator nonce ms found = Inr True \<Longrightarrow> found \<or> (\<exists>m\<in>set ms. length m \<ge> 4 \<and> m ! 1 = operator \<and> m ! 3 = nonce)"
  by (induction operator nonce ms found rule: check_sps.induct) (auto split: if_splits)

lemma signed_says:
  assumes "verifySignedContent g msg domain nonce key expiry = None"
  shows "says_registration msg domain key expiry \<and> nonce \<noteq> [] \<and> list_all rx_digit nonce"
proof -
  let ?ms = "FindStringSubmatch signed_content_pattern msg"
  have ok: "\<not> length ?ms < 10" "check_sps (gwOperator g) nonce (FindAllStringSubmatch sps_pattern (?ms ! 9)) False = Inr True"
    "check_fields g ?ms domain key expiry = None"
    using assms by (auto simp: verifySignedContent_def Let_def split: if_splits sum.splits)
  then obtain whole caps where ms: "?ms = whole # caps" by (cases ?ms) auto
  from submatch_sound [OF ms] obtain pre post where msg: "msg = pre @ whole @ post" "rx_lang signed_content_pattern whole caps" by blast
  obtain d u k f4 f5 f6 f7 ex rest where "caps = [d, u, k, f4, f5, f6, f7, ex] @ rest" "says_registration whole d k ex"
    using v2_template [OF msg(2) [unfolded signed_content_pattern_def]] by blast
  then have says: "says_registration msg domain key expiry"
    using ok(3) ms msg(1) by (auto simp: check_fields_None intro: says_registration_inside)
  obtain m where m: "m \<in> set (FindAllStringSubmatch sps_pattern (?ms ! 9))" "m ! 3 = nonce"
    using check_sps_found [OF ok(2)] by auto
  from all_matches_sound [OF m(1)] obtain w c where w: "m = w # c" "rx_lang sps_pattern w c" by blast
  then show ?thesis using says sps_nonce_digits [OF w(2)] m(2) by auto
qed

subsection \<open>Expiry dates\<close>

text \<open>An expiry date is accepted from one second before now until a second after the longest age.\<close>

lemma expiry_ok_bounds:
  assumes "expiry_ok g t"
  shows "gwNow g - 1000000000 < t \<and> t < gwNow g + (gwMaxAge g + 1) * 1000000000"
proof -
  define d where "d = max (- (2 ^ 63)) (min (2 ^ 63 - 1) (t - gwNow g))"
  define s where "s = (if d \<ge> 0 then d div 1000000000 else - ((- d) div 1000000000))"
  have su: "seconds_until (gwNow g) t = (if - (2 ^ 31) \<le> s \<and> s < 2 ^ 31 then s else - (2 ^ 31))"
    unfolding seconds_until_def Let_def d_def s_def by (rule refl)
  with assms have s: "0 \<le> s" "s \<le> gwMaxAge g" "s < 2 ^ 31" unfolding expiry_ok_def by (auto split: if_splits)
  have d: "- 1000000000 < d" "d < (s + 1) * 1000000000" "d < 2147483648 * 1000000000" using s unfolding s_def by (auto split: if_splits)
  have "d = t - gwNow g" using d unfolding d_def by (auto simp: max_def min_def split: if_splits)
  with d s show ?thesis by (auto simp: algebra_simps)
qed

lemma expiry_ok_inside:
  assumes "gwNow g - 1000000000 < t" "t < gwNow g + (gwMaxAge g + 1) * 1000000000" "0 \<le> gwMaxAge g" "gwMaxAge g < 2 ^ 31 - 1"
  shows "expiry_ok g t"
proof -
  define d where "d = t - gwNow g"
  have d: "- 1000000000 < d" "d < (gwMaxAge g + 1) * 1000000000" using assms(1,2) by (simp_all add: d_def)
  have "(gwMaxAge g + 1) * 1000000000 \<le> (2 ^ 31 - 1) * 1000000000" using assms(4) by (intro mult_right_mono) auto
  then have m: "max (- (2 ^ 63)) (min (2 ^ 63 - 1) d) = d" using d by (simp add: max_def min_def)
  define s where "s = (if d \<ge> 0 then d div 1000000000 else - ((- d) div 1000000000))"
  have "0 \<le> s \<and> s \<le> gwMaxAge g"
  proof (cases "0 \<le> d")
    case True
    have "d div 1000000000 < gwMaxAge g + 1" using d(2) by (simp add: div_less_iff_less_mult)
    then show ?thesis using True by (simp add: s_def)
  next
    case False
    then have "(- d) div 1000000000 = 0" using d(1) by (intro div_pos_pos_trivial) auto
    then show ?thesis using False assms(3) by (simp add: s_def)
  qed
  moreover from this have "seconds_until (gwNow g) t = s" using assms(4)
    unfolding seconds_until_def Let_def d_def [symmetric] m s_def [symmetric] by auto
  ultimately show ?thesis by (simp add: expiry_ok_def)
qed

text \<open>
  For a longest age that fits its type, the check of the expiry date of a request accepts exactly the dates that can be parsed and
  lie less than a second in the past and less than a second beyond the longest age in the future: the rounding to whole seconds
  gives a request a second more on both sides.
\<close>

theorem expiry_window_exact:
  assumes "0 \<le> gwMaxAge g" "gwMaxAge g < 2 ^ 31 - 1"
  shows "CheckIfSigExpiry g r = None \<longleftrightarrow> (\<exists>t. gwTime g (if hrExpiry r = [] then hrExpiryQuery r else hrExpiry r) = Some t
     \<and> gwNow g - 1000000000 < t \<and> t < gwNow g + (gwMaxAge g + 1) * 1000000000)"
proof -
  have "expiry_ok g t \<longleftrightarrow> gwNow g - 1000000000 < t \<and> t < gwNow g + (gwMaxAge g + 1) * 1000000000" for t
    using expiry_ok_bounds [of g t] expiry_ok_inside [of g t, OF _ _ assms] by argo
  then show ?thesis by (auto simp: CheckIfSigExpiry_def split: option.splits)
qed

subsection \<open>Registering a key\<close>

lemma call_step_state: "snd (call_step um link zero r a) = a \<or> snd (call_step um link zero r a) = snd r"
  by (simp add: call_step_def)

lemma InsertAuthKeyV2_rows:
  assumes "InsertAuthKeyV2 q rec db = (e, db1)" "row \<in> set (auth_keys_v2 db1)" "row \<notin> set (auth_keys_v2 db)"
  shows "k2_key row = k2_key rec \<and> k2ExpiryDate row = k2ExpiryDate rec"
  using assms by (auto simp: InsertAuthKeyV2_def row_map_def k2_key_def split: if_splits)

lemma register2_state:
  assumes "updateUserPublicKeyV2Handler g r a = Some (res, a1)" "a1 \<noteq> a"
  shows "\<exists>account msg t e. personal_signer g r = Inr (account, msg) \<and> bad_registration r = None \<and> gwTime g (hrExpiry r) = Some t \<and>
    expiry_ok g t \<and> verifySignedContentV2 g msg (hrDomain r) (hrPublicKey r) (hrExpiry r) = None \<and>
    UpdateUserPublicKeyV2 (gwQ g 1) account (hrDomain r) (hrPublicKey r) (t div 1000000) a = (e, a1)"
proof -
  obtain account msg t where h: "personal_signer g r = Inr (account, msg)" "bad_registration r = None" "gwTime g (hrExpiry r) = Some t"
    "expiry_ok g t" "verifySignedContentV2 g msg (hrDomain r) (hrPublicKey r) (hrExpiry r) = None"
    using assms by (auto simp: updateUserPublicKeyV2Handler_def reply_error_def split: option.splits sum.splits prod.splits if_splits)
  then have "a1 = snd (cli_UpdateUserPublicKeyV2 (gwUnmarshal g) (gwLink g 1) (gwQ g 1) account (hrDomain r) (hrPublicKey r) (t div 1000000) a)"
    using assms(1) by (auto simp: updateUserPublicKeyV2Handler_def reply_error_def split: option.splits sum.splits prod.splits if_splits)
  with assms(2) have "a1 = snd (UpdateUserPublicKeyV2 (gwQ g 1) account (hrDomain r) (hrPublicKey r) (t div 1000000) a)"
    using call_step_state unfolding cli_UpdateUserPublicKeyV2_def by metis
  with h show ?thesis by (metis prod.collapse)
qed

text \<open>
  C19: A key enters the table of keys only for the account that signed a message naming the domain, the key and the expiry date
  of the request; the key has 64 characters, and its expiry date lies at most the longest age and a second ahead.
\<close>

theorem registered_key_signed:
  assumes "updateUserPublicKeyV2Handler g r a = Some (res, a1)"
    "row \<in> set (auth_keys_v2 (amDB a1))" "row \<notin> set (auth_keys_v2 (amDB a))"
  shows "\<exists>account msg t. personal_signer g r = Inr (account, msg) \<and> k2_key row = (account, hrDomain r, hrPublicKey r) \<and>
    length (hrPublicKey r) = 64 \<and> says_registration msg (hrDomain r) (hrPublicKey r) (hrExpiry r) \<and>
    gwTime g (hrExpiry r) = Some t \<and> k2ExpiryDate row = UnixMilli (t div 1000000) \<and>
    gwNow g - 1000000000 < t \<and> t < gwNow g + (gwMaxAge g + 1) * 1000000000"
proof -
  have "a1 \<noteq> a" using assms(2, 3) by auto
  from register2_state [OF assms(1) this] obtain account msg t e
    where h: "personal_signer g r = Inr (account, msg)" "bad_registration r = None" "gwTime g (hrExpiry r) = Some t" "expiry_ok g t"
      "verifySignedContentV2 g msg (hrDomain r) (hrPublicKey r) (hrExpiry r) = None"
      and u: "UpdateUserPublicKeyV2 (gwQ g 1) account (hrDomain r) (hrPublicKey r) (t div 1000000) a = (e, a1)" by blast
  have "k2_key row = (account, hrDomain r, hrPublicKey r) \<and> k2ExpiryDate row = UnixMilli (t div 1000000)"
    using u assms(2, 3) by (auto simp: UpdateUserPublicKeyV2_def k2_key_def dest: InsertAuthKeyV2_rows split: option.splits prod.splits)
  moreover have "length (hrPublicKey r) = 64" using h(2) by (auto simp: bad_registration_def split: if_splits)
  ultimately show ?thesis using h signed_v2_says [OF h(5)] expiry_ok_bounds [OF h(4)] by blast
qed

subsection \<open>Registering with a nonce\<close>

lemma rx_digit_not_sign: "rx_digit c \<Longrightarrow> c \<noteq> CHR ''-'' \<and> c \<noteq> CHR ''+''"
  by (auto simp: rx_digit_def)

lemma ParseUint_not_negative: "ParseUint s bits = Inr v \<Longrightarrow> 0 \<le> v"
  by (cases "parse_digits (2 ^ bits - 1) 0 s") (auto simp: ParseUint_def split: if_splits)

lemma digits_not_negative:
  assumes "list_all rx_digit s" "s \<noteq> []" "StringToInt32 s = Inr n"
  shows "0 \<le> n \<and> n < 2 ^ 31"
proof -
  obtain v where v: "StringToInt64 s = Inr v" "\<not> v > MaxInt32" "n = i32 v"
    using assms(3) by (auto simp: StringToInt32_def split: sum.splits if_splits)
  obtain c cs where s: "s = c # cs" using assms(2) by (cases s) auto
  have "c \<noteq> CHR ''-''" using assms(1) s rx_digit_not_sign by auto
  then have "0 \<le> v" using v(1) s by (auto simp: StringToInt64_def ParseInt_def Let_def dest: ParseUint_not_negative split: sum.splits if_splits)
  then show ?thesis using v by (simp add: i32_def)
qed

lemma cli_GetAuthNonce_Inr:
  "cli_GetAuthNonce um link q account domain a = Inr (c, n, p, t) \<longleftrightarrow>
     link = LinkUp \<and> (\<exists>k. GetAuthNonce q account domain a = Inr k \<and> c = okCurrentNonce k \<and> n = okNextNonce k \<and>
       p = okCurrentPublicKey k \<and> t = okExpiryDate k div 1000000)"
proof -
  have "reported um e" if "GetAuthNonce q account domain a = Inl e" for e
    using that by (auto simp: GetAuthNonce_def auth_ErrInvalidAddressOrDomain_def reported_iff auth_err_def split: if_splits sum.splits)
  then show ?thesis unfolding cli_GetAuthNonce_def srv_GetAuthNonce_def over_rpc_Inr by (auto split: sum.splits)
qed

lemma GetAuthNonce_row:
  "row_find ok_key (account, domain) (auth_keys (amDB a)) = Some row \<Longrightarrow> GetAuthNonce q account domain a = Inr k \<Longrightarrow>
   k = row \<and> account \<noteq> '''' \<and> domain \<noteq> ''''"
  by (auto simp: GetAuthNonce_def GetAuthKey_def split: if_splits sum.splits option.splits)

lemma cli_UpdateUserPublicKey_Inr:
  assumes "cli_UpdateUserPublicKey um link q account domain old n pk t a = (Inr b, a1)"
  shows "\<exists>db1. UpdateAuthKey q account domain old n pk (UnixMilli t) (amDB a) = (None, db1) \<and> a1 = a\<lparr>amDB := db1\<rparr>"
  using assms by (auto simp: cli_UpdateUserPublicKey_def call_step_def over_rpc_Inr handled_call_def UpdateUserPublicKey_def reported_iff
      split: prod.splits option.splits if_splits)

lemma update_fields_next: "i32 (n + 1) \<noteq> 0 \<Longrightarrow> okNextNonce (update_fields pk n t now row) = i32 (n + 1)"
  by (simp add: update_fields_def Let_def)

text \<open>A nonce of an account and a domain is used up when the next one is larger, or when the counter has wrapped round.\<close>

definition nonce_used :: "string \<Rightarrow> string \<Rightarrow> int \<Rightarrow> AuthenticationModular \<Rightarrow> bool" where
  "nonce_used account domain n a \<longleftrightarrow>
     (\<exists>row. row_find ok_key (account, domain) (auth_keys (amDB a)) = Some row \<and> (n < okNextNonce row \<or> okNextNonce row < 0))"

lemma i32_next_larger: "0 \<le> m \<Longrightarrow> m < 2 ^ 31 \<Longrightarrow> i32 (m + 1) \<noteq> 0 \<and> (m < i32 (m + 1) \<or> i32 (m + 1) < 0)"
  by (cases "m = 2 ^ 31 - 1") (auto simp: i32_def)

lemma row_find_update_other:
  "k \<noteq> j \<Longrightarrow> (\<And>r. key (f r) = key r) \<Longrightarrow> row_find key k (map (\<lambda>r. if key r = j then f r else r) rows) = row_find key k rows"
  by (induction rows) (auto simp: row_find_def)

lemma row_find_append: "row_find key k rows = Some r \<Longrightarrow> row_find key k (rows @ new) = Some r"
  by (induction rows) (auto simp: row_find_def split: if_splits)

lemma update_keeps_used:
  assumes "nonce_used account domain n a" "UpdateAuthKey q user site c m pk t (amDB a) = (e, db1)" "user \<noteq> ''''" "site \<noteq> ''''" "0 \<le> m" "m < 2 ^ 31"
    and "(user, site) = (account, domain) \<Longrightarrow> n < m"
  shows "nonce_used account domain n (a\<lparr>amDB := db1\<rparr>)"
proof (cases "db1 = amDB a")
  case False
  let ?f = "update_fields pk m t (qNow q 3)"
  obtain row where row: "row_find ok_key (account, domain) (auth_keys (amDB a)) = Some row" "n < okNextNonce row \<or> okNextNonce row < 0"
    using assms(1) by (auto simp: nonce_used_def)
  obtain new where "db1 = (amDB a)\<lparr>auth_keys := auth_keys (amDB a) @ new\<rparr>
      \<or> db1 = (amDB a)\<lparr>auth_keys := map (\<lambda>r. if ok_key r = (user, site) then ?f r else r) (auth_keys (amDB a) @ new)\<rparr>"
    using UpdateAuthKey_split [OF assms(2)] False unfolding update_condition_key [OF assms(3, 4)] by blast
  then show ?thesis
  proof
    assume u: "db1 = (amDB a)\<lparr>auth_keys := map (\<lambda>r. if ok_key r = (user, site) then ?f r else r) (auth_keys (amDB a) @ new)\<rparr>"
    note found = row_find_append [OF row(1), of new]
    show ?thesis
    proof (cases "(user, site) = (account, domain)")
      case True
      then have "row_find ok_key (account, domain) (auth_keys db1) = Some (?f row)" using found by (simp add: u row_find_update del: map_append)
      moreover have "okNextNonce (?f row) = i32 (m + 1)" using i32_next_larger [OF assms(5,6)] by (simp add: update_fields_next)
      ultimately show ?thesis using i32_next_larger [OF assms(5,6)] assms(7) [OF True] by (auto simp: nonce_used_def)
    next
      case other: False
      have "row_find ok_key (account, domain) (auth_keys db1) = Some row"
        using row_find_update_other [of "(account, domain)" "(user, site)" ok_key ?f "auth_keys (amDB a) @ new"] found other by (auto simp: u simp del: map_append)
      then show ?thesis using row(2) by (simp add: nonce_used_def)
    qed
  qed (use row row_find_append [OF row(1)] in \<open>auto simp: nonce_used_def\<close>)
qed (use assms(1) in simp)

text \<open>What a registration with a nonce that succeeds leaves in the table.\<close>

lemma register1_done:
  assumes "updateUserPublicKeyHandler g r a = Some (Inr b, a1)"
  shows "\<exists>account msg n. personal_signer g r = Inr (account, msg) \<and> bad_registration r = None \<and>
    StringToInt32 (hrNonce r) = Inr n \<and> says_registration msg (hrDomain r) (hrPublicKey r) (hrExpiry r) \<and>
    0 \<le> n \<and> nonce_used account (hrDomain r) n a1"
proof -
  obtain account msg t c n p ex where h: "personal_signer g r = Inr (account, msg)" "bad_registration r = None"
    "cli_GetAuthNonce (gwUnmarshal g) (gwLink g 1) (gwQ g 1) account (hrDomain r) a = Inr (c, n, p, ex)"
    "StringToInt32 (hrNonce r) = Inr n"
    "verifySignedContent g msg (hrDomain r) (hrNonce r) (hrPublicKey r) (hrExpiry r) = None"
    "cli_UpdateUserPublicKey (gwUnmarshal g) (gwLink g 2) (gwQ g 2) account (hrDomain r) c n (hrPublicKey r) (t div 1000000) a = (Inr b, a1)"
    using assms by (auto simp: updateUserPublicKeyHandler_def reply_error_def split: option.splits sum.splits prod.splits if_splits)
  from h(3) have ne: "account \<noteq> ''''" "hrDomain r \<noteq> ''''"
    by (auto simp: cli_GetAuthNonce_Inr GetAuthNonce_def split: if_splits)
  from cli_UpdateUserPublicKey_Inr [OF h(6)] obtain db1
    where u: "UpdateAuthKey (gwQ g 2) account (hrDomain r) c n (hrPublicKey r) (UnixMilli (t div 1000000)) (amDB a) = (None, db1)"
      "a1 = a\<lparr>amDB := db1\<rparr>" by blast
  have n: "0 \<le> n" "n < 2 ^ 31" using digits_not_negative [OF _ _ h(4)] signed_says [OF h(5)] by blast+
  with UpdateAuthKey_ok [OF ne u(1)] u(2) i32_next_larger [OF n] have "nonce_used account (hrDomain r) n a1"
    by (auto simp: nonce_used_def update_fields_next)
  with n(1) show ?thesis using h signed_says [OF h(5)] by blast
qed

subsection \<open>Deleting keys\<close>

text \<open>
  C38: Whoever can sign a request for an account of his own can delete the keys of any other account: the handler notes that the
  address in the header is not the account of the request, but goes on.
\<close>

theorem keys_of_others_deleted:
  assumes "NewRequestContext g r a = Some (account, None)" "account \<noteq> hrUserAddress r"
    "gwIsHexAddress g (hrUserAddress r)" "hrUserAddress r \<noteq> ''''" "hrDomain r \<noteq> ''''" "hrBody r = Some body"
    "length (split_on CHR '','' body) \<le> 100" "gwLink g 1 = LinkUp" "\<not> qFails (gwQ g 1) 0"
  shows "deleteUserPublicKeyV2Handler g r a = Some (Inr True, a\<lparr>amDB := (amDB a)\<lparr>auth_keys_v2 :=
    filter (\<lambda>k. \<not> (k2UserAddress k = hrUserAddress r \<and> k2Domain k = hrDomain r \<and> k2PublicKey k \<in> set (split_on CHR '','' body)))
      (auth_keys_v2 (amDB a))\<rparr>\<rparr>)"
proof -
  have "split_on CHR '','' body \<noteq> []" by (cases body) (auto split: list.splits)
  with assms(4-5, 7, 9) have "DeleteAuthKeysV2 (gwQ g 1) (hrUserAddress r) (hrDomain r) (split_on CHR '','' body) a =
      (Inr True, a\<lparr>amDB := (amDB a)\<lparr>auth_keys_v2 := filter (\<lambda>k. \<not> (k2UserAddress k = hrUserAddress r \<and> k2Domain k = hrDomain r \<and>
         k2PublicKey k \<in> set (split_on CHR '','' body))) (auth_keys_v2 (amDB a))\<rparr>\<rparr>)"
    by (simp add: DeleteAuthKeysV2_def db_DeleteAuthKeysV2_def)
  with assms show ?thesis
    by (simp add: deleteUserPublicKeyV2Handler_def Let_def cli_DeleteAuthKeysV2_def call_step_def over_rpc_def served_def handled_call_def)
qed

subsection \<open>Histories\<close>

text \<open>The operations that change the state of the authenticator, each with its environment.\<close>

datatype 'k key_op =
    Register1 "'k gwenv" http_request
  | Register2 "'k gwenv" http_request
  | DeleteKeys "'k gwenv" http_request
  | ClearExpired "'k aqenv"
  | Permit vaenv AuthOpType string string string

fun key_step :: "'k key_op \<Rightarrow> AuthenticationModular \<Rightarrow> AuthenticationModular option" where
  "key_step (Register1 g r) a = map_option snd (updateUserPublicKeyHandler g r a)"
| "key_step (Register2 g r) a = map_option snd (updateUserPublicKeyV2Handler g r a)"
| "key_step (DeleteKeys g r) a = map_option snd (deleteUserPublicKeyV2Handler g r a)"
| "key_step (ClearExpired q) a = Some (a\<lparr>amDB := snd (ClearExpiredOffChainAuthKeys q (amDB a))\<rparr>)"
| "key_step (Permit env op account bucket object) a = Some (snd (VerifyAuthentication env op account bucket object a))"

fun key_run :: "'k key_op list \<Rightarrow> AuthenticationModular \<Rightarrow> AuthenticationModular option" where
  "key_run [] a = Some a"
| "key_run (op # ops) a = Option.bind (key_step op a) (key_run ops)"

definition key_inv :: "AuthenticationModular \<Rightarrow> bool" where
  "key_inv a \<longleftrightarrow> k2_unique a \<and> (\<forall>r\<in>set (auth_keys_v2 (amDB a)). length (k2PublicKey r) = 64)"

lemma key_inv_cong: "auth_keys_v2 (amDB a) = auth_keys_v2 (amDB a1) \<Longrightarrow> key_inv a \<longleftrightarrow> key_inv a1"
  by (simp add: key_inv_def k2_unique_def)

lemma key_inv_filter: "key_inv a \<Longrightarrow> key_inv (a\<lparr>amDB := (amDB a)\<lparr>auth_keys_v2 := filter p (auth_keys_v2 (amDB a))\<rparr>\<rparr>)"
  by (auto simp: key_inv_def k2_unique_def k2_unique_filter)

lemma UpdateAuthKey_v2: "auth_keys_v2 (snd (UpdateAuthKey q user domain old n pk t db)) = auth_keys_v2 db"
  by (cases "UpdateAuthKey q user domain old n pk t db")
    (use UpdateAuthKey_split [of q user domain old n pk t db] in fastforce)

lemma register1_v2:
  assumes "updateUserPublicKeyHandler g r a = Some (res, a1)"
  shows "auth_keys_v2 (amDB a1) = auth_keys_v2 (amDB a)"
proof -
  have step: "auth_keys_v2 (amDB (snd (cli_UpdateUserPublicKey um link q account domain c n pk t a))) = auth_keys_v2 (amDB a)"
    for um link account domain c n pk t and q :: "'a aqenv"
    using UpdateAuthKey_v2 [of q account domain c n pk "UnixMilli t" "amDB a"]
    by (auto simp: cli_UpdateUserPublicKey_def call_step_def UpdateUserPublicKey_def split: prod.splits option.splits)
  show ?thesis using assms step
    by (auto simp: updateUserPublicKeyHandler_def reply_error_def split: option.splits sum.splits prod.splits if_splits)
      (metis snd_conv)+
qed

lemma register2_inv:
  assumes "updateUserPublicKeyV2Handler g r a = Some (res, a1)" "key_inv a"
  shows "key_inv a1"
proof (cases "a1 = a")
  case False
  from register2_state [OF assms(1) this] obtain account t e where b: "bad_registration r = None"
    and u: "UpdateUserPublicKeyV2 (gwQ g 1) account (hrDomain r) (hrPublicKey r) (t div 1000000) a = (e, a1)" by blast
  let ?rec = "\<lparr>k2UserAddress = account, k2Domain = hrDomain r, k2PublicKey = hrPublicKey r, k2ExpiryDate = UnixMilli (t div 1000000),
              k2CreatedTime = qNow (gwQ g 1) 0, k2ModifiedTime = qNow (gwQ g 1) 1\<rparr>"
  obtain e1 where i: "InsertAuthKeyV2 (gwQ g 1) ?rec (amDB a) = (e1, amDB a1)"
    using u by (auto simp: UpdateUserPublicKeyV2_def split: prod.splits option.splits)
  have "length (k2PublicKey row) = 64" if "row \<in> set (auth_keys_v2 (amDB a1))" for row
  proof (cases "row \<in> set (auth_keys_v2 (amDB a))")
    case False
    then have "k2_key row = k2_key ?rec" using InsertAuthKeyV2_rows [OF i that] by blast
    then show ?thesis using b by (auto simp: k2_key_def bad_registration_def split: if_splits)
  qed (use assms(2) in \<open>auto simp: key_inv_def\<close>)
  moreover have "k2_unique a1" using assms(2) k2_unique_insert [OF _ i] by (auto simp: key_inv_def k2_unique_def)
  ultimately show ?thesis by (simp add: key_inv_def)
qed (use assms(2) in simp)

lemma delete_inv:
  assumes "deleteUserPublicKeyV2Handler g r a = Some (res, a1)" "key_inv a"
  shows "key_inv a1"
proof -
  have "key_inv (snd (DeleteAuthKeysV2 q account domain ks a))" for account domain ks and q :: "'a aqenv"
    using assms(2) key_inv_filter [OF assms(2)] by (auto simp: DeleteAuthKeysV2_def db_DeleteAuthKeysV2_def)
  then have "key_inv (snd (cli_DeleteAuthKeysV2 um link q account domain ks a))" for um link account domain ks and q :: "'a aqenv"
    using assms(2) by (simp add: cli_DeleteAuthKeysV2_def call_step_def)
  then show ?thesis using assms
    by (auto simp: deleteUserPublicKeyV2Handler_def reply_error_def Let_def split: option.splits sum.splits prod.splits if_splits)
      (metis snd_conv)+
qed

lemma auth_getSPID_db: "amDB (snd (auth_getSPID env a)) = amDB a"
  by (auto simp: auth_getSPID_def split: sum.splits)

lemma self_and_primary_db: "amDB (snd (self_and_primary env b a)) = amDB a"
  using auth_getSPID_db [of env a] by (auto simp: self_and_primary_def split: sum.splits prod.splits)

lemma VerifyAuthentication_db: "amDB (snd (VerifyAuthentication env op account bucket object a)) = amDB a"
proof -
  have sp: "self_and_primary env b a = (x, a1) \<Longrightarrow> amDB a1 = amDB a" for b x a1 using self_and_primary_db [of env b a] by simp
  have id: "auth_getSPID env a = (x, a1) \<Longrightarrow> amDB a1 = amDB a" for x a1 using auth_getSPID_db [of env a] by simp
  have "amDB (snd (verify_put_object env account bucket object a)) = amDB a"
    using sp by (auto simp: verify_put_object_def split: prod.splits option.splits sum.splits)
  moreover have "amDB (snd (verify_uploading_state env bucket object a)) = amDB a"
    using sp by (auto simp: verify_uploading_state_def split: prod.splits option.splits sum.splits)
  moreover have "amDB (snd (verify_get_object env account bucket object a)) = amDB a"
    using sp by (auto simp: verify_get_object_def split: prod.splits option.splits sum.splits)
  moreover have "amDB (snd (verify_recovery_piece env account bucket object a)) = amDB a"
    using id by (auto simp: verify_recovery_piece_def split: prod.splits option.splits sum.splits)
  moreover have "amDB (snd (verify_challenge env account bucket object a)) = amDB a"
    using sp by (auto simp: verify_challenge_def split: prod.splits option.splits sum.splits)
  ultimately show ?thesis by (cases op) (auto simp: VerifyAuthentication.simps)
qed

text \<open>What a registration with a nonce does to the state, whether it is reported as done or not.\<close>

lemma register1_state:
  assumes "updateUserPublicKeyHandler g r a = Some (res, a1)" "a1 \<noteq> a"
  shows "\<exists>account c n t k e db1. GetAuthNonce (gwQ g 1) account (hrDomain r) a = Inr k \<and> n = okNextNonce k \<and> 0 \<le> n \<and> n < 2 ^ 31
    \<and> UpdateAuthKey (gwQ g 2) account (hrDomain r) c n (hrPublicKey r) t (amDB a) = (e, db1) \<and> a1 = a\<lparr>amDB := db1\<rparr>"
proof -
  obtain account msg t c n p ex res' where h: "cli_GetAuthNonce (gwUnmarshal g) (gwLink g 1) (gwQ g 1) account (hrDomain r) a = Inr (c, n, p, ex)"
    "StringToInt32 (hrNonce r) = Inr n" "verifySignedContent g msg (hrDomain r) (hrNonce r) (hrPublicKey r) (hrExpiry r) = None"
    "cli_UpdateUserPublicKey (gwUnmarshal g) (gwLink g 2) (gwQ g 2) account (hrDomain r) c n (hrPublicKey r) (t div 1000000) a = (res', a1)"
    using assms by (auto simp: updateUserPublicKeyHandler_def reply_error_def split: option.splits sum.splits prod.splits if_splits)
  have "\<exists>e db1. UpdateAuthKey (gwQ g 2) account (hrDomain r) c n (hrPublicKey r) (UnixMilli (t div 1000000)) (amDB a) = (e, db1) \<and> a1 = a\<lparr>amDB := db1\<rparr>"
    using h(4) assms(2) by (auto simp: cli_UpdateUserPublicKey_def call_step_def UpdateUserPublicKey_def split: prod.splits option.splits if_splits)
  moreover have "0 \<le> n \<and> n < 2 ^ 31" using digits_not_negative [OF _ _ h(2)] signed_says [OF h(3)] by blast
  ultimately show ?thesis using h(1) unfolding cli_GetAuthNonce_Inr by blast
qed

lemma key_step_used:
  assumes "key_step op a = Some a1" "nonce_used account domain n a" "0 \<le> n"
  shows "nonce_used account domain n a1"
proof (cases op)
  case (Register1 g r)
  then obtain res where u: "updateUserPublicKeyHandler g r a = Some (res, a1)" using assms(1) by auto
  show ?thesis
  proof (cases "a1 = a")
    case False
    from register1_state [OF u this] obtain user c m t k e db1 where k: "GetAuthNonce (gwQ g 1) user (hrDomain r) a = Inr k" "m = okNextNonce k"
      and m: "0 \<le> m" "m < 2 ^ 31" and up: "UpdateAuthKey (gwQ g 2) user (hrDomain r) c m (hrPublicKey r) t (amDB a) = (e, db1)" "a1 = a\<lparr>amDB := db1\<rparr>" by blast
    have "n < m" if "(user, hrDomain r) = (account, domain)" using that assms(2) GetAuthNonce_row [OF _ k(1)] k(2) m(1) by (auto simp: nonce_used_def)
    moreover have "user \<noteq> ''''" "hrDomain r \<noteq> ''''" using k(1) by (auto simp: GetAuthNonce_def split: if_splits)
    ultimately show ?thesis using update_keeps_used [OF assms(2) up(1)] m up(2) by simp
  qed (use assms(2) in simp)
next
  case (Register2 g r)
  have "auth_keys (amDB a1) = auth_keys (amDB a)"
  proof (cases "a1 = a")
    case False
    from assms(1) Register2 obtain res where "updateUserPublicKeyV2Handler g r a = Some (res, a1)" by auto
    from register2_state [OF this False] obtain user t e where "UpdateUserPublicKeyV2 (gwQ g 1) user (hrDomain r) (hrPublicKey r) (t div 1000000) a = (e, a1)" by blast
    then show ?thesis by (auto simp: UpdateUserPublicKeyV2_def InsertAuthKeyV2_def split: prod.splits option.splits if_splits)
  qed simp
  then show ?thesis using assms(2) by (simp add: nonce_used_def)
next
  case (DeleteKeys g r)
  have "auth_keys (amDB (snd (DeleteAuthKeysV2 q user site ks a))) = auth_keys (amDB a)" for user site ks and q :: "'a aqenv"
    by (auto simp: DeleteAuthKeysV2_def db_DeleteAuthKeysV2_def)
  then have "auth_keys (amDB (snd (cli_DeleteAuthKeysV2 um link q user site ks a))) = auth_keys (amDB a)" for um link user site ks and q :: "'a aqenv"
    by (simp add: cli_DeleteAuthKeysV2_def call_step_def)
  then have "auth_keys (amDB a1) = auth_keys (amDB a)" using assms(1) DeleteKeys
    by (auto simp: deleteUserPublicKeyV2Handler_def reply_error_def Let_def split: option.splits sum.splits prod.splits if_splits)
      (metis snd_conv)+
  then show ?thesis using assms(2) by (simp add: nonce_used_def)
next
  case (ClearExpired q)
  then have "auth_keys (amDB a1) = auth_keys (amDB a)" using assms(1) by (auto simp: ClearExpiredOffChainAuthKeys_def)
  then show ?thesis using assms(2) by (simp add: nonce_used_def)
next
  case (Permit env act user bucket object)
  then have "amDB a1 = amDB a" using assms(1) VerifyAuthentication_db [of env act user bucket object a] by auto
  then show ?thesis using assms(2) by (simp add: nonce_used_def)
qed

lemma key_run_used: "key_run ops a = Some a1 \<Longrightarrow> nonce_used account domain n a \<Longrightarrow> 0 \<le> n \<Longrightarrow> nonce_used account domain n a1"
  by (induction ops a rule: key_run.induct) (auto simp: bind_eq_Some_conv intro: key_step_used)

text \<open>
  C20: When requests are handled one after the other, a nonce of an account and a domain is accepted once: after a registration with it
  succeeded and any history of registrations, deletions, clearings and permission checks, every registration of the account for
  the domain with the same nonce, the same request among them, is refused and changes nothing.
\<close>

theorem registration_not_replayed:
  assumes "updateUserPublicKeyHandler g r a = Some (Inr b, a1)" "personal_signer g r = Inr (account, msg)" "key_run ops a1 = Some a2"
    and "updateUserPublicKeyHandler g1 r1 a2 = Some (res, a3)" "personal_signer g1 r1 = Inr (account, msg1)"
    "hrDomain r1 = hrDomain r" "StringToInt32 (hrNonce r1) = StringToInt32 (hrNonce r)"
  shows "a3 = a2 \<and> (\<exists>e. res = Inl e)"
proof -
  from register1_done [OF assms(1)] assms(2) obtain n where n: "StringToInt32 (hrNonce r) = Inr n" "0 \<le> n"
    "nonce_used account (hrDomain r) n a1" by auto
  from key_run_used [OF assms(3) n(3,2)] obtain row where row: "row_find ok_key (account, hrDomain r) (auth_keys (amDB a2)) = Some row"
    "n < okNextNonce row \<or> okNextNonce row < 0" by (auto simp: nonce_used_def)
  have "cli_GetAuthNonce (gwUnmarshal g1) (gwLink g1 1) (gwQ g1 1) account (hrDomain r) a2 \<noteq> Inr (c, n, p, t)" for c p t
    using row(2) n(2) GetAuthNonce_row [OF row(1)] by (auto simp: cli_GetAuthNonce_Inr)
  then show ?thesis using assms(4-7) n(1)
    by (auto simp: updateUserPublicKeyHandler_def reply_error_def split: option.splits sum.splits prod.splits if_splits)
qed

lemma key_step_inv: "key_step op a = Some a1 \<Longrightarrow> key_inv a \<Longrightarrow> key_inv a1"
proof (induction op a rule: key_step.induct)
  case (1 g r a)
  then show ?case using register1_v2 [of g r a] key_inv_cong [of a1 a] by auto
next
  case (4 q a)
  then show ?case using key_inv_filter [OF 4(2)] by (auto simp: ClearExpiredOffChainAuthKeys_def)
next
  case (5 env op account bucket object a)
  then show ?case using VerifyAuthentication_db [of env op account bucket object a] key_inv_cong [of a1 a] by auto
qed (auto intro: register2_inv delete_inv)

lemma key_run_inv: "key_run ops a = Some a1 \<Longrightarrow> key_inv a \<Longrightarrow> key_inv a1"
  by (induction ops a rule: key_run.induct) (auto simp: bind_eq_Some_conv intro: key_step_inv)

text \<open>
  C23: Along any history of registrations, deletions, clearings and checks that starts with an empty table, the keys of the table stay
  unique, and verifying a signature never panics, though the library panics on a key that has not 32 bytes.
\<close>

theorem eddsa_never_panics:
  assumes "auth_keys_v2 (amDB a) = []" "key_run ops a = Some a1"
  shows "k2_unique a1 \<and> VerifyGNFD2EddsaSignature q account domain publicKey sig msg a1 \<noteq> Panic"
proof -
  have "key_inv a" using assms(1) by (simp add: key_inv_def k2_unique_def)
  then have "key_inv a1" by (rule key_run_inv [OF assms(2)])
  then show ?thesis using eddsa2_no_panic [of a1] by (simp add: key_inv_def)
qed

text \<open>
  C24: Clearing the expired keys changes nothing of what is accepted: a signature is accepted after it, at the same time or
  later, exactly when it would have been accepted without it.
\<close>

theorem clearing_keeps_accepted:
  assumes "auth_keys_v2 (amDB a0) = []" "key_run ops a0 = Some a" "key_step (ClearExpired q) a = Some a1" "qNow q 0 \<le> qNow q1 0"
  shows "VerifyGNFD2EddsaSignature q1 account domain publicKey sig msg a1 = Ok b \<longleftrightarrow>
         VerifyGNFD2EddsaSignature q1 account domain publicKey sig msg a = Ok b"
proof -
  have "key_inv a0" using assms(1) by (simp add: key_inv_def k2_unique_def)
  then have "k2_unique a" using key_run_inv [OF assms(2)] by (simp add: key_inv_def)
  from clear_expired_accepts [OF this assms(4)] show ?thesis using assms(3)
    by (cases "ClearExpiredOffChainAuthKeys q (amDB a)") auto
qed

subsection \<open>Permission to read an object\<close>

text \<open>
  C22: The gateway is told that an account may read an object exactly when the call went through, the account is an address, bucket
  and object could be queried, the bucket is not rate limited, this provider is the primary one of the bucket, the object is
  sealed or created, the account that pays is active, and the policies allow it.  The documentation of the gateway asks for a sealed object; the
  code lets an object that is only created pass as well.
\<close>

theorem get_object_permission_exact:
  "fst (cli_VerifyAuthentication um link env 6 account bucket object a) = Ok True \<longleftrightarrow>
     link = LinkUp \<and> aeValidHex env account \<and>
     (\<exists>b ob extra self a1. aeBucket env bucket = Inr b \<and> aeObject env bucket object = Inr ob \<and>
        aeExtra env bucket = Inr extra \<and> extra \<noteq> Some True \<and>
        auth_getSPID env a = (Inr self, a1) \<and> auth_GetBucketPrimarySPID env b = Inr self \<and>
        auth_object_status ob \<in> {OBJECT_STATUS_SEALED, OBJECT_STATUS_CREATED} \<and>
        aeStream env b = Inr True \<and> aePermission env account bucket object = Inr True)"
proof -
  have "AuthOpType_of 6 = AuthOpTypeGetObject" by (simp add: AuthOpType_of_def)
  then have "fst (cli_VerifyAuthentication um link env 6 account bucket object a) = Ok True \<longleftrightarrow>
      link = LinkUp \<and> fst (VerifyAuthentication env AuthOpTypeGetObject account bucket object a) = Ok True"
    by (cases link) (auto simp: cli_VerifyAuthentication_def call_outcome_Ok split: prod.splits)
  also have "fst (VerifyAuthentication env AuthOpTypeGetObject account bucket object a) = Ok True \<longleftrightarrow>
      aeValidHex env account \<and> (\<exists>a1. verify_get_object env account bucket object a = (Ok True, a1))"
    by (auto simp: VerifyAuthentication.simps prod_eq_iff)
  finally show ?thesis unfolding get_object_allowed_iff by blast
qed

subsection \<open>Witnesses\<close>

text \<open>
  A small environment: one signer, every signature verifies, the clock stands at 0, the only time that parses is \<open>T\<close>, five seconds
  ahead.
\<close>

definition wit_q :: "unit aqenv" where
  "wit_q = \<lparr>qFails = \<lambda>_. False, qMsg = \<lambda>_. ''db'', qNow = \<lambda>_. 0, qUnmarshal = \<lambda>_. None, qHexError = \<lambda>_. ''bad'',
     qParsePk = \<lambda>_. Inr ((), 32), qVerify = \<lambda>_ _ _. Inr True, qEd25519 = \<lambda>_ _ _. True\<rparr>"

definition wit_g :: "unit gwenv" where
  "wit_g = \<lparr>gwEcdsa = ''E'', gwEddsa1 = ''F'', gwEddsa2 = ''G'', gwPersonal = ''P'', gwMaxAge = 604800, gwExpiryHeader = ''X'', gwNow = 0,
     gwTime = \<lambda>s. if s = ''T'' then Some 5000000000 else None, gwMsgToSign = \<lambda>_. [], gwPreSignedMsg = \<lambda>_. [],
     gwRecover = \<lambda>_ _. Inr (''A'', []), gwTextHash = \<lambda>_. [], gwKeccak = \<lambda>_. [], gwSecp = \<lambda>_ _ _. True,
     gwHexutil = \<lambda>_. Inr (replicate 65 0), gwHexError = \<lambda>_. ''bad'', gwAddress = \<lambda>s. s, gwIsHexAddress = \<lambda>_. True,
     gwOperator = ''S'', gwUnmarshal = \<lambda>_. None, gwLink = \<lambda>_. LinkUp, gwQ = \<lambda>_. wit_q\<rparr>"

definition wit_key :: string where
  "wit_key = replicate 64 CHR ''a''"

definition wit_row :: OffChainAuthKeyV2 where
  "wit_row = \<lparr>k2UserAddress = ''A'', k2Domain = ''d'', k2PublicKey = wit_key, k2ExpiryDate = 5000000000, k2CreatedTime = 0, k2ModifiedTime = 0\<rparr>"

definition wit_auth :: "OffChainAuthKeyV2 list \<Rightarrow> AuthenticationModular" where
  "wit_auth rows = \<lparr>amHeap = \<lparr>scopes = Map.empty, nextRef = 0\<rparr>, amScope = 0, amSpID = 1, amDB = \<lparr>auth_keys = [], auth_keys_v2 = rows\<rparr>\<rparr>"

definition wit_msg :: string where
  "wit_msg = ''d wants you to sign in with your Mechain account:'' @ [CHR 0x0A] @ ''A'' @ [CHR 0x0A] @ ''Register your identity public key ''
     @ wit_key @ [CHR 0x0A] @ ''URI: d'' @ [CHR 0x0A] @ ''Version: 1'' @ [CHR 0x0A] @ ''Chain ID: 1'' @ [CHR 0x0A]
     @ ''Issued At: T'' @ [CHR 0x0A] @ ''Expiration Time: T''"

definition wit_request :: "string \<Rightarrow> string \<Rightarrow> http_request" where
  "wit_request route authorization =
     \<lparr>hrRoute = route, hrAccount = '''', hrAuthorization = authorization, hrUserAddress = ''A'', hrDomain = ''d'', hrOrigin = ''d'',
      hrNonce = ''1'', hrPublicKey = wit_key, hrExpiry = ''T'', hrExpiryQuery = '''', hrBody = Some wit_key\<rparr>"

definition wit_register2 :: http_request where
  "wit_register2 = wit_request ''UpdateUserPublicKeyV2'' (''P,SignedMsg='' @ wit_msg @ '',Signature=x'')"

lemma wit_expiry: "expiry_ok wit_g 5000000000"
  by code_simp

theorem expiry_window_exact_witness: "CheckIfSigExpiry wit_g (wit_request [] []) = None"
  using expiry_window_exact [of wit_g "wit_request [] []"] by (simp add: wit_g_def wit_request_def)

lemma wit_signer2: "personal_signer wit_g wit_register2 = Inr (''A'', wit_msg)"
  by code_simp

lemma wit_content2: "verifySignedContentV2 wit_g wit_msg ''d'' wit_key ''T'' = None"
  by code_simp

lemma wit_context2: "NewRequestContext wit_g wit_register2 a = Some ('''', Some gate_ErrUnsupportedSignType)"
  by (simp add: NewRequestContext_def CheckIfSigExpiry_def VerifySignature_def wit_register2_def wit_request_def
      skipAuthRouterNames_def has_prefix_def wit_g_def wit_expiry [unfolded wit_g_def])

lemma wit_registered2: "updateUserPublicKeyV2Handler wit_g wit_register2 (wit_auth []) = Some (Inr True, wit_auth [wit_row])"
proof -
  have "UpdateUserPublicKeyV2 wit_q ''A'' ''d'' wit_key 5000 (wit_auth []) = (Inr True, wit_auth [wit_row])"
    by (simp add: UpdateUserPublicKeyV2_def InsertAuthKeyV2_def wit_auth_def wit_row_def wit_q_def row_find_def UnixMilli_def)
  moreover have "bad_registration wit_register2 = None"
    by (simp add: bad_registration_def wit_register2_def wit_request_def wit_key_def)
  moreover have "gwTime wit_g (hrExpiry wit_register2) = Some 5000000000" "gwLink wit_g n = LinkUp" "gwQ wit_g n = wit_q" for n
    by (simp_all add: wit_register2_def wit_request_def wit_g_def)
  moreover have "hrDomain wit_register2 = ''d''" "hrPublicKey wit_register2 = wit_key" "hrExpiry wit_register2 = ''T''"
    by (simp_all add: wit_register2_def wit_request_def)
  ultimately show ?thesis unfolding updateUserPublicKeyV2Handler_def wit_context2 wit_signer2
    by (simp add: wit_expiry wit_content2 cli_UpdateUserPublicKeyV2_def call_step_def over_rpc_def served_def handled_call_def)
qed

theorem registered_key_signed_witness:
  "wit_row \<in> set (auth_keys_v2 (amDB (wit_auth [wit_row]))) \<and>
   (\<exists>account msg t. personal_signer wit_g wit_register2 = Inr (account, msg) \<and>
      k2_key wit_row = (account, hrDomain wit_register2, hrPublicKey wit_register2) \<and>
      length (hrPublicKey wit_register2) = 64 \<and>
      says_registration msg (hrDomain wit_register2) (hrPublicKey wit_register2) (hrExpiry wit_register2) \<and>
      gwTime wit_g (hrExpiry wit_register2) = Some t \<and> k2ExpiryDate wit_row = UnixMilli (t div 1000000) \<and>
      gwNow wit_g - 1000000000 < t \<and> t < gwNow wit_g + (gwMaxAge wit_g + 1) * 1000000000)"
  using registered_key_signed [OF wit_registered2, of wit_row] by (simp add: wit_auth_def)
definition wit_msg1 :: string where
  "wit_msg1 = wit_msg @ [CHR 0x0A] @ ''Resources:'' @ [CHR 0x0A] @ ''- SP S (name: x) with nonce: 1''"

definition wit_register1 :: http_request where
  "wit_register1 = wit_request ''UpdateUserPublicKey'' (''P,SignedMsg='' @ wit_msg1 @ '',Signature=x'')"

definition wit_after1 :: AuthenticationModular where
  "wit_after1 = (wit_auth [])\<lparr>amDB := \<lparr>auth_keys = [\<lparr>okUserAddress = ''A'', okDomain = ''d'', okCurrentNonce = 1, okCurrentPublicKey = wit_key,
     okNextNonce = 2, okExpiryDate = 5000000000, okCreatedTime = 0, okModifiedTime = 0\<rparr>], auth_keys_v2 = []\<rparr>\<rparr>"

lemma wit_signer1: "personal_signer wit_g wit_register1 = Inr (''A'', wit_msg1)"
  by code_simp

definition wit_sps :: string where
  "wit_sps = CHR 0x0A # ''- SP S (name: x) with nonce: 1''"

lemma wit_match1: "FindStringSubmatch signed_content_pattern wit_msg1 =
  [wit_msg1, ''d'', ''A'', wit_key, ''d'', ''1'', ''1'', ''T'', ''T'', wit_sps]"
  by code_simp

lemma wit_sps1: "check_sps ''S'' ''1'' (FindAllStringSubmatch sps_pattern wit_sps) False = Inr True"
  by code_simp

lemma wit_content1: "verifySignedContent wit_g wit_msg1 ''d'' ''1'' wit_key ''T'' = None"
proof -
  have "gwOperator wit_g = ''S''" by (simp add: wit_g_def)
  then show ?thesis unfolding verifySignedContent_def wit_match1 Let_def by (simp add: wit_sps1 check_fields_None)
qed

lemma wit_nonce: "StringToInt32 ''1'' = Inr 1"
  by (simp add: StringToInt32_def StringToInt64_def ParseInt_def ParseUint_def digit_val_def i32_def)

lemma wit_context1: "NewRequestContext wit_g wit_register1 a = Some ('''', None)"
  by (simp add: NewRequestContext_def wit_register1_def wit_request_def skipAuthRouterNames_def)

lemma wit_registered1: "updateUserPublicKeyHandler wit_g wit_register1 (wit_auth []) = Some (Inr True, wit_after1)"
proof -
  have fields: "hrDomain wit_register1 = ''d''" "hrPublicKey wit_register1 = wit_key" "hrExpiry wit_register1 = ''T''" "hrNonce wit_register1 = ''1''"
    "gwTime wit_g ''T'' = Some 5000000000" "gwLink wit_g n = LinkUp" "gwQ wit_g n = wit_q" for n
    by (simp_all add: wit_register1_def wit_request_def wit_g_def)
  have nonce: "cli_GetAuthNonce um LinkUp wit_q ''A'' ''d'' (wit_auth []) = Inr (0, 1, '''', 0)" for um
    by (simp add: cli_GetAuthNonce_Inr GetAuthNonce_def GetAuthKey_def wit_auth_def wit_q_def row_find_def new_auth_key_def)
  have "UpdateUserPublicKey wit_q ''A'' ''d'' 0 1 wit_key 5000 (wit_auth []) = (Inr True, wit_after1)"
    by (simp add: UpdateUserPublicKey_def UpdateAuthKey_defs InsertAuthKey_def errIsNotFound_def new_auth_key_def Let_def wit_auth_def wit_after1_def
        wit_q_def wit_key_def row_find_def ok_key_def update_condition_def update_fields_def is_zero_time_def UnixMilli_def i32_def)
  then have "cli_UpdateUserPublicKey um LinkUp wit_q ''A'' ''d'' 0 1 wit_key 5000 (wit_auth []) = (Inr True, wit_after1)" for um
    by (simp add: cli_UpdateUserPublicKey_def call_step_def over_rpc_def served_def handled_call_def)
  moreover have "bad_registration wit_register1 = None"
    by (simp add: bad_registration_def wit_register1_def wit_request_def wit_key_def)
  ultimately show ?thesis unfolding updateUserPublicKeyHandler_def wit_context1 wit_signer1
    by (simp add: fields nonce wit_nonce wit_expiry wit_content1)
qed

theorem registration_not_replayed_witness:
  "updateUserPublicKeyHandler wit_g wit_register1 (wit_auth []) = Some (Inr True, wit_after1) \<and>
   (\<exists>e. updateUserPublicKeyHandler wit_g wit_register1 wit_after1 = Some (Inl e, wit_after1))"
proof -
  have "updateUserPublicKeyHandler wit_g wit_register1 wit_after1 \<noteq> None"
    unfolding updateUserPublicKeyHandler_def wit_context1
    by (auto simp: reply_error_def split: option.splits sum.splits prod.splits)
  then obtain res a2 where again: "updateUserPublicKeyHandler wit_g wit_register1 wit_after1 = Some (res, a2)" by fastforce
  show ?thesis
    using registration_not_replayed [OF wit_registered1 wit_signer1, of "[ClearExpired wit_q]" wit_after1, OF _ again wit_signer1 refl refl] again wit_registered1
    by (auto simp: wit_after1_def wit_auth_def ClearExpiredOffChainAuthKeys_def)
qed

definition wit_delete :: http_request where
  "wit_delete = (wit_request ''DeleteUserPublicKeyV2'' ''E,Signature=00'')\<lparr>hrUserAddress := ''B''\<rparr>"

definition wit_row_B :: OffChainAuthKeyV2 where
  "wit_row_B = wit_row\<lparr>k2UserAddress := ''B''\<rparr>"

text \<open>The request is signed by \<open>A\<close>; the key deleted is one of \<open>B\<close>.\<close>

theorem keys_of_others_deleted_witness:
  "NewRequestContext wit_g wit_delete (wit_auth [wit_row, wit_row_B]) = Some (''A'', None) \<and>
   deleteUserPublicKeyV2Handler wit_g wit_delete (wit_auth [wit_row, wit_row_B]) = Some (Inr True, wit_auth [wit_row])"
proof -
  have ctx: "NewRequestContext wit_g wit_delete a = Some (''A'', None)" for a
    by (simp add: NewRequestContext_def CheckIfSigExpiry_def VerifySignature_def verifySignatureForGNFD1Ecdsa_def parseSignatureFromRequest_def
        wit_delete_def wit_request_def skipAuthRouterNames_def has_prefix_def hex_val_def wit_g_def wit_expiry [unfolded wit_g_def] Let_def)
  have keys: "split_on CHR '','' wit_key = [wit_key]" by code_simp
  have fields: "hrUserAddress wit_delete = ''B''" "hrDomain wit_delete = ''d''" "hrBody wit_delete = Some wit_key"
    "gwIsHexAddress wit_g ''B''" "gwLink wit_g 1 = LinkUp" "\<not> qFails (gwQ wit_g 1) 0"
    by (simp_all add: wit_delete_def wit_request_def wit_g_def wit_q_def)
  show ?thesis
    using keys_of_others_deleted [OF ctx, of wit_key "wit_auth [wit_row, wit_row_B]"] ctx fields keys
    by (simp add: wit_auth_def wit_row_def wit_row_B_def)
qed

text \<open>A request signed with a registered key.\<close>

definition wit_signed :: http_request where
  "wit_signed = wit_request ''GetObject'' ''G,Signature=00''"

lemma wit_hex: "DecodeString wit_key = Some (replicate 32 170)"
  by code_simp

lemma wit_verified: "VerifyGNFD2EddsaSignature wit_q ''A'' ''d'' wit_key ''00'' msg (wit_auth [wit_row]) = Ok True"
  by (simp add: eddsa2_accepted_iff wit_hex)
    (simp add: wit_q_def wit_auth_def wit_row_def row_find_def k2_key_def hex_val_def wit_key_def)

theorem eddsa_request_accepted_witness:
  "VerifySignature wit_g wit_signed (wit_auth [wit_row]) = Ok ''A'' \<and> ''A'' = gwAddress wit_g (hrUserAddress wit_signed) \<and>
   (\<exists>key\<in>set (auth_keys_v2 (amDB (wit_auth [wit_row]))). k2_key key = (hrUserAddress wit_signed, hrDomain wit_signed, hrPublicKey wit_signed))"
proof -
  have plain: "hex_errors_plain (gwQ wit_g 0)"
    by (simp add: hex_errors_plain_def wit_g_def wit_q_def str_index.simps)
  have pre: "has_prefix (hrAuthorization wit_signed) (gwEddsa2 wit_g @ '','')" "\<not> has_prefix (hrAuthorization wit_signed) (gwEcdsa wit_g @ '','')"
    "\<not> has_prefix (hrAuthorization wit_signed) (gwEddsa1 wit_g @ '','')"
    by (simp_all add: has_prefix_def wit_signed_def wit_request_def wit_g_def)
  have "VerifySignature wit_g wit_signed (wit_auth [wit_row]) = Ok ''A''"
    by (simp add: VerifySignature_def verifySignatureForGNFD2Eddsa_def verify_eddsa2_def parseSignatureFromRequest_def verified_address_def
        cli_VerifyGNFD2EddsaSignature_def call_outcome_def over_rpc_def served_def Let_def has_prefix_def wit_signed_def wit_request_def wit_g_def wit_verified)
  then show ?thesis using eddsa_request_accepted [OF pre plain] by blast
qed

lemma wit_history: "key_run [Register2 wit_g wit_register2] (wit_auth []) = Some (wit_auth [wit_row])"
  by (simp add: wit_registered2)

theorem eddsa_never_panics_witness:
  "k2_unique (wit_auth [wit_row]) \<and> VerifyGNFD2EddsaSignature wit_q ''A'' ''d'' wit_key ''00'' [] (wit_auth [wit_row]) \<noteq> Panic"
  using eddsa_never_panics [OF _ wit_history] by (simp add: wit_auth_def)

theorem clearing_keeps_accepted_witness:
  "\<exists>a1. key_step (ClearExpired wit_q) (wit_auth [wit_row]) = Some a1 \<and>
     VerifyGNFD2EddsaSignature wit_q ''A'' ''d'' wit_key ''00'' [] a1 = Ok True"
proof -
  have "auth_keys_v2 (amDB (wit_auth [])) = []" by (simp add: wit_auth_def)
  from clearing_keeps_accepted [OF this wit_history _ order.refl, of wit_q, OF key_step.simps(4)]
  show ?thesis using wit_verified by (simp only: key_step.simps(4)) blast
qed

end
