(* ===== verification/Spec2Isabelle.thy ===== *)
theory Spec2Isabelle
  imports SP_ResourceManager SP_Piece SP_TaskProps SP_QueueProps SP_TrafficProps SP_StoreProps SP_MetaDBProps
    SP_TransferProps SP_VirtualGroupProps SP_ManagerProps SP_ReceiverProps SP_RetryProps
    SP_ReplicationProps SP_ExecutorGCProps SP_ExecutorAskProps SP_GaterAuthProps
begin

text \<open>
  \<^bold>\<open>The core of the storage provider.\<close>  A provider stores the objects of a decentralised storage network.
  Its modules (\<^verbatim>\<open>src/modular\<close>) talk through tasks: the gateway asks the \<^emph>\<open>uploader\<close> to store an object, the
  uploader asks the \<^emph>\<open>manager\<close> for permission and reports to it, the manager plans replicating and sealing,
  keeps every task in a queue of its kind and hands tasks to executors, which report back; the
  \<^emph>\<open>downloader\<close> reads pieces and charges the quota of the bucket.  Below them are the \<^emph>\<open>resource manager\<close>, which
  accounts for memory, connections and task slots, the \<^emph>\<open>virtual group manager\<close>, which chooses where objects
  go, the \<^emph>\<open>piece store\<close> and the \<^emph>\<open>database\<close>.

  \<^bold>\<open>Theories and sources.\<close>
  \<^item> \<open>SP_Prelude\<close>: wrap-around of the fixed-width integers (\<open>u64\<close>, \<open>i64\<close>, \<dots>), rounding of \<open>float64\<close>, list and
    option lemmas; \<open>SP_Text\<close>: \<^verbatim>\<open>util/string.go\<close>.
  \<^item> \<open>SP_Limit\<close>, \<open>SP_Resources\<close>, \<open>SP_Scope\<close>, \<open>SP_ResourceManager\<close>: \<^verbatim>\<open>base/types/gfsplimit\<close>, \<^verbatim>\<open>base/gfsprcmgr\<close>.
    Scopes live in a heap of references, since a scope, its owner and its edges are shared.
  \<^item> \<open>SP_Piece\<close>: \<^verbatim>\<open>base/gfsppieceop\<close>, keys and sizes of pieces.
  \<^item> \<open>SP_Task\<close>, \<open>SP_TaskTypes\<close>, \<open>SP_TaskOps\<close>, \<open>SP_TaskProps\<close>: \<^verbatim>\<open>base/types/gfsptask\<close>, \<^verbatim>\<open>core/task\<close>,
    \<^verbatim>\<open>base/gfspapp/task_options.go\<close>; one record per kind of task, one constructor of \<open>Task\<close> per record.
  \<^item> \<open>SP_Queue\<close>, \<open>SP_QueueProps\<close>: \<^verbatim>\<open>base/gfsptqueue\<close>; the locale \<open>task_queue\<close> is what clients of a queue rely on.
  \<^item> \<open>SP_Traffic\<close>, \<open>SP_TrafficProps\<close>: \<^verbatim>\<open>store/sqldb/traffic.go\<close>, read quota by bucket and month.
  \<^item> \<open>SP_Store\<close>, \<open>SP_StoreProps\<close>: \<^verbatim>\<open>store/piecestore\<close>; the locale of an object store is interpreted for memory,
    files and shards.
  \<^item> \<open>SP_MetaDB\<close>, \<open>SP_MetaDBProps\<close>: integrity records, piece hashes and upload progress; \<open>SP_ProgressDB\<close>: garbage
    collection, put events and recovery (\<^verbatim>\<open>store/sqldb\<close>).
  \<^item> \<open>SP_Uploader\<close>, \<open>SP_Downloader\<close>, \<open>SP_TransferProps\<close>: \<^verbatim>\<open>modular/uploader\<close>, \<^verbatim>\<open>modular/downloader\<close>.
  \<^item> \<open>SP_Receiver\<close>, \<open>SP_ReceiverProps\<close>: \<^verbatim>\<open>modular/receiver\<close>, pieces taken as a secondary provider.
  \<^item> \<open>SP_VirtualGroup\<close>, \<open>SP_VirtualGroupProps\<close>: \<^verbatim>\<open>base/gfspvgmgr\<close>, \<^verbatim>\<open>core/vgmgr\<close>.
  \<^item> \<open>SP_Manager\<close> (state, strategies of the queues, dispatch), \<open>SP_ManagerTasks\<close> (requests and reports of uploads,
    replicating, sealing, receiving, recovering), \<open>SP_ManagerLoop\<close> (garbage collection, goroutines, ticks, loading):
    \<^verbatim>\<open>modular/manager\<close>.  \<open>SP_ManagerQueues\<close> views the queues as maps from keys to live tasks and interprets
    \<open>task_queue\<close> for them; \<open>SP_ManagerSteps\<close> is the manager as a transition system with its invariant;
    \<open>SP_ManagerDispatch\<close> a round of dispatch; \<open>SP_ManagerProps\<close> the properties.
  \<^item> \<open>SP_Retry\<close>, \<open>SP_RetryProps\<close>: \<^verbatim>\<open>modular/manager/task_retry_scheduler.go\<close>, the loops that try uploads again.
  \<^item> \<open>SP_Executor\<close> (state, sealing, confirming, recovery), \<open>SP_ExecutorReplicate\<close>, \<open>SP_ExecutorGC\<close>, \<open>SP_ExecutorMigrate\<close>, \<open>SP_ExecutorAsk\<close> (the
    worker that asks for tasks): \<^verbatim>\<open>modular/executor\<close>, one theory per file of the source.  \<open>SP_ExecutorProps\<close>, \<open>SP_ExecutorGCProps\<close> and
    \<open>SP_ExecutorAskProps\<close> hold their properties, the last one over the scopes of \<open>SP_Scope\<close>; \<open>SP_ReplicationProps\<close> puts the
    replication of the executor together with the receivers of the secondary providers.
  \<^item> \<open>SP_Auth\<close>, \<open>SP_AuthProps\<close>: \<^verbatim>\<open>modular/authenticator\<close> with the tables \<^verbatim>\<open>store/sqldb/off_chain_auth_key.go\<close> and \<^verbatim>\<open>off_chain_auth_key_v2.go\<close> of
    the keys users sign requests with, and the permission of every kind of operation.
  \<^item> \<open>SP_GaterAuth\<close>, \<open>SP_GaterAuthProps\<close>: the gateway's part of authentication (\<^verbatim>\<open>modular/gater/request_context.go\<close>, \<^verbatim>\<open>auth_handler.go\<close>) with the
    calls to the authenticator.  \<open>SP_Regex\<close> is the part of the library for regular expressions that reads the signed messages, a backtracking
    search that is shown to find exactly the language of a pattern.

  \<^bold>\<open>What the theorems show.\<close>  Resource scopes never exceed their limits and reservations are all or nothing; pieces
  tile an object and their keys are injective; queues are fair to tasks of different seconds, bounded and refuse exactly repetitions and overflow;
  quota is charged exactly and refunds within the month undo charges; an uploaded object is read back exactly, for every way the
  stream is read; the database changes only after the hashes fit; a secondary
  provider records and signs an object exactly when its pieces have the expected hash; chosen groups and families are healthy, not frozen and
  have room; the manager is typed in every reachable state, admits uploads exactly as specified, loses no task of positive priority when it
  dispatches, and treats reports of failed and sealed uploads on every branch as stated, one of which drops a task; passes of
  the retry scheduler end when the clock goes on and visit what a single query would return.  Replication leaves every secondary provider with the record
  of its pieces and seals only with verified signatures; recovery stores only data with the checksum on record; collection deletes only what the metadata service and the chain say is
  not in its place or unknown, migration records only objects with the hash of the chain, and a task gives back the resources it took.  A
  key is registered only for the account that signed a text naming it, a nonce is accepted once in any history of requests handled one after the other, but twice when two registrations interleave, a request is
  accepted only with a registered key that has not expired, and reading an object is permitted exactly under the conditions listed.  The properties of kind \<open>error\<close> state where the code
  does something else than it means to.

  \<^bold>\<open>Choices of the model.\<close>
  \<^item> Locks are not modelled: an operation under a lock is one step.  A goroutine is a job that may run at any later
    step; the blocking send of a dispatch round is a separate step, so that requests may come in between.
  \<^item> The clock, random numbers, orders of ranging over maps, faults of the database by statement, answers of the chain
    and of other services are arguments (records \<open>menv\<close>, \<open>env\<close>, \<open>vg_answers\<close>, \<open>xenv\<close>, \<open>renv\<close>, \<open>genv\<close>, \<open>vmenv\<close>, \<open>aqenv\<close>, \<open>vaenv\<close>, \<open>gwenv\<close>), and theorems hold for all of them or name
    what they need of them.
  \<^item> Tables are lists of rows; inserts check the primary key, updates skip zero values where the object mapper does.  A query without an
    order gives the rows in the order of the primary key.
  \<^item> A panic is a value (\<open>None\<close> or \<open>Crashed\<close>).  Loops whose end is not evident are \<open>partial_function\<close>s with totality lemmas;
    deletion over shards takes fuel, and more fuel than objects in the shard is proved to be enough; the loops over pages of objects in
    collection and migration take fuel for the pages, and \<open>bucket_gc_ends\<close> shows how much the collection needs.
  \<^item> Hashing, signatures, JSON and protobuf are parameters or left out of the records.

  \<^bold>\<open>Not modelled.\<close>  The handlers of the gateway for objects, buckets and metadata, signer, approver, metadata service, block syncer, peer to peer, other clients and servers of RPC, adapters to
  cloud stores, commands: they wrap libraries and the network.  The schedulers of migration, exit and recovery of the manager
  follow events of the chain through answers of other services; what they do to the queues goes through the operations of the manager
  that are modelled.
\<close>

end
